(* ===== verification/JsPrelude.thy ===== *)
theory JsPrelude
  imports Main "HOL-Library.AList" "HOL-Library.Word" "HOL-Library.Char_ord"
begin

text \<open>
  Prelude of the development: the JavaScript notions the components share.

  \<^item> objects used as dictionaries keep insertion order, so they are association lists
    (\<open>'v obj\<close>) updated in place: \<open>obj_get\<close>, \<open>obj_put\<close>, \<open>obj_del\<close>, \<open>obj_keys\<close>,
    \<open>obj_values\<close>; the locale \<open>dictionary\<close> states the laws the clients rest on and
    is interpreted on them;
  \<^item> arrays: \<open>last_n\<close> is \<open>slice(-n)\<close>, \<open>uniq\<close> is \<open>[...new Set(xs)]\<close>;
  \<^item> strings: \<open>split_on\<close>, \<open>join_with\<close>, \<open>show_nat\<close>, \<open>parse_int\<close>, the FNV-1a
    hash that four modules write out in the same way (\<open>fnv\<close>), on 32-bit words.
\<close>

named_theorems js_simps \<open>evaluation rules for the JavaScript dictionary and array operations\<close>

section \<open>Dictionaries\<close>

text \<open>The contract of a JavaScript object used as a dictionary with distinct keys.\<close>

locale dictionary =
  fixes get :: "'o \<Rightarrow> 'k \<Rightarrow> 'v option"
    and put :: "'k \<Rightarrow> 'v \<Rightarrow> 'o \<Rightarrow> 'o"
    and del :: "'k \<Rightarrow> 'o \<Rightarrow> 'o"
    and keys :: "'o \<Rightarrow> 'k list"
    and wf :: "'o \<Rightarrow> bool"
  assumes get_put: "get (put k v d) k' = (if k' = k then Some v else get d k')"
    and get_del: "get (del k d) k' = (if k' = k then None else get d k')"
    and keys_get: "k \<in> set (keys d) \<longleftrightarrow> get d k \<noteq> None"
    and wf_put: "wf d \<Longrightarrow> wf (put k v d)"
    and wf_del: "wf d \<Longrightarrow> wf (del k d)"
    and wf_distinct: "wf d \<Longrightarrow> distinct (keys d)"
begin

lemma get_put_same: "get (put k v d) k = Some v"
  by (simp add: get_put)

lemma get_put_other: "k' \<noteq> k \<Longrightarrow> get (put k v d) k' = get d k'"
  by (simp add: get_put)

lemma set_keys_put: "set (keys (put k v d)) = insert k (set (keys d))"
  by (auto simp: keys_get get_put split: if_splits)

lemma set_keys_del: "set (keys (del k d)) = set (keys d) - {k}"
  by (auto simp: keys_get get_del split: if_splits)

text \<open>A loop of assignments: the last write to a key wins, other keys are untouched.\<close>

lemma get_fold_put:
  "get (fold (\<lambda>(k, v). put k v) kvs d) k =
     (case map_of (rev kvs) k of None \<Rightarrow> get d k | Some v \<Rightarrow> Some v)"
  by (induction kvs arbitrary: d) (auto simp: get_put map_add_def split: option.splits)

lemma wf_fold_put: "wf d \<Longrightarrow> wf (fold (\<lambda>(k, v). put k v) kvs d)"
  by (induction kvs arbitrary: d) (auto intro: wf_put)

lemma get_fold_del: "get (fold del ks d) k = (if k \<in> set ks then None else get d k)"
  by (induction ks arbitrary: d) (auto simp: get_del)

lemma wf_fold_del: "wf d \<Longrightarrow> wf (fold del ks d)"
  by (induction ks arbitrary: d) (auto intro: wf_del)

end

type_synonym ('k, 'v) obj = "('k \<times> 'v) list"

abbreviation obj_get :: "('k, 'v) obj \<Rightarrow> 'k \<Rightarrow> 'v option" where
  "obj_get \<equiv> map_of"

abbreviation obj_put :: "'k \<Rightarrow> 'v \<Rightarrow> ('k, 'v) obj \<Rightarrow> ('k, 'v) obj" where
  "obj_put \<equiv> AList.update"

abbreviation obj_del :: "'k \<Rightarrow> ('k, 'v) obj \<Rightarrow> ('k, 'v) obj" where
  "obj_del \<equiv> AList.delete"

abbreviation obj_keys :: "('k, 'v) obj \<Rightarrow> 'k list" where
  "obj_keys \<equiv> map fst"

abbreviation obj_values :: "('k, 'v) obj \<Rightarrow> 'v list" where
  "obj_values \<equiv> map snd"

abbreviation obj_wf :: "('k, 'v) obj \<Rightarrow> bool" where
  "obj_wf d \<equiv> distinct (map fst d)"

lemma map_of_update [simp, js_simps]: "map_of (AList.update k v d) = (map_of d)(k \<mapsto> v)"
  by (rule update_conv')

lemma map_of_delete [simp, js_simps]: "map_of (AList.delete k d) = (map_of d)(k := None)"
  by (rule delete_conv')

interpretation jsobj: dictionary obj_get obj_put obj_del obj_keys obj_wf
proof (unfold_locales, goal_cases)
  case (3 k d)
  have "(map_of d k = None) = (k \<notin> fst ` set d)" by (rule map_of_eq_None_iff)
  then show ?case by auto
qed (simp_all add: distinct_update distinct_delete)

lemma set_obj_put: "set (obj_put k x d) \<subseteq> insert (k, x) (set d)"
  by (induction d) auto

lemma set_obj_del: "set (obj_del k d) \<subseteq> set d"
  by (auto simp: AList.delete_eq)

lemma map_of_rev: "obj_wf d \<Longrightarrow> map_of (rev d) = map_of d"
  by (metis distinct_map map_of_inject_set distinct_rev rev_map set_rev)

section \<open>Arrays\<close>

text \<open>\<open>xs.slice(-n)\<close> for a positive \<open>n\<close>: the last \<open>n\<close> elements.\<close>

definition last_n :: "nat \<Rightarrow> 'a list \<Rightarrow> 'a list" where
  "last_n n xs = drop (length xs - n) xs"

lemma length_last_n [simp]: "length (last_n n xs) = min n (length xs)"
  by (auto simp: last_n_def)

lemma set_last_n: "set (last_n n xs) \<subseteq> set xs"
  by (simp add: last_n_def set_drop_subset)

lemma in_set_last_n: "x \<in> set (last_n n xs) \<Longrightarrow> x \<in> set xs"
  by (rule subsetD [OF set_last_n])

lemma last_n_id [simp]: "length xs \<le> n \<Longrightarrow> last_n n xs = xs"
  unfolding last_n_def by (simp only: diff_is_0_eq' drop_0)

lemma last_n_snoc: "0 < n \<Longrightarrow> last_n n (xs @ [x]) = last_n (n - 1) xs @ [x]"
proof -
  assume n: "0 < n"
  show ?thesis
  proof (cases "length xs < n")
    case True
    then show ?thesis using n by (simp add: last_n_def)
  next
    case False
    then have "Suc (length xs) - n = length xs - (n - 1)" using n by simp
    with False n show ?thesis by (simp add: last_n_def Suc_diff_le)
  qed
qed

lemma in_last_n_snoc [simp]: "0 < n \<Longrightarrow> x \<in> set (last_n n (xs @ [x]))"
  by (simp add: last_n_snoc)

lemma last_n_last_n [simp]: "last_n n (last_n n xs) = last_n n xs"
  by simp

text \<open>\<open>[...new Set(xs)]\<close>: the first occurrence of each element, in order.\<close>

definition uniq :: "'a list \<Rightarrow> 'a list" where
  "uniq xs = rev (remdups (rev xs))"

lemma set_uniq [simp]: "set (uniq xs) = set xs"
  by (simp add: uniq_def)

lemma distinct_uniq [simp]: "distinct (uniq xs)"
  by (simp add: uniq_def)

lemma uniq_id: "distinct xs \<Longrightarrow> uniq xs = xs"
  by (simp add: uniq_def distinct_remdups_id)

lemma uniq_idem [simp]: "uniq (uniq xs) = uniq xs"
  by (simp add: uniq_id)

lemma remdups_filter: "remdups (filter P xs) = filter P (remdups xs)"
  by (induction xs) auto

lemma uniq_filter: "uniq (filter P xs) = filter P (uniq xs)"
  by (simp add: uniq_def rev_filter remdups_filter)

lemma uniq_snoc: "uniq (xs @ [x]) = (if x \<in> set xs then uniq xs else uniq xs @ [x])"
  by (simp add: uniq_def)

text \<open>\<open>xs.at(-1)\<close> and \<open>xs[i]\<close> with \<open>undefined\<close> out of range.\<close>

definition at_last :: "'a list \<Rightarrow> 'a option" where
  "at_last xs = (if xs = [] then None else Some (last xs))"

definition nth_opt :: "'a list \<Rightarrow> nat \<Rightarrow> 'a option" where
  "nth_opt xs i = (if i < length xs then Some (xs ! i) else None)"

text \<open>\<open>xs.findIndex(p)\<close>, with \<open>None\<close> for -1.\<close>

fun find_index :: "('a \<Rightarrow> bool) \<Rightarrow> 'a list \<Rightarrow> nat option" where
  "find_index p [] = None"
| "find_index p (x # xs) = (if p x then Some 0 else map_option Suc (find_index p xs))"

text \<open>A stable sort: an element goes after those it does not precede.\<close>

fun insert_stable :: "('a \<Rightarrow> 'a \<Rightarrow> bool) \<Rightarrow> 'a \<Rightarrow> 'a list \<Rightarrow> 'a list" where
  "insert_stable le x [] = [x]"
| "insert_stable le x (y # ys) = (if le x y then x # y # ys else y # insert_stable le x ys)"

definition sort_stable :: "('a \<Rightarrow> 'a \<Rightarrow> bool) \<Rightarrow> 'a list \<Rightarrow> 'a list" where
  "sort_stable le xs = foldr (insert_stable le) xs []"

lemma set_insert_stable [simp]: "set (insert_stable le x ys) = insert x (set ys)"
  by (induction ys) auto

lemma set_sort_stable [simp]: "set (sort_stable le xs) = set xs"
  by (induction xs) (simp_all add: sort_stable_def)

lemma length_insert_stable [simp]: "length (insert_stable le x ys) = Suc (length ys)"
  by (induction ys) auto

lemma length_sort_stable [simp]: "length (sort_stable le xs) = length xs"
  by (induction xs) (simp_all add: sort_stable_def)

lemma distinct_insert_stable: "distinct (insert_stable le x ys) = (x \<notin> set ys \<and> distinct ys)"
  by (induction ys) auto

lemma distinct_sort_stable [simp]: "distinct (sort_stable le xs) = distinct xs"
proof (induction xs)
  case (Cons x xs)
  have "set (foldr (insert_stable le) xs []) = set xs" using set_sort_stable [of le xs] by (simp add: sort_stable_def)
  then show ?case using Cons by (simp add: sort_stable_def distinct_insert_stable)
qed (simp add: sort_stable_def)

text \<open>With a total comparison the result is sorted.\<close>

lemma sorted_insert_stable:
  assumes "\<And>x y. le x y \<or> le y x" "\<And>x y z. le x y \<Longrightarrow> le y z \<Longrightarrow> le x z"
  shows "sorted_wrt le ys \<Longrightarrow> sorted_wrt le (insert_stable le x ys)"
proof (induction ys)
  case (Cons y ys)
  then show ?case using assms(1) [of x y] by (auto intro: assms(2))
qed simp

lemma sorted_sort_stable:
  assumes "\<And>x y. le x y \<or> le y x" "\<And>x y z. le x y \<Longrightarrow> le y z \<Longrightarrow> le x z"
  shows "sorted_wrt le (sort_stable le xs)"
  using sorted_insert_stable [of le, OF assms] by (induction xs) (simp_all add: sort_stable_def)

lemma find_set: "List.find p xs = Some x \<Longrightarrow> x \<in> set xs \<and> p x"
  by (auto simp: find_Some_iff)

lemma fold_invariant:
  assumes "P s" and "\<And>x s. x \<in> set xs \<Longrightarrow> P s \<Longrightarrow> P (f x s)"
  shows "P (fold f xs s)"
  using assms by (induction xs arbitrary: s) auto

section \<open>Strings\<close>

text \<open>\<open>s.split(c)\<close> for a one-character separator: never empty.\<close>

fun split_on :: "char \<Rightarrow> string \<Rightarrow> string list" where
  "split_on c [] = [[]]"
| "split_on c (x # xs) =
     (if x = c then [] # split_on c xs
      else case split_on c xs of [] \<Rightarrow> [[x]] | p # ps \<Rightarrow> (x # p) # ps)"

fun join_with :: "string \<Rightarrow> string list \<Rightarrow> string" where
  "join_with sep [] = []"
| "join_with sep [p] = p"
| "join_with sep (p # q # ps) = p @ sep @ join_with sep (q # ps)"

lemma split_on_nonempty [simp]: "split_on c s \<noteq> []"
  by (induction s) (auto split: list.splits)

lemma split_on_no_sep: "c \<notin> set s \<Longrightarrow> split_on c s = [s]"
  by (induction s) auto

lemma split_on_parts: "p \<in> set (split_on c s) \<Longrightarrow> c \<notin> set p"
proof (induction s arbitrary: p)
  case Nil
  then show ?case by simp
next
  case (Cons x xs)
  show ?case
  proof (cases "split_on c xs")
    case Nil
    then show ?thesis using split_on_nonempty by blast
  next
    case (Cons q qs)
    then show ?thesis using Cons.prems Cons.IH by (auto split: if_splits)
  qed
qed

lemma split_on_append_sep: "c \<notin> set p \<Longrightarrow> split_on c (p @ c # s) = p # split_on c s"
  by (induction p) auto

lemma split_join:
  "ps \<noteq> [] \<Longrightarrow> \<forall>p \<in> set ps. c \<notin> set p \<Longrightarrow> split_on c (join_with [c] ps) = ps"
proof (induction "[c]" ps rule: join_with.induct)
  case (3 p q ps)
  then show ?case by (simp add: split_on_append_sep)
qed (auto simp: split_on_no_sep)

lemma join_split: "join_with [c] (split_on c s) = s"
proof (induction s)
  case Nil
  then show ?case by simp
next
  case (Cons x xs)
  then show ?case
    by (cases "split_on c xs") (auto, metis append_Cons join_with.simps(2,3) neq_Nil_conv self_append_conv2)
qed

text \<open>Decimal rendering of a natural number and \<open>Number.parseInt(s, 10)\<close> on unsigned text.\<close>

definition digit_char :: "nat \<Rightarrow> char" where
  "digit_char d = char_of (48 + d)"

fun show_nat :: "nat \<Rightarrow> string" where
  "show_nat n = (if n < 10 then [digit_char n] else show_nat (n div 10) @ [digit_char (n mod 10)])"

declare show_nat.simps [simp del]

definition is_digit :: "char \<Rightarrow> bool" where
  "is_digit c \<longleftrightarrow> 48 \<le> (of_char c :: nat) \<and> (of_char c :: nat) \<le> 57"

definition digit_val :: "char \<Rightarrow> int" where
  "digit_val c = int (of_char c) - 48"

definition digits_val :: "string \<Rightarrow> int" where
  "digits_val s = fold (\<lambda>c n. 10 * n + digit_val c) s 0"

definition show_int :: "int \<Rightarrow> string" where
  "show_int i = (if i < 0 then CHR ''-'' # show_nat (nat (- i)) else show_nat (nat i))"

text \<open>\<open>parseInt\<close> skips blanks, reads an optional sign and the longest run of digits;
  \<open>None\<close> is \<open>NaN\<close>.\<close>

definition is_blank :: "char \<Rightarrow> bool" where
  "is_blank c \<longleftrightarrow> (of_char c :: nat) \<in> {9, 10, 11, 12, 13, 32, 160}"

fun parse_int :: "string \<Rightarrow> int option" where
  "parse_int s =
     (let t = dropWhile is_blank s;
          neg = (case t of c # _ \<Rightarrow> c = CHR ''-'' | [] \<Rightarrow> False);
          u = (case t of c # r \<Rightarrow> if c = CHR ''-'' \<or> c = CHR ''+'' then r else t | [] \<Rightarrow> []);
          ds = takeWhile is_digit u
      in if ds = [] then None
         else Some (if neg then - digits_val ds else digits_val ds))"

declare parse_int.simps [simp del]

lemma digit_chars [simp]:
  "char_of (48 :: nat) = CHR ''0''" "char_of (49 :: nat) = CHR ''1''" "char_of (50 :: nat) = CHR ''2''"
  "char_of (51 :: nat) = CHR ''3''" "char_of (52 :: nat) = CHR ''4''" "char_of (53 :: nat) = CHR ''5''"
  "char_of (54 :: nat) = CHR ''6''" "char_of (55 :: nat) = CHR ''7''" "char_of (56 :: nat) = CHR ''8''"
  "char_of (57 :: nat) = CHR ''9''"
  by (simp_all add: char_of_def bit_0)

lemma is_digit_digit_char [simp]: "d < 10 \<Longrightarrow> is_digit (digit_char d)"
  by (simp add: is_digit_def digit_char_def)

lemma digit_val_digit_char [simp]: "d < 10 \<Longrightarrow> digit_val (digit_char d) = int d"
  by (simp add: digit_val_def digit_char_def)

lemma show_nat_digits: "\<forall>c \<in> set (show_nat n). is_digit c"
proof (induction n rule: show_nat.induct)
  case (1 n)
  then show ?case by (subst show_nat.simps) auto
qed

lemma show_nat_nonempty [simp]: "show_nat n \<noteq> []"
  by (subst show_nat.simps) simp

lemma digits_val_show_nat [simp]: "digits_val (show_nat n) = int n"
proof (induction n rule: show_nat.induct)
  case (1 n)
  then show ?case by (subst show_nat.simps) (auto simp: digits_val_def, presburger)
qed

lemma digit_not_special:
  assumes "is_digit c"
  shows "\<not> is_blank c" "c \<noteq> CHR ''-''" "c \<noteq> CHR ''+''" "c \<noteq> CHR '' ''"
  using assms by (auto simp: is_digit_def is_blank_def)

theorem parse_int_show_nat: "parse_int (show_nat n) = Some (int n)"
proof -
  obtain c cs where s: "show_nat n = c # cs" by (cases "show_nat n") auto
  have c: "is_digit c" using show_nat_digits [of n] s by simp
  have tw: "takeWhile is_digit (show_nat n) = show_nat n"
    using show_nat_digits [of n] by (simp add: takeWhile_eq_all_conv)
  have dw: "dropWhile is_blank (show_nat n) = show_nat n"
    using s digit_not_special(1) [OF c] by simp
  have u: "(case show_nat n of c # r \<Rightarrow> if c = CHR ''-'' \<or> c = CHR ''+'' then r else show_nat n
            | [] \<Rightarrow> []) = show_nat n"
    using s digit_not_special [OF c] by simp
  have neg: "(case show_nat n of c # _ \<Rightarrow> c = CHR ''-'' | [] \<Rightarrow> False) = False"
    using s digit_not_special [OF c] by simp
  show ?thesis
    by (simp only: parse_int.simps Let_def dw u neg tw) simp
qed

section \<open>The FNV-1a hash\<close>

text \<open>
  \<open>result ^= charCodeAt; result = Math.imul(result, 16777619)\<close> from the offset basis
  2166136261, read unsigned at the end (\<open>>>> 0\<close>). \<open>Math.imul\<close> and \<open>^\<close> work on 32 bits.
\<close>

unbundle bit_operations_syntax

definition fnv_step :: "char \<Rightarrow> 32 word \<Rightarrow> 32 word" where
  "fnv_step c h = (h XOR of_char c) * 16777619"

definition fnv :: "string \<Rightarrow> 32 word" where
  "fnv s = fold fnv_step s 2166136261"

definition fnv_index :: "string \<Rightarrow> nat \<Rightarrow> nat" where
  "fnv_index s n = unat (fnv s) mod n"

lemma fnv_index_less: "0 < n \<Longrightarrow> fnv_index s n < n"
  by (simp add: fnv_index_def)

lemma unat_fnv_bound: "unat (fnv s) < 2 ^ 32"
  using unsigned_less [of "fnv s"] by simp

end
