(* ===== verification/SafeStorage.thy ===== *)
theory SafeStorage
  imports JsPrelude
begin

text \<open>
  \<open>safeStorage.js\<close>: the one door to Web Storage, with an in-memory fallback.

  An area keeps the browser's own map (\<open>native\<close>), the module's \<open>cache\<close> and the
  \<open>overrides\<close>: the writes and removals (\<open>None\<close>, the source's \<open>REMOVED\<close> symbol) the
  browser did not confirm. The browser may refuse any call, so every operation takes the
  behaviour of the browser during that call: \<open>Absent\<close> (no storage object, or reading the
  property throws), \<open>Faulty n\<close> (the method throws; an enumeration after \<open>n\<close> keys) or
  \<open>Healthy\<close>. Only this tab writes to the browser's map.

  The contract, the locale \<open>pinned_store\<close>: once a key has been written (or removed), every
  later read returns that value, whatever calls fail in between.
\<close>

datatype browser = Absent | Faulty nat | Healthy

record area =
  native :: "(string, string) obj"
  cache :: "(string, string) obj"
  overrides :: "(string, string option) obj"

definition empty_area :: "(string, string) obj \<Rightarrow> area" where
  "empty_area n = \<lparr>native = n, cache = [], overrides = []\<rparr>"

definition getStorageItem :: "browser \<Rightarrow> string \<Rightarrow> area \<Rightarrow> string option \<times> area" where
  "getStorageItem env key a =
     (case obj_get (overrides a) key of
        Some pending \<Rightarrow> (pending, a)
      | None \<Rightarrow>
          (case env of
             Healthy \<Rightarrow>
               (case obj_get (native a) key of
                  None \<Rightarrow> (None, a\<lparr>cache := obj_del key (cache a)\<rparr>)
                | Some v \<Rightarrow> (Some v, a\<lparr>cache := obj_put key v (cache a)\<rparr>))
           | _ \<Rightarrow> (obj_get (cache a) key, a)))"

definition setStorageItem :: "browser \<Rightarrow> string \<Rightarrow> string \<Rightarrow> area \<Rightarrow> bool \<times> area" where
  "setStorageItem env key v a =
     (let a1 = a\<lparr>cache := obj_put key v (cache a)\<rparr>
      in case env of
           Healthy \<Rightarrow> (True, a1\<lparr>native := obj_put key v (native a1), overrides := obj_del key (overrides a1)\<rparr>)
         | _ \<Rightarrow> (False, a1\<lparr>overrides := obj_put key (Some v) (overrides a1)\<rparr>))"

definition removeStorageItem :: "browser \<Rightarrow> string \<Rightarrow> area \<Rightarrow> bool \<times> area" where
  "removeStorageItem env key a =
     (let a1 = a\<lparr>cache := obj_del key (cache a)\<rparr>
      in case env of
           Healthy \<Rightarrow> (True, a1\<lparr>native := obj_del key (native a1), overrides := obj_del key (overrides a1)\<rparr>)
         | _ \<Rightarrow> (False, a1\<lparr>overrides := obj_put key None (overrides a1)\<rparr>))"

definition starts_with :: "string \<Rightarrow> string \<Rightarrow> bool" where
  "starts_with prefix s \<longleftrightarrow> take (length prefix) s = prefix"

definition listStorageKeys :: "browser \<Rightarrow> string \<Rightarrow> area \<Rightarrow> string list" where
  "listStorageKeys env prefix a =
     (let known = (case env of
                     Healthy \<Rightarrow> uniq (obj_keys (native a))
                   | Faulty n \<Rightarrow> uniq (take n (obj_keys (native a)) @ obj_keys (cache a))
                   | Absent \<Rightarrow> uniq (obj_keys (cache a)));
          keys = fold (\<lambda>(k, w) ks. case w of None \<Rightarrow> filter (\<lambda>x. x \<noteq> k) ks
                                    | Some _ \<Rightarrow> if k \<in> set ks then ks else ks @ [k])
                   (overrides a) known
      in filter (\<lambda>k. prefix = [] \<or> starts_with prefix k) keys)"

definition readJsonStorage ::
  "(string \<Rightarrow> 'j option) \<Rightarrow> browser \<Rightarrow> string \<Rightarrow> 'j \<Rightarrow> bool \<Rightarrow> area \<Rightarrow> 'j \<times> area" where
  "readJsonStorage json_parse env key fallback removeMalformed a =
     (case getStorageItem env key a of
        (None, a1) \<Rightarrow> (fallback, a1)
      | (Some raw, a1) \<Rightarrow>
          (case json_parse raw of
             Some j \<Rightarrow> (j, a1)
           | None \<Rightarrow> (fallback, if removeMalformed then snd (removeStorageItem env key a1) else a1)))"

definition writeJsonStorage ::
  "('j \<Rightarrow> string option) \<Rightarrow> browser \<Rightarrow> string \<Rightarrow> 'j \<Rightarrow> area \<Rightarrow> bool \<times> area" where
  "writeJsonStorage json_stringify env key j a =
     (case json_stringify j of None \<Rightarrow> (False, a) | Some s \<Rightarrow> setStorageItem env key s a)"

record area_health =
  nativeAvailable :: bool
  readable :: bool
  memoryFallbackActive :: bool
  pendingOverrides :: nat

definition storageAreaHealth :: "browser \<Rightarrow> area \<Rightarrow> area_health" where
  "storageAreaHealth env a =
     \<lparr>nativeAvailable = (env \<noteq> Absent), readable = (env = Healthy),
      memoryFallbackActive = (0 < length (overrides a)), pendingOverrides = length (overrides a)\<rparr>"

section \<open>Both areas\<close>

record storage =
  localArea :: area
  sessionArea :: area

definition areaName :: "string \<Rightarrow> string" where
  "areaName a = (if a \<in> {''localStorage'', ''sessionStorage''} then a else ''localStorage'')"

definition on_area :: "string \<Rightarrow> (area \<Rightarrow> 'r \<times> area) \<Rightarrow> storage \<Rightarrow> 'r \<times> storage" where
  "on_area name f s =
     (if areaName name = ''sessionStorage''
      then (case f (sessionArea s) of (r, a) \<Rightarrow> (r, s\<lparr>sessionArea := a\<rparr>))
      else (case f (localArea s) of (r, a) \<Rightarrow> (r, s\<lparr>localArea := a\<rparr>)))"

definition storageHealthSnapshot :: "browser \<Rightarrow> browser \<Rightarrow> storage \<Rightarrow> area_health \<times> area_health" where
  "storageHealthSnapshot env_local env_session s =
     (storageAreaHealth env_local (localArea s), storageAreaHealth env_session (sessionArea s))"

definition clearStorageMemoryFallback :: "storage \<Rightarrow> storage" where
  "clearStorageMemoryFallback s =
     s\<lparr>localArea := (localArea s)\<lparr>cache := [], overrides := []\<rparr>,
       sessionArea := (sessionArea s)\<lparr>cache := [], overrides := []\<rparr>\<rparr>"

section \<open>The contract\<close>

text \<open>
  \<open>pinned a k w\<close> says that key \<open>k\<close> reads as \<open>w\<close> in every way the module can read it. A
  write pins its key; every other operation keeps the pins it does not write.
\<close>

datatype storage_op = OpGet string | OpSet string string | OpRemove string

text \<open>The value of the last write to \<open>k\<close> in a list of operations, if there is one.\<close>

fun last_write :: "string \<Rightarrow> storage_op list \<Rightarrow> string option option" where
  "last_write k [] = None"
| "last_write k (x # xs) =
     (case last_write k xs of Some w \<Rightarrow> Some w
      | None \<Rightarrow> (case x of OpSet k' v \<Rightarrow> if k' = k then Some (Some v) else None
                 | OpRemove k' \<Rightarrow> if k' = k then Some None else None
                 | OpGet _ \<Rightarrow> None))"

locale pinned_store =
  fixes get :: "'e \<Rightarrow> string \<Rightarrow> 'a \<Rightarrow> string option \<times> 'a"
    and put :: "'e \<Rightarrow> string \<Rightarrow> string \<Rightarrow> 'a \<Rightarrow> bool \<times> 'a"
    and del :: "'e \<Rightarrow> string \<Rightarrow> 'a \<Rightarrow> bool \<times> 'a"
    and pinned :: "'a \<Rightarrow> string \<Rightarrow> string option \<Rightarrow> bool"
  assumes get_pinned: "pinned a k w \<Longrightarrow> fst (get e k a) = w"
    and put_pins: "pinned (snd (put e k v a)) k (Some v)"
    and del_pins: "pinned (snd (del e k a)) k None"
    and get_keeps: "pinned a k w \<Longrightarrow> pinned (snd (get e k' a)) k w"
    and put_keeps: "pinned a k w \<Longrightarrow> k' \<noteq> k \<Longrightarrow> pinned (snd (put e k' v a)) k w"
    and del_keeps: "pinned a k w \<Longrightarrow> k' \<noteq> k \<Longrightarrow> pinned (snd (del e k' a)) k w"
begin

fun exec_op :: "'e \<times> storage_op \<Rightarrow> 'a \<Rightarrow> 'a" where
  "exec_op (e, OpGet k) a = snd (get e k a)"
| "exec_op (e, OpSet k v) a = snd (put e k v a)"
| "exec_op (e, OpRemove k) a = snd (del e k a)"

lemma exec_keeps:
  "pinned a k w \<Longrightarrow> last_write k [x] = None \<Longrightarrow> pinned (exec_op (e, x) a) k w"
  by (cases x) (auto simp: get_keeps put_keeps del_keeps split: if_splits)

lemma exec_keeps_all:
  "pinned a k w \<Longrightarrow> last_write k (map snd xs) = None \<Longrightarrow> pinned (fold exec_op xs a) k w"
proof (induction xs arbitrary: a)
  case Nil
  then show ?case by simp
next
  case (Cons x xs)
  from Cons.prems(2) have rest: "last_write k (map snd xs) = None" and one: "last_write k [snd x] = None"
    by (auto split: option.splits storage_op.splits)
  show ?case using Cons.IH [OF exec_keeps [OF Cons.prems(1) one, of "fst x"] rest] by simp
qed

lemma exec_pins:
  "last_write k (map snd xs) = Some w \<Longrightarrow> pinned (fold exec_op xs a) k w"
proof (induction xs arbitrary: a)
  case Nil
  then show ?case by simp
next
  case (Cons x xs)
  obtain e p where x: "x = (e, p)" by (cases x)
  show ?case
  proof (cases "last_write k (map snd xs)")
    case None
    with Cons.prems x have "pinned (exec_op (e, p) a) k w"
      by (auto simp: put_pins del_pins split: storage_op.splits if_splits)
    from exec_keeps_all [OF this None] show ?thesis using x by simp
  next
    case (Some w')
    with Cons show ?thesis using x by simp
  qed
qed

lemma read_last_write:
  "last_write k (map snd xs) = Some w \<Longrightarrow> fst (get e k (fold exec_op xs a)) = w"
  by (rule get_pinned [OF exec_pins])

end

definition pinned :: "area \<Rightarrow> string \<Rightarrow> string option \<Rightarrow> bool" where
  "pinned a k w \<longleftrightarrow>
     (case obj_get (overrides a) k of
        Some pending \<Rightarrow> pending = w
      | None \<Rightarrow> obj_get (native a) k = w \<and> obj_get (cache a) k = w)"

interpretation web_store: pinned_store getStorageItem setStorageItem removeStorageItem pinned
  by unfold_locales
    (auto simp: pinned_def getStorageItem_def setStorageItem_def removeStorageItem_def Let_def
        split: option.splits browser.splits)

text \<open>The operations of a tab on one area, each under the behaviour the browser has then.\<close>

fun storage_step :: "browser \<times> storage_op \<Rightarrow> area \<Rightarrow> area" where
  "storage_step (env, OpGet k) a = snd (getStorageItem env k a)"
| "storage_step (env, OpSet k v) a = snd (setStorageItem env k v a)"
| "storage_step (env, OpRemove k) a = snd (removeStorageItem env k a)"

lemma storage_step_exec: "storage_step = web_store.exec_op"
proof (intro ext)
  fix x :: "browser \<times> storage_op" and a :: area
  show "storage_step x a = web_store.exec_op x a"
    by (cases x; cases "snd x") auto
qed

text \<open>C22: read your writes under any faults. After any sequence of reads, writes and removals,
  each of which the browser may refuse, a read of a key returns the value of the last write
  to it, or null after a removal, even when the browser refuses the read itself.\<close>

theorem storage_read_your_writes:
  assumes "last_write k (map snd ops) = Some w"
  shows "fst (getStorageItem env k (fold storage_step ops a)) = w"
  using web_store.read_last_write [of k ops w env a] assms
  by (simp add: storage_step_exec)

theorem storage_read_your_writes_witness:
  "last_write ''k'' (map snd [(Healthy, OpSet ''k'' ''1''), (Faulty 0, OpSet ''k'' ''2''), (Absent, OpGet ''j'')])
     = Some (Some ''2'') \<and>
   fst (getStorageItem Healthy ''k''
     (fold storage_step [(Healthy, OpSet ''k'' ''1''), (Faulty 0, OpSet ''k'' ''2''), (Absent, OpGet ''j'')]
        (empty_area []))) = Some ''2''"
proof -
  have h: "last_write ''k'' (map snd [(Healthy, OpSet ''k'' ''1''), (Faulty 0, OpSet ''k'' ''2''), (Absent, OpGet ''j'')])
     = Some (Some ''2'')"
    by simp
  show ?thesis using h storage_read_your_writes [OF h] by blast
qed

text \<open>\<open>setStorageItem\<close> tells the truth: it returns true exactly when the browser's own
  map holds the value and no override is pending for the key; after false the health
  snapshot reports an active memory fallback.\<close>

theorem set_reports_persistence:
  "fst (setStorageItem env k v a) =
     (obj_get (native (snd (setStorageItem env k v a))) k = Some v \<and>
      obj_get (overrides (snd (setStorageItem env k v a))) k = None) \<and>
   (fst (setStorageItem env k v a) \<or>
    memoryFallbackActive (storageAreaHealth env' (snd (setStorageItem env k v a))))"
proof -
  have ne: "AList.update x y d \<noteq> []" for x :: string and y :: "string option" and d
    by (cases d) auto
  show ?thesis
    by (auto simp: setStorageItem_def storageAreaHealth_def Let_def ne split: browser.splits)
qed

text \<open>A key listed by the module is one that reads as present, and the removed ones are not
  listed, when the browser answers.\<close>

lemma fold_overrides_set:
  "obj_wf os \<Longrightarrow>
   set (fold (\<lambda>(k, w) ks. case w of None \<Rightarrow> filter (\<lambda>x. x \<noteq> k) ks
                             | Some _ \<Rightarrow> if k \<in> set ks then ks else ks @ [k]) os ks)
   = {k. case obj_get os k of Some w \<Rightarrow> w \<noteq> None | None \<Rightarrow> k \<in> set ks}"
proof (induction os arbitrary: ks)
  case Nil
  then show ?case by simp
next
  case (Cons o1 os)
  obtain k w where o1: "o1 = (k, w)" by (cases o1)
  from Cons.prems o1 have k: "map_of os k = None" by (simp add: map_of_eq_None_iff)
  show ?case
    using Cons k o1 by (cases w) (auto split: option.splits)
qed

theorem listed_iff_readable:
  assumes "obj_wf (overrides a)"
  shows "set (listStorageKeys Healthy [] a) = {k. fst (getStorageItem Healthy k a) \<noteq> None}"
proof -
  have "k \<in> set (obj_keys (native a)) \<longleftrightarrow> obj_get (native a) k \<noteq> None" for k
    by (rule jsobj.keys_get)
  then show ?thesis
    unfolding listStorageKeys_def Let_def
    by (auto simp: fold_overrides_set [OF assms] getStorageItem_def split: option.splits)
qed

lemma wf_overrides_step: "obj_wf (overrides a) \<Longrightarrow> obj_wf (overrides (storage_step x a))"
proof -
  assume wf: "obj_wf (overrides a)"
  obtain e p where x: "x = (e, p)" by (cases x)
  show ?thesis
    using wf jsobj.wf_put [OF wf] jsobj.wf_del [OF wf]
    by (cases p; cases e)
      (auto simp: x getStorageItem_def setStorageItem_def removeStorageItem_def Let_def split: option.splits)
qed

end
