(* ===== verification/JsNumber.thy ===== *)
theory JsNumber
  imports JsPrelude Complex_Main
begin

text \<open>
  JavaScript numbers and the coercions the code writes.

  A number is \<open>NaN\<close>, an infinity or a finite value; finite values are rationals and a
  fractional operation of the source is the exact operation followed by \<open>fl\<close>, the
  rounding to the nearest binary64 value (ties to even, 53 significant bits). Overflow,
  subnormals and the sign of zero do not occur at the magnitudes of this program and are
  left out. Integer arithmetic below \<open>2 ^ 53\<close> is exact, so counters are \<open>int\<close> or \<open>nat\<close>.

  \<open>jsval\<close> is a value of unknown type read from storage or from a caller; \<open>to_number\<close> is
  \<open>Number(v)\<close> on it, and \<open>safe_int\<close> the sanitiser four modules define for themselves.
\<close>

section \<open>binary64 rounding\<close>

function bits :: "int \<Rightarrow> int" where
  "bits n = (if n \<le> 0 then 0 else 1 + bits (n div 2))"
  by pat_completeness auto
termination
  by (relation "measure nat") auto

declare bits.simps [simp del]

definition pow2 :: "int \<Rightarrow> rat" where
  "pow2 k = (if 0 \<le> k then 2 ^ nat k else 1 / 2 ^ nat (- k))"

text \<open>\<open>expo x\<close> is the exponent of a positive rational: \<open>pow2 (expo x) \<le> x < pow2 (expo x + 1)\<close>.\<close>

definition expo :: "rat \<Rightarrow> int" where
  "expo x = (let (n, d) = quotient_of x; e = bits n - bits d
             in if pow2 e \<le> x then e else e - 1)"

definition round_half_even :: "rat \<Rightarrow> int" where
  "round_half_even q =
     (let f = \<lfloor>q\<rfloor>; r = q - of_int f
      in if r < 1 / 2 then f else if 1 / 2 < r then f + 1 else if even f then f else f + 1)"

definition fl_pos :: "rat \<Rightarrow> rat" where
  "fl_pos x = (let e = expo x - 52 in of_int (round_half_even (x / pow2 e)) * pow2 e)"

definition fl :: "rat \<Rightarrow> rat" where
  "fl x = (if x = 0 then 0 else if x < 0 then - fl_pos (- x) else fl_pos x)"

lemma fl_0 [simp]: "fl 0 = 0"
  by (simp add: fl_def)

lemma fl_minus [simp]: "fl (- x) = - fl x"
  by (simp add: fl_def)

lemma pow2_pos [simp]: "0 < pow2 k"
  by (simp add: pow2_def)

lemma pow2_nz [simp]: "pow2 k \<noteq> 0"
  using pow2_pos [of k] by linarith

lemma pow2_add: "pow2 (a + b) = pow2 a * pow2 b"
proof -
  have "pow2 k = 2 powi k" for k
    by (auto simp: pow2_def power_int_def field_simps)
  then show ?thesis by (simp add: power_int_add)
qed

lemma pow2_nat: "pow2 (int k) = of_int (2 ^ k)"
  by (simp add: pow2_def)

lemma pow2_mono: "a \<le> b \<Longrightarrow> pow2 a \<le> pow2 b"
proof -
  assume "a \<le> b"
  then have "pow2 b = pow2 a * pow2 (b - a)" and "1 \<le> pow2 (b - a)"
    using pow2_add [of a "b - a"] by (auto simp: pow2_def)
  then show ?thesis
    using mult_left_mono [of 1 "pow2 (b - a)" "pow2 a"] pow2_pos [of a] by simp
qed

lemma round_half_even_int [simp]: "round_half_even (of_int i) = i"
  by (simp add: round_half_even_def)

lemma round_half_even_nonneg: "0 \<le> q \<Longrightarrow> 0 \<le> round_half_even q"
  by (auto simp: round_half_even_def Let_def)

lemma round_half_even_mono: 
  assumes "p \<le> q" shows "round_half_even p \<le> round_half_even q"
proof (cases "\<lfloor>p\<rfloor> = \<lfloor>q\<rfloor>")
  case True
  then show ?thesis using assms by (auto simp: round_half_even_def Let_def)
next
  case False
  then have "\<lfloor>p\<rfloor> + 1 \<le> \<lfloor>q\<rfloor>" using floor_mono [OF assms] by linarith
  then show ?thesis by (auto simp: round_half_even_def Let_def)
qed

text \<open>A value on the grid of its own binade is not changed by rounding.\<close>

lemma fl_pos_grid:
  assumes "x / pow2 (expo x - 52) = of_int i" shows "fl_pos x = x"
proof -
  have "fl_pos x = of_int i * pow2 (expo x - 52)"
    using assms by (simp add: fl_pos_def Let_def)
  also have "\<dots> = x" using assms by (simp add: divide_eq_eq)
  finally show ?thesis .
qed

text \<open>The exponent is the exponent: \<open>bits n\<close> is the length of the binary numeral.\<close>

lemma bits_bounds: "0 < n \<Longrightarrow> pow2 (bits n - 1) \<le> of_int n \<and> of_int n < pow2 (bits n) \<and> 1 \<le> bits n"
proof (induction n rule: bits.induct)
  case (1 n)
  have double: "pow2 (k + 1) = 2 * pow2 k" for k
    using pow2_add [of k 1] by (simp add: pow2_def)
  show ?case
  proof (cases "n = 1")
    case True
    have "bits 1 = 1" by (subst bits.simps, simp, subst bits.simps) simp
    then show ?thesis using True by (simp add: pow2_def)
  next
    case False
    with "1.prems" have h: "0 < n div 2" by simp
    have b: "bits n = 1 + bits (n div 2)" using "1.prems" by (subst bits.simps) simp
    have IH: "pow2 (bits (n div 2) - 1) \<le> of_int (n div 2)" "of_int (n div 2) < pow2 (bits (n div 2))"
        "1 \<le> bits (n div 2)"
      using "1.IH" "1.prems" h by auto
    have pint: "pow2 (bits (n div 2)) = of_int (2 ^ nat (bits (n div 2)))"
      using IH(3) by (simp add: pow2_def)
    have up: "n div 2 + 1 \<le> 2 ^ nat (bits (n div 2))"
      using IH(2) unfolding pint of_int_less_iff by simp
    have "2 * of_int (n div 2) \<le> (of_int n :: rat)" by (metis of_int_le_iff of_int_mult of_int_numeral
          mult.commute div_mult_mod_eq le_add_same_cancel1 pos_mod_sign zero_less_numeral)
    moreover have "2 * pow2 (bits (n div 2) - 1) = pow2 (bits (n div 2))"
      using double [of "bits (n div 2) - 1"] by simp
    ultimately have lo: "pow2 (bits (n div 2)) \<le> of_int n" using IH(1) by linarith
    have "n < 2 * (n div 2 + 1)" by presburger
    then have "n < 2 * 2 ^ nat (bits (n div 2))" using up by linarith
    then have "(of_int n :: rat) < of_int (2 * 2 ^ nat (bits (n div 2)))" by (simp only: of_int_less_iff)
    then have hi: "of_int n < pow2 (1 + bits (n div 2))"
      using double [of "bits (n div 2)"] pint by (simp add: add.commute)
    show ?thesis using lo hi IH(3) b by simp
  qed
qed

lemma expo_bounds:
  assumes "0 < x" shows "pow2 (expo x) \<le> x \<and> x < pow2 (expo x + 1)"
proof -
  obtain n d where q: "quotient_of x = (n, d)" by (cases "quotient_of x")
  have d: "0 < d" using quotient_of_denom_pos [OF q] .
  have x: "x = of_int n / of_int d" using quotient_of_div [OF q] .
  have n: "0 < n" using assms x d by (simp add: zero_less_divide_iff)
  let ?e = "bits n - bits d"
  note bn = bits_bounds [OF n] and bd = bits_bounds [OF d]
  have "pow2 (?e - 1) * of_int d \<le> pow2 (?e - 1) * pow2 (bits d)"
    using bd pow2_pos [of "?e - 1"] by simp
  also have "\<dots> = pow2 (bits n - 1)" using pow2_add [of "?e - 1" "bits d"] by simp
  finally have lo: "pow2 (?e - 1) \<le> x" using bn d by (simp add: x pos_le_divide_eq)
  have "pow2 (bits n) = pow2 (?e + 1) * pow2 (bits d - 1)"
    using pow2_add [of "?e + 1" "bits d - 1"] by simp
  also have "\<dots> \<le> pow2 (?e + 1) * of_int d" using bd pow2_pos [of "?e + 1"] by simp
  finally have hi: "x < pow2 (?e + 1)" using bn d by (simp add: x pos_divide_less_eq)
  show ?thesis using lo hi by (simp add: expo_def q Let_def)
qed

lemma expo_mono:
  assumes "0 < x" "x \<le> y" shows "expo x \<le> expo y"
proof (rule ccontr)
  assume "\<not> expo x \<le> expo y"
  then have "pow2 (expo y + 1) \<le> pow2 (expo x)" by (intro pow2_mono) simp
  then show False using expo_bounds [OF assms(1)] expo_bounds [of y] assms by linarith
qed

text \<open>Rounding stays inside the binade, so it is monotone.\<close>

lemma fl_pos_bounds:
  assumes "0 < x" shows "pow2 (expo x) \<le> fl_pos x \<and> fl_pos x \<le> pow2 (expo x + 1)"
proof -
  let ?e = "expo x - 52"
  have s: "pow2 (expo x) = of_int (2 ^ 52) * pow2 ?e" "pow2 (expo x + 1) = of_int (2 ^ 53) * pow2 ?e"
    using pow2_add [of 52 ?e] pow2_add [of 53 ?e] pow2_nat [of 52] pow2_nat [of 53] by (simp_all add: add.commute)
  have "of_int (2 ^ 52) \<le> x / pow2 ?e" "x / pow2 ?e \<le> of_int (2 ^ 53)"
    using expo_bounds [OF assms] by (auto simp: s pos_le_divide_eq pos_divide_le_eq)
  from round_half_even_mono [OF this(1)] round_half_even_mono [OF this(2)]
  have "2 ^ 52 \<le> round_half_even (x / pow2 ?e)" "round_half_even (x / pow2 ?e) \<le> 2 ^ 53"
    by (simp_all only: round_half_even_int)
  then have "of_int (2 ^ 52) * pow2 ?e \<le> fl_pos x" "fl_pos x \<le> of_int (2 ^ 53) * pow2 ?e"
    unfolding fl_pos_def Let_def by (simp_all only: mult_le_cancel_right_pos pow2_pos of_int_le_iff)
  then show ?thesis by (simp only: s)
qed

lemma fl_pos_mono:
  assumes "0 < x" "x \<le> y" shows "fl_pos x \<le> fl_pos y"
proof (cases "expo x = expo y")
  case True
  have "x / pow2 (expo y - 52) \<le> y / pow2 (expo y - 52)" using assms by (simp add: divide_right_mono less_imp_le)
  from round_half_even_mono [OF this] show ?thesis
    using True by (simp add: fl_pos_def Let_def)
next
  case False
  then have "expo x + 1 \<le> expo y" using expo_mono [OF assms] by simp
  from pow2_mono [OF this] show ?thesis
    using fl_pos_bounds [OF assms(1)] fl_pos_bounds [of y] assms by linarith
qed

lemma fl_mono: "x \<le> y \<Longrightarrow> fl x \<le> fl y"
proof -
  assume le: "x \<le> y"
  have pos: "0 < u \<Longrightarrow> 0 < fl_pos u" for u
    using fl_pos_bounds [of u] pow2_pos [of "expo u"] by linarith
  consider "0 < x" | "x \<le> 0" "0 \<le> y" | "y < 0" by linarith
  then show ?thesis
  proof cases
    case 1
    then show ?thesis using fl_pos_mono [OF 1 le] le by (simp add: fl_def)
  next
    case 2
    then show ?thesis using pos [of y] pos [of "- x"] by (auto simp: fl_def)
  next
    case 3
    then show ?thesis using fl_pos_mono [of "- y" "- x"] le by (simp add: fl_def)
  qed
qed

lemma fl_nonneg: "0 \<le> x \<Longrightarrow> 0 \<le> fl x"
  using fl_mono [of 0 x] by simp

lemma fl_nonpos: "x \<le> 0 \<Longrightarrow> fl x \<le> 0"
  using fl_mono [of x 0] by simp

lemma expo_unique:
  assumes "pow2 k \<le> x" "x < pow2 (k + 1)" shows "expo x = k"
proof -
  have x: "0 < x" using assms(1) pow2_pos [of k] by linarith
  note b = expo_bounds [OF x]
  have "\<not> expo x + 1 \<le> k" using pow2_mono [of "expo x + 1" k] b assms by linarith
  moreover have "\<not> k + 1 \<le> expo x" using pow2_mono [of "k + 1" "expo x"] b assms by linarith
  ultimately show ?thesis by linarith
qed

text \<open>Evaluation of one rounding from its result: the significand \<open>m\<close> and the exponent \<open>k\<close>.\<close>

lemma fl_eqI:
  assumes "pow2 (k + 52) \<le> x" "x < pow2 (k + 53)" "\<bar>x / pow2 k - of_int m\<bar> < 1 / 2"
  shows "fl x = of_int m * pow2 k"
proof -
  have x: "0 < x" using assms(1) pow2_pos [of "k + 52"] by linarith
  have e: "expo x - 52 = k" using expo_unique [of "k + 52" x] assms by (simp add: add.assoc)
  let ?q = "x / pow2 k"
  consider "\<lfloor>?q\<rfloor> = m" "?q - of_int m < 1 / 2" | "\<lfloor>?q\<rfloor> = m - 1" "1 / 2 < ?q - of_int (m - 1)"
  proof (cases "of_int m \<le> ?q")
    case True
    have "\<lfloor>?q\<rfloor> = m" by (rule floor_unique) (use True assms(3) in linarith)+
    then show ?thesis using that(1) assms(3) True by linarith
  next
    case False
    have "\<lfloor>?q\<rfloor> = m - 1" by (rule floor_unique) (use False assms(3) in \<open>simp_all add: abs_if split: if_splits\<close>)
    then show ?thesis using that(2) assms(3) False by simp
  qed
  then have "round_half_even ?q = m"
    unfolding round_half_even_def Let_def by cases simp_all
  then show ?thesis using x e by (simp add: fl_def fl_pos_def Let_def)
qed

lemma fl_eqI_even:
  assumes "pow2 (k + 52) \<le> x" "x < pow2 (k + 53)" "\<bar>x / pow2 k - of_int m\<bar> = 1 / 2" "even m"
  shows "fl x = of_int m * pow2 k"
proof -
  have x: "0 < x" using assms(1) pow2_pos [of "k + 52"] by linarith
  have e: "expo x - 52 = k" using expo_unique [of "k + 52" x] assms by (simp add: add.assoc)
  let ?q = "x / pow2 k"
  have "\<bar>?q - of_int m\<bar> = \<bar>1 / 2\<bar>" using assms(3) by simp
  then have "?q - of_int m = 1 / 2 \<or> ?q - of_int m = - (1 / 2)" by (simp only: abs_eq_iff)
  then consider "?q = of_int m + 1 / 2" | "?q = of_int (m - 1) + 1 / 2"
    unfolding of_int_diff of_int_1 by (elim disjE) (linarith+)
  then have "round_half_even ?q = m"
  proof cases
    case 1
    have "\<lfloor>?q\<rfloor> = m" by (rule floor_unique) (use 1 in simp_all)
    then show ?thesis unfolding round_half_even_def Let_def using 1 assms(4) by simp
  next
    case 2
    have "\<lfloor>?q\<rfloor> = m - 1" by (rule floor_unique) (use 2 in simp_all)
    then show ?thesis unfolding round_half_even_def Let_def using 2 assms(4) by simp
  qed
  then show ?thesis using x e by (simp add: fl_def fl_pos_def Let_def)
qed

lemma fl_pos_idem:
  assumes "0 < x" shows "fl_pos (fl_pos x) = fl_pos x"
proof -
  let ?y = "fl_pos x"
  have step: "pow2 (expo x + 1 - 52) = 2 * pow2 (expo x - 52)"
    using pow2_add [of 1 "expo x - 52"] by (simp add: pow2_def algebra_simps)
  note b = fl_pos_bounds [OF assms]
  show ?thesis
  proof (cases "?y = pow2 (expo x + 1)")
    case True
    have "pow2 (expo x + 1) < pow2 (expo x + 1 + 1)"
      using pow2_add [of "expo x + 1" 1] pow2_pos [of "expo x + 1"] by (simp add: pow2_def)
    with True have e: "expo ?y = expo x + 1" by (intro expo_unique) simp_all
    have "pow2 (expo x + 1) = of_int (2 ^ 52) * pow2 (expo x + 1 - 52)"
      using pow2_add [of 52 "expo x + 1 - 52"] pow2_nat [of 52] by (simp add: add.commute)
    then have "?y / pow2 (expo ?y - 52) = of_int (2 ^ 52)" using True e by simp
    then show ?thesis by (rule fl_pos_grid)
  next
    case False
    with b have e: "expo ?y = expo x" by (intro expo_unique) simp_all
    have "?y / pow2 (expo ?y - 52) = of_int (round_half_even (x / pow2 (expo x - 52)))"
      unfolding e by (simp add: fl_pos_def Let_def)
    then show ?thesis by (rule fl_pos_grid)
  qed
qed

lemma fl_idem [simp]: "fl (fl x) = fl x"
proof -
  have pos: "0 < fl_pos u" if "0 < u" for u
    using fl_pos_bounds [OF that] pow2_pos [of "expo u"] by linarith
  have idem: "fl (fl u) = fl u" if "0 < u" for u
    using that pos [OF that] fl_pos_idem [OF that] by (simp add: fl_def)
  consider "0 < x" | "x = 0" | "0 < - x" by linarith
  then show ?thesis
  proof cases
    case 3
    then have "fl (- (fl (- x))) = - fl (- x)" using idem [OF 3] by (simp only: fl_minus)
    then show ?thesis by simp
  qed (simp_all add: idem)
qed

text \<open>The relative error of a rounding is at most \<open>2 ^ -53\<close>.\<close>

lemma round_half_even_error: "\<bar>of_int (round_half_even q) - q\<bar> \<le> 1 / 2"
proof -
  have "of_int \<lfloor>q\<rfloor> \<le> q" "q < of_int \<lfloor>q\<rfloor> + 1" by linarith+
  then show ?thesis unfolding round_half_even_def Let_def by (simp add: abs_le_iff)
qed

lemma fl_pos_error:
  assumes "0 < x" shows "\<bar>fl_pos x - x\<bar> \<le> x / 2 ^ 53"
proof -
  let ?p = "pow2 (expo x - 52)" and ?q = "x / pow2 (expo x - 52)"
  have x: "x = ?q * ?p" by simp
  have "\<bar>fl_pos x - x\<bar> = \<bar>(of_int (round_half_even ?q) - ?q) * ?p\<bar>"
    by (simp add: fl_pos_def Let_def left_diff_distrib)
  also have "\<dots> \<le> 1 / 2 * ?p"
    unfolding abs_mult using round_half_even_error [of ?q] pow2_pos [of "expo x - 52"]
    by (intro mult_mono) (simp_all only: abs_of_pos order_refl abs_ge_zero zero_le_divide_1_iff zero_le_numeral less_imp_le)
  also have "\<dots> = pow2 (expo x) / 2 ^ 53"
    using pow2_add [of "expo x" "-52"] by (simp add: pow2_def)
  also have "\<dots> \<le> x / 2 ^ 53" using expo_bounds [OF assms] by (simp add: divide_right_mono)
  finally show ?thesis .
qed

lemma fl_error: "\<bar>fl x - x\<bar> \<le> \<bar>x\<bar> / 2 ^ 53"
proof -
  consider "0 < x" | "x = 0" | "x < 0" by linarith
  then show ?thesis
  proof cases
    case 3
    have "\<bar>fl x - x\<bar> = \<bar>fl_pos (- x) - (- x)\<bar>" using 3 by (simp add: fl_def abs_if)
    then show ?thesis using fl_pos_error [of "- x"] 3 by simp
  qed (use fl_pos_error [of x] in \<open>simp_all add: fl_def\<close>)
qed

lemma fl_1 [simp]: "fl 1 = 1"
  by code_simp

text \<open>The binary64 operations.\<close>

definition fadd :: "rat \<Rightarrow> rat \<Rightarrow> rat" where "fadd x y = fl (x + y)"
definition fsub :: "rat \<Rightarrow> rat \<Rightarrow> rat" where "fsub x y = fl (x - y)"
definition fmul :: "rat \<Rightarrow> rat \<Rightarrow> rat" where "fmul x y = fl (x * y)"
definition fdiv :: "rat \<Rightarrow> rat \<Rightarrow> rat" where "fdiv x y = fl (x / y)"

lemma fadd_mono: "x \<le> x' \<Longrightarrow> y \<le> y' \<Longrightarrow> fadd x y \<le> fadd x' y'"
  unfolding fadd_def by (rule fl_mono) linarith

lemma fsub_mono: "x \<le> x' \<Longrightarrow> y' \<le> y \<Longrightarrow> fsub x y \<le> fsub x' y'"
  unfolding fsub_def by (rule fl_mono) linarith

lemma fmul_mono: "x \<le> x' \<Longrightarrow> 0 \<le> c \<Longrightarrow> fmul x c \<le> fmul x' c"
  unfolding fmul_def by (rule fl_mono) (rule mult_right_mono)

lemma fl_fadd [simp]: "fl (fadd x y) = fadd x y"
  by (simp add: fadd_def)

text \<open>Adding a non-negative value to a double never lowers it.\<close>

lemma fadd_ge: "fl x = x \<Longrightarrow> 0 \<le> y \<Longrightarrow> x \<le> fadd x y"
  using fl_mono [of x "x + y"] by (simp add: fadd_def)

lemma fmul_nonneg: "0 \<le> x \<Longrightarrow> 0 \<le> y \<Longrightarrow> 0 \<le> fmul x y"
  unfolding fmul_def by (rule fl_nonneg) simp

section \<open>Numbers and coercions\<close>

datatype jsnum = NaN | PInf | NInf | Fin rat

datatype jsval = Undefined | Null | Bool bool | Num jsnum | Str string | Object

text \<open>\<open>Number(text)\<close>: blanks are trimmed, the empty text is 0, a decimal literal with an
  optional fraction and exponent is its nearest double, \<open>0x\<close>, \<open>0o\<close> and \<open>0b\<close> prefixes
  are read, anything else is \<open>NaN\<close>.\<close>

definition trim :: "string \<Rightarrow> string" where
  "trim s = rev (dropWhile is_blank (rev (dropWhile is_blank s)))"

definition radix_digit :: "char \<Rightarrow> int option" where
  "radix_digit c =
     (let n = (of_char c :: int)
      in if 48 \<le> n \<and> n \<le> 57 then Some (n - 48)
         else if 65 \<le> n \<and> n \<le> 70 then Some (n - 55)
         else if 97 \<le> n \<and> n \<le> 102 then Some (n - 87) else None)"

fun radix_val :: "int \<Rightarrow> int \<Rightarrow> string \<Rightarrow> int option" where
  "radix_val b acc [] = Some acc"
| "radix_val b acc (c # cs) =
     (case radix_digit c of None \<Rightarrow> None
      | Some d \<Rightarrow> if d < b then radix_val b (b * acc + d) cs else None)"

definition parse_exponent :: "string \<Rightarrow> int option" where
  "parse_exponent s =
     (case s of [] \<Rightarrow> Some 0
      | c # r \<Rightarrow>
          if c \<noteq> CHR ''e'' \<and> c \<noteq> CHR ''E'' then None
          else let neg = (case r of d # _ \<Rightarrow> d = CHR ''-'' | [] \<Rightarrow> False);
                   ds = (case r of d # t \<Rightarrow> if d = CHR ''-'' \<or> d = CHR ''+'' then t else r | [] \<Rightarrow> [])
               in if ds \<noteq> [] \<and> list_all is_digit ds
                  then Some (if neg then - digits_val ds else digits_val ds) else None)"

definition parse_unsigned :: "string \<Rightarrow> jsnum" where
  "parse_unsigned t =
     (if t = ''Infinity'' then PInf
      else let ip = takeWhile is_digit t; r = dropWhile is_digit t;
               has_dot = (case r of c # _ \<Rightarrow> c = CHR ''.'' | [] \<Rightarrow> False);
               r1 = (if has_dot then tl r else r);
               fp = (if has_dot then takeWhile is_digit r1 else []);
               r2 = (if has_dot then dropWhile is_digit r1 else r1)
           in if ip = [] \<and> fp = [] then NaN
              else case parse_exponent r2 of None \<Rightarrow> NaN
                   | Some e \<Rightarrow> Fin (fl (of_int (digits_val (ip @ fp))
                                     * (let k = e - int (length fp)
                                        in if 0 \<le> k then 10 ^ nat k else 1 / 10 ^ nat (- k)))))"

definition negate :: "jsnum \<Rightarrow> jsnum" where
  "negate x = (case x of NaN \<Rightarrow> NaN | PInf \<Rightarrow> NInf | NInf \<Rightarrow> PInf | Fin q \<Rightarrow> Fin (- q))"

definition string_to_number :: "string \<Rightarrow> jsnum" where
  "string_to_number s =
     (case trim s of [] \<Rightarrow> Fin 0
      | c # r \<Rightarrow>
          if c = CHR ''-'' then negate (parse_unsigned r)
          else if c = CHR ''+'' then parse_unsigned r
          else (case r of
                  p # ds \<Rightarrow>
                    if c = CHR ''0'' \<and> ds \<noteq> [] \<and> p \<in> set ''xXoObB''
                    then (case radix_val (if p \<in> set ''xX'' then 16 else if p \<in> set ''oO'' then 8 else 2) 0 ds of
                            None \<Rightarrow> NaN | Some n \<Rightarrow> Fin (fl (of_int n)))
                    else parse_unsigned (c # r)
                | [] \<Rightarrow> parse_unsigned [c]))"

definition to_number :: "jsval \<Rightarrow> jsnum" where
  "to_number v =
     (case v of Undefined \<Rightarrow> NaN | Null \<Rightarrow> Fin 0 | Bool b \<Rightarrow> Fin (if b then 1 else 0)
      | Num n \<Rightarrow> n | Str s \<Rightarrow> string_to_number s | Object \<Rightarrow> NaN)"

definition is_finite :: "jsnum \<Rightarrow> bool" where
  "is_finite n \<longleftrightarrow> (case n of Fin _ \<Rightarrow> True | _ \<Rightarrow> False)"

text \<open>\<open>Number.isFinite(Number(v)) ? Math.max(0, Math.floor(Number(v))) : fallback\<close>.\<close>

definition safe_int_or :: "int \<Rightarrow> jsval \<Rightarrow> int" where
  "safe_int_or fallback v = (case to_number v of Fin q \<Rightarrow> max 0 \<lfloor>q\<rfloor> | _ \<Rightarrow> fallback)"

abbreviation safe_int :: "jsval \<Rightarrow> int" where
  "safe_int \<equiv> safe_int_or 0"

lemma safe_int_nonneg [simp, intro]: "0 \<le> safe_int v"
  by (simp add: safe_int_or_def split: jsnum.splits)

lemma safe_int_of_int [simp]: "safe_int (Num (Fin (of_int i))) = max 0 i"
  by (simp add: safe_int_or_def to_number_def)

text \<open>\<open>Math.min(hi, Math.max(lo, x))\<close> on a number that may be \<open>NaN\<close>-free infinite, and
  \<open>Number(x) || 0\<close>.\<close>

definition or_zero :: "jsnum \<Rightarrow> jsnum" where
  "or_zero n = (case n of NaN \<Rightarrow> Fin 0 | m \<Rightarrow> m)"

definition clamp_num :: "rat \<Rightarrow> rat \<Rightarrow> jsnum \<Rightarrow> rat" where
  "clamp_num lo hi n = (case n of NaN \<Rightarrow> lo | PInf \<Rightarrow> hi | NInf \<Rightarrow> lo | Fin q \<Rightarrow> max lo (min hi q))"

text \<open>\<open>Math.round\<close>: halves go up.\<close>

definition js_round :: "rat \<Rightarrow> int" where
  "js_round q = \<lfloor>q + 1 / 2\<rfloor>"

lemma js_round_int [simp]: "js_round (of_int i) = i"
  by (simp add: js_round_def floor_eq_iff)

text \<open>A value closer than a half to an integer rounds to it.\<close>

lemma js_round_near: "\<bar>q - of_int i\<bar> < 1 / 2 \<Longrightarrow> js_round q = i"
  unfolding js_round_def by (rule floor_unique) linarith+

lemma js_round_mono: "p \<le> q \<Longrightarrow> js_round p \<le> js_round q"
  by (simp add: js_round_def floor_mono)

definition clamp :: "int \<Rightarrow> int \<Rightarrow> int \<Rightarrow> int" where
  "clamp lo hi x = max lo (min hi x)"

lemma clamp_bounds: "lo \<le> hi \<Longrightarrow> lo \<le> clamp lo hi x \<and> clamp lo hi x \<le> hi"
  by (simp add: clamp_def)

lemma clamp_id [simp]: "lo \<le> x \<Longrightarrow> x \<le> hi \<Longrightarrow> clamp lo hi x = x"
  by (simp add: clamp_def)

lemma clamp_mono: "x \<le> y \<Longrightarrow> clamp lo hi x \<le> clamp lo hi y"
  by (auto simp: clamp_def)

end
