(* ===== verification/CombatRanks.thy ===== *)
theory CombatRanks
  imports JsNumber
begin

text \<open>
  \<open>combatRanks.js\<close>: the military rank of a veteran piece, read off its level.

  A rank is a record with the source's fields; its id is a value of \<open>rank_id\<close>, ordered by
  seniority (\<open>instantiation linorder\<close>), so monotonicity is stated with \<open>\<le>\<close>. The display
  level reads values of unknown type from a save.
\<close>

datatype rank_id =
  Recruit | Soldier | Corporal | Sergeant | Lieutenant | Captain | Commander | Colonel | General

definition rank_index :: "rank_id \<Rightarrow> nat" where
  "rank_index r =
     (case r of Recruit \<Rightarrow> 0 | Soldier \<Rightarrow> 1 | Corporal \<Rightarrow> 2 | Sergeant \<Rightarrow> 3 | Lieutenant \<Rightarrow> 4
      | Captain \<Rightarrow> 5 | Commander \<Rightarrow> 6 | Colonel \<Rightarrow> 7 | General \<Rightarrow> 8)"

lemma rank_index_inj: "rank_index a = rank_index b \<longleftrightarrow> a = b"
  by (cases a; cases b) (simp_all add: rank_index_def)

instantiation rank_id :: linorder
begin

definition less_eq_rank_id :: "rank_id \<Rightarrow> rank_id \<Rightarrow> bool" where
  "less_eq_rank_id a b \<longleftrightarrow> rank_index a \<le> rank_index b"

definition less_rank_id :: "rank_id \<Rightarrow> rank_id \<Rightarrow> bool" where
  "less_rank_id a b \<longleftrightarrow> rank_index a < rank_index b"

instance
  by standard (auto simp: less_eq_rank_id_def less_rank_id_def rank_index_inj)

end

record piece_rank =
  rk_id :: rank_id
  rk_label :: string
  rk_short :: string
  rk_minLevel :: int

definition PIECE_RANKS :: "piece_rank list" where
  "PIECE_RANKS =
    [\<lparr>rk_id = Recruit, rk_label = ''Recluta'', rk_short = ''REC'', rk_minLevel = 1\<rparr>,
     \<lparr>rk_id = Soldier, rk_label = ''Soldado'', rk_short = ''SLD'', rk_minLevel = 2\<rparr>,
     \<lparr>rk_id = Corporal, rk_label = ''Cabo'', rk_short = ''CBO'', rk_minLevel = 3\<rparr>,
     \<lparr>rk_id = Sergeant, rk_label = ''Sargento'', rk_short = ''SGT'', rk_minLevel = 4\<rparr>,
     \<lparr>rk_id = Lieutenant, rk_label = ''Teniente'', rk_short = ''TTE'', rk_minLevel = 5\<rparr>,
     \<lparr>rk_id = Captain, rk_label = ''Capit'' @ [CHR 0xE1] @ ''n'', rk_short = ''CAP'', rk_minLevel = 6\<rparr>,
     \<lparr>rk_id = Commander, rk_label = ''Comandante'', rk_short = ''CMD'', rk_minLevel = 8\<rparr>,
     \<lparr>rk_id = Colonel, rk_label = ''Coronel'', rk_short = ''COL'', rk_minLevel = 10\<rparr>,
     \<lparr>rk_id = General, rk_label = ''General'', rk_short = ''GEN'', rk_minLevel = 12\<rparr>]"

text \<open>The purchased points of a save, for display: a safe non-negative integer, or 0.\<close>

definition is_safe_integer :: "jsnum \<Rightarrow> bool" where
  "is_safe_integer n =
     (case n of Fin q \<Rightarrow> of_int \<lfloor>q\<rfloor> = q \<and> \<bar>\<lfloor>q\<rfloor>\<bar> \<le> 2 ^ 53 - 1 | _ \<Rightarrow> False)"

definition displayPurchasedPoints :: "jsval \<Rightarrow> int" where
  "displayPurchasedPoints v =
     (let read = (case to_number v of
                    Fin q \<Rightarrow> if is_safe_integer (Fin q) \<and> 0 \<le> q then \<lfloor>q\<rfloor> else 0
                  | _ \<Rightarrow> 0)
      in case v of
           Num _ \<Rightarrow> read
         | Str s \<Rightarrow> if trim s \<noteq> [] \<and> list_all is_digit (trim s) then read else 0
         | _ \<Rightarrow> 0)"

definition combatVeteranDisplayLevel :: "jsval \<Rightarrow> jsval \<Rightarrow> int" where
  "combatVeteranDisplayLevel strengthPoints speedPoints =
     (let level = 1 + displayPurchasedPoints strengthPoints + displayPurchasedPoints speedPoints
      in if \<bar>level\<bar> \<le> 2 ^ 53 - 1 then level else 1)"

text \<open>The loop keeps the last rank whose threshold the level reaches.\<close>

definition pieceRankForLevel :: "int \<Rightarrow> piece_rank" where
  "pieceRankForLevel level =
     (let normalized = max 1 level
      in fold (\<lambda>candidate rank. if rk_minLevel candidate \<le> normalized then candidate else rank)
           PIECE_RANKS (hd PIECE_RANKS))"

definition pieceRankAtLeast :: "int \<Rightarrow> rank_id \<Rightarrow> bool" where
  "pieceRankAtLeast level rankId =
     (case List.find (\<lambda>rank. rk_id rank = rankId) PIECE_RANKS of
        None \<Rightarrow> False
      | Some target \<Rightarrow> rk_minLevel target \<le> max 1 level)"

definition METAMORPHOSIS_MIN_RANK_ID :: rank_id where
  "METAMORPHOSIS_MIN_RANK_ID = Commander"

record insignia =
  in_icon :: string
  in_family :: string
  in_rankId :: rank_id
  in_label :: string
  in_short :: string

definition PIECE_RANK_INSIGNIA :: "rank_id \<Rightarrow> string \<times> string" where
  "PIECE_RANK_INSIGNIA r =
     (case r of Recruit \<Rightarrow> (''none'', ''none'')
      | Soldier \<Rightarrow> (''diamond'', ''enlisted'')
      | Corporal \<Rightarrow> (''chevron'', ''nco'')
      | Sergeant \<Rightarrow> (''shield'', ''nco'')
      | Lieutenant \<Rightarrow> (''bar'', ''officer'')
      | Captain \<Rightarrow> (''double-bar'', ''officer'')
      | Commander \<Rightarrow> (''leaf'', ''senior'')
      | Colonel \<Rightarrow> (''eagle'', ''senior'')
      | General \<Rightarrow> (''star'', ''general''))"

definition pieceRankInsignia :: "piece_rank + int \<Rightarrow> insignia" where
  "pieceRankInsignia rankOrLevel =
     (let rank = (case rankOrLevel of Inl r \<Rightarrow> r | Inr l \<Rightarrow> pieceRankForLevel l);
          visual = PIECE_RANK_INSIGNIA (rk_id rank)
      in \<lparr>in_icon = fst visual, in_family = snd visual, in_rankId = rk_id rank,
          in_label = rk_label rank, in_short = rk_short rank\<rparr>)"

text \<open>The tooltip, one line per entry.\<close>

definition pieceRankTooltip :: "piece_rank + int \<Rightarrow> string" where
  "pieceRankTooltip rankOrLevel =
     (let rank = (case rankOrLevel of Inl r \<Rightarrow> r | Inr l \<Rightarrow> pieceRankForLevel l);
          index = (case find_index (\<lambda>c. rk_id c = rk_id rank) PIECE_RANKS of Some i \<Rightarrow> int i | None \<Rightarrow> -1);
          higher = nth_opt PIECE_RANKS (nat (index + 1));
          low = rk_minLevel rank;
          levelRange = (case higher of
              Some n \<Rightarrow> if low < rk_minLevel n - 1
                         then ''niveles '' @ show_int low @ [CHR 0xE2, CHR 0x80, CHR 0x93] @ show_int (rk_minLevel n - 1)
                         else if rk_minLevel n - 1 = low then ''nivel '' @ show_int low
                         else ''nivel '' @ show_int low @ ''+''
            | None \<Rightarrow> ''nivel '' @ show_int low @ ''+'');
          family = (if 12 \<le> low then ''mando superior'' else if 8 \<le> low then ''mando'' else if 5 \<le> low then ''oficial''
                    else if 3 \<le> low then ''suboficial'' else ''tropa'');
          advice = (if rk_id rank = METAMORPHOSIS_MIN_RANK_ID
                    then (''Primer rango elegible para metamorfosis; las formas exigen adem'' @ [CHR 0xE1] @ ''s m'' @ [CHR 0xE9] @ ''ritos de servicio.'')
                    else if low < 8 then ''La metamorfosis empieza en Comandante (nivel 8).''
                    else if rk_id rank = General then (''Rango m'' @ [CHR 0xE1] @ ''ximo de una unidad veterana.'')
                    else (''Rango veterano: las metamorfosis disponibles dependen tambi'' @ [CHR 0xE9] @ ''n del historial de servicio.''));
          lines = [rk_label rank @ ('' '' @ [CHR 0xB7] @ '' rango '') @ show_int (index + 1) @ ''/'' @ show_nat (length PIECE_RANKS),
                   levelRange @ ('' '' @ [CHR 0xB7] @ '' '') @ family, advice]
            @ (case higher of Some n \<Rightarrow> [''Siguiente: '' @ rk_label n @ ('' '' @ [CHR 0xB7] @ '' nivel '') @ show_int (rk_minLevel n) @ ''.''] | None \<Rightarrow> [])
      in join_with [CHR 0x0A] lines)"

section \<open>The rank is the highest one reached\<close>

text \<open>The threshold of a rank, read off the table.\<close>

definition threshold :: "rank_id \<Rightarrow> int" where
  "threshold r =
     (case r of Recruit \<Rightarrow> 1 | Soldier \<Rightarrow> 2 | Corporal \<Rightarrow> 3 | Sergeant \<Rightarrow> 4 | Lieutenant \<Rightarrow> 5
      | Captain \<Rightarrow> 6 | Commander \<Rightarrow> 8 | Colonel \<Rightarrow> 10 | General \<Rightarrow> 12)"

lemma pieceRankAtLeast_threshold: "pieceRankAtLeast level r \<longleftrightarrow> threshold r \<le> max 1 level"
  by (cases r) (simp_all add: pieceRankAtLeast_def PIECE_RANKS_def threshold_def)

lemma rank_for_level_cases:
  "rk_id (pieceRankForLevel level) =
     (if 12 \<le> level then General else if 10 \<le> level then Colonel else if 8 \<le> level then Commander
      else if 6 \<le> level then Captain else if 5 \<le> level then Lieutenant else if 4 \<le> level then Sergeant
      else if 3 \<le> level then Corporal else if 2 \<le> level then Soldier else Recruit)"
  by (simp add: pieceRankForLevel_def PIECE_RANKS_def Let_def)

lemma rank_le_iff_threshold: "a \<le> b \<longleftrightarrow> threshold a \<le> threshold b"
  by (cases a; cases b) (simp_all add: less_eq_rank_id_def rank_index_def threshold_def)

text \<open>\<open>pieceRankForLevel\<close> and \<open>pieceRankAtLeast\<close> agree: a level is at least a rank exactly
  when the rank computed for the level is that rank or a senior one.\<close>

theorem rank_at_least_iff: "pieceRankAtLeast level r \<longleftrightarrow> r \<le> rk_id (pieceRankForLevel level)"
  by (cases r) (simp_all add: pieceRankAtLeast_threshold rank_for_level_cases
      less_eq_rank_id_def rank_index_def threshold_def)

lemma rank_mono: "l \<le> l' \<Longrightarrow> rk_id (pieceRankForLevel l) \<le> rk_id (pieceRankForLevel l')"
  by (auto simp: rank_for_level_cases less_eq_rank_id_def rank_index_def)

lemma display_level_pos: "1 \<le> combatVeteranDisplayLevel a b"
proof -
  have "0 \<le> displayPurchasedPoints v" for v
    by (auto simp: displayPurchasedPoints_def Let_def split: jsval.splits jsnum.splits)
  then show ?thesis by (simp add: combatVeteranDisplayLevel_def Let_def)
qed

end
