(* ===== verification/CombatEngine.thy ===== *)
theory CombatEngine
  imports JsNumber "HOL-Library.List_Lexorder"
begin

text \<open>
  \<open>combat.js\<close>: the engine of Combat mode, chess with levels and dodges.

  A piece is a record with the fields of the source's piece objects; a numeric field the
  source may leave out (it reads every one as \<open>x || 0\<close>) is 0 here. The registry is the
  source's object from squares to pieces. \<open>chess.js\<close> is not part of the repository: it is
  the argument \<open>api\<close>, a record of the functions the code calls, each over an explicit
  position value; a call that throws or returns null is \<open>None\<close>. The random roll is an
  argument. Chances are computed in binary64 (\<open>fadd\<close>, \<open>fsub\<close>, \<open>fmul\<close>); strengths and
  speeds are multiples of 1/4 and exact.
\<close>

section \<open>Pieces\<close>

datatype ptype = Pawn | Knight | Bishop | Rook | Queen | King

datatype color = White | Black

definition type_char :: "ptype \<Rightarrow> char" where
  "type_char t = (case t of Pawn \<Rightarrow> CHR ''p'' | Knight \<Rightarrow> CHR ''n'' | Bishop \<Rightarrow> CHR ''b''
                  | Rook \<Rightarrow> CHR ''r'' | Queen \<Rightarrow> CHR ''q'' | King \<Rightarrow> CHR ''k'')"

definition type_of_string :: "string \<Rightarrow> ptype option" where
  "type_of_string s =
     (if s = ''p'' then Some Pawn else if s = ''n'' then Some Knight else if s = ''b'' then Some Bishop
      else if s = ''r'' then Some Rook else if s = ''q'' then Some Queen else if s = ''k'' then Some King
      else None)"

definition color_char :: "color \<Rightarrow> char" where
  "color_char c = (case c of White \<Rightarrow> CHR ''w'' | Black \<Rightarrow> CHR ''b'')"

lemma type_of_string_char [simp]: "type_of_string [type_char t] = Some t"
  by (cases t) (simp_all add: type_of_string_def type_char_def)

lemma type_char_neq_dash [simp]: "type_char t \<noteq> CHR ''-''"
  by (cases t) (simp_all add: type_char_def)

lemma type_char_inj [simp]: "type_char a = type_char b \<longleftrightarrow> a = b"
  by (cases a; cases b) (simp_all add: type_char_def)

record identity =
  id_identityId :: string
  id_alias :: string
  id_createdAt :: string
  id_bio :: "string option"
  id_bioStatus :: "string option"

record piece =
  p_id :: string
  p_type :: ptype
  p_color :: color
  p_square :: string
  strengthPoints :: int
  speedPoints :: int
  bankedXp :: int
  equipmentStrengthBonus :: int
  equipmentSpeedBonus :: int
  runStrengthBonus :: rat
  runSpeedBonus :: rat
  recoveryBattlesRemaining :: int
  rosterKey :: "string option"
  unlockedTechniques :: "string list"
  equippedTechnique :: "string option"
  techniqueUsed :: bool
  deploymentType :: "ptype option"
  equipmentId :: "string option"
  mercenaryStrengthBonus :: rat
  mercenarySpeedBonus :: rat
  mercenaryFieldBonusLabel :: "string option"
  originType :: "string option"
  deploymentSlot :: "string option"
  pieceIdentity :: "identity option"

definition fresh_piece :: "string \<Rightarrow> ptype \<Rightarrow> color \<Rightarrow> string \<Rightarrow> piece" where
  "fresh_piece i t c sq =
     \<lparr>p_id = i, p_type = t, p_color = c, p_square = sq, strengthPoints = 0, speedPoints = 0,
      bankedXp = 0, equipmentStrengthBonus = 0, equipmentSpeedBonus = 0, runStrengthBonus = 0,
      runSpeedBonus = 0, recoveryBattlesRemaining = 0, rosterKey = None, unlockedTechniques = [],
      equippedTechnique = None, techniqueUsed = False, deploymentType = None, equipmentId = None,
      mercenaryStrengthBonus = 0, mercenarySpeedBonus = 0, mercenaryFieldBonusLabel = None,
      originType = None, deploymentSlot = None, pieceIdentity = None\<rparr>"

type_synonym registry = "(string, piece) obj"

record base_stats =
  bs_strength :: rat
  bs_speed :: rat
  bs_name :: string

definition BASE_STATS :: "ptype \<Rightarrow> base_stats" where
  "BASE_STATS t =
     (case t of
        Pawn \<Rightarrow> \<lparr>bs_strength = 1, bs_speed = 8, bs_name = ''Pe'' @ [CHR 0xF3] @ ''n''\<rparr>
      | Knight \<Rightarrow> \<lparr>bs_strength = 3, bs_speed = 30, bs_name = ''Caballo''\<rparr>
      | Bishop \<Rightarrow> \<lparr>bs_strength = 3, bs_speed = 18, bs_name = ''Alfil''\<rparr>
      | Rook \<Rightarrow> \<lparr>bs_strength = 5, bs_speed = 6, bs_name = ''Torre''\<rparr>
      | Queen \<Rightarrow> \<lparr>bs_strength = 9, bs_speed = 20, bs_name = ''Dama''\<rparr>
      | King \<Rightarrow> \<lparr>bs_strength = 4, bs_speed = 12, bs_name = ''Rey''\<rparr>)"

definition PIECE_XP_VALUE :: "ptype \<Rightarrow> int" where
  "PIECE_XP_VALUE t = (case t of Pawn \<Rightarrow> 1 | Knight \<Rightarrow> 3 | Bishop \<Rightarrow> 3 | Rook \<Rightarrow> 5 | Queen \<Rightarrow> 9 | King \<Rightarrow> 0)"

definition STRENGTH_POINT_VALUE :: rat where "STRENGTH_POINT_VALUE = 3 / 2"
definition SPEED_POINT_VALUE :: rat where "SPEED_POINT_VALUE = 3"
definition HOME_SQUARE_BONUS :: rat where "HOME_SQUARE_BONUS = fl (12 / 100)"
definition FOCUS_BONUS_PER_STACK :: rat where "FOCUS_BONUS_PER_STACK = fl (4 / 100)"
definition FOCUS_MAX_STACKS :: int where "FOCUS_MAX_STACKS = 5"
definition ATTACK_STRENGTH_SCALE :: rat where "ATTACK_STRENGTH_SCALE = 1 / 2"
definition BASE_SPEED_EVASION_SCALE :: rat where "BASE_SPEED_EVASION_SCALE = fl (15 / 100)"
definition SPEED_UPGRADE_EVASION_SCALE :: rat where "SPEED_UPGRADE_EVASION_SCALE = 1 / 4"
definition POWER_TO_CHANCE :: rat where "POWER_TO_CHANCE = fl (5 / 100)"

section \<open>XP, points and levels\<close>

definition costForNextPoint :: "int \<Rightarrow> int" where
  "costForNextPoint currentPoints = currentPoints + 1"

definition derivedLevel :: "piece \<Rightarrow> int" where
  "derivedLevel piece =
     (let permanentStrength = max 0 (strengthPoints piece - equipmentStrengthBonus piece);
          permanentSpeed = max 0 (speedPoints piece - equipmentSpeedBonus piece)
      in 1 + permanentStrength + permanentSpeed)"

definition levelTier :: "int \<Rightarrow> string" where
  "levelTier level =
     (if 6 \<le> level then ''gold'' else if 4 \<le> level then ''silver''
      else if 2 \<le> level then ''bronze'' else ''none'')"

definition statsFor :: "piece \<Rightarrow> rat \<times> rat" where
  "statsFor piece =
     (let base = BASE_STATS (p_type piece)
      in (bs_strength base + of_int (strengthPoints piece) * STRENGTH_POINT_VALUE + runStrengthBonus piece,
          bs_speed base + of_int (speedPoints piece) * SPEED_POINT_VALUE + runSpeedBonus piece))"

datatype stat = Strength | Speed

definition buyStatPoint :: "piece \<Rightarrow> stat \<Rightarrow> piece option" where
  "buyStatPoint piece stat =
     (if p_type piece = King then None
      else let current = (case stat of Strength \<Rightarrow> strengthPoints piece | Speed \<Rightarrow> speedPoints piece);
               cost = costForNextPoint current
           in if bankedXp piece < cost then None
              else Some (case stat of
                  Strength \<Rightarrow> piece\<lparr>strengthPoints := current + 1, bankedXp := bankedXp piece - cost\<rparr>
                | Speed \<Rightarrow> piece\<lparr>speedPoints := current + 1, bankedXp := bankedXp piece - cost\<rparr>))"

text \<open>The \<open>while (true)\<close> loop of \<open>autoLevelUp\<close>: it stops because the points grow, and once
  they are not negative each pair costs at least one XP.\<close>

function level_loop :: "piece \<Rightarrow> piece" where
  "level_loop current =
     (let pairCost = costForNextPoint (strengthPoints current) + costForNextPoint (speedPoints current)
      in if bankedXp current < pairCost then current
         else level_loop (current\<lparr>strengthPoints := strengthPoints current + 1,
                                  speedPoints := speedPoints current + 1,
                                  bankedXp := bankedXp current - pairCost\<rparr>))"
  by pat_completeness auto
termination
proof (relation "measures [\<lambda>p. nat (2 - (strengthPoints p + speedPoints p)), \<lambda>p. nat (bankedXp p)]")
  show "wf (measures [\<lambda>p. nat (2 - (strengthPoints p + speedPoints p)), \<lambda>p. nat (bankedXp p)])"
    by simp
qed (auto simp: costForNextPoint_def)

declare level_loop.simps [simp del]

definition autoLevelUp :: "piece \<Rightarrow> piece" where
  "autoLevelUp piece = (if p_type piece = King then piece else level_loop piece)"

section \<open>The chance to hit\<close>

definition attackPower :: "piece \<Rightarrow> rat" where
  "attackPower piece = fst (statsFor piece) * ATTACK_STRENGTH_SCALE"

definition evasionPower :: "piece \<Rightarrow> rat" where
  "evasionPower piece =
     (let base = BASE_STATS (p_type piece);
          purchasedSpeed = max 0 (snd (statsFor piece) - bs_speed base)
      in fadd (fmul (bs_speed base) BASE_SPEED_EVASION_SCALE) (purchasedSpeed * SPEED_UPGRADE_EVASION_SCALE))"

definition startSquare :: "piece \<Rightarrow> string option" where
  "startSquare piece = (if p_id piece = [] then None else nth_opt (split_on (CHR ''-'') (p_id piece)) 2)"

definition on_start_square :: "piece \<Rightarrow> bool" where
  "on_start_square piece \<longleftrightarrow>
     (case startSquare piece of None \<Rightarrow> False | Some s \<Rightarrow> s \<noteq> [] \<and> p_square piece = s)"

definition hitChance :: "piece \<Rightarrow> piece option \<Rightarrow> int \<Rightarrow> rat" where
  "hitChance attacker defender focusStreak =
     (case defender of
        None \<Rightarrow> 1
      | Some def \<Rightarrow>
          if p_type def = King then 1
          else if p_type attacker = King then 1
          else let a = attackPower attacker;
                   d = evasionPower def;
                   chance = fadd (fl (65 / 100)) (fmul (fsub a d) POWER_TO_CHANCE);
                   chance = (if on_start_square attacker then fadd chance HOME_SQUARE_BONUS else chance);
                   chance = (if 0 < focusStreak
                             then fadd chance (fmul (of_int (min focusStreak FOCUS_MAX_STACKS)) FOCUS_BONUS_PER_STACK)
                             else chance)
               in min (fl (9 / 10)) (max (1 / 2) chance))"

record focus_tracker =
  ft_targetId :: string
  ft_streak :: int

definition nextFocusTracker :: "focus_tracker option \<Rightarrow> bool \<Rightarrow> bool \<Rightarrow> string option \<Rightarrow> focus_tracker option" where
  "nextFocusTracker current isCapture hit defenderId =
     (case defenderId of
        None \<Rightarrow> None
      | Some d \<Rightarrow>
          if \<not> isCapture \<or> d = [] \<or> hit then None
          else Some \<lparr>ft_targetId = d,
                     ft_streak = (case current of
                        Some c \<Rightarrow> if ft_targetId c = d then ft_streak c + 1 else 1
                      | None \<Rightarrow> 1)\<rparr>)"

section \<open>The chess.js interface\<close>

record applied =
  ap_from :: string
  ap_to :: string
  ap_flags :: string
  ap_color :: color
  ap_piece :: ptype
  ap_captured :: "ptype option"
  ap_promotion :: "ptype option"
  ap_san :: string

record 'c chess_api =
  ch_new :: "string \<Rightarrow> 'c option"
  ch_fen :: "'c \<Rightarrow> string"
  ch_turn :: "'c \<Rightarrow> color"
  ch_inCheck :: "'c \<Rightarrow> bool"
  ch_isCheckmate :: "'c \<Rightarrow> bool"
  ch_move :: "string \<Rightarrow> string \<Rightarrow> ptype \<Rightarrow> 'c \<Rightarrow> (applied \<times> 'c) option"
  ch_moves :: "'c \<Rightarrow> applied list"
  ch_moves_from :: "string \<Rightarrow> 'c \<Rightarrow> applied list"
  ch_board :: "'c \<Rightarrow> (ptype \<times> color) option list list"
  ch_get :: "string \<Rightarrow> 'c \<Rightarrow> (ptype \<times> color) option"
  ch_put :: "ptype \<Rightarrow> color \<Rightarrow> string \<Rightarrow> 'c \<Rightarrow> 'c option"
  ch_remove :: "string \<Rightarrow> 'c \<Rightarrow> 'c"

definition is_capture :: "applied \<Rightarrow> bool" where
  "is_capture a \<longleftrightarrow> CHR ''c'' \<in> set (ap_flags a) \<or> CHR ''e'' \<in> set (ap_flags a)"

definition promotion_or_queen :: "ptype option \<Rightarrow> ptype" where
  "promotion_or_queen p = (case p of None \<Rightarrow> Queen | Some t \<Rightarrow> t)"

definition isForcedCombatCapture ::
  "'c chess_api \<Rightarrow> string \<Rightarrow> string \<Rightarrow> string \<Rightarrow> ptype option \<Rightarrow> bool" where
  "isForcedCombatCapture api fen from to promotion =
     (case ch_new api fen of
        None \<Rightarrow> False
      | Some chess \<Rightarrow>
          let startedInCheck = ch_inCheck api chess
          in case ch_move api from to (promotion_or_queen promotion) chess of
               None \<Rightarrow> False
             | Some (app, chess') \<Rightarrow>
                 if \<not> is_capture app then False
                 else startedInCheck \<or> ch_isCheckmate api chess')"

section \<open>The registry\<close>

definition files :: string where "files = ''abcdefgh''"

definition square_name :: "nat \<Rightarrow> nat \<Rightarrow> string" where
  "square_name r f = (files ! f) # show_nat (8 - r)"

definition initial_entry :: "(ptype \<times> color) option list list \<Rightarrow> nat \<Rightarrow> nat \<Rightarrow> registry \<Rightarrow> registry" where
  "initial_entry board r f registry =
     (case board ! r ! f of
        None \<Rightarrow> registry
      | Some (t, c) \<Rightarrow>
          let square = square_name r f;
              i = [color_char c] @ ''-'' @ [type_char t] @ ''-'' @ square
          in obj_put square (fresh_piece i t c square) registry)"

definition createInitialRegistry :: "'c chess_api \<Rightarrow> 'c \<Rightarrow> registry" where
  "createInitialRegistry api chess =
     fold (\<lambda>r. fold (initial_entry (ch_board api chess) r) [0..<8]) [0..<8] []"

datatype position_issue =
    FenInvalid | Missing string | ColorIssue string | TypeIssue string | SquareIssue string | Ghost string

definition square_issues :: "registry \<Rightarrow> registry \<Rightarrow> string \<Rightarrow> position_issue list" where
  "square_issues boardRegistry registry square =
     (case (obj_get boardRegistry square, obj_get registry square) of
        (Some expected, Some actual) \<Rightarrow>
          (if p_color actual \<noteq> p_color expected then [ColorIssue square] else []) @
          (if p_type actual \<noteq> p_type expected then [TypeIssue square] else []) @
          (if p_square actual \<noteq> square then [SquareIssue square] else [])
      | _ \<Rightarrow> [Missing square])"

definition combatPositionIssues :: "'c chess_api \<Rightarrow> string \<Rightarrow> registry \<Rightarrow> position_issue list" where
  "combatPositionIssues api fen registry =
     (case ch_new api fen of
        None \<Rightarrow> [FenInvalid]
      | Some chess \<Rightarrow>
          let boardRegistry = createInitialRegistry api chess;
              boardSquares = sort (obj_keys boardRegistry);
              registrySquares = sort (obj_keys registry)
          in concat (map (square_issues boardRegistry registry) boardSquares) @
             map Ghost (filter (\<lambda>square. obj_get boardRegistry square = None) registrySquares))"

definition isCombatPositionCoherent :: "'c chess_api \<Rightarrow> string \<Rightarrow> registry \<Rightarrow> bool" where
  "isCombatPositionCoherent api fen registry \<longleftrightarrow> combatPositionIssues api fen registry = []"

definition rosterKeyFor :: "piece \<Rightarrow> string" where
  "rosterKeyFor piece =
     (case rosterKey piece of
        Some k \<Rightarrow> if k \<noteq> [] then k else
          (case split_on (CHR ''-'') (p_id piece) of
             _ # t # s # _ \<Rightarrow> if t \<noteq> [] \<and> s \<noteq> [] then t @ ''-'' @ [hd s] else []
           | _ \<Rightarrow> [])
      | None \<Rightarrow>
          (case split_on (CHR ''-'') (p_id piece) of
             _ # t # s # _ \<Rightarrow> if t \<noteq> [] \<and> s \<noteq> [] then t @ ''-'' @ [hd s] else []
           | _ \<Rightarrow> []))"

record slot =
  sl_type :: ptype
  sl_file :: char

definition CANONICAL_ROSTER_SLOTS :: "slot list" where
  "CANONICAL_ROSTER_SLOTS =
    [\<lparr>sl_type = Rook, sl_file = CHR ''a''\<rparr>, \<lparr>sl_type = Knight, sl_file = CHR ''b''\<rparr>,
     \<lparr>sl_type = Bishop, sl_file = CHR ''c''\<rparr>, \<lparr>sl_type = Queen, sl_file = CHR ''d''\<rparr>,
     \<lparr>sl_type = King, sl_file = CHR ''e''\<rparr>, \<lparr>sl_type = Bishop, sl_file = CHR ''f''\<rparr>,
     \<lparr>sl_type = Knight, sl_file = CHR ''g''\<rparr>, \<lparr>sl_type = Rook, sl_file = CHR ''h''\<rparr>] @
    map (\<lambda>f. \<lparr>sl_type = Pawn, sl_file = f\<rparr>) files"

definition rosterSlotKey :: "slot \<Rightarrow> string" where
  "rosterSlotKey slot = [type_char (sl_type slot)] @ ''-'' @ [sl_file slot]"

definition reviveCost :: "ptype \<Rightarrow> int" where
  "reviveCost t = (case t of Pawn \<Rightarrow> 8 | Knight \<Rightarrow> 15 | Bishop \<Rightarrow> 15 | Rook \<Rightarrow> 20 | Queen \<Rightarrow> 30 | King \<Rightarrow> 10)"

definition char_at :: "string \<Rightarrow> nat \<Rightarrow> string" where
  "char_at s i = (case nth_opt s i of None \<Rightarrow> ''undefined'' | Some c \<Rightarrow> [c])"

definition capturedSquareFor :: "applied \<Rightarrow> string" where
  "capturedSquareFor app =
     (if CHR ''e'' \<in> set (ap_flags app) then char_at (ap_to app) 0 @ char_at (ap_from app) 1 else ap_to app)"

definition xpGainForPiece :: "piece \<Rightarrow> int \<Rightarrow> int" where
  "xpGainForPiece piece gained =
     (let amount = max 0 gained
      in if amount \<le> 0 then 0
         else if 0 < recoveryBattlesRemaining piece then (amount + 1) div 2 else amount)"

definition castle_rook :: "applied \<Rightarrow> registry \<Rightarrow> registry" where
  "castle_rook app registry =
     (if CHR ''k'' \<in> set (ap_flags app) \<or> CHR ''q'' \<in> set (ap_flags app)
      then let rank = (if ap_color app = White then ''1'' else ''8'');
               short = CHR ''k'' \<in> set (ap_flags app);
               rookFrom = (if short then ''h'' else ''a'') @ rank;
               rookTo = (if short then ''f'' else ''d'') @ rank
           in case obj_get registry rookFrom of
                None \<Rightarrow> registry
              | Some rook \<Rightarrow> obj_put rookTo (rook\<lparr>p_square := rookTo\<rparr>) (obj_del rookFrom registry)
      else registry)"

definition moved_piece :: "applied \<Rightarrow> piece \<Rightarrow> piece option \<Rightarrow> piece" where
  "moved_piece app mover capturedPiece =
     (let updated = mover\<lparr>p_square := ap_to app\<rparr>;
          updated = (case ap_promotion app of
              Some t \<Rightarrow> if CHR ''p'' \<in> set (ap_flags app) then updated\<lparr>p_type := t\<rparr> else updated
            | None \<Rightarrow> updated)
      in case capturedPiece of
           Some cap \<Rightarrow> if p_type updated \<noteq> King
                       then updated\<lparr>bankedXp := bankedXp updated + xpGainForPiece updated (PIECE_XP_VALUE (p_type cap))\<rparr>
                       else updated
         | None \<Rightarrow> updated)"

definition applyMoveToRegistry :: "registry \<Rightarrow> applied \<Rightarrow> registry" where
  "applyMoveToRegistry registry app =
     (case obj_get registry (ap_from app) of
        None \<Rightarrow> registry
      | Some mover \<Rightarrow>
          let capturedSquare = (if is_capture app then Some (capturedSquareFor app) else None);
              capturedPiece = (case capturedSquare of None \<Rightarrow> None | Some s \<Rightarrow> obj_get registry s);
              cleared = obj_del (ap_from app) registry;
              cleared = (case capturedSquare of None \<Rightarrow> cleared | Some s \<Rightarrow> obj_del s cleared)
          in castle_rook app (obj_put (ap_to app) (moved_piece app mover capturedPiece) cleared))"

definition applySurvivalXp :: "registry \<Rightarrow> string \<Rightarrow> int \<Rightarrow> registry" where
  "applySurvivalXp registry square gained =
     (case obj_get registry square of
        None \<Rightarrow> registry
      | Some piece \<Rightarrow>
          if gained \<le> 0 \<or> p_type piece = King then registry
          else obj_put square (piece\<lparr>bankedXp := bankedXp piece + xpGainForPiece piece gained\<rparr>) registry)"

section \<open>FEN text\<close>

text \<open>\<open>s.trim().split(/\s+/)\<close>: the blank-separated words; the empty text has one empty word.\<close>

definition blank_words :: "string \<Rightarrow> string list" where
  "blank_words s =
     (let ws = filter (\<lambda>w. w \<noteq> []) (split_on (CHR '' '') (map (\<lambda>c. if is_blank c then CHR '' '' else c) s))
      in if ws = [] then [[]] else ws)"

definition repetitionKey :: "string \<Rightarrow> string" where
  "repetitionKey fen = join_with '' '' (take 4 (blank_words fen))"

text \<open>\<open>parts[i] = v\<close> extends the array; a hole joins as the empty text.\<close>

definition js_assign :: "nat \<Rightarrow> string \<Rightarrow> string list \<Rightarrow> string list" where
  "js_assign i v xs = (if i < length xs then xs[i := v] else xs @ replicate (i - length xs) [] @ [v])"

definition part_or :: "string list \<Rightarrow> nat \<Rightarrow> string \<Rightarrow> string" where
  "part_or parts i dflt =
     (case nth_opt parts i of None \<Rightarrow> dflt | Some s \<Rightarrow> if s = [] then dflt else s)"

definition counter_after :: "string \<Rightarrow> int \<Rightarrow> string" where
  "counter_after s dflt = show_int (case parse_int s of Some n \<Rightarrow> n + 1 | None \<Rightarrow> dflt)"

definition passTurnFen :: "string \<Rightarrow> string" where
  "passTurnFen fen =
     (let parts = split_on (CHR '' '') fen;
          sideThatMissed = nth_opt parts 1;
          parts = js_assign 1 (if sideThatMissed = Some ''w'' then ''b'' else ''w'') parts;
          parts = js_assign 3 ''-'' parts;
          parts = js_assign 4 (counter_after (part_or parts 4 ''0'') 1) parts;
          parts = (if sideThatMissed = Some ''b''
                   then js_assign 5 (counter_after (part_or parts 5 ''1'') 2) parts else parts)
      in join_with '' '' parts)"

section \<open>Resolving a move\<close>

record resolution =
  rs_fen :: string
  rs_registry :: registry
  rs_isCapture :: bool
  rs_hit :: "bool option"
  rs_chance :: "rat option"
  rs_attacker :: piece
  rs_defender :: "piece option"
  rs_survivalXp :: int
  rs_applied :: applied

text \<open>\<open>afterMiss.load\<close> is outside every \<open>try\<close>: a FEN it rejects throws.\<close>

datatype combat_error = LoadThrows

definition survival_xp_for :: "piece \<Rightarrow> int" where
  "survival_xp_for attacker =
     (let v = PIECE_XP_VALUE (p_type attacker); v = (if v = 0 then 1 else v)
      in max 1 ((v + 1) div 2))"

definition landed :: "'c chess_api \<Rightarrow> 'c \<Rightarrow> registry \<Rightarrow> applied \<Rightarrow> piece \<Rightarrow> piece option \<Rightarrow> rat option \<Rightarrow> bool option \<Rightarrow> resolution" where
  "landed api chess registry app attacker defender chance hit =
     \<lparr>rs_fen = ch_fen api chess, rs_registry = applyMoveToRegistry registry app,
      rs_isCapture = (hit \<noteq> None), rs_hit = hit, rs_chance = chance, rs_attacker = attacker,
      rs_defender = defender, rs_survivalXp = 0, rs_applied = app\<rparr>"

text \<open>The tail of \<open>resolveCombatMove\<close>, for a capture whose roll failed against a defender.\<close>

definition resolve_dodge ::
  "'c chess_api \<Rightarrow> string \<Rightarrow> registry \<Rightarrow> applied \<Rightarrow> 'c \<Rightarrow> piece \<Rightarrow> piece option \<Rightarrow> rat \<Rightarrow> bool
   \<Rightarrow> combat_error + resolution option" where
  "resolve_dodge api fen registry app chess att defender chance protectMissTurnLegality =
     (let passedFen = passTurnFen fen
      in case ch_new api passedFen of
           None \<Rightarrow> Inl LoadThrows
         | Some afterMiss \<Rightarrow>
             if protectMissTurnLegality \<and> ch_moves api afterMiss = []
             then Inr (Some (landed api chess registry app att defender (Some chance) (Some True)))
             else let survivalXp = survival_xp_for att
                  in Inr (Some \<lparr>rs_fen = passedFen,
                       rs_registry = applySurvivalXp registry (capturedSquareFor app) survivalXp,
                       rs_isCapture = True, rs_hit = Some False, rs_chance = Some chance,
                       rs_attacker = att, rs_defender = defender,
                       rs_survivalXp = survivalXp, rs_applied = app\<rparr>))"

definition resolveCombatMove ::
  "'c chess_api \<Rightarrow> string \<Rightarrow> registry \<Rightarrow> string \<Rightarrow> string \<Rightarrow> ptype option \<Rightarrow> int \<Rightarrow> rat \<Rightarrow> bool \<Rightarrow> bool
   \<Rightarrow> combat_error + resolution option" where
  "resolveCombatMove api fen registry from to promotion focusStreak roll
     forceMatingCaptures protectMissTurnLegality =
     (case ch_new api fen of
        None \<Rightarrow> Inr None
      | Some chess0 \<Rightarrow>
          (case (ch_move api from to (promotion_or_queen promotion) chess0, obj_get registry from) of
             (Some (app, chess), Some att) \<Rightarrow>
               if \<not> is_capture app then Inr (Some (landed api chess registry app att None None None))
               else (let defender = obj_get registry (capturedSquareFor app);
                         mustSucceed = ch_inCheck api chess0;
                         deliversMate = forceMatingCaptures \<and> ch_isCheckmate api chess;
                         forcedHit = mustSucceed \<or> deliversMate;
                         chance = (if forcedHit then 1 else hitChance att defender focusStreak);
                         hit = forcedHit \<or> roll < chance
                     in if hit \<or> defender = None
                        then Inr (Some (landed api chess registry app att defender (Some chance) (Some True)))
                        else resolve_dodge api fen registry app chess att defender chance protectMissTurnLegality)
           | _ \<Rightarrow> Inr None))"

end
