(* ===== verification/CombatEngineProps.thy ===== *)
theory CombatEngineProps
  imports CombatEngine
begin

text \<open>
  What makes the Combat engine (\<open>CombatEngine\<close>) correct: the hit chance is bounded and
  monotone in the bought points although it is computed in binary64; XP is conserved by
  every purchase; the registry stays indexed by the squares its pieces stand on; a move out
  of check or a mating capture never misses, and a miss changes nothing but the turn and
  the XP of the piece that dodged.
\<close>

section \<open>The hit chance\<close>

text \<open>The chance before the final clamp, with the attack, the defence and the bonuses apart.\<close>

definition focus_bonus :: "int \<Rightarrow> rat" where
  "focus_bonus f = (if 0 < f then fmul (of_int (min f FOCUS_MAX_STACKS)) FOCUS_BONUS_PER_STACK else 0)"

definition raw_chance :: "rat \<Rightarrow> rat \<Rightarrow> bool \<Rightarrow> int \<Rightarrow> rat" where
  "raw_chance a d home f =
     (let c = fadd (fl (65 / 100)) (fmul (fsub a d) POWER_TO_CHANCE);
          c = (if home then fadd c HOME_SQUARE_BONUS else c)
      in if 0 < f then fadd c (focus_bonus f) else c)"

lemma constants_nonneg:
  "0 \<le> POWER_TO_CHANCE" "0 \<le> FOCUS_BONUS_PER_STACK" "0 \<le> HOME_SQUARE_BONUS"
  by (simp_all add: POWER_TO_CHANCE_def FOCUS_BONUS_PER_STACK_def HOME_SQUARE_BONUS_def fl_nonneg)

lemma hitChance_raw:
  "p_type def \<noteq> King \<Longrightarrow> p_type att \<noteq> King \<Longrightarrow>
   hitChance att (Some def) f =
     min (fl (9 / 10)) (max (1 / 2) (raw_chance (attackPower att) (evasionPower def) (on_start_square att) f))"
  by (simp add: hitChance_def raw_chance_def focus_bonus_def Let_def)

lemma focus_bonus_nonneg: "0 \<le> focus_bonus f"
  by (simp add: focus_bonus_def fmul_nonneg constants_nonneg FOCUS_MAX_STACKS_def)

lemma focus_bonus_mono: "f \<le> f' \<Longrightarrow> focus_bonus f \<le> focus_bonus f'"
  by (auto simp: focus_bonus_def FOCUS_MAX_STACKS_def intro!: fmul_mono fmul_nonneg constants_nonneg)

lemma raw_chance_mono:
  assumes "a \<le> a'" "d' \<le> d" "f \<le> f'"
  shows "raw_chance a d home f \<le> raw_chance a' d' home f'"
proof -
  define c where "c x y = (let c = fadd (fl (65 / 100)) (fmul (fsub x y) POWER_TO_CHANCE)
                           in if home then fadd c HOME_SQUARE_BONUS else c)" for x y
  have c_mono: "c a d \<le> c a' d'"
    unfolding c_def Let_def using assms
    by (auto intro!: fadd_mono fmul_mono fsub_mono constants_nonneg)
  have c_fl: "fl (c x y) = c x y" for x y by (simp add: c_def Let_def)
  have raw: "raw_chance x y home g = (if 0 < g then fadd (c x y) (focus_bonus g) else c x y)" for x y g
    by (simp add: raw_chance_def c_def Let_def)
  show ?thesis
  proof (cases "0 < f")
    case True
    then show ?thesis using assms(3) c_mono focus_bonus_mono [OF assms(3)] by (auto simp: raw intro: fadd_mono)
  next
    case False
    have "c a' d' \<le> fadd (c a' d') (focus_bonus f')" by (rule fadd_ge [OF c_fl focus_bonus_nonneg])
    then show ?thesis using False c_mono by (simp add: raw)
  qed
qed

lemma clamp_chance_mono: "x \<le> y \<Longrightarrow> min (u::rat) (max l x) \<le> min u (max l y)"
  by (auto simp: min_def max_def)

lemma hit_chance_mono:
  assumes "p_type att' = p_type att" "p_type def' = p_type def"
    "on_start_square att' = on_start_square att"
    "attackPower att \<le> attackPower att'" "evasionPower def' \<le> evasionPower def" "f \<le> f'"
  shows "hitChance att (Some def) f \<le> hitChance att' (Some def') f'"
proof (cases "p_type def = King \<or> p_type att = King")
  case True
  then show ?thesis using assms by (auto simp: hitChance_def)
next
  case False
  then have k: "p_type def \<noteq> King" "p_type att \<noteq> King" "p_type def' \<noteq> King" "p_type att' \<noteq> King"
    using assms by simp_all
  show ?thesis
    unfolding hitChance_raw [OF k(1,2)] hitChance_raw [OF k(3,4)] assms(3)
    by (intro clamp_chance_mono raw_chance_mono assms)
qed

lemma attackPower_strength: "0 \<le> k \<Longrightarrow> attackPower p \<le> attackPower (p\<lparr>strengthPoints := strengthPoints p + k\<rparr>)"
  by (simp add: attackPower_def statsFor_def Let_def STRENGTH_POINT_VALUE_def ATTACK_STRENGTH_SCALE_def)

lemma evasionPower_speed: "0 \<le> k \<Longrightarrow> evasionPower p \<le> evasionPower (p\<lparr>speedPoints := speedPoints p + k\<rparr>)"
  by (auto simp: evasionPower_def statsFor_def Let_def SPEED_POINT_VALUE_def SPEED_UPGRADE_EVASION_SCALE_def
      intro!: fadd_mono)

lemma on_start_square_points [simp]:
  "on_start_square (p\<lparr>strengthPoints := n\<rparr>) = on_start_square p"
  "on_start_square (p\<lparr>speedPoints := n\<rparr>) = on_start_square p"
  by (simp_all add: on_start_square_def startSquare_def split: option.splits)

text \<open>Buying strength never lowers the attacker's chance to hit, buying speed never raises
  the chance of being hit, and a longer focus streak never lowers it: exactly, in binary64.\<close>

theorem hit_chance_monotone:
  "hitChance att (Some def) f \<le> hitChance (att\<lparr>strengthPoints := strengthPoints att + int k\<rparr>) (Some def) f \<and>
   hitChance att (Some (def\<lparr>speedPoints := speedPoints def + int k\<rparr>)) f \<le> hitChance att (Some def) f \<and>
   hitChance att (Some def) f \<le> hitChance att (Some def) (f + int k)"
  by (intro conjI hit_chance_mono) (simp_all add: attackPower_strength evasionPower_speed)

lemma nine_tenths: "1 / 2 \<le> fl (9 / 10)" "fl (9 / 10) < 99 / 100"
proof -
  have "fl (9 / 10) = 8106479329266893 / 9007199254740992" by code_simp
  then show "1 / 2 \<le> fl (9 / 10)" "fl (9 / 10) < 99 / 100" by simp_all
qed

lemma hitChance_upper:
  "p_type def \<noteq> King \<Longrightarrow> p_type att \<noteq> King \<Longrightarrow> hitChance att (Some def) f \<le> fl (9 / 10)"
  by (simp add: hitChance_raw)

text \<open>A legal capture between two pieces that are not kings connects with a chance between
  1/2 and the double nearest 0.9; a king never dodges and never misses.\<close>

theorem hit_chance_bounds:
  "(if p_type def = King \<or> p_type att = King then hitChance att (Some def) f = 1
    else 1 / 2 \<le> hitChance att (Some def) f \<and> hitChance att (Some def) f \<le> fl (9 / 10)) \<and>
   hitChance att None f = 1"
  using hitChance_upper [of att def f] nine_tenths by (auto simp: hitChance_raw) (auto simp: hitChance_def)

section \<open>XP is a currency\<close>

text \<open>The XP that has gone into a piece: what is banked and what its points cost, at
  \<open>1 + 2 + ... + n\<close> for \<open>n\<close> points of a statistic.\<close>

definition points_cost :: "int \<Rightarrow> int" where
  "points_cost n = n * (n + 1) div 2"

definition total_xp :: "piece \<Rightarrow> int" where
  "total_xp p = bankedXp p + points_cost (strengthPoints p) + points_cost (speedPoints p)"

lemma points_cost_step: "points_cost (n + 1) = points_cost n + costForNextPoint n"
proof -
  have "(n + 1) * (n + 1 + 1) = n * (n + 1) + (n + 1) * 2" by (simp add: algebra_simps)
  then show ?thesis by (simp only: points_cost_def costForNextPoint_def) simp
qed

lemma level_loop_xp: "total_xp (level_loop p) = total_xp p"
proof (induction p rule: level_loop.induct)
  case (1 p)
  show ?case
  proof (cases "bankedXp p < costForNextPoint (strengthPoints p) + costForNextPoint (speedPoints p)")
    case True
    then show ?thesis by (subst level_loop.simps) (simp add: Let_def)
  next
    case False
    with "1.IH" [OF refl False] show ?thesis
      by (subst level_loop.simps) (simp add: Let_def total_xp_def points_cost_step)
  qed
qed

lemma level_loop_spent:
  "bankedXp (level_loop p) < costForNextPoint (strengthPoints (level_loop p)) + costForNextPoint (speedPoints (level_loop p))"
proof (induction p rule: level_loop.induct)
  case (1 p)
  show ?case
  proof (cases "bankedXp p < costForNextPoint (strengthPoints p) + costForNextPoint (speedPoints p)")
    case True
    then have "level_loop p = p" by (subst level_loop.simps) (simp add: Let_def)
    with True show ?thesis by simp
  next
    case False
    with "1.IH" [OF refl False] show ?thesis by (subst (1 2 3) level_loop.simps) (simp add: Let_def)
  qed
qed

lemma level_loop_nonneg: "0 \<le> bankedXp p \<Longrightarrow> 0 \<le> bankedXp (level_loop p)"
proof (induction p rule: level_loop.induct)
  case (1 p)
  show ?case
  proof (cases "bankedXp p < costForNextPoint (strengthPoints p) + costForNextPoint (speedPoints p)")
    case True
    then show ?thesis using "1.prems" by (subst level_loop.simps) (simp add: Let_def)
  next
    case False
    with "1.IH" [OF refl False] show ?thesis by (subst level_loop.simps) (simp add: Let_def)
  qed
qed

text \<open>Buying points and levelling up automatically conserve the XP invested in a piece,
  never overdraw the bank, leave less than the price of the next pair of points after an
  automatic levelling, and do nothing for a king.\<close>

theorem xp_conserved:
  assumes "0 \<le> bankedXp p"
  shows "(\<forall>q. buyStatPoint p st = Some q \<longrightarrow> total_xp q = total_xp p \<and> 0 \<le> bankedXp q) \<and>
     total_xp (autoLevelUp p) = total_xp p \<and> 0 \<le> bankedXp (autoLevelUp p) \<and>
     (if p_type p = King then autoLevelUp p = p \<and> buyStatPoint p st = None
      else bankedXp (autoLevelUp p) < costForNextPoint (strengthPoints (autoLevelUp p))
                                      + costForNextPoint (speedPoints (autoLevelUp p)))"
proof (intro conjI allI impI)
  fix q assume "buyStatPoint p st = Some q"
  then show "total_xp q = total_xp p" "0 \<le> bankedXp q"
    by (auto simp: buyStatPoint_def Let_def total_xp_def points_cost_step split: if_splits stat.splits)
qed (use assms in \<open>auto simp: autoLevelUp_def buyStatPoint_def level_loop_xp level_loop_nonneg level_loop_spent\<close>)

theorem xp_conserved_witness:
  "(0::int) \<le> bankedXp ((fresh_piece ''w-p-a2'' Pawn White ''a2'')\<lparr>bankedXp := 7\<rparr>) \<and>
   bankedXp (autoLevelUp ((fresh_piece ''w-p-a2'' Pawn White ''a2'')\<lparr>bankedXp := 7\<rparr>)) = 1 \<and>
   total_xp (autoLevelUp ((fresh_piece ''w-p-a2'' Pawn White ''a2'')\<lparr>bankedXp := 7\<rparr>)) = 7"
proof -
  let ?p = "(fresh_piece ''w-p-a2'' Pawn White ''a2'')\<lparr>bankedXp := 7\<rparr>"
  have h: "0 \<le> bankedXp ?p" by simp
  have "bankedXp (autoLevelUp ?p) = 1"
    by (simp add: autoLevelUp_def fresh_piece_def level_loop.simps costForNextPoint_def)
  moreover have "total_xp ?p = 7" by (simp add: total_xp_def fresh_piece_def points_cost_def)
  ultimately show ?thesis using h xp_conserved [OF h] by simp
qed

section \<open>The registry\<close>

text \<open>Keys are distinct and every piece knows its square.\<close>

definition reg_ok :: "registry \<Rightarrow> bool" where
  "reg_ok reg \<longleftrightarrow> obj_wf reg \<and> (\<forall>sq p. obj_get reg sq = Some p \<longrightarrow> p_square p = sq)"

lemma reg_ok_put: "reg_ok reg \<Longrightarrow> p_square p = sq \<Longrightarrow> reg_ok (obj_put sq p reg)"
  by (simp add: reg_ok_def distinct_update)

lemma reg_ok_del: "reg_ok reg \<Longrightarrow> reg_ok (obj_del sq reg)"
  by (simp add: reg_ok_def distinct_delete)

lemma reg_ok_square: "reg_ok reg \<Longrightarrow> obj_get reg sq = Some p \<Longrightarrow> p_square p = sq"
  by (simp add: reg_ok_def)

lemma p_square_moved [simp]: "p_square (moved_piece app mover cap) = ap_to app"
  by (simp add: moved_piece_def Let_def split: option.splits)

lemma castle_rook_ok: "reg_ok reg \<Longrightarrow> reg_ok (castle_rook app reg)"
  by (auto simp: castle_rook_def Let_def intro!: reg_ok_put reg_ok_del split: option.splits)

lemma apply_move_ok: "reg_ok reg \<Longrightarrow> reg_ok (applyMoveToRegistry reg app)"
  by (auto simp: applyMoveToRegistry_def Let_def intro!: castle_rook_ok reg_ok_put reg_ok_del
      split: option.splits)

lemma survival_ok: "reg_ok reg \<Longrightarrow> reg_ok (applySurvivalXp reg sq n)"
  by (auto simp: applySurvivalXp_def intro!: reg_ok_put dest: reg_ok_square split: option.splits)

lemma initial_entry_ok: "reg_ok reg \<Longrightarrow> reg_ok (initial_entry board r f reg)"
  by (auto simp: initial_entry_def Let_def fresh_piece_def intro!: reg_ok_put split: option.splits)

lemma initial_registry_ok: "reg_ok (createInitialRegistry api chess)"
proof -
  have row: "reg_ok (fold (initial_entry b r) fs reg)" if "reg_ok reg" for b r fs reg
    using that by (rule fold_invariant) (rule initial_entry_ok)
  have nil: "reg_ok []" by (simp add: reg_ok_def)
  show ?thesis unfolding createInitialRegistry_def
    by (rule fold_invariant [where P = reg_ok, OF nil]) (rule row)
qed

text \<open>The cases of a resolved move.\<close>

lemma resolve_call:
  assumes "resolveCombatMove api fen reg from to promo streak roll fm pm = Inr (Some r)"
  obtains chess0 app chess att where "ch_new api fen = Some chess0"
    "ch_move api from to (promotion_or_queen promo) chess0 = Some (app, chess)" "obj_get reg from = Some att"
proof -
  obtain chess0 where n: "ch_new api fen = Some chess0"
    using assms by (cases "ch_new api fen") (simp_all add: resolveCombatMove_def)
  obtain app chess where m: "ch_move api from to (promotion_or_queen promo) chess0 = Some (app, chess)"
    using assms by (cases "ch_move api from to (promotion_or_queen promo) chess0")
      (auto simp: resolveCombatMove_def n)
  obtain att where "obj_get reg from = Some att"
    using assms by (cases "obj_get reg from") (simp_all add: resolveCombatMove_def n m)
  with n m show thesis by (rule that)
qed

lemma landed_fields [simp]:
  "rs_fen (landed api chess reg app att d c h) = ch_fen api chess"
  "rs_registry (landed api chess reg app att d c h) = applyMoveToRegistry reg app"
  "rs_hit (landed api chess reg app att d c h) = h"
  by (simp_all add: landed_def)

text \<open>What a call that returns a result did: it landed the move, or it was a miss.\<close>

definition missed_with ::
  "'c chess_api \<Rightarrow> string \<Rightarrow> registry \<Rightarrow> int \<Rightarrow> rat \<Rightarrow> bool \<Rightarrow> bool \<Rightarrow> 'c \<Rightarrow> applied \<Rightarrow> 'c \<Rightarrow> piece \<Rightarrow> resolution \<Rightarrow> bool" where
  "missed_with api fen reg streak roll fm pm chess0 app chess att r \<longleftrightarrow>
     rs_hit r = Some False \<and> is_capture app \<and> \<not> ch_inCheck api chess0 \<and>
     \<not> (fm \<and> ch_isCheckmate api chess) \<and>
     \<not> roll < hitChance att (obj_get reg (capturedSquareFor app)) streak \<and>
     rs_fen r = passTurnFen fen \<and>
     rs_registry r = applySurvivalXp reg (capturedSquareFor app) (survival_xp_for att) \<and>
     (\<exists>after. ch_new api (passTurnFen fen) = Some after \<and> \<not> (pm \<and> ch_moves api after = []))"

lemma resolve_result:
  assumes res: "resolveCombatMove api fen reg from to promo streak roll fm pm = Inr (Some r)"
    and call: "ch_new api fen = Some chess0"
      "ch_move api from to (promotion_or_queen promo) chess0 = Some (app, chess)" "obj_get reg from = Some att"
  shows "r = landed api chess reg app att (rs_defender r) (rs_chance r) (if is_capture app then Some True else None) \<or>
    missed_with api fen reg streak roll fm pm chess0 app chess att r"
proof (cases "is_capture app")
  case False
  then show ?thesis using res by (simp add: resolveCombatMove_def call Let_def landed_def) auto
next
  case cap: True
  let ?def = "obj_get reg (capturedSquareFor app)"
  let ?forced = "ch_inCheck api chess0 \<or> fm \<and> ch_isCheckmate api chess"
  show ?thesis
  proof (cases "(?forced \<or> roll < hitChance att ?def streak) \<or> ?def = None")
    case True
    then show ?thesis using res cap by (auto simp: resolveCombatMove_def call Let_def landed_def split: if_splits)
  next
    case False
    then have "resolve_dodge api fen reg app chess att ?def (hitChance att ?def streak) pm = Inr (Some r)"
      using res cap by (auto simp: resolveCombatMove_def call Let_def)
    then show ?thesis using cap False
      by (auto simp: resolve_dodge_def Let_def landed_def missed_with_def split: option.splits if_splits)
  qed
qed

text \<open>A concrete instance of the chess.js interface for the witnesses: a position is its FEN, one
  capture (a pawn takes on d5) is offered in every position.\<close>

definition sample_capture :: applied where
  "sample_capture =
     \<lparr>ap_from = ''e4'', ap_to = ''d5'', ap_flags = ''c'', ap_color = White, ap_piece = Pawn,
      ap_captured = Some Knight, ap_promotion = None, ap_san = ''exd5''\<rparr>"

definition sample_api :: "string chess_api" where
  "sample_api =
     \<lparr>ch_new = Some, ch_fen = (\<lambda>c. c), ch_turn = (\<lambda>_. White), ch_inCheck = (\<lambda>_. False),
      ch_isCheckmate = (\<lambda>_. False), ch_move = (\<lambda>_ _ _ c. Some (sample_capture, c)),
      ch_moves = (\<lambda>_. [sample_capture]), ch_moves_from = (\<lambda>_ _. [sample_capture]),
      ch_board = (\<lambda>_. replicate 8 (replicate 8 None)), ch_get = (\<lambda>_ _. None),
      ch_put = (\<lambda>_ _ _ c. Some c), ch_remove = (\<lambda>_ c. c)\<rparr>"

definition sample_registry :: registry where
  "sample_registry =
     [(''e4'', fresh_piece ''w-p-e2'' Pawn White ''e4''), (''d5'', fresh_piece ''b-n-g8'' Knight Black ''d5'')]"

definition sample_fen :: string where
  "sample_fen = ''4k3/8/8/3n4/4P3/8/8/4K3 w - - 3 9''"

definition sample_miss :: resolution where
  "sample_miss =
     \<lparr>rs_fen = ''4k3/8/8/3n4/4P3/8/8/4K3 b - - 4 9'',
      rs_registry = [(''e4'', fresh_piece ''w-p-e2'' Pawn White ''e4''),
                     (''d5'', (fresh_piece ''b-n-g8'' Knight Black ''d5'')\<lparr>bankedXp := 1\<rparr>)],
      rs_isCapture = True, rs_hit = Some False,
      rs_chance = Some (hitChance (fresh_piece ''w-p-e2'' Pawn White ''e4'')
                          (Some (fresh_piece ''b-n-g8'' Knight Black ''d5'')) 0),
      rs_attacker = fresh_piece ''w-p-e2'' Pawn White ''e4'',
      rs_defender = Some (fresh_piece ''b-n-g8'' Knight Black ''d5''), rs_survivalXp = 1,
      rs_applied = sample_capture\<rparr>"

lemma sample_pass: "passTurnFen sample_fen = ''4k3/8/8/3n4/4P3/8/8/4K3 b - - 4 9''"
  unfolding sample_fen_def by code_simp

lemma sample_resolves:
  "resolveCombatMove sample_api sample_fen sample_registry ''e4'' ''d5'' None 0 (99 / 100) True True
     = Inr (Some sample_miss)"
proof -
  have hc: "\<not> 99 / 100 < hitChance (fresh_piece ''w-p-e2'' Pawn White ''e4'')
                    (Some (fresh_piece ''b-n-g8'' Knight Black ''d5'')) 0"
    using hitChance_upper [of "fresh_piece ''b-n-g8'' Knight Black ''d5''" "fresh_piece ''w-p-e2'' Pawn White ''e4''" 0]
      nine_tenths(2) by (simp add: fresh_piece_def)
  show ?thesis
    using hc
    by (simp add: resolveCombatMove_def resolve_dodge_def sample_api_def sample_registry_def is_capture_def
        sample_capture_def Let_def capturedSquareFor_def sample_pass sample_miss_def
        applySurvivalXp_def survival_xp_for_def PIECE_XP_VALUE_def xpGainForPiece_def)
      (simp add: fresh_piece_def)
qed

lemma sample_registry_ok: "reg_ok sample_registry"
  by (simp add: reg_ok_def sample_registry_def fresh_piece_def)

text \<open>C28: a resolved move keeps the registry indexed by square, whatever chess.js answers and
  whichever way the dice fall; so does the registry a battle starts from.\<close>

theorem resolve_registry_ok:
  assumes "reg_ok reg"
    and "resolveCombatMove api fen reg from to promo streak roll fm pm = Inr (Some r)"
  shows "reg_ok (rs_registry r) \<and> reg_ok (createInitialRegistry api chess)"
proof -
  obtain chess0 app chess' att where call: "ch_new api fen = Some chess0"
    "ch_move api from to (promotion_or_queen promo) chess0 = Some (app, chess')" "obj_get reg from = Some att"
    using resolve_call [OF assms(2)] .
  have "rs_registry r = applyMoveToRegistry reg app \<or>
        rs_registry r = applySurvivalXp reg (capturedSquareFor app) (survival_xp_for att)"
    using resolve_result [OF assms(2) call] by (metis landed_fields(2) missed_with_def)
  then show ?thesis
    using apply_move_ok [OF assms(1)] survival_ok [OF assms(1)] initial_registry_ok by auto
qed

theorem resolve_registry_ok_witness: "reg_ok sample_registry \<and> reg_ok (rs_registry sample_miss)"
  using resolve_registry_ok [OF sample_registry_ok sample_resolves] sample_registry_ok by simp

text \<open>C4: the integrity rules of the mode. A move made while in check never misses, nor does a capture
  that mates when the caller forces mating captures, as every caller does but the virtual rook of line fire
  (\<open>combatTechniques.js\<close>), whose mates may miss. A miss plays no move: the FEN is the passed turn, no piece moves, appears
  or disappears, and every piece but the one that dodged is exactly as before; the dodger
  gains at most the survival XP. It only happens when the roll reaches the hit chance and,
  with the legality guard on, when the opponent is left with a move.\<close>

theorem miss_is_harmless:
  assumes "resolveCombatMove api fen reg from to promo streak roll fm pm = Inr (Some r)"
    and "rs_hit r = Some False"
    and "ch_new api fen = Some chess0"
    and "ch_move api from to (promotion_or_queen promo) chess0 = Some (app, chess)"
  shows "\<not> ch_inCheck api chess0 \<and> \<not> (fm \<and> ch_isCheckmate api chess) \<and>
    rs_fen r = passTurnFen fen \<and>
    set (obj_keys (rs_registry r)) = set (obj_keys reg) \<and>
    (\<forall>sq p. sq \<noteq> capturedSquareFor app \<longrightarrow> obj_get (rs_registry r) sq = obj_get reg sq) \<and>
    (\<forall>p. obj_get reg (capturedSquareFor app) = Some p \<longrightarrow>
       (\<exists>gain. 0 \<le> gain \<and> gain \<le> 5 \<and>
          obj_get (rs_registry r) (capturedSquareFor app) = Some (p\<lparr>bankedXp := bankedXp p + gain\<rparr>))) \<and>
    (\<exists>after. ch_new api (passTurnFen fen) = Some after \<and> (pm \<longrightarrow> ch_moves api after \<noteq> []))"
proof -
  obtain att where att: "obj_get reg from = Some att"
    using resolve_call [OF assms(1)] by metis
  have miss: "missed_with api fen reg streak roll fm pm chess0 app chess att r"
    using resolve_result [OF assms(1,3,4) att] assms(2) by (metis landed_fields(3) option.inject option.simps(3))
  let ?sq = "capturedSquareFor app"
  have reg: "rs_registry r = applySurvivalXp reg ?sq (survival_xp_for att)"
    using miss by (simp add: missed_with_def)
  have keys: "set (obj_keys (applySurvivalXp reg sq n)) = set (obj_keys reg)" for sq n
  proof (cases "obj_get reg sq")
    case None
    then show ?thesis by (simp add: applySurvivalXp_def)
  next
    case (Some p)
    then have "sq \<in> set (obj_keys reg)" by (subst jsobj.keys_get) simp
    then have "set (obj_keys (obj_put sq q reg)) = set (obj_keys reg)" for q
      by (simp only: jsobj.set_keys_put insert_absorb)
    then show ?thesis using Some by (simp only: applySurvivalXp_def option.case if_split) simp
  qed
  have other: "obj_get (applySurvivalXp reg sq n) sq' = obj_get reg sq'" if "sq' \<noteq> sq" for sq sq' n
    using that by (simp add: applySurvivalXp_def split: option.splits)
  have xp: "1 \<le> survival_xp_for att \<and> survival_xp_for att \<le> 5"
    by (cases "p_type att") (simp_all add: survival_xp_for_def PIECE_XP_VALUE_def)
  have gain: "\<exists>gain. 0 \<le> gain \<and> gain \<le> 5 \<and>
      obj_get (applySurvivalXp reg ?sq (survival_xp_for att)) ?sq = Some (p\<lparr>bankedXp := bankedXp p + gain\<rparr>)"
    if "obj_get reg ?sq = Some p" for p
  proof (cases "p_type p = King")
    case True
    then show ?thesis using that by (intro exI [of _ 0]) (simp add: applySurvivalXp_def)
  next
    case False
    have "0 \<le> xpGainForPiece p (survival_xp_for att)" "xpGainForPiece p (survival_xp_for att) \<le> 5"
      using xp by (auto simp: xpGainForPiece_def Let_def)
    then show ?thesis using that False xp
      by (intro exI [of _ "xpGainForPiece p (survival_xp_for att)"]) (simp add: applySurvivalXp_def)
  qed
  show ?thesis using miss reg keys other gain by (auto simp: missed_with_def)
qed

theorem miss_is_harmless_witness:
  "rs_hit sample_miss = Some False \<and> rs_fen sample_miss = passTurnFen sample_fen \<and>
   obj_get (rs_registry sample_miss) ''e4'' = obj_get sample_registry ''e4''"
proof -
  have h: "rs_hit sample_miss = Some False" by (simp add: sample_miss_def)
  have n: "ch_new sample_api sample_fen = Some sample_fen" by (simp add: sample_api_def)
  have m: "ch_move sample_api ''e4'' ''d5'' (promotion_or_queen None) sample_fen = Some (sample_capture, sample_fen)"
    by (simp add: sample_api_def)
  have c: "capturedSquareFor sample_capture = ''d5''"
    by (simp add: capturedSquareFor_def sample_capture_def)
  show ?thesis using miss_is_harmless [OF sample_resolves h n m] h unfolding c by auto
qed

section \<open>Turns lost and positions compared\<close>

lemma show_nat_no_blank: "CHR '' '' \<notin> set (show_nat n)"
  using show_nat_digits [of n] digit_not_special(4) by blast

lemma counter_after_show: "counter_after (part_or [a, b, c, d, show_nat h, show_nat n] 4 ''0'') 1 = show_nat (Suc h)"
  "counter_after (part_or [a, b, c, d, e, show_nat n] 5 ''1'') 2 = show_nat (Suc n)"
  by (simp_all add: counter_after_def part_or_def nth_opt_def parse_int_show_nat show_int_def nat_add_distrib)

text \<open>Losing a turn on a FEN with its six fields hands the move to the other side, forgets
  the en passant square, advances the fifty-move counter, advances the move number exactly
  after Black, and leaves the placement and the castling rights alone.\<close>

theorem pass_turn_fields:
  assumes "CHR '' '' \<notin> set placement" "CHR '' '' \<notin> set castling" "CHR '' '' \<notin> set ep"
  shows "passTurnFen (join_with '' '' [placement, ''w'', castling, ep, show_nat h, show_nat n])
           = join_with '' '' [placement, ''b'', castling, ''-'', show_nat (Suc h), show_nat n] \<and>
         passTurnFen (join_with '' '' [placement, ''b'', castling, ep, show_nat h, show_nat n])
           = join_with '' '' [placement, ''w'', castling, ''-'', show_nat (Suc h), show_nat (Suc n)]"
proof -
  have split: "split_on (CHR '' '') (join_with '' '' [placement, side, castling, ep, show_nat h, show_nat n])
      = [placement, side, castling, ep, show_nat h, show_nat n]" if "CHR '' '' \<notin> set side" for side
    using assms that show_nat_no_blank by (intro split_join) auto
  have upd: "js_assign (Suc 0) s [a, b, c, d, e, f] = [a, s, c, d, e, f]"
    "js_assign 3 s [a, b, c, d, e, f] = [a, b, c, s, e, f]"
    "js_assign 4 s [a, b, c, d, e, f] = [a, b, c, d, s, f]"
    "js_assign 5 s [a, b, c, d, e, f] = [a, b, c, d, e, s]" for s a b c d e f
    by (simp_all add: js_assign_def eval_nat_numeral)
  show ?thesis
    by (simp only: passTurnFen_def split [of "''w''"] split [of "''b''"] Let_def)
      (simp add: split nth_opt_def upd counter_after_show del: join_with.simps)
qed

theorem pass_turn_fields_witness:
  "CHR '' '' \<notin> set ''8/8'' \<and>
   passTurnFen (join_with '' '' [''8/8'', ''b'', ''KQ'', ''e3'', show_nat 3, show_nat 9])
     = join_with '' '' [''8/8'', ''w'', ''KQ'', ''-'', show_nat 4, show_nat 10]"
  using pass_turn_fields [of "''8/8''" "''KQ''" "''e3''" 3 9] by (simp add: eval_nat_numeral)

text \<open>What two representations of one position owe each other.\<close>

definition same_position :: "registry \<Rightarrow> registry \<Rightarrow> bool" where
  "same_position board reg \<longleftrightarrow>
     set (obj_keys board) = set (obj_keys reg) \<and>
     list_all (\<lambda>sq. case (obj_get board sq, obj_get reg sq) of
        (Some e, Some a) \<Rightarrow> p_color a = p_color e \<and> p_type a = p_type e \<and> p_square a = sq
      | _ \<Rightarrow> False) (obj_keys board)"

lemma square_issues_Nil:
  "square_issues board reg sq = [] \<longleftrightarrow>
     (case (obj_get board sq, obj_get reg sq) of
        (Some e, Some a) \<Rightarrow> p_color a = p_color e \<and> p_type a = p_type e \<and> p_square a = sq
      | _ \<Rightarrow> False)"
  by (auto simp: square_issues_def split: option.splits)

text \<open>The check the game runs before it commits a turn or restores a snapshot is exact: a
  registry is coherent with a FEN precisely when chess.js accepts the FEN and both have the
  same squares with the same colours and types, every piece knowing its square. No issue is
  missed and none is invented.\<close>

theorem coherence_exact:
  "isCombatPositionCoherent api fen reg =
     (case ch_new api fen of None \<Rightarrow> False
      | Some chess \<Rightarrow> same_position (createInitialRegistry api chess) reg)"
proof (cases "ch_new api fen")
  case None
  then show ?thesis by (simp add: isCombatPositionCoherent_def combatPositionIssues_def)
next
  case (Some chess)
  let ?b = "createInitialRegistry api chess"
  let ?ok = "\<lambda>sq. case (obj_get ?b sq, obj_get reg sq) of
        (Some e, Some a) \<Rightarrow> p_color a = p_color e \<and> p_type a = p_type e \<and> p_square a = sq
      | _ \<Rightarrow> False"
  have keys: "k \<in> set (obj_keys d) \<longleftrightarrow> obj_get d k \<noteq> None" for k and d :: registry
    by (rule jsobj.keys_get)
  have "isCombatPositionCoherent api fen reg \<longleftrightarrow>
      (\<forall>sq \<in> set (obj_keys ?b). ?ok sq) \<and> (\<forall>sq \<in> set (obj_keys reg). obj_get ?b sq \<noteq> None)"
    unfolding isCombatPositionCoherent_def combatPositionIssues_def Some option.case Let_def append_is_Nil_conv
      concat_eq_Nil_conv map_is_Nil_conv filter_empty_conv set_map set_sort ball_simps square_issues_Nil
    by (rule refl)
  also have "\<dots> \<longleftrightarrow> (\<forall>sq \<in> set (obj_keys ?b). ?ok sq) \<and> set (obj_keys ?b) = set (obj_keys reg)"
  proof -
    have "sq \<in> set (obj_keys reg)" if "?ok sq" for sq
      using that unfolding keys by (auto split: option.splits)
    then show ?thesis unfolding keys [symmetric] by blast
  qed
  finally show ?thesis unfolding Some option.case same_position_def list_all_iff by blast
qed

end
