(* ===== verification/RunContent.thy ===== *)
theory RunContent
  imports CombatEngine "HOL-Library.Multiset"
begin

text \<open>
  The seeded content of a run: \<open>roguelikeModifiers.js\<close> (material modifiers and encounters),
  \<open>roguelikePerks.js\<close> (temporary perks, their draw and their effect on a registry),
  \<open>roguelikeBoss.js\<close> and \<open>combatBosses.js\<close> (the king's hit points) and
  \<open>combatEnemyDoctrine.js\<close> (the style that colours the engine's choice).

  Seeds are strings, floors natural numbers (every caller passes an integer). A seeded draw
  hashes its text with FNV-1a; dividing by \<open>2 ^ 32\<close> and multiplying by a small integer is
  exact in binary64, so \<open>seededUnit\<close> is a rational. The chess library is an argument of
  \<open>applyModifierToFen\<close>. Icons are left out.
\<close>

section \<open>Material modifiers\<close>

record modifier =
  mod_id :: string
  mod_label :: string
  mod_description :: string

definition ROGUELIKE_MODIFIERS :: "modifier list" where
  "ROGUELIKE_MODIFIERS =
    [\<lparr>mod_id = ''none'', mod_label = (''Material est'' @ [CHR 0xE1] @ ''ndar''),
      mod_description = (''Material est'' @ [CHR 0xE1] @ ''ndar; se usa s'' @ [CHR 0xF3] @ ''lo cuando otra mec'' @ [CHR 0xE1] @ ''nica especial ya define el encuentro.'')\<rparr>,
     \<lparr>mod_id = ''extra_knight'', mod_label = ''Caballo extra'',
      mod_description = (''La CPU empieza con un caballo de m'' @ [CHR 0xE1] @ ''s.'')\<rparr>,
     \<lparr>mod_id = ''extra_bishop'', mod_label = ''Alfil extra'',
      mod_description = (''La CPU empieza con un alfil de m'' @ [CHR 0xE1] @ ''s.'')\<rparr>,
     \<lparr>mod_id = ''extra_rook'', mod_label = ''Torre extra'',
      mod_description = (''La CPU empieza con una torre de m'' @ [CHR 0xE1] @ ''s.'')\<rparr>,
     \<lparr>mod_id = ''double_pawns'', mod_label = ''Doble peonaje'',
      mod_description = ''La CPU empieza con el doble de peones (16 en vez de 8).''\<rparr>,
     \<lparr>mod_id = ''extra_queen'', mod_label = ''Dama extra'',
      mod_description = ''La CPU empieza con dos damas.''\<rparr>]"

definition MODIFIER_BY_ID :: "string \<Rightarrow> modifier option" where
  "MODIFIER_BY_ID i = List.find (\<lambda>m. mod_id m = i) ROGUELIKE_MODIFIERS"

definition developmentSquare :: "char \<Rightarrow> color \<Rightarrow> string" where
  "developmentSquare file cpuColor = [file, if cpuColor = White then CHR ''3'' else CHR ''6'']"

definition pawnRank :: "color \<Rightarrow> char" where
  "pawnRank cpuColor = (if cpuColor = White then CHR ''4'' else CHR ''5'')"

text \<open>The pieces a modifier puts on the board, in order.\<close>

definition modifier_puts :: "string \<Rightarrow> color \<Rightarrow> (ptype \<times> string) list" where
  "modifier_puts modifierId cpuColor =
     (if modifierId = ''extra_knight'' then [(Knight, developmentSquare CHR ''c'' cpuColor)]
      else if modifierId = ''extra_bishop'' then [(Bishop, developmentSquare CHR ''d'' cpuColor)]
      else if modifierId = ''extra_rook'' then [(Rook, developmentSquare CHR ''e'' cpuColor)]
      else if modifierId = ''extra_queen'' then [(Queen, developmentSquare CHR ''d'' cpuColor)]
      else if modifierId = ''double_pawns''
      then map (\<lambda>file. (Pawn, [file, pawnRank cpuColor])) ''abcdefgh''
      else [])"

definition applyModifierToFen ::
  "(string \<Rightarrow> 'c) \<Rightarrow> (ptype \<Rightarrow> color \<Rightarrow> string \<Rightarrow> 'c \<Rightarrow> 'c) \<Rightarrow> ('c \<Rightarrow> string) \<Rightarrow> string \<Rightarrow> string \<Rightarrow> color \<Rightarrow> string" where
  "applyModifierToFen chess_load chess_put chess_fen baseFen modifierId cpuColor =
     (if modifierId = [] \<or> modifierId = ''none'' then baseFen
      else chess_fen (fold (\<lambda>(t, sq). chess_put t cpuColor sq) (modifier_puts modifierId cpuColor)
                        (chess_load baseFen)))"

definition weightsForFloor :: "nat \<Rightarrow> (string \<times> int) list" where
  "weightsForFloor flr =
     (if flr \<le> 3 then [(''extra_knight'', 2), (''extra_bishop'', 2)]
      else if flr \<le> 6 then [(''extra_knight'', 1), (''extra_bishop'', 1), (''extra_rook'', 2), (''double_pawns'', 1)]
      else [(''extra_rook'', 2), (''double_pawns'', 2), (''extra_queen'', 1)])"

text \<open>The loop over the weights: the first entry the roll falls in.\<close>

fun roulette :: "rat \<Rightarrow> (string \<times> int) list \<Rightarrow> string option" where
  "roulette roll [] = None"
| "roulette roll ((i, weight) # rest) =
     (if roll < of_int weight then Some i else roulette (fsub roll (of_int weight)) rest)"

definition modifierForFloor :: "nat \<Rightarrow> rat \<Rightarrow> modifier" where
  "modifierForFloor flr random =
     (let weights = weightsForFloor (max 1 flr);
          total = sum_list (map snd weights);
          roll = fmul (min (fl (999999999 / 1000000000)) (max 0 random)) (of_int total);
          fallback = ROGUELIKE_MODIFIERS ! 1
      in case roulette roll weights of
           None \<Rightarrow> fallback
         | Some i \<Rightarrow> (case MODIFIER_BY_ID i of None \<Rightarrow> fallback | Some m \<Rightarrow> m))"

definition seededUnit :: "string \<Rightarrow> nat \<Rightarrow> rat" where
  "seededUnit seed flr = of_nat (unat (fnv (seed @ '':'' @ show_nat (max 1 flr)))) / 2 ^ 32"

definition ROGUELIKE_BOSS_FLOOR :: nat where "ROGUELIKE_BOSS_FLOOR = 10"

definition modifierForRun :: "string \<Rightarrow> nat \<Rightarrow> modifier" where
  "modifierForRun seed flr =
     (let f = max 1 flr
      in if f = ROGUELIKE_BOSS_FLOOR then ROGUELIKE_MODIFIERS ! 0
         else if f = 4 then ROGUELIKE_MODIFIERS ! 3
         else if f = 5 then ROGUELIKE_MODIFIERS ! 5
         else if f = 9 then ROGUELIKE_MODIFIERS ! 4
         else modifierForFloor f (seededUnit seed f))"

section \<open>The king's hit points\<close>

text \<open>A boss: absent numbers are 0, an absent shield is \<open>False\<close>.\<close>

record boss =
  boss_id :: string
  boss_label :: string
  boss_maxHp :: int
  boss_checkDamage :: int
  boss_mateDamage :: int
  boss_rookShield :: bool
  boss_difficultyDelta :: int
  boss_mechanicLabel :: string
  boss_mechanicDescription :: string
  boss_description :: string

definition CAMPAIGN_BOSSES :: "boss list" where
  "CAMPAIGN_BOSSES =
    [\<lparr>boss_id = ''iron_king'', boss_label = ''El Rey de Hierro'', boss_maxHp = 6, boss_checkDamage = 1,
      boss_mateDamage = 2, boss_rookShield = True, boss_difficultyDelta = 4,
      boss_mechanicLabel = (''Basti'' @ [CHR 0xF3] @ ''n de torres''),
      boss_mechanicDescription = (''Mientras conserve una torre, un jaque normal no da'' @ [CHR 0xF1] @ ''a y el mate s'' @ [CHR 0xF3] @ ''lo arranca 1 HP. Sin torres: jaque 1, mate 2.''),
      boss_description = (''Primero desmonta su fortaleza. Despu'' @ [CHR 0xE9] @ ''s el rey empieza a sangrar HP con normalidad.'')\<rparr>,
     \<lparr>boss_id = ''nomad_king'', boss_label = (''El Rey N'' @ [CHR 0xF3] @ ''mada''), boss_maxHp = 5, boss_checkDamage = 1,
      boss_mateDamage = 3, boss_rookShield = False, boss_difficultyDelta = 6,
      boss_mechanicLabel = ''Golpe decisivo'',
      boss_mechanicDescription = ''Cinco HP. Los jaques quitan 1 HP, pero un mate bien construido arranca 3 HP.'',
      boss_description = ''Premia preparar el remate: perseguir jaques sin plan es bastante menos eficiente.''\<rparr>,
     \<lparr>boss_id = ''shadow_king'', boss_label = ''El Rey Sombra'', boss_maxHp = 4, boss_checkDamage = 2,
      boss_mateDamage = 2, boss_rookShield = False, boss_difficultyDelta = 10,
      boss_mechanicLabel = ''Rey expuesto'',
      boss_mechanicDescription = (''S'' @ [CHR 0xF3] @ ''lo cuatro HP y cada jaque arranca 2. A cambio, su ej'' @ [CHR 0xE9] @ ''rcito pelea con +10 de dificultad estrat'' @ [CHR 0xE9] @ ''gica.''),
      boss_description = (''Es fr'' @ [CHR 0xE1] @ ''gil cuando lo alcanzas; su escolta es el verdadero muro.'')\<rparr>]"

definition campaignBossForSeed :: "string \<Rightarrow> boss" where
  "campaignBossForSeed seed =
     CAMPAIGN_BOSSES ! fnv_index (if seed = [] then ''campaign'' else seed) (length CAMPAIGN_BOSSES)"

definition ROGUELIKE_BOSS_MAX_HP :: int where "ROGUELIKE_BOSS_MAX_HP = 5"

definition ROGUELIKE_BOSS :: boss where
  "ROGUELIKE_BOSS =
    \<lparr>boss_id = ''old_king'', boss_label = ''El Rey Viejo'', boss_maxHp = ROGUELIKE_BOSS_MAX_HP,
     boss_checkDamage = 0, boss_mateDamage = 0, boss_rookShield = False, boss_difficultyDelta = 0,
     boss_mechanicLabel = [], boss_mechanicDescription = [],
     boss_description = (''Jefe final. Su rey tiene 5 HP: cada jaque le quita 1; un jaque mate le quita 2 y rompe la fase. A 0 HP, el intento est'' @ [CHR 0xE1] @ '' completado.'')\<rparr>"

text \<open>What the code reads of the position after the human's move.\<close>

record position_view =
  pv_turn :: color
  pv_inCheck :: bool
  pv_isCheckmate :: bool
  pv_pieces :: "(ptype \<times> color) list"

definition sideHasRook :: "position_view \<Rightarrow> color \<Rightarrow> bool" where
  "sideHasRook chess color = list_ex (\<lambda>(t, c). c = color \<and> t = Rook) (pv_pieces chess)"

definition or_else :: "int \<Rightarrow> int \<Rightarrow> int" where
  "or_else x d = (if x = 0 then d else x)"

definition bossDamageAfterHumanMove :: "position_view option \<Rightarrow> color \<Rightarrow> boss \<Rightarrow> int" where
  "bossDamageAfterHumanMove chessAfter humanColor bossConfig =
     (case chessAfter of
        None \<Rightarrow> 0
      | Some chess \<Rightarrow>
          if pv_turn chess = humanColor \<or> \<not> pv_inCheck chess then 0
          else let checkDamage = max 1 (or_else (boss_checkDamage bossConfig) 1);
                   mateDamage = max checkDamage (or_else (boss_mateDamage bossConfig) 2);
                   cpuColor = (if humanColor = White then Black else White)
               in if boss_rookShield bossConfig \<and> sideHasRook chess cpuColor
                  then (if pv_isCheckmate chess then 1 else 0)
                  else if pv_isCheckmate chess then mateDamage else checkDamage)"

definition bossPhaseForHp :: "int \<Rightarrow> int \<Rightarrow> int" where
  "bossPhaseForHp hp configMaxHp =
     (let maxHp = max 1 (or_else configMaxHp ROGUELIKE_BOSS_MAX_HP);
          val = max 0 hp
      in if val \<le> 1 then 3
         else if val \<le> \<lceil>fmul (of_int maxHp) (fl (6 / 10))\<rceil> then 2 else 1)"

section \<open>Encounters\<close>

record encounter =
  enc_id :: string
  enc_label :: string
  enc_description :: string
  enc_modifierId :: string
  enc_tier :: string
  enc_boss :: bool
  enc_maxHp :: "int option"

definition encounterForRun :: "string \<Rightarrow> nat \<Rightarrow> encounter" where
  "encounterForRun seed flr =
     (let f = max 1 flr
      in if f = ROGUELIKE_BOSS_FLOOR
         then \<lparr>enc_id = boss_id ROGUELIKE_BOSS, enc_label = boss_label ROGUELIKE_BOSS,
               enc_description = boss_description ROGUELIKE_BOSS, enc_modifierId = ''none'',
               enc_tier = ''boss'', enc_boss = True, enc_maxHp = Some (boss_maxHp ROGUELIKE_BOSS)\<rparr>
         else if f = 4
         then \<lparr>enc_id = ''fortress'', enc_label = ''La Fortaleza'',
               enc_description = ([CHR 0xC9] @ ''lite: una torre extra guarda el acceso a los pisos medios.''),
               enc_modifierId = ''extra_rook'', enc_tier = ''elite'', enc_boss = False, enc_maxHp = None\<rparr>
         else if f = 5
         then \<lparr>enc_id = ''usurer'', enc_label = ''El Usurero'',
               enc_description = (''Miniboss: llega con una segunda dama y ninguna intenci'' @ [CHR 0xF3] @ ''n de negociar.''),
               enc_modifierId = ''extra_queen'', enc_tier = ''miniboss'', enc_boss = False, enc_maxHp = None\<rparr>
         else if f = 9
         then \<lparr>enc_id = ''last_guard'', enc_label = ''La Guardia Final'',
               enc_description = ([CHR 0xC9] @ ''lite: una pared de diecis'' @ [CHR 0xE9] @ ''is peones antes del rey.''),
               enc_modifierId = ''double_pawns'', enc_tier = ''elite'', enc_boss = False, enc_maxHp = None\<rparr>
         else let modifier = modifierForRun seed f;
                  prefix = (if f \<le> 3 then ''Patrulla adelantada'' else if f \<le> 7 then ''Mesa peligrosa''
                            else ''Antesala del rey'')
              in \<lparr>enc_id = ''floor-'' @ show_nat f @ ''-'' @ mod_id modifier,
                  enc_label = prefix @ ('' '' @ [CHR 0xB7] @ '' '') @ mod_label modifier,
                  enc_description = mod_description modifier, enc_modifierId = mod_id modifier,
                  enc_tier = ''normal'', enc_boss = False, enc_maxHp = None\<rparr>)"

section \<open>Perks\<close>

record perk =
  perk_id :: string
  perk_label :: string
  perk_description :: string

definition ROGUELIKE_PERKS :: "perk list" where
  "ROGUELIKE_PERKS =
    [\<lparr>perk_id = ''steel_pulse'', perk_label = ''Pulso de acero'',
      perk_description = ''+0,75 Fuerza a todas tus piezas (salvo el rey) durante este intento.''\<rparr>,
     \<lparr>perk_id = ''silk_shoes'', perk_label = ''Zapatos de seda'',
      perk_description = ''+2 Velocidad a todas tus piezas (salvo el rey) durante este intento.''\<rparr>,
     \<lparr>perk_id = ''pawn_union'', perk_label = ''Sindicato de peones'',
      perk_description = ''+1,5 Fuerza a todos tus peones durante este intento.''\<rparr>,
     \<lparr>perk_id = ''cavalry_instinct'', perk_label = (''Instinto de caballer'' @ [CHR 0xED] @ ''a''),
      perk_description = ''+5 Velocidad a tus caballos durante este intento.''\<rparr>,
     \<lparr>perk_id = ''rook_pressure'', perk_label = (''Torres de presi'' @ [CHR 0xF3] @ ''n''),
      perk_description = ''+1,5 Fuerza a tus torres durante este intento.''\<rparr>,
     \<lparr>perk_id = ''bishop_footwork'', perk_label = ''Alfiles con oficio'',
      perk_description = ''+4 Velocidad a tus alfiles durante este intento.''\<rparr>]"

definition perkById :: "string \<Rightarrow> perk option" where
  "perkById i = List.find (\<lambda>p. perk_id p = i) ROGUELIKE_PERKS"

text \<open>The xorshift generator, on 32 bits, and the Fisher-Yates loop from the last index down to 1.
  \<open>next() * (i + 1)\<close> is exact in binary64, so its floor is an integer division.\<close>

definition xorshift :: "32 word \<Rightarrow> 32 word" where
  "xorshift s =
     (let s = s XOR push_bit 13 s; s = s XOR drop_bit 17 s in s XOR push_bit 5 s)"

definition swap_at :: "nat \<Rightarrow> nat \<Rightarrow> 'a list \<Rightarrow> 'a list" where
  "swap_at i j xs = xs[i := xs ! j, j := xs ! i]"

fun shuffle_loop :: "nat \<Rightarrow> 32 word \<Rightarrow> 'a list \<Rightarrow> 'a list" where
  "shuffle_loop 0 state pool = pool"
| "shuffle_loop (Suc i) state pool =
     (let state = xorshift state; j = unat state * (Suc i + 1) div 2 ^ 32
      in shuffle_loop i state (swap_at (Suc i) j pool))"

definition rewardOptionsForFloor :: "string \<Rightarrow> nat \<Rightarrow> perk list" where
  "rewardOptionsForFloor seed flr =
     (let h = fnv ((if seed = [] then ''run'' else seed) @ '':reward:'' @ show_nat (max 1 flr));
          state = (if h = 0 then 1 else h)
      in take 3 (shuffle_loop (length ROGUELIKE_PERKS - 1) state ROGUELIKE_PERKS))"

definition perk_stacks :: "string list \<Rightarrow> string \<Rightarrow> rat" where
  "perk_stacks perks i = of_nat (length (filter (\<lambda>p. p = i) perks))"

definition perk_bonus :: "string list \<Rightarrow> piece \<Rightarrow> piece" where
  "perk_bonus perks piece =
     (let stacks = perk_stacks perks;
          strength = mercenaryStrengthBonus piece;
          speed = mercenarySpeedBonus piece;
          strength = strength + stacks ''steel_pulse'' * (3 / 4);
          speed = speed + stacks ''silk_shoes'' * 2;
          strength = (if p_type piece = Pawn then strength + stacks ''pawn_union'' * (3 / 2) else strength);
          speed = (if p_type piece = Knight then speed + stacks ''cavalry_instinct'' * 5 else speed);
          strength = (if p_type piece = Rook then strength + stacks ''rook_pressure'' * (3 / 2) else strength);
          speed = (if p_type piece = Bishop then speed + stacks ''bishop_footwork'' * 4 else speed)
      in piece\<lparr>runStrengthBonus := strength, runSpeedBonus := speed\<rparr>)"

definition applyRunPerksToRegistry :: "registry \<Rightarrow> string list \<Rightarrow> color \<Rightarrow> registry" where
  "applyRunPerksToRegistry registry perks humanColor =
     map (\<lambda>(square, piece).
            if p_color piece \<noteq> humanColor \<or> p_type piece = King then (square, piece)
            else (square, perk_bonus perks piece)) registry"

section \<open>Enemy doctrines\<close>

record doctrine =
  doc_id :: string
  doc_label :: string
  doc_summary :: string
  doc_counter :: string
  st_capture :: rat
  st_pawn :: rat
  st_queen :: rat
  st_check :: rat
  st_castle :: rat

definition DOCTRINES :: "doctrine list" where
  "DOCTRINES =
    [\<lparr>doc_id = ''shock'', doc_label = ''Asalto de choque'',
      doc_summary = ''Favorece capturas y jaques cuando el motor considera varias jugadas casi equivalentes.'',
      doc_counter = (''Reduce piezas colgando y evita responder autom'' @ [CHR 0xE1] @ ''ticamente a cada provocaci'' @ [CHR 0xF3] @ ''n.''),
      st_capture = fl (95 / 100), st_pawn = fl (5 / 100), st_queen = fl (2 / 10), st_check = fl (85 / 100),
      st_castle = - fl (35 / 100)\<rparr>,
     \<lparr>doc_id = ''queen-hunter'', doc_label = ''Caza de mando'',
      doc_summary = (''Prefiere actividad de dama y capturas entre alternativas t'' @ [CHR 0xE1] @ ''cticamente equivalentes.''),
      doc_counter = ''No expongas la dama pronto y castiga el exceso de actividad con desarrollo.'',
      st_capture = fl (8 / 10), st_pawn = - fl (1 / 10), st_queen = 1, st_check = fl (35 / 100),
      st_castle = - (1 / 4)\<rparr>,
     \<lparr>doc_id = ''pawn-storm'', doc_label = ''Marea de peones'',
      doc_summary = (''Inclina decisiones equivalentes hacia jugadas de pe'' @ [CHR 0xF3] @ ''n y expansi'' @ [CHR 0xF3] @ ''n, con menor apego al enroque.''),
      doc_counter = (''Vigila rupturas y casillas debilitadas; no abras l'' @ [CHR 0xED] @ ''neas gratis contra tu rey.''),
      st_capture = 1 / 4, st_pawn = 1, st_queen = - (1 / 4), st_check = fl (2 / 10),
      st_castle = - fl (65 / 100)\<rparr>,
     \<lparr>doc_id = ''fortress'', doc_label = (''Contenci'' @ [CHR 0xF3] @ ''n''),
      doc_summary = ''Prefiere consolidar, enrocar y reducir aventuras de dama cuando las opciones son similares.'',
      doc_counter = (''Gana espacio sin precipitar intercambios que alivien su posici'' @ [CHR 0xF3] @ ''n.''),
      st_capture = - fl (2 / 10), st_pawn = 1 / 4, st_queen = - fl (45 / 100), st_check = - fl (1 / 10),
      st_castle = 1\<rparr>,
     \<lparr>doc_id = ''pressure'', doc_label = (''Presi'' @ [CHR 0xF3] @ ''n continua''),
      doc_summary = (''Favorece jaques y actividad inmediata entre l'' @ [CHR 0xED] @ ''neas de valor pr'' @ [CHR 0xE1] @ ''cticamente id'' @ [CHR 0xE9] @ ''ntico.''),
      doc_counter = (''Prioriza seguridad del rey y coordinaci'' @ [CHR 0xF3] @ ''n antes de perseguir material secundario.''),
      st_capture = fl (35 / 100), st_pawn = fl (5 / 100), st_queen = 1 / 4, st_check = 1,
      st_castle = - fl (15 / 100)\<rparr>]"

record engine_move =
  em_captured :: bool
  em_piece :: string
  em_san :: string
  em_flags :: string

definition combatDoctrineBonusForMove :: "doctrine option \<Rightarrow> engine_move option \<Rightarrow> int" where
  "combatDoctrineBonusForMove doctrine move =
     (case (doctrine, move) of
        (Some d, Some m) \<Rightarrow>
          (let traits =
                 [(em_captured m, st_capture d), (em_piece m = ''p'', st_pawn d), (em_piece m = ''q'', st_queen d),
                  (em_san m \<noteq> [] \<and> last (em_san m) \<in> set ''+#'', st_check d),
                  (CHR ''k'' \<in> set (em_flags m) \<or> CHR ''q'' \<in> set (em_flags m), st_castle d)];
               total = fold (\<lambda>(active, n) sum. fadd sum (if active then max (-1) (min 1 n) else 0)) traits 0
           in max (-6) (min 6 (js_round (fmul total 3))))
      | _ \<Rightarrow> 0)"

definition doctrineIntelView :: "doctrine option \<Rightarrow> int \<Rightarrow> string option \<times> string option \<times> string option" where
  "doctrineIntelView doctrine intelLevel =
     (let level = max 0 (min 3 intelLevel)
      in case doctrine of
           None \<Rightarrow> (None, None, None)
         | Some d \<Rightarrow>
             if level \<le> 0 then (None, None, None)
             else (Some (doc_label d), if 2 \<le> level then Some (doc_summary d) else None,
                   if 3 \<le> level then Some (doc_counter d) else None))"

section \<open>Lemmas\<close>

lemma fnv_pick_in: "xs \<noteq> [] \<Longrightarrow> xs ! fnv_index s (length xs) \<in> set xs"
  by (rule nth_mem) (simp add: fnv_index_less)

lemma campaignBoss_in: "campaignBossForSeed seed \<in> set CAMPAIGN_BOSSES"
  unfolding campaignBossForSeed_def by (rule fnv_pick_in) (simp add: CAMPAIGN_BOSSES_def)

lemma seededUnit_nonneg: "0 \<le> seededUnit seed f"
  unfolding seededUnit_def by (intro divide_nonneg_nonneg of_nat_0_le_iff) simp

lemma seededUnit_less_1: "seededUnit seed f < 1"
proof -
  have "(of_nat (unat (fnv t)) :: rat) < of_nat (2 ^ 32)" for t
    using unat_fnv_bound [of t] by (simp only: of_nat_less_iff)
  then show ?thesis unfolding seededUnit_def by (simp only: divide_less_eq_1) simp
qed

lemma mset_swap_at: "i < length xs \<Longrightarrow> j < length xs \<Longrightarrow> mset (swap_at i j xs) = mset xs"
  unfolding swap_at_def by (rule mset_swap)

lemma word_below: "unat (w :: 32 word) * n div 2 ^ 32 < n" if "0 < n" for n
proof -
  have "unat w < 2 ^ 32" using unsigned_less [of w] by simp
  then have "unat w * n < n * 2 ^ 32" using that by (simp add: mult.commute)
  then show ?thesis by (simp add: div_less_iff_less_mult)
qed

lemma mset_shuffle_loop: "i < length pool \<Longrightarrow> mset (shuffle_loop i state pool) = mset pool"
proof (induction i arbitrary: state pool)
  case (Suc i)
  have "unat (xorshift state) * (Suc i + 1) div 2 ^ 32 < Suc i + 1" by (rule word_below) simp
  then have j: "unat (xorshift state) * (Suc i + 1) div 2 ^ 32 < length pool" using Suc.prems by simp
  have "mset (shuffle_loop i (xorshift state) (swap_at (Suc i) (unat (xorshift state) * (Suc i + 1) div 2 ^ 32) pool))
      = mset (swap_at (Suc i) (unat (xorshift state) * (Suc i + 1) div 2 ^ 32) pool)"
    using Suc.prems by (intro Suc.IH) (simp add: swap_at_def)
  then show ?case using mset_swap_at [OF Suc.prems j] by (simp only: shuffle_loop.simps Let_def)
qed simp

lemma shuffled_perks: "mset (shuffle_loop (length ROGUELIKE_PERKS - 1) state ROGUELIKE_PERKS) = mset ROGUELIKE_PERKS"
  by (rule mset_shuffle_loop) (simp add: ROGUELIKE_PERKS_def)

lemma perk_ids_distinct: "distinct (map perk_id ROGUELIKE_PERKS)"
  by (simp add: ROGUELIKE_PERKS_def)

lemma distinct_map_mset: "mset xs = mset ys \<Longrightarrow> distinct (map f ys) \<Longrightarrow> distinct (map f xs)"
  using mset_eq_imp_distinct_iff [of "map f xs" "map f ys"] by simp

text \<open>The roulette, with its binary64 roll, always stops at an entry: a roll in [0, 1) is at most
  999999999 / 1000000000 of the total.\<close>

lemma roulette_in: "roulette roll ws = Some i \<Longrightarrow> i \<in> set (map fst ws)"
  by (induction roll ws rule: roulette.induct) (auto split: if_splits)

lemma roulette_mono: "p \<le> q \<Longrightarrow> roulette q ws \<noteq> None \<Longrightarrow> roulette p ws \<noteq> None"
proof (induction q ws arbitrary: p rule: roulette.induct)
  case (2 q i w rest)
  then show ?case using fsub_mono [OF 2(2) order_refl] by (auto split: if_splits)
qed simp

lemma weights_known: "i \<in> set (map fst (weightsForFloor f)) \<Longrightarrow> \<exists>m. MODIFIER_BY_ID i = Some m \<and> mod_id m = i"
  unfolding weightsForFloor_def MODIFIER_BY_ID_def ROGUELIKE_MODIFIERS_def
  by (auto split: if_splits)

text \<open>The roundings of the worst roll.\<close>

lemma roll_max: "fl (999999999 / 1000000000) = 9007199245733793 / 9007199254740992"
  using fl_eqI [of "-53" "999999999 / 1000000000" 9007199245733793] by (simp add: pow2_def)

lemma roll_op0: "fmul (9007199245733793 / 9007199254740992) 4 = 9007199245733793 / 2251799813685248"
  unfolding fmul_def
  using fl_eqI [of "-51" "(9007199245733793 / 9007199254740992) * 4" 9007199245733793]
  by (simp add: pow2_def)

lemma roll_op1: "fsub (9007199245733793 / 2251799813685248) 2 = 4503599618363297 / 2251799813685248"
  unfolding fsub_def
  using fl_eqI [of "-52" "(9007199245733793 / 2251799813685248) - 2" 9007199236726594]
  by (simp add: pow2_def)

lemma roll_op2: "fmul (9007199245733793 / 9007199254740992) 5 = 5629499528583621 / 1125899906842624"
  unfolding fmul_def
  using fl_eqI [of "-50" "(9007199245733793 / 9007199254740992) * 5" 5629499528583621]
  by (simp add: pow2_def)

lemma roll_op3: "fsub (5629499528583621 / 1125899906842624) 1 = 4503599621740997 / 1125899906842624"
  unfolding fsub_def
  using fl_eqI [of "-51" "(5629499528583621 / 1125899906842624) - 1" 9007199243481994]
  by (simp add: pow2_def)

lemma roll_op4: "fsub (4503599621740997 / 1125899906842624) 1 = 3377699714898373 / 1125899906842624"
  unfolding fsub_def
  using fl_eqI [of "-51" "(4503599621740997 / 1125899906842624) - 1" 6755399429796746]
  by (simp add: pow2_def)

lemma roll_op5: "fsub (3377699714898373 / 1125899906842624) 2 = 1125899901213125 / 1125899906842624"
  unfolding fsub_def
  using fl_eqI [of "-53" "(3377699714898373 / 1125899906842624) - 2" 9007199209705000]
  by (simp add: pow2_def)

lemma roll_op6: "fsub (5629499528583621 / 1125899906842624) 2 = 3377699714898373 / 1125899906842624"
  unfolding fsub_def
  using fl_eqI [of "-51" "(5629499528583621 / 1125899906842624) - 2" 6755399429796746]
  by (simp add: pow2_def)

lemmas roll_ops = roll_max roll_op0 roll_op1 roll_op2 roll_op3 roll_op4 roll_op5 roll_op6

lemma roulette_worst:
  "roulette (fmul (fl (999999999 / 1000000000)) 4) [(''extra_knight'', 2), (''extra_bishop'', 2)] = Some ''extra_bishop''"
  "roulette (fmul (fl (999999999 / 1000000000)) 5)
     [(''extra_knight'', 1), (''extra_bishop'', 1), (''extra_rook'', 2), (''double_pawns'', 1)] = Some ''double_pawns''"
  "roulette (fmul (fl (999999999 / 1000000000)) 5)
     [(''extra_rook'', 2), (''double_pawns'', 2), (''extra_queen'', 1)] = Some ''extra_queen''"
  by (simp_all add: roll_ops)

lemma roulette_stops:
  "roulette (fmul (min (fl (999999999 / 1000000000)) (max 0 r)) (of_int (sum_list (map snd (weightsForFloor f)))))
     (weightsForFloor f) \<noteq> None"
proof (rule roulette_mono)
  let ?t = "sum_list (map snd (weightsForFloor f))"
  show "fmul (min (fl (999999999 / 1000000000)) (max 0 r)) (of_int ?t)
      \<le> fmul (fl (999999999 / 1000000000)) (of_int ?t)"
    by (rule fmul_mono) (auto simp: weightsForFloor_def)
  show "roulette (fmul (fl (999999999 / 1000000000)) (of_int ?t)) (weightsForFloor f) \<noteq> None"
    unfolding weightsForFloor_def by (simp add: roulette_worst del: roulette.simps)
qed

lemma modifierForFloor_in: "mod_id (modifierForFloor f r) \<in> set (map fst (weightsForFloor (max 1 f)))"
proof -
  obtain i where i: "roulette (fmul (min (fl (999999999 / 1000000000)) (max 0 r))
      (of_int (sum_list (map snd (weightsForFloor (max 1 f)))))) (weightsForFloor (max 1 f)) = Some i"
    using roulette_stops [of r "max 1 f"] by blast
  obtain m where "MODIFIER_BY_ID i = Some m" "mod_id m = i"
    using weights_known [OF roulette_in [OF i]] by blast
  then show ?thesis
    using roulette_in [OF i] i unfolding modifierForFloor_def Let_def by simp
qed

section \<open>Properties\<close>

lemma rewards_draw:
  "\<exists>state. rewardOptionsForFloor seed f = take 3 (shuffle_loop (length ROGUELIKE_PERKS - 1) state ROGUELIKE_PERKS)"
  unfolding rewardOptionsForFloor_def Let_def by (rule exI, rule refl)

lemma rewards_length: "length (rewardOptionsForFloor seed f) = 3"
proof -
  obtain state where r: "rewardOptionsForFloor seed f = take 3 (shuffle_loop (length ROGUELIKE_PERKS - 1) state ROGUELIKE_PERKS)"
    using rewards_draw by blast
  have six: "length ROGUELIKE_PERKS = 6" by (simp add: ROGUELIKE_PERKS_def)
  have "length (shuffle_loop (length ROGUELIKE_PERKS - 1) state ROGUELIKE_PERKS) = 6"
    by (rule trans [OF mset_eq_length [OF shuffled_perks] six])
  then show ?thesis unfolding r length_take by simp
qed

lemma rewards_in_catalogue: "set (rewardOptionsForFloor seed f) \<subseteq> set ROGUELIKE_PERKS"
proof -
  obtain state where r: "rewardOptionsForFloor seed f = take 3 (shuffle_loop (length ROGUELIKE_PERKS - 1) state ROGUELIKE_PERKS)"
    using rewards_draw by blast
  show ?thesis unfolding r mset_eq_setD [OF shuffled_perks [of state], symmetric] by (rule set_take_subset)
qed

text \<open>The reward draw offers three perks of the catalogue with distinct ids, whatever the seed and
  the floor, zero and empty included.\<close>

theorem reward_options_sound:
  "length (rewardOptionsForFloor seed f) = 3 \<and> distinct (map perk_id (rewardOptionsForFloor seed f)) \<and>
   set (rewardOptionsForFloor seed f) \<subseteq> set ROGUELIKE_PERKS"
proof (intro conjI)
  obtain state where r: "rewardOptionsForFloor seed f = take 3 (shuffle_loop (length ROGUELIKE_PERKS - 1) state ROGUELIKE_PERKS)"
    using rewards_draw by blast
  show "distinct (map perk_id (rewardOptionsForFloor seed f))"
    unfolding r take_map [symmetric] by (rule distinct_take) (rule distinct_map_mset [OF shuffled_perks perk_ids_distinct])
qed (rule rewards_length, rule rewards_in_catalogue)

text \<open>every floor of a run gets the modifier its rules allow: the boss floor none, floors 4, 5 and
  9 their fixed one, any other floor one of its weighted list; the seeded roulette, computed in
  binary64, never falls through to its fallback.\<close>

theorem run_modifier_allowed:
  "mod_id (modifierForRun seed f) \<in>
     (let f = max 1 f
      in if f = 10 then {''none''} else if f = 4 then {''extra_rook''} else if f = 5 then {''extra_queen''}
         else if f = 9 then {''double_pawns''} else set (map fst (weightsForFloor f)))"
proof -
  have "mod_id (modifierForFloor (max 1 f) r) \<in> set (map fst (weightsForFloor (max 1 f)))" for r
    using modifierForFloor_in [of "max 1 f" r] by simp
  then show ?thesis
    unfolding modifierForRun_def Let_def ROGUELIKE_BOSS_FLOOR_def
    by (simp add: ROGUELIKE_MODIFIERS_def)
qed

lemma perk_bonus_again: "perk_bonus ps (perk_bonus ps p) = perk_bonus ps p"
  by (simp add: perk_bonus_def Let_def)

lemma perk_bonus_fields:
  "p_color (perk_bonus ps p) = p_color p" "p_type (perk_bonus ps p) = p_type p"
  "derivedLevel (perk_bonus ps p) = derivedLevel p"
  "(perk_bonus ps p)\<lparr>runStrengthBonus := a, runSpeedBonus := b\<rparr> = p\<lparr>runStrengthBonus := a, runSpeedBonus := b\<rparr>"
  by (simp_all add: perk_bonus_def Let_def derivedLevel_def)

lemma map_of_map_snd: "map_of (map (\<lambda>(k, v). if P v then (k, v) else (k, f v)) d) k
    = map_option (\<lambda>v. if P v then v else f v) (map_of d k)"
  by (induction d) auto

text \<open>run perks are temporary: applying them twice is applying them once; each piece keeps
  everything but its two run bonuses, level included; kings and the other side keep even those.\<close>

theorem run_perks_temporary:
  "applyRunPerksToRegistry (applyRunPerksToRegistry reg perks c) perks c = applyRunPerksToRegistry reg perks c \<and>
   (case obj_get (applyRunPerksToRegistry reg perks c) sq of
      None \<Rightarrow> obj_get reg sq = None
    | Some q \<Rightarrow> (case obj_get reg sq of None \<Rightarrow> False | Some p \<Rightarrow>
        q\<lparr>runStrengthBonus := 0, runSpeedBonus := 0\<rparr> = p\<lparr>runStrengthBonus := 0, runSpeedBonus := 0\<rparr> \<and>
        derivedLevel q = derivedLevel p \<and>
        (if p_type p = King then q = p else if p_color p = c then q = perk_bonus perks p else q = p)))"
proof
  show "applyRunPerksToRegistry (applyRunPerksToRegistry reg perks c) perks c = applyRunPerksToRegistry reg perks c"
    by (induction reg) (auto simp: applyRunPerksToRegistry_def perk_bonus_again perk_bonus_fields)
  have get: "obj_get (applyRunPerksToRegistry reg perks c) sq =
      map_option (\<lambda>p. if p_color p \<noteq> c \<or> p_type p = King then p else perk_bonus perks p) (obj_get reg sq)"
    unfolding applyRunPerksToRegistry_def by (rule map_of_map_snd)
  show "case obj_get (applyRunPerksToRegistry reg perks c) sq of
      None \<Rightarrow> obj_get reg sq = None
    | Some q \<Rightarrow> (case obj_get reg sq of None \<Rightarrow> False | Some p \<Rightarrow>
        q\<lparr>runStrengthBonus := 0, runSpeedBonus := 0\<rparr> = p\<lparr>runStrengthBonus := 0, runSpeedBonus := 0\<rparr> \<and>
        derivedLevel q = derivedLevel p \<and>
        (if p_type p = King then q = p else if p_color p = c then q = perk_bonus perks p else q = p))"
    unfolding get by (cases "obj_get reg sq") (simp_all add: perk_bonus_fields)
qed

text \<open>A campaign king loses at most 3 points a move; it loses some exactly when it is its side's
  turn and it is in check, unless a rook shields it from a check that is not mate. The phase
  shown is always 1, 2 or 3.\<close>

lemma boss_cases:
  assumes "b \<in> set CAMPAIGN_BOSSES"
  shows "1 \<le> boss_checkDamage b" "boss_checkDamage b \<le> boss_mateDamage b" "boss_mateDamage b \<le> 3"
  using assms by (auto simp: CAMPAIGN_BOSSES_def)

theorem boss_damage_bounds:
  "let d = bossDamageAfterHumanMove (Some pos) human (campaignBossForSeed seed)
   in 0 \<le> d \<and> d \<le> 3 \<and> bossPhaseForHp hp m \<in> {1, 2, 3} \<and>
      (0 < d) = (pv_turn pos \<noteq> human \<and> pv_inCheck pos \<and>
                 \<not> (boss_rookShield (campaignBossForSeed seed) \<and>
                    sideHasRook pos (if human = White then Black else White) \<and> \<not> pv_isCheckmate pos))"
proof -
  note b = boss_cases [OF campaignBoss_in [of seed]]
  have p: "bossPhaseForHp hp m \<in> {1, 2, 3}" by (simp add: bossPhaseForHp_def Let_def)
  show ?thesis
    using b p by (auto simp: bossDamageAfterHumanMove_def Let_def or_else_def)
qed

end
