(* ===== verification/AdaptiveDifficulty.thy ===== *)
theory AdaptiveDifficulty
  imports JsNumber
begin

text \<open>
  \<open>combatAdaptiveDifficulty.js\<close>: the relief a losing streak buys before a battle and the
  curve from strategic difficulty to engine difficulty, and \<open>combatHistory.js\<close>, the list
  of battles the relief reads.

  The averages are computed in binary64, as the source computes them. Difficulties reach
  the module as numbers already rounded by its callers, so the curve takes an integer.
\<close>

section \<open>The battle history\<close>

datatype outcome = Win | Draw | Loss | Retired

text \<open>A stored battle: its outcome is \<open>None\<close> when the field is missing or unknown. The rest of
  the record is opaque here.\<close>

record 'r battle_entry =
  be_outcome :: "outcome option"
  be_rest :: 'r

definition MAX_RECORDS :: nat where "MAX_RECORDS = 25"

definition saveCombatBattle :: "'r battle_entry \<Rightarrow> 'r battle_entry list \<Rightarrow> 'r battle_entry list" where
  "saveCombatBattle entry history = take MAX_RECORDS (entry # history)"

section \<open>The engine curve\<close>

definition COMBAT_ADAPTIVE_RECENT_BATTLES :: nat where "COMBAT_ADAPTIVE_RECENT_BATTLES = 6"
definition COMBAT_ADAPTIVE_MAX_RELIEF :: int where "COMBAT_ADAPTIVE_MAX_RELIEF = 18"

definition COMBAT_ENGINE_CURVE :: "(int \<times> int) list" where
  "COMBAT_ENGINE_CURVE =
    [(0, 0), (5, 5), (60, 60), (69, 68), (73, 69), (74, 70), (84, 82), (89, 87), (92, 89),
     (93, 90), (95, 95), (99, 97), (100, 98)]"

text \<open>The loop of \<open>calibrateCombatEngineDifficulty\<close>: the first segment whose right end the
  value does not pass interpolates; after the last point its engine value is returned.\<close>

fun curve_from :: "int \<Rightarrow> (int \<times> int) list \<Rightarrow> int" where
  "curve_from raw [] = 0"
| "curve_from raw [(_, engine)] = engine"
| "curve_from raw ((leftRaw, leftEngine) # (rightRaw, rightEngine) # rest) =
     (if raw \<le> rightRaw
      then let span = (if rightRaw - leftRaw = 0 then 1 else rightRaw - leftRaw);
               t = fdiv (of_int (raw - leftRaw)) (of_int span)
           in js_round (fadd (of_int leftEngine) (fmul (of_int (rightEngine - leftEngine)) t))
      else curve_from raw ((rightRaw, rightEngine) # rest))"

definition calibrateCombatEngineDifficulty :: "int \<Rightarrow> int" where
  "calibrateCombatEngineDifficulty rawDifficulty =
     (let raw = max 0 (min 100 rawDifficulty) in curve_from raw COMBAT_ENGINE_CURVE)"

section \<open>The relief\<close>

definition outcomeScore :: "outcome \<Rightarrow> rat" where
  "outcomeScore o1 = (case o1 of Win \<Rightarrow> 1 | Draw \<Rightarrow> 1 / 2 | Retired \<Rightarrow> fl (1 / 5) | Loss \<Rightarrow> 0)"

definition validRecentBattles :: "'r battle_entry list \<Rightarrow> outcome list" where
  "validRecentBattles history =
     take COMBAT_ADAPTIVE_RECENT_BATTLES (map (the \<circ> be_outcome) (filter (\<lambda>b. be_outcome b \<noteq> None) history))"

text \<open>The weighted average: the newest battle weighs most.\<close>

definition weight_step :: "nat \<Rightarrow> nat \<times> outcome \<Rightarrow> rat \<times> rat \<Rightarrow> rat \<times> rat" where
  "weight_step n = (\<lambda>(index, o1) (score, total).
     (let weight = of_int (max 1 (int n - int index))
      in (fadd score (fmul (outcomeScore o1) weight), total + weight)))"

definition performance :: "outcome list \<Rightarrow> rat" where
  "performance recent =
     (let (score, total) = fold (weight_step (length recent)) (enumerate 0 recent) (0, 0)
      in if total \<noteq> 0 then fdiv score total else 1 / 2)"

definition hardLossStreak :: "outcome list \<Rightarrow> nat" where
  "hardLossStreak recent = length (takeWhile (\<lambda>o1. o1 = Loss) recent)"

definition relief_of_recent :: "outcome list \<Rightarrow> int" where
  "relief_of_recent recent =
     (case recent of
        [] \<Rightarrow> 0
      | [a] \<Rightarrow> if a = Loss then -5 else if a = Retired then -3 else 0
      | [a, b] \<Rightarrow>
          if a = Win \<and> b = Win then 0
          else let losses = length (filter (\<lambda>o1. o1 = Loss) [a, b]);
                   retirements = length (filter (\<lambda>o1. o1 = Retired) [a, b])
               in if losses = 2 then -9
                  else if losses = 1 \<and> retirements = 1 then -7
                  else if retirements = 2 then -5
                  else if a = Loss then -5 else if a = Retired then -3 else 0
      | a # b # _ \<Rightarrow>
          if a = Win \<and> b = Win then 0
          else let p = performance recent;
                   relief = (if p \<le> fl (2 / 10) then -15 else if p \<le> fl (35 / 100) then -11
                             else if p \<le> fl (45 / 100) then -7 else 0);
                   streak = hardLossStreak recent;
                   relief = (if 4 \<le> streak then relief - 5 else if 3 \<le> streak then relief - 3 else relief)
               in max (- COMBAT_ADAPTIVE_MAX_RELIEF) (min 0 relief))"

definition combatAdaptiveRelief :: "'r battle_entry list \<Rightarrow> int" where
  "combatAdaptiveRelief history = relief_of_recent (validRecentBattles history)"

record adaptive =
  ad_base :: int
  ad_adjusted :: int
  ad_strategicAdjusted :: int
  ad_engineAdjusted :: int
  ad_relief :: int
  ad_requestedRelief :: int
  ad_engineAdjustment :: int
  ad_recentBattles :: nat

definition adaptiveCombatDifficulty :: "rat \<Rightarrow> 'r battle_entry list \<Rightarrow> adaptive" where
  "adaptiveCombatDifficulty baseDifficulty history =
     (let base = max 5 (min 95 (js_round baseDifficulty));
          requestedRelief = combatAdaptiveRelief history;
          strategicAdjusted = max 5 (min 95 (base + requestedRelief));
          engineAdjusted = calibrateCombatEngineDifficulty strategicAdjusted
      in \<lparr>ad_base = base, ad_adjusted = strategicAdjusted, ad_strategicAdjusted = strategicAdjusted,
          ad_engineAdjusted = engineAdjusted, ad_relief = strategicAdjusted - base,
          ad_requestedRelief = requestedRelief, ad_engineAdjustment = engineAdjusted - strategicAdjusted,
          ad_recentBattles = length (validRecentBattles history)\<rparr>)"

section \<open>The curve between its points\<close>

text \<open>The interpolation of one segment, in binary64, stays within a quarter of the exact one.\<close>

definition segment :: "int \<Rightarrow> int \<Rightarrow> int \<Rightarrow> int \<Rightarrow> int \<Rightarrow> rat" where
  "segment l le r re raw =
     fadd (of_int le) (fmul (of_int (re - le)) (fdiv (of_int (raw - l)) (of_int (r - l))))"

lemma interpolation_close:
  fixes a d t :: rat
  assumes "0 \<le> a" "a \<le> 100" "0 \<le> d" "d \<le> 100" "0 \<le> t" "t \<le> 1"
  shows "\<bar>fadd a (fmul d (fl t)) - (a + d * t)\<bar> < 1 / 4"
proof -
  define e :: rat where "e = 1 / 2 ^ 53"
  have e: "0 \<le> e" "e \<le> 1 / 10000" by (simp_all add: e_def)
  have err: "\<bar>fl u - u\<bar> \<le> k * e" if "0 \<le> u" "u \<le> k" for u k
    using fl_error [of u] that by (simp add: e_def)
  have t1: "\<bar>fl t - t\<bar> \<le> 1 * e" by (rule err) (use assms in simp_all)
  have tp: "0 \<le> fl t" "fl t \<le> 1" using fl_nonneg [OF assms(5)] fl_mono [OF assms(6)] fl_1 by simp_all
  have "\<bar>d * fl t - d * t\<bar> = d * \<bar>fl t - t\<bar>"
    using assms by (simp add: abs_mult flip: right_diff_distrib)
  also have "\<dots> \<le> 100 * (1 * e)" using t1 assms by (intro mult_mono) auto
  finally have d1: "\<bar>d * fl t - d * t\<bar> \<le> 100 * e" by simp
  have d2: "0 \<le> d * fl t" "d * fl t \<le> 100" using tp assms mult_mono [of d 100 "fl t" 1] by auto
  have m1: "\<bar>fl (d * fl t) - d * fl t\<bar> \<le> 100 * e" by (rule err [OF d2])
  have m2: "0 \<le> a + fl (d * fl t)" "a + fl (d * fl t) \<le> 300"
    using fl_nonneg [OF d2(1)] assms(1,2) m1 d2 e by linarith+
  have "\<bar>fl (a + fl (d * fl t)) - (a + fl (d * fl t))\<bar> \<le> 300 * e" by (rule err [OF m2])
  then have "\<bar>fl (a + fl (d * fl t)) - (a + d * t)\<bar> < 1 / 4" using m1 d1 e by linarith
  then show ?thesis by (simp add: fadd_def fmul_def)
qed

lemma segment_close:
  assumes "l \<le> raw" "raw \<le> r" "l < r" "0 \<le> le" "le \<le> re" "re \<le> 100"
  shows "\<bar>segment l le r re raw
          - (of_int le + of_int (re - le) * (of_int (raw - l) / of_int (r - l)))\<bar> < 1 / 4"
  unfolding segment_def fdiv_def
  using assms by (intro interpolation_close) (auto simp: divide_le_eq)

lemma segment_mono:
  assumes "x \<le> y" "l < r" "le \<le> re"
  shows "segment l le r re x \<le> segment l le r re y"
proof -
  have "fdiv (of_int (x - l)) (of_int (r - l)) \<le> fdiv (of_int (y - l)) (of_int (r - l))"
    unfolding fdiv_def using assms by (intro fl_mono divide_right_mono) auto
  then show ?thesis
    unfolding segment_def fmul_def fadd_def using assms
    by (intro fl_mono add_left_mono mult_left_mono) auto
qed

lemma segment_ends:
  assumes "l < r" "0 \<le> le" "le \<le> re" "re \<le> 100"
  shows "js_round (segment l le r re l) = le" "js_round (segment l le r re r) = re"
proof -
  show "js_round (segment l le r re l) = le"
    using segment_close [of l l r le re] assms by (intro js_round_near) simp
  show "js_round (segment l le r re r) = re"
    using segment_close [of l r r le re] assms by (intro js_round_near) simp
qed

text \<open>Below the diagonal at both ends, below it in between; on it, exact.\<close>

lemma segment_le_raw:
  assumes "l \<le> raw" "raw \<le> r" "l < r" "0 \<le> le" "le \<le> re" "re \<le> 100" "le \<le> l" "re \<le> r"
  shows "js_round (segment l le r re raw) \<le> raw"
proof -
  let ?t = "of_int (raw - l) / of_int (r - l) :: rat"
  have t: "0 \<le> ?t" "?t \<le> 1" using assms by (auto simp: divide_le_eq)
  have raw: "of_int raw = of_int l + of_int (r - l) * ?t" using assms by simp
  have "of_int le * (1 - ?t) \<le> of_int l * (1 - ?t)" "of_int re * ?t \<le> of_int r * ?t"
    by (rule mult_right_mono; use t assms in simp)+
  then have "of_int le + (of_int re - of_int le) * ?t \<le> of_int l + (of_int r - of_int l) * ?t"
    by (simp only: left_diff_distrib right_diff_distrib mult_1_right)
  then have "of_int le + of_int (re - le) * ?t \<le> of_int raw" unfolding raw by simp
  then have "segment l le r re raw < of_int raw + 1 / 2"
    using segment_close [OF assms(1-6)] by linarith
  then show ?thesis unfolding js_round_def by linarith
qed

lemma segment_diagonal:
  assumes "l \<le> raw" "raw \<le> r" "l < r" "0 \<le> l" "r \<le> 100"
  shows "js_round (segment l l r r raw) = raw"
  using segment_close [of l raw r l r] assms by (intro js_round_near) simp

text \<open>A curve: raw values strictly increasing, engine values nondecreasing, within 0..100.\<close>

fun curve_ok :: "(int \<times> int) list \<Rightarrow> bool" where
  "curve_ok [] = False"
| "curve_ok [(r, e)] = (0 \<le> e \<and> e \<le> 100 \<and> e \<le> r)"
| "curve_ok ((l, le) # (r, re) # rest) =
     (0 \<le> le \<and> le \<le> re \<and> re \<le> 100 \<and> le \<le> l \<and> re \<le> r \<and> l < r \<and> curve_ok ((r, re) # rest))"

lemma curve_from_step:
  "l < r \<Longrightarrow> curve_from raw ((l, le) # (r, re) # rest) =
     (if raw \<le> r then js_round (segment l le r re raw) else curve_from raw ((r, re) # rest))"
  by (simp add: segment_def Let_def)

lemma curve_ok_last: "curve_ok ((l, le) # rest) \<Longrightarrow> le \<le> snd (last ((l, le) # rest))"
proof (induction rest arbitrary: l le)
  case (Cons p rest)
  obtain r re where p: "p = (r, re)" by (cases p)
  have "re \<le> snd (last ((r, re) # rest))" by (rule Cons.IH) (use Cons.prems p in simp)
  then show ?case using Cons.prems p by auto
qed simp

lemma curve_from_low:
  "curve_ok ((l, le) # rest) \<Longrightarrow> l \<le> raw \<Longrightarrow>
   le \<le> curve_from raw ((l, le) # rest) \<and> curve_from raw ((l, le) # rest) \<le> raw
   \<and> curve_from raw ((l, le) # rest) \<le> snd (last ((l, le) # rest))"
proof (induction rest arbitrary: l le)
  case Nil
  then show ?case by simp
next
  case (Cons p rest)
  obtain r re where p: "p = (r, re)" by (cases p)
  have ok: "0 \<le> le" "le \<le> re" "re \<le> 100" "le \<le> l" "re \<le> r" "l < r" "curve_ok ((r, re) # rest)"
    using Cons.prems(1) unfolding p by simp_all
  have last: "re \<le> snd (last ((r, re) # rest))"
    using curve_ok_last [OF ok(7)] .
  show ?case
  proof (cases "raw \<le> r")
    case True
    have "le \<le> js_round (segment l le r re raw)" "js_round (segment l le r re raw) \<le> re"
      using js_round_mono [OF segment_mono [OF Cons.prems(2) ok(6,2)]]
        js_round_mono [OF segment_mono [OF True ok(6,2)]] segment_ends [OF ok(6,1,2,3)] by simp_all
    moreover have "js_round (segment l le r re raw) \<le> raw"
      by (rule segment_le_raw [OF Cons.prems(2) True ok(6,1,2,3,4,5)])
    ultimately show ?thesis
      using True last unfolding p by (simp only: curve_from_step [OF ok(6)] if_True) simp
  next
    case False
    then have "r \<le> raw" by simp
    from Cons.IH [OF ok(7) this] show ?thesis
      using False ok(2) unfolding p by (simp only: curve_from_step [OF ok(6)] if_False) simp
  qed
qed

lemma curve_from_mono:
  "curve_ok ((l, le) # rest) \<Longrightarrow> l \<le> x \<Longrightarrow> x \<le> y \<Longrightarrow>
   curve_from x ((l, le) # rest) \<le> curve_from y ((l, le) # rest)"
proof (induction rest arbitrary: l le)
  case Nil
  then show ?case by simp
next
  case (Cons p rest)
  obtain r re where p: "p = (r, re)" by (cases p)
  have ok: "0 \<le> le" "le \<le> re" "re \<le> 100" "le \<le> l" "re \<le> r" "l < r" "curve_ok ((r, re) # rest)"
    using Cons.prems(1) unfolding p by simp_all
  note step = curve_from_step [OF ok(6)]
  consider "y \<le> r" | "x \<le> r" "r < y" | "r < x" by linarith
  then show ?case
  proof cases
    case 1
    then show ?thesis using Cons.prems(3) js_round_mono [OF segment_mono [OF Cons.prems(3) ok(6,2)]]
      unfolding p step by simp
  next
    case 2
    have "js_round (segment l le r re x) \<le> re"
      using js_round_mono [OF segment_mono [OF 2(1) ok(6,2)]] segment_ends [OF ok(6,1,2,3)] by simp
    also have "re \<le> curve_from y ((r, re) # rest)" using curve_from_low [OF ok(7), of y] 2 by simp
    finally show ?thesis using 2 unfolding p step by simp
  next
    case 3
    then show ?thesis using Cons.IH [OF ok(7)] Cons.prems(3) unfolding p step by simp
  qed
qed

text \<open>What a calibration owes its callers: a curve from the origin, in order, never above the diagonal.\<close>

locale engine_curve =
  fixes points :: "(int \<times> int) list"
  assumes ordered: "curve_ok points"
    and origin: "take 1 points = [(0, 0)]"
begin

lemma from_origin: obtains rest where "points = (0, 0) # rest"
  using origin by (cases points) auto

lemma calibration_bounds:
  "0 \<le> curve_from (max 0 (min 100 x)) points \<and> curve_from (max 0 (min 100 x)) points \<le> max 0 (min 100 x) \<and>
   curve_from (max 0 (min 100 x)) points \<le> snd (last points)"
proof -
  obtain rest where c: "points = (0, 0) # rest" by (rule from_origin)
  have b: "0 \<le> max 0 (min 100 x)" by simp
  show ?thesis using curve_from_low [OF ordered [unfolded c] b] unfolding c by blast
qed

lemma calibration_mono: "x \<le> y \<Longrightarrow> curve_from (max 0 (min 100 x)) points \<le> curve_from (max 0 (min 100 y)) points"
proof -
  assume xy: "x \<le> y"
  obtain rest where c: "points = (0, 0) # rest" by (rule from_origin)
  have b: "0 \<le> max 0 (min 100 x)" "max 0 (min 100 x) \<le> max 0 (min 100 y)" using xy by auto
  show ?thesis using curve_from_mono [OF ordered [unfolded c] b] unfolding c .
qed

end

interpretation combat_curve: engine_curve COMBAT_ENGINE_CURVE
  by unfold_locales (simp_all add: COMBAT_ENGINE_CURVE_def)

section \<open>Properties\<close>

lemma engine_curve_bounds:
  "0 \<le> calibrateCombatEngineDifficulty x \<and> calibrateCombatEngineDifficulty x \<le> max 0 (min 98 x)"
proof -
  have "snd (last COMBAT_ENGINE_CURVE) = 98" by (simp add: COMBAT_ENGINE_CURVE_def)
  then show ?thesis using combat_curve.calibration_bounds [of x]
    unfolding calibrateCombatEngineDifficulty_def Let_def by linarith
qed

lemma engine_curve_mono: "mono calibrateCombatEngineDifficulty"
  unfolding mono_def calibrateCombatEngineDifficulty_def Let_def by (blast intro: combat_curve.calibration_mono)

text \<open>The calibration is monotone and always between 0 and 98; it never asks the engine for
  more than the strategic difficulty requested (read inside 0..100), and it changes nothing up to
  60. The interpolation is binary64 arithmetic.\<close>

theorem engine_curve_sound:
  "mono calibrateCombatEngineDifficulty \<and>
   (0 \<le> calibrateCombatEngineDifficulty x \<and> calibrateCombatEngineDifficulty x \<le> max 0 (min 98 x)) \<and>
   calibrateCombatEngineDifficulty (max 0 (min 60 x)) = max 0 (min 60 x)"
proof (rule conjI [OF engine_curve_mono conjI [OF engine_curve_bounds]])
  let ?y = "max 0 (min 60 x)"
  have y: "max 0 (min 100 ?y) = ?y" "0 \<le> ?y" "?y \<le> 60" by auto
  have "curve_from ?y COMBAT_ENGINE_CURVE = ?y"
  proof (cases "?y \<le> 5")
    case True
    then show ?thesis unfolding COMBAT_ENGINE_CURVE_def
      using segment_diagonal [of 0 ?y 5] y(2) by (simp only: curve_from_step if_True)
  next
    case False
    then show ?thesis unfolding COMBAT_ENGINE_CURVE_def
      using segment_diagonal [of 5 ?y 60] y(3) by (simp only: curve_from_step if_True if_False)
  qed
  then show "calibrateCombatEngineDifficulty ?y = ?y"
    unfolding calibrateCombatEngineDifficulty_def Let_def y(1) .
qed

lemma relief_bounds: "-18 \<le> relief_of_recent r \<and> relief_of_recent r \<le> 0"
  unfolding relief_of_recent_def COMBAT_ADAPTIVE_MAX_RELIEF_def
  by (auto split: list.splits simp: Let_def)

text \<open>An adapted difficulty is within 5..95, never above the base, at most 18 points below it,
  with an engine difficulty between 0 and it; without battles nothing changes.\<close>

theorem adaptive_never_harder:
  "let d = adaptiveCombatDifficulty base history
   in 5 \<le> ad_adjusted d \<and> ad_adjusted d \<le> ad_base d \<and> ad_base d \<le> 95 \<and>
      ad_base d - 18 \<le> ad_adjusted d \<and> ad_relief d = ad_adjusted d - ad_base d \<and>
      0 \<le> ad_engineAdjusted d \<and> ad_engineAdjusted d \<le> ad_adjusted d \<and>
      ad_adjusted (adaptiveCombatDifficulty base ([] :: 'r battle_entry list)) = ad_base d"
proof -
  define b where "b = max 5 (min 95 (js_round base))"
  define r where "r = combatAdaptiveRelief history"
  have r: "-18 \<le> r" "r \<le> 0" unfolding r_def combatAdaptiveRelief_def using relief_bounds by auto
  have r0: "combatAdaptiveRelief ([] :: 'r battle_entry list) = 0"
    by (simp add: combatAdaptiveRelief_def validRecentBattles_def relief_of_recent_def)
  define a where "a = max 5 (min 95 (b + r))"
  have b: "5 \<le> b" "b \<le> 95" by (auto simp: b_def)
  have a: "5 \<le> a" "a \<le> b" "b - 18 \<le> a" using b r by (auto simp: a_def)
  have e: "0 \<le> calibrateCombatEngineDifficulty a" "calibrateCombatEngineDifficulty a \<le> a"
    using engine_curve_bounds [of a] a by auto
  show ?thesis
    unfolding adaptiveCombatDifficulty_def Let_def r0 r_def [symmetric] b_def [symmetric] a_def [symmetric]
    using a b e by auto
qed

lemma fl_fifth: "fl (1 / 5) = 3602879701896397 / 18014398509481984"
  using fl_eqI [of "-55" "1 / 5" 7205759403792794] by (simp add: pow2_def)

text \<open>The roundings of the two averages, each from its significand and exponent.\<close>

lemma average_op0: "fmul (3602879701896397 / 18014398509481984) 3 = 1351079888211149 / 2251799813685248"
  unfolding fmul_def
  using fl_eqI_even [of "-53" "(3602879701896397 / 18014398509481984) * 3" 5404319552844596]
  by (simp add: pow2_def)

lemma average_op1: "fadd 0 (1351079888211149 / 2251799813685248) = 1351079888211149 / 2251799813685248"
  unfolding fadd_def
  using fl_eqI [of "-53" "0 + (1351079888211149 / 2251799813685248)" 5404319552844596]
  by (simp add: pow2_def)

lemma average_op2: "fmul (3602879701896397 / 18014398509481984) 2 = 3602879701896397 / 9007199254740992"
  unfolding fmul_def
  using fl_eqI [of "-54" "(3602879701896397 / 18014398509481984) * 2" 7205759403792794]
  by (simp add: pow2_def)

lemma average_op3: "fadd (1351079888211149 / 2251799813685248) (3602879701896397 / 9007199254740992) = 1"
  unfolding fadd_def
  using fl_eqI_even [of "-52" "(1351079888211149 / 2251799813685248) + (3602879701896397 / 9007199254740992)" 4503599627370496]
  by (simp add: pow2_def)

lemma average_op4: "fmul (3602879701896397 / 18014398509481984) 1 = 3602879701896397 / 18014398509481984"
  unfolding fmul_def
  using fl_eqI [of "-55" "(3602879701896397 / 18014398509481984) * 1" 7205759403792794]
  by (simp add: pow2_def)

lemma average_op5: "fadd 1 (3602879701896397 / 18014398509481984) = 5404319552844595 / 4503599627370496"
  unfolding fadd_def
  using fl_eqI [of "-52" "1 + (3602879701896397 / 18014398509481984)" 5404319552844595]
  by (simp add: pow2_def)

lemma average_op6: "fdiv (5404319552844595 / 4503599627370496) 6 = 7205759403792793 / 36028797018963968"
  unfolding fdiv_def
  using fl_eqI [of "-55" "(5404319552844595 / 4503599627370496) / 6" 7205759403792793]
  by (simp add: pow2_def)

lemma average_op7: "fmul (3602879701896397 / 18014398509481984) 4 = 3602879701896397 / 4503599627370496"
  unfolding fmul_def
  using fl_eqI [of "-53" "(3602879701896397 / 18014398509481984) * 4" 7205759403792794]
  by (simp add: pow2_def)

lemma average_op8: "fadd 0 (3602879701896397 / 4503599627370496) = 3602879701896397 / 4503599627370496"
  unfolding fadd_def
  using fl_eqI [of "-53" "0 + (3602879701896397 / 4503599627370496)" 7205759403792794]
  by (simp add: pow2_def)

lemma average_op9: "fadd (3602879701896397 / 4503599627370496) (1351079888211149 / 2251799813685248) = 6305039478318695 / 4503599627370496"
  unfolding fadd_def
  using fl_eqI [of "-52" "(3602879701896397 / 4503599627370496) + (1351079888211149 / 2251799813685248)" 6305039478318695]
  by (simp add: pow2_def)

lemma average_op10: "fadd (6305039478318695 / 4503599627370496) (3602879701896397 / 9007199254740992) = 4053239664633447 / 2251799813685248"
  unfolding fadd_def
  using fl_eqI_even [of "-52" "(6305039478318695 / 4503599627370496) + (3602879701896397 / 9007199254740992)" 8106479329266894]
  by (simp add: pow2_def)

lemma average_op11: "fadd (4053239664633447 / 2251799813685248) (3602879701896397 / 18014398509481984) = 4503599627370497 / 2251799813685248"
  unfolding fadd_def
  using fl_eqI [of "-51" "(4053239664633447 / 2251799813685248) + (3602879701896397 / 18014398509481984)" 4503599627370497]
  by (simp add: pow2_def)

lemma average_op12: "fdiv (4503599627370497 / 2251799813685248) 10 = 7205759403792795 / 36028797018963968"
  unfolding fdiv_def
  using fl_eqI [of "-55" "(4503599627370497 / 2251799813685248) / 10" 7205759403792795]
  by (simp add: pow2_def)

lemmas average_ops = average_op0 average_op1 average_op2 average_op3 average_op4 average_op5 average_op6 average_op7 average_op8 average_op9 average_op10 average_op11 average_op12

lemma performance_three_retired: "performance [Retired, Retired, Retired] \<le> fl (2 / 10)"
  by (simp add: performance_def weight_step_def outcomeScore_def fl_fifth average_ops)

lemma performance_four_retired:
  "fl (2 / 10) < performance [Retired, Retired, Retired, Retired] \<and>
   performance [Retired, Retired, Retired, Retired] \<le> fl (35 / 100)"
  using fl_mono [of "7 / 20" "7 / 20"] fl_eqI [of "-54" "7 / 20" 6305039478318694]
  by (simp add: performance_def weight_step_def outcomeScore_def fl_fifth average_ops pow2_def)

text \<open>A fourth retirement in a row buys less relief than three: the weighted average of four
  is a double just above 0.2, so the relief drops from 15 points to 11.\<close>

theorem retirement_relief_anomaly:
  "relief_of_recent [Retired, Retired, Retired] = -15 \<and>
   relief_of_recent [Retired, Retired, Retired, Retired] = -11"
  using performance_three_retired performance_four_retired
  by (simp add: relief_of_recent_def hardLossStreak_def COMBAT_ADAPTIVE_MAX_RELIEF_def Let_def)

end
