(* ===== verification/CampaignMap.thy ===== *)
theory CampaignMap
  imports RunContent AdaptiveDifficulty
begin

text \<open>
  The map part of \<open>combatCampaign.js\<close>: a seed determines seven stages of nodes, from the
  command post to the boss, with their names, material modifiers, difficulties and
  connections. Icons are left out; every other field of a node is modelled.
\<close>

section \<open>Nodes\<close>

datatype node_type = NStart | NBattle | NElite | NEvent | NCamp | NBoss

definition type_name :: "node_type \<Rightarrow> string" where
  "type_name t = (case t of NStart \<Rightarrow> ''start'' | NBattle \<Rightarrow> ''battle'' | NElite \<Rightarrow> ''elite''
                  | NEvent \<Rightarrow> ''event'' | NCamp \<Rightarrow> ''camp'' | NBoss \<Rightarrow> ''boss'')"

text \<open>\<open>['battle', 'elite', 'boss'].includes(type)\<close>.\<close>

definition combat_type :: "node_type \<Rightarrow> bool" where
  "combat_type t \<longleftrightarrow> t = NBattle \<or> t = NElite \<or> t = NBoss"

record node =
  nd_id :: string
  nd_stage :: nat
  nd_floor :: nat
  nd_lane :: int
  nd_type :: node_type
  nd_typeLabel :: string
  nd_label :: string
  nd_description :: string
  nd_modifierId :: string
  nd_baseDifficulty :: int
  nd_bossId :: "string option"
  nd_mechanicLabel :: "string option"
  nd_mechanicDescription :: "string option"
  nd_tier :: string
  nd_connections :: "string list"

definition STAGE_FLOORS :: "nat \<Rightarrow> nat" where
  "STAGE_FLOORS stage = (case map_of [(1, 1), (2, 2), (3, 4), (4, 6), (5, 7), (6, 9), (7, 10)] stage of
                           None \<Rightarrow> stage | Some f \<Rightarrow> f)"

definition NODE_BLUEPRINTS :: "(int \<times> node_type) list list" where
  "NODE_BLUEPRINTS =
    [[(0, NBattle), (2, NBattle)],
     [(0, NEvent), (1, NBattle), (2, NCamp)],
     [(0, NElite), (1, NBattle), (2, NElite)],
     [(0, NEvent), (1, NCamp), (2, NBattle)],
     [(0, NBattle), (1, NElite), (2, NEvent)],
     [(0, NCamp), (1, NBattle), (2, NElite)],
     [(1, NBoss)]]"

definition BATTLE_NAMES :: "string list" where
  "BATTLE_NAMES = [''Patrulla de frontera'', ''Cruce bajo fuego'', ''Escaramuza del barranco'',
     (''L'' @ [CHR 0xED] @ ''nea de interdicci'' @ [CHR 0xF3] @ ''n''), ''Puesto avanzado'', ([CHR 0xDA] @ ''ltima carretera'')]"

definition ELITE_NAMES :: "string list" where
  "ELITE_NAMES = [''Guardia de Hierro'', (''Escuadr'' @ [CHR 0xF3] @ ''n de ruptura''), ''Veteranos del Muro'', (''Compa'' @ [CHR 0xF1] @ [CHR 0xED] @ ''a Negra'')]"

definition EVENT_NAMES :: "string list" where
  "EVENT_NAMES = [''Convoy abandonado'', ''Radio enemiga'', (''Dep'' @ [CHR 0xF3] @ ''sito sin custodiar''), ''Exploradores en la niebla'']"

definition CAMP_NAMES :: "string list" where
  "CAMP_NAMES = [(''Campamento de campa'' @ [CHR 0xF1] @ ''a''), ''Puesto de retaguardia'', ''Vivac de medianoche'']"

definition TYPE_META :: "node_type \<Rightarrow> string \<times> string" where
  "TYPE_META t = (case t of
      NBattle \<Rightarrow> (''Combate'', ''Encuentro de campa'' @ [CHR 0xF1] @ ''a. Victoria = una ventaja temporal.'')
    | NElite \<Rightarrow> (([CHR 0xC9] @ ''lite''), (''M'' @ [CHR 0xE1] @ ''s amenaza. La ventaja elegida entra con doble carga.''))
    | NEvent \<Rightarrow> (''Evento'', (''Decisi'' @ [CHR 0xF3] @ ''n de riesgo/recompensa sin batalla inmediata.''))
    | NCamp \<Rightarrow> (''Campamento'', ''Nodo seguro: reorganiza y gana una ventaja temporal.'')
    | NBoss \<Rightarrow> (''Boss'', (''Jefe final de la operaci'' @ [CHR 0xF3] @ ''n. Su regla especial siempre se anuncia antes del combate.''))
    | NStart \<Rightarrow> (''Base'', (''Inicio de la operaci'' @ [CHR 0xF3] @ ''n.'')))"

section \<open>Seeded choices\<close>

definition pick :: "string \<Rightarrow> string \<Rightarrow> 'a list \<Rightarrow> 'a" where
  "pick seed token xs =
     (let roll = seededUnit (seed @ '':'' @ token) 1
      in xs ! min (length xs - 1) (nat \<lfloor>roll * of_nat (length xs)\<rfloor>))"

definition token :: "string \<Rightarrow> nat \<Rightarrow> int \<Rightarrow> string" where
  "token prefix stage lane = prefix @ ''-'' @ show_nat stage @ ''-'' @ show_int lane"

definition modifierForNode :: "string \<Rightarrow> nat \<Rightarrow> int \<Rightarrow> node_type \<Rightarrow> string" where
  "modifierForNode seed stage lane t =
     (if t = NBoss then ''none''
      else if t = NBattle \<and> stage = 1 then ''none''
      else if t = NElite
      then (if 6 \<le> stage then pick seed (token ''elite'' stage lane) [''extra_queen'', ''double_pawns'']
            else pick seed (token ''elite'' stage lane) [''extra_rook'', ''double_pawns'', ''extra_queen''])
      else if stage \<le> 2 then pick seed (token ''battle'' stage lane) [''none'', ''none'', ''extra_knight'', ''extra_bishop'']
      else if stage \<le> 4 then pick seed (token ''battle'' stage lane) [''extra_bishop'', ''extra_rook'', ''double_pawns'']
      else pick seed (token ''battle'' stage lane) [''extra_rook'', ''double_pawns'', ''extra_queen''])"

definition nodeName :: "string \<Rightarrow> nat \<Rightarrow> int \<Rightarrow> node_type \<Rightarrow> string" where
  "nodeName seed stage lane t =
     (if t = NBoss then boss_label (campaignBossForSeed seed)
      else if t = NBattle then pick seed (token ''name-battle'' stage lane) BATTLE_NAMES
      else if t = NElite then pick seed (token ''name-elite'' stage lane) ELITE_NAMES
      else if t = NEvent then pick seed (token ''name-event'' stage lane) EVENT_NAMES
      else pick seed (token ''name-camp'' stage lane) CAMP_NAMES)"

definition CAMPAIGN_STAGE_DIFFICULTY :: "int list" where
  "CAMPAIGN_STAGE_DIFFICULTY = [14, 20, 29, 38, 48, 59, 70]"

definition baseDifficultyFor :: "nat \<Rightarrow> node_type \<Rightarrow> int" where
  "baseDifficultyFor stage t =
     (let safeStage = max 1 (min 7 stage);
          stageBase = CAMPAIGN_STAGE_DIFFICULTY ! (safeStage - 1)
      in if t = NElite then min 95 (stageBase + 8)
         else if t = NBoss then CAMPAIGN_STAGE_DIFFICULTY ! 6
         else stageBase)"

record biome =
  biome_id :: string
  biome_label :: string
  biome_boardTheme :: string

definition biome_jungle :: biome where
  "biome_jungle = \<lparr>biome_id = ''jungle'', biome_label = ''Selva en ruinas'', biome_boardTheme = ''combat-jungle''\<rparr>"
definition biome_urban :: biome where
  "biome_urban = \<lparr>biome_id = ''urban'', biome_label = ''Distrito sitiado'', biome_boardTheme = ''combat-urban''\<rparr>"
definition biome_desert :: biome where
  "biome_desert = \<lparr>biome_id = ''desert'', biome_label = ''Frontera de ceniza'', biome_boardTheme = ''combat-desert''\<rparr>"
definition biome_citadel :: biome where
  "biome_citadel = \<lparr>biome_id = ''citadel'', biome_label = ''Ciudadela del rey'', biome_boardTheme = ''combat-citadel''\<rparr>"

definition campaignBiomeForNode :: "string \<Rightarrow> node option \<Rightarrow> biome" where
  "campaignBiomeForNode seed n =
     (case n of
        None \<Rightarrow> biome_jungle
      | Some n \<Rightarrow>
          if nd_type n = NBoss then biome_citadel
          else let stage = max 1 (min 7 (nd_stage n));
                   options = (if stage \<le> 2 then [biome_jungle, biome_jungle, biome_urban]
                              else if stage \<le> 4 then [biome_urban, biome_jungle, biome_urban]
                              else [biome_desert, biome_urban, biome_desert])
               in pick (if seed = [] then ''campaign'' else seed) (''biome-'' @ nd_id n) options)"

section \<open>The map\<close>

definition connectionsFor :: "nat \<Rightarrow> int \<Rightarrow> node list \<Rightarrow> string list" where
  "connectionsFor stage lane nextNodes =
     (if stage = 0 then map nd_id nextNodes
      else if length nextNodes = 1 then [nd_id (hd nextNodes)]
      else let close = filter (\<lambda>n. \<bar>nd_lane n - lane\<bar> \<le> 1) nextNodes
           in map nd_id (if close \<noteq> [] then close else nextNodes))"

definition node_id :: "nat \<Rightarrow> int \<Rightarrow> node_type \<Rightarrow> string" where
  "node_id stage lane t = ''s'' @ show_nat stage @ ''-l'' @ show_int lane @ ''-'' @ type_name t"

definition map_node :: "string \<Rightarrow> nat \<Rightarrow> int \<times> node_type \<Rightarrow> node" where
  "map_node safeSeed stage = (\<lambda>(lane, t).
     \<lparr>nd_id = node_id stage lane t, nd_stage = stage, nd_floor = STAGE_FLOORS stage, nd_lane = lane, nd_type = t,
      nd_typeLabel = fst (TYPE_META t), nd_label = nodeName safeSeed stage lane t,
      nd_description = (if t = NBoss then boss_description (campaignBossForSeed safeSeed) else snd (TYPE_META t)),
      nd_modifierId = modifierForNode safeSeed stage lane t, nd_baseDifficulty = baseDifficultyFor stage t,
      nd_bossId = (if t = NBoss then Some (boss_id (campaignBossForSeed safeSeed)) else None),
      nd_mechanicLabel = (if t = NBoss then Some (boss_mechanicLabel (campaignBossForSeed safeSeed)) else None),
      nd_mechanicDescription = (if t = NBoss then Some (boss_mechanicDescription (campaignBossForSeed safeSeed)) else None),
      nd_tier = (if t = NBoss then ''boss'' else if t = NElite then ''elite'' else if t = NBattle then ''normal''
                 else type_name t),
      nd_connections = []\<rparr>)"

text \<open>The loop that links each stage to the next one; the last stage keeps no connection.\<close>

fun connect_stages :: "node list list \<Rightarrow> node list list" where
  "connect_stages (current # next # rest) =
     map (\<lambda>n. n\<lparr>nd_connections := connectionsFor (nd_stage n) (nd_lane n) next\<rparr>) current
       # connect_stages (next # rest)"
| "connect_stages stages = stages"

definition start_node :: "node list \<Rightarrow> node" where
  "start_node firstStage =
     \<lparr>nd_id = ''start'', nd_stage = 0, nd_floor = 0, nd_lane = 1, nd_type = NStart, nd_typeLabel = ''Base'',
      nd_label = ''Puesto de mando'', nd_description = (''Inicio de la operaci'' @ [CHR 0xF3] @ ''n.''), nd_modifierId = ''none'',
      nd_baseDifficulty = 0, nd_bossId = None, nd_mechanicLabel = None, nd_mechanicDescription = None,
      nd_tier = ''safe'', nd_connections = connectionsFor 0 1 firstStage\<rparr>"

record campaign_map =
  cm_seed :: string
  cm_start :: node
  cm_stages :: "node list list"
  cm_nodes :: "node list"

definition safe_seed :: "string \<Rightarrow> string" where
  "safe_seed seed = (if seed = [] then ''campaign'' else seed)"

definition raw_stages :: "string \<Rightarrow> node list list" where
  "raw_stages safeSeed =
     map (\<lambda>(index, blueprints). map (map_node safeSeed (index + 1)) blueprints) (enumerate 0 NODE_BLUEPRINTS)"

definition campaignMap :: "string \<Rightarrow> campaign_map" where
  "campaignMap seed =
     (let safeSeed = safe_seed seed;
          start = start_node (hd (raw_stages safeSeed));
          stages = connect_stages (raw_stages safeSeed)
      in \<lparr>cm_seed = safeSeed, cm_start = start, cm_stages = stages, cm_nodes = start # concat stages\<rparr>)"

section \<open>The shape of the map does not depend on the seed\<close>

definition shape :: "node \<Rightarrow> string \<times> nat \<times> node_type \<times> string list" where
  "shape n = (nd_id n, nd_stage n, nd_type n, nd_connections n)"

definition MAP_SHAPE :: "(string \<times> nat \<times> node_type \<times> string list) list" where
  "MAP_SHAPE =
    [(''start'', 0, NStart, [''s1-l0-battle'', ''s1-l2-battle'']),
     (''s1-l0-battle'', 1, NBattle, [''s2-l0-event'', ''s2-l1-battle'']),
     (''s1-l2-battle'', 1, NBattle, [''s2-l1-battle'', ''s2-l2-camp'']),
     (''s2-l0-event'', 2, NEvent, [''s3-l0-elite'', ''s3-l1-battle'']),
     (''s2-l1-battle'', 2, NBattle, [''s3-l0-elite'', ''s3-l1-battle'', ''s3-l2-elite'']),
     (''s2-l2-camp'', 2, NCamp, [''s3-l1-battle'', ''s3-l2-elite'']),
     (''s3-l0-elite'', 3, NElite, [''s4-l0-event'', ''s4-l1-camp'']),
     (''s3-l1-battle'', 3, NBattle, [''s4-l0-event'', ''s4-l1-camp'', ''s4-l2-battle'']),
     (''s3-l2-elite'', 3, NElite, [''s4-l1-camp'', ''s4-l2-battle'']),
     (''s4-l0-event'', 4, NEvent, [''s5-l0-battle'', ''s5-l1-elite'']),
     (''s4-l1-camp'', 4, NCamp, [''s5-l0-battle'', ''s5-l1-elite'', ''s5-l2-event'']),
     (''s4-l2-battle'', 4, NBattle, [''s5-l1-elite'', ''s5-l2-event'']),
     (''s5-l0-battle'', 5, NBattle, [''s6-l0-camp'', ''s6-l1-battle'']),
     (''s5-l1-elite'', 5, NElite, [''s6-l0-camp'', ''s6-l1-battle'', ''s6-l2-elite'']),
     (''s5-l2-event'', 5, NEvent, [''s6-l1-battle'', ''s6-l2-elite'']),
     (''s6-l0-camp'', 6, NCamp, [''s7-l1-boss'']),
     (''s6-l1-battle'', 6, NBattle, [''s7-l1-boss'']),
     (''s6-l2-elite'', 6, NElite, [''s7-l1-boss'']),
     (''s7-l1-boss'', 7, NBoss, [])]"

lemma map_node_simps [simp]:
  "nd_id (map_node s k p) = node_id k (fst p) (snd p)" "nd_stage (map_node s k p) = k"
  "nd_lane (map_node s k p) = fst p" "nd_type (map_node s k p) = snd p" "nd_connections (map_node s k p) = []"
  by (simp_all add: map_node_def split: prod.splits)

lemma raw_stages_eq:
  "raw_stages s = map (\<lambda>(i, bs). map (map_node s i) bs)
     [(1, [(0, NBattle), (2, NBattle)]), (2, [(0, NEvent), (1, NBattle), (2, NCamp)]),
      (3, [(0, NElite), (1, NBattle), (2, NElite)]), (4, [(0, NEvent), (1, NCamp), (2, NBattle)]),
      (5, [(0, NBattle), (1, NElite), (2, NEvent)]), (6, [(0, NCamp), (1, NBattle), (2, NElite)]),
      (7, [(1, NBoss)])]"
  by (simp add: raw_stages_def NODE_BLUEPRINTS_def numeral_eq_Suc)

lemma shape_map: "map shape (cm_nodes (campaignMap seed)) = MAP_SHAPE"
  by (simp add: campaignMap_def Let_def raw_stages_eq start_node_def shape_def connectionsFor_def MAP_SHAPE_def
      node_id_def show_int_def show_nat.simps digit_char_def type_name_def)

text \<open>A statement about the shapes of the nodes is checked on the table.\<close>

lemma list_all_shape:
  "list_all (\<lambda>n. P (shape n)) (cm_nodes (campaignMap seed)) = list_all P MAP_SHAPE"
  unfolding shape_map [of seed, symmetric] by (simp add: list_all_length)

lemma list_ex_shape:
  "list_ex (\<lambda>n. P (shape n)) (cm_nodes (campaignMap seed)) = list_ex P MAP_SHAPE"
  unfolding shape_map [of seed, symmetric] by (simp add: list_ex_iff)

lemma map_ids: "map nd_id (cm_nodes (campaignMap seed)) = map fst MAP_SHAPE"
proof -
  have "map nd_id ns = map fst (map shape ns)" for ns by (simp add: shape_def)
  then show ?thesis by (simp only: shape_map)
qed

lemma map_ids_distinct: "distinct (map nd_id (cm_nodes (campaignMap seed)))"
  unfolding map_ids MAP_SHAPE_def by simp

definition shape_routes :: "(string \<times> nat \<times> node_type \<times> string list) list \<Rightarrow> bool" where
  "shape_routes ss \<longleftrightarrow>
     list_all (\<lambda>(i, k, t, cs).
       (k < 7) = (cs \<noteq> []) \<and> (k = 7) = (t = NBoss) \<and> (k = 0) = (i = ''start'') \<and>
       list_all (\<lambda>c. list_ex (\<lambda>(j, k', _, _). j = c \<and> k' = k + 1) ss) cs \<and>
       (k = 0 \<or> list_ex (\<lambda>(_, _, _, ds). i \<in> set ds) ss)) ss"

lemma map_shape_routes: "shape_routes MAP_SHAPE"
  unfolding shape_routes_def MAP_SHAPE_def by simp

section \<open>Properties\<close>

text \<open>Every campaign is playable to its end, whatever the seed. Node ids are distinct; every node
  before the last stage has connections, each naming a node of the next stage; every node but the
  command post is connected from another one; the last stage, and only it, is the boss. So every
  route meets the boss after exactly seven selections.\<close>

theorem campaign_map_routes:
  "let nodes = cm_nodes (campaignMap seed)
   in distinct (map nd_id nodes) \<and>
      list_all (\<lambda>n.
        (nd_stage n < 7) = (nd_connections n \<noteq> []) \<and> (nd_stage n = 7) = (nd_type n = NBoss) \<and>
        (nd_stage n = 0) = (nd_id n = ''start'') \<and>
        list_all (\<lambda>c. list_ex (\<lambda>m. nd_id m = c \<and> nd_stage m = nd_stage n + 1) nodes) (nd_connections n) \<and>
        (nd_stage n = 0 \<or> list_ex (\<lambda>m. nd_id n \<in> set (nd_connections m)) nodes)) nodes"
proof -
  have ex1: "list_ex (\<lambda>m. nd_id m = c \<and> nd_stage m = k) (cm_nodes (campaignMap seed)) =
      list_ex (\<lambda>(j, k', _, _). j = c \<and> k' = k) MAP_SHAPE" for c k
    using list_ex_shape [of "\<lambda>(j, k', _, _). j = c \<and> k' = k" seed] by (simp add: shape_def)
  have ex2: "list_ex (\<lambda>m. i \<in> set (nd_connections m)) (cm_nodes (campaignMap seed)) =
      list_ex (\<lambda>(_, _, _, ds). i \<in> set ds) MAP_SHAPE" for i
    using list_ex_shape [of "\<lambda>(_, _, _, ds). i \<in> set ds" seed] by (simp add: shape_def)
  show ?thesis
    unfolding Let_def ex1 ex2
    using map_shape_routes map_ids_distinct [of seed]
      list_all_shape [of "\<lambda>(i, k, t, cs).
       (k < 7) = (cs \<noteq> []) \<and> (k = 7) = (t = NBoss) \<and> (k = 0) = (i = ''start'') \<and>
       list_all (\<lambda>c. list_ex (\<lambda>(j, k', _, _). j = c \<and> k' = k + 1) MAP_SHAPE) cs \<and>
       (k = 0 \<or> list_ex (\<lambda>(_, _, _, ds). i \<in> set ds) MAP_SHAPE)" seed]
    by (simp add: shape_def shape_routes_def)
qed

lemma pick_in: "xs \<noteq> [] \<Longrightarrow> pick seed t xs \<in> set xs"
  unfolding pick_def Let_def by (rule nth_mem) (simp add: less_eq_Suc_le flip: One_nat_def, cases xs; simp)

lemma modifierForNode_known: "MODIFIER_BY_ID (modifierForNode seed stage lane t) \<noteq> None"
proof -
  let ?K = "{''none'', ''extra_knight'', ''extra_bishop'', ''extra_rook'', ''double_pawns'', ''extra_queen''}"
  have pick: "xs \<noteq> [] \<Longrightarrow> set xs \<subseteq> ?K \<Longrightarrow> pick seed tok xs \<in> ?K" for tok xs
    using pick_in [of xs seed tok] by blast
  have "modifierForNode seed stage lane t \<in> ?K"
    unfolding modifierForNode_def by (simp only: split: if_splits) (intro conjI impI pick; simp)
  moreover have "MODIFIER_BY_ID i \<noteq> None" if "i \<in> ?K" for i
    using that by (auto simp: MODIFIER_BY_ID_def ROGUELIKE_MODIFIERS_def)
  ultimately show ?thesis by blast
qed

text \<open>The content of every node is sound for every seed: its material modifier exists, fights of the
  first sector and the boss are materially standard, the difficulty of a fight lies between 14 and
  70, grows from one stage to the next, and an elite is 8 points above its sector.\<close>

theorem campaign_nodes_sound:
  "list_all (\<lambda>n. MODIFIER_BY_ID (nd_modifierId n) \<noteq> None \<and>
      (if nd_stage n = 1 \<or> nd_type n = NBoss then nd_modifierId n = ''none'' else True) \<and>
      (if combat_type (nd_type n) then 14 \<le> nd_baseDifficulty n \<and> nd_baseDifficulty n \<le> 70 else True))
     (cm_nodes (campaignMap seed)) \<and>
   sorted_wrt (<) (map (\<lambda>k. baseDifficultyFor k NBattle) [1, 2, 3, 4, 5, 6, 7]) \<and>
   list_all (\<lambda>k. baseDifficultyFor k NElite = baseDifficultyFor k NBattle + 8) [1, 2, 3, 4, 5, 6, 7]"
proof -
  have none: "MODIFIER_BY_ID ''none'' \<noteq> None" by (simp add: MODIFIER_BY_ID_def ROGUELIKE_MODIFIERS_def)
  have fields: "nd_modifierId (map_node s k p) = modifierForNode s k (fst p) (snd p)"
    "nd_baseDifficulty (map_node s k p) = baseDifficultyFor k (snd p)" for s k p
    by (simp_all add: map_node_def split: prod.splits)
  have first: "modifierForNode s 1 l NBattle = ''none''" "modifierForNode s k l NBoss = ''none''" for s k l
    by (simp_all add: modifierForNode_def)
  show ?thesis
    by (simp add: campaignMap_def Let_def raw_stages_eq start_node_def fields modifierForNode_known none
        first [unfolded One_nat_def] combat_type_def baseDifficultyFor_def CAMPAIGN_STAGE_DIFFICULTY_def
        del: not_None_eq)
qed

end
