(* ===== verification/CampaignRules.thy ===== *)
theory CampaignRules
  imports CampaignMap
begin

text \<open>
  The numbers of a campaign: \<open>combatEconomyBalance.js\<close> (credits and their projection) and
  \<open>combatMissionOrders.js\<close> (the two optional orders of a sector, the classified one, and the
  evaluation of a battle's metrics against them). Metrics arrive from a battle record, so each
  is a \<open>jsval\<close>.
\<close>

section \<open>Credits\<close>

definition CAMPAIGN_STARTING_CREDITS :: int where "CAMPAIGN_STARTING_CREDITS = 6"

definition BATTLE_CREDIT_REWARD :: "(string \<times> int) list" where
  "BATTLE_CREDIT_REWARD = [(''battle'', 4), (''elite'', 7), (''boss'', 12)]"

definition battle_credit_reward :: "string \<Rightarrow> int" where
  "battle_credit_reward t = (case map_of BATTLE_CREDIT_REWARD t of None \<Rightarrow> 0 | Some n \<Rightarrow> n)"

definition CAMPAIGN_INTEL_BASE_COSTS :: "int list" where "CAMPAIGN_INTEL_BASE_COSTS = [3, 5, 7]"
definition CAMPAIGN_MISSION_BONUS_CAP :: int where "CAMPAIGN_MISSION_BONUS_CAP = 9"

definition fullIntelCost :: "bool \<Rightarrow> int" where
  "fullIntelCost cipher = fold (\<lambda>cost sum. sum + max 1 (cost - (if cipher then 2 else 0))) CAMPAIGN_INTEL_BASE_COSTS 0"

record projection =
  pj_supplies :: int
  pj_earned :: int
  pj_spent :: int

definition project_battle :: "int list \<Rightarrow> nat \<times> string \<Rightarrow> projection \<Rightarrow> projection" where
  "project_battle missionBonuses = (\<lambda>(index, t) p.
     let base = battle_credit_reward t;
         mission = min CAMPAIGN_MISSION_BONUS_CAP
                     (max 0 (case nth_opt missionBonuses index of None \<Rightarrow> 0 | Some b \<Rightarrow> b))
     in p\<lparr>pj_supplies := pj_supplies p + (base + mission), pj_earned := pj_earned p + (base + mission)\<rparr>)"

definition project_purchase :: "int \<Rightarrow> projection \<Rightarrow> projection" where
  "project_purchase purchase p =
     (let cost = min (pj_supplies p) (max 0 purchase)
      in p\<lparr>pj_supplies := pj_supplies p - cost, pj_spent := pj_spent p + cost\<rparr>)"

definition projectedCampaignSupplies :: "string list \<Rightarrow> int list \<Rightarrow> int list \<Rightarrow> int \<Rightarrow> int \<Rightarrow> projection" where
  "projectedCampaignSupplies battleTypes missionBonuses intelPurchases eventIncome relicIncome =
     (let p = fold (project_battle missionBonuses) (enumerate 0 battleTypes)
                \<lparr>pj_supplies = CAMPAIGN_STARTING_CREDITS, pj_earned = 0, pj_spent = 0\<rparr>;
          p = fold project_purchase intelPurchases p
      in p\<lparr>pj_supplies := pj_supplies p + (max 0 eventIncome + max 0 relicIncome)\<rparr>)"

record economy_health =
  eh_fullIntel :: int
  eh_flawlessNormal :: int
  eh_flawlessElite :: int
  eh_normalFundsFullDossier :: bool
  eh_startingFundsFullDossier :: bool
  eh_missionCap :: int

definition combatEconomyHealth :: economy_health where
  "combatEconomyHealth =
     (let fullIntel = fullIntelCost False;
          flawlessNormal = battle_credit_reward ''battle'' + CAMPAIGN_MISSION_BONUS_CAP;
          flawlessElite = battle_credit_reward ''elite'' + CAMPAIGN_MISSION_BONUS_CAP
      in \<lparr>eh_fullIntel = fullIntel, eh_flawlessNormal = flawlessNormal, eh_flawlessElite = flawlessElite,
          eh_normalFundsFullDossier = (fullIntel \<le> flawlessNormal),
          eh_startingFundsFullDossier = (fullIntel \<le> CAMPAIGN_STARTING_CREDITS),
          eh_missionCap = CAMPAIGN_MISSION_BONUS_CAP\<rparr>)"

section \<open>Mission orders\<close>

record metrics =
  mt_casualties :: int
  mt_captures :: int
  mt_tacticalCredits :: int
  mt_underdogCredits :: int

record raw_metrics =
  rm_casualties :: jsval
  rm_captures :: jsval
  rm_tacticalCredits :: jsval
  rm_underdogCredits :: jsval

record order_definition =
  od_id :: string
  od_label :: string
  od_description :: string
  od_reward :: int
  od_test :: "metrics \<Rightarrow> bool"

definition ORDER_DEFINITIONS :: "order_definition list" where
  "ORDER_DEFINITIONS =
    [\<lparr>od_id = ''preserve-core'', od_label = (''Conservar el n'' @ [CHR 0xFA] @ ''cleo''),
      od_description = (''Gana sufriendo como m'' @ [CHR 0xE1] @ ''ximo 2 bajas propias.''), od_reward = 3,
      od_test = (\<lambda>m. mt_casualties m \<le> 2)\<rparr>,
     \<lparr>od_id = ''take-ground'', od_label = ''Tomar terreno'',
      od_description = ''Confirma al menos 3 capturas enemigas.'', od_reward = 2,
      od_test = (\<lambda>m. 3 \<le> mt_captures m)\<rparr>,
     \<lparr>od_id = ''tactical-edge'', od_label = (''Ventaja t'' @ [CHR 0xE1] @ ''ctica''),
      od_description = (''Genera al menos 2 puntos de m'' @ [CHR 0xE9] @ ''rito t'' @ [CHR 0xE1] @ ''ctico.''), od_reward = 3,
      od_test = (\<lambda>m. 2 \<le> mt_tacticalCredits m)\<rparr>,
     \<lparr>od_id = ''punch-up'', od_label = ''Golpear por encima del peso'',
      od_description = ''Consigue al menos 2 puntos por acciones contra material superior.'', od_reward = 4,
      od_test = (\<lambda>m. 2 \<le> mt_underdogCredits m)\<rparr>]"

definition CLASSIFIED_DEFINITIONS :: "order_definition list" where
  "CLASSIFIED_DEFINITIONS =
    [\<lparr>od_id = ''classified-surgical'', od_label = (''Golpe quir'' @ [CHR 0xFA] @ ''rgico''),
      od_description = (''Confirma al menos 4 capturas sufriendo como m'' @ [CHR 0xE1] @ ''ximo 1 baja.''), od_reward = 6,
      od_test = (\<lambda>m. 4 \<le> mt_captures m \<and> mt_casualties m \<le> 1)\<rparr>,
     \<lparr>od_id = ''classified-underdog'', od_label = ''Caza mayor'',
      od_description = ''Genera al menos 4 puntos por acciones contra material superior.'', od_reward = 6,
      od_test = (\<lambda>m. 4 \<le> mt_underdogCredits m)\<rparr>,
     \<lparr>od_id = ''classified-tactical'', od_label = ''Superioridad demostrable'',
      od_description = (''Genera al menos 5 puntos de m'' @ [CHR 0xE9] @ ''rito t'' @ [CHR 0xE1] @ ''ctico durante la batalla.''), od_reward = 5,
      od_test = (\<lambda>m. 5 \<le> mt_tacticalCredits m)\<rparr>,
     \<lparr>od_id = ''classified-pressure'', od_label = ''Barrido controlado'',
      od_description = ''Confirma al menos 6 capturas sin superar 3 bajas propias.'', od_reward = 5,
      od_test = (\<lambda>m. 6 \<le> mt_captures m \<and> mt_casualties m \<le> 3)\<rparr>]"

definition normalizeMetrics :: "raw_metrics \<Rightarrow> metrics" where
  "normalizeMetrics raw =
     \<lparr>mt_casualties = safe_int (rm_casualties raw), mt_captures = safe_int (rm_captures raw),
      mt_tacticalCredits = safe_int (rm_tacticalCredits raw), mt_underdogCredits = safe_int (rm_underdogCredits raw)\<rparr>"

record public_order =
  po_id :: string
  po_label :: string
  po_description :: string
  po_reward :: int
  po_classified :: bool

definition publicOrder :: "order_definition \<Rightarrow> bool \<Rightarrow> public_order" where
  "publicOrder d classified =
     \<lparr>po_id = od_id d, po_label = od_label d, po_description = od_description d, po_reward = od_reward d,
      po_classified = classified\<rparr>"

definition remove_at :: "nat \<Rightarrow> 'a list \<Rightarrow> 'a list" where
  "remove_at i xs = take i xs @ drop (Suc i) xs"

definition campaignMissionOrders :: "string \<Rightarrow> node option \<Rightarrow> public_order list" where
  "campaignMissionOrders seed n =
     (case n of
        None \<Rightarrow> []
      | Some n \<Rightarrow>
          if \<not> combat_type (nd_type n) then []
          else let pool = ORDER_DEFINITIONS;
                   firstIndex = fnv_index (seed @ '':'' @ nd_id n @ '':orders:first'') (length pool);
                   first = pool ! firstIndex;
                   pool = remove_at firstIndex pool;
                   second = pool ! fnv_index (seed @ '':'' @ nd_id n @ '':orders:second'') (length pool)
               in [publicOrder first False, publicOrder second False])"

definition classifiedCampaignMission :: "string \<Rightarrow> node option \<Rightarrow> int \<Rightarrow> public_order option" where
  "classifiedCampaignMission seed n intelLevel =
     (case n of
        None \<Rightarrow> None
      | Some n \<Rightarrow>
          if \<not> combat_type (nd_type n) \<or> intelLevel < 2 then None
          else Some (publicOrder (CLASSIFIED_DEFINITIONS !
                 fnv_index (seed @ '':'' @ nd_id n @ '':classified'') (length CLASSIFIED_DEFINITIONS)) True))"

record order_result =
  or_order :: public_order
  or_completed :: bool
  or_earned :: int

text \<open>\<open>verified && Boolean(definition?.test(metrics))\<close>; the later of two definitions with one id
  wins in the source's \<open>Map\<close>.\<close>

definition order_completed :: "bool \<Rightarrow> metrics \<Rightarrow> public_order \<Rightarrow> bool" where
  "order_completed verified metrics order \<longleftrightarrow>
     verified \<and>
     (case List.find (\<lambda>d. od_id d = po_id order) (rev (ORDER_DEFINITIONS @ CLASSIFIED_DEFINITIONS)) of
        None \<Rightarrow> False | Some d \<Rightarrow> od_test d metrics)"

text \<open>The loop over the active orders, with the bonus that remains.\<close>

fun score_orders :: "bool \<Rightarrow> metrics \<Rightarrow> int \<Rightarrow> public_order list \<Rightarrow> order_result list" where
  "score_orders verified metrics remainingBonus [] = []"
| "score_orders verified metrics remainingBonus (order # rest) =
     (let completed = order_completed verified metrics order;
          earned = (if completed then min (po_reward order) remainingBonus else 0)
      in \<lparr>or_order = order, or_completed = completed, or_earned = earned\<rparr>
           # score_orders verified metrics (max 0 (remainingBonus - earned)) rest)"

record mission_result =
  ms_nodeId :: "string option"
  ms_verified :: bool
  ms_metrics :: metrics
  ms_results :: "order_result list"
  ms_completed :: "order_result list"
  ms_missed :: "order_result list"
  ms_earned :: int
  ms_capped :: int
  ms_classifiedRevealed :: bool

definition absent_metrics :: raw_metrics where
  "absent_metrics = \<lparr>rm_casualties = Undefined, rm_captures = Undefined, rm_tacticalCredits = Undefined,
                     rm_underdogCredits = Undefined\<rparr>"

definition evaluateCampaignMissionOrders :: "string \<Rightarrow> node option \<Rightarrow> raw_metrics option \<Rightarrow> int \<Rightarrow> mission_result" where
  "evaluateCampaignMissionOrders seed n rawMetrics intelLevel =
     (let verified = (case rawMetrics of None \<Rightarrow> False
            | Some r \<Rightarrow> is_finite (to_number (rm_casualties r)) \<and> is_finite (to_number (rm_captures r))
                \<and> is_finite (to_number (rm_tacticalCredits r)) \<and> is_finite (to_number (rm_underdogCredits r)));
          metrics = normalizeMetrics (case rawMetrics of None \<Rightarrow> absent_metrics | Some r \<Rightarrow> r);
          standard = campaignMissionOrders seed n;
          classified = classifiedCampaignMission seed n intelLevel;
          active = standard @ (case classified of None \<Rightarrow> [] | Some c \<Rightarrow> [c]);
          results = score_orders verified metrics CAMPAIGN_MISSION_BONUS_CAP active;
          rawEarned = sum_list (map (\<lambda>r. if or_completed r then po_reward (or_order r) else 0) results);
          earned = sum_list (map or_earned results)
      in \<lparr>ms_nodeId = (case n of None \<Rightarrow> None | Some n \<Rightarrow> Some (nd_id n)), ms_verified = verified,
          ms_metrics = metrics, ms_results = results,
          ms_completed = filter or_completed results,
          ms_missed = filter (\<lambda>r. \<not> or_completed r) results,
          ms_earned = earned, ms_capped = max 0 (rawEarned - earned),
          ms_classifiedRevealed = (classified \<noteq> None)\<rparr>)"

section \<open>Lemmas\<close>

lemma length_score [simp]: "length (score_orders v m b os) = length os"
  by (induction v m b os rule: score_orders.induct) (simp_all add: Let_def)

definition raw_bonus :: "order_result list \<Rightarrow> int" where
  "raw_bonus rs = sum_list (map (\<lambda>r. if or_completed r then po_reward (or_order r) else 0) rs)"

text \<open>The bonus is what the completed orders are worth, up to what remains of the cap.\<close>

lemma score_earned:
  "0 \<le> b \<Longrightarrow> list_all (\<lambda>o1. 0 \<le> po_reward o1) os \<Longrightarrow>
   sum_list (map or_earned (score_orders v m b os)) = min b (raw_bonus (score_orders v m b os))
   \<and> 0 \<le> raw_bonus (score_orders v m b os)"
proof (induction v m b os rule: score_orders.induct)
  case (2 v m b ord rest)
  let ?e = "if order_completed v m ord then min (po_reward ord) b else 0"
  have "0 \<le> max 0 (b - ?e)" by simp
  note IH = "2.IH" [OF refl refl this]
  have all: "list_all (\<lambda>o1. 0 \<le> po_reward o1) rest" "0 \<le> po_reward ord" using "2.prems"(2) by auto
  show ?case
    using IH [OF all(1)] all(2) "2.prems"(1)
    by (cases "order_completed v m ord") (auto simp add: Let_def raw_bonus_def min_def)
qed (simp_all add: raw_bonus_def)

lemma active_orders_rewards:
  "list_all (\<lambda>o1. 0 \<le> po_reward o1) (campaignMissionOrders seed n)"
  "classifiedCampaignMission seed n l = Some c \<Longrightarrow> 0 \<le> po_reward c \<and> po_classified c"
proof -
  have pos: "d \<in> set ORDER_DEFINITIONS \<Longrightarrow> 0 \<le> od_reward d" "d \<in> set CLASSIFIED_DEFINITIONS \<Longrightarrow> 0 \<le> od_reward d" for d
    by (auto simp: ORDER_DEFINITIONS_def CLASSIFIED_DEFINITIONS_def)
  have len: "length (remove_at i ORDER_DEFINITIONS) = 3" if "i < 4" for i
    using that by (simp add: remove_at_def ORDER_DEFINITIONS_def)
  have sub: "set (remove_at i ORDER_DEFINITIONS) \<subseteq> set ORDER_DEFINITIONS" for i
    unfolding remove_at_def using set_take_subset set_drop_subset by fastforce
  show "list_all (\<lambda>o1. 0 \<le> po_reward o1) (campaignMissionOrders seed n)"
  proof (cases n)
    case (Some x)
    let ?i = "fnv_index (seed @ '':'' @ nd_id x @ '':orders:first'') (length ORDER_DEFINITIONS)"
    let ?j = "fnv_index (seed @ '':'' @ nd_id x @ '':orders:second'') (length (remove_at ?i ORDER_DEFINITIONS))"
    have l4: "length ORDER_DEFINITIONS = 4" by (simp add: ORDER_DEFINITIONS_def)
    have i4: "?i < 4" unfolding l4 by (rule fnv_index_less) simp
    have "ORDER_DEFINITIONS ! ?i \<in> set ORDER_DEFINITIONS"
      by (rule fnv_pick_in) (simp add: ORDER_DEFINITIONS_def)
    moreover have "remove_at ?i ORDER_DEFINITIONS ! ?j \<in> set ORDER_DEFINITIONS"
      by (rule subsetD [OF sub fnv_pick_in]) (use len [OF i4] in force)
    ultimately show ?thesis using Some pos
      by (simp add: campaignMissionOrders_def publicOrder_def Let_def)
  qed (simp add: campaignMissionOrders_def)
  show "classifiedCampaignMission seed n l = Some c \<Longrightarrow> 0 \<le> po_reward c \<and> po_classified c"
    using pos(2) [OF fnv_pick_in [of CLASSIFIED_DEFINITIONS]]
    by (auto simp: classifiedCampaignMission_def publicOrder_def CLASSIFIED_DEFINITIONS_def
        split: option.splits if_splits)
qed

section \<open>Properties\<close>

text \<open>The bonus of a battle is what its completed orders are worth, never more than 9 and never
  negative; what the cap cut is reported; metrics that are missing or not numeric earn nothing;
  intel below 2 reveals no classified order, and intel never changes the two standard ones.\<close>

theorem mission_bonus_capped:
  "let r = evaluateCampaignMissionOrders seed n raw intel
   in ms_earned r = min 9 (raw_bonus (ms_results r)) \<and> 0 \<le> ms_earned r \<and>
      ms_capped r = raw_bonus (ms_results r) - ms_earned r \<and>
      (if ms_verified r then True else ms_earned r = 0) \<and>
      (ms_classifiedRevealed r = (2 \<le> intel \<and> (case n of None \<Rightarrow> False | Some x \<Rightarrow> combat_type (nd_type x)))) \<and>
      map or_order (take (length (campaignMissionOrders seed n)) (ms_results r)) = campaignMissionOrders seed n"
proof -
  let ?active = "campaignMissionOrders seed n @ (case classifiedCampaignMission seed n intel of None \<Rightarrow> [] | Some c \<Rightarrow> [c])"
  have nonneg: "list_all (\<lambda>o1. 0 \<le> po_reward o1) ?active"
    using active_orders_rewards by (auto split: option.splits)
  have cap: "(0::int) \<le> CAMPAIGN_MISSION_BONUS_CAP" by (simp add: CAMPAIGN_MISSION_BONUS_CAP_def)
  have orders: "map or_order (score_orders v m b os) = os" for v m b os
    by (induction v m b os rule: score_orders.induct) (simp_all add: Let_def)
  have tk: "map or_order (take k (score_orders v m b os)) = take k os" for v m b os k
    by (simp only: take_map [symmetric] orders)
  have cl: "(classifiedCampaignMission seed n intel \<noteq> None) =
      (2 \<le> intel \<and> (case n of None \<Rightarrow> False | Some x \<Rightarrow> combat_type (nd_type x)))"
    by (auto simp: classifiedCampaignMission_def split: option.splits)
  define v where "v = (case raw of None \<Rightarrow> False
            | Some r \<Rightarrow> is_finite (to_number (rm_casualties r)) \<and> is_finite (to_number (rm_captures r))
                \<and> is_finite (to_number (rm_tacticalCredits r)) \<and> is_finite (to_number (rm_underdogCredits r)))"
  define res where "res = score_orders v (normalizeMetrics (case raw of None \<Rightarrow> absent_metrics | Some r \<Rightarrow> r))
      CAMPAIGN_MISSION_BONUS_CAP ?active"
  have "sum_list (map or_earned (score_orders False m b os)) = 0" for m b os
    by (induction os arbitrary: b) (simp_all add: Let_def order_completed_def)
  then have e0: "\<not> v \<Longrightarrow> sum_list (map or_earned res) = 0" by (simp add: res_def)
  have e: "sum_list (map or_earned res) = min 9 (raw_bonus res)" "0 \<le> raw_bonus res"
    using score_earned [OF cap nonneg] by (simp_all add: res_def CAMPAIGN_MISSION_BONUS_CAP_def)
  have t: "map or_order (take (length (campaignMissionOrders seed n)) res) = campaignMissionOrders seed n"
    unfolding res_def tk by simp
  have c: "max 0 (raw_bonus res - sum_list (map or_earned res)) = raw_bonus res - sum_list (map or_earned res)"
    using e by simp
  show ?thesis
    unfolding evaluateCampaignMissionOrders_def Let_def v_def [symmetric] res_def [symmetric] raw_bonus_def [symmetric]
    using e e0 cl t c by (simp del: not_None_eq)
qed

lemma project_battles:
  "pj_supplies (fold (project_battle mb) bs p) - pj_earned (fold (project_battle mb) bs p)
     = pj_supplies p - pj_earned p \<and>
   pj_earned p \<le> pj_earned (fold (project_battle mb) bs p) \<and>
   pj_spent (fold (project_battle mb) bs p) = pj_spent p"
proof (induction bs arbitrary: p)
  case (Cons x bs)
  have r: "0 \<le> battle_credit_reward t" for t by (simp add: battle_credit_reward_def BATTLE_CREDIT_REWARD_def)
  have "pj_supplies (project_battle mb x p) - pj_earned (project_battle mb x p) = pj_supplies p - pj_earned p"
    "pj_earned p \<le> pj_earned (project_battle mb x p)" "pj_spent (project_battle mb x p) = pj_spent p"
    using r by (auto simp: project_battle_def Let_def CAMPAIGN_MISSION_BONUS_CAP_def split: prod.splits)
  then show ?case using Cons [of "project_battle mb x p"] by simp
qed simp

lemma project_purchases:
  "0 \<le> pj_supplies p \<Longrightarrow>
   0 \<le> pj_supplies (fold project_purchase ps p) \<and>
   pj_supplies (fold project_purchase ps p) + pj_spent (fold project_purchase ps p) = pj_supplies p + pj_spent p \<and>
   pj_earned (fold project_purchase ps p) = pj_earned p"
proof (induction ps arbitrary: p)
  case (Cons x ps)
  have "0 \<le> pj_supplies (project_purchase x p)"
    "pj_supplies (project_purchase x p) + pj_spent (project_purchase x p) = pj_supplies p + pj_spent p"
    "pj_earned (project_purchase x p) = pj_earned p"
    using Cons.prems by (auto simp: project_purchase_def Let_def)
  then show ?case using Cons.IH [of "project_purchase x p"] by simp
qed simp

text \<open>The projection of a campaign balances: supplies are what the operation starts with, plus what
  battles earn and events give, minus what intel takes; they are never negative, so a purchase never
  spends more than there is.\<close>

theorem projection_balances:
  "let p = projectedCampaignSupplies battles bonuses purchases eventIncome relicIncome
   in pj_supplies p = CAMPAIGN_STARTING_CREDITS + pj_earned p - pj_spent p + max 0 eventIncome + max 0 relicIncome \<and>
      0 \<le> pj_supplies p \<and> 0 \<le> pj_earned p \<and>
      pj_spent p \<le> CAMPAIGN_STARTING_CREDITS + pj_earned p"
proof -
  let ?b = "fold (project_battle bonuses) (enumerate 0 battles)
      \<lparr>pj_supplies = CAMPAIGN_STARTING_CREDITS, pj_earned = 0, pj_spent = 0\<rparr>"
  have b: "pj_supplies ?b - pj_earned ?b = CAMPAIGN_STARTING_CREDITS" "0 \<le> pj_earned ?b" "pj_spent ?b = 0"
    using project_battles [of bonuses "enumerate 0 battles" "\<lparr>pj_supplies = CAMPAIGN_STARTING_CREDITS, pj_earned = 0, pj_spent = 0\<rparr>"]
    by simp_all
  have start: "0 \<le> CAMPAIGN_STARTING_CREDITS" by (simp add: CAMPAIGN_STARTING_CREDITS_def)
  have "0 \<le> pj_supplies ?b" using b start by simp
  note p = project_purchases [OF this, of purchases]
  show ?thesis
    unfolding projectedCampaignSupplies_def Let_def using p b start by simp
qed

end
