(* ===== verification/JsonValues.thy ===== *)
theory JsonValues
  imports JsNumber
begin

text \<open>
  Values read back with \<open>JSON.parse\<close>, of any shape, and what the code does with them: property
  access, truthiness, \<open>String(v)\<close>, \<open>Number(v)\<close>, strict equality and the sanitisers of the
  stores. An object is its list of own properties, the last duplicate already dropped.
  \<open>JUndef\<close> is the value of an absent property.

  Text is a list of Latin-1 characters; the few log lines that hold a character beyond Latin-1
  write it by its UTF-8 bytes (they are stored and shown, never compared or hashed).
\<close>

datatype json = JUndef | JNull | JBool bool | JNum jsnum | JStr string | JArr "json list" | JObj "(string \<times> json) list"

abbreviation JInt :: "int \<Rightarrow> json" where
  "JInt i \<equiv> JNum (Fin (of_int i))"

definition field :: "string \<Rightarrow> json \<Rightarrow> json" where
  "field k v = (case v of JObj kvs \<Rightarrow> (case map_of kvs k of None \<Rightarrow> JUndef | Some j \<Rightarrow> j) | _ \<Rightarrow> JUndef)"

definition with_fields :: "(string \<times> json) list \<Rightarrow> json \<Rightarrow> json" where
  "with_fields new v = (case v of JObj kvs \<Rightarrow> JObj (fold (\<lambda>(k, j). AList.update k j) new kvs)
                        | _ \<Rightarrow> JObj (fold (\<lambda>(k, j). AList.update k j) new []))"

definition truthy :: "json \<Rightarrow> bool" where
  "truthy v = (case v of JUndef \<Rightarrow> False | JNull \<Rightarrow> False | JBool b \<Rightarrow> b
     | JNum n \<Rightarrow> (case n of NaN \<Rightarrow> False | Fin q \<Rightarrow> q \<noteq> 0 | _ \<Rightarrow> True) | JStr s \<Rightarrow> s \<noteq> [] | _ \<Rightarrow> True)"

definition is_object :: "json \<Rightarrow> bool" where
  "is_object v = (case v of JArr _ \<Rightarrow> True | JObj _ \<Rightarrow> True | _ \<Rightarrow> False)"

definition is_array :: "json \<Rightarrow> bool" where
  "is_array v = (case v of JArr _ \<Rightarrow> True | _ \<Rightarrow> False)"

definition elements :: "json \<Rightarrow> json list" where
  "elements v = (case v of JArr xs \<Rightarrow> xs | _ \<Rightarrow> [])"

text \<open>\<open>a === b\<close>: two objects are never the same value here, \<open>NaN\<close> differs from itself.\<close>

definition strict_eq :: "json \<Rightarrow> json \<Rightarrow> bool" where
  "strict_eq a b \<longleftrightarrow> a = b \<and> \<not> is_object a \<and> a \<noteq> JNum NaN"

text \<open>The strings of an array, the only elements a set of ids can contain.\<close>

fun strings_in :: "json list \<Rightarrow> string list" where
  "strings_in [] = []"
| "strings_in (v # vs) = (case v of JStr s \<Rightarrow> s # strings_in vs | _ \<Rightarrow> strings_in vs)"

section \<open>Text of a number\<close>

text \<open>\<open>Number.prototype.toString\<close>: the shortest decimal that rounds back to the double.
  \<open>decimal_point q\<close> is the \<open>n\<close> with \<open>10 ^ (n - 1) \<le> q < 10 ^ n\<close>.\<close>

definition pow10 :: "int \<Rightarrow> rat" where
  "pow10 k = (if 0 \<le> k then 10 ^ nat k else 1 / 10 ^ nat (- k))"

definition decimal_point :: "rat \<Rightarrow> int" where
  "decimal_point q =
     (if 1 \<le> q then int (length (show_nat (nat \<lfloor>q\<rfloor>)))
      else case List.find (\<lambda>i. 1 \<le> q * 10 ^ (i + 1)) [0..<330] of None \<Rightarrow> 0 | Some i \<Rightarrow> - int i)"

definition shortest_digits :: "rat \<Rightarrow> int \<Rightarrow> string \<times> int" where
  "shortest_digits q n =
     (case List.find (\<lambda>k. let s = round_half_even (q / pow10 (n - int k))
                          in 10 ^ (k - 1) \<le> s \<and> s \<le> 10 ^ k \<and> fl (of_int s * pow10 (n - int k)) = q) [1..<18] of
        None \<Rightarrow> ([], n)
      | Some k \<Rightarrow> let s = round_half_even (q / pow10 (n - int k))
                  in if s = 10 ^ k then (''1'', n + 1) else (show_nat (nat s), n))"

definition show_positive :: "rat \<Rightarrow> string" where
  "show_positive q =
     (let (ds, n) = shortest_digits q (decimal_point q); k = int (length ds)
      in if k \<le> n \<and> n \<le> 21 then ds @ replicate (nat (n - k)) CHR ''0''
         else if 0 < n \<and> n \<le> 21 then take (nat n) ds @ ''.'' @ drop (nat n) ds
         else if - 6 < n \<and> n \<le> 0 then ''0.'' @ replicate (nat (- n)) CHR ''0'' @ ds
         else let e = n - 1;
                  expn = ''e'' @ (if e < 0 then ''-'' else ''+'') @ show_nat (nat \<bar>e\<bar>)
              in take 1 ds @ (if k = 1 then [] else ''.'' @ drop 1 ds) @ expn)"

definition show_number :: "jsnum \<Rightarrow> string" where
  "show_number n =
     (case n of NaN \<Rightarrow> ''NaN'' | PInf \<Rightarrow> ''Infinity'' | NInf \<Rightarrow> ''-Infinity''
      | Fin q \<Rightarrow> if q = 0 then ''0'' else if q < 0 then ''-'' @ show_positive (- q) else show_positive q)"

fun json_string :: "json \<Rightarrow> string" where
  "json_string JUndef = ''undefined''"
| "json_string JNull = ''null''"
| "json_string (JBool b) = (if b then ''true'' else ''false'')"
| "json_string (JNum n) = show_number n"
| "json_string (JStr s) = s"
| "json_string (JArr vs) =
     join_with '','' (map (\<lambda>v. case v of JUndef \<Rightarrow> [] | JNull \<Rightarrow> [] | _ \<Rightarrow> json_string v) vs)"
| "json_string (JObj kvs) = ''[object Object]''"

definition json_number :: "json \<Rightarrow> jsnum" where
  "json_number v =
     (case v of JUndef \<Rightarrow> NaN | JNull \<Rightarrow> Fin 0 | JBool b \<Rightarrow> Fin (if b then 1 else 0) | JNum n \<Rightarrow> n
      | JStr s \<Rightarrow> string_to_number s | JArr _ \<Rightarrow> string_to_number (json_string v) | JObj _ \<Rightarrow> NaN)"

text \<open>\<open>Math.max(0, Math.floor(Number(v) || 0))\<close>. An infinity, which JSON cannot hold and
  \<open>JSON.stringify\<close> writes as \<open>null\<close>, is read as 0.\<close>

definition whole_nonneg :: "json \<Rightarrow> int" where
  "whole_nonneg v = (case json_number v of Fin q \<Rightarrow> max 0 \<lfloor>q\<rfloor> | _ \<Rightarrow> 0)"

lemma whole_nonneg_nonneg [simp, intro]: "0 \<le> whole_nonneg v"
  by (simp add: whole_nonneg_def split: jsnum.splits)

lemma json_number_num [simp]: "json_number (JNum n) = n"
  by (simp add: json_number_def)

lemma whole_nonneg_int [simp]: "whole_nonneg (JInt i) = max 0 i"
  by (simp add: whole_nonneg_def)

lemma field_JObj [simp]: "field k (JObj kvs) = (case map_of kvs k of None \<Rightarrow> JUndef | Some j \<Rightarrow> j)"
  by (simp add: field_def)

lemma elements_JArr [simp]: "elements (JArr xs) = xs" "is_array (JArr xs)"
  by (simp_all add: elements_def is_array_def)

lemma strings_in_map [simp]: "strings_in (map JStr xs) = xs"
  by (induction xs) auto

lemma strings_in_append [simp]: "strings_in (xs @ ys) = strings_in xs @ strings_in ys"
  by (induction xs) (auto split: json.splits)

section \<open>Case folding and search in text\<close>

definition lower_char :: "char \<Rightarrow> char" where
  "lower_char c =
     (let n = (of_char c :: nat)
      in if (65 \<le> n \<and> n \<le> 90) \<or> (192 \<le> n \<and> n \<le> 222 \<and> n \<noteq> 215) then char_of (n + 32) else c)"

definition to_lower :: "string \<Rightarrow> string" where
  "to_lower s = map lower_char s"

fun starts :: "string \<Rightarrow> string \<Rightarrow> bool" where
  "starts [] s = True"
| "starts (p # ps) s = (case s of [] \<Rightarrow> False | c # cs \<Rightarrow> p = c \<and> starts ps cs)"

fun text_includes :: "string \<Rightarrow> string \<Rightarrow> bool" where
  "text_includes [] sub = (sub = [])"
| "text_includes (c # cs) sub = (starts sub (c # cs) \<or> text_includes cs sub)"

section \<open>The profile storage\<close>

text \<open>The keys a profile holds, as a map to texts, and the \<open>JSON\<close> object of the platform.\<close>

type_synonym store = "string \<Rightarrow> string option"

record json_api =
  stringify :: "json \<Rightarrow> string"
  parse :: "string \<Rightarrow> json option"

text \<open>\<open>JSON\<close> gives a value back: the text is not empty, and parsing it yields the value.\<close>

definition survives :: "json_api \<Rightarrow> json \<Rightarrow> bool" where
  "survives js v \<longleftrightarrow> stringify js v \<noteq> [] \<and> parse js (stringify js v) = Some v"

text \<open>\<open>readJsonStorage\<close> on the profile: a missing or malformed text gives the fallback.\<close>

definition read_json :: "json_api \<Rightarrow> string \<Rightarrow> json \<Rightarrow> store \<Rightarrow> json" where
  "read_json js key fallback st =
     (case st key of None \<Rightarrow> fallback
      | Some raw \<Rightarrow> (case parse js raw of None \<Rightarrow> fallback | Some v \<Rightarrow> v))"

lemma read_json_written: "survives js v \<Longrightarrow> read_json js k d (st(k \<mapsto> stringify js v)) = v"
  by (simp add: read_json_def survives_def)

text \<open>\<open>v || d\<close>.\<close>

definition or_else_json :: "json \<Rightarrow> json \<Rightarrow> json" where
  "or_else_json v d = (if truthy v then v else d)"

text \<open>\<open>{ ...v }\<close>: the properties a spread copies; those of an array or a text are its indices.\<close>

definition spread_fields :: "json \<Rightarrow> (string \<times> json) list" where
  "spread_fields v = (case v of JObj kvs \<Rightarrow> kvs | JArr vs \<Rightarrow> map (\<lambda>(i, x). (show_nat i, x)) (enumerate 0 vs)
                       | JStr s \<Rightarrow> map (\<lambda>(i, c). (show_nat i, JStr [c])) (enumerate 0 s) | _ \<Rightarrow> [])"

text \<open>\<open>a + b\<close>: text if either side is text or an object, else a sum of numbers.\<close>

definition num_plus :: "jsnum \<Rightarrow> jsnum \<Rightarrow> jsnum" where
  "num_plus a b =
     (case (a, b) of (NaN, _) \<Rightarrow> NaN | (_, NaN) \<Rightarrow> NaN
      | (PInf, NInf) \<Rightarrow> NaN | (NInf, PInf) \<Rightarrow> NaN | (PInf, _) \<Rightarrow> PInf | (_, PInf) \<Rightarrow> PInf
      | (NInf, _) \<Rightarrow> NInf | (_, NInf) \<Rightarrow> NInf | (Fin p, Fin q) \<Rightarrow> Fin (fadd p q))"

definition js_plus :: "json \<Rightarrow> json \<Rightarrow> json" where
  "js_plus a b =
     (if is_object a \<or> is_object b \<or> strings_in [a, b] \<noteq> []
      then JStr (json_string a @ json_string b) else JNum (num_plus (json_number a) (json_number b)))"

text \<open>\<open>Math.max(a, b)\<close>.\<close>

definition num_max :: "jsnum \<Rightarrow> jsnum \<Rightarrow> jsnum" where
  "num_max a b =
     (case (a, b) of (NaN, _) \<Rightarrow> NaN | (_, NaN) \<Rightarrow> NaN | (PInf, _) \<Rightarrow> PInf | (_, PInf) \<Rightarrow> PInf
      | (NInf, n) \<Rightarrow> n | (n, NInf) \<Rightarrow> n | (Fin p, Fin q) \<Rightarrow> Fin (max p q))"

lemma field_with_fields:
  "field k (with_fields new (JObj d)) = (case map_of (rev new) k of Some v \<Rightarrow> v | None \<Rightarrow> field k (JObj d))"
  using jsobj.get_fold_put [of new d k] by (simp add: with_fields_def split: option.splits)

lemma field_with_fields_other:
  "\<not> (\<exists>d. v = JObj d) \<Longrightarrow> field k (with_fields new v) = (case map_of (rev new) k of Some x \<Rightarrow> x | None \<Rightarrow> JUndef)"
  using jsobj.get_fold_put [of new "[]" k] by (cases v) (simp_all add: with_fields_def split: option.splits)

end
