(* ===== verification/StateMachines.thy ===== *)
theory StateMachines
  imports JsNumber
begin

text \<open>
  The finite state machines of the front end: \<open>stateTransition.js\<close> (the table driver),
  \<open>campaignStateMachine.js\<close>, \<open>puzzleStateMachine.js\<close>, \<open>combatFlowMachine.js\<close> and
  \<open>activeSessionMachine.js\<close> with its routes.

  States and events are the source's strings; a table is the source's object of objects,
  read through its own properties. \<open>machine_run\<close> feeds a list of events to \<open>transition\<close>
  and keeps the state of a refused event, as every caller does (\<open>result.nextState\<close>).
  The locale \<open>closed_machine\<close> is the contract a table owes its callers: the targets of
  its rows are declared states. It is interpreted on the four tables.
\<close>

section \<open>The table driver\<close>

type_synonym machine_table = "(string, (string, string) obj) obj"

record trans_result =
  tr_ok :: bool
  tr_state :: string
  tr_event :: string
  tr_nextState :: string

definition table_next :: "machine_table \<Rightarrow> string \<Rightarrow> string \<Rightarrow> string option" where
  "table_next table state event =
     (case obj_get table state of None \<Rightarrow> None | Some row \<Rightarrow> obj_get row event)"

definition transition :: "machine_table \<Rightarrow> string \<Rightarrow> string \<Rightarrow> trans_result" where
  "transition table state event =
     (case table_next table state event of
        None \<Rightarrow> \<lparr>tr_ok = False, tr_state = state, tr_event = event, tr_nextState = state\<rparr>
      | Some nxt \<Rightarrow>
          if nxt = [] then \<lparr>tr_ok = False, tr_state = state, tr_event = event, tr_nextState = state\<rparr>
          else \<lparr>tr_ok = True, tr_state = state, tr_event = event, tr_nextState = nxt\<rparr>)"

text \<open>\<open>strictInvariant\<close> throws when the condition is false: \<open>Inl\<close> the message.\<close>

definition strictInvariant :: "bool \<Rightarrow> string \<Rightarrow> string + bool" where
  "strictInvariant condition message =
     (if \<not> condition then Inl (''State invariant failed: '' @ message) else Inr True)"

text \<open>The statements of an assertion function run in order until one throws.\<close>

fun assert_all :: "(string + bool) list \<Rightarrow> string + bool" where
  "assert_all [] = Inr True"
| "assert_all (r # rs) = (case r of Inl e \<Rightarrow> Inl e | Inr _ \<Rightarrow> assert_all rs)"

lemma strictInvariant_Inr [simp]: "strictInvariant c m = Inr b \<longleftrightarrow> c \<and> b"
  by (simp add: strictInvariant_def)

lemma assert_all_ok: "assert_all rs = Inr True \<longleftrightarrow> (\<forall>r \<in> set rs. \<exists>b. r = Inr b)"
  by (induction rs) (auto split: sum.splits)

definition machine_step :: "machine_table \<Rightarrow> string \<Rightarrow> string \<Rightarrow> string" where
  "machine_step table event state = tr_nextState (transition table state event)"

definition machine_run :: "machine_table \<Rightarrow> string list \<Rightarrow> string \<Rightarrow> string" where
  "machine_run table events state = fold (machine_step table) events state"

text \<open>The accepted steps as a relation, and the states it reaches.\<close>

inductive accepts :: "machine_table \<Rightarrow> string \<Rightarrow> string \<Rightarrow> string \<Rightarrow> bool" for table where
  row: "obj_get table s = Some row \<Longrightarrow> obj_get row e = Some t \<Longrightarrow> t \<noteq> [] \<Longrightarrow> accepts table s e t"

inductive_cases acceptsE [elim]: "accepts table s e t"

inductive reach :: "machine_table \<Rightarrow> string \<Rightarrow> string \<Rightarrow> bool" for table where
  here: "reach table s s"
| move: "reach table s t \<Longrightarrow> accepts table t e u \<Longrightarrow> reach table s u"

lemma accepts_iff: "accepts table s e t \<longleftrightarrow> tr_ok (transition table s e) \<and> tr_nextState (transition table s e) = t"
  by (auto simp: transition_def table_next_def intro: accepts.intros split: option.splits if_splits)

lemma transition_refused: "\<not> tr_ok (transition table s e) \<Longrightarrow> tr_nextState (transition table s e) = s"
  by (auto simp: transition_def split: option.splits if_splits)

lemma machine_step_cases: "accepts table s e (machine_step table e s) \<or> machine_step table e s = s"
  unfolding machine_step_def accepts_iff using transition_refused by blast

lemma machine_run_reach: "reach table s (machine_run table es s)"
proof (induction es rule: rev_induct)
  case Nil
  then show ?case by (simp add: machine_run_def reach.here)
next
  case (snoc e es)
  let ?t = "machine_run table es s"
  have run: "machine_run table (es @ [e]) s = machine_step table e ?t"
    by (simp add: machine_run_def)
  show ?case using machine_step_cases [of table ?t e] snoc
    unfolding run by (auto intro: reach.move)
qed

text \<open>The edges a table lists, the form in which a closed table is evaluated.\<close>

definition edges :: "machine_table \<Rightarrow> (string \<times> string \<times> string) list" where
  "edges table = concat (map (\<lambda>(s, row). map (\<lambda>(e, t). (s, e, t)) row) table)"

lemma accepts_edges: "accepts table s e t \<Longrightarrow> (s, e, t) \<in> set (edges table)"
  by (fastforce simp: edges_def elim!: acceptsE dest!: map_of_SomeD)

lemma accepts_filter_edges:
  "accepts table s e t \<Longrightarrow> (s, e, t) \<in> set (filter (\<lambda>(_, _, u). u = t) (edges table))"
  by (simp add: accepts_edges)

text \<open>What every machine shares: a row only names declared, non-empty states.\<close>

locale closed_machine =
  fixes table :: machine_table and states :: "string list"
  assumes targets: "(s, row) \<in> set table \<Longrightarrow> (e, t) \<in> set row \<Longrightarrow> t \<in> set states"
    and states_nonempty: "[] \<notin> set states"
begin

lemma accepts_declared: "accepts table s e t \<Longrightarrow> t \<in> set states"
  by (auto elim!: acceptsE dest!: map_of_SomeD intro: targets)

lemma reach_declared: "reach table s t \<Longrightarrow> s \<in> set states \<Longrightarrow> t \<in> set states"
  by (induction rule: reach.induct) (auto dest: accepts_declared)

lemma run_declared: "s \<in> set states \<Longrightarrow> machine_run table es s \<in> set states"
  using machine_run_reach reach_declared by blast

lemma step_ok_iff: "tr_ok (transition table s e) \<longleftrightarrow> table_next table s e \<noteq> None"
  using targets states_nonempty
  by (fastforce simp: transition_def table_next_def dest!: map_of_SomeD split: option.splits)

end

section \<open>Campaign phases\<close>

definition CAMPAIGN_PHASES :: "string list" where
  "CAMPAIGN_PHASES = [''idle'', ''map'', ''briefing'', ''battle'', ''fighting'', ''reward'', ''event'', ''camp'', ''completed'']"

definition campaign_table :: machine_table where
  "campaign_table =
    [(''idle'', [(''start'', ''map'')]),
     (''map'', [(''select_battle'', ''briefing''), (''select_event'', ''event''), (''select_camp'', ''camp''), (''complete'', ''completed'')]),
     (''briefing'', [(''prepare'', ''battle''), (''recover'', ''briefing''), (''cancel'', ''map'')]),
     (''battle'', [(''fight'', ''fighting''), (''retire'', ''briefing''), (''recover'', ''briefing'')]),
     (''fighting'', [(''win'', ''reward''), (''win_boss'', ''completed''), (''retire'', ''briefing''), (''recover'', ''briefing'')]),
     (''reward'', [(''reward'', ''map'')]),
     (''event'', [(''resolve'', ''map'')]),
     (''camp'', [(''reward'', ''map'')]),
     (''completed'', [])]"

definition campaignPhaseTransition :: "string \<Rightarrow> string \<Rightarrow> trans_result" where
  "campaignPhaseTransition state event = transition campaign_table state event"

interpretation campaign: closed_machine campaign_table CAMPAIGN_PHASES
  by unfold_locales (auto simp: campaign_table_def CAMPAIGN_PHASES_def)

section \<open>Puzzle states\<close>

definition PUZZLE_STATES :: "string list" where
  "PUZZLE_STATES = [''loading'', ''solving'', ''opponent_reply'', ''solved'', ''failed'']"

definition puzzle_table :: machine_table where
  "puzzle_table =
    [(''loading'', [(''ready'', ''solving''), (''load_error'', ''failed'')]),
     (''solving'', [(''correct_continue'', ''opponent_reply''), (''correct_done'', ''solved''), (''wrong'', ''solving''),
                    (''load_error'', ''failed''), (''reveal'', ''failed''), (''reset'', ''solving''), (''next'', ''loading'')]),
     (''opponent_reply'', [(''replied'', ''solving''), (''mate'', ''solved''), (''reply_error'', ''failed'')]),
     (''solved'', [(''next'', ''loading''), (''reset'', ''solving'')]),
     (''failed'', [(''retry'', ''solving''), (''next'', ''loading'')])]"

definition puzzleTransition :: "string \<Rightarrow> string \<Rightarrow> trans_result" where
  "puzzleTransition state event = transition puzzle_table state event"

definition assertPuzzleInvariant :: "string \<Rightarrow> int \<Rightarrow> int \<Rightarrow> string + bool" where
  "assertPuzzleInvariant state index solutionLength =
     assert_all
       ([strictInvariant (state \<in> set PUZZLE_STATES) (''unknown puzzle state '' @ state),
         strictInvariant (0 \<le> index) ''puzzle index cannot be negative'',
         strictInvariant (0 \<le> solutionLength) ''solution length cannot be negative''] @
        (if state = ''solved''
         then [strictInvariant (solutionLength \<le> index \<or> solutionLength = 0)
                 ''solved puzzle cannot have pending solution plies'']
         else []))"

interpretation puzzle: closed_machine puzzle_table PUZZLE_STATES
  by unfold_locales (auto simp: puzzle_table_def PUZZLE_STATES_def)

section \<open>Combat flow\<close>

definition combat_flow_table :: machine_table where
  "combat_flow_table =
    [(''setup'', [(''start'', ''battle''), (''restore'', ''battle'')]),
     (''battle'', [(''finish'', ''over''), (''retire'', ''over''), (''restore'', ''battle'')]),
     (''over'', [(''reset'', ''setup''), (''start'', ''battle''), (''restore'', ''battle'')])]"

definition combatFlowTransition :: "string \<Rightarrow> string \<Rightarrow> trans_result" where
  "combatFlowTransition state event = transition combat_flow_table state event"

interpretation combat_flow: closed_machine combat_flow_table "[''setup'', ''battle'', ''over'']"
  by unfold_locales (auto simp: combat_flow_table_def)

section \<open>The active game session\<close>

definition ACTIVE_SESSION_STATES :: "string list" where
  "ACTIVE_SESSION_STATES =
    [''idle'', ''creating'', ''restoring'', ''active'', ''reconnecting'', ''retryable_error'',
     ''irrecoverable'', ''discarded'', ''finished'']"

definition ACTIVE_SESSION_EVENTS :: "string list" where
  "ACTIVE_SESSION_EVENTS =
    [''create'', ''created'', ''create_failure'', ''cancel_create'', ''restore'', ''restored'',
     ''reconnect'', ''reconnected'', ''transient_failure'', ''irrecoverable_failure'', ''stale'',
     ''discard'', ''finish'']"

definition active_session_table :: machine_table where
  "active_session_table =
    [(''idle'',
       [(''create'', ''creating''),
        (''restore'', ''restoring''),
        (''discard'', ''discarded'')]),
     (''creating'',
       [(''created'', ''active''),
        (''create_failure'', ''idle''),
        (''cancel_create'', ''idle''),
        (''discard'', ''discarded'')]),
     (''restoring'',
       [(''restored'', ''active''),
        (''transient_failure'', ''retryable_error''),
        (''irrecoverable_failure'', ''irrecoverable''),
        (''stale'', ''idle''),
        (''discard'', ''discarded'')]),
     (''active'',
       [(''create'', ''creating''),
        (''cancel_create'', ''idle''),
        (''restore'', ''restoring''),
        (''reconnect'', ''reconnecting''),
        (''transient_failure'', ''retryable_error''),
        (''finish'', ''finished''),
        (''discard'', ''discarded'')]),
     (''reconnecting'',
       [(''reconnected'', ''active''),
        (''transient_failure'', ''retryable_error''),
        (''stale'', ''idle''),
        (''discard'', ''discarded'')]),
     (''retryable_error'',
       [(''restore'', ''restoring''),
        (''reconnect'', ''reconnecting''),
        (''stale'', ''idle''),
        (''irrecoverable_failure'', ''irrecoverable''),
        (''discard'', ''discarded'')]),
     (''irrecoverable'',
       [(''discard'', ''discarded''),
        (''stale'', ''idle'')]),
     (''discarded'',
       [(''create'', ''creating''),
        (''restore'', ''restoring'')]),
     (''finished'',
       [(''create'', ''creating''),
        (''discard'', ''discarded'')])]"

definition activeSessionTransition :: "string \<Rightarrow> string \<Rightarrow> trans_result" where
  "activeSessionTransition state event = transition active_session_table state event"

interpretation active_session: closed_machine active_session_table ACTIVE_SESSION_STATES
  by unfold_locales (auto simp: active_session_table_def ACTIVE_SESSION_STATES_def)

definition ACTIVE_SESSION_ROUTES :: "string list" where
  "ACTIVE_SESSION_ROUTES = [''game'', ''tournamentGame'']"

definition isActiveSessionRoute :: "string \<Rightarrow> bool" where
  "isActiveSessionRoute route \<longleftrightarrow> route \<in> set ACTIVE_SESSION_ROUTES"

text \<open>Optional strings are truthy when present and not empty.\<close>

definition truthy_str :: "string option \<Rightarrow> bool" where
  "truthy_str s \<longleftrightarrow> (case s of None \<Rightarrow> False | Some t \<Rightarrow> t \<noteq> [])"

record saved_session =
  ss_gameId :: "string option"
  ss_route :: "string option"

definition assertActiveSessionInvariant ::
  "string \<Rightarrow> saved_session option \<Rightarrow> string option \<Rightarrow> string option \<Rightarrow> string + bool" where
  "assertActiveSessionInvariant state savedSession route gameId =
     assert_all
       ([strictInvariant (state \<in> set ACTIVE_SESSION_STATES) (''unknown active-session state '' @ state)] @
        (if state \<in> set [''restoring'', ''active'', ''reconnecting'', ''retryable_error'']
         then [strictInvariant
                 (truthy_str gameId \<or> (case savedSession of None \<Rightarrow> False | Some s \<Rightarrow> truthy_str (ss_gameId s)))
                 (state @ '' requires a game id'')]
         else []) @
        (case savedSession of
           Some s \<Rightarrow> (case ss_route s of
              Some r \<Rightarrow> if r = [] then [] else [strictInvariant (isActiveSessionRoute r) (''unsupported route '' @ r)]
            | None \<Rightarrow> [])
         | None \<Rightarrow> []) @
        (case route of
           Some r \<Rightarrow> if r \<noteq> [] \<and> isActiveSessionRoute r \<and> state = ''discarded''
                     then [strictInvariant False ''discarded session cannot remain on an active game route'']
                     else []
         | None \<Rightarrow> []))"

section \<open>Facts about the tables\<close>

lemmas table_defs = campaign_table_def puzzle_table_def combat_flow_table_def active_session_table_def

lemma campaign_accepts_fighting:
  "accepts campaign_table s e ''fighting'' \<Longrightarrow> s = ''battle'' \<and> e = ''fight''"
  by (drule accepts_filter_edges) (simp add: edges_def campaign_table_def)

lemma campaign_accepts_completed:
  "accepts campaign_table s e ''completed'' \<Longrightarrow> (s, e) \<in> {(''map'', ''complete''), (''fighting'', ''win_boss'')}"
  by (drule accepts_filter_edges) (simp add: edges_def campaign_table_def)

lemma campaign_completed_final: "\<not> accepts campaign_table ''completed'' e t"
  by (auto elim!: acceptsE simp: campaign_table_def)

lemma reach_completed: "reach campaign_table s t \<Longrightarrow> s = ''completed'' \<Longrightarrow> t = ''completed''"
  by (induction rule: reach.induct) (auto simp: campaign_completed_final)

lemma session_accepts_active:
  "accepts active_session_table s e ''active'' \<Longrightarrow>
   (s, e) \<in> {(''creating'', ''created''), (''restoring'', ''restored''), (''reconnecting'', ''reconnected'')}"
  by (drule accepts_filter_edges) (simp add: edges_def active_session_table_def)

text \<open>The campaign machine never leaves its declared phases, whatever events arrive, a
  completed operation accepts no event at all, the fighting phase is entered only by the
  event \<open>fight\<close> from \<open>battle\<close>, and completion only from the map or by beating the boss.\<close>

theorem campaign_machine_safe:
  "(\<forall>es. machine_run campaign_table es ''idle'' \<in> set CAMPAIGN_PHASES) \<and>
   (\<forall>es. machine_run campaign_table es ''completed'' = ''completed'') \<and>
   (\<forall>s e. tr_nextState (campaignPhaseTransition s e) = ''fighting'' \<and> tr_ok (campaignPhaseTransition s e)
      \<longleftrightarrow> s = ''battle'' \<and> e = ''fight'') \<and>
   (\<forall>s e. tr_nextState (campaignPhaseTransition s e) = ''completed'' \<and> tr_ok (campaignPhaseTransition s e)
      \<longleftrightarrow> (s, e) \<in> {(''map'', ''complete''), (''fighting'', ''win_boss'')})"
proof (intro conjI allI)
  fix es
  show "machine_run campaign_table es ''idle'' \<in> set CAMPAIGN_PHASES"
    by (rule campaign.run_declared) (simp add: CAMPAIGN_PHASES_def)
  show "machine_run campaign_table es ''completed'' = ''completed''"
    by (rule reach_completed [OF machine_run_reach refl])
next
  fix s e
  have "accepts campaign_table ''battle'' ''fight'' ''fighting''"
    by (simp add: accepts_iff transition_def table_next_def campaign_table_def)
  then show "(tr_nextState (campaignPhaseTransition s e) = ''fighting'' \<and> tr_ok (campaignPhaseTransition s e))
     = (s = ''battle'' \<and> e = ''fight'')"
    using campaign_accepts_fighting [of s e] unfolding accepts_iff campaignPhaseTransition_def by blast
  have "accepts campaign_table ''map'' ''complete'' ''completed''"
       "accepts campaign_table ''fighting'' ''win_boss'' ''completed''"
    by (simp_all add: accepts_iff transition_def table_next_def campaign_table_def)
  then show "(tr_nextState (campaignPhaseTransition s e) = ''completed'' \<and> tr_ok (campaignPhaseTransition s e))
     = ((s, e) \<in> {(''map'', ''complete''), (''fighting'', ''win_boss'')})"
    using campaign_accepts_completed [of s e] unfolding accepts_iff campaignPhaseTransition_def by blast
qed

text \<open>A session is never stuck: \<open>discard\<close> is accepted in every state but \<open>discarded\<close>
  itself; events never lead out of the declared states; the session becomes active only by a creation, a restore or a reconnection that
  completed.\<close>

theorem session_machine_safe:
  "(\<forall>s \<in> set ACTIVE_SESSION_STATES. s \<noteq> ''discarded'' \<longrightarrow>
      tr_nextState (activeSessionTransition s ''discard'') = ''discarded'') \<and>
   (\<forall>es. machine_run active_session_table es ''idle'' \<in> set ACTIVE_SESSION_STATES) \<and>
   (\<forall>s e. tr_ok (activeSessionTransition s e) \<and> tr_nextState (activeSessionTransition s e) = ''active'' \<longrightarrow>
      (s, e) \<in> {(''creating'', ''created''), (''restoring'', ''restored''), (''reconnecting'', ''reconnected'')})"
proof (intro conjI allI)
  show "\<forall>s \<in> set ACTIVE_SESSION_STATES. s \<noteq> ''discarded'' \<longrightarrow>
      tr_nextState (activeSessionTransition s ''discard'') = ''discarded''"
    by (simp add: ACTIVE_SESSION_STATES_def activeSessionTransition_def transition_def table_next_def
        active_session_table_def)
  fix es
  show "machine_run active_session_table es ''idle'' \<in> set ACTIVE_SESSION_STATES"
    by (rule active_session.run_declared) (simp add: ACTIVE_SESSION_STATES_def)
next
  fix s e
  show "tr_ok (activeSessionTransition s e) \<and> tr_nextState (activeSessionTransition s e) = ''active'' \<longrightarrow>
      (s, e) \<in> {(''creating'', ''created''), (''restoring'', ''restored''), (''reconnecting'', ''reconnected'')}"
    using session_accepts_active [of s e] by (auto simp: accepts_iff activeSessionTransition_def)
qed

theorem session_machine_safe_witness:
  "''active'' \<in> set ACTIVE_SESSION_STATES \<and>
   tr_nextState (activeSessionTransition ''active'' ''discard'') = ''discarded'' \<and>
   tr_ok (activeSessionTransition ''creating'' ''created'')"
proof -
  have a: "''active'' \<in> set ACTIVE_SESSION_STATES" by (simp add: ACTIVE_SESSION_STATES_def)
  have "tr_nextState (activeSessionTransition ''active'' ''discard'') = ''discarded''"
    using session_machine_safe a by auto
  moreover have "tr_ok (activeSessionTransition ''creating'' ''created'')"
    by (simp add: activeSessionTransition_def transition_def table_next_def active_session_table_def)
  ultimately show ?thesis using a by blast
qed

end
