(* ===== verification/Campaign.thy ===== *)
theory Campaign
  imports CampaignRules JsonValues StateMachines
begin

text \<open>
  \<open>combatCampaign.js\<close>: the state of a campaign and every operation on it, with the assertion
  of \<open>campaignStateMachine.js\<close> and the doctrine of a node from \<open>combatEnemyDoctrine.js\<close>.

  The state is the record \<open>campaign\<close>; what \<open>JSON.parse\<close> returns, and what a caller hands back
  from the archive, is a \<open>json\<close>, normalised by \<open>normalizeCampaign\<close>. The profile storage is a
  map from keys to texts, \<open>store\<close> (\<open>SafeStorage\<close> proves that reads return the last write);
  \<open>JSON\<close> is an argument \<open>js\<close>. The clock and the random seed are arguments.

  A table lookup reads own properties only, of texts only: the source indexes plain objects, which also answer
  to the names their prototype gives every object and to a value whose text is a key (\<open>plain_id\<close> says which ids
  of a stored campaign make no difference). An infinite number of credits is read as 0.
\<close>

section \<open>Constants\<close>

definition KEY :: string where "KEY = ''chess-study-combat-campaign-v1''"
definition BEST_STAGE_KEY :: string where "BEST_STAGE_KEY = ''chess-study-combat-campaign-best-stage''"
definition OPERATION_ARCHIVE_KEY :: string where
  "OPERATION_ARCHIVE_KEY = ''chess-study-combat-operation-archive-v1''"
definition TOWER_COMPLETED_KEY :: string where "TOWER_COMPLETED_KEY = ''chess-study-roguelike-tower-completed''"
definition BEST_FLOOR_KEY :: string where "BEST_FLOOR_KEY = ''chess-study-roguelike-best-floor''"
definition CAMPAIGN_VERSION :: int where "CAMPAIGN_VERSION = 5"
definition CAMPAIGN_BOSS_STAGE :: int where "CAMPAIGN_BOSS_STAGE = 7"

record intel_tier =
  it_level :: int
  it_label :: string
  it_cost :: int

definition CAMPAIGN_INTEL_TIERS :: "intel_tier list" where
  "CAMPAIGN_INTEL_TIERS =
    [\<lparr>it_level = 0, it_label = ''Sin reconocimiento'', it_cost = 0\<rparr>,
     \<lparr>it_level = 1, it_label = ''Contacto'', it_cost = 3\<rparr>,
     \<lparr>it_level = 2, it_label = (''Evaluaci'' @ [CHR 0xF3] @ ''n''), it_cost = 5\<rparr>,
     \<lparr>it_level = 3, it_label = ''Dossier'', it_cost = 7\<rparr>]"

record relic =
  rl_id :: string
  rl_label :: string
  rl_description :: string

definition CAMPAIGN_RELICS :: "relic list" where
  "CAMPAIGN_RELICS =
    [\<lparr>rl_id = ''fieldCipher'', rl_label = (''Cifrador de campa'' @ [CHR 0xF1] @ ''a''),
      rl_description = (''La inteligencia cuesta 2 cr'' @ [CHR 0xE9] @ ''ditos menos (m'' @ [CHR 0xED] @ ''nimo 1).'')\<rparr>,
     \<lparr>rl_id = ''forwardObserver'', rl_label = ([CHR 0xD3] @ ''ptica del observador''),
      rl_description = (''Al seleccionar un combate obtienes Contacto autom'' @ [CHR 0xE1] @ ''ticamente.'')\<rparr>,
     \<lparr>rl_id = ''quartermasterSeal'', rl_label = ''Sello de intendencia'',
      rl_description = (''Cada victoria de campa'' @ [CHR 0xF1] @ ''a entrega +2 cr'' @ [CHR 0xE9] @ ''ditos operativos.'')\<rparr>,
     \<lparr>rl_id = ''silentBoots'', rl_label = (''Equipo de infiltraci'' @ [CHR 0xF3] @ ''n''),
      rl_description = ''El ruido positivo generado por eventos se reduce en 2.''\<rparr>,
     \<lparr>rl_id = ''kingDossier'', rl_label = ''Dossier del jefe'',
      rl_description = (''El boss final tiene '' @ [CHR 0xE2, CHR 0x88, CHR 0x92] @ ''4 de dificultad estrat'' @ [CHR 0xE9] @ ''gica.'')\<rparr>,
     \<lparr>rl_id = ''campLedger'', rl_label = ''Libro de retaguardia'',
      rl_description = (''Cada campamento completado recupera +3 cr'' @ [CHR 0xE9] @ ''ditos.'')\<rparr>]"

definition CAMPAIGN_RELIC_BY_ID :: "string \<Rightarrow> relic option" where
  "CAMPAIGN_RELIC_BY_ID i = List.find (\<lambda>r. rl_id r = i) CAMPAIGN_RELICS"

section \<open>The state\<close>

record order_summary =
  os_id :: string
  os_label :: string
  os_reward :: int
  os_completed :: bool
  os_earned :: int
  os_classified :: bool

record mission_summary =
  mi_nodeId :: "string option"
  mi_verified :: bool
  mi_earned :: int
  mi_results :: "order_summary list"

record campaign =
  active :: bool
  seed :: "string option"
  phase :: string
  currentNodeId :: string
  selectedNodeId :: "string option"
  clearedNodeIds :: "string list"
  route :: "string list"
  perks :: "string list"
  rewardChosenForNode :: "string option"
  nextDifficultyDelta :: rat
  operationalCredits :: int
  intelligenceByNode :: "(string, int) obj"
  relicIds :: "string list"
  lastMissionResult :: "mission_summary option"
  eventLog :: "json list"

definition emptyCampaign :: campaign where
  "emptyCampaign =
     \<lparr>active = False, seed = None, phase = ''idle'', currentNodeId = ''start'', selectedNodeId = None,
      clearedNodeIds = [], route = [''start''], perks = [], rewardChosenForNode = None,
      nextDifficultyDelta = 0, operationalCredits = CAMPAIGN_STARTING_CREDITS, intelligenceByNode = [],
      relicIds = [], lastMissionResult = None, eventLog = []\<rparr>"

text \<open>The state as the object the code stores.\<close>

definition json_opt :: "string option \<Rightarrow> json" where
  "json_opt x = (case x of None \<Rightarrow> JNull | Some s \<Rightarrow> JStr s)"

definition json_of_order :: "order_summary \<Rightarrow> json" where
  "json_of_order e =
     JObj [(''id'', JStr (os_id e)), (''label'', JStr (os_label e)), (''reward'', JInt (os_reward e)),
           (''completed'', JBool (os_completed e)), (''earned'', JInt (os_earned e)),
           (''classified'', JBool (os_classified e))]"

definition json_of_mission :: "mission_summary option \<Rightarrow> json" where
  "json_of_mission x =
     (case x of None \<Rightarrow> JNull
      | Some m \<Rightarrow> JObj [(''nodeId'', json_opt (mi_nodeId m)), (''verified'', JBool (mi_verified m)),
                      (''earned'', JInt (mi_earned m)), (''results'', JArr (map json_of_order (mi_results m)))])"

definition to_json :: "campaign \<Rightarrow> json" where
  "to_json c =
     JObj [(''version'', JInt CAMPAIGN_VERSION), (''active'', JBool (active c)), (''seed'', json_opt (seed c)),
           (''phase'', JStr (phase c)), (''currentNodeId'', JStr (currentNodeId c)),
           (''selectedNodeId'', json_opt (selectedNodeId c)),
           (''clearedNodeIds'', JArr (map JStr (clearedNodeIds c))), (''route'', JArr (map JStr (route c))),
           (''perks'', JArr (map JStr (perks c))), (''rewardChosenForNode'', json_opt (rewardChosenForNode c)),
           (''nextDifficultyDelta'', JNum (Fin (nextDifficultyDelta c))),
           (''operationalCredits'', JInt (operationalCredits c)),
           (''intelligenceByNode'', JObj (map (\<lambda>(k, l). (k, JInt l)) (intelligenceByNode c))),
           (''relicIds'', JArr (map JStr (relicIds c))), (''lastMissionResult'', json_of_mission (lastMissionResult c)),
           (''eventLog'', JArr (eventLog c))]"

section \<open>Normalisation\<close>

definition hasRelic :: "campaign \<Rightarrow> string \<Rightarrow> bool" where
  "hasRelic state relicId \<longleftrightarrow> relicId \<in> set (relicIds state)"

definition campaignRelicDetails :: "campaign \<Rightarrow> relic list" where
  "campaignRelicDetails state = List.map_filter CAMPAIGN_RELIC_BY_ID (relicIds state)"

text \<open>\<open>Math.max(0, Math.min(3, Math.floor(Number(level) || 0)))\<close>, on stored values and on integers.\<close>

definition clampIntelLevel_raw :: "json \<Rightarrow> int" where
  "clampIntelLevel_raw level = \<lfloor>clamp_num 0 3 (or_zero (json_number level))\<rfloor>"

definition clampIntelLevel :: "int \<Rightarrow> int" where
  "clampIntelLevel level = max 0 (min 3 level)"

definition valid_ids :: "string option \<Rightarrow> string list" where
  "valid_ids sd = (case sd of None \<Rightarrow> [''start''] | Some s \<Rightarrow> map nd_id (cm_nodes (campaignMap s)))"

definition find_node :: "string option \<Rightarrow> string option \<Rightarrow> node option" where
  "find_node sd i =
     (case (sd, i) of (Some s, Some k) \<Rightarrow> List.find (\<lambda>n. nd_id n = k) (cm_nodes (campaignMap s)) | _ \<Rightarrow> None)"

definition known_phases :: "string list" where
  "known_phases = [''map'', ''briefing'', ''battle'', ''fighting'', ''reward'', ''event'', ''camp'', ''completed'']"

definition fight_phase :: "string \<Rightarrow> bool" where
  "fight_phase p \<longleftrightarrow> p = ''briefing'' \<or> p = ''battle'' \<or> p = ''fighting''"

definition selection_coherent :: "string \<Rightarrow> node option \<Rightarrow> bool" where
  "selection_coherent p selected \<longleftrightarrow>
     p = ''map'' \<or> p = ''completed''
     \<or> (fight_phase p \<and> (case selected of None \<Rightarrow> False | Some n \<Rightarrow> combat_type (nd_type n)))
     \<or> (p = ''reward'' \<and> (case selected of None \<Rightarrow> False | Some n \<Rightarrow> nd_type n = NBattle \<or> nd_type n = NElite))
     \<or> (p = ''event'' \<and> (case selected of None \<Rightarrow> False | Some n \<Rightarrow> nd_type n = NEvent))
     \<or> (p = ''camp'' \<and> (case selected of None \<Rightarrow> False | Some n \<Rightarrow> nd_type n = NCamp))"

definition normalize_order :: "json \<Rightarrow> order_summary" where
  "normalize_order e =
     \<lparr>os_id = (case field ''id'' e of JStr s \<Rightarrow> s | _ \<Rightarrow> []),
      os_label = (case field ''label'' e of JStr s \<Rightarrow> s | _ \<Rightarrow> ''Orden''),
      os_reward = whole_nonneg (field ''reward'' e), os_completed = (field ''completed'' e = JBool True),
      os_earned = whole_nonneg (field ''earned'' e), os_classified = (field ''classified'' e = JBool True)\<rparr>"

definition normalize_mission :: "json \<Rightarrow> mission_summary option" where
  "normalize_mission m =
     (if \<not> is_object m then None
      else Some \<lparr>mi_nodeId = (case field ''nodeId'' m of JStr s \<Rightarrow> Some s | _ \<Rightarrow> None),
                 mi_verified = (field ''verified'' m = JBool True),
                 mi_earned = whole_nonneg (field ''earned'' m),
                 mi_results = filter (\<lambda>e. os_id e \<noteq> []) (map normalize_order (take 3 (elements (field ''results'' m))))\<rparr>)"

definition normalize_route :: "string list \<Rightarrow> json \<Rightarrow> string list" where
  "normalize_route validIds r = ''start'' # filter (\<lambda>i. i \<noteq> ''start'' \<and> i \<in> set validIds) (strings_in (elements r))"

definition normalize_intel :: "string list \<Rightarrow> json \<Rightarrow> (string, int) obj" where
  "normalize_intel validIds r =
     (case r of JObj kvs \<Rightarrow> map (\<lambda>(k, v). (k, clampIntelLevel_raw v)) (filter (\<lambda>(k, v). k \<in> set validIds) kvs)
      | _ \<Rightarrow> [])"

text \<open>The phase and the selection that survive: an incoherent pair falls back to the map.\<close>

definition settle :: "bool \<Rightarrow> string \<Rightarrow> string option \<Rightarrow> node option \<Rightarrow> string \<times> string option" where
  "settle act ph candidate selectedNode =
     (if act \<and> \<not> selection_coherent ph selectedNode then (''map'', None)
      else if ph = ''map'' \<or> ph = ''completed'' \<or> ph = ''idle'' then (ph, None) else (ph, candidate))"

definition stored_campaign :: "json \<Rightarrow> bool" where
  "stored_campaign raw \<longleftrightarrow>
     (case raw of JObj _ \<Rightarrow> True | _ \<Rightarrow> False) \<and> field ''version'' raw \<in> set (map JInt [1, 2, 3, 4, CAMPAIGN_VERSION])"

definition normalize_seed :: "json \<Rightarrow> string option" where
  "normalize_seed raw =
     (if field ''active'' raw = JBool True
      then Some (if truthy (field ''seed'' raw) then json_string (field ''seed'' raw) else ''legacy-campaign'')
      else None)"

definition map_seed :: "string option \<Rightarrow> string option" where
  "map_seed sd = (if sd = Some [] then None else sd)"

definition normalize_current :: "string list \<Rightarrow> string list \<Rightarrow> json \<Rightarrow> string" where
  "normalize_current validIds rt v =
     (case v of JStr i \<Rightarrow> if i \<in> set validIds \<and> i \<in> set rt then i else last rt | _ \<Rightarrow> last rt)"

definition normalize_candidate :: "string list \<Rightarrow> json \<Rightarrow> string option" where
  "normalize_candidate validIds v = (case v of JStr i \<Rightarrow> if i \<in> set validIds then Some i else None | _ \<Rightarrow> None)"

definition normalize_phase :: "bool \<Rightarrow> json \<Rightarrow> string" where
  "normalize_phase act v = (case v of JStr p \<Rightarrow> if act \<and> p \<in> set known_phases then p else ''idle'' | _ \<Rightarrow> ''idle'')"

definition normalize_credits :: "json \<Rightarrow> int" where
  "normalize_credits raw =
     whole_nonneg (if field ''operationalCredits'' raw \<in> {JUndef, JNull}
                   then (if field ''version'' raw = JInt 1 then JInt CAMPAIGN_STARTING_CREDITS else JInt 0)
                   else field ''operationalCredits'' raw)"

definition json_string_opt :: "json \<Rightarrow> string option" where
  "json_string_opt v = (case v of JStr s \<Rightarrow> Some s | _ \<Rightarrow> None)"

text \<open>The ids for which a property lookup in a catalogue finds an entry of the catalogue or nothing: not the names
  inherited from \<open>Object.prototype\<close>, and no array or object, which the lookup would turn into text.\<close>

definition inherited_names :: "string list" where
  "inherited_names =
     [''constructor'', ''hasOwnProperty'', ''isPrototypeOf'', ''propertyIsEnumerable'', ''toLocaleString'', ''toString'',
      ''valueOf'', ''__proto__'', ''__defineGetter__'', ''__defineSetter__'', ''__lookupGetter__'', ''__lookupSetter__'']"

definition plain_id :: "json \<Rightarrow> bool" where
  "plain_id v = (case v of JStr i \<Rightarrow> i \<notin> set inherited_names | _ \<Rightarrow> \<not> is_object v)"

definition plain_ids :: "json \<Rightarrow> bool" where
  "plain_ids raw \<longleftrightarrow>
     list_all plain_id (elements (field ''perks'' raw)) \<and> list_all plain_id (elements (field ''relicIds'' raw))"

text \<open>\<open>normalizeCampaign\<close>, for the stored values with \<open>plain_ids\<close>: there the filters of the perks and of the
  relics, lookups in plain objects, keep the ids of the catalogues only. The source also keeps an inherited name
  or an array that reads as an id.\<close>

definition normalizeCampaign :: "json \<Rightarrow> campaign" where
  "normalizeCampaign raw =
     (if \<not> stored_campaign raw then emptyCampaign
      else
       let act = (field ''active'' raw = JBool True);
           sd = normalize_seed raw;
           validIds = valid_ids (map_seed sd);
           rt = normalize_route validIds (field ''route'' raw);
           candidate = normalize_candidate validIds (field ''selectedNodeId'' raw);
           settled = settle act (normalize_phase act (field ''phase'' raw)) candidate (find_node (map_seed sd) candidate)
       in \<lparr>active = act, seed = sd, phase = fst settled,
           currentNodeId = normalize_current validIds rt (field ''currentNodeId'' raw), selectedNodeId = snd settled,
           clearedNodeIds = uniq (filter (\<lambda>i. i \<in> set validIds) (strings_in (elements (field ''clearedNodeIds'' raw)))),
           route = rt,
           perks = filter (\<lambda>i. perkById i \<noteq> None) (strings_in (elements (field ''perks'' raw))),
           rewardChosenForNode = json_string_opt (field ''rewardChosenForNode'' raw),
           nextDifficultyDelta = clamp_num (-12) 12 (or_zero (json_number (field ''nextDifficultyDelta'' raw))),
           operationalCredits = normalize_credits raw,
           intelligenceByNode = normalize_intel validIds (field ''intelligenceByNode'' raw),
           relicIds = take (length CAMPAIGN_RELICS)
             (uniq (filter (\<lambda>i. CAMPAIGN_RELIC_BY_ID i \<noteq> None) (strings_in (elements (field ''relicIds'' raw))))),
           lastMissionResult = normalize_mission (field ''lastMissionResult'' raw),
           eventLog = last_n 30 (elements (field ''eventLog'' raw))\<rparr>)"

section \<open>Storage\<close>

text \<open>\<open>assertCampaignInvariant\<close>: the checks in order, each a possible throw.\<close>

definition assertCampaignInvariant :: "campaign \<Rightarrow> node option \<Rightarrow> string + bool" where
  "assertCampaignInvariant state n =
     assert_all
      ([strictInvariant (phase state \<in> set CAMPAIGN_PHASES) (''unknown campaign phase '' @ phase state),
        strictInvariant (0 \<le> operationalCredits state) ''operational credits cannot be negative''] @
       (if phase state \<in> set [''briefing'', ''battle'', ''fighting'', ''reward'', ''event'', ''camp'']
        then [strictInvariant (case selectedNodeId state of None \<Rightarrow> False | Some i \<Rightarrow> i \<noteq> [])
                (phase state @ '' requires selected node'')] else []) @
       (if phase state \<in> set [''map'', ''completed'', ''idle'']
        then [strictInvariant (case selectedNodeId state of None \<Rightarrow> True | Some i \<Rightarrow> i = [])
                (phase state @ '' must not keep selected node'')] else []) @
       (case n of None \<Rightarrow> []
        | Some x \<Rightarrow> if fight_phase (phase state)
                    then [strictInvariant (combat_type (nd_type x)) (phase state @ '' requires a combat node'')] else []))"

definition saveCampaign :: "json_api \<Rightarrow> campaign \<Rightarrow> store \<Rightarrow> campaign \<times> store" where
  "saveCampaign js state st =
     (let normalized = normalizeCampaign (to_json state)
      in (normalized, st(KEY \<mapsto> stringify js (to_json normalized))))"

definition loadCampaign :: "json_api \<Rightarrow> store \<Rightarrow> campaign" where
  "loadCampaign js st =
     (case st KEY of
        None \<Rightarrow> emptyCampaign
      | Some raw \<Rightarrow> if raw = [] then emptyCampaign
                  else (case parse js raw of None \<Rightarrow> emptyCampaign | Some j \<Rightarrow> normalizeCampaign j))"

section \<open>Moving on the map\<close>

definition nextCampaignPhase :: "campaign \<Rightarrow> string \<Rightarrow> string" where
  "nextCampaignPhase state event =
     (let current = (if phase state = [] then ''idle'' else phase state);
          result = campaignPhaseTransition current event
      in if tr_ok result then tr_nextState result else current)"

definition startCampaign :: "json_api \<Rightarrow> string \<Rightarrow> store \<Rightarrow> campaign \<times> store" where
  "startCampaign js sd st =
     (let base = emptyCampaign\<lparr>active := True, seed := Some sd\<rparr>
      in saveCampaign js (base\<lparr>phase := nextCampaignPhase base ''start''\<rparr>) st)"

definition campaignNode :: "campaign \<Rightarrow> string option \<Rightarrow> node option" where
  "campaignNode state nodeId =
     (if \<not> active state \<or> seed state \<in> {None, Some []} \<or> nodeId \<in> {None, Some []} then None
      else find_node (seed state) nodeId)"

definition selected_node :: "campaign \<Rightarrow> node option" where
  "selected_node state = campaignNode state (selectedNodeId state)"

text \<open>\<open>map.nodes.find(...) || map.start\<close>, then the connections that name a node not yet cleared.\<close>

definition availableCampaignNodes :: "campaign \<Rightarrow> node list" where
  "availableCampaignNodes state =
     (if \<not> active state \<or> phase state \<noteq> ''map'' then []
      else let m = campaignMap (case seed state of None \<Rightarrow> [] | Some s \<Rightarrow> s);
               current = (case List.find (\<lambda>n. nd_id n = currentNodeId state) (cm_nodes m) of
                            None \<Rightarrow> cm_start m | Some n \<Rightarrow> n)
           in filter (\<lambda>n. nd_id n \<notin> set (clearedNodeIds state))
                (List.map_filter (\<lambda>i. List.find (\<lambda>n. nd_id n = i) (cm_nodes m)) (nd_connections current)))"

definition select_event_name :: "node_type \<Rightarrow> string" where
  "select_event_name t = (if t = NEvent then ''select_event'' else if t = NCamp then ''select_camp'' else ''select_battle'')"

definition intel_level :: "(string, int) obj \<Rightarrow> string \<Rightarrow> int" where
  "intel_level intel i = clampIntelLevel (case obj_get intel i of None \<Rightarrow> 0 | Some l \<Rightarrow> l)"

definition selectCampaignNode :: "json_api \<Rightarrow> campaign \<Rightarrow> string \<Rightarrow> store \<Rightarrow> campaign \<times> store" where
  "selectCampaignNode js state nodeId st =
     (case List.find (\<lambda>n. nd_id n = nodeId) (availableCampaignNodes state) of
        None \<Rightarrow> (state, st)
      | Some n \<Rightarrow>
          let ph = nextCampaignPhase state (select_event_name (nd_type n));
              intel = (if hasRelic state ''forwardObserver'' \<and> combat_type (nd_type n)
                       then obj_put (nd_id n) (max 1 (intel_level (intelligenceByNode state) (nd_id n)))
                              (intelligenceByNode state)
                       else intelligenceByNode state)
          in saveCampaign js (state\<lparr>phase := ph, selectedNodeId := Some (nd_id n), rewardChosenForNode := None,
                                   intelligenceByNode := intel, lastMissionResult := None\<rparr>) st)"

definition fights_selected :: "campaign \<Rightarrow> bool" where
  "fights_selected state \<longleftrightarrow>
     (case selected_node state of None \<Rightarrow> False | Some n \<Rightarrow> combat_type (nd_type n))"

definition markCampaignBriefingAccepted :: "json_api \<Rightarrow> campaign \<Rightarrow> store \<Rightarrow> campaign \<times> store" where
  "markCampaignBriefingAccepted js state st =
     (if \<not> active state \<or> phase state \<noteq> ''briefing'' \<or> \<not> fights_selected state then (state, st)
      else saveCampaign js (state\<lparr>phase := nextCampaignPhase state ''prepare''\<rparr>) st)"

definition markCampaignBattleStarted :: "json_api \<Rightarrow> campaign \<Rightarrow> store \<Rightarrow> campaign \<times> store" where
  "markCampaignBattleStarted js state st =
     (if \<not> active state \<or> phase state \<noteq> ''battle'' \<or> \<not> fights_selected state then (state, st)
      else saveCampaign js (state\<lparr>phase := nextCampaignPhase state ''fight''\<rparr>) st)"

text \<open>\<open>markNodeCleared(state, extras)\<close>: \<open>extras\<close> is the record update the source spreads.\<close>

definition markNodeCleared :: "json_api \<Rightarrow> campaign \<Rightarrow> (campaign \<Rightarrow> campaign) \<Rightarrow> store \<Rightarrow> campaign \<times> store" where
  "markNodeCleared js state extras st =
     (case selected_node state of
        None \<Rightarrow> (state, st)
      | Some n \<Rightarrow>
          let cleared = uniq (clearedNodeIds state @ [nd_id n]);
              rt = (if at_last (route state) = Some (nd_id n) then route state else route state @ [nd_id n])
          in saveCampaign js ((extras state)\<lparr>currentNodeId := nd_id n, selectedNodeId := None,
                 clearedNodeIds := cleared, route := rt, rewardChosenForNode := None\<rparr>) st)"

definition log_line :: "string \<Rightarrow> campaign \<Rightarrow> json list" where
  "log_line message state = last_n 30 (eventLog state @ [JStr message])"

definition markCampaignBattleRetired :: "json_api \<Rightarrow> campaign \<Rightarrow> store \<Rightarrow> campaign \<times> store" where
  "markCampaignBattleRetired js state st =
     (if \<not> active state \<or> selectedNodeId state \<in> {None, Some []}
         \<or> \<not> (phase state = ''battle'' \<or> phase state = ''fighting'') then (state, st)
      else let label = (case selected_node state of
                          Some n \<Rightarrow> if nd_label n \<noteq> [] then nd_label n else the (selectedNodeId state)
                        | None \<Rightarrow> the (selectedNodeId state))
           in saveCampaign js (state\<lparr>phase := nextCampaignPhase state ''retire'',
                eventLog := log_line ((''Retirada t'' @ [CHR 0xE1] @ ''ctica en '') @ label
                   @ '': el sector sigue pendiente y puede reintentarse'') state\<rparr>) st)"

section \<open>Intelligence\<close>

definition intelTierCost :: "campaign \<Rightarrow> int \<Rightarrow> int" where
  "intelTierCost state baseCost = max 1 (baseCost - (if hasRelic state ''fieldCipher'' then 2 else 0))"

definition campaignIntelLevel :: "campaign \<Rightarrow> string option \<Rightarrow> int" where
  "campaignIntelLevel state nodeId =
     (case nodeId of None \<Rightarrow> 0 | Some i \<Rightarrow> intel_level (intelligenceByNode state) i)"

definition nextCampaignIntelTier :: "campaign \<Rightarrow> string option \<Rightarrow> intel_tier option" where
  "nextCampaignIntelTier state nodeId =
     (let current = campaignIntelLevel state nodeId
      in map_option (\<lambda>t. t\<lparr>it_cost := intelTierCost state (it_cost t)\<rparr>)
           (List.find (\<lambda>t. it_level t = current + 1) CAMPAIGN_INTEL_TIERS))"

definition purchaseCampaignIntel :: "json_api \<Rightarrow> campaign \<Rightarrow> string option \<Rightarrow> store \<Rightarrow> campaign \<times> store" where
  "purchaseCampaignIntel js state nodeId st =
     (if \<not> active state \<or> phase state \<noteq> ''briefing'' \<or> nodeId \<in> {None, Some []} \<or> nodeId \<noteq> selectedNodeId state
      then (state, st)
      else case (campaignNode state nodeId, nextCampaignIntelTier state nodeId) of
             (Some n, Some nextTier) \<Rightarrow>
               if \<not> combat_type (nd_type n) \<or> operationalCredits state < it_cost nextTier then (state, st)
               else saveCampaign js (state\<lparr>
                      operationalCredits := max 0 (operationalCredits state - it_cost nextTier),
                      intelligenceByNode := obj_put (the nodeId) (it_level nextTier) (intelligenceByNode state),
                      eventLog := last_n 20 (eventLog state @
                        [JStr (''Intel '' @ it_label nextTier @ '': '' @ nd_label n @ ('' '' @ [CHR 0xB7] @ '' '' @ [CHR 0xE2, CHR 0x88, CHR 0x92])
                               @ show_int (it_cost nextTier) @ ('' cr'' @ [CHR 0xE9] @ ''ditos''))])\<rparr>) st
           | _ \<Rightarrow> (state, st))"

definition threatBand :: "int \<Rightarrow> string" where
  "threatBand baseDifficulty =
     (let n = max 0 (min 100 baseDifficulty)
      in if 70 \<le> n then ''Extrema'' else if 55 \<le> n then ''Muy alta'' else if 40 \<le> n then ''Alta''
         else if 28 \<le> n then ''Media'' else ''Baja'')"

definition opponentLevelFromDifficulty :: "int \<Rightarrow> int" where
  "opponentLevelFromDifficulty difficulty = max 1 (min 10 (- (- difficulty div 10)))"

record opponent_level =
  ol_exact :: int
  ol_min :: int
  ol_max :: int
  ol_range :: string
  ol_confidence :: string

definition estimatedOpponentLevel :: "int \<Rightarrow> int \<Rightarrow> opponent_level" where
  "estimatedOpponentLevel difficulty intelLevel =
     (let exact = opponentLevelFromDifficulty difficulty;
          spread = (if intelLevel \<le> 0 then 2 else if intelLevel = 1 then 1 else 0);
          mn = max 1 (exact - spread);
          mx = min 10 (exact + spread)
      in \<lparr>ol_exact = exact, ol_min = mn, ol_max = mx,
          ol_range = (if mn = mx then show_int exact else show_int mn @ [CHR 0xE2, CHR 0x80, CHR 0x93] @ show_int mx),
          ol_confidence = (if intelLevel \<le> 0 then ''Baja'' else if intelLevel = 1 then ''Media'' else ''Alta'')\<rparr>)"

definition enemyDoctrineForNode :: "string \<Rightarrow> node option \<Rightarrow> doctrine option" where
  "enemyDoctrineForNode sd n =
     (case n of
        None \<Rightarrow> None
      | Some n \<Rightarrow> if \<not> combat_type (nd_type n) then None
                  else Some (DOCTRINES ! fnv_index (safe_seed sd @ '':'' @ nd_id n @ '':doctrine'') (length DOCTRINES)))"

text \<open>The strategic difficulty of a node, with the carried delta, the boss and the dossier, then
  adapted to the battle history.\<close>

definition campaignDifficulty :: "campaign \<Rightarrow> node option \<Rightarrow> 'r battle_entry list \<Rightarrow> int" where
  "campaignDifficulty state n combatHistory =
     (case n of
        None \<Rightarrow> 0
      | Some n \<Rightarrow>
          if \<not> combat_type (nd_type n) then 0
          else let boss = campaignBossForSeed (case seed state of None \<Rightarrow> [] | Some s \<Rightarrow> s);
                   dossierDelta = (if nd_type n = NBoss \<and> hasRelic state ''kingDossier'' then -4 else 0);
                   bossDelta = (if nd_type n = NBoss then boss_difficultyDelta boss else 0);
                   strategicDifficulty =
                     max 5 (min 95 (fadd (fadd (fadd (of_int (nd_baseDifficulty n)) (nextDifficultyDelta state))
                                           (of_int bossDelta)) (of_int dossierDelta)))
               in ad_adjusted (adaptiveCombatDifficulty strategicDifficulty combatHistory))"

record intel_briefing =
  ib_level :: int
  ib_levelLabel :: string
  ib_threatBand :: string
  ib_opponentLevelRange :: string
  ib_opponentLevelConfidence :: string
  ib_exactOpponentLevel :: "int option"
  ib_exactDifficulty :: "int option"
  ib_doctrineLabel :: "string option"
  ib_doctrineSummary :: "string option"
  ib_doctrineCounter :: "string option"
  ib_modifierLabel :: string
  ib_modifierDescription :: string
  ib_bossHp :: "int option"
  ib_bossLabel :: "string option"
  ib_bossMechanic :: "string option"
  ib_bossMechanicDescription :: "string option"
  ib_threatRange :: "string option"

definition campaignIntelBriefing :: "campaign \<Rightarrow> node option \<Rightarrow> 'r battle_entry list \<Rightarrow> intel_briefing option" where
  "campaignIntelBriefing state n combatHistory =
     (case n of
        None \<Rightarrow> None
      | Some x \<Rightarrow>
          if \<not> combat_type (nd_type x) then None
          else let sd = (case seed state of None \<Rightarrow> [] | Some s \<Rightarrow> s);
                   level = campaignIntelLevel state (Some (nd_id x));
                   modifier = (case MODIFIER_BY_ID (nd_modifierId x) of None \<Rightarrow> ROGUELIKE_MODIFIERS ! 0 | Some m \<Rightarrow> m);
                   difficulty = campaignDifficulty state n combatHistory;
                   opponentLevel = estimatedOpponentLevel difficulty level;
                   (dLabel, dSummary, dCounter) = doctrineIntelView (enemyDoctrineForNode sd n) level;
                   boss = campaignBossForSeed sd;
                   isBoss = (nd_type x = NBoss)
               in Some \<lparr>ib_level = level, ib_levelLabel = it_label (CAMPAIGN_INTEL_TIERS ! nat level),
                        ib_threatBand = threatBand difficulty, ib_opponentLevelRange = ol_range opponentLevel,
                        ib_opponentLevelConfidence = ol_confidence opponentLevel,
                        ib_exactOpponentLevel = (if 2 \<le> level then Some (ol_exact opponentLevel) else None),
                        ib_exactDifficulty = (if 2 \<le> level then Some difficulty else None),
                        ib_doctrineLabel = dLabel, ib_doctrineSummary = dSummary, ib_doctrineCounter = dCounter,
                        ib_modifierLabel = mod_label modifier, ib_modifierDescription = mod_description modifier,
                        ib_bossHp = (if 3 \<le> level \<and> isBoss then Some (boss_maxHp boss) else None),
                        ib_bossLabel = (if isBoss then Some (boss_label boss) else None),
                        ib_bossMechanic = (if isBoss then Some (boss_mechanicLabel boss) else None),
                        ib_bossMechanicDescription = (if isBoss then Some (boss_mechanicDescription boss) else None),
                        ib_threatRange = (if 1 \<le> level
                          then Some (show_int (max 5 (difficulty - 5)) @ [CHR 0xE2, CHR 0x80, CHR 0x93] @ show_int (min 100 (difficulty + 5)))
                          else None)\<rparr>)"

section \<open>Winning, rewards and events\<close>

definition loadCampaignBestStage :: "store \<Rightarrow> int" where
  "loadCampaignBestStage st =
     (let n = (case parse_int (case st BEST_STAGE_KEY of None \<Rightarrow> ''0'' | Some s \<Rightarrow> if s = [] then ''0'' else s) of
                 None \<Rightarrow> 0 | Some i \<Rightarrow> i)
      in max 0 (min CAMPAIGN_BOSS_STAGE n))"

definition summarize_order :: "order_result \<Rightarrow> order_summary" where
  "summarize_order r =
     \<lparr>os_id = po_id (or_order r), os_label = po_label (or_order r), os_reward = po_reward (or_order r),
      os_completed = or_completed r, os_earned = or_earned r, os_classified = po_classified (or_order r)\<rparr>"

definition battle_earned :: "campaign \<Rightarrow> node \<Rightarrow> int" where
  "battle_earned state n =
     battle_credit_reward (type_name (nd_type n)) + (if hasRelic state ''quartermasterSeal'' then 2 else 0)"

definition dossier_earned :: "campaign \<Rightarrow> node \<Rightarrow> bool" where
  "dossier_earned state n \<longleftrightarrow> nd_type n = NElite \<and> 5 \<le> nd_stage n \<and> \<not> hasRelic state ''kingDossier''"

text \<open>The state with the credits, the orders' summary and the log of a victory.\<close>

definition credited_victory :: "campaign \<Rightarrow> node \<Rightarrow> raw_metrics option \<Rightarrow> campaign" where
  "credited_victory state n combatMetrics =
     (let earned = battle_earned state n;
          missionResult = evaluateCampaignMissionOrders (case seed state of None \<Rightarrow> [] | Some s \<Rightarrow> s) (Some n)
                            combatMetrics (campaignIntelLevel state (Some (nd_id n)));
          missionEarned = max 0 (ms_earned missionResult);
          dossierEarned = dossier_earned state n;
          completedLabels = map (\<lambda>r. po_label (or_order r)) (ms_completed missionResult)
      in state\<lparr>
           relicIds := (if dossierEarned then uniq (relicIds state @ [''kingDossier'']) else relicIds state),
           operationalCredits := max 0 (operationalCredits state + earned + missionEarned),
           lastMissionResult := Some \<lparr>mi_nodeId = ms_nodeId missionResult, mi_verified = ms_verified missionResult,
             mi_earned = missionEarned, mi_results = map summarize_order (ms_results missionResult)\<rparr>,
           eventLog := last_n 30 (eventLog state
             @ (if 0 < earned then [JStr (''Objetivo cumplido: +'' @ show_int earned @ ('' cr'' @ [CHR 0xE9] @ ''ditos operativos''))] else [])
             @ (if ms_verified missionResult
                then (if 0 < missionEarned
                      then [JStr (([CHR 0xD3] @ ''rdenes cumplidas: '') @ join_with '' + '' completedLabels @ ('' '' @ [CHR 0xB7] @ '' +'')
                                  @ show_int missionEarned @ '' suministros'')]
                      else [JStr (([CHR 0xD3] @ ''rdenes opcionales: sin bonificaci'' @ [CHR 0xF3] @ ''n''))])
                else [JStr (([CHR 0xD3] @ ''rdenes opcionales: sin m'' @ [CHR 0xE9] @ ''tricas verificables; no se concede bonificaci'' @ [CHR 0xF3] @ ''n''))])
             @ (if dossierEarned then [JStr ((''Intel '' @ [CHR 0xE9] @ ''lite recuperada: Dossier del jefe''))] else []))\<rparr>)"

definition markCampaignBattleWon ::
  "json_api \<Rightarrow> campaign \<Rightarrow> raw_metrics option \<Rightarrow> store \<Rightarrow> campaign \<times> store" where
  "markCampaignBattleWon js state combatMetrics st =
     (case selected_node state of
        None \<Rightarrow> (state, st)
      | Some n \<Rightarrow>
          if \<not> active state \<or> phase state \<noteq> ''fighting'' then (state, st)
          else let credited = credited_victory state n combatMetrics
               in if nd_type n = NBoss
                  then let bestFloor = max 10 (case parse_int (case st BEST_FLOOR_KEY of None \<Rightarrow> ''0''
                                          | Some s \<Rightarrow> if s = [] then ''0'' else s) of None \<Rightarrow> 0 | Some i \<Rightarrow> i);
                           st1 = st(TOWER_COMPLETED_KEY \<mapsto> ''1'', BEST_FLOOR_KEY \<mapsto> show_int bestFloor,
                                    BEST_STAGE_KEY \<mapsto> show_int CAMPAIGN_BOSS_STAGE)
                       in markNodeCleared js credited
                            (\<lambda>s. s\<lparr>phase := nextCampaignPhase state ''win_boss'', nextDifficultyDelta := 0\<rparr>) st1
                  else let best = max (loadCampaignBestStage st) (int (nd_stage n));
                           st1 = st(BEST_STAGE_KEY \<mapsto> show_int best)
                       in saveCampaign js (credited\<lparr>phase := nextCampaignPhase state ''win'',
                                                   nextDifficultyDelta := 0\<rparr>) st1)"

definition reward_phase :: "campaign \<Rightarrow> bool" where
  "reward_phase state \<longleftrightarrow> phase state = ''reward'' \<or> phase state = ''camp''"

definition campaignRewardOptions :: "campaign \<Rightarrow> perk list" where
  "campaignRewardOptions state =
     (case selected_node state of
        None \<Rightarrow> []
      | Some n \<Rightarrow> if \<not> reward_phase state then []
                  else rewardOptionsForFloor (case seed state of None \<Rightarrow> [] | Some s \<Rightarrow> s)
                         (nat (int (nd_floor n) + nd_lane n * 13)))"

definition reward_stacks :: "campaign \<Rightarrow> node \<Rightarrow> nat" where
  "reward_stacks state n = (if phase state = ''reward'' \<and> nd_type n = NElite then 2 else 1)"

definition camp_credits :: "campaign \<Rightarrow> int" where
  "camp_credits state = (if phase state = ''camp'' \<and> hasRelic state ''campLedger'' then 3 else 0)"

definition reward_message :: "campaign \<Rightarrow> node \<Rightarrow> perk \<Rightarrow> string" where
  "reward_message state n p =
     (if nd_type n = NElite then (''Bot'' @ [CHR 0xED] @ ''n '' @ [CHR 0xE9] @ ''lite: '') @ perk_label p @ ('' '' @ [CHR 0xD7] @ ''2'')
      else (if nd_type n = NCamp then ''Campamento'' else (''Bot'' @ [CHR 0xED] @ ''n'')) @ '': '' @ perk_label p)
     @ (if camp_credits state \<noteq> 0 then ('' '' @ [CHR 0xB7] @ '' +'') @ show_int (camp_credits state) @ ('' cr'' @ [CHR 0xE9] @ ''ditos de retaguardia'') else [])"

definition chooseCampaignReward :: "json_api \<Rightarrow> campaign \<Rightarrow> string \<Rightarrow> store \<Rightarrow> campaign \<times> store" where
  "chooseCampaignReward js state perkId st =
     (case (selected_node state, perkById perkId) of
        (Some n, Some p) \<Rightarrow>
          if \<not> reward_phase state \<or> rewardChosenForNode state = Some (nd_id n) then (state, st)
          else markNodeCleared js
                 (state\<lparr>perks := perks state @ replicate (reward_stacks state n) perkId,
                        rewardChosenForNode := Some (nd_id n),
                        operationalCredits := operationalCredits state + camp_credits state\<rparr>)
                 (\<lambda>s. s\<lparr>phase := nextCampaignPhase state ''reward'',
                        eventLog := log_line (reward_message state n p) state\<rparr>) st
      | _ \<Rightarrow> (state, st))"

datatype archetype = RadioEvent | DepotEvent | ScoutsEvent | ConvoyEvent

definition campaignEventArchetype :: "node \<Rightarrow> archetype" where
  "campaignEventArchetype n =
     (let label = to_lower (nd_label n)
      in if text_includes label ''radio'' then RadioEvent
         else if text_includes label (''dep'' @ [CHR 0xF3] @ ''sito'') then DepotEvent
         else if text_includes label ''exploradores'' then ScoutsEvent else ConvoyEvent)"

text \<open>An option of an event; absent numbers are 0.\<close>

record event_option =
  eo_id :: string
  eo_label :: string
  eo_description :: string
  eo_creditCost :: int
  eo_credits :: int
  eo_difficultyDelta :: int
  eo_perkId :: "string option"
  eo_relicId :: "string option"
  eo_duplicateRelic :: "string option"
  eo_disabled :: bool

definition event_option :: "string \<Rightarrow> string \<Rightarrow> string \<Rightarrow> event_option" where
  "event_option i label description =
     \<lparr>eo_id = i, eo_label = label, eo_description = description, eo_creditCost = 0, eo_credits = 0,
      eo_difficultyDelta = 0, eo_perkId = None, eo_relicId = None, eo_duplicateRelic = None, eo_disabled = False\<rparr>"

definition relicChoice :: "campaign \<Rightarrow> string \<Rightarrow> int \<Rightarrow> event_option \<Rightarrow> event_option" where
  "relicChoice state relicId fallbackCredits option =
     (if CAMPAIGN_RELIC_BY_ID relicId = None then option
      else if hasRelic state relicId
      then option\<lparr>eo_credits := fallbackCredits, eo_duplicateRelic := Some relicId\<rparr>
      else option\<lparr>eo_relicId := Some relicId\<rparr>)"

definition with_cost :: "int \<Rightarrow> event_option \<Rightarrow> event_option" where
  "with_cost available option =
     (let creditCost = max 0 (eo_creditCost option);
          disabled = (available < creditCost);
          costText = (if creditCost \<noteq> 0
                      then '' Coste: '' @ show_int creditCost @ '' suministros''
                           @ (if disabled then '' (saldo insuficiente).'' else ''.'') else [])
      in option\<lparr>eo_creditCost := creditCost, eo_disabled := disabled,
                eo_description := eo_description option @ costText\<rparr>)"

definition event_choices :: "campaign \<Rightarrow> archetype \<Rightarrow> perk \<Rightarrow> event_option list" where
  "event_choices state a supplyPerk =
     (case a of
        RadioEvent \<Rightarrow>
          [relicChoice state ''fieldCipher'' 4 ((event_option ''decrypt'' (''Descifrar el tr'' @ [CHR 0xE1] @ ''fico'')
             (''Obtienes el Cifrador de campa'' @ [CHR 0xF1] @ ''a. Si ya lo tienes, recuperas 4 suministros.''))\<lparr>eo_creditCost := 2\<rparr>),
           (event_option ''jam'' ''Interferir la red''
             (''Silencias coordinaci'' @ [CHR 0xF3] @ ''n enemiga: '' @ [CHR 0xE2, CHR 0x88, CHR 0x92] @ ''5 de dificultad en el pr'' @ [CHR 0xF3] @ ''ximo combate.''))
             \<lparr>eo_creditCost := 3, eo_difficultyDelta := -5\<rparr>,
           relicChoice state ''forwardObserver'' 4 ((event_option ''trace'' ''Rastrear al operador''
             (''Obtienes '' @ [CHR 0xD3] @ ''ptica del observador, pero la b'' @ [CHR 0xFA] @ ''squeda genera ruido: +2 al pr'' @ [CHR 0xF3] @ ''ximo combate.''))
             \<lparr>eo_difficultyDelta := 2\<rparr>)]
      | DepotEvent \<Rightarrow>
          [(event_option ''inventory'' (''Inventariar bajo presi'' @ [CHR 0xF3] @ ''n'')
             (''Recuperas 6 suministros, pero el registro del dep'' @ [CHR 0xF3] @ ''sito deja +4 de amenaza.''))
             \<lparr>eo_credits := 6, eo_difficultyDelta := 4\<rparr>,
           (event_option ''salvage'' ((''Vaciar el dep'' @ [CHR 0xF3] @ ''sito '' @ [CHR 0xB7] @ '' '') @ perk_label supplyPerk)
             (''Obtienes una ventaja temporal, pero haces ruido: +4 al pr'' @ [CHR 0xF3] @ ''ximo combate.''))
             \<lparr>eo_difficultyDelta := 4, eo_perkId := Some (perk_id supplyPerk)\<rparr>,
           relicChoice state ''campLedger'' 4 ((event_option ''ledger'' (''Recuperar libro log'' @ [CHR 0xED] @ ''stico'')
             ''Obtienes Libro de retaguardia. Si ya lo tienes, recuperas 4 suministros.'')\<lparr>eo_creditCost := 2\<rparr>)]
      | ScoutsEvent \<Rightarrow>
          [(event_option ''shadow'' ''Seguirlos sin contacto''
             (''Aprendes la ruta enemiga: '' @ [CHR 0xE2, CHR 0x88, CHR 0x92] @ ''6 de dificultad en el pr'' @ [CHR 0xF3] @ ''ximo combate.''))
             \<lparr>eo_creditCost := 3, eo_difficultyDelta := -6\<rparr>,
           relicChoice state ''silentBoots'' 4 ((event_option ''seizeMaps'' ''Confiscar sus mapas''
             (''Obtienes Equipo de infiltraci'' @ [CHR 0xF3] @ ''n, pero el forcejeo deja +3 de ruido.''))\<lparr>eo_difficultyDelta := 3\<rparr>),
           (event_option ''trade'' (''Intercambiar informaci'' @ [CHR 0xF3] @ ''n'')
             (''Recuperas 4 suministros, pero la negociaci'' @ [CHR 0xF3] @ ''n expone tu ruta: +3 de amenaza.''))
             \<lparr>eo_credits := 4, eo_difficultyDelta := 3\<rparr>]
      | ConvoyEvent \<Rightarrow>
          [(event_option ''recon'' ''Reconocimiento silencioso''
             (''Rodeas el convoy sin tocarlo: '' @ [CHR 0xE2, CHR 0x88, CHR 0x92] @ ''6 de dificultad en el pr'' @ [CHR 0xF3] @ ''ximo combate.''))
             \<lparr>eo_creditCost := 3, eo_difficultyDelta := -6\<rparr>,
           (event_option ''salvage'' ((''Saquear suministros '' @ [CHR 0xB7] @ '' '') @ perk_label supplyPerk)
             (''Ganas una ventaja temporal, pero haces ruido: +4 al pr'' @ [CHR 0xF3] @ ''ximo combate.''))
             \<lparr>eo_difficultyDelta := 4, eo_perkId := Some (perk_id supplyPerk)\<rparr>,
           relicChoice state ''quartermasterSeal'' 4 ((event_option ''manifest'' ''Recuperar el manifiesto''
             ''Obtienes Sello de intendencia. Si ya lo tienes, recuperas 4 suministros.'')\<lparr>eo_creditCost := 2\<rparr>)])"

definition campaignEventOptions :: "campaign \<Rightarrow> event_option list" where
  "campaignEventOptions state =
     (case selected_node state of
        None \<Rightarrow> []
      | Some n \<Rightarrow>
          if phase state \<noteq> ''event'' then []
          else let supplyPerk = rewardOptionsForFloor (case seed state of None \<Rightarrow> [] | Some s \<Rightarrow> s)
                                  (nd_floor n + 37) ! 0;
                   available = max 0 (operationalCredits state)
               in map (with_cost available) (event_choices state (campaignEventArchetype n) supplyPerk))"

definition event_log_text :: "event_option \<Rightarrow> int \<Rightarrow> string" where
  "event_log_text option delta =
     join_with ('' '' @ [CHR 0xB7] @ '' '') ([eo_label option]
       @ (if eo_creditCost option \<noteq> 0 then [[CHR 0xE2, CHR 0x88, CHR 0x92] @ show_int (eo_creditCost option) @ '' suministros''] else [])
       @ (case eo_relicId option of None \<Rightarrow> []
          | Some r \<Rightarrow> [''reliquia: '' @ (case CAMPAIGN_RELIC_BY_ID r of None \<Rightarrow> ''undefined'' | Some x \<Rightarrow> rl_label x)])
       @ (if eo_duplicateRelic option \<noteq> None
          then [(''duplicada '' @ [CHR 0xE2, CHR 0x86, CHR 0x92] @ '' +'') @ show_int (max 0 (eo_credits option)) @ ('' cr'' @ [CHR 0xE9] @ ''ditos'')]
          else if 0 < eo_credits option then [''+'' @ show_int (eo_credits option) @ ('' cr'' @ [CHR 0xE9] @ ''ditos'')] else [])
       @ (if delta \<noteq> 0 then [(if 0 < delta then ''+'' else []) @ show_int delta @ '' amenaza siguiente''] else [])
       @ (case eo_perkId option of None \<Rightarrow> []
          | Some p \<Rightarrow> [case perkById p of None \<Rightarrow> (''bot'' @ [CHR 0xED] @ ''n'') | Some x \<Rightarrow> perk_label x]))"

definition event_delta :: "campaign \<Rightarrow> event_option \<Rightarrow> int" where
  "event_delta state option =
     (let rawDelta = eo_difficultyDelta option
      in if 0 < rawDelta \<and> hasRelic state ''silentBoots'' then max 0 (rawDelta - 2) else rawDelta)"

definition event_gains :: "campaign \<Rightarrow> event_option \<Rightarrow> campaign" where
  "event_gains state option =
     state\<lparr>perks := (case eo_perkId option of None \<Rightarrow> perks state | Some p \<Rightarrow> perks state @ [p]),
           relicIds := (case eo_relicId option of None \<Rightarrow> relicIds state | Some r \<Rightarrow> uniq (relicIds state @ [r])),
           operationalCredits := max 0 (operationalCredits state - max 0 (eo_creditCost option)
                                        + max 0 (eo_credits option))\<rparr>"

definition resolveCampaignEvent :: "json_api \<Rightarrow> campaign \<Rightarrow> string \<Rightarrow> store \<Rightarrow> campaign \<times> store" where
  "resolveCampaignEvent js state choiceId st =
     (if selected_node state = None \<or> phase state \<noteq> ''event'' then (state, st)
      else case List.find (\<lambda>x. eo_id x = choiceId) (campaignEventOptions state) of
             None \<Rightarrow> (state, st)
           | Some option \<Rightarrow>
               if eo_disabled option then (state, st)
               else markNodeCleared js (event_gains state option)
                      (\<lambda>s. s\<lparr>phase := nextCampaignPhase state ''resolve'',
                             nextDifficultyDelta := max (-12) (min 12
                               (fadd (nextDifficultyDelta state) (of_int (event_delta state option)))),
                             eventLog := log_line (event_log_text option (event_delta state option)) state\<rparr>) st)"

section \<open>Recovery, archive and resumption\<close>

text \<open>\<open>[...(v || [])]\<close>: spreading text yields its characters, any other non-array throws (\<open>None\<close>).\<close>

definition spread :: "json \<Rightarrow> json list option" where
  "spread v = (if \<not> truthy v then Some []
               else case v of JArr xs \<Rightarrow> Some xs | JStr s \<Rightarrow> Some (map (\<lambda>c. JStr [c]) s) | _ \<Rightarrow> None)"

text \<open>\<open>campaignNode(state)\<close> on a stored object.\<close>

definition raw_selected_node :: "json \<Rightarrow> node option" where
  "raw_selected_node raw =
     (if \<not> truthy (field ''active'' raw) \<or> \<not> truthy (field ''seed'' raw) \<or> \<not> truthy (field ''selectedNodeId'' raw) then None
      else case field ''selectedNodeId'' raw of
             JStr i \<Rightarrow> find_node (Some (json_string (field ''seed'' raw))) (Some i) | _ \<Rightarrow> None)"

text \<open>\<open>resumableCampaignState\<close>: \<open>Inl ()\<close> is the exception of a log that cannot be spread. In the
  three phases it can leave, the table sends \<open>recover\<close> to the briefing.\<close>

definition resumableCampaignState :: "json \<Rightarrow> unit + campaign option" where
  "resumableCampaignState raw =
     (if \<not> truthy (field ''active'' raw) \<or> \<not> truthy (field ''seed'' raw) then Inr None
      else let selected = raw_selected_node raw;
               rawPhase = (case field ''phase'' raw of JStr p \<Rightarrow> p | _ \<Rightarrow> []);
               canRetry = (fight_phase rawPhase \<and> (case selected of None \<Rightarrow> False | Some n \<Rightarrow> combat_type (nd_type n)));
               ph = (if canRetry then tr_nextState (campaignPhaseTransition rawPhase ''recover'') else ''map'');
               sel = (if canRetry then JStr (nd_id (the selected)) else JNull);
               message = (if canRetry
                          then ''Batalla recuperada en '' @ nd_label (the selected) @ '': vuelve al briefing sin inventar bajas''
                          else (''Operaci'' @ [CHR 0xF3] @ ''n recuperada en la mesa de guerra''))
           in case spread (field ''eventLog'' raw) of
                None \<Rightarrow> Inl ()
              | Some lines \<Rightarrow>
                  Inr (Some (normalizeCampaign (with_fields
                    [(''active'', JBool True), (''phase'', JStr ph), (''selectedNodeId'', sel),
                     (''eventLog'', JArr (last_n 30 (lines @ [JStr message])))] raw))))"

definition recoverInterruptedCampaign :: "json_api \<Rightarrow> campaign \<Rightarrow> store \<Rightarrow> campaign \<times> store" where
  "recoverInterruptedCampaign js state st =
     (case resumableCampaignState (to_json state) of
        Inr (Some recovered) \<Rightarrow> saveCampaign js recovered st
      | _ \<Rightarrow> (state, st))"

definition loadCampaignArchive :: "json_api \<Rightarrow> store \<Rightarrow> json list" where
  "loadCampaignArchive js st =
     (case parse js (case st OPERATION_ARCHIVE_KEY of None \<Rightarrow> ''[]'' | Some s \<Rightarrow> if s = [] then ''[]'' else s) of
        None \<Rightarrow> [] | Some v \<Rightarrow> take 12 (elements v))"

text \<open>The archived entry, an object; \<open>now\<close> is \<open>Date.now()\<close>.\<close>

definition archive_entry :: "int \<Rightarrow> campaign \<Rightarrow> string \<Rightarrow> string \<Rightarrow> int \<Rightarrow> json" where
  "archive_entry now state sd reason stage =
     (let nodes = cm_nodes (campaignMap sd);
          label = (\<lambda>i. case List.find (\<lambda>n. nd_id n = i) nodes of
                         None \<Rightarrow> i | Some n \<Rightarrow> if nd_label n = [] then i else nd_label n)
      in JObj [(''id'', JStr (sd @ '':'' @ show_int now)), (''seed'', JStr sd), (''endedAt'', JInt now),
               (''reason'', JStr reason), (''stage'', JInt stage), (''route'', JArr (map JStr (route state))),
               (''routeLabels'', JArr (map (\<lambda>i. JStr (label i)) (route state))),
               (''relicIds'', JArr (map JStr (relicIds state))),
               (''bossId'', JStr (boss_id (campaignBossForSeed sd))), (''bossLabel'', JStr (boss_label (campaignBossForSeed sd))),
               (''credits'', JInt (max 0 (operationalCredits state))),
               (''cleared'', JInt (int (length (clearedNodeIds state)))),
               (''resumeState'',
                 if reason = ''interrupted''
                 then (case resumableCampaignState (to_json state) of Inr (Some c) \<Rightarrow> to_json c | _ \<Rightarrow> JNull)
                 else JUndef)])"

definition archiveCampaignOperation ::
  "json_api \<Rightarrow> int \<Rightarrow> campaign \<Rightarrow> string \<Rightarrow> int \<Rightarrow> store \<Rightarrow> json option \<times> store" where
  "archiveCampaignOperation js now state reason stage st =
     (case seed state of
        Some sd \<Rightarrow>
          if sd = [] \<or> \<not> active state then (None, st)
          else let entry = archive_entry now state sd reason stage;
                   next = take 12 (entry # loadCampaignArchive js st)
               in (Some entry, st(OPERATION_ARCHIVE_KEY \<mapsto> stringify js (JArr next)))
      | None \<Rightarrow> (None, st))"

record end_result =
  er_reason :: string
  er_stage :: int
  er_route :: "string list"
  er_archiveEntry :: "json option"

definition endCampaign :: "json_api \<Rightarrow> int \<Rightarrow> campaign \<Rightarrow> string \<Rightarrow> store \<Rightarrow> end_result \<times> store" where
  "endCampaign js now state reason st =
     (let n = campaignNode state (case selectedNodeId state of
                None \<Rightarrow> Some (currentNodeId state) | Some i \<Rightarrow> if i = [] then Some (currentNodeId state) else Some i);
          stage = (case n of None \<Rightarrow> 0 | Some x \<Rightarrow> int (nd_stage x));
          st1 = (if loadCampaignBestStage st < stage then st(BEST_STAGE_KEY \<mapsto> show_int stage) else st);
          (archiveEntry, st2) = archiveCampaignOperation js now state reason stage st1
      in (\<lparr>er_reason = reason, er_stage = stage, er_route = route state, er_archiveEntry = archiveEntry\<rparr>,
          snd (saveCampaign js emptyCampaign st2)))"

text \<open>An entry archived before \<open>resumeState\<close> existed is rebuilt from its route.\<close>

definition legacy_resume :: "json \<Rightarrow> json" where
  "legacy_resume entry =
     (let rt = (if is_array (field ''route'' entry) \<and> elements (field ''route'' entry) \<noteq> []
                then elements (field ''route'' entry) else [JStr ''start''])
      in with_fields
           [(''active'', JBool True), (''seed'', JStr (json_string (field ''seed'' entry))), (''phase'', JStr ''map''),
            (''currentNodeId'', if truthy (last rt) then last rt else JStr ''start''), (''selectedNodeId'', JNull),
            (''route'', JArr rt), (''clearedNodeIds'', JArr (filter (\<lambda>i. i \<noteq> JStr ''start'') rt)),
            (''relicIds'', if is_array (field ''relicIds'' entry) then field ''relicIds'' entry else JArr []),
            (''operationalCredits'', JInt (whole_nonneg (field ''credits'' entry))),
            (''eventLog'', JArr [JStr (''Operaci'' @ [CHR 0xF3] @ ''n interrumpida recuperada desde el archivo'')])]
           (to_json emptyCampaign))"

text \<open>\<open>resumeInterruptedCampaign\<close>; \<open>Inl ()\<close> is the exception of \<open>resumableCampaignState\<close>.\<close>

definition resumeInterruptedCampaign :: "json_api \<Rightarrow> json \<Rightarrow> store \<Rightarrow> unit + campaign \<times> store" where
  "resumeInterruptedCampaign js entry st =
     (if \<not> truthy entry \<or> field ''reason'' entry \<noteq> JStr ''interrupted''
         \<or> \<not> truthy (field ''id'' entry) \<or> \<not> truthy (field ''seed'' entry) then Inr (loadCampaign js st, st)
      else case (if truthy (field ''resumeState'' entry) then resumableCampaignState (field ''resumeState'' entry)
                 else Inr None) of
             Inl u \<Rightarrow> Inl u
           | Inr r \<Rightarrow>
               let recovered = (case r of Some c \<Rightarrow> c | None \<Rightarrow> normalizeCampaign (legacy_resume entry))
               in if \<not> active recovered then Inr (loadCampaign js st, st)
                  else let archive = filter (\<lambda>item. \<not> strict_eq (field ''id'' item) (field ''id'' entry))
                                       (loadCampaignArchive js st);
                           st1 = st(OPERATION_ARCHIVE_KEY \<mapsto> stringify js (JArr archive))
                       in Inr (saveCampaign js recovered st1))"

definition resetCombatCampaign :: "store \<Rightarrow> store" where
  "resetCombatCampaign st = st(KEY := None, BEST_STAGE_KEY := None, OPERATION_ARCHIVE_KEY := None)"

end
