(* ===== verification/CampaignProps.thy ===== *)
theory CampaignProps
  imports Campaign
begin

text \<open>
  What the campaign keeps. \<open>normalize_state\<close> is \<open>normalizeCampaign\<close> on the states the code
  builds; \<open>campaign_inv\<close> is what every normalised state satisfies, and a state that satisfies
  it is not changed by saving it, so each operation is known by the state it builds. On top of
  it \<open>legal\<close> relates the route to the map; it is preserved by every operation, which is the
  induction behind the properties of a whole operation.
\<close>

section \<open>Normalising the states the code builds\<close>

lemma JInt_eq [simp]: "JInt i = JInt j \<longleftrightarrow> i = j"
  by simp

lemma version_ok: "JInt 5 \<in> set (map JInt [1, 2, 3, 4, CAMPAIGN_VERSION])"
  by (simp add: CAMPAIGN_VERSION_def)

lemma strings_of_JStrs [simp]: "strings_in (elements (JArr (map JStr xs))) = xs"
  by simp

lemma is_object_simps [simp]: "is_object JNull = False" "is_object (JObj x) = True" "is_object (JArr y) = True"
  by (simp_all add: is_object_def)

lemma normalize_order_json:
  "os_id e \<noteq> [] \<Longrightarrow> 0 \<le> os_reward e \<Longrightarrow> 0 \<le> os_earned e \<Longrightarrow> normalize_order (json_of_order e) = e"
  by (cases e) (simp add: normalize_order_def json_of_order_def)

definition mission_ok :: "mission_summary option \<Rightarrow> bool" where
  "mission_ok x \<longleftrightarrow>
     (case x of None \<Rightarrow> True
      | Some m \<Rightarrow> 0 \<le> mi_earned m \<and> length (mi_results m) \<le> 3 \<and>
                 list_all (\<lambda>e. os_id e \<noteq> [] \<and> 0 \<le> os_reward e \<and> 0 \<le> os_earned e) (mi_results m))"

lemma normalize_orders_json:
  "list_all (\<lambda>e. os_id e \<noteq> [] \<and> 0 \<le> os_reward e \<and> 0 \<le> os_earned e) es \<Longrightarrow>
   map normalize_order (map json_of_order es) = es \<and> filter (\<lambda>e. os_id e \<noteq> []) es = es"
  by (induction es) (simp_all add: normalize_order_json)

lemma normalize_mission_json: "mission_ok x \<Longrightarrow> normalize_mission (json_of_mission x) = x"
proof (cases x)
  case (Some m)
  assume "mission_ok x"
  then have m: "0 \<le> mi_earned m" "length (mi_results m) \<le> 3"
      "list_all (\<lambda>e. os_id e \<noteq> [] \<and> 0 \<le> os_reward e \<and> 0 \<le> os_earned e) (mi_results m)"
    by (simp_all add: mission_ok_def Some)
  show ?thesis
    using m normalize_orders_json [OF m(3)]
    by (cases m) (simp add: Some normalize_mission_def json_of_mission_def json_opt_def take_map split: option.splits)
qed (simp add: normalize_mission_def json_of_mission_def)

lemma normalize_mission_ok: "mission_ok (normalize_mission m)"
proof -
  have "length (filter P (map f (take 3 xs))) \<le> 3" for P f and xs :: "json list"
    by (rule order_trans [OF length_filter_le]) simp
  then show ?thesis
    by (simp add: normalize_mission_def mission_ok_def list_all_iff) (auto simp: normalize_order_def)
qed

lemma clampIntel_raw_int [simp]: "clampIntelLevel_raw (JInt l) = clampIntelLevel l"
proof -
  have "max 0 (min 3 (of_int l)) = (of_int (max 0 (min 3 l)) :: rat)" by (auto simp: max_def min_def)
  then show ?thesis by (simp add: clampIntelLevel_raw_def clampIntelLevel_def clamp_num_def or_zero_def)
qed

lemma clampIntel_raw_bounds: "0 \<le> clampIntelLevel_raw v \<and> clampIntelLevel_raw v \<le> 3"
proof -
  let ?q = "clamp_num 0 3 (or_zero (json_number v))"
  have "0 \<le> ?q" "?q \<le> 3" by (auto simp: clamp_num_def split: jsnum.splits)
  then show ?thesis unfolding clampIntelLevel_raw_def by linarith
qed

section \<open>The invariant\<close>

definition ids_of :: "campaign \<Rightarrow> string list" where
  "ids_of c = valid_ids (map_seed (seed c))"

definition node_of :: "campaign \<Rightarrow> string option \<Rightarrow> node option" where
  "node_of c i = find_node (map_seed (seed c)) i"

definition phase_ok :: "campaign \<Rightarrow> bool" where
  "phase_ok c \<longleftrightarrow>
     (if active c then seed c \<noteq> None \<and> phase c \<in> set known_phases \<and> selection_coherent (phase c) (node_of c (selectedNodeId c)) \<and>
        (if phase c = ''map'' \<or> phase c = ''completed'' then selectedNodeId c = None else selectedNodeId c \<noteq> None)
      else seed c = None \<and> phase c = ''idle'' \<and> selectedNodeId c = None)"

definition campaign_inv :: "campaign \<Rightarrow> bool" where
  "campaign_inv c \<longleftrightarrow>
     phase_ok c \<and>
     (\<exists>rest. route c = ''start'' # rest \<and> list_all (\<lambda>i. i \<noteq> ''start'' \<and> i \<in> set (ids_of c)) rest) \<and>
     currentNodeId c \<in> set (ids_of c) \<and> currentNodeId c \<in> set (route c) \<and>
     distinct (clearedNodeIds c) \<and> list_all (\<lambda>i. i \<in> set (ids_of c)) (clearedNodeIds c) \<and>
     list_all (\<lambda>i. perkById i \<noteq> None) (perks c) \<and>
     -12 \<le> nextDifficultyDelta c \<and> nextDifficultyDelta c \<le> 12 \<and> 0 \<le> operationalCredits c \<and>
     list_all (\<lambda>(k, l). k \<in> set (ids_of c) \<and> 0 \<le> l \<and> l \<le> 3) (intelligenceByNode c) \<and>
     distinct (relicIds c) \<and> length (relicIds c) \<le> 6 \<and> list_all (\<lambda>i. CAMPAIGN_RELIC_BY_ID i \<noteq> None) (relicIds c) \<and>
     mission_ok (lastMissionResult c) \<and> length (eventLog c) \<le> 30"

lemma start_valid: "''start'' \<in> set (valid_ids sd)"
  by (cases sd) (simp_all add: valid_ids_def map_ids MAP_SHAPE_def)

lemma valid_nonempty: "i \<in> set (valid_ids sd) \<Longrightarrow> i \<noteq> []"
  by (cases sd) (auto simp: valid_ids_def map_ids MAP_SHAPE_def)

lemma normalize_route_cons:
  "normalize_route v r = ''start'' # filter (\<lambda>i. i \<noteq> ''start'' \<and> i \<in> set v) (strings_in (elements r))"
  by (simp add: normalize_route_def)

lemma empty_inv: "campaign_inv emptyCampaign"
  by (simp add: campaign_inv_def emptyCampaign_def phase_ok_def ids_of_def valid_ids_def mission_ok_def map_seed_def
      CAMPAIGN_STARTING_CREDITS_def)

lemma delta_bounds: "-12 \<le> clamp_num (-12) 12 n \<and> clamp_num (-12) 12 n \<le> (12::rat)"
  by (auto simp: clamp_num_def split: jsnum.splits)

lemma relics_bound: "length (take (length CAMPAIGN_RELICS) xs) \<le> 6"
  by (simp add: CAMPAIGN_RELICS_def)

lemma known_not_idle [simp]: "''idle'' \<notin> set known_phases" "''map'' \<in> set known_phases"
  by (simp_all add: known_phases_def)

lemma coherent_map [simp]: "selection_coherent ''map'' x" "selection_coherent ''completed'' x"
  "\<not> selection_coherent ''idle'' x"
  by (simp_all add: selection_coherent_def fight_phase_def)

lemma coherent_needs_node: "selection_coherent p None \<Longrightarrow> p = ''map'' \<or> p = ''completed''"
  by (auto simp: selection_coherent_def)

lemma find_node_None [simp]: "find_node sd None = None" "find_node None i = None"
  by (simp_all add: find_node_def split: option.splits)

lemma settle_phase_ok:
  assumes "settle (active c) ph candidate (node_of c candidate) = (phase c, selectedNodeId c)"
    and "active c = (seed c \<noteq> None)" and "if active c then ph \<in> set (''idle'' # known_phases) else ph = ''idle''"
  shows "phase_ok c"
proof (cases "active c")
  case False
  then show ?thesis using assms by (simp add: phase_ok_def settle_def)
next
  case True
  show ?thesis
  proof (cases "selection_coherent ph (node_of c candidate)")
    case False
    then have "phase c = ''map''" "selectedNodeId c = None" using True assms(1) by (auto simp: settle_def)
    then show ?thesis using True assms(2) by (simp add: phase_ok_def)
  next
    case coh: True
    have n: "candidate \<noteq> None" if "ph \<noteq> ''map''" "ph \<noteq> ''completed''"
      using coh that coherent_needs_node [of ph] by (cases candidate) (auto simp: node_of_def)
    have i: "ph \<noteq> ''idle''" using coh by auto
    show ?thesis using True assms coh n i by (auto simp: phase_ok_def settle_def split: if_splits)
  qed
qed

lemma normalize_fields:
  assumes "stored_campaign raw"
  shows "active (normalizeCampaign raw) = (field ''active'' raw = JBool True)"
    "seed (normalizeCampaign raw) = normalize_seed raw"
    "(phase (normalizeCampaign raw), selectedNodeId (normalizeCampaign raw)) =
       settle (field ''active'' raw = JBool True) (normalize_phase (field ''active'' raw = JBool True) (field ''phase'' raw))
         (normalize_candidate (valid_ids (map_seed (normalize_seed raw))) (field ''selectedNodeId'' raw))
         (find_node (map_seed (normalize_seed raw))
            (normalize_candidate (valid_ids (map_seed (normalize_seed raw))) (field ''selectedNodeId'' raw)))"
    "route (normalizeCampaign raw) = normalize_route (valid_ids (map_seed (normalize_seed raw))) (field ''route'' raw)"
    "currentNodeId (normalizeCampaign raw) =
       normalize_current (valid_ids (map_seed (normalize_seed raw))) (route (normalizeCampaign raw)) (field ''currentNodeId'' raw)"
    "clearedNodeIds (normalizeCampaign raw) =
       uniq (filter (\<lambda>i. i \<in> set (valid_ids (map_seed (normalize_seed raw)))) (strings_in (elements (field ''clearedNodeIds'' raw))))"
    "perks (normalizeCampaign raw) = filter (\<lambda>i. perkById i \<noteq> None) (strings_in (elements (field ''perks'' raw)))"
    "nextDifficultyDelta (normalizeCampaign raw) = clamp_num (-12) 12 (or_zero (json_number (field ''nextDifficultyDelta'' raw)))"
    "operationalCredits (normalizeCampaign raw) = normalize_credits raw"
    "intelligenceByNode (normalizeCampaign raw) =
       normalize_intel (valid_ids (map_seed (normalize_seed raw))) (field ''intelligenceByNode'' raw)"
    "relicIds (normalizeCampaign raw) = take (length CAMPAIGN_RELICS)
             (uniq (filter (\<lambda>i. CAMPAIGN_RELIC_BY_ID i \<noteq> None) (strings_in (elements (field ''relicIds'' raw)))))"
    "lastMissionResult (normalizeCampaign raw) = normalize_mission (field ''lastMissionResult'' raw)"
    "eventLog (normalizeCampaign raw) = last_n 30 (elements (field ''eventLog'' raw))"
    "rewardChosenForNode (normalizeCampaign raw) = json_string_opt (field ''rewardChosenForNode'' raw)"
  unfolding normalizeCampaign_def Let_def
  by (simp_all only: assms not_True_eq_False if_False campaign.simps prod.collapse)

lemma normalize_phase_known: "normalize_phase act v \<in> set (''idle'' # known_phases)" "normalize_phase False v = ''idle''"
  by (simp_all add: normalize_phase_def split: json.splits)

lemma normalize_inv: "campaign_inv (normalizeCampaign raw)"
proof (cases "stored_campaign raw")
  case False
  then show ?thesis using empty_inv by (simp add: normalizeCampaign_def)
next
  case True
  note f = normalize_fields [OF True]
  let ?c = "normalizeCampaign raw"
  define ms where "ms = map_seed (normalize_seed raw)"
  note f = f [folded ms_def]
  have ids: "ids_of ?c = valid_ids ms" by (simp add: ids_of_def ms_def f)
  have act: "active ?c = (seed ?c \<noteq> None)" by (simp add: f normalize_seed_def)
  have "phase_ok ?c"
  proof (rule settle_phase_ok [OF _ act])
    show "settle (active ?c) (normalize_phase (active ?c) (field ''phase'' raw))
        (normalize_candidate (valid_ids ms) (field ''selectedNodeId'' raw))
        (node_of ?c (normalize_candidate (valid_ids ms) (field ''selectedNodeId'' raw))) = (phase ?c, selectedNodeId ?c)"
      unfolding node_of_def f(1,2,3) ms_def ..
    show "if active ?c then normalize_phase (active ?c) (field ''phase'' raw) \<in> set (''idle'' # known_phases)
        else normalize_phase (active ?c) (field ''phase'' raw) = ''idle''"
      using normalize_phase_known by simp
  qed
  moreover have rt: "\<exists>rest. route ?c = ''start'' # rest \<and> list_all (\<lambda>i. i \<noteq> ''start'' \<and> i \<in> set (valid_ids ms)) rest"
    unfolding f(4) normalize_route_def by (auto simp: list_all_iff)
  moreover from rt have rtv: "set (route ?c) \<subseteq> set (valid_ids ms)" "route ?c \<noteq> []"
    using start_valid [of ms] by (auto simp: list_all_iff)
  moreover have "currentNodeId ?c \<in> set (route ?c)" "currentNodeId ?c \<in> set (valid_ids ms)"
    using rtv last_in_set [OF rtv(2)] unfolding f(5) normalize_current_def by (auto split: json.splits)
  moreover have "list_all (\<lambda>(k, l). k \<in> set (valid_ids ms) \<and> 0 \<le> l \<and> l \<le> 3) (intelligenceByNode ?c)"
    unfolding f(10) normalize_intel_def
    by (auto simp: list_all_iff clampIntel_raw_bounds split: json.splits)
  moreover have "distinct (relicIds ?c)" "list_all (\<lambda>i. CAMPAIGN_RELIC_BY_ID i \<noteq> None) (relicIds ?c)" "length (relicIds ?c) \<le> 6"
    unfolding f(11) using relics_bound by (auto simp: list_all_iff dest!: in_set_takeD)
  moreover have "distinct (clearedNodeIds ?c)" "list_all (\<lambda>i. i \<in> set (valid_ids ms)) (clearedNodeIds ?c)"
    "list_all (\<lambda>i. perkById i \<noteq> None) (perks ?c)" "mission_ok (lastMissionResult ?c)" "length (eventLog ?c) \<le> 30"
    "0 \<le> operationalCredits ?c" "-12 \<le> nextDifficultyDelta ?c" "nextDifficultyDelta ?c \<le> 12"
    unfolding f(6,7,8,9,12,13) normalize_credits_def using normalize_mission_ok delta_bounds
    by (simp_all add: list_all_iff)
  ultimately show ?thesis unfolding campaign_inv_def ids by blast
qed

section \<open>Saving a state that satisfies the invariant changes nothing\<close>

lemma field_to_json:
  "field ''version'' (to_json c) = JInt 5" "field ''active'' (to_json c) = JBool (active c)"
  "field ''seed'' (to_json c) = json_opt (seed c)" "field ''phase'' (to_json c) = JStr (phase c)"
  "field ''currentNodeId'' (to_json c) = JStr (currentNodeId c)"
  "field ''selectedNodeId'' (to_json c) = json_opt (selectedNodeId c)"
  "field ''clearedNodeIds'' (to_json c) = JArr (map JStr (clearedNodeIds c))"
  "field ''route'' (to_json c) = JArr (map JStr (route c))"
  "field ''perks'' (to_json c) = JArr (map JStr (perks c))"
  "field ''rewardChosenForNode'' (to_json c) = json_opt (rewardChosenForNode c)"
  "field ''nextDifficultyDelta'' (to_json c) = JNum (Fin (nextDifficultyDelta c))"
  "field ''operationalCredits'' (to_json c) = JInt (operationalCredits c)"
  "field ''intelligenceByNode'' (to_json c) = JObj (map (\<lambda>(k, l). (k, JInt l)) (intelligenceByNode c))"
  "field ''relicIds'' (to_json c) = JArr (map JStr (relicIds c))"
  "field ''lastMissionResult'' (to_json c) = json_of_mission (lastMissionResult c)"
  "field ''eventLog'' (to_json c) = JArr (eventLog c)"
  by (simp_all add: to_json_def CAMPAIGN_VERSION_def)

lemma stored_to_json [simp]: "stored_campaign (to_json c)"
proof -
  have "case to_json c of JObj _ \<Rightarrow> True | _ \<Rightarrow> False" by (simp add: to_json_def)
  then show ?thesis unfolding stored_campaign_def field_to_json using version_ok by simp
qed

lemma json_opt_cases [simp]: "json_string_opt (json_opt x) = x" "truthy (json_opt x) = (x \<noteq> None \<and> x \<noteq> Some [])"
  by (auto simp: json_string_opt_def json_opt_def truthy_def split: option.splits)

lemma normalize_seed_json: "campaign_inv c \<Longrightarrow> seed c \<noteq> Some [] \<Longrightarrow> normalize_seed (to_json c) = seed c"
proof -
  assume "campaign_inv c" "seed c \<noteq> Some []"
  then have a: "active c = (seed c \<noteq> None)" by (auto simp: campaign_inv_def phase_ok_def split: if_splits)
  show ?thesis using a \<open>seed c \<noteq> Some []\<close>
    by (cases "seed c") (simp_all add: normalize_seed_def field_to_json, simp add: json_opt_def)
qed

lemma settle_id:
  assumes "phase_ok c"
  shows "settle (active c) (phase c) (selectedNodeId c) (node_of c (selectedNodeId c)) = (phase c, selectedNodeId c)"
  using assms by (auto simp: phase_ok_def settle_def split: if_splits)

lemma candidate_id:
  assumes "phase_ok c" "\<And>i. selectedNodeId c = Some i \<Longrightarrow> i \<in> set (ids_of c)"
  shows "normalize_candidate (ids_of c) (json_opt (selectedNodeId c)) = selectedNodeId c"
  using assms by (cases "selectedNodeId c") (auto simp: normalize_candidate_def json_opt_def)

lemma find_node_valid: "find_node sd (Some i) = Some n \<Longrightarrow> i \<in> set (valid_ids sd) \<and> nd_id n = i \<and> sd \<noteq> None"
  by (auto simp: find_node_def valid_ids_def find_Some_iff split: option.splits)

lemma phase_ok_selected:
  assumes "phase_ok c" "selectedNodeId c = Some i"
  shows "i \<in> set (ids_of c)" "\<exists>n. node_of c (Some i) = Some n \<and> nd_id n = i"
proof -
  have "phase c \<noteq> ''map''" "phase c \<noteq> ''completed''" "selection_coherent (phase c) (node_of c (Some i))"
    using assms by (auto simp: phase_ok_def split: if_splits)
  then obtain n where "node_of c (Some i) = Some n" using coherent_needs_node by (cases "node_of c (Some i)") auto
  then show "i \<in> set (ids_of c)" "\<exists>n. node_of c (Some i) = Some n \<and> nd_id n = i"
    using find_node_valid unfolding ids_of_def node_of_def by blast+
qed

lemma normalize_phase_json: "phase_ok c \<Longrightarrow> normalize_phase (active c) (JStr (phase c)) = phase c"
  by (auto simp: normalize_phase_def phase_ok_def split: if_splits)

lemma delta_clamp_id: "-12 \<le> q \<Longrightarrow> q \<le> 12 \<Longrightarrow> clamp_num (-12) 12 (or_zero (Fin q)) = q"
  by (simp add: clamp_num_def or_zero_def)

lemma intel_id: "list_all (\<lambda>(k, l). k \<in> set v \<and> 0 \<le> l \<and> l \<le> 3) d \<Longrightarrow>
    normalize_intel v (JObj (map (\<lambda>(k, l). (k, JInt l)) d)) = d"
proof -
  assume a: "list_all (\<lambda>(k, l). k \<in> set v \<and> 0 \<le> l \<and> l \<le> 3) d"
  have "map (\<lambda>(k, v). (k, clampIntelLevel_raw v)) (filter (\<lambda>(k, x). k \<in> set v) (map (\<lambda>(k, l). (k, JInt l)) d)) = d"
    using a by (induction d) (auto simp: clampIntelLevel_def)
  then show ?thesis by (simp add: normalize_intel_def)
qed

lemma filter_id': "list_all P xs \<Longrightarrow> filter P xs = xs"
  by (induction xs) auto

lemma normalize_fix:
  assumes inv: "campaign_inv c" and sd: "seed c \<noteq> Some []"
  shows "normalizeCampaign (to_json c) = c"
proof -
  let ?d = "normalizeCampaign (to_json c)"
  note f = normalize_fields [OF stored_to_json [of c], unfolded normalize_seed_json [OF inv sd] field_to_json]
  note f = f [folded ids_of_def node_of_def]
  have ph: "phase_ok c" using inv by (simp add: campaign_inv_def)
  have act: "(JBool (active c) = JBool True) = active c" by simp
  have cand: "normalize_candidate (ids_of c) (json_opt (selectedNodeId c)) = selectedNodeId c"
    using candidate_id [OF ph] phase_ok_selected(1) [OF ph] by blast
  have sel: "(phase ?d, selectedNodeId ?d) = (phase c, selectedNodeId c)"
    unfolding f(3) act cand normalize_phase_json [OF ph] settle_id [OF ph] ..
  obtain rest where rest: "route c = ''start'' # rest" "list_all (\<lambda>i. i \<noteq> ''start'' \<and> i \<in> set (ids_of c)) rest"
    using inv by (auto simp: campaign_inv_def)
  have route: "route ?d = route c"
    unfolding f(4) normalize_route_def strings_of_JStrs rest(1) using filter_id' [OF rest(2)] by simp
  have cur: "currentNodeId ?d = currentNodeId c"
    unfolding f(5) route using inv by (simp add: normalize_current_def campaign_inv_def)
  have credits: "operationalCredits ?d = operationalCredits c"
    unfolding f(9) using inv by (simp add: normalize_credits_def field_to_json campaign_inv_def)
  have lists: "clearedNodeIds ?d = clearedNodeIds c" "perks ?d = perks c" "relicIds ?d = relicIds c"
    unfolding f(6,7,11) strings_of_JStrs using inv
    by (simp_all add: campaign_inv_def filter_id' uniq_id CAMPAIGN_RELICS_def)
  have rest2: "nextDifficultyDelta ?d = nextDifficultyDelta c" "intelligenceByNode ?d = intelligenceByNode c"
    "lastMissionResult ?d = lastMissionResult c" "eventLog ?d = eventLog c" "rewardChosenForNode ?d = rewardChosenForNode c"
    unfolding f(8,10,12,13,14) json_number_num using inv
    by (simp_all add: campaign_inv_def delta_clamp_id intel_id normalize_mission_json)
  show ?thesis
    by (rule campaign.equality) (use f(1,2) act sel route cur credits lists rest2 in simp_all)
qed

definition good :: "campaign \<Rightarrow> bool" where
  "good c \<longleftrightarrow> campaign_inv c \<and> seed c \<noteq> Some []"

lemma save_good: "good c \<Longrightarrow> saveCampaign js c st = (c, st(KEY \<mapsto> stringify js (to_json c)))"
  by (simp add: saveCampaign_def good_def normalize_fix)

section \<open>The map seen from a state\<close>

definition linked :: "string option \<Rightarrow> string \<Rightarrow> string \<Rightarrow> bool" where
  "linked sd a b \<longleftrightarrow>
     (case sd of None \<Rightarrow> False
      | Some s \<Rightarrow> list_ex (\<lambda>n. nd_id n = a \<and> b \<in> set (nd_connections n)) (cm_nodes (campaignMap s)))"

definition stage_at :: "string \<Rightarrow> nat" where
  "stage_at i = (case List.find (\<lambda>(j, k, t, cs). j = i) MAP_SHAPE of None \<Rightarrow> 0 | Some (j, k, t, cs) \<Rightarrow> k)"

definition boss_node_id :: string where "boss_node_id = ''s7-l1-boss''"

lemma linked_shape: "linked (Some s) a b = list_ex (\<lambda>(i, k, t, cs). i = a \<and> b \<in> set cs) MAP_SHAPE"
  using list_ex_shape [of "\<lambda>(i, k, t, cs). i = a \<and> b \<in> set cs" s] by (simp add: linked_def shape_def)

text \<open>The links of the table, evaluated once.\<close>

definition shape_links :: "(string \<times> string) list" where
  "shape_links = concat (map (\<lambda>(i, k, t, cs). map (\<lambda>c. (i, c)) cs) MAP_SHAPE)"

lemma linked_in: "linked (Some s) a b \<Longrightarrow> (a, b) \<in> set shape_links"
  unfolding linked_shape shape_links_def by (fastforce simp: list_ex_iff)

lemma links_facts:
  "list_all (\<lambda>(a, b). stage_at b = stage_at a + 1 \<and> b \<noteq> ''start'' \<and> b \<in> set (map fst MAP_SHAPE) \<and> a \<noteq> boss_node_id
      \<and> (stage_at b = 7) = (b = boss_node_id)) shape_links"
  by code_simp

lemma linked_facts:
  assumes "linked (Some s) a b"
  shows "stage_at b = stage_at a + 1" "b \<noteq> ''start''" "b \<in> set (valid_ids (Some s))" "a \<noteq> boss_node_id"
    "(stage_at b = 7) = (b = boss_node_id)"
  using linked_in [OF assms] links_facts by (auto simp: list_all_iff valid_ids_def map_ids)

lemma find_node_shape:
  "find_node (Some s) (Some i) = Some n \<Longrightarrow> shape n \<in> set MAP_SHAPE \<and> nd_id n = i"
  using shape_map [of s] by (auto simp: find_node_def find_Some_iff shape_def dest!: arg_cong [of _ _ set])

lemma boss_types: "list_all (\<lambda>(i, k, t, cs). (t = NBoss) = (i = boss_node_id) \<and> t \<noteq> NStart \<or> i = ''start'') MAP_SHAPE"
  unfolding MAP_SHAPE_def boss_node_id_def by simp

lemma find_node_boss: "find_node (Some s) (Some i) = Some n \<Longrightarrow> i \<noteq> ''start'' \<Longrightarrow> (nd_type n = NBoss) = (i = boss_node_id)"
  using find_node_shape [of s i n] boss_types by (auto simp: list_all_iff shape_def)

lemma find_node_ex: "i \<in> set (valid_ids (Some s)) \<Longrightarrow> \<exists>n. find_node (Some s) (Some i) = Some n \<and> nd_id n = i"
proof -
  assume "i \<in> set (valid_ids (Some s))"
  then obtain x where x: "x \<in> set (cm_nodes (campaignMap s))" "nd_id x = i" by (auto simp: valid_ids_def)
  then have "List.find (\<lambda>n. nd_id n = i) (cm_nodes (campaignMap s)) \<noteq> None" by (simp add: find_None_iff) blast
  then obtain n where n: "List.find (\<lambda>n. nd_id n = i) (cm_nodes (campaignMap s)) = Some n" by blast
  show ?thesis using n find_set [OF n] by (simp add: find_node_def)
qed

section \<open>Legal states\<close>

definition legal :: "campaign \<Rightarrow> bool" where
  "legal c \<longleftrightarrow>
     good c \<and> active c \<and> successively (linked (seed c)) (route c) \<and> currentNodeId c = last (route c) \<and>
     set (clearedNodeIds c) = set (route c) - {''start''} \<and>
     (case selectedNodeId c of None \<Rightarrow> True | Some i \<Rightarrow> linked (seed c) (currentNodeId c) i) \<and>
     (phase c = ''completed'') = (currentNodeId c = boss_node_id) \<and> rewardChosenForNode c = None"

lemma stage_start: "stage_at ''start'' = 0"
  by (simp add: stage_at_def MAP_SHAPE_def)

lemma route_stages:
  "successively (linked (Some s)) (''start'' # r) \<Longrightarrow> stage_at (last (''start'' # r)) = length r \<and> distinct (''start'' # r)
    \<and> list_all (\<lambda>i. stage_at i \<le> length r) (''start'' # r)"
proof (induction r rule: rev_induct)
  case Nil
  then show ?case by (simp add: stage_start)
next
  case (snoc x r)
  have suc: "successively (linked (Some s)) (''start'' # r)" "linked (Some s) (last (''start'' # r)) x"
    using snoc.prems successively_append_iff [of "linked (Some s)" "''start'' # r" "[x]"] by auto
  note IH = snoc.IH [OF suc(1)]
  have st: "stage_at x = length r + 1" using linked_facts(1) [OF suc(2)] IH by simp
  have "x \<notin> set (''start'' # r)" using IH st by (force simp: list_all_iff)
  then show ?case using IH st by (auto simp: list_all_iff le_Suc_eq)
qed

text \<open>The parts of the invariant: what a state holds, and where it stands on the map.\<close>

definition content_ok :: "campaign \<Rightarrow> bool" where
  "content_ok c \<longleftrightarrow>
     list_all (\<lambda>i. perkById i \<noteq> None) (perks c) \<and>
     -12 \<le> nextDifficultyDelta c \<and> nextDifficultyDelta c \<le> 12 \<and> 0 \<le> operationalCredits c \<and>
     list_all (\<lambda>(k, l). k \<in> set (ids_of c) \<and> 0 \<le> l \<and> l \<le> 3) (intelligenceByNode c) \<and>
     distinct (relicIds c) \<and> length (relicIds c) \<le> 6 \<and> list_all (\<lambda>i. CAMPAIGN_RELIC_BY_ID i \<noteq> None) (relicIds c) \<and>
     mission_ok (lastMissionResult c) \<and> length (eventLog c) \<le> 30"

definition position_ok :: "campaign \<Rightarrow> bool" where
  "position_ok c \<longleftrightarrow>
     (\<exists>rest. route c = ''start'' # rest \<and> list_all (\<lambda>i. i \<noteq> ''start'' \<and> i \<in> set (ids_of c)) rest) \<and>
     currentNodeId c \<in> set (ids_of c) \<and> currentNodeId c \<in> set (route c) \<and>
     distinct (clearedNodeIds c) \<and> list_all (\<lambda>i. i \<in> set (ids_of c)) (clearedNodeIds c)"

lemma inv_parts: "campaign_inv c = (phase_ok c \<and> position_ok c \<and> content_ok c)"
  by (auto simp: campaign_inv_def position_ok_def content_ok_def)

lemma legal_parts:
  assumes "legal c"
  obtains s where "seed c = Some s" "s \<noteq> []" "active c" "phase_ok c" "position_ok c" "content_ok c" "good c"
proof -
  have g: "good c" "active c" using assms by (simp_all add: legal_def)
  then have "seed c \<noteq> None" by (auto simp: good_def campaign_inv_def phase_ok_def)
  then show ?thesis using that g by (auto simp: good_def inv_parts)
qed

lemma position_cong:
  "seed d = seed c \<Longrightarrow> route d = route c \<Longrightarrow> currentNodeId d = currentNodeId c \<Longrightarrow> clearedNodeIds d = clearedNodeIds c \<Longrightarrow>
   position_ok d = position_ok c"
  by (simp add: position_ok_def ids_of_def)

lemma legal_stay:
  assumes c: "legal c"
    and same: "seed d = seed c" "active d = active c" "route d = route c" "currentNodeId d = currentNodeId c"
      "clearedNodeIds d = clearedNodeIds c" "rewardChosenForNode d = None"
    and d: "phase_ok d" "content_ok d" "phase d \<noteq> ''completed''" "phase c \<noteq> ''completed''"
    and link: "\<And>i. selectedNodeId d = Some i \<Longrightarrow> linked (seed c) (currentNodeId c) i"
  shows "legal d"
  using c d link position_cong [OF same(1,3,4,5)]
  by (auto simp: legal_def good_def inv_parts same split: option.splits)

lemma selected_node_eq:
  assumes "good c" "active c" shows "selected_node c = node_of c (selectedNodeId c)"
proof -
  have "seed c \<noteq> None" "phase_ok c" using assms by (auto simp: good_def campaign_inv_def phase_ok_def)
  then show ?thesis
    using assms phase_ok_selected(1) [of c] valid_nonempty
    by (cases "selectedNodeId c")
       (auto simp: selected_node_def campaignNode_def node_of_def map_seed_def good_def ids_of_def)
qed

lemma legal_selected:
  assumes "legal c" "selectedNodeId c = Some i"
  obtains n where "selected_node c = Some n" "node_of c (Some i) = Some n" "nd_id n = i"
    "linked (seed c) (currentNodeId c) i" "phase c \<noteq> ''map''" "phase c \<noteq> ''completed''" "phase c \<noteq> ''idle''"
    "selection_coherent (phase c) (Some n)"
proof -
  have g: "good c" "active c" "phase_ok c" by (rule legal_parts [OF assms(1)], assumption)+
  obtain n where n: "node_of c (Some i) = Some n" "nd_id n = i" using phase_ok_selected(2) [OF g(3) assms(2)] by blast
  have p: "phase c \<noteq> ''map''" "phase c \<noteq> ''completed''" "selection_coherent (phase c) (Some n)"
    using g assms(2) n by (auto simp: phase_ok_def split: if_splits)
  then have "phase c \<noteq> ''idle''" by auto
  have "case selectedNodeId c of None \<Rightarrow> True | Some i \<Rightarrow> linked (seed c) (currentNodeId c) i"
    using assms(1) unfolding legal_def by blast
  then have "linked (seed c) (currentNodeId c) i" by (simp only: assms(2) option.case)
  moreover have "selected_node c = Some n" using n selected_node_eq [OF g(1,2)] assms(2) by simp
  ultimately show ?thesis using that n p \<open>phase c \<noteq> ''idle''\<close> by blast
qed

lemma legal_unselected:
  assumes "legal c" "selectedNodeId c = None"
  shows "phase c = ''map'' \<or> phase c = ''completed''" "selected_node c = None"
  using assms by (auto simp: legal_def good_def campaign_inv_def phase_ok_def selected_node_def campaignNode_def split: if_splits)

text \<open>A node that is cleared extends the route.\<close>

lemma legal_clear:
  assumes c: "legal c" and sel: "selectedNodeId c = Some i"
    and same: "seed d = seed c" "active d = active c"
    and d: "content_ok d" "phase d = ''map'' \<or> phase d = ''completed''" "(phase d = ''completed'') = (i = boss_node_id)"
  shows "legal (d\<lparr>currentNodeId := i, selectedNodeId := None, clearedNodeIds := uniq (clearedNodeIds c @ [i]),
                  route := route c @ [i], rewardChosenForNode := None\<rparr>)"
proof -
  obtain s where s: "seed c = Some s" "s \<noteq> []" "active c" "position_ok c" by (rule legal_parts [OF c])
  obtain n where n: "linked (seed c) (currentNodeId c) i" by (rule legal_selected [OF c sel])
  obtain rest where rt: "route c = ''start'' # rest" "list_all (\<lambda>i. i \<noteq> ''start'' \<and> i \<in> set (ids_of c)) rest"
    using s(4) by (auto simp: position_ok_def)
  have cl: "distinct (clearedNodeIds c)" "list_all (\<lambda>i. i \<in> set (ids_of c)) (clearedNodeIds c)"
    using s(4) by (auto simp: position_ok_def)
  have l: "successively (linked (seed c)) (route c)" "currentNodeId c = last (route c)"
      "set (clearedNodeIds c) = set (route c) - {''start''}" using c by (simp_all add: legal_def)
  have ids: "ids_of c = valid_ids (Some s)" by (simp add: ids_of_def map_seed_def s)
  note lf = linked_facts [OF n [unfolded s(1)]]
  have iv: "i \<in> set (ids_of c)" "i \<noteq> ''start''" using lf ids by auto
  have suc: "successively (linked (seed c)) (route c @ [i])"
    unfolding successively_append_iff using l n by simp
  let ?d = "d\<lparr>currentNodeId := i, selectedNodeId := None, clearedNodeIds := uniq (clearedNodeIds c @ [i]),
                  route := route c @ [i], rewardChosenForNode := None\<rparr>"
  have "position_ok ?d"
    using iv rt cl by (simp add: position_ok_def ids_of_def same list_all_iff)
  moreover have "content_ok ?d" using d(1) by (simp add: content_ok_def ids_of_def)
  moreover have "phase_ok ?d" using d(2) s same by (auto simp: phase_ok_def known_phases_def)
  ultimately show ?thesis
    using s same suc l iv d(3) by (auto simp: legal_def good_def inv_parts)
qed

section \<open>Every operation keeps a state legal\<close>

lemma next_phases:
  "phase c = ''idle'' \<Longrightarrow> nextCampaignPhase c ''start'' = ''map''"
  "phase c = ''map'' \<Longrightarrow> nextCampaignPhase c ''select_battle'' = ''briefing''"
  "phase c = ''map'' \<Longrightarrow> nextCampaignPhase c ''select_event'' = ''event''"
  "phase c = ''map'' \<Longrightarrow> nextCampaignPhase c ''select_camp'' = ''camp''"
  "phase c = ''briefing'' \<Longrightarrow> nextCampaignPhase c ''prepare'' = ''battle''"
  "phase c = ''battle'' \<Longrightarrow> nextCampaignPhase c ''fight'' = ''fighting''"
  "phase c = ''battle'' \<Longrightarrow> nextCampaignPhase c ''retire'' = ''briefing''"
  "phase c = ''fighting'' \<Longrightarrow> nextCampaignPhase c ''retire'' = ''briefing''"
  "phase c = ''fighting'' \<Longrightarrow> nextCampaignPhase c ''win'' = ''reward''"
  "phase c = ''fighting'' \<Longrightarrow> nextCampaignPhase c ''win_boss'' = ''completed''"
  "phase c = ''reward'' \<Longrightarrow> nextCampaignPhase c ''reward'' = ''map''"
  "phase c = ''camp'' \<Longrightarrow> nextCampaignPhase c ''reward'' = ''map''"
  "phase c = ''event'' \<Longrightarrow> nextCampaignPhase c ''resolve'' = ''map''"
  by (simp_all add: nextCampaignPhase_def campaignPhaseTransition_def transition_def table_next_def campaign_table_def)

lemma phase_ok_selected_iff:
  "seed c \<noteq> None \<Longrightarrow> active c \<Longrightarrow> selectedNodeId c \<noteq> None \<Longrightarrow> phase c \<noteq> ''map'' \<Longrightarrow> phase c \<noteq> ''completed'' \<Longrightarrow>
   phase_ok c = (phase c \<in> set known_phases \<and> selection_coherent (phase c) (node_of c (selectedNodeId c)))"
  by (auto simp: phase_ok_def)

lemma coherent_fight: "fight_phase p \<Longrightarrow> selection_coherent p (Some n) = combat_type (nd_type n)"
  by (auto simp: selection_coherent_def fight_phase_def)

lemma fight_phases: "fight_phase ''briefing''" "fight_phase ''battle''" "fight_phase ''fighting''"
  "\<not> fight_phase ''map''" "\<not> fight_phase ''reward''" "\<not> fight_phase ''event''" "\<not> fight_phase ''camp''"
  "\<not> fight_phase ''completed''"
  by (simp_all add: fight_phase_def)

lemma known_phase_simps: "''briefing'' \<in> set known_phases" "''battle'' \<in> set known_phases" "''fighting'' \<in> set known_phases"
  "''reward'' \<in> set known_phases" "''event'' \<in> set known_phases" "''camp'' \<in> set known_phases" "''completed'' \<in> set known_phases"
  by (simp_all add: known_phases_def)

lemma legal_start:
  assumes "sd \<noteq> []"
  shows "legal (fst (startCampaign js sd st))"
    "fst (startCampaign js sd st) = emptyCampaign\<lparr>active := True, seed := Some sd, phase := ''map''\<rparr>"
proof -
  let ?b = "emptyCampaign\<lparr>active := True, seed := Some sd, phase := ''map''\<rparr>"
  have st: "''start'' \<in> set (valid_ids (Some sd))" by (rule start_valid)
  have g: "good ?b"
    using assms st by (simp add: good_def campaign_inv_def phase_ok_def emptyCampaign_def ids_of_def map_seed_def
        mission_ok_def CAMPAIGN_STARTING_CREDITS_def)
  have e: "fst (startCampaign js sd st) = ?b"
    using save_good [OF g] by (simp add: startCampaign_def Let_def next_phases(1) emptyCampaign_def)
  show "fst (startCampaign js sd st) = ?b" by (rule e)
  show "legal (fst (startCampaign js sd st))"
    unfolding e using g by (simp add: legal_def emptyCampaign_def boss_node_id_def)
qed

text \<open>Selecting a node.\<close>

lemma available_nodes:
  assumes c: "legal c" and n: "n \<in> set (availableCampaignNodes c)"
  shows "phase c = ''map''" "linked (seed c) (currentNodeId c) (nd_id n)" "nd_id n \<notin> set (clearedNodeIds c)"
    "node_of c (Some (nd_id n)) = Some n"
proof -
  obtain s where s: "seed c = Some s" "s \<noteq> []" "active c" "position_ok c" by (rule legal_parts [OF c])
  show m: "phase c = ''map''" using n by (simp add: availableCampaignNodes_def split: if_splits)
  have cur: "currentNodeId c \<in> set (valid_ids (Some s))" using s by (simp add: position_ok_def ids_of_def map_seed_def)
  obtain x where x: "List.find (\<lambda>n. nd_id n = currentNodeId c) (cm_nodes (campaignMap s)) = Some x"
    using find_node_ex [OF cur] by (auto simp: find_node_def)
  have av: "availableCampaignNodes c = filter (\<lambda>n. nd_id n \<notin> set (clearedNodeIds c))
                (List.map_filter (\<lambda>i. List.find (\<lambda>n. nd_id n = i) (cm_nodes (campaignMap s))) (nd_connections x))"
    unfolding availableCampaignNodes_def using s m x by (simp add: Let_def)
  obtain i where i: "i \<in> set (nd_connections x)" "List.find (\<lambda>n. nd_id n = i) (cm_nodes (campaignMap s)) = Some n"
    using n unfolding av by (auto simp: map_filter_def)
  have ni: "nd_id n = i" using find_set [OF i(2)] by simp
  show "nd_id n \<notin> set (clearedNodeIds c)" using n unfolding av by simp
  show "node_of c (Some (nd_id n)) = Some n" using i(2) s ni by (simp add: node_of_def map_seed_def find_node_def)
  show "linked (seed c) (currentNodeId c) (nd_id n)"
    using find_set [OF x] i(1) ni unfolding s(1) linked_def by (auto simp: list_ex_iff)
qed

lemma intel_put_ok:
  "list_all (\<lambda>(k, l). k \<in> S \<and> 0 \<le> l \<and> l \<le> (3::int)) d \<Longrightarrow> k \<in> S \<Longrightarrow> 0 \<le> l \<Longrightarrow> l \<le> 3 \<Longrightarrow>
   list_all (\<lambda>(k, l). k \<in> S \<and> 0 \<le> l \<and> l \<le> 3) (obj_put k l d)"
  by (induction d) auto

lemma intel_level_bounds: "0 \<le> intel_level d i \<and> intel_level d i \<le> 3"
  by (simp add: intel_level_def clampIntelLevel_def)

definition selected_state :: "campaign \<Rightarrow> node \<Rightarrow> campaign" where
  "selected_state c n =
     c\<lparr>phase := (if nd_type n = NEvent then ''event'' else if nd_type n = NCamp then ''camp'' else ''briefing''),
       selectedNodeId := Some (nd_id n), rewardChosenForNode := None,
       intelligenceByNode :=
         (if hasRelic c ''forwardObserver'' \<and> combat_type (nd_type n)
          then obj_put (nd_id n) (max 1 (intel_level (intelligenceByNode c) (nd_id n))) (intelligenceByNode c)
          else intelligenceByNode c),
       lastMissionResult := None\<rparr>"

lemma start_not_linked: "linked sd a b \<Longrightarrow> b \<noteq> ''start''"
  using linked_facts(2) by (cases sd) (auto simp: linked_def)

lemma node_kind:
  assumes "node_of c (Some i) = Some n" "i \<noteq> ''start''"
  shows "combat_type (nd_type n) \<or> nd_type n = NEvent \<or> nd_type n = NCamp" "(nd_type n = NBoss) = (i = boss_node_id)"
proof -
  obtain s where s: "find_node (Some s) (Some i) = Some n"
    using assms(1) by (auto simp: node_of_def find_node_def split: option.splits)
  have "nd_id n = i" "shape n \<in> set MAP_SHAPE" using find_node_shape [OF s] by auto
  then have "nd_type n \<noteq> NStart" using boss_types assms(2) by (auto simp: list_all_iff shape_def)
  then show "combat_type (nd_type n) \<or> nd_type n = NEvent \<or> nd_type n = NCamp"
    by (cases "nd_type n") (simp_all add: combat_type_def)
  show "(nd_type n = NBoss) = (i = boss_node_id)" by (rule find_node_boss [OF s assms(2)])
qed

lemma legal_select:
  assumes c: "legal c" and n: "List.find (\<lambda>n. nd_id n = i) (availableCampaignNodes c) = Some n"
  shows "fst (selectCampaignNode js c i st) = selected_state c n" "legal (selected_state c n)"
proof -
  have nin: "n \<in> set (availableCampaignNodes c)" "nd_id n = i" using find_set [OF n] by auto
  note av = available_nodes [OF c nin(1)]
  obtain s where s: "seed c = Some s" "s \<noteq> []" "active c" "phase_ok c" "position_ok c" "content_ok c" "good c"
    by (rule legal_parts [OF c])
  note nk = node_kind [OF av(4) start_not_linked [OF av(2)]]
  have nv: "nd_id n \<in> set (ids_of c)" using find_node_valid av(4) unfolding node_of_def ids_of_def by blast
  let ?d = "selected_state c n"
  have ph: "phase_ok ?d"
    using nk av(4) s
    by (subst phase_ok_selected_iff)
       (auto simp: selected_state_def node_of_def known_phase_simps selection_coherent_def fight_phases combat_type_def)
  have ct: "content_ok ?d"
    using s(6) nv intel_level_bounds [of "intelligenceByNode c" "nd_id n"]
    by (simp add: content_ok_def selected_state_def ids_of_def mission_ok_def intel_put_ok)
  show lg: "legal ?d"
  proof (rule legal_stay [OF c])
    show "linked (seed c) (currentNodeId c) j" if "selectedNodeId ?d = Some j" for j
      using that av(2) by (simp add: selected_state_def)
  qed (use ph ct av(1) in \<open>auto simp: selected_state_def\<close>)
  then have g: "good ?d" by (simp add: legal_def)
  have "nextCampaignPhase c (select_event_name (nd_type n)) = phase ?d"
    using next_phases(2,3,4) [OF av(1)] by (simp add: select_event_name_def selected_state_def)
  then show "fst (selectCampaignNode js c i st) = ?d"
    using save_good [OF g, of js st] n by (simp add: selectCampaignNode_def Let_def selected_state_def)
qed

text \<open>A step inside the selected sector: the phase moves between the three fight phases.\<close>

lemma legal_fight_step:
  assumes c: "legal c" and sel: "selectedNodeId c = Some i" and f: "fight_phase (phase c)" "fight_phase p"
    and d: "d = c\<lparr>phase := p, eventLog := l\<rparr>" "length l \<le> 30"
  shows "legal d"
proof -
  have rc: "rewardChosenForNode c = None" using c by (simp add: legal_def)
  obtain s where s: "seed c = Some s" "s \<noteq> []" "active c" "phase_ok c" "position_ok c" "content_ok c" "good c"
    by (rule legal_parts [OF c])
  obtain n where n: "node_of c (Some i) = Some n" "selection_coherent (phase c) (Some n)"
      "linked (seed c) (currentNodeId c) i" "phase c \<noteq> ''completed''" by (rule legal_selected [OF c sel])
  have nd: "node_of d (selectedNodeId d) = Some n" using n(1) sel by (simp add: d(1) node_of_def)
  have ct: "combat_type (nd_type n)" using n(2) coherent_fight [OF f(1)] by simp
  have kp: "phase d \<in> set known_phases" "phase d \<noteq> ''map''" "phase d \<noteq> ''completed''"
    using f(2) by (auto simp: d(1) fight_phase_def known_phases_def)
  have fd: "fight_phase (phase d)" using f(2) by (simp add: d(1))
  have ph: "phase_ok d"
    using s sel kp ct unfolding phase_ok_def nd coherent_fight [OF fd] by (simp add: d(1))
  have ct: "content_ok d" using s(6) d(2) by (simp add: d(1) content_ok_def ids_of_def)
  show ?thesis
  proof (rule legal_stay [OF c])
    show "linked (seed c) (currentNodeId c) j" if "selectedNodeId d = Some j" for j
      using that n(3) sel by (simp add: d(1))
    show "phase d \<noteq> ''completed''" using f(2) by (auto simp: d(1) fight_phase_def)
  qed (use ph ct n(4) rc in \<open>simp_all add: d(1)\<close>)
qed

lemma log_ok: "content_ok c \<Longrightarrow> length (eventLog c) \<le> 30"
  by (simp add: content_ok_def)

lemma fight_phase_selected:
  assumes "legal c" "fight_phase (phase c)" obtains i where "selectedNodeId c = Some i"
  using legal_unselected(1) [OF assms(1)] assms(2) by (cases "selectedNodeId c") (auto simp: fight_phases)

lemma phase_step_saved:
  assumes c: "legal c" and f: "fight_phase (phase c)" "fight_phase p" and l: "length l \<le> 30"
  shows "legal (c\<lparr>phase := p, eventLog := l\<rparr>)" "fst (saveCampaign js (c\<lparr>phase := p, eventLog := l\<rparr>) st) = c\<lparr>phase := p, eventLog := l\<rparr>"
proof -
  obtain i where i: "selectedNodeId c = Some i" by (rule fight_phase_selected [OF c f(1)])
  show lg: "legal (c\<lparr>phase := p, eventLog := l\<rparr>)" by (rule legal_fight_step [OF c i f refl l])
  then show "fst (saveCampaign js (c\<lparr>phase := p, eventLog := l\<rparr>) st) = c\<lparr>phase := p, eventLog := l\<rparr>"
    by (simp add: save_good legal_def)
qed

lemma legal_log: "legal c \<Longrightarrow> length (eventLog c) \<le> 30"
  using legal_parts [of c] log_ok by blast

lemma same_log: "c\<lparr>phase := p, eventLog := eventLog c\<rparr> = c\<lparr>phase := p\<rparr>"
  by simp

lemma legal_accept:
  assumes c: "legal c" and p: "phase c = ''briefing''"
  shows "fst (markCampaignBriefingAccepted js c st) = c\<lparr>phase := ''battle''\<rparr>" "legal (c\<lparr>phase := ''battle''\<rparr>)"
proof -
  have f: "fight_phase (phase c)" using p by (simp add: fight_phases)
  obtain i where i: "selectedNodeId c = Some i" by (rule fight_phase_selected [OF c f])
  obtain n where n: "selected_node c = Some n" "selection_coherent (phase c) (Some n)" by (rule legal_selected [OF c i])
  have fs: "fights_selected c" using n f by (simp add: fights_selected_def coherent_fight)
  have a: "active c" using c by (simp add: legal_def)
  note st = phase_step_saved [OF c f fight_phases(2) legal_log [OF c], unfolded same_log]
  show "legal (c\<lparr>phase := ''battle''\<rparr>)" by (rule st(1))
  show "fst (markCampaignBriefingAccepted js c st) = c\<lparr>phase := ''battle''\<rparr>"
    using st(2) [of js st] fs a p by (simp add: markCampaignBriefingAccepted_def next_phases(5) [OF p])
qed

lemma legal_fight:
  assumes c: "legal c" and p: "phase c = ''battle''"
  shows "fst (markCampaignBattleStarted js c st) = c\<lparr>phase := ''fighting''\<rparr>" "legal (c\<lparr>phase := ''fighting''\<rparr>)"
proof -
  have f: "fight_phase (phase c)" using p by (simp add: fight_phases)
  obtain i where i: "selectedNodeId c = Some i" by (rule fight_phase_selected [OF c f])
  obtain n where n: "selected_node c = Some n" "selection_coherent (phase c) (Some n)" by (rule legal_selected [OF c i])
  have fs: "fights_selected c" using n f by (simp add: fights_selected_def coherent_fight)
  have a: "active c" using c by (simp add: legal_def)
  note st = phase_step_saved [OF c f fight_phases(3) legal_log [OF c], unfolded same_log]
  show "legal (c\<lparr>phase := ''fighting''\<rparr>)" by (rule st(1))
  show "fst (markCampaignBattleStarted js c st) = c\<lparr>phase := ''fighting''\<rparr>"
    using st(2) [of js st] fs a p by (simp add: markCampaignBattleStarted_def next_phases(6) [OF p])
qed

lemma log_line_bound: "length (log_line m c) \<le> 30"
  by (simp add: log_line_def)

text \<open>A retreat is a move to the briefing of the same sector, with a new log.\<close>

lemma legal_retire:
  assumes c: "legal c" and p: "phase c = ''battle'' \<or> phase c = ''fighting''"
  shows "\<exists>l. fst (markCampaignBattleRetired js c st) = c\<lparr>phase := ''briefing'', eventLog := l\<rparr> \<and>
             legal (c\<lparr>phase := ''briefing'', eventLog := l\<rparr>)"
proof -
  have f: "fight_phase (phase c)" using p by (auto simp: fight_phases)
  obtain i where i: "selectedNodeId c = Some i" by (rule fight_phase_selected [OF c f])
  have s: "phase_ok c" "active c" by (rule legal_parts [OF c], assumption)+
  have ne: "i \<noteq> []" using valid_nonempty phase_ok_selected(1) [OF s(1) i] unfolding ids_of_def by blast
  have nx: "nextCampaignPhase c ''retire'' = ''briefing''" using p next_phases(7,8) by blast
  show ?thesis
    using phase_step_saved [OF c f fight_phases(1) log_line_bound] s(2) ne i p
    unfolding markCampaignBattleRetired_def Let_def nx
    by (auto intro!: exI)
qed

lemma phase_ok_cong:
  "seed d = seed c \<Longrightarrow> active d = active c \<Longrightarrow> phase d = phase c \<Longrightarrow> selectedNodeId d = selectedNodeId c \<Longrightarrow>
   phase_ok d = phase_ok c"
  by (simp add: phase_ok_def node_of_def)

lemma legal_content:
  assumes c: "legal c" and d: "d = c\<lparr>operationalCredits := k, intelligenceByNode := m, eventLog := l\<rparr>" "content_ok d"
    "phase c \<noteq> ''completed''"
  shows "legal d"
proof (rule legal_stay [OF c])
  have "phase_ok c" by (rule legal_parts [OF c])
  then show "phase_ok d" using phase_ok_cong [of d c] by (simp add: d(1))
  show "linked (seed c) (currentNodeId c) j" if "selectedNodeId d = Some j" for j
  proof -
    have "selectedNodeId c = Some j" using that by (simp add: d(1))
    from legal_selected [OF c this] show ?thesis .
  qed
  show "rewardChosenForNode d = None" using c by (simp add: d(1) legal_def)
qed (use d in simp_all)

lemma tier_levels: "List.find (\<lambda>t. it_level t = l) CAMPAIGN_INTEL_TIERS = Some t \<Longrightarrow> it_level t = l \<and> 0 \<le> l \<and> l \<le> 3"
proof -
  assume "List.find (\<lambda>t. it_level t = l) CAMPAIGN_INTEL_TIERS = Some t"
  from find_set [OF this] show ?thesis by (auto simp: CAMPAIGN_INTEL_TIERS_def)
qed

definition intel_log :: "campaign \<Rightarrow> node \<Rightarrow> intel_tier \<Rightarrow> json list" where
  "intel_log c n t =
     last_n 20 (eventLog c @ [JStr (''Intel '' @ it_label t @ '': '' @ nd_label n @ ('' '' @ [CHR 0xB7] @ '' '' @ [CHR 0xE2, CHR 0x88, CHR 0x92])
                               @ show_int (it_cost t) @ ('' cr'' @ [CHR 0xE9] @ ''ditos''))])"

definition intel_bought :: "campaign \<Rightarrow> string \<Rightarrow> node \<Rightarrow> intel_tier \<Rightarrow> campaign" where
  "intel_bought c i n t =
     c\<lparr>operationalCredits := max 0 (operationalCredits c - it_cost t),
       intelligenceByNode := obj_put i (it_level t) (intelligenceByNode c), eventLog := intel_log c n t\<rparr>"

lemma purchase_cases:
  "fst (purchaseCampaignIntel js c ni st) = c \<or>
   (\<exists>n t. phase c = ''briefing'' \<and> ni = selectedNodeId c \<and> ni \<noteq> None \<and> ni \<noteq> Some [] \<and>
      nextCampaignIntelTier c ni = Some t \<and> it_cost t \<le> operationalCredits c \<and>
      fst (purchaseCampaignIntel js c ni st) = fst (saveCampaign js (intel_bought c (the ni) n t) st))"
proof (cases "campaignNode c ni")
  case None
  then have "fst (purchaseCampaignIntel js c ni st) = c" unfolding purchaseCampaignIntel_def None by simp
  then show ?thesis ..
next
  case n: (Some n)
  show ?thesis
  proof (cases "nextCampaignIntelTier c ni")
    case None
    then have "fst (purchaseCampaignIntel js c ni st) = c" unfolding purchaseCampaignIntel_def n None by simp
    then show ?thesis ..
  next
    case (Some t)
    then show ?thesis
      unfolding purchaseCampaignIntel_def n Some intel_bought_def [symmetric] intel_log_def [symmetric] by (auto dest!: sym [of "Some _"])
  qed
qed

text \<open>A purchase either does nothing, or takes exactly the price, which the credits cover, and
  raises the level of the selected node by one.\<close>

lemma legal_purchase:
  assumes c: "legal c"
  shows "fst (purchaseCampaignIntel js c ni st) = c \<or>
    (\<exists>i t l. ni = Some i \<and> selectedNodeId c = Some i \<and> nextCampaignIntelTier c ni = Some t \<and>
       it_cost t \<le> operationalCredits c \<and> 1 \<le> it_cost t \<and> it_level t = campaignIntelLevel c ni + 1 \<and>
       fst (purchaseCampaignIntel js c ni st) =
         c\<lparr>operationalCredits := operationalCredits c - it_cost t,
           intelligenceByNode := obj_put i (it_level t) (intelligenceByNode c), eventLog := l\<rparr>)" (is "?A \<or> ?B")
    "legal (fst (purchaseCampaignIntel js c ni st))"
proof -
  have goal: "(?A \<or> ?B) \<and> legal (fst (purchaseCampaignIntel js c ni st))"
  proof (cases "fst (purchaseCampaignIntel js c ni st) = c")
    case True
    then show ?thesis using c by simp
  next
    case False
    have act: "active c" using c by (simp add: legal_def)
    from purchase_cases [of js c ni st] False obtain n t where
      g1: "phase c = ''briefing''" "ni = selectedNodeId c" "ni \<noteq> None" "ni \<noteq> Some []" and
      t': "nextCampaignIntelTier c ni = Some t" and g2: "it_cost t \<le> operationalCredits c" and
      built: "fst (purchaseCampaignIntel js c ni st) = fst (saveCampaign js (intel_bought c (the ni) n t) st)"
      by blast
    from g1 obtain i where i: "ni = Some i" "selectedNodeId c = Some i" by auto
    have s: "phase_ok c" "content_ok c" by (rule legal_parts [OF c], assumption)+
    have iv: "i \<in> set (ids_of c)" by (rule phase_ok_selected(1) [OF s(1) i(2)])
    obtain t0 where t0: "List.find (\<lambda>t. it_level t = campaignIntelLevel c ni + 1) CAMPAIGN_INTEL_TIERS = Some t0"
        "t = t0\<lparr>it_cost := intelTierCost c (it_cost t0)\<rparr>"
      using t' by (auto simp: nextCampaignIntelTier_def Let_def)
    have t: "it_level t = campaignIntelLevel c ni + 1" "0 \<le> it_level t" "it_level t \<le> 3" "1 \<le> it_cost t"
      using tier_levels [OF t0(1)] t0(2) by (auto simp: intelTierCost_def)
    have dd: "intel_bought c (the ni) n t = c\<lparr>operationalCredits := operationalCredits c - it_cost t,
           intelligenceByNode := obj_put i (it_level t) (intelligenceByNode c), eventLog := intel_log c n t\<rparr>"
      using g2 i by (simp add: intel_bought_def)
    have "content_ok (intel_bought c (the ni) n t)"
      using s(2) g2 iv t by (simp add: dd content_ok_def ids_of_def intel_put_ok intel_log_def)
    then have lg: "legal (intel_bought c (the ni) n t)" using g1(1) by (intro legal_content [OF c dd]) simp_all
    have "fst (purchaseCampaignIntel js c ni st) = intel_bought c (the ni) n t"
      unfolding built using lg by (simp add: save_good legal_def)
    then show ?thesis using lg i g2 t t' dd by auto
  qed
  show "?A \<or> ?B" using goal by blast
  show "legal (fst (purchaseCampaignIntel js c ni st))" using goal by blast
qed

end
