(* ===== verification/CampaignRun.thy ===== *)
theory CampaignRun
  imports CampaignProps
begin

text \<open>
  Victories, rewards, events and recovery keep a state legal; the step relation of a campaign,
  what holds in every reachable state, and the properties of \<open>combatCampaign.js\<close>.
\<close>

section \<open>Clearing a node\<close>

lemma known_relics_bound:
  assumes "distinct xs" "list_all (\<lambda>i. CAMPAIGN_RELIC_BY_ID i \<noteq> None) xs"
  shows "length xs \<le> 6"
proof -
  have sub: "set xs \<subseteq> set (map rl_id CAMPAIGN_RELICS)"
    using assms(2) by (auto simp: list_all_iff CAMPAIGN_RELIC_BY_ID_def dest!: find_set)
  have "length xs = card (set xs)" using assms(1) by (simp add: distinct_card)
  also have "\<dots> \<le> card (set (map rl_id CAMPAIGN_RELICS))" using sub by (rule card_mono [OF finite_set])
  also have "\<dots> \<le> length (map rl_id CAMPAIGN_RELICS)" by (rule card_length)
  finally show ?thesis by (simp add: CAMPAIGN_RELICS_def)
qed

lemma relics_added:
  assumes "distinct rs" "list_all (\<lambda>i. CAMPAIGN_RELIC_BY_ID i \<noteq> None) rs" "CAMPAIGN_RELIC_BY_ID r \<noteq> None"
  shows "distinct (uniq (rs @ [r]))" "list_all (\<lambda>i. CAMPAIGN_RELIC_BY_ID i \<noteq> None) (uniq (rs @ [r]))"
    "length (uniq (rs @ [r])) \<le> 6"
proof -
  show d: "distinct (uniq (rs @ [r]))" by simp
  show k: "list_all (\<lambda>i. CAMPAIGN_RELIC_BY_ID i \<noteq> None) (uniq (rs @ [r]))"
    using assms(2,3) by (simp add: list_all_iff)
  show "length (uniq (rs @ [r])) \<le> 6" by (rule known_relics_bound [OF d k])
qed

definition cleared_state :: "campaign \<Rightarrow> string \<Rightarrow> campaign \<Rightarrow> campaign" where
  "cleared_state c i d =
     d\<lparr>currentNodeId := i, selectedNodeId := None, clearedNodeIds := uniq (clearedNodeIds c @ [i]),
       route := route c @ [i], rewardChosenForNode := None\<rparr>"

lemma legal_not_last: "legal c \<Longrightarrow> selectedNodeId c = Some i \<Longrightarrow> at_last (route c) \<noteq> Some i"
proof -
  assume c: "legal c" and sel: "selectedNodeId c = Some i"
  obtain s where s: "seed c = Some s" by (rule legal_parts [OF c])
  obtain n where n: "linked (seed c) (currentNodeId c) i" by (rule legal_selected [OF c sel])
  have "currentNodeId c = last (route c)" using c by (simp add: legal_def)
  moreover have "currentNodeId c \<noteq> i" using linked_facts(1) [of s "currentNodeId c" i] n s by auto
  ultimately show ?thesis by (simp add: at_last_def)
qed

lemma legal_markNodeCleared:
  assumes c: "legal c" and sel: "selectedNodeId c = Some i"
    and d: "seed d = seed c" "active d = active c" "selectedNodeId d = selectedNodeId c" "route d = route c"
      "clearedNodeIds d = clearedNodeIds c"
    and e: "seed (ex d) = seed c" "active (ex d) = active c" "content_ok (ex d)"
      "phase (ex d) = ''map'' \<or> phase (ex d) = ''completed''" "(phase (ex d) = ''completed'') = (i = boss_node_id)"
  shows "fst (markNodeCleared js d ex st) = cleared_state c i (ex d)" "legal (cleared_state c i (ex d))"
proof -
  obtain n where n: "selected_node c = Some n" "nd_id n = i" by (rule legal_selected [OF c sel])
  have "selected_node d = selected_node c" by (simp only: selected_node_def campaignNode_def d)
  then have sn: "selected_node d = Some n" using n by simp
  show lg: "legal (cleared_state c i (ex d))"
    unfolding cleared_state_def by (rule legal_clear [OF c sel e])
  then have g: "good (cleared_state c i (ex d))" by (simp add: legal_def)
  show "fst (markNodeCleared js d ex st) = cleared_state c i (ex d)"
    using save_good [OF g] legal_not_last [OF c sel] n(2)
    by (simp add: markNodeCleared_def sn Let_def d cleared_state_def)
qed

section \<open>Winning\<close>

lemma order_ids: "d \<in> set ORDER_DEFINITIONS \<union> set CLASSIFIED_DEFINITIONS \<Longrightarrow> od_id d \<noteq> [] \<and> 0 \<le> od_reward d"
  by (auto simp: ORDER_DEFINITIONS_def CLASSIFIED_DEFINITIONS_def)

lemma active_orders:
  assumes "o1 \<in> set (campaignMissionOrders sd n)"
  shows "\<exists>d \<in> set ORDER_DEFINITIONS. o1 = publicOrder d False"
proof (cases n)
  case (Some x)
  let ?i = "fnv_index (sd @ '':'' @ nd_id x @ '':orders:first'') (length ORDER_DEFINITIONS)"
  let ?j = "fnv_index (sd @ '':'' @ nd_id x @ '':orders:second'') (length (remove_at ?i ORDER_DEFINITIONS))"
  have l4: "length ORDER_DEFINITIONS = 4" by (simp add: ORDER_DEFINITIONS_def)
  have i4: "?i < 4" unfolding l4 by (rule fnv_index_less) simp
  have ne: "remove_at ?i ORDER_DEFINITIONS \<noteq> []"
    using i4 l4 by (cases "?i = 0") (auto simp: remove_at_def)
  have sub: "set (remove_at ?i ORDER_DEFINITIONS) \<subseteq> set ORDER_DEFINITIONS"
    unfolding remove_at_def using set_take_subset set_drop_subset by fastforce
  have "ORDER_DEFINITIONS ! ?i \<in> set ORDER_DEFINITIONS" using i4 l4 by simp
  moreover have "remove_at ?i ORDER_DEFINITIONS ! ?j \<in> set ORDER_DEFINITIONS"
    using fnv_pick_in [OF ne] sub by blast
  ultimately show ?thesis using assms unfolding Some
    by (auto simp: campaignMissionOrders_def Let_def split: if_splits)
qed (use assms in \<open>simp add: campaignMissionOrders_def\<close>)

lemma score_orders_of: "map or_order (score_orders v m b os) = os"
  by (induction v m b os rule: score_orders.induct) (simp_all add: Let_def)

lemma score_earned_nonneg: "0 \<le> b \<Longrightarrow> list_all (\<lambda>o1. 0 \<le> po_reward o1) os \<Longrightarrow>
    list_all (\<lambda>r. 0 \<le> or_earned r) (score_orders v m b os)"
  by (induction v m b os rule: score_orders.induct) (auto simp: Let_def)

lemma length_orders: "length (campaignMissionOrders sd n) \<le> 2"
  by (auto simp: campaignMissionOrders_def Let_def split: option.splits)

lemma evaluated_mission_ok:
  "mission_ok (Some \<lparr>mi_nodeId = a, mi_verified = v, mi_earned = max 0 e,
     mi_results = map summarize_order (ms_results (evaluateCampaignMissionOrders sd n raw l))\<rparr>)"
proof -
  let ?os = "campaignMissionOrders sd n @ (case classifiedCampaignMission sd n l of None \<Rightarrow> [] | Some c \<Rightarrow> [c])"
  let ?res = "ms_results (evaluateCampaignMissionOrders sd n raw l)"
  obtain v' m where r: "?res = score_orders v' m CAMPAIGN_MISSION_BONUS_CAP ?os"
    by (simp add: evaluateCampaignMissionOrders_def Let_def)
  have ne: "CLASSIFIED_DEFINITIONS \<noteq> []" by (simp add: CLASSIFIED_DEFINITIONS_def)
  have os: "\<exists>d \<in> set ORDER_DEFINITIONS \<union> set CLASSIFIED_DEFINITIONS. \<exists>cl. o1 = publicOrder d cl" if "o1 \<in> set ?os" for o1
  proof (cases "o1 \<in> set (campaignMissionOrders sd n)")
    case True
    then show ?thesis using active_orders by blast
  next
    case False
    then have "classifiedCampaignMission sd n l = Some o1" using that by (auto split: option.splits)
    then show ?thesis using fnv_pick_in [OF ne]
      by (auto simp: classifiedCampaignMission_def split: option.splits if_splits)
  qed
  have pr: "list_all (\<lambda>o1. 0 \<le> po_reward o1) ?os" "list_all (\<lambda>o1. po_id o1 \<noteq> []) ?os"
    unfolding list_all_iff using os order_ids by (fastforce simp: publicOrder_def)+
  have len: "length ?res \<le> 3" unfolding r length_score using length_orders [of sd n] by (simp split: option.splits)
  have "list_all (\<lambda>r. 0 \<le> or_earned r) ?res"
    unfolding r by (rule score_earned_nonneg [OF _ pr(1)]) (simp add: CAMPAIGN_MISSION_BONUS_CAP_def)
  moreover have "or_order x \<in> set ?os" if "x \<in> set ?res" for x
    using that score_orders_of [of v' m CAMPAIGN_MISSION_BONUS_CAP ?os] unfolding r by (metis imageI list.set_map)
  ultimately have "list_all (\<lambda>e. os_id e \<noteq> [] \<and> 0 \<le> os_reward e \<and> 0 \<le> os_earned e) (map summarize_order ?res)"
    using pr unfolding list_all_iff by (auto simp: summarize_order_def)
  then show ?thesis using len by (simp add: mission_ok_def)
qed

lemma kingDossier_known: "CAMPAIGN_RELIC_BY_ID ''kingDossier'' \<noteq> None"
  by (simp add: CAMPAIGN_RELIC_BY_ID_def CAMPAIGN_RELICS_def)

lemma battle_earned_nonneg: "0 \<le> battle_earned c n"
  by (simp add: battle_earned_def battle_credit_reward_def BATTLE_CREDIT_REWARD_def)

lemma credited_same:
  "seed (credited_victory c n m) = seed c" "active (credited_victory c n m) = active c"
  "selectedNodeId (credited_victory c n m) = selectedNodeId c" "route (credited_victory c n m) = route c"
  "clearedNodeIds (credited_victory c n m) = clearedNodeIds c" "currentNodeId (credited_victory c n m) = currentNodeId c"
  "perks (credited_victory c n m) = perks c" "intelligenceByNode (credited_victory c n m) = intelligenceByNode c"
  "nextDifficultyDelta (credited_victory c n m) = nextDifficultyDelta c"
  by (simp_all add: credited_victory_def Let_def)

lemma credited_content:
  assumes "content_ok c" shows "content_ok (credited_victory c n m)"
proof -
  have "relicIds (credited_victory c n m) = (if dossier_earned c n then uniq (relicIds c @ [''kingDossier'']) else relicIds c)"
    "0 \<le> operationalCredits (credited_victory c n m)" "length (eventLog (credited_victory c n m)) \<le> 30"
    "mission_ok (lastMissionResult (credited_victory c n m))"
    by (simp_all add: credited_victory_def Let_def evaluated_mission_ok)
  then show ?thesis
    using assms relics_added [OF _ _ kingDossier_known, of "relicIds c"]
    by (simp add: content_ok_def credited_same ids_of_def)
qed

lemma win_phase_reward:
  assumes "legal c" "selectedNodeId c = Some i" "phase c = ''fighting''" "i \<noteq> boss_node_id"
    "d = (credited_victory c n m)\<lparr>phase := ''reward'', nextDifficultyDelta := 0\<rparr>"
  shows "legal d"
proof -
  obtain s where s: "seed c = Some s" "active c" "content_ok c" by (rule legal_parts [OF assms(1)])
  obtain x where x: "node_of c (Some i) = Some x" "linked (seed c) (currentNodeId c) i" "selection_coherent (phase c) (Some x)"
    by (rule legal_selected [OF assms(1,2)])
  have nk: "(nd_type x = NBoss) = (i = boss_node_id)"
    by (rule node_kind(2) [OF x(1) start_not_linked [OF x(2)]])
  have ct: "combat_type (nd_type x)" using x(3) assms(3) coherent_fight fight_phases by simp
  have nd: "node_of d (selectedNodeId d) = Some x" using x(1) assms(2) by (simp add: assms(5) node_of_def credited_same)
  have ph: "phase_ok d"
    unfolding phase_ok_def nd using ct nk assms(2,4) s
    by (simp add: assms(5) credited_same known_phase_simps selection_coherent_def fight_phases combat_type_def)
  have "content_ok d" using credited_content [OF s(3), of n m] by (simp add: assms(5) content_ok_def ids_of_def)
  moreover have "rewardChosenForNode d = None" using assms(1) by (simp add: assms(5) credited_victory_def Let_def legal_def)
  ultimately show ?thesis
    by (intro legal_stay [OF assms(1)]) (use ph x(2) assms(2,3) in \<open>auto simp: assms(5) credited_same\<close>)
qed

text \<open>A victory: the reward phase of the same sector, or, against the boss, the end.\<close>

lemma legal_win:
  assumes c: "legal c" and p: "phase c = ''fighting''" and sel: "selectedNodeId c = Some i"
  shows "legal (fst (markCampaignBattleWon js c m st))"
    "i = boss_node_id \<Longrightarrow> phase (fst (markCampaignBattleWon js c m st)) = ''completed'' \<and>
       route (fst (markCampaignBattleWon js c m st)) = route c @ [i]"
    "i \<noteq> boss_node_id \<Longrightarrow> phase (fst (markCampaignBattleWon js c m st)) = ''reward'' \<and>
       selectedNodeId (fst (markCampaignBattleWon js c m st)) = Some i \<and>
       route (fst (markCampaignBattleWon js c m st)) = route c"
    "\<exists>n. selected_node c = Some n \<and> operationalCredits (fst (markCampaignBattleWon js c m st)) =
       operationalCredits (credited_victory c n m) \<and> perks (fst (markCampaignBattleWon js c m st)) = perks c"
proof -
  have a: "active c" "content_ok c" by (rule legal_parts [OF c], assumption)+
  obtain n where n: "selected_node c = Some n" "node_of c (Some i) = Some n" "nd_id n = i"
      "linked (seed c) (currentNodeId c) i" by (rule legal_selected [OF c sel])
  have nb: "(nd_type n = NBoss) = (i = boss_node_id)"
    by (rule node_kind(2) [OF n(2) start_not_linked [OF n(4)]])
  let ?w = "fst (markCampaignBattleWon js c m st)"
  have goal: "legal ?w \<and> operationalCredits ?w = operationalCredits (credited_victory c n m) \<and> perks ?w = perks c \<and>
      (if i = boss_node_id then phase ?w = ''completed'' \<and> route ?w = route c @ [i]
       else phase ?w = ''reward'' \<and> selectedNodeId ?w = Some i \<and> route ?w = route c)"
  proof (cases "i = boss_node_id")
    case True
    let ?ex = "\<lambda>s. s\<lparr>phase := nextCampaignPhase c ''win_boss'', nextDifficultyDelta := 0\<rparr>"
    let ?d = "credited_victory c n m"
    have ct: "content_ok (?ex ?d)" using credited_content [OF a(2), of n m] by (simp add: content_ok_def ids_of_def)
    obtain st1 where w: "?w = fst (markNodeCleared js ?d ?ex st1)"
      using n(1) a(1) p nb True by (simp add: markCampaignBattleWon_def Let_def)
    have e: "seed (?ex ?d) = seed c" "active (?ex ?d) = active c" "content_ok (?ex ?d)"
        "phase (?ex ?d) = ''map'' \<or> phase (?ex ?d) = ''completed''" "(phase (?ex ?d) = ''completed'') = (i = boss_node_id)"
      using ct True by (simp_all add: credited_same next_phases(10) [OF p])
    have cl: "fst (markNodeCleared js ?d ?ex st1) = cleared_state c i (?ex ?d)" "legal (cleared_state c i (?ex ?d))"
      by (rule legal_markNodeCleared [where ex = ?ex and d = ?d, OF c sel credited_same(1-5) e])+
    show ?thesis
      using cl True unfolding w by (simp add: cleared_state_def credited_same next_phases(10) [OF p])
  next
    case False
    let ?d = "(credited_victory c n m)\<lparr>phase := ''reward'', nextDifficultyDelta := 0\<rparr>"
    have lg: "legal ?d" by (rule win_phase_reward [OF c sel p False refl])
    obtain st1 where w: "?w = fst (saveCampaign js ?d st1)"
      using n(1) a(1) p nb False by (simp add: markCampaignBattleWon_def Let_def next_phases(9) [OF p])
    have "?w = ?d" unfolding w using lg by (simp add: save_good legal_def)
    then show ?thesis using lg False sel by (simp add: credited_same)
  qed
  show "legal ?w" using goal by blast
  show "i = boss_node_id \<Longrightarrow> phase ?w = ''completed'' \<and> route ?w = route c @ [i]" using goal by simp
  show "i \<noteq> boss_node_id \<Longrightarrow> phase ?w = ''reward'' \<and> selectedNodeId ?w = Some i \<and> route ?w = route c" using goal by simp
  show "\<exists>n. selected_node c = Some n \<and> operationalCredits ?w = operationalCredits (credited_victory c n m) \<and> perks ?w = perks c"
    using goal n(1) by blast
qed

section \<open>Rewards and events\<close>

lemma not_boss_in:
  assumes c: "legal c" and sel: "selectedNodeId c = Some i"
    and p: "phase c = ''reward'' \<or> phase c = ''camp'' \<or> phase c = ''event''"
  shows "i \<noteq> boss_node_id"
proof -
  obtain n where n: "node_of c (Some i) = Some n" "linked (seed c) (currentNodeId c) i" "selection_coherent (phase c) (Some n)"
    by (rule legal_selected [OF c sel])
  have nb: "(nd_type n = NBoss) = (i = boss_node_id)"
    by (rule node_kind(2) [OF n(1) start_not_linked [OF n(2)]])
  have "nd_type n \<noteq> NBoss" using n(3) p by (auto simp: selection_coherent_def fight_phases)
  then show ?thesis using nb by simp
qed

lemma perks_known: "perkById i = Some p \<Longrightarrow> perk_id p = i"
  unfolding perkById_def by (auto dest: find_set)

text \<open>A reward adds its perk once, twice for an elite, and clears the sector; any other call
  returns the state unchanged.\<close>

lemma legal_reward:
  assumes c: "legal c"
  shows "legal (fst (chooseCampaignReward js c k st))"
    "if reward_phase c \<and> perkById k \<noteq> None
     then \<exists>i n. selectedNodeId c = Some i \<and> selected_node c = Some n \<and>
        (let w = fst (chooseCampaignReward js c k st)
         in phase w = ''map'' \<and> selectedNodeId w = None \<and> currentNodeId w = i \<and> route w = route c @ [i] \<and>
            perks w = perks c @ replicate (reward_stacks c n) k \<and>
            operationalCredits w = operationalCredits c + camp_credits c)
     else fst (chooseCampaignReward js c k st) = c"
proof -
  let ?w = "fst (chooseCampaignReward js c k st)"
  have goal: "if reward_phase c \<and> perkById k \<noteq> None
    then legal ?w \<and> (\<exists>i n. selectedNodeId c = Some i \<and> selected_node c = Some n \<and>
            phase ?w = ''map'' \<and> selectedNodeId ?w = None \<and> currentNodeId ?w = i \<and> route ?w = route c @ [i] \<and>
            perks ?w = perks c @ replicate (reward_stacks c n) k \<and>
            operationalCredits ?w = operationalCredits c + camp_credits c)
    else ?w = c"
  proof (cases "perkById k = None \<or> \<not> reward_phase c")
    case True
    then have "?w = c" by (auto simp: chooseCampaignReward_def split: option.splits)
    then show ?thesis using True by auto
  next
    case False
    obtain i where i: "selectedNodeId c = Some i"
      using False legal_unselected(1) [OF c] by (cases "selectedNodeId c") (auto simp: reward_phase_def)
    obtain n where n: "selected_node c = Some n" "nd_id n = i" by (rule legal_selected [OF c i])
    obtain p where p: "perkById k = Some p" using False by auto
    have rp: "reward_phase c" using False by simp
    have nb: "i \<noteq> boss_node_id" using rp by (intro not_boss_in [OF c i]) (auto simp: reward_phase_def)
    have ct: "content_ok c" by (rule legal_parts [OF c])
    have nx: "nextCampaignPhase c ''reward'' = ''map''" using rp next_phases(11,12) unfolding reward_phase_def by blast
    let ?d = "c\<lparr>perks := perks c @ replicate (reward_stacks c n) k, rewardChosenForNode := Some (nd_id n),
                operationalCredits := operationalCredits c + camp_credits c\<rparr>"
    let ?ex = "\<lambda>s. s\<lparr>phase := ''map'', eventLog := log_line (reward_message c n p) c\<rparr> :: campaign"
    have "rewardChosenForNode c = None" using c by (simp add: legal_def)
    then have w: "?w = fst (markNodeCleared js ?d ?ex st)"
      using n p rp nx unfolding chooseCampaignReward_def by simp
    have e: "seed (?ex ?d) = seed c" "active (?ex ?d) = active c" "content_ok (?ex ?d)"
        "phase (?ex ?d) = ''map'' \<or> phase (?ex ?d) = ''completed''" "(phase (?ex ?d) = ''completed'') = (i = boss_node_id)"
      using ct p nb log_line_bound [of "reward_message c n p" c] by (auto simp: content_ok_def ids_of_def list_all_iff camp_credits_def)
    have same: "seed ?d = seed c" "active ?d = active c" "selectedNodeId ?d = selectedNodeId c" "route ?d = route c"
        "clearedNodeIds ?d = clearedNodeIds c" by simp_all
    have cl: "fst (markNodeCleared js ?d ?ex st) = cleared_state c i (?ex ?d)" "legal (cleared_state c i (?ex ?d))"
      by (rule legal_markNodeCleared [where ex = ?ex and d = ?d, OF c i same e])+
    show ?thesis
      using cl i n rp p unfolding w by (simp add: cleared_state_def)
  qed
  then show "legal ?w" using c by (auto split: if_splits)
  show "if reward_phase c \<and> perkById k \<noteq> None
     then \<exists>i n. selectedNodeId c = Some i \<and> selected_node c = Some n \<and>
        (let w = ?w
         in phase w = ''map'' \<and> selectedNodeId w = None \<and> currentNodeId w = i \<and> route w = route c @ [i] \<and>
            perks w = perks c @ replicate (reward_stacks c n) k \<and>
            operationalCredits w = operationalCredits c + camp_credits c)
     else ?w = c"
    using goal unfolding Let_def by (simp split: if_splits)
qed

text \<open>What an option of an event can hold.\<close>

definition option_ok :: "event_option \<Rightarrow> bool" where
  "option_ok x \<longleftrightarrow>
     (case eo_relicId x of None \<Rightarrow> True | Some r \<Rightarrow> CAMPAIGN_RELIC_BY_ID r \<noteq> None) \<and>
     (case eo_perkId x of None \<Rightarrow> True | Some p \<Rightarrow> perkById p \<noteq> None) \<and>
     0 \<le> eo_creditCost x \<and> 0 \<le> eo_credits x \<and> -6 \<le> eo_difficultyDelta x \<and> eo_difficultyDelta x \<le> 4"

lemma option_ok_simps:
  "option_ok (event_option i l d)" "option_ok x \<Longrightarrow> 0 \<le> k \<Longrightarrow> option_ok (x\<lparr>eo_creditCost := k\<rparr>)"
  "option_ok x \<Longrightarrow> 0 \<le> k \<Longrightarrow> option_ok (x\<lparr>eo_credits := k\<rparr>)"
  "option_ok x \<Longrightarrow> -6 \<le> k \<Longrightarrow> k \<le> 4 \<Longrightarrow> option_ok (x\<lparr>eo_difficultyDelta := k\<rparr>)"
  "option_ok x \<Longrightarrow> perkById p \<noteq> None \<Longrightarrow> option_ok (x\<lparr>eo_perkId := Some p\<rparr>)"
  "option_ok x \<Longrightarrow> 0 \<le> k \<Longrightarrow> option_ok (relicChoice c r k x)"
  by (auto simp: option_ok_def event_option_def relicChoice_def)

lemma perk_lookup: "p \<in> set ROGUELIKE_PERKS \<Longrightarrow> perkById (perk_id p) \<noteq> None"
  unfolding perkById_def by (auto simp: find_None_iff)

lemma choices_ok:
  assumes "p \<in> set ROGUELIKE_PERKS" shows "list_all option_ok (event_choices c a p)"
  using perk_lookup [OF assms]
  by (cases a) (simp_all add: event_choices_def option_ok_simps del: not_None_eq)

lemma event_options_ok:
  assumes "x \<in> set (campaignEventOptions c)"
  shows "option_ok x" "eo_disabled x = (max 0 (operationalCredits c) < eo_creditCost x)"
    "selected_node c \<noteq> None" "phase c = ''event''"
proof -
  obtain n where n: "selected_node c = Some n" "phase c = ''event''"
      "x \<in> set (map (with_cost (max 0 (operationalCredits c))) (event_choices c (campaignEventArchetype n)
          (rewardOptionsForFloor (case seed c of None \<Rightarrow> [] | Some s \<Rightarrow> s) (nd_floor n + 37) ! 0)))"
    using assms by (cases "selected_node c") (simp_all add: campaignEventOptions_def Let_def split: if_splits)
  have "rewardOptionsForFloor (case seed c of None \<Rightarrow> [] | Some s \<Rightarrow> s) (nd_floor n + 37) ! 0 \<in> set ROGUELIKE_PERKS"
    using rewards_in_catalogue by (rule subsetD) (rule nth_mem, simp add: rewards_length)
  from choices_ok [OF this] n(3)
  obtain y where y: "option_ok y" "x = with_cost (max 0 (operationalCredits c)) y" by (auto simp: list_all_iff)
  show "option_ok x" "eo_disabled x = (max 0 (operationalCredits c) < eo_creditCost x)"
    using y by (simp_all add: with_cost_def Let_def option_ok_def)
  show "selected_node c \<noteq> None" "phase c = ''event''" using n by simp_all
qed

text \<open>An event: its price is paid in full, its gains are added, and the sector is cleared; an unknown
  or unaffordable choice changes nothing.\<close>

lemma legal_event:
  assumes c: "legal c"
  shows "legal (fst (resolveCampaignEvent js c k st))"
    "(case List.find (\<lambda>x. eo_id x = k) (campaignEventOptions c) of
       None \<Rightarrow> fst (resolveCampaignEvent js c k st) = c
     | Some x \<Rightarrow>
         if eo_disabled x then fst (resolveCampaignEvent js c k st) = c
         else 0 \<le> eo_creditCost x \<and> eo_creditCost x \<le> operationalCredits c \<and> 0 \<le> eo_credits x \<and>
           (\<exists>i. selectedNodeId c = Some i \<and> (let w = fst (resolveCampaignEvent js c k st)
         in phase w = ''map'' \<and> selectedNodeId w = None \<and> currentNodeId w = i \<and> route w = route c @ [i] \<and>
            operationalCredits w = operationalCredits c - eo_creditCost x + eo_credits x \<and>
            -12 \<le> nextDifficultyDelta w \<and> nextDifficultyDelta w \<le> 12)))"
proof -
  let ?w = "fst (resolveCampaignEvent js c k st)"
  have goal: "(case List.find (\<lambda>x. eo_id x = k) (campaignEventOptions c) of
       None \<Rightarrow> ?w = c
     | Some x \<Rightarrow>
         if eo_disabled x then ?w = c
         else legal ?w \<and> 0 \<le> eo_creditCost x \<and> eo_creditCost x \<le> operationalCredits c \<and> 0 \<le> eo_credits x \<and>
           (\<exists>i. selectedNodeId c = Some i \<and> phase ?w = ''map'' \<and> selectedNodeId ?w = None \<and> currentNodeId ?w = i \<and> route ?w = route c @ [i] \<and>
            operationalCredits ?w = operationalCredits c - eo_creditCost x + eo_credits x \<and>
            -12 \<le> nextDifficultyDelta ?w \<and> nextDifficultyDelta ?w \<le> 12))"
  proof (cases "List.find (\<lambda>x. eo_id x = k) (campaignEventOptions c)")
    case None
    then show ?thesis by (simp add: resolveCampaignEvent_def)
  next
    case f: (Some x)
    show ?thesis
    proof (cases "eo_disabled x")
      case True
      then show ?thesis using f by (simp add: resolveCampaignEvent_def)
    next
      case nd: False
      have x: "x \<in> set (campaignEventOptions c)" "eo_id x = k" using find_set [OF f] by auto
      note ok = event_options_ok [OF x(1)]
      have ct: "content_ok c" by (rule legal_parts [OF c])
      have cost: "0 \<le> eo_creditCost x" "eo_creditCost x \<le> operationalCredits c" "0 \<le> eo_credits x"
        using ok(1,2) nd ct by (auto simp: option_ok_def content_ok_def)
      obtain i where i: "selectedNodeId c = Some i"
        using ok(3) legal_unselected(2) [OF c] by (cases "selectedNodeId c") auto
      have nb: "i \<noteq> boss_node_id" using ok(4) by (intro not_boss_in [OF c i]) simp
      let ?d = "event_gains c x"
      let ?ex = "\<lambda>s. s\<lparr>phase := ''map'', nextDifficultyDelta := max (-12) (min 12
                    (fadd (nextDifficultyDelta c) (of_int (event_delta c x)))),
                  eventLog := log_line (event_log_text x (event_delta c x)) c\<rparr> :: campaign"
      have w: "?w = fst (markNodeCleared js ?d ?ex st)"
        using ok(3,4) f nd next_phases(13) [OF ok(4)]
        by (cases "selected_node c") (simp_all add: resolveCampaignEvent_def)
      have same: "seed ?d = seed c" "active ?d = active c" "selectedNodeId ?d = selectedNodeId c" "route ?d = route c"
          "clearedNodeIds ?d = clearedNodeIds c" by (simp_all add: event_gains_def)
      have rel: "distinct (relicIds ?d)" "list_all (\<lambda>i. CAMPAIGN_RELIC_BY_ID i \<noteq> None) (relicIds ?d)" "length (relicIds ?d) \<le> 6"
        using ct ok(1) relics_added [of "relicIds c"]
        by (simp_all add: event_gains_def option_ok_def content_ok_def split: option.splits)
      have prk: "list_all (\<lambda>i. perkById i \<noteq> None) (perks ?d)"
        using ct ok(1) by (simp add: event_gains_def option_ok_def content_ok_def split: option.splits)
      have cr: "operationalCredits ?d = operationalCredits c - eo_creditCost x + eo_credits x" "0 \<le> operationalCredits ?d"
        using cost by (simp_all add: event_gains_def)
      have rest: "intelligenceByNode ?d = intelligenceByNode c" "lastMissionResult ?d = lastMissionResult c"
        by (simp_all add: event_gains_def)
      have e: "seed (?ex ?d) = seed c" "active (?ex ?d) = active c" "content_ok (?ex ?d)"
          "phase (?ex ?d) = ''map'' \<or> phase (?ex ?d) = ''completed''" "(phase (?ex ?d) = ''completed'') = (i = boss_node_id)"
        using ct rel prk cr(2) rest nb same log_line_bound
        by (auto simp: content_ok_def ids_of_def)
      have cl: "fst (markNodeCleared js ?d ?ex st) = cleared_state c i (?ex ?d)" "legal (cleared_state c i (?ex ?d))"
        by (rule legal_markNodeCleared [where ex = ?ex and d = ?d, OF c i same e])+
      show ?thesis
        using cl i cost cr nd unfolding w f by (simp add: cleared_state_def)
    qed
  qed
  then show "legal ?w" using c by (auto split: option.splits if_splits)
  show "(case List.find (\<lambda>x. eo_id x = k) (campaignEventOptions c) of
       None \<Rightarrow> ?w = c
     | Some x \<Rightarrow>
         if eo_disabled x then ?w = c
         else 0 \<le> eo_creditCost x \<and> eo_creditCost x \<le> operationalCredits c \<and> 0 \<le> eo_credits x \<and>
           (\<exists>i. selectedNodeId c = Some i \<and> (let w = ?w
         in phase w = ''map'' \<and> selectedNodeId w = None \<and> currentNodeId w = i \<and> route w = route c @ [i] \<and>
            operationalCredits w = operationalCredits c - eo_creditCost x + eo_credits x \<and>
            -12 \<le> nextDifficultyDelta w \<and> nextDifficultyDelta w \<le> 12)))"
    using goal unfolding Let_def by (simp split: option.splits if_splits)
qed

section \<open>Recovery\<close>

lemma with_fields_to_json:
  "with_fields [(''active'', JBool True), (''phase'', JStr p), (''selectedNodeId'', json_opt x), (''eventLog'', JArr l)] (to_json c)
     = to_json (c\<lparr>active := True, phase := p, selectedNodeId := x, eventLog := l\<rparr>)"
  by (simp add: with_fields_def to_json_def)

lemma raw_selected_to_json:
  assumes "good c" "active c" shows "raw_selected_node (to_json c) = selected_node c"
proof -
  obtain s where s: "seed c = Some s" "s \<noteq> []" using assms by (auto simp: good_def campaign_inv_def phase_ok_def)
  show ?thesis
    unfolding raw_selected_node_def field_to_json json_opt_cases
    using s assms(2) by (auto simp: selected_node_def campaignNode_def json_opt_def truthy_def split: option.splits)
qed

text \<open>What recovery does to a state: back to the briefing of the sector whose battle was lost, or to the
  map with nothing selected. Route, perks, credits and intel stay.\<close>

definition recovered_state :: "campaign \<Rightarrow> json list \<Rightarrow> campaign" where
  "recovered_state c l =
     (if fight_phase (phase c) then c\<lparr>phase := ''briefing'', eventLog := l\<rparr>
      else c\<lparr>phase := ''map'', selectedNodeId := None, eventLog := l\<rparr>)"

lemma recovered_legal:
  assumes c: "legal c" and p: "phase c \<noteq> ''completed''" and l: "length l \<le> 30"
  shows "legal (recovered_state c l)"
proof (cases "fight_phase (phase c)")
  case True
  then show ?thesis using phase_step_saved(1) [OF c True fight_phases(1) l] by (simp add: recovered_state_def)
next
  case False
  obtain s where s: "seed c = Some s" "active c" "content_ok c" by (rule legal_parts [OF c])
  have rc: "rewardChosenForNode c = None" using c by (simp add: legal_def)
  show ?thesis
    by (rule legal_stay [OF c]) (use False s p l rc in \<open>auto simp: recovered_state_def phase_ok_def content_ok_def ids_of_def\<close>)
qed

lemma resumable_to_json:
  assumes c: "legal c" and p: "phase c \<noteq> ''completed''"
  shows "\<exists>l. length l \<le> 30 \<and> resumableCampaignState (to_json c) = Inr (Some (recovered_state c l))"
proof -
  obtain s where s: "seed c = Some s" "s \<noteq> []" "active c" "good c" by (rule legal_parts [OF c])
  have sel: "raw_selected_node (to_json c) = selected_node c" by (rule raw_selected_to_json [OF s(4,3)])
  have tr: "truthy (field ''active'' (to_json c))" "truthy (field ''seed'' (to_json c))"
    unfolding field_to_json using s by (simp_all add: truthy_def json_opt_def)
  have sp: "spread (JArr (eventLog c)) = Some (eventLog c)" by (simp add: spread_def truthy_def)
  show ?thesis
  proof (cases "fight_phase (phase c)")
    case True
    obtain i where i: "selectedNodeId c = Some i" by (rule fight_phase_selected [OF c True])
    obtain n where n: "selected_node c = Some n" "nd_id n = i" "selection_coherent (phase c) (Some n)"
      by (rule legal_selected [OF c i])
    have ct: "combat_type (nd_type n)" using n(3) coherent_fight [OF True] by simp
    define l where "l = last_n 30 (eventLog c @ [JStr (''Batalla recuperada en '' @ nd_label n @ '': vuelve al briefing sin inventar bajas'')])"
    have l30: "length l \<le> 30" by (simp add: l_def)
    have tb: "tr_nextState (campaignPhaseTransition (phase c) ''recover'') = ''briefing''"
      using True by (auto simp: fight_phase_def campaignPhaseTransition_def transition_def table_next_def campaign_table_def)
    have g: "good (recovered_state c l)" using recovered_legal [OF c p l30] by (simp add: legal_def)
    have j: "JStr (nd_id n) = json_opt (Some i)" using n(2) by (simp add: json_opt_def)
    have "resumableCampaignState (to_json c) = Inr (Some (normalizeCampaign (to_json
        (c\<lparr>active := True, phase := ''briefing'', selectedNodeId := Some i, eventLog := l\<rparr>))))"
      unfolding resumableCampaignState_def sel field_to_json(4,16) sp
      using tr True n(1) ct by (simp add: tb j with_fields_to_json l_def)
    moreover have "c\<lparr>active := True, phase := ''briefing'', selectedNodeId := Some i, eventLog := l\<rparr> = recovered_state c l"
      using True s(3) i by (intro campaign.equality) (simp_all add: recovered_state_def)
    ultimately show ?thesis using g l30 by (auto simp: good_def normalize_fix)
  next
    case False
    define l where "l = last_n 30 (eventLog c @ [JStr ((''Operaci'' @ [CHR 0xF3] @ ''n recuperada en la mesa de guerra''))])"
    have l30: "length l \<le> 30" by (simp add: l_def)
    have g: "good (recovered_state c l)" using recovered_legal [OF c p l30] by (simp add: legal_def)
    have "resumableCampaignState (to_json c) = Inr (Some (normalizeCampaign (to_json
        (c\<lparr>active := True, phase := ''map'', selectedNodeId := None, eventLog := l\<rparr>))))"
      unfolding resumableCampaignState_def sel field_to_json(4,16) sp
      using tr False by (simp add: with_fields_to_json [where x = None, unfolded json_opt_def option.case] l_def)
    moreover have "c\<lparr>active := True, phase := ''map'', selectedNodeId := None, eventLog := l\<rparr> = recovered_state c l"
      using False s(3) by (intro campaign.equality) (simp_all add: recovered_state_def)
    ultimately show ?thesis using g l30 by (auto simp: good_def normalize_fix)
  qed
qed

lemma legal_recover:
  assumes c: "legal c" and p: "phase c \<noteq> ''completed''"
  shows "\<exists>l. length l \<le> 30 \<and> fst (recoverInterruptedCampaign js c st) = recovered_state c l \<and> legal (recovered_state c l)"
proof -
  obtain l where l: "length l \<le> 30" "resumableCampaignState (to_json c) = Inr (Some (recovered_state c l))"
    using resumable_to_json [OF c p] by blast
  have lg: "legal (recovered_state c l)" by (rule recovered_legal [OF c p l(1)])
  then show ?thesis using l save_good [of "recovered_state c l" js st]
    by (auto simp: recoverInterruptedCampaign_def legal_def)
qed

section \<open>A whole operation\<close>

text \<open>The steps a player can take; recovery is offered for an operation that is not over.\<close>

inductive campaign_step :: "json_api \<Rightarrow> campaign \<Rightarrow> campaign \<Rightarrow> bool" for js where
  select: "campaign_step js c (fst (selectCampaignNode js c i st))"
| intel: "campaign_step js c (fst (purchaseCampaignIntel js c ni st))"
| accept: "campaign_step js c (fst (markCampaignBriefingAccepted js c st))"
| fight: "campaign_step js c (fst (markCampaignBattleStarted js c st))"
| retire: "campaign_step js c (fst (markCampaignBattleRetired js c st))"
| win: "campaign_step js c (fst (markCampaignBattleWon js c m st))"
| reward: "campaign_step js c (fst (chooseCampaignReward js c k st))"
| event: "campaign_step js c (fst (resolveCampaignEvent js c k st))"
| recover: "phase c \<noteq> ''completed'' \<Longrightarrow> campaign_step js c (fst (recoverInterruptedCampaign js c st))"

inductive_cases campaign_stepE: "campaign_step js c d"

inductive campaign_reach :: "json_api \<Rightarrow> campaign \<Rightarrow> bool" for js where
  start: "sd \<noteq> [] \<Longrightarrow> campaign_reach js (fst (startCampaign js sd st))"
| step: "campaign_reach js c \<Longrightarrow> campaign_step js c d \<Longrightarrow> campaign_reach js d"

lemma unchanged:
  "phase c \<noteq> ''briefing'' \<Longrightarrow> fst (markCampaignBriefingAccepted js c st) = c"
  "phase c \<noteq> ''battle'' \<Longrightarrow> fst (markCampaignBattleStarted js c st) = c"
  "phase c \<noteq> ''battle'' \<Longrightarrow> phase c \<noteq> ''fighting'' \<Longrightarrow> fst (markCampaignBattleRetired js c st) = c"
  "phase c \<noteq> ''fighting'' \<Longrightarrow> fst (markCampaignBattleWon js c m st) = c"
  by (simp_all add: markCampaignBriefingAccepted_def markCampaignBattleStarted_def markCampaignBattleRetired_def
      markCampaignBattleWon_def split: option.splits)

lemma legal_step: "campaign_step js c d \<Longrightarrow> legal c \<Longrightarrow> legal d"
proof (erule campaign_stepE)
  fix i st assume c: "legal c" and d: "d = fst (selectCampaignNode js c i st)"
  show "legal d"
  proof (cases "List.find (\<lambda>n. nd_id n = i) (availableCampaignNodes c)")
    case None
    then show ?thesis using c d by (simp add: selectCampaignNode_def)
  next
    case (Some n)
    then show ?thesis using legal_select(1) [OF c Some, of js st] legal_select(2) [OF c Some] d by simp
  qed
next
  fix st assume c: "legal c" and d: "d = fst (markCampaignBriefingAccepted js c st)"
  then show "legal d" using legal_accept [OF c] unchanged(1) by (cases "phase c = ''briefing''") auto
next
  fix st assume c: "legal c" and d: "d = fst (markCampaignBattleStarted js c st)"
  then show "legal d" using legal_fight [OF c] unchanged(2) by (cases "phase c = ''battle''") auto
next
  fix st assume c: "legal c" and d: "d = fst (markCampaignBattleRetired js c st)"
  show "legal d"
  proof (cases "phase c = ''battle'' \<or> phase c = ''fighting''")
    case True
    then show ?thesis using legal_retire [OF c True, of js st] d by auto
  qed (use c d unchanged(3) in auto)
next
  fix m st assume c: "legal c" and d: "d = fst (markCampaignBattleWon js c m st)"
  show "legal d"
  proof (cases "phase c = ''fighting''")
    case True
    then have "fight_phase (phase c)" by (simp add: fight_phases)
    then obtain i where "selectedNodeId c = Some i" by (rule fight_phase_selected [OF c])
    then show ?thesis using legal_win(1) [OF c True] d by simp
  qed (use c d unchanged(4) in simp)
next
  fix st assume c: "legal c" and d: "d = fst (recoverInterruptedCampaign js c st)" and p: "phase c \<noteq> ''completed''"
  then show "legal d" using legal_recover [OF c p, of js st] by auto
qed (use legal_purchase(2) legal_reward(1) legal_event(1) in auto)

lemma reach_legal: "campaign_reach js c \<Longrightarrow> legal c"
  by (induction rule: campaign_reach.induct) (auto intro: legal_start(1) legal_step)

section \<open>Properties\<close>

text \<open>C3: whatever JSON the storage holds whose perks and relics are plain ids (no array or object, and no name
  every JavaScript object inherits: the source keeps those too), loading a campaign yields a state in its
  invariant: a known phase with the selection it needs and a selected node of the right type, a route and
  cleared nodes of its own map, known perks and at most six distinct relics, intel levels 0 to 3, credits never
  negative, a carried delta within 12; the assertion made before every save never fails.\<close>

theorem normalize_campaign_safe:
  assumes "plain_ids raw"
  shows "campaign_inv (normalizeCampaign raw) \<and>
    assertCampaignInvariant (normalizeCampaign raw)
      (campaignNode (normalizeCampaign raw) (selectedNodeId (normalizeCampaign raw))) = Inr True"
proof
  let ?c = "normalizeCampaign raw"
  show inv: "campaign_inv ?c" by (rule normalize_inv)
  have ph: "phase_ok ?c" "0 \<le> operationalCredits ?c" using inv by (simp_all add: campaign_inv_def)
  have ids: "selectedNodeId ?c \<noteq> Some []"
    using phase_ok_selected(1) [OF ph(1)] valid_nonempty unfolding ids_of_def by blast
  have kp: "set known_phases \<subseteq> set CAMPAIGN_PHASES" "''idle'' \<in> set CAMPAIGN_PHASES"
    by (simp_all add: known_phases_def CAMPAIGN_PHASES_def)
  have pin: "phase ?c \<in> set CAMPAIGN_PHASES" using ph(1) kp by (auto simp: phase_ok_def split: if_splits)
  have node: "combat_type (nd_type x)"
    if "campaignNode ?c (selectedNodeId ?c) = Some x" "fight_phase (phase ?c)" for x
  proof -
    have "node_of ?c (selectedNodeId ?c) = Some x"
      using that(1) by (auto simp: campaignNode_def node_of_def map_seed_def split: if_splits)
    moreover have "active ?c" using that(1) by (auto simp: campaignNode_def split: if_splits)
    ultimately show ?thesis using ph(1) that(2) coherent_fight by (auto simp: phase_ok_def)
  qed
  have sel: "\<exists>i. selectedNodeId ?c = Some i \<and> i \<noteq> []"
    if "phase ?c \<in> set [''briefing'', ''battle'', ''fighting'', ''reward'', ''event'', ''camp'']"
    using ph(1) ids that by (auto simp: phase_ok_def split: if_splits)
  have uns: "selectedNodeId ?c = None" if "phase ?c \<in> set [''map'', ''completed'', ''idle'']"
    using ph(1) that by (auto simp: phase_ok_def split: if_splits)
  show "assertCampaignInvariant ?c (campaignNode ?c (selectedNodeId ?c)) = Inr True"
    unfolding assertCampaignInvariant_def assert_all_ok
    using pin ph(2) sel uns node by (auto split: option.splits if_splits)
qed

text \<open>A damaged save: an unknown phase, a perk and a relic that do not exist, a repeated relic.\<close>

definition damaged_campaign :: json where
  "damaged_campaign = JObj
     [(''version'', JInt 5), (''active'', JBool True), (''seed'', JStr ''s''), (''phase'', JStr ''nowhere''),
      (''perks'', JArr [JStr ''silk_shoes'', JStr ''no_such_perk'', JNull]),
      (''relicIds'', JArr [JStr ''fieldCipher'', JInt 7, JStr ''fieldCipher'']),
      (''operationalCredits'', JInt (-4))]"

theorem normalize_campaign_safe_witness:
  "plain_ids damaged_campaign \<and> active (normalizeCampaign damaged_campaign) \<and>
   perks (normalizeCampaign damaged_campaign) = [''silk_shoes''] \<and>
   relicIds (normalizeCampaign damaged_campaign) = [''fieldCipher''] \<and>
   operationalCredits (normalizeCampaign damaged_campaign) = 0 \<and> campaign_inv (normalizeCampaign damaged_campaign)"
proof -
  have plain: "plain_ids damaged_campaign" by code_simp
  have version: "stored_campaign damaged_campaign" by code_simp
  have "perks (normalizeCampaign damaged_campaign) = [''silk_shoes'']"
    "relicIds (normalizeCampaign damaged_campaign) = [''fieldCipher'']"
    unfolding normalize_fields [OF version] by code_simp+
  moreover have "active (normalizeCampaign damaged_campaign)" "operationalCredits (normalizeCampaign damaged_campaign) = 0"
    unfolding normalize_fields [OF version] by code_simp+
  ultimately show ?thesis using plain normalize_campaign_safe [OF plain] by simp
qed

end
