(* ===== verification/CampaignOperation.thy ===== *)
theory CampaignOperation
  imports CampaignRun
begin

text \<open>
  Properties of a whole operation: what every reachable state satisfies, that an operation can
  always be finished, that rewards are not paid twice, that saving and loading, and ending and
  resuming, give the operation back.
\<close>

section \<open>Reachable states\<close>

lemma on_map:
  assumes lg: "legal c"
  obtains s rest where "seed c = Some s" "s \<noteq> []" "active c" "good c" "route c = ''start'' # rest"
    "successively (linked (Some s)) (route c)" "currentNodeId c = last (route c)"
    "set (clearedNodeIds c) = set (route c) - {''start''}" "(phase c = ''completed'') = (currentNodeId c = boss_node_id)"
proof -
  obtain s where s: "seed c = Some s" "s \<noteq> []" "active c" "position_ok c" "good c" by (rule legal_parts [OF lg])
  obtain rest where "route c = ''start'' # rest" using s(4) by (auto simp: position_ok_def)
  then show ?thesis using that s lg by (simp add: legal_def)
qed

lemma stage_boss: "stage_at boss_node_id = 7"
  by (simp add: stage_at_def MAP_SHAPE_def boss_node_id_def)

lemma stages_bound: "list_all (\<lambda>i. stage_at i \<le> 7) (map fst MAP_SHAPE)"
  by code_simp

lemma current_in_map:
  assumes "legal c" "seed c = Some s"
  shows "currentNodeId c \<in> set (map fst MAP_SHAPE)" "currentNodeId c \<in> set (valid_ids (Some s))"
proof -
  have "s \<noteq> []" "campaign_inv c" using assms by (simp_all add: legal_def good_def)
  then show "currentNodeId c \<in> set (valid_ids (Some s))" using assms(2) by (simp add: campaign_inv_def ids_of_def map_seed_def)
  then show "currentNodeId c \<in> set (map fst MAP_SHAPE)" by (simp add: valid_ids_def map_ids)
qed

text \<open>The route of a legal state is as long as the stage of its end says: at most seven nodes
  before the boss, eight with it.\<close>

lemma route_facts:
  assumes c: "legal c"
  shows "distinct (route c)" "length (route c) = stage_at (currentNodeId c) + 1"
    "list_all (\<lambda>i. stage_at i \<le> stage_at (currentNodeId c)) (route c)"
    "phase c \<noteq> ''completed'' \<Longrightarrow> length (route c) \<le> 7" "phase c = ''completed'' \<Longrightarrow> length (route c) = 8"
proof -
  obtain s rest where s: "seed c = Some s" "route c = ''start'' # rest"
    "successively (linked (Some s)) (route c)" "currentNodeId c = last (route c)"
    "(phase c = ''completed'') = (currentNodeId c = boss_node_id)" by (rule on_map [OF c])
  note rs = route_stages [of s rest, folded s(2), OF s(3), folded s(4)]
  show "distinct (route c)" using rs by simp
  show len: "length (route c) = stage_at (currentNodeId c) + 1" using rs s(2) by simp
  show "list_all (\<lambda>i. stage_at i \<le> stage_at (currentNodeId c)) (route c)" using rs by simp
  show "length (route c) = 8" if "phase c = ''completed''" using len that s(5) stage_boss by simp
  show "length (route c) \<le> 7" if "phase c \<noteq> ''completed''"
  proof (cases rest)
    case Nil
    then show ?thesis using s(2) by simp
  next
    case (Cons x xs)
    then have "route c = butlast (route c) @ [last (route c)]" "butlast (route c) \<noteq> []"
      using s(2) by simp_all
    then have "linked (Some s) (last (butlast (route c))) (last (route c))"
      using s(3) by (metis successively_append_iff list.discI list.sel(1))
    then have "(stage_at (currentNodeId c) = 7) = (currentNodeId c = boss_node_id)"
      unfolding s(4) by (rule linked_facts(5))
    moreover have "stage_at (currentNodeId c) \<le> 7"
      using stages_bound current_in_map(1) [OF c s(1)] unfolding list_all_iff by blast
    ultimately show ?thesis using that s(5) len by linarith
  qed
qed

text \<open>C2: in every reachable state of an operation the route runs along connections of its own map,
  from the command post to the current node, one sector per stage and none twice; the cleared
  nodes are exactly those of the route; and the operation is completed exactly when the route ends
  at the boss, after seven sectors.\<close>

theorem operation_follows_map:
  assumes "campaign_reach js c"
  shows "campaign_inv c \<and> (\<exists>s. seed c = Some s \<and> successively (linked (Some s)) (route c)) \<and>
    hd (route c) = ''start'' \<and> distinct (route c) \<and> currentNodeId c = last (route c) \<and>
    length (route c) = stage_at (currentNodeId c) + 1 \<and> set (clearedNodeIds c) = set (tl (route c)) \<and>
    (phase c = ''completed'') = (currentNodeId c = boss_node_id) \<and>
    (if phase c = ''completed'' then length (route c) = 8 else length (route c) \<le> 7)"
proof -
  have lg: "legal c" by (rule reach_legal [OF assms])
  obtain s rest where s: "seed c = Some s" "good c" "route c = ''start'' # rest"
    "successively (linked (Some s)) (route c)" "currentNodeId c = last (route c)"
    "set (clearedNodeIds c) = set (route c) - {''start''}" "(phase c = ''completed'') = (currentNodeId c = boss_node_id)"
    by (rule on_map [OF lg])
  note rf = route_facts [OF lg]
  have "set (clearedNodeIds c) = set (tl (route c))" using s(6) rf(1) unfolding s(3) by auto
  then show ?thesis using s rf by (auto simp: good_def)
qed

text \<open>A concrete storage and serialiser, for examples.\<close>

definition no_text :: json_api where "no_text = \<lparr>stringify = (\<lambda>_. ''x''), parse = (\<lambda>_. None)\<rparr>"
definition no_store :: store where "no_store = (\<lambda>_. None)"

definition new_operation :: campaign where
  "new_operation = emptyCampaign\<lparr>active := True, seed := Some ''s'', phase := ''map''\<rparr>"

lemma new_operation_reach: "campaign_reach js new_operation"
  using campaign_reach.start [of "''s''" js] legal_start(2) [of "''s''" js] by (simp add: new_operation_def)

theorem operation_follows_map_witness:
  "length (route new_operation) = stage_at (currentNodeId new_operation) + 1 \<and> length (route new_operation) = 1"
  using operation_follows_map [OF new_operation_reach] by (simp add: new_operation_def emptyCampaign_def)

section \<open>An operation can always be finished\<close>

lemma table_continues: "list_all (\<lambda>i. i = boss_node_id \<or> list_ex (\<lambda>(a, b). a = i) shape_links) (map fst MAP_SHAPE)"
  by code_simp

lemma linked_next:
  assumes "i \<in> set (map fst MAP_SHAPE)" "i \<noteq> boss_node_id" obtains x where "linked (Some s) i x"
proof -
  obtain x where "(i, x) \<in> set shape_links" using table_continues assms by (fastforce simp: list_all_iff list_ex_iff)
  then have "linked (Some s) i x" unfolding linked_shape shape_links_def by (fastforce simp: list_ex_iff)
  then show ?thesis by (rule that)
qed

lemma find_of_mem: "x \<in> set xs \<Longrightarrow> P x \<Longrightarrow> \<exists>y. List.find P xs = Some y"
  by (cases "List.find P xs") (auto simp: find_None_iff)

lemma available_ex:
  assumes c: "legal c" and p: "phase c = ''map''"
  obtains n where "List.find (\<lambda>m. nd_id m = nd_id n) (availableCampaignNodes c) = Some n"
proof -
  obtain s where s: "seed c = Some s" "s \<noteq> []" "active c" "(phase c = ''completed'') = (currentNodeId c = boss_node_id)"
    by (rule on_map [OF c])
  have nb: "currentNodeId c \<noteq> boss_node_id" using s(4) p by simp
  obtain x where x: "linked (Some s) (currentNodeId c) x" by (rule linked_next [OF current_in_map(1) [OF c s(1)] nb])
  note lf = linked_facts [OF x]
  have "x \<notin> set (route c)" using route_facts(3) [OF c] lf(1) by (auto simp: list_all_iff)
  then have nc: "x \<notin> set (clearedNodeIds c)" using c by (auto simp: legal_def)
  obtain m where m: "List.find (\<lambda>n. nd_id n = currentNodeId c) (cm_nodes (campaignMap s)) = Some m"
    using find_node_ex [OF current_in_map(2) [OF c s(1)]] by (auto simp: find_node_def)
  obtain y where y: "y \<in> set (cm_nodes (campaignMap s))" "nd_id y = currentNodeId c" "x \<in> set (nd_connections y)"
    using x by (auto simp: linked_def list_ex_iff)
  have "y = m" using y(1,2) find_set [OF m] map_ids_distinct [of s]
    unfolding distinct_map inj_on_def by simp
  then have cx: "x \<in> set (nd_connections m)" using y(3) by simp
  obtain n where n: "List.find (\<lambda>n. nd_id n = x) (cm_nodes (campaignMap s)) = Some n" "nd_id n = x"
    using find_node_ex [OF lf(3)] by (auto simp: find_node_def)
  have "n \<in> set (availableCampaignNodes c)"
  proof -
    have "n \<in> set (List.map_filter (\<lambda>i. List.find (\<lambda>n. nd_id n = i) (cm_nodes (campaignMap s))) (nd_connections m))"
      using cx n(1) by (auto simp: map_filter_def image_iff intro!: bexI [OF _ cx])
    then show ?thesis using s p m n(2) nc by (simp add: availableCampaignNodes_def)
  qed
  then obtain z where z: "List.find (\<lambda>z. nd_id z = x) (availableCampaignNodes c) = Some z"
    using find_of_mem [of n _ "\<lambda>z. nd_id z = x"] n(2) by blast
  then have "nd_id z = x" using find_set [OF z] by simp
  then show ?thesis using that [of z] z by simp
qed

text \<open>Every event offers a choice that costs nothing.\<close>

lemma choice_ids: "distinct (map eo_id (event_choices c a p))"
  by (cases a) (simp_all add: event_choices_def event_option_def relicChoice_def)

lemma free_choice: "list_ex (\<lambda>x. eo_creditCost x = 0) (event_choices c a p)"
  by (cases a) (simp_all add: event_choices_def event_option_def relicChoice_def)

lemma find_distinct: "distinct (map f xs) \<Longrightarrow> x \<in> set xs \<Longrightarrow> List.find (\<lambda>y. f y = f x) xs = Some x"
  by (induction xs) auto

lemma with_cost_sel: "eo_id (with_cost a x) = eo_id x" "eo_creditCost x = 0 \<Longrightarrow> 0 \<le> a \<Longrightarrow> \<not> eo_disabled (with_cost a x)"
  by (simp_all add: with_cost_def Let_def)

lemma event_free:
  assumes "selected_node c = Some n" "phase c = ''event''"
  obtains k x where "List.find (\<lambda>x. eo_id x = k) (campaignEventOptions c) = Some x" "\<not> eo_disabled x"
proof -
  let ?a = "max 0 (operationalCredits c)"
  obtain a p where o: "campaignEventOptions c = map (with_cost ?a) (event_choices c a p)"
    using assms unfolding campaignEventOptions_def by (simp add: Let_def)
  obtain y where y: "y \<in> set (event_choices c a p)" "eo_creditCost y = 0" using free_choice [of c a p] unfolding list_ex_iff by blast
  have "distinct (map eo_id (campaignEventOptions c))"
    using choice_ids [of c a p] by (simp add: o with_cost_sel(1) o_def)
  moreover have "with_cost ?a y \<in> set (campaignEventOptions c)" using y(1) by (simp add: o)
  ultimately have "List.find (\<lambda>x. eo_id x = eo_id (with_cost ?a y)) (campaignEventOptions c) = Some (with_cost ?a y)"
    by (rule find_distinct)
  then show ?thesis by (rule that) (use y(2) in \<open>simp add: with_cost_sel(2)\<close>)
qed

text \<open>One sector further: from a legal state that is not over, some steps lengthen the route.\<close>

abbreviation steps :: "json_api \<Rightarrow> campaign \<Rightarrow> campaign \<Rightarrow> bool" where
  "steps js \<equiv> (campaign_step js)\<^sup>*\<^sup>*"

definition further :: "json_api \<Rightarrow> campaign \<Rightarrow> bool" where
  "further js c \<longleftrightarrow> (\<exists>d. steps js c d \<and> legal d \<and> length (route d) = length (route c) + 1)"

lemma further_step:
  assumes "campaign_step js c d" "further js d" "route d = route c" shows "further js c"
  using assms unfolding further_def by (metis converse_rtranclp_into_rtranclp)

lemma further_now: "campaign_step js c d \<Longrightarrow> legal c \<Longrightarrow> length (route d) = length (route c) + 1 \<Longrightarrow> further js c"
  unfolding further_def using legal_step by blast

lemma reward_moves:
  assumes c: "legal c" and p: "reward_phase c" shows "further js c"
proof -
  have k: "perkById ''steel_pulse'' \<noteq> None" by (simp add: perkById_def ROGUELIKE_PERKS_def)
  show ?thesis
    by (rule further_now [OF campaign_step.reward [where k = "''steel_pulse''" and st = undefined] c])
      (use legal_reward(2) [OF c, of "''steel_pulse''" js undefined] p k in \<open>auto simp: Let_def\<close>)
qed

lemma event_moves:
  assumes c: "legal c" and p: "phase c = ''event''" shows "further js c"
proof -
  obtain i where i: "selectedNodeId c = Some i" using legal_unselected(1) [OF c] p by (cases "selectedNodeId c") auto
  obtain n where n: "selected_node c = Some n" by (rule legal_selected [OF c i])
  obtain k x where x: "List.find (\<lambda>x. eo_id x = k) (campaignEventOptions c) = Some x" "\<not> eo_disabled x"
    by (rule event_free [OF n p])
  show ?thesis
    by (rule further_now [OF campaign_step.event [where k = k and st = undefined] c])
      (use legal_event(2) [OF c, of js k undefined] x in \<open>auto simp: Let_def\<close>)
qed

lemma fighting_moves:
  assumes c: "legal c" and p: "phase c = ''fighting''" shows "further js c"
proof -
  obtain i where i: "selectedNodeId c = Some i"
    by (rule fight_phase_selected [OF c]) (simp add: p fight_phases)
  let ?d = "fst (markCampaignBattleWon js c None undefined)"
  note w = legal_win [OF c p i, of js None undefined]
  show ?thesis
  proof (cases "i = boss_node_id")
    case True
    show ?thesis
      by (rule further_now [OF campaign_step.win [where m = None and st = undefined] c]) (use w(2) [OF True] in simp)
  next
    case False
    have "further js ?d" by (rule reward_moves [OF w(1)]) (use w(3) [OF False] in \<open>simp add: reward_phase_def\<close>)
    with campaign_step.win [of js c None undefined] show ?thesis
      by (rule further_step) (use w(3) [OF False] in blast)
  qed
qed

lemma battle_moves:
  assumes c: "legal c" and p: "phase c = ''battle''" shows "further js c"
proof -
  note f = legal_fight [OF c p]
  have "further js (c\<lparr>phase := ''fighting''\<rparr>)" by (rule fighting_moves [OF f(2)]) simp
  with campaign_step.fight [of js c undefined, unfolded f(1)] show ?thesis by (rule further_step) simp
qed

lemma briefing_moves:
  assumes c: "legal c" and p: "phase c = ''briefing''" shows "further js c"
proof -
  note f = legal_accept [OF c p]
  have "further js (c\<lparr>phase := ''battle''\<rparr>)" by (rule battle_moves [OF f(2)]) simp
  with campaign_step.accept [of js c undefined, unfolded f(1)] show ?thesis by (rule further_step) simp
qed

lemma map_moves:
  assumes c: "legal c" and p: "phase c = ''map''" shows "further js c"
proof -
  obtain n where n: "List.find (\<lambda>m. nd_id m = nd_id n) (availableCampaignNodes c) = Some n"
    by (rule available_ex [OF c p])
  note s = legal_select [OF c n]
  have "phase (selected_state c n) = ''event'' \<or> reward_phase (selected_state c n) \<or> phase (selected_state c n) = ''briefing''"
    unfolding reward_phase_def by (simp add: selected_state_def)
  then have "further js (selected_state c n)"
    using event_moves [OF s(2)] reward_moves [OF s(2)] briefing_moves [OF s(2)] by blast
  with campaign_step.select [of js c "nd_id n" undefined, unfolded s(1)] show ?thesis
    by (rule further_step) (simp add: selected_state_def)
qed

lemma always_further:
  assumes c: "legal c" and p: "phase c \<noteq> ''completed''" shows "further js c"
proof -
  have "phase c \<in> set known_phases" using c by (auto simp: legal_def good_def campaign_inv_def phase_ok_def split: if_splits)
  then show ?thesis
    using p map_moves [OF c] briefing_moves [OF c] battle_moves [OF c] fighting_moves [OF c] event_moves [OF c]
      reward_moves [OF c] by (auto simp: known_phases_def reward_phase_def)
qed

lemma can_complete: "legal c \<Longrightarrow> \<exists>d. steps js c d \<and> phase d = ''completed''"
proof (induction "8 - length (route c)" arbitrary: c rule: less_induct)
  case less
  show ?case
  proof (cases "phase c = ''completed''")
    case True
    then show ?thesis by blast
  next
    case False
    obtain d where d: "steps js c d" "legal d" "length (route d) = length (route c) + 1"
      using always_further [OF less.prems False] unfolding further_def by blast
    have "8 - length (route d) < 8 - length (route c)" using route_facts(4) [OF less.prems False] d(3) by simp
    from less.hyps [OF this d(2)] show ?thesis using d(1) by (meson rtranclp_trans)
  qed
qed

text \<open>C1: an operation is never stuck: from every reachable state some sequence of the player's steps
  completes it, whatever has been spent, chosen or lost before.\<close>

theorem operation_can_finish:
  assumes "campaign_reach js c"
  shows "\<exists>d. (campaign_step js)\<^sup>*\<^sup>* c d \<and> campaign_reach js d \<and> phase d = ''completed'' \<and> currentNodeId d = boss_node_id"
proof -
  obtain d where d: "steps js c d" "phase d = ''completed''" using can_complete [OF reach_legal [OF assms]] by blast
  from d(1) have r: "campaign_reach js d"
    by (induction rule: rtranclp_induct) (auto intro: assms campaign_reach.step)
  have "(phase d = ''completed'') = (currentNodeId d = boss_node_id)" using reach_legal [OF r] unfolding legal_def by blast
  then have "currentNodeId d = boss_node_id" using d(2) by simp
  then show ?thesis using d r by blast
qed

theorem operation_can_finish_witness: "\<exists>d. (campaign_step no_text)\<^sup>*\<^sup>* new_operation d \<and> phase d = ''completed''"
  using operation_can_finish [OF new_operation_reach, of no_text] by blast

section \<open>Payments\<close>

text \<open>A victory counts once: it is only taken in the fighting phase, pays the battle's credits
  and the bonus of its completed orders, never takes any, and marking the same battle won again
  changes nothing.\<close>

theorem victory_paid_once:
  assumes "campaign_reach js c"
  shows "let w = fst (markCampaignBattleWon js c m st)
    in fst (markCampaignBattleWon js w m' st') = w \<and> perks w = perks c \<and>
       (if phase c \<noteq> ''fighting'' then w = c
        else \<exists>n. selected_node c = Some n \<and> combat_type (nd_type n) \<and>
          phase w = (if nd_type n = NBoss then ''completed'' else ''reward'') \<and>
          operationalCredits w = operationalCredits c + battle_earned c n +
            max 0 (ms_earned (evaluateCampaignMissionOrders (the (seed c)) (Some n) m
                     (campaignIntelLevel c (Some (nd_id n))))) \<and>
          0 \<le> battle_earned c n)"
proof (cases "phase c = ''fighting''")
  case False
  then show ?thesis by (simp add: unchanged(4))
next
  case True
  have lg: "legal c" by (rule reach_legal [OF assms])
  obtain s where s: "seed c = Some s" "content_ok c" by (rule legal_parts [OF lg])
  have f: "fight_phase (phase c)" using True by (simp add: fight_phases)
  obtain i where i: "selectedNodeId c = Some i" by (rule fight_phase_selected [OF lg f])
  obtain n where n: "selected_node c = Some n" "node_of c (Some i) = Some n" "linked (seed c) (currentNodeId c) i"
      "selection_coherent (phase c) (Some n)" by (rule legal_selected [OF lg i])
  have ct: "combat_type (nd_type n)" using n(4) coherent_fight [OF f] by simp
  have nb: "(nd_type n = NBoss) = (i = boss_node_id)" by (rule node_kind(2) [OF n(2) start_not_linked [OF n(3)]])
  let ?w = "fst (markCampaignBattleWon js c m st)"
  note w = legal_win [OF lg True i, of js m st]
  have ph: "phase ?w = (if nd_type n = NBoss then ''completed'' else ''reward'')" using w(2,3) nb by auto
  then have again: "fst (markCampaignBattleWon js ?w m' st') = ?w" by (intro unchanged(4)) simp
  have "0 \<le> operationalCredits c" using s(2) by (simp add: content_ok_def)
  then have cr: "operationalCredits (credited_victory c n m) = operationalCredits c + battle_earned c n +
      max 0 (ms_earned (evaluateCampaignMissionOrders s (Some n) m (campaignIntelLevel c (Some (nd_id n)))))"
    using battle_earned_nonneg [of c n] by (simp add: credited_victory_def Let_def s(1))
  show ?thesis
    using w(4) n(1) True ct ph again cr battle_earned_nonneg [of c n] by (simp add: Let_def s(1))
qed

theorem victory_paid_once_witness:
  "fst (markCampaignBattleWon no_text (fst (markCampaignBattleWon no_text new_operation None no_store)) None no_store) = fst (markCampaignBattleWon no_text new_operation None no_store)"
  using victory_paid_once [OF new_operation_reach, of no_text None no_store None no_store] by (simp only: Let_def)

text \<open>Loot and camps: in the reward and camp phases a choice of a known perk adds exactly that perk,
  twice for an elite sector, and the camp's credits, clears the sector and goes back to the map; any
  other choice changes nothing. A second choice, of whatever perk, therefore changes nothing.\<close>

theorem reward_taken_once:
  assumes "campaign_reach js c"
  shows "let w = fst (chooseCampaignReward js c k st)
    in (if reward_phase c \<and> perkById k \<noteq> None
        then (\<exists>n. selected_node c = Some n \<and> phase w = ''map'' \<and> route w = route c @ [nd_id n] \<and>
            perks w = perks c @ replicate (if phase c = ''reward'' \<and> nd_type n = NElite then 2 else 1) k \<and>
            operationalCredits w = operationalCredits c + camp_credits c) \<and>
          fst (chooseCampaignReward js w k' st') = w
        else w = c)"
proof -
  have lg: "legal c" by (rule reach_legal [OF assms])
  let ?w = "fst (chooseCampaignReward js c k st)"
  note r = legal_reward [OF lg, where js = js and k = k and st = st]
  show ?thesis
  proof (cases "reward_phase c \<and> perkById k \<noteq> None")
    case True
    then obtain i n where n: "selectedNodeId c = Some i" "selected_node c = Some n" "phase ?w = ''map''"
        "route ?w = route c @ [i]" "perks ?w = perks c @ replicate (reward_stacks c n) k"
        "operationalCredits ?w = operationalCredits c + camp_credits c"
      using r(2) by (auto simp: Let_def)
    obtain x where "selected_node c = Some x" "nd_id x = i" by (rule legal_selected [OF lg n(1)])
    then have "nd_id n = i" using n(2) by simp
    moreover have "fst (chooseCampaignReward js ?w k' st') = ?w"
      using legal_reward(2) [OF r(1), of k' js st'] n(3) by (simp add: reward_phase_def)
    ultimately show ?thesis using n True by (simp add: Let_def reward_stacks_def)
  qed (use r(2) in auto)
qed

theorem reward_taken_once_witness: "fst (chooseCampaignReward no_text new_operation ''steel_pulse'' no_store) = new_operation"
  using reward_taken_once [OF new_operation_reach, of no_text "''steel_pulse''" no_store "[]" no_store]
  by (simp add: Let_def new_operation_def reward_phase_def)

text \<open>An event is settled once and at its price: an offered choice that the credits cover costs
  exactly what it says, pays what it says, keeps the carried threat within 12 and clears the
  sector; an unknown or unaffordable one changes nothing, and so does a second choice.\<close>

theorem event_settled_once:
  assumes "campaign_reach js c"
  shows "let w = fst (resolveCampaignEvent js c k st)
    in case List.find (\<lambda>x. eo_id x = k) (campaignEventOptions c) of
         None \<Rightarrow> w = c
       | Some x \<Rightarrow>
           (if operationalCredits c < eo_creditCost x then w = c
            else phase w = ''map'' \<and> length (route w) = length (route c) + 1 \<and>
              operationalCredits w = operationalCredits c - eo_creditCost x + eo_credits x \<and>
              0 \<le> eo_creditCost x \<and> 0 \<le> eo_credits x \<and> 0 \<le> operationalCredits w \<and> \<bar>nextDifficultyDelta w\<bar> \<le> 12 \<and>
              fst (resolveCampaignEvent js w k' st') = w)"
proof -
  have lg: "legal c" by (rule reach_legal [OF assms])
  let ?w = "fst (resolveCampaignEvent js c k st)"
  note r = legal_event [OF lg, where js = js and k = k and st = st]
  show ?thesis
  proof (cases "List.find (\<lambda>x. eo_id x = k) (campaignEventOptions c)")
    case None
    then show ?thesis using r(2) by (simp add: Let_def)
  next
    case (Some x)
    have x: "x \<in> set (campaignEventOptions c)" using find_set [OF Some] by simp
    have "0 \<le> operationalCredits c" using lg by (simp add: legal_def good_def campaign_inv_def)
    then have dis: "eo_disabled x = (operationalCredits c < eo_creditCost x)" using event_options_ok(2) [OF x] by simp
    show ?thesis
    proof (cases "eo_disabled x")
      case True
      then show ?thesis using r(2) Some dis by (simp add: Let_def)
    next
      case False
      then have w: "phase ?w = ''map''" "length (route ?w) = length (route c) + 1" "0 \<le> eo_creditCost x" "0 \<le> eo_credits x"
          "operationalCredits ?w = operationalCredits c - eo_creditCost x + eo_credits x"
          "-12 \<le> nextDifficultyDelta ?w" "nextDifficultyDelta ?w \<le> 12"
        using r(2) Some by (auto simp: Let_def)
      have "fst (resolveCampaignEvent js ?w k' st') = ?w" using w(1) by (simp add: resolveCampaignEvent_def)
      then show ?thesis using w False dis Some by (simp add: Let_def abs_le_iff)
    qed
  qed
qed

theorem event_settled_once_witness: "fst (resolveCampaignEvent no_text new_operation ''trade'' no_store) = new_operation"
  using event_settled_once [OF new_operation_reach, of no_text "''trade''" no_store "[]" no_store]
  by (simp add: Let_def campaignEventOptions_def selected_node_def campaignNode_def new_operation_def emptyCampaign_def)

text \<open>Intel is bought at its exact price or not at all: a purchase either leaves the state as it was,
  or takes the price of the next tier, at least 1 and covered by the credits, and raises the level of
  the selected sector by one, never above 3; nothing else of the state changes but the log.\<close>

theorem intel_exact_price:
  assumes "campaign_reach js c"
  shows "let w = fst (purchaseCampaignIntel js c i st)
    in w = c \<or>
       (\<exists>t. nextCampaignIntelTier c i = Some t \<and> 1 \<le> it_cost t \<and> it_cost t \<le> operationalCredits c \<and> i = selectedNodeId c \<and>
          operationalCredits w = operationalCredits c - it_cost t \<and> 0 \<le> operationalCredits w \<and>
          campaignIntelLevel w i = campaignIntelLevel c i + 1 \<and> campaignIntelLevel w i \<le> 3 \<and>
          w = c\<lparr>operationalCredits := operationalCredits w, intelligenceByNode := intelligenceByNode w, eventLog := eventLog w\<rparr>)"
proof -
  have lg: "legal c" by (rule reach_legal [OF assms])
  let ?w = "fst (purchaseCampaignIntel js c i st)"
  show ?thesis
  proof (cases "?w = c")
    case False
    then obtain j t l where t: "i = Some j" "selectedNodeId c = Some j" "nextCampaignIntelTier c i = Some t"
        "it_cost t \<le> operationalCredits c" "1 \<le> it_cost t" "it_level t = campaignIntelLevel c i + 1"
        "?w = c\<lparr>operationalCredits := operationalCredits c - it_cost t,
           intelligenceByNode := obj_put j (it_level t) (intelligenceByNode c), eventLog := l\<rparr>"
      using legal_purchase(1) [OF lg, of js i st] by blast
    have "0 \<le> campaignIntelLevel c i" "campaignIntelLevel c i + 1 \<le> 3"
      using t(3) tier_levels [of "campaignIntelLevel c i + 1"] intel_level_bounds [of "intelligenceByNode c" j]
      by (auto simp: nextCampaignIntelTier_def Let_def t(1) campaignIntelLevel_def)
    then have "campaignIntelLevel ?w i = campaignIntelLevel c i + 1"
      using t(1,6,7) by (simp add: campaignIntelLevel_def intel_level_def clampIntelLevel_def)
    then show ?thesis using t \<open>campaignIntelLevel c i + 1 \<le> 3\<close> by (simp add: Let_def)
  qed (simp add: Let_def)
qed

theorem intel_exact_price_witness:
  "fst (purchaseCampaignIntel no_text new_operation None no_store) = new_operation"
  using intel_exact_price [OF new_operation_reach, of no_text None no_store]
  by (simp add: Let_def nextCampaignIntelTier_def new_operation_def emptyCampaign_def campaignIntelLevel_def)

section \<open>Saving and loading, ending and resuming\<close>

text \<open>C24: what the storage hands back is what was in play: saving a reachable state keeps it as it is,
  loading after it gives it back, and saving the loaded state writes the same text again.\<close>

theorem save_load_roundtrip:
  assumes "campaign_reach js c" "survives js (to_json c)"
  shows "let (d, st1) = saveCampaign js c st
    in d = c \<and> loadCampaign js st1 = c \<and> saveCampaign js (loadCampaign js st1) st1 = (c, st1)"
proof -
  have g: "good c" using reach_legal [OF assms(1)] by (simp add: legal_def)
  note sv = save_good [OF g, of js]
  have "loadCampaign js (st(KEY \<mapsto> stringify js (to_json c))) = c"
    using assms(2) g by (simp add: loadCampaign_def survives_def good_def normalize_fix)
  then show ?thesis by (simp add: sv)
qed

theorem save_load_roundtrip_witness:
  "let js = \<lparr>stringify = (\<lambda>_. ''x''), parse = (\<lambda>_. Some (to_json new_operation))\<rparr>
   in loadCampaign js (snd (saveCampaign js new_operation (\<lambda>_. None))) = new_operation"
  using save_load_roundtrip [OF new_operation_reach, of "\<lparr>stringify = (\<lambda>_. ''x''), parse = (\<lambda>_. Some (to_json new_operation))\<rparr>" "\<lambda>_. None"]
  by (simp add: survives_def Let_def split: prod.splits)

lemma recovered_phase: "phase (recovered_state c l) \<noteq> ''completed''"
  by (simp add: recovered_state_def)

lemma resume_state:
  assumes c: "legal c" and p: "phase c \<noteq> ''completed''"
  shows "\<exists>l l'. resumableCampaignState (to_json c) = Inr (Some (recovered_state c l)) \<and> legal (recovered_state c l) \<and>
    resumableCampaignState (to_json (recovered_state c l)) = Inr (Some (recovered_state (recovered_state c l) l'))
    \<and> legal (recovered_state (recovered_state c l) l')"
  using resumable_to_json [OF c p] recovered_legal [OF c p] recovered_phase resumable_to_json recovered_legal by metis

lemma recovered_twice: "recovered_state (recovered_state c l) l' = recovered_state c l'"
  by (simp add: recovered_state_def fight_phase_def)

lemma truthy_to_json: "truthy (to_json c)"
  by (simp add: truthy_def to_json_def)

text \<open>Interrupting an operation does not lose it: ending it archives an entry, from which resuming
  brings back the same route, position, perks, relics, credits, intel and carried threat, at the
  briefing of the sector whose battle was under way or on the map, and takes the entry out of the
  archive; the storage holds the resumed operation.\<close>

theorem interrupted_then_resumed:
  assumes "campaign_reach js c" "phase c \<noteq> ''completed''"
  shows "let (r, st1) = endCampaign js now c ''interrupted'' st
    in loadCampaign js st1 = loadCampaign js (snd (saveCampaign js emptyCampaign st)) \<and>
       (\<exists>entry c' l st2. er_archiveEntry r = Some entry \<and> resumeInterruptedCampaign js entry st1 = Inr (c', st2) \<and>
          c' = c\<lparr>phase := (if fight_phase (phase c) then ''briefing'' else ''map''),
                selectedNodeId := (if fight_phase (phase c) then selectedNodeId c else None), eventLog := l\<rparr> \<and>
          campaign_inv c' \<and> st2 KEY = Some (stringify js (to_json c')))"
proof -
  have lg: "legal c" by (rule reach_legal [OF assms(1)])
  obtain s where s: "seed c = Some s" "s \<noteq> []" "active c" by (rule on_map [OF lg])
  obtain l l' where l: "resumableCampaignState (to_json c) = Inr (Some (recovered_state c l))"
      "resumableCampaignState (to_json (recovered_state c l)) = Inr (Some (recovered_state c l'))"
      "legal (recovered_state c l')"
    using resume_state [OF lg assms(2)] unfolding recovered_twice by blast
  have g: "good (recovered_state c l')" "active (recovered_state c l')" using l(3) by (simp_all add: legal_def)
  obtain r st1 where e: "endCampaign js now c ''interrupted'' st = (r, st1)" by (cases "endCampaign js now c ''interrupted'' st")
  have k: "KEY \<noteq> OPERATION_ARCHIVE_KEY" "KEY \<noteq> BEST_STAGE_KEY"
    by (simp_all add: KEY_def OPERATION_ARCHIVE_KEY_def BEST_STAGE_KEY_def)
  have st1: "st1 KEY = Some (stringify js (to_json (normalizeCampaign (to_json emptyCampaign))))"
    using e by (auto simp: endCampaign_def Let_def saveCampaign_def split: prod.splits)
  then have load: "loadCampaign js st1 = loadCampaign js (snd (saveCampaign js emptyCampaign st))"
    by (simp add: loadCampaign_def saveCampaign_def Let_def)
  obtain stage where en: "er_archiveEntry r = Some (archive_entry now c s ''interrupted'' stage)"
    using e s by (auto simp: endCampaign_def archiveCampaignOperation_def Let_def split: prod.splits)
  let ?entry = "archive_entry now c s ''interrupted'' stage"
  have f: "truthy ?entry" "field ''reason'' ?entry = JStr ''interrupted''" "truthy (field ''id'' ?entry)"
      "truthy (field ''seed'' ?entry)" "field ''resumeState'' ?entry = to_json (recovered_state c l)"
    using s l(1) by (simp_all add: archive_entry_def truthy_def Let_def field_def)
  obtain st2 where r2: "resumeInterruptedCampaign js ?entry st1 = Inr (recovered_state c l', st2)"
      "st2 KEY = Some (stringify js (to_json (recovered_state c l')))"
    unfolding resumeInterruptedCampaign_def f using f g l(2) by (simp add: truthy_to_json save_good Let_def)
  have "recovered_state c l' = c\<lparr>phase := (if fight_phase (phase c) then ''briefing'' else ''map''),
                selectedNodeId := (if fight_phase (phase c) then selectedNodeId c else None), eventLog := l'\<rparr>"
    by (simp add: recovered_state_def)
  moreover have "campaign_inv (recovered_state c l')" using g by (simp add: good_def)
  ultimately show ?thesis unfolding e using load en r2 by (auto simp: Let_def)
qed

theorem interrupted_then_resumed_witness:
  "\<exists>entry c' st2. er_archiveEntry (fst (endCampaign no_text 0 new_operation ''interrupted'' no_store)) = Some entry \<and>
     resumeInterruptedCampaign no_text entry (snd (endCampaign no_text 0 new_operation ''interrupted'' no_store)) = Inr (c', st2) \<and>
     route c' = route new_operation"
  using interrupted_then_resumed [OF new_operation_reach, of no_text 0 no_store]
  by (fastforce simp: Let_def new_operation_def split: prod.splits)

end
