(* ===== verification/GameSeries.thy ===== *)
theory GameSeries
  imports JsonValues StateMachines
begin

text \<open>
  Results of games and series of games: \<open>gameOutcome.js\<close>, \<open>seriesFlow.js\<close> and \<open>series.js\<close>.

  The active series is the record \<open>series\<close>; what the storage returns, and the rows of the history,
  are \<open>json\<close>. An operation that can throw returns \<open>Inl\<close> the message. Ids and dates are arguments;
  counts of wins are added exactly. A move count is an integer, as every caller passes a length.
\<close>

section \<open>Game outcomes\<close>

definition COMPLETED_GAME_OUTCOMES :: "string list" where
  "COMPLETED_GAME_OUTCOMES = [''win'', ''draw'', ''loss'']"

definition isCompletedGameOutcome :: "json \<Rightarrow> bool" where
  "isCompletedGameOutcome outcome \<longleftrightarrow> outcome \<in> set (map JStr COMPLETED_GAME_OUTCOMES)"

definition shouldApplyCompetitiveProgress :: "json \<Rightarrow> bool \<Rightarrow> bool \<Rightarrow> bool" where
  "shouldApplyCompetitiveProgress outcome learningMode trainingPosition \<longleftrightarrow>
     isCompletedGameOutcome outcome \<and> \<not> learningMode \<and> \<not> trainingPosition"

definition humanMoveCount :: "int \<Rightarrow> string \<Rightarrow> int" where
  "humanMoveCount moveCount humanColor =
     (let plies = max 0 moveCount
      in if humanColor = ''b'' then plies div 2 else (plies + 1) div 2)"

text \<open>What the outcome of a game is read from. Of a move only whether it captured matters; the
  material flags are those of the two colours.\<close>

record game_view =
  gv_captures :: "bool list"
  gv_humanColor :: string
  gv_initialFen :: string
  gv_isGameOver :: bool
  gv_status :: string
  gv_turn :: string
  gv_insufficient :: "string \<Rightarrow> bool"

text \<open>\<open>s.split(/\s+/)[1]\<close>.\<close>

definition second_word :: "string \<Rightarrow> string option" where
  "second_word s =
     (case dropWhile (\<lambda>c. \<not> is_blank c) s of [] \<Rightarrow> None
      | r \<Rightarrow> Some (takeWhile (\<lambda>c. \<not> is_blank c) (dropWhile is_blank r)))"

definition humanHasLostPiece :: "game_view \<Rightarrow> bool" where
  "humanHasLostPiece game =
     (let humanColor = (if gv_humanColor game = ''b'' then ''b'' else ''w'');
          initialTurn = (if second_word (gv_initialFen game) = Some ''b'' then ''b'' else ''w'')
      in list_ex (\<lambda>(index, captured).
           if \<not> captured then False
           else let moverColor = (if index mod 2 = 0 then initialTurn else if initialTurn = ''w'' then ''b'' else ''w'')
                in moverColor \<noteq> humanColor)
         (enumerate 0 (gv_captures game)))"

definition flagGameOutcome :: "string \<Rightarrow> string \<Rightarrow> (string \<Rightarrow> bool) \<Rightarrow> string option" where
  "flagGameOutcome flagColor humanColor insufficient =
     (if flagColor \<noteq> ''w'' \<and> flagColor \<noteq> ''b'' then None
      else let survivingColor = (if flagColor = ''w'' then ''b'' else ''w'')
           in if insufficient survivingColor then Some ''draw''
              else if flagColor = humanColor then Some ''loss'' else Some ''win'')"

definition boardGameOutcome :: "game_view \<Rightarrow> string \<Rightarrow> string option" where
  "boardGameOutcome game humanColor =
     (if \<not> gv_isGameOver game then None
      else if gv_status game = ''checkmate'' then (if gv_turn game = humanColor then Some ''loss'' else Some ''win'')
      else Some ''draw'')"

definition terminalGameOutcome :: "game_view \<Rightarrow> string \<Rightarrow> string \<Rightarrow> json \<Rightarrow> string option" where
  "terminalGameOutcome game humanColor flagFallen forcedOutcome =
     (case forcedOutcome of
        JStr f \<Rightarrow> if isCompletedGameOutcome (JStr f) then Some f
                  else if flagFallen \<noteq> [] then flagGameOutcome flagFallen humanColor (gv_insufficient game)
                  else boardGameOutcome game humanColor
      | _ \<Rightarrow> if flagFallen \<noteq> [] then flagGameOutcome flagFallen humanColor (gv_insufficient game)
             else boardGameOutcome game humanColor)"

record exit_context =
  ex_learningMode :: bool
  ex_trainingPosition :: bool
  ex_explicitAction :: bool
  ex_recoverableSession :: bool

definition shouldTreatExitAsForfeit :: "int \<Rightarrow> bool \<Rightarrow> bool \<Rightarrow> exit_context \<Rightarrow> bool" where
  "shouldTreatExitAsForfeit moveCount humanPieceLost isGameOver e \<longleftrightarrow>
     0 < moveCount \<and> humanPieceLost \<and> \<not> isGameOver \<and> \<not> ex_learningMode e \<and> \<not> ex_trainingPosition e"

definition gameExitDisposition :: "int \<Rightarrow> bool \<Rightarrow> bool \<Rightarrow> exit_context \<Rightarrow> string" where
  "gameExitDisposition moveCount humanPieceLost isGameOver e =
     (if \<not> ex_explicitAction e \<and> ex_recoverableSession e then ''resume''
      else if ex_explicitAction e \<and> shouldTreatExitAsForfeit moveCount humanPieceLost isGameOver e then ''forfeit''
      else ''cancel'')"

definition chessGameExitDisposition :: "game_view \<Rightarrow> exit_context \<Rightarrow> string" where
  "chessGameExitDisposition game e =
     gameExitDisposition (humanMoveCount (int (length (gv_captures game))) (gv_humanColor game))
       (humanHasLostPiece game) (gv_isGameOver game) e"

section \<open>The active series\<close>

definition ACTIVE_KEY :: string where "ACTIVE_KEY = ''chess-study-active-series''"
definition HISTORY_KEY :: string where "HISTORY_KEY = ''chess-study-series-history''"
definition MAX_HISTORY :: nat where "MAX_HISTORY = 20"

definition SERIES_OPTIONS :: "(int \<times> string) list" where
  "SERIES_OPTIONS = [(1, (''Partida '' @ [CHR 0xFA] @ ''nica'')), (3, ''Mejor de 3''), (5, ''Mejor de 5'')]"

record series =
  se_version :: json
  se_id :: json
  se_bestOf :: int
  se_winsNeeded :: int
  se_difficulty :: json
  se_timeControlId :: json
  se_adaptive :: bool
  se_humanWins :: rat
  se_cpuWins :: rat
  se_draws :: rat
  se_games :: "json list"
  se_currentGameId :: json
  se_nextColor :: string
  se_winner :: "string option"
  se_completedAt :: json

definition series_json :: "series \<Rightarrow> json" where
  "series_json s =
     JObj [(''version'', se_version s), (''id'', se_id s), (''bestOf'', JInt (se_bestOf s)),
           (''winsNeeded'', JInt (se_winsNeeded s)), (''difficulty'', se_difficulty s),
           (''timeControlId'', se_timeControlId s), (''adaptiveDifficulty'', JBool (se_adaptive s)),
           (''humanWins'', JNum (Fin (se_humanWins s))), (''cpuWins'', JNum (Fin (se_cpuWins s))),
           (''draws'', JNum (Fin (se_draws s))), (''games'', JArr (se_games s)),
           (''currentGameId'', se_currentGameId s), (''nextColor'', JStr (se_nextColor s)),
           (''winner'', case se_winner s of None \<Rightarrow> JNull | Some w \<Rightarrow> JStr w),
           (''completedAt'', se_completedAt s)]"

definition isCompetitiveSeriesBestOf :: "json \<Rightarrow> bool" where
  "isCompetitiveSeriesBestOf v \<longleftrightarrow>
     (case json_number v of Fin q \<Rightarrow> 1 < q \<and> q \<in> set (map (\<lambda>o1. of_int (fst o1)) SERIES_OPTIONS) | _ \<Rightarrow> False)"

definition best_of :: "json \<Rightarrow> int" where
  "best_of v = (case json_number v of Fin q \<Rightarrow> \<lfloor>q\<rfloor> | _ \<Rightarrow> 0)"

definition normalizeColor :: "json \<Rightarrow> string" where
  "normalizeColor color = (if color = JStr ''b'' then ''b'' else ''w'')"

text \<open>\<open>new_id\<close> is the generated id; the two options with defaults are arguments.\<close>

definition createSeries :: "string \<Rightarrow> json \<Rightarrow> json \<Rightarrow> json \<Rightarrow> json \<Rightarrow> json \<Rightarrow> series option" where
  "createSeries new_id bestOf difficulty firstColor timeControlId adaptiveDifficulty =
     (if \<not> isCompetitiveSeriesBestOf bestOf then None
      else let n = best_of bestOf
           in Some \<lparr>se_version = JInt 1, se_id = JStr new_id, se_bestOf = n, se_winsNeeded = n div 2 + 1,
                    se_difficulty = JNum (json_number difficulty), se_timeControlId = timeControlId,
                    se_adaptive = (adaptiveDifficulty = JBool True), se_humanWins = 0, se_cpuWins = 0, se_draws = 0,
                    se_games = [], se_currentGameId = JNull, se_nextColor = normalizeColor firstColor,
                    se_winner = None, se_completedAt = JNull\<rparr>)"

definition seriesFlowPhase :: "series \<Rightarrow> string" where
  "seriesFlowPhase s =
     (if se_winner s \<noteq> None then ''finished'' else if truthy (se_currentGameId s) then ''playing'' else ''ready'')"

definition assertSeriesFlowInvariant :: "series \<Rightarrow> string + bool" where
  "assertSeriesFlowInvariant s =
     assert_all
      ((if seriesFlowPhase s = ''finished''
        then [strictInvariant (\<not> truthy (se_currentGameId s)) ''finished series cannot own an active game''] else []) @
       (if seriesFlowPhase s = ''playing''
        then [strictInvariant (case se_currentGameId s of JStr i \<Rightarrow> 0 < length i | _ \<Rightarrow> False) ''playing series needs game id'']
        else []))"

definition attachSeriesGame :: "series \<Rightarrow> json \<Rightarrow> string + series" where
  "attachSeriesGame s gameId =
     (if se_winner s \<noteq> None \<or> truthy (se_currentGameId s) \<or> \<not> truthy gameId then Inr s
      else let next = s\<lparr>se_currentGameId := JStr (json_string gameId)\<rparr>
           in case assertSeriesFlowInvariant next of Inl e \<Rightarrow> Inl e | Inr _ \<Rightarrow> Inr next)"

text \<open>\<open>Math.max(0, Number(v || 0))\<close>.\<close>

definition wins_count :: "json \<Rightarrow> jsnum" where
  "wins_count v = (case json_number (or_else_json v (JInt 0)) of Fin q \<Rightarrow> Fin (max 0 q) | NInf \<Rightarrow> Fin 0 | n \<Rightarrow> n)"

definition series_winner :: "int \<Rightarrow> rat \<Rightarrow> rat \<Rightarrow> string option" where
  "series_winner winsNeeded humanWins cpuWins =
     (if of_int winsNeeded \<le> humanWins then Some ''human''
      else if of_int winsNeeded \<le> cpuWins then Some ''cpu'' else None)"

definition winner_json :: "string option \<Rightarrow> json" where
  "winner_json w = (case w of None \<Rightarrow> JNull | Some x \<Rightarrow> JStr x)"

text \<open>Counts that are not finite never add up to the number of games.\<close>

definition validateSeriesState :: "json \<Rightarrow> series option" where
  "validateSeriesState parsed =
     (if \<not> truthy parsed \<or> \<not> isCompetitiveSeriesBestOf (field ''bestOf'' parsed) then None
      else let bestOf = best_of (field ''bestOf'' parsed);
               winsNeeded = bestOf div 2 + 1;
               games = filter (\<lambda>g. isCompletedGameOutcome (field ''outcome'' g)) (elements (field ''games'' parsed))
           in case (wins_count (field ''humanWins'' parsed), wins_count (field ''cpuWins'' parsed),
                    wins_count (field ''draws'' parsed)) of
                (Fin humanWins, Fin cpuWins, Fin draws) \<Rightarrow>
                  (let winner = series_winner winsNeeded humanWins cpuWins;
                       normalized =
                         \<lparr>se_version = field ''version'' parsed, se_id = field ''id'' parsed, se_bestOf = bestOf,
                          se_winsNeeded = winsNeeded, se_difficulty = field ''difficulty'' parsed,
                          se_timeControlId = field ''timeControlId'' parsed,
                          se_adaptive = (field ''adaptiveDifficulty'' parsed = JBool True),
                          se_humanWins = humanWins, se_cpuWins = cpuWins, se_draws = draws, se_games = games,
                          se_currentGameId = (if winner \<noteq> None then JNull
                                              else or_else_json (field ''currentGameId'' parsed) JNull),
                          se_nextColor = normalizeColor (field ''nextColor'' parsed), se_winner = winner,
                          se_completedAt = field ''completedAt'' parsed\<rparr>
                   in if humanWins + cpuWins + draws \<noteq> of_nat (length games) then None
                      else if of_int winsNeeded < humanWins \<or> of_int winsNeeded < cpuWins then None
                      else if truthy (field ''winner'' parsed) \<and> field ''winner'' parsed \<noteq> winner_json winner then None
                      else case assertSeriesFlowInvariant normalized of Inl _ \<Rightarrow> None | Inr _ \<Rightarrow> Some normalized)
              | _ \<Rightarrow> None)"

definition loadActiveSeries :: "json_api \<Rightarrow> store \<Rightarrow> series option" where
  "loadActiveSeries js st = validateSeriesState (read_json js ACTIVE_KEY JNull st)"

definition saveActiveSeries :: "json_api \<Rightarrow> series option \<Rightarrow> store \<Rightarrow> store" where
  "saveActiveSeries js s st =
     (case s of None \<Rightarrow> st(ACTIVE_KEY := None) | Some x \<Rightarrow> st(ACTIVE_KEY \<mapsto> stringify js (series_json x)))"

definition clearActiveSeries :: "store \<Rightarrow> store" where
  "clearActiveSeries st = st(ACTIVE_KEY := None)"

definition loadSeriesHistory :: "json_api \<Rightarrow> store \<Rightarrow> json list" where
  "loadSeriesHistory js st = elements (read_json js HISTORY_KEY (JArr []) st)"

text \<open>\<open>history.some((item) => item.id === id)\<close>: a null row throws.\<close>

fun archived :: "json \<Rightarrow> json list \<Rightarrow> string + bool" where
  "archived i [] = Inr False"
| "archived i (x # xs) =
     (if x = JNull \<or> x = JUndef then Inl ''TypeError''
      else if strict_eq (field ''id'' x) i then Inr True else archived i xs)"

definition archiveCompletedSeries :: "json_api \<Rightarrow> series \<Rightarrow> store \<Rightarrow> string + store" where
  "archiveCompletedSeries js s st =
     (let history = loadSeriesHistory js st
      in case archived (se_id s) history of
           Inl e \<Rightarrow> Inl e
         | Inr True \<Rightarrow> Inr st
         | Inr False \<Rightarrow> Inr (st(HISTORY_KEY \<mapsto> stringify js (JArr (take MAX_HISTORY (series_json s # history))))))"

definition game_row :: "string \<Rightarrow> string \<Rightarrow> json \<Rightarrow> json" where
  "game_row now outcome meta =
     JObj [(''date'', JStr now), (''outcome'', JStr outcome), (''humanColor'', JStr (normalizeColor (field ''humanColor'' meta))),
           (''gameId'', or_else_json (field ''gameId'' meta) JNull),
           (''moves'', JNum (json_number (or_else_json (field ''moves'' meta) (JInt 0)))),
           (''opening'', or_else_json (field ''opening'' meta) JNull)]"

text \<open>The series after a game, before it is archived and saved; \<open>now\<close> is the ISO date.\<close>

definition counted_game :: "string \<Rightarrow> series \<Rightarrow> string \<Rightarrow> json \<Rightarrow> series" where
  "counted_game now s outcome meta =
     (let h = se_humanWins s + (if outcome = ''win'' then 1 else 0);
          c = se_cpuWins s + (if outcome = ''loss'' then 1 else 0);
          d = se_draws s + (if outcome \<noteq> ''win'' \<and> outcome \<noteq> ''loss'' then 1 else 0);
          w = (if of_int (se_winsNeeded s) \<le> h then Some ''human''
               else if of_int (se_winsNeeded s) \<le> c then Some ''cpu'' else se_winner s)
      in s\<lparr>se_humanWins := h, se_cpuWins := c, se_draws := d, se_games := se_games s @ [game_row now outcome meta],
           se_currentGameId := JNull,
           se_nextColor := (if normalizeColor (field ''humanColor'' meta) = ''w'' then ''b'' else ''w''),
           se_winner := w, se_completedAt := (if w \<noteq> None then JStr now else se_completedAt s)\<rparr>)"

text \<open>\<open>series.games.some((g) => g.gameId === gameId)\<close>, in order: a null row met before a match throws.\<close>

fun played_game :: "json \<Rightarrow> json list \<Rightarrow> string + bool" where
  "played_game i [] = Inr False"
| "played_game i (g # gs) =
     (if g = JNull \<or> g = JUndef then Inl ''TypeError''
      else if strict_eq (field ''gameId'' g) i then Inr True else played_game i gs)"

definition recordSeriesGame ::
  "json_api \<Rightarrow> string \<Rightarrow> series \<Rightarrow> json \<Rightarrow> json \<Rightarrow> store \<Rightarrow> string + series \<times> store" where
  "recordSeriesGame js now s outcome meta st =
     (if se_winner s \<noteq> None then Inr (s, st)
      else if truthy (se_currentGameId s) \<and> truthy (field ''gameId'' meta)
              \<and> \<not> strict_eq (se_currentGameId s) (field ''gameId'' meta) then Inr (s, st)
      else case outcome of
             JStr o1 \<Rightarrow>
               if \<not> isCompletedGameOutcome outcome then Inl ((''Resultado de serie inv'' @ [CHR 0xE1] @ ''lido: '') @ json_string outcome)
               else (case (if truthy (field ''gameId'' meta) then played_game (field ''gameId'' meta) (se_games s) else Inr False) of
                       Inl e \<Rightarrow> Inl e
                     | Inr True \<Rightarrow> Inr (s, st)
                     | Inr False \<Rightarrow>
                         let next = counted_game now s o1 meta
                         in if se_winner next \<noteq> None
                            then (case archiveCompletedSeries js next st of
                                    Inl e \<Rightarrow> Inl e
                                  | Inr st1 \<Rightarrow> Inr (next, saveActiveSeries js (Some next) st1))
                            else Inr (next, saveActiveSeries js (Some next) st))
           | _ \<Rightarrow> Inl ((''Resultado de serie inv'' @ [CHR 0xE1] @ ''lido: '') @ json_string outcome))"

section \<open>Facts of a finished series\<close>

text \<open>A series of the history is the object that was stored.\<close>

record series_facts =
  sf_winner :: "string option"
  sf_sweep :: bool
  sf_comeback :: bool
  sf_decider :: bool

record facts_state =
  fs_human :: int
  fs_cpu :: int
  fs_humanTrailed :: bool
  fs_cpuTrailed :: bool
  fs_beforeLastHuman :: int
  fs_beforeLastCpu :: int

text \<open>The \<open>forEach\<close> over the games; before the last game the score is noted.\<close>

fun facts_loop :: "json list \<Rightarrow> facts_state \<Rightarrow> facts_state" where
  "facts_loop [] f = f"
| "facts_loop (g # gs) f =
     (let f1 = (if gs = [] then f\<lparr>fs_beforeLastHuman := fs_human f, fs_beforeLastCpu := fs_cpu f\<rparr> else f);
          h = (if field ''outcome'' g = JStr ''win'' then fs_human f1 + 1 else fs_human f1);
          c = (if field ''outcome'' g = JStr ''win'' then fs_cpu f1
               else if field ''outcome'' g = JStr ''loss'' then fs_cpu f1 + 1 else fs_cpu f1)
      in facts_loop gs (f1\<lparr>fs_human := h, fs_cpu := c, fs_humanTrailed := fs_humanTrailed f1 \<or> h < c,
                           fs_cpuTrailed := fs_cpuTrailed f1 \<or> c < h\<rparr>))"

definition facts_start :: facts_state where
  "facts_start = \<lparr>fs_human = 0, fs_cpu = 0, fs_humanTrailed = False, fs_cpuTrailed = False,
                  fs_beforeLastHuman = 0, fs_beforeLastCpu = 0\<rparr>"

definition known_winner :: "json \<Rightarrow> bool" where
  "known_winner s \<longleftrightarrow> field ''winner'' s = JStr ''human'' \<or> field ''winner'' s = JStr ''cpu''"

text \<open>\<open>Number(series.winsNeeded || Math.floor(Number(series.bestOf || 3) / 2) + 1)\<close>; an infinite best-of
  needs infinitely many wins.\<close>

definition wins_needed :: "json \<Rightarrow> jsnum" where
  "wins_needed s =
     (if truthy (field ''winsNeeded'' s) then json_number (field ''winsNeeded'' s)
      else case json_number (or_else_json (field ''bestOf'' s) (JInt 3)) of
             Fin q \<Rightarrow> Fin (of_int (\<lfloor>q / 2\<rfloor> + 1)) | n \<Rightarrow> n)"

definition seriesFacts :: "json \<Rightarrow> series_facts" where
  "seriesFacts s =
     (if \<not> truthy s \<or> \<not> known_winner s then \<lparr>sf_winner = None, sf_sweep = False, sf_comeback = False, sf_decider = False\<rparr>
      else let f = facts_loop (elements (field ''games'' s)) facts_start;
               human = (field ''winner'' s = JStr ''human'');
               loserWins = (if human then json_number (or_else_json (field ''cpuWins'' s) (JInt (fs_cpu f)))
                            else json_number (or_else_json (field ''humanWins'' s) (JInt (fs_human f))));
               draws = json_number (or_else_json (field ''draws'' s) (JInt 0))
           in \<lparr>sf_winner = Some (if human then ''human'' else ''cpu''),
               sf_sweep = (loserWins = Fin 0 \<and> draws = Fin 0),
               sf_comeback = (if human then fs_humanTrailed f else fs_cpuTrailed f),
               sf_decider = (case wins_needed s of
                  Fin n \<Rightarrow> of_int (fs_beforeLastHuman f) = n - 1 \<and> of_int (fs_beforeLastCpu f) = n - 1 | _ \<Rightarrow> False)\<rparr>)"

definition completedSeriesRows :: "json list \<Rightarrow> json list" where
  "completedSeriesRows history =
     filter (\<lambda>s. truthy s \<and> isCompetitiveSeriesBestOf (field ''bestOf'' s) \<and> known_winner s) history"

record series_stats =
  ss_total :: nat
  ss_won :: int
  ss_lost :: int
  ss_currentStreak :: int
  ss_bestHumanStreak :: int
  ss_bestCpuStreak :: int
  ss_humanSweeps :: int
  ss_cpuSweeps :: int
  ss_humanComebacks :: int
  ss_cpuComebacks :: int
  ss_deciders :: int

text \<open>One round of the loop; the signed streak is kept in \<open>ss_currentStreak\<close>.\<close>

definition stats_round :: "json \<Rightarrow> series_stats \<Rightarrow> series_stats" where
  "stats_round s t =
     (let f = seriesFacts s;
          t1 = (if field ''winner'' s = JStr ''human''
                then let signed = (if 0 \<le> ss_currentStreak t then ss_currentStreak t + 1 else 1)
                     in t\<lparr>ss_won := ss_won t + 1, ss_currentStreak := signed,
                          ss_bestHumanStreak := max (ss_bestHumanStreak t) signed,
                          ss_humanSweeps := ss_humanSweeps t + (if sf_sweep f then 1 else 0),
                          ss_humanComebacks := ss_humanComebacks t + (if sf_comeback f then 1 else 0)\<rparr>
                else let signed = (if ss_currentStreak t \<le> 0 then ss_currentStreak t - 1 else -1)
                     in t\<lparr>ss_lost := ss_lost t + 1, ss_currentStreak := signed,
                          ss_bestCpuStreak := max (ss_bestCpuStreak t) \<bar>signed\<bar>,
                          ss_cpuSweeps := ss_cpuSweeps t + (if sf_sweep f then 1 else 0),
                          ss_cpuComebacks := ss_cpuComebacks t + (if sf_comeback f then 1 else 0)\<rparr>)
      in t1\<lparr>ss_deciders := ss_deciders t1 + (if sf_decider f then 1 else 0)\<rparr>)"

text \<open>\<open>time_of\<close> reads \<open>completedAt || 0\<close> as a time: \<open>Date\<close> is an argument, and the rows hold valid dates.\<close>

definition seriesHistoryStats :: "(json \<Rightarrow> rat) \<Rightarrow> json list \<Rightarrow> series_stats" where
  "seriesHistoryStats time_of history =
     (let rows = completedSeriesRows history;
          chronological = sort_key (\<lambda>s. time_of (or_else_json (field ''completedAt'' s) (JInt 0))) rows
      in fold stats_round chronological
           \<lparr>ss_total = length rows, ss_won = 0, ss_lost = 0, ss_currentStreak = 0, ss_bestHumanStreak = 0,
            ss_bestCpuStreak = 0, ss_humanSweeps = 0, ss_cpuSweeps = 0, ss_humanComebacks = 0, ss_cpuComebacks = 0,
            ss_deciders = 0\<rparr>)"

section \<open>Texts\<close>

definition shown :: "rat \<Rightarrow> string" where
  "shown q = show_number (Fin q)"

definition seriesScoreText :: "series \<Rightarrow> string" where
  "seriesScoreText s =
     (''T'' @ [CHR 0xFA] @ '' '') @ shown (se_humanWins s) @ ('' '' @ [CHR 0xB7] @ '' CPU '') @ shown (se_cpuWins s)
       @ (if se_draws s \<noteq> 0 then ('' '' @ [CHR 0xB7] @ '' tablas '') @ shown (se_draws s) else [])"

definition seriesStatusText :: "series option \<Rightarrow> string" where
  "seriesStatusText x =
     (case x of None \<Rightarrow> []
      | Some s \<Rightarrow>
          if se_winner s = Some ''human'' then ''Serie ganada '' @ shown (se_humanWins s) @ ''-'' @ shown (se_cpuWins s)
          else if se_winner s = Some ''cpu'' then ''Serie perdida '' @ shown (se_humanWins s) @ ''-'' @ shown (se_cpuWins s)
          else ''Mejor de '' @ show_int (se_bestOf s) @ ('' '' @ [CHR 0xB7] @ '' '') @ seriesScoreText s)"

definition seriesHeadline :: "json \<Rightarrow> string" where
  "seriesHeadline s =
     (if \<not> truthy s \<or> \<not> known_winner s then ''Serie sin cerrar''
      else let f = seriesFacts s;
               score = show_number (json_number (or_else_json (field ''humanWins'' s) (JInt 0))) @ ''-''
                       @ show_number (json_number (or_else_json (field ''cpuWins'' s) (JInt 0)));
               owner = (if field ''winner'' s = JStr ''human'' then ''Victoria'' else ''Derrota'')
           in if sf_sweep f then owner @ ('' por barrida '' @ [CHR 0xB7] @ '' '') @ score
              else if sf_comeback f then owner @ ('' con remontada '' @ [CHR 0xB7] @ '' '') @ score
              else if sf_decider f then owner @ ('' en la decisiva '' @ [CHR 0xB7] @ '' '') @ score
              else owner @ ('' '' @ [CHR 0xB7] @ '' '') @ score)"

record series_moment =
  sm_kind :: string
  sm_label :: string
  sm_headline :: string
  sm_detail :: string

definition seriesLiveMoment :: "series option \<Rightarrow> series_moment option" where
  "seriesLiveMoment x =
     (case x of None \<Rightarrow> None
      | Some s \<Rightarrow>
          let score = shown (se_humanWins s) @ ''-'' @ shown (se_cpuWins s);
              humanNeed = max 0 (of_int (se_winsNeeded s) - se_humanWins s);
              cpuNeed = max 0 (of_int (se_winsNeeded s) - se_cpuWins s)
          in Some
           (if se_winner s \<noteq> None
            then \<lparr>sm_kind = ''finished'', sm_label = ''SERIE CERRADA'', sm_headline = seriesHeadline (series_json s),
                  sm_detail = (''El resultado ya est'' @ [CHR 0xE1] @ '' archivado en el expediente de series.'')\<rparr>
            else if se_games s = []
            then \<lparr>sm_kind = ''opening'', sm_label = ''ARRANQUE'', sm_headline = ''Mejor de '' @ show_int (se_bestOf s),
                  sm_detail = ''Primero en llegar a '' @ show_int (se_winsNeeded s) @ '' victorias.''\<rparr>
            else if humanNeed = 1 \<and> cpuNeed = 1
            then \<lparr>sm_kind = ''decider'', sm_label = ''TODO O NADA'', sm_headline = (''La pr'' @ [CHR 0xF3] @ ''xima victoria cierra la serie''),
                  sm_detail = ''Marcador '' @ score @ (''. Unas tablas s'' @ [CHR 0xF3] @ ''lo aplazan la sentencia.'')\<rparr>
            else if humanNeed = 1
            then \<lparr>sm_kind = ''human-match-point'', sm_label = ''PUNTO DE SERIE'', sm_headline = ''Puedes cerrarla en la siguiente'',
                  sm_detail = ''Mandas '' @ score @ (''; una victoria m'' @ [CHR 0xE1] @ ''s y se acab'' @ [CHR 0xF3] @ ''.'')\<rparr>
            else if cpuNeed = 1
            then \<lparr>sm_kind = ''cpu-match-point'', sm_label = ''CONTRA LAS CUERDAS'', sm_headline = ''La CPU puede cerrar la serie'',
                  sm_detail = ''Vas '' @ score @ ''; necesitas responder antes de que firme el acta.''\<rparr>
            else if se_cpuWins s < se_humanWins s
            then \<lparr>sm_kind = ''leading'', sm_label = ''VENTAJA'', sm_headline = ''Mandas '' @ score,
                  sm_detail = ''La siguiente puede convertir ventaja en punto de serie.''\<rparr>
            else if se_humanWins s < se_cpuWins s
            then \<lparr>sm_kind = ''trailing'', sm_label = ''TOCA REMONTAR'', sm_headline = ''Vas '' @ score,
                  sm_detail = ''La serie sigue abierta, pero ya no sobra margen.''\<rparr>
            else \<lparr>sm_kind = ''tied'', sm_label = ''IGUALADA'', sm_headline = ''Marcador '' @ score,
                  sm_detail = (''Nadie tiene a'' @ [CHR 0xFA] @ ''n punto de serie.'')\<rparr>))"

definition seriesNextActionLabel :: "series option \<Rightarrow> string" where
  "seriesNextActionLabel x =
     (case seriesLiveMoment x of
        None \<Rightarrow> (''Volver al men'' @ [CHR 0xFA])
      | Some m \<Rightarrow>
          if sm_kind m = ''finished'' then (''Volver al men'' @ [CHR 0xFA])
          else if sm_kind m = ''decider'' then ''Jugar la decisiva''
          else if sm_kind m = ''human-match-point'' then ''Intentar cerrar la serie''
          else if sm_kind m = ''cpu-match-point'' then ''Seguir vivo en la serie''
          else ''Siguiente partida de la serie'')"

end
