(* ===== verification/GameSeriesProps.thy ===== *)
theory GameSeriesProps
  imports GameSeries
begin

text \<open>
  Properties of a series of games: the score of every reachable series is the recount of its games,
  a series ends when it must, survives a reload, and a game is counted once.
\<close>

definition outcome_count :: "string \<Rightarrow> json list \<Rightarrow> nat" where
  "outcome_count o1 games = length (filter (\<lambda>g. field ''outcome'' g = JStr o1) games)"

inductive series_reach :: "json_api \<Rightarrow> series \<Rightarrow> bool" for js where
  create: "createSeries i b d c t a = Some s \<Longrightarrow> series_reach js s"
| attach: "series_reach js s \<Longrightarrow> attachSeriesGame s (JStr g) = Inr t \<Longrightarrow> series_reach js t"
| play: "series_reach js s \<Longrightarrow> recordSeriesGame js now s outcome meta st = Inr (t, st1) \<Longrightarrow> series_reach js t"

definition score_ok :: "series \<Rightarrow> bool" where
  "score_ok s \<longleftrightarrow>
     (se_bestOf s = 3 \<or> se_bestOf s = 5) \<and> se_winsNeeded s = se_bestOf s div 2 + 1 \<and>
     list_all (\<lambda>g. isCompletedGameOutcome (field ''outcome'' g)) (se_games s) \<and>
     se_humanWins s = of_nat (outcome_count ''win'' (se_games s)) \<and>
     se_cpuWins s = of_nat (outcome_count ''loss'' (se_games s)) \<and>
     se_draws s = of_nat (outcome_count ''draw'' (se_games s)) \<and>
     int (outcome_count ''win'' (se_games s)) \<le> se_winsNeeded s \<and>
     int (outcome_count ''loss'' (se_games s)) \<le> se_winsNeeded s \<and>
     (int (outcome_count ''win'' (se_games s)) < se_winsNeeded s \<or> int (outcome_count ''loss'' (se_games s)) < se_winsNeeded s) \<and>
     se_winner s = (if int (outcome_count ''win'' (se_games s)) = se_winsNeeded s then Some ''human''
                    else if int (outcome_count ''loss'' (se_games s)) = se_winsNeeded s then Some ''cpu'' else None)"

definition series_ok :: "series \<Rightarrow> bool" where
  "series_ok s \<longleftrightarrow> score_ok s \<and>
     (se_nextColor s = ''w'' \<or> se_nextColor s = ''b'') \<and>
     (se_currentGameId s = JNull \<or> (\<exists>g. se_currentGameId s = JStr g \<and> g \<noteq> [] \<and> se_winner s = None))"

lemma outcome_count_snoc: "outcome_count o1 (gs @ [g]) = outcome_count o1 gs + (if field ''outcome'' g = JStr o1 then 1 else 0)"
  by (simp add: outcome_count_def)

lemma outcome_row [simp]: "field ''outcome'' (game_row now o1 meta) = JStr o1" "field ''gameId'' (game_row now o1 meta) = or_else_json (field ''gameId'' meta) JNull"
  by (simp_all add: game_row_def)

lemma outcomes_partition:
  "list_all (\<lambda>g. isCompletedGameOutcome (field ''outcome'' g)) gs \<Longrightarrow>
   outcome_count ''win'' gs + outcome_count ''loss'' gs + outcome_count ''draw'' gs = length gs"
  by (induction gs) (auto simp: outcome_count_def isCompletedGameOutcome_def COMPLETED_GAME_OUTCOMES_def)

lemma competitive: "isCompetitiveSeriesBestOf v \<Longrightarrow> best_of v = 3 \<or> best_of v = 5"
  by (auto simp: isCompetitiveSeriesBestOf_def best_of_def SERIES_OPTIONS_def split: jsnum.splits)

lemma competitive_int: "isCompetitiveSeriesBestOf (JInt n) \<longleftrightarrow> n = 3 \<or> n = 5" "best_of (JInt n) = n"
  using of_int_eq_iff [of n 1, where 'a = rat] of_int_eq_iff [of n 3, where 'a = rat] of_int_eq_iff [of n 5, where 'a = rat]
  by (auto simp: isCompetitiveSeriesBestOf_def best_of_def SERIES_OPTIONS_def simp del: of_int_eq_iff)

lemma normalizeColor_cases: "normalizeColor v = ''w'' \<or> normalizeColor v = ''b''"
  by (simp add: normalizeColor_def)

lemma create_ok: "createSeries i b d c t a = Some s \<Longrightarrow> series_ok s"
  using competitive [of b] normalizeColor_cases [of c]
  by (auto simp: createSeries_def Let_def series_ok_def score_ok_def outcome_count_def split: if_splits)

lemma attach_cases:
  assumes "attachSeriesGame s (JStr g) = Inr t"
  shows "t = s \<or> (se_winner s = None \<and> g \<noteq> [] \<and> t = s\<lparr>se_currentGameId := JStr g\<rparr>)"
proof (cases "se_winner s \<noteq> None \<or> truthy (se_currentGameId s) \<or> \<not> truthy (JStr g)")
  case True
  then show ?thesis using assms unfolding attachSeriesGame_def by simp
next
  case False
  then have "g \<noteq> []" "se_winner s = None" by (auto simp: truthy_def)
  then show ?thesis using assms False unfolding attachSeriesGame_def by (simp add: Let_def split: sum.splits)
qed

lemma score_ok_attach: "score_ok (s\<lparr>se_currentGameId := g\<rparr>) = score_ok s"
  unfolding score_ok_def by simp

lemma attach_ok: "series_ok s \<Longrightarrow> attachSeriesGame s (JStr g) = Inr t \<Longrightarrow> series_ok t"
proof -
  assume s: "series_ok s" and t: "attachSeriesGame s (JStr g) = Inr t"
  have "series_ok (s\<lparr>se_currentGameId := JStr g\<rparr>)" if "se_winner s = None" "g \<noteq> []"
    using s that score_ok_attach unfolding series_ok_def by simp
  then show "series_ok t" using attach_cases [OF t] s by metis
qed

text \<open>What one call can do.\<close>

lemma record_cases:
  assumes "recordSeriesGame js now s outcome meta st = Inr (t, st1)"
  obtains "t = s" "st1 = st" "\<And>now'. recordSeriesGame js now' s outcome meta st = Inr (s, st)"
  | o1 where "outcome = JStr o1" "o1 = ''win'' \<or> o1 = ''draw'' \<or> o1 = ''loss''" "se_winner s = None" "t = counted_game now s o1 meta"
      "truthy (field ''gameId'' meta) \<Longrightarrow> played_game (field ''gameId'' meta) (se_games s) = Inr False"
proof (cases "se_winner s \<noteq> None \<or>
    (truthy (se_currentGameId s) \<and> truthy (field ''gameId'' meta) \<and> \<not> strict_eq (se_currentGameId s) (field ''gameId'' meta))")
  case True
  then have "recordSeriesGame js now' s outcome meta st = Inr (s, st)" for now'
    unfolding recordSeriesGame_def by (cases "se_winner s = None") simp_all
  then show ?thesis using assms that(1) by simp
next
  case False
  note r = assms [unfolded recordSeriesGame_def]
  obtain o1 where o1: "outcome = JStr o1" using r False by (cases outcome) auto
  have c: "isCompletedGameOutcome (JStr o1)" using r False o1 by (auto split: if_splits)
  obtain b where b: "(if truthy (field ''gameId'' meta) then played_game (field ''gameId'' meta) (se_games s) else Inr False) = Inr b"
    using r False o1 c by (auto simp: Let_def split: sum.splits)
  show ?thesis
  proof (cases b)
    case True
    then have "recordSeriesGame js now' s outcome meta st = Inr (s, st)" for now'
      unfolding recordSeriesGame_def using False o1 c b by simp
    then show ?thesis using assms that(1) by simp
  next
    case nd: False
    have "t = counted_game now s o1 meta"
      using r False o1 c b nd by (simp add: Let_def split: if_splits sum.splits)
    moreover have "o1 = ''win'' \<or> o1 = ''draw'' \<or> o1 = ''loss''"
      using c by (auto simp: isCompletedGameOutcome_def COMPLETED_GAME_OUTCOMES_def)
    moreover have "played_game (field ''gameId'' meta) (se_games s) = Inr False" if "truthy (field ''gameId'' meta)"
      using b nd that by simp
    ultimately show ?thesis using that(2) o1 False by blast
  qed
qed

lemma count_le: "(of_int n \<le> (of_nat k :: rat)) = (n \<le> int k)" "(of_int n \<le> (of_nat k + 1 :: rat)) = (n \<le> int k + 1)"
proof -
  show "(of_int n \<le> (of_nat k :: rat)) = (n \<le> int k)" by linarith
  show "(of_int n \<le> (of_nat k + 1 :: rat)) = (n \<le> int k + 1)" by linarith
qed

lemma counted_ok:
  assumes s: "series_ok s" and w: "se_winner s = None" and o1: "o1 = ''win'' \<or> o1 = ''draw'' \<or> o1 = ''loss''"
  shows "series_ok (counted_game now s o1 meta)"
proof -
  let ?h = "outcome_count ''win'' (se_games s)" and ?c = "outcome_count ''loss'' (se_games s)"
  have lt: "int ?h < se_winsNeeded s" "int ?c < se_winsNeeded s"
    using s w unfolding series_ok_def score_ok_def by (simp_all split: if_splits)
  have comp: "isCompletedGameOutcome (JStr o1)" using o1 by (auto simp: isCompletedGameOutcome_def COMPLETED_GAME_OUTCOMES_def)
  have n: "se_humanWins s = of_nat ?h" "se_cpuWins s = of_nat ?c" using s by (simp_all add: series_ok_def score_ok_def)
  note d = counted_game_def Let_def outcome_count_snoc count_le n
  consider "o1 = ''win''" | "o1 = ''loss''" | "o1 = ''draw''" using o1 by blast
  then show ?thesis
  proof cases
    case 1
    then show ?thesis using s w lt comp unfolding series_ok_def score_ok_def by (simp add: d)
  next
    case 2
    then show ?thesis using s w lt comp unfolding series_ok_def score_ok_def by (simp add: d)
  next
    case 3
    then show ?thesis using s w lt comp unfolding series_ok_def score_ok_def by (simp add: d)
  qed
qed

lemma reach_ok: "series_reach js s \<Longrightarrow> series_ok s"
proof (induction rule: series_reach.induct)
  case (play s now outcome meta st t st1)
  show ?case
    by (rule record_cases [OF play.hyps(2)]) (use play.IH counted_ok in auto)
qed (auto intro: create_ok attach_ok)

text \<open>C26: the score of a series is the recount of its games, never disagrees with its winner and never
  passes what is needed: a series is won exactly when one side has won the majority of the best-of, is
  open before, and cannot hold more decisive games than the best-of; a series with that many is over.\<close>

theorem series_score_recount:
  assumes "series_reach js s"
  shows "let h = outcome_count ''win'' (se_games s); c = outcome_count ''loss'' (se_games s); d = outcome_count ''draw'' (se_games s)
    in se_humanWins s = of_nat h \<and> se_cpuWins s = of_nat c \<and> se_draws s = of_nat d \<and> h + c + d = length (se_games s) \<and>
       (se_winner s = Some ''human'') = (2 * int h > se_bestOf s) \<and> (se_winner s = Some ''cpu'') = (2 * int c > se_bestOf s) \<and>
       int (h + c) \<le> se_bestOf s \<and> (if int (h + c) = se_bestOf s then se_winner s \<noteq> None else True) \<and>
       se_winner s \<in> {None, Some ''human'', Some ''cpu''}"
proof -
  have ok: "series_ok s" by (rule reach_ok [OF assms])
  note p = ok [unfolded series_ok_def score_ok_def]
  let ?h = "outcome_count ''win'' (se_games s)" and ?c = "outcome_count ''loss'' (se_games s)"
  have n: "(se_bestOf s = 3 \<and> se_winsNeeded s = 2) \<or> (se_bestOf s = 5 \<and> se_winsNeeded s = 3)" using p by auto
  have le: "int ?h \<le> se_winsNeeded s" "int ?c \<le> se_winsNeeded s" "int ?h < se_winsNeeded s \<or> int ?c < se_winsNeeded s"
    using p by blast+
  have w: "se_winner s = (if int ?h = se_winsNeeded s then Some ''human'' else if int ?c = se_winsNeeded s then Some ''cpu'' else None)"
    using p by simp
  have part: "?h + ?c + outcome_count ''draw'' (se_games s) = length (se_games s)"
    by (rule outcomes_partition) (use p in simp)
  have hw: "(se_winner s = Some ''human'') = (2 * int ?h > se_bestOf s)" using n le unfolding w by auto
  moreover have "(se_winner s = Some ''cpu'') = (2 * int ?c > se_bestOf s)" using n le unfolding w by auto
  moreover have "int (?h + ?c) \<le> se_bestOf s" using n le by auto
  moreover have "if int (?h + ?c) = se_bestOf s then se_winner s \<noteq> None else True" using n le unfolding w by auto
  moreover have "se_winner s \<in> {None, Some ''human'', Some ''cpu''}" unfolding w by simp
  ultimately show ?thesis using p part unfolding Let_def by simp
qed

definition first_series :: series where
  "first_series = the (createSeries ''series-1'' (JInt 3) (JInt 40) (JStr ''w'') (JStr ''none'') (JBool False))"

lemma first_series_created:
  "createSeries ''series-1'' (JInt 3) (JInt 40) (JStr ''w'') (JStr ''none'') (JBool False) = Some first_series"
proof -
  have "isCompetitiveSeriesBestOf (JInt 3)" unfolding competitive_int by simp
  then show ?thesis by (simp add: first_series_def createSeries_def Let_def)
qed

theorem series_score_recount_witness:
  "se_humanWins first_series = of_nat (outcome_count ''win'' (se_games first_series)) \<and> se_winner first_series \<in> {None, Some ''human'', Some ''cpu''}"
  using series_score_recount [OF series_reach.create [OF first_series_created]]
  unfolding Let_def by blast

lemma filter_id: "list_all P xs \<Longrightarrow> filter P xs = xs"
  by (induction xs) auto

lemma validate_ok:
  assumes ok: "series_ok s" shows "validateSeriesState (series_json s) = Some s"
proof -
  note p = ok [unfolded series_ok_def score_ok_def]
  let ?h = "outcome_count ''win'' (se_games s)" and ?c = "outcome_count ''loss'' (se_games s)"
  have f: "field ''bestOf'' (series_json s) = JInt (se_bestOf s)" "field ''games'' (series_json s) = JArr (se_games s)"
    "field ''humanWins'' (series_json s) = JNum (Fin (se_humanWins s))" "field ''cpuWins'' (series_json s) = JNum (Fin (se_cpuWins s))"
    "field ''draws'' (series_json s) = JNum (Fin (se_draws s))" "field ''winner'' (series_json s) = winner_json (se_winner s)"
    "field ''currentGameId'' (series_json s) = se_currentGameId s" "field ''version'' (series_json s) = se_version s"
    "field ''id'' (series_json s) = se_id s" "field ''difficulty'' (series_json s) = se_difficulty s"
    "field ''timeControlId'' (series_json s) = se_timeControlId s" "field ''adaptiveDifficulty'' (series_json s) = JBool (se_adaptive s)"
    "field ''nextColor'' (series_json s) = JStr (se_nextColor s)" "field ''completedAt'' (series_json s) = se_completedAt s"
    unfolding series_json_def winner_json_def by simp_all
  have tr: "truthy (series_json s)" by (simp add: truthy_def series_json_def)
  have b: "isCompetitiveSeriesBestOf (JInt (se_bestOf s))" unfolding competitive_int using p by blast
  have n: "se_bestOf s div 2 + 1 = se_winsNeeded s" using p by simp
  have cnt: "wins_count (JNum (Fin q)) = Fin q" if "0 \<le> q" for q
    using that by (simp add: wins_count_def or_else_json_def truthy_def)
  have nn: "0 \<le> se_humanWins s" "0 \<le> se_cpuWins s" "0 \<le> se_draws s" using p by simp_all
  have g: "filter (\<lambda>g. isCompletedGameOutcome (field ''outcome'' g)) (se_games s) = se_games s"
    by (rule filter_id) (use p in simp)
  have w: "series_winner (se_winsNeeded s) (se_humanWins s) (se_cpuWins s) = se_winner s"
    using p by (simp add: series_winner_def count_le)
  have col: "normalizeColor (JStr (se_nextColor s)) = se_nextColor s" using p by (auto simp: normalizeColor_def)
  have cur: "(if se_winner s \<noteq> None then JNull else or_else_json (se_currentGameId s) JNull) = se_currentGameId s"
    using p by (auto simp: or_else_json_def truthy_def)
  have sum: "se_humanWins s + se_cpuWins s + se_draws s = of_nat (length (se_games s))"
    using p outcomes_partition [of "se_games s"] by (simp flip: of_nat_add)
  have le: "\<not> of_int (se_winsNeeded s) < se_humanWins s" "\<not> of_int (se_winsNeeded s) < se_cpuWins s" using p by simp_all
  have inv: "assertSeriesFlowInvariant s = Inr True"
    unfolding assertSeriesFlowInvariant_def seriesFlowPhase_def assert_all_ok using p by (auto simp: truthy_def)
  have s: "s = \<lparr>se_version = se_version s, se_id = se_id s, se_bestOf = se_bestOf s, se_winsNeeded = se_winsNeeded s,
     se_difficulty = se_difficulty s, se_timeControlId = se_timeControlId s, se_adaptive = (JBool (se_adaptive s) = JBool True),
     se_humanWins = se_humanWins s, se_cpuWins = se_cpuWins s, se_draws = se_draws s, se_games = se_games s,
     se_currentGameId = se_currentGameId s, se_nextColor = se_nextColor s, se_winner = se_winner s, se_completedAt = se_completedAt s\<rparr>"
    by simp
  show ?thesis
    unfolding validateSeriesState_def f competitive_int(2) n elements_JArr(1) g Let_def cnt [OF nn(1)] cnt [OF nn(2)] cnt [OF nn(3)]
      jsnum.case prod.case w col cur s [symmetric] using tr b sum le inv by simp
qed

text \<open>A reload never loses a series: the series saved during play is the one read back, whole, whatever
  its score, phase and colour to move.\<close>

theorem series_survives_reload:
  assumes "series_reach js s" "survives js (series_json s)"
  shows "loadActiveSeries js (saveActiveSeries js (Some s) st) = Some s"
  unfolding loadActiveSeries_def saveActiveSeries_def option.case read_json_written [OF assms(2)]
  by (rule validate_ok [OF reach_ok [OF assms(1)]])

theorem series_survives_reload_witness:
  "let js = \<lparr>stringify = (\<lambda>_. ''x''), parse = (\<lambda>_. Some (series_json first_series))\<rparr>
   in loadActiveSeries js (saveActiveSeries js (Some first_series) (\<lambda>_. None)) = Some first_series"
  unfolding Let_def
  by (rule series_survives_reload [OF series_reach.create [OF first_series_created]]) (simp add: survives_def)

lemma archived_null: "archived i xs = Inl e \<Longrightarrow> list_ex (\<lambda>x. x = JNull \<or> x = JUndef) xs"
  by (induction xs) (auto split: if_splits)

lemma played_game_null: "played_game i gs = Inl e \<Longrightarrow> list_ex (\<lambda>r. r = JNull \<or> r = JUndef) gs"
  by (induction gs) (auto split: if_splits)

lemma played_game_snoc:
  "played_game i gs = Inr False \<Longrightarrow> g \<noteq> JNull \<Longrightarrow> g \<noteq> JUndef \<Longrightarrow> strict_eq (field ''gameId'' g) i \<Longrightarrow> played_game i (gs @ [g]) = Inr True"
  by (induction gs) (auto split: if_splits)

text \<open>C40: Recording a game under an id that is a non-empty text: it throws only for an open series, and then only for an
outcome that is not a completed one, or when the games of the series or its stored history hold a null row. Otherwise
recording the same game with the same outcome again, on the series and the storage the first call returned, changes
neither, so no game is counted twice.\<close>

theorem series_game_counted_once:
  "let meta = JObj ((''gameId'', JStr (x # g)) # rest)
   in case recordSeriesGame js now s outcome meta st of
        Inl e \<Rightarrow> se_winner s = None \<and>
          (if isCompletedGameOutcome outcome then list_ex (\<lambda>r. r = JNull \<or> r = JUndef) (se_games s @ loadSeriesHistory js st) else True)
      | Inr (t, st1) \<Rightarrow> recordSeriesGame js now' t outcome meta st1 = Inr (t, st1)"
proof -
  let ?m = "JObj ((''gameId'', JStr (x # g)) # rest)"
  have gid: "field ''gameId'' ?m = JStr (x # g)" "truthy (JStr (x # g))" by (simp_all add: truthy_def)
  show ?thesis
  proof (cases "recordSeriesGame js now s outcome ?m st")
    case (Inl e)
    note r = Inl [unfolded recordSeriesGame_def]
    have w: "se_winner s = None" using r by (cases "se_winner s") simp_all
    have "list_ex (\<lambda>r. r = JNull \<or> r = JUndef) (se_games s @ loadSeriesHistory js st)" if c: "isCompletedGameOutcome outcome"
    proof -
      obtain o1 where "outcome = JStr o1" using c by (auto simp: isCompletedGameOutcome_def)
      then consider e' where "played_game (JStr (x # g)) (se_games s) = Inl e'" | n where "archiveCompletedSeries js n st = Inl e"
        using r w c gid by (auto simp: Let_def split: if_splits sum.splits bool.splits)
      then show ?thesis
        by cases (auto simp: archiveCompletedSeries_def Let_def dest: archived_null played_game_null split: sum.splits if_splits bool.splits)
    qed
    then show ?thesis using Inl w by (simp add: Let_def)
  next
    case (Inr p)
    obtain t st1 where p: "p = (t, st1)" by (cases p)
    from record_cases [OF Inr [unfolded p]] have "recordSeriesGame js now' t outcome ?m st1 = Inr (t, st1)"
    proof cases
      case 1
      show ?thesis unfolding 1(1,2) by (rule 1(3))
    next
      case (2 o1)
      have "played_game (field ''gameId'' ?m) (se_games s @ [game_row now o1 ?m]) = Inr True"
        using 2(5) gid by (intro played_game_snoc) (simp_all add: or_else_json_def strict_eq_def is_object_def game_row_def)
      then have dup: "played_game (field ''gameId'' ?m) (se_games t) = Inr True"
        unfolding 2(4) counted_game_def Let_def by simp
      have c: "isCompletedGameOutcome (JStr o1)" using 2(2) by (auto simp: isCompletedGameOutcome_def COMPLETED_GAME_OUTCOMES_def)
      have cur: "\<not> truthy (se_currentGameId t)" unfolding 2(4) by (simp add: counted_game_def Let_def truthy_def)
      show ?thesis unfolding recordSeriesGame_def 2(1) using dup c cur gid by simp
    qed
    then show ?thesis using Inr p by (simp add: Let_def)
  qed
qed

end
