(* ===== verification/ChessClock.thy ===== *)
theory ChessClock
  imports SafeStorage GameSeries
begin

text \<open>
  The chess clock: \<open>clock.js\<close> (time controls, display, flag), \<open>clockRuntime.js\<close> (the live store and
  its subscribers) and \<open>clockPersistence.js\<close> (the snapshot that survives a refresh, on the storage of
  \<open>SafeStorage\<close>).

  Seconds are doubles (\<open>fsub\<close>, \<open>fadd\<close>, \<open>fdiv\<close>); a clock that is not running is \<open>None\<close>, the
  source's \<open>null\<close>. A subscriber is a name; an operation of the runtime returns the runtime and the
  subscribers it calls, in order. Subscribers do not call the runtime back. Each call of the browser's
  storage has its own behaviour, as in \<open>SafeStorage\<close>.
\<close>

section \<open>Time controls and display\<close>

record time_control =
  tc_id :: string
  tc_label :: string
  tc_initial :: "int option"
  tc_increment :: int

definition TIME_CONTROLS :: "time_control list" where
  "TIME_CONTROLS =
    [\<lparr>tc_id = ''none'', tc_label = ''Sin reloj'', tc_initial = None, tc_increment = 0\<rparr>,
     \<lparr>tc_id = ''1+0'', tc_label = (''1 min '' @ [CHR 0xB7] @ '' Bullet''), tc_initial = Some 60, tc_increment = 0\<rparr>,
     \<lparr>tc_id = ''3+2'', tc_label = ''3 min + 2s'', tc_initial = Some 180, tc_increment = 2\<rparr>,
     \<lparr>tc_id = ''5+0'', tc_label = ''5 min'', tc_initial = Some 300, tc_increment = 0\<rparr>,
     \<lparr>tc_id = ''10+0'', tc_label = ''10 min'', tc_initial = Some 600, tc_increment = 0\<rparr>,
     \<lparr>tc_id = ''15+10'', tc_label = ''15 min + 10s'', tc_initial = Some 900, tc_increment = 10\<rparr>]"

definition timeControlById :: "string \<Rightarrow> time_control" where
  "timeControlById i = (case List.find (\<lambda>tc. tc_id tc = i) TIME_CONTROLS of Some tc \<Rightarrow> tc | None \<Rightarrow> TIME_CONTROLS ! 0)"

definition padStart2 :: "string \<Rightarrow> string" where
  "padStart2 s = replicate (2 - length s) CHR ''0'' @ s"

definition formatClock :: "rat \<Rightarrow> string" where
  "formatClock seconds =
     (let s = max 0 \<lceil>seconds\<rceil>;
          h = s div 3600;
          m = (s mod 3600) div 60;
          sec = s mod 60
      in if 0 < h then show_int h @ '':'' @ padStart2 (show_int m) @ '':'' @ padStart2 (show_int sec)
         else show_int m @ '':'' @ padStart2 (show_int sec))"

definition flagOutcome :: "string \<Rightarrow> string \<Rightarrow> (string \<Rightarrow> bool) \<Rightarrow> string option" where
  "flagOutcome flagColor humanColor insufficient = flagGameOutcome flagColor humanColor insufficient"

definition flagPgnResult :: "string \<Rightarrow> (string \<Rightarrow> bool) \<Rightarrow> string" where
  "flagPgnResult flagColor insufficient =
     (if flagColor \<noteq> ''w'' \<and> flagColor \<noteq> ''b'' then ''*''
      else let survivingColor = (if flagColor = ''w'' then ''b'' else ''w'')
           in if insufficient survivingColor then ''1/2-1/2'' else if flagColor = ''w'' then ''0-1'' else ''1-0'')"

section \<open>The live clock\<close>

definition normalizeSeconds :: "json \<Rightarrow> rat option" where
  "normalizeSeconds v =
     (if v = JNull \<or> v = JUndef then None
      else case json_number v of Fin q \<Rightarrow> Some (max 0 q) | _ \<Rightarrow> Some 0)"

record clock_snapshot =
  ck_white :: "rat option"
  ck_black :: "rat option"
  ck_ticking :: "string option"
  ck_flag :: "string option"

definition color_or_null :: "json \<Rightarrow> string option" where
  "color_or_null v = (if v = JStr ''w'' then Some ''w'' else if v = JStr ''b'' then Some ''b'' else None)"

definition normalizeSnapshot :: "json \<Rightarrow> clock_snapshot" where
  "normalizeSnapshot v =
     \<lparr>ck_white = normalizeSeconds (field ''whiteTime'' v), ck_black = normalizeSeconds (field ''blackTime'' v),
      ck_ticking = color_or_null (field ''tickingColor'' v), ck_flag = color_or_null (field ''flagFallen'' v)\<rparr>"

definition snapshotsEqual :: "clock_snapshot \<Rightarrow> clock_snapshot \<Rightarrow> bool" where
  "snapshotsEqual l r \<longleftrightarrow>
     ck_white l = ck_white r \<and> ck_black l = ck_black r \<and> ck_ticking l = ck_ticking r \<and> ck_flag l = ck_flag r"

record clock_runtime =
  rt_snapshot :: clock_snapshot
  rt_listeners :: "string list"

definition seconds_json :: "rat option \<Rightarrow> json" where
  "seconds_json t = (case t of None \<Rightarrow> JNull | Some q \<Rightarrow> JNum (Fin q))"

definition snapshot_json :: "clock_snapshot \<Rightarrow> json" where
  "snapshot_json s =
     JObj [(''whiteTime'', seconds_json (ck_white s)), (''blackTime'', seconds_json (ck_black s)),
           (''tickingColor'', winner_json (ck_ticking s)), (''flagFallen'', winner_json (ck_flag s))]"

definition createClockRuntime :: "json \<Rightarrow> clock_runtime" where
  "createClockRuntime initialSnapshot = \<lparr>rt_snapshot = normalizeSnapshot initialSnapshot, rt_listeners = []\<rparr>"

definition publish :: "json \<Rightarrow> clock_runtime \<Rightarrow> clock_runtime \<times> string list" where
  "publish nextValue r =
     (let next = normalizeSnapshot nextValue
      in if snapshotsEqual (rt_snapshot r) next then (r, [])
         else (r\<lparr>rt_snapshot := next\<rparr>, rt_listeners r))"

definition patch :: "(string \<times> json) list \<Rightarrow> clock_runtime \<Rightarrow> clock_runtime \<times> string list" where
  "patch changes r = publish (with_fields changes (snapshot_json (rt_snapshot r))) r"

definition subscribe :: "string \<Rightarrow> clock_runtime \<Rightarrow> clock_runtime" where
  "subscribe l r = (if l \<in> set (rt_listeners r) then r else r\<lparr>rt_listeners := rt_listeners r @ [l]\<rparr>)"

definition unsubscribe :: "string \<Rightarrow> clock_runtime \<Rightarrow> clock_runtime" where
  "unsubscribe l r = r\<lparr>rt_listeners := filter (\<lambda>x. x \<noteq> l) (rt_listeners r)\<rparr>"

definition setTickingColor :: "json \<Rightarrow> clock_runtime \<Rightarrow> clock_runtime \<times> string list" where
  "setTickingColor color r = patch [(''tickingColor'', color)] r"

definition setFlagFallen :: "json \<Rightarrow> clock_runtime \<Rightarrow> clock_runtime \<times> string list" where
  "setFlagFallen color r = patch [(''flagFallen'', color), (''tickingColor'', JNull)] r"

definition getTime :: "string \<Rightarrow> clock_runtime \<Rightarrow> rat option" where
  "getTime color r = (if color = ''w'' then ck_white (rt_snapshot r) else ck_black (rt_snapshot r))"

text \<open>\<open>Math.max(0, Number(v) || 0)\<close>; the difference and the sum with an infinite amount.\<close>

definition amount :: "json \<Rightarrow> jsnum" where
  "amount v = (case json_number v of Fin q \<Rightarrow> Fin (max 0 q) | PInf \<Rightarrow> PInf | _ \<Rightarrow> Fin 0)"

definition time_less :: "rat option \<Rightarrow> jsnum \<Rightarrow> json" where
  "time_less t e =
     (let now = (case t of None \<Rightarrow> 0 | Some q \<Rightarrow> q)
      in case e of Fin d \<Rightarrow> JNum (Fin (max 0 (fsub now d))) | _ \<Rightarrow> JInt 0)"

definition time_more :: "rat option \<Rightarrow> jsnum \<Rightarrow> json" where
  "time_more t e =
     (let now = (case t of None \<Rightarrow> 0 | Some q \<Rightarrow> q)
      in case e of Fin d \<Rightarrow> JNum (Fin (fadd now d)) | _ \<Rightarrow> JNum e)"

definition advance :: "string \<Rightarrow> json \<Rightarrow> clock_runtime \<Rightarrow> clock_runtime \<times> string list" where
  "advance color elapsedSeconds r =
     (let elapsed = amount elapsedSeconds
      in if color = ''w''
         then patch [(''whiteTime'', time_less (ck_white (rt_snapshot r)) elapsed), (''tickingColor'', JStr ''w'')] r
         else if color = ''b''
         then patch [(''blackTime'', time_less (ck_black (rt_snapshot r)) elapsed), (''tickingColor'', JStr ''b'')] r
         else (r, []))"

definition addIncrement :: "string \<Rightarrow> json \<Rightarrow> clock_runtime \<Rightarrow> clock_runtime \<times> string list" where
  "addIncrement color incrementSeconds r =
     (let increment = amount incrementSeconds
      in if increment = Fin 0 then (r, [])
         else if color = ''w'' then patch [(''whiteTime'', time_more (ck_white (rt_snapshot r)) increment)] r
         else if color = ''b'' then patch [(''blackTime'', time_more (ck_black (rt_snapshot r)) increment)] r
         else (r, []))"

section \<open>The snapshot of a game\<close>

definition PREFIX :: string where "PREFIX = ''chess-study-clock:''"
definition VERSION :: int where "VERSION = 1"

definition clock_key :: "string \<Rightarrow> string" where
  "clock_key gameId = PREFIX @ gameId"

definition finite_num :: "json \<Rightarrow> bool" where
  "finite_num v \<longleftrightarrow> (case v of JNum (Fin _) \<Rightarrow> True | _ \<Rightarrow> False)"

text \<open>The checks of a stored value, in order.\<close>

definition clock_value_ok :: "string \<Rightarrow> json \<Rightarrow> bool" where
  "clock_value_ok gameId v \<longleftrightarrow>
     truthy v \<and> field ''version'' v = JInt VERSION \<and> field ''gameId'' v = JStr gameId \<and>
     finite_num (field ''whiteTime'' v) \<and> finite_num (field ''blackTime'' v) \<and>
     field ''activeColor'' v \<in> {JStr ''w'', JStr ''b''} \<and> finite_num (field ''savedAt'' v)"

definition loadClockSnapshot :: "(string \<Rightarrow> json option) \<Rightarrow> browser \<Rightarrow> string \<Rightarrow> area \<Rightarrow> json option \<times> area" where
  "loadClockSnapshot json_parse env gameId a =
     (if gameId = [] then (None, a)
      else let (v, a1) = readJsonStorage json_parse env (clock_key gameId) JNull True a
           in (if clock_value_ok gameId v then Some v else None, a1))"

definition clock_value :: "string \<Rightarrow> string \<Rightarrow> rat \<Rightarrow> rat \<Rightarrow> string \<Rightarrow> rat \<Rightarrow> json" where
  "clock_value gameId timeControlId whiteTime blackTime activeColor now =
     JObj [(''version'', JInt VERSION), (''gameId'', JStr gameId),
           (''timeControlId'', JStr (if timeControlId = [] then ''none'' else timeControlId)),
           (''whiteTime'', JNum (Fin whiteTime)), (''blackTime'', JNum (Fin blackTime)),
           (''activeColor'', JStr activeColor), (''savedAt'', JNum (Fin now))]"

definition saveClockSnapshot ::
  "(json \<Rightarrow> string option) \<Rightarrow> browser \<Rightarrow> string \<Rightarrow> string \<Rightarrow> jsnum \<Rightarrow> jsnum \<Rightarrow> string \<Rightarrow> rat \<Rightarrow> area \<Rightarrow> json option \<times> area" where
  "saveClockSnapshot json_stringify env gameId timeControlId whiteTime blackTime activeColor now a =
     (if gameId = [] then (None, a)
      else case (whiteTime, blackTime) of
             (Fin w, Fin b) \<Rightarrow>
               if activeColor \<noteq> ''w'' \<and> activeColor \<noteq> ''b'' then (None, a)
               else let v = clock_value gameId timeControlId w b activeColor now;
                        (ok, a1) = writeJsonStorage json_stringify env (clock_key gameId) v a
                    in (if ok then Some v else None, a1)
           | _ \<Rightarrow> (None, a))"

definition clearClockSnapshot :: "browser \<Rightarrow> string \<Rightarrow> area \<Rightarrow> area" where
  "clearClockSnapshot env gameId a = (if gameId \<noteq> [] then snd (removeStorageItem env (clock_key gameId) a) else a)"

record restored_clock =
  rc_white :: "rat option"
  rc_black :: "rat option"
  rc_flag :: "string option"
  rc_restored :: bool

definition stored_seconds :: "json \<Rightarrow> rat" where
  "stored_seconds v = (case v of JNum (Fin q) \<Rightarrow> max 0 q | _ \<Rightarrow> 0)"

definition saved_at :: "json \<Rightarrow> rat" where
  "saved_at v = (case v of JNum (Fin q) \<Rightarrow> q | _ \<Rightarrow> 0)"

definition restored_from :: "json \<Rightarrow> string \<Rightarrow> rat \<Rightarrow> restored_clock" where
  "restored_from snapshot currentTurn now =
     (let w = stored_seconds (field ''whiteTime'' snapshot);
          b = stored_seconds (field ''blackTime'' snapshot);
          elapsed = max 0 (fdiv (fsub now (saved_at (field ''savedAt'' snapshot))) 1000);
          charged = (field ''activeColor'' snapshot = JStr currentTurn);
          w1 = (if charged \<and> currentTurn = ''w'' then max 0 (fsub w elapsed) else w);
          b1 = (if charged \<and> currentTurn \<noteq> ''w'' then max 0 (fsub b elapsed) else b)
      in \<lparr>rc_white = Some w1, rc_black = Some b1,
          rc_flag = (if w1 \<le> 0 then Some ''w'' else if b1 \<le> 0 then Some ''b'' else None), rc_restored = True\<rparr>)"

definition restoreClockState ::
  "(string \<Rightarrow> json option) \<Rightarrow> browser \<Rightarrow> string \<Rightarrow> time_control \<Rightarrow> string \<Rightarrow> rat \<Rightarrow> area \<Rightarrow> restored_clock \<times> area" where
  "restoreClockState json_parse env gameId timeControl currentTurn now a =
     (case tc_initial timeControl of
        None \<Rightarrow> (\<lparr>rc_white = None, rc_black = None, rc_flag = None, rc_restored = False\<rparr>, a)
      | Some initial \<Rightarrow>
          if initial = 0 then (\<lparr>rc_white = None, rc_black = None, rc_flag = None, rc_restored = False\<rparr>, a)
          else case loadClockSnapshot json_parse env gameId a of
                 (Some snapshot, a1) \<Rightarrow>
                   if field ''timeControlId'' snapshot = JStr (tc_id timeControl)
                   then (restored_from snapshot currentTurn now, a1)
                   else (\<lparr>rc_white = Some (of_int initial), rc_black = Some (of_int initial), rc_flag = None, rc_restored = False\<rparr>, a1)
               | (None, a1) \<Rightarrow>
                   (\<lparr>rc_white = Some (of_int initial), rc_black = Some (of_int initial), rc_flag = None, rc_restored = False\<rparr>, a1))"

text \<open>The enumeration and each removal are calls of their own: \<open>envs 0\<close>, then \<open>envs (Suc i)\<close>.\<close>

fun remove_each :: "(nat \<Rightarrow> browser) \<Rightarrow> string list \<Rightarrow> area \<Rightarrow> area" where
  "remove_each envs [] a = a"
| "remove_each envs (k # ks) a = remove_each (\<lambda>i. envs (Suc i)) ks (snd (removeStorageItem (envs 0) k a))"

definition clearAllClockSnapshots :: "(nat \<Rightarrow> browser) \<Rightarrow> area \<Rightarrow> nat \<times> area" where
  "clearAllClockSnapshots envs a =
     (let keys = listStorageKeys (envs 0) PREFIX a
      in (length keys, remove_each (\<lambda>i. envs (Suc i)) keys a))"

section \<open>The live clock is sound\<close>

text \<open>The calls of the runtime, and the runtimes they reach.\<close>

datatype clock_call = Advance string json | Increment string json | Ticking json | Flag json | Replace json
  | Subscribe string | Unsubscribe string

fun clock_exec :: "clock_call \<Rightarrow> clock_runtime \<Rightarrow> clock_runtime \<times> string list" where
  "clock_exec (Advance c e) r = advance c e r"
| "clock_exec (Increment c e) r = addIncrement c e r"
| "clock_exec (Ticking c) r = setTickingColor c r"
| "clock_exec (Flag c) r = setFlagFallen c r"
| "clock_exec (Replace v) r = publish v r"
| "clock_exec (Subscribe l) r = (subscribe l r, [])"
| "clock_exec (Unsubscribe l) r = (unsubscribe l r, [])"

inductive clock_reach :: "clock_runtime \<Rightarrow> bool" where
  create: "clock_reach (createClockRuntime v)"
| call: "clock_reach r \<Longrightarrow> clock_reach (fst (clock_exec x r))"

definition clock_ok :: "clock_snapshot \<Rightarrow> bool" where
  "clock_ok s \<longleftrightarrow>
     (case ck_white s of None \<Rightarrow> True | Some q \<Rightarrow> 0 \<le> q) \<and> (case ck_black s of None \<Rightarrow> True | Some q \<Rightarrow> 0 \<le> q) \<and>
     ck_ticking s \<in> {None, Some ''w'', Some ''b''} \<and> ck_flag s \<in> {None, Some ''w'', Some ''b''}"

lemma snapshotsEqual_iff [simp]: "snapshotsEqual l r \<longleftrightarrow> l = r"
  by (auto simp: snapshotsEqual_def intro: clock_snapshot.equality)

lemma normalize_ok: "clock_ok (normalizeSnapshot v)"
  by (auto simp: clock_ok_def normalizeSnapshot_def normalizeSeconds_def color_or_null_def split: jsnum.splits)

lemma seconds_again: "(case t of None \<Rightarrow> True | Some q \<Rightarrow> 0 \<le> q) \<Longrightarrow> normalizeSeconds (seconds_json t) = t"
  by (auto simp: normalizeSeconds_def seconds_json_def split: option.splits)

lemma color_again: "c \<in> {None, Some ''w'', Some ''b''} \<Longrightarrow> color_or_null (winner_json c) = c"
  by (auto simp: color_or_null_def winner_json_def)

text \<open>What a call publishes: a new snapshot and its subscribers, or nothing.\<close>

lemma publish_effect:
  "rt_snapshot (fst (publish v r)) = normalizeSnapshot v" "rt_listeners (fst (publish v r)) = rt_listeners r"
  "snd (publish v r) = (if rt_snapshot (fst (publish v r)) = rt_snapshot r then [] else rt_listeners r)"
  by (auto simp: publish_def Let_def)

lemma patch_snapshot:
  assumes "clock_ok (rt_snapshot r)"
  shows "rt_snapshot (fst (patch changes r)) =
    \<lparr>ck_white = (case map_of (rev changes) ''whiteTime'' of None \<Rightarrow> ck_white (rt_snapshot r) | Some v \<Rightarrow> normalizeSeconds v),
     ck_black = (case map_of (rev changes) ''blackTime'' of None \<Rightarrow> ck_black (rt_snapshot r) | Some v \<Rightarrow> normalizeSeconds v),
     ck_ticking = (case map_of (rev changes) ''tickingColor'' of None \<Rightarrow> ck_ticking (rt_snapshot r) | Some v \<Rightarrow> color_or_null v),
     ck_flag = (case map_of (rev changes) ''flagFallen'' of None \<Rightarrow> ck_flag (rt_snapshot r) | Some v \<Rightarrow> color_or_null v)\<rparr>"
proof -
  note n = assms [unfolded clock_ok_def]
  have t: "normalizeSeconds (seconds_json (ck_white (rt_snapshot r))) = ck_white (rt_snapshot r)"
    "normalizeSeconds (seconds_json (ck_black (rt_snapshot r))) = ck_black (rt_snapshot r)"
    using n by (simp_all add: seconds_again)
  have c: "color_or_null (winner_json (ck_ticking (rt_snapshot r))) = ck_ticking (rt_snapshot r)"
    "color_or_null (winner_json (ck_flag (rt_snapshot r))) = ck_flag (rt_snapshot r)"
    using n by (simp_all only: color_again)
  show ?thesis
    unfolding patch_def publish_effect(1) normalizeSnapshot_def snapshot_json_def field_with_fields
    by (simp add: t c split: option.splits)
qed

lemma exec_effect:
  assumes ok: "clock_ok (rt_snapshot r)" and d: "distinct (rt_listeners r)"
  shows "clock_ok (rt_snapshot (fst (clock_exec x r)))" "distinct (rt_listeners (fst (clock_exec x r)))"
    "snd (clock_exec x r) = (if rt_snapshot (fst (clock_exec x r)) = rt_snapshot r then [] else rt_listeners r)"
proof -
  have "clock_ok (rt_snapshot (fst (clock_exec x r))) \<and> distinct (rt_listeners (fst (clock_exec x r))) \<and>
    snd (clock_exec x r) = (if rt_snapshot (fst (clock_exec x r)) = rt_snapshot r then [] else rt_listeners r)"
    using ok d publish_effect normalize_ok
    by (cases x) (simp_all add: advance_def addIncrement_def setTickingColor_def setFlagFallen_def Let_def subscribe_def
        unsubscribe_def patch_def)
  then show "clock_ok (rt_snapshot (fst (clock_exec x r)))" "distinct (rt_listeners (fst (clock_exec x r)))"
    "snd (clock_exec x r) = (if rt_snapshot (fst (clock_exec x r)) = rt_snapshot r then [] else rt_listeners r)"
    by blast+
qed

lemma clock_reach_ok: "clock_reach r \<Longrightarrow> clock_ok (rt_snapshot r) \<and> distinct (rt_listeners r)"
  by (induction rule: clock_reach.induct) (simp_all add: createClockRuntime_def normalize_ok exec_effect)

definition remaining :: "clock_runtime \<Rightarrow> string \<Rightarrow> rat" where
  "remaining r c = (case getTime c r of None \<Rightarrow> 0 | Some q \<Rightarrow> q)"

text \<open>C27: whatever calls the clock receives, no time is negative, a call is announced exactly when it
  changed something, once to every subscriber; and letting a colour's clock run takes the elapsed
  seconds from that colour, down to zero, and nothing from the other.\<close>

theorem clock_runtime_sound:
  assumes "clock_reach r"
  shows "let (r1, called) = clock_exec x r
    in 0 \<le> remaining r1 ''w'' \<and> 0 \<le> remaining r1 ''b'' \<and> distinct called \<and>
       called = (if rt_snapshot r1 = rt_snapshot r then [] else rt_listeners r) \<and>
       (case x of Advance c (JNum (Fin d)) \<Rightarrow>
          remaining r1 ''w'' = (if c = ''w'' then max 0 (fsub (remaining r ''w'') (max 0 d)) else remaining r ''w'') \<and>
          remaining r1 ''b'' = (if c = ''b'' then max 0 (fsub (remaining r ''b'') (max 0 d)) else remaining r ''b'')
        | _ \<Rightarrow> True)"
proof -
  have ok: "clock_ok (rt_snapshot r)" "distinct (rt_listeners r)" using clock_reach_ok [OF assms] by simp_all
  note e = exec_effect [OF ok, of x]
  have nn: "0 \<le> remaining (fst (clock_exec x r)) ''w''" "0 \<le> remaining (fst (clock_exec x r)) ''b''"
    using e(1) by (simp_all add: clock_ok_def remaining_def getTime_def split: option.splits)
  have adv: "remaining (fst (clock_exec (Advance c (JNum (Fin d))) r)) ''w'' =
        (if c = ''w'' then max 0 (fsub (remaining r ''w'') (max 0 d)) else remaining r ''w'')"
      "remaining (fst (clock_exec (Advance c (JNum (Fin d))) r)) ''b'' =
        (if c = ''b'' then max 0 (fsub (remaining r ''b'') (max 0 d)) else remaining r ''b'')" for c d
    by (simp_all add: advance_def Let_def amount_def remaining_def getTime_def patch_snapshot [OF ok(1)] time_less_def
        normalizeSeconds_def split: option.splits)
  have x: "case x of Advance c (JNum (Fin d)) \<Rightarrow>
          remaining (fst (clock_exec x r)) ''w'' = (if c = ''w'' then max 0 (fsub (remaining r ''w'') (max 0 d)) else remaining r ''w'') \<and>
          remaining (fst (clock_exec x r)) ''b'' = (if c = ''b'' then max 0 (fsub (remaining r ''b'') (max 0 d)) else remaining r ''b'')
        | _ \<Rightarrow> True"
    using adv by (auto split: clock_call.splits json.splits jsnum.splits)
  show ?thesis
    using nn e(3) ok(2) x by (simp add: case_prod_beta Let_def)
qed

theorem clock_runtime_sound_witness:
  "0 \<le> remaining (fst (clock_exec (Advance ''w'' (JInt 3)) (createClockRuntime (JObj [(''whiteTime'', JInt 60)])))) ''w''"
  using clock_runtime_sound [OF clock_reach.create, of "Advance ''w'' (JInt 3)"] by (simp add: case_prod_beta Let_def)

section \<open>A refresh is fair\<close>

lemma save_pins:
  assumes "gid \<noteq> []" "col = ''w'' \<or> col = ''b''" "json_stringify (clock_value gid tc w b col t0) = Some raw"
  shows "pinned (snd (saveClockSnapshot json_stringify env gid tc (Fin w) (Fin b) col t0 a)) (clock_key gid) (Some raw)"
  using assms web_store.put_pins [of env "clock_key gid" raw a]
  by (auto simp: saveClockSnapshot_def writeJsonStorage_def Let_def case_prod_beta)

lemma load_pinned:
  assumes "gid \<noteq> []" "pinned a (clock_key gid) (Some raw)" "json_parse raw = Some v" "clock_value_ok gid v"
  shows "fst (loadClockSnapshot json_parse env gid a) = Some v"
  using assms web_store.get_pinned [OF assms(2), of env]
  by (auto simp: loadClockSnapshot_def readJsonStorage_def case_prod_beta Let_def split: prod.splits option.splits)

text \<open>A refresh is fair to both players: the clocks restored after a snapshot are the saved ones, whatever
  the browser refused in between, except that the side to move, if it is still to move, is charged the
  seconds that passed, never below zero nor for a clock set back; and a flag falls only on a clock at zero.\<close>

theorem clock_refresh_fair:
  assumes "gid \<noteq> []" "tc_id control \<noteq> []" "tc_initial control = Some i" "i \<noteq> 0" "col = ''w'' \<or> col = ''b''" "0 \<le> w" "0 \<le> b"
    and "json_stringify (clock_value gid (tc_id control) w b col t0) = Some raw"
    and "json_parse raw = Some (clock_value gid (tc_id control) w b col t0)"
  shows "let elapsed = max 0 (fdiv (fsub now t0) 1000);
      a1 = snd (saveClockSnapshot json_stringify env1 gid (tc_id control) (Fin w) (Fin b) col t0 a);
      w1 = (if turn = ''w'' \<and> col = ''w'' then max 0 (fsub w elapsed) else w);
      b1 = (if turn = ''b'' \<and> col = ''b'' then max 0 (fsub b elapsed) else b)
    in fst (restoreClockState json_parse env2 gid control turn now a1) =
      \<lparr>rc_white = Some w1, rc_black = Some b1,
       rc_flag = (if w1 \<le> 0 then Some ''w'' else if b1 \<le> 0 then Some ''b'' else None), rc_restored = True\<rparr>"
proof -
  let ?v = "clock_value gid (tc_id control) w b col t0"
  let ?a = "snd (saveClockSnapshot json_stringify env1 gid (tc_id control) (Fin w) (Fin b) col t0 a)"
  have f: "field ''version'' ?v = JInt VERSION" "field ''gameId'' ?v = JStr gid" "field ''whiteTime'' ?v = JNum (Fin w)"
    "field ''blackTime'' ?v = JNum (Fin b)" "field ''activeColor'' ?v = JStr col" "field ''savedAt'' ?v = JNum (Fin t0)"
    "field ''timeControlId'' ?v = JStr (tc_id control)" "truthy ?v"
    using assms(2) by (simp_all add: clock_value_def truthy_def)
  have vok: "clock_value_ok gid ?v" using assms(5) unfolding clock_value_ok_def f finite_num_def by (simp add: f(8))
  have pin: "pinned ?a (clock_key gid) (Some raw)"
    by (rule save_pins [where tc = "tc_id control" and w = w and b = b and col = col]) (use assms(1,5,8) in simp_all)
  obtain a2 where l: "loadClockSnapshot json_parse env2 gid ?a = (Some ?v, a2)"
    using load_pinned [where json_parse = json_parse and env = env2, OF assms(1) pin assms(9) vok] by (metis prod.collapse)
  have "fst (restoreClockState json_parse env2 gid control turn now ?a) = restored_from ?v turn now"
    unfolding restoreClockState_def assms(3) using assms(4) by (simp add: l f)
  also have "\<dots> = (let elapsed = max 0 (fdiv (fsub now t0) 1000);
      w1 = (if turn = ''w'' \<and> col = ''w'' then max 0 (fsub w elapsed) else w);
      b1 = (if turn = ''b'' \<and> col = ''b'' then max 0 (fsub b elapsed) else b)
    in \<lparr>rc_white = Some w1, rc_black = Some b1,
       rc_flag = (if w1 \<le> 0 then Some ''w'' else if b1 \<le> 0 then Some ''b'' else None), rc_restored = True\<rparr>)"
    unfolding restored_from_def f saved_at_def stored_seconds_def json.case jsnum.case
    using assms(5-7) by (auto simp: Let_def)
  finally show ?thesis by (simp add: Let_def)
qed

theorem clock_refresh_fair_witness:
  "rc_restored (fst (restoreClockState (\<lambda>_. Some (clock_value ''g1'' ''5+0'' 12 30 ''w'' 0)) Absent ''g1'' (timeControlById ''5+0'') ''b'' 5000
     (snd (saveClockSnapshot (\<lambda>_. Some ''x'') (Faulty 0) ''g1'' ''5+0'' (Fin 12) (Fin 30) ''w'' 0 (empty_area [])))))"
proof -
  have tc: "tc_id (timeControlById ''5+0'') = ''5+0''" "tc_initial (timeControlById ''5+0'') = Some 300"
    by (simp_all add: timeControlById_def TIME_CONTROLS_def)
  show ?thesis
    using clock_refresh_fair [of "''g1''" "timeControlById ''5+0''" 300 "''w''" 12 30 "\<lambda>_. Some ''x''" 0 "''x''"
      "\<lambda>_. Some (clock_value ''g1'' ''5+0'' 12 30 ''w'' 0)" 5000 "Faulty 0" "empty_area []" "''b''" Absent]
    by (simp add: tc Let_def)
qed

end
