(* ===== verification/Tournament.thy ===== *)
theory Tournament
  imports JsonValues AdaptiveDifficulty
begin

text \<open>
  Tournament mode: \<open>tournament.js\<close> (points, level, difficulty, results) and \<open>tournamentRewards.js\<close>
  (titles and piece skins).

  The state is the object the storage holds, so its fields may be anything: \<open>js_plus\<close> and
  \<open>json_number\<close> do what the source's operators do. The id of the active game
  (\<open>loadActiveGameSession()?.gameId\<close>) is an argument. An infinite number of points is read as 0.
\<close>

definition STORAGE_KEY :: string where "STORAGE_KEY = ''chess-study-tournament''"
definition POINTS_PER_LEVEL :: rat where "POINTS_PER_LEVEL = 50"

definition EMPTY_STATE :: "(string \<times> json) list" where
  "EMPTY_STATE = [(''points'', JInt 0), (''progressPoints'', JInt 0), (''wins'', JInt 0), (''draws'', JInt 0),
                  (''losses'', JInt 0), (''winStreak'', JInt 0), (''bestWinStreak'', JInt 0)]"

definition finite_or_zero :: "json \<Rightarrow> rat" where
  "finite_or_zero v = (case json_number v of Fin q \<Rightarrow> q | _ \<Rightarrow> 0)"

text \<open>\<open>progressPoints\<close> when it is a finite number, else the older \<open>points\<close>.\<close>

definition progress_of :: "json \<Rightarrow> rat" where
  "progress_of v =
     (case json_number (field ''progressPoints'' v) of Fin q \<Rightarrow> q | _ \<Rightarrow> finite_or_zero (field ''points'' v))"

definition loadTournament :: "json_api \<Rightarrow> store \<Rightarrow> json" where
  "loadTournament js st =
     (let parsed = read_json js STORAGE_KEY (JObj []) st
      in with_fields (spread_fields parsed @ [(''progressPoints'', JNum (Fin (progress_of parsed)))]) (JObj EMPTY_STATE))"

definition saveTournament :: "json_api \<Rightarrow> json \<Rightarrow> store \<Rightarrow> store" where
  "saveTournament js state st = st(STORAGE_KEY \<mapsto> stringify js state)"

definition resetTournament :: "store \<Rightarrow> json \<times> store" where
  "resetTournament st = (JObj EMPTY_STATE, st(STORAGE_KEY := None))"

definition levelForPoints :: "rat \<Rightarrow> int" where
  "levelForPoints points = \<lfloor>fdiv points POINTS_PER_LEVEL\<rfloor> + 1"

definition pointsIntoLevel :: "int \<Rightarrow> int" where
  "pointsIntoLevel points = (if points < 0 then - ((- points) mod 50) else points mod 50)"

section \<open>Difficulty\<close>

definition TOURNAMENT_ENGINE_CURVE :: "(int \<times> int) list" where
  "TOURNAMENT_ENGINE_CURVE =
    [(0, 0), (60, 60), (69, 64), (70, 65), (80, 69), (81, 70), (89, 79), (90, 80), (91, 83), (92, 86), (93, 89),
     (94, 90), (95, 92), (96, 94), (97, 96), (98, 97), (99, 98), (100, 100)]"

definition calibrateTournamentDifficulty :: "int \<Rightarrow> int" where
  "calibrateTournamentDifficulty rawDifficulty =
     (let raw = max 0 (min 100 rawDifficulty) in curve_from raw TOURNAMENT_ENGINE_CURVE)"

text \<open>\<open>Math.sqrt\<close> of a whole number, correctly rounded: \<open>isqrt\<close> is the integer square root, found bit by
  bit, and the double is the nearest of 53 bits (a tie cannot happen).\<close>

fun isqrt_bits :: "nat \<Rightarrow> int \<Rightarrow> int \<Rightarrow> int" where
  "isqrt_bits 0 n acc = acc"
| "isqrt_bits (Suc k) n acc = (let c = acc + 2 ^ k in isqrt_bits k n (if c * c \<le> n then c else acc))"

definition js_sqrt :: "int \<Rightarrow> rat" where
  "js_sqrt n =
     (if n \<le> 0 then 0
      else let e = (bits n - 1) div 2;
               m = n * 4 ^ nat (52 - e);
               s = isqrt_bits 64 m 0
           in of_int (if s * s + s < m then s + 1 else s) / pow2 (52 - e))"

definition difficultyForLevel :: "int \<Rightarrow> int" where
  "difficultyForLevel level =
     calibrateTournamentDifficulty (min 100 (js_round (fmul 10 (js_sqrt (max 0 (level - 1))))))"

section \<open>Points\<close>

definition hintCost :: "int \<Rightarrow> int \<Rightarrow> int" where
  "hintCost level hintsUsedInGame = (3 + level div 2) * (hintsUsedInGame + 1)"

definition puzzleRetryCost :: "int \<Rightarrow> int" where
  "puzzleRetryCost currentStreak = 8 + currentStreak * 2"

definition PIECE_POINT_VALUES :: "(string, int) obj" where
  "PIECE_POINT_VALUES = [(''p'', 1), (''n'', 3), (''b'', 3), (''r'', 5), (''q'', 9)]"

definition piece_points :: "string \<Rightarrow> int" where
  "piece_points t = (case obj_get PIECE_POINT_VALUES t of None \<Rightarrow> 0 | Some v \<Rightarrow> v)"

definition capturePoints :: "string \<Rightarrow> string \<Rightarrow> int \<Rightarrow> int" where
  "capturePoints capturingPieceType capturedPieceType level =
     (let capturedValue = piece_points capturedPieceType;
          tradeBonus = max 0 (capturedValue - piece_points capturingPieceType);
          levelMultiplier = 1 + level div 10
      in (capturedValue + tradeBonus) * levelMultiplier)"

definition streakBonus :: "int \<Rightarrow> int \<Rightarrow> int" where
  "streakBonus streakCount level = (if streakCount < 2 then 0 else (streakCount - 1) * 2 * (1 + level div 10))"

definition applyCaptureReward :: "json \<Rightarrow> json \<Rightarrow> json" where
  "applyCaptureReward state gained =
     (let amount = max 0 (js_round (finite_or_zero gained))
      in with_fields [(''points'', js_plus (or_else_json (field ''points'' state) (JInt 0)) (JInt amount))] state)"

record tournament_result =
  tn_state :: json
  tn_gained :: int
  tn_leveledUp :: bool
  tn_newLevel :: int
  tn_duplicate :: bool

definition points_for :: "string \<Rightarrow> int" where
  "points_for outcome = (if outcome = ''win'' then 20 else if outcome = ''draw'' then 5 else 0)"

definition count_more :: "json \<Rightarrow> string \<Rightarrow> bool \<Rightarrow> json" where
  "count_more state k b = js_plus (or_else_json (field k state) (JInt 0)) (JInt (if b then 1 else 0))"

definition counted_result :: "json \<Rightarrow> string \<Rightarrow> json \<Rightarrow> tournament_result" where
  "counted_result state outcome gameId =
     (let gained = points_for outcome;
          priorProgress = progress_of state;
          progressPoints = fadd priorProgress (of_int gained);
          winStreak = (if outcome = ''win'' then js_plus (or_else_json (field ''winStreak'' state) (JInt 0)) (JInt 1) else JInt 0);
          bestWinStreak = JNum (num_max (json_number (or_else_json (field ''bestWinStreak'' state) (JInt 0))) (json_number winStreak));
          next = [(''points'', or_else_json (field ''points'' state) (JInt 0)), (''progressPoints'', JNum (Fin progressPoints)),
                  (''wins'', count_more state ''wins'' (outcome = ''win'')),
                  (''draws'', count_more state ''draws'' (outcome = ''draw'')),
                  (''losses'', count_more state ''losses'' (outcome = ''loss'')),
                  (''winStreak'', winStreak), (''bestWinStreak'', bestWinStreak)]
                 @ (if truthy gameId then [(''lastGameId'', gameId)] else [])
      in \<lparr>tn_state = with_fields next state, tn_gained = gained,
          tn_leveledUp = levelForPoints priorProgress < levelForPoints progressPoints,
          tn_newLevel = levelForPoints progressPoints, tn_duplicate = False\<rparr>)"

definition applyResult :: "json_api \<Rightarrow> store \<Rightarrow> json \<Rightarrow> json \<Rightarrow> string \<Rightarrow> tournament_result" where
  "applyResult js st gameId state outcome =
     (let gained = points_for outcome;
          persisted = loadTournament js st
      in if truthy gameId \<and> strict_eq (field ''lastGameId'' persisted) gameId
         then (let progress = finite_or_zero (field ''progressPoints'' persisted);
                   newLevel = levelForPoints progress
               in \<lparr>tn_state = persisted, tn_gained = gained,
                   tn_leveledUp = levelForPoints (max 0 (fsub progress (of_int gained))) < newLevel,
                   tn_newLevel = newLevel, tn_duplicate = True\<rparr>)
         else counted_result state outcome gameId)"

section \<open>Rewards\<close>

record reward =
  rw_level :: int
  rw_id :: string
  rw_label :: string

definition TITLES :: "reward list" where
  "TITLES =
    [\<lparr>rw_level = 1, rw_id = ''novato'', rw_label = ''Novato''\<rparr>,
     \<lparr>rw_level = 5, rw_id = ''aprendiz'', rw_label = ''Aprendiz aplicado''\<rparr>,
     \<lparr>rw_level = 10, rw_id = ''constante'', rw_label = ''Jugador constante''\<rparr>,
     \<lparr>rw_level = 20, rw_id = ''tactico'', rw_label = (''Ojo t'' @ [CHR 0xE1] @ ''ctico'')\<rparr>,
     \<lparr>rw_level = 30, rw_id = ''estratega'', rw_label = (''Estratega de sill'' @ [CHR 0xF3] @ ''n'')\<rparr>,
     \<lparr>rw_level = 45, rw_id = ''veterano'', rw_label = ''Veterano de tablero''\<rparr>,
     \<lparr>rw_level = 60, rw_id = ''implacable'', rw_label = ''Implacable''\<rparr>,
     \<lparr>rw_level = 80, rw_id = ''maestro-de-casa'', rw_label = ''Maestro de casa''\<rparr>]"

definition PIECE_SKINS :: "reward list" where
  "PIECE_SKINS =
    [\<lparr>rw_level = 1, rw_id = ''default'', rw_label = ''Pixel medieval''\<rparr>,
     \<lparr>rw_level = 1, rw_id = ''studio'', rw_label = ''Studio Marfil''\<rparr>,
     \<lparr>rw_level = 5, rw_id = ''regimiento'', rw_label = (''Regimiento Espa'' @ [CHR 0xF1] @ ''ol'')\<rparr>,
     \<lparr>rw_level = 10, rw_id = ''azul'', rw_label = ''Pixel azulado''\<rparr>,
     \<lparr>rw_level = 15, rw_id = ''shogunate'', rw_label = (''Shogunato Ne'' @ [CHR 0xF3] @ ''n'')\<rparr>,
     \<lparr>rw_level = 25, rw_id = ''esmeralda'', rw_label = ''Pixel esmeralda''\<rparr>,
     \<lparr>rw_level = 30, rw_id = ''cyber'', rw_label = (''Divisi'' @ [CHR 0xF3] @ ''n Cyber'')\<rparr>,
     \<lparr>rw_level = 45, rw_id = ''marines'', rw_label = ''Marines Expedicionarios''\<rparr>,
     \<lparr>rw_level = 60, rw_id = ''delta'', rw_label = ''Delta Nocturna''\<rparr>]"

definition unlockedTitles :: "int \<Rightarrow> bool \<Rightarrow> reward list" where
  "unlockedTitles level isAdmin = (if isAdmin then TITLES else filter (\<lambda>t. rw_level t \<le> level) TITLES)"

definition unlockedSkins :: "int \<Rightarrow> bool \<Rightarrow> reward list" where
  "unlockedSkins level isAdmin = (if isAdmin then PIECE_SKINS else filter (\<lambda>s. rw_level s \<le> level) PIECE_SKINS)"

definition nextTitleToUnlock :: "int \<Rightarrow> reward option" where
  "nextTitleToUnlock level = List.find (\<lambda>t. level < rw_level t) TITLES"

definition nextSkinToUnlock :: "int \<Rightarrow> reward option" where
  "nextSkinToUnlock level = List.find (\<lambda>s. level < rw_level s) PIECE_SKINS"

definition TITLE_KEY :: string where "TITLE_KEY = ''chess-study-selected-title''"
definition SKIN_KEY :: string where "SKIN_KEY = ''chess-study-selected-skin''"

definition loadSelectedTitle :: "store \<Rightarrow> string" where
  "loadSelectedTitle st = (case st TITLE_KEY of None \<Rightarrow> ''novato'' | Some s \<Rightarrow> if s = [] then ''novato'' else s)"

definition saveSelectedTitle :: "string \<Rightarrow> store \<Rightarrow> store" where
  "saveSelectedTitle i st = st(TITLE_KEY \<mapsto> i)"

definition loadSelectedSkin :: "string \<Rightarrow> store \<Rightarrow> string" where
  "loadSelectedSkin boardRenderer st =
     (case st SKIN_KEY of
        Some s \<Rightarrow> if s \<noteq> [] then s else if boardRenderer = ''2d'' then ''default'' else ''studio''
      | None \<Rightarrow> if boardRenderer = ''2d'' then ''default'' else ''studio'')"

definition saveSelectedSkin :: "string \<Rightarrow> store \<Rightarrow> store" where
  "saveSelectedSkin i st = st(SKIN_KEY \<mapsto> (if list_ex (\<lambda>s. rw_id s = i) PIECE_SKINS then i else ''studio''))"

section \<open>Properties\<close>

interpretation tournament_curve: engine_curve TOURNAMENT_ENGINE_CURVE
  by unfold_locales (simp_all add: TOURNAMENT_ENGINE_CURVE_def)

text \<open>the tournament's engine curve never asks the engine for more than the level does, stays within
  0..100 and is monotone: a higher raw difficulty never meets a weaker engine.\<close>

theorem tournament_curve_sound:
  "mono calibrateTournamentDifficulty \<and> 0 \<le> calibrateTournamentDifficulty x \<and>
   calibrateTournamentDifficulty x \<le> max 0 (min 100 x)"
  using tournament_curve.calibration_bounds [of x] tournament_curve.calibration_mono
  unfolding mono_def calibrateTournamentDifficulty_def Let_def by blast

lemma isqrt_bits_correct:
  "0 \<le> acc \<Longrightarrow> acc * acc \<le> n \<Longrightarrow> n < (acc + 2 ^ k) * (acc + 2 ^ k) \<Longrightarrow>
   (let r = isqrt_bits k n acc in r * r \<le> n \<and> n < (r + 1) * (r + 1) \<and> 0 \<le> r)"
  by (induction k n acc rule: isqrt_bits.induct) (auto simp: Let_def algebra_simps)

lemma with_fields_obj:
  assumes "obj_wf d"
  obtains e where "with_fields new (JObj d) = JObj e" "obj_wf e"
    "\<And>k. map_of e k = (case map_of (rev new) k of None \<Rightarrow> map_of d k | Some v \<Rightarrow> Some v)"
  using that [of "fold (\<lambda>(k, v). AList.update k v) new d"] jsobj.wf_fold_put [OF assms, of new] jsobj.get_fold_put [of new d]
  by (simp add: with_fields_def)

text \<open>Reading back a saved state: every stored property, and the progress as a number.\<close>

lemma load_saved:
  assumes "obj_wf e" "survives js (JObj e)" "map_of e k = Some v" "k \<noteq> ''progressPoints''"
  shows "field k (loadTournament js (saveTournament js (JObj e) st)) = v"
    "field ''progressPoints'' (loadTournament js (saveTournament js (JObj e) st)) = JNum (Fin (progress_of (JObj e)))"
  using assms map_of_rev [OF assms(1)]
  by (simp_all add: loadTournament_def saveTournament_def read_json_written Let_def spread_fields_def field_with_fields)

text \<open>A game counts once in the tournament: once its result is applied and saved, applying any result with
  the same game id is answered from the stored state, as a duplicate, with the same progress, points, wins,
  draws, losses and streak; a result pays 20, 5 or nothing and never touches the points of the hint wallet,
  and a capture never touches the progress.\<close>

theorem tournament_result_once:
  assumes "obj_wf d" "survives js (tn_state (counted_result (JObj d) outcome (JStr (x # g))))"
  shows "let first = counted_result (JObj d) outcome (JStr (x # g));
      again = applyResult js (saveTournament js (tn_state first) st) (JStr (x # g)) other outcome'
    in tn_duplicate again \<and> list_all (\<lambda>k. field k (tn_state again) = field k (tn_state first))
         [''progressPoints'', ''points'', ''wins'', ''draws'', ''losses'', ''winStreak'', ''lastGameId''] \<and>
       field ''progressPoints'' (tn_state first) = JNum (Fin (fadd (progress_of (JObj d)) (of_int (points_for outcome)))) \<and>
       field ''points'' (tn_state first) = or_else_json (field ''points'' (JObj d)) (JInt 0) \<and>
       progress_of (applyCaptureReward (tn_state first) gained) = progress_of (tn_state first)"
proof -
  let ?f = "counted_result (JObj d) outcome (JStr (x # g))"
  have tr: "truthy (JStr (x # g))" by (simp add: truthy_def)
  define new where "new = [(''points'', or_else_json (field ''points'' (JObj d)) (JInt 0)),
    (''progressPoints'', JNum (Fin (fadd (progress_of (JObj d)) (of_int (points_for outcome))))),
    (''wins'', count_more (JObj d) ''wins'' (outcome = ''win'')), (''draws'', count_more (JObj d) ''draws'' (outcome = ''draw'')),
    (''losses'', count_more (JObj d) ''losses'' (outcome = ''loss'')),
    (''winStreak'', if outcome = ''win'' then js_plus (or_else_json (field ''winStreak'' (JObj d)) (JInt 0)) (JInt 1) else JInt 0),
    (''bestWinStreak'', JNum (num_max (json_number (or_else_json (field ''bestWinStreak'' (JObj d)) (JInt 0)))
       (json_number (if outcome = ''win'' then js_plus (or_else_json (field ''winStreak'' (JObj d)) (JInt 0)) (JInt 1) else JInt 0)))),
    (''lastGameId'', JStr (x # g))]"
  have st: "tn_state ?f = with_fields new (JObj d)"
    unfolding counted_result_def new_def Let_def tournament_result.select_convs using tr by simp
  obtain e where e: "with_fields new (JObj d) = JObj e" "obj_wf e"
      "\<And>k. map_of e k = (case map_of (rev new) k of None \<Rightarrow> map_of d k | Some v \<Rightarrow> Some v)"
    by (rule with_fields_obj [OF assms(1), of new]) blast
  have sv: "survives js (JObj e)" using assms(2) unfolding st e(1) .
  have f: "map_of e ''progressPoints'' = Some (JNum (Fin (fadd (progress_of (JObj d)) (of_int (points_for outcome)))))"
    "map_of e ''points'' = Some (or_else_json (field ''points'' (JObj d)) (JInt 0))" "map_of e ''lastGameId'' = Some (JStr (x # g))"
    "map_of e ''wins'' \<noteq> None" "map_of e ''draws'' \<noteq> None" "map_of e ''losses'' \<noteq> None" "map_of e ''winStreak'' \<noteq> None"
    unfolding e(3) new_def by simp_all
  let ?L = "loadTournament js (saveTournament js (JObj e) st)"
  have prog: "progress_of (JObj e) = fadd (progress_of (JObj d)) (of_int (points_for outcome))"
    by (simp add: progress_of_def f)
  have keep: "field k ?L = field k (JObj e)" if "map_of e k \<noteq> None" "k \<noteq> ''progressPoints''" for k
    using load_saved(1) [OF e(2) sv _ that(2)] that(1) by auto
  have pp: "field ''progressPoints'' ?L = field ''progressPoints'' (JObj e)"
    using load_saved(2) [OF e(2) sv, of "''points''"] f prog by auto
  have dup: "strict_eq (field ''lastGameId'' ?L) (JStr (x # g))"
    using keep [of "''lastGameId''"] f(3) by (simp add: strict_eq_def is_object_def)
  have cap: "progress_of (applyCaptureReward (JObj e) gained) = progress_of (JObj e)"
    using f(1) by (simp add: applyCaptureReward_def Let_def progress_of_def field_with_fields)
  have again: "tn_state (applyResult js (saveTournament js (JObj e) st) (JStr (x # g)) other outcome') = ?L"
    "tn_duplicate (applyResult js (saveTournament js (JObj e) st) (JStr (x # g)) other outcome')"
    using tr dup by (simp_all add: applyResult_def Let_def)
  have all: "list_all (\<lambda>k. field k ?L = field k (JObj e))
         [''progressPoints'', ''points'', ''wins'', ''draws'', ''losses'', ''winStreak'', ''lastGameId'']"
    using pp keep f by (simp del: field_JObj)
  show ?thesis
    unfolding Let_def st e(1) again(1) using again(2) all cap f(1,2) by simp
qed

theorem tournament_result_once_witness:
  "tn_duplicate (applyResult \<lparr>stringify = (\<lambda>_. ''x''), parse = (\<lambda>_. Some (tn_state (counted_result (JObj EMPTY_STATE) ''win'' (JStr ''g1''))))\<rparr>
     (saveTournament \<lparr>stringify = (\<lambda>_. ''x''), parse = (\<lambda>_. Some (tn_state (counted_result (JObj EMPTY_STATE) ''win'' (JStr ''g1''))))\<rparr>
       (tn_state (counted_result (JObj EMPTY_STATE) ''win'' (JStr ''g1''))) (\<lambda>_. None)) (JStr ''g1'') JNull ''loss'')"
proof -
  have w: "obj_wf EMPTY_STATE" by (simp add: EMPTY_STATE_def)
  show ?thesis
    using tournament_result_once [OF w, of "\<lparr>stringify = (\<lambda>_. ''x''), parse = (\<lambda>_. Some (tn_state (counted_result (JObj EMPTY_STATE) ''win'' (JStr ''g1''))))\<rparr>"
        "''win''" "CHR ''g''" "''1''" "\<lambda>_. None" JNull "''loss''" JNull]
    by (simp add: survives_def Let_def)
qed

end
