(* ===== verification/Coordination.thy ===== *)
theory Coordination
  imports JsonValues "HOL-Library.List_Lexorder"
begin

text \<open>
  Who may change a game, and which late answers still count: \<open>gameAuthorityGeneration.js\<close>,
  \<open>operationId.js\<close>, \<open>gameMutationCoordinator.js\<close> and \<open>combatAsyncCoordinator.js\<close>.

  A \<open>Symbol\<close>, an \<open>AbortController\<close> and a timer are numbers drawn from a counter of the state, so
  two of them are never the same. The clock, the generated ids and the results of callbacks are arguments. The
  coordinator is the only user of the authority tokens here.
\<close>

section \<open>Authority\<close>

record authority =
  au_generation :: int
  au_tokens :: "nat list"
  au_next :: nat

definition no_authority :: authority where
  "no_authority = \<lparr>au_generation = 0, au_tokens = [], au_next = 0\<rparr>"

definition currentGameAuthorityGeneration :: "authority \<Rightarrow> int" where
  "currentGameAuthorityGeneration a = au_generation a"

definition hasActiveGameMutation :: "authority \<Rightarrow> bool" where
  "hasActiveGameMutation a \<longleftrightarrow> 0 < length (au_tokens a)"

definition markGameMutationStarted :: "authority \<Rightarrow> nat \<times> authority" where
  "markGameMutationStarted a =
     (au_next a, a\<lparr>au_generation := au_generation a + 1, au_tokens := au_tokens a @ [au_next a], au_next := au_next a + 1\<rparr>)"

definition markGameMutationFinished :: "nat \<Rightarrow> authority \<Rightarrow> bool \<times> authority" where
  "markGameMutationFinished token a = (token \<in> set (au_tokens a), a\<lparr>au_tokens := filter (\<lambda>t. t \<noteq> token) (au_tokens a)\<rparr>)"

section \<open>Operation ids\<close>

definition scope_char :: "char \<Rightarrow> bool" where
  "scope_char c \<longleftrightarrow>
     (let n = (of_char c :: nat)
      in (65 \<le> n \<and> n \<le> 90) \<or> (97 \<le> n \<and> n \<le> 122) \<or> (48 \<le> n \<and> n \<le> 57) \<or> c \<in> {CHR ''_'', CHR ''.'', CHR ''-''})"

text \<open>\<open>uuid\<close> is what \<open>crypto.randomUUID\<close> gives, if it exists; \<open>fallback\<close> the text built from the clock.\<close>

definition createOperationId :: "string \<Rightarrow> string option \<Rightarrow> string \<Rightarrow> string" where
  "createOperationId scope uuid fallback =
     (let clean = take 20 (filter scope_char (if scope = [] then ''op'' else scope));
          cleanScope = (if clean = [] then ''op'' else clean)
      in case uuid of Some u \<Rightarrow> if u \<noteq> [] then cleanScope @ '':'' @ u else cleanScope @ '':'' @ fallback
         | None \<Rightarrow> cleanScope @ '':'' @ fallback)"

text \<open>A stored value has no cycle, so the guard against cycles never fires.\<close>

fun canonicalJsonValue :: "json \<Rightarrow> json" where
  "canonicalJsonValue (JArr vs) = JArr (map canonicalJsonValue vs)"
| "canonicalJsonValue (JObj kvs) = JObj (sort_key fst (map (\<lambda>(k, v). (k, canonicalJsonValue v)) kvs))"
| "canonicalJsonValue v = v"

definition fingerprint_part :: "json_api \<Rightarrow> json \<Rightarrow> string" where
  "fingerprint_part js part =
     (if part = JNull \<or> part = JUndef then []
      else if is_object part then stringify js (canonicalJsonValue part) else json_string part)"

definition operationFingerprint :: "json_api \<Rightarrow> json list \<Rightarrow> string" where
  "operationFingerprint js parts = join_with ''|'' (map (fingerprint_part js) parts)"

record retry =
  re_fingerprint :: string
  re_operationId :: string
  re_failedAt :: rat

text \<open>\<open>createRetryOperationIdCache\<close>: \<open>resolve\<close> and \<open>confirm\<close> on the cached retry; \<open>new_id\<close> is the
  id that would be created.\<close>

definition retry_resolve ::
  "json_api \<Rightarrow> rat \<Rightarrow> rat \<Rightarrow> string \<Rightarrow> json list \<Rightarrow> (string \<times> string) option \<Rightarrow> retry option \<Rightarrow> (string \<times> string) \<times> retry option" where
  "retry_resolve js ttlMs now new_id parts current cached =
     (let fp = operationFingerprint js parts
      in case current of
           Some (cur_id, cur_fp) \<Rightarrow>
             if cur_id \<noteq> [] \<and> cur_fp = fp then ((cur_id, fp), cached)
             else (let i = (case cached of Some r \<Rightarrow> if re_fingerprint r = fp \<and> now - re_failedAt r < ttlMs
                              then re_operationId r else new_id | None \<Rightarrow> new_id)
                   in ((i, fp), Some \<lparr>re_fingerprint = fp, re_operationId = i, re_failedAt = now\<rparr>))
         | None \<Rightarrow> (let i = (case cached of Some r \<Rightarrow> if re_fingerprint r = fp \<and> now - re_failedAt r < ttlMs
                              then re_operationId r else new_id | None \<Rightarrow> new_id)
                   in ((i, fp), Some \<lparr>re_fingerprint = fp, re_operationId = i, re_failedAt = now\<rparr>)))"

definition retry_confirm :: "string \<Rightarrow> retry option \<Rightarrow> retry option" where
  "retry_confirm i cached =
     (case cached of Some r \<Rightarrow> if i \<noteq> [] \<and> re_operationId r = i then None else cached | None \<Rightarrow> None)"

section \<open>The mutation coordinator\<close>

record operation =
  op_kind :: string
  op_token :: nat
  op_session :: int
  op_authorityToken :: nat

record coordinator =
  co_session :: int
  co_current :: "operation option"
  co_retry :: "retry option"
  co_next :: nat
  co_aborted :: "nat list"
  co_authority :: authority

definition createGameMutationCoordinator :: coordinator where
  "createGameMutationCoordinator =
     \<lparr>co_session = 0, co_current = None, co_retry = None, co_next = 0, co_aborted = [], co_authority = no_authority\<rparr>"

definition DEFAULT_RETRY_WINDOW_MS :: rat where "DEFAULT_RETRY_WINDOW_MS = 5 * 60000"

definition begin_mutation :: "string \<Rightarrow> coordinator \<Rightarrow> operation option \<times> coordinator" where
  "begin_mutation kind c =
     (case co_current c of
        Some _ \<Rightarrow> (None, c)
      | None \<Rightarrow>
          let (token, authority) = markGameMutationStarted (co_authority c);
              operation = \<lparr>op_kind = kind, op_token = co_next c, op_session = co_session c, op_authorityToken = token\<rparr>
          in (Some operation, c\<lparr>co_current := Some operation, co_next := co_next c + 1, co_authority := authority\<rparr>))"

definition hasCurrent :: "coordinator \<Rightarrow> bool" where
  "hasCurrent c \<longleftrightarrow> co_current c \<noteq> None"

definition isCurrent :: "operation \<Rightarrow> coordinator \<Rightarrow> bool" where
  "isCurrent operation c \<longleftrightarrow> co_current c = Some operation \<and> op_session operation = co_session c"

definition finish_mutation :: "operation \<Rightarrow> coordinator \<Rightarrow> bool \<times> coordinator" where
  "finish_mutation operation c =
     (if co_current c \<noteq> Some operation then (False, c)
      else (True, c\<lparr>co_current := None,
                    co_authority := snd (markGameMutationFinished (op_authorityToken operation) (co_authority c))\<rparr>))"

definition abortCurrent :: "coordinator \<Rightarrow> bool \<times> coordinator" where
  "abortCurrent c =
     (case co_current c of
        None \<Rightarrow> (False, c)
      | Some operation \<Rightarrow>
          (True, c\<lparr>co_current := None, co_aborted := co_aborted c @ [op_token operation],
                   co_authority := snd (markGameMutationFinished (op_authorityToken operation) (co_authority c))\<rparr>))"

definition invalidateSession :: "bool \<Rightarrow> coordinator \<Rightarrow> int \<times> coordinator" where
  "invalidateSession clearRetry c =
     (let c1 = snd (abortCurrent (c\<lparr>co_session := co_session c + 1\<rparr>));
          c2 = (if clearRetry then c1\<lparr>co_retry := None\<rparr> else c1)
      in (co_session c2, c2))"

definition operationId :: "json_api \<Rightarrow> rat \<Rightarrow> rat \<Rightarrow> string \<Rightarrow> string \<Rightarrow> json list \<Rightarrow> coordinator \<Rightarrow> string \<times> coordinator" where
  "operationId js retryWindowMs now new_id kind parts c =
     (let fp = operationFingerprint js (JStr kind # parts)
      in case co_retry c of
           Some r \<Rightarrow>
             if re_fingerprint r = fp \<and> now - re_failedAt r < retryWindowMs then (re_operationId r, c)
             else (new_id, c\<lparr>co_retry := Some \<lparr>re_fingerprint = fp, re_operationId = new_id, re_failedAt = now\<rparr>\<rparr>)
         | None \<Rightarrow> (new_id, c\<lparr>co_retry := Some \<lparr>re_fingerprint = fp, re_operationId = new_id, re_failedAt = now\<rparr>\<rparr>))"

definition confirm :: "string \<Rightarrow> coordinator \<Rightarrow> bool \<times> coordinator" where
  "confirm i c =
     (case co_retry c of
        Some r \<Rightarrow> if i \<noteq> [] \<and> re_operationId r = i then (True, c\<lparr>co_retry := None\<rparr>) else (False, c)
      | None \<Rightarrow> (False, c))"

section \<open>The combat coordinator\<close>

text \<open>A timer: its number, the generation it was scheduled in and the name of its callback. \<open>cc_timers\<close>
  are the timers the browser will still fire; a cleared or fired timer is gone from it.\<close>

record timer =
  tm_id :: nat
  tm_generation :: int
  tm_callback :: string

record combat_coordinator =
  cc_mounted :: bool
  cc_generation :: int
  cc_cpu :: "nat option"
  cc_aborted :: "nat list"
  cc_timers :: "timer list"
  cc_next :: nat

definition createCombatAsyncCoordinator :: combat_coordinator where
  "createCombatAsyncCoordinator =
     \<lparr>cc_mounted = True, cc_generation = 0, cc_cpu = None, cc_aborted = [], cc_timers = [], cc_next = 0\<rparr>"

definition isGenerationCurrent :: "int \<Rightarrow> combat_coordinator \<Rightarrow> bool" where
  "isGenerationCurrent expected c \<longleftrightarrow> cc_mounted c \<and> cc_generation c = expected"



text \<open>Whether an error of a callback reaches \<open>onDeferredError\<close>: thrown at once, or a later rejection.\<close>

definition reports_throw :: "int \<Rightarrow> combat_coordinator \<Rightarrow> bool" where
  "reports_throw scheduledGeneration c \<longleftrightarrow> isGenerationCurrent scheduledGeneration c"

definition reports_rejection :: "int \<Rightarrow> bool \<Rightarrow> combat_coordinator \<Rightarrow> bool" where
  "reports_rejection scheduledGeneration abort_error c \<longleftrightarrow>
     \<not> (\<not> isGenerationCurrent scheduledGeneration c \<or> abort_error)"









section \<open>Properties\<close>

datatype mutation_call = Begin string | Finish operation | Abort | Invalidate bool | NewId rat string string "json list" | Confirm string

fun mutation_exec :: "json_api \<Rightarrow> mutation_call \<Rightarrow> coordinator \<Rightarrow> coordinator" where
  "mutation_exec js (Begin k) c = snd (begin_mutation k c)"
| "mutation_exec js (Finish x) c = snd (finish_mutation x c)"
| "mutation_exec js Abort c = snd (abortCurrent c)"
| "mutation_exec js (Invalidate b) c = snd (invalidateSession b c)"
| "mutation_exec js (NewId now i k ps) c = snd (operationId js DEFAULT_RETRY_WINDOW_MS now i k ps c)"
| "mutation_exec js (Confirm i) c = snd (confirm i c)"

text \<open>The calls after which an operation is no longer the current one.\<close>

fun ends_operation :: "operation \<Rightarrow> mutation_call \<Rightarrow> bool" where
  "ends_operation x (Finish y) = (y = x)"
| "ends_operation x Abort = True"
| "ends_operation x (Invalidate b) = True"
| "ends_operation x _ = False"

definition coordinator_ok :: "coordinator \<Rightarrow> bool" where
  "coordinator_ok c \<longleftrightarrow>
     (case co_current c of
        None \<Rightarrow> au_tokens (co_authority c) = []
      | Some x \<Rightarrow> au_tokens (co_authority c) = [op_authorityToken x] \<and> op_token x < co_next c \<and> op_session x = co_session c)"

lemma coordinator_ok_exec: "coordinator_ok c \<Longrightarrow> coordinator_ok (mutation_exec js x c)"
  by (cases x; cases "co_current c")
    (auto simp: coordinator_ok_def begin_mutation_def markGameMutationStarted_def finish_mutation_def abortCurrent_def
      markGameMutationFinished_def invalidateSession_def operationId_def confirm_def Let_def split: option.splits)

lemma coordinator_ok_run: "coordinator_ok c \<Longrightarrow> coordinator_ok (fold (mutation_exec js) xs c)"
  by (induction xs arbitrary: c) (simp_all add: coordinator_ok_exec)

lemma coordinator_ok_start: "coordinator_ok createGameMutationCoordinator"
  by (simp add: coordinator_ok_def createGameMutationCoordinator_def no_authority_def)

lemma exec_next: "co_next c \<le> co_next (mutation_exec js x c)"
  by (cases x; cases "co_current c")
    (auto simp: begin_mutation_def finish_mutation_def abortCurrent_def invalidateSession_def operationId_def confirm_def
      Let_def markGameMutationStarted_def split: option.splits)

text \<open>An operation that is not current never becomes current again; a current one stays so until it is ended.\<close>

lemma past_stays_past:
  "op_token o1 < co_next c \<Longrightarrow> co_current c \<noteq> Some o1 \<Longrightarrow> co_current (mutation_exec js x c) \<noteq> Some o1"
  by (cases x; cases "co_current c")
    (auto simp: begin_mutation_def finish_mutation_def abortCurrent_def invalidateSession_def operationId_def confirm_def
      Let_def markGameMutationStarted_def split: option.splits)

lemma current_until_ended:
  "co_current c = Some o1 \<Longrightarrow> (co_current (mutation_exec js x c) = Some o1) = (\<not> ends_operation o1 x)"
  by (cases x)
    (auto simp: begin_mutation_def finish_mutation_def abortCurrent_def invalidateSession_def operationId_def confirm_def
      Let_def split: option.splits)

lemma past_run: "op_token o1 < co_next c \<Longrightarrow> co_current c \<noteq> Some o1 \<Longrightarrow> co_current (fold (mutation_exec js) xs c) \<noteq> Some o1"
proof (induction xs arbitrary: c)
  case (Cons x xs)
  have "op_token o1 < co_next (mutation_exec js x c)" using exec_next [of c js x] Cons.prems(1) by simp
  then show ?case using Cons.IH past_stays_past [OF Cons.prems] by simp
qed simp

lemma current_run:
  "op_token o1 < co_next c \<Longrightarrow> co_current c = Some o1 \<Longrightarrow>
   (co_current (fold (mutation_exec js) xs c) = Some o1) = list_all (\<lambda>x. \<not> ends_operation o1 x) xs"
proof (induction xs arbitrary: c)
  case (Cons x xs)
  have n: "op_token o1 < co_next (mutation_exec js x c)" using exec_next [of c js x] Cons.prems(1) by simp
  show ?case
    using Cons.IH [OF n] past_run [OF n] current_until_ended [OF Cons.prems(2), of js x] by (cases "ends_operation o1 x") auto
qed simp

text \<open>What finishing the current operation leaves: nothing current, nothing marked active, and the retry kept.\<close>

lemma finish_current:
  assumes "coordinator_ok c" "co_current c = Some x"
  shows "fst (finish_mutation x c) \<and> \<not> hasCurrent (snd (finish_mutation x c)) \<and>
    \<not> hasActiveGameMutation (co_authority (snd (finish_mutation x c))) \<and> co_retry (snd (finish_mutation x c)) = co_retry c"
  using assms by (simp add: coordinator_ok_def finish_mutation_def hasCurrent_def hasActiveGameMutation_def markGameMutationFinished_def)

text \<open>C25: One mutation of a game at a time: whatever calls came before, starting one is refused, and changes nothing,
  exactly while another is current; an operation that started is the current one exactly until it is finished, aborted or
  its session invalidated, and never again. As long as it is current no other can start, and finishing it leaves nothing
  current and nothing marked active; once it is stale, finishing it answers false and changes nothing at all. The authority
  holds one token exactly while an operation is current, so a mutation is never left marked active.\<close>

theorem one_mutation_at_a_time:
  "let c = fold (mutation_exec js) before createGameMutationCoordinator
   in case begin_mutation k c of
        (None, c1) \<Rightarrow> hasCurrent c \<and> c1 = c
      | (Some x, c1) \<Rightarrow>
          (let c2 = fold (mutation_exec js) after c1
           in \<not> hasCurrent c \<and> isCurrent x c2 = list_all (\<lambda>call. \<not> ends_operation x call) after \<and>
              (if isCurrent x c2
               then begin_mutation k' c2 = (None, c2) \<and> fst (finish_mutation x c2) \<and> \<not> hasCurrent (snd (finish_mutation x c2)) \<and>
                 \<not> hasActiveGameMutation (co_authority (snd (finish_mutation x c2))) \<and> co_retry (snd (finish_mutation x c2)) = co_retry c2
               else finish_mutation x c2 = (False, c2)) \<and>
              hasActiveGameMutation (co_authority c2) = hasCurrent c2 \<and> length (au_tokens (co_authority c2)) \<le> 1)"
proof -
  let ?c = "fold (mutation_exec js) before createGameMutationCoordinator"
  have ok: "coordinator_ok ?c" by (rule coordinator_ok_run [OF coordinator_ok_start])
  show ?thesis
  proof (cases "co_current ?c")
    case (Some y)
    then show ?thesis by (simp add: begin_mutation_def hasCurrent_def Let_def)
  next
    case None
    obtain x c1 where b: "begin_mutation k ?c = (Some x, c1)"
      using None by (simp add: begin_mutation_def Let_def markGameMutationStarted_def)
    have x: "co_current c1 = Some x" "op_token x < co_next c1" "op_session x = co_session c1"
      using b None by (auto simp: begin_mutation_def Let_def markGameMutationStarted_def)
    have ok1: "coordinator_ok c1" using coordinator_ok_exec [OF ok, of js "Begin k"] b by simp
    let ?d = "fold (mutation_exec js) after c1"
    have okd: "coordinator_ok ?d" by (rule coordinator_ok_run [OF ok1])
    have cur: "(co_current ?d = Some x) = list_all (\<lambda>call. \<not> ends_operation x call) after" by (rule current_run [OF x(2,1)])
    have session: "op_session x = co_session ?d" if "co_current ?d = Some x" using okd that by (simp add: coordinator_ok_def)
    have "isCurrent x ?d = list_all (\<lambda>call. \<not> ends_operation x call) after" using cur session by (auto simp: isCurrent_def)
    moreover have "hasActiveGameMutation (co_authority ?d) = hasCurrent ?d" "length (au_tokens (co_authority ?d)) \<le> 1"
      using okd by (auto simp: coordinator_ok_def hasActiveGameMutation_def hasCurrent_def split: option.splits)
    moreover have "begin_mutation k' ?d = (None, ?d)" if "isCurrent x ?d"
      using that by (simp add: isCurrent_def begin_mutation_def)
    moreover note finish_current [OF okd, of x]
    moreover have "finish_mutation x ?d = (False, ?d)" if "\<not> isCurrent x ?d"
      using that session by (auto simp: isCurrent_def finish_mutation_def)
    ultimately show ?thesis using b None by (auto simp: Let_def isCurrent_def hasCurrent_def [of ?c])
  qed
qed







end
