(* ===== verification/RosterUnits.thy ===== *)
theory RosterUnits
  imports JsonValues CombatEngine CombatRanks
begin

text \<open>
  The units of the army, as the roster object of the profile keeps them: \<open>combatIdentity.js\<close> (who a unit
  is), \<open>combatUnitService.js\<close> (its service record, medals and the memorial) and
  \<open>combatMetamorphosis.js\<close> (the forms a veteran has earned).

  The roster is what the storage holds, so it is a \<open>json\<close> value that may be damaged; returning the same
  object is returning the same value. The random source is a sequence of draws with the number of the
  next one, the clock is an argument, and two ids are the same when their values are. A dictionary that
  is an array has no keys of its own, and the keys of an object keep their order of insertion.
\<close>

section \<open>Objects of the roster\<close>

text \<open>\<open>v && typeof v === 'object' ? v : {}\<close>, \<open>{ ...v, new }\<close>, \<open>delete v[k]\<close> and \<open>k in v\<close>.\<close>

definition dict :: "json \<Rightarrow> json" where
  "dict v = (if truthy v \<and> is_object v then v else JObj [])"

definition obj_with :: "json \<Rightarrow> (string \<times> json) list \<Rightarrow> json" where
  "obj_with v new = JObj (fold (\<lambda>(k, j). AList.update k j) new (spread_fields v))"

definition without :: "string \<Rightarrow> json \<Rightarrow> json" where
  "without k v = JObj (AList.delete k (spread_fields v))"

definition has_key :: "string \<Rightarrow> json \<Rightarrow> bool" where
  "has_key k v \<longleftrightarrow> k \<in> set (map fst (spread_fields v))"

definition string_or_null :: "json \<Rightarrow> json" where
  "string_or_null v = (case v of JStr s \<Rightarrow> v | _ \<Rightarrow> JNull)"

definition is_text :: "json \<Rightarrow> bool" where
  "is_text v = (case v of JStr _ \<Rightarrow> True | _ \<Rightarrow> False)"

text \<open>\<open>Number.isFinite(Number(v)) ? Math.max(0, Math.floor(Number(v))) : fallback\<close>.\<close>

definition finiteNonNegative :: "int \<Rightarrow> json \<Rightarrow> int" where
  "finiteNonNegative fallback v = (case json_number v of Fin q \<Rightarrow> max 0 \<lfloor>q\<rfloor> | _ \<Rightarrow> fallback)"

text \<open>\<open>(v || 0) >= n\<close> and \<open>Math.min(n, v || 0)\<close>.\<close>

definition at_least :: "json \<Rightarrow> rat \<Rightarrow> bool" where
  "at_least v n = (case json_number (or_else_json v (JInt 0)) of Fin q \<Rightarrow> n \<le> q | PInf \<Rightarrow> True | _ \<Rightarrow> False)"

definition at_most_text :: "rat \<Rightarrow> json \<Rightarrow> string" where
  "at_most_text n v = show_number (negate (num_max (Fin (- n)) (negate (json_number (or_else_json v (JInt 0))))))"

text \<open>\<open>o.k += n\<close> on a number.\<close>

definition bump :: "string \<Rightarrow> rat \<Rightarrow> json \<Rightarrow> json" where
  "bump k n v = obj_with v [(k, JNum (num_plus (json_number (field k v)) (Fin n)))]"

lemma field_obj_with:
  "field k (obj_with v new) = (case map_of (rev new) k of Some x \<Rightarrow> x | None \<Rightarrow> field k (JObj (spread_fields v)))"
  using jsobj.get_fold_put [of new "spread_fields v" k] by (simp add: obj_with_def split: option.splits)

lemma finiteNonNegative_bound [simp, intro]: "0 \<le> finiteNonNegative 0 v"
  by (simp add: finiteNonNegative_def split: jsnum.splits)

lemma finiteNonNegative_int [simp]: "finiteNonNegative d (JInt i) = max 0 i"
  by (simp add: finiteNonNegative_def)

section \<open>Dates and random tokens\<close>

text \<open>\<open>new Date(ms).toISOString()\<close>, from the days since 1970-01-01 in the Gregorian calendar.\<close>

definition pad :: "nat \<Rightarrow> string \<Rightarrow> string" where
  "pad n s = replicate (n - length s) CHR ''0'' @ s"

definition civil_from_days :: "int \<Rightarrow> int \<times> int \<times> int" where
  "civil_from_days days =
     (let z = days + 719468; era = z div 146097; doe = z mod 146097;
          yoe = (doe - doe div 1460 + doe div 36524 - doe div 146096) div 365;
          doy = doe - (365 * yoe + yoe div 4 - yoe div 100);
          mp = (5 * doy + 2) div 153; d = doy - (153 * mp + 2) div 5 + 1;
          m = (if mp < 10 then mp + 3 else mp - 9)
      in (yoe + era * 400 + (if m \<le> 2 then 1 else 0), m, d))"

definition iso_year :: "int \<Rightarrow> string" where
  "iso_year y = (if 0 \<le> y \<and> y \<le> 9999 then pad 4 (show_nat (nat y))
                 else (if y < 0 then ''-'' else ''+'') @ pad 6 (show_nat (nat \<bar>y\<bar>)))"

definition iso_text :: "int \<Rightarrow> string" where
  "iso_text ms =
     (let (y, m, d) = civil_from_days (ms div 86400000); t = ms mod 86400000; p = (\<lambda>n i. pad n (show_nat (nat i)))
      in iso_year y @ ''-'' @ p 2 m @ ''-'' @ p 2 d @ ''T'' @ p 2 (t div 3600000) @ '':'' @ p 2 (t div 60000 mod 60) @ '':''
         @ p 2 (t div 1000 mod 60) @ ''.'' @ p 3 (t mod 1000) @ ''Z'')"

text \<open>\<open>n.toString(36)\<close> on a whole number.\<close>

definition radix_char :: "nat \<Rightarrow> char" where
  "radix_char d = char_of (if d < 10 then 48 + d else 87 + d)"

fun show_radix :: "nat \<Rightarrow> string" where
  "show_radix n = (if n < 36 then [radix_char n] else show_radix (n div 36) @ [radix_char (n mod 36)])"

declare show_radix.simps [simp del]

definition base36 :: "int \<Rightarrow> string" where
  "base36 i = (if i < 0 then CHR ''-'' # show_radix (nat (- i)) else show_radix (nat i))"

section \<open>Identities\<close>

definition MARTIAL_ALIASES :: "string list" where
  "MARTIAL_ALIASES =
    [''Rivas'', ''Salcedo'', ''Serrano'', ''Varela'', ''Mena'', (''Galv'' @ [CHR 0xE1] @ ''n''), (''Cort'' @ [CHR 0xE9] @ ''s''), ''Ferrer'',
     ''Soria'', ''Navarro'', (''T'' @ [CHR 0xE9] @ ''llez''), ''Aranda'', (''Rold'' @ [CHR 0xE1] @ ''n''), ''Vidal'', ''Leiva'', ''Cervera'',
     ''Requena'', ''Montoya'', ''Segura'', (''Beltr'' @ [CHR 0xE1] @ ''n''), ''Lozano'', ''Robles'', ''Molina'', ''Ortega'',
     (''D'' @ [CHR 0xE1] @ ''vila''), ''Bravo'', ''Quiroga'', (''Casta'' @ [CHR 0xF1] @ ''o''), ''Barea'', ''Ledesma'', ''Vega'', ''Carrasco'']"

definition LEGACY_ALIASES :: "string list" where
  "LEGACY_ALIASES =
    [''Starky'', ''Hutch'', ''Blockade'', ''Skippy'', ''Missus'', ''Noodles'', ''Sapper'', ''Biscuit'',
     ''Latch'', ''Bruno'', ''Moxie'', ''Rookster'', ''Patch'', ''Dusty'', ''Knuckles'', ''Marlow'',
     ''Cinder'', ''Twitch'', ''Mugs'', ''Flick'', ''Rivet'', ''Pogo'', ''Dagger'', ''Minnie'',
     ''Cricket'', ''Gasket'', ''Pepper'', ''Bunker'', ''Lucky'', ''Socks'', ''Spanner'', ''Murmur'']"

definition LEGACY_TO_MARTIAL :: "json \<Rightarrow> string option" where
  "LEGACY_TO_MARTIAL alias = map_of (zip LEGACY_ALIASES MARTIAL_ALIASES) (json_string alias)"

definition randomToken :: "rat \<Rightarrow> string" where
  "randomToken r = pad 6 (base36 \<lfloor>fmul r 2147483647\<rfloor>)"

text \<open>The aliases in use that the migration leaves alone.\<close>

definition kept_aliases :: "json \<Rightarrow> json list" where
  "kept_aliases identities =
     filter (\<lambda>alias. truthy alias \<and> LEGACY_TO_MARTIAL alias = None)
       (map (\<lambda>(_, entry). field ''alias'' entry) (spread_fields identities))"

definition martial_alias :: "string \<Rightarrow> json list \<Rightarrow> string" where
  "martial_alias preferred used =
     (if JStr preferred \<notin> set used then preferred
      else case List.find (\<lambda>candidate. JStr candidate \<notin> set used) MARTIAL_ALIASES of None \<Rightarrow> preferred | Some a \<Rightarrow> a)"

text \<open>One turn of the loop: the aliases in use, the identities, the service records, whether anything changed.\<close>

definition migrate_one :: "string \<times> json \<Rightarrow> json list \<times> json \<times> json \<times> bool \<Rightarrow> json list \<times> json \<times> json \<times> bool" where
  "migrate_one = (\<lambda>(key, identity) (used, identities, unitRecords, changed).
     let legacyAlias = field ''alias'' identity
     in case (if truthy legacyAlias then LEGACY_TO_MARTIAL legacyAlias else None) of
          None \<Rightarrow> (used, identities, unitRecords, changed)
        | Some preferred \<Rightarrow>
            let alias = martial_alias preferred used;
                identityId = field ''identityId'' identity;
                record = (if truthy identityId then field (json_string identityId) unitRecords else JNull);
                rename = truthy record \<and> (\<not> truthy (field ''alias'' record) \<or> field ''alias'' record = legacyAlias)
            in (JStr alias # used,
                obj_with identities [(key, obj_with identity [(''alias'', JStr alias)])],
                if rename then obj_with unitRecords [(json_string identityId, obj_with record [(''alias'', JStr alias)])]
                else unitRecords,
                True))"

definition migrateLegacyAliases :: "json \<Rightarrow> json \<times> bool" where
  "migrateLegacyAliases rosterState =
     (let identities = obj_with (or_else_json (field ''identities'' rosterState) (JObj [])) [];
          unitRecords = obj_with (or_else_json (field ''unitRecords'' rosterState) (JObj [])) [];
          (_, ids, recs, changed) =
            fold migrate_one (spread_fields identities) (kept_aliases identities, identities, unitRecords, False)
      in if changed then (obj_with rosterState [(''identities'', ids), (''unitRecords'', recs)], True)
         else (rosterState, False))"

text \<open>\<open>rng k\<close> is the \<open>k\<close>-th draw; the result holds the number of the next one.\<close>

definition createCombatIdentity :: "json list \<Rightarrow> (nat \<Rightarrow> rat) \<Rightarrow> nat \<Rightarrow> int \<Rightarrow> json \<times> nat" where
  "createCombatIdentity existingAliases rng k now =
     (let used = filter truthy existingAliases;
          available = filter (\<lambda>alias. JStr alias \<notin> set used) MARTIAL_ALIASES;
          pool = (if available \<noteq> [] then available else MARTIAL_ALIASES);
          alias = pool ! nat (\<lfloor>fmul (rng k) (of_nat (length pool))\<rfloor> mod int (length pool))
      in (JObj [(''alias'', JStr alias),
                (''identityId'', JStr (''unit-'' @ base36 now @ ''-'' @ randomToken (rng (k + 1)))),
                (''createdAt'', JStr (iso_text now)),
                (''bio'', JNull),
                (''bioStatus'', JStr ''pending'')], k + 2))"

text \<open>An identity from before the biographies gets its biography status.\<close>

definition with_bio_status :: "string \<times> json \<Rightarrow> json \<times> bool \<Rightarrow> json \<times> bool" where
  "with_bio_status = (\<lambda>(key, identity) (identities, changed).
     if \<not> truthy (field ''identityId'' identity) \<or> has_key ''bioStatus'' identity then (identities, changed)
     else (obj_with identities [(key, obj_with identity
             [(''bio'', or_else_json (field ''bio'' identity) JNull),
              (''bioStatus'', JStr (if truthy (field ''bio'' identity) then ''ready'' else ''pending''))])], True))"

definition fill_slot ::
  "(nat \<Rightarrow> rat) \<Rightarrow> int \<Rightarrow> slot \<Rightarrow> json \<times> json list \<times> nat \<times> bool \<Rightarrow> json \<times> json list \<times> nat \<times> bool" where
  "fill_slot rng now slot = (\<lambda>(identities, aliases, k, changed).
     let key = rosterSlotKey slot; there = field key identities
     in if truthy (field ''alias'' there) \<and> truthy (field ''identityId'' there) then (identities, aliases, k, changed)
        else let (identity, k') = createCombatIdentity aliases rng k (now + int (length aliases))
             in (obj_with identities [(key, identity)], aliases @ [field ''alias'' identity], k', True))"

definition ensureCombatIdentities :: "json \<Rightarrow> (nat \<Rightarrow> rat) \<Rightarrow> int \<Rightarrow> json" where
  "ensureCombatIdentities rosterState rng now =
     (let (migrated, moved) = migrateLegacyAliases (or_else_json rosterState (JObj []));
          start = obj_with (or_else_json (field ''identities'' migrated) (JObj [])) [];
          (identities, touched) = fold with_bio_status (spread_fields start) (start, moved \<or> \<not> truthy rosterState);
          aliases = filter truthy (map (\<lambda>(_, entry). field ''alias'' entry) (spread_fields identities));
          (filled, _, _, changed) = fold (fill_slot rng now) CANONICAL_ROSTER_SLOTS (identities, aliases, 0, touched)
      in if changed then obj_with migrated [(''identities'', filled)] else migrated)"

definition one_spaced :: "string \<Rightarrow> string" where
  "one_spaced s =
     concat (map (\<lambda>(i, c). if \<not> is_blank c then [c]
                           else if 0 < i \<and> is_blank (s ! (i - 1)) then [] else '' '') (enumerate 0 s))"

definition roster_identity :: "json \<Rightarrow> string \<Rightarrow> json" where
  "roster_identity rosterState key = field key (field ''identities'' rosterState)"

definition with_identity :: "json \<Rightarrow> string \<Rightarrow> json \<Rightarrow> json" where
  "with_identity rosterState key identity =
     obj_with rosterState [(''identities'', obj_with (field ''identities'' rosterState) [(key, identity)])]"

definition saveCombatIdentityBio :: "json \<Rightarrow> string \<Rightarrow> json \<Rightarrow> string \<Rightarrow> json" where
  "saveCombatIdentityBio rosterState key bio nowIso =
     (let identity = roster_identity rosterState key;
          clean = take 520 (trim (one_spaced (json_string (or_else_json bio (JStr [])))))
      in if \<not> truthy (field ''identityId'' identity) \<or> clean = [] then rosterState
         else with_identity rosterState key (obj_with identity
                [(''bio'', JStr clean), (''bioStatus'', JStr ''ready''), (''bioGeneratedAt'', JStr nowIso)]))"

definition markCombatIdentityBioPending :: "json \<Rightarrow> string \<Rightarrow> json" where
  "markCombatIdentityBioPending rosterState key =
     (let identity = roster_identity rosterState key
      in if \<not> truthy (field ''identityId'' identity) \<or> field ''bioStatus'' identity = JStr ''ready'' then rosterState
         else with_identity rosterState key (obj_with identity [(''bio'', JNull), (''bioStatus'', JStr ''pending'')]))"

definition combatIdentityFor :: "json \<Rightarrow> string \<Rightarrow> json" where
  "combatIdentityFor rosterState key = or_else_json (roster_identity rosterState key) JNull"

section \<open>Service records\<close>

definition MAX_PROCESSED_BATTLES :: nat where "MAX_PROCESSED_BATTLES = 120"
definition MAX_MEMORIAL_ENTRIES :: nat where "MAX_MEMORIAL_ENTRIES = 96"

record decoration =
  de_id :: string
  de_short :: string
  de_label :: string
  de_description :: string
  de_test :: "json \<Rightarrow> bool"

definition stat_reaches :: "json \<Rightarrow> string \<Rightarrow> rat \<Rightarrow> bool" where
  "stat_reaches stats k n = (case json_number (field k stats) of Fin q \<Rightarrow> n \<le> q | PInf \<Rightarrow> True | _ \<Rightarrow> False)"

definition UNIT_DECORATIONS :: "decoration list" where
  "UNIT_DECORATIONS =
    [\<lparr>de_id = ''baptism'', de_short = ''BF'', de_label = ''Bautismo de fuego'',
      de_description = (''Sobrevivi'' @ [CHR 0xF3] @ '' a su primera batalla.''),
      de_test = (\<lambda>stats. stat_reaches stats ''survivals'' 1)\<rparr>,
     \<lparr>de_id = ''five_kills'', de_short = ''5B'', de_label = ''Cinco bajas'',
      de_description = (''Confirm'' @ [CHR 0xF3] @ '' al menos 5 bajas enemigas.''),
      de_test = (\<lambda>stats. stat_reaches stats ''kills'' 5)\<rparr>,
     \<lparr>de_id = ''iron_streak'', de_short = ''HIE'', de_label = ''Hierro viejo'',
      de_description = (''Encaden'' @ [CHR 0xF3] @ '' 5 batallas seguidas sobreviviendo.''),
      de_test = (\<lambda>stats. stat_reaches stats ''bestSurvivalStreak'' 5)\<rparr>,
     \<lparr>de_id = ''veteran'', de_short = ''VET'', de_label = (''Veterano de campa'' @ [CHR 0xF1] @ ''a''),
      de_description = (''Particip'' @ [CHR 0xF3] @ '' en 10 batallas y sobrevivi'' @ [CHR 0xF3] @ '' al menos 7.''),
      de_test = (\<lambda>stats. stat_reaches stats ''battles'' 10 \<and> stat_reaches stats ''survivals'' 7)\<rparr>,
     \<lparr>de_id = ''boss_survivor'', de_short = ''BOSS'', de_label = ''Cicatriz del jefe'',
      de_description = (''Sobrevivi'' @ [CHR 0xF3] @ '' a una victoria contra un jefe.''),
      de_test = (\<lambda>stats. stat_reaches stats ''bossVictories'' 1)\<rparr>,
     \<lparr>de_id = ''ace'', de_short = ''ACE'', de_label = ''As de combate'',
      de_description = (''Confirm'' @ [CHR 0xF3] @ '' al menos 10 bajas enemigas.''),
      de_test = (\<lambda>stats. stat_reaches stats ''kills'' 10)\<rparr>]"

definition emptyStats :: "(string \<times> json) list" where
  "emptyStats =
    [(''battles'', JInt 0), (''wins'', JInt 0), (''draws'', JInt 0), (''losses'', JInt 0), (''retirements'', JInt 0),
     (''survivals'', JInt 0), (''deaths'', JInt 0), (''revives'', JInt 0), (''kills'', JInt 0), (''bossDamage'', JInt 0),
     (''bossVictories'', JInt 0), (''bossFinishes'', JInt 0), (''currentSurvivalStreak'', JInt 0),
     (''bestSurvivalStreak'', JInt 0), (''lastDeathAt'', JNull)]"

definition counted_stats :: "string list" where
  "counted_stats =
    [''battles'', ''wins'', ''draws'', ''losses'', ''retirements'', ''survivals'', ''deaths'', ''revives'',
     ''kills'', ''bossDamage'', ''bossVictories'', ''bossFinishes'', ''currentSurvivalStreak'', ''bestSurvivalStreak'']"

definition normalizeStats :: "json \<Rightarrow> json" where
  "normalizeStats input =
     (let stats = JObj (fold (\<lambda>(k, j). AList.update k j) (spread_fields (or_else_json input (JObj []))) emptyStats);
          counted = fold (\<lambda>k s. obj_with s [(k, JInt (finiteNonNegative 0 (field k s)))]) counted_stats stats
      in obj_with counted [(''lastDeathAt'', string_or_null (field ''lastDeathAt'' counted))])"

definition known_decoration :: "json \<Rightarrow> bool" where
  "known_decoration v \<longleftrightarrow> (\<exists>d \<in> set UNIT_DECORATIONS. v = JStr (de_id d))"

text \<open>The entries whose id has not been seen before.\<close>

fun first_of_each :: "json list \<Rightarrow> json list \<Rightarrow> json list" where
  "first_of_each seen [] = []"
| "first_of_each seen (e # es) =
     (if field ''id'' e \<in> set seen then first_of_each seen es else e # first_of_each (field ''id'' e # seen) es)"

definition medal :: "json \<Rightarrow> json \<Rightarrow> json" where
  "medal i earnedAt = JObj [(''id'', i), (''earnedAt'', earnedAt)]"

definition normalizeDecorations :: "json \<Rightarrow> json list" where
  "normalizeDecorations input =
     map (\<lambda>entry. medal (field ''id'' entry) (string_or_null (field ''earnedAt'' entry)))
       (first_of_each []
         (filter (\<lambda>entry. truthy entry \<and> known_decoration (field ''id'' entry))
           (map (\<lambda>entry. if is_text entry then medal entry JNull else entry) (elements input))))"

definition addEligibleDecorations :: "json \<Rightarrow> json \<Rightarrow> json" where
  "addEligibleDecorations record earnedAt =
     (let earned = elements (field ''decorations'' record);
          known = set (map (field ''id'') earned);
          fresh = filter (\<lambda>d. JStr (de_id d) \<notin> known \<and> de_test d (field ''stats'' record)) UNIT_DECORATIONS
      in obj_with record [(''decorations'', JArr (earned @ map (\<lambda>d. medal (JStr (de_id d)) earnedAt) fresh))])"

text \<open>\<open>String(key).split('-')[0] || null\<close>.\<close>

definition type_before_dash :: "string \<Rightarrow> json" where
  "type_before_dash s = (let t = hd (split_on CHR ''-'' s) in if t = [] then JNull else JStr t)"

definition text_or_empty :: "json \<Rightarrow> string" where
  "text_or_empty v = json_string (or_else_json v (JStr []))"

definition createRecord :: "json \<Rightarrow> json \<Rightarrow> json \<Rightarrow> json" where
  "createRecord identity slotKey nowIso =
     JObj [(''version'', JInt 1),
           (''identityId'', field ''identityId'' identity),
           (''alias'', or_else_json (field ''alias'' identity) (JStr ''Sin alias'')),
           (''slotKey'', slotKey),
           (''originType'', type_before_dash (text_or_empty slotKey)),
           (''createdAt'', or_else_json (field ''createdAt'' identity) nowIso),
           (''lastBattleAt'', JNull),
           (''stats'', JObj emptyStats),
           (''decorations'', JArr [])]"

definition normalizeRecord :: "json \<Rightarrow> json \<Rightarrow> json \<Rightarrow> json \<Rightarrow> json" where
  "normalizeRecord record identity slotKey nowIso =
     (let base = createRecord identity slotKey nowIso
      in addEligibleDecorations (obj_with base (spread_fields (or_else_json record (JObj [])) @
           [(''version'', JInt 1),
            (''identityId'', field ''identityId'' identity),
            (''alias'', or_else_json (field ''alias'' identity) (or_else_json (field ''alias'' record) (JStr ''Sin alias''))),
            (''slotKey'', slotKey),
            (''originType'', or_else_json (field ''originType'' record) (field ''originType'' base)),
            (''createdAt'', if is_text (field ''createdAt'' record) then field ''createdAt'' record else field ''createdAt'' base),
            (''lastBattleAt'', string_or_null (field ''lastBattleAt'' record)),
            (''stats'', normalizeStats (field ''stats'' record)),
            (''decorations'', JArr (normalizeDecorations (field ''decorations'' record)))])) JNull)"

text \<open>The record of one identity, brought up to date; the king has no record.\<close>

definition ensure_record :: "json_api \<Rightarrow> string \<Rightarrow> string \<times> json \<Rightarrow> json \<times> bool \<Rightarrow> json \<times> bool" where
  "ensure_record js nowIso = (\<lambda>(slotKey, identity) (unitRecords, changed).
     let identityId = field ''identityId'' identity
     in if starts ''k-'' slotKey \<or> \<not> truthy identityId then (unitRecords, changed)
        else let existing = field (json_string identityId) unitRecords;
                 normalized = normalizeRecord existing identity (JStr slotKey) (JStr nowIso)
             in (obj_with unitRecords [(json_string identityId, normalized)],
                 changed \<or> \<not> truthy existing \<or> stringify js existing \<noteq> stringify js normalized))"

definition ensureUnitServiceState :: "json_api \<Rightarrow> string \<Rightarrow> json \<Rightarrow> json" where
  "ensureUnitServiceState js nowIso rosterState =
     (let state = dict rosterState;
          identities = dict (field ''identities'' state);
          incomplete = (\<not> truthy (field ''unitRecords'' state) \<or> \<not> is_array (field ''memorial'' state)
                        \<or> \<not> is_array (field ''unitServiceProcessedBattleIds'' state));
          (current, changed) = fold (ensure_record js nowIso) (spread_fields identities)
                                 (obj_with (dict (field ''unitRecords'' state)) [], incomplete);
          activeIds = filter truthy (map (\<lambda>(_, entry). field ''identityId'' entry) (spread_fields identities));
          stale = map fst (filter (\<lambda>(i, record). JStr i \<notin> set activeIds \<and> field ''archived'' record = JBool True)
                             (spread_fields current));
          unitRecords = fold without stale current;
          memorial = last_n MAX_MEMORIAL_ENTRIES
            (filter (\<lambda>entry. truthy entry \<and> is_text (field ''identityId'' entry)) (elements (field ''memorial'' state)));
          processed = last_n MAX_PROCESSED_BATTLES
            (filter (\<lambda>i. is_text i \<and> truthy i) (elements (field ''unitServiceProcessedBattleIds'' state)))
      in if \<not> changed \<and> stale = [] \<and> field ''memorial'' state = JArr memorial
            \<and> field ''unitServiceProcessedBattleIds'' state = JArr processed
         then state
         else obj_with state [(''unitRecords'', unitRecords), (''memorial'', JArr memorial),
                              (''unitServiceProcessedBattleIds'', JArr processed)])"

definition unitRecordForKey :: "json \<Rightarrow> string \<Rightarrow> json" where
  "unitRecordForKey rosterState slotKey =
     (let identityId = field ''identityId'' (roster_identity rosterState slotKey)
      in if truthy identityId then or_else_json (field (json_string identityId) (field ''unitRecords'' rosterState)) JNull
         else JNull)"

definition unitDecorations :: "json \<Rightarrow> (decoration \<times> json) list" where
  "unitDecorations record =
     (let earned = normalizeDecorations (field ''decorations'' record);
          find = (\<lambda>d. List.find (\<lambda>entry. field ''id'' entry = JStr (de_id d)) earned)
      in map (\<lambda>d. (d, case find d of None \<Rightarrow> JNull | Some e \<Rightarrow> or_else_json (field ''earnedAt'' e) JNull))
           (filter (\<lambda>d. find d \<noteq> None) UNIT_DECORATIONS))"

definition unitServiceMarks :: "json \<Rightarrow> json list" where
  "unitServiceMarks record =
     (let revives = finiteNonNegative 0 (field ''revives'' (field ''stats'' record)); n = show_int revives;
          s = (if revives = 1 then [] else ''s'')
      in if revives < 1 then []
         else [JObj [(''id'', JStr ''revival-scar''), (''short'', JStr ''RET''), (''label'', JStr ''Cicatriz de retorno''),
                     (''description'', JStr (if revives = 1 then (''Esta identidad cay'' @ [CHR 0xF3] @ '' y fue revivida una vez.'')
                                             else (''Esta identidad cay'' @ [CHR 0xF3] @ '' y fue revivida '') @ n @ '' veces.'')),
                     (''provenance'', JStr (n @ '' revival'' @ s @ '' registrado'' @ s)),
                     (''count'', JInt revives)]])"

section \<open>What a battle writes\<close>

text \<open>The counters of one unit after a battle: its outcome, its survival, its kills.\<close>

definition outcome_stat :: "json \<Rightarrow> json \<Rightarrow> json" where
  "outcome_stat outcome stats =
     (if outcome = JStr ''win'' then bump ''wins'' 1 stats
      else if outcome = JStr ''draw'' then bump ''draws'' 1 stats
      else if outcome = JStr ''loss'' then bump ''losses'' 1 stats
      else if outcome = JStr ''retired'' then bump ''retirements'' 1 stats else stats)"

definition survival_stat :: "json \<Rightarrow> json \<Rightarrow> bool \<Rightarrow> json \<Rightarrow> json" where
  "survival_stat event date survived stats =
     (if survived then
        (let s = bump ''currentSurvivalStreak'' 1 (bump ''survivals'' 1 stats);
             best = obj_with s [(''bestSurvivalStreak'', JNum (num_max (json_number (field ''bestSurvivalStreak'' s))
                                                                (json_number (field ''currentSurvivalStreak'' s))))]
         in if truthy (field ''bossDefeated'' event) \<and> field ''outcome'' event = JStr ''win''
            then bump ''bossVictories'' 1 best else best)
      else obj_with (bump ''deaths'' 1 stats) [(''currentSurvivalStreak'', JInt 0), (''lastDeathAt'', date)])"

definition battle_stats :: "json \<Rightarrow> json \<Rightarrow> json \<Rightarrow> json \<Rightarrow> json" where
  "battle_stats event date identityId stats =
     (let key = json_string identityId;
          fought = outcome_stat (field ''outcome'' event) (bump ''battles'' 1 stats);
          killed = bump ''kills'' (of_int (finiteNonNegative 0 (field key (dict (field ''killsByIdentity'' event))))) fought;
          hurt = bump ''bossDamage''
                   (of_int (finiteNonNegative 0 (field key (dict (field ''bossDamageByIdentity'' event))))) killed;
          finisher = field ''bossFinisherIdentityId'' event;
          finished = (if is_text finisher \<and> finisher = identityId then bump ''bossFinishes'' 1 hurt else hurt)
      in survival_stat event date (identityId \<in> set (elements (field ''survivorIdentityIds'' event))) finished)"

definition record_participant :: "json \<Rightarrow> json \<Rightarrow> json \<Rightarrow> json \<Rightarrow> json" where
  "record_participant event date participant unitRecords =
     (let identityId = field ''identityId'' participant
      in if \<not> truthy identityId then unitRecords
         else let identity = JObj [(''identityId'', identityId),
                                   (''alias'', or_else_json (field ''alias'' participant) (JStr ''Sin alias'')),
                                   (''createdAt'', or_else_json (field ''createdAt'' participant) date)];
                  slotKey = or_else_json (field ''slotKey'' participant) (or_else_json (field ''key'' participant) (JStr []));
                  record = normalizeRecord (field (json_string identityId) unitRecords) identity slotKey date;
                  stats = battle_stats event date identityId (field ''stats'' record)
              in obj_with unitRecords [(json_string identityId,
                   addEligibleDecorations (obj_with record [(''lastBattleAt'', date), (''stats'', normalizeStats stats)]) date)])"

definition recordUnitBattle :: "json_api \<Rightarrow> string \<Rightarrow> json \<Rightarrow> json \<Rightarrow> json" where
  "recordUnitBattle js nowIso rosterState event =
     (let state = ensureUnitServiceState js nowIso rosterState;
          battleId = field ''battleId'' event;
          identified = (is_text battleId \<and> truthy battleId);
          done = elements (field ''unitServiceProcessedBattleIds'' state);
          date = (if is_text (field ''date'' event) then field ''date'' event else JStr nowIso);
          unitRecords = fold (record_participant event date) (elements (field ''participants'' event))
                          (obj_with (field ''unitRecords'' state) []);
          processed = (if identified then last_n MAX_PROCESSED_BATTLES (filter (\<lambda>i. i \<noteq> battleId) done @ [battleId]) else done)
      in if identified \<and> battleId \<in> set done then state
         else obj_with state [(''unitRecords'', unitRecords), (''unitServiceProcessedBattleIds'', JArr processed)])"

definition recordUnitRevive :: "json_api \<Rightarrow> string \<Rightarrow> json \<Rightarrow> string \<Rightarrow> string \<Rightarrow> json" where
  "recordUnitRevive js nowIso rosterState slotKey diedAt =
     (let state = ensureUnitServiceState js nowIso rosterState;
          identityId = field ''identityId'' (roster_identity state slotKey);
          record = (if truthy identityId then field (json_string identityId) (field ''unitRecords'' state) else JNull);
          stats = field ''stats'' record
      in if \<not> truthy record then state
         else obj_with state [(''unitRecords'', obj_with (field ''unitRecords'' state) [(json_string identityId,
                obj_with record [(''lastBattleAt'', or_else_json (field ''lastBattleAt'' record) (JStr diedAt)),
                                 (''stats'', obj_with stats [(''revives'',
                                    JNum (Fin (fadd (of_int (finiteNonNegative 0 (field ''revives'' stats))) 1)))])])])])"

definition rank_name :: "rank_id \<Rightarrow> string" where
  "rank_name r =
     (case r of Recruit \<Rightarrow> ''recruit'' | Soldier \<Rightarrow> ''soldier'' | Corporal \<Rightarrow> ''corporal'' | Sergeant \<Rightarrow> ''sergeant''
      | Lieutenant \<Rightarrow> ''lieutenant'' | Captain \<Rightarrow> ''captain'' | Commander \<Rightarrow> ''commander'' | Colonel \<Rightarrow> ''colonel''
      | General \<Rightarrow> ''general'')"

definition memorial_entry :: "json \<Rightarrow> json \<Rightarrow> json \<Rightarrow> string \<Rightarrow> string \<Rightarrow> json" where
  "memorial_entry state identity record slotKey diedAt =
     (let piece = field slotKey (field ''pieces'' state);
          finalLevel = 1 + finiteNonNegative 0 (field ''strengthPoints'' piece) + finiteNonNegative 0 (field ''speedPoints'' piece);
          finalRank = pieceRankForLevel finalLevel;
          lastDeath = field ''lastDeathAt'' (field ''stats'' record)
      in JObj [(''identityId'', field ''identityId'' identity),
               (''alias'', or_else_json (field ''alias'' identity) (field ''alias'' record)),
               (''slotKey'', JStr slotKey),
               (''originType'', or_else_json (field ''originType'' record) (type_before_dash slotKey)),
               (''createdAt'', or_else_json (field ''createdAt'' record) (or_else_json (field ''createdAt'' identity) JNull)),
               (''lastBattleAt'', or_else_json (field ''lastBattleAt'' record) (or_else_json lastDeath (JStr diedAt))),
               (''diedAt'', or_else_json lastDeath (JStr diedAt)),
               (''permanentDeathAt'', JStr diedAt),
               (''finalLevel'', JInt finalLevel),
               (''finalRankId'', JStr (rank_name (rk_id finalRank))),
               (''finalRankLabel'', JStr (rk_label finalRank)),
               (''stats'', normalizeStats (field ''stats'' record)),
               (''decorations'', JArr (normalizeDecorations (field ''decorations'' record)))])"

definition archivePermanentCasualty :: "json_api \<Rightarrow> string \<Rightarrow> json \<Rightarrow> string \<Rightarrow> string \<Rightarrow> json" where
  "archivePermanentCasualty js nowIso rosterState slotKey diedAt =
     (let state = ensureUnitServiceState js nowIso rosterState;
          identity = roster_identity state slotKey;
          identityId = field ''identityId'' identity;
          record = field (json_string identityId) (field ''unitRecords'' state);
          others = filter (\<lambda>entry. field ''identityId'' entry \<noteq> identityId) (elements (field ''memorial'' state))
      in if \<not> truthy identityId \<or> \<not> truthy record then state
         else obj_with state
                [(''unitRecords'', without (json_string identityId) (field ''unitRecords'' state)),
                 (''memorial'', JArr (last_n MAX_MEMORIAL_ENTRIES (others @ [memorial_entry state identity record slotKey diedAt])))])"

section \<open>Metamorphosis\<close>

definition METAMORPHOSIS_LABELS :: "(string \<times> string) list" where
  "METAMORPHOSIS_LABELS =
    [(''p'', (''Pe'' @ [CHR 0xF3] @ ''n'')), (''n'', ''Caballo''), (''b'', ''Alfil''), (''r'', ''Torre''), (''q'', ''Dama'')]"

record form_requirement =
  fr_rankId :: rank_id
  fr_rankLabel :: string
  fr_requirementLabel :: string
  fr_serviceTest :: "json \<Rightarrow> bool"
  fr_progressLabel :: "json \<Rightarrow> string"

definition FORM_REQUIREMENTS :: "(string \<times> form_requirement) list" where
  "FORM_REQUIREMENTS =
    [(''n'', \<lparr>fr_rankId = Commander, fr_rankLabel = ''Comandante'', fr_requirementLabel = ''3 supervivencias'',
       fr_serviceTest = (\<lambda>stats. at_least (field ''survivals'' stats) 3),
       fr_progressLabel = (\<lambda>stats. at_most_text 3 (field ''survivals'' stats) @ ''/3 supervivencias'')\<rparr>),
     (''b'', \<lparr>fr_rankId = Colonel, fr_rankLabel = ''Coronel'', fr_requirementLabel = ''medallas Cinco bajas + Hierro viejo'',
       fr_serviceTest = (\<lambda>stats. at_least (field ''kills'' stats) 5 \<and> at_least (field ''bestSurvivalStreak'' stats) 5),
       fr_progressLabel = (\<lambda>stats. at_most_text 5 (field ''kills'' stats) @ (''/5 bajas '' @ [CHR 0xB7] @ '' '')
                             @ at_most_text 5 (field ''bestSurvivalStreak'' stats) @ ''/5 racha superviviente'')\<rparr>),
     (''r'', \<lparr>fr_rankId = General, fr_rankLabel = ''General'', fr_requirementLabel = (''Veterano de campa'' @ [CHR 0xF1] @ ''a + Cicatriz del jefe''),
       fr_serviceTest = (\<lambda>stats. at_least (field ''battles'' stats) 10 \<and> at_least (field ''survivals'' stats) 7
                                 \<and> at_least (field ''bossVictories'' stats) 1),
       fr_progressLabel = (\<lambda>stats. at_most_text 10 (field ''battles'' stats) @ (''/10 batallas '' @ [CHR 0xB7] @ '' '')
                             @ at_most_text 7 (field ''survivals'' stats) @ (''/7 supervivencias '' @ [CHR 0xB7] @ '' '')
                             @ at_most_text 1 (field ''bossVictories'' stats) @ ''/1 boss'')\<rparr>)]"

text \<open>The level of a saved piece; \<open>pieceRankAtLeast\<close> floors it, and an infinite one reaches every rank.\<close>

definition points_of :: "json \<Rightarrow> jsnum" where
  "points_of v = num_max (Fin 0) (or_zero (json_number v))"

definition levelFromSaved :: "json \<Rightarrow> jsnum" where
  "levelFromSaved piece =
     num_plus (num_plus (Fin 1) (points_of (field ''strengthPoints'' piece))) (points_of (field ''speedPoints'' piece))"

definition rank_reached :: "jsnum \<Rightarrow> rank_id \<Rightarrow> bool" where
  "rank_reached level rankId = (case level of Fin q \<Rightarrow> pieceRankAtLeast \<lfloor>q\<rfloor> rankId | PInf \<Rightarrow> True | _ \<Rightarrow> pieceRankAtLeast 1 rankId)"

record form_status =
  fs_type :: string
  fs_label :: string
  fs_rankMet :: bool
  fs_serviceMet :: bool
  fs_rankId :: "rank_id option"
  fs_rankLabel :: string
  fs_requirementLabel :: string
  fs_progressLabel :: string

definition form_of :: "jsnum \<Rightarrow> json \<Rightarrow> string \<times> form_requirement \<Rightarrow> form_status" where
  "form_of level stats = (\<lambda>(type, requirement).
     \<lparr>fs_type = type, fs_label = (case map_of METAMORPHOSIS_LABELS type of None \<Rightarrow> type | Some l \<Rightarrow> l),
      fs_rankMet = rank_reached level (fr_rankId requirement), fs_serviceMet = fr_serviceTest requirement stats,
      fs_rankId = Some (fr_rankId requirement), fs_rankLabel = fr_rankLabel requirement,
      fs_requirementLabel = fr_requirementLabel requirement, fs_progressLabel = fr_progressLabel requirement stats\<rparr>)"

definition fs_unlocked :: "form_status \<Rightarrow> bool" where
  "fs_unlocked s \<longleftrightarrow> fs_rankMet s \<and> fs_serviceMet s"

definition deploymentUnlockStatus :: "string \<Rightarrow> json \<Rightarrow> json \<Rightarrow> form_status list" where
  "deploymentUnlockStatus key saved unitRecord =
     (let original = hd (split_on CHR ''-'' key);
          origin = \<lparr>fs_type = original,
                    fs_label = (case map_of METAMORPHOSIS_LABELS original of None \<Rightarrow> original | Some l \<Rightarrow> l),
                    fs_rankMet = True, fs_serviceMet = True, fs_rankId = None, fs_rankLabel = [],
                    fs_requirementLabel = ''Clase de origen'', fs_progressLabel = ''Disponible''\<rparr>;
          stats = or_else_json (field ''stats'' unitRecord) (JObj [])
      in if \<not> truthy saved \<or> field ''alive'' saved = JBool False \<or> original \<noteq> ''p'' then [origin]
         else origin # map (form_of (levelFromSaved saved) stats) FORM_REQUIREMENTS)"

definition unlockedDeploymentTypes :: "string \<Rightarrow> json \<Rightarrow> json \<Rightarrow> string list" where
  "unlockedDeploymentTypes key saved unitRecord = map fs_type (filter fs_unlocked (deploymentUnlockStatus key saved unitRecord))"

definition canChooseDeploymentType :: "string \<Rightarrow> json \<Rightarrow> json \<Rightarrow> json \<Rightarrow> bool" where
  "canChooseDeploymentType key saved targetType unitRecord \<longleftrightarrow>
     (\<exists>t \<in> set (unlockedDeploymentTypes key saved unitRecord). targetType = JStr t)"

definition roster_piece :: "json \<Rightarrow> string \<Rightarrow> json" where
  "roster_piece rosterState key = field key (field ''pieces'' rosterState)"

definition setRosterDeploymentType :: "json \<Rightarrow> string \<Rightarrow> json \<Rightarrow> json" where
  "setRosterDeploymentType rosterState key targetType =
     (let saved = roster_piece rosterState key; original = hd (split_on CHR ''-'' key)
      in if \<not> truthy saved \<or> \<not> canChooseDeploymentType key saved targetType (unitRecordForKey rosterState key) then rosterState
         else obj_with rosterState [(''pieces'', obj_with (field ''pieces'' rosterState) [(key,
                obj_with saved [(''deploymentType'', if targetType = JStr original then JNull else targetType),
                                (''metamorphosis'', JUndef)])])])"

end
