(* ===== verification/RosterDeployment.thy ===== *)
theory RosterDeployment
  imports RosterUnits
begin

text \<open>
  Which unit stands where: \<open>combatDeployment.js\<close>. A slot of the board and a unit of the army are apart;
  the deployment maps slots to unit keys, and every operation rebuilds it through
  \<open>normalizedDeployment\<close>. Unit keys read from the roster may be any value, those a caller passes are
  text. \<open>collate\<close> is \<open>localeCompare\<close> (at most 0), an argument; the chess board is the
  \<open>chess_api\<close> of \<open>CombatEngine\<close>.
\<close>

definition DEPLOYMENT_VERSION :: json where "DEPLOYMENT_VERSION = JInt 1"
definition RESERVE_GRANT_LIMIT :: nat where "RESERVE_GRANT_LIMIT = 32"

definition originTypeForRosterKey :: "json \<Rightarrow> json" where
  "originTypeForRosterKey key = type_before_dash (text_or_empty key)"

definition slot_for_key :: "string \<Rightarrow> slot option" where
  "slot_for_key slotKey = List.find (\<lambda>candidate. rosterSlotKey candidate = slotKey) CANONICAL_ROSTER_SLOTS"

definition deploymentSquareForSlot :: "string \<Rightarrow> color \<Rightarrow> string option" where
  "deploymentSquareForSlot slotKey humanColor =
     (case slot_for_key slotKey of
        None \<Rightarrow> None
      | Some slot \<Rightarrow>
          let backRank = (if humanColor = Black then CHR ''8'' else CHR ''1'');
              pawnRank = (if humanColor = Black then CHR ''7'' else CHR ''2'')
          in Some [sl_file slot, if sl_type slot = Pawn then pawnRank else backRank])"

record slot_spec =
  ss_slot :: slot
  ss_key :: string
  ss_square :: string

definition deploymentSlotSpecs :: "slot_spec list" where
  "deploymentSlotSpecs =
     map (\<lambda>slot. \<lparr>ss_slot = slot, ss_key = rosterSlotKey slot,
                  ss_square = [sl_file slot, if sl_type slot = Pawn then CHR ''2'' else CHR ''1'']\<rparr>)
       CANONICAL_ROSTER_SLOTS"

definition deploymentSlotForSquare :: "string \<Rightarrow> color \<Rightarrow> slot_spec option" where
  "deploymentSlotForSquare square humanColor =
     List.find (\<lambda>s. deploymentSquareForSlot (ss_key s) humanColor = Some square) deploymentSlotSpecs"

definition effectiveDeploymentType :: "json \<Rightarrow> json \<Rightarrow> json" where
  "effectiveDeploymentType rosterState unitKey =
     (let origin = originTypeForRosterKey unitKey; key = json_string unitKey;
          saved = roster_piece rosterState key; requested = field ''deploymentType'' saved
      in if \<not> truthy origin then JNull
         else if \<not> truthy requested then origin
         else if canChooseDeploymentType (text_or_empty unitKey) saved requested (unitRecordForKey rosterState key)
         then requested else origin)"

definition rosterUnitKeys :: "json \<Rightarrow> bool \<Rightarrow> string list" where
  "rosterUnitKeys rosterState includeDead =
     filter (\<lambda>key. includeDead \<or> field ''alive'' (roster_piece rosterState key) \<noteq> JBool False)
       (map fst (spread_fields (dict (field ''identities'' rosterState))))"

definition isUnitCompatibleWithSlot :: "json \<Rightarrow> json \<Rightarrow> string \<Rightarrow> bool" where
  "isUnitCompatibleWithSlot rosterState unitKey slotKey =
     (case slot_for_key slotKey of
        None \<Rightarrow> False
      | Some slot \<Rightarrow>
          let originType = originTypeForRosterKey unitKey
          in if \<not> truthy (roster_identity rosterState (json_string unitKey)) then False
             else if field ''alive'' (roster_piece rosterState (json_string unitKey)) = JBool False then False
             else if sl_type slot = King then unitKey = JStr ''k-e''
             else if originType = JStr ''k'' then False
             else originType = JStr [type_char (sl_type slot)])"

text \<open>The two loops of \<open>normalizedDeployment\<close>, on the deployment so far and the units used. The used units are a
  \<open>Set\<close>: an object read from the roster is never one of them, whatever it looks like.\<close>

type_synonym assignment = "(string \<times> json) list \<times> json list"

definition keep_assignment :: "json \<Rightarrow> json \<Rightarrow> slot \<Rightarrow> assignment \<Rightarrow> assignment" where
  "keep_assignment rosterState incoming slot = (\<lambda>(next_d, used).
     let slotKey = rosterSlotKey slot; unitKey = field slotKey incoming
     in if \<not> truthy unitKey \<or> list_ex (strict_eq unitKey) used then (next_d, used)
        else if \<not> isUnitCompatibleWithSlot rosterState unitKey slotKey then (next_d, used)
        else (AList.update slotKey unitKey next_d, unitKey # used))"

definition backfill_slot :: "json \<Rightarrow> slot \<Rightarrow> assignment \<Rightarrow> assignment" where
  "backfill_slot rosterState slot = (\<lambda>(next_d, used).
     let slotKey = rosterSlotKey slot
     in if truthy (field slotKey (JObj next_d)) \<or> JStr slotKey \<in> set used then (next_d, used)
        else if \<not> isUnitCompatibleWithSlot rosterState (JStr slotKey) slotKey then (next_d, used)
        else (AList.update slotKey (JStr slotKey) next_d, JStr slotKey # used))"

definition normalizedDeployment :: "json \<Rightarrow> json \<Rightarrow> bool \<Rightarrow> json" where
  "normalizedDeployment rosterState source backfillCanonical =
     (let kept = fold (keep_assignment rosterState (dict source)) CANONICAL_ROSTER_SLOTS ([], [])
      in JObj (fst (if backfillCanonical then fold (backfill_slot rosterState) CANONICAL_ROSTER_SLOTS kept else kept)))"

definition ensureDeploymentState :: "json_api \<Rightarrow> json \<Rightarrow> json" where
  "ensureDeploymentState js rosterState =
     (let state = dict rosterState;
          current = dict (field ''deployment'' state);
          old = (field ''deploymentVersion'' state \<noteq> DEPLOYMENT_VERSION);
          deployment = normalizedDeployment state current old
      in if stringify js current = stringify js deployment \<and> \<not> old then state
         else obj_with state [(''deploymentVersion'', DEPLOYMENT_VERSION), (''deployment'', deployment)])"

text \<open>The deployment without the slots that hold a unit.\<close>

definition undeploy :: "json \<Rightarrow> json \<Rightarrow> json" where
  "undeploy unitKey deployment = JObj (filter (\<lambda>(_, u). u \<noteq> unitKey) (spread_fields deployment))"

definition with_deployment :: "json \<Rightarrow> json \<Rightarrow> json" where
  "with_deployment state deployment = obj_with state [(''deployment'', normalizedDeployment state deployment False)]"

definition setDeploymentUnit :: "json_api \<Rightarrow> json \<Rightarrow> string \<Rightarrow> string \<Rightarrow> json" where
  "setDeploymentUnit js rosterState slotKey unitKey =
     (let state = ensureDeploymentState js rosterState
      in if \<not> isUnitCompatibleWithSlot state (JStr unitKey) slotKey then state
         else if slotKey = ''k-e'' \<and> unitKey \<noteq> ''k-e'' then state
         else with_deployment state
                (obj_with (undeploy (JStr unitKey) (field ''deployment'' state)) [(slotKey, JStr unitKey)]))"

definition removeDeploymentUnit :: "json_api \<Rightarrow> json \<Rightarrow> string \<Rightarrow> json" where
  "removeDeploymentUnit js rosterState unitKey =
     (let state = ensureDeploymentState js rosterState; deployment = spread_fields (field ''deployment'' state)
      in if unitKey = ''k-e'' then state
         else if JStr unitKey \<in> set (map snd deployment)
         then with_deployment state (undeploy (JStr unitKey) (field ''deployment'' state)) else state)"

definition firstFreeDeploymentSlotForUnit :: "json_api \<Rightarrow> json \<Rightarrow> string \<Rightarrow> slot_spec option" where
  "firstFreeDeploymentSlotForUnit js rosterState unitKey =
     (let state = ensureDeploymentState js rosterState; deployment = field ''deployment'' state
      in if unitKey = [] \<or> JStr unitKey \<in> set (map snd (spread_fields deployment)) then None
         else List.find (\<lambda>s. \<not> truthy (field (ss_key s) deployment)
                             \<and> isUnitCompatibleWithSlot state (JStr unitKey) (ss_key s)) deploymentSlotSpecs)"

section \<open>Filling the board\<close>

definition num_scale :: "rat \<Rightarrow> jsnum \<Rightarrow> jsnum" where
  "num_scale c n = (case n of Fin q \<Rightarrow> Fin (fmul q c) | m \<Rightarrow> m)"

definition num_less :: "jsnum \<Rightarrow> jsnum \<Rightarrow> bool" where
  "num_less a b = (case (a, b) of (Fin p, Fin q) \<Rightarrow> p < q | (Fin _, PInf) \<Rightarrow> True | _ \<Rightarrow> False)"

definition unitDeploymentScore :: "json \<Rightarrow> string \<Rightarrow> jsnum" where
  "unitDeploymentScore rosterState key =
     (let saved = roster_piece rosterState key; stats = field ''stats'' (unitRecordForKey rosterState key);
          statPoints = num_plus (points_of (field ''strengthPoints'' saved)) (points_of (field ''speedPoints'' saved))
      in num_plus (num_plus (num_scale 100 statPoints) (num_scale 5 (points_of (field ''battles'' stats))))
           (points_of (field ''survivals'' stats)))"

definition fileOrderForUnitKey :: "string \<Rightarrow> int" where
  "fileOrderForUnitKey key =
     (case split_on CHR ''-'' key of
        [_, [file]] \<Rightarrow> (case find_index (\<lambda>f. f = file) files of None \<Rightarrow> 99 | Some i \<Rightarrow> int i)
      | _ \<Rightarrow> 99)"

text \<open>The comparator at most 0: \<open>a\<close> may stay before \<open>b\<close>.\<close>

definition stays_before :: "(string \<Rightarrow> string \<Rightarrow> bool) \<Rightarrow> bool \<Rightarrow> json \<Rightarrow> string \<Rightarrow> string \<Rightarrow> bool" where
  "stays_before collate preferVeterans state a b =
     (let sa = unitDeploymentScore state a; sb = unitDeploymentScore state b;
          fa = fileOrderForUnitKey a; fb = fileOrderForUnitKey b
      in if num_less sa sb then \<not> preferVeterans
         else if num_less sb sa then preferVeterans
         else if fa \<noteq> fb then fa < fb else collate a b)"

definition available_units :: "(string \<Rightarrow> string \<Rightarrow> bool) \<Rightarrow> bool \<Rightarrow> json \<Rightarrow> json \<Rightarrow> string list" where
  "available_units collate preferVeterans state type =
     sort_stable (stays_before collate preferVeterans state)
       (filter (\<lambda>key. key \<noteq> ''k-e'' \<and> originTypeForRosterKey (JStr key) = type) (rosterUnitKeys state False))"

definition fill_from_pool ::
  "json \<Rightarrow> slot \<Rightarrow> (string \<times> json) list \<times> (json \<Rightarrow> string list) \<Rightarrow> (string \<times> json) list \<times> (json \<Rightarrow> string list)" where
  "fill_from_pool state slot = (\<lambda>(deployment, pools).
     let slotKey = rosterSlotKey slot; type = JStr [type_char (sl_type slot)]
     in if sl_type slot = King
        then (if isUnitCompatibleWithSlot state (JStr ''k-e'') slotKey
              then AList.update slotKey (JStr ''k-e'') deployment else deployment, pools)
        else case pools type of
               [] \<Rightarrow> (deployment, pools)
             | unitKey # rest \<Rightarrow>
                 (if unitKey \<noteq> [] \<and> isUnitCompatibleWithSlot state (JStr unitKey) slotKey
                  then AList.update slotKey (JStr unitKey) deployment else deployment, pools(type := rest)))"

definition autofillDeployment :: "json_api \<Rightarrow> (string \<Rightarrow> string \<Rightarrow> bool) \<Rightarrow> json \<Rightarrow> bool \<Rightarrow> json" where
  "autofillDeployment js collate rosterState preferVeterans =
     (let state = ensureDeploymentState js rosterState;
          (deployment, _) = fold (fill_from_pool state) CANONICAL_ROSTER_SLOTS
                              ([], available_units collate preferVeterans state)
      in obj_with state [(''deploymentVersion'', DEPLOYMENT_VERSION),
                         (''deployment'', normalizedDeployment state (JObj deployment) False)])"

definition resetDeployment :: "json \<Rightarrow> json" where
  "resetDeployment rosterState =
     (let state = obj_with rosterState [(''deployment'', JObj [])]
      in obj_with state [(''deploymentVersion'', DEPLOYMENT_VERSION),
                         (''deployment'', normalizedDeployment state (JObj []) True)])"

section \<open>Readiness and the board\<close>

record deployment_summary =
  ds_ready :: bool
  ds_assignedCount :: nat
  ds_totalSlots :: nat
  ds_missingSlots :: "slot_spec list"
  ds_deployedKeys :: "json list"
  ds_reserveKeys :: "string list"
  ds_fallenKeys :: "string list"
  ds_totalRoster :: nat
  ds_totalIdentities :: nat

definition deploymentSummary :: "json_api \<Rightarrow> json \<Rightarrow> deployment_summary" where
  "deploymentSummary js rosterState =
     (let state = ensureDeploymentState js rosterState;
          specs = deploymentSlotSpecs;
          deployment = field ''deployment'' state;
          missing = filter (\<lambda>s. \<not> truthy (field (ss_key s) deployment)) specs;
          deployedKeys = map snd (spread_fields deployment);
          activeKeys = rosterUnitKeys state False;
          fallenKeys = filter (\<lambda>key. field ''alive'' (roster_piece state key) = JBool False) (rosterUnitKeys state True);
          reserves = filter (\<lambda>key. originTypeForRosterKey (JStr key) \<noteq> JStr ''k'' \<and> JStr key \<notin> set deployedKeys) activeKeys
      in \<lparr>ds_ready = (length missing = 0),
          ds_assignedCount = length specs - length missing,
          ds_totalSlots = length specs,
          ds_missingSlots = missing,
          ds_deployedKeys = deployedKeys,
          ds_reserveKeys = reserves,
          ds_fallenKeys = fallenKeys,
          ds_totalRoster = length activeKeys,
          ds_totalIdentities = length activeKeys + length fallenKeys\<rparr>)"

definition isDeploymentReadyForBattle :: "json_api \<Rightarrow> json \<Rightarrow> bool" where
  "isDeploymentReadyForBattle js rosterState \<longleftrightarrow>
     (let summary = deploymentSummary js rosterState in ds_ready summary \<and> length (ds_fallenKeys summary) = 0)"

definition removeHumanDeploymentSquares :: "'c chess_api \<Rightarrow> color \<Rightarrow> 'c \<Rightarrow> 'c" where
  "removeHumanDeploymentSquares api humanColor =
     fold (\<lambda>slot chess.
        case deploymentSquareForSlot (rosterSlotKey slot) humanColor of
          None \<Rightarrow> chess
        | Some square \<Rightarrow>
            (case ch_get api square chess of
               Some (_, c) \<Rightarrow> if c = humanColor then ch_remove api square chess else chess
             | None \<Rightarrow> chess))
       CANONICAL_ROSTER_SLOTS"

text \<open>The piece type of a text; a saved type is one of the six letters when it is compatible.\<close>

definition type_of_json :: "json \<Rightarrow> ptype option" where
  "type_of_json v = (case v of JStr s \<Rightarrow> type_of_string s | _ \<Rightarrow> None)"

definition put_unit :: "'c chess_api \<Rightarrow> json \<Rightarrow> color \<Rightarrow> slot \<Rightarrow> 'c \<Rightarrow> 'c" where
  "put_unit api state humanColor slot chess =
     (let slotKey = rosterSlotKey slot; unitKey = field slotKey (field ''deployment'' state)
      in if \<not> truthy unitKey then chess
         else case (deploymentSquareForSlot slotKey humanColor, type_of_json (effectiveDeploymentType state unitKey)) of
                (Some square, Some type) \<Rightarrow>
                  if isUnitCompatibleWithSlot state unitKey slotKey
                  then (case ch_put api type humanColor square chess of Some chess' \<Rightarrow> chess' | None \<Rightarrow> chess)
                  else chess
              | _ \<Rightarrow> chess)"

definition applyDeploymentToPosition :: "json_api \<Rightarrow> 'c chess_api \<Rightarrow> json \<Rightarrow> color \<Rightarrow> 'c \<Rightarrow> json \<times> 'c" where
  "applyDeploymentToPosition js api rosterState humanColor chess =
     (let state = ensureDeploymentState js rosterState
      in (state, fold (put_unit api state humanColor) CANONICAL_ROSTER_SLOTS
                   (removeHumanDeploymentSquares api humanColor chess)))"

definition annotate_unit :: "color \<Rightarrow> string \<times> json \<Rightarrow> registry \<Rightarrow> registry" where
  "annotate_unit humanColor = (\<lambda>(slotKey, unitKey) registry.
     case deploymentSquareForSlot slotKey humanColor of
       None \<Rightarrow> registry
     | Some square \<Rightarrow>
         (case obj_get registry square of
            None \<Rightarrow> registry
          | Some piece \<Rightarrow>
              if p_color piece \<noteq> humanColor then registry
              else let origin = originTypeForRosterKey unitKey;
                       type = (case origin of JStr t \<Rightarrow> t | _ \<Rightarrow> [type_char (p_type piece)])
                   in obj_put square
                        (piece\<lparr>p_id := [color_char humanColor] @ ''-'' @ type @ ''-'' @ square,
                               rosterKey := Some (json_string unitKey),
                               originType := Some type,
                               deploymentSlot := Some slotKey,
                               deploymentType := if origin = JStr [type_char (p_type piece)] then None else Some (p_type piece)\<rparr>)
                        registry))"

definition annotateRegistryWithDeployment :: "json_api \<Rightarrow> registry \<Rightarrow> json \<Rightarrow> color \<Rightarrow> registry" where
  "annotateRegistryWithDeployment js registry rosterState humanColor =
     (let state = ensureDeploymentState js rosterState
      in fold (annotate_unit humanColor) (spread_fields (field ''deployment'' state)) registry)"

text \<open>One row of the placement field: runs of empty squares are counted.\<close>

fun fen_row :: "nat \<Rightarrow> string list \<Rightarrow> string" where
  "fen_row blanks [] = (if blanks = 0 then [] else show_nat blanks)"
| "fen_row blanks (cell # cells) =
     (if cell = [] then fen_row (blanks + 1) cells
      else (if blanks = 0 then [] else show_nat blanks) @ cell @ fen_row 0 cells)"

definition upper_char :: "char \<Rightarrow> char" where
  "upper_char c = (let n = (of_char c :: nat) in if 97 \<le> n \<and> n \<le> 122 then char_of (n - 32) else c)"

definition place_cell :: "json \<Rightarrow> string \<times> json \<Rightarrow> string list list \<Rightarrow> string list list" where
  "place_cell state = (\<lambda>(slotKey, unitKey) board.
     case (deploymentSquareForSlot slotKey White, effectiveDeploymentType state unitKey) of
       (Some [f, r], JStr type) \<Rightarrow>
         (case find_index (\<lambda>x. x = f) files of
            None \<Rightarrow> board
          | Some file \<Rightarrow>
              let rank = nat (digit_val r)
              in if rank < 1 \<or> 8 < rank then board
                 else board[8 - rank := (board ! (8 - rank))[file := map upper_char type]])
     | _ \<Rightarrow> board)"

definition deploymentFen :: "json_api \<Rightarrow> json \<Rightarrow> string" where
  "deploymentFen js rosterState =
     (let state = ensureDeploymentState js rosterState;
          board = fold (place_cell state) (spread_fields (field ''deployment'' state)) (replicate 8 (replicate 8 []))
      in join_with ''/'' (map (fen_row 0) board) @ '' w - - 0 1'')"

section \<open>Recruits of the reserve\<close>

definition alphanumeric :: "char \<Rightarrow> bool" where
  "alphanumeric c \<longleftrightarrow>
     (let n = (of_char c :: nat) in (48 \<le> n \<and> n \<le> 57) \<or> (65 \<le> n \<and> n \<le> 90) \<or> (97 \<le> n \<and> n \<le> 122))"

definition id_token :: "json \<Rightarrow> string" where
  "id_token identityId = last_n 10 (filter alphanumeric (text_or_empty identityId))"

definition recruitKey :: "string \<Rightarrow> json \<Rightarrow> int \<Rightarrow> string" where
  "recruitKey origin identityId now =
     (let token = (if id_token identityId = [] then base36 now else id_token identityId)
      in origin @ ''-reserve-'' @ token)"

text \<open>\<open>while (identities[key]) key = base-suffix++\<close>: at most one key more than the identities is tried.\<close>

fun free_key :: "nat \<Rightarrow> nat \<Rightarrow> string \<Rightarrow> json \<Rightarrow> string \<Rightarrow> string option" where
  "free_key 0 suffix base identities key = None"
| "free_key (Suc fuel) suffix base identities key =
     (if \<not> truthy (field key identities) then Some key
      else free_key fuel (suffix + 1) base identities (base @ ''-'' @ show_nat suffix))"

definition unused_key :: "string \<Rightarrow> json \<Rightarrow> string" where
  "unused_key base identities =
     (case free_key (length (spread_fields identities) + 1) 1 base identities base of Some k \<Rightarrow> k | None \<Rightarrow> base)"

text \<open>The fuel is enough: the keys tried are all different, so one of them is not among the identities.\<close>

definition tried :: "nat \<Rightarrow> nat \<Rightarrow> string \<Rightarrow> string list" where
  "tried n suffix base = map (\<lambda>i. base @ ''-'' @ show_nat i) [suffix..<suffix + n]"

lemma free_key_sound: "free_key fuel suffix base ids key = Some k \<Longrightarrow> \<not> truthy (field k ids)"
  by (induction fuel arbitrary: suffix key) (auto split: if_splits)

lemma free_key_None:
  "free_key (Suc n) suffix base ids key = None \<Longrightarrow> \<forall>x \<in> set (key # tried n suffix base). truthy (field x ids)"
proof (induction n arbitrary: suffix key)
  case (Suc n)
  have t: "truthy (field key ids)" using Suc.prems by (auto split: if_splits)
  then have "free_key (Suc n) (suffix + 1) base ids (base @ ''-'' @ show_nat suffix) = None" using Suc.prems by simp
  from Suc.IH [OF this] have "\<forall>x \<in> set ((base @ ''-'' @ show_nat suffix) # tried n (suffix + 1) base). truthy (field x ids)" .
  moreover have "tried (Suc n) suffix base = (base @ ''-'' @ show_nat suffix) # tried n (suffix + 1) base"
    by (simp add: tried_def upt_conv_Cons del: upt_Suc)
  ultimately show ?case using t by simp
qed (auto simp: tried_def split: if_splits)

lemma show_nat_eq: "show_nat a = show_nat b \<Longrightarrow> a = b"
  by (metis digits_val_show_nat of_nat_eq_iff)

lemma tried_distinct: "distinct (base # tried n suffix base)"
  by (auto simp: tried_def distinct_map inj_on_def dest: show_nat_eq)

lemma truthy_field_key: "truthy (field k v) \<Longrightarrow> k \<in> set (map fst (spread_fields v))"
proof (cases v)
  case (JObj kvs)
  assume "truthy (field k v)"
  then have "map_of kvs k \<noteq> None" using JObj by (cases "map_of kvs k") (simp_all add: field_def truthy_def)
  then show ?thesis using JObj map_of_eq_None_iff [of kvs k] by (simp add: spread_fields_def)
qed (simp_all add: field_def truthy_def)

lemma unused_key_free: "\<not> truthy (field (unused_key base ids) ids)"
proof (cases "free_key (length (spread_fields ids) + 1) 1 base ids base")
  case (Some k)
  then show ?thesis using free_key_sound [OF Some] by (simp add: unused_key_def)
next
  case None
  let ?n = "length (spread_fields ids)"
  have "set (base # tried ?n 1 base) \<subseteq> set (map fst (spread_fields ids))"
    using free_key_None [of ?n 1 base ids base] None truthy_field_key by (metis Suc_eq_plus1 subsetI)
  then have "card (set (base # tried ?n 1 base)) \<le> card (set (map fst (spread_fields ids)))" by (simp add: card_mono)
  also have "\<dots> \<le> ?n" using card_length [of "map fst (spread_fields ids)"] by simp
  finally have "length (base # tried ?n 1 base) \<le> ?n" using tried_distinct [of base ?n 1] by (simp only: distinct_card)
  then show ?thesis by (simp add: tried_def del: upt_Suc)
qed

definition recruit_piece :: json where
  "recruit_piece =
     JObj [(''strengthPoints'', JInt 0), (''speedPoints'', JInt 0), (''bankedXp'', JInt 0), (''alive'', JBool True),
           (''deploymentType'', JNull), (''unlockedTechniques'', JArr []), (''equippedTechnique'', JNull)]"

definition grantReserveRecruit ::
  "json_api \<Rightarrow> json \<Rightarrow> json \<Rightarrow> string \<Rightarrow> (nat \<Rightarrow> rat) \<Rightarrow> int \<Rightarrow> json" where
  "grantReserveRecruit js rosterState grantId origin rng now =
     (let allowedType = (if origin \<in> set [''p'', ''n'', ''b'', ''r'', ''q''] then origin else ''p'');
          state = ensureDeploymentState js rosterState;
          processed = elements (field ''reserveRecruitGrantIds'' state);
          identities = or_else_json (field ''identities'' state) (JObj []);
          aliases = filter truthy (map (\<lambda>(_, entry). field ''alias'' entry) (spread_fields identities));
          (identity, _) = createCombatIdentity aliases rng 0 now;
          key = unused_key (recruitKey allowedType (field ''identityId'' identity) now) identities;
          grantIds = (if truthy grantId then last_n RESERVE_GRANT_LIMIT (filter (\<lambda>i. i \<noteq> grantId) processed @ [grantId])
                      else processed)
      in if truthy grantId \<and> grantId \<in> set processed then state
         else ensureDeploymentState js (ensureUnitServiceState js (iso_text now)
                (obj_with state
                   [(''pieces'', obj_with (or_else_json (field ''pieces'' state) (JObj [])) [(key, recruit_piece)]),
                    (''identities'', obj_with identities [(key, identity)]),
                    (''reserveRecruitGrantIds'', JArr grantIds)])))"

text \<open>A node of the campaign by its type and stage.\<close>

definition reserveRecruitTypeForNode :: "(string \<times> int) option \<Rightarrow> string" where
  "reserveRecruitTypeForNode node =
     (case node of
        None \<Rightarrow> ''p''
      | Some (type, stage) \<Rightarrow>
          if type = ''camp'' then ''p''
          else if type = ''elite'' then (if 6 \<le> stage then ''r'' else if 4 \<le> stage then ''b'' else ''n'')
          else ''p'')"

definition slotLabel :: "string \<Rightarrow> string" where
  "slotLabel slotKey =
     (let parts = split_on CHR ''-'' slotKey; type = hd parts;
          file = (case parts of _ # f # _ \<Rightarrow> f | _ \<Rightarrow> []);
          names = [(''p'', (''Pe'' @ [CHR 0xF3] @ ''n'')), (''n'', ''Caballo''), (''b'', ''Alfil''), (''r'', ''Torre''), (''q'', ''Dama''), (''k'', ''Rey'')]
      in trim ((case map_of names type of None \<Rightarrow> type | Some n \<Rightarrow> n) @ '' '' @ map upper_char file))"

end
