(* ===== verification/CombatEconomy.thy ===== *)
theory CombatEconomy
  imports RosterDeployment
begin

text \<open>
  The credits of the army: \<open>combatEconomy.js\<close> (rewards of a battle, the equipment market, mercenaries
  and their contracts).

  Whether the administrator preview is on (\<open>hasAdminPreviewAccess()\<close>) and the clock are arguments; the
  chess library is the \<open>chess_api\<close>. Credits and levels are whole numbers, added exactly. A seeded draw is
  the hash divided by \<open>0xffffffff\<close>, so it can be 1: every index is taken modulo the length.
\<close>

definition COMBAT_STARTING_CREDITS :: int where "COMBAT_STARTING_CREDITS = 36"
definition COMBAT_ECONOMY_VERSION :: int where "COMBAT_ECONOMY_VERSION = 2"

record equipment =
  eq_id :: string
  eq_label :: string
  eq_kind :: string
  eq_minLevel :: int
  eq_cost :: int
  eq_strength :: int
  eq_speed :: int

definition COMBAT_EQUIPMENT :: "equipment list" where
  "COMBAT_EQUIPMENT =
    [\<lparr>eq_id = ''service-pistol'', eq_label = ''Pistola de servicio'', eq_kind = ''Arma'',
      eq_minLevel = 2, eq_cost = 18, eq_strength = 1, eq_speed = 0\<rparr>,
     \<lparr>eq_id = ''mobility-rig'', eq_label = ''Equipo de movilidad'', eq_kind = ''Utilidad'',
      eq_minLevel = 4, eq_cost = 30, eq_strength = 0, eq_speed = 2\<rparr>,
     \<lparr>eq_id = ''assault-rifle'', eq_label = ''Rifle de asalto'', eq_kind = ''Arma'',
      eq_minLevel = 5, eq_cost = 40, eq_strength = 2, eq_speed = 0\<rparr>,
     \<lparr>eq_id = ''field-armor'', eq_label = ''Blindaje ligero'', eq_kind = ''Defensa'',
      eq_minLevel = 6, eq_cost = 48, eq_strength = 1, eq_speed = 1\<rparr>,
     \<lparr>eq_id = ''sniper-rifle'', eq_label = (''Rifle de precisi'' @ [CHR 0xF3] @ ''n''), eq_kind = ''Arma'',
      eq_minLevel = 8, eq_cost = 58, eq_strength = 2, eq_speed = 0\<rparr>]"

definition UNIT_VALUE :: "string \<Rightarrow> int" where
  "UNIT_VALUE type =
     (if type = ''p'' then 16 else if type = ''n'' then 24 else if type = ''b'' then 24 else if type = ''r'' then 32 else 48)"

definition CONTRACT_MULTIPLIER :: "(string \<times> rat) list" where
  "CONTRACT_MULTIPLIER = [(''one'', 1), (''three'', fl (235 / 100)), (''permanent'', 7)]"

definition CONTRACT_BATTLES :: "(string \<times> json) list" where
  "CONTRACT_BATTLES = [(''one'', JInt 1), (''three'', JInt 3), (''permanent'', JNull)]"

definition MERCENARY_NAMES :: "string list" where
  "MERCENARY_NAMES =
    [([CHR 0xC1] @ ''mbar''), ''Boreal'', ''Cobra'', ''Delta'', ''Eco'', ''Faro'', ''Galia'', (''Halc'' @ [CHR 0xF3] @ ''n''), ([CHR 0xCD] @ ''caro''), ''Jade'', ''Kilo'', ''Lince'']"

record specialty =
  sp_id :: string
  sp_label :: string
  sp_description :: string
  sp_preferred :: "string list"

definition MERCENARY_SPECIALTIES :: "specialty list" where
  "MERCENARY_SPECIALTIES =
    [\<lparr>sp_id = ''scout'', sp_label = ''Explorador'', sp_description = ''Movilidad y supervivencia para abrir rutas.'',
      sp_preferred = [''mobility-rig'', ''service-pistol'']\<rparr>,
     \<lparr>sp_id = ''assault'', sp_label = ''Asalto'', sp_description = ''Pegada inmediata para sectores duros.'',
      sp_preferred = [''assault-rifle'', ''service-pistol'']\<rparr>,
     \<lparr>sp_id = ''guard'', sp_label = ''Guardia'', sp_description = ''Perfil equilibrado para proteger veteranos.'',
      sp_preferred = [''field-armor'', ''mobility-rig'', ''service-pistol'']\<rparr>]"

record field_bonus =
  fb_strength :: int
  fb_speed :: int
  fb_label :: string

definition MERCENARY_FIELD_BONUS :: "(string \<times> field_bonus) list" where
  "MERCENARY_FIELD_BONUS =
    [(''scout'', \<lparr>fb_strength = 0, fb_speed = 4, fb_label = ''+4 velocidad operativa''\<rparr>),
     (''assault'', \<lparr>fb_strength = 2, fb_speed = 0, fb_label = ''+2 fuerza operativa''\<rparr>),
     (''guard'', \<lparr>fb_strength = 1, fb_speed = 2, fb_label = (''+1 fuerza '' @ [CHR 0xB7] @ '' +2 velocidad operativa'')\<rparr>)]"

definition mercenaryFieldBonus :: "string \<Rightarrow> field_bonus" where
  "mercenaryFieldBonus specialtyId =
     (case map_of MERCENARY_FIELD_BONUS specialtyId of
        Some b \<Rightarrow> b | None \<Rightarrow> \<lparr>fb_strength = 0, fb_speed = 0, fb_label = ''sin bono operativo''\<rparr>)"

definition equipmentById :: "json \<Rightarrow> equipment option" where
  "equipmentById i = List.find (\<lambda>item. JStr (eq_id item) = i) COMBAT_EQUIPMENT"

text \<open>The first preferred item the level allows.\<close>

definition mercenaryEquipmentFor :: "int \<Rightarrow> specialty \<Rightarrow> equipment option" where
  "mercenaryEquipmentFor level specialty =
     List.find (\<lambda>item. eq_minLevel item \<le> level)
       (List.map_filter (\<lambda>itemId. equipmentById (JStr itemId)) (sp_preferred specialty))"

definition int_or :: "int \<Rightarrow> json \<Rightarrow> int" where
  "int_or fallback v = (case json_number v of Fin q \<Rightarrow> max 0 \<lfloor>q\<rfloor> | _ \<Rightarrow> fallback)"

definition seeded :: "string \<Rightarrow> string \<Rightarrow> rat" where
  "seeded seed salt = fdiv (of_nat (unat (fnv (seed @ '':'' @ salt)))) 4294967295"

text \<open>\<open>Math.floor(seeded * n) % n\<close>.\<close>

definition seeded_index :: "string \<Rightarrow> string \<Rightarrow> nat \<Rightarrow> nat" where
  "seeded_index seed salt n = nat (\<lfloor>fmul (seeded seed salt) (of_nat n)\<rfloor> mod int n)"

definition normalizeCombatEconomy :: "json \<Rightarrow> json" where
  "normalizeCombatEconomy raw =
     (let rawCredits = field ''credits'' raw;
          hasCredits = (rawCredits \<noteq> JUndef \<and> rawCredits \<noteq> JNull
                        \<and> \<not> (is_text rawCredits \<and> trim (json_string rawCredits) = [])
                        \<and> is_finite (json_number rawCredits));
          legacyXp = int_or 0 (field ''combatXp'' raw)
      in JObj [(''credits'', JInt (if hasCredits then int_or 0 rawCredits else COMBAT_STARTING_CREDITS + legacyXp * 2)),
               (''combatXp'', JInt 0),
               (''economyVersion'', JInt COMBAT_ECONOMY_VERSION),
               (''processedCreditBattleIds'', JArr (last_n 120 (elements (field ''processedCreditBattleIds'' raw)))),
               (''marketPurchases'', JArr (last_n 80 (elements (field ''marketPurchases'' raw))))])"

section \<open>What a battle pays\<close>

text \<open>A fact of the battle that is left out is \<open>JUndef\<close>: 15 units are then deployed, and the other counts are 0.\<close>

record battle_facts =
  bf_outcome :: string
  bf_captures :: json
  bf_floor :: json
  bf_tier :: string
  bf_variant :: string
  bf_casualties :: json
  bf_deployed :: json
  bf_underdog :: json
  bf_tactical :: json

record credit_reward =
  cr_total :: int
  cr_captures :: int
  cr_result :: int
  cr_sector :: int
  cr_preservation :: int
  cr_underdog :: int
  cr_tactics :: int
  cr_capped :: int

definition capture_credits :: "int \<Rightarrow> int" where
  "capture_credits safeCaptures = min 8 safeCaptures + min 4 safeCaptures"

definition sector_credits :: "battle_facts \<Rightarrow> int" where
  "sector_credits b =
     (let tierBonus = (if bf_tier b = ''boss'' then 6 else if bf_tier b = ''elite'' then 3 else 0)
      in if bf_outcome b = ''win'' \<and> bf_variant b = ''roguelike''
         then min 12 (2 + int_or 0 (bf_floor b) div 2 + tierBonus) else 0)"

definition preservation_credits :: "battle_facts \<Rightarrow> int" where
  "preservation_credits b =
     (let deployed = (if bf_deployed b = JUndef then JInt 15 else bf_deployed b);
          safeCasualties = min (int_or 0 deployed) (int_or 0 (bf_casualties b))
      in if bf_outcome b \<noteq> ''win'' then 0
         else if safeCasualties = 0 then 5 else if safeCasualties \<le> 2 then 3 else if safeCasualties \<le> 4 then 1 else 0)"

definition credit_cap :: "battle_facts \<Rightarrow> int" where
  "credit_cap b =
     (if bf_outcome b = ''loss'' then 8 else if bf_outcome b = ''draw'' then 12
      else if bf_tier b = ''boss'' then 40 else if bf_tier b = ''elite'' then 34 else 28)"

definition battleCreditReward :: "battle_facts \<Rightarrow> credit_reward" where
  "battleCreditReward b =
     (if bf_outcome b = ''retired''
      then \<lparr>cr_total = 0, cr_captures = 0, cr_result = 0, cr_sector = 0, cr_preservation = 0,
            cr_underdog = 0, cr_tactics = 0, cr_capped = 0\<rparr>
      else
        let captureCredits = capture_credits (int_or 0 (bf_captures b));
            resultCredits = (if bf_outcome b = ''win'' then 5 else if bf_outcome b = ''draw'' then 1 else 0);
            sectorCredits = sector_credits b;
            preservationCredits = preservation_credits b;
            underdog = min 6 (int_or 0 (bf_underdog b));
            tactics = min 4 (int_or 0 (bf_tactical b));
            rawTotal = captureCredits + resultCredits + sectorCredits + preservationCredits + underdog + tactics;
            total = min (credit_cap b) rawTotal
        in \<lparr>cr_total = total, cr_captures = captureCredits, cr_result = resultCredits, cr_sector = sectorCredits,
            cr_preservation = preservationCredits, cr_underdog = underdog, cr_tactics = tactics,
            cr_capped = max 0 (rawTotal - total)\<rparr>)"

definition CREDIT_MATERIAL_VALUE :: "ptype \<Rightarrow> int" where
  "CREDIT_MATERIAL_VALUE t =
     (case t of Pawn \<Rightarrow> 1 | Knight \<Rightarrow> 3 | Bishop \<Rightarrow> 3 | Rook \<Rightarrow> 5 | Queen \<Rightarrow> 9 | King \<Rightarrow> 0)"

definition material_of :: "piece option \<Rightarrow> int" where
  "material_of p = (case p of None \<Rightarrow> 0 | Some q \<Rightarrow> CREDIT_MATERIAL_VALUE (p_type q))"

text \<open>The check the move would give; an illegal move or position gives nothing.\<close>

definition check_signal :: "'c chess_api \<Rightarrow> string \<Rightarrow> string \<Rightarrow> string \<Rightarrow> ptype option \<Rightarrow> int" where
  "check_signal api fen from to promotion =
     (case ch_new api fen of
        None \<Rightarrow> 0
      | Some chess \<Rightarrow>
          (case ch_move api from to (promotion_or_queen promotion) chess of
             None \<Rightarrow> 0
           | Some (_, chess') \<Rightarrow>
               if ch_inCheck api chess' then (if ch_isCheckmate api chess' then 2 else 1) else 0))"

definition combatCreditSignalForAttempt ::
  "'c chess_api \<Rightarrow> string \<Rightarrow> string \<Rightarrow> string \<Rightarrow> ptype option \<Rightarrow> piece option \<Rightarrow> piece option \<Rightarrow> bool option \<Rightarrow> int \<times> int" where
  "combatCreditSignalForAttempt api fen from to promotion attacker defender hit =
     (let gap = (if defender = None then 0 else material_of defender - material_of attacker);
          weight = (if 5 \<le> gap then 3 else 2);
          uphill = (defender \<noteq> None \<and> 2 \<le> gap);
          underdog = (if uphill \<and> hit = Some True then weight else 0);
          missed = (if uphill \<and> hit = Some False then max 1 (weight - 1) else 0)
      in (underdog, missed + check_signal api fen from to promotion))"

definition reward_amount :: "json \<Rightarrow> int" where
  "reward_amount reward =
     (let total = field ''total'' reward in int_or 0 (if total = JUndef \<or> total = JNull then reward else total))"

definition awardCombatCredits :: "json \<Rightarrow> json \<Rightarrow> json \<Rightarrow> json" where
  "awardCombatCredits rosterState reward battleId =
     (let amount = reward_amount reward; processed = elements (field ''processedCreditBattleIds'' rosterState)
      in if amount = 0 \<or> truthy battleId \<and> list_ex (strict_eq battleId) processed then rosterState
         else obj_with rosterState
                [(''credits'', JInt (int_or 0 (field ''credits'' rosterState) + amount)),
                 (''processedCreditBattleIds'', JArr (if truthy battleId then last_n 120 (processed @ [battleId]) else processed))])"

section \<open>The equipment market\<close>

definition equipmentBonus :: "json \<Rightarrow> int \<times> int" where
  "equipmentBonus itemId = (case equipmentById itemId of Some item \<Rightarrow> (eq_strength item, eq_speed item) | None \<Rightarrow> (0, 0))"

definition equipmentMarketOffers :: "string \<Rightarrow> json \<Rightarrow> equipment list" where
  "equipmentMarketOffers rotationKey count =
     (let catalog = COMBAT_EQUIPMENT;
          offset = seeded_index rotationKey ''equipment-offset'' (length catalog);
          number = json_number count;
          asked = (if number = NaN \<or> number = Fin 0 then Fin 3 else number);
          wanted = nat \<lfloor>clamp_num 1 (of_nat (length catalog)) asked\<rfloor>
      in map (\<lambda>index. catalog ! ((offset + index * 2) mod length catalog)) [0..<wanted])"

definition unitLevel :: "json \<Rightarrow> int" where
  "unitLevel piece = 1 + int_or 0 (field ''strengthPoints'' piece) + int_or 0 (field ''speedPoints'' piece)"

definition buyEquipment :: "bool \<Rightarrow> json \<Rightarrow> json \<Rightarrow> string \<Rightarrow> json" where
  "buyEquipment adminPreview rosterState itemId unitKey =
     (let piece = roster_piece rosterState unitKey; credits = int_or 0 (field ''credits'' rosterState)
      in case equipmentById itemId of
           None \<Rightarrow> rosterState
         | Some item \<Rightarrow>
             if \<not> truthy piece \<or> field ''alive'' piece = JBool False \<or> truthy (field ''equipmentId'' piece)
                \<or> \<not> adminPreview \<and> (unitLevel piece < eq_minLevel item \<or> credits < eq_cost item)
             then rosterState
             else obj_with rosterState
                    [(''credits'', JInt (if adminPreview then credits else credits - eq_cost item)),
                     (''pieces'', obj_with (field ''pieces'' rosterState)
                        [(unitKey, obj_with piece [(''equipmentId'', JStr (eq_id item))])])])"

text \<open>An invalid date is \<open>None\<close>.\<close>

definition marketRotationKey :: "int option \<Rightarrow> string" where
  "marketRotationKey now = (case now of None \<Rightarrow> ''1970-01-01'' | Some ms \<Rightarrow> take 10 (iso_text ms))"

section \<open>Mercenaries\<close>

text \<open>The points of a level, split by specialty.\<close>

definition strength_share :: "specialty \<Rightarrow> int \<Rightarrow> int" where
  "strength_share specialty points =
     (if sp_id specialty = ''assault'' then \<lceil>fmul (of_int points) (3 / 4)\<rceil>
      else if sp_id specialty = ''scout'' then \<lfloor>fmul (of_int points) (1 / 4)\<rfloor>
      else \<lceil>fdiv (of_int points) 2\<rceil>)"

definition bonus_json :: "field_bonus \<Rightarrow> json" where
  "bonus_json b = JObj [(''strength'', JInt (fb_strength b)), (''speed'', JInt (fb_speed b)), (''label'', JStr (fb_label b))]"

definition merc_prices :: "string \<Rightarrow> int \<Rightarrow> field_bonus \<Rightarrow> bool \<Rightarrow> (string \<times> json) list" where
  "merc_prices type points fieldBonus rare =
     (let specialtyPremium = fb_strength fieldBonus * 2 + fb_speed fieldBonus;
          baseCost = js_round (fmul (of_int (UNIT_VALUE type + points * 5 + specialtyPremium)) (if rare then fl (145 / 100) else 1))
      in map (\<lambda>(contract, multiplier). (contract, JInt \<lceil>fmul (of_int baseCost) multiplier\<rceil>)) CONTRACT_MULTIPLIER)"

definition market_offer :: "int \<Rightarrow> string \<Rightarrow> nat \<Rightarrow> nat \<Rightarrow> nat \<Rightarrow> json" where
  "market_offer baseLevel rotationKey typeOffset nameOffset index =
     (let types = [''p'', ''n'', ''b'', ''r''];
          roll = seeded rotationKey (''merc:'' @ show_nat index @ '':'' @ show_int baseLevel);
          rare = (index = 2 \<and> fl (82 / 100) < roll);
          type = (if rare \<and> 5 \<le> baseLevel then ''q'' else types ! ((typeOffset + index) mod 4));
          level = min 9 (baseLevel + (if rare then 1 else 0));
          points = max 0 (level - 1);
          specialty = MERCENARY_SPECIALTIES ! ((typeOffset + index) mod 3);
          strength = strength_share specialty points;
          speed = max 0 (points - strength);
          fieldBonus = mercenaryFieldBonus (sp_id specialty);
          item = mercenaryEquipmentFor level specialty
      in JObj [(''id'', JStr (rotationKey @ ''-'' @ show_nat index @ ''-'' @ type @ ''-'' @ show_int level)),
               (''type'', JStr type),
               (''level'', JInt level),
               (''strengthPoints'', JInt strength),
               (''speedPoints'', JInt speed),
               (''rarity'', JStr (if rare then ''veterano'' else ''regular'')),
               (''alias'', JStr (MERCENARY_NAMES ! ((nameOffset + index * 5) mod 12) @ ''-'' @ show_nat (index + 1))),
               (''specialtyId'', JStr (sp_id specialty)),
               (''specialtyLabel'', JStr (sp_label specialty)),
               (''specialtyDescription'', JStr (sp_description specialty)),
               (''fieldBonus'', bonus_json fieldBonus),
               (''equipmentId'', case item of Some e \<Rightarrow> JStr (eq_id e) | None \<Rightarrow> JNull),
               (''equipmentLabel'', case item of Some e \<Rightarrow> JStr (eq_label e) | None \<Rightarrow> JNull),
               (''prices'', JObj (merc_prices type points fieldBonus rare))])"

definition mercenaryMarketOffers :: "json \<Rightarrow> string \<Rightarrow> json list" where
  "mercenaryMarketOffers merit rotationKey =
     (let baseLevel = max 1 (min 7 (1 + int_or 0 merit div 45));
          typeOffset = seeded_index rotationKey ''type-offset'' 4;
          nameOffset = seeded_index rotationKey ''name-offset'' 12
      in map (market_offer baseLevel rotationKey typeOffset nameOffset) [0..<3])"

definition mercenaryKey :: "json \<Rightarrow> json \<Rightarrow> string" where
  "mercenaryKey type identityId = json_string type @ ''-merc-'' @ last_n 10 (filter alphanumeric (json_string identityId))"

definition number_or_zero :: "json \<Rightarrow> json" where
  "number_or_zero v = JNum (or_zero (json_number v))"

definition mercenary_piece :: "json \<Rightarrow> string \<Rightarrow> int \<Rightarrow> json" where
  "mercenary_piece offer contract now =
     JObj [(''strengthPoints'', JInt (int_or 0 (field ''strengthPoints'' offer))),
           (''speedPoints'', JInt (int_or 0 (field ''speedPoints'' offer))),
           (''bankedXp'', JInt 0), (''alive'', JBool True), (''deploymentType'', JNull),
           (''unlockedTechniques'', JArr []), (''equippedTechnique'', JNull),
           (''equipmentId'', or_else_json (field ''equipmentId'' offer) JNull),
           (''mercenary'', JObj
             [(''offerId'', field ''id'' offer), (''contract'', JStr contract),
              (''battlesRemaining'', case map_of CONTRACT_BATTLES contract of Some b \<Rightarrow> b | None \<Rightarrow> JUndef),
              (''rarity'', or_else_json (field ''rarity'' offer) (JStr ''regular'')),
              (''specialtyId'', or_else_json (field ''specialtyId'' offer) JNull),
              (''specialtyLabel'', or_else_json (field ''specialtyLabel'' offer) JNull),
              (''fieldStrengthBonus'', number_or_zero (field ''strength'' (field ''fieldBonus'' offer))),
              (''fieldSpeedBonus'', number_or_zero (field ''speed'' (field ''fieldBonus'' offer))),
              (''fieldBonusLabel'', or_else_json (field ''label'' (field ''fieldBonus'' offer)) JNull),
              (''hiredAt'', JStr (iso_text now))])]"

definition hireMercenary :: "json_api \<Rightarrow> bool \<Rightarrow> json \<Rightarrow> json \<Rightarrow> string \<Rightarrow> int \<Rightarrow> json" where
  "hireMercenary js adminPreview rosterState offer contract now =
     (let price = int_or 0 (field contract (field ''prices'' offer));
          credits = int_or 0 (field ''credits'' rosterState);
          purchases = elements (field ''marketPurchases'' rosterState);
          purchaseId = field ''id'' offer;
          identities = or_else_json (field ''identities'' rosterState) (JObj []);
          aliases = filter truthy (map (\<lambda>(_, entry). field ''alias'' entry) (spread_fields identities));
          draw = (\<lambda>_. seeded (json_string purchaseId) (show_int now));
          identity = obj_with (fst (createCombatIdentity aliases draw 0 now)) [(''alias'', field ''alias'' offer)];
          key = unused_key (mercenaryKey (field ''type'' offer) (field ''identityId'' identity)) identities
      in if \<not> truthy offer \<or> price = 0 \<or> contract \<notin> set (map fst CONTRACT_BATTLES) \<or> \<not> adminPreview \<and> credits < price
         then rosterState
         else if list_ex (strict_eq purchaseId) purchases then rosterState
         else ensureDeploymentState js (ensureUnitServiceState js (iso_text now)
                (obj_with rosterState
                   [(''credits'', JInt (if adminPreview then credits else credits - price)),
                    (''marketPurchases'', JArr (last_n 80 (purchases @ [purchaseId]))),
                    (''identities'', obj_with identities [(key, identity)]),
                    (''pieces'', obj_with (or_else_json (field ''pieces'' rosterState) (JObj []))
                                   [(key, mercenary_piece offer contract now)])])))"

text \<open>One participant: a contract with battles left loses one, an exhausted one takes its unit away.\<close>

definition settle_contract ::
  "string \<Rightarrow> json \<times> json \<times> json \<times> json list \<times> bool \<Rightarrow> json \<times> json \<times> json \<times> json list \<times> bool" where
  "settle_contract key = (\<lambda>(pieces, identities, unitRecords, completed, changed).
     let piece = field key pieces;
         contract = field ''mercenary'' piece;
         left = field ''battlesRemaining'' contract;
         remaining = max 0 (int_or 0 left - 1);
         identity = field key identities;
         identityId = field ''identityId'' identity
     in if \<not> truthy contract \<or> left = JUndef \<or> left = JNull then (pieces, identities, unitRecords, completed, changed)
        else if 0 < remaining
        then (obj_with pieces [(key, obj_with piece
                [(''mercenary'', obj_with contract [(''battlesRemaining'', JInt remaining)])])],
              identities, unitRecords, completed, True)
        else (without key pieces, without key identities,
              if truthy identityId then without (json_string identityId) unitRecords else unitRecords,
              completed @ [or_else_json (field ''alias'' identity) (JStr key)], True))"

definition settleMercenaryContracts :: "json_api \<Rightarrow> json \<Rightarrow> string list \<Rightarrow> json \<times> json list" where
  "settleMercenaryContracts js rosterState deployedKeys =
     (let copy = (\<lambda>k. obj_with (or_else_json (field k rosterState) (JObj [])) []);
          (pieces, identities, unitRecords, completed, changed) =
            fold settle_contract (uniq deployedKeys)
              (copy ''pieces'', copy ''identities'', copy ''unitRecords'', [], False)
      in if \<not> changed then (rosterState, completed)
         else (ensureDeploymentState js (obj_with rosterState
                 [(''pieces'', pieces), (''identities'', identities), (''unitRecords'', unitRecords)]), completed))"

end
