(* ===== verification/CombatTechniques.thy ===== *)
theory CombatTechniques
  imports RosterUnits CombatEngineProps
begin

text \<open>
  \<open>combatTechniques.js\<close>: a technique is unlocked by a veteran for its experience, equipped before a
  battle and used once in it. The only one, line fire, captures like a rook up to three squares
  away: the attack is resolved by \<open>resolveCombatMove\<close> on a position where a rook stands in for the
  attacker, whose own type is put back afterwards.

  Saved pieces are \<open>json\<close>, pieces on the board are those of \<open>CombatEngine\<close>; the chess library is the
  \<open>chess_api\<close> and the random draw an argument. A rejected \<open>load\<close> throws, as in \<open>CombatEngine\<close>.
\<close>

section \<open>The catalogue\<close>

record technique =
  te_id :: string
  te_label :: string
  te_short :: string
  te_description :: string
  te_minRank :: rank_id
  te_unlockCost :: int
  te_originTypes :: "string list"
  te_maxRange :: nat

definition COMBAT_TECHNIQUES :: "(string \<times> technique) list" where
  "COMBAT_TECHNIQUES =
    [(''line_fire'',
      \<lparr>te_id = ''line_fire'', te_label = (''Fuego de l'' @ [CHR 0xED] @ ''nea''), te_short = (''L'' @ [CHR 0xCD] @ ''NEA''),
       te_description = (''Una vez por batalla, captura como una torre hasta 3 casillas en l'' @ [CHR 0xED] @ ''nea recta. El ataque conserva el % de acierto de Combate.''),
       te_minRank = Colonel, te_unlockCost = 18, te_originTypes = [''p''], te_maxRange = 3\<rparr>)]"

definition originalTypeForKey :: "string \<Rightarrow> string" where
  "originalTypeForKey key = hd (split_on CHR ''-'' key)"

definition originalTypeForPiece :: "piece \<Rightarrow> string" where
  "originalTypeForPiece piece =
     (case split_on CHR ''-'' (p_id piece) of
        _ # t # _ \<Rightarrow> if t \<noteq> [] then t else [type_char (p_type piece)]
      | _ \<Rightarrow> [type_char (p_type piece)])"

definition techniqueById :: "json \<Rightarrow> technique option" where
  "techniqueById i = map_of COMBAT_TECHNIQUES (json_string i)"

definition normalizeTechniqueState :: "json \<Rightarrow> json" where
  "normalizeTechniqueState saved =
     (let unlocked = uniq (filter (\<lambda>i. techniqueById i \<noteq> None) (elements (field ''unlockedTechniques'' saved)));
          equipped = field ''equippedTechnique'' saved
      in obj_with saved [(''unlockedTechniques'', JArr unlocked),
                         (''equippedTechnique'', if equipped \<in> set unlocked then equipped else JNull)])"

definition unlocked_ids :: "json \<Rightarrow> json list" where
  "unlocked_ids saved = elements (field ''unlockedTechniques'' saved)"

definition techniquesEligibleToUnlock :: "string \<Rightarrow> json \<Rightarrow> technique list" where
  "techniquesEligibleToUnlock key saved =
     (let normalized = normalizeTechniqueState saved; level = levelFromSaved normalized
      in if \<not> truthy saved \<or> field ''alive'' saved = JBool False then []
         else filter (\<lambda>t. originalTypeForKey key \<in> set (te_originTypes t) \<and> rank_reached level (te_minRank t)
                          \<and> JStr (te_id t) \<notin> set (unlocked_ids normalized)) (map snd COMBAT_TECHNIQUES))"

definition unlockedTechniquesFor :: "string \<Rightarrow> json \<Rightarrow> technique list" where
  "unlockedTechniquesFor key saved =
     (if \<not> truthy saved \<or> field ''alive'' saved = JBool False then []
      else filter (\<lambda>t. originalTypeForKey key \<in> set (te_originTypes t))
             (List.map_filter techniqueById (unlocked_ids (normalizeTechniqueState saved))))"

text \<open>\<open>(v || 0) < n\<close>.\<close>

definition less_than :: "json \<Rightarrow> rat \<Rightarrow> bool" where
  "less_than v n = (case json_number (or_else_json v (JInt 0)) of Fin q \<Rightarrow> q < n | NInf \<Rightarrow> True | _ \<Rightarrow> False)"

definition with_piece :: "json \<Rightarrow> string \<Rightarrow> json \<Rightarrow> json" where
  "with_piece rosterState key piece = obj_with rosterState [(''pieces'', obj_with (field ''pieces'' rosterState) [(key, piece)])]"

definition unlockRosterTechnique :: "json \<Rightarrow> string \<Rightarrow> json \<Rightarrow> json" where
  "unlockRosterTechnique rosterState key techniqueId =
     (let saved = roster_piece rosterState key; normalized = normalizeTechniqueState saved;
          banked = field ''bankedXp'' normalized; equipped = field ''equippedTechnique'' normalized
      in case techniqueById techniqueId of
           None \<Rightarrow> rosterState
         | Some t \<Rightarrow>
             if \<not> truthy saved \<or> field ''alive'' saved = JBool False
                \<or> (\<forall>c \<in> set (techniquesEligibleToUnlock key normalized). JStr (te_id c) \<noteq> techniqueId)
                \<or> less_than banked (of_int (te_unlockCost t))
             then rosterState
             else with_piece rosterState key (obj_with normalized
                    [(''bankedXp'', JNum (num_plus (json_number banked) (Fin (- of_int (te_unlockCost t))))),
                     (''unlockedTechniques'', JArr (unlocked_ids normalized @ [techniqueId])),
                     (''equippedTechnique'', or_else_json equipped techniqueId)]))"

definition setRosterEquippedTechnique :: "json \<Rightarrow> string \<Rightarrow> json \<Rightarrow> json" where
  "setRosterEquippedTechnique rosterState key techniqueId =
     (let saved = roster_piece rosterState key; normalized = normalizeTechniqueState saved;
          wanted = or_else_json techniqueId JNull
      in if \<not> truthy saved \<or> field ''alive'' saved = JBool False then rosterState
         else if techniqueId \<noteq> JUndef \<and> techniqueId \<noteq> JNull
                 \<and> (\<forall>t \<in> set (unlockedTechniquesFor key normalized). JStr (te_id t) \<noteq> techniqueId)
         then rosterState
         else if field ''equippedTechnique'' normalized = wanted then rosterState
         else with_piece rosterState key (obj_with normalized [(''equippedTechnique'', wanted)]))"

section \<open>Line fire\<close>

text \<open>Squares in one line; \<open>None\<close> is an infinite distance.\<close>

definition squareDistance :: "string \<Rightarrow> string \<Rightarrow> nat option" where
  "squareDistance from to =
     (let df = nat \<bar>(of_char (from ! 0) :: int) - of_char (to ! 0)\<bar>; dr = nat \<bar>digit_val (from ! 1) - digit_val (to ! 1)\<bar>
      in if df \<noteq> 0 \<and> dr \<noteq> 0 then None else Some (max df dr))"

definition rookVirtualFen :: "'c chess_api \<Rightarrow> string \<Rightarrow> string \<Rightarrow> color \<Rightarrow> string option" where
  "rookVirtualFen api fen from color =
     (case ch_new api fen of
        None \<Rightarrow> None
      | Some chess \<Rightarrow>
          (case ch_get api from chess of
             None \<Rightarrow> None
           | Some (_, c) \<Rightarrow>
               if c \<noteq> color then None
               else map_option (ch_fen api) (ch_put api Rook color from (ch_remove api from chess))))"

definition restoreAttackerTypeInFen :: "'c chess_api \<Rightarrow> string \<Rightarrow> string \<Rightarrow> piece \<Rightarrow> string option" where
  "restoreAttackerTypeInFen api fen square attacker =
     (case ch_new api fen of
        None \<Rightarrow> None
      | Some chess \<Rightarrow>
          (case ch_get api square chess of
             None \<Rightarrow> Some fen
           | Some (_, c) \<Rightarrow>
               if c \<noteq> p_color attacker then Some fen
               else let bare = ch_remove api square chess
                    in Some (ch_fen api (case ch_put api (p_type attacker) (p_color attacker) square bare of
                                           Some chess' \<Rightarrow> chess' | None \<Rightarrow> bare))))"

text \<open>The technique a piece can use now.\<close>

definition equipped_technique :: "piece \<Rightarrow> technique option" where
  "equipped_technique piece =
     (case equippedTechnique piece of None \<Rightarrow> None | Some i \<Rightarrow> techniqueById (JStr i))"

definition technique_ready :: "piece \<Rightarrow> technique \<Rightarrow> bool" where
  "technique_ready attacker t \<longleftrightarrow>
     \<not> techniqueUsed attacker \<and> te_id t \<in> set (unlockedTechniques attacker)
     \<and> originalTypeForPiece attacker \<in> set (te_originTypes t)"

definition in_range :: "registry \<Rightarrow> string \<Rightarrow> color \<Rightarrow> technique \<Rightarrow> applied \<Rightarrow> bool" where
  "in_range registry from color t move \<longleftrightarrow>
     ap_captured move \<noteq> None
     \<and> (case squareDistance from (ap_to move) of Some d \<Rightarrow> d \<le> te_maxRange t | None \<Rightarrow> False)
     \<and> (case obj_get registry (ap_to move) of Some p \<Rightarrow> p_color p \<noteq> color \<and> p_type p \<noteq> King | None \<Rightarrow> False)"

definition techniqueTargetsFor :: "'c chess_api \<Rightarrow> string \<Rightarrow> registry \<Rightarrow> string \<Rightarrow> string list" where
  "techniqueTargetsFor api fen registry from =
     (case obj_get registry from of
        None \<Rightarrow> []
      | Some attacker \<Rightarrow>
          (case (equipped_technique attacker, ch_new api fen) of
             (Some t, Some chess) \<Rightarrow>
               if \<not> technique_ready attacker t \<or> ch_turn api chess \<noteq> p_color attacker \<or> ch_inCheck api chess
                  \<or> te_id t \<noteq> ''line_fire'' then []
               else (case rookVirtualFen api fen from (p_color attacker) of
                       None \<Rightarrow> []
                     | Some virtualFen \<Rightarrow>
                         if virtualFen = [] then []
                         else (case ch_new api virtualFen of
                                 None \<Rightarrow> []
                               | Some virtual \<Rightarrow>
                                   map ap_to (filter (in_range registry from (p_color attacker) t)
                                     (ch_moves_from api from virtual))))
           | _ \<Rightarrow> []))"

definition techniqueAttackChance :: "registry \<Rightarrow> string \<Rightarrow> string \<Rightarrow> int \<Rightarrow> rat option" where
  "techniqueAttackChance registry from to focusStreak =
     (case (obj_get registry from, obj_get registry to) of
        (Some attacker, Some defender) \<Rightarrow> Some (hitChance attacker (Some defender) focusStreak)
      | _ \<Rightarrow> None)"

record technique_result =
  tr_resolution :: resolution
  tr_techniqueId :: string
  tr_techniqueLabel :: string

text \<open>The resolution seen from outside: the attacker's own type and the technique's notation.\<close>

definition technique_report :: "piece \<Rightarrow> technique \<Rightarrow> string \<Rightarrow> string \<Rightarrow> string \<Rightarrow> resolution \<Rightarrow> technique_result" where
  "technique_report attacker t from to fen r =
     \<lparr>tr_resolution = r\<lparr>rs_fen := fen,
        rs_applied := (rs_applied r)\<lparr>ap_piece := p_type attacker,
                                      ap_san := ([CHR 0xE2, CHR 0x80, CHR 0xA0] @ '' '') @ te_short t @ '' '' @ from @ [CHR 0xD7] @ to\<rparr>\<rparr>,
      tr_techniqueId = te_id t, tr_techniqueLabel = te_label t\<rparr>"

text \<open>The attack on the stand-in position with a draw; the restored FEN is empty or absent when the code
  returns \<open>null\<close>.\<close>

definition armed :: "registry \<Rightarrow> string \<Rightarrow> piece \<Rightarrow> registry" where
  "armed registry from attacker = obj_put from (attacker\<lparr>techniqueUsed := True\<rparr>) registry"

definition strike ::
  "'c chess_api \<Rightarrow> string \<Rightarrow> registry \<Rightarrow> string \<Rightarrow> string \<Rightarrow> piece \<Rightarrow> int \<Rightarrow> rat \<Rightarrow> combat_error + resolution option" where
  "strike api virtualFen registry from to attacker focusStreak roll =
     resolveCombatMove api virtualFen (armed registry from attacker) from to None focusStreak roll False False"

definition restored :: "'c chess_api \<Rightarrow> resolution \<Rightarrow> string \<Rightarrow> piece \<Rightarrow> string option" where
  "restored api r square attacker =
     (case restoreAttackerTypeInFen api (rs_fen r) square attacker of Some f \<Rightarrow> if f = [] then None else Some f | None \<Rightarrow> None)"

text \<open>A miss that would leave the opponent without a move becomes a hit.\<close>

definition settle_miss ::
  "'c chess_api \<Rightarrow> string \<Rightarrow> registry \<Rightarrow> string \<Rightarrow> string \<Rightarrow> piece \<Rightarrow> technique \<Rightarrow> int \<Rightarrow> resolution \<Rightarrow> string
   \<Rightarrow> combat_error + technique_result option" where
  "settle_miss api virtualFen registry from to attacker t focusStreak r fen =
     (case ch_new api fen of
        None \<Rightarrow> Inr None
      | Some afterMiss \<Rightarrow>
          if ch_moves api afterMiss \<noteq> [] then Inr (Some (technique_report attacker t from to fen r))
          else (case strike api virtualFen registry from to attacker focusStreak 0 of
                  Inl e \<Rightarrow> Inl e
                | Inr None \<Rightarrow> Inr None
                | Inr (Some r') \<Rightarrow>
                    Inr (map_option (\<lambda>f. technique_report attacker t from to f r') (restored api r' to attacker))))"

definition resolveTechniqueAttack ::
  "'c chess_api \<Rightarrow> string \<Rightarrow> registry \<Rightarrow> string \<Rightarrow> string \<Rightarrow> int \<Rightarrow> rat \<Rightarrow> combat_error + technique_result option" where
  "resolveTechniqueAttack api fen registry from to focusStreak roll =
     (case obj_get registry from of
        None \<Rightarrow> Inr None
      | Some attacker \<Rightarrow>
          (case (equipped_technique attacker, rookVirtualFen api fen from (p_color attacker)) of
             (Some t, Some virtualFen) \<Rightarrow>
               if techniqueUsed attacker \<or> to \<notin> set (techniqueTargetsFor api fen registry from) \<or> virtualFen = []
               then Inr None
               else (case strike api virtualFen registry from to attacker focusStreak roll of
                       Inl e \<Rightarrow> Inl e
                     | Inr None \<Rightarrow> Inr None
                     | Inr (Some r) \<Rightarrow>
                         if \<not> rs_isCapture r then Inr None
                         else (case restored api r (if rs_hit r = Some False then from else to) attacker of
                                 None \<Rightarrow> Inr None
                               | Some f \<Rightarrow>
                                   if rs_hit r = Some False
                                   then settle_miss api virtualFen registry from to attacker t focusStreak r f
                                   else Inr (Some (technique_report attacker t from to f r))))
           | _ \<Rightarrow> Inr None))"

section \<open>A technique is used once\<close>

text \<open>What is relied on of the chess library: a capture goes from and to the squares asked for, does not take
  the square it starts from, and is not a castling.\<close>

definition captures_as_asked :: "'c chess_api \<Rightarrow> bool" where
  "captures_as_asked api \<longleftrightarrow>
     (\<forall>f t p c app c'. ch_move api f t p c = Some (app, c') \<and> is_capture app \<longrightarrow>
        ap_from app = f \<and> ap_to app = t \<and> capturedSquareFor app \<noteq> f
        \<and> CHR ''k'' \<notin> set (ap_flags app) \<and> CHR ''q'' \<notin> set (ap_flags app))"

lemma used_no_targets:
  "obj_get reg sq = Some p \<Longrightarrow> techniqueUsed p \<Longrightarrow> techniqueTargetsFor api fen reg sq = []"
  by (simp add: techniqueTargetsFor_def technique_ready_def split: option.splits)

lemma moved_used: "techniqueUsed (moved_piece app mover cap) = techniqueUsed mover"
  by (simp add: moved_piece_def Let_def split: option.splits)

lemma survival_other: "sq \<noteq> s \<Longrightarrow> obj_get (applySurvivalXp reg s n) sq = obj_get reg sq"
  by (simp add: applySurvivalXp_def split: option.splits)

lemma landed_stands:
  assumes "is_capture app" "ap_from app = from" "obj_get reg from = Some mover"
    and "CHR ''k'' \<notin> set (ap_flags app)" "CHR ''q'' \<notin> set (ap_flags app)"
  shows "\<exists>cap. obj_get (applyMoveToRegistry reg app) (ap_to app) = Some (moved_piece app mover cap)"
  using assms by (auto simp: applyMoveToRegistry_def castle_rook_def Let_def)

lemma armed_attacker: "obj_get (armed reg from att) from = Some (att\<lparr>techniqueUsed := True\<rparr>)"
  by (simp add: armed_def)

definition stands_used :: "string \<Rightarrow> string \<Rightarrow> resolution \<Rightarrow> bool" where
  "stands_used from to r \<longleftrightarrow>
     (\<exists>p. obj_get (rs_registry r) (if rs_hit r = Some False then from else to) = Some p \<and> techniqueUsed p)"

lemma strike_used:
  assumes ok: "captures_as_asked api" and res: "strike api vfen reg from to att streak roll = Inr (Some r)"
    and call: "ch_new api vfen = Some chess0" "ch_move api from to (promotion_or_queen None) chess0 = Some (app, chess)"
    and cap: "is_capture app"
  shows "stands_used from to r"
proof -
  let ?reg = "armed reg from att" and ?att = "att\<lparr>techniqueUsed := True\<rparr>"
  have m: "ap_from app = from" "ap_to app = to" "capturedSquareFor app \<noteq> from"
    "CHR ''k'' \<notin> set (ap_flags app)" "CHR ''q'' \<notin> set (ap_flags app)"
    using ok call(2) cap unfolding captures_as_asked_def by blast+
  have at_from: "obj_get ?reg from = Some ?att" by (rule armed_attacker)
  from resolve_result [OF res [unfolded strike_def] call at_from]
  show ?thesis
  proof
    assume "r = landed api chess ?reg app ?att (rs_defender r) (rs_chance r) (if is_capture app then Some True else None)"
    then have "rs_registry r = applyMoveToRegistry ?reg app" "rs_hit r = Some True"
      using cap by (metis landed_fields(2), metis landed_fields(3))
    then show ?thesis
      using landed_stands [OF cap m(1) at_from m(4,5)] m(2) moved_used by (auto simp: stands_used_def)
  next
    assume "missed_with api vfen ?reg streak roll False False chess0 app chess ?att r"
    then have "rs_registry r = applySurvivalXp ?reg (capturedSquareFor app) (survival_xp_for ?att)" "rs_hit r = Some False"
      by (simp_all add: missed_with_def)
    then show ?thesis using m(3) by (simp add: stands_used_def survival_other armed_attacker)
  qed
qed

lemma strike_call:
  assumes "strike api vfen reg from to att streak roll = Inr (Some r)" "rs_isCapture r"
  obtains chess0 app chess where "ch_new api vfen = Some chess0"
    "ch_move api from to (promotion_or_queen None) chess0 = Some (app, chess)" "is_capture app"
proof -
  obtain chess0 app chess a where call: "ch_new api vfen = Some chess0"
    "ch_move api from to (promotion_or_queen None) chess0 = Some (app, chess)" "obj_get (armed reg from att) from = Some a"
    using resolve_call [OF assms(1) [unfolded strike_def]] by metis
  have "is_capture app"
  proof (rule ccontr)
    assume quiet: "\<not> is_capture app"
    then have "r = landed api chess (armed reg from att) app a None None None"
      using assms(1) call by (simp add: strike_def resolveCombatMove_def)
    then show False using assms(2) by (simp add: landed_def)
  qed
  with call(1,2) show thesis by (rule that)
qed

lemma report_stands: "stands_used from to (tr_resolution (technique_report att t from to f r)) = stands_used from to r"
  by (simp add: stands_used_def technique_report_def)

lemma settle_used:
  assumes "captures_as_asked api" "settle_miss api vfen reg from to att t streak r f = Inr (Some x)" "stands_used from to r"
    and "ch_new api vfen = Some chess0" "ch_move api from to (promotion_or_queen None) chess0 = Some (app, chess)" "is_capture app"
  shows "stands_used from to (tr_resolution x)"
proof (cases "\<exists>chess'. ch_new api f = Some chess' \<and> ch_moves api chess' \<noteq> []")
  case True
  then have "x = technique_report att t from to f r" using assms(2) by (auto simp: settle_miss_def)
  then show ?thesis using assms(3) by (simp add: report_stands)
next
  case False
  then obtain r' f' where r': "strike api vfen reg from to att streak 0 = Inr (Some r')"
    and x: "x = technique_report att t from to f' r'"
    using assms(2) by (auto simp: settle_miss_def split: option.splits sum.splits if_splits)
  show ?thesis using strike_used [OF assms(1) r' assms(4-6)] by (simp add: x report_stands)
qed

lemma targets_in_range:
  assumes "obj_get reg from = Some att" "equipped_technique att = Some t" "to \<in> set (techniqueTargetsFor api fen reg from)"
  shows "technique_ready att t \<and> (\<exists>move. in_range reg from (p_color att) t move \<and> ap_to move = to)"
  using assms by (auto simp: techniqueTargetsFor_def split: option.splits if_splits)

lemma technique_called:
  assumes "resolveTechniqueAttack api fen reg from to streak roll = Inr (Some x)"
  obtains att t vfen r f where "obj_get reg from = Some att" "equipped_technique att = Some t"
    "to \<in> set (techniqueTargetsFor api fen reg from)" "strike api vfen reg from to att streak roll = Inr (Some r)" "rs_isCapture r"
    "if rs_hit r = Some False then settle_miss api vfen reg from to att t streak r f = Inr (Some x)
     else x = technique_report att t from to f r"
proof -
  obtain att where att: "obj_get reg from = Some att"
    using assms by (cases "obj_get reg from") (simp_all add: resolveTechniqueAttack_def)
  obtain t vfen where tv: "equipped_technique att = Some t" "rookVirtualFen api fen from (p_color att) = Some vfen"
    using assms by (cases "equipped_technique att"; cases "rookVirtualFen api fen from (p_color att)")
      (simp_all add: resolveTechniqueAttack_def att)
  have tgt: "to \<in> set (techniqueTargetsFor api fen reg from)"
    using assms by (auto simp: resolveTechniqueAttack_def att tv split: if_splits)
  obtain r where r: "strike api vfen reg from to att streak roll = Inr (Some r)" "rs_isCapture r"
    using assms by (auto simp: resolveTechniqueAttack_def att tv split: if_splits sum.splits option.splits)
  obtain f where "if rs_hit r = Some False then settle_miss api vfen reg from to att t streak r f = Inr (Some x)
     else x = technique_report att t from to f r"
    using assms by (auto simp: resolveTechniqueAttack_def att tv r split: if_splits sum.splits option.splits)
  with att tv(1) tgt r show thesis by (rule that)
qed

text \<open>A technique is used once in a battle and only where it may be: an attack that is carried out comes
  from a piece that had it unlocked and unused and goes against an enemy piece that is not the king, in line and at
  most as far as the technique reaches; afterwards, hit or miss, the attacker stands where it should with the technique
  spent, and is offered no target in any later position.\<close>

theorem technique_used_once:
  assumes "captures_as_asked api" "resolveTechniqueAttack api fen reg from to streak roll = Inr (Some x)"
  shows "\<exists>att t victim d.
      obj_get reg from = Some att \<and> equipped_technique att = Some t \<and> technique_ready att t
    \<and> obj_get reg to = Some victim \<and> p_color victim \<noteq> p_color att \<and> p_type victim \<noteq> King
    \<and> squareDistance from to = Some d \<and> d \<le> te_maxRange t
    \<and> (let r = tr_resolution x; stands = (if rs_hit r = Some False then from else to)
       in \<exists>after. obj_get (rs_registry r) stands = Some after \<and> techniqueUsed after
             \<and> (\<forall>later. techniqueTargetsFor api later (rs_registry r) stands = []))"
proof -
  obtain att t vfen r f where c: "obj_get reg from = Some att" "equipped_technique att = Some t"
    "to \<in> set (techniqueTargetsFor api fen reg from)" "strike api vfen reg from to att streak roll = Inr (Some r)" "rs_isCapture r"
    "if rs_hit r = Some False then settle_miss api vfen reg from to att t streak r f = Inr (Some x)
     else x = technique_report att t from to f r"
    using technique_called [OF assms(2)] by metis
  obtain chess0 app chess where call: "ch_new api vfen = Some chess0"
    "ch_move api from to (promotion_or_queen None) chess0 = Some (app, chess)" "is_capture app"
    using strike_call [OF c(4,5)] by metis
  have "stands_used from to r" by (rule strike_used [OF assms(1) c(4) call])
  then have "stands_used from to (tr_resolution x)"
    using c(6) settle_used [OF assms(1) _ _ call] by (auto simp: report_stands split: if_splits)
  then obtain after where after: "obj_get (rs_registry (tr_resolution x))
      (if rs_hit (tr_resolution x) = Some False then from else to) = Some after" "techniqueUsed after"
    unfolding stands_used_def by blast
  obtain move where move: "technique_ready att t" "in_range reg from (p_color att) t move" "ap_to move = to"
    using targets_in_range [OF c(1-3)] by blast
  obtain victim d where v: "obj_get reg to = Some victim" "p_color victim \<noteq> p_color att" "p_type victim \<noteq> King"
    "squareDistance from to = Some d" "d \<le> te_maxRange t"
    using move(2,3) by (auto simp: in_range_def split: option.splits)
  show ?thesis using c(1,2) move(1) v after used_no_targets [OF after] unfolding Let_def by blast
qed

text \<open>A pawn of white on a7 fires on a rook on a8.\<close>

definition line_capture :: applied where
  "line_capture =
     \<lparr>ap_from = ''a7'', ap_to = ''a8'', ap_flags = ''c'', ap_color = White, ap_piece = Rook,
      ap_captured = Some Rook, ap_promotion = None, ap_san = ''Rxa8''\<rparr>"

definition line_api :: "string chess_api" where
  "line_api =
     \<lparr>ch_new = Some, ch_fen = (\<lambda>c. c), ch_turn = (\<lambda>_. White), ch_inCheck = (\<lambda>c. c = ''rook''),
      ch_isCheckmate = (\<lambda>_. False),
      ch_move = (\<lambda>f t _ c. if f = ''a7'' \<and> t = ''a8'' then Some (line_capture, c) else None),
      ch_moves = (\<lambda>_. [line_capture]), ch_moves_from = (\<lambda>_ _. [line_capture]),
      ch_board = (\<lambda>_. replicate 8 (replicate 8 None)), ch_get = (\<lambda>_ _. Some (Rook, White)),
      ch_put = (\<lambda>t _ _ c. Some (if t = Rook then ''rook'' else c)), ch_remove = (\<lambda>_ c. c)\<rparr>"

definition gunner :: piece where
  "gunner = (fresh_piece ''w-p-a2'' Pawn White ''a7'')\<lparr>unlockedTechniques := [''line_fire''], equippedTechnique := Some ''line_fire''\<rparr>"

definition line_registry :: registry where
  "line_registry = [(''a7'', gunner), (''a8'', fresh_piece ''b-r-a8'' Rook Black ''a8'')]"

lemma line_api_ok: "captures_as_asked line_api"
  by (auto simp: captures_as_asked_def line_api_def line_capture_def capturedSquareFor_def split: if_splits)

text \<open>The last rank is offered to a pawn like any other square: the restored position then holds a pawn there.\<close>

lemma line_fire_offers_last_rank: "fen \<noteq> ''rook'' \<Longrightarrow> techniqueTargetsFor line_api fen line_registry ''a7'' = [''a8'']"
  by (simp add: techniqueTargetsFor_def line_registry_def gunner_def fresh_piece_def equipped_technique_def techniqueById_def
      COMBAT_TECHNIQUES_def technique_ready_def originalTypeForPiece_def line_api_def rookVirtualFen_def in_range_def
      line_capture_def squareDistance_def digit_val_def)

theorem technique_used_once_witness:
  "\<exists>x. resolveTechniqueAttack line_api ''8'' line_registry ''a7'' ''a8'' 0 0 = Inr (Some x)
     \<and> techniqueTargetsFor line_api ''8'' (rs_registry (tr_resolution x))
         (if rs_hit (tr_resolution x) = Some False then ''a7'' else ''a8'') = []"
proof -
  have "case resolveTechniqueAttack line_api ''8'' line_registry ''a7'' ''a8'' 0 0 of Inr (Some _) \<Rightarrow> True | _ \<Rightarrow> False"
    by code_simp
  then obtain x where "resolveTechniqueAttack line_api ''8'' line_registry ''a7'' ''a8'' 0 0 = Inr (Some x)"
    by (auto split: sum.splits option.splits)
  then show ?thesis using technique_used_once [OF line_api_ok] unfolding Let_def by metis
qed

end
