(* ===== verification/RosterProps.thy ===== *)
theory RosterProps
  imports CombatEconomy
begin

text \<open>
  What the roster promises: every operation on the deployment leaves an assignment in which each slot
  holds a living unit of its own class and no unit stands twice, and the credits of the army are
  earned once and spent at the exact price.
\<close>

section \<open>Fields of a rebuilt object\<close>

lemma index_is_digit: "k \<in> set (map fst (map (\<lambda>(i, x). (show_nat i, f x)) (enumerate n xs))) \<Longrightarrow> k \<noteq> [] \<and> is_digit (hd k)"
proof -
  assume "k \<in> set (map fst (map (\<lambda>(i, x). (show_nat i, f x)) (enumerate n xs)))"
  then obtain i where k: "k = show_nat i" by auto
  obtain c cs where s: "show_nat i = c # cs" by (cases "show_nat i") auto
  show ?thesis using show_nat_digits [of i] by (simp add: k s)
qed

lemma index_none: "\<not> is_digit (hd k) \<Longrightarrow> map_of (map (\<lambda>(i, x). (show_nat i, f x)) (enumerate 0 xs)) k = None"
  unfolding map_of_eq_None_iff set_map [symmetric] using index_is_digit [of k f 0 xs] by blast

lemma field_spread: "\<not> is_digit (hd k) \<Longrightarrow> field k (JObj (spread_fields v)) = field k v"
  using index_none [of k "\<lambda>x :: json. x"] index_none [of k "\<lambda>c. JStr [c]"]
  by (cases v) (simp_all add: spread_fields_def field_def)

lemma field_obj_with_name:
  "\<not> is_digit (hd k) \<Longrightarrow>
     field k (obj_with v new) = (case map_of (rev new) k of Some x \<Rightarrow> x | None \<Rightarrow> field k v)"
  by (cases "map_of (rev new) k") (simp_all add: field_obj_with field_spread del: field_JObj)

lemma obj_with_object [simp]: "truthy (obj_with v new)" "is_object (obj_with v new)" "dict (obj_with v new) = obj_with v new"
  by (simp_all add: obj_with_def truthy_def is_object_def dict_def)

lemma spread_obj [simp]: "spread_fields (JObj kvs) = kvs"
  by (simp add: spread_fields_def)

lemmas roster_names = is_digit_def roster_identity_def roster_piece_def

text \<open>Whether a unit fits a slot depends on the identities and the pieces alone.\<close>

lemma compatible_cong:
  assumes "field ''identities'' s = field ''identities'' t" "field ''pieces'' s = field ''pieces'' t"
  shows "isUnitCompatibleWithSlot s u k = isUnitCompatibleWithSlot t u k"
proof -
  have "roster_identity s = roster_identity t" "roster_piece s = roster_piece t"
    using assms by (simp_all add: roster_identity_def roster_piece_def fun_eq_iff)
  then show ?thesis by (simp only: isUnitCompatibleWithSlot_def)
qed

section \<open>The normalised deployment\<close>

definition assignment_ok :: "json \<Rightarrow> assignment \<Rightarrow> bool" where
  "assignment_ok s = (\<lambda>(d, used). distinct (map fst d) \<and> distinct (map snd d) \<and> set (map snd d) \<subseteq> set used
     \<and> (\<forall>u \<in> set used. \<not> is_object u) \<and> (\<forall>(k, u) \<in> set d. isUnitCompatibleWithSlot s u k))"

lemma values_update: "set (map snd (AList.update k v d)) \<subseteq> insert v (set (map snd d))"
  by (induction d) auto

lemma distinct_values_update:
  "distinct (map snd d) \<Longrightarrow> v \<notin> set (map snd d) \<Longrightarrow> distinct (map snd (AList.update k v d))"
proof (induction d)
  case (Cons e d)
  then show ?case using values_update [of k v d] by (cases e) (auto split: if_splits)
qed simp

lemma entries_update: "set (AList.update k v d) \<subseteq> insert (k, v) (set d)"
  by (induction d) auto

lemma assignment_ok_update:
  assumes "assignment_ok s (d, used)" "v \<notin> set used" "isUnitCompatibleWithSlot s v k" "\<not> is_object v"
  shows "assignment_ok s (AList.update k v d, v # used)"
proof -
  have fresh: "v \<notin> set (map snd d)" using assms by (auto simp: assignment_ok_def)
  have keys: "distinct (map fst (AList.update k v d))" using assms(1) by (simp add: assignment_ok_def distinct_update)
  have vals: "distinct (map snd (AList.update k v d))"
    using assms(1) fresh by (simp add: assignment_ok_def distinct_values_update)
  have used: "set (map snd (AList.update k v d)) \<subseteq> set (v # used)"
    using values_update [of k v d] assms(1) by (auto simp: assignment_ok_def)
  have comp: "\<forall>(k', u) \<in> set (AList.update k v d). isUnitCompatibleWithSlot s u k'"
    using entries_update [of k v d] assms(1,3) by (auto simp: assignment_ok_def)
  show ?thesis using keys vals used comp assms(1,4) by (simp add: assignment_ok_def)
qed

lemma assignment_ok_start: "assignment_ok s ([], [])"
  by (simp add: assignment_ok_def)

lemma not_used: "truthy v \<Longrightarrow> \<not> is_object v \<Longrightarrow> list_ex (strict_eq v) used \<longleftrightarrow> v \<in> set used"
  by (auto simp: list_ex_iff strict_eq_def truthy_def)

lemma keep_ok:
  "assignment_ok s a \<Longrightarrow> \<not> is_object (field (rosterSlotKey slot) src) \<Longrightarrow> assignment_ok s (keep_assignment s src slot a)"
  by (cases a) (simp add: keep_assignment_def Let_def assignment_ok_update not_used)

lemma backfill_ok: "assignment_ok s a \<Longrightarrow> assignment_ok s (backfill_slot s slot a)"
  by (cases a) (simp add: backfill_slot_def Let_def assignment_ok_update is_object_def)

text \<open>The units a deployment names are plain values: an object or an array, which the code would compare by identity and
  look up by its text, is none of them.\<close>

definition plain_units :: "json \<Rightarrow> bool" where
  "plain_units deployment \<longleftrightarrow> list_all (\<lambda>slot. \<not> is_object (field (rosterSlotKey slot) deployment)) CANONICAL_ROSTER_SLOTS"

lemma plain_unitsD: "plain_units d \<Longrightarrow> slot \<in> set CANONICAL_ROSTER_SLOTS \<Longrightarrow> \<not> is_object (field (rosterSlotKey slot) d)"
  by (simp add: plain_units_def list_all_iff)

lemma dict_simps [simp]: "dict (JObj kvs) = JObj kvs" "field k (dict v) = field k v"
  by (simp_all add: dict_def truthy_def is_object_def field_def split: json.splits)

lemma plain_dict [simp]: "plain_units (dict d) = plain_units d"
  by (simp add: plain_units_def)

definition sound_entries :: "json \<Rightarrow> (string \<times> json) list \<Rightarrow> bool" where
  "sound_entries s d \<longleftrightarrow> distinct (map fst d) \<and> distinct (map snd d) \<and>
     (\<forall>(k, u) \<in> set d. \<not> is_object u \<and> isUnitCompatibleWithSlot s u k)"

lemma fold_keep:
  "assignment_ok s a \<Longrightarrow> plain_units src \<Longrightarrow> set slots \<subseteq> set CANONICAL_ROSTER_SLOTS \<Longrightarrow>
     assignment_ok s (fold (keep_assignment s src) slots a)"
  by (induction slots arbitrary: a) (simp_all add: keep_ok plain_unitsD)

lemmas fold_keep_ok = fold_keep [OF assignment_ok_start]

lemma normalized_sound:
  assumes "plain_units src" shows "sound_entries s (spread_fields (normalizedDeployment s src b))"
proof -
  define kept where "kept = fold (keep_assignment s (dict src)) CANONICAL_ROSTER_SLOTS ([], [])"
  have kept: "assignment_ok s kept"
    unfolding kept_def using assms by (intro fold_keep_ok) simp_all
  have filled: "assignment_ok s (fold (backfill_slot s) CANONICAL_ROSTER_SLOTS kept)"
    by (rule fold_invariant) (simp_all add: kept backfill_ok)
  have ok: "assignment_ok s a \<Longrightarrow> sound_entries s (fst a)" for a
    by (cases a) (auto simp: assignment_ok_def sound_entries_def)
  show ?thesis using ok [OF kept] ok [OF filled] by (simp add: normalizedDeployment_def kept_def Let_def)
qed

text \<open>Without the backfill every value comes from the source, and a unit that the source names once, in a
  slot it fits, keeps its slot.\<close>

lemma kept_values:
  "set (snd (fold (keep_assignment s src) slots ([], []))) \<subseteq> (\<lambda>slot. field (rosterSlotKey slot) src) ` set slots"
proof (induction slots rule: rev_induct)
  case (snoc slot slots)
  obtain d used where f: "fold (keep_assignment s src) slots ([], []) = (d, used)" by fastforce
  have "set (snd (keep_assignment s src slot (d, used))) \<subseteq> insert (field (rosterSlotKey slot) src) (set used)"
    by (auto simp: keep_assignment_def Let_def)
  then show ?case using snoc by (auto simp: f)
qed simp

lemma kept_in_used:
  assumes "plain_units src" "set slots \<subseteq> set CANONICAL_ROSTER_SLOTS"
  shows "set (map snd (fst (fold (keep_assignment s src) slots ([], [])))) \<subseteq> set (snd (fold (keep_assignment s src) slots ([], [])))"
proof -
  have "assignment_ok s (fold (keep_assignment s src) slots ([], []))" using assms by (rule fold_keep_ok)
  then show ?thesis by (cases "fold (keep_assignment s src) slots ([], [])") (simp add: assignment_ok_def)
qed

lemma keep_other:
  "k \<notin> rosterSlotKey ` set slots \<Longrightarrow> map_of (fst (fold (keep_assignment s src) slots a)) k = map_of (fst a) k"
proof (induction slots arbitrary: a)
  case (Cons slot slots)
  have "map_of (fst (keep_assignment s src slot a)) k = map_of (fst a) k"
    using Cons.prems by (cases a) (simp add: keep_assignment_def Let_def)
  then show ?case using Cons by simp
qed simp

lemma slot_keys: "distinct (map rosterSlotKey CANONICAL_ROSTER_SLOTS)"
  by code_simp

lemma kept_unit:
  assumes "slot \<in> set CANONICAL_ROSTER_SLOTS" "field (rosterSlotKey slot) src = v" "truthy v"
    and "isUnitCompatibleWithSlot s v (rosterSlotKey slot)"
    and once: "\<And>t. t \<in> set CANONICAL_ROSTER_SLOTS \<Longrightarrow> t \<noteq> slot \<Longrightarrow> field (rosterSlotKey t) src \<noteq> v"
  shows "map_of (fst (fold (keep_assignment s src) CANONICAL_ROSTER_SLOTS ([], []))) (rosterSlotKey slot) = Some v"
proof -
  obtain as bs where split: "CANONICAL_ROSTER_SLOTS = as @ slot # bs" using assms(1) by (meson split_list)
  have keys: "distinct (map rosterSlotKey (as @ slot # bs))" using slot_keys by (simp only: split)
  have after: "rosterSlotKey slot \<notin> rosterSlotKey ` set bs" using keys by auto
  have before: "t \<noteq> slot" if "t \<in> set as" for t using keys that by auto
  obtain d used where f: "fold (keep_assignment s src) as ([], []) = (d, used)" by fastforce
  have "set used \<subseteq> (\<lambda>t. field (rosterSlotKey t) src) ` set as" using kept_values [of s src as] f by simp
  then have "v \<notin> set used" using once before by (auto simp: split)
  then have fresh: "\<not> list_ex (strict_eq v) used" by (auto simp: list_ex_iff strict_eq_def)
  have "fst (keep_assignment s src slot (d, used)) = AList.update (rosterSlotKey slot) v d"
    using assms fresh by (simp add: keep_assignment_def Let_def)
  then show ?thesis using keep_other [OF after] by (simp add: split f)
qed

section \<open>The operations on the deployment\<close>

definition deployed :: "json \<Rightarrow> (string \<times> json) list" where
  "deployed r = spread_fields (dict (field ''deployment'' r))"

definition deployed_soundly :: "json \<Rightarrow> bool" where
  "deployed_soundly r \<longleftrightarrow> sound_entries r (deployed r)"

text \<open>The two deployments the code compares by their text can be read back from it, and the stored one names its units
  by plain values, as the code writes it.\<close>

definition readable_deployment :: "json_api \<Rightarrow> json \<Rightarrow> bool" where
  "readable_deployment js s \<longleftrightarrow>
     plain_units (field ''deployment'' s) \<and>
     (let state = dict s; current = dict (field ''deployment'' state)
      in survives js current
         \<and> survives js (normalizedDeployment state current (field ''deploymentVersion'' state \<noteq> DEPLOYMENT_VERSION)))"

lemma normalized_object: "\<exists>d. normalizedDeployment s src b = JObj d"
  by (simp add: normalizedDeployment_def Let_def)

lemma dict_normalized [simp]: "dict (normalizedDeployment s src b) = normalizedDeployment s src b"
  using normalized_object [of s src b] by auto

lemma sound_cong:
  assumes "field ''identities'' s = field ''identities'' t" "field ''pieces'' s = field ''pieces'' t"
  shows "sound_entries s d = sound_entries t d"
  unfolding sound_entries_def using compatible_cong [OF assms] by (simp add: case_prod_unfold)

lemma compatible_dict [simp]: "isUnitCompatibleWithSlot (dict s) u k = isUnitCompatibleWithSlot s u k"
  by (rule compatible_cong) simp_all

text \<open>Replacing the deployment of a roster by a normalised one.\<close>

lemma replaced_fields:
  assumes "\<And>k. k \<notin> {''deploymentVersion'', ''deployment''} \<Longrightarrow> map_of (rev new) k = None"
    and "map_of (rev new) ''deployment'' = Some d"
  shows "field ''deployment'' (obj_with s new) = d"
    and "field ''identities'' (obj_with s new) = field ''identities'' s"
    and "field ''pieces'' (obj_with s new) = field ''pieces'' s"
  using assms by (simp_all add: field_obj_with_name is_digit_def)

lemma replaced_sound:
  assumes "\<And>k. k \<notin> {''deploymentVersion'', ''deployment''} \<Longrightarrow> map_of (rev new) k = None"
    and "map_of (rev new) ''deployment'' = Some (normalizedDeployment s src b)" and "plain_units src"
  shows "deployed_soundly (obj_with s new)"
proof -
  have d: "deployed (obj_with s new) = spread_fields (normalizedDeployment s src b)"
    using replaced_fields(1) [OF assms(1,2), of s] by (simp add: deployed_def)
  show ?thesis
    using normalized_sound [OF assms(3), of s b] sound_cong [OF replaced_fields(2,3) [OF assms(1,2)], of s] by (simp add: deployed_soundly_def d)
qed

lemma ensure_field:
  "\<not> is_digit (hd k) \<Longrightarrow> k \<notin> {''deploymentVersion'', ''deployment''} \<Longrightarrow>
     field k (ensureDeploymentState js s) = field k s"
  by (simp add: ensureDeploymentState_def Let_def field_obj_with_name)

lemma ensure_fields:
  "field ''identities'' (ensureDeploymentState js s) = field ''identities'' s"
  "field ''pieces'' (ensureDeploymentState js s) = field ''pieces'' s"
  by (simp_all add: ensure_field is_digit_def)

lemma compatible_ensure [simp]:
  "isUnitCompatibleWithSlot (ensureDeploymentState js s) u k = isUnitCompatibleWithSlot s u k"
  by (rule compatible_cong) (rule ensure_fields)+

lemma ensure_sound:
  assumes "readable_deployment js s"
  shows "deployed_soundly (ensureDeploymentState js s)"
proof -
  define state current old where "state = dict s" and "current = dict (field ''deployment'' state)"
    and "old = (field ''deploymentVersion'' state \<noteq> DEPLOYMENT_VERSION)"
  define d where "d = normalizedDeployment state current old"
  have e: "ensureDeploymentState js s = (if stringify js current = stringify js d \<and> \<not> old then state
             else obj_with state [(''deploymentVersion'', DEPLOYMENT_VERSION), (''deployment'', d)])"
    by (simp only: ensureDeploymentState_def Let_def d_def current_def old_def state_def)
  have live: "survives js current" "survives js d"
    using assms by (simp_all add: readable_deployment_def d_def state_def current_def old_def Let_def)
  have plain: "plain_units current" using assms by (simp add: readable_deployment_def current_def state_def)
  show ?thesis
  proof (cases "stringify js current = stringify js d \<and> \<not> old")
    case True
    then have "current = d" using live by (auto simp: survives_def)
    then have "spread_fields (dict (field ''deployment'' state)) = spread_fields d" by (simp add: current_def)
    then have "deployed_soundly state"
      using normalized_sound [OF plain, of state old] by (simp only: deployed_soundly_def deployed_def d_def)
    moreover have "ensureDeploymentState js s = state" using True unfolding e by (rule if_P)
    ultimately show ?thesis by simp
  next
    case False
    have "deployed_soundly (obj_with state [(''deploymentVersion'', DEPLOYMENT_VERSION), (''deployment'', d)])"
      by (rule replaced_sound [OF _ _ plain, where b = old]) (simp_all add: d_def)
    then show ?thesis using False by (simp only: e if_False)
  qed
qed

lemma with_deployment_sound: "plain_units d \<Longrightarrow> deployed_soundly (with_deployment s d)"
  unfolding with_deployment_def by (rule replaced_sound [where b = False]) simp_all

text \<open>A sound deployment stays plain when a unit is sent somewhere or taken out of it.\<close>

lemma deployed_plain: "deployed_soundly r \<Longrightarrow> field k (field ''deployment'' r) = v \<Longrightarrow> \<not> is_object v"
  by (cases "field ''deployment'' r")
    (auto simp: deployed_soundly_def sound_entries_def deployed_def field_def is_object_def spread_fields_def
      split: option.splits dest!: map_of_SomeD)

lemma undeploy_plain: "deployed_soundly r \<Longrightarrow> \<not> is_object (field k (undeploy u (field ''deployment'' r)))"
proof -
  assume r: "deployed_soundly r"
  have "\<not> is_object v" if "(x, v) \<in> set (spread_fields (field ''deployment'' r))" for x v
    using r that by (cases "field ''deployment'' r") (auto simp: deployed_soundly_def sound_entries_def deployed_def dict_def
      truthy_def is_object_def spread_fields_def)
  then show ?thesis by (auto simp: undeploy_def is_object_def split: option.splits dest!: map_of_SomeD)
qed

lemma undeploy_units:
  assumes r: "deployed_soundly r"
  shows "plain_units (undeploy u (field ''deployment'' r))"
    and "plain_units (obj_with (undeploy u (field ''deployment'' r)) [(k, JStr w)])"
proof -
  have w: "\<not> is_object (JStr w)" by (simp add: is_object_def)
  show "plain_units (undeploy u (field ''deployment'' r))" using undeploy_plain [OF r] by (simp add: plain_units_def list_all_iff)
  have "field x (obj_with (undeploy u d) [(k, JStr w)]) = (if x = k then JStr w else field x (undeploy u d))" for x d
    by (simp add: undeploy_def field_obj_with del: field_JObj)
  then show "plain_units (obj_with (undeploy u (field ''deployment'' r)) [(k, JStr w)])"
    using undeploy_plain [OF r] w by (simp add: plain_units_def list_all_iff)
qed

lemma compatible_text: "isUnitCompatibleWithSlot s (JStr u) k \<Longrightarrow> u \<noteq> []"
  by (auto simp: isUnitCompatibleWithSlot_def Let_def originTypeForRosterKey_def text_or_empty_def or_else_json_def
      type_before_dash_def split: option.splits if_splits)

lemma deployed_with: "deployed (with_deployment s src) = spread_fields (normalizedDeployment s src False)"
  by (simp add: deployed_def with_deployment_def field_obj_with_name is_digit_def)

lemma normalized_kept:
  "spread_fields (normalizedDeployment s src False) = fst (fold (keep_assignment s (dict src)) CANONICAL_ROSTER_SLOTS ([], []))"
  by (simp add: normalizedDeployment_def Let_def)

lemma set_deploys:
  assumes "isUnitCompatibleWithSlot s (JStr u) k"
  shows "map_of (deployed (setDeploymentUnit js s k u)) k = Some (JStr u)"
proof -
  define state where "state = ensureDeploymentState js s"
  define rest where "rest = filter (\<lambda>(_, v). v \<noteq> JStr u) (spread_fields (field ''deployment'' state))"
  define src where "src = obj_with (JObj rest) [(k, JStr u)]"
  have fits: "isUnitCompatibleWithSlot state (JStr u) k" using assms by (simp add: state_def)
  obtain slot where slot: "slot_for_key k = Some slot"
    using assms by (auto simp: isUnitCompatibleWithSlot_def split: option.splits)
  then have here: "slot \<in> set CANONICAL_ROSTER_SLOTS" "rosterSlotKey slot = k"
    using find_set [of _ CANONICAL_ROSTER_SLOTS slot] by (auto simp: slot_for_key_def)
  have commander: "\<not> (k = ''k-e'' \<and> u \<noteq> ''k-e'')"
  proof
    assume k: "k = ''k-e'' \<and> u \<noteq> ''k-e''"
    have "slot_for_key ''k-e'' = Some \<lparr>sl_type = King, sl_file = CHR ''e''\<rparr>" by code_simp
    then show False using assms k by (auto simp: isUnitCompatibleWithSlot_def Let_def split: if_splits)
  qed
  have r: "setDeploymentUnit js s k u = with_deployment state src"
    using fits commander unfolding setDeploymentUnit_def Let_def state_def [symmetric] src_def rest_def undeploy_def
    by (simp only: if_False not_True_eq_False simp_thms)
  have at_slot: "field (rosterSlotKey slot) src = JStr u" by (simp add: src_def field_obj_with here)
  have elsewhere: "field (rosterSlotKey t) src \<noteq> JStr u" if "t \<in> set CANONICAL_ROSTER_SLOTS" "t \<noteq> slot" for t
  proof -
    have "rosterSlotKey t \<noteq> k"
      using slot_keys that here unfolding distinct_map by (metis inj_on_eq_iff)
    then have "field (rosterSlotKey t) src = (case map_of rest (rosterSlotKey t) of None \<Rightarrow> JUndef | Some j \<Rightarrow> j)"
      by (simp add: src_def field_obj_with)
    moreover have "v \<noteq> JStr u" if "map_of rest x = Some v" for x v
      using map_of_SomeD [OF that] by (simp add: rest_def)
    ultimately show ?thesis by (auto split: option.splits)
  qed
  have "map_of (fst (fold (keep_assignment state src) CANONICAL_ROSTER_SLOTS ([], []))) (rosterSlotKey slot) = Some (JStr u)"
    using compatible_text [OF fits] fits here(2)
    by (intro kept_unit [OF here(1) at_slot _ _ elsewhere]) (simp_all add: truthy_def)
  then show ?thesis by (simp add: r deployed_with normalized_kept src_def here(2))
qed

lemma remove_undeploys:
  assumes "u \<noteq> ''k-e''" "readable_deployment js s"
  shows "JStr u \<notin> set (map snd (deployed (removeDeploymentUnit js s u)))"
proof -
  define state where "state = ensureDeploymentState js s"
  define there where "there \<longleftrightarrow> JStr u \<in> set (map snd (spread_fields (field ''deployment'' state)))"
  show ?thesis
  proof (cases there)
    case True
    define rest where "rest = filter (\<lambda>(_, v). v \<noteq> JStr u) (spread_fields (field ''deployment'' state))"
    have r: "removeDeploymentUnit js s u = with_deployment state (JObj rest)"
      using True assms(1) by (simp add: removeDeploymentUnit_def Let_def state_def there_def rest_def undeploy_def)
    have plain: "plain_units (JObj rest)"
      using undeploy_units(1) [OF ensure_sound [OF assms(2)], of "JStr u"] by (simp add: undeploy_def rest_def state_def)
    have "field x (JObj rest) \<noteq> JStr u" for x
    proof (cases "map_of rest x")
      case (Some v)
      then show ?thesis using map_of_SomeD [OF Some] by (auto simp: rest_def)
    qed simp
    then have "JStr u \<notin> (\<lambda>slot. field (rosterSlotKey slot) (JObj rest)) ` set CANONICAL_ROSTER_SLOTS" by fastforce
    then have "JStr u \<notin> set (map snd (fst (fold (keep_assignment state (JObj rest)) CANONICAL_ROSTER_SLOTS ([], []))))"
      using kept_values [of state "JObj rest" CANONICAL_ROSTER_SLOTS] kept_in_used [OF plain, of CANONICAL_ROSTER_SLOTS state]
      by blast
    then show ?thesis by (simp add: r deployed_with normalized_kept)
  next
    case False
    then have "removeDeploymentUnit js s u = state"
      by (simp add: removeDeploymentUnit_def Let_def state_def there_def)
    moreover have "set (map snd (deployed state)) \<subseteq> set (map snd (spread_fields (field ''deployment'' state)))"
      by (auto simp: deployed_def dict_def)
    ultimately show ?thesis using False by (auto simp: there_def)
  qed
qed

lemma set_sound: "readable_deployment js s \<Longrightarrow> deployed_soundly (setDeploymentUnit js s k u)"
  by (simp add: setDeploymentUnit_def Let_def ensure_sound with_deployment_sound undeploy_units)

lemma remove_sound: "readable_deployment js s \<Longrightarrow> deployed_soundly (removeDeploymentUnit js s u)"
  by (simp add: removeDeploymentUnit_def Let_def ensure_sound with_deployment_sound undeploy_units)

lemma filled_text: "\<forall>v \<in> set (map snd d). \<exists>u. v = JStr u \<Longrightarrow> \<forall>v \<in> set (map snd (fst (fold (fill_from_pool state) slots (d, pools)))). \<exists>u. v = JStr u"
proof (induction slots arbitrary: d pools)
  case (Cons slot slots)
  obtain d' pools' where f: "fill_from_pool state slot (d, pools) = (d', pools')" by fastforce
  have "d' = d \<or> (\<exists>u. d' = AList.update (rosterSlotKey slot) (JStr u) d)"
    using f by (auto simp: fill_from_pool_def Let_def split: if_splits list.splits)
  then have "\<forall>v \<in> set (map snd d'). \<exists>u. v = JStr u" using Cons.prems values_update [of "rosterSlotKey slot" _ d] by blast
  from Cons.IH [OF this] show ?case by (simp add: f)
qed simp

lemma autofill_sound: "deployed_soundly (autofillDeployment js collate s best)"
proof -
  have "plain_units (JObj (fst (fold (fill_from_pool state) slots ([], pools))))" for state slots pools
    using filled_text [of "[]" state slots pools]
    by (auto simp: plain_units_def list_all_iff is_object_def split: option.splits dest!: map_of_SomeD)
  then show ?thesis unfolding autofillDeployment_def Let_def case_prod_unfold by (intro replaced_sound [where b = False]) simp_all
qed

lemma reset_sound: "deployed_soundly (resetDeployment s)"
  unfolding resetDeployment_def Let_def
  by (rule replaced_sound [where b = True]) (simp_all add: plain_units_def list_all_iff, simp add: is_object_def)

section \<open>Credits\<close>

lemma service_field:
  "\<not> is_digit (hd k) \<Longrightarrow> k \<notin> {''unitRecords'', ''memorial'', ''unitServiceProcessedBattleIds''} \<Longrightarrow>
     field k (ensureUnitServiceState js t s) = field k s"
  by (simp add: ensureUnitServiceState_def Let_def case_prod_unfold field_obj_with_name)

lemma int_or_nonneg [simp, intro]: "0 \<le> int_or 0 v"
  by (simp add: int_or_def split: jsnum.splits)

lemma int_or_int [simp]: "int_or d (JInt i) = max 0 i"
  by (simp add: int_or_def)

definition credits_of :: "json \<Rightarrow> int" where
  "credits_of s = int_or 0 (field ''credits'' s)"

lemma credit_parts_nonneg: "0 \<le> capture_credits (int_or 0 v)" "0 \<le> sector_credits b" "0 \<le> preservation_credits b"
  by (simp_all add: capture_credits_def sector_credits_def preservation_credits_def Let_def)

lemma reward_bounds:
  "0 \<le> cr_total (battleCreditReward b) \<and> cr_total (battleCreditReward b) \<le> credit_cap b
   \<and> cr_total (battleCreditReward b) + cr_capped (battleCreditReward b)
       = cr_captures (battleCreditReward b) + cr_result (battleCreditReward b) + cr_sector (battleCreditReward b)
         + cr_preservation (battleCreditReward b) + cr_underdog (battleCreditReward b) + cr_tactics (battleCreditReward b)"
proof (cases "bf_outcome b = ''retired''")
  case True
  then show ?thesis by (simp add: battleCreditReward_def credit_cap_def)
next
  case False
  have cap: "0 \<le> credit_cap b" by (simp add: credit_cap_def)
  show ?thesis
    using False cap credit_parts_nonneg(1) [of "bf_captures b"] credit_parts_nonneg(2,3) [of b]
      int_or_nonneg [of "bf_underdog b"] int_or_nonneg [of "bf_tactical b"]
    by (simp add: battleCreditReward_def Let_def)
qed

lemma list_ex_text: "list_ex (strict_eq (JStr i)) xs \<longleftrightarrow> JStr i \<in> set xs"
  by (auto simp: list_ex_iff strict_eq_def is_object_def)

lemma award_exact:
  "(if reward_amount reward = 0 \<or> JStr i \<in> set (elements (field ''processedCreditBattleIds'' s)) \<and> i \<noteq> []
    then awardCombatCredits s reward (JStr i) = s
    else credits_of (awardCombatCredits s reward (JStr i)) = credits_of s + reward_amount reward)"
proof -
  have "0 \<le> reward_amount reward" by (simp add: reward_amount_def Let_def)
  moreover have "truthy (JStr i) \<longleftrightarrow> i \<noteq> []" by (auto simp: truthy_def)
  ultimately show ?thesis
    using int_or_nonneg [of "field ''credits'' s"]
    by (simp add: awardCombatCredits_def Let_def credits_of_def field_obj_with_name is_digit_def list_ex_text del: of_int_add)
qed

definition bought :: "json \<Rightarrow> json \<Rightarrow> string \<Rightarrow> equipment \<Rightarrow> bool" where
  "bought s r unitKey item \<longleftrightarrow>
     eq_cost item \<le> credits_of s \<and> eq_minLevel item \<le> unitLevel (roster_piece s unitKey)
     \<and> credits_of r = credits_of s - eq_cost item
     \<and> field ''equipmentId'' (roster_piece r unitKey) = JStr (eq_id item)
     \<and> (\<forall>k. k \<noteq> unitKey \<longrightarrow> roster_piece r k = roster_piece s k)"

lemma equipment_named: "equipmentById i = Some item \<Longrightarrow> eq_id item \<noteq> []"
proof -
  assume "equipmentById i = Some item"
  then have "item \<in> set COMBAT_EQUIPMENT" using find_set unfolding equipmentById_def by metis
  then show ?thesis by (auto simp: COMBAT_EQUIPMENT_def)
qed

lemma equipped_stays: "truthy (field ''equipmentId'' (roster_piece r k)) \<Longrightarrow> buyEquipment admin r j k = r"
  by (simp add: buyEquipment_def Let_def split: option.splits)

lemma field_defined_object: "truthy (field k v) \<Longrightarrow> \<exists>kvs. v = JObj kvs"
  by (cases v) (simp_all add: field_def truthy_def)

lemma buy_exact:
  "buyEquipment False s i unitKey = s
   \<or> (\<exists>item. equipmentById i = Some item \<and> bought s (buyEquipment False s i unitKey) unitKey item
             \<and> (\<forall>admin j r. field ''equipmentId'' (roster_piece r unitKey) = JStr (eq_id item) \<longrightarrow> buyEquipment admin r j unitKey = r))"
proof (cases "buyEquipment False s i unitKey = s")
  case False
  define piece where "piece = roster_piece s unitKey"
  obtain item where item: "equipmentById i = Some item" using False by (auto simp: buyEquipment_def Let_def split: option.splits)
  define r where "r = obj_with s [(''credits'', JInt (int_or 0 (field ''credits'' s) - eq_cost item)),
                     (''pieces'', obj_with (field ''pieces'' s) [(unitKey, obj_with piece [(''equipmentId'', JStr (eq_id item))])])]"
  have ok: "truthy piece" "eq_minLevel item \<le> unitLevel piece" "eq_cost item \<le> int_or 0 (field ''credits'' s)"
    and r: "buyEquipment False s i unitKey = r"
    using False item by (auto simp: buyEquipment_def Let_def piece_def r_def split: if_splits)
  obtain kvs where kvs: "field ''pieces'' s = JObj kvs" using ok(1) field_defined_object unfolding piece_def roster_piece_def by blast
  have credits: "credits_of r = credits_of s - eq_cost item"
    using ok(3) by (simp add: r_def credits_of_def field_obj_with_name is_digit_def del: of_int_diff)
  have pieces: "roster_piece r k = (if k = unitKey then obj_with piece [(''equipmentId'', JStr (eq_id item))] else roster_piece s k)" for k
    by (simp add: r_def roster_piece_def field_obj_with_name is_digit_def field_obj_with kvs)
  have worn: "field ''equipmentId'' (roster_piece r unitKey) = JStr (eq_id item)"
    by (simp add: pieces field_obj_with_name is_digit_def)
  have "bought s r unitKey item" using ok credits worn pieces by (simp add: bought_def piece_def credits_of_def)
  moreover have "buyEquipment admin r' j unitKey = r'" if "field ''equipmentId'' (roster_piece r' unitKey) = JStr (eq_id item)" for admin j r'
    using that equipment_named [OF item] by (intro equipped_stays) (simp add: truthy_def)
  ultimately show ?thesis using item by (simp add: r)
qed simp

text \<open>What can happen to a roster between two payments: battles are paid, equipment and mercenaries bought, with or without
  the administrator preview, and contracts settled.\<close>

datatype credit_op =
    Award json json
  | Buy bool json string
  | Hire bool json string int
  | Settle "string list"

fun credit_step :: "json_api \<Rightarrow> credit_op \<Rightarrow> json \<Rightarrow> json" where
  "credit_step js (Award reward battleId) s = awardCombatCredits s reward battleId"
| "credit_step js (Buy admin itemId unitKey) s = buyEquipment admin s itemId unitKey"
| "credit_step js (Hire admin offer contract now) s = hireMercenary js admin s offer contract now"
| "credit_step js (Settle deployedKeys) s = fst (settleMercenaryContracts js s deployedKeys)"

definition credit_run :: "json_api \<Rightarrow> credit_op list \<Rightarrow> json \<Rightarrow> json" where
  "credit_run js ops s = fold (credit_step js) ops s"

fun is_award :: "credit_op \<Rightarrow> bool" where
  "is_award (Award _ _) \<longleftrightarrow> True" | "is_award _ \<longleftrightarrow> False"

fun is_hire :: "credit_op \<Rightarrow> bool" where
  "is_hire (Hire _ _ _ _) \<longleftrightarrow> True" | "is_hire _ \<longleftrightarrow> False"

definition paid_battles :: "json \<Rightarrow> json list" where
  "paid_battles s = elements (field ''processedCreditBattleIds'' s)"

definition bought_offers :: "json \<Rightarrow> json list" where
  "bought_offers s = elements (field ''marketPurchases'' s)"

lemma awarded_lists:
  "paid_battles (awardCombatCredits s reward i) \<in> {paid_battles s, last_n 120 (paid_battles s @ [i])}"
  "bought_offers (awardCombatCredits s reward i) = bought_offers s"
  by (simp_all add: awardCombatCredits_def Let_def paid_battles_def bought_offers_def field_obj_with_name is_digit_def)

lemma bought_lists:
  "paid_battles (buyEquipment admin s i k) = paid_battles s" "bought_offers (buyEquipment admin s i k) = bought_offers s"
  by (simp_all add: buyEquipment_def Let_def paid_battles_def bought_offers_def field_obj_with_name is_digit_def split: option.split)

lemma hired_lists:
  "paid_battles (hireMercenary js admin s offer c t) = paid_battles s"
  "bought_offers (hireMercenary js admin s offer c t) \<in> {bought_offers s, last_n 80 (bought_offers s @ [field ''id'' offer])}"
  by (simp_all add: hireMercenary_def Let_def paid_battles_def bought_offers_def ensure_field service_field field_obj_with_name is_digit_def)

lemma settled_lists:
  "paid_battles (fst (settleMercenaryContracts js s keys)) = paid_battles s"
  "bought_offers (fst (settleMercenaryContracts js s keys)) = bought_offers s"
  by (simp_all add: settleMercenaryContracts_def Let_def case_prod_unfold paid_battles_def bought_offers_def ensure_field
      field_obj_with_name is_digit_def)

text \<open>An entry among the last \<open>m\<close> of a list is among the last \<open>m + 1\<close> after one more, while the window holds them.\<close>

lemma last_n_take_le: "m \<le> n \<Longrightarrow> last_n m (last_n n xs) = last_n m xs"
  by (cases "length xs \<le> n") (auto simp: last_n_def)

lemma last_n_mono: "m \<le> n \<Longrightarrow> set (last_n m xs) \<subseteq> set (last_n n xs)"
  by (simp add: last_n_def set_drop_subset_set_drop)

lemma window_step:
  assumes "x \<in> set (last_n m xs)" "ys \<in> {xs, last_n n (xs @ [y])}" "m < n" shows "x \<in> set (last_n (Suc m) ys)"
  using assms last_n_mono [of m "Suc m" xs] by (auto simp: last_n_take_le last_n_snoc)

lemma kept_paid:
  "x \<in> set (last_n m (paid_battles s)) \<Longrightarrow> m + length (filter is_award ops) \<le> 120 \<Longrightarrow> x \<in> set (paid_battles (credit_run js ops s))"
proof (induction ops arbitrary: s m)
  case Nil
  then show ?case by (auto simp: credit_run_def dest: in_set_last_n)
next
  case (Cons op ops)
  show ?case
  proof (cases op)
    case (Award reward i)
    have "x \<in> set (last_n (Suc m) (paid_battles (credit_step js op s)))"
      using window_step [OF Cons.prems(1), of _ 120 i] awarded_lists(1) [of s reward i] Cons.prems(2) by (simp add: Award)
    then show ?thesis using Cons.IH [of "Suc m" "credit_step js op s"] Cons.prems(2) by (simp add: credit_run_def Award)
  qed (use Cons.IH [of m "credit_step js op s"] Cons.prems in
      \<open>simp_all add: credit_run_def bought_lists hired_lists settled_lists\<close>)
qed

lemma kept_bought:
  "x \<in> set (last_n m (bought_offers s)) \<Longrightarrow> m + length (filter is_hire ops) \<le> 80 \<Longrightarrow> x \<in> set (bought_offers (credit_run js ops s))"
proof (induction ops arbitrary: s m)
  case Nil
  then show ?case by (auto simp: credit_run_def dest: in_set_last_n)
next
  case (Cons op ops)
  show ?case
  proof (cases op)
    case (Hire admin offer c t)
    have "x \<in> set (last_n (Suc m) (bought_offers (credit_step js op s)))"
      using window_step [OF Cons.prems(1), of _ 80] hired_lists(2) [of js admin s offer c t] Cons.prems(2) by (simp add: Hire)
    then show ?thesis using Cons.IH [of "Suc m" "credit_step js op s"] Cons.prems(2) by (simp add: credit_run_def Hire)
  qed (use Cons.IH [of m "credit_step js op s"] Cons.prems in
      \<open>simp_all add: credit_run_def awarded_lists bought_lists settled_lists\<close>)
qed

text \<open>A battle that has been paid is not paid again while fewer than 120 others have been paid since.\<close>

lemma award_again:
  assumes "i \<noteq> []" "reward_amount reward \<noteq> 0" "JStr i \<notin> set (paid_battles s)" "length (filter is_award ops) < 120"
  shows "awardCombatCredits (credit_run js ops (awardCombatCredits s reward (JStr i))) later (JStr i) =
    credit_run js ops (awardCombatCredits s reward (JStr i))"
proof -
  have "paid_battles (awardCombatCredits s reward (JStr i)) = last_n 120 (paid_battles s @ [JStr i])"
    using assms(1-3) by (simp add: awardCombatCredits_def Let_def paid_battles_def field_obj_with_name is_digit_def list_ex_text truthy_def)
  then have "JStr i \<in> set (last_n 1 (paid_battles (awardCombatCredits s reward (JStr i))))" by (simp add: last_n_snoc last_n_take_le)
  then have "JStr i \<in> set (paid_battles (credit_run js ops (awardCombatCredits s reward (JStr i))))"
    using kept_paid [of "JStr i" 1] assms(4) by simp
  then show ?thesis using assms(1) by (simp add: awardCombatCredits_def Let_def list_ex_text truthy_def paid_battles_def)
qed

lemma hired_stays:
  "field ''id'' offer = JStr i \<Longrightarrow> JStr i \<in> set (bought_offers r) \<Longrightarrow> hireMercenary js admin r offer contract now = r"
  by (simp add: hireMercenary_def Let_def list_ex_text bought_offers_def)

lemma hire_exact:
  assumes "field ''id'' offer = JStr i"
  defines "price \<equiv> \<lambda>offer contract. int_or 0 (field contract (field ''prices'' offer))"
  shows "hireMercenary js False s offer contract now = s
   \<or> (0 < price offer contract \<and> price offer contract \<le> credits_of s
      \<and> credits_of (hireMercenary js False s offer contract now) = credits_of s - price offer contract
      \<and> (\<forall>ops admin c t. length (filter is_hire ops) < 80 \<longrightarrow>
           hireMercenary js admin (credit_run js ops (hireMercenary js False s offer contract now)) offer c t
             = credit_run js ops (hireMercenary js False s offer contract now)))"
proof (cases "hireMercenary js False s offer contract now = s")
  case False
  obtain ids pcs where r: "hireMercenary js False s offer contract now
      = ensureDeploymentState js (ensureUnitServiceState js (iso_text now)
          (obj_with s [(''credits'', JInt (credits_of s - price offer contract)),
                       (''marketPurchases'', JArr (last_n 80 (elements (field ''marketPurchases'' s) @ [field ''id'' offer]))),
                       (''identities'', ids), (''pieces'', pcs)]))"
    and paid: "price offer contract \<noteq> 0" "price offer contract \<le> credits_of s"
    using False by (auto simp: hireMercenary_def Let_def price_def credits_of_def split: if_splits)
  have money: "credits_of (hireMercenary js False s offer contract now) = credits_of s - price offer contract"
    using paid(2) by (simp add: r credits_of_def ensure_field service_field field_obj_with_name is_digit_def del: of_int_diff)
  have "bought_offers (hireMercenary js False s offer contract now) = last_n 80 (bought_offers s @ [JStr i])"
    by (simp add: r bought_offers_def ensure_field service_field field_obj_with_name is_digit_def assms(1))
  then have "JStr i \<in> set (last_n 1 (bought_offers (hireMercenary js False s offer contract now)))" by (simp add: last_n_snoc last_n_take_le)
  then have "JStr i \<in> set (bought_offers (credit_run js ops (hireMercenary js False s offer contract now)))"
    if "length (filter is_hire ops) < 80" for ops using kept_bought [of "JStr i" 1] that by simp
  moreover have "0 < price offer contract" using paid(1) int_or_nonneg [of "field contract (field ''prices'' offer)"]
    unfolding price_def by linarith
  ultimately show ?thesis using money paid(2) hired_stays [OF assms(1)] by blast
qed simp

section \<open>What the roster promises\<close>

text \<open>C5: the deployment is always sound, for a stored deployment that names its units by plain values and reads back from
  its text: after any operation on it, each slot that is taken holds a living unit of the slot's own class (the commander's
  slot its king) and no unit stands in two slots; a unit sent to a slot it fits stands there and nowhere else, a unit sent to
  the reserve stands nowhere, and a refused order changes nothing.\<close>

theorem deployment_operations_sound:
  assumes "readable_deployment js s"
  shows "deployed_soundly (ensureDeploymentState js s)
    \<and> deployed_soundly (setDeploymentUnit js s slotKey unitKey)
    \<and> (if isUnitCompatibleWithSlot s (JStr unitKey) slotKey
       then map_of (deployed (setDeploymentUnit js s slotKey unitKey)) slotKey = Some (JStr unitKey)
       else setDeploymentUnit js s slotKey unitKey = ensureDeploymentState js s)
    \<and> deployed_soundly (removeDeploymentUnit js s unitKey)
    \<and> (if unitKey = ''k-e'' then removeDeploymentUnit js s unitKey = ensureDeploymentState js s
       else JStr unitKey \<notin> set (map snd (deployed (removeDeploymentUnit js s unitKey))))
    \<and> deployed_soundly (autofillDeployment js collate s preferVeterans)
    \<and> deployed_soundly (resetDeployment s)"
proof -
  have refused: "\<not> isUnitCompatibleWithSlot s (JStr unitKey) slotKey \<Longrightarrow>
      setDeploymentUnit js s slotKey unitKey = ensureDeploymentState js s"
    by (simp add: setDeploymentUnit_def Let_def)
  have commander: "unitKey = ''k-e'' \<Longrightarrow> removeDeploymentUnit js s unitKey = ensureDeploymentState js s"
    by (simp add: removeDeploymentUnit_def Let_def)
  show ?thesis
    using ensure_sound [OF assms] set_sound [OF assms] remove_sound [OF assms] autofill_sound reset_sound
      set_deploys [of s unitKey slotKey js] remove_undeploys [of unitKey js s] assms refused commander
    by presburger
qed

definition two_pawns :: json where
  "two_pawns =
     JObj [(''identities'', JObj [(''p-a'', JObj [(''identityId'', JStr ''u1'')]), (''p-b'', JObj [(''identityId'', JStr ''u2'')])]),
           (''pieces'', JObj []), (''deploymentVersion'', JInt 1),
           (''deployment'', JObj [(''p-a'', JStr ''p-a''), (''p-b'', JStr ''p-b'')])]"

definition remembers_two :: json_api where
  "remembers_two =
     \<lparr>stringify = \<lambda>_. ''kept'', parse = \<lambda>_. Some (JObj [(''p-a'', JStr ''p-a''), (''p-b'', JStr ''p-b'')])\<rparr>"

theorem deployment_operations_sound_witness:
  "map_of (deployed (setDeploymentUnit remembers_two two_pawns ''p-b'' ''p-a'')) ''p-b'' = Some (JStr ''p-a'')"
proof -
  have "readable_deployment remembers_two two_pawns" by code_simp
  moreover have "isUnitCompatibleWithSlot two_pawns (JStr ''p-a'') ''p-b''" by code_simp
  ultimately show ?thesis
    using deployment_operations_sound [of remembers_two two_pawns "''p-b''" "''p-a''"] by simp
qed

text \<open>The plain values matter: a corrupt roster that names a unit by an array is not refused, and the unit stands twice.\<close>

lemma array_unit_stands_twice:
  "normalizedDeployment two_pawns (JObj [(''p-a'', JArr [JStr ''p-a'']), (''p-b'', JArr [JStr ''p-a''])]) False =
     JObj [(''p-a'', JArr [JStr ''p-a'']), (''p-b'', JArr [JStr ''p-a''])]"
  by code_simp

text \<open>C6: credits are exact: a battle pays between nothing and its cap, what it pays and what is cut add up
  to what was earned. A battle with a text for its id is paid exactly that, once: paying it again changes nothing, whatever is
  paid, bought, hired and settled in between, while fewer than 120 payments have been asked for since. Outside the administrator
  preview, buying equipment either changes nothing or costs exactly its price, which the army has, to a unit of the level
  required, and touches no other unit; while the unit carries it, it can buy no other. Hiring a mercenary either changes nothing
  or costs exactly its price, which the army has, and the same offer cannot be hired again, whatever happens in between, while
  fewer than 80 others have been asked for since.\<close>

theorem combat_credits_exact:
  assumes "battleId \<noteq> []" "field ''id'' offer = JStr offerId"
  shows "(0 \<le> cr_total (battleCreditReward b) \<and> cr_total (battleCreditReward b) \<le> credit_cap b
      \<and> cr_total (battleCreditReward b) + cr_capped (battleCreditReward b)
          = cr_captures (battleCreditReward b) + cr_result (battleCreditReward b) + cr_sector (battleCreditReward b)
            + cr_preservation (battleCreditReward b) + cr_underdog (battleCreditReward b) + cr_tactics (battleCreditReward b))
    \<and> (let r = awardCombatCredits s reward (JStr battleId)
       in if reward_amount reward = 0 \<or> JStr battleId \<in> set (paid_battles s) then r = s
          else credits_of r = credits_of s + reward_amount reward
            \<and> (\<forall>ops later. length (filter is_award ops) < 120 \<longrightarrow>
                 awardCombatCredits (credit_run js ops r) later (JStr battleId) = credit_run js ops r))
    \<and> (let r = buyEquipment False s itemId unitKey
       in r = s \<or> (\<exists>item. equipmentById itemId = Some item \<and> bought s r unitKey item
                          \<and> (\<forall>admin other r'. field ''equipmentId'' (roster_piece r' unitKey) = JStr (eq_id item) \<longrightarrow>
                               buyEquipment admin r' other unitKey = r')))
    \<and> (let r = hireMercenary js False s offer contract now; price = int_or 0 (field contract (field ''prices'' offer))
       in r = s \<or> (0 < price \<and> price \<le> credits_of s \<and> credits_of r = credits_of s - price
                   \<and> (\<forall>ops admin c t. length (filter is_hire ops) < 80 \<longrightarrow>
                        hireMercenary js admin (credit_run js ops r) offer c t = credit_run js ops r)))"
proof -
  have paid: "let r = awardCombatCredits s reward (JStr battleId)
       in if reward_amount reward = 0 \<or> JStr battleId \<in> set (paid_battles s) then r = s
          else credits_of r = credits_of s + reward_amount reward
            \<and> (\<forall>ops later. length (filter is_award ops) < 120 \<longrightarrow>
                 awardCombatCredits (credit_run js ops r) later (JStr battleId) = credit_run js ops r)"
    using award_exact [of reward battleId s] award_again [OF assms(1), of reward s _ js] assms(1)
    by (simp add: Let_def paid_battles_def split: if_splits)
  show ?thesis
    unfolding Let_def by (rule conjI [OF reward_bounds conjI [OF paid [unfolded Let_def] conjI [OF buy_exact hire_exact [OF assms(2)]]]])
qed

definition rich_army :: json where
  "rich_army =
     JObj [(''credits'', JInt 40), (''pieces'', JObj [(''p-a'', JObj [(''strengthPoints'', JInt 2)])])]"

theorem combat_credits_exact_witness:
  "credits_of (awardCombatCredits rich_army (JInt 9) (JStr ''battle'')) = 49 \<and>
   awardCombatCredits (credit_run remembers_two [Award (JInt 4) (JStr ''other'')] (awardCombatCredits rich_army (JInt 9) (JStr ''battle'')))
     (JInt 9) (JStr ''battle'') =
   credit_run remembers_two [Award (JInt 4) (JStr ''other'')] (awardCombatCredits rich_army (JInt 9) (JStr ''battle''))"
proof -
  have "reward_amount (JInt 9) = 9" "credits_of rich_army = 40" "paid_battles rich_army = []" by code_simp+
  moreover have "field ''id'' (JObj [(''id'', JStr ''offer-1'')]) = JStr ''offer-1''" by simp
  ultimately show ?thesis
    using combat_credits_exact [of "''battle''" "JObj [(''id'', JStr ''offer-1'')]" "''offer-1''" _ rich_army "JInt 9" remembers_two]
    by (simp add: Let_def)
qed

end
