(* ===== verification/CombatArmy.thy ===== *)
theory CombatArmy
  imports CombatEconomy CombatTechniques RosterProps
begin

text \<open>
  The army between battles: \<open>combatRoster.js\<close> (loading and saving the roster, taking it onto the board and
  back, reviving, replacing and expiring the fallen), \<open>combatDeploymentPresets.js\<close> (saved deployments) and
  \<open>combatVeteranLegacy.js\<close> (what a veteran is remembered for).

  The roster is an object. Points and experience of a saved unit that goes onto the board are whole numbers. The
  random draws and the clock are arguments; reading a date is the argument \<open>date_of\<close>. A preset that
  names a unit by something other than a text is ignored.
\<close>

definition ROSTER_KEY :: string where "ROSTER_KEY = ''chess-study-combat-roster''"

definition settled :: "json_api \<Rightarrow> (nat \<Rightarrow> rat) \<Rightarrow> int \<Rightarrow> json \<Rightarrow> json" where
  "settled js rng now s = ensureDeploymentState js (ensureUnitServiceState js (iso_text now) (ensureCombatIdentities s rng now))"

definition emptyState :: "json_api \<Rightarrow> (nat \<Rightarrow> rat) \<Rightarrow> int \<Rightarrow> json" where
  "emptyState js rng now =
     settled js rng now (obj_with
       (JObj [(''pieces'', JObj []), (''identities'', JObj []), (''unitRecords'', JObj []), (''memorial'', JArr []),
              (''unitServiceProcessedBattleIds'', JArr []), (''reserveRecruitGrantIds'', JArr [])])
       (spread_fields (normalizeCombatEconomy (JObj [])) @ [(''revivesUsed'', JInt 0)]))"

definition saveRoster :: "json_api \<Rightarrow> json \<Rightarrow> store \<Rightarrow> store" where
  "saveRoster js state st = st(ROSTER_KEY \<mapsto> stringify js state)"

text \<open>A permanent metamorphosis of the older format becomes a preference.\<close>

definition migrated_piece :: "json \<Rightarrow> json" where
  "migrated_piece piece =
     (let next_piece = obj_with piece [];
          form = field ''metamorphosis'' next_piece;
          moved = (if truthy form \<and> \<not> truthy (field ''deploymentType'' next_piece)
                   then obj_with next_piece [(''deploymentType'', form)] else next_piece)
      in normalizeTechniqueState (without ''metamorphosis'' moved))"

definition array_or_empty :: "json \<Rightarrow> json" where
  "array_or_empty v = (if is_array v then v else JArr [])"

definition stored_roster :: "json \<Rightarrow> json" where
  "stored_roster parsed =
     (let get = (\<lambda>k. field k parsed)
      in obj_with parsed
           ([(''pieces'', JObj (map (\<lambda>(k, piece). (k, migrated_piece piece)) (spread_fields (or_else_json (get ''pieces'') (JObj []))))),
             (''identities'', or_else_json (get ''identities'') (JObj [])),
             (''unitRecords'', or_else_json (get ''unitRecords'') (JObj [])),
             (''memorial'', array_or_empty (get ''memorial'')),
             (''unitServiceProcessedBattleIds'', array_or_empty (get ''unitServiceProcessedBattleIds'')),
             (''reserveRecruitGrantIds'', array_or_empty (get ''reserveRecruitGrantIds''))]
            @ spread_fields (normalizeCombatEconomy parsed)
            @ [(''revivesUsed'', or_else_json (get ''revivesUsed'') (JInt 0))]))"

text \<open>A malformed text, or a stored \<open>null\<close>, gives an empty roster that is not written.\<close>

definition loadRoster :: "json_api \<Rightarrow> (nat \<Rightarrow> rat) \<Rightarrow> int \<Rightarrow> store \<Rightarrow> json \<times> store" where
  "loadRoster js rng now st =
     (case st ROSTER_KEY of
        Some (c # cs) \<Rightarrow>
          (case parse js (c # cs) of
             None \<Rightarrow> (emptyState js rng now, st)
           | Some parsed \<Rightarrow>
               if parsed = JNull then (emptyState js rng now, st)
               else let state = settled js rng now (stored_roster parsed) in (state, saveRoster js state st))
      | _ \<Rightarrow> let fresh = emptyState js rng now in (fresh, saveRoster js fresh st))"

definition renameRosterIdentity :: "json \<Rightarrow> string \<Rightarrow> json \<Rightarrow> json" where
  "renameRosterIdentity rosterState key alias =
     (let identity = roster_identity rosterState key;
          identityId = field ''identityId'' identity;
          clean = take 28 (trim (one_spaced (text_or_empty alias)));
          records = or_else_json (field ''unitRecords'' rosterState) (JObj []);
          current = field (json_string identityId) (field ''unitRecords'' rosterState)
      in if \<not> truthy identityId \<or> clean = [] \<or> field ''alias'' identity = JStr clean then rosterState
         else obj_with rosterState
                [(''identities'', obj_with (or_else_json (field ''identities'' rosterState) (JObj []))
                                    [(key, obj_with identity [(''alias'', JStr clean)])]),
                 (''unitRecords'', if truthy current
                    then obj_with records [(json_string identityId, obj_with current [(''alias'', JStr clean)])]
                    else obj_with records [])])"

definition resetRoster :: "json_api \<Rightarrow> (nat \<Rightarrow> rat) \<Rightarrow> int \<Rightarrow> bool \<Rightarrow> store \<Rightarrow> json \<times> store" where
  "resetRoster js rng now persist st =
     (let cleared = st(ROSTER_KEY := None); fresh = emptyState js rng now
      in (fresh, if persist then saveRoster js fresh cleared else cleared))"

section \<open>Onto the board and back\<close>

definition whole :: "json \<Rightarrow> int" where
  "whole v = (case or_else_json v (JInt 0) of JNum (Fin q) \<Rightarrow> \<lfloor>q\<rfloor> | _ \<Rightarrow> 0)"

definition text_option :: "json \<Rightarrow> string option" where
  "text_option v = (if truthy v then Some (json_string v) else None)"

text \<open>The identity a piece carries; a unit without one keeps what the piece had.\<close>

definition board_identity :: "json \<Rightarrow> identity option \<Rightarrow> identity option" where
  "board_identity v old =
     (if \<not> truthy v then old
      else Some \<lparr>id_identityId = json_string (field ''identityId'' v), id_alias = json_string (field ''alias'' v),
                 id_createdAt = json_string (field ''createdAt'' v), id_bio = text_option (field ''bio'' v),
                 id_bioStatus = text_option (field ''bioStatus'' v)\<rparr>)"

definition with_roster :: "json \<Rightarrow> piece \<Rightarrow> piece" where
  "with_roster rosterState piece =
     (let key = rosterKeyFor piece; saved = roster_piece rosterState key;
          named = piece\<lparr>pieceIdentity := board_identity (combatIdentityFor rosterState key) (pieceIdentity piece)\<rparr>;
          gear = equipmentBonus (field ''equipmentId'' saved);
          mercenary = field ''mercenary'' saved;
          bonus = mercenaryFieldBonus (json_string (field ''specialtyId'' mercenary))
      in if \<not> truthy saved \<or> field ''alive'' saved = JBool False then named
         else named\<lparr>strengthPoints := whole (field ''strengthPoints'' saved) + fst gear,
                    speedPoints := whole (field ''speedPoints'' saved) + snd gear,
                    bankedXp := whole (field ''bankedXp'' saved),
                    equipmentId := text_option (field ''equipmentId'' saved),
                    equipmentStrengthBonus := fst gear,
                    equipmentSpeedBonus := snd gear,
                    mercenaryStrengthBonus := of_int (fb_strength bonus),
                    mercenarySpeedBonus := of_int (fb_speed bonus),
                    mercenaryFieldBonusLabel := (if truthy mercenary then Some (fb_label bonus) else None),
                    deploymentType := type_of_json (field ''deploymentType'' saved),
                    unlockedTechniques := strings_in (elements (field ''unlockedTechniques'' saved)),
                    equippedTechnique := text_option (field ''equippedTechnique'' saved),
                    techniqueUsed := False,
                    recoveryBattlesRemaining := max 0 (whole (field ''recoveryBattlesRemaining'' saved))\<rparr>)"

definition applyRosterToRegistry :: "registry \<Rightarrow> json \<Rightarrow> color \<Rightarrow> registry" where
  "applyRosterToRegistry registry rosterState humanColor =
     map (\<lambda>(square, piece). (square, if p_color piece \<noteq> humanColor then piece else with_roster rosterState piece)) registry"

definition text_or_null :: "string option \<Rightarrow> json" where
  "text_or_null s = (case s of Some t \<Rightarrow> if t \<noteq> [] then JStr t else JNull | None \<Rightarrow> JNull)"

definition survivor_json :: "json \<Rightarrow> string \<Rightarrow> piece \<Rightarrow> json" where
  "survivor_json rosterState key piece =
     (let before = roster_piece rosterState key
      in JObj [(''strengthPoints'', JInt (max 0 (strengthPoints piece - equipmentStrengthBonus piece))),
               (''speedPoints'', JInt (max 0 (speedPoints piece - equipmentSpeedBonus piece))),
               (''bankedXp'', JInt (bankedXp piece)),
               (''alive'', JBool True),
               (''equipmentId'', or_else_json (text_or_null (equipmentId piece)) (or_else_json (field ''equipmentId'' before) JNull)),
               (''mercenary'', or_else_json (field ''mercenary'' before) JNull),
               (''deploymentType'', case deploymentType piece of Some t \<Rightarrow> JStr [type_char t] | None \<Rightarrow> JNull),
               (''unlockedTechniques'', JArr (map JStr (unlockedTechniques piece))),
               (''equippedTechnique'', text_or_null (equippedTechnique piece)),
               (''recoveryBattlesRemaining'', JInt (max 0 (max 0 (whole (field ''recoveryBattlesRemaining'' before)) - 1)))])"

definition fallen_json :: "json \<Rightarrow> json" where
  "fallen_json prev =
     (let keep = (\<lambda>k d. or_else_json (field k prev) d)
      in JObj [(''strengthPoints'', keep ''strengthPoints'' (JInt 0)),
               (''speedPoints'', keep ''speedPoints'' (JInt 0)),
               (''bankedXp'', keep ''bankedXp'' (JInt 0)),
               (''alive'', JBool False),
               (''deploymentType'', keep ''deploymentType'' JNull),
               (''unlockedTechniques'', array_or_empty (field ''unlockedTechniques'' prev)),
               (''equippedTechnique'', keep ''equippedTechnique'' JNull),
               (''equipmentId'', keep ''equipmentId'' JNull),
               (''mercenary'', keep ''mercenary'' JNull),
               (''recoveryBattlesRemaining'', JInt 0)])"

definition counts_for :: "color \<Rightarrow> piece \<Rightarrow> bool" where
  "counts_for humanColor piece \<longleftrightarrow> p_color piece = humanColor \<and> p_type piece \<noteq> King"

definition participants :: "string list option \<Rightarrow> string list" where
  "participants deployedKeys =
     (case deployedKeys of
        Some (k # ks) \<Rightarrow> uniq (filter (\<lambda>key. key \<noteq> [] \<and> \<not> starts ''k-'' key) (k # ks))
      | _ \<Rightarrow> map rosterSlotKey (filter (\<lambda>slot. sl_type slot \<noteq> King) CANONICAL_ROSTER_SLOTS))"

definition mark_fallen :: "string set \<Rightarrow> string \<Rightarrow> json \<Rightarrow> json" where
  "mark_fallen surviving key pieces =
     (let prev = field key pieces
      in if key \<in> surviving \<or> truthy prev \<and> field ''alive'' prev = JBool False then pieces
         else obj_with pieces [(key, fallen_json prev)])"

definition available_credits :: "json \<Rightarrow> jsnum" where
  "available_credits rosterState =
     (let n = json_number (field ''credits'' rosterState)
      in if is_finite n then n else json_number (or_else_json (field ''combatXp'' rosterState) (JInt 0)))"

definition after_battle :: "registry \<Rightarrow> json \<Rightarrow> color \<Rightarrow> string list option \<Rightarrow> json" where
  "after_battle registry rosterState humanColor deployedKeys =
     (let alive = filter (counts_for humanColor) (map snd registry);
          stood = obj_with (field ''pieces'' rosterState)
                    (map (\<lambda>p. (rosterKeyFor p, survivor_json rosterState (rosterKeyFor p) p)) alive)
      in fold (mark_fallen (set (map rosterKeyFor alive))) (participants deployedKeys) stood)"

definition saveSurvivorsToRoster ::
  "json_api \<Rightarrow> (nat \<Rightarrow> rat) \<Rightarrow> int \<Rightarrow> registry \<Rightarrow> json \<Rightarrow> color \<Rightarrow> string list option \<Rightarrow> json" where
  "saveSurvivorsToRoster js rng now registry rosterState humanColor deployedKeys =
     settled js rng now (obj_with rosterState
       [(''pieces'', after_battle registry rosterState humanColor deployedKeys),
        (''identities'', obj_with (or_else_json (field ''identities'' rosterState) (JObj [])) []),
        (''credits'', JNum (available_credits rosterState)),
        (''combatXp'', JInt 0),
        (''revivesUsed'', or_else_json (field ''revivesUsed'' rosterState) (JInt 0))])"

section \<open>The fallen\<close>

definition half_down :: "json \<Rightarrow> json" where
  "half_down v = JNum (case json_number (or_else_json v (JInt 0)) of Fin q \<Rightarrow> Fin (of_int \<lfloor>fdiv q 2\<rfloor>) | n \<Rightarrow> n)"

definition revived_json :: "json \<Rightarrow> json" where
  "revived_json dead =
     (let keep = (\<lambda>k d. or_else_json (field k dead) d)
      in JObj [(''strengthPoints'', half_down (field ''strengthPoints'' dead)),
               (''speedPoints'', half_down (field ''speedPoints'' dead)),
               (''bankedXp'', JInt 0),
               (''alive'', JBool True),
               (''deploymentType'', keep ''deploymentType'' JNull),
               (''unlockedTechniques'', array_or_empty (field ''unlockedTechniques'' dead)),
               (''equippedTechnique'', keep ''equippedTechnique'' JNull),
               (''equipmentId'', keep ''equipmentId'' JNull),
               (''mercenary'', keep ''mercenary'' JNull),
               (''recoveryBattlesRemaining'', JInt 1)])"

definition revivePiece :: "json_api \<Rightarrow> string \<Rightarrow> json \<Rightarrow> string \<Rightarrow> ptype \<Rightarrow> json" where
  "revivePiece js nowIso rosterState key type =
     (let dead = roster_piece rosterState key; cost = reviveCost type; credits = available_credits rosterState;
          points = js_plus (or_else_json (field ''strengthPoints'' dead) (JInt 0)) (or_else_json (field ''speedPoints'' dead) (JInt 0))
      in if \<not> truthy dead \<or> field ''alive'' dead \<noteq> JBool False \<or> points = JInt 0 then rosterState
         else if num_less credits (Fin (of_int cost)) then rosterState
         else recordUnitRevive js nowIso (obj_with rosterState
                [(''pieces'', obj_with (field ''pieces'' rosterState) [(key, revived_json dead)]),
                 (''credits'', JNum (num_plus credits (Fin (- of_int cost)))),
                 (''combatXp'', JInt 0),
                 (''revivesUsed'', js_plus (or_else_json (field ''revivesUsed'' rosterState) (JInt 0)) (JInt 1))]) key nowIso)"

definition fill_vacancy :: "json_api \<Rightarrow> string \<Rightarrow> json \<Rightarrow> json" where
  "fill_vacancy js key replaced =
     (case firstFreeDeploymentSlotForUnit js replaced key of
        None \<Rightarrow> replaced
      | Some slot \<Rightarrow>
          if list_ex (\<lambda>candidate. candidate \<noteq> key
                \<and> JStr candidate \<notin> set (map snd (spread_fields (field ''deployment'' replaced)))
                \<and> isUnitCompatibleWithSlot replaced (JStr candidate) (ss_key slot)) (rosterUnitKeys replaced False)
          then replaced
          else setDeploymentUnit js replaced (ss_key slot) key)"

definition replaceDeadPiece :: "json_api \<Rightarrow> (nat \<Rightarrow> rat) \<Rightarrow> int \<Rightarrow> json \<Rightarrow> string \<Rightarrow> string \<Rightarrow> json" where
  "replaceDeadPiece js rng now rosterState key diedAt =
     (let state = ensureUnitServiceState js (iso_text now) rosterState;
          archived = archivePermanentCasualty js (iso_text now) state key diedAt;
          pieces = without key (or_else_json (field ''pieces'' archived) (JObj []));
          identities = without key (or_else_json (field ''identities'' archived) (JObj []));
          aliases = filter truthy (map (\<lambda>(_, entry). field ''alias'' entry) (spread_fields identities));
          (staffed, rest) = (if text_includes key ''-reserve-''
                             then (obj_with identities [(key, fst (createCombatIdentity aliases rng 0 now))], \<lambda>n. rng (n + 2))
                             else (identities, rng))
      in if field ''alive'' (roster_piece state key) \<noteq> JBool False then ensureDeploymentState js state
         else fill_vacancy js key (settled js rest now
                (obj_with archived [(''pieces'', pieces), (''identities'', staffed)])))"

text \<open>\<open>rng i\<close> are the draws of the \<open>i\<close>-th replacement.\<close>

definition expireDeadPieces :: "json_api \<Rightarrow> (nat \<Rightarrow> nat \<Rightarrow> rat) \<Rightarrow> int \<Rightarrow> json \<Rightarrow> string \<Rightarrow> json" where
  "expireDeadPieces js rng now rosterState diedAt =
     (let state = ensureDeploymentState js (ensureUnitServiceState js (iso_text now) rosterState);
          deadKeys = filter (\<lambda>key. field ''alive'' (roster_piece state key) = JBool False)
                       (map fst (spread_fields (or_else_json (field ''pieces'' state) (JObj []))))
      in fold (\<lambda>(i, key) s. replaceDeadPiece js (rng i) now s key diedAt) (enumerate 0 deadKeys) state)"

section \<open>Saved deployments\<close>

definition COMBAT_DEPLOYMENT_PRESETS_KEY :: string where
  "COMBAT_DEPLOYMENT_PRESETS_KEY = ''chess-study-combat-deployment-presets-v1''"
definition COMBAT_DEPLOYMENT_PRESET_SLOTS :: nat where "COMBAT_DEPLOYMENT_PRESET_SLOTS = 3"

definition loadDeploymentPresets :: "json_api \<Rightarrow> store \<Rightarrow> json list" where
  "loadDeploymentPresets js st =
     take COMBAT_DEPLOYMENT_PRESET_SLOTS (elements (read_json js COMBAT_DEPLOYMENT_PRESETS_KEY (JArr []) st))"

definition normalizedPresetName :: "json \<Rightarrow> nat \<Rightarrow> string" where
  "normalizedPresetName v index =
     (let clean = take 24 (trim (text_or_empty v)) in if clean \<noteq> [] then clean else ''Escuadra '' @ show_nat (index + 1))"

text \<open>\<open>xs[i] = v\<close>: a gap is left undefined.\<close>

definition set_at :: "nat \<Rightarrow> json \<Rightarrow> json list \<Rightarrow> json list" where
  "set_at i v xs = (if i < length xs then xs[i := v] else xs @ replicate (i - length xs) JUndef @ [v])"

definition captured_preset :: "json \<Rightarrow> json \<Rightarrow> nat \<Rightarrow> string \<Rightarrow> json" where
  "captured_preset state name slot nowIso =
     (let deployment = obj_with (or_else_json (field ''deployment'' state) (JObj [])) [];
          units = map snd (spread_fields deployment);
          form = (\<lambda>u. or_else_json (field ''deploymentType'' (roster_piece state (json_string u)))
                        (JStr (hd (split_on CHR ''-'' (text_or_empty u)))));
          identityId = (\<lambda>u. field ''identityId'' (roster_identity state (json_string u)))
      in JObj [(''version'', JInt 2),
               (''name'', JStr (normalizedPresetName name slot)),
               (''savedAt'', JStr nowIso),
               (''deployment'', deployment),
               (''forms'', obj_with (JObj []) (map (\<lambda>u. (json_string u, form u)) (filter (\<lambda>u. truthy (form u)) units))),
               (''identityIds'', obj_with (JObj []) (map (\<lambda>u. (json_string u, identityId u))
                                   (filter (\<lambda>u. is_text (identityId u) \<and> truthy (identityId u)) units)))])"

definition captureDeploymentPreset ::
  "json_api \<Rightarrow> string \<Rightarrow> json \<Rightarrow> int \<Rightarrow> json \<Rightarrow> store \<Rightarrow> json list \<times> store" where
  "captureDeploymentPreset js nowIso roster index name st =
     (let slot = nat (max 0 (min (int COMBAT_DEPLOYMENT_PRESET_SLOTS - 1) index));
          preset = captured_preset (ensureDeploymentState js roster) name slot nowIso;
          all = set_at slot preset (loadDeploymentPresets js st)
      in (all, st(COMBAT_DEPLOYMENT_PRESETS_KEY \<mapsto> stringify js (JArr all))))"

text \<open>A preset of the second version follows the soldier, not the key of its place.\<close>

definition sameIdentity :: "json \<Rightarrow> json \<Rightarrow> string \<Rightarrow> bool" where
  "sameIdentity preset state unitKey \<longleftrightarrow>
     (let wanted = field unitKey (field ''identityIds'' preset)
      in field ''version'' preset = JInt 1
         \<or> field ''version'' preset = JInt 2 \<and> is_text wanted \<and> truthy wanted
           \<and> wanted = field ''identityId'' (roster_identity state unitKey))"

definition apply_form :: "json \<Rightarrow> string \<times> json \<Rightarrow> json \<Rightarrow> json" where
  "apply_form preset = (\<lambda>(unitKey, targetType) state.
     if sameIdentity preset state unitKey then setRosterDeploymentType state unitKey targetType else state)"

definition apply_slot :: "json_api \<Rightarrow> json \<Rightarrow> string \<times> json \<Rightarrow> json \<Rightarrow> json" where
  "apply_slot js preset = (\<lambda>(slotKey, unitKey) state.
     case unitKey of
       JStr u \<Rightarrow> if sameIdentity preset state u then setDeploymentUnit js state slotKey u else state
     | _ \<Rightarrow> state)"

definition applyDeploymentPreset :: "json_api \<Rightarrow> json \<Rightarrow> json \<Rightarrow> json" where
  "applyDeploymentPreset js roster preset =
     (let start = resetDeployment (ensureDeploymentState js roster);
          formed = fold (apply_form preset) (spread_fields (or_else_json (field ''forms'' preset) (JObj []))) start;
          placed = fold (apply_slot js preset) (spread_fields (field ''deployment'' preset)) formed
      in if \<not> truthy (field ''deployment'' preset) \<or> \<not> is_object (field ''deployment'' preset)
         then ensureDeploymentState js roster
         else ensureDeploymentState js placed)"

section \<open>The legend of a veteran\<close>

text \<open>The latest dated medal; a date that cannot be read orders nothing.\<close>

definition not_later :: "(json \<Rightarrow> rat option) \<Rightarrow> decoration \<times> json \<Rightarrow> decoration \<times> json \<Rightarrow> bool" where
  "not_later date_of a b = (case (date_of (snd a), date_of (snd b)) of (Some x, Some y) \<Rightarrow> y \<le> x | _ \<Rightarrow> True)"

definition latestDecoration :: "(json \<Rightarrow> rat option) \<Rightarrow> json \<Rightarrow> (decoration \<times> json) option" where
  "latestDecoration date_of record =
     (case sort_stable (not_later date_of) (filter (\<lambda>(_, earnedAt). truthy earnedAt) (unitDecorations record)) of
        [] \<Rightarrow> None | row # _ \<Rightarrow> Some row)"

record legacy =
  lg_title :: string
  lg_reason :: string
  lg_battles :: int
  lg_survivals :: int
  lg_kills :: int
  lg_medals :: nat
  lg_latest :: "(decoration \<times> json) option"

definition legend :: "(string \<Rightarrow> int) \<Rightarrow> string \<times> string" where
  "legend n =
     (let s = (\<lambda>k. if n k = 1 then [] else ''s''); t = (\<lambda>k. show_int (n k))
      in if 0 < n ''bossFinishes''
         then (''Verdugo de jefe'', (''Remat'' @ [CHR 0xF3] @ '' '') @ t ''bossFinishes'' @ '' jefe'' @ s ''bossFinishes'' @ '' en combate.'')
         else if 2 \<le> n ''bossVictories''
         then (''Cazajefes'', (''Sobrevivi'' @ [CHR 0xF3] @ '' a '') @ t ''bossVictories'' @ '' victorias contra jefes.'')
         else if 10 \<le> n ''kills''
         then (''As de combate'', ''Acumula '' @ t ''kills'' @ '' bajas enemigas confirmadas.'')
         else if 5 \<le> n ''bestSurvivalStreak''
         then (''Vieja guardia'', (''Encaden'' @ [CHR 0xF3] @ '' '') @ t ''bestSurvivalStreak'' @ '' batallas consecutivas sobreviviendo.'')
         else if 0 < n ''revives''
         then ((''Volvi'' @ [CHR 0xF3] @ '' al frente''), ''Ha sido revivido '' @ t ''revives'' @ (if n ''revives'' = 1 then '' vez'' else '' veces'')
                                     @ '' sin perder su identidad.'')
         else if 10 \<le> n ''battles''
         then ((''Veterano de campa'' @ [CHR 0xF1] @ ''a''), t ''battles'' @ '' batallas registradas y '' @ t ''survivals'' @ '' supervivencias.'')
         else if 0 < n ''battles''
         then (''Bautizado en combate'', t ''battles'' @ '' batalla'' @ s ''battles'' @ ('' '' @ [CHR 0xB7] @ '' '') @ t ''survivals'' @ '' supervivencia''
                                         @ s ''survivals'' @ ('' '' @ [CHR 0xB7] @ '' '') @ t ''kills'' @ '' bajas.'')
         else (''Sin bautismo de fuego'', (''Todav'' @ [CHR 0xED] @ ''a no hay servicio de campa'' @ [CHR 0xF1] @ ''a suficiente para construir una leyenda.'')))"

definition veteranLegacy :: "(json \<Rightarrow> rat option) \<Rightarrow> json \<Rightarrow> legacy" where
  "veteranLegacy date_of record =
     (let stats = or_else_json (field ''stats'' record) (JObj []);
          n = (\<lambda>k. finiteNonNegative 0 (or_else_json (field k stats) (JInt 0)));
          (title, reason) = legend n
      in \<lparr>lg_title = title, lg_reason = reason, lg_battles = n ''battles'', lg_survivals = n ''survivals'', lg_kills = n ''kills'',
          lg_medals = length (unitDecorations record), lg_latest = latestDecoration date_of record\<rparr>)"

section \<open>What a battle does to the army\<close>

lemma migrate_field:
  assumes "\<not> is_digit (hd k)" "k \<notin> {''identities'', ''unitRecords''}"
  shows "field k (fst (migrateLegacyAliases s)) = field k s"
proof -
  define ids recs where "ids = obj_with (or_else_json (field ''identities'' s) (JObj [])) []"
    and "recs = obj_with (or_else_json (field ''unitRecords'' s) (JObj [])) []"
  obtain used ids' recs' changed where f:
    "fold migrate_one (spread_fields ids) (kept_aliases ids, ids, recs, False) = (used, ids', recs', changed)"
    using prod_cases4 by blast
  have "migrateLegacyAliases s =
      (if changed then (obj_with s [(''identities'', ids'), (''unitRecords'', recs')], True) else (s, False))"
    by (simp only: migrateLegacyAliases_def Let_def ids_def [symmetric] recs_def [symmetric] f prod.case)
  then show ?thesis using assms by (simp add: field_obj_with_name)
qed

lemma identities_field:
  assumes "\<not> is_digit (hd k)" "k \<notin> {''identities'', ''unitRecords''}" "truthy s"
  shows "field k (ensureCombatIdentities s rng now) = field k s"
proof -
  obtain migrated moved where m: "migrateLegacyAliases (or_else_json s (JObj [])) = (migrated, moved)" by fastforce
  have same: "field k migrated = field k s"
    using migrate_field [OF assms(1,2), of s] assms(3) m by (simp add: or_else_json_def)
  define start where "start = obj_with (or_else_json (field ''identities'' migrated) (JObj [])) []"
  obtain ids touched where i: "fold with_bio_status (spread_fields start) (start, moved \<or> \<not> truthy s) = (ids, touched)" by fastforce
  obtain filled aliases n changed where f:
    "fold (fill_slot rng now) CANONICAL_ROSTER_SLOTS
       (ids, filter truthy (map (\<lambda>(_, entry). field ''alias'' entry) (spread_fields ids)), 0, touched) = (filled, aliases, n, changed)"
    using prod_cases4 by blast
  have "ensureCombatIdentities s rng now = (if changed then obj_with migrated [(''identities'', filled)] else migrated)"
    by (simp only: ensureCombatIdentities_def Let_def m prod.case start_def [symmetric] i f)
  then show ?thesis using same assms by (simp add: field_obj_with_name)
qed

lemma settled_field:
  assumes "\<not> is_digit (hd k)" "truthy s"
    and "k \<notin> {''identities'', ''unitRecords'', ''memorial'', ''unitServiceProcessedBattleIds'', ''deploymentVersion'', ''deployment''}"
  shows "field k (settled js rng now s) = field k s"
  using assms by (simp add: settled_def ensure_field service_field identities_field)

lemma saved_pieces:
  "field ''pieces'' (saveSurvivorsToRoster js rng now reg s human keys) = after_battle reg s human keys"
  by (simp add: saveSurvivorsToRoster_def settled_field field_obj_with_name is_digit_def)

text \<open>Marking the fallen touches only the participants that did not survive, and each of them once.\<close>

lemma mark_other: "k \<noteq> key \<Longrightarrow> field k (mark_fallen alive key (JObj d)) = field k (JObj d)"
  by (simp add: mark_fallen_def Let_def field_obj_with)

lemma mark_object: "\<exists>d'. mark_fallen alive key (JObj d) = JObj d'"
  by (simp add: mark_fallen_def Let_def obj_with_def)

lemma marks_other:
  "k \<notin> set keys - alive \<Longrightarrow> field k (fold (mark_fallen alive) keys (JObj d)) = field k (JObj d)"
proof (induction keys arbitrary: d)
  case (Cons key keys)
  obtain d' where d': "mark_fallen alive key (JObj d) = JObj d'" using mark_object by blast
  have step: "field k (JObj d') = field k (JObj d)"
  proof (cases "key \<in> alive")
    case True
    then show ?thesis using d' by (simp add: mark_fallen_def Let_def)
  next
    case False
    then have "k \<noteq> key" using Cons.prems by auto
    then show ?thesis using mark_other [of k key alive d] d' by argo
  qed
  show ?case using Cons.IH [of d'] Cons.prems step by (simp add: d' del: field_JObj) blast
qed simp

lemma marks_fallen:
  assumes "distinct keys" "k \<in> set keys" "k \<notin> alive"
  shows "field k (fold (mark_fallen alive) keys (JObj d)) =
    (if truthy (field k (JObj d)) \<and> field ''alive'' (field k (JObj d)) = JBool False then field k (JObj d)
     else fallen_json (field k (JObj d)))"
  using assms
proof (induction keys arbitrary: d)
  case (Cons key keys)
  obtain d' where d': "mark_fallen alive key (JObj d) = JObj d'" using mark_object by blast
  show ?case
  proof (cases "key = k")
    case True
    have "field k (fold (mark_fallen alive) keys (JObj d')) = field k (JObj d')"
      using Cons.prems True by (intro marks_other) auto
    moreover have "field k (JObj d') = (if truthy (field k (JObj d)) \<and> field ''alive'' (field k (JObj d)) = JBool False
        then field k (JObj d) else fallen_json (field k (JObj d)))"
      unfolding d' [symmetric] using Cons.prems(3) True by (simp add: mark_fallen_def Let_def field_obj_with del: field_JObj)
    ultimately show ?thesis by (simp add: d' del: field_JObj)
  next
    case False
    then show ?thesis
      using Cons.IH [of d'] Cons.prems mark_other [of k key alive d] by (simp add: d' del: field_JObj)
  qed
qed simp

lemma participants_distinct: "distinct (participants keys)"
proof -
  have "distinct (map rosterSlotKey (filter P CANONICAL_ROSTER_SLOTS))" for P
    using slot_keys by (rule distinct_map_filter)
  then show ?thesis by (simp add: participants_def split: option.splits list.splits)
qed

lemma stood_field:
  assumes "distinct (map key ps)"
  shows "field k (obj_with v (map (\<lambda>p. (key p, f p)) ps)) =
    (case List.find (\<lambda>p. key p = k) ps of Some p \<Rightarrow> f p | None \<Rightarrow> field k (JObj (spread_fields v)))"
proof -
  have "map_of (rev (map (\<lambda>p. (key p, f p)) ps)) k = map_of (map (\<lambda>p. (key p, f p)) ps) k"
    using assms by (simp add: map_of_rev comp_def)
  moreover have "map_of (map (\<lambda>p. (key p, f p)) ps) k = map_option f (List.find (\<lambda>p. key p = k) ps)"
    by (induction ps) auto
  ultimately show ?thesis
    by (simp add: field_obj_with del: field_JObj split: option.split)
qed

lemma find_by_key:
  assumes "distinct (map key ps)" "p \<in> set ps"
  shows "List.find (\<lambda>x. key x = key p) ps = Some p"
  using assms by (induction ps) auto

lemma survivor_fields:
  "field ''alive'' (survivor_json s k p) = JBool True"
  "field ''strengthPoints'' (survivor_json s k p) = JInt (max 0 (strengthPoints p - equipmentStrengthBonus p))"
  "field ''speedPoints'' (survivor_json s k p) = JInt (max 0 (speedPoints p - equipmentSpeedBonus p))"
  "field ''bankedXp'' (survivor_json s k p) = JInt (bankedXp p)"
  by (simp_all add: survivor_json_def Let_def)

lemma fallen_fields:
  "field ''alive'' (fallen_json v) = JBool False"
  "field ''strengthPoints'' (fallen_json v) = or_else_json (field ''strengthPoints'' v) (JInt 0)"
  "field ''speedPoints'' (fallen_json v) = or_else_json (field ''speedPoints'' v) (JInt 0)"
  by (simp_all add: fallen_json_def Let_def)

lemma gear_returned:
  assumes "truthy (roster_piece s (rosterKeyFor p))" "field ''alive'' (roster_piece s (rosterKeyFor p)) \<noteq> JBool False"
  shows "field ''strengthPoints'' (survivor_json s k (with_roster s p))
           = JInt (max 0 (whole (field ''strengthPoints'' (roster_piece s (rosterKeyFor p)))))
    \<and> field ''speedPoints'' (survivor_json s k (with_roster s p))
           = JInt (max 0 (whole (field ''speedPoints'' (roster_piece s (rosterKeyFor p)))))"
  using assms by (simp add: survivor_fields with_roster_def Let_def)

text \<open>C29: the army after a battle, for surviving units with different keys: a survivor of the player is alive
  with the experience it brought back and its points without the bonus of its gear, so gear is never turned into
  permanent points: a unit that goes into battle and comes back unchanged has the points it was saved with. A unit
  that was deployed and is not on the board has fallen and keeps its points for a revival; a unit that had already
  fallen, and every unit that was not deployed, is left exactly as it was.\<close>

theorem army_after_battle:
  assumes "distinct (map rosterKeyFor (filter (counts_for human) (map snd reg)))" "field ''pieces'' s = JObj d"
  shows "let r = saveSurvivorsToRoster js rng now reg s human keys; alive = filter (counts_for human) (map snd reg)
    in (\<forall>p \<in> set alive. let saved = roster_piece r (rosterKeyFor p)
          in field ''alive'' saved = JBool True \<and> field ''bankedXp'' saved = JInt (bankedXp p)
           \<and> field ''strengthPoints'' saved = JInt (max 0 (strengthPoints p - equipmentStrengthBonus p))
           \<and> field ''speedPoints'' saved = JInt (max 0 (speedPoints p - equipmentSpeedBonus p)))
     \<and> (\<forall>p k. truthy (roster_piece s (rosterKeyFor p)) \<and> field ''alive'' (roster_piece s (rosterKeyFor p)) \<noteq> JBool False \<longrightarrow>
          field ''strengthPoints'' (survivor_json s k (with_roster s p))
            = JInt (max 0 (whole (field ''strengthPoints'' (roster_piece s (rosterKeyFor p))))))
     \<and> (\<forall>k. k \<notin> set (map rosterKeyFor alive) \<longrightarrow>
          (let before = roster_piece s k; after = roster_piece r k
           in if k \<in> set (participants keys) \<and> \<not> (truthy before \<and> field ''alive'' before = JBool False)
              then field ''alive'' after = JBool False
                 \<and> field ''strengthPoints'' after = or_else_json (field ''strengthPoints'' before) (JInt 0)
                 \<and> field ''speedPoints'' after = or_else_json (field ''speedPoints'' before) (JInt 0)
              else after = before))"
proof -
  define alive where "alive = filter (counts_for human) (map snd reg)"
  define stood where "stood = obj_with (JObj d) (map (\<lambda>p. (rosterKeyFor p, survivor_json s (rosterKeyFor p) p)) alive)"
  obtain e where e: "stood = JObj e" by (simp add: stood_def obj_with_def)
  define r where "r = saveSurvivorsToRoster js rng now reg s human keys"
  have r: "roster_piece r k = field k (fold (mark_fallen (set (map rosterKeyFor alive))) (participants keys) (JObj e))" for k
    by (simp add: r_def roster_piece_def saved_pieces after_battle_def Let_def assms(2) alive_def [symmetric] stood_def [symmetric] e
        del: field_JObj)
  have dist: "distinct (map rosterKeyFor alive)" using assms(1) by (simp add: alive_def)
  have here: "field (rosterKeyFor p) (JObj e) = survivor_json s (rosterKeyFor p) p" if "p \<in> set alive" for p
    unfolding e [symmetric] stood_def stood_field [OF dist] find_by_key [OF dist that] by simp
  have gone: "field k (JObj e) = roster_piece s k" if "k \<notin> set (map rosterKeyFor alive)" for k
  proof -
    have "List.find (\<lambda>p. rosterKeyFor p = k) alive = None" using that by (auto simp: find_None_iff)
    then show ?thesis unfolding e [symmetric] stood_def stood_field [OF dist] by (simp add: roster_piece_def assms(2))
  qed
  have survived: "roster_piece r (rosterKeyFor p) = survivor_json s (rosterKeyFor p) p" if "p \<in> set alive" for p
    using here [OF that] marks_other [of "rosterKeyFor p" "participants keys" "set (map rosterKeyFor alive)" e] that
    by (simp add: r del: field_JObj)
  have fell: "roster_piece r k = (if k \<in> set (participants keys) \<and> \<not> (truthy (roster_piece s k) \<and> field ''alive'' (roster_piece s k) = JBool False)
      then fallen_json (roster_piece s k) else roster_piece s k)" if "k \<notin> set (map rosterKeyFor alive)" for k
  proof (cases "k \<in> set (participants keys)")
    case True
    show ?thesis
      using marks_fallen [OF participants_distinct True that, of e] True by (simp add: r gone [OF that] del: field_JObj)
  next
    case False
    then show ?thesis
      using marks_other [of k "participants keys" "set (map rosterKeyFor alive)" e] by (simp add: r gone [OF that] del: field_JObj)
  qed
  have absent: "let before = roster_piece s k; after = roster_piece r k
      in if k \<in> set (participants keys) \<and> \<not> (truthy before \<and> field ''alive'' before = JBool False)
         then field ''alive'' after = JBool False
            \<and> field ''strengthPoints'' after = or_else_json (field ''strengthPoints'' before) (JInt 0)
            \<and> field ''speedPoints'' after = or_else_json (field ''speedPoints'' before) (JInt 0)
         else after = before" if "k \<notin> set (map rosterKeyFor alive)" for k
    unfolding Let_def fell [OF that] by (auto simp: fallen_fields)
  have present: "let saved = roster_piece r (rosterKeyFor p)
      in field ''alive'' saved = JBool True \<and> field ''bankedXp'' saved = JInt (bankedXp p)
       \<and> field ''strengthPoints'' saved = JInt (max 0 (strengthPoints p - equipmentStrengthBonus p))
       \<and> field ''speedPoints'' saved = JInt (max 0 (speedPoints p - equipmentSpeedBonus p))" if "p \<in> set alive" for p
    unfolding Let_def survived [OF that] survivor_fields by simp
  show ?thesis
    using present absent gear_returned unfolding alive_def [symmetric] r_def [symmetric] Let_def by blast
qed

definition veteran_knight :: piece where
  "veteran_knight = (fresh_piece ''w-n-b1'' Knight White ''c3'')\<lparr>strengthPoints := 5, equipmentStrengthBonus := 2, bankedXp := 7\<rparr>"

theorem army_after_battle_witness:
  "field ''strengthPoints'' (roster_piece (saveSurvivorsToRoster remembers_two (\<lambda>_. 0) 0 [(''c3'', veteran_knight)] two_pawns White None)
     (rosterKeyFor veteran_knight)) = JInt 3"
proof -
  have "field ''pieces'' two_pawns = JObj []" by (simp add: two_pawns_def)
  moreover have "filter (counts_for White) (map snd [(''c3'', veteran_knight)]) = [veteran_knight]"
    by (simp add: counts_for_def veteran_knight_def fresh_piece_def)
  moreover have "max 0 (strengthPoints veteran_knight - equipmentStrengthBonus veteran_knight) = 3"
    by (simp add: veteran_knight_def)
  ultimately show ?thesis
    using army_after_battle [of White "[(''c3'', veteran_knight)]" two_pawns "[]" remembers_two "\<lambda>_. 0" 0 None]
    by (simp add: Let_def)
qed

end
