(* ===== verification/ProfileKeys.thy ===== *)
theory ProfileKeys
  imports SafeStorage JsonValues "HOL-Library.State_Monad"
begin

text \<open>
  \<open>profileKeys.js\<close>: the keys that make up a profile, the identity a tab is bound to, and the journal of
  the keys changed since the last synchronisation.

  The module works on the local storage area of \<open>SafeStorage\<close>. An operation makes several calls, and the
  browser may refuse each of them: a tab carries the answers of the browser to the next reads of each key and
  to its next writes, and an operation is a computation of the state monad on tabs. A document starts with
  nothing read, so a refused first read of a key finds nothing; \<open>reads_as\<close> (\<open>ProfileProps\<close>) says when a tab
  nevertheless behaves as a plain map.
\<close>

section \<open>Keys\<close>

definition PROFILE_DIRTY_USER_KEY :: string where
  "PROFILE_DIRTY_USER_KEY = ''chess-study-profile-dirty-user''"

definition PROFILE_DIRTY_KEYS_KEY :: string where
  "PROFILE_DIRTY_KEYS_KEY = ''chess-study-profile-dirty-keys''"

definition AUTH_USERNAME_KEY :: string where
  "AUTH_USERNAME_KEY = ''chess-study-auth-username''"

definition PROFILE_PROGRESS_KEYS :: "string list" where
  "PROFILE_PROGRESS_KEYS =
    [''chess-study-tournament'', ''chess-study-game-history'', ''chess-study-game-activity'',
     ''chess-study-combat-history'', ''chess-study-combat-roster'', ''chess-study-combat-service'',
     ''chess-study-combat-deployment-presets-v1'', ''chess-study-combat-enemy-officers-v1'',
     ''chess-study-clean-games-v1'', ''chess-study-matchmaking-telemetry-v1'', ''chess-study-player-rating'',
     ''chess-study-rating-history'', ''chess-study-achievements'', ''chess-study-achievement-ledger-v2'',
     ''chess-study-achievement-favorites-v1'', ''chess-study-castle-unlocks-v1'', ''chess-study-puzzles-solved'',
     ''chess-study-puzzle-streak'', ''chess-study-puzzle-best-streak'', ''chess-study-worst-move-cache'',
     ''chess-study-selected-title'', ''chess-study-selected-skin'', ''chess-study-roguelike-run'',
     ''chess-study-roguelike-best-floor'', ''chess-study-roguelike-tower-completed'',
     ''chess-study-combat-campaign-v1'', ''chess-study-combat-campaign-best-stage'',
     ''chess-study-combat-operation-archive-v1'', ''chess-study-personal-puzzles'', ''chess-study-cpu-rivalry'',
     ''chess-study-daily-challenge'', ''chess-study-series-history'', ''chess-study-career-meta'',
     ''chess-study-special-run'', ''chess-study-active-contract'', ''chess-study-meta-progress'',
     ''chess-study-career'', ''chess-study-board-theme'', ''chess-study-analysis-archive'',
     ''chess-study-matthias-school-v1'', ''chess-study-pawn-slug-weapon-models-v1'',
     ''chess-study-chronicles-progression-v1'', ''chess-study-football-manager-career-v1'']"

definition PROFILE_PREFERENCE_KEYS :: "string list" where
  "PROFILE_PREFERENCE_KEYS =
    [''chess-study-muted'', ''chess-study-music-muted'', ''chess-study-music-volume'',
     ''chess-study-music-radio-mode'', ''chess-study-music-favorites'', ''chess-study-music-excluded'',
     ''chess-study-user-release-notes-seen'', ''chess-study-fx-muted'', ''chess-study-voice-enabled'',
     ''chess-study-mechanic-tutorial-progress-v1'', ''chess-study-home-guide-dismissed-v1'',
     ''chess-study-matthias-home-last-shown-v1'', ''matthias.onboarded'', ''chess-study-onboarding-insights-seen-v1'',
     ''chess-study-feedback-assistant-v1'', ''chess-study-post-game-feedback-v1'', ''chess-study-zen-mode'',
     ''chess-study-default-time-control'', ''chess-study-ui-language'', ''chess-study-reduced-motion'',
     ''chess-study-board-coordinates'', ''chess-study-board-renderer'', ''chess-study-war-room-variant-v1'']"

definition PROFILE_STORAGE_KEYS :: "string list" where
  "PROFILE_STORAGE_KEYS = PROFILE_PROGRESS_KEYS @ PROFILE_PREFERENCE_KEYS"

definition DERIVED_LOCAL_CACHE_KEYS :: "string list" where
  "DERIVED_LOCAL_CACHE_KEYS =
    [''chess-study-ai-player-portrait-v1'', ''chess-study-ai-training-plan-v1'',
     ''chess-study-narrative-call-ledger-v1'']"

definition SESSION_STATE_KEYS :: "string list" where
  "SESSION_STATE_KEYS =
    [''chess-study-active-game'', ''chess-study-active-game-learning'', ''chess-study-active-series'',
     ''chess-study-active-game-chat'', ''chess-study-matthias-home-seen-v1'', ''chess-study-active-game-session-v1'']"

section \<open>A tab\<close>

record tab =
  t_area :: area
  t_reads :: "string \<Rightarrow> browser list"
  t_writes :: "browser list"
  t_bound :: "string option"
  t_events :: nat

text \<open>The browser's answer to the next read of a key, and to the next write or removal of any key; it answers
  once the list is used up. Every sequence of refusals of a run is given by some such lists.\<close>

definition next_read :: "string \<Rightarrow> 'm tab_scheme \<Rightarrow> browser \<times> 'm tab_scheme" where
  "next_read key t =
     (case t_reads t key of [] \<Rightarrow> (Healthy, t) | e # es \<Rightarrow> (e, t\<lparr>t_reads := (t_reads t)(key := es)\<rparr>))"

definition next_write :: "'m tab_scheme \<Rightarrow> browser \<times> 'm tab_scheme" where
  "next_write t = (case t_writes t of [] \<Rightarrow> (Healthy, t) | e # es \<Rightarrow> (e, t\<lparr>t_writes := es\<rparr>))"

definition storage_call ::
  "('m tab_scheme \<Rightarrow> browser \<times> 'm tab_scheme) \<Rightarrow> (browser \<Rightarrow> area \<Rightarrow> 'r \<times> area) \<Rightarrow> ('m tab_scheme, 'r) state" where
  "storage_call ask f = State (\<lambda>t. case ask t of (e, t1) \<Rightarrow>
     (case f e (t_area t1) of (r, a) \<Rightarrow> (r, t1\<lparr>t_area := a\<rparr>)))"

definition get_item :: "string \<Rightarrow> ('m tab_scheme, string option) state" where
  "get_item key = storage_call (next_read key) (\<lambda>e. getStorageItem e key)"

definition set_item :: "string \<Rightarrow> string \<Rightarrow> ('m tab_scheme, bool) state" where
  "set_item key v = storage_call next_write (\<lambda>e. setStorageItem e key v)"

definition remove_item :: "string \<Rightarrow> ('m tab_scheme, bool) state" where
  "remove_item key = storage_call next_write (\<lambda>e. removeStorageItem e key)"

fun remove_items :: "string list \<Rightarrow> ('m tab_scheme, unit) state" where
  "remove_items [] = State_Monad.return ()"
| "remove_items (k # ks) = do { _ \<leftarrow> remove_item k; remove_items ks }"

definition bound_identity :: "(tab, string option) state" where
  "bound_identity = State (\<lambda>t. (t_bound t, t))"

text \<open>The DOM event of a changed profile, counted.\<close>

definition emitProfileChanged :: "(tab, unit) state" where
  "emitProfileChanged = State (\<lambda>t. ((), t\<lparr>t_events := Suc (t_events t)\<rparr>))"

section \<open>Identity\<close>

text \<open>\<open>s || null\<close> on text, and \<open>String(w || '').trim().toLowerCase() || null\<close>.\<close>

definition text_or_none :: "string option \<Rightarrow> string option" where
  "text_or_none w = (if w = Some [] then None else w)"

definition normal_identity :: "string option \<Rightarrow> string option" where
  "normal_identity w = text_or_none (Some (to_lower (trim (case w of None \<Rightarrow> [] | Some s \<Rightarrow> s))))"

definition bindProfileStorageIdentity :: "string option \<Rightarrow> (tab, unit) state" where
  "bindProfileStorageIdentity username =
     State (\<lambda>t. ((), t\<lparr>t_bound := normal_identity username\<rparr>))"

text \<open>The identity a new document starts with.\<close>

definition initial_identity :: "(tab, unit) state" where
  "initial_identity = do {
     w \<leftarrow> get_item AUTH_USERNAME_KEY;
     State (\<lambda>t. ((), t\<lparr>t_bound := text_or_none w\<rparr>)) }"

definition profileStorageIdentityMatchesCurrentUser :: "(tab, bool) state" where
  "profileStorageIdentityMatchesCurrentUser = do {
     w \<leftarrow> get_item AUTH_USERNAME_KEY;
     b \<leftarrow> bound_identity;
     State_Monad.return (b = None \<or> normal_identity w = None \<or> b = normal_identity w) }"

section \<open>The journal\<close>

text \<open>The keys a stored journal text holds, with a key added: \<open>keys\<close> of the source before it is written.\<close>

definition journal_with :: "json_api \<Rightarrow> string \<Rightarrow> string option \<Rightarrow> json" where
  "journal_with js key existing =
     (let raw = (case text_or_none existing of None \<Rightarrow> ''[]'' | Some s \<Rightarrow> s);
          keys = (case parse js raw of Some (JArr vs) \<Rightarrow> vs | _ \<Rightarrow> [])
      in JArr (if JStr key \<in> set keys then keys else keys @ [JStr key]))"

text \<open>The answer is \<open>undefined\<close> (\<open>None\<close>) when the journal already is, or becomes, the mark of every key.\<close>

definition write_journal :: "json_api \<Rightarrow> string option \<Rightarrow> (tab, bool option) state" where
  "write_journal js key = do {
     existing \<leftarrow> get_item PROFILE_DIRTY_KEYS_KEY;
     if existing = Some ''*'' then State_Monad.return None
     else (case text_or_none key of
         None \<Rightarrow> do { _ \<leftarrow> set_item PROFILE_DIRTY_KEYS_KEY ''*''; State_Monad.return None }
       | Some k \<Rightarrow> do {
           _ \<leftarrow> set_item PROFILE_DIRTY_KEYS_KEY (stringify js (journal_with js k existing));
           State_Monad.return (Some True) }) }"

definition markProfileDirtyForCurrentUser :: "json_api \<Rightarrow> string option \<Rightarrow> (tab, bool option) state" where
  "markProfileDirtyForCurrentUser js key = do {
     ok \<leftarrow> profileStorageIdentityMatchesCurrentUser;
     if \<not> ok then State_Monad.return (Some False)
     else do {
       username \<leftarrow> get_item AUTH_USERNAME_KEY;
       case text_or_none username of
         None \<Rightarrow> State_Monad.return (Some False)
       | Some user \<Rightarrow> do {
           previousOwner \<leftarrow> get_item PROFILE_DIRTY_USER_KEY;
           _ \<leftarrow> (if text_or_none previousOwner \<noteq> None \<and> previousOwner \<noteq> Some user
                 then remove_items [PROFILE_DIRTY_KEYS_KEY] else State_Monad.return ());
           _ \<leftarrow> set_item PROFILE_DIRTY_USER_KEY user;
           write_journal js key } } }"

datatype dirty_keys = AllKeys | SomeKeys "string list"

record dirty_state =
  d_dirty :: bool
  d_valid :: bool
  d_keys :: dirty_keys

definition invalid_dirty :: dirty_state where
  "invalid_dirty = \<lparr>d_dirty = True, d_valid = False, d_keys = SomeKeys []\<rparr>"

definition read_journal :: "json_api \<Rightarrow> string option \<Rightarrow> dirty_state" where
  "read_journal js raw =
     (case raw of
        None \<Rightarrow> invalid_dirty
      | Some s \<Rightarrow>
          if s = ''*'' then \<lparr>d_dirty = True, d_valid = True, d_keys = AllKeys\<rparr>
          else (case parse js s of
                  Some (JArr vs) \<Rightarrow>
                    if vs = [] \<or> \<not> list_all (\<lambda>v. case v of JStr k \<Rightarrow> k \<in> set PROFILE_STORAGE_KEYS | _ \<Rightarrow> False) vs
                    then invalid_dirty
                    else \<lparr>d_dirty = True, d_valid = True, d_keys = SomeKeys (uniq (strings_in vs))\<rparr>
                | _ \<Rightarrow> invalid_dirty))"

definition profileDirtyStateForCurrentUser :: "json_api \<Rightarrow> (tab, dirty_state) state" where
  "profileDirtyStateForCurrentUser js = do {
     username \<leftarrow> get_item AUTH_USERNAME_KEY;
     owner \<leftarrow> get_item PROFILE_DIRTY_USER_KEY;
     if text_or_none username = None \<or> owner \<noteq> username
     then State_Monad.return \<lparr>d_dirty = False, d_valid = True, d_keys = SomeKeys []\<rparr>
     else do {
       raw \<leftarrow> get_item PROFILE_DIRTY_KEYS_KEY;
       State_Monad.return (read_journal js raw) } }"

definition dirtyProfileKeysForCurrentUser :: "json_api \<Rightarrow> (tab, dirty_keys) state" where
  "dirtyProfileKeysForCurrentUser js = do {
     d \<leftarrow> profileDirtyStateForCurrentUser js;
     State_Monad.return (if d_dirty d \<and> d_valid d then d_keys d else SomeKeys []) }"

definition hasDirtyProfileForCurrentUser :: "(tab, bool) state" where
  "hasDirtyProfileForCurrentUser = do {
     username \<leftarrow> get_item AUTH_USERNAME_KEY;
     if text_or_none username = None then State_Monad.return False
     else do { owner \<leftarrow> get_item PROFILE_DIRTY_USER_KEY; State_Monad.return (owner = username) } }"

definition clearProfileDirty :: "(tab, unit) state" where
  "clearProfileDirty = remove_items [PROFILE_DIRTY_USER_KEY, PROFILE_DIRTY_KEYS_KEY]"

section \<open>Writing a profile\<close>

definition unregistered :: "string \<Rightarrow> string" where
  "unregistered key = ''Clave de perfil no registrada: '' @ key"

definition setProfileStorageItem :: "json_api \<Rightarrow> string \<Rightarrow> json \<Rightarrow> (tab, string + bool) state" where
  "setProfileStorageItem js key v =
     (if key \<notin> set PROFILE_STORAGE_KEYS then State_Monad.return (Inl (unregistered key))
      else do {
        ok \<leftarrow> profileStorageIdentityMatchesCurrentUser;
        if \<not> ok then State_Monad.return (Inr False)
        else do {
          w \<leftarrow> get_item key;
          if w = Some (json_string v) then State_Monad.return (Inr True)
          else do {
            _ \<leftarrow> set_item key (json_string v);
            _ \<leftarrow> markProfileDirtyForCurrentUser js (Some key);
            emitProfileChanged;
            State_Monad.return (Inr True) } } })"

definition removeProfileStorageItem :: "json_api \<Rightarrow> string \<Rightarrow> (tab, string + bool) state" where
  "removeProfileStorageItem js key =
     (if key \<notin> set PROFILE_STORAGE_KEYS then State_Monad.return (Inl (unregistered key))
      else do {
        ok \<leftarrow> profileStorageIdentityMatchesCurrentUser;
        if \<not> ok then State_Monad.return (Inr False)
        else do {
          w \<leftarrow> get_item key;
          if w = None then State_Monad.return (Inr True)
          else do {
            _ \<leftarrow> remove_item key;
            _ \<leftarrow> markProfileDirtyForCurrentUser js (Some key);
            emitProfileChanged;
            State_Monad.return (Inr True) } } })"

definition clearProfileProgress :: "json_api \<Rightarrow> (tab, bool) state" where
  "clearProfileProgress js = do {
     ok \<leftarrow> profileStorageIdentityMatchesCurrentUser;
     if \<not> ok then State_Monad.return False
     else do {
       remove_items PROFILE_PROGRESS_KEYS;
       remove_items DERIVED_LOCAL_CACHE_KEYS;
       _ \<leftarrow> markProfileDirtyForCurrentUser js None;
       emitProfileChanged;
       State_Monad.return True } }"

definition clearProfileCache :: "bool \<Rightarrow> (tab, bool) state" where
  "clearProfileCache notify = do {
     ok \<leftarrow> profileStorageIdentityMatchesCurrentUser;
     if \<not> ok then State_Monad.return False
     else do {
       remove_items PROFILE_STORAGE_KEYS;
       remove_items DERIVED_LOCAL_CACHE_KEYS;
       remove_items [''chess-study-cpu-personality''];
       remove_items [''chess-study-ambient-theme''];
       (if notify then emitProfileChanged else State_Monad.return ());
       State_Monad.return True } }"

definition clearLocalUserState :: "(tab, unit) state" where
  "clearLocalUserState = do {
     _ \<leftarrow> clearProfileCache False;
     remove_items SESSION_STATE_KEYS;
     clearProfileDirty }"

end
