(* ===== verification/ProfileProps.thy ===== *)
theory ProfileProps
  imports ProfileKeys
begin

text \<open>
  What \<open>profileKeys.js\<close> guarantees whatever writes the browser refuses, and whatever reads it refuses once it
  has answered the first read of a key: a tab behaves as if it held one plain map (\<open>reads_as\<close> relates it to
  the \<open>view\<close> of that map), a write that comes after the identity has changed does nothing, and every edit is
  in the journal of keys to synchronise. The first reads matter: the cache of a document starts empty, so a
  refused first read reads nothing, whatever the browser has stored.
\<close>

section \<open>The plain map behind a tab\<close>

record view =
  v_store :: store
  v_bound :: "string option"
  v_events :: nat

text \<open>A key reads as \<open>w\<close> when the module holds it, or when the browser stores it and answers its next read.\<close>

definition answers :: "browser list \<Rightarrow> bool" where
  "answers es \<longleftrightarrow> (case es of [] \<Rightarrow> True | e # _ \<Rightarrow> e = Healthy)"

definition reads_key :: "'m tab_scheme \<Rightarrow> string \<Rightarrow> string option \<Rightarrow> bool" where
  "reads_key t k w \<longleftrightarrow> pinned (t_area t) k w \<or>
     (obj_get (overrides (t_area t)) k = None \<and> obj_get (native (t_area t)) k = w \<and> answers (t_reads t k))"

lemma reads_key_other [simp]:
  "reads_key (t\<lparr>t_events := n\<rparr>) k w = reads_key t k w" "reads_key (t\<lparr>t_bound := b\<rparr>) k w = reads_key t k w"
  "reads_key (tab.more_update f t) k w = reads_key t k w"
  by (simp_all add: reads_key_def)

definition reads_as :: "'m tab_scheme \<Rightarrow> 'm view_scheme \<Rightarrow> bool" where
  "reads_as t v \<longleftrightarrow> (\<forall>k. reads_key t k (v_store v k)) \<and> t_bound t = v_bound v \<and>
     t_events t = v_events v \<and> tab.more t = view.more v"

definition does :: "('m tab_scheme, 'r) state \<Rightarrow> 'm view_scheme \<Rightarrow> 'm view_scheme \<Rightarrow> bool" where
  "does m v v' \<longleftrightarrow> (\<forall>t. reads_as t v \<longrightarrow> reads_as (snd (run_state m t)) v')"

definition runs :: "('m tab_scheme, 'r) state \<Rightarrow> 'm view_scheme \<Rightarrow> 'r \<Rightarrow> 'm view_scheme \<Rightarrow> bool" where
  "runs m v r v' \<longleftrightarrow> does m v v' \<and> (\<forall>t. reads_as t v \<longrightarrow> fst (run_state m t) = r)"

lemma runs_does: "runs m v r v' \<Longrightarrow> does m v v'"
  by (simp add: runs_def)

lemma runs_return [simp, intro]: "runs (State_Monad.return r) v r v"
  by (simp add: runs_def does_def)

lemma runs_bind: "runs m v r v1 \<Longrightarrow> runs (f r) v1 r' v2 \<Longrightarrow> runs (State_Monad.bind m f) v r' v2"
  by (simp add: runs_def does_def case_prod_beta)

lemma runs_then: "does m v v1 \<Longrightarrow> runs f v1 r v2 \<Longrightarrow> runs (State_Monad.bind m (\<lambda>_. f)) v r v2"
  by (simp add: runs_def does_def case_prod_beta)

lemma does_then: "does m v v1 \<Longrightarrow> does f v1 v2 \<Longrightarrow> does (State_Monad.bind m (\<lambda>_. f)) v v2"
  by (simp add: does_def case_prod_beta)

lemma does_return [simp, intro]: "does (State_Monad.return r) v v"
  by (simp add: does_def)

text \<open>One call: the laws of \<open>pinned_store\<close>, for every behaviour of the browser.\<close>

lemma run_storage_call:
  "run_state (storage_call ask f) t =
     (let (e, t1) = ask t; (r, a) = f e (t_area t1) in (r, t1\<lparr>t_area := a\<rparr>))"
  by (simp add: storage_call_def split: prod.splits)

lemma next_read_fields:
  "next_read k t = (e, t1) \<Longrightarrow> t_area t1 = t_area t \<and> t_bound t1 = t_bound t \<and> t_events t1 = t_events t \<and>
     tab.more t1 = tab.more t \<and> (\<forall>k'. k' \<noteq> k \<longrightarrow> t_reads t1 k' = t_reads t k') \<and> (answers (t_reads t k) \<longrightarrow> e = Healthy)"
  by (auto simp: next_read_def answers_def split: list.splits)

lemma next_write_fields:
  "next_write t = (e, t1) \<Longrightarrow> t_area t1 = t_area t \<and> t_bound t1 = t_bound t \<and> t_events t1 = t_events t \<and>
     tab.more t1 = tab.more t \<and> t_reads t1 = t_reads t"
  by (auto simp: next_write_def split: list.splits)

lemma get_other:
  "overrides (snd (getStorageItem e k a)) = overrides a" "native (snd (getStorageItem e k a)) = native a"
  by (auto simp: getStorageItem_def split: option.splits browser.splits)

lemma write_other:
  "k' \<noteq> k \<Longrightarrow> obj_get (overrides (snd (setStorageItem e k x a))) k' = obj_get (overrides a) k'"
  "k' \<noteq> k \<Longrightarrow> obj_get (native (snd (setStorageItem e k x a))) k' = obj_get (native a) k'"
  "k' \<noteq> k \<Longrightarrow> obj_get (overrides (snd (removeStorageItem e k a))) k' = obj_get (overrides a) k'"
  "k' \<noteq> k \<Longrightarrow> obj_get (native (snd (removeStorageItem e k a))) k' = obj_get (native a) k'"
  by (auto simp: setStorageItem_def removeStorageItem_def Let_def split: browser.splits)

text \<open>An answered read finds what the browser stores, and from then on the module holds it.\<close>

lemma answered_read:
  assumes "obj_get (overrides a) k = None" "obj_get (native a) k = w"
  shows "fst (getStorageItem Healthy k a) = w" "pinned (snd (getStorageItem Healthy k a)) k w"
  using assms by (auto simp: getStorageItem_def pinned_def split: option.splits)

lemma get_reads:
  assumes t: "\<And>k. reads_key t k (st k)" and n: "next_read k t = (e, t1)"
  shows "fst (getStorageItem e k (t_area t)) = st k"
    "reads_key (t1\<lparr>t_area := snd (getStorageItem e k (t_area t))\<rparr>) k' (st k')"
proof -
  note f = next_read_fields [OF n]
  have here: "fst (getStorageItem e k (t_area t)) = st k \<and> pinned (snd (getStorageItem e k (t_area t))) k (st k)"
  proof (cases "pinned (t_area t) k (st k)")
    case True
    then show ?thesis using web_store.get_pinned web_store.get_keeps by blast
  next
    case False
    then show ?thesis using t [of k] f answered_read by (auto simp: reads_key_def)
  qed
  then show "fst (getStorageItem e k (t_area t)) = st k" by simp
  show "reads_key (t1\<lparr>t_area := snd (getStorageItem e k (t_area t))\<rparr>) k' (st k')"
    using here t [of k'] f web_store.get_keeps [of "t_area t" k' "st k'" e k]
    by (cases "k' = k") (auto simp: reads_key_def get_other)
qed

lemma runs_get: "runs (get_item k) v (v_store v k) v"
proof -
  have "fst (run_state (get_item k) t) = v_store v k \<and> reads_as (snd (run_state (get_item k) t)) v"
    if t: "reads_as t v" for t
  proof -
    obtain e t1 where n: "next_read k t = (e, t1)" by (cases "next_read k t")
    have "\<And>k. reads_key t k (v_store v k)" using t by (simp add: reads_as_def)
    from get_reads [OF this n] next_read_fields [OF n] t show ?thesis
      by (simp add: get_item_def run_storage_call n case_prod_beta reads_as_def)
  qed
  then show ?thesis by (simp add: runs_def does_def)
qed

text \<open>A write holds its key, whatever the browser answers, and leaves the others as they are.\<close>

lemma write_call:
  assumes t: "reads_as t v" and held: "\<And>e. pinned (snd (f e (t_area t))) k w"
    and keeps: "\<And>e k' u. pinned (t_area t) k' u \<Longrightarrow> k' \<noteq> k \<Longrightarrow> pinned (snd (f e (t_area t))) k' u"
    and other: "\<And>e k'. k' \<noteq> k \<Longrightarrow> obj_get (overrides (snd (f e (t_area t)))) k' = obj_get (overrides (t_area t)) k'"
      "\<And>e k'. k' \<noteq> k \<Longrightarrow> obj_get (native (snd (f e (t_area t)))) k' = obj_get (native (t_area t)) k'"
  shows "reads_as (snd (run_state (storage_call next_write f) t)) (v\<lparr>v_store := (v_store v)(k := w)\<rparr>)"
proof -
  obtain e t1 where n: "next_write t = (e, t1)" by (cases "next_write t")
  note fields = next_write_fields [OF n]
  have "reads_key (t1\<lparr>t_area := snd (f e (t_area t))\<rparr>) k' (((v_store v)(k := w)) k')" for k'
    using t held [of e] keeps [of k' _ e] other [of k' e] fields
    by (cases "k' = k") (auto simp: reads_key_def reads_as_def)
  then show ?thesis using t fields by (simp add: run_storage_call n case_prod_beta reads_as_def)
qed

lemma does_set: "does (set_item k x) v (v\<lparr>v_store := (v_store v)(k \<mapsto> x)\<rparr>)"
  unfolding does_def set_item_def
  by (auto intro!: write_call simp del: fun_upd_apply
      simp: web_store.put_pins web_store.put_keeps write_other)

lemma does_remove: "does (remove_item k) v (v\<lparr>v_store := (v_store v)(k := None)\<rparr>)"
  unfolding does_def remove_item_def
  by (auto intro!: write_call simp del: fun_upd_apply
      simp: web_store.del_pins web_store.del_keeps write_other)

text \<open>A confirmed write is in the browser's map, and a browser that refuses no write confirms them all.\<close>

lemma durable_write:
  "fst (run_state (set_item k x) t) \<Longrightarrow> obj_get (native (t_area (snd (run_state (set_item k x) t)))) k = Some x"
  by (auto simp: set_item_def run_storage_call setStorageItem_def Let_def split: prod.splits browser.splits)

lemma write_answers: "t_writes t = [] \<Longrightarrow> fst (run_state (set_item k x) t)"
  by (simp add: set_item_def run_storage_call next_write_def setStorageItem_def)

lemma writes_kept:
  "t_writes t = [] \<Longrightarrow> t_writes (snd (run_state (set_item k x) t)) = []"
  "t_writes t = [] \<Longrightarrow> t_writes (snd (run_state (remove_item k) t)) = []"
  "t_writes (snd (run_state (get_item k) t)) = t_writes t"
  by (simp_all add: set_item_def remove_item_def get_item_def run_storage_call next_write_def next_read_def
      case_prod_beta split: list.split)

lemma get_native: "native (t_area (snd (run_state (get_item k) t))) = native (t_area t)"
  by (simp add: get_item_def run_storage_call next_read_def case_prod_beta get_other split: list.split)

definition cleared :: "string list \<Rightarrow> store \<Rightarrow> store" where
  "cleared ks st = (\<lambda>k. if k \<in> set ks then None else st k)"

lemma cleared_simps [simp]: "cleared [] st = st" "cleared (k # ks) st = cleared ks (st(k := None))"
  by (auto simp: cleared_def)

lemma runs_remove_items: "runs (remove_items ks) v () (v\<lparr>v_store := cleared ks (v_store v)\<rparr>)"
proof (induction ks arbitrary: v)
  case (Cons k ks)
  from runs_then [OF does_remove [of k v] Cons.IH] show ?case by (simp del: fun_upd_apply)
qed simp

lemma runs_removes:
  "runs f (v\<lparr>v_store := cleared ks (v_store v)\<rparr>) r v2 \<Longrightarrow> runs (State_Monad.bind (remove_items ks) (\<lambda>_. f)) v r v2"
  by (rule runs_then [OF runs_does [OF runs_remove_items]])

lemma runs_bound: "runs bound_identity v (v_bound v) v"
  by (simp add: runs_def does_def bound_identity_def reads_as_def)

lemma runs_emit: "runs emitProfileChanged v () (v\<lparr>v_events := Suc (v_events v)\<rparr>)"
  by (simp add: runs_def does_def emitProfileChanged_def reads_as_def)

lemmas runs_intros = runs_get runs_bound runs_remove_items runs_emit does_set does_remove

section \<open>The operations on the plain map\<close>

definition same_identity :: "view \<Rightarrow> bool" where
  "same_identity v \<longleftrightarrow>
     (let c = normal_identity (v_store v AUTH_USERNAME_KEY) in v_bound v = None \<or> c = None \<or> v_bound v = c)"

lemma runs_matches: "runs profileStorageIdentityMatchesCurrentUser v (same_identity v) v"
  unfolding profileStorageIdentityMatchesCurrentUser_def same_identity_def Let_def
  by (rule runs_bind [OF runs_get], rule runs_bind [OF runs_bound], rule runs_return)

text \<open>The journal once it belongs to \<open>user\<close>.\<close>

definition own_journal :: "string \<Rightarrow> store \<Rightarrow> store" where
  "own_journal user st =
     (if text_or_none (st PROFILE_DIRTY_USER_KEY) \<noteq> None \<and> st PROFILE_DIRTY_USER_KEY \<noteq> Some user
      then st(PROFILE_DIRTY_KEYS_KEY := None) else st)(PROFILE_DIRTY_USER_KEY \<mapsto> user)"

definition journaled :: "json_api \<Rightarrow> string option \<Rightarrow> store \<Rightarrow> store" where
  "journaled js key st =
     (if st PROFILE_DIRTY_KEYS_KEY = Some ''*'' then st
      else case text_or_none key of
        None \<Rightarrow> st(PROFILE_DIRTY_KEYS_KEY \<mapsto> ''*'')
      | Some k \<Rightarrow> st(PROFILE_DIRTY_KEYS_KEY \<mapsto> stringify js (journal_with js k (st PROFILE_DIRTY_KEYS_KEY))))"

definition mark_view :: "json_api \<Rightarrow> string option \<Rightarrow> view \<Rightarrow> view" where
  "mark_view js key v =
     (if \<not> same_identity v then v
      else case text_or_none (v_store v AUTH_USERNAME_KEY) of
        None \<Rightarrow> v
      | Some user \<Rightarrow> v\<lparr>v_store := journaled js key (own_journal user (v_store v))\<rparr>)"

lemma does_write_journal: "does (write_journal js key) v (v\<lparr>v_store := journaled js key (v_store v)\<rparr>)"
proof (cases "v_store v PROFILE_DIRTY_KEYS_KEY = Some ''*''")
  case True
  then have "runs (write_journal js key) v None (v\<lparr>v_store := journaled js key (v_store v)\<rparr>)"
    unfolding write_journal_def by (intro runs_bind [OF runs_get]) (simp add: journaled_def)
  then show ?thesis by (rule runs_does)
next
  case False
  show ?thesis
  proof (cases "text_or_none key")
    case None
    then have "runs (write_journal js key) v None (v\<lparr>v_store := journaled js key (v_store v)\<rparr>)"
      unfolding write_journal_def using False
      by (intro runs_bind [OF runs_get]) (simp add: journaled_def runs_then [OF does_set runs_return])
    then show ?thesis by (rule runs_does)
  next
    case (Some k)
    then have "runs (write_journal js key) v (Some True) (v\<lparr>v_store := journaled js key (v_store v)\<rparr>)"
      unfolding write_journal_def using False
      by (intro runs_bind [OF runs_get]) (simp add: journaled_def runs_then [OF does_set runs_return])
    then show ?thesis by (rule runs_does)
  qed
qed

text \<open>The part of the marking after the owner of the journal is known.\<close>

lemma does_own_journal:
  "does (do { _ \<leftarrow> (if text_or_none (v_store v PROFILE_DIRTY_USER_KEY) \<noteq> None \<and>
                      v_store v PROFILE_DIRTY_USER_KEY \<noteq> Some user
                  then remove_items [PROFILE_DIRTY_KEYS_KEY] else State_Monad.return ());
              _ \<leftarrow> set_item PROFILE_DIRTY_USER_KEY user;
              write_journal js key }) v
     (v\<lparr>v_store := journaled js key (own_journal user (v_store v))\<rparr>)"
proof (cases "text_or_none (v_store v PROFILE_DIRTY_USER_KEY) \<noteq> None \<and> v_store v PROFILE_DIRTY_USER_KEY \<noteq> Some user")
  case True
  let ?v1 = "v\<lparr>v_store := (v_store v)(PROFILE_DIRTY_KEYS_KEY := None)\<rparr>"
  have "does (remove_items [PROFILE_DIRTY_KEYS_KEY]) v ?v1"
    using runs_remove_items [of "[PROFILE_DIRTY_KEYS_KEY]" v] by (simp add: runs_does del: remove_items.simps)
  then show ?thesis
    using True does_then [OF does_set [of PROFILE_DIRTY_USER_KEY user ?v1] does_write_journal [of js key]]
    by (simp add: own_journal_def does_then del: remove_items.simps fun_upd_apply)
next
  case False
  then show ?thesis
    using does_then [OF does_set [of PROFILE_DIRTY_USER_KEY user v] does_write_journal [of js key]]
    by (auto simp: own_journal_def simp del: fun_upd_apply intro: does_then [OF does_return])
qed

lemma does_bind: "runs m v r v1 \<Longrightarrow> does (f r) v1 v2 \<Longrightarrow> does (State_Monad.bind m f) v v2"
  by (simp add: runs_def does_def case_prod_beta)

lemma does_mark: "does (markProfileDirtyForCurrentUser js key) v (mark_view js key v)"
proof (cases "same_identity v")
  case False
  then show ?thesis
    unfolding markProfileDirtyForCurrentUser_def by (intro does_bind [OF runs_matches]) (simp add: mark_view_def)
next
  case True
  have "does (case text_or_none (v_store v AUTH_USERNAME_KEY) of
      None \<Rightarrow> State_Monad.return (Some False)
    | Some user \<Rightarrow> do {
        previousOwner \<leftarrow> get_item PROFILE_DIRTY_USER_KEY;
        _ \<leftarrow> (if text_or_none previousOwner \<noteq> None \<and> previousOwner \<noteq> Some user
              then remove_items [PROFILE_DIRTY_KEYS_KEY] else State_Monad.return ());
        _ \<leftarrow> set_item PROFILE_DIRTY_USER_KEY user;
        write_journal js key }) v (mark_view js key v)"
  proof (cases "text_or_none (v_store v AUTH_USERNAME_KEY)")
    case None
    then show ?thesis using True by (simp add: mark_view_def)
  next
    case (Some user)
    have mv: "mark_view js key v = v\<lparr>v_store := journaled js key (own_journal user (v_store v))\<rparr>"
      using True Some by (simp add: mark_view_def)
    show ?thesis unfolding mv Some option.case by (rule does_bind [OF runs_get], rule does_own_journal)
  qed
  then show ?thesis
    unfolding markProfileDirtyForCurrentUser_def
    by (intro does_bind [OF runs_matches]) (simp add: True does_bind [OF runs_get])
qed

section \<open>Writes\<close>

definition changed :: "json_api \<Rightarrow> string option \<Rightarrow> store \<Rightarrow> view \<Rightarrow> view" where
  "changed js key st v = (let v1 = mark_view js key (v\<lparr>v_store := st\<rparr>) in v1\<lparr>v_events := Suc (v_events v1)\<rparr>)"

definition set_view :: "json_api \<Rightarrow> string \<Rightarrow> json \<Rightarrow> view \<Rightarrow> (string + bool) \<times> view" where
  "set_view js key x v =
     (if key \<notin> set PROFILE_STORAGE_KEYS then (Inl (unregistered key), v)
      else if \<not> same_identity v then (Inr False, v)
      else if v_store v key = Some (json_string x) then (Inr True, v)
      else (Inr True, changed js (Some key) ((v_store v)(key \<mapsto> json_string x)) v))"

definition remove_view :: "json_api \<Rightarrow> string \<Rightarrow> view \<Rightarrow> (string + bool) \<times> view" where
  "remove_view js key v =
     (if key \<notin> set PROFILE_STORAGE_KEYS then (Inl (unregistered key), v)
      else if \<not> same_identity v then (Inr False, v)
      else if v_store v key = None then (Inr True, v)
      else (Inr True, changed js (Some key) ((v_store v)(key := None)) v))"

definition clear_progress_view :: "json_api \<Rightarrow> view \<Rightarrow> bool \<times> view" where
  "clear_progress_view js v =
     (if \<not> same_identity v then (False, v)
      else (True, changed js None (cleared (PROFILE_PROGRESS_KEYS @ DERIVED_LOCAL_CACHE_KEYS) (v_store v)) v))"

lemma cleared_append [simp]: "cleared ks (cleared js st) = cleared (js @ ks) st"
  by (auto simp: cleared_def)

lemma runs_changed:
  "does m v (v\<lparr>v_store := st\<rparr>) \<Longrightarrow>
   runs (do { _ \<leftarrow> m; _ \<leftarrow> markProfileDirtyForCurrentUser js key; emitProfileChanged; State_Monad.return r })
     v r (changed js key st v)"
  unfolding changed_def Let_def
  by (rule runs_then, assumption, rule runs_then [OF does_mark], rule runs_then [OF runs_does [OF runs_emit]])
    (rule runs_return)

lemma runs_set_profile:
  "runs (setProfileStorageItem js key x) v (fst (set_view js key x v)) (snd (set_view js key x v))"
proof (cases "key \<in> set PROFILE_STORAGE_KEYS")
  case True
  have edit: "runs (do { w \<leftarrow> get_item key;
          if w = Some (json_string x) then State_Monad.return (Inr True)
          else do {
            _ \<leftarrow> set_item key (json_string x);
            _ \<leftarrow> markProfileDirtyForCurrentUser js (Some key);
            emitProfileChanged;
            State_Monad.return (Inr True) } }) v (Inr True) (snd (set_view js key x v))" if "same_identity v"
    using True that by (intro runs_bind [OF runs_get]) (auto simp: set_view_def intro!: runs_changed does_set)
  show ?thesis unfolding setProfileStorageItem_def using True edit
    by (auto intro!: runs_bind [OF runs_matches] simp: set_view_def)
qed (simp add: setProfileStorageItem_def set_view_def)

lemma runs_remove_profile:
  "runs (removeProfileStorageItem js key) v (fst (remove_view js key v)) (snd (remove_view js key v))"
proof (cases "key \<in> set PROFILE_STORAGE_KEYS")
  case True
  have edit: "runs (do { w \<leftarrow> get_item key;
          if w = None then State_Monad.return (Inr True)
          else do {
            _ \<leftarrow> remove_item key;
            _ \<leftarrow> markProfileDirtyForCurrentUser js (Some key);
            emitProfileChanged;
            State_Monad.return (Inr True) } }) v (Inr True) (snd (remove_view js key v))" if "same_identity v"
    using True that by (intro runs_bind [OF runs_get]) (auto simp: remove_view_def intro!: runs_changed does_remove)
  show ?thesis unfolding removeProfileStorageItem_def using True edit
    by (auto intro!: runs_bind [OF runs_matches] simp: remove_view_def)
qed (simp add: removeProfileStorageItem_def remove_view_def)

lemma runs_clear_progress:
  "runs (clearProfileProgress js) v (fst (clear_progress_view js v)) (snd (clear_progress_view js v))"
proof (cases "same_identity v")
  case True
  have "runs (do { _ \<leftarrow> markProfileDirtyForCurrentUser js None; emitProfileChanged; State_Monad.return True })
     (v\<lparr>v_store := cleared (PROFILE_PROGRESS_KEYS @ DERIVED_LOCAL_CACHE_KEYS) (v_store v)\<rparr>) True
     (snd (clear_progress_view js v))"
    using True runs_then [OF does_mark runs_then [OF runs_does [OF runs_emit] runs_return], of js None]
    by (simp add: clear_progress_view_def changed_def Let_def)
  then have "runs (do { remove_items PROFILE_PROGRESS_KEYS; remove_items DERIVED_LOCAL_CACHE_KEYS;
       _ \<leftarrow> markProfileDirtyForCurrentUser js None; emitProfileChanged; State_Monad.return True }) v True
     (snd (clear_progress_view js v))"
    by (intro runs_removes) simp
  then show ?thesis unfolding clearProfileProgress_def
    using True by (intro runs_bind [OF runs_matches]) (simp add: clear_progress_view_def)
qed (auto simp: clearProfileProgress_def clear_progress_view_def intro!: runs_bind [OF runs_matches])

definition clear_cache_view :: "bool \<Rightarrow> view \<Rightarrow> view" where
  "clear_cache_view notify v =
     (if \<not> same_identity v then v
      else v\<lparr>v_store := cleared (PROFILE_STORAGE_KEYS @ DERIVED_LOCAL_CACHE_KEYS @
               [''chess-study-cpu-personality'', ''chess-study-ambient-theme'']) (v_store v),
             v_events := (if notify then Suc (v_events v) else v_events v)\<rparr>)"

lemma runs_clear_cache: "runs (clearProfileCache notify) v (same_identity v) (clear_cache_view notify v)"
proof (cases "same_identity v")
  case True
  have last: "runs (do { (if notify then emitProfileChanged else State_Monad.return ()); State_Monad.return True })
     (v\<lparr>v_store := v_store (clear_cache_view notify v)\<rparr>) True (clear_cache_view notify v)"
    using True by (cases notify) (auto simp: clear_cache_view_def intro!: runs_then [OF runs_does [OF runs_emit]])
  have "runs (do { remove_items PROFILE_STORAGE_KEYS; remove_items DERIVED_LOCAL_CACHE_KEYS;
       remove_items [''chess-study-cpu-personality'']; remove_items [''chess-study-ambient-theme''];
       (if notify then emitProfileChanged else State_Monad.return ()); State_Monad.return True })
     v True (clear_cache_view notify v)"
    using last True by (intro runs_removes) (simp add: clear_cache_view_def del: cleared_simps remove_items.simps)
  then show ?thesis unfolding clearProfileCache_def
    using True by (intro runs_bind [OF runs_matches]) (simp del: remove_items.simps)
qed (auto simp: clearProfileCache_def clear_cache_view_def intro!: runs_bind [OF runs_matches])

section \<open>Sequences of operations\<close>

datatype profile_op = PSet string json | PRemove string | PClearProgress | PMarkAll | PClearCache bool

fun perform :: "json_api \<Rightarrow> profile_op \<Rightarrow> tab \<Rightarrow> tab" where
  "perform js (PSet k x) t = snd (run_state (setProfileStorageItem js k x) t)"
| "perform js (PRemove k) t = snd (run_state (removeProfileStorageItem js k) t)"
| "perform js PClearProgress t = snd (run_state (clearProfileProgress js) t)"
| "perform js PMarkAll t = snd (run_state (markProfileDirtyForCurrentUser js None) t)"
| "perform js (PClearCache notify) t = snd (run_state (clearProfileCache notify) t)"

fun view_op :: "json_api \<Rightarrow> profile_op \<Rightarrow> view \<Rightarrow> view" where
  "view_op js (PSet k x) v = snd (set_view js k x v)"
| "view_op js (PRemove k) v = snd (remove_view js k v)"
| "view_op js PClearProgress v = snd (clear_progress_view js v)"
| "view_op js PMarkAll v = mark_view js None v"
| "view_op js (PClearCache notify) v = clear_cache_view notify v"

lemma does_reads_as: "does m v v' \<Longrightarrow> reads_as t v \<Longrightarrow> reads_as (snd (run_state m t)) v'"
  by (simp add: does_def)

lemma runs_result: "runs m v r v' \<Longrightarrow> reads_as t v \<Longrightarrow> fst (run_state m t) = r"
  by (simp add: runs_def)

lemmas reads_as_operations =
  does_reads_as [OF runs_does [OF runs_set_profile]] does_reads_as [OF runs_does [OF runs_remove_profile]]
  does_reads_as [OF runs_does [OF runs_clear_progress]] does_reads_as [OF does_mark]
  does_reads_as [OF runs_does [OF runs_clear_cache]]

lemma reads_as_perform: "reads_as t v \<Longrightarrow> reads_as (perform js x t) (view_op js x v)"
  by (cases x) (simp_all add: reads_as_operations)

lemma reads_as_fold: "reads_as t v \<Longrightarrow> reads_as (fold (perform js) xs t) (fold (view_op js) xs v)"
  by (induction xs arbitrary: t v) (simp_all add: reads_as_perform)

text \<open>A new document: the browser's items, nothing read yet.\<close>

definition fresh_tab ::
  "(string, string) obj \<Rightarrow> string option \<Rightarrow> (string \<Rightarrow> browser list) \<Rightarrow> browser list \<Rightarrow> tab" where
  "fresh_tab items bound reads writes =
     \<lparr>t_area = empty_area items, t_reads = reads, t_writes = writes, t_bound = bound, t_events = 0\<rparr>"

lemma reads_as_fresh:
  "(\<And>k. answers (reads k)) \<Longrightarrow>
   reads_as (fresh_tab items bound reads writes) \<lparr>v_store = obj_get items, v_bound = bound, v_events = 0\<rparr>"
  by (simp add: reads_as_def reads_key_def fresh_tab_def empty_area_def)

text \<open>A browser that answers the first read of each key and then refuses.\<close>

definition flaky :: "string \<Rightarrow> browser list" where
  "flaky = (\<lambda>_. [Healthy, Faulty 0, Absent, Faulty 1])"

lemma answers_flaky [simp]: "answers (flaky k)" "answers []"
  by (simp_all add: answers_def flaky_def)

text \<open>When the first read of a key is refused, the document sees nothing of what the browser stores.\<close>

lemma refused_first_read:
  "reads k = Faulty n # es \<Longrightarrow> fst (run_state (get_item k) (fresh_tab items bound reads writes)) = None"
  by (simp add: get_item_def run_storage_call next_read_def fresh_tab_def empty_area_def getStorageItem_def)

text \<open>C30: the profile is a plain map. On a tab that reads as a map (a new document whose browser answers the
  first read of each key, or any later tab of it), any sequence of profile operations leaves what the tab can
  read, its identity and the number of announced changes exactly as the operations on a plain map do, and the
  answers of the next write and the next read are theirs, even when the browser refuses any of the writes and
  any of the later reads.\<close>

theorem profile_refines_map:
  assumes "reads_as t v"
  shows "reads_as (fold (perform js) ops t) (fold (view_op js) ops v) \<and>
    fst (run_state (setProfileStorageItem js k x) (fold (perform js) ops t)) = fst (set_view js k x (fold (view_op js) ops v)) \<and>
    fst (run_state (get_item k) (fold (perform js) ops t)) = v_store (fold (view_op js) ops v) k"
  using reads_as_fold [OF assms, of js ops] runs_result [OF runs_set_profile] runs_result [OF runs_get] by blast

theorem profile_refines_map_witness:
  "v_store (fold (view_op \<lparr>stringify = json_string, parse = (\<lambda>_. None)\<rparr>) [PSet ''chess-study-muted'' (JStr ''1'')]
     \<lparr>v_store = Map.empty, v_bound = None, v_events = 0\<rparr>) ''chess-study-muted'' = Some ''1'' \<and>
   fst (run_state (get_item ''chess-study-muted'')
     (fold (perform \<lparr>stringify = json_string, parse = (\<lambda>_. None)\<rparr>) [PSet ''chess-study-muted'' (JStr ''1'')]
       (fresh_tab [] None flaky [Faulty 0, Absent, Faulty 1]))) = Some ''1''"
proof -
  have v: "v_store (fold (view_op \<lparr>stringify = json_string, parse = (\<lambda>_. None)\<rparr>) [PSet ''chess-study-muted'' (JStr ''1'')]
     \<lparr>v_store = Map.empty, v_bound = None, v_events = 0\<rparr>) ''chess-study-muted'' = Some ''1''"
    by (simp add: set_view_def changed_def mark_view_def same_identity_def text_or_none_def
        AUTH_USERNAME_KEY_def PROFILE_STORAGE_KEYS_def PROFILE_PREFERENCE_KEYS_def)
  show ?thesis
    using v profile_refines_map [OF reads_as_fresh [of flaky "[]" None "[Faulty 0, Absent, Faulty 1]", OF answers_flaky(1)],
        of "\<lparr>stringify = json_string, parse = (\<lambda>_. None)\<rparr>" "[PSet ''chess-study-muted'' (JStr ''1'')]" "''chess-study-muted''"]
    by simp
qed

text \<open>Late writes are dropped. Once the signed-in user is not the one the tab is bound to, no profile
  operation changes anything the tab can read or announces a change: an answer meant for the previous user cannot
  reach the next user's profile or journal.\<close>

theorem late_writes_dropped:
  assumes "reads_as t v" "\<not> same_identity v"
  shows "reads_as (fold (perform js) ops t) v \<and>
    (k \<in> set PROFILE_STORAGE_KEYS \<longrightarrow>
      fst (run_state (setProfileStorageItem js k x) (fold (perform js) ops t)) = Inr False \<and>
      fst (run_state (removeProfileStorageItem js k) (fold (perform js) ops t)) = Inr False)"
proof -
  have "view_op js y v = v" for y
    using assms(2)
    by (cases y) (simp_all add: set_view_def remove_view_def clear_progress_view_def mark_view_def clear_cache_view_def)
  then have "fold (view_op js) ops v = v" by (induction ops) simp_all
  then have s: "reads_as (fold (perform js) ops t) v" using reads_as_fold [OF assms(1), of js ops] by simp
  show ?thesis
    using s runs_result [OF runs_set_profile s] runs_result [OF runs_remove_profile s] assms(2)
    by (simp add: set_view_def remove_view_def)
qed

theorem late_writes_dropped_witness:
  "\<not> same_identity \<lparr>v_store = [AUTH_USERNAME_KEY \<mapsto> ''bob''], v_bound = Some ''alice'', v_events = 0\<rparr> \<and>
   fst (run_state (setProfileStorageItem \<lparr>stringify = json_string, parse = (\<lambda>_. None)\<rparr> ''chess-study-muted'' (JStr ''1''))
     (fresh_tab [(AUTH_USERNAME_KEY, ''bob'')] (Some ''alice'') flaky [])) = Inr False"
proof -
  have i: "\<not> same_identity \<lparr>v_store = [AUTH_USERNAME_KEY \<mapsto> ''bob''], v_bound = Some ''alice'', v_events = 0\<rparr>"
    by (simp add: same_identity_def) code_simp
  have "reads_as (fresh_tab [(AUTH_USERNAME_KEY, ''bob'')] (Some ''alice'') flaky [])
     \<lparr>v_store = [AUTH_USERNAME_KEY \<mapsto> ''bob''], v_bound = Some ''alice'', v_events = 0\<rparr>"
    using reads_as_fresh [of flaky "[(AUTH_USERNAME_KEY, ''bob'')]" "Some ''alice''" "[]"] by simp
  from late_writes_dropped [OF this i, of _ "[]" "''chess-study-muted''"] show ?thesis
    using i by (simp add: PROFILE_STORAGE_KEYS_def PROFILE_PREFERENCE_KEYS_def)
qed

section \<open>The journal misses nothing\<close>

text \<open>What the journal needs of \<open>JSON\<close>: an array of profile keys comes back, its text is not the mark of every
  key, the empty array parses and the empty text does not.\<close>

definition journal_json :: "json_api \<Rightarrow> bool" where
  "journal_json js \<longleftrightarrow> parse js [] = None \<and> parse js ''[]'' = Some (JArr []) \<and>
     (\<forall>ks. ks \<noteq> [] \<longrightarrow> set ks \<subseteq> set PROFILE_STORAGE_KEYS \<longrightarrow>
        survives js (JArr (map JStr ks)) \<and> stringify js (JArr (map JStr ks)) \<noteq> ''*'')"

definition lists :: "dirty_state \<Rightarrow> string \<Rightarrow> bool" where
  "lists d k \<longleftrightarrow> d_dirty d \<and> d_valid d \<and> (case d_keys d of AllKeys \<Rightarrow> True | SomeKeys ks \<Rightarrow> k \<in> set ks)"

abbreviation journal :: "json_api \<Rightarrow> store \<Rightarrow> dirty_state" where
  "journal js st \<equiv> read_journal js (st PROFILE_DIRTY_KEYS_KEY)"

text \<open>No journal, the journal of another user, or a valid journal of this user.\<close>

definition journal_ready :: "json_api \<Rightarrow> string \<Rightarrow> store \<Rightarrow> bool" where
  "journal_ready js user st \<longleftrightarrow>
     (if st PROFILE_DIRTY_USER_KEY = Some user then d_valid (journal js st)
      else text_or_none (st PROFILE_DIRTY_USER_KEY) = None \<longrightarrow> text_or_none (st PROFILE_DIRTY_KEYS_KEY) = None)"

lemma journal_keys [simp]:
  "PROFILE_DIRTY_USER_KEY \<noteq> PROFILE_DIRTY_KEYS_KEY" "PROFILE_DIRTY_KEYS_KEY \<noteq> PROFILE_DIRTY_USER_KEY"
  "AUTH_USERNAME_KEY \<noteq> PROFILE_DIRTY_KEYS_KEY" "AUTH_USERNAME_KEY \<noteq> PROFILE_DIRTY_USER_KEY"
  "PROFILE_DIRTY_KEYS_KEY \<noteq> AUTH_USERNAME_KEY" "PROFILE_DIRTY_USER_KEY \<noteq> AUTH_USERNAME_KEY"
  by (simp_all add: PROFILE_DIRTY_USER_KEY_def PROFILE_DIRTY_KEYS_KEY_def AUTH_USERNAME_KEY_def)

lemma reserved_keys:
  "{AUTH_USERNAME_KEY, PROFILE_DIRTY_USER_KEY, PROFILE_DIRTY_KEYS_KEY} \<inter>
   set (PROFILE_STORAGE_KEYS @ DERIVED_LOCAL_CACHE_KEYS) = {}"
  by code_simp

lemma read_journal_strings:
  assumes "d_valid (read_journal js (Some s))" "s \<noteq> ''*''"
  obtains ks where "ks \<noteq> []" "set ks \<subseteq> set PROFILE_STORAGE_KEYS" "parse js s = Some (JArr (map JStr ks))"
    "d_keys (read_journal js (Some s)) = SomeKeys (uniq ks)"
proof -
  from assms obtain vs where p: "parse js s = Some (JArr vs)" "vs \<noteq> []"
      "list_all (\<lambda>v. case v of JStr k \<Rightarrow> k \<in> set PROFILE_STORAGE_KEYS | _ \<Rightarrow> False) vs"
      "d_keys (read_journal js (Some s)) = SomeKeys (uniq (strings_in vs))"
    by (auto simp: read_journal_def invalid_dirty_def split: option.splits json.splits if_splits)
  have "list_all (\<lambda>v. case v of JStr k \<Rightarrow> k \<in> set PROFILE_STORAGE_KEYS | _ \<Rightarrow> False) us \<Longrightarrow>
      us = map JStr (strings_in us) \<and> set (strings_in us) \<subseteq> set PROFILE_STORAGE_KEYS" for us
    by (induction us) (auto split: json.splits)
  from this [OF p(3)] p that show ?thesis by (metis list.map_disc_iff)
qed

lemma read_written_journal:
  assumes "journal_json js" "ks \<noteq> []" "set ks \<subseteq> set PROFILE_STORAGE_KEYS"
  shows "read_journal js (Some (stringify js (JArr (map JStr ks)))) =
    \<lparr>d_dirty = True, d_valid = True, d_keys = SomeKeys (uniq ks)\<rparr>"
proof -
  have "parse js (stringify js (JArr (map JStr ks))) = Some (JArr (map JStr ks))"
    "stringify js (JArr (map JStr ks)) \<noteq> ''*''"
    using assms by (auto simp: journal_json_def survives_def)
  moreover have "list_all (\<lambda>v. case v of JStr k \<Rightarrow> k \<in> set PROFILE_STORAGE_KEYS | _ \<Rightarrow> False) (map JStr ks)"
    using assms(3) by (auto simp: list_all_iff)
  ultimately show ?thesis using assms(2) by (simp add: read_journal_def)
qed

lemma journaled_lists:
  assumes js: "journal_json js" and ready: "journal_ready js user st"
    and key: "\<And>k. key = Some k \<Longrightarrow> k \<in> set PROFILE_STORAGE_KEYS \<and> k \<noteq> []"
  defines "st' \<equiv> journaled js key (own_journal user st)"
  shows "d_valid (journal js st')"
    "\<And>k. key = None \<or> key = Some k \<or> (st PROFILE_DIRTY_USER_KEY = Some user \<and> lists (journal js st) k) \<Longrightarrow>
       lists (journal js st') k"
proof -
  let ?own = "own_journal user st"
  have same: "st PROFILE_DIRTY_USER_KEY = Some user \<Longrightarrow> ?own PROFILE_DIRTY_KEYS_KEY = st PROFILE_DIRTY_KEYS_KEY"
    by (simp add: own_journal_def)
  have own: "text_or_none (?own PROFILE_DIRTY_KEYS_KEY) = None \<or>
      st PROFILE_DIRTY_USER_KEY = Some user \<and> d_valid (journal js st)"
    using ready by (auto simp: journal_ready_def own_journal_def text_or_none_def split: if_splits)
  have star: "read_journal js (Some ''*'') = \<lparr>d_dirty = True, d_valid = True, d_keys = AllKeys\<rparr>"
    by (simp add: read_journal_def)
  have "d_valid (journal js st') \<and> (\<forall>k. key = None \<or> key = Some k \<or>
      (st PROFILE_DIRTY_USER_KEY = Some user \<and> lists (journal js st) k) \<longrightarrow> lists (journal js st') k)"
  proof (cases "?own PROFILE_DIRTY_KEYS_KEY = Some ''*'' \<or> key = None")
    case True
    then have "st' PROFILE_DIRTY_KEYS_KEY = Some ''*''"
      by (auto simp: st'_def journaled_def text_or_none_def)
    then show ?thesis using star by (simp add: lists_def)
  next
    case False
    then obtain k where k: "key = Some k" "k \<in> set PROFILE_STORAGE_KEYS" "text_or_none key = Some k"
      using key by (auto simp: text_or_none_def)
    obtain ks where ks: "set ks \<subseteq> set PROFILE_STORAGE_KEYS"
        "journal_with js k (?own PROFILE_DIRTY_KEYS_KEY) = JArr (map JStr (if k \<in> set ks then ks else ks @ [k]))"
        "\<And>x. st PROFILE_DIRTY_USER_KEY = Some user \<Longrightarrow> lists (journal js st) x \<Longrightarrow> x \<in> set ks"
    proof (cases "text_or_none (?own PROFILE_DIRTY_KEYS_KEY)")
      case None
      have "journal_with js k (?own PROFILE_DIRTY_KEYS_KEY) = JArr (map JStr (if k \<in> set [] then [] else [] @ [k]))"
        using js None by (simp add: journal_with_def journal_json_def)
      moreover have "\<not> lists (journal js st) x" if "st PROFILE_DIRTY_USER_KEY = Some user" for x
        using same [OF that] None js
        by (auto simp: lists_def read_journal_def invalid_dirty_def text_or_none_def journal_json_def split: if_splits)
      ultimately show ?thesis using that [of "[]"] by auto
    next
      case (Some s)
      then have s: "st PROFILE_DIRTY_USER_KEY = Some user" "st PROFILE_DIRTY_KEYS_KEY = Some s" "s \<noteq> ''*''"
          "d_valid (read_journal js (Some s))"
        using own same False by (auto simp: text_or_none_def split: if_splits)
      from read_journal_strings [OF s(4,3)] obtain ks where ks: "ks \<noteq> []" "set ks \<subseteq> set PROFILE_STORAGE_KEYS"
          "parse js s = Some (JArr (map JStr ks))" "d_keys (read_journal js (Some s)) = SomeKeys (uniq ks)" .
      have "journal_with js k (?own PROFILE_DIRTY_KEYS_KEY) = JArr (map JStr (if k \<in> set ks then ks else ks @ [k]))"
        using Some ks(3) by (auto simp: journal_with_def Let_def)
      moreover have "lists (journal js st) x \<Longrightarrow> x \<in> set ks" for x
        using ks(4) s(2) by (simp add: lists_def)
      ultimately show ?thesis using that ks(2) by blast
    qed
    have "st' PROFILE_DIRTY_KEYS_KEY = Some (stringify js (JArr (map JStr (if k \<in> set ks then ks else ks @ [k]))))"
      using False k(3) ks(2) by (simp add: st'_def journaled_def)
    then have "journal js st' = \<lparr>d_dirty = True, d_valid = True,
        d_keys = SomeKeys (uniq (if k \<in> set ks then ks else ks @ [k]))\<rparr>"
      using read_written_journal [OF js, of "if k \<in> set ks then ks else ks @ [k]"] ks(1) k(2)
      by (cases "ks = []") auto
    then show ?thesis using k(1) ks(3) by (auto simp: lists_def)
  qed
  then show "d_valid (journal js st')"
    "\<And>k. key = None \<or> key = Some k \<or> (st PROFILE_DIRTY_USER_KEY = Some user \<and> lists (journal js st) k) \<Longrightarrow>
       lists (journal js st') k" by blast+
qed

text \<open>The invariant of a session of one user that began with the profile \<open>st0\<close>.\<close>

definition accounted :: "json_api \<Rightarrow> string \<Rightarrow> store \<Rightarrow> view \<Rightarrow> bool" where
  "accounted js user st0 v \<longleftrightarrow>
     same_identity v \<and> v_store v AUTH_USERNAME_KEY = Some user \<and> user \<noteq> [] \<and> journal_ready js user (v_store v) \<and>
     (\<forall>k \<in> set PROFILE_STORAGE_KEYS. v_store v k \<noteq> st0 k \<longrightarrow>
        v_store v PROFILE_DIRTY_USER_KEY = Some user \<and> lists (journal js (v_store v)) k)"

lemma journaled_other:
  "k \<noteq> PROFILE_DIRTY_USER_KEY \<Longrightarrow> k \<noteq> PROFILE_DIRTY_KEYS_KEY \<Longrightarrow> journaled js key (own_journal user st) k = st k"
  by (simp add: journaled_def own_journal_def split: option.splits)

lemma journaled_owner: "journaled js key (own_journal user st) PROFILE_DIRTY_USER_KEY = Some user"
  by (simp add: journaled_def own_journal_def split: option.splits)

lemma accounted_mark:
  assumes js: "journal_json js" and v: "accounted js user st0 v"
    and st: "\<And>x. x \<in> {AUTH_USERNAME_KEY, PROFILE_DIRTY_USER_KEY, PROFILE_DIRTY_KEYS_KEY} \<Longrightarrow> st x = v_store v x"
    and edit: "\<And>x. x \<in> set PROFILE_STORAGE_KEYS \<Longrightarrow> st x \<noteq> v_store v x \<Longrightarrow> key = None \<or> key = Some x"
    and key: "\<And>k. key = Some k \<Longrightarrow> k \<in> set PROFILE_STORAGE_KEYS"
  shows "accounted js user st0 (mark_view js key (v\<lparr>v_store := st\<rparr>))"
proof -
  have ne: "[] \<notin> set PROFILE_STORAGE_KEYS"
    by (simp add: PROFILE_STORAGE_KEYS_def PROFILE_PROGRESS_KEYS_def PROFILE_PREFERENCE_KEYS_def)
  let ?st = "journaled js key (own_journal user st)"
  have id: "same_identity (v\<lparr>v_store := st\<rparr>)" and user: "st AUTH_USERNAME_KEY = Some user" "user \<noteq> []"
    and ready: "journal_ready js user st"
    using v st by (auto simp: accounted_def same_identity_def journal_ready_def)
  then have mv: "mark_view js key (v\<lparr>v_store := st\<rparr>) = v\<lparr>v_store := ?st\<rparr>"
    by (simp add: mark_view_def text_or_none_def)
  have auth: "?st AUTH_USERNAME_KEY = Some user" using user by (simp add: journaled_other)
  have key': "key = Some k \<Longrightarrow> k \<in> set PROFILE_STORAGE_KEYS \<and> k \<noteq> []" for k using key ne by auto
  have listed: "lists (journal js ?st) k" if k: "k \<in> set PROFILE_STORAGE_KEYS" "?st k \<noteq> st0 k" for k
  proof -
    have "k \<noteq> PROFILE_DIRTY_USER_KEY" "k \<noteq> PROFILE_DIRTY_KEYS_KEY" using k(1) reserved_keys by auto
    then have sk: "?st k = st k" by (rule journaled_other)
    show ?thesis
    proof (cases "st k = v_store v k")
      case True
      then have "st PROFILE_DIRTY_USER_KEY = Some user \<and> lists (journal js st) k"
        using v k sk st by (auto simp: accounted_def)
      then show ?thesis using journaled_lists(2) [OF js ready key'] by blast
    next
      case False
      then show ?thesis using edit [OF k(1)] journaled_lists(2) [OF js ready key'] by blast
    qed
  qed
  have "same_identity (v\<lparr>v_store := ?st\<rparr>)" using id auth user by (simp add: same_identity_def)
  moreover have "journal_ready js user ?st"
    using journaled_lists(1) [OF js ready key'] by (simp add: journal_ready_def journaled_owner)
  ultimately show ?thesis
    unfolding mv using auth user listed by (simp add: accounted_def journaled_owner)
qed

lemma accounted_events: "accounted js user st0 (v\<lparr>v_events := n\<rparr>) = accounted js user st0 v"
  by (simp add: accounted_def same_identity_def)

lemma accounted_op:
  assumes "journal_json js" "accounted js user st0 v" "\<And>n. x \<noteq> PClearCache n"
  shows "accounted js user st0 (view_op js x v)"
proof (cases x)
  case (PSet k y)
  have "accounted js user st0 (mark_view js (Some k) (v\<lparr>v_store := (v_store v)(k \<mapsto> json_string y)\<rparr>))"
    if "k \<in> set PROFILE_STORAGE_KEYS"
    by (rule accounted_mark [OF assms(1,2)]) (use that reserved_keys in \<open>auto split: if_splits\<close>)
  then show ?thesis using assms(2) PSet by (auto simp: set_view_def changed_def Let_def accounted_events)
next
  case (PRemove k)
  have "accounted js user st0 (mark_view js (Some k) (v\<lparr>v_store := (v_store v)(k := None)\<rparr>))"
    if "k \<in> set PROFILE_STORAGE_KEYS"
    by (rule accounted_mark [OF assms(1,2)]) (use that reserved_keys in \<open>auto split: if_splits\<close>)
  then show ?thesis using assms(2) PRemove by (auto simp: remove_view_def changed_def Let_def accounted_events)
next
  case PClearProgress
  have "accounted js user st0 (mark_view js None
      (v\<lparr>v_store := cleared (PROFILE_PROGRESS_KEYS @ DERIVED_LOCAL_CACHE_KEYS) (v_store v)\<rparr>))"
    by (rule accounted_mark [OF assms(1,2)])
      (use reserved_keys in \<open>auto simp: cleared_def PROFILE_STORAGE_KEYS_def\<close>)
  then show ?thesis
    using assms(2) PClearProgress by (simp add: clear_progress_view_def changed_def Let_def accounted_events)
next
  case PMarkAll
  then show ?thesis using accounted_mark [OF assms(1,2), of "v_store v" None] by simp
qed (use assms(3) in simp)

lemma runs_dirty_state:
  "v_store v AUTH_USERNAME_KEY = Some user \<Longrightarrow> user \<noteq> [] \<Longrightarrow> v_store v PROFILE_DIRTY_USER_KEY = Some user \<Longrightarrow>
   runs (profileDirtyStateForCurrentUser js) v (journal js (v_store v)) v"
  unfolding profileDirtyStateForCurrentUser_def
  by (intro runs_bind [OF runs_get]) (simp add: text_or_none_def runs_bind [OF runs_get])

text \<open>C23: the journal misses nothing. On a tab that reads as a map and whose journal is absent, another user's
  or valid (\<open>journal_ready\<close>), after any edits, removals and resets by the signed-in user, every profile key
  whose text differs from the one the session began with is listed as changed for the next synchronisation,
  and the journal is valid. The browser may refuse any write, and any read of a key it has already answered.\<close>

theorem edits_are_journaled:
  assumes "journal_json js" "reads_as t v" "same_identity v" "v_store v AUTH_USERNAME_KEY = Some user" "user \<noteq> []"
    "journal_ready js user (v_store v)" "\<forall>n. PClearCache n \<notin> set ops" "k \<in> set PROFILE_STORAGE_KEYS"
    "fst (run_state (get_item k) (fold (perform js) ops t)) \<noteq> fst (run_state (get_item k) t)"
  shows "lists (fst (run_state (profileDirtyStateForCurrentUser js) (fold (perform js) ops t))) k"
proof -
  let ?t = "fold (perform js) ops t" and ?v = "fold (view_op js) ops v"
  have start: "accounted js user (v_store v) v" using assms(3-6) by (simp add: accounted_def)
  have "accounted js user (v_store v) ?v"
    using fold_invariant [of "accounted js user (v_store v)" v ops "view_op js"] start accounted_op [OF assms(1)] assms(7)
    by metis
  moreover have s: "reads_as ?t ?v" by (rule reads_as_fold [OF assms(2)])
  moreover have "v_store ?v k \<noteq> v_store v k"
    using assms(9) runs_result [OF runs_get s] runs_result [OF runs_get assms(2)] by simp
  ultimately have "v_store ?v AUTH_USERNAME_KEY = Some user" "v_store ?v PROFILE_DIRTY_USER_KEY = Some user"
      "lists (journal js (v_store ?v)) k"
    using assms(8) by (auto simp: accounted_def)
  then show ?thesis using runs_result [OF runs_dirty_state s] assms(5) by simp
qed

text \<open>A writer of arrays of plain texts, to show that the hypothesis on \<open>JSON\<close> can hold.\<close>

definition list_json :: json_api where
  "list_json =
     \<lparr>stringify = (\<lambda>v. CHR ''['' # join_with '','' (strings_in (elements v)) @ '']''),
      parse = (\<lambda>s. if s = ''[]'' then Some (JArr [])
        else case s of [] \<Rightarrow> None | c # r \<Rightarrow> Some (JArr (map JStr (split_on (CHR '','') (butlast r)))))\<rparr>"

lemma journal_list_json: "journal_json list_json"
proof -
  have keys: "\<forall>k \<in> set PROFILE_STORAGE_KEYS. CHR '','' \<notin> set k \<and> k \<noteq> []"
    by code_simp
  have "survives list_json (JArr (map JStr ks)) \<and> stringify list_json (JArr (map JStr ks)) \<noteq> ''*''"
    if ks: "ks \<noteq> []" "set ks \<subseteq> set PROFILE_STORAGE_KEYS" for ks
  proof -
    have split: "split_on (CHR '','') (join_with '','' ks) = ks"
      using split_join [of ks "CHR '',''"] ks keys by auto
    have "join_with '','' ks \<noteq> []"
    proof
      assume "join_with '','' ks = []"
      then have "ks = [[]]" using split by simp
      then show False using ks keys by auto
    qed
    then show ?thesis using split by (simp add: survives_def list_json_def)
  qed
  then show ?thesis by (simp add: journal_json_def list_json_def)
qed

theorem edits_are_journaled_witness:
  "lists (fst (run_state (profileDirtyStateForCurrentUser list_json)
     (fold (perform list_json) [PSet ''chess-study-muted'' (JStr ''1''), PClearProgress]
       (fresh_tab [(AUTH_USERNAME_KEY, ''bob'')] None flaky [Healthy, Faulty 0, Absent])))) ''chess-study-muted''"
proof -
  let ?t = "fresh_tab [(AUTH_USERNAME_KEY, ''bob'')] None flaky [Healthy, Faulty 0, Absent]"
  let ?v = "\<lparr>v_store = obj_get [(AUTH_USERNAME_KEY, ''bob'')], v_bound = None, v_events = 0\<rparr>"
  let ?ops = "[PSet ''chess-study-muted'' (JStr ''1''), PClearProgress]"
  have s: "reads_as ?t ?v" by (rule reads_as_fresh) simp
  have auth: "AUTH_USERNAME_KEY \<noteq> ''chess-study-muted''" by (simp add: AUTH_USERNAME_KEY_def)
  have mem: "''chess-study-muted'' \<in> set PROFILE_STORAGE_KEYS"
    "''chess-study-muted'' \<notin> set (PROFILE_PROGRESS_KEYS @ DERIVED_LOCAL_CACHE_KEYS)"
    by (simp_all add: PROFILE_STORAGE_KEYS_def PROFILE_PREFERENCE_KEYS_def PROFILE_PROGRESS_KEYS_def
        DERIVED_LOCAL_CACHE_KEYS_def)
  have other: "''chess-study-muted'' \<noteq> PROFILE_DIRTY_USER_KEY" "''chess-study-muted'' \<noteq> PROFILE_DIRTY_KEYS_KEY"
    by (simp_all add: PROFILE_DIRTY_USER_KEY_def PROFILE_DIRTY_KEYS_KEY_def)
  have kept: "v_store (mark_view list_json key v) ''chess-study-muted'' = v_store v ''chess-study-muted''" for key v
    using other by (simp add: mark_view_def journaled_other split: option.splits)
  have "v_store (fold (view_op list_json) ?ops ?v) ''chess-study-muted'' = Some ''1''"
    using mem auth kept by (simp add: set_view_def clear_progress_view_def changed_def Let_def same_identity_def cleared_def)
  then have "fst (run_state (get_item ''chess-study-muted'') (fold (perform list_json) ?ops ?t)) = Some ''1''"
    using runs_result [OF runs_get reads_as_fold [OF s]] by metis
  moreover have "fst (run_state (get_item ''chess-study-muted'') ?t) = None"
    using runs_result [OF runs_get s] auth by simp
  ultimately show ?thesis
    by (intro edits_are_journaled [OF journal_list_json s, of "''bob''"])
      (simp_all add: same_identity_def journal_ready_def text_or_none_def mem auth del: fold_simps)
qed

text \<open>The mark of every key is inherited when only the owner of the journal is missing: the next user's first
  edit then marks his whole profile.\<close>

lemma orphan_mark_inherited:
  "text_or_none (st PROFILE_DIRTY_USER_KEY) = None \<Longrightarrow> st PROFILE_DIRTY_KEYS_KEY = Some ''*'' \<Longrightarrow>
   journal js (journaled js (Some k) (own_journal user st)) = \<lparr>d_dirty = True, d_valid = True, d_keys = AllKeys\<rparr>"
  by (simp add: journaled_def own_journal_def read_journal_def)

end
