(* ===== verification/StorageMigrations.thy ===== *)
theory StorageMigrations
  imports ProfileProps
begin

text \<open>
  \<open>storageMigrations.js\<close>: the one-shot upgrades of the stored profile from schema 0 to schema 5. A step whose
  write the browser does not confirm throws, the version stays where it was and the next start tries again.
  The operations are computations on the tabs of \<open>ProfileKeys\<close>; \<open>content\<close> is what the steps do to the plain
  map behind a tab.
\<close>

section \<open>Keys and retired content\<close>

definition STORAGE_SCHEMA_KEY :: string where
  "STORAGE_SCHEMA_KEY = ''chess-study-storage-schema-version''"

definition STORAGE_SCHEMA_VERSION :: nat where
  "STORAGE_SCHEMA_VERSION = 5"

definition LEGACY_MUTE_KEY :: string where "LEGACY_MUTE_KEY = ''chess-study-muted''"
definition MUSIC_MUTED_KEY :: string where "MUSIC_MUTED_KEY = ''chess-study-music-muted''"
definition FX_MUTED_KEY :: string where "FX_MUTED_KEY = ''chess-study-fx-muted''"
definition BOARD_RENDERER_KEY :: string where "BOARD_RENDERER_KEY = ''chess-study-board-renderer''"
definition MUSIC_EXCLUDED_KEY :: string where "MUSIC_EXCLUDED_KEY = ''chess-study-music-excluded''"

definition OBSOLETE_KEYS :: "string list" where
  "OBSOLETE_KEYS =
    [''chess-study-cpu-personality'', ''chess-study-ambient-theme'']"

definition DEFAULT_RADIO_RETIRED_THEME_IDS :: "string list" where
  "DEFAULT_RADIO_RETIRED_THEME_IDS =
    [''alexandria241'', ''cairo0047'', ''cairoQuietHours'', ''cairoRedLantern'', ''cairoBlueNote0211'',
     ''nileBalcony0152'', ''beirut0113'', ''beirutRooftop0412'', ''beirutNightTaxi'', ''beirutHarbor2340'',
     ''damascusBlueHour'', ''aleppoAfterRain'', ''ammanVelvetRoom'', ''ammanLateTable0303'', ''medinaBlueSmoke'',
     ''istanbul0326'', ''istanbulBackgammon'', ''bosphorusRain'']"

definition DEFAULT_RADIO_RETIRED_ECLECTIC_THEME_IDS :: "string list" where
  "DEFAULT_RADIO_RETIRED_ECLECTIC_THEME_IDS =
    [''rookGarage'', ''pawnMarshal'']"

section \<open>The steps\<close>

text \<open>\<open>parseInt\<close> of a numeral too long for a double is an infinity, which is no version.\<close>

definition version_of :: "string option \<Rightarrow> nat" where
  "version_of raw =
     (case raw of None \<Rightarrow> 0
      | Some s \<Rightarrow> (case parse_int s of None \<Rightarrow> 0
                  | Some n \<Rightarrow> if 0 \<le> n \<and> n < 2 ^ 1024 - 2 ^ 970 then nat n else 0))"

definition schemaVersion :: "(tab, nat) state" where
  "schemaVersion = do { raw \<leftarrow> get_item STORAGE_SCHEMA_KEY; State_Monad.return (version_of raw) }"

definition merged_exclusions :: "json_api \<Rightarrow> string list \<Rightarrow> string option \<Rightarrow> string list" where
  "merged_exclusions js themeIds raw =
     (let existing = (case raw of None \<Rightarrow> []
                      | Some s \<Rightarrow> (case parse js s of
                            Some (JArr vs) \<Rightarrow> filter (\<lambda>x. x \<noteq> []) (strings_in vs)
                          | _ \<Rightarrow> []))
      in uniq (existing @ themeIds))"

text \<open>A step answers with the message it throws, or normally.\<close>

definition mergeMusicExclusions :: "json_api \<Rightarrow> string list \<Rightarrow> string \<Rightarrow> (tab, string + unit) state" where
  "mergeMusicExclusions js themeIds failureMessage = do {
     raw \<leftarrow> get_item MUSIC_EXCLUDED_KEY;
     migrated \<leftarrow> set_item MUSIC_EXCLUDED_KEY (stringify js (JArr (map JStr (merged_exclusions js themeIds raw))));
     State_Monad.return (if migrated then Inr () else Inl failureMessage) }"

definition set_if_missing :: "string \<Rightarrow> string \<Rightarrow> (tab, unit) state" where
  "set_if_missing key v = do {
     w \<leftarrow> get_item key;
     if w = None then do { _ \<leftarrow> set_item key v; State_Monad.return () } else State_Monad.return () }"

definition migrateV0ToV1 :: "(tab, string + unit) state" where
  "migrateV0ToV1 = do {
     legacyMute \<leftarrow> get_item LEGACY_MUTE_KEY;
     (case legacyMute of
        Some m \<Rightarrow> if m = ''0'' \<or> m = ''1''
                  then do { set_if_missing MUSIC_MUTED_KEY m; set_if_missing FX_MUTED_KEY m }
                  else State_Monad.return ()
      | None \<Rightarrow> State_Monad.return ());
     State_Monad.return (Inr ()) }"

definition migrateV1ToV2 :: "(tab, string + unit) state" where
  "migrateV1ToV2 = do { remove_items OBSOLETE_KEYS; State_Monad.return (Inr ()) }"

definition migrateV2ToV3 :: "(tab, string + unit) state" where
  "migrateV2ToV3 = do {
     w \<leftarrow> get_item BOARD_RENDERER_KEY;
     if w = Some ''2d'' then do {
       migrated \<leftarrow> set_item BOARD_RENDERER_KEY ''3d'';
       State_Monad.return (if migrated then Inr () else Inl ''board renderer migration was not durable'') }
     else State_Monad.return (Inr ()) }"

definition migrateV3ToV4 :: "json_api \<Rightarrow> (tab, string + unit) state" where
  "migrateV3ToV4 js =
     mergeMusicExclusions js DEFAULT_RADIO_RETIRED_THEME_IDS ''music radio curation migration was not durable''"

definition migrateV4ToV5 :: "json_api \<Rightarrow> (tab, string + unit) state" where
  "migrateV4ToV5 js = mergeMusicExclusions js DEFAULT_RADIO_RETIRED_ECLECTIC_THEME_IDS
     ''eclectic radio curation migration was not durable''"

definition MIGRATIONS :: "json_api \<Rightarrow> nat \<Rightarrow> (tab, string + unit) state option" where
  "MIGRATIONS js version =
     nth_opt [migrateV0ToV1, migrateV1ToV2, migrateV2ToV3, migrateV3ToV4 js, migrateV4ToV5 js] version"

record migration_report =
  mr_status :: string
  mr_from :: nat
  mr_to :: nat
  mr_durable :: "bool option"

text \<open>The loop of \<open>migratePersistentStorage\<close>.\<close>

function migration_loop :: "json_api \<Rightarrow> nat \<Rightarrow> nat \<Rightarrow> bool \<Rightarrow> (tab, migration_report) state" where
  "migration_loop js start version durable =
     (if version < STORAGE_SCHEMA_VERSION
      then (case MIGRATIONS js version of
              None \<Rightarrow> State_Monad.return
                \<lparr>mr_status = ''incomplete'', mr_from = start, mr_to = version, mr_durable = Some False\<rparr>
            | Some migration \<Rightarrow> do {
                done_or_thrown \<leftarrow> migration;
                case done_or_thrown of
                  Inl _ \<Rightarrow> State_Monad.return
                    \<lparr>mr_status = ''degraded'', mr_from = start, mr_to = version, mr_durable = Some False\<rparr>
                | Inr _ \<Rightarrow> do {
                    written \<leftarrow> set_item STORAGE_SCHEMA_KEY (show_nat (version + 1));
                    migration_loop js start (version + 1) (written \<and> durable) } })
      else State_Monad.return
        \<lparr>mr_status = (if durable then ''ok'' else ''degraded''), mr_from = start, mr_to = version,
         mr_durable = Some durable\<rparr>)"
  by pat_completeness auto
termination
  by (relation "measure (\<lambda>(_, _, version, _). STORAGE_SCHEMA_VERSION - version)") auto

declare migration_loop.simps [simp del]

definition migratePersistentStorage :: "json_api \<Rightarrow> (tab, migration_report) state" where
  "migratePersistentStorage js = do {
     start \<leftarrow> schemaVersion;
     if STORAGE_SCHEMA_VERSION < start
     then State_Monad.return \<lparr>mr_status = ''future'', mr_from = start, mr_to = start, mr_durable = None\<rparr>
     else migration_loop js start start True }"

section \<open>What the steps do to the profile\<close>

definition default_to :: "string \<Rightarrow> string \<Rightarrow> store \<Rightarrow> store" where
  "default_to k m st = (if st k = None then st(k \<mapsto> m) else st)"

definition inherit_mute :: "store \<Rightarrow> store" where
  "inherit_mute st =
     (case st LEGACY_MUTE_KEY of
        Some m \<Rightarrow> if m = ''0'' \<or> m = ''1'' then default_to FX_MUTED_KEY m (default_to MUSIC_MUTED_KEY m st) else st
      | None \<Rightarrow> st)"

definition exclude :: "json_api \<Rightarrow> string list \<Rightarrow> store \<Rightarrow> store" where
  "exclude js themeIds st =
     st(MUSIC_EXCLUDED_KEY \<mapsto> stringify js (JArr (map JStr (merged_exclusions js themeIds (st MUSIC_EXCLUDED_KEY)))))"

definition step_view :: "json_api \<Rightarrow> nat \<Rightarrow> store \<Rightarrow> store" where
  "step_view js n st =
     (if n = 0 then inherit_mute st
      else if n = 1 then cleared OBSOLETE_KEYS st
      else if n = 2 then (if st BOARD_RENDERER_KEY = Some ''2d'' then st(BOARD_RENDERER_KEY \<mapsto> ''3d'') else st)
      else if n = 3 then exclude js DEFAULT_RADIO_RETIRED_THEME_IDS st
      else if n = 4 then exclude js DEFAULT_RADIO_RETIRED_ECLECTIC_THEME_IDS st else st)"

definition content :: "json_api \<Rightarrow> nat \<Rightarrow> nat \<Rightarrow> store \<Rightarrow> store" where
  "content js a b = fold (step_view js) [a..<b]"

definition marked :: "nat \<Rightarrow> nat \<Rightarrow> store \<Rightarrow> store" where
  "marked a b st = (if a < b then st(STORAGE_SCHEMA_KEY \<mapsto> show_nat b) else st)"

lemma does_bind_any: "does m v v1 \<Longrightarrow> (\<And>x. does (f x) v1 v2) \<Longrightarrow> does (State_Monad.bind m f) v v2"
  by (simp add: does_def case_prod_beta)

lemma does_set_if_missing: "does (set_if_missing k m) v (v\<lparr>v_store := default_to k m (v_store v)\<rparr>)"
proof -
  have "does (do { _ \<leftarrow> set_item k m; State_Monad.return () }) v (v\<lparr>v_store := (v_store v)(k \<mapsto> m)\<rparr>)"
    by (rule does_then [OF does_set does_return])
  then show ?thesis unfolding set_if_missing_def
    by (intro does_bind [OF runs_get]) (simp add: default_to_def)
qed

lemma does_mute: "does migrateV0ToV1 v (v\<lparr>v_store := inherit_mute (v_store v)\<rparr>)"
proof -
  have both: "does (do { set_if_missing MUSIC_MUTED_KEY m; set_if_missing FX_MUTED_KEY m }) v
      (v\<lparr>v_store := default_to FX_MUTED_KEY m (default_to MUSIC_MUTED_KEY m (v_store v))\<rparr>)" for m
    using does_then [OF does_set_if_missing does_set_if_missing] by simp
  show ?thesis unfolding migrateV0ToV1_def inherit_mute_def
    by (rule does_bind [OF runs_get], rule does_then [OF _ does_return])
      (simp add: both split: option.splits)
qed

lemma does_exclude: "does (mergeMusicExclusions js ids msg) v (v\<lparr>v_store := exclude js ids (v_store v)\<rparr>)"
  unfolding mergeMusicExclusions_def exclude_def
  by (rule does_bind [OF runs_get], rule does_bind_any [OF does_set]) (rule does_return)

lemma does_renderer:
  "does migrateV2ToV3 v (v\<lparr>v_store := if v_store v BOARD_RENDERER_KEY = Some ''2d''
      then (v_store v)(BOARD_RENDERER_KEY \<mapsto> ''3d'') else v_store v\<rparr>)"
  unfolding migrateV2ToV3_def
  by (rule does_bind [OF runs_get]) (simp, intro impI does_bind_any [OF does_set] does_return)

lemma does_step:
  assumes "n < 5"
  obtains m where "MIGRATIONS js n = Some m" "does m v (v\<lparr>v_store := step_view js n (v_store v)\<rparr>)"
    "n < 2 \<Longrightarrow> fst (run_state m t) = Inr ()"
proof -
  from assms consider "n = 0" | "n = 1" | "n = 2" | "n = 3" | "n = 4" by linarith
  then show ?thesis
  proof cases
    case 1
    then show ?thesis using does_mute that by (simp add: MIGRATIONS_def nth_opt_def step_view_def migrateV0ToV1_def case_prod_beta)
  next
    case 2
    have "does migrateV1ToV2 v (v\<lparr>v_store := cleared OBSOLETE_KEYS (v_store v)\<rparr>)"
      unfolding migrateV1ToV2_def by (rule does_then [OF runs_does [OF runs_remove_items] does_return])
    then show ?thesis using 2 that
      by (simp add: MIGRATIONS_def nth_opt_def step_view_def) (simp add: migrateV1ToV2_def case_prod_beta)
  next
    case 3
    then show ?thesis using does_renderer [of v] that by (simp add: MIGRATIONS_def nth_opt_def step_view_def)
  next
    case 4
    then show ?thesis using does_exclude [of js _ _ v] that by (simp add: MIGRATIONS_def nth_opt_def step_view_def migrateV3ToV4_def)
  next
    case 5
    then show ?thesis using does_exclude [of js _ _ v] that by (simp add: MIGRATIONS_def nth_opt_def step_view_def migrateV4ToV5_def)
  qed
qed

text \<open>The steps do not touch the version, so the version can be written before or after them.\<close>

lemma schema_key:
  "STORAGE_SCHEMA_KEY \<notin> {LEGACY_MUTE_KEY, MUSIC_MUTED_KEY, FX_MUTED_KEY, BOARD_RENDERER_KEY, MUSIC_EXCLUDED_KEY}"
  "STORAGE_SCHEMA_KEY \<notin> set OBSOLETE_KEYS"
  "STORAGE_SCHEMA_KEY \<notin> set (PROFILE_STORAGE_KEYS @ DERIVED_LOCAL_CACHE_KEYS @
     [''chess-study-cpu-personality'', ''chess-study-ambient-theme''])"
  "STORAGE_SCHEMA_KEY \<noteq> PROFILE_DIRTY_USER_KEY" "STORAGE_SCHEMA_KEY \<noteq> PROFILE_DIRTY_KEYS_KEY"
  by code_simp+

lemma default_to_other: "k' \<noteq> k \<Longrightarrow> default_to k m (st(k' \<mapsto> x)) = (default_to k m st)(k' \<mapsto> x)"
  by (simp add: default_to_def fun_upd_twist)

lemma cleared_other: "k \<notin> set ks \<Longrightarrow> cleared ks (st(k \<mapsto> x)) = (cleared ks st)(k \<mapsto> x)"
  by (auto simp: cleared_def)

lemma step_schema:
  "step_view js n (st(STORAGE_SCHEMA_KEY \<mapsto> x)) = (step_view js n st)(STORAGE_SCHEMA_KEY \<mapsto> x)"
proof -
  have k: "LEGACY_MUTE_KEY \<noteq> STORAGE_SCHEMA_KEY" "STORAGE_SCHEMA_KEY \<noteq> MUSIC_MUTED_KEY" "STORAGE_SCHEMA_KEY \<noteq> FX_MUTED_KEY"
    "BOARD_RENDERER_KEY \<noteq> STORAGE_SCHEMA_KEY" "MUSIC_EXCLUDED_KEY \<noteq> STORAGE_SCHEMA_KEY"
    using schema_key(1) by auto
  have "inherit_mute (st(STORAGE_SCHEMA_KEY \<mapsto> x)) = (inherit_mute st)(STORAGE_SCHEMA_KEY \<mapsto> x)"
    using k(1) by (auto simp: inherit_mute_def default_to_other [OF k(2)] default_to_other [OF k(3)] split: option.splits)
  moreover have "exclude js ids (st(STORAGE_SCHEMA_KEY \<mapsto> x)) = (exclude js ids st)(STORAGE_SCHEMA_KEY \<mapsto> x)" for ids
    using k(5) by (simp add: exclude_def fun_upd_twist)
  ultimately show ?thesis
    using cleared_other [OF schema_key(2)] k(4) by (simp add: step_view_def fun_upd_twist)
qed

lemma content_schema: "content js a b (st(STORAGE_SCHEMA_KEY \<mapsto> x)) = (content js a b st)(STORAGE_SCHEMA_KEY \<mapsto> x)"
proof -
  have "fold (step_view js) ns (st(STORAGE_SCHEMA_KEY \<mapsto> x)) = (fold (step_view js) ns st)(STORAGE_SCHEMA_KEY \<mapsto> x)" for ns
    by (induction ns arbitrary: st) (simp_all add: step_schema del: fun_upd_apply)
  then show ?thesis by (simp add: content_def)
qed

lemma content_Suc: "a < b \<Longrightarrow> content js a b st = content js (Suc a) b (step_view js a st)"
  by (simp add: content_def upt_conv_Cons)

section \<open>The outcome\<close>

text \<open>A run from version \<open>a\<close> that reports \<open>r\<close> leaves \<open>reached js a (mr_to r) st\<close>: the steps up to the one that
  threw are done, and the version is the number of steps that did not throw.\<close>

definition reached :: "json_api \<Rightarrow> nat \<Rightarrow> nat \<Rightarrow> store \<Rightarrow> store" where
  "reached js a b st = marked a b (content js a (min 5 (b + 1)) st)"

definition sound_report :: "nat \<Rightarrow> nat \<Rightarrow> migration_report \<Rightarrow> bool" where
  "sound_report start a r \<longleftrightarrow>
     mr_from r = start \<and> a \<le> mr_to r \<and> mr_to r \<le> 5 \<and>
     (mr_to r < 5 \<longrightarrow> 2 \<le> mr_to r \<and> mr_status r = ''degraded'' \<and> mr_durable r = Some False) \<and>
     (mr_to r = 5 \<longrightarrow> mr_status r = (if mr_durable r = Some True then ''ok'' else ''degraded'') \<and> mr_durable r \<noteq> None)"

lemma content_id [simp]: "content js a a st = st"
  by (simp add: content_def)

lemma reached_Suc:
  assumes "a < 5" "Suc a \<le> b"
  shows "reached js (Suc a) b ((step_view js a st)(STORAGE_SCHEMA_KEY \<mapsto> show_nat (Suc a))) = reached js a b st"
proof -
  have c: "content js a (min 5 (b + 1)) st = content js (Suc a) (min 5 (b + 1)) (step_view js a st)"
    using assms by (intro content_Suc) simp
  have "marked (Suc a) b (x(STORAGE_SCHEMA_KEY \<mapsto> show_nat (Suc a))) = marked a b x" for x
    using assms(2) by (cases "b = Suc a") (auto simp: marked_def)
  then show ?thesis unfolding reached_def c content_schema .
qed

lemma loop_outcome:
  assumes "reads_as t v" "version \<le> 5"
  shows "sound_report start version (fst (run_state (migration_loop js start version durable) t)) \<and>
    reads_as (snd (run_state (migration_loop js start version durable) t))
      (v\<lparr>v_store := reached js version (mr_to (fst (run_state (migration_loop js start version durable) t))) (v_store v)\<rparr>)"
  using assms
proof (induction "5 - version" arbitrary: version t v durable)
  case 0
  then have "version = 5" by simp
  then show ?case
    using 0 by (subst (1 2 3) migration_loop.simps)
      (simp add: sound_report_def reached_def marked_def STORAGE_SCHEMA_VERSION_def)
next
  case (Suc m)
  then have less: "version < 5" "version < STORAGE_SCHEMA_VERSION" by (simp_all add: STORAGE_SCHEMA_VERSION_def)
  obtain step where step: "MIGRATIONS js version = Some step"
      "does step v (v\<lparr>v_store := step_view js version (v_store v)\<rparr>)" "version < 2 \<Longrightarrow> fst (run_state step t) = Inr ()"
    using does_step [OF less(1), of js v t] by blast
  obtain r1 t1 where r1: "run_state step t = (r1, t1)" by (cases "run_state step t")
  have s1: "reads_as t1 (v\<lparr>v_store := step_view js version (v_store v)\<rparr>)"
    using does_reads_as [OF step(2) Suc.prems(1)] r1 by simp
  let ?loop = "run_state (migration_loop js start version durable) t"
  show ?case
  proof (cases r1)
    case (Inl msg)
    then have "2 \<le> version" using step(3) r1 by (cases "version < 2") simp_all
    moreover have "?loop = (\<lparr>mr_status = ''degraded'', mr_from = start, mr_to = version, mr_durable = Some False\<rparr>, t1)"
      using less step(1) r1 Inl by (subst migration_loop.simps) simp
    ultimately show ?thesis
      using s1 less content_Suc [of version "Suc version" js "v_store v"] min_absorb2 [of "Suc version" 5]
      by (simp add: sound_report_def reached_def marked_def del: min_Suc_numeral)
  next
    case (Inr u)
    obtain w t2 where w: "run_state (set_item STORAGE_SCHEMA_KEY (show_nat (version + 1))) t1 = (w, t2)"
      by (cases "run_state (set_item STORAGE_SCHEMA_KEY (show_nat (version + 1))) t1")
    let ?v2 = "v\<lparr>v_store := (step_view js version (v_store v))(STORAGE_SCHEMA_KEY \<mapsto> show_nat (Suc version))\<rparr>"
    have s2: "reads_as t2 ?v2"
      using does_reads_as [OF does_set [of STORAGE_SCHEMA_KEY "show_nat (version + 1)"] s1] w by simp
    have loop: "?loop = run_state (migration_loop js start (Suc version) (w \<and> durable)) t2"
      using less step(1) r1 Inr w by (subst migration_loop.simps) simp
    have IH: "sound_report start (Suc version) (fst ?loop) \<and>
        reads_as (snd ?loop) (?v2\<lparr>v_store := reached js (Suc version) (mr_to (fst ?loop)) (v_store ?v2)\<rparr>)"
      unfolding loop using Suc.hyps s2 less(1) by (intro Suc.hyps) simp_all
    then have "Suc version \<le> mr_to (fst ?loop)" by (simp add: sound_report_def)
    from reached_Suc [OF less(1) this] IH show ?thesis by (simp add: sound_report_def)
  qed
qed

text \<open>Confirmation: an ok answer to a run that had steps to do means that the browser stores version 5, and a
  browser that refuses no write gets an ok answer.\<close>

lemma loop_ok:
  "run_state (migration_loop js start version durable) t = (r, t') \<Longrightarrow> mr_status r = ''ok'' \<Longrightarrow> version \<le> 5 \<Longrightarrow>
   durable \<and> (version < 5 \<longrightarrow> obj_get (native (t_area t')) STORAGE_SCHEMA_KEY = Some ''5'')"
proof (induction "5 - version" arbitrary: version t durable)
  case 0
  then have "version = 5" by simp
  then show ?case using 0 by (subst (asm) migration_loop.simps) (auto simp: STORAGE_SCHEMA_VERSION_def split: if_splits)
next
  case (Suc m)
  then have less: "version < 5" "version < STORAGE_SCHEMA_VERSION" by (simp_all add: STORAGE_SCHEMA_VERSION_def)
  obtain step where step: "MIGRATIONS js version = Some step" using does_step [OF less(1)] by metis
  obtain r1 t1 where r1: "run_state step t = (r1, t1)" by (cases "run_state step t")
  obtain w t2 where w: "run_state (set_item STORAGE_SCHEMA_KEY (show_nat (version + 1))) t1 = (w, t2)"
    by (cases "run_state (set_item STORAGE_SCHEMA_KEY (show_nat (version + 1))) t1")
  have loop: "run_state (migration_loop js start (Suc version) (w \<and> durable)) t2 = (r, t')"
    using Suc.prems(1,2) less step r1 w by (subst (asm) migration_loop.simps) (auto split: sum.splits)
  have IH: "(w \<and> durable) \<and> (Suc version < 5 \<longrightarrow> obj_get (native (t_area t')) STORAGE_SCHEMA_KEY = Some ''5'')"
    by (rule Suc.hyps(1) [OF _ loop Suc.prems(2)]) (use Suc.hyps(2) less in simp_all)
  show ?case
  proof (cases "Suc version < 5")
    case False
    then have five: "version = 4" using less by simp
    then have "t' = t2" using loop by (subst (asm) migration_loop.simps) (simp add: STORAGE_SCHEMA_VERSION_def)
    moreover have "obj_get (native (t_area t2)) STORAGE_SCHEMA_KEY = Some (show_nat 5)"
      using durable_write [of STORAGE_SCHEMA_KEY "show_nat 5" t1] w IH five by simp
    moreover have "show_nat 5 = ''5''" by code_simp
    ultimately show ?thesis using IH by simp
  qed (use IH in simp)
qed

lemma step_unrefused:
  assumes "MIGRATIONS js n = Some m" "t_writes t = []"
  shows "fst (run_state m t) = Inr () \<and> t_writes (snd (run_state m t)) = []"
proof -
  have merge: "fst (run_state (mergeMusicExclusions js ids msg) t) = Inr () \<and>
      t_writes (snd (run_state (mergeMusicExclusions js ids msg) t)) = []" for ids msg
    using assms(2) by (simp add: mergeMusicExclusions_def case_prod_beta write_answers writes_kept)
  have missing: "t_writes (snd (run_state (set_if_missing k x) s)) = []" if "t_writes s = []" for k x and s :: tab
    using that by (simp add: set_if_missing_def case_prod_beta writes_kept)
  have "n < 5" using assms(1) by (simp add: MIGRATIONS_def nth_opt_def split: if_splits)
  then consider "n = 0" | "n = 1" | "n = 2" | "n = 3" | "n = 4" by linarith
  then show ?thesis
  proof cases
    case 1
    then show ?thesis using assms
      by (auto simp: MIGRATIONS_def nth_opt_def migrateV0ToV1_def case_prod_beta missing writes_kept split: option.splits)
  next
    case 2
    then show ?thesis using assms
      by (auto simp: MIGRATIONS_def nth_opt_def migrateV1ToV2_def OBSOLETE_KEYS_def case_prod_beta writes_kept)
  next
    case 3
    then show ?thesis using assms
      by (auto simp: MIGRATIONS_def nth_opt_def migrateV2ToV3_def case_prod_beta write_answers writes_kept)
  next
    case 4
    then show ?thesis using assms merge by (auto simp: MIGRATIONS_def nth_opt_def migrateV3ToV4_def)
  next
    case 5
    then show ?thesis using assms merge by (auto simp: MIGRATIONS_def nth_opt_def migrateV4ToV5_def)
  qed
qed

lemma loop_unrefused:
  "t_writes t = [] \<Longrightarrow> version \<le> 5 \<Longrightarrow> mr_status (fst (run_state (migration_loop js start version True) t)) = ''ok''"
proof (induction "5 - version" arbitrary: version t)
  case 0
  then show ?case by (subst migration_loop.simps) (simp add: STORAGE_SCHEMA_VERSION_def)
next
  case (Suc m)
  then have less: "version < 5" "version < STORAGE_SCHEMA_VERSION" by (simp_all add: STORAGE_SCHEMA_VERSION_def)
  obtain step where step: "MIGRATIONS js version = Some step" using does_step [OF less(1)] by metis
  obtain t1 where t1: "run_state step t = (Inr (), t1)" "t_writes t1 = []"
    using step_unrefused [OF step Suc.prems(1)] by (cases "run_state step t") auto
  obtain w t2 where w: "run_state (set_item STORAGE_SCHEMA_KEY (show_nat (version + 1))) t1 = (w, t2)"
    by (cases "run_state (set_item STORAGE_SCHEMA_KEY (show_nat (version + 1))) t1")
  then have "w" "t_writes t2 = []" using write_answers [OF t1(2)] writes_kept(1) [OF t1(2)] by (metis fst_conv, metis snd_conv)
  then show ?case using less step t1 w Suc.hyps by (subst migration_loop.simps) simp
qed

text \<open>C31: the migrations always end and say what they did. At the start of a page whose browser answers the
  first read of each key (\<open>reads_as\<close>), whatever writes it refuses, a profile of a newer schema is left
  untouched; otherwise the run ends at a version between the stored one and 5, the profile holds exactly the
  steps that ran and the version that was reached, and only a step whose write is required can stop it. An ok
  answer of a run that had steps to do means that the browser itself stores version 5, and a browser that
  refuses no write gets an ok answer.\<close>

theorem migration_outcome:
  assumes "reads_as t v" "run_state (migratePersistentStorage js) t = (r, t')"
    "start = version_of (v_store v STORAGE_SCHEMA_KEY)"
  shows "(5 < start \<longrightarrow> r = \<lparr>mr_status = ''future'', mr_from = start, mr_to = start, mr_durable = None\<rparr> \<and>
      reads_as t' v \<and> native (t_area t') = native (t_area t)) \<and>
    (start \<le> 5 \<longrightarrow> sound_report start start r \<and> reads_as t' (v\<lparr>v_store := reached js start (mr_to r) (v_store v)\<rparr>) \<and>
      (mr_status r = ''ok'' \<and> start < 5 \<longrightarrow> obj_get (native (t_area t')) STORAGE_SCHEMA_KEY = Some ''5'') \<and>
      (t_writes t = [] \<longrightarrow> mr_status r = ''ok''))"
proof -
  have sv: "runs schemaVersion v start v"
    unfolding schemaVersion_def assms(3) by (rule runs_bind [OF runs_get runs_return])
  obtain t1 where t1: "run_state schemaVersion t = (start, t1)" "reads_as t1 v"
    using runs_result [OF sv assms(1)] does_reads_as [OF runs_does [OF sv] assms(1)]
    by (cases "run_state schemaVersion t") simp
  have same: "t_writes t1 = t_writes t" "native (t_area t1) = native (t_area t)"
    using t1(1) writes_kept(3) [of STORAGE_SCHEMA_KEY t] get_native [of STORAGE_SCHEMA_KEY t]
    by (auto simp: schemaVersion_def case_prod_beta)
  show ?thesis
  proof (cases "5 < start")
    case True
    then show ?thesis using t1 same assms(2) by (auto simp: migratePersistentStorage_def STORAGE_SCHEMA_VERSION_def)
  next
    case False
    then have loop: "run_state (migration_loop js start start True) t1 = (r, t')"
      using t1(1) assms(2) by (simp add: migratePersistentStorage_def STORAGE_SCHEMA_VERSION_def)
    show ?thesis
      using False loop loop_outcome [OF t1(2), of start start js True] loop_ok [OF loop] same
        loop_unrefused [of t1 start js start] by simp
  qed
qed

theorem migration_outcome_witness:
  "\<exists>r t'. run_state (migratePersistentStorage list_json) (fresh_tab [] None flaky [Faulty 0, Absent]) = (r, t') \<and>
     sound_report 0 0 r \<and> reads_as t' \<lparr>v_store = reached list_json 0 (mr_to r) Map.empty, v_bound = None, v_events = 0\<rparr>"
proof -
  let ?run = "run_state (migratePersistentStorage list_json) (fresh_tab [] None flaky [Faulty 0, Absent])"
  obtain r t' where r: "?run = (r, t')" by (cases ?run)
  have "reads_as (fresh_tab [] None flaky [Faulty 0, Absent]) \<lparr>v_store = Map.empty, v_bound = None, v_events = 0\<rparr>"
    using reads_as_fresh [of flaky "[]"] by simp
  from migration_outcome [OF this r, of 0] r show ?thesis by (simp add: version_of_def)
qed

text \<open>Without the first read a newer profile is overwritten: its version is refused, read as 0, and the run
  writes version 5 over it.\<close>

lemma refused_version_overwritten:
  "obj_get (native (t_area (snd (run_state (migratePersistentStorage list_json)
     (fresh_tab [(STORAGE_SCHEMA_KEY, ''7'')] None (\<lambda>k. if k = STORAGE_SCHEMA_KEY then [Faulty 0] else []) [])))))
     STORAGE_SCHEMA_KEY = Some ''5''"
  by code_simp

text \<open>Profile operations leave the version alone.\<close>

lemma mark_view_other:
  "k \<noteq> PROFILE_DIRTY_USER_KEY \<Longrightarrow> k \<noteq> PROFILE_DIRTY_KEYS_KEY \<Longrightarrow> v_store (mark_view js key v) k = v_store v k"
  by (simp add: mark_view_def journaled_other split: option.splits)

lemma op_schema: "v_store (view_op js x v) STORAGE_SCHEMA_KEY = v_store v STORAGE_SCHEMA_KEY"
proof -
  have "STORAGE_SCHEMA_KEY \<notin> set PROFILE_STORAGE_KEYS" "STORAGE_SCHEMA_KEY \<notin> set PROFILE_PROGRESS_KEYS"
    "STORAGE_SCHEMA_KEY \<notin> set DERIVED_LOCAL_CACHE_KEYS"
    using schema_key(3) by (auto simp: PROFILE_STORAGE_KEYS_def)
  then show ?thesis using schema_key(3-5)
    by (cases x) (auto simp: set_view_def remove_view_def clear_progress_view_def clear_cache_view_def changed_def
        Let_def mark_view_other cleared_def)
qed

lemma ops_schema: "v_store (fold (view_op js) ops v) STORAGE_SCHEMA_KEY = v_store v STORAGE_SCHEMA_KEY"
  by (induction ops arbitrary: v) (simp_all add: op_schema)

text \<open>A migration is one-shot. Once a run has reached version 5, whatever the user then does to the profile
  (a board taken back to 2D, a retired theme taken back into the radio) is left alone by every later start.\<close>

theorem migrations_respect_choices:
  assumes "reads_as t v" "run_state (migratePersistentStorage js) t = (r, t')" "mr_to r = 5"
  shows "fst (run_state (migratePersistentStorage js) (fold (perform js) ops t')) =
      \<lparr>mr_status = ''ok'', mr_from = 5, mr_to = 5, mr_durable = Some True\<rparr> \<and>
    fst (run_state (get_item k) (snd (run_state (migratePersistentStorage js) (fold (perform js) ops t')))) =
      fst (run_state (get_item k) (fold (perform js) ops t'))"
proof -
  have "\<not> 5 < version_of (v_store v STORAGE_SCHEMA_KEY)"
    using migration_outcome [OF assms(1,2)] assms(3) by auto
  then obtain v1 where v1: "reads_as t' v1" "version_of (v_store v1 STORAGE_SCHEMA_KEY) = 5"
  proof -
    let ?a = "version_of (v_store v STORAGE_SCHEMA_KEY)" 
    assume a: "\<not> 5 < ?a" and *: "\<And>v1. reads_as t' v1 \<Longrightarrow> version_of (v_store v1 STORAGE_SCHEMA_KEY) = 5 \<Longrightarrow> thesis"
    have s: "reads_as t' (v\<lparr>v_store := reached js ?a 5 (v_store v)\<rparr>)"
      using migration_outcome [OF assms(1,2)] a assms(3) by auto
    have "version_of (reached js ?a 5 (v_store v) STORAGE_SCHEMA_KEY) = 5"
      using a by (cases "?a = 5") (simp_all add: reached_def marked_def version_of_def parse_int_show_nat)
    with s * show thesis by simp
  qed
  let ?t = "fold (perform js) ops t'" and ?v = "fold (view_op js) ops v1"
  have s: "reads_as ?t ?v" by (rule reads_as_fold [OF v1(1)])
  have five: "version_of (v_store ?v STORAGE_SCHEMA_KEY) = 5" using v1(2) by (simp add: ops_schema)
  have "runs schemaVersion ?v 5 ?v"
    unfolding schemaVersion_def five [symmetric] by (rule runs_bind [OF runs_get runs_return])
  then have again: "runs (migratePersistentStorage js) ?v
      \<lparr>mr_status = ''ok'', mr_from = 5, mr_to = 5, mr_durable = Some True\<rparr> ?v"
    unfolding migratePersistentStorage_def
    by (rule runs_bind) (simp add: STORAGE_SCHEMA_VERSION_def migration_loop.simps)
  show ?thesis
    using runs_result [OF again s] runs_result [OF runs_get s]
      runs_result [OF runs_get does_reads_as [OF runs_does [OF again] s]] by simp
qed

theorem migrations_respect_choices_witness:
  "let t' = snd (run_state (migratePersistentStorage list_json) (fresh_tab [(BOARD_RENDERER_KEY, ''2d'')] None (\<lambda>_. []) []))
   in fst (run_state (migratePersistentStorage list_json)
        (fold (perform list_json) [PSet BOARD_RENDERER_KEY (JStr ''2d'')] t')) =
      \<lparr>mr_status = ''ok'', mr_from = 5, mr_to = 5, mr_durable = Some True\<rparr>"
proof -
  let ?t = "fresh_tab [(BOARD_RENDERER_KEY, ''2d'')] None (\<lambda>_. []) []"
  have five: "mr_to (fst (run_state (migratePersistentStorage list_json) ?t)) = 5" by code_simp
  obtain r t' where r: "run_state (migratePersistentStorage list_json) ?t = (r, t')"
    by (cases "run_state (migratePersistentStorage list_json) ?t")
  have "mr_to r = 5" using five r by simp
  from conjunct1 [OF migrations_respect_choices [OF reads_as_fresh [OF answers_flaky(2)] r this]]
  show ?thesis unfolding r Let_def snd_conv .
qed

text \<open>What a first run does to an old profile: its mute goes to the channels not yet chosen, a flat board becomes
  the war room, retired themes join the exclusions once each, and nothing else changes.\<close>

lemma migrated_profile:
  "content js 0 5 st BOARD_RENDERER_KEY = (if st BOARD_RENDERER_KEY = Some ''2d'' then Some ''3d'' else st BOARD_RENDERER_KEY)"
  "k \<notin> {LEGACY_MUTE_KEY, MUSIC_MUTED_KEY, FX_MUTED_KEY, BOARD_RENDERER_KEY, MUSIC_EXCLUDED_KEY} \<union> set OBSOLETE_KEYS \<Longrightarrow>
     content js 0 5 st k = st k"
  "st MUSIC_MUTED_KEY = None \<Longrightarrow> st LEGACY_MUTE_KEY \<in> {Some ''0'', Some ''1''} \<Longrightarrow>
     content js 0 5 st MUSIC_MUTED_KEY = st LEGACY_MUTE_KEY"
  "st MUSIC_MUTED_KEY = Some m \<Longrightarrow> content js 0 5 st MUSIC_MUTED_KEY = Some m"
proof -
  have steps: "content js 0 5 st = step_view js 4 (step_view js 3 (step_view js 2 (step_view js 1 (step_view js 0 st))))"
    by (simp add: content_def upt_rec_numeral upt_conv_Cons eval_nat_numeral)
  have d: "distinct [LEGACY_MUTE_KEY, MUSIC_MUTED_KEY, FX_MUTED_KEY, BOARD_RENDERER_KEY, MUSIC_EXCLUDED_KEY]"
    "set OBSOLETE_KEYS \<inter> {MUSIC_MUTED_KEY, BOARD_RENDERER_KEY} = {}"
    by code_simp+
  show "content js 0 5 st BOARD_RENDERER_KEY = (if st BOARD_RENDERER_KEY = Some ''2d'' then Some ''3d'' else st BOARD_RENDERER_KEY)"
    "st MUSIC_MUTED_KEY = None \<Longrightarrow> st LEGACY_MUTE_KEY \<in> {Some ''0'', Some ''1''} \<Longrightarrow>
     content js 0 5 st MUSIC_MUTED_KEY = st LEGACY_MUTE_KEY"
    "st MUSIC_MUTED_KEY = Some m \<Longrightarrow> content js 0 5 st MUSIC_MUTED_KEY = Some m"
    "k \<notin> {LEGACY_MUTE_KEY, MUSIC_MUTED_KEY, FX_MUTED_KEY, BOARD_RENDERER_KEY, MUSIC_EXCLUDED_KEY} \<union> set OBSOLETE_KEYS \<Longrightarrow>
     content js 0 5 st k = st k"
    using d unfolding steps
    by (auto simp: step_view_def inherit_mute_def default_to_def exclude_def cleared_def split: option.splits)
qed

end
