(* ===== verification/JsonCodec.thy ===== *)
theory JsonCodec
  imports JsonValues "HOL-Library.Countable"
begin

text \<open>
  A \<open>JSON\<close> object that gives every value back. The components that store values assume \<open>survives\<close> of the
  values they write; this codec shows the assumption can hold for all of them at once.
\<close>

instance jsnum :: countable
  by countable_datatype

instance json :: countable
  by countable_datatype

definition coded_json :: json_api where
  "coded_json =
     \<lparr>stringify = (\<lambda>v. CHR ''#'' # show_nat (to_nat v)),
      parse = (\<lambda>s. case s of [] \<Rightarrow> None | c # ds \<Rightarrow> map_option (\<lambda>n. from_nat (nat n)) (parse_int ds))\<rparr>"

lemma survives_coded [simp]: "survives coded_json v"
  by (simp add: survives_def coded_json_def parse_int_show_nat)

section \<open>Whole numbers as text\<close>

text \<open>A whole number below \<open>2 ^ 53\<close> is a double, and its text is its decimal numeral.\<close>

lemma fl_nat:
  assumes "n < 2 ^ 53" shows "fl (of_nat n) = of_nat n"
proof (cases "n = 0")
  case False
  let ?x = "of_nat n :: rat"
  have x: "0 < ?x" using False by simp
  have "?x < pow2 53" using assms of_nat_less_iff [of n "2 ^ 53", where 'a = rat] by (simp add: pow2_def)
  moreover have "pow2 (expo ?x) \<le> ?x" using expo_bounds [OF x] by simp
  ultimately have "pow2 (expo ?x) < pow2 53" by simp
  then have e: "expo ?x \<le> 52" using pow2_mono [of 53 "expo ?x"] by (cases "53 \<le> expo ?x") auto
  have "?x / pow2 (expo ?x - 52) = of_int (int n * 2 ^ nat (52 - expo ?x))"
    using e by (simp add: pow2_def)
  then have "fl_pos ?x = ?x" by (rule fl_pos_grid)
  then show ?thesis using x by (simp add: fl_def)
qed simp

lemma fl_two53: "fl (of_nat (2 ^ 53)) = of_nat (2 ^ 53)"
proof -
  have x: "(of_nat (2 ^ 53) :: rat) = pow2 53" by (simp add: pow2_def)
  have "expo (pow2 53) = 53" by (rule expo_unique) (simp_all add: pow2_def)
  then have "fl_pos (pow2 53) = pow2 53"
    by (intro fl_pos_grid [of _ "2 ^ 52"]) (simp add: pow2_def)
  moreover have "\<not> pow2 53 < 0" using pow2_pos [of 53] by linarith
  ultimately show ?thesis unfolding x by (simp add: fl_def)
qed

lemma show_nat_less_10 [simp]: "n < 10 \<Longrightarrow> show_nat n = [digit_char n]"
  by (subst show_nat.simps) simp

lemma show_nat_step: "10 \<le> n \<Longrightarrow> show_nat n = show_nat (n div 10) @ [digit_char (n mod 10)]"
  by (subst show_nat.simps) simp

lemma pow10_less: "(10::nat) ^ a < 10 ^ b \<Longrightarrow> a < b"
  by simp

lemma show_nat_bounds: "0 < n \<Longrightarrow> 10 ^ (length (show_nat n) - 1) \<le> n \<and> n < 10 ^ length (show_nat n)"
proof (induction n rule: show_nat.induct)
  case (1 n)
  show ?case
  proof (cases "n < 10")
    case False
    let ?m = "n div 10" and ?l = "length (show_nat (n div 10))"
    have IH: "10 ^ (?l - 1) \<le> ?m" "?m < 10 ^ ?l" using 1 False by auto
    have l: "0 < ?l" by simp
    have "10 * 10 ^ (?l - 1) \<le> n" using IH(1) by linarith
    moreover have "n < 10 * 10 ^ ?l" using IH(2) by linarith
    moreover have "10 * 10 ^ (?l - 1) = (10 ^ ?l :: nat)" using l by (metis Suc_diff_1 power_Suc)
    ultimately show ?thesis using show_nat_step [of n] False by simp
  qed (use 1 in simp)
qed

lemma length_show_nat:
  assumes "10 ^ k \<le> n" "n < 10 ^ Suc k" shows "length (show_nat n) = Suc k"
proof -
  have "0 < n" using assms(1) by (metis gr0I le_zero_eq power_not_zero zero_neq_numeral)
  from show_nat_bounds [OF this] have b: "10 ^ (length (show_nat n) - 1) \<le> n" "n < 10 ^ length (show_nat n)" by auto
  have "(10::nat) ^ (length (show_nat n) - 1) < 10 ^ Suc k" using b(1) assms(2) by simp
  then have "length (show_nat n) - 1 < Suc k" by (rule pow10_less)
  moreover have "(10::nat) ^ k < 10 ^ length (show_nat n)" by (rule order_le_less_trans [OF assms(1) b(2)])
  then have "k < length (show_nat n)" by (rule pow10_less)
  ultimately show ?thesis by simp
qed

lemma show_nat_zeros: "0 < s \<Longrightarrow> show_nat (s * 10 ^ j) = show_nat s @ replicate j CHR ''0''"
proof (induction j)
  case (Suc j)
  have "10 \<le> s * 10 ^ Suc j" using Suc.prems by simp
  moreover have "s * 10 ^ Suc j div 10 = s * 10 ^ j" "s * 10 ^ Suc j mod 10 = 0" by simp_all
  ultimately have "show_nat (s * 10 ^ Suc j) = show_nat (s * 10 ^ j) @ [digit_char 0]"
    by (metis show_nat_step)
  then show ?case using Suc by (simp add: digit_char_def replicate_append_same)
qed simp

lemma find_least:
  assumes "P d" "a \<le> d" "d < b"
  obtains k where "List.find P [a..<b] = Some k" "P k" "a \<le> k" "k \<le> d"
proof -
  obtain k where k: "List.find P [a..<b] = Some k"
    using assms by (cases "List.find P [a..<b]") (auto simp: find_None_iff)
  then obtain i where i: "i < length [a..<b]" "P ([a..<b] ! i)" "k = [a..<b] ! i" "\<forall>j<i. \<not> P ([a..<b] ! j)"
    by (auto simp: find_Some_iff)
  then have "k = a + i" by simp
  moreover have "i \<le> d - a"
  proof (rule ccontr)
    assume "\<not> i \<le> d - a"
    then have "\<not> P ([a..<b] ! (d - a))" using i(4) by simp
    then show False using assms by simp
  qed
  ultimately show ?thesis using that k i assms by simp
qed

lemma shortest_digits_nat:
  assumes n: "0 < n" "n < 2 ^ 53"
  defines "d \<equiv> length (show_nat n)"
  obtains k s where "shortest_digits (of_nat n) (int d) = (show_nat s, int d)" "0 < s" "length (show_nat s) = k"
    "1 \<le> k" "k \<le> d" "s * 10 ^ (d - k) = n"
proof -
  let ?q = "of_nat n :: rat"
  let ?r = "\<lambda>k. round_half_even (?q / pow10 (int d - int k))"
  let ?P = "\<lambda>k. let s = ?r k in 10 ^ (k - 1) \<le> s \<and> s \<le> 10 ^ k \<and> fl (of_int s * pow10 (int d - int k)) = ?q"
  have b: "10 ^ (d - 1) \<le> n" "n < 10 ^ d" using show_nat_bounds [OF n(1)] by (auto simp: d_def)
  have d1: "1 \<le> d" by (simp add: d_def Suc_leI)
  have "(10::nat) ^ (d - 1) < 10 ^ 16" by (rule order_le_less_trans [OF b(1)]) (use n(2) in simp)
  then have "d - 1 < 16" by (rule pow10_less)
  then have d17: "d < 18" by simp
  have rd: "?r d = int n" using round_half_even_int [of "int n"] by (simp add: pow10_def)
  have Pd: "?P d"
  proof -
    have "(10::int) ^ (d - 1) \<le> int n" using b(1) by (metis of_nat_le_iff of_nat_numeral of_nat_power)
    moreover have "int n \<le> 10 ^ d" using b(2) by (metis less_imp_le of_nat_le_iff of_nat_numeral of_nat_power)
    ultimately show ?thesis using rd fl_nat [OF n(2)] by (simp add: Let_def pow10_def)
  qed
  obtain k where k: "List.find ?P [1..<18] = Some k" "?P k" "1 \<le> k" "k \<le> d"
    by (rule find_least [where P = ?P, OF Pd d1 d17])
  let ?s = "?r k"
  have sb: "10 ^ (k - 1) \<le> ?s" "?s \<le> 10 ^ k" "fl (of_int ?s * pow10 (int d - int k)) = ?q"
    using k(2) by (auto simp: Let_def)
  have spos: "0 < ?s" using sb(1) by (meson order_less_le_trans zero_less_numeral zero_less_power)
  have p10: "pow10 (int d - int k) = 10 ^ (d - k)" using k(4) by (simp add: pow10_def nat_diff_distrib')
  have whole: "of_int ?s * pow10 (int d - int k) = (of_nat (nat ?s * 10 ^ (d - k)) :: rat)"
    using spos by (simp add: p10)
  have less: "nat ?s * 10 ^ (d - k) < 2 ^ 53"
  proof (rule ccontr)
    assume "\<not> ?thesis"
    then have "(of_nat (2 ^ 53) :: rat) \<le> of_nat (nat ?s * 10 ^ (d - k))" by (simp only: of_nat_le_iff)
    from fl_mono [OF this] have "fl (of_nat (2 ^ 53)) \<le> ?q" using sb(3) whole by simp
    moreover have "fl (of_nat (2 ^ 53) :: rat) = of_nat (2 ^ 53)" by (rule fl_two53)
    ultimately have "(of_nat (2 ^ 53) :: rat) \<le> of_nat n" by simp
    then show False using n(2) by (simp only: of_nat_le_iff)
  qed
  have eq: "nat ?s * 10 ^ (d - k) = n"
    using sb(3) fl_nat [OF less] whole by (metis of_nat_eq_iff)
  have "?s \<noteq> 10 ^ k"
  proof
    assume "?s = 10 ^ k"
    then have "nat ?s = 10 ^ k" by (simp add: nat_power_eq)
    then have "n = 10 ^ d" using eq k(4) by (metis le_add_diff_inverse power_add)
    then show False using b(2) by simp
  qed
  then have "?s < 10 ^ k" using sb(2) by simp
  then have up: "nat ?s < 10 ^ k" using spos by (simp add: nat_less_iff)
  have low: "10 ^ (k - 1) \<le> nat ?s" using sb(1) by (simp add: nat_le_iff le_nat_iff)
  have len: "length (show_nat (nat ?s)) = k"
    using length_show_nat [of "k - 1" "nat ?s"] low up k(3) by simp
  have "shortest_digits ?q (int d) = (show_nat (nat ?s), int d)"
    using k(1) \<open>?s \<noteq> 10 ^ k\<close> unfolding shortest_digits_def by (simp add: Let_def)
  then show thesis using that [of "nat ?s" k] spos len k(3,4) eq by simp
qed

theorem show_number_nat:
  assumes "n < 2 ^ 53" shows "show_number (Fin (of_nat n)) = show_nat n"
proof (cases "n = 0")
  case True
  then show ?thesis by (simp add: show_number_def digit_char_def)
next
  case False
  then have pos: "0 < n" by simp
  let ?d = "length (show_nat n)"
  have dp: "decimal_point (of_nat n) = int ?d" using pos by (simp add: decimal_point_def)
  obtain k s where k: "shortest_digits (of_nat n) (int ?d) = (show_nat s, int ?d)" "0 < s" "length (show_nat s) = k"
      "1 \<le> k" "k \<le> ?d" "s * 10 ^ (?d - k) = n"
    by (rule shortest_digits_nat [OF pos assms])
  have "10 ^ (?d - 1) \<le> n" using show_nat_bounds [OF pos] by simp
  then have "(10::nat) ^ (?d - 1) < 10 ^ 16" by (rule order_le_less_trans) (use assms in simp)
  then have "?d - 1 < 16" by (rule pow10_less)
  then have "show_positive (of_nat n) = show_nat s @ replicate (?d - k) CHR ''0''"
    using k(1,3,5) by (simp add: show_positive_def dp nat_diff_distrib' Let_def)
  also have "\<dots> = show_nat n" using show_nat_zeros [OF k(2), of "?d - k"] k(6) by simp
  finally show ?thesis using pos by (simp add: show_number_def)
qed

lemma json_string_nat: "n < 2 ^ 53 \<Longrightarrow> json_string (JInt (int n)) = show_nat n"
  using show_number_nat [of n] by simp

end
