(* ===== verification/RoguelikeRun.thy ===== *)
theory RoguelikeRun
  imports RunContent AdaptiveDifficulty JsonCodec
begin

text \<open>
  \<open>roguelikeRun.js\<close>: the stored attempt at the ten floors of the tower and the endless mode after them.

  A run is the normalised object the module hands out and stores. Every operation takes the run its caller
  holds, which may be an old one (a delayed callback, a replayed render): \<open>currentRunIfStale\<close> compares it with
  the stored run. A caller without a run gets its argument back and is left out. The profile is the map of
  \<open>JsonValues\<close>; the random seed is an argument. Floors are exact below \<open>2 ^ 53\<close>.
\<close>

section \<open>The stored run\<close>

definition RUN_KEY :: string where "RUN_KEY = ''chess-study-roguelike-run''"
definition ROGUE_BEST_FLOOR_KEY :: string where "ROGUE_BEST_FLOOR_KEY = ''chess-study-roguelike-best-floor''"
definition COMPLETED_KEY :: string where "COMPLETED_KEY = ''chess-study-roguelike-tower-completed''"

definition ROGUELIKE_TOWER_FLOORS :: nat where "ROGUELIKE_TOWER_FLOORS = 10"

record rogue_run =
  rr_floor :: nat
  rr_inRun :: bool
  rr_phase :: string
  rr_seed :: "string option"
  rr_mode :: string
  rr_perks :: "string list"
  rr_rewardChosenForFloor :: "nat option"
  rr_battleAttempt :: nat

definition defaultRun :: rogue_run where
  "defaultRun = \<lparr>rr_floor = 1, rr_inRun = False, rr_phase = ''idle'', rr_seed = None, rr_mode = ''tower'',
     rr_perks = [], rr_rewardChosenForFloor = None, rr_battleAttempt = 0\<rparr>"

text \<open>The run as the object that is written.\<close>

definition run_json :: "rogue_run \<Rightarrow> json" where
  "run_json r = JObj
     [(''floor'', JInt (int (rr_floor r))), (''inRun'', JBool (rr_inRun r)), (''phase'', JStr (rr_phase r)),
      (''seed'', case rr_seed r of None \<Rightarrow> JNull | Some s \<Rightarrow> JStr s), (''mode'', JStr (rr_mode r)),
      (''perks'', JArr (map JStr (rr_perks r))),
      (''rewardChosenForFloor'', case rr_rewardChosenForFloor r of None \<Rightarrow> JNull | Some f \<Rightarrow> JInt (int f)),
      (''battleAttempt'', JInt (int (rr_battleAttempt r)))]"

definition parsed_floor :: "json \<Rightarrow> nat" where
  "parsed_floor v =
     (case parse_int (json_string v) of None \<Rightarrow> 1 | Some n \<Rightarrow> nat (max 1 (if n = 0 then 1 else n)))"

definition safe_attempt :: "json \<Rightarrow> nat" where
  "safe_attempt v =
     (case json_number v of
        Fin q \<Rightarrow> if q = of_int \<lfloor>q\<rfloor> \<and> 0 < \<lfloor>q\<rfloor> \<and> \<lfloor>q\<rfloor> < 2 ^ 53 then nat \<lfloor>q\<rfloor> else 0
      | _ \<Rightarrow> 0)"

definition normal_phase :: "bool \<Rightarrow> json \<Rightarrow> string" where
  "normal_phase inRun v =
     (if inRun then (case v of JStr p \<Rightarrow> if p \<in> {''battle'', ''fighting'', ''cleared'', ''completed''} then p else ''battle''
                     | _ \<Rightarrow> ''battle'') else ''idle'')"

text \<open>The perks of a stored run are looked up among the catalogue's own ids: the source, which indexes a plain
  object, also keeps an inherited name such as \<open>constructor\<close> and an array that reads as an id, in a stored run
  that was tampered with.\<close>

definition normalizeRun :: "json \<Rightarrow> rogue_run" where
  "normalizeRun parsed =
     (if \<not> is_object parsed then defaultRun
      else let flr = parsed_floor (field ''floor'' parsed);
               inRun = (field ''inRun'' parsed = JBool True);
               phase = normal_phase inRun (field ''phase'' parsed);
               seed = (if inRun then Some (json_string (or_else_json (field ''seed'' parsed)
                         (JStr (''legacy-'' @ show_nat flr)))) else None);
               mode = (if field ''mode'' parsed = JStr ''endless'' then ''endless'' else ''tower'');
               perks = filter (\<lambda>i. perkById i \<noteq> None) (strings_in (elements (field ''perks'' parsed)));
               chosen = (case field ''rewardChosenForFloor'' parsed of
                            JNull \<Rightarrow> None | JUndef \<Rightarrow> None | v \<Rightarrow> Some (json_number v))
           in \<lparr>rr_floor = flr, rr_inRun = inRun, rr_phase = phase, rr_seed = seed, rr_mode = mode, rr_perks = perks,
               rr_rewardChosenForFloor =
                 (if inRun \<and> phase = ''cleared'' \<and> chosen = Some (Fin (of_nat flr)) then Some flr else None),
               rr_battleAttempt = (if inRun then safe_attempt (field ''battleAttempt'' parsed) else 0)\<rparr>)"

definition loadRun :: "json_api \<Rightarrow> store \<Rightarrow> rogue_run" where
  "loadRun js st = normalizeRun (read_json js RUN_KEY JNull st)"

definition saveRun :: "json_api \<Rightarrow> rogue_run \<Rightarrow> store \<Rightarrow> rogue_run \<times> store" where
  "saveRun js r st = (let normalized = normalizeRun (run_json r)
     in (normalized, st(RUN_KEY \<mapsto> stringify js (run_json normalized))))"

section \<open>Operations\<close>

definition startNewRun :: "json_api \<Rightarrow> string \<Rightarrow> store \<Rightarrow> rogue_run \<times> store" where
  "startNewRun js seed st =
     saveRun js (defaultRun\<lparr>rr_floor := 1, rr_inRun := True, rr_phase := ''battle'', rr_seed := Some seed\<rparr>) st"

text \<open>The stored run when it is not the one the caller holds.\<close>

definition currentRunIfStale :: "json_api \<Rightarrow> rogue_run \<Rightarrow> store \<Rightarrow> rogue_run option" where
  "currentRunIfStale js r st =
     (let latest = loadRun js st
      in if rr_inRun latest = rr_inRun r \<and> rr_seed latest = rr_seed r \<and> rr_mode latest = rr_mode r \<and>
            rr_floor latest = rr_floor r \<and> rr_phase latest = rr_phase r \<and>
            rr_battleAttempt latest = rr_battleAttempt r \<and>
            rr_rewardChosenForFloor latest = rr_rewardChosenForFloor r \<and>
            stringify js (JArr (map JStr (rr_perks latest))) = stringify js (JArr (map JStr (rr_perks r)))
         then None else Some latest)"

text \<open>The common shape: a guard on the caller's run, the check against the stored run, the change.\<close>

definition guarded ::
  "bool \<Rightarrow> json_api \<Rightarrow> rogue_run \<Rightarrow> (store \<Rightarrow> rogue_run \<times> store) \<Rightarrow> store \<Rightarrow> rogue_run \<times> store" where
  "guarded guard js r change st =
     (if \<not> guard then (r, st)
      else case currentRunIfStale js r st of Some latest \<Rightarrow> (latest, st) | None \<Rightarrow> change st)"

definition markBattleStarted :: "json_api \<Rightarrow> rogue_run \<Rightarrow> store \<Rightarrow> rogue_run \<times> store" where
  "markBattleStarted js r = guarded (rr_inRun r \<and> rr_phase r = ''battle'') js r
     (saveRun js (r\<lparr>rr_phase := ''fighting'', rr_battleAttempt := rr_battleAttempt r + 1\<rparr>))"

definition recoverInterruptedRun :: "json_api \<Rightarrow> rogue_run \<Rightarrow> store \<Rightarrow> rogue_run \<times> store" where
  "recoverInterruptedRun js r = guarded (rr_inRun r \<and> rr_phase r = ''fighting'') js r
     (saveRun js (r\<lparr>rr_phase := ''battle''\<rparr>))"

definition markFloorCleared :: "json_api \<Rightarrow> rogue_run \<Rightarrow> store \<Rightarrow> rogue_run \<times> store" where
  "markFloorCleared js r =
     guarded (rr_inRun r \<and> rr_phase r \<noteq> ''cleared'' \<and> rr_phase r \<noteq> ''completed'' \<and> rr_phase r = ''fighting'') js r
       (saveRun js (r\<lparr>rr_phase := ''cleared'', rr_rewardChosenForFloor := None\<rparr>))"

definition chooseRunReward :: "json_api \<Rightarrow> rogue_run \<Rightarrow> string \<Rightarrow> store \<Rightarrow> rogue_run \<times> store" where
  "chooseRunReward js r perkId = guarded (rr_inRun r \<and> rr_phase r = ''cleared'' \<and> perkById perkId \<noteq> None) js r
     (\<lambda>st. if rr_rewardChosenForFloor r = Some (rr_floor r) then (r, st)
           else if \<not> list_ex (\<lambda>p. perk_id p = perkId)
                     (rewardOptionsForFloor (case rr_seed r of None \<Rightarrow> [] | Some s \<Rightarrow> s) (rr_floor r)) then (r, st)
           else saveRun js (r\<lparr>rr_perks := rr_perks r @ [perkId], rr_rewardChosenForFloor := Some (rr_floor r)\<rparr>) st)"

definition advanceFloor :: "json_api \<Rightarrow> rogue_run \<Rightarrow> store \<Rightarrow> rogue_run \<times> store" where
  "advanceFloor js r = guarded (rr_inRun r \<and> rr_phase r = ''cleared'') js r
     (\<lambda>st. if rr_rewardChosenForFloor r \<noteq> Some (rr_floor r) then (r, st)
           else saveRun js (r\<lparr>rr_floor := rr_floor r + 1, rr_phase := ''battle'', rr_rewardChosenForFloor := None\<rparr>) st)"

definition loadBestFloor :: "store \<Rightarrow> int" where
  "loadBestFloor st =
     (case st ROGUE_BEST_FLOOR_KEY of
        None \<Rightarrow> 0
      | Some raw \<Rightarrow> if raw = [] then 0 else (case parse_int raw of None \<Rightarrow> 0 | Some n \<Rightarrow> n))"

definition raise_best :: "nat \<Rightarrow> store \<Rightarrow> store" where
  "raise_best flr st = (if loadBestFloor st < int flr then st(ROGUE_BEST_FLOOR_KEY \<mapsto> show_nat flr) else st)"

definition completeTower :: "json_api \<Rightarrow> rogue_run \<Rightarrow> store \<Rightarrow> rogue_run \<times> store" where
  "completeTower js r =
     guarded (rr_inRun r \<and> rr_mode r = ''tower'' \<and> rr_floor r = ROGUELIKE_TOWER_FLOORS \<and> rr_phase r = ''fighting'') js r
       (\<lambda>st. saveRun js (r\<lparr>rr_phase := ''completed''\<rparr>) (raise_best (rr_floor r) (st(COMPLETED_KEY \<mapsto> ''1''))))"

definition continueIntoEndless :: "json_api \<Rightarrow> rogue_run \<Rightarrow> store \<Rightarrow> rogue_run \<times> store" where
  "continueIntoEndless js r =
     guarded (rr_inRun r \<and> rr_mode r = ''tower'' \<and> rr_floor r = ROGUELIKE_TOWER_FLOORS \<and> rr_phase r = ''completed'') js r
       (saveRun js (r\<lparr>rr_mode := ''endless'', rr_floor := ROGUELIKE_TOWER_FLOORS + 1, rr_phase := ''battle'',
          rr_rewardChosenForFloor := None\<rparr>))"

definition loadTowerCompleted :: "store \<Rightarrow> bool" where
  "loadTowerCompleted st \<longleftrightarrow> st COMPLETED_KEY = Some ''1''"

definition endRun :: "json_api \<Rightarrow> rogue_run \<Rightarrow> store \<Rightarrow> nat \<times> store" where
  "endRun js r st = (let reached = max 1 (rr_floor r)
     in (reached, snd (saveRun js defaultRun (raise_best reached st))))"

definition resetRoguelikeRun :: "store \<Rightarrow> store" where
  "resetRoguelikeRun st = st(RUN_KEY := None, ROGUE_BEST_FLOOR_KEY := None, COMPLETED_KEY := None)"

definition difficultyForFloor :: "int \<Rightarrow> 'r battle_entry list \<Rightarrow> int" where
  "difficultyForFloor flr combatHistory =
     (let f = max 1 (if flr = 0 then 1 else flr);
          base = (if f \<le> int ROGUELIKE_TOWER_FLOORS then min 60 (20 + f * 4)
                  else min 95 (60 + (f - int ROGUELIKE_TOWER_FLOORS) * 3))
      in ad_adjusted (adaptiveCombatDifficulty (of_int base) combatHistory))"

section \<open>A run comes back as it was saved\<close>

text \<open>The runs the module hands out.\<close>

definition run_ok :: "rogue_run \<Rightarrow> bool" where
  "run_ok r \<longleftrightarrow>
     1 \<le> rr_floor r \<and> (rr_mode r = ''tower'' \<or> rr_mode r = ''endless'') \<and>
     (\<forall>p \<in> set (rr_perks r). perkById p \<noteq> None) \<and> rr_battleAttempt r < 2 ^ 53 \<and>
     (if rr_inRun r
      then rr_phase r \<in> {''battle'', ''fighting'', ''cleared'', ''completed''} \<and> (\<exists>s. rr_seed r = Some s \<and> s \<noteq> []) \<and>
           (rr_rewardChosenForFloor r \<noteq> None \<longrightarrow> rr_phase r = ''cleared'' \<and> rr_rewardChosenForFloor r = Some (rr_floor r))
      else rr_phase r = ''idle'' \<and> rr_seed r = None \<and> rr_rewardChosenForFloor r = None \<and> rr_battleAttempt r = 0)"

definition run_small :: "rogue_run \<Rightarrow> bool" where
  "run_small r \<longleftrightarrow> run_ok r \<and> rr_floor r < 2 ^ 53"

lemma parsed_floor_nat: "1 \<le> n \<Longrightarrow> n < 2 ^ 53 \<Longrightarrow> parsed_floor (JInt (int n)) = n"
  by (simp only: parsed_floor_def json_string_nat parse_int_show_nat) simp

lemma safe_attempt_nat: "n < 2 ^ 53 \<Longrightarrow> safe_attempt (JInt (int n)) = n"
  by (simp add: safe_attempt_def)

lemma truthy_text [simp]: "truthy (JStr s) = (s \<noteq> [])"
  by (simp add: truthy_def)

theorem normalize_written_run:
  assumes r: "run_small r" shows "normalizeRun (run_json r) = r"
proof -
  have ok: "run_ok r" using r by (simp add: run_small_def)
  have perks: "filter (\<lambda>i. perkById i \<noteq> None) (rr_perks r) = rr_perks r"
    using ok by (auto simp: run_ok_def filter_id_conv)
  have flr: "parsed_floor (field ''floor'' (run_json r)) = rr_floor r"
    using r parsed_floor_nat [of "rr_floor r"] by (simp add: run_small_def run_ok_def run_json_def)
  have attempt: "safe_attempt (field ''battleAttempt'' (run_json r)) = rr_battleAttempt r"
    using r safe_attempt_nat [of "rr_battleAttempt r"] by (simp add: run_small_def run_ok_def run_json_def)
  have fields: "field ''inRun'' (run_json r) = JBool (rr_inRun r)" "field ''phase'' (run_json r) = JStr (rr_phase r)"
    "field ''seed'' (run_json r) = (case rr_seed r of None \<Rightarrow> JNull | Some s \<Rightarrow> JStr s)"
    "field ''mode'' (run_json r) = JStr (rr_mode r)" "field ''perks'' (run_json r) = JArr (map JStr (rr_perks r))"
    "field ''rewardChosenForFloor'' (run_json r) = (case rr_rewardChosenForFloor r of None \<Rightarrow> JNull | Some f \<Rightarrow> JInt (int f))"
    "is_object (run_json r)"
    by (simp_all add: run_json_def is_object_def)
  let ?n = "normalizeRun (run_json r)"
  have basic: "rr_floor ?n = rr_floor r" "rr_inRun ?n = rr_inRun r" "rr_perks ?n = rr_perks r"
    "rr_mode ?n = (if rr_mode r = ''endless'' then ''endless'' else ''tower'')"
    "rr_battleAttempt ?n = (if rr_inRun r then rr_battleAttempt r else 0)"
    "rr_phase ?n = normal_phase (rr_inRun r) (JStr (rr_phase r))"
    using perks unfolding normalizeRun_def Let_def flr attempt by (simp_all add: fields)
  have seed: "rr_seed ?n = (if rr_inRun r then Some (json_string (or_else_json
        (case rr_seed r of None \<Rightarrow> JNull | Some s \<Rightarrow> JStr s) (JStr (''legacy-'' @ show_nat (rr_floor r))))) else None)"
    unfolding normalizeRun_def Let_def flr by (simp add: fields)
  have phase: "rr_phase ?n = rr_phase r" using ok unfolding basic(6) by (auto simp: normal_phase_def run_ok_def)
  have reward: "rr_rewardChosenForFloor ?n = (if rr_inRun r \<and> rr_phase ?n = ''cleared'' \<and>
      rr_rewardChosenForFloor r = Some (rr_floor r) then Some (rr_floor r) else None)"
    unfolding basic(6) normalizeRun_def Let_def flr
    by (cases "rr_rewardChosenForFloor r") (simp_all add: fields)
  show ?thesis
  proof (rule rogue_run.equality)
    show "rr_seed ?n = rr_seed r"
    proof (cases "rr_inRun r")
      case True
      then obtain s where "rr_seed r = Some s" "s \<noteq> []" using ok unfolding run_ok_def by meson
      then show ?thesis unfolding seed using True by (simp add: or_else_json_def)
    next
      case False
      then show ?thesis using ok unfolding seed run_ok_def by simp
    qed
    show "rr_rewardChosenForFloor ?n = rr_rewardChosenForFloor r"
    proof (cases "rr_rewardChosenForFloor r")
      case (Some f)
      then have "rr_inRun r" "rr_phase r = ''cleared''" "rr_rewardChosenForFloor r = Some (rr_floor r)"
        using ok unfolding run_ok_def by (metis option.distinct(1))+
      then show ?thesis unfolding reward phase by simp
    qed (simp add: reward)
    show "rr_mode ?n = rr_mode r" using ok unfolding basic(4) run_ok_def by auto
    show "rr_battleAttempt ?n = rr_battleAttempt r" using ok unfolding basic(5) run_ok_def by (auto split: if_splits)
  qed (simp_all add: basic(1-3) phase)
qed

text \<open>What the module needs of \<open>JSON\<close>: runs and lists of perks come back.\<close>

definition run_json_api :: "json_api \<Rightarrow> bool" where
  "run_json_api js \<longleftrightarrow> (\<forall>r. run_small r \<longrightarrow> survives js (run_json r)) \<and> (\<forall>ps. survives js (JArr (map JStr ps)))"

lemma run_coded_json: "run_json_api coded_json"
  by (simp add: run_json_api_def)

lemma stringify_perks: "run_json_api js \<Longrightarrow> stringify js (JArr (map JStr ps)) = stringify js (JArr (map JStr qs)) \<longleftrightarrow> ps = qs"
  unfolding run_json_api_def survives_def
  by (metis json.inject(4) option.inject strings_in_map)

lemma not_stale: "run_json_api js \<Longrightarrow> currentRunIfStale js r st = None \<longleftrightarrow> loadRun js st = r"
  by (auto simp: currentRunIfStale_def Let_def stringify_perks)

lemma guarded_store:
  "run_json_api js \<Longrightarrow> snd (guarded g js r change st) = (if g \<and> loadRun js st = r then snd (change st) else st)"
  using not_stale [of js r st] by (auto simp: guarded_def split: option.splits)

lemma saved_run:
  assumes "run_json_api js" "run_small r"
  shows "saveRun js r st = (r, st(RUN_KEY \<mapsto> stringify js (run_json r)))" "loadRun js (snd (saveRun js r st)) = r"
  using assms by (simp_all add: saveRun_def normalize_written_run loadRun_def read_json_written run_json_api_def)

section \<open>The tower\<close>

text \<open>The tower as a machine on the stored run alone: ten floors, of which the last, the boss, is completed and never
  cleared.\<close>

inductive run_step :: "rogue_run \<Rightarrow> rogue_run \<Rightarrow> bool" where
  start: "seed \<noteq> [] \<Longrightarrow> run_step r (defaultRun\<lparr>rr_inRun := True, rr_phase := ''battle'', rr_seed := Some seed\<rparr>)"
| battle: "rr_inRun r \<Longrightarrow> rr_phase r = ''battle'' \<Longrightarrow>
    run_step r (r\<lparr>rr_phase := ''fighting'', rr_battleAttempt := rr_battleAttempt r + 1\<rparr>)"
| recover: "rr_inRun r \<Longrightarrow> rr_phase r = ''fighting'' \<Longrightarrow> run_step r (r\<lparr>rr_phase := ''battle''\<rparr>)"
| clear: "rr_inRun r \<Longrightarrow> rr_phase r = ''fighting'' \<Longrightarrow> \<not> (rr_mode r = ''tower'' \<and> rr_floor r = 10) \<Longrightarrow>
    run_step r (r\<lparr>rr_phase := ''cleared'', rr_rewardChosenForFloor := None\<rparr>)"
| reward: "rr_inRun r \<Longrightarrow> rr_phase r = ''cleared'' \<Longrightarrow> rr_rewardChosenForFloor r = None \<Longrightarrow> rr_seed r = Some seed \<Longrightarrow>
    p \<in> set (map perk_id (rewardOptionsForFloor seed (rr_floor r))) \<Longrightarrow>
    run_step r (r\<lparr>rr_perks := rr_perks r @ [p], rr_rewardChosenForFloor := Some (rr_floor r)\<rparr>)"
| advance: "rr_inRun r \<Longrightarrow> rr_phase r = ''cleared'' \<Longrightarrow> rr_rewardChosenForFloor r = Some (rr_floor r) \<Longrightarrow>
    run_step r (r\<lparr>rr_floor := rr_floor r + 1, rr_phase := ''battle'', rr_rewardChosenForFloor := None\<rparr>)"
| complete: "rr_inRun r \<Longrightarrow> rr_phase r = ''fighting'' \<Longrightarrow> rr_mode r = ''tower'' \<Longrightarrow> rr_floor r = 10 \<Longrightarrow>
    run_step r (r\<lparr>rr_phase := ''completed''\<rparr>)"
| endless: "rr_inRun r \<Longrightarrow> rr_phase r = ''completed'' \<Longrightarrow> rr_mode r = ''tower'' \<Longrightarrow> rr_floor r = 10 \<Longrightarrow>
    run_step r (r\<lparr>rr_mode := ''endless'', rr_floor := 11, rr_phase := ''battle'', rr_rewardChosenForFloor := None\<rparr>)"
| finish: "run_step r defaultRun"

datatype run_op =
    OStart string | OBattle rogue_run | ORecover rogue_run | OCleared rogue_run | OReward rogue_run string
  | OAdvance rogue_run | OComplete rogue_run | OEndless rogue_run | OEnd rogue_run

fun run_op_store :: "json_api \<Rightarrow> run_op \<Rightarrow> store \<Rightarrow> store" where
  "run_op_store js (OStart seed) st = snd (startNewRun js seed st)"
| "run_op_store js (OBattle r) st = snd (markBattleStarted js r st)"
| "run_op_store js (ORecover r) st = snd (recoverInterruptedRun js r st)"
| "run_op_store js (OCleared r) st = snd (markFloorCleared js r st)"
| "run_op_store js (OReward r p) st = snd (chooseRunReward js r p st)"
| "run_op_store js (OAdvance r) st = snd (advanceFloor js r st)"
| "run_op_store js (OComplete r) st = snd (completeTower js r st)"
| "run_op_store js (OEndless r) st = snd (continueIntoEndless js r st)"
| "run_op_store js (OEnd r) st = snd (endRun js r st)"

text \<open>The screen (\<open>RoguelikeScreen.jsx\<close>, the end of a won battle) completes the tower when the run is on its last floor, and
  clears the floor otherwise; the module itself would also clear the last one (\<open>boss_floor_clears\<close>).\<close>

fun screen_op :: "run_op \<Rightarrow> bool" where
  "screen_op (OCleared r) \<longleftrightarrow> \<not> (rr_mode r = ''tower'' \<and> rr_floor r = ROGUELIKE_TOWER_FLOORS)"
| "screen_op _ \<longleftrightarrow> True"

definition run_room :: "rogue_run \<Rightarrow> bool" where
  "run_room r \<longleftrightarrow> run_ok r \<and> rr_floor r + 1 < 2 ^ 53 \<and> rr_battleAttempt r + 1 < 2 ^ 53"

lemma run_room_small: "run_room r \<Longrightarrow> run_small r"
  by (simp add: run_room_def run_small_def)

lemma offered_perk:
  "p \<in> set (map perk_id (rewardOptionsForFloor seed f)) \<Longrightarrow> perkById p \<noteq> None"
  using rewards_in_catalogue [of seed f] by (auto simp: perkById_def find_None_iff)

lemma default_small: "run_small defaultRun"
  by (simp add: run_small_def run_ok_def defaultRun_def)

lemma step_small: "run_step r r' \<Longrightarrow> run_room r \<Longrightarrow> run_small r'"
proof (induction rule: run_step.induct)
  case (reward r seed p)
  then show ?case using offered_perk [OF reward.hyps(5)] by (auto simp: run_room_def run_small_def run_ok_def)
qed (auto simp: run_room_def run_small_def run_ok_def defaultRun_def)

text \<open>A step of the machine is what the stored run becomes when it is saved, whatever else is written.\<close>

lemma saved_step:
  assumes "run_json_api js" "run_room (loadRun js st)" "run_step (loadRun js st) r'"
  shows "loadRun js (snd (saveRun js r' st')) = r'"
  by (rule saved_run(2) [OF assms(1) step_small [OF assms(3,2)]])

lemma empty_seed:
  "normalizeRun (run_json (defaultRun\<lparr>rr_floor := 1, rr_inRun := True, rr_phase := ''battle'', rr_seed := Some []\<rparr>)) =
   defaultRun\<lparr>rr_inRun := True, rr_phase := ''battle'', rr_seed := Some ''legacy-1''\<rparr>"
  by code_simp

lemma start_step:
  assumes "run_json_api js"
  shows "run_step r (loadRun js (snd (startNewRun js seed st)))"
proof -
  let ?r = "\<lambda>seed. defaultRun\<lparr>rr_inRun := True, rr_phase := ''battle'', rr_seed := Some seed\<rparr>"
  have small: "seed' \<noteq> [] \<Longrightarrow> run_small (?r seed')" for seed'
    by (simp add: run_small_def run_ok_def defaultRun_def)
  have same: "defaultRun\<lparr>rr_floor := 1, rr_inRun := True, rr_phase := ''battle'', rr_seed := Some seed\<rparr> = ?r seed"
    by (simp add: defaultRun_def)
  show ?thesis
  proof (cases "seed = []")
    case True
    have "survives js (run_json (?r ''legacy-1''))" using assms small by (simp add: run_json_api_def)
    then have "loadRun js (snd (startNewRun js seed st)) = ?r ''legacy-1''"
      unfolding startNewRun_def saveRun_def True Let_def empty_seed
      by (simp add: loadRun_def read_json_written normalize_written_run small)
    then show ?thesis using run_step.start [of "''legacy-1''" r] by simp
  next
    case False
    then show ?thesis
      unfolding startNewRun_def same using saved_run(2) [OF assms small] run_step.start by simp
  qed
qed

lemma op_refines:
  assumes js: "run_json_api js" and room: "run_room (loadRun js st)" and screen: "screen_op x"
  shows "loadRun js (run_op_store js x st) = loadRun js st \<or> run_step (loadRun js st) (loadRun js (run_op_store js x st))"
proof -
  have save: "run_step (loadRun js st) r' \<Longrightarrow> run_step (loadRun js st) (loadRun js (snd (saveRun js r' st')))" for r' st'
    using saved_step [OF js room] by simp
  show ?thesis
  proof (cases x)
    case (OStart seed)
    then show ?thesis using start_step [OF js] by simp
  next
    case (OBattle r)
    then show ?thesis using save [OF run_step.battle, of st]
      by (auto simp: markBattleStarted_def guarded_store [OF js])
  next
    case (ORecover r)
    then show ?thesis using save [OF run_step.recover, of st]
      by (auto simp: recoverInterruptedRun_def guarded_store [OF js])
  next
    case (OCleared r)
    then show ?thesis using save [OF run_step.clear, of st] screen
      by (auto simp: markFloorCleared_def guarded_store [OF js] ROGUELIKE_TOWER_FLOORS_def)
  next
    case (OReward r p)
    let ?r = "loadRun js st"
    have "run_step ?r (loadRun js (snd (saveRun js (?r\<lparr>rr_perks := rr_perks ?r @ [p], rr_rewardChosenForFloor := Some (rr_floor ?r)\<rparr>) st)))"
      if r: "rr_inRun ?r" "rr_phase ?r = ''cleared''" "rr_rewardChosenForFloor ?r \<noteq> Some (rr_floor ?r)"
        and p: "list_ex (\<lambda>q. perk_id q = p) (rewardOptionsForFloor (case rr_seed ?r of None \<Rightarrow> [] | Some s \<Rightarrow> s) (rr_floor ?r))"
    proof -
      obtain seed where seed: "rr_seed ?r = Some seed"
        using room r(1) unfolding run_room_def run_ok_def by meson
      have "rr_rewardChosenForFloor ?r = None" using room r unfolding run_room_def run_ok_def by metis
      then show ?thesis
        using save [OF run_step.reward [OF r(1,2) _ seed], of p st] p seed by (auto simp: list_ex_iff image_iff)
    qed
    then show ?thesis using OReward by (auto simp: chooseRunReward_def guarded_store [OF js])
  next
    case (OAdvance r)
    then show ?thesis using save [OF run_step.advance, of st]
      by (auto simp: advanceFloor_def guarded_store [OF js])
  next
    case (OComplete r)
    then show ?thesis using save [OF run_step.complete]
      by (auto simp: completeTower_def guarded_store [OF js] ROGUELIKE_TOWER_FLOORS_def)
  next
    case (OEndless r)
    then show ?thesis using save [OF run_step.endless, of st]
      by (auto simp: continueIntoEndless_def guarded_store [OF js] ROGUELIKE_TOWER_FLOORS_def)
  next
    case (OEnd r)
    then show ?thesis using saved_run(2) [OF js default_small] run_step.finish
      by (simp add: endRun_def Let_def)
  qed
qed

text \<open>One perk for each floor left behind; the boss of the tower gives none. The tower has ten floors, and its last one is
  never a cleared one; the endless mode begins at floor 11.\<close>

definition tower_inv :: "rogue_run \<Rightarrow> bool" where
  "tower_inv r \<longleftrightarrow> run_ok r \<and>
     (rr_inRun r \<longrightarrow>
        (rr_phase r = ''completed'' \<longrightarrow> rr_mode r = ''tower'' \<and> rr_floor r = 10) \<and>
        length (rr_perks r) + (if rr_mode r = ''endless'' then 2 else 1) =
          rr_floor r + (if rr_rewardChosenForFloor r = None then 0 else 1) \<and>
        (if rr_mode r = ''endless'' then 11 \<le> rr_floor r
         else rr_floor r \<le> (if rr_phase r = ''cleared'' then 9 else 10)))"

lemma step_inv: "run_step r r' \<Longrightarrow> tower_inv r \<Longrightarrow> run_room r \<Longrightarrow> tower_inv r'"
proof (induction rule: run_step.induct)
  case (reward r seed p)
  then show ?case using offered_perk [OF reward.hyps(5)] by (auto simp: tower_inv_def run_room_def run_ok_def)
qed (auto simp: tower_inv_def run_room_def run_ok_def defaultRun_def)

lemma step_counts:
  "run_step r r' \<Longrightarrow> 1 \<le> rr_floor r \<Longrightarrow> rr_floor r' \<le> rr_floor r + 10 \<and> rr_battleAttempt r' \<le> rr_battleAttempt r + 1"
  by (induction rule: run_step.induct) (auto simp: defaultRun_def)

lemma run_ops_sound:
  assumes js: "run_json_api js"
    and start: "tower_inv (loadRun js st)" "rr_floor (loadRun js st) + 10 * length ops < 2 ^ 52"
      "rr_battleAttempt (loadRun js st) + length ops < 2 ^ 52" "list_all screen_op ops"
  shows "tower_inv (loadRun js (fold (run_op_store js) ops st)) \<and>
    run_room (loadRun js (fold (run_op_store js) ops st))"
  using start
proof (induction ops arbitrary: st)
  case Nil
  then show ?case by (simp add: tower_inv_def run_room_def)
next
  case (Cons x ops)
  let ?r = "loadRun js st" and ?r' = "loadRun js (run_op_store js x st)"
  have room: "run_room ?r" using Cons.prems by (simp add: tower_inv_def run_room_def)
  have "1 \<le> rr_floor ?r" using Cons.prems(1) by (simp add: tower_inv_def run_ok_def)
  then have "tower_inv ?r' \<and> rr_floor ?r' \<le> rr_floor ?r + 10 \<and> rr_battleAttempt ?r' \<le> rr_battleAttempt ?r + 1"
    using op_refines [OF js room, of x] Cons.prems(4) step_inv [OF _ Cons.prems(1) room] step_counts Cons.prems(1) by fastforce
  then show ?case using Cons.IH [of "run_op_store js x st"] Cons.prems by simp
qed

lemma no_run: "st RUN_KEY = None \<Longrightarrow> loadRun js st = defaultRun"
  by (simp add: loadRun_def read_json_def normalizeRun_def is_object_def)

text \<open>C32: Every run follows the tower. From a profile without a run, after any operations on any runs their
  callers hold (old ones included) in which a victory on the last floor of the tower completes it, as the screen does, the
  stored run is well formed, has at most ten floors in the tower and begins the endless mode at floor 11, is completed only at
  floor 10 of the tower and never clears that floor, owns exactly one perk per floor left behind (the boss's gives none), and
  the next operation either leaves it as it is or takes it one step of the tower.\<close>

theorem tower_run_sound:
  assumes "run_json_api js" "st RUN_KEY = None" "length ops < 2 ^ 48" "list_all screen_op (x # ops)"
  shows "tower_inv (loadRun js (fold (run_op_store js) ops st)) \<and>
    (loadRun js (run_op_store js x (fold (run_op_store js) ops st)) = loadRun js (fold (run_op_store js) ops st) \<or>
     run_step (loadRun js (fold (run_op_store js) ops st))
       (loadRun js (run_op_store js x (fold (run_op_store js) ops st))))"
proof -
  have d: "loadRun js st = defaultRun" using no_run assms(2) by blast
  have "tower_inv (loadRun js (fold (run_op_store js) ops st)) \<and> run_room (loadRun js (fold (run_op_store js) ops st))"
    by (rule run_ops_sound [OF assms(1)]) (use assms(3,4) in \<open>simp_all add: d tower_inv_def run_ok_def defaultRun_def\<close>)
  then show ?thesis using op_refines [OF assms(1)] assms(4) by simp
qed

theorem tower_run_sound_witness:
  "tower_inv (loadRun coded_json (fold (run_op_store coded_json) [OStart ''seed'', OBattle defaultRun, OCleared defaultRun] Map.empty))"
  using tower_run_sound [OF run_coded_json, of Map.empty "[OStart ''seed'', OBattle defaultRun, OCleared defaultRun]" "OEnd defaultRun"]
  by (simp add: defaultRun_def ROGUELIKE_TOWER_FLOORS_def)

text \<open>Without the discipline of the screen the boss's floor is cleared like any other, and the tower goes on past it.\<close>

lemma boss_floor_clears:
  assumes "run_json_api js" "loadRun js st = r" "run_room r" "rr_inRun r" "rr_phase r = ''fighting''" "rr_mode r = ''tower''" "rr_floor r = 10"
  shows "loadRun js (snd (markFloorCleared js r st)) = r\<lparr>rr_phase := ''cleared'', rr_rewardChosenForFloor := None\<rparr>"
proof -
  let ?r = "r\<lparr>rr_phase := ''cleared'', rr_rewardChosenForFloor := None\<rparr>"
  have "run_small ?r" using assms(3-6) by (simp add: run_room_def run_small_def run_ok_def)
  then have "loadRun js (snd (saveRun js ?r st)) = ?r" by (rule saved_run(2) [OF assms(1)])
  then show ?thesis using assms(2,4,5) by (simp add: markFloorCleared_def guarded_store [OF assms(1)])
qed

text \<open>An old run changes nothing. An operation given a run that is not the stored one (a delayed callback of
  an earlier battle, a floor already left, an abandoned attempt) writes nothing at all.\<close>

theorem stale_run_ignored:
  assumes "run_json_api js" "loadRun js st \<noteq> r"
  shows "fold (run_op_store js) [OBattle r, ORecover r, OCleared r, OReward r p, OAdvance r, OComplete r, OEndless r] st = st"
  using assms(2)
  by (simp add: markBattleStarted_def recoverInterruptedRun_def markFloorCleared_def chooseRunReward_def advanceFloor_def
      completeTower_def continueIntoEndless_def guarded_store [OF assms(1)])

theorem stale_run_ignored_witness:
  "loadRun coded_json Map.empty \<noteq> defaultRun\<lparr>rr_inRun := True\<rparr> \<and>
   fold (run_op_store coded_json) [OBattle (defaultRun\<lparr>rr_inRun := True\<rparr>)] Map.empty = (Map.empty :: store)"
proof -
  let ?r = "defaultRun\<lparr>rr_inRun := True\<rparr>"
  have h: "loadRun coded_json Map.empty \<noteq> ?r" by (simp add: no_run) (simp add: defaultRun_def)
  have none: "run_op_store coded_json (OBattle ?r) Map.empty = (Map.empty :: store)"
    using stale_run_ignored [OF run_coded_json h, of "[]"] h
    by (simp add: markBattleStarted_def guarded_store [OF run_coded_json])
  show ?thesis using h none by simp
qed

text \<open>Records only grow: no operation lowers the best floor or takes the tower's mark away.\<close>

lemma guarded_keeps: "P st \<Longrightarrow> (\<And>st. P st \<Longrightarrow> P (snd (change st))) \<Longrightarrow> P (snd (guarded g js r change st))"
  by (simp add: guarded_def split: option.splits)

lemma best_floor_grows: "loadBestFloor st \<le> loadBestFloor (run_op_store js x st)"
proof -
  have keys: "RUN_KEY \<noteq> ROGUE_BEST_FLOOR_KEY" "COMPLETED_KEY \<noteq> ROGUE_BEST_FLOOR_KEY"
    by (simp_all add: RUN_KEY_def ROGUE_BEST_FLOOR_KEY_def COMPLETED_KEY_def)
  have save: "loadBestFloor (snd (saveRun js r st')) = loadBestFloor st'" for r st'
    using keys by (simp add: saveRun_def Let_def loadBestFloor_def)
  have mark: "loadBestFloor (st'(COMPLETED_KEY \<mapsto> s)) = loadBestFloor st'" for st' s
    using keys by (simp add: loadBestFloor_def)
  have raise: "loadBestFloor st' \<le> loadBestFloor (raise_best n st')" for n st'
    by (simp add: raise_best_def) (simp add: loadBestFloor_def parse_int_show_nat)
  let ?b = "\<lambda>st'. loadBestFloor st \<le> loadBestFloor st'"
  show ?thesis
    using order_trans [OF _ raise] save mark
    by (cases x) (auto simp: startNewRun_def markBattleStarted_def recoverInterruptedRun_def markFloorCleared_def
        chooseRunReward_def advanceFloor_def completeTower_def continueIntoEndless_def endRun_def Let_def
        intro!: guarded_keeps [where P = ?b])
qed

lemma difficulty_bounds: "5 \<le> difficultyForFloor f h \<and> difficultyForFloor f h \<le> 95"
proof -
  have "5 \<le> ad_adjusted (adaptiveCombatDifficulty b h) \<and> ad_adjusted (adaptiveCombatDifficulty b h) \<le> 95" for b
    by (simp add: adaptiveCombatDifficulty_def Let_def)
  then show ?thesis unfolding difficultyForFloor_def Let_def .
qed

end
