(* ===== verification/EnemyOfficers.thy ===== *)
theory EnemyOfficers
  imports RunContent JsonCodec
begin

text \<open>
  \<open>combatEnemyOfficers.js\<close>: the enemy officers a campaign meets, the record the player keeps of each, and the
  promotions those records earn.

  A stored record is normalised to \<open>officer_record\<close>; reading a stored \<open>null\<close> as a record throws (\<open>Inl\<close>). The
  clock and \<open>localeCompare\<close> are arguments. Counters are whole numbers; an infinity, which JSON cannot hold, is
  read as 0.
\<close>

section \<open>Officers and records\<close>

definition COMBAT_ENEMY_OFFICERS_KEY :: string where
  "COMBAT_ENEMY_OFFICERS_KEY = ''chess-study-combat-enemy-officers-v1''"

record officer =
  oc_id :: string
  oc_rank :: string
  oc_name :: string
  oc_callsign :: string

definition OFFICERS :: "officer list" where
  "OFFICERS =
    [\<lparr>oc_id = ''adler'', oc_rank = ''Teniente'', oc_name = ''Viktor Adler'', oc_callsign = ''Alfil Gris''\<rparr>,
     \<lparr>oc_id = ''falk'', oc_rank = ''Teniente'', oc_name = ''Mara Falk'', oc_callsign = ''Aguja''\<rparr>,
     \<lparr>oc_id = ''vega'', oc_rank = (''Capit'' @ [CHR 0xE1] @ ''n''), oc_name = (''In'' @ [CHR 0xE9] @ ''s Vega''), oc_callsign = ''Farol''\<rparr>,
     \<lparr>oc_id = ''krall'', oc_rank = (''Capit'' @ [CHR 0xE1] @ ''n''), oc_name = ''Otto Krall'', oc_callsign = ''Yunque''\<rparr>,
     \<lparr>oc_id = ''saeed'', oc_rank = ''Mayor'', oc_name = ''Nadir Saeed'', oc_callsign = ''Sombra''\<rparr>,
     \<lparr>oc_id = ''volkov'', oc_rank = ''Mayor'', oc_name = ''Irina Volkov'', oc_callsign = ''Torre Roja''\<rparr>,
     \<lparr>oc_id = ''mercier'', oc_rank = ''Coronel'', oc_name = ''Luc Mercier'', oc_callsign = (''Comp'' @ [CHR 0xE1] @ ''s'')\<rparr>,
     \<lparr>oc_id = ''ibarra'', oc_rank = ''Coronel'', oc_name = ''Elena Ibarra'', oc_callsign = ''Centinela''\<rparr>]"

definition OFFICER_RANKS :: "string list" where
  "OFFICER_RANKS = [''Teniente'', (''Capit'' @ [CHR 0xE1] @ ''n''), ''Mayor'', ''Comandante'', ''Coronel'', ''General'']"

definition VALID_OUTCOMES :: "string list" where
  "VALID_OUTCOMES = [''win'', ''loss'', ''draw'', ''retired'']"

abbreviation boundedInt :: "json \<Rightarrow> int" where
  "boundedInt \<equiv> whole_nonneg"

record encounter_entry =
  en_id :: string
  en_outcome :: string
  en_at :: int
  en_campaignSeed :: "string option"
  en_nodeId :: "string option"
  en_nodeLabel :: "string option"

record officer_record =
  or_officerId :: string
  or_encounters :: int
  or_playerWins :: int
  or_officerWins :: int
  or_draws :: int
  or_retreats :: int
  or_firstSeenAt :: int
  or_lastSeenAt :: int
  or_lastOutcome :: "string option"
  or_lastCampaignSeed :: "string option"
  or_lastNodeId :: "string option"
  or_lastNodeLabel :: "string option"
  or_recentEncounters :: "encounter_entry list"

text \<open>\<open>v ? String(v) : null\<close>, \<open>String(v || '')\<close>, and an outcome of the four or \<open>null\<close>.\<close>

definition truthy_text_of :: "json \<Rightarrow> string option" where
  "truthy_text_of v = (if truthy v then Some (json_string v) else None)"

definition text_of :: "json \<Rightarrow> string" where
  "text_of v = json_string (or_else_json v (JStr []))"

definition valid_outcome :: "json \<Rightarrow> string option" where
  "valid_outcome v = (case v of JStr s \<Rightarrow> if s \<in> set VALID_OUTCOMES then Some s else None | _ \<Rightarrow> None)"

definition normal_entry :: "json \<Rightarrow> encounter_entry option" where
  "normal_entry e =
     (case valid_outcome (field ''outcome'' e) of
        None \<Rightarrow> None
      | Some outcome \<Rightarrow> if text_of (field ''id'' e) = [] then None
          else Some \<lparr>en_id = text_of (field ''id'' e), en_outcome = outcome, en_at = boundedInt (field ''at'' e),
                     en_campaignSeed = truthy_text_of (field ''campaignSeed'' e),
                     en_nodeId = truthy_text_of (field ''nodeId'' e),
                     en_nodeLabel = truthy_text_of (field ''nodeLabel'' e)\<rparr>)"

definition normalizeOfficerRecord :: "json \<Rightarrow> officer_record" where
  "normalizeOfficerRecord v =
     \<lparr>or_officerId = text_of (field ''officerId'' v), or_encounters = boundedInt (field ''encounters'' v),
      or_playerWins = boundedInt (field ''playerWins'' v), or_officerWins = boundedInt (field ''officerWins'' v),
      or_draws = boundedInt (field ''draws'' v), or_retreats = boundedInt (field ''retreats'' v),
      or_firstSeenAt = boundedInt (field ''firstSeenAt'' v), or_lastSeenAt = boundedInt (field ''lastSeenAt'' v),
      or_lastOutcome = valid_outcome (field ''lastOutcome'' v),
      or_lastCampaignSeed = truthy_text_of (field ''lastCampaignSeed'' v),
      or_lastNodeId = truthy_text_of (field ''lastNodeId'' v),
      or_lastNodeLabel = truthy_text_of (field ''lastNodeLabel'' v),
      or_recentEncounters = List.map_filter normal_entry (take 10 (elements (field ''recentEncounters'' v)))\<rparr>"

definition null_text :: "string option \<Rightarrow> json" where
  "null_text w = (case w of None \<Rightarrow> JNull | Some s \<Rightarrow> JStr s)"

definition entry_json :: "encounter_entry \<Rightarrow> json" where
  "entry_json e = JObj
     [(''id'', JStr (en_id e)), (''outcome'', JStr (en_outcome e)), (''at'', JInt (en_at e)),
      (''campaignSeed'', null_text (en_campaignSeed e)), (''nodeId'', null_text (en_nodeId e)),
      (''nodeLabel'', null_text (en_nodeLabel e))]"

definition record_fields :: "officer_record \<Rightarrow> (string \<times> json) list" where
  "record_fields r =
     [(''officerId'', JStr (or_officerId r)), (''encounters'', JInt (or_encounters r)),
      (''playerWins'', JInt (or_playerWins r)), (''officerWins'', JInt (or_officerWins r)),
      (''draws'', JInt (or_draws r)), (''retreats'', JInt (or_retreats r)),
      (''firstSeenAt'', JInt (or_firstSeenAt r)), (''lastSeenAt'', JInt (or_lastSeenAt r)),
      (''lastOutcome'', null_text (or_lastOutcome r)), (''lastCampaignSeed'', null_text (or_lastCampaignSeed r)),
      (''lastNodeId'', null_text (or_lastNodeId r)), (''lastNodeLabel'', null_text (or_lastNodeLabel r)),
      (''recentEncounters'', JArr (map entry_json (or_recentEncounters r)))]"

section \<open>Promotions\<close>

record service_rank =
  sk_rank :: string
  sk_baseRank :: string
  sk_serviceScore :: int
  sk_promotions :: nat
  sk_nextPromotionIn :: "int option"

definition officer_rank_index :: "string \<Rightarrow> nat" where
  "officer_rank_index rank = (case find_index (\<lambda>r. r = rank) OFFICER_RANKS of None \<Rightarrow> 0 | Some i \<Rightarrow> i)"

definition service_score :: "officer_record \<Rightarrow> int" where
  "service_score r = or_officerWins r * 3 + or_draws r + min 2 (or_encounters r div 4)"

definition officerServiceRank :: "officer \<Rightarrow> officer_record \<Rightarrow> service_rank" where
  "officerServiceRank officer r =
     (let baseIndex = officer_rank_index (oc_rank officer);
          serviceScore = service_score r;
          earnedSteps = (if 10 \<le> serviceScore then 2 else if 4 \<le> serviceScore then 1 else 0);
          rankIndex = min (length OFFICER_RANKS - 1) (baseIndex + earnedSteps);
          promotions = rankIndex - baseIndex;
          nextThreshold = (if length OFFICER_RANKS - 1 \<le> rankIndex then None
                           else if serviceScore < 4 then Some 4 else if serviceScore < 10 then Some 10 else None)
      in \<lparr>sk_rank = OFFICER_RANKS ! rankIndex, sk_baseRank = oc_rank officer, sk_serviceScore = serviceScore,
          sk_promotions = promotions,
          sk_nextPromotionIn = map_option (\<lambda>t. max 0 (t - serviceScore)) nextThreshold\<rparr>)"

section \<open>The stored history\<close>

type_synonym officer_history = "(string \<times> officer_record) list"

definition history_json :: "officer_history \<Rightarrow> json" where
  "history_json h = JObj (map (\<lambda>(i, r). (i, JObj (record_fields r))) h)"

definition loadEnemyOfficerHistory :: "json_api \<Rightarrow> store \<Rightarrow> string + officer_history" where
  "loadEnemyOfficerHistory js st =
     (case read_json js COMBAT_ENEMY_OFFICERS_KEY (JObj []) st of
        JObj kvs \<Rightarrow>
          if list_ex (\<lambda>(i, v). v = JNull) kvs then Inl ''TypeError''
          else Inr (filter (\<lambda>(i, r). i \<noteq> [] \<and> or_officerId r = i) (map (\<lambda>(i, v). (i, normalizeOfficerRecord v)) kvs))
      | _ \<Rightarrow> Inr [])"

record officer_node =
  on_id :: string
  on_type :: string
  on_stage :: int
  on_lane :: int
  on_label :: string

definition officerPoolForNode :: "officer_node \<Rightarrow> officer list" where
  "officerPoolForNode node = (if on_type node = ''elite'' then drop 2 OFFICERS else OFFICERS)"

definition enemyOfficerForNode :: "string \<Rightarrow> officer_node \<Rightarrow> officer option" where
  "enemyOfficerForNode campaignSeed node =
     (if campaignSeed = [] \<or> on_type node \<notin> {''battle'', ''elite''} then None
      else let pool = officerPoolForNode node;
               roll = seededUnit (''enemy-officer:'' @ campaignSeed @ '':'' @ show_int (on_stage node) @ '':'' @ show_int (on_lane node)) 1
           in nth_opt pool (min (length pool - 1) (nat \<lfloor>fmul roll (of_nat (length pool))\<rfloor>)))"

text \<open>\<open>/^campaign:([^:]+):(s(\\d+)-l(\\d+)-(battle|elite|boss))$/\<close> on the session id.\<close>

definition node_parts :: "string \<Rightarrow> (string \<times> string \<times> string) option" where
  "node_parts nodeId =
     (case nodeId of
        c # r \<Rightarrow>
          (let stage = takeWhile is_digit r; r1 = dropWhile is_digit r; r2 = drop 2 r1;
               lane = takeWhile is_digit r2; r3 = dropWhile is_digit r2
           in if c = CHR ''s'' \<and> stage \<noteq> [] \<and> take 2 r1 = ''-l'' \<and> lane \<noteq> [] \<and> take 1 r3 = ''-'' \<and>
                 drop 1 r3 \<in> {''battle'', ''elite'', ''boss''}
              then Some (stage, lane, drop 1 r3) else None)
      | [] \<Rightarrow> None)"

definition campaignOfficerContext :: "json \<Rightarrow> json \<Rightarrow> (string \<times> officer_node) option" where
  "campaignOfficerContext combatSessionId nodeLabel =
     (case split_on (CHR '':'') (text_of combatSessionId) of
        [p, campaignSeed, nodeId] \<Rightarrow>
          if p \<noteq> ''campaign'' \<or> campaignSeed = [] then None
          else (case node_parts nodeId of
                  None \<Rightarrow> None
                | Some (stage, lane, type) \<Rightarrow>
                    if type = ''boss'' then None
                    else Some (campaignSeed, \<lparr>on_id = nodeId, on_type = type, on_stage = digits_val stage,
                      on_lane = digits_val lane, on_label = json_string (or_else_json nodeLabel (JStr nodeId))\<rparr>))
      | _ \<Rightarrow> None)"

section \<open>Briefings and dossiers\<close>

record briefing =
  br_officer :: officer
  br_service :: service_rank
  br_known :: bool
  br_record :: officer_record
  br_score :: "string option"
  br_note :: string

definition score_text :: "officer_record \<Rightarrow> string" where
  "score_text r = show_int (or_playerWins r) @ [CHR 0xE2, CHR 0x80, CHR 0x93] @ show_int (or_officerWins r)"

definition record_of :: "officer_history \<Rightarrow> string \<Rightarrow> officer_record" where
  "record_of h i = (case map_of h i of
     None \<Rightarrow> normalizeOfficerRecord JUndef | Some r \<Rightarrow> normalizeOfficerRecord (JObj (record_fields r)))"

definition result_note :: "officer_record \<Rightarrow> string" where
  "result_note r =
     (let balance = ('' '' @ [CHR 0xB7] @ '' balance '') @ score_text r
            @ (if 0 < or_draws r then ('' '' @ [CHR 0xB7] @ '' '') @ show_int (or_draws r) @ '' tablas'' else []) @ ''.''
      in if or_encounters r \<le> 0 then ''Primer contacto confirmado.''
         else if or_lastOutcome r = Some ''loss'' then (''Te venci'' @ [CHR 0xF3] @ '' la '' @ [CHR 0xFA] @ ''ltima vez'') @ balance
         else if or_lastOutcome r = Some ''win'' then (''Lo venciste la '' @ [CHR 0xFA] @ ''ltima vez'') @ balance
         else if or_lastOutcome r = Some ''draw'' then (''La '' @ [CHR 0xFA] @ ''ltima qued'' @ [CHR 0xF3] @ '' en tablas'') @ balance
         else ([CHR 0xDA] @ ''ltimo contacto: retirada'') @ balance)"

definition enemyOfficerBriefing :: "string \<Rightarrow> officer_node \<Rightarrow> officer_history \<Rightarrow> briefing option" where
  "enemyOfficerBriefing campaignSeed node history =
     (case enemyOfficerForNode campaignSeed node of
        None \<Rightarrow> None
      | Some officer \<Rightarrow>
          (let r = record_of history (oc_id officer);
               known = 0 < or_encounters r;
               service = officerServiceRank officer r;
               promotion = (if 0 < sk_promotions service
                 then '' Ascendido '' @ (if sk_promotions service = 1 then ''una vez'' else show_nat (sk_promotions service) @ '' veces'')
                      @ '' por servicio registrado.'' else [])
           in Some \<lparr>br_officer = officer, br_service = service, br_known = known, br_record = r,
                br_score = (if known then Some (score_text r) else None),
                br_note = result_note r @ promotion
                  @ '' El rango es expediente narrativo: no altera la fuerza de la CPU.''\<rparr>))"

definition dossier_before :: "(string \<Rightarrow> string \<Rightarrow> bool) \<Rightarrow> officer \<times> officer_record \<Rightarrow> officer \<times> officer_record \<Rightarrow> bool" where
  "dossier_before collate a b =
     (if or_lastSeenAt (snd a) \<noteq> or_lastSeenAt (snd b) then or_lastSeenAt (snd b) < or_lastSeenAt (snd a)
      else if or_encounters (snd a) \<noteq> or_encounters (snd b) then or_encounters (snd b) < or_encounters (snd a)
      else collate (oc_name (fst a)) (oc_name (fst b)))"

definition enemyOfficerDossiers ::
  "(string \<Rightarrow> string \<Rightarrow> bool) \<Rightarrow> officer_history \<Rightarrow> (officer \<times> service_rank \<times> string \<times> officer_record) list" where
  "enemyOfficerDossiers collate history =
     map (\<lambda>(officer, r). (officer, officerServiceRank officer r, score_text r, r))
       (sort_stable (dossier_before collate)
         (filter (\<lambda>(_, r). 0 < or_encounters r) (map (\<lambda>officer. (officer, record_of history (oc_id officer))) OFFICERS)))"

section \<open>Recording an encounter\<close>

definition counted :: "bool \<Rightarrow> int" where
  "counted b = (if b then 1 else 0)"

definition next_record :: "officer \<Rightarrow> officer_record \<Rightarrow> encounter_entry \<Rightarrow> officer_record" where
  "next_record officer current e =
     \<lparr>or_officerId = oc_id officer, or_encounters = or_encounters current + 1,
      or_playerWins = or_playerWins current + counted (en_outcome e = ''win''),
      or_officerWins = or_officerWins current + counted (en_outcome e = ''loss''),
      or_draws = or_draws current + counted (en_outcome e = ''draw''),
      or_retreats = or_retreats current + counted (en_outcome e = ''retired''),
      or_firstSeenAt = (if or_firstSeenAt current \<noteq> 0 then or_firstSeenAt current else en_at e),
      or_lastSeenAt = en_at e, or_lastOutcome = Some (en_outcome e),
      or_lastCampaignSeed = en_campaignSeed e, or_lastNodeId = en_nodeId e, or_lastNodeLabel = en_nodeLabel e,
      or_recentEncounters = take 10 (e # or_recentEncounters current)\<rparr>"

definition current_record :: "officer_history \<Rightarrow> string \<Rightarrow> officer_record" where
  "current_record history i =
     normalizeOfficerRecord (JObj (fold (\<lambda>(k, v). obj_put k v)
       (case map_of history i of None \<Rightarrow> [] | Some r \<Rightarrow> record_fields r) [(''officerId'', JStr i)]))"

definition recordEnemyOfficerEncounter ::
  "json_api \<Rightarrow> string \<Rightarrow> officer_node \<Rightarrow> json \<Rightarrow> json \<Rightarrow> json \<Rightarrow> store \<Rightarrow> (string + officer_history) \<times> store" where
  "recordEnemyOfficerEncounter js campaignSeed node outcome encounterId now st =
     (case valid_outcome outcome of
        None \<Rightarrow> (loadEnemyOfficerHistory js st, st)
      | Some oc \<Rightarrow>
          if \<not> truthy encounterId then (loadEnemyOfficerHistory js st, st)
          else case enemyOfficerForNode campaignSeed node of
            None \<Rightarrow> (loadEnemyOfficerHistory js st, st)
          | Some officer \<Rightarrow>
              (case loadEnemyOfficerHistory js st of
                 Inl e \<Rightarrow> (Inl e, st)
               | Inr history \<Rightarrow>
                   (let current = current_record history (oc_id officer)
                    in if list_ex (\<lambda>e. en_id e = json_string encounterId) (or_recentEncounters current)
                       then (Inr history, st)
                       else let e = \<lparr>en_id = json_string encounterId, en_outcome = oc, en_at = boundedInt now,
                                     en_campaignSeed = Some campaignSeed, en_nodeId = Some (on_id node),
                                     en_nodeLabel = Some (on_label node)\<rparr>;
                                nxt = obj_put (oc_id officer) (next_record officer current e) history
                            in (Inr nxt, st(COMBAT_ENEMY_OFFICERS_KEY \<mapsto> stringify js (history_json nxt))))))"

definition recordEnemyOfficerSessionEncounter ::
  "json_api \<Rightarrow> json \<Rightarrow> json \<Rightarrow> json \<Rightarrow> json \<Rightarrow> json \<Rightarrow> store \<Rightarrow> (string + officer_history) \<times> store" where
  "recordEnemyOfficerSessionEncounter js combatSessionId encounterLabel outcome encounterId now st =
     (case campaignOfficerContext combatSessionId encounterLabel of
        None \<Rightarrow> (loadEnemyOfficerHistory js st, st)
      | Some (campaignSeed, node) \<Rightarrow> recordEnemyOfficerEncounter js campaignSeed node outcome encounterId now st)"

section \<open>Records come back from the storage\<close>

definition clean_text :: "string option \<Rightarrow> string option" where
  "clean_text w = (if w = Some [] then None else w)"

definition clean_entry :: "encounter_entry \<Rightarrow> encounter_entry" where
  "clean_entry e = e\<lparr>en_campaignSeed := clean_text (en_campaignSeed e), en_nodeId := clean_text (en_nodeId e),
     en_nodeLabel := clean_text (en_nodeLabel e)\<rparr>"

text \<open>What a reload makes of a record: empty texts become \<open>null\<close>.\<close>

definition clean_record :: "officer_record \<Rightarrow> officer_record" where
  "clean_record r = r\<lparr>or_lastCampaignSeed := clean_text (or_lastCampaignSeed r),
     or_lastNodeId := clean_text (or_lastNodeId r), or_lastNodeLabel := clean_text (or_lastNodeLabel r),
     or_recentEncounters := map clean_entry (or_recentEncounters r)\<rparr>"

definition entry_ok :: "encounter_entry \<Rightarrow> bool" where
  "entry_ok e \<longleftrightarrow> en_id e \<noteq> [] \<and> en_outcome e \<in> set VALID_OUTCOMES \<and> 0 \<le> en_at e"

text \<open>A record in order: its encounters are its results, its last encounters are at most ten different ones.\<close>

definition record_ok :: "officer_record \<Rightarrow> bool" where
  "record_ok r \<longleftrightarrow>
     0 \<le> or_playerWins r \<and> 0 \<le> or_officerWins r \<and> 0 \<le> or_draws r \<and> 0 \<le> or_retreats r \<and>
     or_encounters r = or_playerWins r + or_officerWins r + or_draws r + or_retreats r \<and>
     0 \<le> or_firstSeenAt r \<and> 0 \<le> or_lastSeenAt r \<and>
     (\<forall>oc. or_lastOutcome r = Some oc \<longrightarrow> oc \<in> set VALID_OUTCOMES) \<and>
     list_all entry_ok (or_recentEncounters r) \<and> length (or_recentEncounters r) \<le> 10 \<and>
     distinct (map en_id (or_recentEncounters r))"

lemma null_text_simps [simp]:
  "truthy_text_of (null_text w) = clean_text w"
  by (cases w) (auto simp: truthy_text_of_def null_text_def truthy_def clean_text_def)

lemma text_of_JStr [simp]: "text_of (JStr s) = s"
  by (simp add: text_of_def or_else_json_def truthy_def)

lemma valid_outcome_null_text: "(\<forall>oc. w = Some oc \<longrightarrow> oc \<in> set VALID_OUTCOMES) \<Longrightarrow> valid_outcome (null_text w) = w"
  by (cases w) (auto simp: valid_outcome_def null_text_def)

lemma normal_entry_json: "entry_ok e \<Longrightarrow> normal_entry (entry_json e) = Some (clean_entry e)"
  by (simp add: normal_entry_def entry_json_def entry_ok_def clean_entry_def valid_outcome_def)

lemma normal_entries: "list_all entry_ok es \<Longrightarrow> List.map_filter normal_entry (map entry_json es) = map clean_entry es"
  by (induction es) (simp_all add: normal_entry_json)

lemma normalize_written_record: "record_ok r \<Longrightarrow> normalizeOfficerRecord (JObj (record_fields r)) = clean_record r"
  by (simp add: normalizeOfficerRecord_def record_fields_def record_ok_def clean_record_def valid_outcome_null_text
      normal_entries del: of_int_add)

lemma clean_idem [simp]:
  "clean_text (clean_text w) = clean_text w" "clean_entry (clean_entry e) = clean_entry e"
  "clean_record (clean_record r) = clean_record r"
  by (simp_all add: clean_text_def clean_entry_def clean_record_def)

lemma entry_ok_clean [simp]: "entry_ok (clean_entry e) = entry_ok e"
  by (simp add: entry_ok_def clean_entry_def)

lemma record_ok_clean [simp]: "record_ok (clean_record r) = record_ok r"
proof -
  have "en_id \<circ> clean_entry = en_id" by (auto simp: clean_entry_def)
  then show ?thesis by (simp add: record_ok_def clean_record_def list_all_iff)
qed

lemma clean_record_simps [simp]:
  "or_officerId (clean_record r) = or_officerId r" "or_encounters (clean_record r) = or_encounters r"
  "or_officerWins (clean_record r) = or_officerWins r" "or_draws (clean_record r) = or_draws r"
  "service_score (clean_record r) = service_score r"
  by (simp_all add: clean_record_def service_score_def)

definition history_ok :: "officer_history \<Rightarrow> bool" where
  "history_ok h \<longleftrightarrow> obj_wf h \<and> (\<forall>(i, r) \<in> set h. i \<in> oc_id ` set OFFICERS \<and> or_officerId r = i \<and> record_ok r)"

definition cleaned :: "officer_history \<Rightarrow> officer_history" where
  "cleaned h = map (\<lambda>(i, r). (i, clean_record r)) h"

lemma officer_ids_nonempty: "i \<in> oc_id ` set OFFICERS \<Longrightarrow> i \<noteq> []"
  by (auto simp: OFFICERS_def)

lemma history_ok_cleaned: "history_ok h \<Longrightarrow> history_ok (cleaned h)"
  by (auto simp: history_ok_def cleaned_def case_prod_beta comp_def)

lemma load_written_history:
  assumes "survives js (history_json h)" "history_ok h"
  shows "loadEnemyOfficerHistory js (st(COMBAT_ENEMY_OFFICERS_KEY \<mapsto> stringify js (history_json h))) = Inr (cleaned h)"
proof -
  have r: "read_json js COMBAT_ENEMY_OFFICERS_KEY (JObj []) (st(COMBAT_ENEMY_OFFICERS_KEY \<mapsto> stringify js (history_json h)))
      = history_json h"
    by (rule read_json_written [OF assms(1)])
  have "filter (\<lambda>(i, r). i \<noteq> [] \<and> or_officerId r = i)
      (map (\<lambda>(i, v). (i, normalizeOfficerRecord v)) (map (\<lambda>(i, r). (i, JObj (record_fields r))) h)) = cleaned h"
    using assms(2) officer_ids_nonempty
    by (induction h) (auto simp: cleaned_def history_ok_def normalize_written_record)
  moreover have "\<not> list_ex (\<lambda>(i, v). v = JNull) (map (\<lambda>(i, r). (i, JObj (record_fields r))) h)"
    by (auto simp: list_ex_iff)
  ultimately show ?thesis
    unfolding loadEnemyOfficerHistory_def r by (simp add: history_json_def)
qed

section \<open>What recording guarantees\<close>

lemma zero_record:
  "normalizeOfficerRecord (JObj [(''officerId'', JStr i)]) =
   \<lparr>or_officerId = i, or_encounters = 0, or_playerWins = 0, or_officerWins = 0, or_draws = 0, or_retreats = 0,
    or_firstSeenAt = 0, or_lastSeenAt = 0, or_lastOutcome = None, or_lastCampaignSeed = None, or_lastNodeId = None,
    or_lastNodeLabel = None, or_recentEncounters = []\<rparr>"
  by (simp add: normalizeOfficerRecord_def whole_nonneg_def json_number_def valid_outcome_def truthy_text_of_def truthy_def
      elements_def)

lemma current_record_known:
  assumes "history_ok h" "map_of h i = Some r"
  shows "current_record h i = clean_record r"
proof -
  have r: "or_officerId r = i" "record_ok r" using assms map_of_SomeD by (fastforce simp: history_ok_def)+
  have "fold (\<lambda>(k, v). obj_put k v) (record_fields r) [(''officerId'', JStr i)] = record_fields r"
    using r(1) by (simp add: record_fields_def)
  then show ?thesis using assms(2) normalize_written_record [OF r(2)] by (simp add: current_record_def)
qed

lemma current_record_ok: "history_ok h \<Longrightarrow> record_ok (current_record h i)"
proof (cases "map_of h i")
  case None
  then show ?thesis by (simp add: current_record_def zero_record record_ok_def)
next
  case (Some r)
  assume h: "history_ok h"
  then have "record_ok r" using Some map_of_SomeD by (fastforce simp: history_ok_def)
  then show ?thesis by (simp add: current_record_known [OF h Some])
qed

lemma next_record_ok:
  assumes "record_ok r" "entry_ok e" "\<not> list_ex (\<lambda>x. en_id x = en_id e) (or_recentEncounters r)"
  shows "record_ok (next_record officer r e)"
proof -
  have results: "counted (en_outcome e = ''win'') + counted (en_outcome e = ''loss'') + counted (en_outcome e = ''draw'') +
      counted (en_outcome e = ''retired'') = 1"
    using assms(2) by (auto simp: entry_ok_def VALID_OUTCOMES_def counted_def)
  have nonneg: "0 \<le> counted b" for b by (simp add: counted_def)
  have "distinct (map en_id (take 9 (or_recentEncounters r)))"
    using assms(1) by (simp add: record_ok_def take_map [symmetric])
  moreover have "en_id e \<notin> en_id ` set (take 9 (or_recentEncounters r))"
    using assms(3) by (auto simp: list_ex_iff dest: in_set_takeD)
  moreover have "list_all entry_ok (take 9 (or_recentEncounters r))"
    using assms(1) by (auto simp: record_ok_def list_all_iff dest: in_set_takeD)
  ultimately show ?thesis
    using assms results nonneg [of "en_outcome e = ''win''"] nonneg [of "en_outcome e = ''loss''"]
      nonneg [of "en_outcome e = ''draw''"] nonneg [of "en_outcome e = ''retired''"]
    by (simp add: record_ok_def next_record_def entry_ok_def take_Cons')
qed

text \<open>A history whose counts are at most \<open>n\<close> and whose times are below \<open>2 ^ 53\<close>.\<close>

definition record_bound :: "nat \<Rightarrow> officer_record \<Rightarrow> bool" where
  "record_bound n r \<longleftrightarrow> or_encounters r \<le> int n \<and> or_firstSeenAt r < 2 ^ 53 \<and> or_lastSeenAt r < 2 ^ 53 \<and>
     list_all (\<lambda>e. en_at e < 2 ^ 53) (or_recentEncounters r)"

definition history_bound :: "nat \<Rightarrow> officer_history \<Rightarrow> bool" where
  "history_bound n h \<longleftrightarrow> list_all (\<lambda>(i, r). record_bound n r) h"

text \<open>What the module needs of \<open>JSON\<close>: histories whose whole numbers are doubles, below \<open>2 ^ 53\<close>, come back.\<close>

definition history_api :: "json_api \<Rightarrow> bool" where
  "history_api js \<longleftrightarrow> (\<forall>h. history_ok h \<and> history_bound (2 ^ 53 - 1) h \<longrightarrow> survives js (history_json h))"

lemma history_coded_json: "history_api coded_json"
  by (simp add: history_api_def)

definition encounter_of :: "string \<Rightarrow> officer_node \<Rightarrow> string \<Rightarrow> string \<Rightarrow> json \<Rightarrow> encounter_entry" where
  "encounter_of campaignSeed node oc i now =
     \<lparr>en_id = i, en_outcome = oc, en_at = boundedInt now, en_campaignSeed = Some campaignSeed,
      en_nodeId = Some (on_id node), en_nodeLabel = Some (on_label node)\<rparr>"

definition after_encounter :: "officer_history \<Rightarrow> string \<Rightarrow> officer_node \<Rightarrow> string \<Rightarrow> string \<Rightarrow> json \<Rightarrow> officer_history" where
  "after_encounter h campaignSeed node oc i now =
     (case enemyOfficerForNode campaignSeed node of
        None \<Rightarrow> h
      | Some officer \<Rightarrow>
          (let r = current_record h (oc_id officer)
           in if list_ex (\<lambda>e. en_id e = i) (or_recentEncounters r) then h
              else obj_put (oc_id officer) (next_record officer r (encounter_of campaignSeed node oc i now)) h))"

lemma pool_officers: "enemyOfficerForNode campaignSeed node = Some officer \<Longrightarrow> officer \<in> set OFFICERS"
proof -
  assume "enemyOfficerForNode campaignSeed node = Some officer"
  then have "officer \<in> set (officerPoolForNode node)"
    by (auto simp: enemyOfficerForNode_def Let_def nth_opt_def split: if_splits)
  then show ?thesis by (auto simp: officerPoolForNode_def split: if_splits dest: in_set_dropD)
qed

text \<open>Every battle and every elite node of a campaign has its officer.\<close>

lemma officer_found:
  "campaignSeed \<noteq> [] \<Longrightarrow> on_type node \<in> {''battle'', ''elite''} \<Longrightarrow>
   \<exists>officer. enemyOfficerForNode campaignSeed node = Some officer"
proof -
  have "0 < length (officerPoolForNode node)" by (simp add: officerPoolForNode_def OFFICERS_def)
  then have "\<And>x. min (length (officerPoolForNode node) - Suc 0) x < length (officerPoolForNode node)" by linarith
  then show "campaignSeed \<noteq> [] \<Longrightarrow> on_type node \<in> {''battle'', ''elite''} \<Longrightarrow>
      \<exists>officer. enemyOfficerForNode campaignSeed node = Some officer"
    by (auto simp: enemyOfficerForNode_def Let_def nth_opt_def)
qed

lemma history_ok_put:
  "history_ok h \<Longrightarrow> i \<in> oc_id ` set OFFICERS \<Longrightarrow> or_officerId r = i \<Longrightarrow> record_ok r \<Longrightarrow> history_ok (obj_put i r h)"
proof -
  assume h: "history_ok h" "i \<in> oc_id ` set OFFICERS" "or_officerId r = i" "record_ok r"
  have wf: "obj_wf (obj_put i r h)" using h(1) by (simp add: history_ok_def distinct_update)
  have "or_officerId x = j \<and> j \<in> oc_id ` set OFFICERS \<and> record_ok x" if "(j, x) \<in> set (obj_put i r h)" for j x
  proof -
    have "map_of (obj_put i r h) j = Some x" by (rule map_of_is_SomeI [OF wf that])
    then show ?thesis using h map_of_SomeD [of h j x] by (auto simp: history_ok_def split: if_splits)
  qed
  then show ?thesis using wf by (auto simp: history_ok_def)
qed

lemma history_ok_after:
  assumes "history_ok h" "oc \<in> set VALID_OUTCOMES" "i \<noteq> []"
  shows "history_ok (after_encounter h campaignSeed node oc i now)"
proof (cases "enemyOfficerForNode campaignSeed node")
  case None
  then show ?thesis using assms(1) by (simp add: after_encounter_def)
next
  case (Some officer)
  let ?e = "encounter_of campaignSeed node oc i now" and ?r = "current_record h (oc_id officer)"
  have e: "entry_ok ?e" "en_id ?e = i" using assms by (simp_all add: entry_ok_def encounter_of_def)
  show ?thesis
  proof (cases "list_ex (\<lambda>e. en_id e = i) (or_recentEncounters ?r)")
    case False
    have "record_ok (next_record officer ?r ?e)"
      using next_record_ok [OF current_record_ok [OF assms(1)] e(1)] False e(2) by simp
    then have "history_ok (obj_put (oc_id officer) (next_record officer ?r ?e) h)"
      using pool_officers [OF Some] by (intro history_ok_put [OF assms(1)]) (auto simp: next_record_def)
    then show ?thesis using Some False by (simp add: after_encounter_def Let_def)
  qed (use Some assms(1) in \<open>simp add: after_encounter_def\<close>)
qed

lemma recorded:
  assumes "loadEnemyOfficerHistory js st = Inr h" "oc \<in> set VALID_OUTCOMES" "i \<noteq> []"
  shows "fst (recordEnemyOfficerEncounter js campaignSeed node (JStr oc) (JStr i) now st) =
      Inr (after_encounter h campaignSeed node oc i now)"
    "snd (recordEnemyOfficerEncounter js campaignSeed node (JStr oc) (JStr i) now st) = st \<and>
       after_encounter h campaignSeed node oc i now = h \<or>
     snd (recordEnemyOfficerEncounter js campaignSeed node (JStr oc) (JStr i) now st) =
       st(COMBAT_ENEMY_OFFICERS_KEY \<mapsto> stringify js (history_json (after_encounter h campaignSeed node oc i now)))"
  using assms
  by (auto simp: recordEnemyOfficerEncounter_def valid_outcome_def truthy_def after_encounter_def encounter_of_def
      Let_def split: option.splits)

text \<open>An encounter adds one to the counts.\<close>

lemma record_bound_mono: "record_bound m r \<Longrightarrow> m \<le> n \<Longrightarrow> record_bound n r"
  by (simp add: record_bound_def)

lemma record_bound_clean [simp]: "record_bound n (clean_record r) = record_bound n r"
  by (simp add: record_bound_def clean_record_def list_all_iff clean_entry_def)

lemma history_bound_cleaned [simp]: "history_bound n (cleaned h) = history_bound n h"
  by (induction h) (auto simp: history_bound_def cleaned_def)

lemma history_bound_mono: "history_bound m h \<Longrightarrow> m \<le> n \<Longrightarrow> history_bound n h"
  unfolding history_bound_def using record_bound_mono by (auto simp: list_all_iff)

lemma current_record_bound: "history_ok h \<Longrightarrow> history_bound n h \<Longrightarrow> record_bound n (current_record h i)"
proof (cases "map_of h i")
  case None
  then show ?thesis by (simp add: current_record_def zero_record record_bound_def)
next
  case (Some r)
  assume h: "history_ok h" "history_bound n h"
  then have "record_bound n r" using map_of_SomeD [OF Some] by (auto simp: history_bound_def list_all_iff)
  then show ?thesis by (simp add: current_record_known [OF h(1) Some])
qed

lemma next_record_bound: "record_bound n r \<Longrightarrow> en_at e < 2 ^ 53 \<Longrightarrow> record_bound (Suc n) (next_record officer r e)"
  by (auto simp: record_bound_def next_record_def list_all_iff take_Cons' dest: in_set_takeD)

lemma history_bound_after:
  assumes "history_ok h" "history_bound n h" "whole_nonneg now < 2 ^ 53"
  shows "history_bound (Suc n) (after_encounter h campaignSeed node oc i now)"
proof -
  have e: "en_at (encounter_of campaignSeed node oc i now) < 2 ^ 53" using assms(3) by (simp add: encounter_of_def)
  have put: "history_bound (Suc n) (obj_put j r h)" if "record_bound (Suc n) r" for j r
  proof -
    have "set (obj_put j r h) \<subseteq> insert (j, r) (set h)" by (induction h) auto
    then show ?thesis using that history_bound_mono [OF assms(2), of "Suc n"] by (auto simp: history_bound_def list_all_iff)
  qed
  show ?thesis
    using put [OF next_record_bound [OF current_record_bound [OF assms(1,2)] e]] history_bound_mono [OF assms(2), of "Suc n"]
    by (simp add: after_encounter_def Let_def split: option.split)
qed

text \<open>A stored history is one that was written by the module, or none.\<close>

definition stored_history :: "json_api \<Rightarrow> officer_history \<Rightarrow> store \<Rightarrow> bool" where
  "stored_history js h st \<longleftrightarrow> loadEnemyOfficerHistory js st = Inr h \<and> history_ok h"

lemma stored_after:
  assumes "history_api js" "stored_history js h st" "oc \<in> set VALID_OUTCOMES" "i \<noteq> []"
    and "history_bound n h" "n < 2 ^ 53 - 1" "whole_nonneg now < 2 ^ 53"
  shows "\<exists>h'. stored_history js h' (snd (recordEnemyOfficerEncounter js campaignSeed node (JStr oc) (JStr i) now st)) \<and>
     (h' = after_encounter h campaignSeed node oc i now \<or> h' = cleaned (after_encounter h campaignSeed node oc i now))"
proof -
  let ?h = "after_encounter h campaignSeed node oc i now"
  have ok: "history_ok ?h" using history_ok_after assms(2-4) by (simp add: stored_history_def)
  have "history_bound (2 ^ 53 - 1) ?h"
    using history_bound_after [of h n now campaignSeed node oc i] assms(2,5-7) history_bound_mono [of "Suc n" ?h "2 ^ 53 - 1"]
    by (simp add: stored_history_def)
  then have live: "survives js (history_json ?h)" using assms(1) ok by (simp add: history_api_def)
  have load: "loadEnemyOfficerHistory js st = Inr h" using assms(2) by (simp add: stored_history_def)
  from recorded(2) [OF load assms(3,4), of campaignSeed node now] show ?thesis
  proof
    assume "snd (recordEnemyOfficerEncounter js campaignSeed node (JStr oc) (JStr i) now st) = st \<and> ?h = h"
    then show ?thesis using assms(2) by auto
  next
    assume "snd (recordEnemyOfficerEncounter js campaignSeed node (JStr oc) (JStr i) now st) =
       st(COMBAT_ENEMY_OFFICERS_KEY \<mapsto> stringify js (history_json ?h))"
    then show ?thesis
      using load_written_history [OF live ok, of st] history_ok_cleaned [OF ok] by (auto simp: stored_history_def)
  qed
qed

definition encounters_of :: "officer_history \<Rightarrow> int" where
  "encounters_of h = sum_list (map (or_encounters \<circ> snd) h)"

lemma encounters_put: "obj_wf h \<Longrightarrow> encounters_of (obj_put i r h) =
    encounters_of h + or_encounters r - (case map_of h i of None \<Rightarrow> 0 | Some x \<Rightarrow> or_encounters x)"
proof (induction h)
  case (Cons p h)
  then show ?case by (cases p) (auto simp: encounters_of_def map_of_eq_None_iff split: option.splits)
qed (simp add: encounters_of_def)

lemma encounters_after:
  assumes "history_ok h"
  shows "encounters_of (after_encounter h campaignSeed node oc i now) \<le> encounters_of h + 1"
proof (cases "enemyOfficerForNode campaignSeed node")
  case (Some officer)
  have "or_encounters (current_record h (oc_id officer)) =
      (case map_of h (oc_id officer) of None \<Rightarrow> 0 | Some x \<Rightarrow> or_encounters x)"
    using current_record_known [OF assms]
    by (cases "map_of h (oc_id officer)") (simp_all add: current_record_def zero_record)
  then show ?thesis
    using Some assms encounters_put [of h "oc_id officer"]
    by (simp add: after_encounter_def Let_def history_ok_def next_record_def)
qed (simp add: after_encounter_def)

lemma encounters_cleaned [simp]: "encounters_of (cleaned h) = encounters_of h"
  by (induction h) (auto simp: encounters_of_def cleaned_def)

record report =
  rp_seed :: string
  rp_node :: officer_node
  rp_outcome :: string
  rp_id :: string
  rp_at :: json

definition report_encounter :: "json_api \<Rightarrow> report \<Rightarrow> store \<Rightarrow> store" where
  "report_encounter js x st =
     snd (recordEnemyOfficerEncounter js (rp_seed x) (rp_node x) (JStr (rp_outcome x)) (JStr (rp_id x)) (rp_at x) st)"

lemma ignored_report: "rp_outcome x \<notin> set VALID_OUTCOMES \<or> rp_id x = [] \<Longrightarrow> report_encounter js x st = st"
  by (auto simp: report_encounter_def recordEnemyOfficerEncounter_def valid_outcome_def truthy_def split: option.split)

text \<open>One report keeps a stored history stored, with one encounter more at most.\<close>

lemma report_kept:
  assumes "history_api js" "stored_history js h st" "history_bound n h" "n < 2 ^ 53 - 1" "whole_nonneg (rp_at x) < 2 ^ 53"
  shows "\<exists>h'. stored_history js h' (report_encounter js x st) \<and> history_bound (Suc n) h' \<and> encounters_of h' \<le> encounters_of h + 1"
proof (cases "rp_outcome x \<notin> set VALID_OUTCOMES \<or> rp_id x = []")
  case True
  then show ?thesis using assms(2) history_bound_mono [OF assms(3), of "Suc n"] by (auto simp: ignored_report)
next
  case False
  let ?h = "after_encounter h (rp_seed x) (rp_node x) (rp_outcome x) (rp_id x) (rp_at x)"
  obtain h' where h': "stored_history js h' (report_encounter js x st)" "h' = ?h \<or> h' = cleaned ?h"
    using stored_after [OF assms(1,2) _ _ assms(3-5), of "rp_outcome x" "rp_id x" "rp_seed x" "rp_node x"] False
    unfolding report_encounter_def by blast
  have ok: "history_ok h" using assms(2) by (simp add: stored_history_def)
  have "history_bound (Suc n) ?h" "encounters_of ?h \<le> encounters_of h + 1"
    using history_bound_after [OF ok assms(3,5)] encounters_after [OF ok] by blast+
  then show ?thesis using h' by auto
qed

text \<open>C33: The ledger of officers adds up. From a profile without a stored history, after any reports of battles (fewer than
  2 ^ 52, with times below 2 ^ 53; those without an id or a known outcome are ignored) the stored history loads, holds known
  officers only, each once, the encounters of every record are its wins, defeats, draws and retreats, its last encounters are at
  most ten different ones, and no more encounters are counted than were reported - as long as \<open>JSON\<close> gives back histories whose
  whole numbers are below 2 ^ 53.\<close>

theorem officer_ledger_sound:
  assumes "history_api js" "st COMBAT_ENEMY_OFFICERS_KEY = None"
    "\<forall>x \<in> set xs. whole_nonneg (rp_at x) < 2 ^ 53" "length xs < 2 ^ 52"
  shows "\<exists>h. loadEnemyOfficerHistory js (fold (report_encounter js) xs st) = Inr h \<and> history_ok h \<and>
    encounters_of h \<le> int (length xs)"
proof -
  have "stored_history js h s \<Longrightarrow> history_bound n h \<Longrightarrow> n + length ys < 2 ^ 52 \<Longrightarrow> \<forall>x \<in> set ys. whole_nonneg (rp_at x) < 2 ^ 53 \<Longrightarrow>
      \<exists>h'. stored_history js h' (fold (report_encounter js) ys s) \<and> encounters_of h' \<le> encounters_of h + int (length ys)"
    for h s n ys
  proof (induction ys arbitrary: h s n)
    case (Cons x ys)
    obtain h1 where h1: "stored_history js h1 (report_encounter js x s)" "history_bound (Suc n) h1" "encounters_of h1 \<le> encounters_of h + 1"
      using report_kept [OF assms(1) Cons.prems(1,2), of x] Cons.prems(3,4) by fastforce
    then show ?case using Cons.IH [OF h1(1,2)] Cons.prems(3,4) by fastforce
  qed auto
  from this [of "[]" st 0 xs] show ?thesis
    using assms(2-4) by (simp add: stored_history_def loadEnemyOfficerHistory_def read_json_def history_ok_def history_bound_def
        encounters_of_def)
qed

definition example_report :: report where
  "example_report = \<lparr>rp_seed = ''abc'', rp_node = \<lparr>on_id = ''s1-l0-battle'', on_type = ''battle'', on_stage = 1,
     on_lane = 0, on_label = ''Puente''\<rparr>, rp_outcome = ''win'', rp_id = ''b1'', rp_at = JInt 5\<rparr>"

theorem officer_ledger_sound_witness:
  "\<exists>h. loadEnemyOfficerHistory coded_json (fold (report_encounter coded_json) [example_report, example_report] Map.empty)
     = Inr h \<and> history_ok h \<and> encounters_of h \<le> 2"
  using officer_ledger_sound [OF history_coded_json, of Map.empty "[example_report, example_report]"]
  by (simp add: example_report_def whole_nonneg_def)

lemma map_of_cleaned: "map_of (cleaned h) i = map_option clean_record (map_of h i)"
  by (induction h) (auto simp: cleaned_def)

lemma current_cleaned: "history_ok h \<Longrightarrow> current_record (cleaned h) i = clean_record (current_record h i)"
proof (cases "map_of h i")
  case None
  then show ?thesis
    by (simp add: current_record_def map_of_cleaned zero_record clean_record_def clean_text_def)
next
  case (Some r)
  assume h: "history_ok h"
  have "map_of (cleaned h) i = Some (clean_record r)" using Some by (simp add: map_of_cleaned)
  then show ?thesis
    using current_record_known [OF h Some] current_record_known [OF history_ok_cleaned [OF h]] by simp
qed

lemma clean_recent_ids: "map en_id (or_recentEncounters (clean_record r)) = map en_id (or_recentEncounters r)"
  by (simp add: clean_record_def clean_entry_def comp_def)

lemma listed_ids: "list_ex (\<lambda>e. en_id e = i) es \<longleftrightarrow> i \<in> set (map en_id es)"
  by (auto simp: list_ex_iff)

lemma officer_rank_mono:
  assumes "service_score r \<le> service_score r'"
  shows "sk_promotions (officerServiceRank officer r) \<le> sk_promotions (officerServiceRank officer r')"
  using assms by (auto simp: officerServiceRank_def Let_def intro!: diff_le_mono min.mono)

text \<open>A battle counts once and promotions are never lost. Reporting a battle of a known officer adds one
  encounter to that officer alone unless its id is among his last ten, reporting it again changes nothing, and
  his promotions never go down.\<close>

theorem officer_encounter_once:
  assumes "history_api js" "stored_history js h st" "oc \<in> set VALID_OUTCOMES" "i \<noteq> []"
    "enemyOfficerForNode seed node = Some officer"
    "st' = snd (recordEnemyOfficerEncounter js seed node (JStr oc) (JStr i) now st)"
    "r = current_record h (oc_id officer)" "history_bound n h" "n < 2 ^ 53 - 1" "whole_nonneg now < 2 ^ 53"
  shows "snd (recordEnemyOfficerEncounter js seed node (JStr oc) (JStr i) later st') = st' \<and>
    (if i \<in> set (map en_id (or_recentEncounters r)) then st' = st
     else \<exists>h'. stored_history js h' st' \<and>
       or_encounters (current_record h' (oc_id officer)) = or_encounters r + 1 \<and>
       sk_promotions (officerServiceRank officer r) \<le>
         sk_promotions (officerServiceRank officer (current_record h' (oc_id officer))) \<and>
       (\<forall>j. j \<noteq> oc_id officer \<longrightarrow> map_of h' j = map_option clean_record (map_of h j)))"
proof (cases "i \<in> set (map en_id (or_recentEncounters r))")
  case True
  have load: "loadEnemyOfficerHistory js st = Inr h" using assms(2) by (simp add: stored_history_def)
  have "snd (recordEnemyOfficerEncounter js seed node (JStr oc) (JStr i) t st) = st" for t
    using True assms(3,4,5,7) load listed_ids [of i "or_recentEncounters r"]
    by (simp add: recordEnemyOfficerEncounter_def valid_outcome_def truthy_def Let_def)
  then show ?thesis using True assms(6) by simp
next
  case False
  let ?e = "encounter_of seed node oc i now"
  let ?r' = "next_record officer r ?e"
  let ?h = "obj_put (oc_id officer) ?r' h"
  have load: "loadEnemyOfficerHistory js st = Inr h" and h: "history_ok h" using assms(2) by (simp_all add: stored_history_def)
  have after: "after_encounter h seed node oc i now = ?h"
    using False assms(5,7) listed_ids [of i "or_recentEncounters r"] by (simp add: after_encounter_def Let_def)
  have ok: "history_ok ?h" using history_ok_after [OF h assms(3,4), of seed node now] after by simp
  have "history_bound (2 ^ 53 - 1) ?h"
    using history_bound_after [OF h assms(8,10), of seed node oc i] after history_bound_mono [of "Suc n" ?h "2 ^ 53 - 1"] assms(9) by simp
  then have live: "survives js (history_json ?h)" using assms(1) ok by (simp add: history_api_def)
  have st': "st' = st(COMBAT_ENEMY_OFFICERS_KEY \<mapsto> stringify js (history_json ?h))"
    using False assms(3-7) load listed_ids [of i "or_recentEncounters r"]
    by (simp add: recordEnemyOfficerEncounter_def valid_outcome_def truthy_def Let_def encounter_of_def)
  have stored: "stored_history js (cleaned ?h) st'"
    using load_written_history [OF live ok, of st] history_ok_cleaned [OF ok] by (simp add: st' stored_history_def)
  have "map_of ?h (oc_id officer) = Some ?r'" by simp
  from current_record_known [OF ok this] have cur: "current_record (cleaned ?h) (oc_id officer) = clean_record ?r'"
    using current_cleaned [OF ok, of "oc_id officer"] by simp
  have "i \<in> set (map en_id (or_recentEncounters (clean_record ?r')))"
    unfolding clean_recent_ids by (simp add: next_record_def encounter_of_def)
  then have again: "snd (recordEnemyOfficerEncounter js seed node (JStr oc) (JStr i) later st') = st'"
    using stored assms(3,4,5) listed_ids [of i "or_recentEncounters (clean_record ?r')"] cur
    by (simp add: recordEnemyOfficerEncounter_def valid_outcome_def truthy_def Let_def stored_history_def)
  have "service_score r \<le> service_score ?r'"
    by (simp add: service_score_def next_record_def counted_def) linarith
  then have "sk_promotions (officerServiceRank officer r) \<le> sk_promotions (officerServiceRank officer (clean_record ?r'))"
    by (intro officer_rank_mono) simp
  moreover have "map_of (cleaned ?h) j = map_option clean_record (map_of h j)" if "j \<noteq> oc_id officer" for j
    using that by (simp add: map_of_cleaned)
  moreover have "or_encounters (clean_record ?r') = or_encounters r + 1" by (simp add: next_record_def)
  ultimately show ?thesis using stored again cur False by auto
qed

theorem officer_encounter_once_witness:
  "\<exists>officer. enemyOfficerForNode ''abc'' (rp_node example_report) = Some officer \<and>
     snd (recordEnemyOfficerEncounter coded_json ''abc'' (rp_node example_report) (JStr ''win'') (JStr ''b1'') (JInt 9)
       (report_encounter coded_json example_report Map.empty)) = report_encounter coded_json example_report Map.empty"
proof -
  obtain officer where o1: "enemyOfficerForNode ''abc'' (rp_node example_report) = Some officer"
    using officer_found [of "''abc''" "rp_node example_report"] by (auto simp: example_report_def)
  have s: "stored_history coded_json [] Map.empty"
    by (simp add: stored_history_def loadEnemyOfficerHistory_def read_json_def history_ok_def)
  have "''win'' \<in> set VALID_OUTCOMES" "''b1'' \<noteq> []" by (simp_all add: VALID_OUTCOMES_def)
  from officer_encounter_once [OF history_coded_json s this o1 refl refl, of 0 "JInt 5" "JInt 9"]
  show ?thesis using o1 by (simp add: report_encounter_def example_report_def history_bound_def whole_nonneg_def)
qed

end
