(* ===== verification/CombatService.thy ===== *)
theory CombatService
  imports JsonCodec
begin

text \<open>
  \<open>combatService.js\<close>: the service record of the player, its ranks and decorations, the recording of a battle
  and the migration of older profiles.

  Counters are \<open>int\<close> (exact below \<open>2 ^ 53\<close>). An event and the stored values are \<open>json\<close>; the profile is the map
  of \<open>JsonValues\<close>. Arguments: \<open>date_of\<close> is \<open>new Date(v).getTime()\<close>, \<open>None\<close> when it is \<open>NaN\<close>, and
  \<open>now\<close> is \<open>new Date().toISOString()\<close>. The order of a history with unreadable dates is the one of a
  stable insertion.
\<close>

section \<open>Counters, ranks and decorations\<close>

definition SERVICE_KEY :: string where "SERVICE_KEY = ''chess-study-combat-service''"
definition SERVICE_HISTORY_KEY :: string where "SERVICE_HISTORY_KEY = ''chess-study-combat-history''"
definition SERVICE_FLOOR_KEY :: string where "SERVICE_FLOOR_KEY = ''chess-study-roguelike-best-floor''"
definition SERVICE_TOWER_KEY :: string where "SERVICE_TOWER_KEY = ''chess-study-roguelike-tower-completed''"
definition SERVICE_ROSTER_KEY :: string where "SERVICE_ROSTER_KEY = ''chess-study-combat-roster''"

definition MAX_PROCESSED_IDS :: nat where "MAX_PROCESSED_IDS = 160"

record service_stats =
  sv_battles :: int
  sv_wins :: int
  sv_draws :: int
  sv_losses :: int
  sv_retirements :: int
  sv_totalSurvivors :: int
  sv_survivorSamples :: int
  sv_flawlessWins :: int
  sv_hardshipWins :: int
  sv_currentWinStreak :: int
  sv_bestWinStreak :: int
  sv_roguelikeFloorsCleared :: int
  sv_highestFloorCleared :: int
  sv_bossesDefeated :: int
  sv_towerCompletions :: int
  sv_endlessFloorsCleared :: int
  sv_maxVeteranPieces :: int
  sv_maxElitePieces :: int

record combat_rank =
  ck_id :: string
  ck_label :: string
  ck_insignia :: string
  ck_minMerit :: int
  ck_eligible :: "service_stats \<Rightarrow> bool"

definition SERVICE_RANKS :: "combat_rank list" where
  "SERVICE_RANKS =
    [\<lparr>ck_id = ''recruit'', ck_label = ''Recluta'', ck_insignia = [CHR 0xB7], ck_minMerit = 0, ck_eligible = (\<lambda>s. True)\<rparr>,
     \<lparr>ck_id = ''soldier'', ck_label = ''Soldado'', ck_insignia = [CHR 0xE2, CHR 0x85, CHR 0xA0], ck_minMerit = 8,
      ck_eligible = (\<lambda>s. 1 \<le> sv_wins s)\<rparr>,
     \<lparr>ck_id = ''corporal'', ck_label = ''Cabo'', ck_insignia = [CHR 0xE2, CHR 0x85, CHR 0xA1], ck_minMerit = 20,
      ck_eligible = (\<lambda>s. 3 \<le> sv_wins s)\<rparr>,
     \<lparr>ck_id = ''sergeant'', ck_label = ''Sargento'', ck_insignia = [CHR 0xE2, CHR 0x85, CHR 0xA2], ck_minMerit = 40,
      ck_eligible = (\<lambda>s. 6 \<le> sv_wins s)\<rparr>,
     \<lparr>ck_id = ''second-lieutenant'', ck_label = ''Subteniente'', ck_insignia = [CHR 0xE2, CHR 0x97, CHR 0x87], ck_minMerit = 65,
      ck_eligible = (\<lambda>s. 10 \<le> sv_wins s)\<rparr>,
     \<lparr>ck_id = ''lieutenant'', ck_label = ''Teniente'', ck_insignia = ([CHR 0xE2, CHR 0x97, CHR 0x87] @ [CHR 0xE2, CHR 0x97, CHR 0x87]), ck_minMerit = 95,
      ck_eligible = (\<lambda>s. 14 \<le> sv_wins s \<or> 5 \<le> sv_highestFloorCleared s)\<rparr>,
     \<lparr>ck_id = ''captain'', ck_label = (''Capit'' @ [CHR 0xE1] @ ''n''), ck_insignia = [CHR 0xE2, CHR 0x98, CHR 0x85], ck_minMerit = 135,
      ck_eligible = (\<lambda>s. 20 \<le> sv_wins s \<or> 5 \<le> sv_highestFloorCleared s)\<rparr>,
     \<lparr>ck_id = ''commander'', ck_label = ''Comandante'', ck_insignia = ([CHR 0xE2, CHR 0x98, CHR 0x85] @ [CHR 0xE2, CHR 0x98, CHR 0x85]), ck_minMerit = 185,
      ck_eligible = (\<lambda>s. 30 \<le> sv_wins s \<or> 9 \<le> sv_highestFloorCleared s)\<rparr>,
     \<lparr>ck_id = ''colonel'', ck_label = ''Coronel'', ck_insignia = ([CHR 0xE2, CHR 0x98, CHR 0x85] @ [CHR 0xE2, CHR 0x98, CHR 0x85] @ [CHR 0xE2, CHR 0x98, CHR 0x85]), ck_minMerit = 250,
      ck_eligible = (\<lambda>s. 45 \<le> sv_wins s \<or> 1 \<le> sv_towerCompletions s)\<rparr>,
     \<lparr>ck_id = ''general'', ck_label = ''General'', ck_insignia = ([CHR 0xE2, CHR 0x98, CHR 0x85] @ [CHR 0xE2, CHR 0x98, CHR 0x85] @ [CHR 0xE2, CHR 0x98, CHR 0x85] @ [CHR 0xE2, CHR 0x98, CHR 0x85]), ck_minMerit = 350,
      ck_eligible = (\<lambda>s. 60 \<le> sv_wins s \<or> (1 \<le> sv_towerCompletions s \<and> 15 \<le> sv_highestFloorCleared s))\<rparr>]"

record decoration_row =
  dr_id :: string
  dr_label :: string
  dr_short :: string
  dr_description :: string
  dr_test :: "service_stats \<Rightarrow> bool"

definition SERVICE_DECORATIONS :: "decoration_row list" where
  "SERVICE_DECORATIONS =
    [\<lparr>dr_id = ''first-sortie'', dr_label = ''Bautismo de fuego'', dr_short = ''FUEGO'',
      dr_description = ''Completa tu primera batalla de Combate.'', dr_test = (\<lambda>s. 1 \<le> sv_battles s)\<rparr>,
     \<lparr>dr_id = ''first-win'', dr_label = ''Primera victoria'', dr_short = ''VICTORIA'',
      dr_description = ''Gana tu primera batalla de Combate.'', dr_test = (\<lambda>s. 1 \<le> sv_wins s)\<rparr>,
     \<lparr>dr_id = ''no-casualties'', dr_label = ''Sin bajas'', dr_short = ''16/16'',
      dr_description = ''Gana una batalla con las 16 piezas en pie.'', dr_test = (\<lambda>s. 1 \<le> sv_flawlessWins s)\<rparr>,
     \<lparr>dr_id = ''under-fire'', dr_label = ''Bajo fuego'', dr_short = ([CHR 0xE2, CHR 0x89, CHR 0xA4] @ ''6''),
      dr_description = ''Gana una batalla con 6 piezas o menos en pie.'', dr_test = (\<lambda>s. 1 \<le> sv_hardshipWins s)\<rparr>,
     \<lparr>dr_id = ''five-streak'', dr_label = (''L'' @ [CHR 0xED] @ ''nea mantenida''), dr_short = ''RACHA 5'',
      dr_description = ''Encadena 5 victorias de Combate.'', dr_test = (\<lambda>s. 5 \<le> sv_bestWinStreak s)\<rparr>,
     \<lparr>dr_id = ''veteran-25'', dr_label = (''Veterano de campa'' @ [CHR 0xF1] @ ''a''), dr_short = ''25'',
      dr_description = ''Completa 25 batallas de Combate.'', dr_test = (\<lambda>s. 25 \<le> sv_battles s)\<rparr>,
     \<lparr>dr_id = ''veteran-squad'', dr_label = (''Pelot'' @ [CHR 0xF3] @ ''n veterano''), dr_short = ''8 VET'',
      dr_description = (''Mant'' @ [CHR 0xE9] @ ''n 8 piezas supervivientes con al menos una mejora comprada.''),
      dr_test = (\<lambda>s. 8 \<le> sv_maxVeteranPieces s)\<rparr>,
     \<lparr>dr_id = ''elite-piece'', dr_label = (''Guardia de '' @ [CHR 0xE9] @ ''lite''), dr_short = ''NV.6+'',
      dr_description = ''Conserva al menos una pieza veterana de nivel 6 o superior.'',
      dr_test = (\<lambda>s. 1 \<le> sv_maxElitePieces s)\<rparr>,
     \<lparr>dr_id = ''old-guard'', dr_label = ''Vieja guardia'', dr_short = ''12 VET'',
      dr_description = (''Mant'' @ [CHR 0xE9] @ ''n 12 piezas supervivientes con veteran'' @ [CHR 0xED] @ ''a real.''),
      dr_test = (\<lambda>s. 12 \<le> sv_maxVeteranPieces s)\<rparr>,
     \<lparr>dr_id = ''tower-3'', dr_label = ''Primer ascenso'', dr_short = ''PISO 3'',
      dr_description = ''Supera el piso 3 de La Torre.'', dr_test = (\<lambda>s. 3 \<le> sv_highestFloorCleared s)\<rparr>,
     \<lparr>dr_id = ''tower-5'', dr_label = ''Mitad de la Torre'', dr_short = ''PISO 5'',
      dr_description = ''Supera el piso 5 de La Torre.'', dr_test = (\<lambda>s. 5 \<le> sv_highestFloorCleared s)\<rparr>,
     \<lparr>dr_id = ''tower-9'', dr_label = ''A las puertas'', dr_short = ''PISO 9'',
      dr_description = ''Supera el piso 9 de La Torre.'', dr_test = (\<lambda>s. 9 \<le> sv_highestFloorCleared s)\<rparr>,
     \<lparr>dr_id = ''king-slayer'', dr_label = ''Cazador de reyes'', dr_short = ''BOSS'',
      dr_description = ''Derrota a un Rey Boss.'', dr_test = (\<lambda>s. 1 \<le> sv_bossesDefeated s)\<rparr>,
     \<lparr>dr_id = ''tower-complete'', dr_label = ''Cruz de la Torre'', dr_short = ''10/10'',
      dr_description = ''Completa los 10 pisos de La Torre.'', dr_test = (\<lambda>s. 1 \<le> sv_towerCompletions s)\<rparr>,
     \<lparr>dr_id = ''endless-15'', dr_label = (''M'' @ [CHR 0xE1] @ ''s all'' @ [CHR 0xE1] @ '' del deber''), dr_short = ''PISO 15'',
      dr_description = ''Supera el piso 15 en modo infinito.'', dr_test = (\<lambda>s. 15 \<le> sv_highestFloorCleared s)\<rparr>,
     \<lparr>dr_id = ''endless-20'', dr_label = ''Hierro negro'', dr_short = ''PISO 20'',
      dr_description = ''Supera el piso 20 en modo infinito.'', dr_test = (\<lambda>s. 20 \<le> sv_highestFloorCleared s)\<rparr>]"

record earned_decoration =
  ed_id :: string
  ed_earnedAt :: "string option"

record service_record =
  sc_stats :: service_stats
  sc_decorations :: "earned_decoration list"
  sc_processedBattleIds :: "string list"
  sc_migratedLegacyHistory :: bool

definition emptyServiceStats :: service_stats where
  "emptyServiceStats =
     \<lparr>sv_battles = 0, sv_wins = 0, sv_draws = 0, sv_losses = 0, sv_retirements = 0, sv_totalSurvivors = 0,
      sv_survivorSamples = 0, sv_flawlessWins = 0, sv_hardshipWins = 0, sv_currentWinStreak = 0, sv_bestWinStreak = 0,
      sv_roguelikeFloorsCleared = 0, sv_highestFloorCleared = 0, sv_bossesDefeated = 0, sv_towerCompletions = 0,
      sv_endlessFloorsCleared = 0, sv_maxVeteranPieces = 0, sv_maxElitePieces = 0\<rparr>"

definition emptyServiceRecord :: service_record where
  "emptyServiceRecord = \<lparr>sc_stats = emptyServiceStats, sc_decorations = [], sc_processedBattleIds = [],
     sc_migratedLegacyHistory = False\<rparr>"

section \<open>Stored records\<close>

text \<open>\<open>Math.floor(finiteNonNegative(v, 0))\<close>: anything that is not a number from 0 up counts as 0.\<close>

definition counter_of :: "json \<Rightarrow> int" where
  "counter_of v = (case json_number v of Fin q \<Rightarrow> if 0 \<le> q then \<lfloor>q\<rfloor> else 0 | _ \<Rightarrow> 0)"

definition normalizeServiceStats :: "json \<Rightarrow> service_stats" where
  "normalizeServiceStats v =
     (let n = (\<lambda>k. counter_of (field k v))
      in \<lparr>sv_battles = n ''battles'', sv_wins = n ''wins'', sv_draws = n ''draws'', sv_losses = n ''losses'',
          sv_retirements = n ''retirements'', sv_totalSurvivors = n ''totalSurvivors'',
          sv_survivorSamples = n ''survivorSamples'', sv_flawlessWins = n ''flawlessWins'',
          sv_hardshipWins = n ''hardshipWins'', sv_currentWinStreak = n ''currentWinStreak'',
          sv_bestWinStreak = n ''bestWinStreak'', sv_roguelikeFloorsCleared = n ''roguelikeFloorsCleared'',
          sv_highestFloorCleared = n ''highestFloorCleared'', sv_bossesDefeated = n ''bossesDefeated'',
          sv_towerCompletions = n ''towerCompletions'', sv_endlessFloorsCleared = n ''endlessFloorsCleared'',
          sv_maxVeteranPieces = n ''maxVeteranPieces'', sv_maxElitePieces = n ''maxElitePieces''\<rparr>)"

definition earned_of :: "json \<Rightarrow> earned_decoration option" where
  "earned_of d =
     (case field ''id'' d of
        JStr i \<Rightarrow> if list_ex (\<lambda>row. dr_id row = i) SERVICE_DECORATIONS
                  then Some \<lparr>ed_id = i, ed_earnedAt = (case field ''earnedAt'' d of JStr t \<Rightarrow> Some t | _ \<Rightarrow> None)\<rparr>
                  else None
      | _ \<Rightarrow> None)"

definition normalizeServiceRecord :: "json \<Rightarrow> service_record" where
  "normalizeServiceRecord raw =
     (if \<not> is_object raw then emptyServiceRecord
      else \<lparr>sc_stats = normalizeServiceStats (field ''stats'' raw),
            sc_decorations = List.map_filter earned_of (elements (field ''decorations'' raw)),
            sc_processedBattleIds =
              last_n MAX_PROCESSED_IDS (filter (\<lambda>i. i \<noteq> []) (strings_in (elements (field ''processedBattleIds'' raw)))),
            sc_migratedLegacyHistory = (field ''migratedLegacyHistory'' raw = JBool True)\<rparr>)"

definition service_stats_json :: "service_stats \<Rightarrow> json" where
  "service_stats_json s = JObj
     [(''battles'', JInt (sv_battles s)), (''wins'', JInt (sv_wins s)), (''draws'', JInt (sv_draws s)),
      (''losses'', JInt (sv_losses s)), (''retirements'', JInt (sv_retirements s)),
      (''totalSurvivors'', JInt (sv_totalSurvivors s)), (''survivorSamples'', JInt (sv_survivorSamples s)),
      (''flawlessWins'', JInt (sv_flawlessWins s)), (''hardshipWins'', JInt (sv_hardshipWins s)),
      (''currentWinStreak'', JInt (sv_currentWinStreak s)), (''bestWinStreak'', JInt (sv_bestWinStreak s)),
      (''roguelikeFloorsCleared'', JInt (sv_roguelikeFloorsCleared s)),
      (''highestFloorCleared'', JInt (sv_highestFloorCleared s)), (''bossesDefeated'', JInt (sv_bossesDefeated s)),
      (''towerCompletions'', JInt (sv_towerCompletions s)),
      (''endlessFloorsCleared'', JInt (sv_endlessFloorsCleared s)),
      (''maxVeteranPieces'', JInt (sv_maxVeteranPieces s)), (''maxElitePieces'', JInt (sv_maxElitePieces s))]"

definition earned_json :: "earned_decoration \<Rightarrow> json" where
  "earned_json d = JObj [(''id'', JStr (ed_id d)),
     (''earnedAt'', case ed_earnedAt d of None \<Rightarrow> JNull | Some t \<Rightarrow> JStr t)]"

definition service_json :: "service_record \<Rightarrow> json" where
  "service_json r = JObj
     [(''version'', JInt 1), (''stats'', service_stats_json (sc_stats r)),
      (''decorations'', JArr (map earned_json (sc_decorations r))),
      (''processedBattleIds'', JArr (map JStr (sc_processedBattleIds r))),
      (''migratedLegacyHistory'', JBool (sc_migratedLegacyHistory r))]"

text \<open>\<open>safeJson\<close>: a missing, empty or malformed text gives the fallback.\<close>

definition safeJson :: "json_api \<Rightarrow> string \<Rightarrow> json \<Rightarrow> store \<Rightarrow> json" where
  "safeJson js key fallback st =
     (case st key of None \<Rightarrow> fallback
      | Some raw \<Rightarrow> if raw = [] then fallback else (case parse js raw of None \<Rightarrow> fallback | Some v \<Rightarrow> v))"

section \<open>Counting a battle\<close>

definition finite_whole :: "json \<Rightarrow> int option" where
  "finite_whole v = (case json_number v of Fin q \<Rightarrow> Some \<lfloor>q\<rfloor> | _ \<Rightarrow> None)"

definition count_survivors :: "bool \<Rightarrow> json \<Rightarrow> service_stats \<Rightarrow> service_stats" where
  "count_survivors won v s =
     (case finite_whole v of
        None \<Rightarrow> s
      | Some n \<Rightarrow> (let survivors = max 0 (min 16 n)
         in s\<lparr>sv_totalSurvivors := sv_totalSurvivors s + survivors, sv_survivorSamples := sv_survivorSamples s + 1,
              sv_flawlessWins := (if won \<and> survivors = 16 then sv_flawlessWins s + 1 else sv_flawlessWins s),
              sv_hardshipWins := (if won \<and> survivors \<le> 6 then sv_hardshipWins s + 1 else sv_hardshipWins s)\<rparr>))"

definition count_floor :: "bool \<Rightarrow> json \<Rightarrow> service_stats \<Rightarrow> service_stats" where
  "count_floor climbed v s =
     (if \<not> climbed then s
      else let flr = max 0 (counter_of v)
      in s\<lparr>sv_roguelikeFloorsCleared := sv_roguelikeFloorsCleared s + 1,
           sv_highestFloorCleared := max (sv_highestFloorCleared s) flr,
           sv_endlessFloorsCleared := (if 10 < flr then sv_endlessFloorsCleared s + 1 else sv_endlessFloorsCleared s)\<rparr>)"

definition count_boss :: "bool \<Rightarrow> bool \<Rightarrow> service_stats \<Rightarrow> service_stats" where
  "count_boss beaten tower s =
     (let s1 = (if beaten then s\<lparr>sv_bossesDefeated := sv_bossesDefeated s + 1\<rparr> else s)
      in if beaten \<and> tower then s1\<lparr>sv_towerCompletions := sv_towerCompletions s1 + 1\<rparr> else s1)"

definition addServiceDecorations :: "string option \<Rightarrow> service_record \<Rightarrow> service_record" where
  "addServiceDecorations earnedAt r =
     (let known = set (map ed_id (sc_decorations r))
      in r\<lparr>sc_decorations := sc_decorations r @
        map (\<lambda>row. \<lparr>ed_id = dr_id row, ed_earnedAt = earnedAt\<rparr>)
          (filter (\<lambda>row. dr_id row \<notin> known \<and> dr_test row (sc_stats r)) SERVICE_DECORATIONS)\<rparr>)"

section \<open>The migration of older profiles\<close>

definition completed_outcomes :: "string list" where
  "completed_outcomes = [''win'', ''draw'', ''loss'']"

definition has_outcome :: "string list \<Rightarrow> json \<Rightarrow> bool" where
  "has_outcome os b = (case field ''outcome'' b of JStr oc \<Rightarrow> oc \<in> set os | _ \<Rightarrow> False)"

definition dated_before :: "(json \<Rightarrow> rat option) \<Rightarrow> json \<Rightarrow> json \<Rightarrow> bool" where
  "dated_before date_of a b =
     (case (date_of (or_else_json (field ''date'' a) (JInt 0)), date_of (or_else_json (field ''date'' b) (JInt 0))) of
        (Some x, Some y) \<Rightarrow> x \<le> y | _ \<Rightarrow> True)"

definition streak_step :: "json \<Rightarrow> int \<times> int \<Rightarrow> int \<times> int" where
  "streak_step b cb =
     (if has_outcome [''win''] b then (fst cb + 1, max (snd cb) (fst cb + 1))
      else if has_outcome [''draw'', ''loss'', ''retired''] b then (0, snd cb) else cb)"

definition streaksFromHistory :: "(json \<Rightarrow> rat option) \<Rightarrow> json list \<Rightarrow> int \<times> int" where
  "streaksFromHistory date_of history = fold streak_step (sort_stable (dated_before date_of) history) (0, 0)"

definition count_outcome :: "json \<Rightarrow> service_stats \<Rightarrow> service_stats" where
  "count_outcome b s =
     (let s1 = s\<lparr>sv_battles := sv_battles s + 1\<rparr>
      in if has_outcome [''win''] b then s1\<lparr>sv_wins := sv_wins s + 1\<rparr>
         else if has_outcome [''draw''] b then s1\<lparr>sv_draws := sv_draws s + 1\<rparr>
         else s1\<lparr>sv_losses := sv_losses s + 1\<rparr>)"

definition legacy_battle :: "json \<Rightarrow> service_stats \<Rightarrow> service_stats" where
  "legacy_battle b s =
     (if has_outcome [''retired''] b then s\<lparr>sv_retirements := sv_retirements s + 1\<rparr>
      else if \<not> has_outcome completed_outcomes b then s
      else let won = has_outcome [''win''] b
           in count_boss (won \<and> truthy (field ''boss'' b)) (json_number (field ''roguelikeFloor'' b) = Fin 10)
                (count_floor (field ''variant'' b = JStr ''roguelike'' \<and> won) (field ''roguelikeFloor'' b)
                  (count_survivors won (field ''survivorCount'' b) (count_outcome b s))))"

definition service_points :: "string \<Rightarrow> json \<Rightarrow> json" where
  "service_points k piece = or_else_json (field k piece) (JInt 0)"

definition num_at_least :: "rat \<Rightarrow> json \<Rightarrow> bool" where
  "num_at_least n v = (case json_number v of Fin q \<Rightarrow> n \<le> q | PInf \<Rightarrow> True | _ \<Rightarrow> False)"

definition legacy_pieces :: "json \<Rightarrow> json list" where
  "legacy_pieces roster =
     (case field ''pieces'' roster of JObj kvs \<Rightarrow> map snd kvs | JArr vs \<Rightarrow> vs | _ \<Rightarrow> [])"

definition veteran_pieces :: "json \<Rightarrow> int" where
  "veteran_pieces roster = int (length (filter (\<lambda>piece. field ''alive'' piece \<noteq> JBool False \<and>
     num_at_least 1 (js_plus (service_points ''strengthPoints'' piece) (service_points ''speedPoints'' piece))) (legacy_pieces roster)))"

definition elite_pieces :: "json \<Rightarrow> int" where
  "elite_pieces roster = int (length (filter (\<lambda>piece. field ''alive'' piece \<noteq> JBool False \<and>
     num_at_least 6 (js_plus (js_plus (JInt 1) (service_points ''strengthPoints'' piece)) (service_points ''speedPoints'' piece)))
       (legacy_pieces roster)))"

definition legacyBestFloor :: "store \<Rightarrow> int" where
  "legacyBestFloor st =
     (let raw = (case st SERVICE_FLOOR_KEY of None \<Rightarrow> ''0'' | Some t \<Rightarrow> if t = [] then ''0'' else t)
      in max 0 (case parse_int raw of None \<Rightarrow> 0 | Some n \<Rightarrow> n))"

definition conservativelyCleared :: "store \<Rightarrow> int" where
  "conservativelyCleared st =
     (if st SERVICE_TOWER_KEY = Some ''1'' then max 10 (legacyBestFloor st - 1) else max 0 (legacyBestFloor st - 1))"

text \<open>What the migration adds to the counters of the history: the army, the best floor, the streaks.\<close>

definition legacy_evidence :: "int \<Rightarrow> bool \<Rightarrow> json \<Rightarrow> int \<times> int \<Rightarrow> service_stats \<Rightarrow> service_stats" where
  "legacy_evidence floors tower roster streak s =
     s\<lparr>sv_maxVeteranPieces := veteran_pieces roster, sv_maxElitePieces := elite_pieces roster,
       sv_highestFloorCleared := max (sv_highestFloorCleared s) floors,
       sv_roguelikeFloorsCleared := max (sv_roguelikeFloorsCleared s) (min 10 floors),
       sv_endlessFloorsCleared := max (sv_endlessFloorsCleared s) (max 0 (floors - 10)),
       sv_towerCompletions := (if tower then max (sv_towerCompletions s) 1 else sv_towerCompletions s),
       sv_currentWinStreak := fst streak, sv_bestWinStreak := snd streak\<rparr>"

definition migrateLegacyRecord :: "json_api \<Rightarrow> (json \<Rightarrow> rat option) \<Rightarrow> store \<Rightarrow> service_record" where
  "migrateLegacyRecord js date_of st =
     (let battles = elements (safeJson js SERVICE_HISTORY_KEY (JArr []) st)
      in addServiceDecorations None
           \<lparr>sc_stats = legacy_evidence (conservativelyCleared st) (st SERVICE_TOWER_KEY = Some ''1'')
              (safeJson js SERVICE_ROSTER_KEY (JObj [(''pieces'', JObj [])]) st)
              (streaksFromHistory date_of battles) (fold legacy_battle battles emptyServiceStats),
            sc_decorations = [],
            sc_processedBattleIds = last_n MAX_PROCESSED_IDS (strings_in (map (field ''id'') battles)),
            sc_migratedLegacyHistory = True\<rparr>)"

section \<open>Merit, rank and summary\<close>

definition merit_of :: "service_stats \<Rightarrow> int" where
  "merit_of s =
     sv_battles s + sv_wins s * 3 + sv_draws s + sv_flawlessWins s * 2 + sv_hardshipWins s * 3
     + sv_roguelikeFloorsCleared s * 2 + sv_bossesDefeated s * 8 + sv_towerCompletions s * 10
     + sv_endlessFloorsCleared s * 2"

definition meritForStats :: "json \<Rightarrow> int" where
  "meritForStats v = merit_of (normalizeServiceStats v)"

text \<open>The last rank whose merit and condition are met, as its position.\<close>

definition rank_position :: "service_stats \<Rightarrow> nat" where
  "rank_position s =
     fold (\<lambda>(i, rank) best. if ck_minMerit rank \<le> merit_of s \<and> ck_eligible rank s then i else best)
       (enumerate 0 SERVICE_RANKS) 0"

definition rankForService :: "json \<Rightarrow> combat_rank" where
  "rankForService recordOrStats =
     SERVICE_RANKS ! rank_position (normalizeServiceStats (or_else_json (field ''stats'' recordOrStats) recordOrStats))"

definition requirementText :: "combat_rank \<Rightarrow> string" where
  "requirementText rank =
     (if ck_id rank = ''soldier'' then ''1 victoria''
      else if ck_id rank = ''corporal'' then ''3 victorias''
      else if ck_id rank = ''sergeant'' then ''6 victorias''
      else if ck_id rank = ''second-lieutenant'' then ''10 victorias''
      else if ck_id rank = ''lieutenant'' then ''14 victorias o piso 5''
      else if ck_id rank = ''captain'' then ''20 victorias o piso 5''
      else if ck_id rank = ''commander'' then ''30 victorias o piso 9''
      else if ck_id rank = ''colonel'' then ''45 victorias o completar la Torre''
      else if ck_id rank = ''general'' then ''60 victorias o Torre + piso 15''
      else [])"

record service_summary =
  sm_record :: service_record
  sm_stats :: service_stats
  sm_merit :: int
  sm_rank :: combat_rank
  sm_nextRank :: "combat_rank option"
  sm_nextProgress :: rat
  sm_nextRequirement :: string
  sm_decorations :: "(decoration_row \<times> string option) list"
  sm_averageSurvivors :: "rat option"

definition rank_index_of :: "combat_rank \<Rightarrow> nat" where
  "rank_index_of rank = (case find_index (\<lambda>r. ck_id r = ck_id rank) SERVICE_RANKS of None \<Rightarrow> 0 | Some i \<Rightarrow> i)"

definition next_rank :: "combat_rank \<Rightarrow> combat_rank option" where
  "next_rank rank = (if rank_index_of rank < length SERVICE_RANKS - 1 then Some (SERVICE_RANKS ! (rank_index_of rank + 1)) else None)"

definition earned_rows :: "earned_decoration list \<Rightarrow> (decoration_row \<times> string option) list" where
  "earned_rows ds = List.map_filter (\<lambda>d. map_option (\<lambda>row. (row, ed_earnedAt d))
     (List.find (\<lambda>row. dr_id row = ed_id d) SERVICE_DECORATIONS)) ds"

definition summarizeCombatService :: "json \<Rightarrow> service_summary" where
  "summarizeCombatService v =
     (let r = normalizeServiceRecord v; stats = sc_stats r; merit = merit_of stats;
          rank = SERVICE_RANKS ! rank_position stats; nextRank = next_rank rank
      in \<lparr>sm_record = r, sm_stats = stats, sm_merit = merit, sm_rank = rank, sm_nextRank = nextRank,
          sm_nextProgress = (case nextRank of None \<Rightarrow> 1
            | Some n \<Rightarrow> max 0 (min 1 (fdiv (of_int (merit - ck_minMerit rank)) (of_int (max 1 (ck_minMerit n - ck_minMerit rank)))))),
          sm_nextRequirement = (case nextRank of None \<Rightarrow> (''Rango m'' @ [CHR 0xE1] @ ''ximo alcanzado'') | Some n \<Rightarrow> requirementText n),
          sm_decorations = earned_rows (sc_decorations r),
          sm_averageSurvivors = (if 0 < sv_survivorSamples stats
            then Some (fdiv (of_int (sv_totalSurvivors stats)) (of_int (sv_survivorSamples stats))) else None)\<rparr>)"

section \<open>Loading and recording\<close>

definition loadCombatService :: "json_api \<Rightarrow> (json \<Rightarrow> rat option) \<Rightarrow> store \<Rightarrow> service_record \<times> store" where
  "loadCombatService js date_of st =
     (let migrated = migrateLegacyRecord js date_of st;
          fresh = (migrated, st(SERVICE_KEY \<mapsto> stringify js (service_json migrated)))
      in case st SERVICE_KEY of
           None \<Rightarrow> fresh
         | Some raw \<Rightarrow> if raw = [] then fresh
             else (case parse js raw of None \<Rightarrow> fresh | Some v \<Rightarrow> (normalizeServiceRecord v, st)))"

record service_result =
  rs_record :: service_record
  rs_previousRank :: combat_rank
  rs_currentRank :: combat_rank
  rs_promoted :: bool
  rs_newDecorations :: "(decoration_row \<times> string option) list"
  rs_meritGained :: int

definition raise_counter :: "json \<Rightarrow> int \<Rightarrow> int" where
  "raise_counter v n = (case finite_whole v of None \<Rightarrow> n | Some k \<Rightarrow> max n (max 0 k))"

text \<open>The counters after an event: a retirement, a battle that ended, or nothing.\<close>

definition event_outcome :: "json \<Rightarrow> service_stats \<Rightarrow> service_stats" where
  "event_outcome e s =
     (let s1 = s\<lparr>sv_battles := sv_battles s + 1\<rparr>
      in if has_outcome [''win''] e
         then s1\<lparr>sv_wins := sv_wins s1 + 1, sv_currentWinStreak := sv_currentWinStreak s1 + 1,
                 sv_bestWinStreak := max (sv_bestWinStreak s1) (sv_currentWinStreak s1 + 1)\<rparr>
         else if has_outcome [''draw''] e then s1\<lparr>sv_draws := sv_draws s1 + 1, sv_currentWinStreak := 0\<rparr>
         else s1\<lparr>sv_losses := sv_losses s1 + 1, sv_currentWinStreak := 0\<rparr>)"

definition event_pieces :: "json \<Rightarrow> service_stats \<Rightarrow> service_stats" where
  "event_pieces e s =
     s\<lparr>sv_maxVeteranPieces := raise_counter (field ''veteranPieces'' e) (sv_maxVeteranPieces s),
       sv_maxElitePieces := raise_counter (field ''elitePieces'' e) (sv_maxElitePieces s)\<rparr>"

definition event_stats :: "json \<Rightarrow> service_stats \<Rightarrow> service_stats" where
  "event_stats e s =
     (if has_outcome [''retired''] e then s\<lparr>sv_retirements := sv_retirements s + 1, sv_currentWinStreak := 0\<rparr>
      else if \<not> has_outcome completed_outcomes e then s
      else let won = has_outcome [''win''] e
           in count_boss (won \<and> truthy (field ''bossDefeated'' e))
                (json_number (field ''roguelikeFloor'' e) = Fin 10 \<and> field ''roguelikeMode'' e \<noteq> JStr ''endless'')
                (count_floor (field ''variant'' e = JStr ''roguelike'' \<and> won) (field ''roguelikeFloor'' e)
                  (event_pieces e (count_survivors won (field ''survivorCount'' e) (event_outcome e s)))))"

definition event_id :: "json \<Rightarrow> string option" where
  "event_id e = (case field ''battleId'' e of JStr i \<Rightarrow> if i = [] then None else Some i | _ \<Rightarrow> None)"

definition after_event :: "string \<Rightarrow> json \<Rightarrow> service_record \<Rightarrow> service_record" where
  "after_event now e current =
     addServiceDecorations (Some now)
       (current\<lparr>sc_stats := normalizeServiceStats (service_stats_json (event_stats e (sc_stats current))),
          sc_processedBattleIds := (case event_id e of
              None \<Rightarrow> sc_processedBattleIds current
            | Some i \<Rightarrow> last_n MAX_PROCESSED_IDS (filter (\<lambda>j. j \<noteq> i) (sc_processedBattleIds current) @ [i])),
          sc_migratedLegacyHistory := True\<rparr>)"

definition recordCombatServiceEvent ::
  "json_api \<Rightarrow> (json \<Rightarrow> rat option) \<Rightarrow> string \<Rightarrow> json \<Rightarrow> store \<Rightarrow> service_result \<times> store" where
  "recordCombatServiceEvent js date_of now e st =
     (let (current, st1) = loadCombatService js date_of st; before = summarizeCombatService (service_json current)
      in if (case event_id e of None \<Rightarrow> False | Some i \<Rightarrow> i \<in> set (sc_processedBattleIds current))
         then (\<lparr>rs_record = current, rs_previousRank = sm_rank before, rs_currentRank = sm_rank before,
                rs_promoted = False, rs_newDecorations = [], rs_meritGained = 0\<rparr>, st1)
         else let nxt = after_event now e current;
                  newIds = filter (\<lambda>i. i \<notin> set (map ed_id (sc_decorations current))) (map ed_id (sc_decorations nxt));
                  after = summarizeCombatService (service_json nxt)
              in (\<lparr>rs_record = nxt, rs_previousRank = sm_rank before, rs_currentRank = sm_rank after,
                   rs_promoted = (rank_index_of (sm_rank before) < rank_index_of (sm_rank after)),
                   rs_newDecorations = filter (\<lambda>(row, _). dr_id row \<in> set newIds) (sm_decorations after),
                   rs_meritGained = max 0 (sm_merit after - sm_merit before)\<rparr>,
                  st1(SERVICE_KEY \<mapsto> stringify js (service_json nxt))))"

definition resetCombatService :: "store \<Rightarrow> service_record \<times> store" where
  "resetCombatService st = (emptyServiceRecord, st(SERVICE_KEY := None))"

end
