(* ===== verification/CombatServiceProps.thy ===== *)
theory CombatServiceProps
  imports CombatService "HOL-Library.Sublist"
begin

text \<open>
  What the service record promises: its counters add up, its decorations are exactly the deserved ones, a battle
  counts once, and neither merit nor rank is ever lost.
\<close>

section \<open>Counters\<close>

lemma counter_of_nonneg [simp, intro]: "0 \<le> counter_of v"
  by (simp add: counter_of_def split: jsnum.splits)

lemma counter_of_int [simp]: "counter_of (JInt i) = max 0 i"
  by (simp add: counter_of_def)

definition stats_nonneg :: "service_stats \<Rightarrow> bool" where
  "stats_nonneg s \<longleftrightarrow>
     0 \<le> sv_battles s \<and> 0 \<le> sv_wins s \<and> 0 \<le> sv_draws s \<and> 0 \<le> sv_losses s \<and> 0 \<le> sv_retirements s \<and>
     0 \<le> sv_totalSurvivors s \<and> 0 \<le> sv_survivorSamples s \<and> 0 \<le> sv_flawlessWins s \<and> 0 \<le> sv_hardshipWins s \<and>
     0 \<le> sv_currentWinStreak s \<and> 0 \<le> sv_bestWinStreak s \<and> 0 \<le> sv_roguelikeFloorsCleared s \<and>
     0 \<le> sv_highestFloorCleared s \<and> 0 \<le> sv_bossesDefeated s \<and> 0 \<le> sv_towerCompletions s \<and>
     0 \<le> sv_endlessFloorsCleared s \<and> 0 \<le> sv_maxVeteranPieces s \<and> 0 \<le> sv_maxElitePieces s"

text \<open>Every counter but the current streak and the retirements only grows.\<close>

definition stats_le :: "service_stats \<Rightarrow> service_stats \<Rightarrow> bool" where
  "stats_le s t \<longleftrightarrow>
     sv_battles s \<le> sv_battles t \<and> sv_wins s \<le> sv_wins t \<and> sv_draws s \<le> sv_draws t \<and> sv_losses s \<le> sv_losses t \<and>
     sv_flawlessWins s \<le> sv_flawlessWins t \<and> sv_hardshipWins s \<le> sv_hardshipWins t \<and>
     sv_bestWinStreak s \<le> sv_bestWinStreak t \<and> sv_roguelikeFloorsCleared s \<le> sv_roguelikeFloorsCleared t \<and>
     sv_highestFloorCleared s \<le> sv_highestFloorCleared t \<and> sv_bossesDefeated s \<le> sv_bossesDefeated t \<and>
     sv_towerCompletions s \<le> sv_towerCompletions t \<and> sv_endlessFloorsCleared s \<le> sv_endlessFloorsCleared t \<and>
     sv_maxVeteranPieces s \<le> sv_maxVeteranPieces t \<and> sv_maxElitePieces s \<le> sv_maxElitePieces t"

definition stats_ok :: "service_stats \<Rightarrow> bool" where
  "stats_ok s \<longleftrightarrow> stats_nonneg s \<and>
     sv_battles s = sv_wins s + sv_draws s + sv_losses s \<and>
     sv_flawlessWins s + sv_hardshipWins s \<le> sv_wins s \<and>
     sv_survivorSamples s \<le> sv_battles s \<and> sv_totalSurvivors s \<le> 16 * sv_survivorSamples s \<and>
     sv_currentWinStreak s \<le> sv_bestWinStreak s \<and> sv_bestWinStreak s \<le> sv_wins s \<and>
     sv_bossesDefeated s \<le> sv_wins s"

lemma normalize_nonneg: "stats_nonneg (normalizeServiceStats v)"
  by (simp add: stats_nonneg_def normalizeServiceStats_def Let_def)

lemma normalize_written_stats: "stats_nonneg s \<Longrightarrow> normalizeServiceStats (service_stats_json s) = s"
  by (cases s) (simp add: stats_nonneg_def normalizeServiceStats_def service_stats_json_def Let_def)

lemma nonneg_steps:
  assumes "stats_nonneg s"
  shows "stats_nonneg (count_survivors w v s)" "stats_nonneg (count_floor c v s)" "stats_nonneg (count_boss b t s)"
    "stats_nonneg (event_pieces e s)" "stats_nonneg (event_outcome e s)" "stats_nonneg (count_outcome e s)"
    "stats_nonneg (s\<lparr>sv_retirements := sv_retirements s + 1\<rparr>)"
    "stats_nonneg (s\<lparr>sv_retirements := sv_retirements s + 1, sv_currentWinStreak := 0\<rparr>)"
  using assms
  by (auto simp: stats_nonneg_def count_survivors_def count_floor_def count_boss_def event_pieces_def raise_counter_def
      event_outcome_def count_outcome_def Let_def split: option.splits)

lemma event_nonneg: "stats_nonneg s \<Longrightarrow> stats_nonneg (event_stats e s)"
  by (simp add: event_stats_def Let_def nonneg_steps)

lemma stats_le_refl [simp]: "stats_le s s"
  by (simp add: stats_le_def)

lemma stats_le_trans: "stats_le a b \<Longrightarrow> stats_le b c \<Longrightarrow> stats_le a c"
  by (simp add: stats_le_def)

lemma grow_steps:
  "stats_le s (count_survivors w v s)" "stats_le s (count_floor c v s)" "stats_le s (count_boss b t s)"
  "stats_le s (event_pieces e s)" "stats_le s (event_outcome e s)"
  "stats_le s (s\<lparr>sv_retirements := n, sv_currentWinStreak := m\<rparr>)"
  by (auto simp: stats_le_def count_survivors_def count_floor_def count_boss_def event_pieces_def raise_counter_def
      event_outcome_def Let_def split: option.splits)

lemma event_grows: "stats_le s (event_stats e s)"
proof (cases "has_outcome [''retired''] e \<or> \<not> has_outcome completed_outcomes e")
  case True
  then show ?thesis using grow_steps(6) by (auto simp: event_stats_def)
next
  case False
  then show ?thesis unfolding event_stats_def Let_def
    by simp (intro stats_le_trans [OF _ grow_steps(3)] stats_le_trans [OF _ grow_steps(2)]
        stats_le_trans [OF _ grow_steps(4)] stats_le_trans [OF _ grow_steps(1)] grow_steps(5))
qed

lemma merit_mono: "stats_le s t \<Longrightarrow> merit_of s \<le> merit_of t"
  by (simp add: stats_le_def merit_of_def)

lemma test_mono: "stats_le s t \<Longrightarrow> row \<in> set SERVICE_DECORATIONS \<Longrightarrow> dr_test row s \<Longrightarrow> dr_test row t"
  by (auto simp: stats_le_def SERVICE_DECORATIONS_def)

lemma eligible_mono: "stats_le s t \<Longrightarrow> rank \<in> set SERVICE_RANKS \<Longrightarrow> ck_eligible rank s \<Longrightarrow> ck_eligible rank t"
  by (auto simp: stats_le_def SERVICE_RANKS_def)

text \<open>How much each step of a battle adds to the counters that depend on each other.\<close>

lemma outcome_counts:
  assumes "stats_ok s" "has_outcome completed_outcomes e" "s' = event_outcome e s"
  shows "stats_nonneg s'" "sv_battles s' = sv_wins s' + sv_draws s' + sv_losses s'"
    "sv_survivorSamples s' + 1 \<le> sv_battles s'" "sv_totalSurvivors s' \<le> 16 * sv_survivorSamples s'"
    "sv_flawlessWins s' + sv_hardshipWins s' + of_bool (has_outcome [''win''] e) \<le> sv_wins s'"
    "sv_bossesDefeated s' + of_bool (has_outcome [''win''] e) \<le> sv_wins s'"
    "sv_currentWinStreak s' \<le> sv_bestWinStreak s'" "sv_bestWinStreak s' \<le> sv_wins s'"
proof -
  have "0 \<le> sv_bestWinStreak s" using assms(1) by (simp add: stats_ok_def stats_nonneg_def)
  then show "stats_nonneg s'" "sv_battles s' = sv_wins s' + sv_draws s' + sv_losses s'"
    "sv_survivorSamples s' + 1 \<le> sv_battles s'" "sv_totalSurvivors s' \<le> 16 * sv_survivorSamples s'"
    "sv_flawlessWins s' + sv_hardshipWins s' + of_bool (has_outcome [''win''] e) \<le> sv_wins s'"
    "sv_bossesDefeated s' + of_bool (has_outcome [''win''] e) \<le> sv_wins s'"
    "sv_currentWinStreak s' \<le> sv_bestWinStreak s'" "sv_bestWinStreak s' \<le> sv_wins s'"
    using assms nonneg_steps(5) [of s e] by (auto simp: stats_ok_def event_outcome_def Let_def split: if_splits)
qed

lemma survivor_counts:
  assumes "s' = count_survivors w v s"
  shows "sv_flawlessWins s' + sv_hardshipWins s' \<le> sv_flawlessWins s + sv_hardshipWins s + of_bool w"
    "sv_survivorSamples s' \<le> sv_survivorSamples s + 1"
    "sv_totalSurvivors s \<le> 16 * sv_survivorSamples s \<Longrightarrow> sv_totalSurvivors s' \<le> 16 * sv_survivorSamples s'"
    "sv_battles s' = sv_battles s" "sv_wins s' = sv_wins s" "sv_draws s' = sv_draws s" "sv_losses s' = sv_losses s"
    "sv_bossesDefeated s' = sv_bossesDefeated s" "sv_currentWinStreak s' = sv_currentWinStreak s"
    "sv_bestWinStreak s' = sv_bestWinStreak s"
  using assms by (auto simp: count_survivors_def Let_def split: option.splits)

lemma tail_fields [simp]:
  "sv_battles (count_boss b t s) = sv_battles s" "sv_battles (count_floor c v s) = sv_battles s"
  "sv_battles (event_pieces e s) = sv_battles s"
  "sv_wins (count_boss b t s) = sv_wins s" "sv_wins (count_floor c v s) = sv_wins s"
  "sv_wins (event_pieces e s) = sv_wins s"
  "sv_draws (count_boss b t s) = sv_draws s" "sv_draws (count_floor c v s) = sv_draws s"
  "sv_draws (event_pieces e s) = sv_draws s"
  "sv_losses (count_boss b t s) = sv_losses s" "sv_losses (count_floor c v s) = sv_losses s"
  "sv_losses (event_pieces e s) = sv_losses s"
  "sv_totalSurvivors (count_boss b t s) = sv_totalSurvivors s" "sv_totalSurvivors (count_floor c v s) = sv_totalSurvivors s"
  "sv_totalSurvivors (event_pieces e s) = sv_totalSurvivors s"
  "sv_survivorSamples (count_boss b t s) = sv_survivorSamples s" "sv_survivorSamples (count_floor c v s) = sv_survivorSamples s"
  "sv_survivorSamples (event_pieces e s) = sv_survivorSamples s"
  "sv_flawlessWins (count_boss b t s) = sv_flawlessWins s" "sv_flawlessWins (count_floor c v s) = sv_flawlessWins s"
  "sv_flawlessWins (event_pieces e s) = sv_flawlessWins s"
  "sv_hardshipWins (count_boss b t s) = sv_hardshipWins s" "sv_hardshipWins (count_floor c v s) = sv_hardshipWins s"
  "sv_hardshipWins (event_pieces e s) = sv_hardshipWins s"
  "sv_currentWinStreak (count_boss b t s) = sv_currentWinStreak s" "sv_currentWinStreak (count_floor c v s) = sv_currentWinStreak s"
  "sv_currentWinStreak (event_pieces e s) = sv_currentWinStreak s"
  "sv_bestWinStreak (count_boss b t s) = sv_bestWinStreak s" "sv_bestWinStreak (count_floor c v s) = sv_bestWinStreak s"
  "sv_bestWinStreak (event_pieces e s) = sv_bestWinStreak s"
  "sv_bossesDefeated (count_floor c v s) = sv_bossesDefeated s" "sv_bossesDefeated (event_pieces e s) = sv_bossesDefeated s"
  by (simp_all add: count_boss_def count_floor_def event_pieces_def Let_def)

lemma boss_count: "sv_bossesDefeated (count_boss (w \<and> x) t s) \<le> sv_bossesDefeated s + of_bool w"
  by (simp add: count_boss_def)

lemma event_ok: "stats_ok s \<Longrightarrow> stats_ok (event_stats e s)"
proof (cases "has_outcome completed_outcomes e \<and> \<not> has_outcome [''retired''] e")
  case True
  assume ok: "stats_ok s"
  let ?w = "has_outcome [''win''] e"
  let ?a = "event_outcome e s" and ?b = "count_survivors ?w (field ''survivorCount'' e) (event_outcome e s)"
  note a = outcome_counts [OF ok conjunct1 [OF True] refl]
  note b = survivor_counts [of ?b ?w "field ''survivorCount'' e" ?a, OF refl]
  have bosses: "sv_bossesDefeated (count_boss (?w \<and> x) t (count_floor c u (event_pieces e ?b))) \<le> sv_wins ?b" for x t c u
    using boss_count [of ?w x t "count_floor c u (event_pieces e ?b)"] a(6) b(5,8) by simp
  have "event_stats e s = count_boss (?w \<and> truthy (field ''bossDefeated'' e))
      (json_number (field ''roguelikeFloor'' e) = Fin 10 \<and> field ''roguelikeMode'' e \<noteq> JStr ''endless'')
      (count_floor (field ''variant'' e = JStr ''roguelike'' \<and> ?w) (field ''roguelikeFloor'' e) (event_pieces e ?b))"
    using True by (simp add: event_stats_def Let_def)
  then show ?thesis
    using a b(1-3) bosses event_nonneg [of s e] ok unfolding stats_ok_def
    by (simp add: b(4-10))
next
  case False
  assume "stats_ok s"
  moreover from this have "0 \<le> sv_bestWinStreak s" by (simp add: stats_ok_def stats_nonneg_def)
  ultimately show ?thesis using False nonneg_steps(8) [of s]
    by (auto simp: stats_ok_def event_stats_def)
qed

section \<open>The migration\<close>

lemma win_completed: "has_outcome [''win''] b \<Longrightarrow> has_outcome completed_outcomes b \<and> \<not> has_outcome [''retired''] b"
  by (auto simp: has_outcome_def completed_outcomes_def split: json.splits)

lemma legacy_counts:
  assumes "stats_ok s" "has_outcome completed_outcomes e" "s' = count_outcome e s"
  shows "stats_nonneg s'" "sv_battles s' = sv_wins s' + sv_draws s' + sv_losses s'"
    "sv_survivorSamples s' + 1 \<le> sv_battles s'" "sv_totalSurvivors s' \<le> 16 * sv_survivorSamples s'"
    "sv_flawlessWins s' + sv_hardshipWins s' + of_bool (has_outcome [''win''] e) \<le> sv_wins s'"
    "sv_bossesDefeated s' + of_bool (has_outcome [''win''] e) \<le> sv_wins s'"
    "sv_currentWinStreak s' \<le> sv_bestWinStreak s'" "sv_bestWinStreak s' \<le> sv_wins s'"
  using assms nonneg_steps(6) [of s e] by (auto simp: stats_ok_def count_outcome_def Let_def split: if_splits)

lemma legacy_nonneg: "stats_nonneg s \<Longrightarrow> stats_nonneg (legacy_battle e s)"
  by (simp add: legacy_battle_def Let_def nonneg_steps)

lemma legacy_ok: "stats_ok s \<Longrightarrow> stats_ok (legacy_battle e s)"
proof (cases "has_outcome completed_outcomes e \<and> \<not> has_outcome [''retired''] e")
  case True
  assume ok: "stats_ok s"
  let ?w = "has_outcome [''win''] e"
  let ?a = "count_outcome e s" and ?b = "count_survivors ?w (field ''survivorCount'' e) (count_outcome e s)"
  note a = legacy_counts [OF ok conjunct1 [OF True] refl]
  note b = survivor_counts [of ?b ?w "field ''survivorCount'' e" ?a, OF refl]
  have bosses: "sv_bossesDefeated (count_boss (?w \<and> x) t (count_floor c u ?b)) \<le> sv_wins ?b" for x t c u
    using boss_count [of ?w x t "count_floor c u ?b"] a(6) b(5,8) by simp
  have "legacy_battle e s = count_boss (?w \<and> truthy (field ''boss'' e)) (json_number (field ''roguelikeFloor'' e) = Fin 10)
      (count_floor (field ''variant'' e = JStr ''roguelike'' \<and> ?w) (field ''roguelikeFloor'' e) ?b)"
    using True by (simp add: legacy_battle_def Let_def)
  then show ?thesis
    using a b(1-3) bosses legacy_nonneg [of s e] ok unfolding stats_ok_def
    by (simp add: b(4-10))
next
  case False
  assume "stats_ok s"
  then show ?thesis using False nonneg_steps(7) [of s]
    by (auto simp: stats_ok_def legacy_battle_def)
qed

lemma legacy_wins: "sv_wins (legacy_battle e s) = sv_wins s + of_bool (has_outcome [''win''] e)"
  using win_completed [of e] by (auto simp: legacy_battle_def Let_def survivor_counts(5) [OF refl] count_outcome_def)

lemma legacy_fold:
  "stats_ok s \<Longrightarrow> stats_ok (fold legacy_battle bs s) \<and>
     sv_wins (fold legacy_battle bs s) = sv_wins s + int (length (filter (has_outcome [''win'']) bs))"
  by (induction bs arbitrary: s) (simp_all add: legacy_ok legacy_wins)

lemma streak_fold:
  "0 \<le> fst cb \<and> fst cb \<le> snd cb \<and> snd cb \<le> n \<Longrightarrow>
   (let r = fold streak_step bs cb in 0 \<le> fst r \<and> fst r \<le> snd r \<and>
      snd r \<le> n + int (length (filter (has_outcome [''win'']) bs)))"
proof (induction bs arbitrary: cb n)
  case (Cons b bs)
  have "0 \<le> fst (streak_step b cb) \<and> fst (streak_step b cb) \<le> snd (streak_step b cb) \<and>
      snd (streak_step b cb) \<le> n + of_bool (has_outcome [''win''] b)"
    using Cons.prems by (auto simp: streak_step_def)
  from Cons.IH [OF this] show ?case by (cases "has_outcome [''win''] b") (simp_all add: Let_def)
qed simp

lemma count_insert_stable: "length (filter P (insert_stable le x ys)) = length (filter P (x # ys))"
  by (induction ys) auto

lemma count_sort_stable: "length (filter P (sort_stable le xs)) = length (filter P xs)"
  unfolding sort_stable_def by (induction xs) (simp_all add: count_insert_stable)

lemma streaks_bound:
  assumes "streak = streaksFromHistory date_of bs"
  shows "0 \<le> fst streak" "fst streak \<le> snd streak" "snd streak \<le> int (length (filter (has_outcome [''win'']) bs))"
proof -
  show "0 \<le> fst streak" "fst streak \<le> snd streak" "snd streak \<le> int (length (filter (has_outcome [''win'']) bs))"
    using streak_fold [of "(0, 0)" 0 "sort_stable (dated_before date_of) bs"] assms
    by (simp_all add: streaksFromHistory_def Let_def count_sort_stable)
qed

lemma evidence_ok:
  assumes "stats_ok s" "0 \<le> floors" "0 \<le> fst streak" "fst streak \<le> snd streak" "snd streak \<le> sv_wins s"
  shows "stats_ok (legacy_evidence floors tower roster streak s)"
  using assms by (auto simp: stats_ok_def stats_nonneg_def legacy_evidence_def veteran_pieces_def elite_pieces_def)

lemma migrated_stats:
  "stats_ok (sc_stats (migrateLegacyRecord js date_of st))"
proof -
  let ?bs = "elements (safeJson js SERVICE_HISTORY_KEY (JArr []) st)"
  have "stats_ok emptyServiceStats" by (simp add: emptyServiceStats_def stats_ok_def stats_nonneg_def)
  note f = legacy_fold [OF this, of ?bs]
  have w: "sv_wins emptyServiceStats = 0" by (simp add: emptyServiceStats_def)
  have "0 \<le> conservativelyCleared st" by (simp add: conservativelyCleared_def max_def)
  then show ?thesis
    using f w streaks_bound [OF refl, of date_of ?bs]
    by (simp add: migrateLegacyRecord_def Let_def addServiceDecorations_def evidence_ok)
qed

section \<open>Ranks\<close>

lemma last_position_mono:
  assumes "\<And>r. r \<in> set xs \<Longrightarrow> P r \<Longrightarrow> Q r" "b \<le> b'" "b' \<le> n"
  shows "fold (\<lambda>(i, r) best. if P r then i else best) (enumerate n xs) b \<le>
         fold (\<lambda>(i, r) best. if Q r then i else best) (enumerate n xs) b'"
  using assms
proof (induction xs arbitrary: n b b')
  case (Cons x xs)
  show ?case
    using Cons.prems Cons.IH [of "if P x then n else b" "if Q x then n else b'" "Suc n"] by auto
qed simp

lemma last_position_bound:
  "b < n + length xs \<Longrightarrow> fold (\<lambda>(i, r) best. if P r then i else best) (enumerate n xs) b < n + length xs"
proof (induction xs arbitrary: n b)
  case (Cons x xs)
  show ?case using Cons.prems Cons.IH [of "if P x then n else b" "Suc n"]
    by (cases "xs = []") auto
qed simp

lemma rank_position_mono: "stats_le s t \<Longrightarrow> rank_position s \<le> rank_position t"
  unfolding rank_position_def
  by (rule last_position_mono) (use merit_mono eligible_mono in \<open>auto intro: order_trans\<close>)

lemma rank_position_bound: "rank_position s < length SERVICE_RANKS"
  unfolding rank_position_def using last_position_bound [of 0 0 SERVICE_RANKS] by (simp add: SERVICE_RANKS_def)

lemma rank_index_position: "i < length SERVICE_RANKS \<Longrightarrow> rank_index_of (SERVICE_RANKS ! i) = i"
proof -
  have "list_all (\<lambda>i. rank_index_of (SERVICE_RANKS ! i) = i) [0..<10]" by code_simp
  moreover have "length SERVICE_RANKS = 10" by (simp add: SERVICE_RANKS_def)
  ultimately show "i < length SERVICE_RANKS \<Longrightarrow> ?thesis" by (simp add: list_all_iff)
qed

section \<open>Records\<close>

definition known_decorations :: "service_record \<Rightarrow> bool" where
  "known_decorations r \<longleftrightarrow> (\<forall>d \<in> set (sc_decorations r). ed_id d \<in> set (map dr_id SERVICE_DECORATIONS))"

definition tidy :: "service_record \<Rightarrow> service_record" where
  "tidy r = r\<lparr>sc_processedBattleIds := last_n MAX_PROCESSED_IDS (filter (\<lambda>i. i \<noteq> []) (sc_processedBattleIds r))\<rparr>"

lemma tidy_simps [simp]:
  "sc_stats (tidy r) = sc_stats r" "sc_decorations (tidy r) = sc_decorations r"
  "known_decorations (tidy r) = known_decorations r"
  by (simp_all add: tidy_def known_decorations_def)

lemma decoration_known: "list_ex (\<lambda>row. dr_id row = i) SERVICE_DECORATIONS = (i \<in> set (map dr_id SERVICE_DECORATIONS))"
  by (auto simp: list_ex_iff)

lemma earned_again: "ed_id d \<in> set (map dr_id SERVICE_DECORATIONS) \<Longrightarrow> earned_of (earned_json d) = Some d"
  by (cases d) (simp add: earned_of_def earned_json_def decoration_known split: option.splits)

lemma earned_again_all:
  "\<forall>d \<in> set ds. ed_id d \<in> set (map dr_id SERVICE_DECORATIONS) \<Longrightarrow> List.map_filter earned_of (map earned_json ds) = ds"
  by (induction ds) (simp_all add: List.map_filter_simps earned_again)

lemma normalize_written_service:
  assumes "stats_nonneg (sc_stats r)" "known_decorations r"
  shows "normalizeServiceRecord (service_json r) = tidy r"
  using assms earned_again_all [of "sc_decorations r"]
  by (cases r) (simp add: normalizeServiceRecord_def service_json_def is_object_def normalize_written_stats
      known_decorations_def tidy_def del: set_map)

lemma normalized_known: "known_decorations (normalizeServiceRecord v)"
proof -
  have "earned_of d = Some x \<Longrightarrow> ed_id x \<in> set (map dr_id SERVICE_DECORATIONS)" for d x
    by (auto simp: earned_of_def decoration_known split: json.splits if_splits simp del: set_map)
  then have "d \<in> set (List.map_filter earned_of xs) \<Longrightarrow> ed_id d \<in> set (map dr_id SERVICE_DECORATIONS)" for d xs
    by (induction xs) (auto simp: List.map_filter_simps split: option.splits simp del: set_map)
  then show ?thesis
    by (simp add: known_decorations_def normalizeServiceRecord_def emptyServiceRecord_def del: set_map)
qed

lemma normalized_nonneg: "stats_nonneg (sc_stats (normalizeServiceRecord v))"
  by (simp add: normalizeServiceRecord_def normalize_nonneg)
    (simp add: emptyServiceRecord_def emptyServiceStats_def stats_nonneg_def)

lemma add_known: "known_decorations r \<Longrightarrow> known_decorations (addServiceDecorations t r)"
  by (auto simp: known_decorations_def addServiceDecorations_def Let_def)

lemma add_stats [simp]: "sc_stats (addServiceDecorations t r) = sc_stats r"
  by (simp add: addServiceDecorations_def Let_def)

text \<open>The decorations the counters deserve.\<close>

definition deserved :: "service_stats \<Rightarrow> string set" where
  "deserved s = dr_id ` {row \<in> set SERVICE_DECORATIONS. dr_test row s}"

definition decorated :: "service_record \<Rightarrow> bool" where
  "decorated r \<longleftrightarrow> distinct (map ed_id (sc_decorations r)) \<and> set (map ed_id (sc_decorations r)) = deserved (sc_stats r)"

lemma deserved_mono: "stats_le s t \<Longrightarrow> deserved s \<subseteq> deserved t"
  using test_mono by (auto simp: deserved_def)

lemma decoration_ids: "distinct (map dr_id SERVICE_DECORATIONS)"
  by code_simp

lemma decorated_add:
  assumes "distinct (map ed_id (sc_decorations r))" "set (map ed_id (sc_decorations r)) \<subseteq> deserved (sc_stats r)"
  shows "decorated (addServiceDecorations t r)"
proof -
  let ?new = "filter (\<lambda>row. dr_id row \<notin> set (map ed_id (sc_decorations r)) \<and> dr_test row (sc_stats r)) SERVICE_DECORATIONS"
  have ids: "map ed_id (sc_decorations (addServiceDecorations t r)) = map ed_id (sc_decorations r) @ map dr_id ?new"
    by (simp add: addServiceDecorations_def Let_def comp_def)
  have "distinct (map dr_id ?new)" by (rule distinct_map_filter [OF decoration_ids])
  moreover have "set (map dr_id ?new) \<inter> set (map ed_id (sc_decorations r)) = {}" by auto
  moreover have "set (map ed_id (sc_decorations r)) \<union> set (map dr_id ?new) = deserved (sc_stats r)"
    using assms(2) by (auto simp: deserved_def)
  ultimately show ?thesis using assms(1) unfolding decorated_def ids by auto
qed

abbreviation loaded :: "json_api \<Rightarrow> (json \<Rightarrow> rat option) \<Rightarrow> store \<Rightarrow> service_record" where
  "loaded js date_of st \<equiv> fst (loadCombatService js date_of st)"

lemma migrated_decorated: "decorated (migrateLegacyRecord js date_of st)"
  unfolding migrateLegacyRecord_def Let_def by (rule decorated_add) simp_all

lemma migrated_known: "known_decorations (migrateLegacyRecord js date_of st)"
  unfolding migrateLegacyRecord_def Let_def by (rule add_known) (simp add: known_decorations_def)

lemma loaded_fine: "stats_nonneg (sc_stats (loaded js date_of st)) \<and> known_decorations (loaded js date_of st)"
  using migrated_stats [of js date_of st]
  by (simp add: loadCombatService_def Let_def migrated_known normalized_known normalized_nonneg stats_ok_def split: option.splits)

definition service_api :: "json_api \<Rightarrow> bool" where
  "service_api js \<longleftrightarrow> (\<forall>r. survives js (service_json r))"

lemma service_coded_json: "service_api coded_json"
  by (simp add: service_api_def)

lemma load_written:
  assumes "service_api js" "stats_nonneg (sc_stats r)" "known_decorations r"
    "st SERVICE_KEY = Some (stringify js (service_json r))"
  shows "loadCombatService js date_of st = (tidy r, st)"
  using assms by (simp add: loadCombatService_def Let_def service_api_def survives_def normalize_written_service)

lemma tidy_normalized: "tidy (normalizeServiceRecord v) = normalizeServiceRecord v"
proof -
  have "filter P (last_n n (filter P xs)) = last_n n (filter P xs)" for P n and xs :: "string list"
    by (auto simp: filter_id_conv dest: in_set_last_n)
  then show ?thesis
    by (cases "is_object v") (simp_all add: tidy_def normalizeServiceRecord_def emptyServiceRecord_def)
qed

text \<open>After a load the storage holds a record that loads the same, up to the empty ids of a migrated history.\<close>

lemma load_again:
  assumes "service_api js"
  shows "loadCombatService js date_of (snd (loadCombatService js date_of st)) =
    (tidy (loaded js date_of st), snd (loadCombatService js date_of st))"
proof -
  let ?m = "migrateLegacyRecord js date_of st"
  have fresh: "loadCombatService js date_of (st(SERVICE_KEY \<mapsto> stringify js (service_json ?m))) =
      (tidy ?m, st(SERVICE_KEY \<mapsto> stringify js (service_json ?m)))"
    using load_written [OF assms, of ?m] migrated_stats [of js date_of st] migrated_known
    by (simp add: stats_ok_def)
  show ?thesis
  proof (cases "\<exists>raw v. st SERVICE_KEY = Some raw \<and> raw \<noteq> [] \<and> parse js raw = Some v")
    case True
    then show ?thesis by (auto simp: loadCombatService_def Let_def tidy_normalized)
  next
    case False
    then have "loadCombatService js date_of st = (?m, st(SERVICE_KEY \<mapsto> stringify js (service_json ?m)))"
      by (auto simp: loadCombatService_def Let_def split: option.splits)
    then show ?thesis using fresh by simp
  qed
qed

definition seen :: "json \<Rightarrow> service_record \<Rightarrow> bool" where
  "seen e r = (case event_id e of None \<Rightarrow> False | Some i \<Rightarrow> i \<in> set (sc_processedBattleIds r))"

lemma after_event_fine:
  assumes "stats_nonneg (sc_stats r)" "known_decorations r"
  shows "sc_stats (after_event now e r) = event_stats e (sc_stats r)" "known_decorations (after_event now e r)"
  using assms normalize_written_stats [OF event_nonneg [OF assms(1)], of e]
  by (simp_all add: after_event_def) (rule add_known, simp add: known_decorations_def)

lemma loaded_after:
  assumes "service_api js" "r = loaded js date_of st"
    "st' = snd (recordCombatServiceEvent js date_of now e st)"
  shows "loadCombatService js date_of st' = (tidy (if seen e r then r else after_event now e r), st')"
proof (cases "seen e r")
  case True
  then have "st' = snd (loadCombatService js date_of st)"
    using assms(2,3) by (simp add: recordCombatServiceEvent_def seen_def Let_def split_beta)
  then show ?thesis using True load_again [OF assms(1), of date_of st] assms(2) by simp
next
  case False
  have fine: "stats_nonneg (sc_stats r)" "known_decorations r" using loaded_fine assms(2) by blast+
  have "st' = (snd (loadCombatService js date_of st))(SERVICE_KEY \<mapsto> stringify js (service_json (after_event now e r)))"
    using assms(2,3) False by (simp add: recordCombatServiceEvent_def seen_def Let_def split_beta)
  then show ?thesis
    using load_written [OF assms(1), of "after_event now e r" st'] False after_event_fine [OF fine] event_nonneg [OF fine(1)]
    by simp
qed

lemma decorated_tidy [simp]: "decorated (tidy r) = decorated r"
  by (simp add: decorated_def)

lemma after_event_decorated:
  assumes "decorated r" "stats_nonneg (sc_stats r)"
  shows "decorated (after_event now e r)"
proof -
  have "normalizeServiceStats (service_stats_json (event_stats e (sc_stats r))) = event_stats e (sc_stats r)"
    by (rule normalize_written_stats [OF event_nonneg [OF assms(2)]])
  then show ?thesis
    unfolding after_event_def
    by (intro decorated_add) (use assms(1) deserved_mono [OF event_grows] in \<open>auto simp: decorated_def\<close>)
qed

lemma first_load:
  assumes "st SERVICE_KEY = None"
  shows "stats_ok (sc_stats (loaded js date_of st)) \<and> decorated (loaded js date_of st)"
  using assms migrated_stats migrated_decorated by (simp add: loadCombatService_def Let_def)

abbreviation report_event ::
  "json_api \<Rightarrow> (json \<Rightarrow> rat option) \<Rightarrow> string \<times> json \<Rightarrow> store \<Rightarrow> store" where
  "report_event js date_of x st \<equiv> snd (recordCombatServiceEvent js date_of (fst x) (snd x) st)"

text \<open>The service record adds up. Whatever an older profile holds and whatever battles are reported, the
  battles are the wins, draws and losses, the special wins are wins, the survivors are at most sixteen a battle,
  the streaks fit the wins, and the decorations are exactly those the counters deserve, each once.\<close>

theorem service_record_sound:
  assumes "service_api js" "st SERVICE_KEY = None"
  shows "stats_ok (sc_stats (loaded js date_of (fold (report_event js date_of) xs st))) \<and>
    decorated (loaded js date_of (fold (report_event js date_of) xs st))"
proof -
  have "stats_ok (sc_stats (loaded js date_of s)) \<and> decorated (loaded js date_of s) \<Longrightarrow>
      stats_ok (sc_stats (loaded js date_of (fold (report_event js date_of) xs s))) \<and>
      decorated (loaded js date_of (fold (report_event js date_of) xs s))" for s
  proof (induction xs arbitrary: s)
    case (Cons x xs)
    let ?r = "loaded js date_of s"
    have n: "stats_nonneg (sc_stats ?r)" "known_decorations ?r" using loaded_fine by blast+
    have "stats_ok (sc_stats (loaded js date_of (report_event js date_of x s))) \<and>
        decorated (loaded js date_of (report_event js date_of x s))"
      using loaded_after [OF assms(1) refl refl, of date_of "fst x" "snd x" s] Cons.prems
        after_event_fine [OF n, of "fst x" "snd x"] after_event_decorated [OF _ n(1), of "fst x" "snd x"]
        event_ok [of "sc_stats ?r" "snd x"]
      by simp
    from Cons.IH [OF this] show ?case by simp
  qed simp
  then show ?thesis using first_load [of st js date_of, OF assms(2)] .
qed

definition example_event :: json where
  "example_event = JObj [(''battleId'', JStr ''b1''), (''outcome'', JStr ''win''), (''survivorCount'', JInt 16)]"

theorem service_record_sound_witness:
  "decorated (loaded coded_json (\<lambda>v. None)
     (fold (report_event coded_json (\<lambda>v. None)) [(''t'', example_event), (''u'', JNull)] Map.empty))"
  using service_record_sound [OF service_coded_json, of Map.empty "\<lambda>v. None" "[(''t'', example_event), (''u'', JNull)]"]
  by simp

lemma summary_rank:
  assumes "stats_nonneg (sc_stats r)" "known_decorations r"
  shows "sm_rank (summarizeCombatService (service_json r)) = SERVICE_RANKS ! rank_position (sc_stats r)"
    "sm_merit (summarizeCombatService (service_json r)) = merit_of (sc_stats r)"
  using assms by (simp_all add: summarizeCombatService_def Let_def normalize_written_service)

text \<open>Nothing earned is lost. Whatever the storage holds, after any event the counters have not gone down,
  the decorations are the earlier ones and the new ones, the merit gained is the difference, the rank is never
  lower, and a promotion is announced exactly when it is higher.\<close>

theorem service_never_demotes:
  assumes "service_api js" "r = loaded js date_of st" "r' = loaded js date_of st'"
    "(res, st') = recordCombatServiceEvent js date_of now e st"
  shows "stats_le (sc_stats r) (sc_stats r') \<and> prefix (sc_decorations r) (sc_decorations r') \<and>
    rs_meritGained res = merit_of (sc_stats r') - merit_of (sc_stats r) \<and> 0 \<le> rs_meritGained res \<and>
    rank_position (sc_stats r) \<le> rank_position (sc_stats r') \<and>
    rs_currentRank res = SERVICE_RANKS ! rank_position (sc_stats r') \<and>
    (rs_promoted res \<longleftrightarrow> rank_position (sc_stats r) < rank_position (sc_stats r'))"
proof -
  have fine: "stats_nonneg (sc_stats r)" "known_decorations r" using loaded_fine assms(2) by blast+
  note new = after_event_fine [OF fine, of now e]
  have st': "st' = snd (recordCombatServiceEvent js date_of now e st)" using assms(4) by (metis snd_conv)
  have res: "res = fst (recordCombatServiceEvent js date_of now e st)" using assms(4) by (metis fst_conv)
  have r': "r' = tidy (if seen e r then r else after_event now e r)"
    using loaded_after [OF assms(1,2) st'] assms(3) by simp
  show ?thesis
  proof (cases "seen e r")
    case True
    then have "res = \<lparr>rs_record = r, rs_previousRank = SERVICE_RANKS ! rank_position (sc_stats r),
        rs_currentRank = SERVICE_RANKS ! rank_position (sc_stats r), rs_promoted = False, rs_newDecorations = [],
        rs_meritGained = 0\<rparr>"
      using res assms(2) summary_rank [OF fine]
      by (simp add: recordCombatServiceEvent_def seen_def Let_def split_beta)
    then show ?thesis using True r' by simp
  next
    case False
    let ?n = "after_event now e r"
    have le: "stats_le (sc_stats r) (sc_stats ?n)" using new(1) event_grows by simp
    have nn: "stats_nonneg (sc_stats ?n)" using new(1) event_nonneg [OF fine(1)] by simp
    have "rs_meritGained res = max 0 (merit_of (sc_stats ?n) - merit_of (sc_stats r))"
      "rs_currentRank res = SERVICE_RANKS ! rank_position (sc_stats ?n)"
      "rs_promoted res = (rank_index_of (SERVICE_RANKS ! rank_position (sc_stats r)) <
         rank_index_of (SERVICE_RANKS ! rank_position (sc_stats ?n)))"
      using False res assms(2) summary_rank [OF fine] summary_rank [OF nn new(2)]
      by (simp_all add: recordCombatServiceEvent_def seen_def Let_def split_beta)
    moreover have "prefix (sc_decorations r) (sc_decorations ?n)"
      by (simp add: after_event_def addServiceDecorations_def Let_def)
    ultimately show ?thesis
      using False r' le merit_mono [OF le] rank_position_mono [OF le]
      by (simp add: rank_index_position [OF rank_position_bound])
  qed
qed

theorem service_never_demotes_witness:
  "rank_position (sc_stats (loaded coded_json (\<lambda>v. None) Map.empty)) \<le>
   rank_position (sc_stats (loaded coded_json (\<lambda>v. None) (report_event coded_json (\<lambda>v. None) (''t'', example_event) Map.empty)))"
  using service_never_demotes [OF service_coded_json refl refl prod.collapse,
      of "\<lambda>v. None" Map.empty "''t''" example_event] by simp

lemma loaded_ids: "length (sc_processedBattleIds (loaded js date_of st)) \<le> MAX_PROCESSED_IDS"
  by (simp add: loadCombatService_def Let_def normalizeServiceRecord_def emptyServiceRecord_def migrateLegacyRecord_def
      addServiceDecorations_def split: option.splits)

lemma kept_id:
  "i \<in> set (sc_processedBattleIds x) \<Longrightarrow> length (sc_processedBattleIds x) \<le> MAX_PROCESSED_IDS \<Longrightarrow> i \<noteq> [] \<Longrightarrow>
   i \<in> set (sc_processedBattleIds (tidy x))"
  by (simp add: tidy_def last_n_id [OF order_trans [OF length_filter_le]])

text \<open>A battle counts once. An event that counts adds one battle when it is a finished one; reporting its
  battle again, with any outcome, changes neither the storage nor the record and gains nothing.\<close>

theorem service_battle_once:
  assumes "service_api js" "event_id e = Some i" "event_id e' = Some i" "r = loaded js date_of st"
    "st' = snd (recordCombatServiceEvent js date_of now e st)"
    "(res, st'') = recordCombatServiceEvent js date_of later e' st'"
  shows "st'' = st' \<and> rs_record res = loaded js date_of st' \<and> rs_meritGained res = 0 \<and> rs_newDecorations res = [] \<and>
    (i \<notin> set (sc_processedBattleIds r) \<longrightarrow>
      sc_stats (loaded js date_of st') = event_stats e (sc_stats r))"
proof -
  have i: "i \<noteq> []" using assms(2) by (auto simp: event_id_def split: json.splits if_splits)
  have fine: "stats_nonneg (sc_stats r)" "known_decorations r" using loaded_fine assms(4) by blast+
  have load: "loadCombatService js date_of st' = (tidy (if seen e r then r else after_event now e r), st')"
    by (rule loaded_after [OF assms(1,4,5)])
  have "i \<in> set (sc_processedBattleIds (if seen e r then r else after_event now e r))"
    using assms(2) by (auto simp: seen_def after_event_def addServiceDecorations_def Let_def MAX_PROCESSED_IDS_def)
  moreover have "length (sc_processedBattleIds (if seen e r then r else after_event now e r)) \<le> MAX_PROCESSED_IDS"
    using assms(2,4) loaded_ids by (simp add: after_event_def addServiceDecorations_def Let_def)
  ultimately have "i \<in> set (sc_processedBattleIds (tidy (if seen e r then r else after_event now e r)))"
    by (rule kept_id [OF _ _ i])
  then have "recordCombatServiceEvent js date_of later e' st' =
      (\<lparr>rs_record = loaded js date_of st', rs_previousRank = sm_rank (summarizeCombatService (service_json (loaded js date_of st'))),
        rs_currentRank = sm_rank (summarizeCombatService (service_json (loaded js date_of st'))),
        rs_promoted = False, rs_newDecorations = [], rs_meritGained = 0\<rparr>, st')"
    using assms(3) load by (simp add: recordCombatServiceEvent_def Let_def)
  then show ?thesis using assms(2,6) load after_event_fine(1) [OF fine] by (simp add: seen_def)
qed

theorem service_battle_once_witness:
  "report_event coded_json (\<lambda>v. None) (''u'', JObj [(''battleId'', JStr ''b1''), (''outcome'', JStr ''loss'')])
     (report_event coded_json (\<lambda>v. None) (''t'', example_event) Map.empty) =
   report_event coded_json (\<lambda>v. None) (''t'', example_event) Map.empty"
proof -
  have e: "event_id example_event = Some ''b1''"
    "event_id (JObj [(''battleId'', JStr ''b1''), (''outcome'', JStr ''loss'')]) = Some ''b1''"
    by (simp_all add: event_id_def example_event_def)
  show ?thesis
    using service_battle_once [OF service_coded_json e refl refl prod.collapse, where date_of = "\<lambda>v. None" and st = Map.empty
        and now = "''t''" and later = "''u''"]
    by simp
qed

end
