(* ===== verification/CombatSession.thy ===== *)
theory CombatSession
  imports ProfileProps CombatEngineProps
begin

text \<open>
  \<open>combatSession.js\<close>: the battles in progress of a tab, kept in the session storage and in the memory of the
  document, so that a reload or a remount brings them back.

  The tab is the one of \<open>ProfileKeys\<close> over the session area, carrying the map \<open>memorySnapshots\<close> as its
  further component; operations are computations of the state monad on it, and the browser may refuse each of
  their calls. A snapshot is \<open>json\<close>, chess.js is the argument \<open>api\<close>, and session ids are keys of plain
  objects.
\<close>

section \<open>Keys, markers and memory\<close>

definition COMBAT_SESSION_KEY :: string where "COMBAT_SESSION_KEY = ''chess-study-active-combat-session-v1''"
definition COMBAT_MARKER_KEY :: string where "COMBAT_MARKER_KEY = ''chess-study-active-combat-markers-v1''"
definition SNAPSHOT_VERSION :: int where "SNAPSHOT_VERSION = 1"
definition BUCKET_VERSION :: int where "BUCKET_VERSION = 2"
definition MARKER_VERSION :: int where "MARKER_VERSION = 1"

type_synonym battle_tab = "(string, json) obj tab_scheme"

definition memory_get :: "string \<Rightarrow> (battle_tab, json option) state" where
  "memory_get i = State (\<lambda>t. (obj_get (tab.more t) i, t))"

definition memory_change :: "((string, json) obj \<Rightarrow> (string, json) obj) \<Rightarrow> (battle_tab, unit) state" where
  "memory_change f = State (\<lambda>t. ((), tab.more_update f t))"

text \<open>\<open>readJsonStorage(area, key, { fallback: null, removeMalformed: true })\<close>.\<close>

definition read_or_remove :: "json_api \<Rightarrow> string \<Rightarrow> ('m tab_scheme, json) state" where
  "read_or_remove js key = do {
     w \<leftarrow> get_item key;
     case w of
       None \<Rightarrow> State_Monad.return JNull
     | Some raw \<Rightarrow> (case parse js raw of
         Some v \<Rightarrow> State_Monad.return v
       | None \<Rightarrow> do { _ \<leftarrow> remove_item key; State_Monad.return JNull }) }"

definition combatSessionId :: "json \<Rightarrow> string" where
  "combatSessionId v = (let i = trim (json_string (or_else_json v (JStr ''free''))) in if i = [] then ''free'' else i)"

definition marked_ids :: "json \<Rightarrow> string list" where
  "marked_ids parsed =
     (if field ''version'' parsed \<noteq> JInt MARKER_VERSION \<or> \<not> is_array (field ''sessionIds'' parsed) then []
      else uniq (filter (\<lambda>i. trim i \<noteq> []) (strings_in (elements (field ''sessionIds'' parsed)))))"

definition readMarkers :: "json_api \<Rightarrow> (battle_tab, string list) state" where
  "readMarkers js = do { parsed \<leftarrow> read_or_remove js COMBAT_MARKER_KEY; State_Monad.return (marked_ids parsed) }"

definition markers_json :: "string list \<Rightarrow> json" where
  "markers_json ids = JObj [(''version'', JInt MARKER_VERSION), (''sessionIds'', JArr (map JStr ids))]"

definition setCombatSessionMarker :: "json_api \<Rightarrow> json \<Rightarrow> bool \<Rightarrow> (battle_tab, bool) state" where
  "setCombatSessionMarker js sessionId active = do {
     markers \<leftarrow> readMarkers js;
     let i = combatSessionId sessionId;
     let markers' = (if active then (if i \<in> set markers then markers else markers @ [i]) else filter (\<lambda>j. j \<noteq> i) markers);
     if markers' = [] then remove_item COMBAT_MARKER_KEY
     else set_item COMBAT_MARKER_KEY (stringify js (markers_json markers')) }"

definition hasCombatSessionMarker :: "json_api \<Rightarrow> json \<Rightarrow> (battle_tab, bool) state" where
  "hasCombatSessionMarker js sessionId = do {
     markers \<leftarrow> readMarkers js; State_Monad.return (combatSessionId sessionId \<in> set markers) }"

section \<open>Snapshots\<close>

text \<open>\<open>combatPositionIssues\<close> on a registry as it is read back.\<close>

definition json_square_issues :: "registry \<Rightarrow> json \<Rightarrow> string \<Rightarrow> position_issue list" where
  "json_square_issues boardRegistry registry square =
     (case obj_get boardRegistry square of
        None \<Rightarrow> []
      | Some expected \<Rightarrow>
          (case field square registry of
             JObj kvs \<Rightarrow>
               (if field ''color'' (JObj kvs) \<noteq> JStr [color_char (p_color expected)] then [ColorIssue square] else []) @
               (if field ''type'' (JObj kvs) \<noteq> JStr [type_char (p_type expected)] then [TypeIssue square] else []) @
               (if field ''square'' (JObj kvs) \<noteq> JStr square then [SquareIssue square] else [])
           | _ \<Rightarrow> [Missing square]))"

definition json_position_issues :: "'c chess_api \<Rightarrow> string \<Rightarrow> json \<Rightarrow> position_issue list" where
  "json_position_issues api fen registry =
     (case ch_new api fen of
        None \<Rightarrow> [FenInvalid]
      | Some chess \<Rightarrow>
          let boardRegistry = createInitialRegistry api chess
          in concat (map (json_square_issues boardRegistry registry) (sort (obj_keys boardRegistry))) @
             map Ghost (filter (\<lambda>square. obj_get boardRegistry square = None) (sort (map fst (spread_fields registry)))))"

definition validFen :: "'c chess_api \<Rightarrow> json \<Rightarrow> bool" where
  "validFen api fen = (case fen of JStr f \<Rightarrow> trim f \<noteq> [] \<and> ch_new api f \<noteq> None | _ \<Rightarrow> False)"

definition array_or_missing :: "json \<Rightarrow> bool" where
  "array_or_missing v = (v = JNull \<or> v = JUndef \<or> is_array v)"

text \<open>What \<open>validSnapshot\<close> asks besides the version and the id.\<close>

definition valid_battle :: "'c chess_api \<Rightarrow> json \<Rightarrow> bool" where
  "valid_battle api p \<longleftrightarrow>
     field ''phase'' p = JStr ''battle'' \<and> validFen api (field ''fen'' p) \<and>
     (\<exists>kvs. field ''registry'' p = JObj kvs) \<and>
     json_position_issues api (json_string (field ''fen'' p)) (field ''registry'' p) = [] \<and>
     (field ''humanColor'' p = JStr ''w'' \<or> field ''humanColor'' p = JStr ''b'') \<and>
     array_or_missing (field ''combatLog'' p) \<and> array_or_missing (field ''uiLog'' p) \<and>
     array_or_missing (field ''positionCounts'' p) \<and> array_or_missing (field ''battleParticipants'' p) \<and>
     (case field ''unitBattleStats'' p of JNull \<Rightarrow> True | JUndef \<Rightarrow> True | JObj kvs \<Rightarrow> True | _ \<Rightarrow> False)"

definition validSnapshot :: "'c chess_api \<Rightarrow> json \<Rightarrow> string \<Rightarrow> bool" where
  "validSnapshot api p i \<longleftrightarrow>
     field ''version'' p = JInt SNAPSHOT_VERSION \<and> field ''sessionId'' p = JStr i \<and> valid_battle api p"

text \<open>The snapshots of a stored text: one alone in the first format, else those of the bucket that are valid.\<close>

definition sessions_in :: "'c chess_api \<Rightarrow> json \<Rightarrow> (string, json) obj" where
  "sessions_in api parsed =
     (if field ''version'' parsed = JInt SNAPSHOT_VERSION \<and> truthy (field ''sessionId'' parsed)
      then if valid_battle api parsed then [(json_string (field ''sessionId'' parsed), parsed)] else []
      else if field ''version'' parsed \<noteq> JInt BUCKET_VERSION \<or> \<not> is_object (field ''sessions'' parsed) then []
      else filter (\<lambda>(i, p). validSnapshot api p i) (spread_fields (field ''sessions'' parsed)))"

definition readSnapshotBucket :: "'c chess_api \<Rightarrow> json_api \<Rightarrow> (battle_tab, (string, json) obj) state" where
  "readSnapshotBucket api js = do {
     parsed \<leftarrow> read_or_remove js COMBAT_SESSION_KEY; State_Monad.return (sessions_in api parsed) }"

definition bucket_json :: "(string, json) obj \<Rightarrow> json" where
  "bucket_json sessions = JObj [(''version'', JInt BUCKET_VERSION), (''sessions'', JObj sessions)]"

definition writeSnapshotBucket :: "json_api \<Rightarrow> (string, json) obj \<Rightarrow> (battle_tab, bool) state" where
  "writeSnapshotBucket js sessions =
     (if sessions = [] then remove_item COMBAT_SESSION_KEY
      else set_item COMBAT_SESSION_KEY (stringify js (bucket_json sessions)))"

section \<open>Operations\<close>

definition session_payload :: "string \<Rightarrow> string \<Rightarrow> json \<Rightarrow> json" where
  "session_payload now i snapshot =
     with_fields (spread_fields snapshot)
       (JObj [(''version'', JInt SNAPSHOT_VERSION), (''sessionId'', JStr i), (''savedAt'', JStr now)])"

definition saveCombatSession ::
  "'c chess_api \<Rightarrow> json_api \<Rightarrow> string \<Rightarrow> json \<Rightarrow> json \<Rightarrow> (battle_tab, bool) state" where
  "saveCombatSession api js now sessionId snapshot =
     (let i = combatSessionId sessionId; payload = session_payload now i snapshot
      in if \<not> validSnapshot api payload i then State_Monad.return False
         else do {
           _ \<leftarrow> memory_change (obj_put i payload);
           _ \<leftarrow> setCombatSessionMarker js (JStr i) True;
           sessions \<leftarrow> readSnapshotBucket api js;
           writeSnapshotBucket js (obj_put i payload sessions) })"

definition from_memory :: "'c chess_api \<Rightarrow> string \<Rightarrow> (battle_tab, json option) state" where
  "from_memory api i = do {
     m \<leftarrow> memory_get i;
     State_Monad.return (case m of None \<Rightarrow> None | Some p \<Rightarrow> if validSnapshot api p i then Some p else None) }"

definition loadCombatSession :: "'c chess_api \<Rightarrow> json_api \<Rightarrow> json \<Rightarrow> (battle_tab, json option) state" where
  "loadCombatSession api js sessionId =
     (let i = combatSessionId sessionId
      in do {
        sessions \<leftarrow> readSnapshotBucket api js;
        case obj_get sessions i of
          Some snapshot \<Rightarrow>
            if validSnapshot api snapshot i
            then do { _ \<leftarrow> memory_change (obj_put i snapshot); State_Monad.return (Some snapshot) }
            else from_memory api i
        | None \<Rightarrow> from_memory api i })"

definition hasCombatSession :: "'c chess_api \<Rightarrow> json_api \<Rightarrow> json \<Rightarrow> (battle_tab, bool) state" where
  "hasCombatSession api js sessionId = do {
     w \<leftarrow> loadCombatSession api js sessionId; State_Monad.return (w \<noteq> None) }"

definition canReturnCombatToSetup :: "string \<Rightarrow> string \<Rightarrow> bool" where
  "canReturnCombatToSetup phase combatVariant \<longleftrightarrow> \<not> (phase = ''battle'' \<and> combatVariant = ''roguelike'')"

definition clearCombatSession :: "'c chess_api \<Rightarrow> json_api \<Rightarrow> json option \<Rightarrow> (battle_tab, unit) state" where
  "clearCombatSession api js sessionId =
     (case sessionId of
        None \<Rightarrow> do {
          _ \<leftarrow> memory_change (\<lambda>_. []);
          _ \<leftarrow> remove_item COMBAT_SESSION_KEY;
          _ \<leftarrow> remove_item COMBAT_MARKER_KEY;
          State_Monad.return () }
      | Some sid \<Rightarrow> (let i = combatSessionId sid
          in do {
            _ \<leftarrow> memory_change (obj_del i);
            _ \<leftarrow> setCombatSessionMarker js (JStr i) False;
            sessions \<leftarrow> readSnapshotBucket api js;
            _ \<leftarrow> writeSnapshotBucket js (obj_del i sessions);
            State_Monad.return () }))"

end
