(* ===== verification/CombatSessionProps.thy ===== *)
theory CombatSessionProps
  imports CombatSession JsonCodec
begin

text \<open>
  What the battles in progress promise on a tab that reads as a map, whatever writes and later reads the browser
  refuses: a saved battle comes back, and after a reload too when the save was durable; only coherent battles come back; and one battle never touches another.
\<close>

section \<open>The operations on the plain map\<close>

type_synonym battle_view = "(string, json) obj view_scheme"

definition read_value :: "json_api \<Rightarrow> string \<Rightarrow> store \<Rightarrow> json" where
  "read_value js key st =
     (case st key of None \<Rightarrow> JNull | Some raw \<Rightarrow> (case parse js raw of None \<Rightarrow> JNull | Some v \<Rightarrow> v))"

definition tidied :: "json_api \<Rightarrow> string \<Rightarrow> store \<Rightarrow> store" where
  "tidied js key st = (case st key of None \<Rightarrow> st | Some raw \<Rightarrow> if parse js raw = None then st(key := None) else st)"

lemma tidied_other: "k \<noteq> key \<Longrightarrow> tidied js key st k = st k"
  by (simp add: tidied_def split: option.splits)

lemma read_tidied [simp]: "read_value js k (tidied js key st) = read_value js k st"
  by (simp add: read_value_def tidied_def split: option.splits)

lemma read_other [simp]: "k \<noteq> key \<Longrightarrow> read_value js k (st(key := w)) = read_value js k st"
  by (simp add: read_value_def)

lemma read_written [simp]: "survives js x \<Longrightarrow> read_value js k (st(k \<mapsto> stringify js x)) = x"
  by (simp add: read_value_def survives_def)

lemma read_removed [simp]: "read_value js k (st(k := None)) = JNull"
  by (simp add: read_value_def)

lemma runs_read:
  "runs (read_or_remove js key) v (read_value js key (v_store v)) (v\<lparr>v_store := tidied js key (v_store v)\<rparr>)"
proof (cases "v_store v key")
  case None
  have "v\<lparr>v_store := v_store v\<rparr> = v" by simp
  then show ?thesis unfolding read_or_remove_def using None
    by (intro runs_bind [OF runs_get]) (simp add: read_value_def tidied_def)
next
  case (Some raw)
  show ?thesis
  proof (cases "parse js raw")
    case None
    then show ?thesis unfolding read_or_remove_def using Some
      by (intro runs_bind [OF runs_get])
        (simp add: read_value_def tidied_def del: fun_upd_apply, rule runs_then [OF does_remove runs_return])
  next
    case (Some x)
    then show ?thesis unfolding read_or_remove_def using \<open>v_store v key = Some raw\<close>
      by (intro runs_bind [OF runs_get]) (simp add: read_value_def tidied_def)
  qed
qed

lemma runs_memory_get: "runs (memory_get i) v (obj_get (view.more v) i) v"
  by (simp add: runs_def does_def memory_get_def reads_as_def)

lemma does_memory: "does (memory_change f) v (view.more_update f v)"
  by (simp add: does_def memory_change_def reads_as_def)

definition marked_store :: "json_api \<Rightarrow> string \<Rightarrow> bool \<Rightarrow> store \<Rightarrow> store" where
  "marked_store js i active st =
     (let markers = marked_ids (read_value js COMBAT_MARKER_KEY st);
          markers' = (if active then (if i \<in> set markers then markers else markers @ [i]) else filter (\<lambda>j. j \<noteq> i) markers)
      in (tidied js COMBAT_MARKER_KEY st)
           (COMBAT_MARKER_KEY := (if markers' = [] then None else Some (stringify js (markers_json markers')))))"

lemma does_marker:
  "does (setCombatSessionMarker js sid active) v
     (v\<lparr>v_store := marked_store js (combatSessionId sid) active (v_store v)\<rparr>)"
proof -
  let ?v1 = "v\<lparr>v_store := tidied js COMBAT_MARKER_KEY (v_store v)\<rparr>"
  have m: "runs (readMarkers js) v (marked_ids (read_value js COMBAT_MARKER_KEY (v_store v))) ?v1"
    unfolding readMarkers_def by (rule runs_bind [OF runs_read runs_return])
  show ?thesis
    unfolding setCombatSessionMarker_def
    by (rule does_bind [OF m])
      (use does_remove [of COMBAT_MARKER_KEY ?v1] does_set [of COMBAT_MARKER_KEY _ ?v1]
        in \<open>simp add: marked_store_def Let_def del: fun_upd_apply\<close>)
qed

lemma keys_differ [simp]: "COMBAT_SESSION_KEY \<noteq> COMBAT_MARKER_KEY" "COMBAT_MARKER_KEY \<noteq> COMBAT_SESSION_KEY"
  by (simp_all add: COMBAT_SESSION_KEY_def COMBAT_MARKER_KEY_def)

lemma read_marked [simp]: "read_value js COMBAT_SESSION_KEY (marked_store js i a st) = read_value js COMBAT_SESSION_KEY st"
  by (simp add: marked_store_def Let_def)

lemma runs_bucket:
  "runs (readSnapshotBucket api js) v (sessions_in api (read_value js COMBAT_SESSION_KEY (v_store v)))
     (v\<lparr>v_store := tidied js COMBAT_SESSION_KEY (v_store v)\<rparr>)"
  unfolding readSnapshotBucket_def by (rule runs_bind [OF runs_read runs_return])

definition written :: "json_api \<Rightarrow> (string, json) obj \<Rightarrow> store \<Rightarrow> store" where
  "written js sessions st =
     st(COMBAT_SESSION_KEY := (if sessions = [] then None else Some (stringify js (bucket_json sessions))))"

lemma does_write_bucket: "does (writeSnapshotBucket js sessions) v (v\<lparr>v_store := written js sessions (v_store v)\<rparr>)"
  using does_remove [of COMBAT_SESSION_KEY v] does_set [of COMBAT_SESSION_KEY _ v]
  by (simp add: writeSnapshotBucket_def written_def del: fun_upd_apply)

section \<open>What a load finds\<close>

definition valid_at :: "'c chess_api \<Rightarrow> string \<Rightarrow> (string, json) obj \<Rightarrow> json option" where
  "valid_at api i sessions =
     (case obj_get sessions i of None \<Rightarrow> None | Some p \<Rightarrow> if validSnapshot api p i then Some p else None)"

definition battle_of :: "'c chess_api \<Rightarrow> json_api \<Rightarrow> string \<Rightarrow> battle_view \<Rightarrow> json option" where
  "battle_of api js i v =
     (case valid_at api i (sessions_in api (read_value js COMBAT_SESSION_KEY (v_store v))) of
        None \<Rightarrow> valid_at api i (view.more v)
      | Some p \<Rightarrow> Some p)"

lemma load_finds:
  assumes "reads_as t v"
  shows "fst (run_state (loadCombatSession api js sid) t) = battle_of api js (combatSessionId sid) v"
proof -
  let ?i = "combatSessionId sid" and ?v = "v\<lparr>v_store := tidied js COMBAT_SESSION_KEY (v_store v)\<rparr>"
  have m: "runs (from_memory api ?i) ?v (valid_at api ?i (view.more v)) ?v"
    unfolding from_memory_def by (rule runs_bind [OF runs_memory_get]) (simp add: valid_at_def split: option.splits)
  have p: "runs (do { _ \<leftarrow> memory_change (obj_put ?i p); State_Monad.return (Some p) }) ?v (Some p)
      (view.more_update (obj_put ?i p) ?v)" for p
    by (rule runs_then [OF does_memory runs_return])
  let ?s = "sessions_in api (read_value js COMBAT_SESSION_KEY (v_store v))"
  have "\<exists>v'. runs (loadCombatSession api js sid) v (battle_of api js ?i v) v'"
  proof (cases "valid_at api ?i ?s")
    case None
    then have "runs (loadCombatSession api js sid) v (valid_at api ?i (view.more v)) ?v"
      unfolding loadCombatSession_def Let_def
      by (intro runs_bind [OF runs_bucket]) (auto simp: valid_at_def [of api ?i ?s] split: option.splits if_splits intro: m)
    then show ?thesis using None by (auto simp: battle_of_def)
  next
    case (Some p)
    then have "runs (loadCombatSession api js sid) v (Some p) (view.more_update (obj_put ?i p) ?v)"
      unfolding loadCombatSession_def Let_def
      by (intro runs_bind [OF runs_bucket]) (auto simp: valid_at_def split: option.splits if_splits intro: p)
    then show ?thesis using Some by (auto simp: battle_of_def)
  qed
  then show ?thesis using assms by (auto simp: runs_def)
qed

lemma map_of_filter_valid: "map_of xs i = Some p \<Longrightarrow> P (i, p) \<Longrightarrow> map_of (filter P xs) i = Some p"
  by (induction xs) (auto split: if_splits)

lemma sessions_kinds:
  "(\<forall>(k, p) \<in> set (sessions_in api v). validSnapshot api p k) \<or> (\<exists>k p. sessions_in api v = [(k, p)])"
  by (auto simp: sessions_in_def)

lemma valid_listed: "\<forall>(k, p) \<in> set xs. validSnapshot api p k \<Longrightarrow> valid_at api i xs = map_of xs i"
  by (auto simp: valid_at_def dest: map_of_SomeD split: option.splits)

lemma bucket_read [simp]:
  "sessions_in api (bucket_json xs) = filter (\<lambda>(k, p). validSnapshot api p k) xs"
  by (simp add: sessions_in_def bucket_json_def SNAPSHOT_VERSION_def BUCKET_VERSION_def is_object_def spread_fields_def)

text \<open>A bucket with one entry put in, written and read again.\<close>

lemma put_again:
  assumes "validSnapshot api p i"
  shows "valid_at api i (filter (\<lambda>(k, p). validSnapshot api p k) (obj_put i p (sessions_in api v))) = Some p"
    "j \<noteq> i \<Longrightarrow> valid_at api j (filter (\<lambda>(k, p). validSnapshot api p k) (obj_put i p (sessions_in api v))) =
       valid_at api j (sessions_in api v)"
proof -
  let ?P = "\<lambda>(k, p). validSnapshot api p k"
  let ?xs = "sessions_in api v"
  have "map_of (filter ?P (obj_put i p ?xs)) i = Some p"
    by (rule map_of_filter_valid) (use assms in simp_all)
  then show "valid_at api i (filter ?P (obj_put i p ?xs)) = Some p" using assms by (simp add: valid_at_def)
  show "valid_at api j (filter ?P (obj_put i p ?xs)) = valid_at api j ?xs" if "j \<noteq> i"
  proof (cases "\<forall>(k, p) \<in> set ?xs. validSnapshot api p k")
    case True
    then have "filter ?P (obj_put i p ?xs) = obj_put i p ?xs"
      using assms set_obj_put [of i p ?xs] by (fastforce simp: filter_id_conv)
    then show ?thesis using that by (simp add: valid_at_def)
  next
    case False
    then obtain k q where "?xs = [(k, q)]" using sessions_kinds by blast
    then show ?thesis using that assms by (auto simp: valid_at_def)
  qed
qed

lemma del_again:
  "valid_at api i (filter (\<lambda>(k, p). validSnapshot api p k) (obj_del i (sessions_in api v))) = None"
  "j \<noteq> i \<Longrightarrow> valid_at api j (filter (\<lambda>(k, p). validSnapshot api p k) (obj_del i (sessions_in api v))) =
     valid_at api j (sessions_in api v)"
proof -
  let ?P = "\<lambda>(k, p). validSnapshot api p k"
  let ?xs = "sessions_in api v"
  have "i \<notin> fst ` set (filter ?P (obj_del i ?xs))" by (auto simp: AList.delete_eq)
  from this [folded map_of_eq_None_iff] have "map_of (filter ?P (obj_del i ?xs)) i = None" .
  then show "valid_at api i (filter ?P (obj_del i ?xs)) = None" by (simp add: valid_at_def)
  show "valid_at api j (filter ?P (obj_del i ?xs)) = valid_at api j ?xs" if "j \<noteq> i"
  proof (cases "\<forall>(k, p) \<in> set ?xs. validSnapshot api p k")
    case True
    then have "filter ?P (obj_del i ?xs) = obj_del i ?xs"
      using set_obj_del [of i ?xs] by (fastforce simp: filter_id_conv)
    then show ?thesis using that by (simp add: valid_at_def)
  next
    case False
    then obtain k q where "?xs = [(k, q)]" using sessions_kinds by blast
    then show ?thesis using that by (auto simp: valid_at_def)
  qed
qed

section \<open>Saving and clearing\<close>

definition saved_view :: "'c chess_api \<Rightarrow> json_api \<Rightarrow> string \<Rightarrow> json \<Rightarrow> battle_view \<Rightarrow> battle_view" where
  "saved_view api js i p v = (view.more_update (obj_put i p) v)
     \<lparr>v_store := written js (obj_put i p (sessions_in api (read_value js COMBAT_SESSION_KEY (v_store v))))
        (tidied js COMBAT_SESSION_KEY (marked_store js i True (v_store v)))\<rparr>"

lemma dropWhile_again [simp]: "dropWhile P (dropWhile P xs) = dropWhile P xs"
  by (induction xs) auto

lemma trim_trim [simp]: "trim (trim s) = trim s"
proof -
  let ?r = "\<lambda>x. rev (dropWhile is_blank (rev x))"
  have keep: "dropWhile is_blank x = x \<Longrightarrow> dropWhile is_blank (?r x) = ?r x" for x
  proof (cases "?r x")
    case (Cons c cs)
    assume x: "dropWhile is_blank x = x"
    have "rev x = takeWhile is_blank (rev x) @ dropWhile is_blank (rev x)" by simp
    then have "x = ?r x @ rev (takeWhile is_blank (rev x))" by (metis rev_append rev_rev_ident)
    then have "hd x = c" using Cons by (metis append_Cons list.sel(1))
    moreover have "x \<noteq> []" using Cons by auto
    ultimately have "\<not> is_blank c" using x by (metis dropWhile_eq_Cons_conv list.exhaust_sel)
    then show ?thesis using Cons by simp
  next
    case Nil
    show ?thesis unfolding Nil by simp
  qed
  show ?thesis unfolding trim_def by (simp add: keep)
qed

lemma session_id_fine: "combatSessionId v \<noteq> []" "trim (combatSessionId v) = combatSessionId v"
  by (simp_all add: combatSessionId_def Let_def) (simp add: trim_def is_blank_def)

lemma session_id_again [simp]: "combatSessionId (JStr (combatSessionId v)) = combatSessionId v"
proof -
  show ?thesis using session_id_fine [of v] by (simp add: combatSessionId_def [of "JStr (combatSessionId v)"] or_else_json_def truthy_def Let_def)
qed

lemma does_save:
  assumes "validSnapshot api (session_payload now (combatSessionId sid) snapshot) (combatSessionId sid)"
  shows "does (saveCombatSession api js now sid snapshot) v
    (saved_view api js (combatSessionId sid) (session_payload now (combatSessionId sid) snapshot) v)"
proof -
  let ?i = "combatSessionId sid" and ?p = "session_payload now (combatSessionId sid) snapshot"
  let ?v1 = "view.more_update (obj_put ?i ?p) v"
  let ?v2 = "?v1\<lparr>v_store := marked_store js ?i True (v_store v)\<rparr>"
  let ?v3 = "?v2\<lparr>v_store := tidied js COMBAT_SESSION_KEY (v_store ?v2)\<rparr>"
  have 1: "does (setCombatSessionMarker js (JStr ?i) True) ?v1 ?v2"
    using does_marker [of js "JStr ?i" True ?v1] by simp
  have 2: "runs (readSnapshotBucket api js) ?v2 (sessions_in api (read_value js COMBAT_SESSION_KEY (v_store v))) ?v3"
    using runs_bucket [of api js ?v2] by simp
  have 3: "does (writeSnapshotBucket js xs) ?v3 (?v3\<lparr>v_store := written js xs (v_store ?v3)\<rparr>)" for xs
    by (rule does_write_bucket)
  show ?thesis
    unfolding saveCombatSession_def Let_def using assms
      does_then [OF does_memory does_then [OF 1 does_bind [OF 2 3]]]
    by (simp add: saved_view_def)
qed

definition cleared_view :: "'c chess_api \<Rightarrow> json_api \<Rightarrow> string \<Rightarrow> battle_view \<Rightarrow> battle_view" where
  "cleared_view api js i v = (view.more_update (obj_del i) v)
     \<lparr>v_store := written js (obj_del i (sessions_in api (read_value js COMBAT_SESSION_KEY (v_store v))))
        (tidied js COMBAT_SESSION_KEY (marked_store js i False (v_store v)))\<rparr>"

lemma does_clear:
  "does (clearCombatSession api js (Some sid)) v (cleared_view api js (combatSessionId sid) v)"
proof -
  let ?i = "combatSessionId sid"
  let ?v1 = "view.more_update (obj_del ?i) v"
  let ?v2 = "?v1\<lparr>v_store := marked_store js ?i False (v_store v)\<rparr>"
  let ?v3 = "?v2\<lparr>v_store := tidied js COMBAT_SESSION_KEY (v_store ?v2)\<rparr>"
  have 1: "does (setCombatSessionMarker js (JStr ?i) False) ?v1 ?v2"
    using does_marker [of js "JStr ?i" False ?v1] by simp
  have 2: "runs (readSnapshotBucket api js) ?v2 (sessions_in api (read_value js COMBAT_SESSION_KEY (v_store v))) ?v3"
    using runs_bucket [of api js ?v2] by simp
  have 3: "does (do { _ \<leftarrow> writeSnapshotBucket js xs; State_Monad.return () }) ?v3
      (?v3\<lparr>v_store := written js xs (v_store ?v3)\<rparr>)" for xs
    by (rule does_then [OF does_write_bucket does_return])
  show ?thesis
    unfolding clearCombatSession_def Let_def
    using does_then [OF does_memory does_then [OF 1 does_bind [OF 2 3]]]
    by (simp add: cleared_view_def)
qed

lemma read_cleared_bucket:
  assumes "survives js (bucket_json xs)"
  shows "sessions_in api (read_value js COMBAT_SESSION_KEY (written js xs st)) =
    filter (\<lambda>(k, p). validSnapshot api p k) xs"
proof (cases "xs = []")
  case True
  have "sessions_in api JNull = []" by (simp add: sessions_in_def is_object_def field_def)
  then show ?thesis using True by (simp add: written_def)
qed (use assms in \<open>simp add: written_def\<close>)

lemma view_parts [simp]:
  "view.more (saved_view api js i p v) = obj_put i p (view.more v)"
  "view.more (cleared_view api js i v) = obj_del i (view.more v)"
  "v_store (saved_view api js i p v) = written js (obj_put i p (sessions_in api (read_value js COMBAT_SESSION_KEY (v_store v))))
     (tidied js COMBAT_SESSION_KEY (marked_store js i True (v_store v)))"
  "v_store (cleared_view api js i v) = written js (obj_del i (sessions_in api (read_value js COMBAT_SESSION_KEY (v_store v))))
     (tidied js COMBAT_SESSION_KEY (marked_store js i False (v_store v)))"
  by (cases v; simp add: saved_view_def cleared_view_def)+

lemma valid_at_change [simp]:
  "valid_at api j (obj_put i p m) = (if j = i then if validSnapshot api p i then Some p else None else valid_at api j m)"
  "valid_at api j (obj_del i m) = (if j = i then None else valid_at api j m)"
  by (simp_all add: valid_at_def)

definition session_api :: "json_api \<Rightarrow> bool" where
  "session_api js \<longleftrightarrow> (\<forall>xs. survives js (bucket_json xs)) \<and> (\<forall>ids. survives js (markers_json ids))"

lemma session_coded_json: "session_api coded_json"
  by (simp add: session_api_def)

lemma battle_of_saved:
  assumes "session_api js" "validSnapshot api p i"
  shows "battle_of api js j (saved_view api js i p v) = (if j = i then Some p else battle_of api js j v)"
  using put_again [OF assms(2)] assms(1)
  by (simp add: battle_of_def read_cleared_bucket session_api_def split: option.split)

lemma battle_of_cleared:
  assumes "session_api js"
  shows "battle_of api js j (cleared_view api js i v) = (if j = i then None else battle_of api js j v)"
  using del_again [where api = api and i = i] assms
  by (simp add: battle_of_def read_cleared_bucket session_api_def split: option.split)

section \<open>Markers\<close>

lemma uniq_filter_id: "distinct xs \<Longrightarrow> \<forall>x \<in> set xs. P x \<Longrightarrow> uniq (filter P xs) = xs"
  by (simp add: uniq_id filter_id_conv)

lemma marked_fine: "distinct (marked_ids v) \<and> (\<forall>i \<in> set (marked_ids v). trim i \<noteq> [])"
  by (simp add: marked_ids_def)

lemma marks_again: "distinct ids \<Longrightarrow> \<forall>i \<in> set ids. trim i \<noteq> [] \<Longrightarrow> marked_ids (markers_json ids) = ids"
  by (simp add: marked_ids_def markers_json_def uniq_filter_id uniq_id)

definition marked_sessions :: "json_api \<Rightarrow> battle_view \<Rightarrow> string set" where
  "marked_sessions js v = set (marked_ids (read_value js COMBAT_MARKER_KEY (v_store v)))"

lemma marked_stored:
  assumes "session_api js" "trim i \<noteq> []"
  shows "set (marked_ids (read_value js COMBAT_MARKER_KEY (marked_store js i active st))) =
    (if active then insert i else (\<lambda>s. s - {i})) (set (marked_ids (read_value js COMBAT_MARKER_KEY st)))"
proof -
  let ?m = "marked_ids (read_value js COMBAT_MARKER_KEY st)"
  let ?m' = "if active then (if i \<in> set ?m then ?m else ?m @ [i]) else filter (\<lambda>j. j \<noteq> i) ?m"
  have "marked_ids (markers_json ?m') = ?m'"
    by (rule marks_again) (use marked_fine [of "read_value js COMBAT_MARKER_KEY st"] assms(2) in auto)
  moreover have "marked_ids JNull = []" by (simp add: marked_ids_def field_def)
  ultimately have "marked_ids (read_value js COMBAT_MARKER_KEY (marked_store js i active st)) = ?m'"
    using assms(1) by (auto simp: marked_store_def Let_def session_api_def)
  then show ?thesis by auto
qed

section \<open>The battles of a tab\<close>

text \<open>Every piece of the position stands in the registry with its type and colour, and nothing else does.\<close>

definition registry_matches :: "'c chess_api \<Rightarrow> json \<Rightarrow> bool" where
  "registry_matches api p \<longleftrightarrow>
     (\<exists>f chess kvs. field ''fen'' p = JStr f \<and> ch_new api f = Some chess \<and> field ''registry'' p = JObj kvs \<and>
        set (map fst kvs) \<subseteq> set (obj_keys (createInitialRegistry api chess)) \<and>
        (\<forall>square piece. obj_get (createInitialRegistry api chess) square = Some piece \<longrightarrow>
           (\<exists>entry. obj_get kvs square = Some entry \<and>
              field ''type'' entry = JStr [type_char (p_type piece)] \<and>
              field ''color'' entry = JStr [color_char (p_color piece)] \<and> field ''square'' entry = JStr square)))"

lemma square_fine:
  assumes "json_square_issues board registry square = []" "obj_get board square = Some piece" "registry = JObj kvs"
  shows "\<exists>entry. obj_get kvs square = Some entry \<and> field ''type'' entry = JStr [type_char (p_type piece)] \<and>
     field ''color'' entry = JStr [color_char (p_color piece)] \<and> field ''square'' entry = JStr square"
  using assms by (auto simp: json_square_issues_def split: option.splits json.splits if_splits)

lemma valid_matches: "validSnapshot api p i \<Longrightarrow> registry_matches api p"
proof -
  assume v: "validSnapshot api p i"
  obtain f chess where f: "field ''fen'' p = JStr f" "ch_new api f = Some chess"
    using v by (auto simp: validSnapshot_def valid_battle_def validFen_def split: json.splits)
  obtain kvs where r: "field ''registry'' p = JObj kvs" using v by (auto simp: validSnapshot_def valid_battle_def)
  let ?b = "createInitialRegistry api chess"
  have issues: "json_position_issues api f (JObj kvs) = []"
    using v f r by (simp add: validSnapshot_def valid_battle_def)
  have "json_square_issues ?b (JObj kvs) square = []" if "square \<in> set (obj_keys ?b)" for square
    using issues f that by (auto simp: json_position_issues_def Let_def)
  then have "\<exists>entry. obj_get kvs square = Some entry \<and> field ''type'' entry = JStr [type_char (p_type piece)] \<and>
      field ''color'' entry = JStr [color_char (p_color piece)] \<and> field ''square'' entry = JStr square"
    if "obj_get ?b square = Some piece" for square piece
    by (rule square_fine [OF _ that refl]) (use that in \<open>force dest: map_of_SomeD\<close>)
  moreover have "set (map fst kvs) \<subseteq> set (obj_keys ?b)"
    using issues f by (auto simp: json_position_issues_def Let_def filter_empty_conv spread_fields_def map_of_eq_None_iff)
  ultimately show ?thesis unfolding registry_matches_def using f r by blast
qed

lemma battle_of_valid: "battle_of api js i v = Some p \<Longrightarrow> validSnapshot api p i"
  by (auto simp: battle_of_def valid_at_def split: option.splits if_splits)

lemma read_marker_written [simp]:
  "read_value js COMBAT_MARKER_KEY (written js xs (tidied js COMBAT_SESSION_KEY st)) = read_value js COMBAT_MARKER_KEY st"
  by (simp add: written_def read_value_def tidied_other)

lemma runs_marker:
  "\<exists>v'. runs (hasCombatSessionMarker js sid) v (combatSessionId sid \<in> marked_sessions js v) v'"
  unfolding hasCombatSessionMarker_def readMarkers_def marked_sessions_def
  by (rule exI, rule runs_bind [OF runs_bind [OF runs_read runs_return]], rule runs_return)

text \<open>A battle in progress is kept. On a tab that reads as a map, whatever writes the browser refuses, saving a battle either changes
  nothing (an incoherent one) or makes the next load of its session return exactly it, with its marker set and
  every other session as it was; and whatever a load returns is a battle of that session whose registry matches
  its position.\<close>

theorem battle_session_kept:
  fixes t :: battle_tab
  assumes "session_api js" "reads_as t v" "i = combatSessionId sid" "p = session_payload now i snapshot"
    "t' = snd (run_state (saveCombatSession api js now sid snapshot) t)"
  shows "(\<not> validSnapshot api p i \<longrightarrow> t' = t) \<and>
    (validSnapshot api p i \<longrightarrow>
       fst (run_state (loadCombatSession api js sid) t') = Some p \<and>
       fst (run_state (hasCombatSessionMarker js sid) t') \<and>
       (\<forall>sid'. combatSessionId sid' \<noteq> i \<longrightarrow>
          fst (run_state (loadCombatSession api js sid') t') = fst (run_state (loadCombatSession api js sid') t))) \<and>
    (\<forall>sid' q. fst (run_state (loadCombatSession api js sid') t') = Some q \<longrightarrow>
       field ''sessionId'' q = JStr (combatSessionId sid') \<and> registry_matches api q)"
proof -
  have valid: "field ''sessionId'' q = JStr (combatSessionId sid') \<and> registry_matches api q"
    if "reads_as t' w" "fst (run_state (loadCombatSession api js sid') t') = Some q" for w sid' q
  proof -
    have "validSnapshot api q (combatSessionId sid')"
      using battle_of_valid [of api js "combatSessionId sid'" w q] that load_finds [OF that(1), of api js sid'] by simp
    then show ?thesis using valid_matches by (auto simp: validSnapshot_def)
  qed
  show ?thesis
  proof (cases "validSnapshot api p i")
    case False
    then have "t' = t" using assms(3-5) by (simp add: saveCombatSession_def Let_def)
    then show ?thesis using False valid [of v] assms(2) by blast
  next
    case True
    let ?w = "saved_view api js i p v"
    have w: "reads_as t' ?w"
      using does_save [of api now sid snapshot js v] True assms(2-5) by (simp add: does_def)
    have load: "fst (run_state (loadCombatSession api js sid') t') = battle_of api js (combatSessionId sid') ?w" for sid'
      by (rule load_finds [OF w])
    have "i \<noteq> []" "trim i = i" using assms(3) by (auto simp: session_id_fine)
    then have "i \<in> marked_sessions js ?w" using marked_stored [OF assms(1), of i True] by (simp add: marked_sessions_def)
    then have "fst (run_state (hasCombatSessionMarker js sid) t')"
      using runs_marker [of js sid ?w] w assms(3) by (auto simp: runs_def)
    then show ?thesis
      using True load valid [OF w] battle_of_saved [OF assms(1) True] load_finds [OF assms(2), of api js] assms(3) by simp
  qed
qed

definition session_example_api :: "string chess_api" where
  "session_example_api = sample_api\<lparr>ch_board := (\<lambda>_. replicate 7 (replicate 8 None) @
     [[None, None, None, None, Some (King, White), None, None, None]])\<rparr>"

definition session_example :: json where
  "session_example = JObj
     [(''phase'', JStr ''battle''), (''fen'', JStr sample_fen), (''humanColor'', JStr ''w''),
      (''registry'', JObj [(''e1'', JObj [(''type'', JStr ''k''), (''color'', JStr ''w''), (''square'', JStr ''e1'')])])]"

lemma session_example_valid:
  "validSnapshot session_example_api (session_payload ''t'' ''free'' session_example) ''free''"
proof -
  have "json_position_issues session_example_api sample_fen
      (JObj [(''e1'', JObj [(''type'', JStr ''k''), (''color'', JStr ''w''), (''square'', JStr ''e1'')])]) = []"
    by code_simp
  moreover have "validFen session_example_api (JStr sample_fen)" by code_simp
  ultimately show ?thesis
    by (simp add: validSnapshot_def valid_battle_def session_payload_def session_example_def with_fields_def
        spread_fields_def array_or_missing_def)
qed

definition session_example_tab :: battle_tab where
  "session_example_tab = \<lparr>t_area = empty_area [], t_reads = flaky,
     t_writes = [Absent, Faulty 0, Healthy, Absent], t_bound = None, t_events = 0,
     \<dots> = []\<rparr>"

lemma session_example_reads:
  "reads_as session_example_tab \<lparr>v_store = Map.empty, v_bound = None, v_events = 0, \<dots> = []\<rparr>"
  by (simp add: reads_as_def reads_key_def session_example_tab_def empty_area_def pinned_def)

lemma free_session: "combatSessionId (JStr ''free'') = ''free''"
  by code_simp

theorem battle_session_kept_witness:
  "fst (run_state (loadCombatSession session_example_api coded_json (JStr ''free''))
     (snd (run_state (saveCombatSession session_example_api coded_json ''t'' (JStr ''free'') session_example)
       session_example_tab))) = Some (session_payload ''t'' ''free'' session_example)"
  using battle_session_kept [OF session_coded_json session_example_reads refl refl refl,
      where api = session_example_api and sid = "JStr ''free''" and now = "''t''" and snapshot = session_example] session_example_valid
  by (simp add: free_session)

text \<open>An ended battle does not come back. On a tab that reads as a map, whatever writes the browser refuses, after clearing a session its
  load finds nothing, its marker is gone, and every other session loads as before; clearing them all leaves none.\<close>

theorem battle_session_cleared:
  fixes t :: battle_tab
  assumes "session_api js" "reads_as t v"
    "t1 = snd (run_state (clearCombatSession api js (Some sid)) t)" "t0 = snd (run_state (clearCombatSession api js None) t)"
  shows "fst (run_state (loadCombatSession api js sid) t1) = None \<and>
    \<not> fst (run_state (hasCombatSessionMarker js sid) t1) \<and>
    (\<forall>sid'. combatSessionId sid' \<noteq> combatSessionId sid \<longrightarrow>
       fst (run_state (loadCombatSession api js sid') t1) = fst (run_state (loadCombatSession api js sid') t)) \<and>
    (\<forall>sid'. fst (run_state (loadCombatSession api js sid') t0) = None)"
proof -
  let ?i = "combatSessionId sid"
  let ?w = "cleared_view api js ?i v"
  let ?e = "(view.more_update (\<lambda>_. []) v)\<lparr>v_store := (v_store v)(COMBAT_SESSION_KEY := None, COMBAT_MARKER_KEY := None)\<rparr>"
  have w: "reads_as t1 ?w" using does_clear [of api js sid v] assms(2,3) by (simp add: does_def)
  have rest: "does (do { _ \<leftarrow> remove_item COMBAT_SESSION_KEY; _ \<leftarrow> remove_item COMBAT_MARKER_KEY; State_Monad.return () }) v1
      (v1\<lparr>v_store := (v_store v1)(COMBAT_SESSION_KEY := None, COMBAT_MARKER_KEY := None)\<rparr>)" for v1 :: battle_view
  proof -
    let ?v2 = "v1\<lparr>v_store := (v_store v1)(COMBAT_SESSION_KEY := None)\<rparr>"
    show ?thesis
      using does_then [OF does_remove [of COMBAT_SESSION_KEY v1] does_then [OF does_remove [of COMBAT_MARKER_KEY ?v2] does_return]]
      by (simp del: fun_upd_apply)
  qed
  have "does (clearCombatSession api js None) v ?e"
    unfolding clearCombatSession_def option.case
    using does_then [OF does_memory rest] by (simp del: fun_upd_apply)
  then have e: "reads_as t0 ?e" using assms(2,4) by (simp add: does_def)
  have none: "battle_of api js j ?e = None" for j
    by (simp add: battle_of_def sessions_in_def is_object_def field_def valid_at_def del: fun_upd_apply)
  have "?i \<notin> marked_sessions js ?w"
    using marked_stored [OF assms(1), of ?i False] by (simp add: marked_sessions_def session_id_fine)
  then have "\<not> fst (run_state (hasCombatSessionMarker js sid) t1)"
    using runs_marker [of js sid ?w] w by (auto simp: runs_def)
  then show ?thesis
    using load_finds [OF w, of api js] load_finds [OF e, of api js] none load_finds [OF assms(2), of api js]
      battle_of_cleared [OF assms(1), where api = api and i = ?i and v = v]
    by (simp del: fun_upd_apply)
qed

theorem battle_session_cleared_witness:
  "fst (run_state (loadCombatSession session_example_api coded_json (JStr ''free''))
     (snd (run_state (clearCombatSession session_example_api coded_json (Some (JStr ''free''))) session_example_tab))) = None"
  using battle_session_cleared [OF session_coded_json session_example_reads refl refl,
      where api = session_example_api and sid = "JStr ''free''"] by simp

lemma put_nonempty: "obj_put i p xs \<noteq> []"
  by (cases xs) auto

lemma put_reread:
  assumes "validSnapshot api p i"
  shows "obj_get (filter (\<lambda>(k, p). validSnapshot api p k) (obj_put i p xs)) i = Some p"
  by (rule map_of_filter_valid) (use assms in simp_all)

text \<open>A durable save survives a reload. When saving answers true, a new document (nothing in memory, only
  what the browser really stored) loads exactly the saved battle.\<close>

theorem durable_battle_reloads:
  assumes "session_api js" "fst (run_state (saveCombatSession api js now sid snapshot) t)"
    "t_area t' = empty_area (native (t_area (snd (run_state (saveCombatSession api js now sid snapshot) t))))"
    "answers (t_reads t' COMBAT_SESSION_KEY)"
  shows "fst (run_state (loadCombatSession api js sid) t') =
    Some (session_payload now (combatSessionId sid) snapshot)"
proof -
  let ?i = "combatSessionId sid" and ?p = "session_payload now (combatSessionId sid) snapshot"
  have valid: "validSnapshot api ?p ?i"
    using assms(2) by (simp add: saveCombatSession_def Let_def split: if_splits)
  let ?t1 = "snd (run_state (setCombatSessionMarker js (JStr ?i) True) (snd (run_state (memory_change (obj_put ?i ?p)) t)))"
  obtain xs t2 where x: "run_state (readSnapshotBucket api js) ?t1 = (xs, t2)" by (cases "run_state (readSnapshotBucket api js) ?t1")
  let ?text = "stringify js (bucket_json (obj_put ?i ?p xs))"
  have save: "run_state (saveCombatSession api js now sid snapshot) t = run_state (set_item COMBAT_SESSION_KEY ?text) t2"
    using valid x by (simp add: saveCombatSession_def Let_def case_prod_beta writeSnapshotBucket_def put_nonempty)
  have "obj_get (native (t_area t')) COMBAT_SESSION_KEY = Some ?text"
    using durable_write [of COMBAT_SESSION_KEY ?text t2] assms(2,3) save by (simp add: empty_area_def)
  moreover have "overrides (t_area t') = []" using assms(3) by (simp add: empty_area_def)
  moreover obtain e t4 where n: "next_read COMBAT_SESSION_KEY t' = (e, t4)" by (cases "next_read COMBAT_SESSION_KEY t'")
  moreover have "e = Healthy" "t_area t4 = t_area t'" using next_read_fields [OF n] assms(4) by auto
  ultimately obtain t3 where "run_state (get_item COMBAT_SESSION_KEY) t' = (Some ?text, t3)"
    using answered_read(1) [of "t_area t'" COMBAT_SESSION_KEY "Some ?text"]
    by (simp add: get_item_def run_storage_call case_prod_beta)
  moreover have "parse js ?text = Some (bucket_json (obj_put ?i ?p xs))"
    using assms(1) by (simp add: session_api_def survives_def)
  ultimately obtain t3 where "run_state (readSnapshotBucket api js) t' =
      (filter (\<lambda>(k, p). validSnapshot api p k) (obj_put ?i ?p xs), t3)"
    by (simp add: readSnapshotBucket_def read_or_remove_def)
  then show ?thesis
    using valid put_reread [OF valid, of xs] by (simp add: loadCombatSession_def Let_def case_prod_beta)
qed

lemma reads_write_nothing: "t_writes t = [] \<Longrightarrow> t_writes (snd (run_state (read_or_remove js key) t)) = []"
  by (auto simp: read_or_remove_def case_prod_beta writes_kept split: option.split)

lemma healthy_save_durable:
  assumes "t_writes t = []" "validSnapshot api (session_payload now (combatSessionId sid) snapshot) (combatSessionId sid)"
  shows "fst (run_state (saveCombatSession api js now sid snapshot) t)"
proof -
  have m: "t_writes (snd (run_state (memory_change f) s)) = []" if "t_writes s = []" for f s
    using that by (simp add: memory_change_def)
  have k: "t_writes (snd (run_state (setCombatSessionMarker js x a) s)) = []" if "t_writes s = []" for x a s
    using that reads_write_nothing [OF that]
    by (simp add: setCombatSessionMarker_def readMarkers_def case_prod_beta writes_kept Let_def)
  have b: "t_writes (snd (run_state (readSnapshotBucket api js) s)) = []" if "t_writes s = []" for s
    using reads_write_nothing [OF that] by (simp add: readSnapshotBucket_def case_prod_beta)
  show ?thesis
    using assms by (simp add: saveCombatSession_def Let_def case_prod_beta writeSnapshotBucket_def put_nonempty write_answers m k b)
qed

theorem durable_battle_reloads_witness:
  "\<exists>t t' :: battle_tab. fst (run_state (saveCombatSession session_example_api coded_json ''t'' (JStr ''free'') session_example) t) \<and>
     fst (run_state (loadCombatSession session_example_api coded_json (JStr ''free'')) t') =
       Some (session_payload ''t'' ''free'' session_example)"
proof -
  let ?t = "session_example_tab\<lparr>t_writes := []\<rparr>"
  let ?save = "run_state (saveCombatSession session_example_api coded_json ''t'' (JStr ''free'') session_example) ?t"
  have ok: "fst ?save"
    by (rule healthy_save_durable) (simp_all add: free_session session_example_valid)
  have "fst (run_state (loadCombatSession session_example_api coded_json (JStr ''free''))
      (?t\<lparr>t_area := empty_area (native (t_area (snd ?save)))\<rparr>)) = Some (session_payload ''t'' ''free'' session_example)"
    using durable_battle_reloads [OF session_coded_json ok,
        of "?t\<lparr>t_area := empty_area (native (t_area (snd ?save)))\<rparr>"] by (simp add: free_session session_example_tab_def)
  then show ?thesis using ok by blast
qed

end
