(* ===== verification/CombatDecision.thy ===== *)
theory CombatDecision
  imports CombatTechniques AdaptiveDifficulty
begin

text \<open>
  What the machine plays and how strong it is: \<open>combatExpectedUtility.js\<close> (ranking the measured moves of a
  combat position without buying a chess blunder) and \<open>combatBalance.js\<close> (the difficulty added for the
  permanent strength of the player's army).

  Candidates and options are \<open>json\<close>; the arithmetic on centipawns is binary64 (\<open>fadd\<close>, \<open>fsub\<close>, \<open>fmul\<close>), without
  overflow. \<open>collate a b\<close> stands for \<open>a.localeCompare(b) <= 0\<close>. The source's order treats values within
  \<open>1e-9\<close> as equal; the model sorts by stable insertion, which is the order of every sort where that relation
  is transitive.
\<close>

section \<open>Utility of a candidate\<close>

definition DEFAULT_COMBAT_UTILITY_OPTIONS :: "(string \<times> json) list" where
  "DEFAULT_COMBAT_UTILITY_OPTIONS =
     [(''maxChessLossCp'', JInt 80), (''missTempoCp'', JInt 18), (''bossDamageCp'', JInt 22), (''techniqueCp'', JInt 16),
      (''persistentUnitCp'', JInt 55), (''enemyPersistentCp'', JInt 20), (''exposureCp'', JInt 35)]"

definition finite_or :: "rat \<Rightarrow> json \<Rightarrow> rat" where
  "finite_or fallback v = (case json_number v of Fin q \<Rightarrow> q | _ \<Rightarrow> fallback)"

definition probability :: "json \<Rightarrow> rat" where
  "probability v = max 0 (min 1 (finite_or 0 v))"

definition utility_config :: "json \<Rightarrow> json" where
  "utility_config options = with_fields (spread_fields options) (JObj DEFAULT_COMBAT_UTILITY_OPTIONS)"

definition hasMeasuredChessScoreCp :: "json \<Rightarrow> bool" where
  "hasMeasuredChessScoreCp candidate =
     (case field ''chessScoreCp'' candidate of
        JNum n \<Rightarrow> is_finite n
      | JStr s \<Rightarrow> trim s \<noteq> [] \<and> is_finite (string_to_number s)
      | _ \<Rightarrow> False)"

definition nonneg_fact :: "string \<Rightarrow> json \<Rightarrow> rat" where
  "nonneg_fact k candidate = max 0 (finite_or 0 (field k candidate))"

definition captureFailureCp :: "json \<Rightarrow> json \<Rightarrow> rat" where
  "captureFailureCp cfg c =
     (if 0 < nonneg_fact ''enemyValue'' c
      then fmul (fsub 1 (probability (field ''hitChance'' c)))
             (fadd (fmul (nonneg_fact ''enemyValue'' c) 100) (finite_or 18 (field ''missTempoCp'' cfg)))
      else 0)"

definition legal_utility :: "json \<Rightarrow> json \<Rightarrow> rat" where
  "legal_utility cfg c =
     (let persistentTargetCp = fmul (fmul (nonneg_fact ''enemyPersistentValue'' c) (probability (field ''hitChance'' c)))
            (finite_or 20 (field ''enemyPersistentCp'' cfg));
          bossCp = fmul (nonneg_fact ''expectedBossDamage'' c) (finite_or 22 (field ''bossDamageCp'' cfg));
          techniqueCp = fmul (nonneg_fact ''techniqueValue'' c) (finite_or 16 (field ''techniqueCp'' cfg));
          veteranRiskCp = fmul (fmul (nonneg_fact ''ownPersistentValue'' c) (probability (field ''ownCasualtyRisk'' c)))
            (finite_or 55 (field ''persistentUnitCp'' cfg));
          exposureCp = fmul (probability (field ''exposureRisk'' c)) (finite_or 35 (field ''exposureCp'' cfg));
          doctrineCp = max (- 6) (min 6 (finite_or 0 (field ''doctrineBonusCp'' c)))
      in fadd (fsub (fsub (fadd (fadd (fadd (fsub (finite_or 0 (field ''chessScoreCp'' c)) (captureFailureCp cfg c))
           persistentTargetCp) bossCp) techniqueCp) veteranRiskCp) exposureCp) doctrineCp)"

definition combatCandidateUtility :: "json \<Rightarrow> json \<Rightarrow> jsnum" where
  "combatCandidateUtility candidate options =
     (if \<not> truthy candidate \<or> field ''isLegal'' candidate = JBool False then NInf
      else if field ''isMate'' candidate = JBool True then PInf
      else Fin (legal_utility (utility_config options) candidate))"

section \<open>Ranking\<close>

record ranked =
  rk_candidate :: json
  rk_utility :: rat
  rk_chessLoss :: rat

definition chess_score :: "json \<Rightarrow> rat" where
  "chess_score c = finite_or 0 (field ''chessScoreCp'' c)"

definition move_key :: "json \<Rightarrow> string" where
  "move_key c = json_string (or_else_json (field ''moveKey'' c) (JStr []))"

definition by_key :: "(string \<Rightarrow> string \<Rightarrow> bool) \<Rightarrow> json \<Rightarrow> json \<Rightarrow> bool" where
  "by_key collate a b = collate (move_key a) (move_key b)"

definition apart :: "rat \<Rightarrow> bool" where
  "apart d \<longleftrightarrow> fl (1 / 10 ^ 9) < \<bar>d\<bar>"

definition ranked_before :: "(string \<Rightarrow> string \<Rightarrow> bool) \<Rightarrow> ranked \<Rightarrow> ranked \<Rightarrow> bool" where
  "ranked_before collate a b =
     (let utilityDelta = fsub (rk_utility b) (rk_utility a);
          chessDelta = fsub (chess_score (rk_candidate b)) (chess_score (rk_candidate a))
      in if apart utilityDelta then utilityDelta \<le> 0
         else if apart chessDelta then chessDelta \<le> 0
         else by_key collate (rk_candidate a) (rk_candidate b))"

definition legal_candidates :: "json \<Rightarrow> json list" where
  "legal_candidates candidates = filter (\<lambda>c. truthy c \<and> field ''isLegal'' c \<noteq> JBool False) (elements candidates)"

definition best_score :: "json list \<Rightarrow> rat" where
  "best_score cs = Max (set (map chess_score cs))"

definition near_best :: "rat \<Rightarrow> json list \<Rightarrow> json list" where
  "near_best maxChessLossCp measured =
     filter (\<lambda>c. fsub (best_score measured) (chess_score c) \<le> maxChessLossCp) measured"

text \<open>Mates are returned as they are, without a utility: a utility of 0 and no loss stand for them.\<close>

definition rankCombatCandidates :: "(string \<Rightarrow> string \<Rightarrow> bool) \<Rightarrow> json \<Rightarrow> json \<Rightarrow> ranked list" where
  "rankCombatCandidates collate candidates options =
     (let legal = legal_candidates candidates; mates = filter (\<lambda>c. field ''isMate'' c = JBool True) legal
      in if mates \<noteq> []
         then map (\<lambda>c. \<lparr>rk_candidate = c, rk_utility = 0, rk_chessLoss = 0\<rparr>) (sort_stable (by_key collate) mates)
         else let cfg = utility_config options; measured = filter hasMeasuredChessScoreCp legal
              in if measured = [] then []
                 else let maxChessLossCp = max 0 (finite_or 80 (field ''maxChessLossCp'' cfg))
                      in sort_stable (ranked_before collate)
                           (map (\<lambda>c. \<lparr>rk_candidate = c, rk_utility = legal_utility (utility_config cfg) c,
                                   rk_chessLoss = max 0 (fsub (best_score measured) (chess_score c))\<rparr>)
                              (near_best maxChessLossCp measured)))"

definition chooseCombatCandidate :: "(string \<Rightarrow> string \<Rightarrow> bool) \<Rightarrow> json \<Rightarrow> json \<Rightarrow> ranked option" where
  "chooseCombatCandidate collate candidates options =
     (case rankCombatCandidates collate candidates options of [] \<Rightarrow> None | r # _ \<Rightarrow> Some r)"

section \<open>The army's threat\<close>

definition FORM_THREAT :: "(string \<times> int) list" where
  "FORM_THREAT = [(''n'', 2), (''b'', 3), (''r'', 5), (''q'', 7)]"

definition MAX_STAT_BONUS :: int where "MAX_STAT_BONUS = 7"
definition MAX_TECHNIQUE_BONUS :: int where "MAX_TECHNIQUE_BONUS = 4"
definition MAX_TOTAL_BONUS :: int where "MAX_TOTAL_BONUS = 20"

record army_threat =
  at_bonus :: int
  at_rawBonus :: int
  at_tier :: string
  at_statBonus :: int
  at_metamorphosisThreat :: int
  at_techniqueBonus :: int
  at_totalStatPoints :: int
  at_activeVeterans :: int
  at_activeMetamorphoses :: int
  at_equippedTechniques :: int

text \<open>The keys of the pieces that fight: alive, not the king, and deployed when there is a deployment.\<close>

definition fights :: "json \<Rightarrow> string \<times> json \<Rightarrow> bool" where
  "fights rosterState p =
     (let (key, saved) = p; d = field ''deployment'' rosterState
      in \<not> (\<not> truthy saved \<or> field ''alive'' saved = JBool False \<or> take 2 key = ''k-'') \<and>
         (is_object d \<longrightarrow> JStr key \<in> set (filter truthy (map snd (spread_fields d)))))"

definition battle_points :: "json \<Rightarrow> int" where
  "battle_points saved = finiteNonNegative 0 (field ''strengthPoints'' saved) + finiteNonNegative 0 (field ''speedPoints'' saved)"

definition takes_form :: "json \<Rightarrow> string \<times> json \<Rightarrow> bool" where
  "takes_form rosterState p =
     (let (key, saved) = p; targetType = field ''deploymentType'' saved
      in truthy targetType \<and> canChooseDeploymentType key saved targetType (unitRecordForKey rosterState key))"

definition form_threat :: "json \<Rightarrow> int" where
  "form_threat v = (case v of JStr t \<Rightarrow> (case map_of FORM_THREAT t of None \<Rightarrow> 0 | Some n \<Rightarrow> n) | _ \<Rightarrow> 0)"

definition carries_technique :: "string \<times> json \<Rightarrow> bool" where
  "carries_technique p =
     (let (key, saved) = p; equipped = field ''equippedTechnique'' saved
      in truthy equipped \<and> list_ex (\<lambda>t. JStr (te_id t) = equipped) (unlockedTechniquesFor key saved))"

definition threat_tier :: "int \<Rightarrow> string" where
  "threat_tier bonus =
     (if 14 \<le> bonus then ''Severa'' else if 8 \<le> bonus then ''Alta'' else if 4 \<le> bonus then ''Moderada''
      else if 0 < bonus then ''Ligera'' else ''Ninguna'')"

definition combatArmyThreat :: "json \<Rightarrow> army_threat" where
  "combatArmyThreat rosterState =
     (let pieces = field ''pieces'' rosterState;
          fighting = filter (fights rosterState) (if is_object pieces then spread_fields pieces else []);
          totalStatPoints = sum_list (map (\<lambda>p. battle_points (snd p)) fighting);
          forms = filter (takes_form rosterState) fighting;
          metamorphosisThreat = sum_list (map (\<lambda>p. form_threat (field ''deploymentType'' (snd p))) forms);
          equippedTechniques = int (length (filter carries_technique fighting));
          statBonus = min MAX_STAT_BONUS (totalStatPoints div 12);
          techniqueBonus = min MAX_TECHNIQUE_BONUS equippedTechniques;
          rawBonus = statBonus + metamorphosisThreat + techniqueBonus;
          bonus = min MAX_TOTAL_BONUS rawBonus
      in \<lparr>at_bonus = bonus, at_rawBonus = rawBonus, at_tier = threat_tier bonus, at_statBonus = statBonus,
          at_metamorphosisThreat = metamorphosisThreat, at_techniqueBonus = techniqueBonus,
          at_totalStatPoints = totalStatPoints,
          at_activeVeterans = int (length (filter (\<lambda>p. 0 < battle_points (snd p)) fighting)),
          at_activeMetamorphoses = int (length forms), at_equippedTechniques = equippedTechniques\<rparr>)"

record balanced_difficulty =
  bd_base :: int
  bd_strategicAdjusted :: int
  bd_adjusted :: int
  bd_appliedBonus :: int
  bd_engineAdjustment :: int
  bd_threat :: army_threat

definition percent_of :: "json \<Rightarrow> int" where
  "percent_of v = (case json_number v of NaN \<Rightarrow> 0 | PInf \<Rightarrow> 100 | NInf \<Rightarrow> 0 | Fin q \<Rightarrow> max 0 (min 100 (js_round q)))"

definition balancedCombatDifficulty :: "json \<Rightarrow> json \<Rightarrow> balanced_difficulty" where
  "balancedCombatDifficulty baseDifficulty rosterState =
     (let base = percent_of baseDifficulty; threat = combatArmyThreat rosterState;
          strategicAdjusted = min 100 (base + at_bonus threat);
          adjusted = calibrateCombatEngineDifficulty strategicAdjusted
      in \<lparr>bd_base = base, bd_strategicAdjusted = strategicAdjusted, bd_adjusted = adjusted,
          bd_appliedBonus = strategicAdjusted - base, bd_engineAdjustment = adjusted - strategicAdjusted,
          bd_threat = threat\<rparr>)"

section \<open>What is chosen\<close>

lemma chosen_in: "chooseCombatCandidate collate cs opts = Some r \<Longrightarrow> r \<in> set (rankCombatCandidates collate cs opts)"
  by (auto simp: chooseCombatCandidate_def split: list.splits)

lemma chosen_none: "chooseCombatCandidate collate cs opts = None \<longleftrightarrow> rankCombatCandidates collate cs opts = []"
  by (auto simp: chooseCombatCandidate_def split: list.splits)

lemma sorted_nothing [simp]: "sort_stable le xs = [] \<longleftrightarrow> xs = []"
  by (metis length_0_conv length_sort_stable)

lemma best_reached: "cs \<noteq> [] \<Longrightarrow> \<exists>c \<in> set cs. chess_score c = best_score cs"
proof -
  assume "cs \<noteq> []"
  then have "best_score cs \<in> set (map chess_score cs)" unfolding best_score_def by (intro Max_in) auto
  then show ?thesis by auto
qed

lemma best_above: "c \<in> set cs \<Longrightarrow> chess_score c \<le> best_score cs"
  by (simp add: best_score_def)

lemma near_best_some: "cs \<noteq> [] \<Longrightarrow> 0 \<le> m \<Longrightarrow> near_best m cs \<noteq> []"
  using best_reached [of cs] by (fastforce simp: near_best_def filter_empty_conv fsub_def)

lemma near_best_Nil: "near_best m [] = []"
  by (simp add: near_best_def)

definition allowed_loss :: "json \<Rightarrow> rat" where
  "allowed_loss options = max 0 (finite_or 80 (field ''maxChessLossCp'' (utility_config options)))"

text \<open>C34: combat value never buys a blunder. Whatever the facts and the options say, the move chosen is a legal
  one of the list; a mate is played when there is one; otherwise it is a measured move that gives away no more
  than the allowed loss against any measured legal move; and no move is chosen only when none is playable.\<close>

theorem combat_choice_guarded:
  assumes "legal = set (legal_candidates cs)" "mates = {c \<in> legal. field ''isMate'' c = JBool True}"
    "measured = {c \<in> legal. hasMeasuredChessScoreCp c}"
  shows "(chooseCombatCandidate collate cs options = None \<longleftrightarrow> mates = {} \<and> measured = {}) \<and>
    (\<forall>r. chooseCombatCandidate collate cs options = Some r \<longrightarrow>
       rk_candidate r \<in> legal \<and>
       (if mates \<noteq> {} then rk_candidate r \<in> mates
        else rk_candidate r \<in> measured \<and> rk_chessLoss r \<le> allowed_loss options \<and>
          (\<forall>c \<in> measured. fsub (chess_score c) (chess_score (rk_candidate r)) \<le> allowed_loss options)))"
proof (cases "mates = {}")
  case False
  then have m: "filter (\<lambda>c. field ''isMate'' c = JBool True) (legal_candidates cs) \<noteq> []"
    using assms by (auto simp: filter_empty_conv)
  then have rank: "set (map rk_candidate (rankCombatCandidates collate cs options)) = mates"
    "rankCombatCandidates collate cs options \<noteq> []"
    using assms by (simp_all add: rankCombatCandidates_def Let_def comp_def)
  then have "rk_candidate r \<in> mates" if "chooseCombatCandidate collate cs options = Some r" for r
    using chosen_in [OF that] by auto
  then show ?thesis using False rank(2) assms(2) by (auto simp: chosen_none)
next
  case True
  then have m: "filter (\<lambda>c. field ''isMate'' c = JBool True) (legal_candidates cs) = []"
    using assms by (auto simp: filter_empty_conv)
  let ?ms = "filter hasMeasuredChessScoreCp (legal_candidates cs)"
  have ms: "set ?ms = measured" using assms by auto
  have zero: "0 \<le> allowed_loss options" by (simp add: allowed_loss_def)
  have rank: "set (rankCombatCandidates collate cs options) =
      (\<lambda>c. \<lparr>rk_candidate = c, rk_utility = legal_utility (utility_config (utility_config options)) c,
        rk_chessLoss = max 0 (fsub (best_score ?ms) (chess_score c))\<rparr>) ` set (near_best (allowed_loss options) ?ms)"
    by (cases "?ms = []") (simp_all add: rankCombatCandidates_def Let_def m allowed_loss_def near_best_def del: filter_filter)
  have "rankCombatCandidates collate cs options = [] \<longleftrightarrow> measured = {}"
  proof -
    have "rankCombatCandidates collate cs options = [] \<longleftrightarrow> near_best (allowed_loss options) ?ms = []"
      using rank by (metis image_is_empty set_empty)
    also have "\<dots> \<longleftrightarrow> ?ms = []" using near_best_some [OF _ zero, of ?ms] near_best_Nil by metis
    finally show ?thesis using ms by (metis set_empty)
  qed
  moreover have "rk_candidate r \<in> measured \<and> rk_chessLoss r \<le> allowed_loss options \<and>
      (\<forall>c \<in> measured. fsub (chess_score c) (chess_score (rk_candidate r)) \<le> allowed_loss options)"
    if "chooseCombatCandidate collate cs options = Some r" for r
  proof -
    have r: "rk_candidate r \<in> set ?ms" "fsub (best_score ?ms) (chess_score (rk_candidate r)) \<le> allowed_loss options"
      "rk_chessLoss r = max 0 (fsub (best_score ?ms) (chess_score (rk_candidate r)))"
      using chosen_in [OF that] unfolding rank by (auto simp: near_best_def)
    have "fsub (chess_score c) (chess_score (rk_candidate r)) \<le> allowed_loss options" if "c \<in> measured" for c
      using fsub_mono [OF best_above [of c ?ms] order_refl, of "chess_score (rk_candidate r)"] that ms r(2) by auto
    then show ?thesis using r ms zero by auto
  qed
  ultimately show ?thesis using True assms(3) by (auto simp: chosen_none)
qed

definition example_candidates :: json where
  "example_candidates = JArr
     [JObj [(''moveKey'', JStr ''e2e4''), (''chessScoreCp'', JInt 30)],
      JObj [(''moveKey'', JStr ''d1h5''), (''chessScoreCp'', JInt (- 400)), (''expectedBossDamage'', JInt 90)]]"

theorem combat_choice_guarded_witness:
  "legal_candidates example_candidates = elements example_candidates \<and>
   chooseCombatCandidate (\<lambda>a b. True) example_candidates JUndef \<noteq> None"
proof -
  have l: "legal_candidates example_candidates = elements example_candidates"
    by (simp add: legal_candidates_def example_candidates_def truthy_def field_def)
  have "hasMeasuredChessScoreCp (hd (elements example_candidates))"
    by (simp add: example_candidates_def hasMeasuredChessScoreCp_def is_finite_def)
  then have "{c \<in> set (legal_candidates example_candidates). hasMeasuredChessScoreCp c} \<noteq> {}"
    unfolding l by (auto simp: example_candidates_def)
  then show ?thesis
    using combat_choice_guarded [OF refl refl refl, of "\<lambda>a b. True" example_candidates JUndef] l by simp
qed

section \<open>Difficulty\<close>

lemma sums_nonneg: "(\<And>p. 0 \<le> (f p :: int)) \<Longrightarrow> 0 \<le> sum_list (map f xs)"
  by (rule sum_list_nonneg) auto

lemma threat_fields:
  fixes rs :: json
  defines "t \<equiv> combatArmyThreat rs"
  shows "at_statBonus t = min MAX_STAT_BONUS (at_totalStatPoints t div 12)"
    "at_techniqueBonus t = min MAX_TECHNIQUE_BONUS (at_equippedTechniques t)"
    "at_bonus t = min MAX_TOTAL_BONUS (at_statBonus t + at_metamorphosisThreat t + at_techniqueBonus t)"
  unfolding t_def combatArmyThreat_def Let_def by (simp_all only: army_threat.simps)

lemma threat_nonneg:
  "0 \<le> at_totalStatPoints (combatArmyThreat rs)" "0 \<le> at_equippedTechniques (combatArmyThreat rs)"
  "0 \<le> at_metamorphosisThreat (combatArmyThreat rs)"
proof -
  have "0 \<le> battle_points x" for x by (simp add: battle_points_def)
  then show "0 \<le> at_totalStatPoints (combatArmyThreat rs)"
    unfolding combatArmyThreat_def Let_def army_threat.simps by (rule sums_nonneg)
  show "0 \<le> at_equippedTechniques (combatArmyThreat rs)"
    unfolding combatArmyThreat_def Let_def army_threat.simps by (rule of_nat_0_le_iff)
  have "0 \<le> form_threat x" for x
    by (auto simp: form_threat_def FORM_THREAT_def split: json.splits option.splits if_splits)
  then show "0 \<le> at_metamorphosisThreat (combatArmyThreat rs)"
    unfolding combatArmyThreat_def Let_def army_threat.simps by (rule sums_nonneg)
qed

lemma threat_parts:
  "0 \<le> at_statBonus (combatArmyThreat rs)" "0 \<le> at_techniqueBonus (combatArmyThreat rs)"
  using threat_fields [of rs] threat_nonneg [of rs]
  by (simp_all add: MAX_STAT_BONUS_def MAX_TECHNIQUE_BONUS_def pos_imp_zdiv_nonneg_iff)

text \<open>The tax on a strong army is bounded and never lowers the challenge below the base. For any base and any
  roster, damaged ones included, the bonus is 0 to 20 and the sum of its parts up to that cap, the strategic
  difficulty is between the base and 100, and the engine is asked for 0 to 98, never for more than it.\<close>

theorem army_tax_bounded:
  fixes base rosterState :: json
  defines "d \<equiv> balancedCombatDifficulty base rosterState"
  shows "0 \<le> at_bonus (bd_threat d) \<and> at_bonus (bd_threat d) \<le> 20 \<and>
    at_bonus (bd_threat d) =
      min 20 (at_statBonus (bd_threat d) + at_metamorphosisThreat (bd_threat d) + at_techniqueBonus (bd_threat d)) \<and>
    0 \<le> bd_base d \<and> bd_base d \<le> bd_strategicAdjusted d \<and> bd_strategicAdjusted d \<le> 100 \<and>
    bd_appliedBonus d \<le> at_bonus (bd_threat d) \<and>
    0 \<le> bd_adjusted d \<and> bd_adjusted d \<le> min 98 (bd_strategicAdjusted d) \<and>
    bd_base d + bd_appliedBonus d + bd_engineAdjustment d = bd_adjusted d"
proof -
  have b: "0 \<le> percent_of base \<and> percent_of base \<le> 100" by (simp add: percent_of_def split: jsnum.splits)
  note t = threat_fields(3) [of rosterState, unfolded MAX_TOTAL_BONUS_def]
  have n: "0 \<le> at_bonus (combatArmyThreat rosterState)"
    unfolding t using threat_parts [of rosterState] threat_nonneg(3) [of rosterState] by simp
  have d: "bd_threat d = combatArmyThreat rosterState" "bd_base d = percent_of base"
    "bd_strategicAdjusted d = min 100 (percent_of base + at_bonus (combatArmyThreat rosterState))"
    "bd_adjusted d = calibrateCombatEngineDifficulty (bd_strategicAdjusted d)"
    "bd_appliedBonus d = bd_strategicAdjusted d - bd_base d"
    "bd_engineAdjustment d = bd_adjusted d - bd_strategicAdjusted d"
    unfolding d_def balancedCombatDifficulty_def Let_def by (simp_all only: balanced_difficulty.simps)
  have "at_bonus (combatArmyThreat rosterState) \<le> 20" by (subst t) simp
  then show ?thesis
    using b n t engine_curve_bounds [of "bd_strategicAdjusted d"] unfolding d by linarith
qed

end
