(* ===== verification/ProfileSync.thy ===== *)
theory ProfileSync
  imports ProfileProps
begin

text \<open>
  \<open>profileBackup.js\<close>: the profile as a file, and its synchronisation with the server by optimistic patches per
  key.

  The local profile is the plain map of \<open>ProfileProps\<close> (the operations of \<open>profileKeys.js\<close> act on it as their
  \<open>view\<close> functions, whatever writes the browser refuses, and whatever reads once it has answered the first
  of each key). A request waits for the head of \<open>sy_net\<close>: what the rest
  of the application and the other tabs do to the local profile meanwhile, and the server's answer or failure;
  without a head the network fails. The requests sent are kept in \<open>sy_sent\<close>. Saving requests wait in \<open>sy_queue\<close>
  for the one before. The build and the date of an export are arguments; downloading one is left out.
\<close>

section \<open>Requests\<close>

datatype reply = Answer json | Failure json

datatype request =
    GetProfile "string option"
  | PatchProfile "string option" "(string \<times> json) list" "(string \<times> json) list" bool

record save_job =
  jb_snapshot :: json
  jb_token :: "string option"
  jb_username :: "string option"
  jb_keepalive :: bool
  jb_dirtyKeys :: dirty_keys

record sync =
  sy_view :: view
  sy_user :: "string option"
  sy_data :: "(string \<times> json) list option"
  sy_revisions :: "(string \<times> json) list"
  sy_queue :: "save_job list"
  sy_timer :: bool
  sy_net :: "((view \<Rightarrow> view) \<times> reply) list"
  sy_sent :: "request list"

definition send :: "request \<Rightarrow> sync \<Rightarrow> reply \<times> sync" where
  "send req s =
     (case sy_net s of
        [] \<Rightarrow> (Failure JUndef, s\<lparr>sy_sent := sy_sent s @ [req]\<rparr>)
      | (world, r) # rest \<Rightarrow>
          (r, s\<lparr>sy_sent := sy_sent s @ [req], sy_net := rest, sy_view := world (sy_view s)\<rparr>))"

definition AUTH_TOKEN_KEY :: string where "AUTH_TOKEN_KEY = ''chess-study-auth-token''"

definition getToken :: "view \<Rightarrow> string option" where "getToken v = v_store v AUTH_TOKEN_KEY"
definition getUsername :: "view \<Rightarrow> string option" where "getUsername v = v_store v AUTH_USERNAME_KEY"

definition identityStillCurrent :: "string option \<Rightarrow> string option \<Rightarrow> view \<Rightarrow> bool" where
  "identityStillCurrent username token v \<longleftrightarrow> getUsername v = username \<and> getToken v = token"

section \<open>What is known of the server\<close>

definition cloneData :: "json \<Rightarrow> (string \<times> json) list" where
  "cloneData data = spread_fields (or_else_json data (JObj []))"

definition rememberRemote :: "json \<Rightarrow> string option \<Rightarrow> sync \<Rightarrow> sync" where
  "rememberRemote remote username s =
     s\<lparr>sy_user := text_or_none username, sy_data := Some (cloneData (field ''data'' remote)),
       sy_revisions := spread_fields (or_else_json (field ''revisions'' remote) (JObj []))\<rparr>"

definition own_prop :: "string \<Rightarrow> (string \<times> json) list \<Rightarrow> json" where
  "own_prop k o1 = (case obj_get o1 k of None \<Rightarrow> JUndef | Some v \<Rightarrow> v)"

definition changedKeys :: "(string \<times> json) list \<Rightarrow> (string \<times> json) list \<Rightarrow> string list" where
  "changedKeys before after =
     filter (\<lambda>k. \<not> strict_eq (own_prop k before) (own_prop k after) \<or> (obj_get before k = None) \<noteq> (obj_get after k = None))
       (uniq (obj_keys before @ obj_keys after))"

definition patch_keys :: "(string \<times> json) list \<Rightarrow> (string \<times> json) list \<Rightarrow> dirty_keys \<Rightarrow> string list" where
  "patch_keys local remote explicitDirtyKeys =
     (case explicitDirtyKeys of
        AllKeys \<Rightarrow> uniq (obj_keys remote @ obj_keys local)
      | SomeKeys ks \<Rightarrow> if ks \<noteq> [] then ks else changedKeys remote local)"

definition patchForSnapshot :: "json \<Rightarrow> (string \<times> json) list \<Rightarrow> dirty_keys \<Rightarrow> (string \<times> json) list" where
  "patchForSnapshot snapshot baseline explicitDirtyKeys =
     (let local = spread_fields (or_else_json (field ''data'' snapshot) (JObj []))
      in fold (\<lambda>k. obj_put k (case obj_get local k of None \<Rightarrow> JNull | Some v \<Rightarrow> v))
           (patch_keys local baseline explicitDirtyKeys) [])"

section \<open>Export and import\<close>

definition export_data :: "view \<Rightarrow> (string \<times> json) list" where
  "export_data v = List.map_filter (\<lambda>k. map_option (\<lambda>s. (k, JStr s)) (v_store v k)) PROFILE_STORAGE_KEYS"

definition exportProfile :: "string \<Rightarrow> string \<Rightarrow> view \<Rightarrow> json" where
  "exportProfile build now v = JObj
     [(''app'', JStr ''estudio-de-ajedrez''), (''version'', JInt 2),
      (''username'', case text_or_none (getUsername v) of None \<Rightarrow> JNull | Some u \<Rightarrow> JStr u),
      (''build'', JStr (if build = [] then ''local'' else build)), (''exportedAt'', JStr now),
      (''data'', JObj (export_data v))]"

definition parseProfile :: "json_api \<Rightarrow> json \<Rightarrow> string + json" where
  "parseProfile js rawTextOrObject =
     (let checked = (\<lambda>parsed.
            if \<not> truthy parsed \<or> \<not> is_object parsed \<or> \<not> truthy (field ''data'' parsed)
               \<or> \<not> is_object (field ''data'' parsed) \<or> is_array (field ''data'' parsed)
            then Inl ''El archivo no tiene el formato esperado de un backup de esta app.'' else Inr parsed)
      in case rawTextOrObject of
           JStr t \<Rightarrow> (case parse js t of None \<Rightarrow> Inl (''El archivo no es un JSON v'' @ [CHR 0xE1] @ ''lido.'') | Some v \<Rightarrow> checked v)
         | v \<Rightarrow> checked v)"

text \<open>The keys an import restores.\<close>

definition restorable :: "json \<Rightarrow> string list" where
  "restorable data = filter (\<lambda>k. case field k data of JStr s \<Rightarrow> True | _ \<Rightarrow> False) PROFILE_STORAGE_KEYS"

definition importProfile :: "json_api \<Rightarrow> json \<Rightarrow> bool \<Rightarrow> bool \<Rightarrow> view \<Rightarrow> (string + nat) \<times> view" where
  "importProfile js raw replace markDirty v =
     (case parseProfile js raw of
        Inl e \<Rightarrow> (Inl e, v)
      | Inr parsed \<Rightarrow>
          let v1 = (if replace then clear_cache_view False v else v);
              keys = restorable (field ''data'' parsed);
              v2 = v1\<lparr>v_store := fold (\<lambda>k st. st(k \<mapsto> json_string (field k (field ''data'' parsed)))) keys (v_store v1)\<rparr>;
              v3 = (if markDirty then mark_view js None v2 else v2)
          in (Inr (length keys), v3))"

section \<open>Patching\<close>

definition loadRemoteForSync :: "string option \<Rightarrow> string option \<Rightarrow> sync \<Rightarrow> (json + json) \<times> sync" where
  "loadRemoteForSync token username s =
     (case send (GetProfile token) s of
        (Failure e, s1) \<Rightarrow> (Inl e, s1)
      | (Answer remote, s1) \<Rightarrow> (Inr remote, rememberRemote remote username s1))"

definition expected_revisions :: "(string \<times> json) list \<Rightarrow> (string \<times> json) list \<Rightarrow> (string \<times> json) list" where
  "expected_revisions revisions patch =
     map (\<lambda>(k, _). (k, JNum (json_number (or_else_json (own_prop k revisions) (JInt 0))))) patch"

text \<open>After a conflict: the photo of the server the refusal carries, or a new request for it.\<close>

definition after_conflict :: "json \<Rightarrow> string option \<Rightarrow> string option \<Rightarrow> sync \<Rightarrow> (json + unit) \<times> sync" where
  "after_conflict e token username s =
     (let detail = or_else_json (field ''detail'' (field ''body'' e)) (JObj []); profile = field ''profile'' detail
      in if truthy profile \<and> is_object profile
         then (Inr (), rememberRemote (JObj (fold (\<lambda>(k, v). obj_put k v)
                 [(''revisions'', or_else_json (field ''revisions'' detail)
                     (or_else_json (field ''revisions'' profile) (JObj [])))] (spread_fields profile))) username s)
         else case loadRemoteForSync token username s of
                (Inl e', s1) \<Rightarrow> (Inl e', s1) | (Inr _, s1) \<Rightarrow> (Inr (), s1))"

text \<open>The loop over \<open>attempt\<close>, by the attempts that are left.\<close>

fun patch_attempts :: "nat \<Rightarrow> json \<Rightarrow> string option \<Rightarrow> string option \<Rightarrow> bool \<Rightarrow> dirty_keys \<Rightarrow> sync \<Rightarrow> (json + json) \<times> sync" where
  "patch_attempts 0 snapshot token username keepalive dirtyKeys s = (Inr JNull, s)"
| "patch_attempts (Suc left) snapshot token username keepalive dirtyKeys s =
     (let patch = patchForSnapshot snapshot (case sy_data s of None \<Rightarrow> [] | Some d \<Rightarrow> d) dirtyKeys
      in if patch = [] then (Inr (with_fields [(''revisions'', JObj (sy_revisions s))] snapshot), s)
         else case send (PatchProfile token patch (expected_revisions (sy_revisions s) patch) keepalive) s of
           (Answer r, s1) \<Rightarrow> (Inr r, rememberRemote r username s1)
         | (Failure e, s1) \<Rightarrow>
             if field ''status'' e \<noteq> JInt 409 \<or> left = 0 then (Inl e, s1)
             else (case after_conflict e token username s1 of
                     (Inl e', s2) \<Rightarrow> (Inl e', s2)
                   | (Inr _, s2) \<Rightarrow> patch_attempts left snapshot token username keepalive dirtyKeys s2))"

definition patchSnapshot :: "json \<Rightarrow> string option \<Rightarrow> string option \<Rightarrow> bool \<Rightarrow> dirty_keys \<Rightarrow> sync \<Rightarrow> (json + json) \<times> sync" where
  "patchSnapshot snapshot token username keepalive dirtyKeys s =
     (if sy_user s \<noteq> username \<or> sy_data s = None
      then (case loadRemoteForSync token username s of
              (Inl e, s1) \<Rightarrow> (Inl e, s1)
            | (Inr _, s1) \<Rightarrow> patch_attempts 2 snapshot token username keepalive dirtyKeys s1)
      else patch_attempts 2 snapshot token username keepalive dirtyKeys s)"

section \<open>Pulling\<close>

definition dirty_view :: "json_api \<Rightarrow> view \<Rightarrow> dirty_state" where
  "dirty_view js v =
     (let username = getUsername v
      in if text_or_none username = None \<or> v_store v PROFILE_DIRTY_USER_KEY \<noteq> username
         then \<lparr>d_dirty = False, d_valid = True, d_keys = SomeKeys []\<rparr>
         else read_journal js (v_store v PROFILE_DIRTY_KEYS_KEY))"

definition clear_dirty_view :: "view \<Rightarrow> view" where
  "clear_dirty_view v = v\<lparr>v_store := cleared [PROFILE_DIRTY_USER_KEY, PROFILE_DIRTY_KEYS_KEY] (v_store v)\<rparr>"

record pull_result =
  pr_status :: string
  pr_restored :: nat
  pr_error :: "json option"

definition answered :: "string \<Rightarrow> nat \<Rightarrow> pull_result" where
  "answered status n = \<lparr>pr_status = status, pr_restored = n, pr_error = None\<rparr>"

text \<open>The \<open>catch\<close> of the pull; the copies of the error's status and detail in the answer are left out.\<close>

definition pull_failed :: "string option \<Rightarrow> string option \<Rightarrow> json \<Rightarrow> sync \<Rightarrow> pull_result \<times> sync" where
  "pull_failed username token e s =
     (if \<not> identityStillCurrent username token (sy_view s) then (answered ''superseded'' 0, s)
      else if field ''status'' e = JInt 401
      then (\<lparr>pr_status = ''unauthorized'', pr_restored = 0, pr_error = Some e\<rparr>, s)
      else (\<lparr>pr_status = ''offline'', pr_restored = 0, pr_error = Some e\<rparr>, s))"

definition take_photo ::
  "json_api \<Rightarrow> string \<Rightarrow> string option \<Rightarrow> string option \<Rightarrow> json \<Rightarrow> sync \<Rightarrow> pull_result \<times> sync" where
  "take_photo js status username token remote s =
     (case importProfile js remote True False (sy_view s) of
        (Inl message, v) \<Rightarrow> pull_failed username token (JObj [(''message'', JStr message)]) (s\<lparr>sy_view := v\<rparr>)
      | (Inr n, v) \<Rightarrow> (answered status n, s\<lparr>sy_view := clear_dirty_view v\<rparr>))"

definition no_data :: "json \<Rightarrow> bool" where
  "no_data remote = (let d = field ''data'' remote in \<not> truthy d \<or> spread_fields d = [])"

text \<open>The answer of a pull whose photo was taken: an empty one clears the local profile.\<close>

definition take_or_clear ::
  "json_api \<Rightarrow> string \<Rightarrow> string \<Rightarrow> string option \<Rightarrow> string option \<Rightarrow> json \<Rightarrow> sync \<Rightarrow> pull_result \<times> sync" where
  "take_or_clear js status emptyStatus username token remote s =
     (if no_data remote
      then (answered emptyStatus 0, s\<lparr>sy_view := clear_dirty_view (clear_cache_view False (sy_view s))\<rparr>)
      else take_photo js status username token remote s)"

definition cancelScheduledProfileSync :: "sync \<Rightarrow> sync" where
  "cancelScheduledProfileSync s = s\<lparr>sy_timer := False\<rparr>"

definition pullProfileFromServer :: "json_api \<Rightarrow> string \<Rightarrow> string \<Rightarrow> sync \<Rightarrow> pull_result \<times> sync" where
  "pullProfileFromServer js build now s0 =
     (let s = cancelScheduledProfileSync s0; username = getUsername (sy_view s); token = getToken (sy_view s);
          dirty = dirty_view js (sy_view s); snapshot = exportProfile build now (sy_view s)
      in case loadRemoteForSync token username s of
           (Inl e, s1) \<Rightarrow> pull_failed username token e s1
         | (Inr remote, s1) \<Rightarrow>
             if \<not> identityStillCurrent username token (sy_view s1) then (answered ''superseded'' 0, s1)
             else if d_dirty dirty \<and> \<not> d_valid dirty
             then take_or_clear js ''repaired-dirty'' ''repaired-dirty-empty'' username token remote s1
             else if d_dirty dirty
             then (case patchSnapshot snapshot token username False (d_keys dirty) s1 of
                     (Inl e, s2) \<Rightarrow> pull_failed username token e s2
                   | (Inr saved, s2) \<Rightarrow>
                       if \<not> identityStillCurrent username token (sy_view s2) then (answered ''superseded'' 0, s2)
                       else let merged = or_else_json saved remote
                            in take_photo js ''recovered-local'' username token merged (rememberRemote merged username s2))
             else take_or_clear js ''loaded'' ''empty'' username token remote s1)"

section \<open>Pushing\<close>

definition pushProfileToServer ::
  "json_api \<Rightarrow> string \<Rightarrow> string \<Rightarrow> bool \<Rightarrow> string option \<Rightarrow> string option \<Rightarrow> sync \<Rightarrow> sync" where
  "pushProfileToServer js build now keepalive expectedUsername expectedToken s0 =
     (let s = cancelScheduledProfileSync s0; v = sy_view s; dirty = dirty_view js v
      in if (text_or_none expectedUsername \<noteq> None \<and> getUsername v \<noteq> expectedUsername) \<or>
            (text_or_none expectedToken \<noteq> None \<and> getToken v \<noteq> expectedToken) then s
         else s\<lparr>sy_queue := sy_queue s @
           [\<lparr>jb_snapshot = exportProfile build now v, jb_token = getToken v, jb_username = getUsername v,
             jb_keepalive = keepalive,
             jb_dirtyKeys = (if d_dirty dirty \<and> d_valid dirty then d_keys dirty else SomeKeys [])\<rparr>]\<rparr>)"

text \<open>The turn of the next job: its patch, and the journal if nothing was edited meanwhile. A failure is the
  answer (\<open>null\<close> to a caller that does not want it) and leaves the queue to the next job.\<close>

definition run_save :: "json_api \<Rightarrow> sync \<Rightarrow> (json + json) option \<times> sync" where
  "run_save js s =
     (case sy_queue s of
        [] \<Rightarrow> (None, s)
      | j # js' \<Rightarrow>
          (case patchSnapshot (jb_snapshot j) (jb_token j) (jb_username j) (jb_keepalive j) (jb_dirtyKeys j)
                  (s\<lparr>sy_queue := js'\<rparr>) of
             (Inl e, s1) \<Rightarrow> (Some (Inl e), s1)
           | (Inr r, s1) \<Rightarrow>
               (Some (Inr r),
                if getUsername (sy_view s1) = jb_username j \<and>
                   stringify js (JObj (export_data (sy_view s1))) = stringify js (field ''data'' (jb_snapshot j))
                then s1\<lparr>sy_view := clear_dirty_view (sy_view s1)\<rparr> else s1)))"

definition scheduleProfileSync :: "sync \<Rightarrow> sync" where
  "scheduleProfileSync s = (cancelScheduledProfileSync s)\<lparr>sy_timer := True\<rparr>"

definition timer_fires ::
  "json_api \<Rightarrow> string \<Rightarrow> string \<Rightarrow> string option \<Rightarrow> string option \<Rightarrow> sync \<Rightarrow> sync" where
  "timer_fires js build now expectedUsername expectedToken s =
     (if sy_timer s then pushProfileToServer js build now False expectedUsername expectedToken (s\<lparr>sy_timer := False\<rparr>) else s)"

definition resetProfileSyncStateForTests :: "sync \<Rightarrow> sync" where
  "resetProfileSyncStateForTests s =
     s\<lparr>sy_queue := [], sy_timer := False, sy_user := None, sy_data := None, sy_revisions := []\<rparr>"

end
