(* ===== verification/ProfileSyncProps.thy ===== *)
theory ProfileSyncProps
  imports ProfileSync JsonCodec
begin

text \<open>
  What synchronisation promises: while it waits only the others change the local profile; it sends what the
  journal names and nothing else; it takes a photo of the server only for the user it was asked by; and the
  journal is dropped only once the server has answered a patch of the edits, or already has them.
\<close>

section \<open>Waiting\<close>

text \<open>From \<open>s\<close> to \<open>s'\<close> the requests \<open>reqs\<close> were sent and only the others touched the local profile.\<close>

definition waits :: "request list \<Rightarrow> sync \<Rightarrow> sync \<Rightarrow> bool" where
  "waits reqs s s' \<longleftrightarrow>
     (\<exists>n. sy_net s' = drop n (sy_net s) \<and> sy_view s' = fold fst (take n (sy_net s)) (sy_view s)) \<and>
     sy_sent s' = sy_sent s @ reqs \<and> sy_queue s' = sy_queue s"

definition left_by_others :: "sync \<Rightarrow> sync \<Rightarrow> view" where
  "left_by_others s s' = fold fst (take (length (sy_net s) - length (sy_net s')) (sy_net s)) (sy_view s)"

lemma waits_view: "waits reqs s s' \<Longrightarrow> sy_view s' = left_by_others s s'"
proof -
  assume "waits reqs s s'"
  then obtain n where n: "sy_net s' = drop n (sy_net s)" "sy_view s' = fold fst (take n (sy_net s)) (sy_view s)"
    by (auto simp: waits_def)
  have "take (length (sy_net s) - (length (sy_net s) - n)) (sy_net s) = take n (sy_net s)"
    by (cases "n \<le> length (sy_net s)") auto
  then show ?thesis using n by (simp add: left_by_others_def)
qed

lemma waits_refl [simp]: "waits [] s s"
  by (auto simp: waits_def intro: exI [of _ 0])

lemma waits_trans: "waits a s t \<Longrightarrow> waits b t u \<Longrightarrow> waits (a @ b) s u"
proof -
  assume "waits a s t" "waits b t u"
  then obtain n m where "sy_net t = drop n (sy_net s)" "sy_view t = fold fst (take n (sy_net s)) (sy_view s)"
    "sy_net u = drop m (sy_net t)" "sy_view u = fold fst (take m (sy_net t)) (sy_view t)"
    by (auto simp: waits_def)
  then have "sy_view u = fold fst (take (n + m) (sy_net s)) (sy_view s)" "sy_net u = drop (n + m) (sy_net s)"
    by (simp add: take_add) (simp add: \<open>sy_net u = _\<close> \<open>sy_net t = _\<close> add.commute)
  then show ?thesis using \<open>waits a s t\<close> \<open>waits b t u\<close> by (auto simp: waits_def)
qed

lemma waits_remember: "waits a s t \<Longrightarrow> waits a s (rememberRemote r u t)"
  by (simp add: waits_def rememberRemote_def)

lemma waits_send: "waits [req] s (snd (send req s))"
proof (cases "sy_net s")
  case Nil
  then show ?thesis by (simp add: waits_def send_def)
next
  case (Cons p rest)
  then show ?thesis by (cases p) (auto simp: waits_def send_def intro: exI [of _ "Suc 0"])
qed

lemma waits_load: "waits [GetProfile token] s (snd (loadRemoteForSync token username s))"
  using waits_send [of "GetProfile token" s]
  by (auto simp: loadRemoteForSync_def waits_remember split: prod.splits reply.splits)

section \<open>Patches\<close>

definition is_patch :: "request \<Rightarrow> bool" where
  "is_patch req = (case req of PatchProfile _ _ _ _ \<Rightarrow> True | _ \<Rightarrow> False)"

lemma is_patch_simps [simp]: "is_patch (PatchProfile t p x k)" "\<not> is_patch (GetProfile t)"
  by (simp_all add: is_patch_def)

definition named_keys :: "dirty_keys \<Rightarrow> string set" where
  "named_keys dk = (case dk of AllKeys \<Rightarrow> UNIV | SomeKeys ks \<Rightarrow> if ks = [] then UNIV else set ks)"

definition local_value :: "json \<Rightarrow> string \<Rightarrow> json" where
  "local_value snapshot k =
     (case obj_get (spread_fields (or_else_json (field ''data'' snapshot) (JObj []))) k of None \<Rightarrow> JNull | Some v \<Rightarrow> v)"

text \<open>A request of this save: with its token, and a patch of local values of keys the journal names.\<close>

definition of_save :: "string option \<Rightarrow> json \<Rightarrow> dirty_keys \<Rightarrow> request \<Rightarrow> bool" where
  "of_save token snapshot dk req =
     (case req of
        GetProfile t \<Rightarrow> t = token
      | PatchProfile t patch expected keepalive \<Rightarrow>
          t = token \<and> patch \<noteq> [] \<and> (\<forall>(k, v) \<in> set patch. k \<in> named_keys dk \<and> v = local_value snapshot k) \<and>
          map fst expected = map fst patch)"

lemma put_all_values:
  "\<forall>(k, v) \<in> set acc. k \<in> K \<and> v = f k \<Longrightarrow> set ks \<subseteq> K \<Longrightarrow>
   \<forall>(k, v) \<in> set (fold (\<lambda>k. obj_put k (f k)) ks acc). k \<in> K \<and> v = f k"
proof (induction ks arbitrary: acc)
  case (Cons x ks)
  then show ?case using set_obj_put [of x "f x" acc] by (auto intro!: Cons.IH)
qed simp

lemma patch_values:
  "(k, v) \<in> set (patchForSnapshot snapshot base dk) \<Longrightarrow> k \<in> named_keys dk \<and> v = local_value snapshot k"
proof -
  have "set (patch_keys local base dk) \<subseteq> named_keys dk" for local
    by (auto simp: patch_keys_def named_keys_def split: dirty_keys.splits if_splits)
  from put_all_values [of "[]" "named_keys dk" "local_value snapshot", OF _ this]
  show "(k, v) \<in> set (patchForSnapshot snapshot base dk) \<Longrightarrow> k \<in> named_keys dk \<and> v = local_value snapshot k"
    by (fastforce simp: patchForSnapshot_def local_value_def [abs_def] Let_def)
qed

lemma waits_conflict:
  "\<exists>reqs. waits reqs s (snd (after_conflict e token username s)) \<and> reqs \<in> {[], [GetProfile token]}"
proof -
  obtain o1 s1 where l: "loadRemoteForSync token username s = (o1, s1)" by (cases "loadRemoteForSync token username s")
  then have "waits [GetProfile token] s s1" using waits_load [of token s username] by simp
  then show ?thesis
    by (auto simp: after_conflict_def Let_def l waits_remember split: sum.splits intro: exI [of _ "[]"])
qed

text \<open>The server took it: the last request was a patch, and \<open>r\<close> is what the server answered to it.\<close>

definition took :: "request list \<Rightarrow> sync \<Rightarrow> sync \<Rightarrow> json \<Rightarrow> bool" where
  "took reqs s s' r \<longleftrightarrow> reqs \<noteq> [] \<and> is_patch (last reqs) \<and> (\<exists>pre w. sy_net s = pre @ (w, Answer r) # sy_net s')"

lemma took_later: "waits a s t \<Longrightarrow> took b t u r \<Longrightarrow> took (a @ b) s u r"
  unfolding took_def waits_def by (metis append.assoc append_is_Nil_conv append_take_drop_id last_appendR)

definition server_photo :: "sync \<Rightarrow> (string \<times> json) list" where
  "server_photo s = (case sy_data s of None \<Rightarrow> [] | Some d \<Rightarrow> d)"

text \<open>A save that ended well: the server took it, or there was nothing to send.\<close>

definition ended_well :: "json \<Rightarrow> dirty_keys \<Rightarrow> request list \<Rightarrow> sync \<Rightarrow> sync \<Rightarrow> json \<Rightarrow> bool" where
  "ended_well snapshot dk reqs s s' r \<longleftrightarrow> took reqs s s' r \<or> patchForSnapshot snapshot (server_photo s') dk = []"

lemma ended_later: "waits a s t \<Longrightarrow> ended_well snapshot dk b t u r \<Longrightarrow> ended_well snapshot dk (a @ b) s u r"
  using took_later by (auto simp: ended_well_def)

lemma waits_attempts:
  "\<exists>reqs. waits reqs s (snd (patch_attempts n snapshot token username keepalive dk s)) \<and>
     (\<forall>r \<in> set reqs. of_save token snapshot dk r) \<and> length (filter is_patch reqs) \<le> n \<and>
     (\<forall>r. 0 < n \<and> fst (patch_attempts n snapshot token username keepalive dk s) = Inr r \<longrightarrow>
        ended_well snapshot dk reqs s (snd (patch_attempts n snapshot token username keepalive dk s)) r)"
proof (induction n arbitrary: s)
  case 0
  show ?case by (auto intro: exI [of _ "[]"])
next
  case (Suc n)
  let ?patch = "patchForSnapshot snapshot (case sy_data s of None \<Rightarrow> [] | Some d \<Rightarrow> d) dk"
  let ?req = "PatchProfile token ?patch (expected_revisions (sy_revisions s) ?patch) keepalive"
  show ?case
  proof (cases "?patch = []")
    case True
    then show ?thesis by (auto simp: Let_def ended_well_def server_photo_def intro!: exI [of _ "[]"])
  next
    case False
    have ok: "of_save token snapshot dk ?req"
      using False patch_values by (auto simp: of_save_def expected_revisions_def comp_def case_prod_beta)
    obtain rep s1 where r: "send ?req s = (rep, s1)" by (cases "send ?req s")
    have w1: "waits [?req] s s1" using waits_send [of ?req s] r by simp
    show ?thesis
    proof (cases rep)
      case (Answer x)
      then have "took [?req] s (rememberRemote x username s1) x"
        using r by (auto simp: took_def send_def rememberRemote_def split: list.splits prod.splits)
      then show ?thesis using False r ok waits_remember [OF w1] Answer
        by (intro exI [of _ "[?req]"]) (simp add: Let_def ended_well_def)
    next
      case (Failure e)
      obtain o2 s2 where c: "after_conflict e token username s1 = (o2, s2)" by (cases "after_conflict e token username s1")
      show ?thesis
      proof (cases "field ''status'' e \<noteq> JInt 409 \<or> n = 0")
        case True
        then show ?thesis using False r ok w1 Failure
          by (intro exI [of _ "[?req]"]) (auto simp: Let_def)
      next
        case again: False
        obtain r2 where r2: "waits r2 s1 s2" "r2 \<in> {[], [GetProfile token]}"
          using waits_conflict [of s1 e token username] c by auto
        let ?rest = "patch_attempts n snapshot token username keepalive dk s2"
        obtain r3 where r3: "waits r3 s2 (snd ?rest)"
            "\<forall>r \<in> set r3. of_save token snapshot dk r" "length (filter is_patch r3) \<le> n"
            "\<And>r. fst ?rest = Inr r \<Longrightarrow> ended_well snapshot dk r3 s2 (snd ?rest) r"
          using Suc.IH [of s2] again by blast
        have get: "\<forall>r \<in> set r2. of_save token snapshot dk r" "filter is_patch r2 = []"
          using r2(2) by (auto simp: of_save_def)
        have w2: "waits ([?req] @ r2) s s2" by (rule waits_trans [OF w1 r2(1)])
        show ?thesis
        proof (cases o2)
          case (Inl e')
          then show ?thesis using False again Failure r c ok get w2
            by (intro exI [of _ "[?req] @ r2"]) (auto simp: Let_def)
        next
          case (Inr u)
          then have "patch_attempts (Suc n) snapshot token username keepalive dk s = ?rest"
            using False again Failure r c by (simp add: Let_def)
          then show ?thesis using ok get r3 waits_trans [OF w2 r3(1)] ended_later [OF w2 r3(4)]
            by (intro exI [of _ "([?req] @ r2) @ r3"]) auto
        qed
      qed
    qed
  qed
qed

lemma waits_patch:
  "\<exists>reqs. waits reqs s (snd (patchSnapshot snapshot token username keepalive dk s)) \<and>
     (\<forall>r \<in> set reqs. of_save token snapshot dk r) \<and> length (filter is_patch reqs) \<le> 2 \<and>
     (\<forall>r. fst (patchSnapshot snapshot token username keepalive dk s) = Inr r \<longrightarrow>
        ended_well snapshot dk reqs s (snd (patchSnapshot snapshot token username keepalive dk s)) r)"
proof -
  obtain o1 s1 where l: "loadRemoteForSync token username s = (o1, s1)" by (cases "loadRemoteForSync token username s")
  then have w: "waits [GetProfile token] s s1" using waits_load [of token s username] by simp
  let ?rest = "patch_attempts 2 snapshot token username keepalive dk s1"
  obtain r1 where r1: "waits r1 s1 (snd ?rest)"
      "\<forall>r \<in> set r1. of_save token snapshot dk r" "length (filter is_patch r1) \<le> 2"
      "\<And>r. fst ?rest = Inr r \<Longrightarrow> ended_well snapshot dk r1 s1 (snd ?rest) r"
    using waits_attempts [of s1 2 snapshot token username keepalive dk] by (metis zero_less_numeral)
  have get: "of_save token snapshot dk (GetProfile token)" "\<not> is_patch (GetProfile token)"
    by (simp_all add: of_save_def)
  show ?thesis
  proof (cases "sy_user s \<noteq> username \<or> sy_data s = None")
    case True
    show ?thesis
    proof (cases o1)
      case (Inl e)
      then show ?thesis using True l w get by (intro exI [of _ "[GetProfile token]"]) (simp add: patchSnapshot_def)
    next
      case (Inr r)
      then have "patchSnapshot snapshot token username keepalive dk s = ?rest"
        using True l by (simp add: patchSnapshot_def del: patch_attempts.simps)
      then show ?thesis using get r1 waits_trans [OF w r1(1)] ended_later [OF w r1(4)]
        by (intro exI [of _ "[GetProfile token] @ r1"]) simp
    qed
  next
    case False
    then have "patchSnapshot snapshot token username keepalive dk s = patch_attempts 2 snapshot token username keepalive dk s"
      by (auto simp: patchSnapshot_def simp del: patch_attempts.simps)
    then show ?thesis using waits_attempts [of s 2 snapshot token username keepalive dk] by simp
  qed
qed

section \<open>Taking a photo\<close>

definition failing :: "string set" where
  "failing = {''superseded'', ''unauthorized'', ''offline''}"

text \<open>The local profile is the photo \<open>d\<close>: its texts, and nothing else when the cache could be cleared.\<close>

definition holds_photo :: "view \<Rightarrow> (string \<times> json) list \<Rightarrow> view \<Rightarrow> bool" where
  "holds_photo w d v \<longleftrightarrow>
     (\<forall>k \<in> set PROFILE_STORAGE_KEYS. v_store v k =
        (case own_prop k d of JStr t \<Rightarrow> Some t | _ \<Rightarrow> if same_identity w then None else v_store w k)) \<and>
     v_store v PROFILE_DIRTY_USER_KEY = None \<and> v_store v PROFILE_DIRTY_KEYS_KEY = None"

lemma fold_writes:
  "fold (\<lambda>k st. st(k \<mapsto> f k)) ks st k = (if k \<in> set ks then Some (f k) else st k)"
  by (induction ks arbitrary: st) auto

lemma journal_not_profile:
  "PROFILE_DIRTY_USER_KEY \<notin> set PROFILE_STORAGE_KEYS" "PROFILE_DIRTY_KEYS_KEY \<notin> set PROFILE_STORAGE_KEYS"
  by code_simp+

lemma cache_cleared:
  "k \<in> set PROFILE_STORAGE_KEYS \<Longrightarrow> v_store (clear_cache_view n w) k = (if same_identity w then None else v_store w k)"
  by (simp add: clear_cache_view_def cleared_def)

lemma dirty_cleared:
  "v_store (clear_dirty_view v) k =
     (if k = PROFILE_DIRTY_USER_KEY \<or> k = PROFILE_DIRTY_KEYS_KEY then None else v_store v k)"
  by (simp add: clear_dirty_view_def cleared_def)

lemma cleared_photo:
  assumes "spread_fields d = [] \<or> \<not> truthy d"
  shows "holds_photo w (cloneData d) (clear_dirty_view (clear_cache_view n w))"
proof -
  have "own_prop k (cloneData d) = JUndef" for k
    using assms by (auto simp: own_prop_def cloneData_def or_else_json_def spread_fields_def)
  then show ?thesis using journal_not_profile
    by (auto simp: holds_photo_def dirty_cleared cache_cleared)
qed

lemma imported_photo:
  assumes "importProfile js remote True False w = (Inr n, v)" "\<forall>t. remote \<noteq> JStr t"
  shows "holds_photo w (cloneData (field ''data'' remote)) (clear_dirty_view v)"
proof -
  let ?d = "field ''data'' remote"
  have d: "truthy ?d" "is_object ?d" "\<not> is_array ?d"
    and v: "v_store v = fold (\<lambda>k st. st(k \<mapsto> json_string (field k ?d))) (restorable ?d) (v_store (clear_cache_view False w))"
    using assms by (auto simp: importProfile_def parseProfile_def Let_def split: json.splits if_splits)
  obtain kvs where kvs: "?d = JObj kvs" using d by (cases ?d) (auto simp: is_object_def is_array_def)
  have own: "own_prop k (cloneData ?d) = field k ?d" for k
    using kvs d by (simp add: own_prop_def cloneData_def or_else_json_def spread_fields_def)
  have "v_store v k = (case field k ?d of JStr t \<Rightarrow> Some t | _ \<Rightarrow> if same_identity w then None else v_store w k)"
    if "k \<in> set PROFILE_STORAGE_KEYS" for k
    using that cache_cleared [OF that, of False w] unfolding v fold_writes
    by (auto simp: restorable_def split: json.splits)
  then show ?thesis using journal_not_profile unfolding holds_photo_def own dirty_cleared by auto
qed

text \<open>How a pull ends once the server has answered: nothing local changes, or the photo is taken.\<close>

definition concludes :: "string option \<Rightarrow> string option \<Rightarrow> sync \<Rightarrow> pull_result \<times> sync \<Rightarrow> bool" where
  "concludes username token s rt \<longleftrightarrow> (let (r, t) = rt in
     sy_sent t = sy_sent s \<and> sy_net t = sy_net s \<and> sy_data t = sy_data s \<and>
     (pr_status r \<in> failing \<and> sy_view t = sy_view s \<or>
      pr_status r \<notin> failing \<and> identityStillCurrent username token (sy_view s) \<and>
        (\<exists>d. sy_data s = Some d \<and> holds_photo (sy_view s) d (sy_view t))))"

lemma failed_concludes: "concludes username token s (pull_failed username token e s)"
  by (simp add: concludes_def pull_failed_def answered_def failing_def)

lemma take_concludes:
  assumes "identityStillCurrent username token (sy_view s)" "status \<notin> failing" "sy_data s = Some (cloneData (field ''data'' remote))" "\<forall>t. remote \<noteq> JStr t"
  shows "concludes username token s (take_photo js status username token remote s)"
proof -
  obtain o1 v where i: "importProfile js remote True False (sy_view s) = (o1, v)"
    by (cases "importProfile js remote True False (sy_view s)")
  show ?thesis
  proof (cases o1)
    case (Inl m)
    then have "v = sy_view s" using i by (auto simp: importProfile_def Let_def split: sum.splits)
    then have "take_photo js status username token remote s = pull_failed username token (JObj [(''message'', JStr m)]) s"
      using i Inl by (simp add: take_photo_def)
    then show ?thesis by (simp add: failed_concludes)
  next
    case (Inr n)
    then show ?thesis using i assms(1-3) imported_photo [OF i [unfolded Inr] assms(4)]
      by (simp add: take_photo_def concludes_def answered_def)
  qed
qed

lemma clear_concludes:
  assumes "identityStillCurrent username token (sy_view s)" "status \<notin> failing" "emptyStatus \<notin> failing" "sy_data s = Some (cloneData (field ''data'' remote))"
    "\<forall>t. remote \<noteq> JStr t"
  shows "concludes username token s (take_or_clear js status emptyStatus username token remote s)"
  using assms take_concludes [OF assms(1,2,4,5)] cleared_photo [of "field ''data'' remote" "sy_view s" False]
  by (auto simp: take_or_clear_def concludes_def answered_def no_data_def Let_def)

section \<open>Pulling and pushing\<close>

text \<open>The server answers objects, never a bare text.\<close>

definition answers_objects :: "sync \<Rightarrow> bool" where
  "answers_objects s \<longleftrightarrow> (\<forall>p \<in> set (sy_net s). \<forall>t. snd p \<noteq> Answer (JStr t))"

lemma answers_later: "answers_objects s \<Longrightarrow> waits reqs s s' \<Longrightarrow> answers_objects s'"
  by (fastforce simp: answers_objects_def waits_def dest: in_set_dropD)

lemma load_answer:
  assumes "answers_objects s" "loadRemoteForSync token username s = (Inr remote, s1)"
  shows "(\<forall>t. remote \<noteq> JStr t) \<and> sy_data s1 = Some (cloneData (field ''data'' remote))"
  using assms
  by (auto simp: loadRemoteForSync_def send_def answers_objects_def rememberRemote_def split: list.splits prod.splits reply.splits)

lemma send_answer: "answers_objects s \<Longrightarrow> send req s = (Answer r, s1) \<Longrightarrow> \<forall>t. r \<noteq> JStr t"
  by (auto simp: send_def answers_objects_def split: list.splits prod.splits)

lemma attempts_answer:
  "answers_objects s \<Longrightarrow> patch_attempts n snapshot token username keepalive dk s = (Inr r, s') \<Longrightarrow> \<forall>t. r \<noteq> JStr t"
proof (induction n arbitrary: s)
  case (Suc n)
  let ?patch = "patchForSnapshot snapshot (case sy_data s of None \<Rightarrow> [] | Some d \<Rightarrow> d) dk"
  let ?req = "PatchProfile token ?patch (expected_revisions (sy_revisions s) ?patch) keepalive"
  obtain rep s1 where sent: "send ?req s = (rep, s1)" by (cases "send ?req s")
  have "answers_objects s1" using answers_later [OF Suc.prems(1) waits_send [of ?req s]] sent by simp
  then have later: "answers_objects s2" if "after_conflict e token username s1 = (o2, s2)" for e o2 s2
    using waits_conflict [of s1 e token username] that answers_later by fastforce
  show ?case
  proof (cases "?patch = []")
    case True
    then show ?thesis using Suc.prems(2) by (auto simp: Let_def with_fields_def split: json.splits)
  next
    case patch: False
    show ?thesis
    proof (cases rep)
      case (Answer x)
      then show ?thesis using Suc.prems(2) patch sent send_answer [OF Suc.prems(1)] by (auto simp: Let_def)
    next
      case (Failure e)
      obtain o2 s2 where c: "after_conflict e token username s1 = (o2, s2)" by (cases "after_conflict e token username s1")
      have "patch_attempts n snapshot token username keepalive dk s2 = (Inr r, s')"
        using Suc.prems(2) patch sent c Failure by (simp add: Let_def split: if_splits sum.splits)
      then show ?thesis by (rule Suc.IH [OF later [OF c]])
    qed
  qed
qed auto

lemma patch_answer:
  assumes "answers_objects s" "patchSnapshot snapshot token username keepalive dk s = (Inr r, s')"
  shows "\<forall>t. r \<noteq> JStr t"
proof -
  have "answers_objects (snd (loadRemoteForSync token username s))"
    by (rule answers_later [OF assms(1) waits_load])
  then show ?thesis using assms attempts_answer [of s] attempts_answer [of "snd (loadRemoteForSync token username s)"]
    by (auto simp: patchSnapshot_def simp del: patch_attempts.simps split: prod.splits sum.splits if_splits)
qed

lemma concludes_waits:
  assumes "waits reqs s s1" "concludes username token s1 (r, t)"
  shows "sy_sent t = sy_sent s @ reqs" "sy_view s1 = left_by_others s t"
  using assms waits_view [OF assms(1)] by (auto simp: concludes_def waits_def left_by_others_def)

lemma of_save_get: "of_save token snapshot dk (GetProfile token)"
  by (simp add: of_save_def)

text \<open>C35: a pull never spoils the local profile, seen as the plain map a tab reads. Whatever the others do while
  it waits and whatever objects the server answers: it sends at most two patches, only when there is a valid
  journal, with the values of the journal's keys as they were; if it ends superseded, unauthorized or offline, the
  local profile and the journal are as the others left them; and otherwise the user and token are still those it
  started with, the journal is gone, every text of the server's photo is in the local profile, and a registered key
  the photo has no text for is gone exactly when the cache could be cleared, that is when the tab is bound to the
  signed-in user (or to none, or none is signed in); a tab bound to another identity keeps the old text there.\<close>

theorem pull_never_spoils:
  assumes "answers_objects s0" "username = getUsername (sy_view s0)" "token = getToken (sy_view s0)"
    "dirty = dirty_view js (sy_view s0)" "snapshot = exportProfile build now (sy_view s0)"
    "(r, s') = pullProfileFromServer js build now s0"
  shows "\<exists>reqs. sy_sent s' = sy_sent s0 @ reqs \<and> length (filter is_patch reqs) \<le> 2 \<and>
    (\<forall>q \<in> set reqs. of_save token snapshot (d_keys dirty) q) \<and>
    (filter is_patch reqs \<noteq> [] \<longrightarrow> d_dirty dirty \<and> d_valid dirty) \<and>
    (if pr_status r \<in> failing then sy_view s' = left_by_others s0 s'
     else identityStillCurrent username token (left_by_others s0 s') \<and>
       (\<exists>d. sy_data s' = Some d \<and> holds_photo (left_by_others s0 s') d (sy_view s')))"
proof -
  let ?s = "cancelScheduledProfileSync s0"
  let ?goal = "\<lambda>reqs t. sy_sent t = sy_sent s0 @ reqs \<and> length (filter is_patch reqs) \<le> 2 \<and>
    (\<forall>q \<in> set reqs. of_save token snapshot (d_keys dirty) q) \<and>
    (filter is_patch reqs \<noteq> [] \<longrightarrow> d_dirty dirty \<and> d_valid dirty)"
  have s: "waits [] s0 ?s" by (auto simp: waits_def cancelScheduledProfileSync_def intro: exI [of _ 0])
  have objects: "answers_objects ?s" by (rule answers_later [OF assms(1) s])
  obtain o1 s1 where load: "loadRemoteForSync token username ?s = (o1, s1)"
    by (cases "loadRemoteForSync token username ?s")
  have w1: "waits [GetProfile token] s0 s1" using waits_trans [OF s, of "[GetProfile token]" s1] waits_load [of token ?s username] load by simp
  have end_here: ?thesis if "waits reqs s0 t" "concludes username token t (r, s')" "length (filter is_patch reqs) \<le> 2"
    "\<forall>q \<in> set reqs. of_save token snapshot (d_keys dirty) q"
    "filter is_patch reqs \<noteq> [] \<longrightarrow> d_dirty dirty \<and> d_valid dirty" for reqs t
    using that concludes_waits [OF that(1,2)] by (intro exI [of _ reqs]) (auto simp: concludes_def)
  have view: "getUsername (sy_view ?s) = username" "getToken (sy_view ?s) = token" "dirty_view js (sy_view ?s) = dirty"
    "exportProfile build now (sy_view ?s) = snapshot"
    using assms(2-5) by (simp_all add: cancelScheduledProfileSync_def)
  have get: "of_save token snapshot (d_keys dirty) (GetProfile token)" by (rule of_save_get)
  have superseded: "concludes username token t (answered ''superseded'' 0, t)" for t
    by (simp add: concludes_def answered_def failing_def)
  have statuses: "''repaired-dirty'' \<notin> failing" "''repaired-dirty-empty'' \<notin> failing" "''recovered-local'' \<notin> failing"
    "''loaded'' \<notin> failing" "''empty'' \<notin> failing"
    by (simp_all add: failing_def)
  have run: "pullProfileFromServer js build now s0 = (r, s')" using assms(6) by simp
  show ?thesis
  proof (cases "\<exists>remote. o1 = Inr remote \<and> identityStillCurrent username token (sy_view s1)")
    case False
    then have "concludes username token s1 (r, s')"
      using run load failed_concludes superseded
      by (auto simp: pullProfileFromServer_def Let_def view split: sum.splits) (metis)+
    then show ?thesis using end_here [OF w1] get by simp
  next
    case True
    then obtain remote where o1: "o1 = Inr remote" and same: "identityStillCurrent username token (sy_view s1)" by blast
    have photo: "\<forall>t. remote \<noteq> JStr t" "sy_data s1 = Some (cloneData (field ''data'' remote))"
      using load_answer [OF objects load [unfolded o1]] by auto
    show ?thesis
    proof (cases "d_dirty dirty \<and> d_valid dirty")
      case False
      then have "concludes username token s1 (r, s')"
        using run load o1 same clear_concludes [OF same _ _ photo(2,1)] statuses
        by (auto simp: pullProfileFromServer_def Let_def view split: if_splits) (metis)+
      then show ?thesis using end_here [OF w1] get by simp
    next
      case dirty: True
      obtain o2 s2 where patch: "patchSnapshot snapshot token username False (d_keys dirty) s1 = (o2, s2)"
        by (cases "patchSnapshot snapshot token username False (d_keys dirty) s1")
      obtain r2 where r2: "waits r2 s1 s2" "\<forall>q \<in> set r2. of_save token snapshot (d_keys dirty) q"
          "length (filter is_patch r2) \<le> 2"
        using waits_patch [of s1 snapshot token username False "d_keys dirty"] patch by auto
      have w2: "waits (GetProfile token # r2) s0 s2" using waits_trans [OF w1 r2(1)] by simp
      show ?thesis
      proof (cases "\<exists>saved. o2 = Inr saved \<and> identityStillCurrent username token (sy_view s2)")
        case False
        then have "concludes username token s2 (r, s')"
          using run load o1 same dirty patch failed_concludes superseded
          by (auto simp: pullProfileFromServer_def Let_def view split: sum.splits) (metis)+
        then show ?thesis using end_here [OF w2] get r2 dirty by simp
      next
        case True
        then obtain saved where o2: "o2 = Inr saved" and current: "identityStillCurrent username token (sy_view s2)" by blast
        let ?merged = "or_else_json saved remote"
        let ?t = "rememberRemote ?merged username s2"
        have "\<forall>t. ?merged \<noteq> JStr t"
          using photo(1) patch_answer [OF answers_later [OF assms(1) w1] patch [unfolded o2]] by (simp add: or_else_json_def)
        then have "concludes username token ?t (take_photo js ''recovered-local'' username token ?merged ?t)"
          using current statuses by (intro take_concludes) (simp_all add: rememberRemote_def)
        then have "concludes username token ?t (r, s')"
          using run load o1 same dirty patch o2 current by (simp add: pullProfileFromServer_def Let_def view)
        then show ?thesis using end_here [OF waits_remember [OF w2]] get r2 dirty by simp
      qed
    qed
  qed
qed

text \<open>A tab whose server answers with one setting.\<close>

definition sample_sync :: sync where
  "sample_sync =
     \<lparr>sy_view = \<lparr>v_store = [AUTH_USERNAME_KEY \<mapsto> ''bob'', ''chess-study-muted'' \<mapsto> ''0''], v_bound = None, v_events = 0\<rparr>,
      sy_user = None, sy_data = None, sy_revisions = [], sy_queue = [], sy_timer = True,
      sy_net = [(\<lambda>v. v, Answer (JObj [(''data'', JObj [(''chess-study-muted'', JStr ''1'')])])), (\<lambda>v. v, Answer (JObj []))],
      sy_sent = []\<rparr>"

theorem pull_never_spoils_witness:
  "\<exists>r s' d. pullProfileFromServer list_json ''b'' ''n'' sample_sync = (r, s') \<and> pr_status r = ''loaded'' \<and>
     sy_data s' = Some d \<and> holds_photo (left_by_others sample_sync s') d (sy_view s')"
proof -
  obtain r s' where run: "(r, s') = pullProfileFromServer list_json ''b'' ''n'' sample_sync"
    by (cases "pullProfileFromServer list_json ''b'' ''n'' sample_sync") simp
  have "pr_status (fst (pullProfileFromServer list_json ''b'' ''n'' sample_sync)) = ''loaded''" by code_simp
  then have loaded: "pr_status r = ''loaded''" unfolding run [symmetric] by simp
  moreover have "answers_objects sample_sync" by (simp add: answers_objects_def sample_sync_def)
  ultimately show ?thesis
    using pull_never_spoils [OF _ refl refl refl refl run] run [symmetric] by (auto simp: failing_def)
qed

lemma save_conserved:
  assumes "sy_queue s = j # rest" "run_save js s = (Some answer, s')"
  shows "\<exists>reqs. sy_sent s' = sy_sent s @ reqs \<and> sy_queue s' = rest \<and> length (filter is_patch reqs) \<le> 2 \<and>
    (\<forall>q \<in> set reqs. of_save (jb_token j) (jb_snapshot j) (jb_dirtyKeys j) q) \<and>
    (sy_view s' = left_by_others s s' \<or>
     (\<exists>r. answer = Inr r \<and> ended_well (jb_snapshot j) (jb_dirtyKeys j) reqs s s' r) \<and>
     getUsername (left_by_others s s') = jb_username j \<and>
     stringify js (JObj (export_data (left_by_others s s'))) = stringify js (field ''data'' (jb_snapshot j)) \<and>
     sy_view s' = clear_dirty_view (left_by_others s s'))"
proof -
  let ?s = "s\<lparr>sy_queue := rest\<rparr>"
  obtain o1 s1 where patch: "patchSnapshot (jb_snapshot j) (jb_token j) (jb_username j) (jb_keepalive j) (jb_dirtyKeys j) ?s = (o1, s1)"
    by (cases "patchSnapshot (jb_snapshot j) (jb_token j) (jb_username j) (jb_keepalive j) (jb_dirtyKeys j) ?s")
  obtain reqs where reqs: "waits reqs ?s s1" "\<forall>q \<in> set reqs. of_save (jb_token j) (jb_snapshot j) (jb_dirtyKeys j) q"
      "length (filter is_patch reqs) \<le> 2"
      "\<And>r. o1 = Inr r \<Longrightarrow> ended_well (jb_snapshot j) (jb_dirtyKeys j) reqs ?s s1 r"
    using waits_patch [of ?s "jb_snapshot j" "jb_token j" "jb_username j" "jb_keepalive j" "jb_dirtyKeys j"] patch by auto
  have sent: "sy_sent s1 = sy_sent s @ reqs" "sy_queue s1 = rest" using reqs(1) by (simp_all add: waits_def)
  have left: "sy_view s1 = left_by_others s t" if "sy_net t = sy_net s1" for t
    using waits_view [OF reqs(1)] that by (simp add: left_by_others_def)
  show ?thesis
  proof (cases o1)
    case (Inl e)
    then have "s' = s1" using assms patch by (simp add: run_save_def)
    then show ?thesis using sent reqs left by (intro exI [of _ reqs]) simp
  next
    case (Inr r)
    then have "answer = Inr r" "s' = s1 \<or> getUsername (sy_view s1) = jb_username j \<and>
        stringify js (JObj (export_data (sy_view s1))) = stringify js (field ''data'' (jb_snapshot j)) \<and>
        s' = s1\<lparr>sy_view := clear_dirty_view (sy_view s1)\<rparr>"
      using assms patch by (simp_all add: run_save_def split: if_splits)
    moreover from this(2) have "ended_well (jb_snapshot j) (jb_dirtyKeys j) reqs s s' r"
      using reqs(4) [OF Inr] by (auto simp: ended_well_def took_def server_photo_def)
    ultimately show ?thesis using sent reqs left [of s1] left [of s'] by (intro exI [of _ reqs]) auto
  qed
qed

text \<open>Two profiles export the same data only if they agree on every registered key.\<close>

lemma export_lookup:
  "map_of (List.map_filter (\<lambda>k. map_option (\<lambda>s. (k, JStr s)) (st k)) ks) k =
   (if k \<in> set ks then map_option JStr (st k) else None)"
proof (induction ks)
  case (Cons x ks)
  then show ?case by (cases "st x") auto
qed simp

lemma export_data_eq:
  assumes "export_data v = export_data w" "k \<in> set PROFILE_STORAGE_KEYS"
  shows "v_store v k = v_store w k"
proof -
  have look: "map_of (export_data u) k = map_option JStr (v_store u k)" for u
    using export_lookup [of "v_store u" PROFILE_STORAGE_KEYS k] assms(2) unfolding export_data_def by (rule trans [OF _ if_P])
  have "map_option JStr (v_store v k) = map_option JStr (v_store w k)"
    using look [of v] look [of w] unfolding assms(1) by (rule trans [OF sym])
  then show ?thesis by (cases "v_store v k"; cases "v_store w k") simp_all
qed

lemma patch_none: "patchForSnapshot snapshot d dk = [] \<Longrightarrow>
   patch_keys (spread_fields (or_else_json (field ''data'' snapshot) (JObj []))) d dk = []"
proof -
  have ne: "fold (\<lambda>k. obj_put k (f k)) ks acc \<noteq> []" if "acc \<noteq> []" for f :: "string \<Rightarrow> json" and ks acc
    using that
  proof (induction ks arbitrary: acc)
    case (Cons x ks)
    have "obj_put x (f x) acc \<noteq> []" by (cases acc) auto
    from Cons.IH [OF this] show ?case by simp
  qed simp
  have nil: "fold (\<lambda>k. obj_put k (f k)) ks [] = [] \<Longrightarrow> ks = []" for f :: "string \<Rightarrow> json" and ks
    using ne by (cases ks) fastforce+
  show "patchForSnapshot snapshot d dk = [] \<Longrightarrow> ?thesis" unfolding patchForSnapshot_def Let_def by (erule nil)
qed

text \<open>With nothing to send the photo of the server holds what the push read.\<close>

definition photo_of :: "view \<Rightarrow> (string \<times> json) list \<Rightarrow> bool" where
  "photo_of v d \<longleftrightarrow>
     (\<forall>k \<in> set PROFILE_STORAGE_KEYS. own_prop k d = (case v_store v k of None \<Rightarrow> JUndef | Some t \<Rightarrow> JStr t))"

lemma nothing_to_send:
  assumes "patchForSnapshot (exportProfile build now v) d dk = []"
  shows "photo_of v d"
proof -
  have keys: "patch_keys (export_data v) d dk = []"
    using patch_none [OF assms] by (simp add: exportProfile_def or_else_json_def truthy_def spread_fields_def)
  have "own_prop k d = own_prop k (export_data v)" for k
  proof (cases dk)
    case AllKeys
    then have "set (uniq (obj_keys d @ obj_keys (export_data v))) = {}" using keys by (simp add: patch_keys_def)
    then show ?thesis by simp
  next
    case (SomeKeys ks)
    then have none: "changedKeys d (export_data v) = []" using keys by (auto simp: patch_keys_def split: if_splits)
    show ?thesis
    proof (cases "k \<in> set (obj_keys d @ obj_keys (export_data v))")
      case True
      then have "strict_eq (own_prop k d) (own_prop k (export_data v))"
        using none by (auto simp: changedKeys_def filter_empty_conv)
      then show ?thesis by (simp add: strict_eq_def)
    next
      case False
      then have "map_of d k = None" "map_of (export_data v) k = None" by (auto simp: map_of_eq_None_iff)
      then show ?thesis by (simp add: own_prop_def)
    qed
  qed
  moreover have "own_prop k (export_data v) = (case v_store v k of None \<Rightarrow> JUndef | Some t \<Rightarrow> JStr t)"
    if "k \<in> set PROFILE_STORAGE_KEYS" for k
    using export_lookup [of "v_store v" PROFILE_STORAGE_KEYS k] that
    by (simp add: own_prop_def export_data_def split: option.splits)
  ultimately show ?thesis by (simp add: photo_of_def)
qed

lemma export_text_eq:
  assumes "\<forall>w. survives js (JObj (export_data w))"
    "stringify js (JObj (export_data v)) = stringify js (JObj (export_data w))" "k \<in> set PROFILE_STORAGE_KEYS"
  shows "v_store v k = v_store w k"
proof -
  have parsed: "parse js (stringify js (JObj (export_data u))) = Some (JObj (export_data u))" for u
    using assms(1) [rule_format, of u] unfolding survives_def by (rule conjunct2)
  have "Some (JObj (export_data v)) = Some (JObj (export_data w))"
    by (rule trans [OF sym [OF parsed [of v]]]) (unfold assms(2), rule parsed)
  then show ?thesis by (intro export_data_eq [OF _ assms(3)]) (simp only: option.inject json.inject)
qed

text \<open>C36: a save drops the journal only for what it saved. Take the job a push queues and, whenever its turn
  comes, the turn that runs it: the queue moves on by one whatever the network does; at most two patches are sent,
  with the token of the push and with values the local profile had then, for the keys the journal named; and
  afterwards the local profile is as the others left it, or the last request was a patch that the server answered
  (or none was needed: the server's photo already held what the push read), the user is the same, the registered
  keys still read what the push read, and only the journal is gone.\<close>

theorem save_drops_only_saved:
  assumes "\<forall>w. survives js (JObj (export_data w))"
    "sy_queue (pushProfileToServer js build now keepalive user token s0) = sy_queue s0 @ [j]"
    "sy_queue s = j # later" "run_save js s = (Some answer, s')"
  shows "\<exists>reqs. sy_sent s' = sy_sent s @ reqs \<and> sy_queue s' = later \<and> length (filter is_patch reqs) \<le> 2 \<and>
    (\<forall>q \<in> set reqs. of_save (getToken (sy_view s0)) (exportProfile build now (sy_view s0)) (jb_dirtyKeys j) q) \<and>
    (sy_view s' = left_by_others s s' \<or>
     ((\<exists>r. answer = Inr r \<and> took reqs s s' r) \<or> photo_of (sy_view s0) (server_photo s')) \<and>
     getUsername (left_by_others s s') = getUsername (sy_view s0) \<and>
     (\<forall>k \<in> set PROFILE_STORAGE_KEYS. v_store (left_by_others s s') k = v_store (sy_view s0) k) \<and>
     sy_view s' = clear_dirty_view (left_by_others s s'))"
proof -
  have j: "jb_token j = getToken (sy_view s0)" "jb_snapshot j = exportProfile build now (sy_view s0)"
    "jb_username j = getUsername (sy_view s0)"
    using assms(2) by (auto simp: pushProfileToServer_def cancelScheduledProfileSync_def Let_def split: if_splits)
  have data: "field ''data'' (exportProfile build now v) = JObj (export_data v)" for v
    by (simp add: exportProfile_def)
  have well: "took reqs s s' r \<or> photo_of (sy_view s0) (server_photo s')"
    if "ended_well (exportProfile build now (sy_view s0)) (jb_dirtyKeys j) reqs s s' r" for reqs r
    using that nothing_to_send unfolding ended_well_def by blast
  show ?thesis
    using save_conserved [OF assms(3,4)] export_text_eq [OF assms(1), of "left_by_others s s'" "sy_view s0"] well
    unfolding j data by metis
qed

theorem save_drops_only_saved_witness:
  "\<exists>j. sy_queue (pushProfileToServer coded_json ''b'' ''n'' False None None sample_sync) = [j] \<and>
     (\<exists>answer s' reqs. run_save coded_json (sample_sync\<lparr>sy_queue := [j]\<rparr>) = (Some answer, s') \<and>
       sy_sent s' = reqs \<and> sy_queue s' = [] \<and> length (filter is_patch reqs) \<le> 2)"
proof -
  let ?t = "pushProfileToServer coded_json ''b'' ''n'' False None None sample_sync"
  have "length (sy_queue ?t) = 1"
    by (simp add: pushProfileToServer_def cancelScheduledProfileSync_def sample_sync_def Let_def text_or_none_def)
  then obtain j where j: "sy_queue ?t = [j]" by (auto simp: length_Suc_conv)
  let ?s = "sample_sync\<lparr>sy_queue := [j]\<rparr>"
  have empty: "sy_queue sample_sync = []" "sy_sent sample_sync = []" by (simp_all add: sample_sync_def)
  obtain o1 s' where run: "run_save coded_json ?s = (o1, s')" by (cases "run_save coded_json ?s")
  then obtain answer where answer: "o1 = Some answer" by (auto simp: run_save_def split: prod.splits sum.splits)
  have "sy_queue ?t = sy_queue sample_sync @ [j]" "sy_queue ?s = j # []" using j empty by simp_all
  from save_drops_only_saved [OF _ this run [unfolded answer]] show ?thesis using j run answer empty by auto
qed

end
