(* ===== verification/PuzzleQuality.thy ===== *)
theory PuzzleQuality
  imports CombatEngine JsonValues
begin

text \<open>
  \<open>puzzleTacticalQuality.js\<close>: the small search that keeps unsound puzzles away.

  chess.js is the record \<open>board_api\<close>: a board is a value, so \<open>move\<close> followed by \<open>undo\<close> is the board before. A
  stored FEN or move of any shape goes to \<open>bd_load\<close> and \<open>bd_play\<close>, which answer \<open>None\<close> where chess.js throws.
  Scores are binary64 numbers; material is a sum of quarters, which is exact. An infinite bound or score is
  \<open>None\<close>.
\<close>

record 'c board_api = "'c chess_api" +
  bd_load :: "json \<Rightarrow> 'c option"
  bd_play :: "json \<Rightarrow> 'c \<Rightarrow> (applied \<times> 'c) option"
  bd_apply :: "applied \<Rightarrow> 'c \<Rightarrow> 'c"
  bd_isGameOver :: "'c \<Rightarrow> bool"
  bd_isDraw :: "'c \<Rightarrow> bool"
  bd_isStalemate :: "'c \<Rightarrow> bool"

text \<open>\<open>new Chess(board.fen())\<close>: the same position without its past.\<close>

definition reborn :: "'c board_api \<Rightarrow> 'c \<Rightarrow> 'c option" where
  "reborn api b = bd_load api (JStr (ch_fen api b))"

section \<open>Scores\<close>

definition PIECE_VALUE :: "ptype \<Rightarrow> rat" where
  "PIECE_VALUE t = (case t of Pawn \<Rightarrow> 1 | Knight \<Rightarrow> 3 | Bishop \<Rightarrow> 13 / 4 | Rook \<Rightarrow> 5 | Queen \<Rightarrow> 9 | King \<Rightarrow> 0)"

definition MATE_SCORE :: rat where "MATE_SCORE = 10000"
definition MATERIAL_KEY_TOLERANCE :: rat where "MATERIAL_KEY_TOLERANCE = 3 / 4"
definition DEFENSE_COOPERATION_TOLERANCE :: rat where "DEFENSE_COOPERATION_TOLERANCE = 3 / 4"
definition MIN_MATERIAL_GAIN :: rat where "MIN_MATERIAL_GAIN = 3 / 4"

definition materialBalance :: "'c board_api \<Rightarrow> 'c \<Rightarrow> color \<Rightarrow> rat" where
  "materialBalance api b perspective =
     sum_list (map (\<lambda>sq. case sq of None \<Rightarrow> 0
        | Some (t, c) \<Rightarrow> if c = perspective then PIECE_VALUE t else - PIECE_VALUE t) (concat (ch_board api b)))"

definition staticScore :: "'c board_api \<Rightarrow> 'c \<Rightarrow> color \<Rightarrow> rat" where
  "staticScore api b perspective =
     (if ch_isCheckmate api b then (if ch_turn api b = perspective then - MATE_SCORE else MATE_SCORE)
      else if bd_isDraw api b \<or> bd_isStalemate api b then 0
      else let score = materialBalance api b perspective
           in if ch_inCheck api b
              then fadd score (if ch_turn api b = perspective then - fl (8 / 100) else fl (8 / 100)) else score)"

section \<open>The search\<close>

type_synonym bound = "rat option"

definition better :: "bool \<Rightarrow> bound \<Rightarrow> rat \<Rightarrow> rat" where
  "better maximizing best score =
     (case best of None \<Rightarrow> score | Some r \<Rightarrow> if maximizing then max r score else min r score)"

definition crossed :: "bound \<Rightarrow> bound \<Rightarrow> bool" where
  "crossed alpha beta = (case (alpha, beta) of (Some a, Some b) \<Rightarrow> b \<le> a | _ \<Rightarrow> False)"

text \<open>The loop over the moves; \<open>f\<close> scores a move in a window.\<close>

fun search :: "bool \<Rightarrow> ('m \<Rightarrow> bound \<Rightarrow> bound \<Rightarrow> rat) \<Rightarrow> 'm list \<Rightarrow> bound \<Rightarrow> bound \<Rightarrow> bound \<Rightarrow> bound" where
  "search maximizing f [] best alpha beta = best"
| "search maximizing f (m # ms) best alpha beta =
     (let r = better maximizing best (f m alpha beta);
          alpha' = (if maximizing then Some (better True alpha r) else alpha);
          beta' = (if maximizing then beta else Some (better False beta r))
      in if crossed alpha' beta' then Some r else search maximizing f ms (Some r) alpha' beta')"

fun minimax :: "nat \<Rightarrow> 'c board_api \<Rightarrow> color \<Rightarrow> 'c \<Rightarrow> bound \<Rightarrow> bound \<Rightarrow> rat" where
  "minimax 0 api perspective b alpha beta = staticScore api b perspective"
| "minimax (Suc d) api perspective b alpha beta =
     (if bd_isGameOver api b then staticScore api b perspective
      else case search (ch_turn api b = perspective) (\<lambda>m. minimax d api perspective (bd_apply api m b))
                  (ch_moves api b) None alpha beta of
             None \<Rightarrow> staticScore api b perspective | Some best \<Rightarrow> best)"

definition scoreLegalMove :: "'c board_api \<Rightarrow> 'c \<Rightarrow> json \<Rightarrow> color \<Rightarrow> nat \<Rightarrow> (rat \<times> applied) option" where
  "scoreLegalMove api b san perspective replyDepth =
     Option.bind (reborn api b) (\<lambda>probe. map_option (\<lambda>(move, probe'). (minimax replyDepth api perspective probe' None None, move))
       (bd_play api san probe))"

definition bestScoreForSideToMove :: "'c board_api \<Rightarrow> 'c \<Rightarrow> color \<Rightarrow> nat \<Rightarrow> rat option" where
  "bestScoreForSideToMove api b perspective replyDepth =
     (let maximizing = ch_turn api b = perspective
      in fold (\<lambda>move best. Some (better maximizing best (minimax replyDepth api perspective (bd_apply api move b) None None)))
           (ch_moves api b) None)"

definition tacticalScoreForFirstMove :: "'c board_api \<Rightarrow> json \<Rightarrow> json \<Rightarrow> nat \<Rightarrow> (rat \<times> applied \<times> color) option" where
  "tacticalScoreForFirstMove api fen san replyDepth =
     Option.bind (bd_load api fen) (\<lambda>b. map_option (\<lambda>(score, move). (score, move, ch_turn api b))
       (scoreLegalMove api b san (ch_turn api b) replyDepth))"

definition bestShallowTacticalScore :: "'c board_api \<Rightarrow> json \<Rightarrow> nat \<Rightarrow> rat option" where
  "bestShallowTacticalScore api fen replyDepth =
     Option.bind (bd_load api fen) (\<lambda>b. bestScoreForSideToMove api b (ch_turn api b) replyDepth)"

section \<open>Refutations\<close>

record refutation =
  rf_san :: string
  rf_after :: rat
  rf_swing :: rat
  rf_tacticalScore :: rat
  rf_captured :: ptype

definition recapture :: "string \<Rightarrow> applied \<Rightarrow> bool" where
  "recapture destination reply \<longleftrightarrow> ap_to reply = destination \<and> ap_captured reply \<noteq> None"

definition immediateCaptureRefutations :: "'c board_api \<Rightarrow> json \<Rightarrow> json \<Rightarrow> nat \<Rightarrow> refutation list" where
  "immediateCaptureRefutations api fen san continuationDepth =
     (case Option.bind (bd_load api fen) (\<lambda>b. map_option (\<lambda>(played, b'). (b, played, b')) (bd_play api san b)) of
        None \<Rightarrow> []
      | Some (b, played, b') \<Rightarrow>
          let perspective = ch_turn api b; before = materialBalance api b perspective
          in map (\<lambda>reply. let b'' = bd_apply api reply b'; after = materialBalance api b'' perspective
                in \<lparr>rf_san = ap_san reply, rf_after = after, rf_swing = after - before,
                    rf_tacticalScore = minimax continuationDepth api perspective b'' None None,
                    rf_captured = the (ap_captured reply)\<rparr>)
             (filter (recapture (ap_to played)) (ch_moves api b')))"

definition refutes :: "rat \<Rightarrow> refutation \<Rightarrow> bool" where
  "refutes before item \<longleftrightarrow> rf_swing item < - 3 / 4 \<and> rf_tacticalScore item < fsub before (3 / 4)"

text \<open>The one move of a puzzle, and whether it has one.\<close>

definition single_move :: "json \<Rightarrow> json option" where
  "single_move puzzle =
     (if \<not> truthy (field ''fen'' puzzle) then None
      else case field ''solution'' puzzle of JArr [san] \<Rightarrow> Some san | _ \<Rightarrow> None)"

definition isObviouslyRefutedAutopsyMove :: "'c board_api \<Rightarrow> json \<Rightarrow> bool" where
  "isObviouslyRefutedAutopsyMove api puzzle =
     (case single_move puzzle of
        None \<Rightarrow> False
      | Some san \<Rightarrow>
          (case Option.bind (bd_load api (field ''fen'' puzzle))
                  (\<lambda>b. map_option (\<lambda>(played, b'). (b, b')) (bd_play api san b)) of
             None \<Rightarrow> True
           | Some (b, b') \<Rightarrow>
               \<not> ch_isCheckmate api b' \<and>
               list_ex (refutes (materialBalance api b (ch_turn api b)))
                 (immediateCaptureRefutations api (field ''fen'' puzzle) san 1)))"

definition isObviouslyUnsoundSingleMovePuzzle :: "'c board_api \<Rightarrow> json \<Rightarrow> bool" where
  "isObviouslyUnsoundSingleMovePuzzle api puzzle =
     (case single_move puzzle of
        None \<Rightarrow> False
      | Some san \<Rightarrow>
          if field ''source'' puzzle = JStr ''autopsy'' then isObviouslyRefutedAutopsyMove api puzzle
          else (case bd_load api (field ''fen'' puzzle) of
            None \<Rightarrow> True
          | Some b \<Rightarrow>
              let perspective = ch_turn api b; before = materialBalance api b perspective
              in case (scoreLegalMove api b san perspective 2, bd_play api san b) of
                   (Some (score, move), Some (played, b')) \<Rightarrow>
                     if ch_isCheckmate api b' then False
                     else (case bestScoreForSideToMove api b perspective 2 of
                              None \<Rightarrow> False | Some best \<Rightarrow> score < fsub best (5 / 4)) \<or>
                       list_ex (\<lambda>reply. let b'' = bd_apply api reply b' in
                           \<not> (ch_isCheckmate api b'' \<and> ch_turn api b'' \<noteq> perspective) \<and>
                           materialBalance api b'' perspective < fsub before (3 / 4) \<and>
                           minimax 2 api perspective b'' None None < fsub before (3 / 4))
                         (filter (recapture (ap_to move)) (ch_moves api b'))
                 | _ \<Rightarrow> True))"

section \<open>Forced mates\<close>

text \<open>\<open>some\<close> and \<open>every\<close> over a predicate that may fail; \<open>None\<close> is the failure, which ends the loop.\<close>

fun some_of :: "('a \<Rightarrow> bool option) \<Rightarrow> 'a list \<Rightarrow> bool option" where
  "some_of p [] = Some False"
| "some_of p (x # xs) = (case p x of None \<Rightarrow> None | Some True \<Rightarrow> Some True | Some False \<Rightarrow> some_of p xs)"

fun every_of :: "('a \<Rightarrow> bool option) \<Rightarrow> 'a list \<Rightarrow> bool option" where
  "every_of p [] = Some True"
| "every_of p (x # xs) = (case p x of None \<Rightarrow> None | Some False \<Rightarrow> Some False | Some True \<Rightarrow> every_of p xs)"

definition played_anew :: "'c board_api \<Rightarrow> 'c \<Rightarrow> applied \<Rightarrow> 'c option" where
  "played_anew api b m = Option.bind (reborn api b) (\<lambda>next. map_option snd (bd_play api (JStr (ap_san m)) next))"

text \<open>\<open>None\<close>: chess.js throws, or the fuel is spent.\<close>

fun canForceMateWithin :: "nat \<Rightarrow> 'c board_api \<Rightarrow> color \<Rightarrow> 'c \<Rightarrow> int \<Rightarrow> bool option" where
  "canForceMateWithin 0 api attacker b remainingHumanMoves = None"
| "canForceMateWithin (Suc fuel) api attacker b remainingHumanMoves =
     (if ch_isCheckmate api b then Some (ch_turn api b \<noteq> attacker)
      else if remainingHumanMoves \<le> 0 \<or> bd_isGameOver api b then Some False
      else if ch_turn api b = attacker
      then some_of (\<lambda>m. case played_anew api b m of None \<Rightarrow> None
             | Some b' \<Rightarrow> canForceMateWithin fuel api attacker b' (remainingHumanMoves - 1)) (ch_moves api b)
      else if ch_moves api b = [] then Some False
      else every_of (\<lambda>m. case played_anew api b m of None \<Rightarrow> None
             | Some b' \<Rightarrow> canForceMateWithin fuel api attacker b' remainingHumanMoves) (ch_moves api b))"

text \<open>The promised line, move by move: where it ends, or the move that is illegal.\<close>

fun play_line :: "'c board_api \<Rightarrow> json list \<Rightarrow> 'c \<Rightarrow> 'c option" where
  "play_line api [] b = Some b"
| "play_line api (san # line) b = (case bd_play api san b of None \<Rightarrow> None | Some (_, b') \<Rightarrow> play_line api line b')"

definition illegal_key :: "json \<Rightarrow> string list" where
  "illegal_key key = [''la clave '' @ json_string key @ '' no es legal'']"

definition human_moves :: "json list \<Rightarrow> int" where
  "human_moves solution = (int (length solution) + 1) div 2"

text \<open>Enough fuel for a search of that many moves.\<close>

definition mate_fuel :: "int \<Rightarrow> nat" where
  "mate_fuel n = 2 * nat n + 2"

definition forcedMateIssues :: "'c board_api \<Rightarrow> json \<Rightarrow> json list \<Rightarrow> string list option" where
  "forcedMateIssues api fen solution =
     (case bd_load api fen of
        None \<Rightarrow> Some [''FEN no evaluable'']
      | Some b \<Rightarrow>
          let attacker = ch_turn api b; humanMoves = human_moves solution; key = hd solution
          in case bd_play api key b of
               None \<Rightarrow> Some (illegal_key key)
             | Some (_, b') \<Rightarrow>
                 (case canForceMateWithin (mate_fuel (humanMoves - 1)) api attacker b' (humanMoves - 1) of
                    None \<Rightarrow> None
                  | Some forced \<Rightarrow> Some (
                      (if forced then [] else [''la clave no fuerza el mate contra la mejor defensa'']) @
                      (case play_line api solution b of
                         None \<Rightarrow> [(''la l'' @ [CHR 0xED] @ ''nea prometida no puede reproducirse completa'')]
                       | Some e \<Rightarrow> if \<not> ch_isCheckmate api e \<or> ch_turn api e = attacker
                                  then [(''la l'' @ [CHR 0xED] @ ''nea prometida no termina en mate al rival'')] else []))))"

section \<open>Material lines\<close>

definition ply_issues :: "'c board_api \<Rightarrow> color \<Rightarrow> rat \<Rightarrow> bool \<Rightarrow> 'c \<Rightarrow> json \<Rightarrow> rat \<Rightarrow> string list" where
  "ply_issues api perspective initialMaterial humanPly b san score =
     (case bestScoreForSideToMove api b perspective (if humanPly then 2 else 1) of
        None \<Rightarrow> []
      | Some best \<Rightarrow>
          (if humanPly \<and> score < fsub best MATERIAL_KEY_TOLERANCE
           then [''la jugada '' @ json_string san @ ('' queda claramente por debajo de una alternativa t'' @ [CHR 0xE1] @ ''ctica sencilla'')] else []) @
          (if \<not> humanPly \<and> score > fadd best DEFENSE_COOPERATION_TOLERANCE
           then [''la respuesta '' @ json_string san @ '' es demasiado cooperativa; existe una defensa claramente mejor''] else [])) @
     (if humanPly
      then let refutations = filter (refutes initialMaterial)
                 (immediateCaptureRefutations api (JStr (ch_fen api b)) san 2)
           in if refutations = [] then []
              else [''la pieza jugada en '' @ json_string san @ ('' queda capturable sin compensaci'' @ [CHR 0xF3] @ ''n: '') @
                    join_with '', '' (map rf_san refutations)]
      else [])"

text \<open>The loop: the issues, and the last board unless the loop returned. \<open>None\<close>: chess.js throws.\<close>

fun line_issues ::
  "'c board_api \<Rightarrow> color \<Rightarrow> rat \<Rightarrow> bool \<Rightarrow> 'c \<Rightarrow> json list \<Rightarrow> (string list \<times> 'c option) option" where
  "line_issues api perspective initialMaterial humanPly b [] = Some ([], Some b)"
| "line_issues api perspective initialMaterial humanPly b (san # line) =
     (case scoreLegalMove api b san perspective (if humanPly then 2 else 1) of
        None \<Rightarrow> Some ([(''la l'' @ [CHR 0xED] @ ''nea contiene una jugada no evaluable: '') @ json_string san], None)
      | Some (score, _) \<Rightarrow>
          (case bd_play api san b of
             None \<Rightarrow> None
           | Some (_, b') \<Rightarrow>
               let issues = ply_issues api perspective initialMaterial humanPly b san score
               in if ch_isCheckmate api b' \<and> ch_turn api b' = perspective
                  then Some (issues @ [(''la l'' @ [CHR 0xED] @ ''nea termina dando mate al jugador que deb'' @ [CHR 0xED] @ ''a resolver el puzzle'')], None)
                  else map_option (\<lambda>(more, e). (issues @ more, e))
                         (line_issues api perspective initialMaterial (\<not> humanPly) b' line)))"

definition materialLineIssues :: "'c board_api \<Rightarrow> json \<Rightarrow> json list \<Rightarrow> string list option" where
  "materialLineIssues api fen solution =
     (case bd_load api fen of
        None \<Rightarrow> Some [''FEN no evaluable'']
      | Some b \<Rightarrow>
          let perspective = ch_turn api b; initialMaterial = materialBalance api b perspective
          in map_option (\<lambda>(issues, e). case e of
                 None \<Rightarrow> issues
               | Some b' \<Rightarrow>
                   let finalMaterial = materialBalance api b' perspective
                   in if finalMaterial < initialMaterial + MIN_MATERIAL_GAIN
                      then issues @ [(''la l'' @ [CHR 0xED] @ ''nea promete ganar material pero s'' @ [CHR 0xF3] @ ''lo cambia el balance '') @
                             show_int (js_round ((finalMaterial - initialMaterial) * 100)) @ '' cp'']
                      else issues)
               (line_issues api perspective initialMaterial True b solution))"

definition curatedPuzzleTacticalIssues :: "'c board_api \<Rightarrow> json \<Rightarrow> string list option" where
  "curatedPuzzleTacticalIssues api puzzle =
     (let solution = elements (field ''solution'' puzzle); fen = field ''fen'' puzzle; kind = field ''kind'' puzzle
      in if \<not> truthy fen \<or> solution = [] then Some [''puzzle incompleto'']
         else Option.bind (if kind = JStr ''material'' then materialLineIssues api fen solution else Some [])
           (\<lambda>issues. map_option (\<lambda>more. uniq (issues @ more))
             (if kind \<in> {JStr ''mate1'', JStr ''mate2'', JStr ''mate3'', JStr ''combination''}
              then forcedMateIssues api fen solution else Some [])))"

end
