(* ===== verification/PuzzleQualityProps.thy ===== *)
theory PuzzleQualityProps
  imports PuzzleQuality
begin

text \<open>
  The pruned search finds the exact value of the game tree; a puzzle that passes as a mate is a forced mate; a
  puzzle that passes as a gain of material gains it along the best moves of the search.
\<close>

section \<open>The search is exact\<close>

text \<open>The value of a position: the whole tree to a depth, without bounds.\<close>

fun game_value :: "nat \<Rightarrow> 'c board_api \<Rightarrow> color \<Rightarrow> 'c \<Rightarrow> rat" where
  "game_value 0 api perspective b = staticScore api b perspective"
| "game_value (Suc d) api perspective b =
     (if bd_isGameOver api b \<or> ch_moves api b = [] then staticScore api b perspective
      else (if ch_turn api b = perspective then Max else Min)
        ((\<lambda>m. game_value d api perspective (bd_apply api m b)) ` set (ch_moves api b)))"

text \<open>\<open>r\<close> stands for \<open>v\<close> in the window: exact inside it, a bound of the right side outside.\<close>

definition above :: "bound \<Rightarrow> rat \<Rightarrow> bool" where
  "above alpha r = (case alpha of None \<Rightarrow> True | Some a \<Rightarrow> a < r)"

definition below :: "bound \<Rightarrow> rat \<Rightarrow> bool" where
  "below beta r = (case beta of None \<Rightarrow> True | Some b \<Rightarrow> r < b)"

definition stands_for :: "bound \<Rightarrow> bound \<Rightarrow> rat \<Rightarrow> rat \<Rightarrow> bool" where
  "stands_for alpha beta v r \<longleftrightarrow> (below beta r \<longrightarrow> v \<le> r) \<and> (above alpha r \<longrightarrow> r \<le> v)"

lemma stands_exact: "stands_for None None v r \<longleftrightarrow> r = v"
  by (auto simp: stands_for_def above_def below_def)

lemma stands_refl [simp]: "stands_for alpha beta v v"
  by (simp add: stands_for_def)

lemma better_Some [simp]:
  "better True (Some r) s = max r s" "better False (Some r) s = min r s" "better maximizing None s = s"
  by (simp_all add: better_def)

text \<open>One step of the maximizing loop from a window \<open>(a, b)\<close>, when it has reached \<open>r\<close> and the true best so far is
  \<open>V\<close>.\<close>

lemma max_step:
  assumes "stands_for a b V r" "stands_for (Some (better True a r)) b v s"
  shows "stands_for a b (max V v) (max r s)"
  using assms by (auto simp: stands_for_def above_def below_def max_def better_def split: option.splits if_splits)

lemma min_step:
  assumes "stands_for a b V r" "stands_for a (Some (better False b r)) v s"
  shows "stands_for a b (min V v) (min r s)"
  using assms by (auto simp: stands_for_def above_def below_def min_def better_def split: option.splits if_splits)

lemma max_cut:
  assumes "stands_for a b V r" "crossed (Some (better True a r)) b" "\<not> crossed a b" "V \<le> W"
  shows "stands_for a b W r"
  using assms by (auto simp: stands_for_def above_def below_def crossed_def max_def better_def split: option.splits if_splits)

lemma min_cut:
  assumes "stands_for a b V r" "crossed a (Some (better False b r))" "\<not> crossed a b" "W \<le> V"
  shows "stands_for a b W r"
  using assms by (auto simp: stands_for_def above_def below_def crossed_def min_def better_def split: option.splits if_splits)

lemma le_fold_max: "(V::rat) \<le> fold max xs V"
proof (induction xs arbitrary: V)
  case (Cons x xs)
  then show ?case using order_trans [OF max.cobounded2 Cons [of "max x V"]] by simp
qed simp

lemma fold_min_le: "fold min xs V \<le> (V::rat)"
proof (induction xs arbitrary: V)
  case (Cons x xs)
  then show ?case using order_trans [OF Cons [of "min x V"] min.cobounded2] by simp
qed simp

text \<open>The loop from an open window, with \<open>V\<close> the true best so far and \<open>r\<close> what stands for it.\<close>

lemma search_max:
  assumes f: "\<And>m a. m \<in> set ms \<Longrightarrow> \<not> crossed a b \<Longrightarrow> stands_for a b (value m) (f m a b)"
    and "stands_for a0 b V r" "\<not> crossed a0 b" "\<not> crossed (Some (better True a0 r)) b"
  shows "\<exists>s. search True f ms (Some r) (Some (better True a0 r)) b = Some s \<and>
           stands_for a0 b (fold max (map value ms) V) s"
  using assms
proof (induction ms arbitrary: V r)
  case (Cons m ms)
  let ?a = "Some (better True a0 r)"
  let ?s = "f m ?a b"
  have s: "stands_for a0 b (max V (value m)) (max r ?s)"
    using max_step [OF Cons.prems(2) Cons.prems(1) [of m ?a]] Cons.prems(4) by simp
  have a: "better True ?a (max r ?s) = better True a0 (max r ?s)" by (auto simp: better_def max_def split: option.split)
  show ?case
  proof (cases "crossed (Some (better True a0 (max r ?s))) b")
    case True
    then show ?thesis using max_cut [OF s True Cons.prems(3) le_fold_max] a by (simp add: Let_def max.commute)
  next
    case False
    then show ?thesis using Cons.IH [OF Cons.prems(1) s Cons.prems(3) False] a by (simp add: Let_def max.commute)
  qed
qed simp

lemma search_max_all:
  assumes f: "\<And>m a b. m \<in> set ms \<Longrightarrow> \<not> crossed a b \<Longrightarrow> stands_for a b (value m) (f m a b)"
    and "ms \<noteq> []" "\<not> crossed a b"
  shows "\<exists>s. search True f ms None a b = Some s \<and> stands_for a b (Max (value ` set ms)) s"
proof -
  obtain m rest where ms: "ms = m # rest" using assms(2) by (cases ms) auto
  have r: "stands_for a b (value m) (f m a b)" using f [of m a b] assms(3) ms by simp
  have all: "Max (value ` set ms) = fold max (map value rest) (value m)"
    using Max.set_eq_fold [of "value m" "map value rest"] ms by simp
  have grows: "value m \<le> Max (value ` set ms)" using ms by simp
  show ?thesis
  proof (cases "crossed (Some (better True a (f m a b))) b")
    case True
    then show ?thesis using max_cut [OF r True assms(3) grows] ms by (simp add: Let_def)
  next
    case False
    then show ?thesis using search_max [of rest b "value" f, OF f r assms(3) False] ms all by (simp add: Let_def)
  qed
qed

lemma search_min:
  assumes f: "\<And>m b. m \<in> set ms \<Longrightarrow> \<not> crossed a b \<Longrightarrow> stands_for a b (value m) (f m a b)"
    and "stands_for a b0 V r" "\<not> crossed a b0" "\<not> crossed a (Some (better False b0 r))"
  shows "\<exists>s. search False f ms (Some r) a (Some (better False b0 r)) = Some s \<and>
           stands_for a b0 (fold min (map value ms) V) s"
  using assms
proof (induction ms arbitrary: V r)
  case (Cons m ms)
  let ?b = "Some (better False b0 r)"
  let ?s = "f m a ?b"
  have s: "stands_for a b0 (min V (value m)) (min r ?s)"
    using min_step [OF Cons.prems(2) Cons.prems(1) [of m ?b]] Cons.prems(4) by simp
  have b: "better False ?b (min r ?s) = better False b0 (min r ?s)" by (auto simp: better_def min_def split: option.split)
  show ?case
  proof (cases "crossed a (Some (better False b0 (min r ?s)))")
    case True
    then show ?thesis using min_cut [OF s True Cons.prems(3) fold_min_le] b by (simp add: Let_def min.commute)
  next
    case False
    then show ?thesis using Cons.IH [OF Cons.prems(1) s Cons.prems(3) False] b by (simp add: Let_def min.commute)
  qed
qed simp

lemma search_min_all:
  assumes f: "\<And>m a b. m \<in> set ms \<Longrightarrow> \<not> crossed a b \<Longrightarrow> stands_for a b (value m) (f m a b)"
    and "ms \<noteq> []" "\<not> crossed a b"
  shows "\<exists>s. search False f ms None a b = Some s \<and> stands_for a b (Min (value ` set ms)) s"
proof -
  obtain m rest where ms: "ms = m # rest" using assms(2) by (cases ms) auto
  have r: "stands_for a b (value m) (f m a b)" using f [of m a b] assms(3) ms by simp
  have all: "Min (value ` set ms) = fold min (map value rest) (value m)"
    using Min.set_eq_fold [of "value m" "map value rest"] ms by simp
  have shrinks: "Min (value ` set ms) \<le> value m" using ms by simp
  show ?thesis
  proof (cases "crossed a (Some (better False b (f m a b)))")
    case True
    then show ?thesis using min_cut [OF r True assms(3) shrinks] ms by (simp add: Let_def)
  next
    case False
    then show ?thesis using search_min [of rest a "value" f, OF f r assms(3) False] ms all by (simp add: Let_def)
  qed
qed

lemma minimax_stands:
  "\<not> crossed alpha beta \<Longrightarrow> stands_for alpha beta (game_value d api perspective b) (minimax d api perspective b alpha beta)"
proof (induction d arbitrary: b alpha beta)
  case (Suc d)
  let ?ms = "ch_moves api b"
  let ?f = "\<lambda>m. minimax d api perspective (bd_apply api m b)"
  show ?case
  proof (cases "bd_isGameOver api b \<or> ?ms = []")
    case False
    have f: "stands_for a c (game_value d api perspective (bd_apply api m b)) (?f m a c)" if "\<not> crossed a c" for m a c
      using Suc.IH [OF that] .
    show ?thesis
      using False search_max_all [of ?ms _ ?f, OF f _ Suc.prems] search_min_all [of ?ms _ ?f, OF f _ Suc.prems]
      by (cases "ch_turn api b = perspective") auto
  qed auto
qed simp

lemma minimax_exact: "minimax d api perspective b None None = game_value d api perspective b"
  using minimax_stands [of None None] by (simp add: stands_exact crossed_def)

text \<open>C12: pruning loses nothing. For every chess library, position, depth and point of view, the search with its
  window of alpha and beta answers exactly the value of the whole game tree to that depth.\<close>

theorem pruned_search_exact:
  "minimax d api perspective b None None = game_value d api perspective b"
  by (rule minimax_exact)

section \<open>Forced mates\<close>

text \<open>chess.js plays a legal move of a position on a copy of it, and the turn passes.\<close>

definition plays_fair :: "'c board_api \<Rightarrow> bool" where
  "plays_fair api \<longleftrightarrow>
     (\<forall>b. \<forall>m \<in> set (ch_moves api b). \<exists>b'. played_anew api b m = Some b' \<and> ch_turn api b' \<noteq> ch_turn api b)"

text \<open>The attacker mates within \<open>n\<close> moves whatever the defender answers.\<close>

inductive forced_mate :: "'c board_api \<Rightarrow> color \<Rightarrow> nat \<Rightarrow> 'c \<Rightarrow> bool" for api attacker where
  mated: "ch_isCheckmate api b \<Longrightarrow> ch_turn api b \<noteq> attacker \<Longrightarrow> forced_mate api attacker n b"
| attack: "\<not> ch_isCheckmate api b \<Longrightarrow> \<not> bd_isGameOver api b \<Longrightarrow> ch_turn api b = attacker \<Longrightarrow>
    m \<in> set (ch_moves api b) \<Longrightarrow> played_anew api b m = Some b' \<Longrightarrow> forced_mate api attacker n b' \<Longrightarrow>
    forced_mate api attacker (Suc n) b"
| defend: "\<not> ch_isCheckmate api b \<Longrightarrow> \<not> bd_isGameOver api b \<Longrightarrow> ch_turn api b \<noteq> attacker \<Longrightarrow> ch_moves api b \<noteq> [] \<Longrightarrow>
    (\<And>m. m \<in> set (ch_moves api b) \<Longrightarrow> \<exists>b'. played_anew api b m = Some b' \<and> forced_mate api attacker (Suc n) b') \<Longrightarrow>
    forced_mate api attacker (Suc n) b"

text \<open>One step of the game.\<close>

lemma forced_mate_step:
  assumes "\<not> ch_isCheckmate api b" "\<not> bd_isGameOver api b"
  shows "ch_turn api b = attacker \<Longrightarrow> forced_mate api attacker (Suc n) b \<longleftrightarrow>
      (\<exists>m \<in> set (ch_moves api b). \<exists>b'. played_anew api b m = Some b' \<and> forced_mate api attacker n b')"
    "ch_turn api b \<noteq> attacker \<Longrightarrow> forced_mate api attacker (Suc n) b \<longleftrightarrow> ch_moves api b \<noteq> [] \<and>
      (\<forall>m \<in> set (ch_moves api b). \<exists>b'. played_anew api b m = Some b' \<and> forced_mate api attacker (Suc n) b')"
  using assms by (auto simp: forced_mate.simps [of api attacker "Suc n" b])

lemma forced_mate_over:
  assumes "ch_isCheckmate api b \<or> n = 0 \<or> bd_isGameOver api b"
  shows "forced_mate api attacker n b \<longleftrightarrow> ch_isCheckmate api b \<and> ch_turn api b \<noteq> attacker"
  using assms by (auto simp: forced_mate.simps [of api attacker n b])

lemma some_of_total: "(\<And>x. x \<in> set xs \<Longrightarrow> p x = Some (q x)) \<Longrightarrow> some_of p xs = Some (\<exists>x \<in> set xs. q x)"
  by (induction xs) (auto split: bool.split)

lemma every_of_total: "(\<And>x. x \<in> set xs \<Longrightarrow> p x = Some (q x)) \<Longrightarrow> every_of p xs = Some (\<forall>x \<in> set xs. q x)"
  by (induction xs) (auto split: bool.split)

lemma other_color: "b \<noteq> (c::color) \<Longrightarrow> d \<noteq> b \<Longrightarrow> d = c"
  by (cases b; cases c; cases d) auto

lemma played_fair:
  assumes "plays_fair api" "m \<in> set (ch_moves api b)"
  obtains b' where "played_anew api b m = Some b'" "ch_turn api b' \<noteq> ch_turn api b"
  using assms by (auto simp: plays_fair_def)

text \<open>With fuel for its moves the search ends, and it decides \<open>forced_mate\<close>.\<close>

lemma mate_search_decides:
  assumes "plays_fair api"
  shows "2 * n + (if ch_turn api b = attacker then 0 else 1) < fuel \<Longrightarrow>
    canForceMateWithin fuel api attacker b (int n) = Some (forced_mate api attacker n b)"
proof (induction fuel arbitrary: n b)
  case (Suc fuel)
  show ?case
  proof (cases "ch_isCheckmate api b \<or> n = 0 \<or> bd_isGameOver api b")
    case True
    then show ?thesis by (auto simp: forced_mate_over [OF True])
  next
    case False
    then obtain k where n: "n = Suc k" and b: "\<not> ch_isCheckmate api b" "\<not> bd_isGameOver api b" by (cases n) auto
    show ?thesis
    proof (cases "ch_turn api b = attacker")
      case True
      let ?p = "\<lambda>m. case played_anew api b m of None \<Rightarrow> None | Some b' \<Rightarrow> canForceMateWithin fuel api attacker b' (int k)"
      have step: "?p m = Some (\<exists>b'. played_anew api b m = Some b' \<and> forced_mate api attacker k b')"
        if m: "m \<in> set (ch_moves api b)" for m
      proof -
        obtain b' where b': "played_anew api b m = Some b'" "ch_turn api b' \<noteq> attacker"
          using played_fair [OF assms m] True by metis
        have "canForceMateWithin fuel api attacker b' (int k) = Some (forced_mate api attacker k b')"
          using Suc.prems n True b'(2) by (intro Suc.IH) simp
        then show ?thesis using b' by simp
      qed
      have "some_of ?p (ch_moves api b) = Some (forced_mate api attacker n b)"
        using some_of_total [of "ch_moves api b" ?p, OF step] forced_mate_step(1) [OF b True] n by simp
      moreover have "int n - 1 = int k" "\<not> int n \<le> 0" using n by simp_all
      ultimately show ?thesis using b True by (simp only: canForceMateWithin.simps if_False if_True simp_thms)
    next
      case False
      let ?p = "\<lambda>m. case played_anew api b m of None \<Rightarrow> None | Some b' \<Rightarrow> canForceMateWithin fuel api attacker b' (int n)"
      have step: "?p m = Some (\<exists>b'. played_anew api b m = Some b' \<and> forced_mate api attacker n b')"
        if m: "m \<in> set (ch_moves api b)" for m
      proof -
        obtain b' where b': "played_anew api b m = Some b'" "ch_turn api b' = attacker"
          using played_fair [OF assms m] False other_color [of attacker] by metis
        have "canForceMateWithin fuel api attacker b' (int n) = Some (forced_mate api attacker n b')"
          using Suc.prems False b'(2) by (intro Suc.IH) simp
        then show ?thesis using b' by simp
      qed
      have step2: "forced_mate api attacker n b \<longleftrightarrow> ch_moves api b \<noteq> [] \<and>
          (\<forall>m \<in> set (ch_moves api b). \<exists>b'. played_anew api b m = Some b' \<and> forced_mate api attacker n b')"
        unfolding n by (rule forced_mate_step(2) [OF b False])
      have every: "every_of ?p (ch_moves api b) =
          Some (\<forall>m \<in> set (ch_moves api b). \<exists>b'. played_anew api b m = Some b' \<and> forced_mate api attacker n b')"
        by (rule every_of_total) (rule step)
      have "\<not> int n \<le> 0" using n by simp
      then show ?thesis using b False
        by (cases "ch_moves api b = []") (simp_all only: canForceMateWithin.simps every step2 if_False if_True simp_thms)
    qed
  qed
qed simp

text \<open>C13: a puzzle passes as a mate exactly when it is one. With a chess library that plays legal moves, the check of a
  mate puzzle always ends; it finds no issue exactly when its first move can be played and leaves a position where
  the side to solve mates in the moves that are left whatever the defence, and the stored line can be played and ends in
  mate.\<close>

theorem mate_check_exact:
  assumes "plays_fair api" "bd_load api fen = Some b"
  shows "(\<exists>issues. forcedMateIssues api fen (key # line) = Some issues) \<and>
    (forcedMateIssues api fen (key # line) = Some [] \<longleftrightarrow>
     (\<exists>m b' e. bd_play api key b = Some (m, b') \<and>
        forced_mate api (ch_turn api b) (length line div 2) b' \<and>
        play_line api (key # line) b = Some e \<and> ch_isCheckmate api e \<and> ch_turn api e \<noteq> ch_turn api b))"
proof (cases "bd_play api key b")
  case None
  then show ?thesis using assms(2) by (simp add: forcedMateIssues_def illegal_key_def)
next
  case (Some p)
  obtain m b' where p: "p = (m, b')" by (cases p)
  let ?n = "length line div 2"
  have moves: "human_moves (key # line) - 1 = int ?n" by (simp add: human_moves_def)
  have "canForceMateWithin (mate_fuel (int ?n)) api (ch_turn api b) b' (int ?n) =
      Some (forced_mate api (ch_turn api b) ?n b')"
    by (rule mate_search_decides [OF assms(1)]) (simp add: mate_fuel_def)
  then show ?thesis using Some p assms(2) moves
    by (auto simp: forcedMateIssues_def Let_def simp del: play_line.simps canForceMateWithin.simps split: option.split)
qed

text \<open>A chess library with one game: four positions, and White mates with its second move.\<close>

definition duel_move :: "nat \<Rightarrow> applied" where
  "duel_move n = \<lparr>ap_from = ''a1'', ap_to = ''a2'', ap_flags = ''n'', ap_color = (if even n then White else Black), ap_piece = Queen,
     ap_captured = None, ap_promotion = None, ap_san = ''Q'' @ show_nat n\<rparr>"

definition duel_api :: "nat board_api" where
  "duel_api =
     \<lparr>ch_new = (\<lambda>_. None), ch_fen = show_nat, ch_turn = (\<lambda>n. if even n then White else Black),
      ch_inCheck = (\<lambda>n. n = 3), ch_isCheckmate = (\<lambda>n. n = 3), ch_move = (\<lambda>_ _ _ _. None),
      ch_moves = (\<lambda>n. if n < 3 then [duel_move n] else []), ch_moves_from = (\<lambda>_ _. []), ch_board = (\<lambda>_. []),
      ch_get = (\<lambda>_ _. None), ch_put = (\<lambda>_ _ _ _. None), ch_remove = (\<lambda>_ n. n),
      bd_load = (\<lambda>v. List.find (\<lambda>n. v = JStr (show_nat n)) [0, 1, 2, 3]),
      bd_play = (\<lambda>v n. if n < 3 \<and> v = JStr (ap_san (duel_move n)) then Some (duel_move n, Suc n) else None),
      bd_apply = (\<lambda>_ n. Suc n), bd_isGameOver = (\<lambda>n. n = 3), bd_isDraw = (\<lambda>_. False), bd_isStalemate = (\<lambda>_. False)\<rparr>"

lemma duel_names: "show_nat 0 = ''0''" "show_nat (Suc 0) = ''1''" "show_nat 2 = ''2''" "show_nat 3 = ''3''"
  by code_simp+

lemma duel_fair: "plays_fair duel_api"
proof -
  have "\<exists>b'. played_anew duel_api b m = Some b' \<and> ch_turn duel_api b' \<noteq> ch_turn duel_api b"
    if "m \<in> set (ch_moves duel_api b)" for b m
  proof -
    have b: "b \<in> {0, 1, 2}" "m = duel_move b" using that by (auto simp: duel_api_def split: if_splits)
    then have "bd_load duel_api (JStr (ch_fen duel_api b)) = Some b"
      by (elim insertE) (simp_all add: duel_api_def duel_names)
    then have "played_anew duel_api b m = Some (Suc b)" using b by (auto simp: played_anew_def reborn_def duel_api_def)
    then show ?thesis by (simp add: duel_api_def)
  qed
  then show ?thesis by (simp add: plays_fair_def)
qed

theorem mate_check_exact_witness:
  "forcedMateIssues duel_api (JStr ''0'') [JStr ''Q0'', JStr ''Q1'', JStr ''Q2''] = Some [] \<and> forced_mate duel_api White 1 1"
proof -
  have load: "bd_load duel_api (JStr ''0'') = Some 0" by (simp add: duel_api_def duel_names)
  have ok: "forcedMateIssues duel_api (JStr ''0'') [JStr ''Q0'', JStr ''Q1'', JStr ''Q2''] = Some []" by code_simp
  from mate_check_exact [OF duel_fair load, of "JStr ''Q0''" "[JStr ''Q1'', JStr ''Q2'']"] ok
  obtain m b' where "bd_play duel_api (JStr ''Q0'') 0 = Some (m, b')" "forced_mate duel_api (ch_turn duel_api 0) 1 b'"
    by auto
  moreover have "b' = 1" using calculation(1) by (auto simp: duel_api_def split: if_splits)
  moreover have "ch_turn duel_api 0 = White" by (simp add: duel_api_def)
  ultimately show ?thesis using ok by simp
qed

section \<open>Lines that gain material\<close>

definition best_value :: "nat \<Rightarrow> 'c board_api \<Rightarrow> color \<Rightarrow> 'c \<Rightarrow> rat" where
  "best_value d api perspective b =
     (if ch_turn api b = perspective then Max else Min)
       ((\<lambda>m. game_value d api perspective (bd_apply api m b)) ` set (ch_moves api b))"

lemma fold_better:
  "fold (\<lambda>m best. Some (better True best (f m))) ms (Some v) = Some (fold max (map f ms) v)"
  "fold (\<lambda>m best. Some (better False best (f m))) ms (Some v) = Some (fold min (map f ms) v)"
  by (induction ms arbitrary: v) (simp_all add: max.commute min.commute)

lemma best_score_value:
  "bestScoreForSideToMove api b perspective d =
     (if ch_moves api b = [] then None else Some (best_value d api perspective b))"
proof (cases "ch_moves api b")
  case (Cons m ms)
  let ?f = "\<lambda>m. game_value d api perspective (bd_apply api m b)"
  show ?thesis
    using Max.set_eq_fold [of "?f m" "map ?f ms"] Min.set_eq_fold [of "?f m" "map ?f ms"] Cons
    by (cases "ch_turn api b = perspective")
      (simp_all add: bestScoreForSideToMove_def best_value_def minimax_exact fold_better Let_def)
qed (simp add: bestScoreForSideToMove_def)

text \<open>A line played to \<open>e\<close> with almost the best move of the tree at each turn, two plies deep for the side to solve and one
  for the defence, no recapture that refutes a move, and never mating the one who solves.\<close>

fun gaining_line :: "'c board_api \<Rightarrow> color \<Rightarrow> rat \<Rightarrow> bool \<Rightarrow> 'c \<Rightarrow> json list \<Rightarrow> 'c \<Rightarrow> bool" where
  "gaining_line api perspective initial human b [] e \<longleftrightarrow> e = b"
| "gaining_line api perspective initial human b (san # line) e \<longleftrightarrow>
     (\<exists>copy m copy' m' b'. reborn api b = Some copy \<and> bd_play api san copy = Some (m, copy') \<and> bd_play api san b = Some (m', b') \<and>
        (ch_moves api b \<noteq> [] \<longrightarrow>
           (if human then fsub (best_value 2 api perspective b) (3 / 4) \<le> game_value 2 api perspective copy'
            else game_value 1 api perspective copy' \<le> fadd (best_value 1 api perspective b) (3 / 4))) \<and>
        (human \<longrightarrow> (\<forall>item \<in> set (immediateCaptureRefutations api (JStr (ch_fen api b)) san 2). \<not> refutes initial item)) \<and>
        \<not> (ch_isCheckmate api b' \<and> ch_turn api b' = perspective) \<and>
        gaining_line api perspective initial (\<not> human) b' line e)"

lemma ply_issues_none:
  "ply_issues api perspective initial human b san score = [] \<longleftrightarrow>
     (ch_moves api b \<noteq> [] \<longrightarrow>
        (if human then fsub (best_value 2 api perspective b) (3 / 4) \<le> score
         else score \<le> fadd (best_value 1 api perspective b) (3 / 4))) \<and>
     (human \<longrightarrow> (\<forall>item \<in> set (immediateCaptureRefutations api (JStr (ch_fen api b)) san 2). \<not> refutes initial item))"
  by (cases "ch_moves api b = []"; cases human)
    (simp_all add: ply_issues_def best_score_value Let_def MATERIAL_KEY_TOLERANCE_def DEFENSE_COOPERATION_TOLERANCE_def
      filter_empty_conv not_less)

lemma score_legal_value:
  "scoreLegalMove api b san perspective d = Some (score, m) \<longleftrightarrow>
     (\<exists>copy copy'. reborn api b = Some copy \<and> bd_play api san copy = Some (m, copy') \<and> score = game_value d api perspective copy')"
  by (auto simp: scoreLegalMove_def minimax_exact bind_eq_Some_conv)

lemma line_issues_none:
  "line_issues api perspective initial human b line = Some ([], Some e) \<longleftrightarrow> gaining_line api perspective initial human b line e"
proof (induction line arbitrary: human b)
  case (Cons san line)
  let ?d = "if human then 2 else 1"
  show ?case
  proof (cases "\<exists>score m m' b'. scoreLegalMove api b san perspective ?d = Some (score, m) \<and> bd_play api san b = Some (m', b')")
    case True
    then obtain score m m' b' where ok: "scoreLegalMove api b san perspective ?d = Some (score, m)" "bd_play api san b = Some (m', b')"
      by blast
    then obtain copy copy' where copy: "reborn api b = Some copy" "bd_play api san copy = Some (m, copy')"
        "score = game_value ?d api perspective copy'"
      using score_legal_value [of api b san perspective ?d score m] by blast
    have "line_issues api perspective initial human b (san # line) = Some ([], Some e) \<longleftrightarrow>
        ply_issues api perspective initial human b san score = [] \<and> \<not> (ch_isCheckmate api b' \<and> ch_turn api b' = perspective) \<and>
        line_issues api perspective initial (\<not> human) b' line = Some ([], Some e)"
      by (auto simp: ok Let_def)
    moreover have "gaining_line api perspective initial human b (san # line) e \<longleftrightarrow>
        (ch_moves api b \<noteq> [] \<longrightarrow>
           (if human then fsub (best_value 2 api perspective b) (3 / 4) \<le> score
            else score \<le> fadd (best_value 1 api perspective b) (3 / 4))) \<and>
        (human \<longrightarrow> (\<forall>item \<in> set (immediateCaptureRefutations api (JStr (ch_fen api b)) san 2). \<not> refutes initial item)) \<and>
        \<not> (ch_isCheckmate api b' \<and> ch_turn api b' = perspective) \<and>
        gaining_line api perspective initial (\<not> human) b' line e"
      using copy ok(2) by (cases human) simp_all
    ultimately show ?thesis unfolding Cons.IH ply_issues_none by blast
  next
    case False
    then have "line_issues api perspective initial human b (san # line) \<noteq> Some ([], Some e)"
      by (auto simp only: line_issues.simps split: option.split prod.split)
    moreover have "\<not> gaining_line api perspective initial human b (san # line) e"
    proof
      assume "gaining_line api perspective initial human b (san # line) e"
      then obtain copy m copy' m' b' where "reborn api b = Some copy" "bd_play api san copy = Some (m, copy')"
          "bd_play api san b = Some (m', b')"
        unfolding gaining_line.simps by blast
      then show False using False score_legal_value [of api b san perspective ?d _ m] by blast
    qed
    ultimately show ?thesis by simp
  qed
qed auto

lemma line_issues_stopped: "line_issues api perspective initial human b line = Some (issues, None) \<Longrightarrow> issues \<noteq> []"
  by (induction line arbitrary: human b issues)
    (auto simp: Let_def split: option.splits prod.splits if_splits)

lemma line_issues_ends:
  "(\<exists>issues e. line_issues api perspective initial human b line = Some (issues, e) \<and>
      (case e of None \<Rightarrow> issues | Some b' \<Rightarrow> if P b' then issues @ [x b'] else issues) = []) \<longleftrightarrow>
   (\<exists>e. line_issues api perspective initial human b line = Some ([], Some e) \<and> \<not> P e)"
  using line_issues_stopped [of api perspective initial human b line]
  by (cases "line_issues api perspective initial human b line") (auto split: option.splits if_splits)

text \<open>A puzzle passes as a gain of material exactly when its line gains at least three quarters of a pawn and every
  move of it stands up: each move of the side to solve is within three quarters of the best move of the whole tree two
  plies deep and no recapture refutes it, each answer is within three quarters of the best defence, and nobody is mated
  by mistake.\<close>

theorem gain_check_exact:
  "materialLineIssues api fen solution = Some [] \<longleftrightarrow>
     (\<exists>b e. bd_load api fen = Some b \<and>
        gaining_line api (ch_turn api b) (materialBalance api b (ch_turn api b)) True b solution e \<and>
        materialBalance api b (ch_turn api b) + 3 / 4 \<le> materialBalance api e (ch_turn api b))"
proof (cases "bd_load api fen")
  case (Some b)
  then show ?thesis
    by (simp add: materialLineIssues_def Let_def MIN_MATERIAL_GAIN_def line_issues_ends line_issues_none not_less)
qed (simp add: materialLineIssues_def)

end
