(* ===== verification/SpacedReview.thy ===== *)
theory SpacedReview
  imports JsonCodec RosterUnits
begin

text \<open>
  \<open>spacedReview.js\<close>: when a personal puzzle comes back, after 3, 7 and 21 days.

  A puzzle is an object the profile stores, of any shape. Times are whole milliseconds; \<open>dp\<close> is \<open>Date.parse\<close> on a
  text (\<open>None\<close> for \<open>NaN\<close>), and \<open>collate\<close> is \<open>localeCompare\<close>. \<open>toISOString\<close> throws a \<open>RangeError\<close> beyond
  the range of a date: a function that would throw answers \<open>None\<close>.
\<close>

definition SPACED_REVIEW_INTERVAL_DAYS :: "int list" where "SPACED_REVIEW_INTERVAL_DAYS = [3, 7, 21]"
definition DAY_MS :: int where "DAY_MS = 86400000"

type_synonym date_parse = "string \<Rightarrow> int option"

definition iso :: "int \<Rightarrow> string option" where
  "iso t = (if \<bar>t\<bar> \<le> 8640000000000000 then Some (iso_text t) else None)"

definition timestamp :: "date_parse \<Rightarrow> json \<Rightarrow> int option" where
  "timestamp dp v = dp (json_string (or_else_json v (JStr [])))"

definition first_some :: "'a option \<Rightarrow> 'a option \<Rightarrow> 'a option" where
  "first_some a b = (case a of None \<Rightarrow> b | Some x \<Rightarrow> Some x)"

text \<open>\<open>Number(v || 0) > 0\<close> and \<open>Number(v || 0) <= 0\<close>: \<open>NaN\<close> is neither.\<close>

definition count_of :: "json \<Rightarrow> jsnum" where
  "count_of v = json_number (or_else_json v (JInt 0))"

definition positive :: "jsnum \<Rightarrow> bool" where
  "positive n = (case n of Fin q \<Rightarrow> 0 < q | PInf \<Rightarrow> True | _ \<Rightarrow> False)"

definition not_positive :: "jsnum \<Rightarrow> bool" where
  "not_positive n = (case n of Fin q \<Rightarrow> q \<le> 0 | NInf \<Rightarrow> True | _ \<Rightarrow> False)"

definition cleanAnchor :: "date_parse \<Rightarrow> json \<Rightarrow> int option" where
  "cleanAnchor dp puzzle =
     (case timestamp dp (field ''lastCleanAt'' puzzle) of
        Some t \<Rightarrow> Some t
      | None \<Rightarrow>
          if not_positive (count_of (field ''cleanSolves'' puzzle)) then None
          else first_some (timestamp dp (field ''masteredAt'' puzzle))
                 (first_some (timestamp dp (field ''lastSolvedAt'' puzzle)) (timestamp dp (field ''createdAt'' puzzle))))"

definition addDaysIso :: "int \<Rightarrow> int \<Rightarrow> string option" where
  "addDaysIso nowMs days = iso (nowMs + days * DAY_MS)"

definition isPersonalPuzzleCurrentlyClean :: "date_parse \<Rightarrow> json \<Rightarrow> bool" where
  "isPersonalPuzzleCurrentlyClean dp puzzle =
     (if not_positive (count_of (field ''cleanSolves'' puzzle)) then False
      else case timestamp dp (field ''retentionBrokenAt'' puzzle) of
             None \<Rightarrow> True
           | Some brokenAt \<Rightarrow> (case cleanAnchor dp puzzle of None \<Rightarrow> False | Some cleanAt \<Rightarrow> brokenAt < cleanAt))"

section \<open>The state of a review\<close>

text \<open>The stage is \<open>None\<close> when it is \<open>NaN\<close>; the interval is then \<open>undefined\<close>, also \<open>None\<close>.\<close>

record review =
  rv_eligible :: bool
  rv_due :: bool
  rv_completed :: bool
  rv_stage :: "int option"
  rv_intervalDays :: "int option"
  rv_dueAt :: "string option"

text \<open>\<open>Math.max(0, Math.floor(Number(v || 0)))\<close>. An infinite stage is at least 3, all the code asks of it.\<close>

definition raw_stage :: "json \<Rightarrow> int option" where
  "raw_stage v = (case count_of v of NaN \<Rightarrow> None | PInf \<Rightarrow> Some 3 | NInf \<Rightarrow> Some 0 | Fin q \<Rightarrow> Some (max 0 \<lfloor>q\<rfloor>))"

text \<open>\<open>dueMs\<close>: \<open>None\<close> is \<open>NaN\<close>, which \<open>toISOString\<close> refuses.\<close>

definition due_time :: "date_parse \<Rightarrow> json \<Rightarrow> int option \<Rightarrow> int option option" where
  "due_time dp puzzle intervalDays =
     (case timestamp dp (field ''nextReviewAt'' puzzle) of
        Some t \<Rightarrow> Some (Some t)
      | None \<Rightarrow> (case cleanAnchor dp puzzle of None \<Rightarrow> Some None
                 | Some anchor \<Rightarrow> map_option (\<lambda>days. Some (anchor + days * DAY_MS)) intervalDays))"

definition spacedReviewState :: "date_parse \<Rightarrow> json \<Rightarrow> int \<Rightarrow> review option" where
  "spacedReviewState dp puzzle now =
     (if field ''source'' puzzle \<noteq> JStr ''autopsy'' \<or> \<not> isPersonalPuzzleCurrentlyClean dp puzzle
      then Some \<lparr>rv_eligible = False, rv_due = False, rv_completed = False, rv_stage = Some 0, rv_intervalDays = None, rv_dueAt = None\<rparr>
      else let rawStage = raw_stage (field ''retentionStage'' puzzle) in
        if truthy (field ''retentionCompletedAt'' puzzle) \<or> (case rawStage of None \<Rightarrow> False | Some n \<Rightarrow> 3 \<le> n)
        then Some \<lparr>rv_eligible = True, rv_due = False, rv_completed = True, rv_stage = Some 3, rv_intervalDays = None, rv_dueAt = None\<rparr>
        else let stage = map_option (min 2) rawStage;
                 intervalDays = map_option (\<lambda>n. SPACED_REVIEW_INTERVAL_DAYS ! nat n) stage
             in case due_time dp puzzle intervalDays of
                  None \<Rightarrow> None
                | Some None \<Rightarrow> Some \<lparr>rv_eligible = False, rv_due = False, rv_completed = False, rv_stage = stage,
                                  rv_intervalDays = intervalDays, rv_dueAt = None\<rparr>
                | Some (Some dueMs) \<Rightarrow> map_option (\<lambda>dueAt.
                    \<lparr>rv_eligible = True, rv_due = dueMs \<le> now, rv_completed = False, rv_stage = stage,
                     rv_intervalDays = intervalDays, rv_dueAt = Some dueAt\<rparr>) (iso dueMs))"

section \<open>Summary\<close>

record review_summary =
  rs_due :: "(json \<times> review) list"
  rs_upcoming :: "(json \<times> review) list"
  rs_completed :: "(json \<times> review) list"
  rs_nextAt :: "string option"

definition due_key :: "date_parse \<Rightarrow> json \<times> review \<Rightarrow> int" where
  "due_key dp e = (case Option.bind (rv_dueAt (snd e)) dp of None \<Rightarrow> 0 | Some t \<Rightarrow> t)"

text \<open>A loss that is not a finite number counts as none.\<close>

definition loss_of :: "json \<Rightarrow> rat" where
  "loss_of puzzle = (case count_of (field ''loss'' puzzle) of Fin q \<Rightarrow> q | _ \<Rightarrow> 0)"

definition id_text :: "json \<Rightarrow> string" where
  "id_text puzzle = json_string (or_else_json (field ''id'' puzzle) (JStr []))"

text \<open>Whether the comparison of two due puzzles is not positive.\<close>

definition due_before :: "date_parse \<Rightarrow> (string \<Rightarrow> string \<Rightarrow> int) \<Rightarrow> json \<times> review \<Rightarrow> json \<times> review \<Rightarrow> bool" where
  "due_before dp collate a b =
     (if due_key dp a \<noteq> due_key dp b then due_key dp a < due_key dp b
      else if loss_of (fst a) \<noteq> loss_of (fst b) then loss_of (fst b) < loss_of (fst a)
      else collate (id_text (fst a)) (id_text (fst b)) \<le> 0)"

definition personalSpacedReviewSummary ::
  "date_parse \<Rightarrow> (string \<Rightarrow> string \<Rightarrow> int) \<Rightarrow> json \<Rightarrow> int \<Rightarrow> review_summary option" where
  "personalSpacedReviewSummary dp collate puzzles now =
     map_option (\<lambda>states.
       let entries = filter (\<lambda>e. rv_eligible (snd e)) (zip (elements puzzles) states);
           due = sort_stable (due_before dp collate) (filter (\<lambda>e. rv_due (snd e)) entries);
           upcoming = sort_stable (\<lambda>a b. due_key dp a \<le> due_key dp b)
             (filter (\<lambda>e. \<not> rv_due (snd e) \<and> \<not> rv_completed (snd e)) entries);
           completed = filter (\<lambda>e. rv_completed (snd e)) entries
       in \<lparr>rs_due = due, rs_upcoming = upcoming, rs_completed = completed,
           rs_nextAt = first_some (Option.bind (nth_opt due 0) (\<lambda>e. rv_dueAt (snd e)))
                         (Option.bind (nth_opt upcoming 0) (\<lambda>e. rv_dueAt (snd e)))\<rparr>)
       (those (map (\<lambda>puzzle. spacedReviewState dp puzzle now) (elements puzzles)))"

section \<open>The result of an attempt\<close>

definition spacedReviewResultPatch :: "date_parse \<Rightarrow> json \<Rightarrow> bool \<Rightarrow> bool \<Rightarrow> int \<Rightarrow> (string \<times> json) list option" where
  "spacedReviewResultPatch dp puzzle solved clean now =
     (if field ''source'' puzzle \<noteq> JStr ''autopsy'' then Some []
      else Option.bind (iso now) (\<lambda>nowIso. Option.bind (spacedReviewState dp puzzle now) (\<lambda>state.
        let currentlyClean = isPersonalPuzzleCurrentlyClean dp puzzle;
            cleanPatch = [(''lastCleanAt'', JStr nowIso), (''retentionBrokenAt'', JNull)]
        in if solved \<and> clean then
             if rv_eligible state \<and> rv_due state \<and> \<not> rv_completed state then
               (case rv_stage state of
                  None \<Rightarrow> None
                | Some stage \<Rightarrow>
                    if 3 \<le> stage + 1
                    then Some (cleanPatch @ [(''retentionStage'', JInt 3), (''nextReviewAt'', JNull), (''retentionCompletedAt'', JStr nowIso)])
                    else map_option (\<lambda>nextAt. cleanPatch @
                           [(''retentionStage'', JInt (stage + 1)), (''nextReviewAt'', JStr nextAt), (''retentionCompletedAt'', JNull)])
                         (addDaysIso now (SPACED_REVIEW_INTERVAL_DAYS ! nat (stage + 1))))
             else if currentlyClean \<and> rv_eligible state then Some cleanPatch
             else map_option (\<lambda>nextAt. cleanPatch @
                    [(''retentionStage'', JInt 0), (''nextReviewAt'', JStr nextAt), (''retentionCompletedAt'', JNull)])
                  (addDaysIso now (SPACED_REVIEW_INTERVAL_DAYS ! 0))
           else if positive (count_of (field ''cleanSolves'' puzzle)) \<or> currentlyClean \<or> rv_completed state
           then Some [(''retentionBrokenAt'', JStr nowIso), (''retentionStage'', JInt 0), (''nextReviewAt'', JNull),
                      (''retentionCompletedAt'', JNull)]
           else Some [])))"

section \<open>\<open>personalPuzzles.js\<close>: an attempt on a stored puzzle\<close>

text \<open>The time passes through its ISO text, which \<open>Date.parse\<close> reads back.\<close>

definition added :: "string \<Rightarrow> json \<Rightarrow> int \<Rightarrow> json" where
  "added k puzzle n = JNum (num_plus (count_of (field k puzzle)) (Fin (of_int n)))"

definition attempted :: "date_parse \<Rightarrow> json \<Rightarrow> bool \<Rightarrow> bool \<Rightarrow> int \<Rightarrow> json option" where
  "attempted dp previous solved clean now =
     (case iso now of
        None \<Rightarrow> None
      | Some nowIso \<Rightarrow> map_option (\<lambda>reviewPatch. with_fields
          ([(''attempts'', added ''attempts'' previous 1),
            (''solves'', added ''solves'' previous (if solved then 1 else 0)),
            (''cleanSolves'', added ''cleanSolves'' previous (if solved \<and> clean then 1 else 0)),
            (''lastAttemptAt'', JStr nowIso),
            (''lastSolvedAt'', if solved then JStr nowIso else or_else_json (field ''lastSolvedAt'' previous) JNull),
            (''masteredAt'', if solved then or_else_json (field ''masteredAt'' previous) (JStr nowIso)
                             else or_else_json (field ''masteredAt'' previous) JNull)] @ reviewPatch) previous)
          (spacedReviewResultPatch dp previous solved clean now))"

end
