(* ===== verification/SpacedReviewProps.thy ===== *)
theory SpacedReviewProps
  imports SpacedReview
begin

text \<open>
  The reviews of a puzzle follow a schedule that repeating the puzzle cannot hurry: the stored object implements
  \<open>schedule_step\<close>, the list of the solves that counted.
\<close>

lemma with_fields_object: "\<exists>kvs'. with_fields new (JObj kvs) = JObj kvs'"
  by (simp add: with_fields_def)

section \<open>The schedule\<close>

type_synonym attempt = "bool \<times> bool \<times> int"

definition attempt_time :: "attempt \<Rightarrow> int" where "attempt_time a = snd (snd a)"
definition clean_solve :: "attempt \<Rightarrow> bool" where "clean_solve a \<longleftrightarrow> fst a \<and> fst (snd a)"

text \<open>When a review is due after the solves that counted.\<close>

definition next_due :: "int list \<Rightarrow> int" where
  "next_due cs = last cs + SPACED_REVIEW_INTERVAL_DAYS ! (length cs - 1) * DAY_MS"

definition schedule_step :: "attempt \<Rightarrow> int list \<Rightarrow> int list" where
  "schedule_step a cs =
     (if \<not> clean_solve a then []
      else if cs = [] then [attempt_time a]
      else if length cs \<le> 3 \<and> next_due cs \<le> attempt_time a then cs @ [attempt_time a] else cs)"

definition scheduled_review :: "int list \<Rightarrow> int \<Rightarrow> review" where
  "scheduled_review cs now =
     (if cs = [] then \<lparr>rv_eligible = False, rv_due = False, rv_completed = False, rv_stage = Some 0, rv_intervalDays = None, rv_dueAt = None\<rparr>
      else if length cs = 4
      then \<lparr>rv_eligible = True, rv_due = False, rv_completed = True, rv_stage = Some 3, rv_intervalDays = None, rv_dueAt = None\<rparr>
      else \<lparr>rv_eligible = True, rv_due = next_due cs \<le> now, rv_completed = False, rv_stage = Some (int (length cs) - 1),
             rv_intervalDays = Some (SPACED_REVIEW_INTERVAL_DAYS ! (length cs - 1)), rv_dueAt = Some (iso_text (next_due cs))\<rparr>)"

section \<open>The object implements the schedule\<close>

text \<open>\<open>Date.parse\<close> reads the ISO text of a time and of its three appointments, and not the empty text.\<close>

definition dates_read :: "date_parse \<Rightarrow> int set \<Rightarrow> bool" where
  "dates_read dp ts \<longleftrightarrow> dp [] = None \<and>
     (\<forall>t \<in> ts. \<forall>days \<in> {0, 3, 7, 21}. dp (iso_text (t + days * DAY_MS)) = Some (t + days * DAY_MS) \<and>
        iso_text (t + days * DAY_MS) \<noteq> [] \<and> \<bar>t + days * DAY_MS\<bar> \<le> 8640000000000000)"

definition stamped :: "date_parse \<Rightarrow> json \<Rightarrow> int \<Rightarrow> bool" where
  "stamped dp v t \<longleftrightarrow> v = JStr (iso_text t) \<and> iso_text t \<noteq> [] \<and> dp (iso_text t) = Some t \<and> \<bar>t\<bar> \<le> 8640000000000000"

definition implements :: "date_parse \<Rightarrow> json \<Rightarrow> int list \<Rightarrow> int \<Rightarrow> bool" where
  "implements dp p cs now \<longleftrightarrow>
     (\<exists>kvs. p = JObj kvs) \<and> field ''source'' p = JStr ''autopsy'' \<and>
     (\<exists>q. count_of (field ''cleanSolves'' p) = Fin q \<and> (q = 0 \<or> 1 \<le> q) \<and>
        (if cs = [] then q = 0 \<or> (\<exists>a b. stamped dp (field ''lastCleanAt'' p) a \<and> stamped dp (field ''retentionBrokenAt'' p) b \<and>
                             a \<le> b \<and> b \<le> now)
         else 1 \<le> q \<and> field ''retentionBrokenAt'' p = JNull \<and> (\<exists>a. stamped dp (field ''lastCleanAt'' p) a \<and> a \<le> now) \<and>
           length cs \<le> 4 \<and>
           field ''retentionStage'' p = JInt (int (length cs) - 1) \<and>
           (if length cs = 4 then truthy (field ''retentionCompletedAt'' p)
            else field ''retentionCompletedAt'' p = JNull \<and> stamped dp (field ''nextReviewAt'' p) (next_due cs))))"

lemma implements_running:
  assumes "implements dp p cs now" "cs \<noteq> []"
  shows "\<exists>q. count_of (field ''cleanSolves'' p) = Fin q \<and> 1 \<le> q" "field ''retentionBrokenAt'' p = JNull"
    "\<exists>a. stamped dp (field ''lastCleanAt'' p) a \<and> a \<le> now" "length cs \<le> 4"
    "field ''retentionStage'' p = JInt (int (length cs) - 1)"
    "if length cs = 4 then truthy (field ''retentionCompletedAt'' p)
     else field ''retentionCompletedAt'' p = JNull \<and> stamped dp (field ''nextReviewAt'' p) (next_due cs)"
  using assms(1) unfolding implements_def if_not_P [OF assms(2)] by blast+

lemma implements_object:
  assumes "implements dp p cs now"
  shows "\<exists>kvs. p = JObj kvs" "field ''source'' p = JStr ''autopsy''"
    "\<exists>q. count_of (field ''cleanSolves'' p) = Fin q \<and> (q = 0 \<or> 1 \<le> q)"
  using assms unfolding implements_def by blast+

lemma timestamp_stamped: "stamped dp v t \<Longrightarrow> timestamp dp v = Some t"
  by (auto simp: stamped_def timestamp_def or_else_json_def truthy_def)

lemma iso_stamped: "stamped dp v t \<Longrightarrow> iso t = Some (iso_text t)"
  by (simp add: stamped_def iso_def)

lemma timestamp_null: "dp [] = None \<Longrightarrow> timestamp dp JNull = None"
  by (simp add: timestamp_def or_else_json_def truthy_def)

lemma count_signs: "not_positive (Fin q) \<longleftrightarrow> q \<le> 0" "positive (Fin q) \<longleftrightarrow> 0 < q"
  by (simp_all add: not_positive_def positive_def)

lemma raw_stage_int: "0 \<le> n \<Longrightarrow> raw_stage (JInt n) = Some n"
  by (auto simp: raw_stage_def count_of_def or_else_json_def truthy_def)

lemma currently_clean:
  assumes "implements dp p cs now" "dp [] = None"
  shows "isPersonalPuzzleCurrentlyClean dp p \<longleftrightarrow> cs \<noteq> []"
proof -
  obtain q where q: "count_of (field ''cleanSolves'' p) = Fin q" "q = 0 \<or> 1 \<le> q"
    using assms(1) by (auto simp: implements_def)
  show ?thesis
  proof (cases "cs = []")
    case True
    then have "q = 0 \<or> (\<exists>a b. stamped dp (field ''lastCleanAt'' p) a \<and> stamped dp (field ''retentionBrokenAt'' p) b \<and> a \<le> b)"
      using assms(1) q by (auto simp: implements_def)
    then show ?thesis using q True
      by (auto simp: isPersonalPuzzleCurrentlyClean_def count_signs timestamp_stamped cleanAnchor_def)
  next
    case False
    then have "1 \<le> q" "field ''retentionBrokenAt'' p = JNull" using assms(1) q by (auto simp: implements_def)
    then show ?thesis using False q assms(2) by (simp add: isPersonalPuzzleCurrentlyClean_def count_signs timestamp_null)
  qed
qed

lemma implements_state:
  assumes "implements dp p cs t0" "dp [] = None"
  shows "spacedReviewState dp p now = Some (scheduled_review cs now)"
proof (cases "cs = []")
  case True
  then show ?thesis using currently_clean [OF assms] by (simp add: spacedReviewState_def scheduled_review_def)
next
  case False
  note running = implements_running [OF assms(1) False]
  have source: "field ''source'' p = JStr ''autopsy''" using assms(1) by (rule implements_object)
  have n: "length cs \<le> 4" and stored: "field ''retentionStage'' p = JInt (int (length cs) - 1)" by (fact running)+
  have "0 \<le> int (length cs) - 1" using False by (simp add: Suc_le_eq)
  then have stage: "raw_stage (field ''retentionStage'' p) = Some (int (length cs) - 1)"
    unfolding stored by (rule raw_stage_int)
  have clean: "isPersonalPuzzleCurrentlyClean dp p" using currently_clean [OF assms] False by simp
  show ?thesis
  proof (cases "length cs = 4")
    case True
    then have "truthy (field ''retentionCompletedAt'' p)" using running(6) by simp
    then show ?thesis using True False source clean by (simp add: spacedReviewState_def scheduled_review_def Let_def)
  next
    case short: False
    then have stamp: "stamped dp (field ''nextReviewAt'' p) (next_due cs)" and unfinished: "\<not> truthy (field ''retentionCompletedAt'' p)"
      using running(6) by (simp_all add: truthy_def)
    have len: "1 \<le> length cs" "length cs \<le> 3" using n short False by (auto simp: Suc_leI)
    have "min 2 (int (length cs) - 1) = int (length cs) - 1" "nat (int (length cs) - 1) = length cs - 1" "\<not> 3 \<le> int (length cs) - 1"
      using len by auto
    then show ?thesis using short False source clean stage unfinished timestamp_stamped [OF stamp] iso_stamped [OF stamp]
      by (simp add: spacedReviewState_def scheduled_review_def Let_def due_time_def)
  qed
qed

section \<open>An attempt\<close>

lemma fl_one_le: "1 \<le> x \<Longrightarrow> 1 \<le> fl x"
  using fl_mono [of 1 x] by simp

lemma added_count:
  assumes "count_of (field k p) = Fin q" "q = 0 \<or> 1 \<le> q"
  shows "\<exists>r. count_of (added k p 1) = Fin r \<and> 1 \<le> r" "\<exists>r. count_of (added k p 0) = Fin r \<and> (r = 0 \<longleftrightarrow> q = 0) \<and> (r = 0 \<or> 1 \<le> r)"
proof -
  have c: "count_of (JNum (Fin x)) = Fin x" for x by (simp add: count_of_def or_else_json_def truthy_def)
  have "1 \<le> fadd q 1" using assms(2) by (auto simp: fadd_def intro: fl_one_le)
  then show "\<exists>r. count_of (added k p 1) = Fin r \<and> 1 \<le> r" using assms(1) by (simp add: added_def num_plus_def c)
  have "fadd q 0 = 0 \<longleftrightarrow> q = 0" "q = 0 \<or> 1 \<le> fadd q 0"
    using assms(2) fl_one_le [of q] by (auto simp: fadd_def)
  then show "\<exists>r. count_of (added k p 0) = Fin r \<and> (r = 0 \<longleftrightarrow> q = 0) \<and> (r = 0 \<or> 1 \<le> r)"
    using assms(1) by (auto simp: added_def num_plus_def c)
qed

text \<open>The patch of an attempt, by the schedule.\<close>

definition scheduled_edit :: "json \<Rightarrow> int list \<Rightarrow> int list \<Rightarrow> bool \<Rightarrow> int \<Rightarrow> (string \<times> json) list" where
  "scheduled_edit p cs cs' counts now =
    (if counts then
      [(''lastCleanAt'', JStr (iso_text now)), (''retentionBrokenAt'', JNull)] @
      (if cs' = cs then []
       else if length cs' = 4 then [(''retentionStage'', JInt 3), (''nextReviewAt'', JNull), (''retentionCompletedAt'', JStr (iso_text now))]
       else [(''retentionStage'', JInt (int (length cs') - 1)), (''nextReviewAt'', JStr (iso_text (next_due cs'))),
             (''retentionCompletedAt'', JNull)])
    else if cs = [] \<and> not_positive (count_of (field ''cleanSolves'' p)) then []
    else [(''retentionBrokenAt'', JStr (iso_text now)), (''retentionStage'', JInt 0), (''nextReviewAt'', JNull), (''retentionCompletedAt'', JNull)])"

lemma scheduled_patch:
  assumes i: "implements dp p cs t0" and d: "dates_read dp {now}" and t: "t0 \<le> now"
  shows "spacedReviewResultPatch dp p solved clean now = Some (scheduled_edit p cs (schedule_step (solved, clean, now) cs) (solved \<and> clean) now)"
proof -
  let ?iso = "iso_text now"
  have iso: "iso now = Some ?iso" "dp [] = None" using d by (auto simp: dates_read_def iso_def)
  have later: "addDaysIso now n = Some (iso_text (now + n * DAY_MS))" if "n \<in> {3, 7, 21}" for n
    using d that by (auto simp: dates_read_def iso_def addDaysIso_def)
  note source = implements_object(2) [OF i]
  have state: "spacedReviewState dp p now = Some (scheduled_review cs now)" by (rule implements_state [OF i iso(2)])
  have clean: "isPersonalPuzzleCurrentlyClean dp p \<longleftrightarrow> cs \<noteq> []" by (rule currently_clean [OF i iso(2)])
  show ?thesis
  proof (cases "cs = []")
    case True
    obtain q where q: "count_of (field ''cleanSolves'' p) = Fin q" using implements_object(3) [OF i] by blast
    then show ?thesis using source state clean iso later [of 3] True
      by (auto simp: scheduled_edit_def spacedReviewResultPatch_def scheduled_review_def schedule_step_def clean_solve_def attempt_time_def next_due_def
          SPACED_REVIEW_INTERVAL_DAYS_def count_signs Let_def)
  next
    case False
    note running = implements_running [OF i False]
    have q: "positive (count_of (field ''cleanSolves'' p))" "\<not> not_positive (count_of (field ''cleanSolves'' p))"
      using running(1) by (auto simp: count_signs)
    show ?thesis
    proof (cases "solved \<and> clean \<and> length cs \<noteq> 4 \<and> next_due cs \<le> now")
      case True
      have "0 < length cs" using False by simp
      then have "length cs \<in> {1, 2, 3}" using running(4) True by (simp, arith)
      then show ?thesis using source state clean iso True False later
        by (elim insertE) (simp_all add: scheduled_edit_def spacedReviewResultPatch_def scheduled_review_def schedule_step_def clean_solve_def
            attempt_time_def next_due_def SPACED_REVIEW_INTERVAL_DAYS_def Let_def)
    next
      case early: False
      then have "solved \<and> clean \<Longrightarrow> schedule_step (solved, clean, now) cs = cs"
        using False running(4) by (auto simp: schedule_step_def clean_solve_def attempt_time_def)
      then show ?thesis using source state clean iso early False q
        by (auto simp: scheduled_edit_def spacedReviewResultPatch_def scheduled_review_def Let_def)
    qed
  qed
qed

text \<open>The object after an attempt, field by field.\<close>

definition review_fields :: "string list" where
  "review_fields = [''source'', ''cleanSolves'', ''lastCleanAt'', ''retentionBrokenAt'', ''retentionStage'', ''nextReviewAt'',
     ''retentionCompletedAt'']"

lemma attempted_fields:
  assumes "implements dp p cs t0" "iso now = Some (iso_text now)" "spacedReviewResultPatch dp p solved clean now = Some patch"
  obtains q kvs where "attempted dp p solved clean now = Some q" "q = JObj kvs"
    "\<And>k. k \<in> set review_fields \<Longrightarrow> field k q = (case map_of (rev patch) k of Some v \<Rightarrow> v
        | None \<Rightarrow> if k = ''cleanSolves'' then added ''cleanSolves'' p (if solved \<and> clean then 1 else 0) else field k p)"
proof -
  obtain kvs where p: "p = JObj kvs" using implements_object(1) [OF assms(1)] by blast
  let ?base = "[(''attempts'', added ''attempts'' p 1), (''solves'', added ''solves'' p (if solved then 1 else 0)),
      (''cleanSolves'', added ''cleanSolves'' p (if solved \<and> clean then 1 else 0)), (''lastAttemptAt'', JStr (iso_text now)),
      (''lastSolvedAt'', if solved then JStr (iso_text now) else or_else_json (field ''lastSolvedAt'' p) JNull),
      (''masteredAt'', if solved then or_else_json (field ''masteredAt'' p) (JStr (iso_text now))
                       else or_else_json (field ''masteredAt'' p) JNull)]"
  have base: "map_of (rev ?base) k = (if k = ''cleanSolves'' then Some (added ''cleanSolves'' p (if solved \<and> clean then 1 else 0)) else None)"
    if "k \<in> set review_fields" for k
    using that unfolding review_fields_def list.set by (elim insertE emptyE) simp_all
  have q: "attempted dp p solved clean now = Some (with_fields (?base @ patch) p)"
    by (simp add: attempted_def assms(2,3) del: append.simps)
  have "field k (with_fields (?base @ patch) p) = (case map_of (rev patch) k of Some v \<Rightarrow> v
        | None \<Rightarrow> if k = ''cleanSolves'' then added ''cleanSolves'' p (if solved \<and> clean then 1 else 0) else field k p)"
    if "k \<in> set review_fields" for k
    unfolding p field_with_fields rev_append map_of_append map_add_def base [OF that, unfolded p]
    by (simp split: option.split del: field_JObj)
  then show thesis using that [OF q] with_fields_object [of "?base @ patch" kvs] unfolding p by blast
qed

text \<open>What the edit says of each field.\<close>

lemma edit_of_solve:
  "map_of (rev (scheduled_edit p cs cs' True now)) ''source'' = None"
  "map_of (rev (scheduled_edit p cs cs' True now)) ''cleanSolves'' = None"
  "map_of (rev (scheduled_edit p cs cs' True now)) ''lastCleanAt'' = Some (JStr (iso_text now))"
  "map_of (rev (scheduled_edit p cs cs' True now)) ''retentionBrokenAt'' = Some JNull"
  "map_of (rev (scheduled_edit p cs cs' True now)) ''retentionStage'' =
     (if cs' = cs then None else Some (JInt (int (length cs') - 1)))"
  "map_of (rev (scheduled_edit p cs cs' True now)) ''nextReviewAt'' =
     (if cs' = cs then None else Some (if length cs' = 4 then JNull else JStr (iso_text (next_due cs'))))"
  "map_of (rev (scheduled_edit p cs cs' True now)) ''retentionCompletedAt'' =
     (if cs' = cs then None else Some (if length cs' = 4 then JStr (iso_text now) else JNull))"
  by (cases "cs' = cs"; cases "length cs' = 4"; simp add: scheduled_edit_def)+

lemma edit_of_relapse:
  "map_of (rev (scheduled_edit p cs cs' False now)) ''source'' = None"
  "map_of (rev (scheduled_edit p cs cs' False now)) ''cleanSolves'' = None"
  "map_of (rev (scheduled_edit p cs cs' False now)) ''lastCleanAt'' = None"
  "map_of (rev (scheduled_edit p cs cs' False now)) ''retentionBrokenAt'' =
     (if cs = [] \<and> not_positive (count_of (field ''cleanSolves'' p)) then None else Some (JStr (iso_text now)))"
  by (simp_all add: scheduled_edit_def)

lemma next_due_stamped:
  assumes "dates_read dp {now}" "last cs = now" "cs \<noteq> []" "length cs \<le> 3" "v = JStr (iso_text (next_due cs))"
  shows "stamped dp v (next_due cs)"
proof -
  have "0 < length cs" using assms(3) by simp
  then have "length cs \<in> {1, 2, 3}" using assms(4) by (simp, arith)
  then have "SPACED_REVIEW_INTERVAL_DAYS ! (length cs - 1) \<in> {3, 7, 21}"
    by (elim insertE) (simp_all add: SPACED_REVIEW_INTERVAL_DAYS_def)
  then show ?thesis using assms(1,2,5) by (auto simp: dates_read_def stamped_def next_due_def)
qed

lemma attempt_step:
  assumes i: "implements dp p cs t0" and d: "dates_read dp {now}" and t: "t0 \<le> now"
  shows "\<exists>q. attempted dp p solved clean now = Some q \<and> implements dp q (schedule_step (solved, clean, now) cs) now"
proof -
  let ?cs = "schedule_step (solved, clean, now) cs"
  have iso: "iso now = Some (iso_text now)" and here: "stamped dp (JStr (iso_text now)) now"
    using d by (auto simp: dates_read_def iso_def stamped_def)
  obtain counts where counts: "(solved \<and> clean) = counts" by blast
  note patch = scheduled_patch [OF i d t, of solved clean]
  obtain q kvs where q: "attempted dp p solved clean now = Some q" "q = JObj kvs"
      and f: "\<And>k. k \<in> set review_fields \<Longrightarrow> field k q = (case map_of (rev (scheduled_edit p cs ?cs counts now)) k of
        Some v \<Rightarrow> v | None \<Rightarrow> if k = ''cleanSolves'' then added ''cleanSolves'' p (if counts then 1 else 0) else field k p)"
    using attempted_fields [OF i iso patch] unfolding counts by blast
  obtain c where c: "count_of (field ''cleanSolves'' p) = Fin c" "c = 0 \<or> 1 \<le> c" using implements_object(3) [OF i] by blast
  have names: "''source'' \<in> set review_fields" "''cleanSolves'' \<in> set review_fields" "''lastCleanAt'' \<in> set review_fields"
      "''retentionBrokenAt'' \<in> set review_fields" "''retentionStage'' \<in> set review_fields"
      "''nextReviewAt'' \<in> set review_fields" "''retentionCompletedAt'' \<in> set review_fields"
    by (simp_all add: review_fields_def)
  note fields = f [OF names(1)] f [OF names(2)] f [OF names(3)] f [OF names(4)] f [OF names(5)] f [OF names(6)] f [OF names(7)]
  note source = implements_object(2) [OF i]
  have "implements dp q ?cs now"
  proof (cases counts)
    case True
    have changed: "?cs \<noteq> cs \<Longrightarrow> last ?cs = now \<and> length ?cs \<le> 4" and some: "?cs \<noteq> []"
      using True counts by (auto simp: schedule_step_def clean_solve_def attempt_time_def)
    have common: "field ''source'' q = JStr ''autopsy''" "field ''lastCleanAt'' q = JStr (iso_text now)"
        "field ''retentionBrokenAt'' q = JNull" "field ''cleanSolves'' q = added ''cleanSolves'' p 1"
      using fields(1-4) source True by (simp_all add: edit_of_solve)
    have "if length ?cs = 4 then truthy (field ''retentionCompletedAt'' q)
        else field ''retentionCompletedAt'' q = JNull \<and> stamped dp (field ''nextReviewAt'' q) (next_due ?cs)"
      and "field ''retentionStage'' q = JInt (int (length ?cs) - 1) \<and> length ?cs \<le> 4"
    proof (atomize (full), cases "?cs = cs")
      case same: True
      have "cs \<noteq> []" using some same by simp
      note running = implements_running [OF i this]
      have "field ''retentionStage'' q = field ''retentionStage'' p" "field ''nextReviewAt'' q = field ''nextReviewAt'' p"
          "field ''retentionCompletedAt'' q = field ''retentionCompletedAt'' p"
        using fields(5-7) same True by (simp_all add: edit_of_solve)
      then show "(if length ?cs = 4 then truthy (field ''retentionCompletedAt'' q)
          else field ''retentionCompletedAt'' q = JNull \<and> stamped dp (field ''nextReviewAt'' q) (next_due ?cs)) \<and>
          field ''retentionStage'' q = JInt (int (length ?cs) - 1) \<and> length ?cs \<le> 4"
        using running(4-6) unfolding same by simp
    next
      case new: False
      show "(if length ?cs = 4 then truthy (field ''retentionCompletedAt'' q)
          else field ''retentionCompletedAt'' q = JNull \<and> stamped dp (field ''nextReviewAt'' q) (next_due ?cs)) \<and>
          field ''retentionStage'' q = JInt (int (length ?cs) - 1) \<and> length ?cs \<le> 4"
      proof (cases "length ?cs = 4")
        case True
        then show ?thesis using fields(5,7) new here \<open>counts\<close>
          by (simp add: edit_of_solve stamped_def truthy_def)
      next
        case short: False
        have "field ''nextReviewAt'' q = JStr (iso_text (next_due ?cs))" "field ''retentionCompletedAt'' q = JNull"
            "field ''retentionStage'' q = JInt (int (length ?cs) - 1)"
          using fields(5-7) new short True by (simp_all add: edit_of_solve)
        then show ?thesis using next_due_stamped [OF d _ some] changed [OF new] short by simp
      qed
    qed
    then show ?thesis unfolding implements_def if_not_P [OF some] common
      using q(2) added_count(1) [OF c] here by auto
  next
    case False
    have cs: "?cs = []" using False counts by (simp add: schedule_step_def clean_solve_def)
    have count: "field ''cleanSolves'' q = added ''cleanSolves'' p 0" and kept: "field ''source'' q = JStr ''autopsy''"
        "field ''lastCleanAt'' q = field ''lastCleanAt'' p"
      using fields(1-3) source False by (simp_all add: edit_of_relapse)
    have "c = 0 \<or> (\<exists>a b. stamped dp (field ''lastCleanAt'' q) a \<and> stamped dp (field ''retentionBrokenAt'' q) b \<and> a \<le> b \<and> b \<le> now)"
    proof (cases "cs = [] \<and> not_positive (count_of (field ''cleanSolves'' p))")
      case True
      then show ?thesis using c by (auto simp: count_signs)
    next
      case broken: False
      then have "field ''retentionBrokenAt'' q = JStr (iso_text now)"
        using fields(4) False broken by (auto simp: edit_of_relapse)
      moreover have "c = 0 \<or> (\<exists>a. stamped dp (field ''lastCleanAt'' p) a \<and> a \<le> t0)"
      proof (cases "cs = []")
        case True
        then show ?thesis using i c unfolding implements_def by (auto intro: order_trans)
      next
        case False
        then show ?thesis using implements_running(3) [OF i] by blast
      qed
      ultimately show ?thesis using here t kept by (auto intro: order_trans)
    qed
    then show ?thesis unfolding implements_def cs kept count
      using q(2) added_count(2) [OF c] by auto
  qed
  then show ?thesis using q by blast
qed

section \<open>A life of a puzzle\<close>

fun practise :: "date_parse \<Rightarrow> json \<Rightarrow> attempt list \<Rightarrow> json option" where
  "practise dp p [] = Some p"
| "practise dp p ((solved, clean, now) # tries) = (case attempted dp p solved clean now of None \<Rightarrow> None | Some q \<Rightarrow> practise dp q tries)"

definition fresh_puzzle :: "json \<Rightarrow> bool" where
  "fresh_puzzle p \<longleftrightarrow> (\<exists>kvs. p = JObj kvs) \<and> field ''source'' p = JStr ''autopsy'' \<and> \<not> truthy (field ''cleanSolves'' p)"

lemma fresh_implements: "fresh_puzzle p \<Longrightarrow> implements dp p [] now"
  by (auto simp: fresh_puzzle_def implements_def count_of_def or_else_json_def simp del: field_JObj)

lemma practise_implements:
  assumes "implements dp p cs t0" "dates_read dp (attempt_time ` set tries)" "sorted (t0 # map attempt_time tries)"
  shows "\<exists>q t. practise dp p tries = Some q \<and> implements dp q (fold schedule_step tries cs) t \<and> t = last (t0 # map attempt_time tries)"
  using assms
proof (induction tries arbitrary: p cs t0)
  case (Cons a tries)
  obtain solved clean now where a: "a = (solved, clean, now)" by (cases a)
  have now: "dates_read dp {now}" "t0 \<le> now" using Cons.prems(2,3) a by (auto simp: dates_read_def attempt_time_def)
  obtain q where q: "attempted dp p solved clean now = Some q" "implements dp q (schedule_step a cs) now"
    using attempt_step [OF Cons.prems(1) now] a by blast
  have "dates_read dp (attempt_time ` set tries)" using Cons.prems(2) by (simp add: dates_read_def)
  moreover have "sorted (now # map attempt_time tries)"
  proof -
    have "attempt_time a = now" by (simp add: a attempt_time_def)
    then show ?thesis using Cons.prems(3) by simp
  qed
  ultimately have "\<exists>r t. practise dp q tries = Some r \<and> implements dp r (fold schedule_step tries (schedule_step a cs)) t \<and>
      t = last (now # map attempt_time tries)"
    by (rule Cons.IH [OF q(2)])
  moreover have "attempt_time a = now" by (simp add: a attempt_time_def)
  ultimately show ?case using q(1) a by (auto simp del: attempt_time_def)
qed simp

lemma follows_schedule:
  assumes "fresh_puzzle p" "dates_read dp (attempt_time ` set tries)" "sorted (map attempt_time tries)"
  shows "\<exists>q. practise dp p tries = Some q \<and>
    (\<forall>now. spacedReviewState dp q now = Some (scheduled_review (fold schedule_step tries []) now))"
proof -
  obtain t0 where t0: "sorted (t0 # map attempt_time tries)"
    using assms(3) by (cases tries) auto
  obtain q t where q: "practise dp p tries = Some q" "implements dp q (fold schedule_step tries []) t"
    using practise_implements [OF fresh_implements [OF assms(1)] assms(2) t0] by blast
  have "dp [] = None" using assms(2) by (simp add: dates_read_def)
  then show ?thesis using q implements_state [OF q(2)] by blast
qed

text \<open>C15: the stored puzzle follows its schedule. From a puzzle that was never solved cleanly, through any attempts in
  order of time, every update succeeds, and the state the reviews show at any moment is that of the schedule: the list
  of the clean solves that counted, which starts with the first, grows only by one that comes when the review is due,
  and is lost with any attempt that was not clean.\<close>

theorem reviews_follow_schedule:
  assumes "fresh_puzzle p" "dates_read dp (attempt_time ` set tries)" "sorted (map attempt_time tries)"
  shows "\<exists>q. practise dp p tries = Some q \<and>
    (\<forall>now. spacedReviewState dp q now = Some (scheduled_review (fold schedule_step tries []) now))"
  using assms by (rule follows_schedule)

section \<open>The schedule cannot be hurried\<close>

text \<open>The solves that counted are clean, since the last attempt that was not, and apart by the intervals.\<close>

definition paced :: "int list \<Rightarrow> bool" where
  "paced cs \<longleftrightarrow> length cs \<le> 4 \<and>
     (\<forall>i. Suc i < length cs \<longrightarrow> cs ! i + SPACED_REVIEW_INTERVAL_DAYS ! i * DAY_MS \<le> cs ! Suc i)"

lemma schedule_paced:
  "\<exists>before after. tries = before @ after \<and> list_all clean_solve after \<and> set (fold schedule_step tries []) \<subseteq> attempt_time ` set after \<and>
     paced (fold schedule_step tries [])"
proof (induction tries rule: rev_induct)
  case Nil
  show ?case by (simp add: paced_def)
next
  case (snoc a tries)
  let ?cs = "fold schedule_step tries []"
  obtain before after where ih: "tries = before @ after" "list_all clean_solve after" "set ?cs \<subseteq> attempt_time ` set after" "paced ?cs"
    using snoc by blast
  show ?case
  proof (cases "clean_solve a")
    case False
    then show ?thesis by (intro exI [of _ "tries @ [a]"] exI [of _ "[]"]) (simp add: schedule_step_def paced_def)
  next
    case True
    have "paced (?cs @ [attempt_time a])" if "?cs \<noteq> []" "length ?cs \<le> 3" "next_due ?cs \<le> attempt_time a"
    proof -
      have "last ?cs = ?cs ! (length ?cs - 1)" using that(1) by (rule last_conv_nth)
      then have due: "?cs ! i + SPACED_REVIEW_INTERVAL_DAYS ! i * DAY_MS \<le> attempt_time a" if "Suc i = length ?cs" for i
        using \<open>next_due ?cs \<le> attempt_time a\<close> that [symmetric] by (simp add: next_due_def)
      show ?thesis
        unfolding paced_def using ih(4) that(2) due by (auto simp: paced_def nth_append less_Suc_eq)
    qed
    then have "paced (schedule_step a ?cs)" using ih(4) True by (auto simp: schedule_step_def paced_def)
    moreover have "set (schedule_step a ?cs) \<subseteq> attempt_time ` set (after @ [a])"
      using ih(3) True by (auto simp: schedule_step_def)
    ultimately show ?thesis using ih(1,2) True
      by (intro exI [of _ before] exI [of _ "after @ [a]"]) simp
  qed
qed

text \<open>C14: repeating a puzzle does not speed its reviews up. Whatever the attempts, in order of time, a puzzle shows as
  completed only after four clean solves at least 3, 7 and 21 days apart, 31 days in all, with no attempt between the
  first and now that was not clean.\<close>

theorem reviews_cannot_be_hurried:
  assumes "fresh_puzzle p" "dates_read dp (attempt_time ` set tries)" "sorted (map attempt_time tries)"
    "practise dp p tries = Some q" "spacedReviewState dp q now = Some r" "rv_completed r"
  shows "\<exists>before after t0 t1 t2 t3. tries = before @ after \<and> list_all clean_solve after \<and> {t0, t1, t2, t3} \<subseteq> attempt_time ` set after \<and>
    t0 + 3 * DAY_MS \<le> t1 \<and> t1 + 7 * DAY_MS \<le> t2 \<and> t2 + 21 * DAY_MS \<le> t3 \<and> t0 + 31 * DAY_MS \<le> t3"
proof -
  let ?cs = "fold schedule_step tries []"
  obtain t0 where t0: "sorted (t0 # map attempt_time tries)" using assms(3) by (cases tries) auto
  obtain t where "implements dp q ?cs t"
    using practise_implements [OF fresh_implements [OF assms(1)] assms(2) t0] assms(4) by auto
  then have "r = scheduled_review ?cs now" using implements_state assms(2,5) by (auto simp: dates_read_def)
  then have four: "length ?cs = 4" using assms(6) by (auto simp: scheduled_review_def split: if_splits)
  obtain before after where s: "tries = before @ after" "list_all clean_solve after" "set ?cs \<subseteq> attempt_time ` set after" "paced ?cs"
    using schedule_paced by blast
  have "?cs ! i + SPACED_REVIEW_INTERVAL_DAYS ! i * DAY_MS \<le> ?cs ! Suc i" if "i < 3" for i
    using s(4) four that by (simp add: paced_def)
  from this [of 0] this [of 1] this [of 2]
  have gaps: "?cs ! 0 + 3 * DAY_MS \<le> ?cs ! 1" "?cs ! 1 + 7 * DAY_MS \<le> ?cs ! 2" "?cs ! 2 + 21 * DAY_MS \<le> ?cs ! 3"
    by (simp_all add: SPACED_REVIEW_INTERVAL_DAYS_def numeral_2_eq_2 numeral_3_eq_3)
  have "{?cs ! 0, ?cs ! 1, ?cs ! 2, ?cs ! 3} \<subseteq> attempt_time ` set after" using four s(3) by force
  moreover have "?cs ! 0 + 31 * DAY_MS \<le> ?cs ! 3" using gaps by linarith
  ultimately show ?thesis using s(1,2) gaps by blast
qed

text \<open>A puzzle solved on four days, the last 31 days after the first; the sample reads the midnights of a January and a February.\<close>

definition sample_puzzle :: json where
  "sample_puzzle = JObj [(''id'', JStr ''p''), (''source'', JStr ''autopsy''), (''cleanSolves'', JInt 0)]"

definition sample_tries :: "attempt list" where
  "sample_tries = [(True, False, 0), (True, True, 0), (True, True, 3 * DAY_MS), (True, True, 10 * DAY_MS), (True, True, 31 * DAY_MS)]"

definition sample_dates :: date_parse where
  "sample_dates s = (if length s = 24
     then Some ((31 * (digits_val (take 2 (drop 5 s)) - 1) + digits_val (take 2 (drop 8 s)) - 1) * DAY_MS) else None)"

definition sample_days :: "int list" where
  "sample_days = [0, 3, 7, 21, 6, 10, 24, 13, 17, 31, 34, 38, 52]"

lemma midnight:
  "iso_text (n * DAY_MS) = (case civil_from_days n of (y, m, d) \<Rightarrow>
     iso_year y @ ''-'' @ pad 2 (show_nat (nat m)) @ ''-'' @ pad 2 (show_nat (nat d)) @ ''T00:00:00.000Z'')"
proof -
  have "pad 2 (show_nat 0) = ''00''" "pad 3 (show_nat 0) = ''000''" by code_simp+
  then show ?thesis by (simp add: iso_text_def DAY_MS_def Let_def split: prod.split)
qed

lemma sample_civil:
  "list_all (\<lambda>n. civil_from_days n = (1970, n div 31 + 1, n mod 31 + 1)) sample_days"
  by code_simp

lemma two_digits:
  "list_all (\<lambda>n. length (pad 2 (show_nat (nat n))) = 2 \<and> digits_val (pad 2 (show_nat (nat n))) = n)
     [1, 2, 4, 7, 8, 11, 14, 18, 22, 25]"
  by code_simp

lemma two_elements: "length xs = 2 \<Longrightarrow> \<exists>a b. xs = [a, b]"
  by (auto simp: length_Suc_conv numeral_2_eq_2)

lemma sample_date:
  assumes "n \<in> set sample_days"
  shows "sample_dates (iso_text (n * DAY_MS)) = Some (n * DAY_MS)" "iso_text (n * DAY_MS) \<noteq> []"
proof -
  let ?a = "pad 2 (show_nat (nat (n div 31 + 1)))" and ?b = "pad 2 (show_nat (nat (n mod 31 + 1)))"
  have "iso_year 1970 = ''1970''" by code_simp
  then have written: "iso_text (n * DAY_MS) = ''1970-'' @ ?a @ ''-'' @ ?b @ ''T00:00:00.000Z''"
    using sample_civil assms by (auto simp: midnight list_all_iff)
  have "n div 31 + 1 \<in> {1, 2, 4, 7, 8, 11, 14, 18, 22, 25} \<and> n mod 31 + 1 \<in> {1, 2, 4, 7, 8, 11, 14, 18, 22, 25}"
    using assms unfolding sample_days_def list.set by (elim insertE emptyE) simp_all
  then have d: "length ?a = 2" "length ?b = 2" "digits_val ?a = n div 31 + 1" "digits_val ?b = n mod 31 + 1"
    using two_digits [unfolded list_all_iff list.set] by blast+
  obtain a1 a2 b1 b2 where ab: "?a = [a1, a2]" "?b = [b1, b2]"
    using two_elements [OF d(1)] two_elements [OF d(2)] by blast
  have "sample_dates (iso_text (n * DAY_MS)) = Some ((31 * (digits_val ?a - 1) + digits_val ?b - 1) * DAY_MS)"
    unfolding written ab by (simp add: sample_dates_def)
  also have "31 * (digits_val ?a - 1) + digits_val ?b - 1 = n"
    unfolding d by simp
  finally show "sample_dates (iso_text (n * DAY_MS)) = Some (n * DAY_MS)" .
  show "iso_text (n * DAY_MS) \<noteq> []" unfolding written by simp
qed

lemma sample_dates_read: "dates_read sample_dates (attempt_time ` set sample_tries)"
proof -
  have day: "dates_read sample_dates {n * DAY_MS}" if "\<forall>d \<in> {0, 3, 7, 21}. n + d \<in> set sample_days" "0 \<le> n" "n \<le> 31" for n
  proof -
    have "sample_dates [] = None" by (simp add: sample_dates_def)
    moreover have "n * DAY_MS + d * DAY_MS = (n + d) * DAY_MS" for d by (simp add: distrib_right)
    moreover have "\<bar>(n + d) * DAY_MS\<bar> \<le> 8640000000000000" if "d \<in> {0, 3, 7, 21}" for d
      using that \<open>0 \<le> n\<close> \<open>n \<le> 31\<close> by (auto simp: DAY_MS_def)
    ultimately show ?thesis using sample_date that(1) unfolding dates_read_def by simp
  qed
  have union: "dates_read sample_dates (insert t ts)" if "dates_read sample_dates {t}" "dates_read sample_dates ts" for t ts
    using that unfolding dates_read_def by simp
  have "attempt_time ` set sample_tries = insert (0 * DAY_MS) (insert (3 * DAY_MS) (insert (10 * DAY_MS) {31 * DAY_MS}))"
    by (simp add: sample_tries_def attempt_time_def)
  moreover have "dates_read sample_dates (insert (0 * DAY_MS) (insert (3 * DAY_MS) (insert (10 * DAY_MS) {31 * DAY_MS})))"
    by (rule union [OF day union [OF day union [OF day day]]]) (simp_all add: sample_days_def)
  ultimately show ?thesis by (simp only:)
qed

lemma sample_sorted: "sorted (map attempt_time sample_tries)"
  by (simp add: sample_tries_def attempt_time_def DAY_MS_def)

lemma sample_fresh: "fresh_puzzle sample_puzzle"
  by (simp add: fresh_puzzle_def sample_puzzle_def truthy_def)

lemma sample_schedule: "fold schedule_step sample_tries [] = [0, 3 * DAY_MS, 10 * DAY_MS, 31 * DAY_MS]"
  by code_simp

theorem reviews_follow_schedule_witness:
  "\<exists>q. practise sample_dates sample_puzzle sample_tries = Some q \<and>
     spacedReviewState sample_dates q 0 = Some (scheduled_review [0, 3 * DAY_MS, 10 * DAY_MS, 31 * DAY_MS] 0)"
  using reviews_follow_schedule [OF sample_fresh sample_dates_read sample_sorted] unfolding sample_schedule by blast

theorem reviews_cannot_be_hurried_witness:
  "\<exists>q r t0 t3. practise sample_dates sample_puzzle sample_tries = Some q \<and> spacedReviewState sample_dates q 0 = Some r \<and>
     rv_completed r \<and> {t0, t3} \<subseteq> attempt_time ` set sample_tries \<and> t0 + 31 * DAY_MS \<le> t3"
proof -
  let ?r = "scheduled_review [0, 3 * DAY_MS, 10 * DAY_MS, 31 * DAY_MS] 0"
  obtain q where "practise sample_dates sample_puzzle sample_tries = Some q" "spacedReviewState sample_dates q 0 = Some ?r"
    using follows_schedule [OF sample_fresh sample_dates_read sample_sorted] unfolding sample_schedule by blast
  moreover have "rv_completed ?r" by (simp add: scheduled_review_def)
  ultimately obtain r where q: "practise sample_dates sample_puzzle sample_tries = Some q" "spacedReviewState sample_dates q 0 = Some r"
      "rv_completed r" by blast
  obtain before after t0 t1 t2 t3 where w: "sample_tries = before @ after \<and> list_all clean_solve after \<and>
      {t0, t1, t2, t3} \<subseteq> attempt_time ` set after \<and> t0 + 3 * DAY_MS \<le> t1 \<and> t1 + 7 * DAY_MS \<le> t2 \<and>
      t2 + 21 * DAY_MS \<le> t3 \<and> t0 + 31 * DAY_MS \<le> t3"
    using reviews_cannot_be_hurried [OF sample_fresh sample_dates_read sample_sorted q] by (elim exE) (rule that)
  have "set after \<subseteq> set sample_tries" unfolding conjunct1 [OF w] by simp
  then have "{t0, t3} \<subseteq> attempt_time ` set sample_tries" using w by (meson image_mono insert_subset subset_trans)
  moreover have "t0 + 31 * DAY_MS \<le> t3" using w by (elim conjE)
  ultimately show ?thesis using q by blast
qed

end
