(* ===== verification/JsArith.thy ===== *)
theory JsArith
  imports JsonValues
begin

text \<open>
  The arithmetic of numbers that may be \<open>NaN\<close> or infinite, on binary64 values, and a few operators on values of any
  shape, for the modules that compute with what they read. The sign of a zero and the overflow of a result are left
  out.
\<close>

section \<open>Numbers\<close>

definition num_neg :: "jsnum \<Rightarrow> jsnum" where
  "num_neg a = (case a of NaN \<Rightarrow> NaN | PInf \<Rightarrow> NInf | NInf \<Rightarrow> PInf | Fin q \<Rightarrow> Fin (- q))"

definition num_minus :: "jsnum \<Rightarrow> jsnum \<Rightarrow> jsnum" where
  "num_minus a b = num_plus a (num_neg b)"

definition num_sign :: "jsnum \<Rightarrow> int" where
  "num_sign a = (case a of PInf \<Rightarrow> 1 | NInf \<Rightarrow> -1 | Fin q \<Rightarrow> if 0 < q then 1 else if q < 0 then -1 else 0 | NaN \<Rightarrow> 0)"

definition num_infinity :: "int \<Rightarrow> jsnum" where
  "num_infinity s = (if 0 < s then PInf else if s < 0 then NInf else NaN)"

definition num_times :: "jsnum \<Rightarrow> jsnum \<Rightarrow> jsnum" where
  "num_times a b =
     (case (a, b) of (NaN, _) \<Rightarrow> NaN | (_, NaN) \<Rightarrow> NaN
      | (Fin p, Fin q) \<Rightarrow> Fin (fmul p q) | _ \<Rightarrow> num_infinity (num_sign a * num_sign b))"

definition num_over :: "jsnum \<Rightarrow> jsnum \<Rightarrow> jsnum" where
  "num_over a b =
     (case (a, b) of (NaN, _) \<Rightarrow> NaN | (_, NaN) \<Rightarrow> NaN
      | (Fin p, Fin q) \<Rightarrow> if q = 0 then num_infinity (num_sign a) else Fin (fdiv p q)
      | (Fin _, _) \<Rightarrow> Fin 0
      | (_, Fin q) \<Rightarrow> num_infinity (num_sign a * (if q < 0 then -1 else 1))
      | _ \<Rightarrow> NaN)"

definition num_round :: "jsnum \<Rightarrow> jsnum" where
  "num_round a = (case a of Fin q \<Rightarrow> Fin (of_int (js_round q)) | n \<Rightarrow> n)"

definition num_min :: "jsnum \<Rightarrow> jsnum \<Rightarrow> jsnum" where
  "num_min a b = num_neg (num_max (num_neg a) (num_neg b))"

text \<open>\<open>a < b\<close> and \<open>a <= b\<close>: \<open>NaN\<close> compares with nothing.\<close>

definition num_lt :: "jsnum \<Rightarrow> jsnum \<Rightarrow> bool" where
  "num_lt a b =
     (case (a, b) of (NaN, _) \<Rightarrow> False | (_, NaN) \<Rightarrow> False | (Fin p, Fin q) \<Rightarrow> p < q
      | (NInf, NInf) \<Rightarrow> False | (NInf, _) \<Rightarrow> True | (PInf, _) \<Rightarrow> False | (_, PInf) \<Rightarrow> True | (_, NInf) \<Rightarrow> False)"

definition num_le :: "jsnum \<Rightarrow> jsnum \<Rightarrow> bool" where
  "num_le a b \<longleftrightarrow> a \<noteq> NaN \<and> b \<noteq> NaN \<and> \<not> num_lt b a"

lemma num_finite [simp]:
  "num_neg (Fin p) = Fin (- p)" "num_minus (Fin p) (Fin q) = Fin (fsub p q)" "num_times (Fin p) (Fin q) = Fin (fmul p q)"
  "q \<noteq> 0 \<Longrightarrow> num_over (Fin p) (Fin q) = Fin (fdiv p q)" "num_round (Fin p) = Fin (of_int (js_round p))"
  "num_max (Fin p) (Fin q) = Fin (max p q)" "num_min (Fin p) (Fin q) = Fin (min p q)" "num_plus (Fin p) (Fin q) = Fin (fadd p q)"
  by (simp_all add: num_neg_def num_minus_def num_plus_def num_times_def num_over_def num_round_def num_max_def num_min_def
      fsub_def fadd_def min_def max_def)

lemma num_compare [simp]:
  "num_lt (Fin p) (Fin q) \<longleftrightarrow> p < q" "num_le (Fin p) (Fin q) \<longleftrightarrow> p \<le> q"
  by (auto simp: num_lt_def num_le_def)

section \<open>Values\<close>

text \<open>\<open>v ?? d\<close>, and \<open>Number(v || 0)\<close>.\<close>

definition nullish :: "json \<Rightarrow> json \<Rightarrow> json" where
  "nullish v d = (case v of JUndef \<Rightarrow> d | JNull \<Rightarrow> d | _ \<Rightarrow> v)"

definition num_or_zero :: "json \<Rightarrow> jsnum" where
  "num_or_zero v = json_number (or_else_json v (JInt 0))"

lemma nullish_num [simp]: "nullish (JNum n) d = JNum n" "nullish JUndef d = d" "nullish JNull d = d"
  by (simp_all add: nullish_def)

lemma num_or_zero_num [simp]: "num_or_zero (JInt i) = Fin (of_int i)" "num_or_zero JUndef = Fin 0"
  by (simp_all add: num_or_zero_def or_else_json_def truthy_def)

text \<open>\<open>xs.includes(v)\<close> and \<open>[...new Set(xs)]\<close> without \<open>NaN\<close>: two objects are different values.\<close>

definition js_includes :: "json \<Rightarrow> json list \<Rightarrow> bool" where
  "js_includes v xs \<longleftrightarrow> list_ex (strict_eq v) xs"

fun js_uniq :: "json list \<Rightarrow> json list \<Rightarrow> json list" where
  "js_uniq seen [] = []"
| "js_uniq seen (x # xs) = (if js_includes x seen then js_uniq seen xs else x # js_uniq (x # seen) xs)"

lemma strict_eq_str [simp]: "strict_eq (JStr s) v \<longleftrightarrow> v = JStr s" "strict_eq v (JStr s) \<longleftrightarrow> v = JStr s"
  by (auto simp: strict_eq_def is_object_def)

lemma js_includes_str [simp]: "js_includes (JStr s) xs \<longleftrightarrow> JStr s \<in> set xs"
  by (auto simp: js_includes_def list_ex_iff)

lemma set_js_uniq: "set (js_uniq seen xs) \<subseteq> set xs"
  by (induction xs arbitrary: seen) auto

lemma js_uniq_str: "JStr s \<in> set xs \<Longrightarrow> JStr s \<notin> set seen \<Longrightarrow> JStr s \<in> set (js_uniq seen xs)"
proof (induction xs arbitrary: seen)
  case (Cons a xs)
  then show ?case by (cases "a = JStr s") (auto simp: js_includes_def list_ex_iff)
qed simp

end
