(* ===== verification/GameActivity.thy ===== *)
theory GameActivity
  imports JsArith GameSeries
begin

text \<open>
  What the browser remembers of the games played: the game being played (\<open>activeGameSession.js\<close>), the journal of
  games (\<open>gameActivity.js\<close>, with the labels of \<open>gameModes.js\<close> and \<open>combatChessBrand.js\<close> and the renderer of
  \<open>userPreferences.js\<close>), the score of the visit (\<open>matthiasSessionContext.js\<close>), the samples of the matchmaking
  (\<open>matchmakingTelemetry.js\<close>) and the reader of \<open>cleanGameRecords.js\<close>.

  The two areas of the browser are maps, as \<open>safeStorage.js\<close> keeps them readable whatever the browser does. The
  clock, the fresh ids and the renderer the build configures are arguments. A mode named like a method every object
  inherits (\<open>toString\<close>) is left out.
\<close>

record page =
  localArea :: store
  sessionArea :: store

section \<open>The game being played\<close>

definition ACTIVE_GAME_SESSION_KEY :: string where "ACTIVE_GAME_SESSION_KEY = ''chess-study-active-game-session-v1''"
definition ACTIVE_GAME_VISIBLE_ROUTE_KEY :: string where
  "ACTIVE_GAME_VISIBLE_ROUTE_KEY = ''chess-study-active-game-visible-route-v1''"

definition active_route :: "json \<Rightarrow> bool" where
  "active_route v = (case v of JStr r \<Rightarrow> isActiveSessionRoute r | _ \<Rightarrow> False)"

definition setActiveGameSessionVisible :: "json \<Rightarrow> page \<Rightarrow> json \<times> page" where
  "setActiveGameSessionVisible route p =
     (if active_route route
      then (route, p\<lparr>sessionArea := (sessionArea p)(ACTIVE_GAME_VISIBLE_ROUTE_KEY \<mapsto> json_string route)\<rparr>)
      else (JNull, p\<lparr>sessionArea := (sessionArea p)(ACTIVE_GAME_VISIBLE_ROUTE_KEY := None)\<rparr>))"

definition safeContext :: "json \<Rightarrow> json" where
  "safeContext v = (if \<not> is_object v \<or> is_array v then JObj [] else JObj (spread_fields v))"

text \<open>\<open>stored\<close>: whether the browser keeps what it is given.\<close>

definition saveActiveGameSession ::
  "json_api \<Rightarrow> bool \<Rightarrow> int \<Rightarrow> json \<Rightarrow> json \<Rightarrow> bool \<Rightarrow> json \<Rightarrow> json \<Rightarrow> page \<Rightarrow> json \<times> page" where
  "saveActiveGameSession js stored now route game learningMode gameContext timeControlId p =
     (if \<not> active_route route \<or> \<not> truthy (field ''id'' game) then (JNull, p)
      else let snapshot = JObj [(''version'', JInt 1), (''route'', route), (''gameId'', field ''id'' game),
                 (''gameSnapshot'', game), (''learningMode'', JBool learningMode), (''gameContext'', safeContext gameContext),
                 (''timeControlId'', or_else_json timeControlId JNull), (''savedAt'', JInt now)]
           in (if stored then snapshot else JNull,
               p\<lparr>localArea := (localArea p)(ACTIVE_GAME_SESSION_KEY \<mapsto> stringify js snapshot)\<rparr>))"

definition primeActiveGameSession ::
  "json_api \<Rightarrow> bool \<Rightarrow> int \<Rightarrow> json \<Rightarrow> json \<Rightarrow> bool \<Rightarrow> json \<Rightarrow> page \<Rightarrow> json \<times> page" where
  "primeActiveGameSession js stored now game gameContext learningMode timeControlId p =
     (let (saved, q) = saveActiveGameSession js stored now (JStr ''game'') game learningMode gameContext timeControlId p
      in (saved, snd (setActiveGameSessionVisible (if truthy saved then JStr ''game'' else JNull) q)))"

text \<open>A text that does not parse is removed.\<close>

definition read_cleaning :: "json_api \<Rightarrow> string \<Rightarrow> json \<Rightarrow> store \<Rightarrow> json \<times> store" where
  "read_cleaning js key fallback st =
     (case st key of None \<Rightarrow> (fallback, st)
      | Some raw \<Rightarrow> (case parse js raw of None \<Rightarrow> (fallback, st(key := None)) | Some v \<Rightarrow> (v, st)))"

definition session_of :: "json \<Rightarrow> json" where
  "session_of snapshot =
     (if \<not> truthy snapshot \<or> field ''version'' snapshot \<noteq> JInt 1 then JNull
      else if \<not> active_route (field ''route'' snapshot) then JNull
      else case field ''gameId'' snapshot of
             JStr s \<Rightarrow> if s = [] then JNull
                      else with_fields [(''learningMode'', JBool (truthy (field ''learningMode'' snapshot))),
                             (''gameContext'', safeContext (field ''gameContext'' snapshot)),
                             (''timeControlId'', or_else_json (field ''timeControlId'' snapshot) JNull)]
                             (JObj (spread_fields snapshot))
           | _ \<Rightarrow> JNull)"

definition loadActiveGameSession :: "json_api \<Rightarrow> store \<Rightarrow> json \<times> store" where
  "loadActiveGameSession js st =
     (let (snapshot, st') = read_cleaning js ACTIVE_GAME_SESSION_KEY JNull st in (session_of snapshot, st'))"

definition loadVisibleActiveGameSession :: "json_api \<Rightarrow> page \<Rightarrow> json \<times> page" where
  "loadVisibleActiveGameSession js p =
     (let (snapshot, st) = loadActiveGameSession js (localArea p); q = p\<lparr>localArea := st\<rparr>
      in (if \<not> truthy snapshot then JNull
          else case sessionArea p ACTIVE_GAME_VISIBLE_ROUTE_KEY of
                 None \<Rightarrow> JNull
               | Some r \<Rightarrow> if field ''route'' snapshot = JStr r then snapshot else JNull, q))"

definition clearActiveGameSession :: "page \<Rightarrow> page" where
  "clearActiveGameSession p =
     p\<lparr>localArea := (localArea p)(ACTIVE_GAME_SESSION_KEY := None),
       sessionArea := (sessionArea p)(ACTIVE_GAME_VISIBLE_ROUTE_KEY := None)\<rparr>"

section \<open>Labels and renderer\<close>

definition combatRecordModeLabel :: "json \<Rightarrow> string option" where
  "combatRecordModeLabel r =
     (let variant = field ''variant'' r; mode = field ''roguelikeMode'' r in
      if \<not> (truthy (field ''log'' r) \<or> variant = JStr ''combat'' \<or> variant = JStr ''roguelike'' \<or> truthy mode) then None
      else if variant \<noteq> JStr ''roguelike'' \<and> \<not> truthy mode then Some (''Combat Chess '' @ [CHR 0xB7] @ '' Batalla libre'')
      else if mode = JStr ''campaign'' then Some (''Combat Chess '' @ [CHR 0xB7] @ '' Campa'' @ [CHR 0xF1] @ ''a'')
      else if mode = JStr ''endless'' then Some (''Combat Chess '' @ [CHR 0xB7] @ '' Torre infinita'')
      else if mode = JStr ''tower'' then Some (''Combat Chess '' @ [CHR 0xB7] @ '' Torre'')
      else if variant = JStr ''roguelike'' then Some (''Combat Chess '' @ [CHR 0xB7] @ '' Torre'') else Some (''Combat Chess '' @ [CHR 0xB7] @ '' Batalla libre''))"

definition GAME_MODE_LABELS :: "(string \<times> string) list" where
  "GAME_MODE_LABELS =
     [(''tournament'', ''Torneo''), (''practice'', (''Partida de pr'' @ [CHR 0xE1] @ ''ctica'')), (''casual'', (''Partida r'' @ [CHR 0xE1] @ ''pida'')),
      (''lab'', ''Laboratorio''), (''rescue'', ''Rescate legacy''), (''sudden'', (''Muerte s'' @ [CHR 0xFA] @ ''bita'')), (''cup'', ''Copa de 8''),
      (''boss'', ''Boss Run''), (''streak'', ''Racha''), (''nemesis-training'', (''N'' @ [CHR 0xE9] @ ''mesis''))]"

definition gameModeLabel :: "json \<Rightarrow> string" where
  "gameModeLabel r =
     (case combatRecordModeLabel r of Some s \<Rightarrow> s
      | None \<Rightarrow> (case map_of GAME_MODE_LABELS (json_string (or_else_json (field ''mode'' r) (JStr ''casual''))) of
                  Some s \<Rightarrow> s | None \<Rightarrow> ''Partida''))"

definition gameModeFromContext :: "bool \<Rightarrow> json \<Rightarrow> string" where
  "gameModeFromContext learningMode ctx =
     (if truthy (field ''suddenDeath'' ctx) then ''sudden''
      else if truthy (field ''rescue'' ctx) then ''rescue''
      else if truthy (field ''lab'' ctx) then ''lab''
      else if field ''runMode'' ctx = JStr ''cup'' then ''cup''
      else if field ''runMode'' ctx = JStr ''boss'' then ''boss''
      else if field ''runMode'' ctx = JStr ''streak'' then ''streak''
      else if learningMode then ''practice'' else ''casual'')"

definition BOARD_RENDERERS :: "string list" where "BOARD_RENDERERS = [''3d'', ''2d'']"

definition PROFILE_BOARD_RENDERER_KEY :: string where "PROFILE_BOARD_RENDERER_KEY = ''chess-study-board-renderer''"
definition DEVICE_BOARD_RENDERER_KEY :: string where
  "DEVICE_BOARD_RENDERER_KEY = ''chess-study-device-board-renderer-v1''"

definition getConfiguredBoardRendererDefault :: "string \<Rightarrow> string" where
  "getConfiguredBoardRendererDefault variable =
     (let configured = to_lower (trim variable) in if configured \<in> set BOARD_RENDERERS then configured else ''3d'')"

definition getBoardRenderer :: "string \<Rightarrow> store \<Rightarrow> string" where
  "getBoardRenderer variable st =
     (case st DEVICE_BOARD_RENDERER_KEY of
        Some r \<Rightarrow> if r \<in> set BOARD_RENDERERS then r
                 else if st PROFILE_BOARD_RENDERER_KEY = Some ''2d-explicit-v1'' then ''2d''
                 else if st PROFILE_BOARD_RENDERER_KEY = Some ''2d'' \<or> st PROFILE_BOARD_RENDERER_KEY = Some ''3d'' then ''3d''
                 else getConfiguredBoardRendererDefault variable
      | None \<Rightarrow> if st PROFILE_BOARD_RENDERER_KEY = Some ''2d-explicit-v1'' then ''2d''
                else if st PROFILE_BOARD_RENDERER_KEY = Some ''2d'' \<or> st PROFILE_BOARD_RENDERER_KEY = Some ''3d'' then ''3d''
                else getConfiguredBoardRendererDefault variable)"

section \<open>The score of the visit\<close>

definition MATTHIAS_SESSION_CONTEXT_KEY :: string where
  "MATTHIAS_SESSION_CONTEXT_KEY = ''chess-study-matthias-session-context-v1''"

text \<open>The counters are numbers of any value; the two lists hold texts.\<close>

record visit =
  vi_games :: jsnum
  vi_wins :: jsnum
  vi_draws :: jsnum
  vi_losses :: jsnum
  vi_puzzlesSolved :: jsnum
  vi_recentOutcomes :: "string list"
  vi_finishedGameIds :: "string list"

definition counter :: "json \<Rightarrow> jsnum" where
  "counter v = num_max (Fin 0) (or_zero (json_number v))"

definition cleanContext :: "json \<Rightarrow> visit" where
  "cleanContext row =
     \<lparr>vi_games = counter (field ''games'' row), vi_wins = counter (field ''wins'' row), vi_draws = counter (field ''draws'' row),
      vi_losses = counter (field ''losses'' row), vi_puzzlesSolved = counter (field ''puzzlesSolved'' row),
      vi_recentOutcomes = last_n 8 (filter (\<lambda>s. s \<in> set COMPLETED_GAME_OUTCOMES) (strings_in (elements (field ''recentOutcomes'' row)))),
      vi_finishedGameIds = last_n 24 (strings_in (elements (field ''finishedGameIds'' row)))\<rparr>"

definition visit_json :: "visit \<Rightarrow> json" where
  "visit_json v =
     JObj [(''games'', JNum (vi_games v)), (''wins'', JNum (vi_wins v)), (''draws'', JNum (vi_draws v)),
       (''losses'', JNum (vi_losses v)), (''puzzlesSolved'', JNum (vi_puzzlesSolved v)),
       (''recentOutcomes'', JArr (map JStr (vi_recentOutcomes v))), (''finishedGameIds'', JArr (map JStr (vi_finishedGameIds v)))]"

definition matthiasSessionContext :: "json_api \<Rightarrow> store \<Rightarrow> visit" where
  "matthiasSessionContext js st = cleanContext (read_json js MATTHIAS_SESSION_CONTEXT_KEY JNull st)"

definition one_if :: "bool \<Rightarrow> jsnum" where "one_if b = Fin (if b then 1 else 0)"

definition recordMatthiasSessionResult :: "json_api \<Rightarrow> json \<Rightarrow> json \<Rightarrow> store \<Rightarrow> visit \<times> store" where
  "recordMatthiasSessionResult js gameId outcome st =
     (let current = matthiasSessionContext js st in
      if \<not> truthy gameId \<or> \<not> isCompletedGameOutcome outcome then (current, st)
      else if json_string gameId \<in> set (vi_finishedGameIds current) then (current, st)
      else let next' = current\<lparr>vi_games := num_plus (vi_games current) (Fin 1),
                 vi_wins := num_plus (vi_wins current) (one_if (outcome = JStr ''win'')),
                 vi_draws := num_plus (vi_draws current) (one_if (outcome = JStr ''draw'')),
                 vi_losses := num_plus (vi_losses current) (one_if (outcome = JStr ''loss'')),
                 vi_recentOutcomes := last_n 8 (vi_recentOutcomes current @ [json_string outcome]),
                 vi_finishedGameIds := last_n 24 (vi_finishedGameIds current @ [json_string gameId])\<rparr>
           in (next', st(MATTHIAS_SESSION_CONTEXT_KEY \<mapsto> stringify js (visit_json next'))))"

definition recordMatthiasSessionPuzzle :: "json_api \<Rightarrow> store \<Rightarrow> visit \<times> store" where
  "recordMatthiasSessionPuzzle js st =
     (let current = matthiasSessionContext js st;
          next' = current\<lparr>vi_puzzlesSolved := num_plus (vi_puzzlesSolved current) (Fin 1)\<rparr>
      in (next', st(MATTHIAS_SESSION_CONTEXT_KEY \<mapsto> stringify js (visit_json next'))))"

definition clearMatthiasSessionContext :: "store \<Rightarrow> store" where
  "clearMatthiasSessionContext st = st(MATTHIAS_SESSION_CONTEXT_KEY := None)"

definition matthiasSessionLabel :: "json \<Rightarrow> string option" where
  "matthiasSessionLabel context =
     (let row = cleanContext context; n = (\<lambda>k. show_number k);
          games = (if truthy (JNum (vi_games row))
                   then [n (vi_games row) @ '' partida'' @ (if vi_games row = Fin 1 then [] else ''s'') @ ('' '' @ [CHR 0xB7] @ '' '') @ n (vi_wins row) @
                         (''V '' @ [CHR 0xB7] @ '' '') @ n (vi_draws row) @ (''T '' @ [CHR 0xB7] @ '' '') @ n (vi_losses row) @ ''D''] else []);
          puzzles = (if truthy (JNum (vi_puzzlesSolved row))
                     then [n (vi_puzzlesSolved row) @ '' puzzle'' @ (if vi_puzzlesSolved row = Fin 1 then [] else ''s'')] else [])
      in if games @ puzzles = [] then None else Some ((''Sesi'' @ [CHR 0xF3] @ ''n '' @ [CHR 0xB7] @ '' '') @ join_with ('' '' @ [CHR 0xB7] @ '' '') (games @ puzzles)))"

section \<open>The journal\<close>

definition ACTIVITY_KEY :: string where "ACTIVITY_KEY = ''chess-study-game-activity''"
definition MAX_EVENTS :: nat where "MAX_EVENTS = 160"
definition STATES :: "string list" where "STATES = [''started'', ''cancelled'', ''finished'']"
definition TERMINAL_STATES :: "string list" where "TERMINAL_STATES = [''cancelled'', ''finished'']"

definition loadGameActivity :: "json_api \<Rightarrow> store \<Rightarrow> json list" where
  "loadGameActivity js st = elements (read_json js ACTIVITY_KEY (JArr []) st)"

text \<open>What a caller gives, its absent fields filled with the defaults.\<close>

record activity =
  ac_gameId :: json
  ac_state :: json
  ac_mode :: json
  ac_modeRecord :: json
  ac_outcome :: json
  ac_difficulty :: json
  ac_detail :: json
  ac_date :: json
  ac_boardRenderer :: json

definition parameter :: "json \<Rightarrow> string \<Rightarrow> json \<Rightarrow> json" where
  "parameter options k d = (case field k options of JUndef \<Rightarrow> d | v \<Rightarrow> v)"

definition activity_of :: "json \<Rightarrow> activity" where
  "activity_of v =
     \<lparr>ac_gameId = field ''gameId'' v, ac_state = field ''state'' v, ac_mode = parameter v ''mode'' (JStr ''casual''),
      ac_modeRecord = parameter v ''modeRecord'' JNull, ac_outcome = parameter v ''outcome'' JNull,
      ac_difficulty = parameter v ''difficulty'' JNull, ac_detail = parameter v ''detail'' JNull,
      ac_date = parameter v ''date'' JNull, ac_boardRenderer = parameter v ''boardRenderer'' JNull\<rparr>"

definition known_state :: "string list \<Rightarrow> json \<Rightarrow> bool" where
  "known_state states v \<longleftrightarrow> v \<in> set (map JStr states)"

definition dedupe_key :: "json \<Rightarrow> json \<Rightarrow> json" where
  "dedupe_key gameId state = JStr (json_string gameId @ '':'' @ json_string state)"

text \<open>\<open>Number.isFinite(Number(v)) ? Number(v) : null\<close>.\<close>

definition finite_or_null :: "json \<Rightarrow> json" where
  "finite_or_null v = (case json_number v of Fin q \<Rightarrow> JNum (Fin q) | _ \<Rightarrow> JNull)"

text \<open>\<open>uid\<close> is the id made of the clock and a random text, \<open>now\<close> the date in ISO format, \<open>variable\<close> the renderer
  the build configures.\<close>

definition activity_event :: "string \<Rightarrow> string \<Rightarrow> string \<Rightarrow> store \<Rightarrow> activity \<Rightarrow> json" where
  "activity_event uid now variable st a =
     (let rec = or_else_json (ac_modeRecord a) (JObj [(''mode'', ac_mode a)]);
          candidate = nullish (ac_boardRenderer a) (if ac_mode a = JStr ''combat'' then JNull else JStr (getBoardRenderer variable st));
          renderer = (if candidate \<in> set (map JStr BOARD_RENDERERS) then candidate else JNull);
          label = gameModeLabel rec;
          tag = (if renderer = JStr ''3d'' then ('' '' @ [CHR 0xB7] @ '' 3D'') else if renderer = JStr ''2d'' then ('' '' @ [CHR 0xB7] @ '' 2D'') else [])
      in JObj [(''id'', JStr uid), (''dedupeKey'', dedupe_key (ac_gameId a) (ac_state a)), (''gameId'', ac_gameId a),
           (''date'', or_else_json (ac_date a) (JStr now)), (''state'', ac_state a), (''mode'', ac_mode a),
           (''modeLabel'', JStr (label @ tag)), (''outcome'', or_else_json (ac_outcome a) JNull),
           (''difficulty'', finite_or_null (ac_difficulty a)), (''detail'', or_else_json (ac_detail a) JNull),
           (''boardRenderer'', renderer)])"

definition game_events :: "json \<Rightarrow> json list \<Rightarrow> json list" where
  "game_events gameId list = filter (\<lambda>event. strict_eq (field ''gameId'' event) gameId) list"

definition recordGameActivity ::
  "json_api \<Rightarrow> string \<Rightarrow> string \<Rightarrow> string \<Rightarrow> json \<Rightarrow> page \<Rightarrow> json list \<times> page" where
  "recordGameActivity js uid now variable options p =
     (let a = activity_of options; list = loadGameActivity js (localArea p) in
      if \<not> truthy (ac_gameId a) \<or> \<not> known_state STATES (ac_state a) then (list, p)
      else if ac_state a = JStr ''finished'' \<and> \<not> isCompletedGameOutcome (ac_outcome a) then (list, p)
      else let gameEvents = game_events (ac_gameId a) list in
        if list_ex (\<lambda>event. known_state TERMINAL_STATES (field ''state'' event)) gameEvents then (list, p)
        else if list_ex (\<lambda>event. field ''dedupeKey'' event = dedupe_key (ac_gameId a) (ac_state a)) gameEvents then (list, p)
        else let next' = take MAX_EVENTS (activity_event uid now variable (localArea p) a # list);
                 q = p\<lparr>localArea := (localArea p)(ACTIVITY_KEY \<mapsto> stringify js (JArr next'))\<rparr>
             in (next', if ac_state a = JStr ''finished''
                        then q\<lparr>sessionArea := snd (recordMatthiasSessionResult js (ac_gameId a) (ac_outcome a) (sessionArea q))\<rparr>
                        else q))"

section \<open>Samples of the matchmaking, and the analysed games\<close>

definition MATCHMAKING_TELEMETRY_KEY :: string where
  "MATCHMAKING_TELEMETRY_KEY = ''chess-study-matchmaking-telemetry-v1''"
definition MAX_MATCHMAKING_SAMPLES :: nat where "MAX_MATCHMAKING_SAMPLES = 80"

text \<open>The state of the samples is their list: its version is always the current one.\<close>

definition loadMatchmakingTelemetry :: "json_api \<Rightarrow> store \<Rightarrow> json list" where
  "loadMatchmakingTelemetry js st =
     (let parsed = read_json js MATCHMAKING_TELEMETRY_KEY JNull st
      in if \<not> truthy parsed \<or> field ''version'' parsed \<noteq> JInt 1 \<or> \<not> is_array (field ''samples'' parsed) then []
         else last_n MAX_MATCHMAKING_SAMPLES (elements (field ''samples'' parsed)))"

definition matchmakingTelemetrySample :: "string \<Rightarrow> json \<Rightarrow> json option" where
  "matchmakingTelemetrySample now inp =
     (if \<not> truthy (field ''gameId'' inp) \<or> field ''adaptiveDifficulty'' inp \<noteq> JBool True then None
      else Some (JObj [(''gameId'', JStr (json_string (field ''gameId'' inp))), (''date'', or_else_json (field ''date'' inp) (JStr now)),
        (''outcome'', if isCompletedGameOutcome (field ''outcome'' inp) then field ''outcome'' inp else JNull),
        (''difficulty'', finite_or_null (field ''difficulty'' inp)),
        (''closeGame'', JBool (field ''closeGame'' inp = JBool True)),
        (''decisiveAdvantageEscaped'', JBool (field ''decisiveAdvantageEscaped'' inp = JBool True)),
        (''stalemateFromWinning'', JBool (field ''stalemateFromWinning'' inp = JBool True)),
        (''rematch'', JBool (field ''rematch'' inp = JBool True))]))"

definition recordMatchmakingTelemetry :: "json_api \<Rightarrow> string \<Rightarrow> json \<Rightarrow> store \<Rightarrow> json option \<times> store" where
  "recordMatchmakingTelemetry js now inp st =
     (case matchmakingTelemetrySample now inp of None \<Rightarrow> (None, st)
      | Some sample \<Rightarrow>
          let samples = filter (\<lambda>row. field ''gameId'' row \<noteq> field ''gameId'' sample) (loadMatchmakingTelemetry js st) @ [sample];
              next' = JObj [(''version'', JInt 1), (''samples'', JArr (last_n MAX_MATCHMAKING_SAMPLES samples))]
          in (Some sample, st(MATCHMAKING_TELEMETRY_KEY \<mapsto> stringify js next')))"

definition recordCompletedAdaptiveMatchmakingTelemetry ::
  "json_api \<Rightarrow> string \<Rightarrow> json \<Rightarrow> json \<Rightarrow> json \<Rightarrow> json \<Rightarrow> store \<Rightarrow> json option \<times> store" where
  "recordCompletedAdaptiveMatchmakingTelemetry js now gameContext finishedGame outcome endMeta st =
     (let yes = (\<lambda>k v. JBool (field k v = JBool True)) in
      recordMatchmakingTelemetry js now
        (JObj [(''gameId'', field ''id'' finishedGame), (''adaptiveDifficulty'', yes ''adaptiveDifficulty'' gameContext),
               (''outcome'', outcome), (''difficulty'', field ''difficulty'' finishedGame), (''closeGame'', yes ''closeGame'' endMeta),
               (''decisiveAdvantageEscaped'', yes ''decisiveAdvantageEscaped'' endMeta),
               (''stalemateFromWinning'', yes ''stalemateFromWinning'' endMeta), (''rematch'', yes ''rematch'' gameContext)]) st)"

definition loadCleanGameRecords :: "json_api \<Rightarrow> store \<Rightarrow> json" where
  "loadCleanGameRecords js st =
     (let parsed = read_json js ''chess-study-clean-games-v1'' (JObj []) st
      in if truthy parsed \<and> is_object parsed \<and> \<not> is_array parsed then parsed else JObj [])"

end
