(* ===== verification/GameActivityProps.thy ===== *)
theory GameActivityProps
  imports GameActivity JsonCodec
begin

text \<open>
  The journal of games is a monotone state machine: what a finished or cancelled game left in it is final, no milestone
  is written twice, and the score of the visit counts a game once.
\<close>

section \<open>The order of the milestones\<close>

definition terminal :: "json \<Rightarrow> bool" where
  "terminal event \<longleftrightarrow> known_state TERMINAL_STATES (field ''state'' event)"

text \<open>A milestone may stand above another of its game: the older is not terminal and is another milestone.\<close>

definition follows :: "json \<Rightarrow> json \<Rightarrow> bool" where
  "follows newer older \<longleftrightarrow>
     (strict_eq (field ''gameId'' older) (field ''gameId'' newer) \<longrightarrow>
        \<not> terminal older \<and> field ''state'' older \<noteq> field ''state'' newer)"

definition keyed :: "json \<Rightarrow> bool" where
  "keyed event \<longleftrightarrow> field ''dedupeKey'' event = dedupe_key (field ''gameId'' event) (field ''state'' event)"

definition wf_journal :: "json list \<Rightarrow> bool" where
  "wf_journal list \<longleftrightarrow> length list \<le> MAX_EVENTS \<and> list_all keyed list \<and> sorted_wrt follows list"

lemma event_fields [simp]:
  "field ''gameId'' (activity_event uid now variable st a) = ac_gameId a"
  "field ''state'' (activity_event uid now variable st a) = ac_state a"
  "field ''dedupeKey'' (activity_event uid now variable st a) = dedupe_key (ac_gameId a) (ac_state a)"
  "field ''outcome'' (activity_event uid now variable st a) = or_else_json (ac_outcome a) JNull"
  "field ''difficulty'' (activity_event uid now variable st a) = finite_or_null (ac_difficulty a)"
  by (simp_all add: activity_event_def Let_def)

lemma known_events: "list_ex P (game_events g list) \<longleftrightarrow> (\<exists>event \<in> set list. strict_eq (field ''gameId'' event) g \<and> P event)"
  by (auto simp: list_ex_iff game_events_def)

text \<open>What a call does: nothing, or a new milestone on top, which no older one of its game forbids.\<close>

lemma recorded_cases:
  assumes "recordGameActivity js uid now variable options p = (list', p')" "list_all keyed (loadGameActivity js (localArea p))"
  obtains (same) "list' = loadGameActivity js (localArea p)" "p' = p"
  | (new) event where "list' = take MAX_EVENTS (event # loadGameActivity js (localArea p))" "keyed event"
      "list_all (follows event) (loadGameActivity js (localArea p))"
      "localArea p' = (localArea p)(ACTIVITY_KEY \<mapsto> stringify js (JArr list'))"
      "event = activity_event uid now variable (localArea p) (activity_of options)"
      "known_state STATES (ac_state (activity_of options))"
proof -
  define a list where "a = activity_of options" and "list = loadGameActivity js (localArea p)"
  define blocked where "blocked \<longleftrightarrow> \<not> truthy (ac_gameId a) \<or> \<not> known_state STATES (ac_state a) \<or>
    (ac_state a = JStr ''finished'' \<and> \<not> isCompletedGameOutcome (ac_outcome a)) \<or>
    list_ex (\<lambda>event. known_state TERMINAL_STATES (field ''state'' event)) (game_events (ac_gameId a) list) \<or>
    list_ex (\<lambda>event. field ''dedupeKey'' event = dedupe_key (ac_gameId a) (ac_state a)) (game_events (ac_gameId a) list)"
  show ?thesis
  proof (cases blocked)
    case True
    then have "list' = list" "p' = p"
      using assms by (auto simp: recordGameActivity_def Let_def blocked_def a_def list_def split: if_splits)
    then show ?thesis using same by (simp add: list_def)
  next
    case False
    let ?e = "activity_event uid now variable (localArea p) a"
    have out: "list' = take MAX_EVENTS (?e # list)"
      "localArea p' = (localArea p)(ACTIVITY_KEY \<mapsto> stringify js (JArr list'))"
      using False assms by (auto simp: recordGameActivity_def Let_def blocked_def a_def list_def split: if_splits)
    have keep: "strict_eq (field ''gameId'' event) (ac_gameId a) \<Longrightarrow> \<not> terminal event \<and>
        field ''dedupeKey'' event \<noteq> dedupe_key (ac_gameId a) (ac_state a)" if "event \<in> set list" for event
      using False that by (auto simp: blocked_def known_events terminal_def)
    have "keyed event" if "event \<in> set list" for event using assms(2) that by (auto simp: list_def list_all_iff)
    then have "follows ?e event" if "event \<in> set list" for event
      using keep [OF that] that by (auto simp: follows_def keyed_def strict_eq_def)
    then have "list_all (follows ?e) list" by (simp add: list_all_iff)
    then show ?thesis using new [of ?e] out False by (simp add: a_def list_def blocked_def keyed_def)
  qed
qed

lemma wf_journal_new:
  "wf_journal list \<Longrightarrow> keyed event \<Longrightarrow> list_all (follows event) list \<Longrightarrow> wf_journal (take MAX_EVENTS (event # list))"
  by (auto simp: wf_journal_def MAX_EVENTS_def list_all_iff take_Cons' dest: in_set_takeD intro: sorted_wrt_take)

lemma closed_is_final:
  "event \<in> set (loadGameActivity js (localArea p)) \<Longrightarrow> terminal event \<Longrightarrow>
   strict_eq (field ''gameId'' event) (field ''gameId'' options) \<Longrightarrow>
   recordGameActivity js uid now variable options p = (loadGameActivity js (localArea p), p)"
  by (auto simp: recordGameActivity_def Let_def known_events terminal_def activity_of_def)

text \<open>A game whose difficulty nobody gives is written as one at difficulty 0: \<open>Number(null)\<close> is 0, so the \<open>null\<close>
  the code keeps for it is never written.\<close>

lemma missing_difficulty_is_zero:
  "field ''difficulty'' options = JUndef \<Longrightarrow>
   field ''difficulty'' (activity_event uid now variable st (activity_of options)) = JInt 0"
  by (simp add: activity_of_def parameter_def finite_or_null_def json_number_def)

text \<open>C37: The journal is a monotone state machine: from a well-formed journal (at most 160 milestones, a game's final
one above all its others, no milestone twice) every call leaves a well-formed journal, which is what the next read
returns; a call about a game that already has a final milestone changes nothing at all, score of the visit included;
and any other call either changes nothing or puts one milestone of the game on top.\<close>

theorem journal_monotone:
  assumes "wf_journal (loadGameActivity js (localArea p))"
    and "recordGameActivity js uid now variable options p = (list', p')" and "survives js (JArr list')"
  shows "wf_journal list' \<and> (list' = loadGameActivity js (localArea p) \<or>
           loadGameActivity js (localArea p') = list' \<and>
           (\<exists>event. list' = take 160 (event # loadGameActivity js (localArea p)) \<and> field ''gameId'' event = field ''gameId'' options \<and>
              field ''state'' event = field ''state'' options)) \<and>
         (list_ex (\<lambda>e. terminal e \<and> strict_eq (field ''gameId'' e) (field ''gameId'' options)) (loadGameActivity js (localArea p)) \<longrightarrow>
           list' = loadGameActivity js (localArea p) \<and> p' = p)"
proof (intro conjI impI)
  have keyed: "list_all keyed (loadGameActivity js (localArea p))" using assms(1) by (simp add: wf_journal_def)
  show "wf_journal list'"
    using assms(2) keyed by (rule recorded_cases) (use assms(1) wf_journal_new in auto)
  show "list' = loadGameActivity js (localArea p) \<or> loadGameActivity js (localArea p') = list' \<and>
      (\<exists>event. list' = take 160 (event # loadGameActivity js (localArea p)) \<and> field ''gameId'' event = field ''gameId'' options \<and>
         field ''state'' event = field ''state'' options)"
    using assms(2) keyed
  proof (rule recorded_cases)
    fix event assume new: "list' = take MAX_EVENTS (event # loadGameActivity js (localArea p))"
      "localArea p' = (localArea p)(ACTIVITY_KEY \<mapsto> stringify js (JArr list'))"
      "event = activity_event uid now variable (localArea p) (activity_of options)"
    then have "loadGameActivity js (localArea p') = list'"
      using read_json_written [OF assms(3), of ACTIVITY_KEY "JArr []"] by (simp add: loadGameActivity_def)
    then show ?thesis using new(1,3) by (auto simp: MAX_EVENTS_def activity_of_def)
  qed simp
next
  assume "list_ex (\<lambda>e. terminal e \<and> strict_eq (field ''gameId'' e) (field ''gameId'' options)) (loadGameActivity js (localArea p))"
  then show "list' = loadGameActivity js (localArea p)" "p' = p"
    using closed_is_final [of _ js p options uid now variable] assms(2) by (auto simp: list_ex_iff)
qed

text \<open>A game that starts on a page that remembers nothing.\<close>

theorem journal_monotone_witness:
  "wf_journal (fst (recordGameActivity coded_json ''e1'' ''now'' [] (JObj [(''gameId'', JStr ''g1''), (''state'', JStr ''started'')])
     \<lparr>localArea = Map.empty, sessionArea = Map.empty\<rparr>))"
proof -
  let ?p = "\<lparr>localArea = Map.empty, sessionArea = Map.empty\<rparr>" and ?o = "JObj [(''gameId'', JStr ''g1''), (''state'', JStr ''started'')]"
  obtain list p' where r: "recordGameActivity coded_json ''e1'' ''now'' [] ?o ?p = (list, p')" by fastforce
  have "wf_journal (loadGameActivity coded_json (localArea ?p))" by (simp add: loadGameActivity_def read_json_def wf_journal_def)
  from journal_monotone [OF this r survives_coded] show ?thesis by (simp add: r)
qed

end
