(* ===== verification/OpponentRating.thy ===== *)
theory OpponentRating
  imports JsArith
begin

text \<open>
  The scale of \<open>playerRating.js\<close>: the strength of the machine at a difficulty, and back. Both directions run through
  the same anchors, so what a scale promises is the locale \<open>rating_scale\<close>, interpreted on the anchors and on the
  anchors turned around.
\<close>

section \<open>The scale\<close>

definition CPU_RATING_ANCHORS :: "(int \<times> int) list" where
  "CPU_RATING_ANCHORS = [(0, 350), (20, 850), (45, 1200), (60, 1375), (70, 1450), (90, 1600), (100, 1800)]"

definition interpolate :: "rat \<Rightarrow> int \<Rightarrow> int \<Rightarrow> int \<Rightarrow> int \<Rightarrow> rat" where
  "interpolate x l le r re =
     fadd (of_int le) (fmul (of_int (re - le)) (fdiv (fsub x (of_int l)) (of_int (r - l))))"

text \<open>The loop over the anchors, from the first.\<close>

fun scale_from :: "rat \<Rightarrow> (int \<times> int) list \<Rightarrow> int" where
  "scale_from x [] = 0"
| "scale_from x [(l, le)] = le"
| "scale_from x ((l, le) # (r, re) # rest) =
     (if x \<le> of_int r then js_round (interpolate x l le r re) else scale_from x ((r, re) # rest))"

definition cpuRatingForDifficulty :: "jsnum \<Rightarrow> int" where
  "cpuRatingForDifficulty rawDifficulty = scale_from (clamp_num 0 100 (or_zero rawDifficulty)) CPU_RATING_ANCHORS"

definition turned :: "(int \<times> int) list \<Rightarrow> (int \<times> int) list" where
  "turned = map prod.swap"

definition difficultyForCpuRating :: "jsnum \<Rightarrow> int" where
  "difficultyForCpuRating rawRating =
     (let target = (case rawRating of Fin q \<Rightarrow> q | _ \<Rightarrow> of_int (snd (hd CPU_RATING_ANCHORS)))
      in if target \<le> of_int (snd (hd CPU_RATING_ANCHORS)) then fst (hd CPU_RATING_ANCHORS)
         else if target \<le> of_int (snd (last CPU_RATING_ANCHORS))
         then clamp 0 100 (scale_from target (turned CPU_RATING_ANCHORS))
         else fst (last CPU_RATING_ANCHORS))"

section \<open>Interpolation is close and monotone\<close>

lemma fl_close: "\<bar>x\<bar> \<le> 10000 \<Longrightarrow> \<bar>fl x - x\<bar> \<le> 1 / 10 ^ 9"
  using fl_error [of x] by (simp add: field_simps)

text \<open>The exact line through two points.\<close>

definition line :: "rat \<Rightarrow> int \<Rightarrow> int \<Rightarrow> int \<Rightarrow> int \<Rightarrow> rat" where
  "line x l le r re = of_int le + of_int (re - le) * ((x - of_int l) / of_int (r - l))"

lemma interpolate_close:
  assumes "of_int l \<le> x" "x \<le> of_int r" "l < r" "0 \<le> l" "r \<le> 2000" "0 \<le> le" "le \<le> re" "re \<le> 2000"
  shows "\<bar>interpolate x l le r re - line x l le r re\<bar> \<le> 1 / 10 ^ 4"
proof -
  define e u w d s v t where "e = (1 / 10 ^ 9 :: rat)" and "u = x - of_int l" and "w = (of_int (r - l) :: rat)"
    and "d = (of_int (re - le) :: rat)" and "s = fl u" and "v = s / w" and "t = fl v"
  have e: "0 < e" "e \<le> 1" by (simp_all add: e_def)
  have w: "1 \<le> w" using assms(3) by (simp add: w_def)
  have d: "0 \<le> d" "d \<le> 2000" and le: "0 \<le> (of_int le :: rat)" "(of_int le :: rat) \<le> 2000"
    using assms(6-8) by (simp_all add: d_def)
  have lr: "(of_int l :: rat) \<ge> 0" "(of_int r :: rat) \<le> 2000" using assms(4,5) by simp_all
  have u: "0 \<le> u" "u \<le> w" "u \<le> 2000" using assms(1,2) lr by (simp_all add: u_def w_def)
  have s: "\<bar>s - u\<bar> \<le> e" "0 \<le> s" using fl_close [of u] fl_nonneg u by (simp_all add: s_def e_def)
  have "\<bar>v - u / w\<bar> = \<bar>s - u\<bar> / w" using w by (simp add: v_def abs_divide flip: diff_divide_distrib)
  also have "\<dots> \<le> e / 1" using s(1) w e(1) by (intro frac_le) simp_all
  finally have v: "\<bar>v - u / w\<bar> \<le> e" "0 \<le> v" using s(2) w by (simp_all add: v_def)
  have uw: "0 \<le> u / w" "u / w \<le> 1" using u w by simp_all
  have v1: "v \<le> 2" using v(1) uw(2) e by linarith
  have t: "\<bar>t - v\<bar> \<le> e" "0 \<le> t" using fl_close [of v] fl_nonneg v(2) v1 by (simp_all add: t_def e_def)
  have tu: "\<bar>t - u / w\<bar> \<le> 2 * e" using t(1) v(1) by linarith
  have "\<bar>d * t - d * (u / w)\<bar> = d * \<bar>t - u / w\<bar>"
    using d(1) abs_mult [of d "t - u / w"] by (simp only: right_diff_distrib abs_of_nonneg)
  also have "\<dots> \<le> 2000 * (2 * e)" using tu d by (intro mult_mono) simp_all
  finally have dt: "\<bar>d * t - d * (u / w)\<bar> \<le> 4000 * e" by simp
  have t2: "t \<le> 3" using tu uw(2) e by linarith
  have dt2: "0 \<le> d * t" "d * t \<le> 2000 * 3" using d t(2) t2 by (simp, intro mult_mono, simp_all)
  have m: "\<bar>fl (d * t) - d * t\<bar> \<le> e" using fl_close [of "d * t"] dt2 by (simp add: e_def)
  have "\<bar>of_int le + fl (d * t)\<bar> \<le> 10000" using m dt2 le e by linarith
  from fl_close [OF this] have "\<bar>fl (of_int le + fl (d * t)) - (of_int le + fl (d * t))\<bar> \<le> e" by (simp add: e_def)
  then have "\<bar>fl (of_int le + fl (d * t)) - (of_int le + d * (u / w))\<bar> \<le> 4002 * e" using m dt by linarith
  moreover have "4002 * e \<le> 1 / 10 ^ 4" by (simp add: e_def)
  moreover have "interpolate x l le r re = fl (of_int le + fl (d * t))"
    by (simp add: interpolate_def fadd_def fmul_def fdiv_def fsub_def d_def t_def v_def s_def u_def w_def)
  moreover have "line x l le r re = of_int le + d * (u / w)" by (simp add: line_def d_def u_def w_def)
  ultimately show ?thesis by simp
qed

lemma interpolate_mono:
  assumes "x \<le> y" "l < r" "le \<le> re"
  shows "interpolate x l le r re \<le> interpolate y l le r re"
proof -
  have "fsub x (of_int l) \<le> fsub y (of_int l)" using assms(1) by (rule fsub_mono) simp
  then have "fdiv (fsub x (of_int l)) (of_int (r - l)) \<le> fdiv (fsub y (of_int l)) (of_int (r - l))"
    unfolding fdiv_def using assms(2) by (intro fl_mono divide_right_mono) auto
  then show ?thesis
    unfolding interpolate_def fmul_def fadd_def using assms(3) by (intro fl_mono add_left_mono mult_left_mono) auto
qed

text \<open>A rounded value close to an exact one.\<close>

lemma js_round_bounds: "q - 1 / 2 < of_int (js_round q)" "of_int (js_round q) \<le> q + 1 / 2"
  unfolding js_round_def by linarith+

section \<open>What a scale promises\<close>

text \<open>Anchors that rise in both coordinates, and a slope no line of them exceeds.\<close>

fun rising :: "(int \<times> int) list \<Rightarrow> bool" where
  "rising [] \<longleftrightarrow> False"
| "rising [(l, le)] \<longleftrightarrow> 0 \<le> l \<and> l \<le> 2000 \<and> 0 \<le> le \<and> le \<le> 2000"
| "rising ((l, le) # (r, re) # rest) \<longleftrightarrow> 0 \<le> l \<and> l < r \<and> 0 \<le> le \<and> le \<le> re \<and> rising ((r, re) # rest)"

fun slope_at_most :: "int \<Rightarrow> (int \<times> int) list \<Rightarrow> bool" where
  "slope_at_most k ((l, le) # (r, re) # rest) \<longleftrightarrow> re - le \<le> k * (r - l) \<and> slope_at_most k ((r, re) # rest)"
| "slope_at_most k _ \<longleftrightarrow> True"

text \<open>The exact curve through the anchors.\<close>

fun exact_scale :: "rat \<Rightarrow> (int \<times> int) list \<Rightarrow> rat" where
  "exact_scale x [] = 0"
| "exact_scale x [(l, le)] = of_int le"
| "exact_scale x ((l, le) # (r, re) # rest) = (if x \<le> of_int r then line x l le r re else exact_scale x ((r, re) # rest))"

lemma rising_head: "rising ((l, le) # rest) \<Longrightarrow> 0 \<le> l \<and> l \<le> 2000 \<and> 0 \<le> le \<and> le \<le> 2000"
  by (induction rest arbitrary: l le) (auto, fastforce+)

lemma scale_close:
  "rising ((l, le) # rest) \<Longrightarrow> of_int l \<le> x \<Longrightarrow>
   \<bar>of_int (scale_from x ((l, le) # rest)) - exact_scale x ((l, le) # rest)\<bar> \<le> 1 / 2 + 1 / 10 ^ 4"
proof (induction rest arbitrary: l le)
  case (Cons p rest)
  obtain r re where p: "p = (r, re)" by (cases p)
  have ok: "0 \<le> l" "l < r" "0 \<le> le" "le \<le> re" "rising ((r, re) # rest)" using Cons.prems(1) p by simp_all
  show ?case
  proof (cases "x \<le> of_int r")
    case True
    have "\<bar>interpolate x l le r re - line x l le r re\<bar> \<le> 1 / 10 ^ 4"
      using rising_head [OF ok(5)] ok True Cons.prems(2) by (intro interpolate_close) auto
    then have "\<bar>of_int (js_round (interpolate x l le r re)) - line x l le r re\<bar> \<le> 1 / 2 + 1 / 10 ^ 4"
      using js_round_bounds [of "interpolate x l le r re"] by linarith
    then show ?thesis using True p by simp
  next
    case False
    then show ?thesis using Cons.IH [OF ok(5)] p by simp
  qed
qed simp

lemma line_ends: "l < r \<Longrightarrow> line (of_int l) l le r re = of_int le" "l < r \<Longrightarrow> line (of_int r) l le r re = of_int re"
  by (simp_all add: line_def flip: of_int_diff)

lemma line_slope:
  assumes "x \<le> y" "l < r" "le \<le> re" "re - le \<le> k * (r - l)"
  shows "line x l le r re \<le> line y l le r re" "line y l le r re - line x l le r re \<le> of_int k * (y - x)"
proof -
  let ?w = "of_int (r - l) :: rat" and ?d = "of_int (re - le) :: rat"
  have w: "0 < ?w" and d: "0 \<le> ?d" and k: "?d \<le> of_int k * ?w" using assms(2-4) by (simp_all flip: of_int_diff of_int_mult)
  have diff: "line y l le r re - line x l le r re = ?d * (y - x) / ?w"
    by (simp add: line_def diff_divide_distrib [symmetric] flip: right_diff_distrib)
  have "0 \<le> ?d * (y - x) / ?w" using w d assms(1) by simp
  then show "line x l le r re \<le> line y l le r re" using diff by linarith
  have "?d * (y - x) \<le> (of_int k * ?w) * (y - x)" using k assms(1) by (intro mult_right_mono) simp_all
  then have "?d * (y - x) / ?w \<le> of_int k * (y - x)" using w by (simp add: divide_le_eq mult_ac)
  then show "line y l le r re - line x l le r re \<le> of_int k * (y - x)" using diff by simp
qed

lemma exact_head: "rising ((l, le) # rest) \<Longrightarrow> exact_scale (of_int l) ((l, le) # rest) = of_int le"
  by (cases rest) (auto simp: line_ends)

lemma exact_slope:
  "rising ((l, le) # rest) \<Longrightarrow> slope_at_most k ((l, le) # rest) \<Longrightarrow> 0 \<le> k \<Longrightarrow> of_int l \<le> x \<Longrightarrow> x \<le> y \<Longrightarrow>
   exact_scale x ((l, le) # rest) \<le> exact_scale y ((l, le) # rest) \<and>
   exact_scale y ((l, le) # rest) - exact_scale x ((l, le) # rest) \<le> of_int k * (y - x)"
proof (induction rest arbitrary: l le x)
  case Nil
  then show ?case by simp
next
  case (Cons p rest)
  obtain r re where p: "p = (r, re)" by (cases p)
  have ok: "l < r" "le \<le> re" "rising ((r, re) # rest)" "re - le \<le> k * (r - l)" "slope_at_most k ((r, re) # rest)"
    using Cons.prems(1,2) p by simp_all
  consider "y \<le> of_int r" | "x \<le> of_int r" "of_int r < y" | "of_int r < x" by linarith
  then show ?case
  proof cases
    case 1
    then show ?thesis using Cons.prems(5) line_slope [OF Cons.prems(5) ok(1,2,4)] p by simp
  next
    case 2
    have "line x l le r re \<le> of_int re" "of_int re - line x l le r re \<le> of_int k * (of_int r - x)"
      using line_slope [OF 2(1) ok(1,2,4)] line_ends(2) [OF ok(1)] by simp_all
    moreover have "of_int re \<le> exact_scale y ((r, re) # rest)" "exact_scale y ((r, re) # rest) - of_int re \<le> of_int k * (y - of_int r)"
      using Cons.IH [OF ok(3,5) Cons.prems(3), of "of_int r"] 2 exact_head [OF ok(3)] by simp_all
    ultimately show ?thesis using 2 p by (simp add: algebra_simps)
  next
    case 3
    then show ?thesis using Cons.IH [OF ok(3,5) Cons.prems(3), of x] Cons.prems(5) p by simp
  qed
qed

text \<open>Strictly rising anchors, turned around, are the inverse curve.\<close>

fun climbing :: "(int \<times> int) list \<Rightarrow> bool" where
  "climbing ((l, le) # (r, re) # rest) \<longleftrightarrow> l < r \<and> le < re \<and> climbing ((r, re) # rest)"
| "climbing _ \<longleftrightarrow> True"

lemma line_inverse: "l < r \<Longrightarrow> le < re \<Longrightarrow> line (line x l le r re) le l re r = x"
  by (simp add: line_def flip: of_int_diff)

lemma line_above: "l < r \<Longrightarrow> le < re \<Longrightarrow> of_int l < x \<Longrightarrow> of_int le < line x l le r re"
  by (simp add: line_def flip: of_int_diff)

lemma exact_above:
  "climbing ((l, le) # rest) \<Longrightarrow> of_int l < x \<Longrightarrow> x \<le> of_int (fst (last ((l, le) # rest))) \<Longrightarrow> of_int le < exact_scale x ((l, le) # rest)"
proof (induction rest arbitrary: l le)
  case (Cons p rest)
  obtain r re where p: "p = (r, re)" by (cases p)
  have ok: "l < r" "le < re" "climbing ((r, re) # rest)" using Cons.prems(1) p by simp_all
  show ?case
  proof (cases "x \<le> of_int r")
    case True
    then show ?thesis using line_above [OF ok(1,2) Cons.prems(2)] p by simp
  next
    case False
    then have "of_int re < exact_scale x ((r, re) # rest)" using Cons.IH [OF ok(3)] Cons.prems(3) p by simp
    then show ?thesis using False ok(2) p by simp
  qed
qed simp

lemma exact_inverse:
  "climbing ((l, le) # rest) \<Longrightarrow> of_int l \<le> x \<Longrightarrow> x \<le> of_int (fst (last ((l, le) # rest))) \<Longrightarrow>
   exact_scale (exact_scale x ((l, le) # rest)) (turned ((l, le) # rest)) = x"
proof (induction rest arbitrary: l le)
  case Nil
  then show ?case by (simp add: turned_def)
next
  case (Cons p rest)
  obtain r re where p: "p = (r, re)" by (cases p)
  have ok: "l < r" "le < re" "climbing ((r, re) # rest)" using Cons.prems(1) p by simp_all
  show ?case
  proof (cases "x \<le> of_int r")
    case True
    have "line x l le r re \<le> of_int re"
      using line_slope(1) [OF True ok(1), of le re "re - le"] ok line_ends(2) [OF ok(1)] by (simp add: mult_le_cancel_left1)
    then show ?thesis using True p line_inverse [OF ok(1,2)] by (simp add: turned_def)
  next
    case False
    then have "of_int re < exact_scale x ((r, re) # rest)" using exact_above [OF ok(3)] Cons.prems(3) p by simp
    then show ?thesis using False p Cons.IH [OF ok(3)] Cons.prems(3) by (simp add: turned_def)
  qed
qed

lemma rising_last: "rising ((r, re) # q # qs) \<Longrightarrow> r < fst (last (q # qs))"
proof (induction qs arbitrary: r re q)
  case (Cons q' qs)
  obtain x y where "q = (x, y)" by (cases q)
  then show ?case using Cons.IH [of x y q'] Cons.prems by simp
qed (auto split: prod.splits)

lemma exact_end:
  "rising ((l, le) # rest) \<Longrightarrow> exact_scale (of_int (fst (last ((l, le) # rest)))) ((l, le) # rest) = of_int (snd (last ((l, le) # rest)))"
proof (induction rest arbitrary: l le)
  case (Cons p rest)
  obtain r re where p: "p = (r, re)" by (cases p)
  have ok: "l < r" "rising ((r, re) # rest)" using Cons.prems p by simp_all
  show ?case
  proof (cases rest)
    case Nil
    then show ?thesis using p line_ends(2) [OF ok(1)] by simp
  next
    case (Cons q qs)
    have "r < fst (last rest)" using rising_last ok(2) Cons by simp
    then show ?thesis using Cons.IH [OF ok(2)] Cons p by simp
  qed
qed simp

lemma turned_turned: "turned (turned anchors) = anchors"
  by (simp add: turned_def comp_def)

section \<open>Scales that undo each other\<close>

locale rating_scale =
  fixes anchors :: "(int \<times> int) list" and slope :: int
  assumes some_anchor: "anchors \<noteq> []"
    and anchors_rise: "rising anchors"
    and anchors_climb: "climbing anchors"
    and steepness: "slope_at_most slope anchors"
    and slope_nonneg: "0 \<le> slope"
begin

lemma head: obtains l le rest where "anchors = (l, le) # rest"
  using some_anchor by (cases anchors) auto

lemma scale_is_close:
  assumes "of_int (fst (hd anchors)) \<le> x"
  shows "\<bar>of_int (scale_from x anchors) - exact_scale x anchors\<bar> \<le> 1 / 2 + 1 / 10 ^ 4"
  by (rule head) (use scale_close anchors_rise assms in auto)

lemma exact_rises:
  assumes "of_int (fst (hd anchors)) \<le> x" "x \<le> y"
  shows "exact_scale x anchors \<le> exact_scale y anchors"
    and "exact_scale y anchors - exact_scale x anchors \<le> of_int slope * (y - x)"
  by (rule head; use exact_slope anchors_rise steepness slope_nonneg assms in auto)+

lemma exact_lipschitz:
  assumes "of_int (fst (hd anchors)) \<le> x" "of_int (fst (hd anchors)) \<le> y"
  shows "\<bar>exact_scale x anchors - exact_scale y anchors\<bar> \<le> of_int slope * \<bar>x - y\<bar>"
proof (cases "x \<le> y")
  case True
  then show ?thesis using exact_rises [OF assms(1) True] by (simp add: abs_if)
next
  case False
  then show ?thesis using exact_rises [OF assms(2), of x] by (simp add: abs_if)
qed

lemma exact_undone:
  assumes "of_int (fst (hd anchors)) \<le> x" "x \<le> of_int (fst (last anchors))"
  shows "exact_scale (exact_scale x anchors) (turned anchors) = x"
  by (rule head) (use exact_inverse anchors_climb assms in auto)

text \<open>From anchor to anchor, the curve stays between the ends.\<close>

lemma exact_first: "exact_scale (of_int (fst (hd anchors))) anchors = of_int (snd (hd anchors))"
  by (rule head) (use exact_head anchors_rise in auto)

lemma exact_last: "exact_scale (of_int (fst (last anchors))) anchors = of_int (snd (last anchors))"
  by (rule head) (use exact_end anchors_rise in auto)

end

locale inverse_scales = rating_scale + undo: rating_scale "turned anchors" slope' for slope'
begin

lemma round_trip:
  assumes t: "of_int (snd (hd anchors)) \<le> t" "t \<le> of_int (snd (last anchors))"
    and d: "d = max (fst (hd anchors)) (min (fst (last anchors)) (scale_from t (turned anchors)))"
  shows "\<bar>of_int (scale_from (of_int d) anchors) - t\<bar> \<le> (of_int slope + 1) * (1 / 2 + 1 / 10 ^ 4)"
proof -
  let ?e = "1 / 2 + 1 / 10 ^ 4 :: rat" and ?x = "exact_scale t (turned anchors)"
  have ends: "fst (hd (turned anchors)) = snd (hd anchors)" "fst (last (turned anchors)) = snd (last anchors)"
    "snd (hd (turned anchors)) = fst (hd anchors)" "snd (last (turned anchors)) = fst (last anchors)"
    using some_anchor by (simp_all add: turned_def hd_map last_map)
  have x: "of_int (fst (hd anchors)) \<le> ?x" "?x \<le> of_int (fst (last anchors))"
    using undo.exact_rises(1) [of "of_int (snd (hd anchors))" t] undo.exact_rises(1) [of t "of_int (snd (last anchors))"]
      undo.exact_first undo.exact_last t ends by simp_all
  have "\<bar>of_int (scale_from t (turned anchors)) - ?x\<bar> \<le> ?e" using undo.scale_is_close [of t] t(1) ends by simp
  then have near: "\<bar>of_int d - ?x\<bar> \<le> ?e" "of_int (fst (hd anchors)) \<le> (of_int d :: rat)"
    unfolding d using x by (auto simp: abs_le_iff max_def min_def split: if_splits)
  have "exact_scale ?x anchors = t" using undo.exact_undone [of t] t ends by (simp add: turned_turned)
  then have "\<bar>exact_scale (of_int d) anchors - t\<bar> \<le> of_int slope * \<bar>of_int d - ?x\<bar>"
    using exact_lipschitz [OF near(2) x(1)] by simp
  also have "\<dots> \<le> of_int slope * ?e" using near(1) slope_nonneg by (intro mult_left_mono) simp_all
  finally have "\<bar>of_int (scale_from (of_int d) anchors) - t\<bar> \<le> of_int slope * ?e + ?e"
    using scale_is_close [OF near(2)] by linarith
  then show ?thesis by (simp only: distrib_right mult_1)
qed

end

interpretation opponent: inverse_scales CPU_RATING_ANCHORS 25 1
  by unfold_locales (simp_all add: CPU_RATING_ANCHORS_def turned_def)

lemma opponent_difficulty_bounds: "0 \<le> difficultyForCpuRating n" "difficultyForCpuRating n \<le> 100"
  by (auto simp: difficultyForCpuRating_def Let_def CPU_RATING_ANCHORS_def clamp_def)

lemma opponent_near:
  assumes "350 \<le> t" "t \<le> 1800"
  shows "\<bar>of_int (cpuRatingForDifficulty (Fin (of_int (difficultyForCpuRating (Fin t))))) - t\<bar> \<le> 131 / 10"
proof -
  define d where "d = max 0 (min 100 (scale_from t (turned CPU_RATING_ANCHORS)))"
  have ends: "fst (hd CPU_RATING_ANCHORS) = 0" "fst (last CPU_RATING_ANCHORS) = 100"
    "snd (hd CPU_RATING_ANCHORS) = 350" "snd (last CPU_RATING_ANCHORS) = 1800" by (simp_all add: CPU_RATING_ANCHORS_def)
  have near: "\<bar>of_int (scale_from (of_int d) CPU_RATING_ANCHORS) - t\<bar> \<le> 26 * (1 / 2 + 1 / 10 ^ 4)"
    using opponent.round_trip [of t d] assms ends by (simp add: d_def)
  show ?thesis
  proof (cases "t = 350")
    case True
    then have "difficultyForCpuRating (Fin t) = 0" using ends by (simp add: difficultyForCpuRating_def Let_def)
    then show ?thesis using True opponent.scale_is_close [of 0] opponent.exact_first ends
      by (simp add: cpuRatingForDifficulty_def clamp_num_def or_zero_def)
  next
    case False
    then have "difficultyForCpuRating (Fin t) = d" using assms ends by (simp add: difficultyForCpuRating_def Let_def d_def clamp_def)
    moreover have "clamp_num 0 100 (or_zero (Fin (of_int d))) = of_int d" by (auto simp: clamp_num_def or_zero_def d_def)
    ultimately show ?thesis using near by (simp add: cpuRatingForDifficulty_def)
  qed
qed

end
