(* ===== verification/PlayerRating.thy ===== *)
theory PlayerRating
  imports OpponentRating GameActivity SpacedReview
begin

text \<open>
  The strength of the player (\<open>playerRating.js\<close>): the stored rating and its history, the change after a game, the
  correction for the quality of play, the tiers, and the difficulty of the next opponent.

  The rating a profile stores, and the states the operations are given, are objects of any shape; an operation that
  would throw a \<open>TypeError\<close> answers \<open>None\<close>. \<open>pow\<close> is \<open>Math.pow(10, x)\<close>, whose digits the language leaves to the
  engine. The profile's storage is a map; what a write announces is in \<open>ProfileKeys\<close>.
\<close>

section \<open>The stored rating\<close>

definition RATING_KEY :: string where "RATING_KEY = ''chess-study-player-rating''"
definition RATING_HISTORY_KEY :: string where "RATING_HISTORY_KEY = ''chess-study-rating-history''"
definition MAX_HISTORY_POINTS :: nat where "MAX_HISTORY_POINTS = 200"
definition DEFAULT_RATING :: int where "DEFAULT_RATING = 400"
definition K_FACTOR :: int where "K_FACTOR = 24"
definition PROVISIONAL_K_FACTOR :: int where "PROVISIONAL_K_FACTOR = 56"
definition PROVISIONAL_GAMES :: int where "PROVISIONAL_GAMES = 5"

definition processed_ids :: "json list \<Rightarrow> json list" where
  "processed_ids vs = take 256 (js_uniq [] (filter truthy vs))"

definition processedGameIds :: "json \<Rightarrow> json list" where
  "processedGameIds v = processed_ids (elements v)"

definition activeRatingGameId :: "json_api \<Rightarrow> store \<Rightarrow> json \<times> store" where
  "activeRatingGameId js st =
     (let (session, st') = loadActiveGameSession js st in (or_else_json (field ''gameId'' session) JNull, st'))"

definition emptyRating :: json where
  "emptyRating = JObj [(''rating'', JInt DEFAULT_RATING), (''games'', JInt 0), (''processedGameIds'', JArr []),
     (''qualityAdjustedGameIds'', JArr [])]"

definition rating_of :: "json \<Rightarrow> json" where
  "rating_of parsed =
     (if \<not> is_object parsed then emptyRating
      else JObj [(''rating'', nullish (field ''rating'' parsed) (JInt DEFAULT_RATING)),
             (''games'', or_else_json (field ''games'' parsed) (JInt 0)),
             (''processedGameIds'', JArr (processedGameIds (field ''processedGameIds'' parsed))),
             (''qualityAdjustedGameIds'', JArr (processedGameIds (field ''qualityAdjustedGameIds'' parsed)))])"

definition loadRating :: "json_api \<Rightarrow> store \<Rightarrow> json" where
  "loadRating js st = rating_of (read_json js RATING_KEY JNull st)"

definition saveRating :: "json_api \<Rightarrow> json \<Rightarrow> store \<Rightarrow> store" where
  "saveRating js state st = st(RATING_KEY \<mapsto> stringify js state)"

definition loadRatingHistory :: "json_api \<Rightarrow> store \<Rightarrow> json list" where
  "loadRatingHistory js st = elements (read_json js RATING_HISTORY_KEY (JArr []) st)"

text \<open>One point per game: a game already in the history gets its rating replaced.\<close>

definition recordRatingHistory :: "json_api \<Rightarrow> string \<Rightarrow> json \<Rightarrow> json \<Rightarrow> store \<Rightarrow> json list \<times> store" where
  "recordRatingHistory js now rating explicitGameId st =
     (let history = loadRatingHistory js st;
          (gameId, st') = (if truthy explicitGameId then (explicitGameId, st) else activeRatingGameId js st);
          existing = (if truthy gameId then find_index (\<lambda>point. strict_eq (field ''gameId'' point) gameId) history else None);
          next' = (case existing of
                     Some i \<Rightarrow> history[i := with_fields [(''rating'', rating)] (history ! i)]
                   | None \<Rightarrow> history @ [JObj ([(''date'', JStr now), (''rating'', rating)] @
                              (if truthy gameId then [(''gameId'', gameId)] else []))]);
          trimmed = last_n MAX_HISTORY_POINTS next'
      in (trimmed, st'(RATING_HISTORY_KEY \<mapsto> stringify js (JArr trimmed))))"

definition resetRatingHistory :: "store \<Rightarrow> store" where
  "resetRatingHistory st = st(RATING_HISTORY_KEY := None)"

section \<open>Checkpoints of the history\<close>

text \<open>\<open>new Date(v).getTime()\<close>; \<open>None\<close> is \<open>NaN\<close>.\<close>

definition date_value :: "date_parse \<Rightarrow> json \<Rightarrow> int option" where
  "date_value dp v =
     (case v of JUndef \<Rightarrow> None | JStr s \<Rightarrow> dp s | JArr _ \<Rightarrow> dp (json_string v) | JObj _ \<Rightarrow> dp (json_string v)
      | _ \<Rightarrow> (case json_number v of
               Fin q \<Rightarrow> if \<bar>q\<bar> \<le> 8640000000000000 then Some (if q < 0 then \<lceil>q\<rceil> else \<lfloor>q\<rfloor>) else None
             | _ \<Rightarrow> None))"

record rating_point =
  rp_time :: int
  rp_rating :: rat

definition validRatingPoint :: "date_parse \<Rightarrow> json \<Rightarrow> rating_point option" where
  "validRatingPoint dp point =
     (case (date_value dp (field ''date'' point), json_number (field ''rating'' point)) of
        (Some time, Fin rating) \<Rightarrow> Some \<lparr>rp_time = time, rp_rating = rating\<rparr>
      | _ \<Rightarrow> None)"

record checkpoint =
  cp_label :: string
  cp_delta :: rat
  cp_games :: nat
  cp_rating :: rat
  cp_hasData :: bool

definition periodCheckpoint :: "rating_point list \<Rightarrow> int \<Rightarrow> string \<Rightarrow> checkpoint" where
  "periodCheckpoint points cutoff label =
     (let current = last points;
          previous = List.find (\<lambda>point. rp_time point < cutoff) (rev points);
          periodPoints = filter (\<lambda>point. cutoff \<le> rp_time point) points;
          baseline = (case previous of Some point \<Rightarrow> point | None \<Rightarrow> (case periodPoints of [] \<Rightarrow> current | point # _ \<Rightarrow> point))
      in \<lparr>cp_label = label, cp_delta = fsub (rp_rating current) (rp_rating baseline), cp_games = length periodPoints,
          cp_rating = rp_rating current, cp_hasData = periodPoints \<noteq> []\<rparr>)"

text \<open>\<open>midnight\<close> is the start of the local day of a time.\<close>

definition ratingPeriodCheckpoints :: "date_parse \<Rightarrow> (int \<Rightarrow> int) \<Rightarrow> json list \<Rightarrow> int \<Rightarrow> checkpoint list" where
  "ratingPeriodCheckpoints dp midnight history now =
     (let points = sort_stable (\<lambda>a b. rp_time a \<le> rp_time b)
                     (filter (\<lambda>point. rp_time point \<le> now) (List.map_filter (validRatingPoint dp) history))
      in if points = [] then []
         else [periodCheckpoint points (midnight now) ''Hoy'', periodCheckpoint points (now - 7 * DAY_MS) (''7 d'' @ [CHR 0xED] @ ''as''),
               periodCheckpoint points (now - 30 * DAY_MS) (''30 d'' @ [CHR 0xED] @ ''as'')])"

section \<open>The change after a game\<close>

definition ratingScoreForOutcome :: "json \<Rightarrow> rat" where
  "ratingScoreForOutcome outcome = (if outcome = JStr ''win'' then 1 else if outcome = JStr ''draw'' then 1 / 2 else 0)"

definition expected_score :: "(jsnum \<Rightarrow> jsnum) \<Rightarrow> int \<Rightarrow> json \<Rightarrow> jsnum" where
  "expected_score pow cpuRating baseRating =
     num_over (Fin 1) (num_plus (Fin 1)
       (pow (num_over (num_minus (Fin (of_int cpuRating)) (json_number baseRating)) (Fin 400))))"

record rating_change =
  rc_next :: json
  rc_delta :: jsnum
  rc_cpuRating :: int
  rc_expectedScore :: jsnum
  rc_kFactor :: int
  rc_duplicate :: bool

text \<open>\<open>...(v || [])\<close>: a spread of what is neither an array nor a text throws.\<close>

definition spread_values :: "json \<Rightarrow> json list option" where
  "spread_values v =
     (if \<not> truthy v then Some []
      else case v of JArr xs \<Rightarrow> Some xs | JStr s \<Rightarrow> Some (map (\<lambda>c. JStr [c]) s) | _ \<Rightarrow> None)"

definition ratingChangeDetails ::
  "json_api \<Rightarrow> (jsnum \<Rightarrow> jsnum) \<Rightarrow> json \<Rightarrow> json \<Rightarrow> rat \<Rightarrow> store \<Rightarrow> rating_change option \<times> store" where
  "ratingChangeDetails js pow state cpuDifficulty score st =
     (let (gameId, st') = activeRatingGameId js st;
          persisted = (if truthy gameId then loadRating js st' else JNull);
          baseRating = nullish (field ''rating'' state) (JInt DEFAULT_RATING);
          games = num_or_zero (field ''games'' state);
          cpuRating = cpuRatingForDifficulty (json_number cpuDifficulty);
          expected = expected_score pow cpuRating baseRating;
          k = (if num_lt games (Fin (of_int PROVISIONAL_GAMES)) then PROVISIONAL_K_FACTOR else K_FACTOR)
      in if truthy gameId \<and> js_includes gameId (elements (field ''processedGameIds'' persisted))
         then (Some \<lparr>rc_next = persisted,
                  rc_delta = num_minus (json_number (field ''rating'' persisted)) (json_number baseRating),
                  rc_cpuRating = cpuRating, rc_expectedScore = expected, rc_kFactor = k, rc_duplicate = True\<rparr>, st')
         else let unclamped = num_round (json_number (js_plus baseRating
                                (JNum (num_times (Fin (of_int k)) (num_minus (Fin score) expected)))));
                  nextRating = num_max (Fin 400) unclamped
              in case (spread_values (field ''processedGameIds'' state), spread_values (field ''qualityAdjustedGameIds'' state)) of
                   (Some games_of_state, Some quality_of_state) \<Rightarrow>
                     let knownGameIds = processed_ids (elements (field ''processedGameIds'' persisted) @ games_of_state);
                         knownQualityIds = processed_ids (elements (field ''qualityAdjustedGameIds'' persisted) @ quality_of_state);
                         next' = JObj ([(''rating'', JNum nextRating), (''games'', JNum (num_plus games (Fin 1)))] @
                           (if truthy gameId \<or> knownGameIds \<noteq> []
                            then [(''processedGameIds'', JArr (processed_ids (if truthy gameId then gameId # knownGameIds else knownGameIds)))]
                            else []) @
                           (if knownQualityIds \<noteq> [] then [(''qualityAdjustedGameIds'', JArr knownQualityIds)] else []))
                     in (Some \<lparr>rc_next = next', rc_delta = num_minus nextRating (json_number baseRating), rc_cpuRating = cpuRating,
                           rc_expectedScore = expected, rc_kFactor = k, rc_duplicate = False\<rparr>, st')
                 | _ \<Rightarrow> (None, st'))"

definition updateRating ::
  "json_api \<Rightarrow> (jsnum \<Rightarrow> jsnum) \<Rightarrow> json \<Rightarrow> json \<Rightarrow> rat \<Rightarrow> store \<Rightarrow> json option \<times> store" where
  "updateRating js pow state cpuDifficulty score st =
     (let (c, st') = ratingChangeDetails js pow state cpuDifficulty score st in (map_option rc_next c, st'))"

section \<open>The quality of play\<close>

text \<open>\<open>Math.max(0, Number(v || 0))\<close>.\<close>

definition at_least_zero :: "json \<Rightarrow> jsnum" where
  "at_least_zero v = num_max (Fin 0) (num_or_zero v)"

record estimate =
  es_rating :: jsnum
  es_confidence :: jsnum
  es_adjustment :: jsnum

definition ratingPerformanceEstimate :: "json \<Rightarrow> json \<Rightarrow> estimate" where
  "ratingPerformanceEstimate rating evidence =
     (let baseRating = num_max (Fin 400) (if truthy (JNum (json_number rating)) then json_number rating else Fin (of_int DEFAULT_RATING));
          none = \<lparr>es_rating = baseRating, es_confidence = Fin 0, es_adjustment = Fin 0\<rparr>
      in if \<not> truthy evidence \<or> field ''sufficientSample'' evidence \<noteq> JBool True then none
         else let analyzedCount = at_least_zero (field ''analyzedCount'' evidence);
                  averageLoss = json_number (field ''averageLoss'' evidence);
                  blunders = at_least_zero (field ''blunders'' evidence)
              in if \<not> is_finite averageLoss \<or> num_lt analyzedCount (Fin 8) then none
                 else let confidence = num_min (Fin 1) (num_over analyzedCount (Fin 20));
                          rawAdjustment =
                            (if blunders = Fin 0 \<and> num_le averageLoss (Fin 25) then 80
                             else if blunders = Fin 0 \<and> num_le averageLoss (Fin 40) then 50
                             else if num_le averageLoss (Fin 60) then 20
                             else if num_le (Fin 3) blunders \<or> num_le (Fin 150) averageLoss then -80
                             else if num_le (Fin 2) blunders \<or> num_le (Fin 110) averageLoss then -55
                             else if num_le (Fin 1) blunders \<or> num_le (Fin 75) averageLoss then -30 else 0);
                          adjustment = num_round (num_times (Fin rawAdjustment) confidence)
                      in \<lparr>es_rating = num_max (Fin 400) (num_plus baseRating adjustment), es_confidence = confidence,
                          es_adjustment = adjustment\<rparr>)"

definition ratingQualityAdjustment :: "json \<Rightarrow> json \<Rightarrow> int" where
  "ratingQualityAdjustment evidence outcome =
     (if \<not> truthy evidence \<or> field ''sufficientSample'' evidence \<noteq> JBool True then 0
      else let averageLoss = json_number (field ''averageLoss'' evidence) in
        if \<not> is_finite averageLoss then 0
        else let blunders = at_least_zero (field ''blunders'' evidence);
                 raw = (if field ''clean'' evidence = JBool True \<and> num_le averageLoss (Fin 25) then 4
                        else if blunders = Fin 0 \<and> num_le averageLoss (Fin 40) then 3
                        else if blunders = Fin 0 \<and> num_le averageLoss (Fin 60) then 1
                        else if num_le (Fin 3) blunders \<or> num_le (Fin 150) averageLoss then -4
                        else if num_le (Fin 2) blunders \<or> num_le (Fin 110) averageLoss then -3
                        else if num_le (Fin 1) blunders \<or> num_le (Fin 75) averageLoss then -2 else 0)
             in if outcome = JStr ''win'' then clamp 0 4 raw
                else if outcome = JStr ''draw'' then clamp (-2) 2 raw
                else if outcome = JStr ''loss'' then clamp (-4) 0 raw else 0)"

record quality_change =
  qc_next :: json
  qc_delta :: jsnum
  qc_duplicate :: bool

definition ratingQualityChangeDetails :: "json \<Rightarrow> json \<Rightarrow> json \<Rightarrow> json \<Rightarrow> quality_change" where
  "ratingQualityChangeDetails state gameId evidence outcome =
     (let known = processedGameIds (field ''qualityAdjustedGameIds'' state);
          baseRating = json_number (nullish (field ''rating'' state) (JInt DEFAULT_RATING));
          normalizedId = (if truthy gameId then Some (json_string gameId) else None);
          seen = (case normalizedId of None \<Rightarrow> False | Some s \<Rightarrow> js_includes (JStr s) known)
      in case normalizedId of
           None \<Rightarrow> \<lparr>qc_next = or_else_json state emptyRating, qc_delta = Fin 0, qc_duplicate = False\<rparr>
         | Some s \<Rightarrow>
             if s = [] \<or> seen
             then \<lparr>qc_next = or_else_json state emptyRating, qc_delta = Fin 0, qc_duplicate = seen \<and> s \<noteq> []\<rparr>
             else let rating = num_max (Fin 400) (num_plus baseRating (Fin (of_int (ratingQualityAdjustment evidence outcome))))
                  in \<lparr>qc_next = with_fields [(''rating'', JNum rating), (''qualityAdjustedGameIds'', JArr (processed_ids (JStr s # known)))]
                                 (JObj (spread_fields (or_else_json state emptyRating))),
                      qc_delta = num_minus rating baseRating, qc_duplicate = False\<rparr>)"

section \<open>Tiers\<close>

record tier =
  ti_label :: string
  ti_min :: int
  ti_max :: "int option"

definition RATING_TIERS :: "tier list" where
  "RATING_TIERS =
     [\<lparr>ti_label = ''Principiante'', ti_min = 0, ti_max = Some 699\<rparr>, \<lparr>ti_label = ''Aficionado'', ti_min = 700, ti_max = Some 999\<rparr>,
      \<lparr>ti_label = ''Intermedio'', ti_min = 1000, ti_max = Some 1299\<rparr>, \<lparr>ti_label = ''Avanzado'', ti_min = 1300, ti_max = Some 1599\<rparr>,
      \<lparr>ti_label = ''Experto'', ti_min = 1600, ti_max = Some 1899\<rparr>, \<lparr>ti_label = ''Maestro'', ti_min = 1900, ti_max = None\<rparr>]"

definition tierFor :: "jsnum \<Rightarrow> tier" where
  "tierFor rating =
     (case List.find (\<lambda>t. num_le (Fin (of_int (ti_min t))) rating \<and>
                          (case ti_max t of None \<Rightarrow> rating \<noteq> NaN | Some m \<Rightarrow> num_le rating (Fin (of_int m)))) RATING_TIERS of
        Some t \<Rightarrow> t | None \<Rightarrow> last RATING_TIERS)"

definition ratingLabel :: "jsnum \<Rightarrow> string" where
  "ratingLabel rating = ti_label (tierFor rating)"

record tier_progress =
  tp_tier :: tier
  tp_isMaxTier :: bool
  tp_pointsIntoTier :: jsnum
  tp_pointsToNextTier :: "jsnum option"
  tp_progressPct :: jsnum

definition ratingProgress :: "jsnum \<Rightarrow> tier_progress" where
  "ratingProgress rating =
     (let t = tierFor rating; into = num_minus rating (Fin (of_int (ti_min t)))
      in case ti_max t of
           None \<Rightarrow> \<lparr>tp_tier = t, tp_isMaxTier = True, tp_pointsIntoTier = into, tp_pointsToNextTier = None, tp_progressPct = Fin 100\<rparr>
         | Some m \<Rightarrow>
             \<lparr>tp_tier = t, tp_isMaxTier = False, tp_pointsIntoTier = into,
              tp_pointsToNextTier = Some (num_plus (num_minus (Fin (of_int m)) rating) (Fin 1)),
              tp_progressPct = num_max (Fin 0) (num_min (Fin 100)
                (num_round (num_times (num_over into (Fin (of_int (m - ti_min t + 1)))) (Fin 100))))\<rparr>)"

section \<open>The difficulty of the next opponent\<close>

definition clamp_percent :: "jsnum \<Rightarrow> jsnum" where
  "clamp_percent n = num_max (Fin 0) (num_min (Fin 100) n)"

definition baseDifficultyForRating :: "json \<Rightarrow> jsnum" where
  "baseDifficultyForRating rating = clamp_percent (num_round (num_over (num_minus (json_number rating) (Fin 200)) (Fin 18)))"

text \<open>The argument is the number of games, \<open>PROVISIONAL_GAMES\<close> when absent.\<close>

definition provisionalDifficultyRelief :: "json \<Rightarrow> int" where
  "provisionalDifficultyRelief games =
     (case json_number (if games = JUndef then JInt PROVISIONAL_GAMES else games) of
        Fin count \<Rightarrow>
          if of_int PROVISIONAL_GAMES \<le> count then 0
          else js_round (fmul 10 (fsub 1 (max 0 (min 1 (fdiv count (of_int PROVISIONAL_GAMES))))))
      | _ \<Rightarrow> 0)"

definition isDifficultyRelevant :: "json \<Rightarrow> jsnum \<Rightarrow> bool" where
  "isDifficultyRelevant event baseDifficulty =
     (let difficulty = json_number (field ''difficulty'' event) in
      if \<not> is_finite difficulty then False
      else if field ''outcome'' event = JStr ''loss'' then num_le difficulty (num_plus baseDifficulty (Fin 25))
      else if field ''outcome'' event = JStr ''win'' then num_le (num_minus baseDifficulty (Fin 25)) difficulty
      else num_le (num_max (num_minus difficulty baseDifficulty) (num_neg (num_minus difficulty baseDifficulty))) (Fin 25))"

definition one_of :: "string list \<Rightarrow> json \<Rightarrow> bool" where
  "one_of names v \<longleftrightarrow> v \<in> set (map JStr names)"

text \<open>\<open>new Map(rows)\<close>: a later row of the same game replaces an earlier one.\<close>

definition start_of :: "json list \<Rightarrow> json \<Rightarrow> json option" where
  "start_of opened gameId = List.find (\<lambda>event. strict_eq (field ''gameId'' event) gameId) (rev opened)"

definition adaptive_start :: "json \<Rightarrow> bool" where
  "adaptive_start event \<longleftrightarrow>
     field ''state'' event = JStr ''started'' \<and> field ''detail'' event = JStr ''adaptive-difficulty''"

definition competitive_event :: "json list \<Rightarrow> json \<Rightarrow> json option" where
  "competitive_event opened event =
     (if field ''state'' event = JStr ''finished'' \<and> one_of [''win'', ''draw'', ''loss''] (field ''outcome'' event) then Some event
      else if field ''state'' event = JStr ''cancelled''
      then (case start_of opened (field ''gameId'' event) of None \<Rightarrow> None
            | Some started \<Rightarrow>
                Some (with_fields
                  [(''difficulty'', JNum (if is_finite (json_number (field ''difficulty'' event)) then json_number (field ''difficulty'' event)
                                          else json_number (field ''difficulty'' started))),
                   (''outcome'', JStr ''loss''), (''adaptiveAbandon'', JBool True)] (JObj (spread_fields event))))
      else None)"

definition competitiveAdaptiveEvents :: "json \<Rightarrow> jsnum \<Rightarrow> json list" where
  "competitiveAdaptiveEvents activity baseDifficulty =
     (let rows = elements activity; opened = filter adaptive_start rows
      in take 8 (filter (\<lambda>event. isDifficultyRelevant event baseDifficulty)
           (filter (\<lambda>event. one_of [''casual'', ''tournament''] (field ''mode'' event))
             (List.map_filter (competitive_event opened) rows))))"

definition adaptiveScore :: "json \<Rightarrow> rat" where
  "adaptiveScore event =
     (if truthy (field ''adaptiveAbandon'' event) then fl (15 / 100) else ratingScoreForOutcome (field ''outcome'' event))"

text \<open>The weighted mean of the scores, the newest first and heaviest.\<close>

fun weighted_from :: "nat \<Rightarrow> nat \<Rightarrow> rat list \<Rightarrow> rat \<times> rat \<Rightarrow> rat \<times> rat" where
  "weighted_from n i [] (score, weights) = (score, weights)"
| "weighted_from n i (s # ss) (score, weights) =
     (let weight = of_int (max 1 (int n - int i))
      in weighted_from n (i + 1) ss (fadd score (fmul s weight), fadd weights weight))"

definition weighted_mean :: "rat list \<Rightarrow> rat" where
  "weighted_mean ss =
     (let (score, weights) = weighted_from (length ss) 0 ss (0, 0) in if weights \<noteq> 0 then fdiv score weights else 1 / 2)"

definition streak_of :: "string \<Rightarrow> json list \<Rightarrow> nat" where
  "streak_of outcome recent = length (takeWhile (\<lambda>event. field ''outcome'' event = JStr outcome) recent)"

definition adaptiveDifficultyAdjustment :: "json \<Rightarrow> jsnum \<Rightarrow> bool \<Rightarrow> int" where
  "adaptiveDifficultyAdjustment activity baseDifficulty allowEarlyDrop =
     (let recent = competitiveAdaptiveEvents activity baseDifficulty; lossStreak = streak_of ''loss'' recent in
      if recent = [] then 0
      else if length recent < 3 \<and> \<not> allowEarlyDrop then 0
      else if length recent = 1 then (if lossStreak = 1 then -5 else 0)
      else if length recent = 2
      then (if 2 \<le> lossStreak then -9
            else if fdiv (fadd (fmul (adaptiveScore (recent ! 0)) 2) (adaptiveScore (recent ! 1))) 3 \<le> fl (1 / 4) then -5 else 0)
      else let performance = weighted_mean (map adaptiveScore recent);
               adjustment = (if performance \<le> fl (20 / 100) then -16 else if performance \<le> fl (35 / 100) then -11
                             else if performance \<le> fl (45 / 100) then -6
                             else if fl (80 / 100) \<le> performance then 6 else if fl (68 / 100) \<le> performance then 3 else 0);
               adjusted = (if 5 \<le> lossStreak then adjustment - 8 else if 4 \<le> lossStreak then adjustment - 6
                           else if 3 \<le> lossStreak then adjustment - 4 else adjustment)
           in clamp (-22) 8 adjusted)"

definition difficultyForRating :: "json_api \<Rightarrow> json \<Rightarrow> json \<Rightarrow> json \<Rightarrow> store \<Rightarrow> jsnum" where
  "difficultyForRating js rating activity games st =
     (let absent = (\<lambda>v. v = JUndef \<or> v = JNull);
          persistedGames = (if absent games \<and> absent activity then field ''games'' (loadRating js st) else JNull);
          effectiveGames = (if absent games then nullish persistedGames (JInt PROVISIONAL_GAMES) else games);
          historicalBase = baseDifficultyForRating rating;
          provisional = (case json_number effectiveGames of Fin q \<Rightarrow> q < of_int PROVISIONAL_GAMES | _ \<Rightarrow> False);
          base = num_max (Fin 0) (num_minus historicalBase (Fin (of_int (provisionalDifficultyRelief effectiveGames))));
          recent = (if absent activity then JArr (loadGameActivity js st) else activity)
      in clamp_percent (num_plus base (Fin (of_int (adaptiveDifficultyAdjustment recent base provisional)))))"

end
