(* ===== verification/QuickMatch.thy ===== *)
theory QuickMatch
  imports PlayerRating
begin

text \<open>
  \<open>quickMatchDifficulty.js\<close>: the opponent of a quick match. The target is the player's rating plus a lead that follows
  the recent form and the quality of play; a profile past its provisional games keeps its opponent while the target
  stays within the hysteresis.

  \<open>games\<close> is \<open>Number(games)\<close>; times are whole milliseconds, \<open>dp\<close> is \<open>Date.parse\<close>.
\<close>

definition QUICK_MATCH_TARGET_LEAD_ELO :: int where "QUICK_MATCH_TARGET_LEAD_ELO = 50"
definition QUICK_MATCH_HYSTERESIS_ELO :: int where "QUICK_MATCH_HYSTERESIS_ELO = 25"
definition QUICK_MATCH_PROVISIONAL_START_LEAD_ELO :: int where "QUICK_MATCH_PROVISIONAL_START_LEAD_ELO = -50"
definition QUICK_MATCH_FORM_MAX_AGE_DAYS :: int where "QUICK_MATCH_FORM_MAX_AGE_DAYS = 30"
definition QUICK_MATCH_EARLY_SIGNAL_GAMES :: nat where "QUICK_MATCH_EARLY_SIGNAL_GAMES = 3"

definition provisional_games :: "jsnum \<Rightarrow> bool" where
  "provisional_games games \<longleftrightarrow> num_lt games (Fin (of_int PROVISIONAL_GAMES))"

definition provisionalQuickMatchLeadElo :: "jsnum \<Rightarrow> int" where
  "provisionalQuickMatchLeadElo games =
     (case games of
        Fin count \<Rightarrow>
          if of_int PROVISIONAL_GAMES \<le> count then QUICK_MATCH_TARGET_LEAD_ELO
          else js_round (fadd (of_int QUICK_MATCH_PROVISIONAL_START_LEAD_ELO)
                 (fmul (of_int (QUICK_MATCH_TARGET_LEAD_ELO - QUICK_MATCH_PROVISIONAL_START_LEAD_ELO))
                    (max 0 (min 1 (fdiv count (of_int PROVISIONAL_GAMES))))))
      | _ \<Rightarrow> QUICK_MATCH_TARGET_LEAD_ELO)"

definition eventIsFresh :: "date_parse \<Rightarrow> int \<Rightarrow> json \<Rightarrow> bool" where
  "eventIsFresh dp nowMs event =
     (case date_value dp (or_else_json (field ''date'' event) (JStr [])) of
        None \<Rightarrow> True
      | Some parsed \<Rightarrow> max 0 (nowMs - parsed) \<le> QUICK_MATCH_FORM_MAX_AGE_DAYS * DAY_MS)"

definition competitive_mode :: "json \<Rightarrow> bool" where
  "competitive_mode event \<longleftrightarrow> one_of [''casual'', ''tournament''] (field ''mode'' event)"

definition adaptive_result :: "json list \<Rightarrow> json \<Rightarrow> json option" where
  "adaptive_result opened event =
     (case start_of opened (field ''gameId'' event) of
        None \<Rightarrow> None
      | Some started \<Rightarrow>
          if field ''state'' event = JStr ''finished'' \<and> one_of [''win'', ''draw'', ''loss''] (field ''outcome'' event)
          then Some (with_fields [(''difficulty'', JNum (json_number (nullish (field ''difficulty'' event) (field ''difficulty'' started))))]
                 (JObj (spread_fields event)))
          else None)"

definition recentAdaptiveResults :: "date_parse \<Rightarrow> json \<Rightarrow> int \<Rightarrow> json list" where
  "recentAdaptiveResults dp activity nowMs =
     (let rows = elements activity; opened = filter competitive_mode (filter adaptive_start rows)
      in take 8 (filter (eventIsFresh dp nowMs) (List.map_filter (adaptive_result opened) rows)))"

definition resultScore :: "json \<Rightarrow> rat" where
  "resultScore event =
     (if field ''outcome'' event = JStr ''win'' then 1 else if field ''outcome'' event = JStr ''draw'' then 1 / 2 else 0)"

definition quickMatchEarlyCalibrationSignal :: "date_parse \<Rightarrow> json \<Rightarrow> jsnum \<Rightarrow> int \<Rightarrow> int" where
  "quickMatchEarlyCalibrationSignal dp activity games nowMs =
     (case games of
        Fin count \<Rightarrow>
          if count < of_nat QUICK_MATCH_EARLY_SIGNAL_GAMES \<or> of_int PROVISIONAL_GAMES \<le> count then 0
          else let recent = take QUICK_MATCH_EARLY_SIGNAL_GAMES (recentAdaptiveResults dp activity nowMs) in
            if length recent < QUICK_MATCH_EARLY_SIGNAL_GAMES then 0
            else if list_all (\<lambda>event. field ''outcome'' event = JStr ''win'') recent then 1
            else if list_all (\<lambda>event. field ''outcome'' event = JStr ''loss'') recent then -1 else 0
      | _ \<Rightarrow> 0)"

definition quickMatchRecentFormAdjustment :: "date_parse \<Rightarrow> json \<Rightarrow> jsnum \<Rightarrow> int \<Rightarrow> int" where
  "quickMatchRecentFormAdjustment dp activity games nowMs =
     (let recent = recentAdaptiveResults dp activity nowMs; provisional = provisional_games games;
          winStreak = streak_of ''win'' recent; lossStreak = streak_of ''loss'' recent;
          distinctOpponents = length (remdups (map (\<lambda>event. cpuRatingForDifficulty (json_number (field ''difficulty'' event))) recent))
      in if recent = [] then 0
         else if \<not> provisional \<and> 3 \<le> length recent \<and> distinctOpponents < 2 \<and> lossStreak < 3 then 0
         else if length recent < 3 \<and> \<not> provisional then 0
         else if length recent = 1 then (if lossStreak \<noteq> 0 then -25 else 0)
         else if length recent = 2 then (if 2 \<le> lossStreak then -40 else 0)
         else let performance = weighted_mean (map resultScore recent);
                  adjustment = (if performance \<le> fl (20 / 100) then -50 else if performance \<le> fl (35 / 100) then -35
                                else if performance \<le> fl (45 / 100) then -20
                                else if fl (80 / 100) \<le> performance then 25 else if fl (68 / 100) \<le> performance then 10 else 0);
                  capped = (if 10 < adjustment \<and> winStreak < 3 then 10 else adjustment);
                  eased = (if 5 \<le> lossStreak then capped - 20 else if 4 \<le> lossStreak then capped - 15
                           else if 3 \<le> lossStreak then capped - 10 else capped);
                  recovered = (if field ''outcome'' (recent ! 0) = JStr ''win'' \<and> eased < -20 then -20 else eased)
              in clamp (-50) 25 recovered)"

definition qualityScore :: "json \<Rightarrow> rat option" where
  "qualityScore evidence =
     (if \<not> truthy evidence \<or> field ''sufficientSample'' evidence \<noteq> JBool True then None
      else let averageLoss = json_number (field ''averageLoss'' evidence); blunders = at_least_zero (field ''blunders'' evidence)
           in if \<not> is_finite averageLoss then None
              else if field ''clean'' evidence = JBool True \<and> num_le averageLoss (Fin 35) then Some 1
              else if num_le (Fin 2) blunders \<or> num_le (Fin 110) averageLoss then Some 0
              else if num_le (Fin 1) blunders \<or> num_le (Fin 75) averageLoss then Some (1 / 4)
              else if num_le averageLoss (Fin 30) then Some (fl (8 / 10))
              else if num_le averageLoss (Fin 50) then Some (fl (65 / 100)) else Some (1 / 2))"

definition quickMatchQualityAdjustment :: "date_parse \<Rightarrow> json \<Rightarrow> jsnum \<Rightarrow> json \<Rightarrow> int \<Rightarrow> int" where
  "quickMatchQualityAdjustment dp activity games qualityRecords nowMs =
     (if provisional_games games then 0
      else let recent = List.map_filter (\<lambda>event. qualityScore (field (json_string (field ''gameId'' event)) qualityRecords))
                          (recentAdaptiveResults dp activity nowMs)
           in if length recent < 3 then 0
              else let quality = weighted_mean recent
                   in if quality \<le> fl (20 / 100) then -15 else if quality \<le> fl (35 / 100) then -8
                      else if fl (82 / 100) \<le> quality then 10 else if fl (68 / 100) \<le> quality then 5 else 0)"

definition quickMatchTargetLeadElo :: "date_parse \<Rightarrow> json \<Rightarrow> jsnum \<Rightarrow> json \<Rightarrow> int \<Rightarrow> int" where
  "quickMatchTargetLeadElo dp activity games qualityRecords nowMs =
     (let provisional = provisional_games games;
          earlySignal = (if provisional then quickMatchEarlyCalibrationSignal dp activity games nowMs else 0);
          baseLead = (if 0 < earlySignal then QUICK_MATCH_TARGET_LEAD_ELO
                      else if earlySignal < 0 then QUICK_MATCH_PROVISIONAL_START_LEAD_ELO
                      else if provisional then provisionalQuickMatchLeadElo games else QUICK_MATCH_TARGET_LEAD_ELO);
          adjusted = baseLead + quickMatchRecentFormAdjustment dp activity games nowMs
                     + quickMatchQualityAdjustment dp activity games qualityRecords nowMs
      in if provisional then clamp (-75) QUICK_MATCH_TARGET_LEAD_ELO adjusted
         else clamp 0 (QUICK_MATCH_TARGET_LEAD_ELO + 25) adjusted)"

definition previousAdaptiveDifficulty :: "date_parse \<Rightarrow> json \<Rightarrow> int \<Rightarrow> int option" where
  "previousAdaptiveDifficulty dp activity nowMs =
     (case List.find (\<lambda>row. adaptive_start row \<and> competitive_mode row \<and>
                            is_finite (json_number (field ''difficulty'' row)) \<and> eventIsFresh dp nowMs row) (elements activity) of
        None \<Rightarrow> None
      | Some event \<Rightarrow> (case json_number (field ''difficulty'' event) of Fin q \<Rightarrow> Some (clamp 0 100 (js_round q)) | _ \<Rightarrow> None))"

text \<open>What is absent is read from the storage.\<close>

definition absent :: "json \<Rightarrow> bool" where
  "absent v \<longleftrightarrow> v = JUndef \<or> v = JNull"

definition finite_else :: "rat \<Rightarrow> jsnum \<Rightarrow> rat" where
  "finite_else d n = (case n of Fin q \<Rightarrow> q | _ \<Rightarrow> d)"

definition difficultyForQuickMatchRating ::
  "json_api \<Rightarrow> date_parse \<Rightarrow> json \<Rightarrow> json \<Rightarrow> json \<Rightarrow> json \<Rightarrow> int \<Rightarrow> store \<Rightarrow> int" where
  "difficultyForQuickMatchRating js dp rating activity games qualityRecords nowMs st =
     (let playerRating = finite_else 400 (json_number rating);
          recent = (if absent activity then JArr (loadGameActivity js st) else activity);
          persistedGames = (if absent games then field ''games'' (loadRating js st) else games);
          gameCount = finite_else 0 (json_number persistedGames);
          quality = (if absent qualityRecords then loadCleanGameRecords js st else qualityRecords);
          targetLead = quickMatchTargetLeadElo dp recent (Fin gameCount) quality nowMs;
          targetOpponentRating = fadd playerRating (of_int targetLead);
          kept = (if of_int PROVISIONAL_GAMES \<le> gameCount
                  then (case previousAdaptiveDifficulty dp recent nowMs of
                          None \<Rightarrow> None
                        | Some previous \<Rightarrow>
                            if \<bar>fsub (of_int (cpuRatingForDifficulty (Fin (of_int previous)))) targetOpponentRating\<bar>
                                 \<le> of_int QUICK_MATCH_HYSTERESIS_ELO
                            then Some previous else None)
                  else None)
      in case kept of Some previous \<Rightarrow> previous | None \<Rightarrow> difficultyForCpuRating (Fin targetOpponentRating))"

record recalibration =
  qr_difficulty :: int
  qr_opponentRating :: int
  qr_leadElo :: rat
  qr_deltaOpponentElo :: int

definition quickMatchRecalibration ::
  "json_api \<Rightarrow> date_parse \<Rightarrow> json \<Rightarrow> json \<Rightarrow> json \<Rightarrow> json \<Rightarrow> json \<Rightarrow> int \<Rightarrow> store \<Rightarrow> recalibration option" where
  "quickMatchRecalibration js dp previousDifficulty rating activity games qualityRecords nowMs st =
     (case (json_number previousDifficulty, json_number rating) of
        (Fin rawPrevious, Fin rawRating) \<Rightarrow>
          let previous = clamp 0 100 (js_round rawPrevious);
              nextDifficulty = difficultyForQuickMatchRating js dp (JNum (Fin rawRating)) activity games qualityRecords nowMs st;
              opponentRating = cpuRatingForDifficulty (Fin (of_int nextDifficulty));
              deltaOpponentElo = opponentRating - cpuRatingForDifficulty (Fin (of_int previous))
          in if nextDifficulty = previous then None
             else if \<bar>deltaOpponentElo\<bar> < QUICK_MATCH_HYSTERESIS_ELO then None
             else Some \<lparr>qr_difficulty = nextDifficulty, qr_opponentRating = opponentRating,
                    qr_leadElo = fsub (of_int opponentRating) rawRating, qr_deltaOpponentElo = deltaOpponentElo\<rparr>
      | _ \<Rightarrow> None)"

end
