(* ===== verification/PlayerRatingProps.thy ===== *)
theory PlayerRatingProps
  imports PlayerRating
begin

text \<open>
  What a rating promises: a game moves it by at most its factor, up for a win and down for a loss, a stronger opponent
  never pays less, and no game is counted twice.
\<close>

section \<open>Whole numbers are exact\<close>

lemma fl_whole: "\<bar>i\<bar> \<le> 2 ^ 52 \<Longrightarrow> fl (of_int i) = of_int i"
proof -
  assume i: "\<bar>i\<bar> \<le> 2 ^ 52"
  then have "fl (of_nat (nat \<bar>i\<bar>)) = of_nat (nat \<bar>i\<bar>)" by (intro fl_nat) simp
  then have "fl (of_int \<bar>i\<bar>) = of_int \<bar>i\<bar>" by simp
  then show ?thesis by (cases "0 \<le> i") (simp_all flip: fl_minus, metis fl_minus of_int_minus minus_minus)
qed

lemma fsub_whole: "\<bar>i - j\<bar> \<le> 2 ^ 52 \<Longrightarrow> fsub (of_int i) (of_int j) = of_int (i - j)"
  using fl_whole [of "i - j"] by (simp add: fsub_def)

lemma fl_between: "of_int a \<le> x \<Longrightarrow> x \<le> of_int b \<Longrightarrow> \<bar>a\<bar> \<le> 2 ^ 52 \<Longrightarrow> \<bar>b\<bar> \<le> 2 ^ 52 \<Longrightarrow> of_int a \<le> fl x \<and> fl x \<le> of_int b"
  using fl_mono [of "of_int a" x] fl_mono [of x "of_int b"] by (simp add: fl_whole)

section \<open>The expected score\<close>

definition powers :: "(jsnum \<Rightarrow> jsnum) \<Rightarrow> bool" where
  "powers pow \<longleftrightarrow> (\<forall>q. pow (Fin q) = PInf \<or> (\<exists>p \<ge> 0. pow (Fin q) = Fin p)) \<and>
     (\<forall>p q. p \<le> q \<longrightarrow> num_le (pow (Fin p)) (pow (Fin q)))"

lemma expected_of_power:
  assumes "0 \<le> p"
  shows "num_over (Fin 1) (num_plus (Fin 1) (Fin p)) = Fin (fdiv 1 (fadd 1 p))" "0 \<le> fdiv 1 (fadd 1 p)" "fdiv 1 (fadd 1 p) \<le> 1"
    and "p \<le> q \<Longrightarrow> fdiv 1 (fadd 1 q) \<le> fdiv 1 (fadd 1 p)"
proof -
  have one: "1 \<le> fadd 1 p" using assms by (intro fadd_ge) simp_all
  then show "num_over (Fin 1) (num_plus (Fin 1) (Fin p)) = Fin (fdiv 1 (fadd 1 p))" by simp
  have "0 \<le> 1 / fadd 1 p" "1 / fadd 1 p \<le> 1" using one by simp_all
  then show "0 \<le> fdiv 1 (fadd 1 p)" "fdiv 1 (fadd 1 p) \<le> 1"
    using fl_nonneg fl_mono [of "1 / fadd 1 p" 1] by (simp_all add: fdiv_def)
  assume "p \<le> q"
  then have "fadd 1 p \<le> fadd 1 q" by (simp add: fadd_mono)
  then show "fdiv 1 (fadd 1 q) \<le> fdiv 1 (fadd 1 p)" unfolding fdiv_def using one by (intro fl_mono divide_left_mono) auto
qed

lemma expected_score_unit:
  assumes "powers pow"
  obtains e where "expected_score pow c (JInt r) = Fin e" "0 \<le> e" "e \<le> 1"
proof -
  let ?x = "fdiv (fsub (of_int c) (of_int r)) 400"
  have "pow (Fin ?x) = PInf \<or> (\<exists>p \<ge> 0. pow (Fin ?x) = Fin p)" using assms by (auto simp: powers_def)
  then show ?thesis
  proof (elim disjE exE conjE)
    assume "pow (Fin ?x) = PInf"
    then show ?thesis using that [of 0] by (simp add: expected_score_def num_plus_def num_over_def)
  next
    fix p assume "0 \<le> p" "pow (Fin ?x) = Fin p"
    then show ?thesis using that expected_of_power [of p] by (simp add: expected_score_def)
  qed
qed

lemma expected_score_anti:
  assumes "powers pow" "c \<le> c'" "expected_score pow c (JInt r) = Fin e" "expected_score pow c' (JInt r) = Fin e'"
  shows "e' \<le> e"
proof -
  let ?x = "\<lambda>c. fdiv (fsub (of_int c) (of_int r)) 400"
  have le: "?x c \<le> ?x c'" unfolding fdiv_def using assms(2) by (intro fl_mono divide_right_mono fsub_mono) simp_all
  then have ord: "num_le (pow (Fin (?x c))) (pow (Fin (?x c')))" using assms(1) by (simp add: powers_def)
  have cases: "pow (Fin q) = PInf \<or> (\<exists>p \<ge> 0. pow (Fin q) = Fin p)" for q using assms(1) by (auto simp: powers_def)
  have val: "expected_score pow c (JInt r) = num_over (Fin 1) (num_plus (Fin 1) (pow (Fin (?x c))))" for c
    by (simp add: expected_score_def)
  have inf: "num_over (Fin 1) (num_plus (Fin 1) PInf) = Fin 0" by (simp add: num_plus_def num_over_def)
  consider "pow (Fin (?x c')) = PInf" | p p' where "pow (Fin (?x c)) = Fin p" "pow (Fin (?x c')) = Fin p'" "0 \<le> p" "0 \<le> p'"
    using cases [of "?x c"] cases [of "?x c'"] ord by (auto simp: num_le_def num_lt_def)
  then show ?thesis
  proof cases
    case 1
    then have "e' = 0" using assms(4) val inf by simp
    moreover have "0 \<le> e" using expected_score_unit [OF assms(1), of c r] assms(3) by auto
    ultimately show ?thesis by simp
  next
    case 2
    then show ?thesis using assms(3,4) val expected_of_power(1) expected_of_power(4) [of p p'] ord by simp
  qed
qed

section \<open>The scale is monotone\<close>

lemma interpolate_between:
  assumes "of_int l \<le> x" "x \<le> of_int r" "l < r" "le \<le> re" "0 \<le> l" "r \<le> 2000" "0 \<le> le" "re \<le> 2000"
  shows "of_int le \<le> interpolate x l le r re \<and> interpolate x l le r re \<le> of_int re"
proof -
  let ?w = "of_int (r - l) :: rat" and ?d = "of_int (re - le) :: rat"
  have u: "of_int 0 \<le> fsub x (of_int l)" "fsub x (of_int l) \<le> ?w"
    using fl_between [of 0 "x - of_int l" "r - l"] assms(1-3,5,6) by (simp_all add: fsub_def)
  then have "of_int 0 \<le> fsub x (of_int l) / ?w" "fsub x (of_int l) / ?w \<le> of_int 1" using assms(3) by simp_all
  then have t: "of_int 0 \<le> fdiv (fsub x (of_int l)) ?w" "fdiv (fsub x (of_int l)) ?w \<le> of_int 1"
    using fl_between [of 0 _ 1] unfolding fdiv_def by auto
  then have "of_int 0 \<le> ?d * fdiv (fsub x (of_int l)) ?w" "?d * fdiv (fsub x (of_int l)) ?w \<le> ?d * 1"
    using assms(4) by (simp, intro mult_left_mono) simp_all
  then have m: "of_int 0 \<le> fmul ?d (fdiv (fsub x (of_int l)) ?w)" "fmul ?d (fdiv (fsub x (of_int l)) ?w) \<le> ?d"
    using fl_between [of 0 _ "re - le"] assms(4,7,8) unfolding fmul_def by auto
  then show ?thesis
    using fl_between [of le "of_int le + fmul ?d (fdiv (fsub x (of_int l)) ?w)" re] assms(4,7,8) unfolding interpolate_def fadd_def by simp
qed

lemma scale_from_head: "rising ((l, le) # rest) \<Longrightarrow> of_int l \<le> x \<Longrightarrow> le \<le> scale_from x ((l, le) # rest)"
proof (induction rest arbitrary: l le)
  case (Cons p rest)
  obtain r re where p: "p = (r, re)" by (cases p)
  have ok: "0 \<le> l" "l < r" "0 \<le> le" "le \<le> re" "rising ((r, re) # rest)" using Cons.prems(1) p by simp_all
  show ?case
  proof (cases "x \<le> of_int r")
    case True
    then have "of_int le \<le> interpolate x l le r re"
      using interpolate_between [of l x r le re] rising_head [OF ok(5)] ok Cons.prems(2) by simp
    then show ?thesis using True p js_round_mono [of "of_int le"] by simp
  next
    case False
    then show ?thesis using Cons.IH [OF ok(5)] p ok(4) by simp
  qed
qed simp

lemma scale_from_mono:
  "rising ((l, le) # rest) \<Longrightarrow> of_int l \<le> x \<Longrightarrow> x \<le> y \<Longrightarrow> scale_from x ((l, le) # rest) \<le> scale_from y ((l, le) # rest)"
proof (induction rest arbitrary: l le)
  case (Cons p rest)
  obtain r re where p: "p = (r, re)" by (cases p)
  have ok: "0 \<le> l" "l < r" "0 \<le> le" "le \<le> re" "rising ((r, re) # rest)" using Cons.prems(1) p by simp_all
  consider "y \<le> of_int r" | "x \<le> of_int r" "of_int r < y" | "of_int r < x" using Cons.prems(3) by linarith
  then show ?case
  proof cases
    case 1
    then show ?thesis using p Cons.prems(3) ok interpolate_mono [of x y l r le re] by (simp add: js_round_mono)
  next
    case 2
    have "interpolate x l le r re \<le> of_int re"
      using interpolate_between [of l x r le re] rising_head [OF ok(5)] ok Cons.prems(2) 2(1) by simp
    then have "js_round (interpolate x l le r re) \<le> re" using js_round_mono [of _ "of_int re"] by fastforce
    then show ?thesis using 2 p scale_from_head [OF ok(5), of y] by simp
  next
    case 3
    then show ?thesis using Cons.IH [OF ok(5)] Cons.prems(3) p by simp
  qed
qed simp

lemma cpuRating_mono: "p \<le> q \<Longrightarrow> cpuRatingForDifficulty (Fin p) \<le> cpuRatingForDifficulty (Fin q)"
  using scale_from_mono [of 0 350 "tl CPU_RATING_ANCHORS" "clamp_num 0 100 (Fin p)" "clamp_num 0 100 (Fin q)"]
    opponent.anchors_rise
  by (simp add: cpuRatingForDifficulty_def or_zero_def clamp_num_def CPU_RATING_ANCHORS_def)

lemma opponent_ends: "cpuRatingForDifficulty (Fin 100) \<le> 1800" "0 \<le> cpuRatingForDifficulty (Fin 0)"
proof -
  have "\<bar>of_int (scale_from 100 CPU_RATING_ANCHORS) - (1800 :: rat)\<bar> < 1" "\<bar>of_int (scale_from 0 CPU_RATING_ANCHORS) - (350 :: rat)\<bar> < 1"
    using opponent.scale_is_close [of 100] opponent.exact_last opponent.scale_is_close [of 0] opponent.exact_first
    by (simp_all add: CPU_RATING_ANCHORS_def)
  then show "cpuRatingForDifficulty (Fin 100) \<le> 1800" "0 \<le> cpuRatingForDifficulty (Fin 0)"
    by (simp_all add: cpuRatingForDifficulty_def clamp_num_def or_zero_def)
qed

section \<open>The change\<close>

definition new_rating :: "int \<Rightarrow> int \<Rightarrow> rat \<Rightarrow> rat \<Rightarrow> int" where
  "new_rating r k score e = max 400 (js_round (fadd (of_int r) (fmul (of_int k) (fsub score e))))"

lemma change_of_rating:
  assumes "field ''rating'' state = JInt r" "powers pow"
    and "ratingChangeDetails js pow state d score st = (Some c, st')" "\<not> rc_duplicate c"
  obtains e k where "rc_kFactor c = k" "k = 56 \<or> k = 24" "0 \<le> e" "e \<le> 1" "rc_cpuRating c = cpuRatingForDifficulty (json_number d)"
    "expected_score pow (rc_cpuRating c) (JInt r) = Fin e" "rc_expectedScore c = Fin e"
    "field ''rating'' (rc_next c) = JInt (new_rating r k score e)"
    "rc_delta c = Fin (fsub (of_int (new_rating r k score e)) (of_int r))"
    "k = (if num_lt (num_or_zero (field ''games'' state)) (Fin 5) then 56 else 24)"
proof -
  define k :: int where "k = (if num_lt (num_or_zero (field ''games'' state)) (Fin 5) then 56 else 24)"
  obtain e where e: "expected_score pow (cpuRatingForDifficulty (json_number d)) (JInt r) = Fin e" "0 \<le> e" "e \<le> 1"
    using expected_score_unit [OF assms(2)] by blast
  have sum: "js_plus (JInt r) (JNum (num_times (Fin (of_int k)) (num_minus (Fin score) (Fin e)))) =
      JNum (Fin (fadd (of_int r) (fmul (of_int k) (fsub score e))))"
    by (simp add: js_plus_def is_object_def)
  have new: "num_max (Fin 400) (num_round (Fin (fadd (of_int r) (fmul (of_int k) (fsub score e))))) = Fin (of_int (new_rating r k score e))"
    by (simp add: new_rating_def max_def)
  obtain id st1 where id: "activeRatingGameId js st = (id, st1)" by fastforce
  have out: "rc_kFactor c = k" "rc_cpuRating c = cpuRatingForDifficulty (json_number d)" "rc_expectedScore c = Fin e"
    "field ''rating'' (rc_next c) = JInt (new_rating r k score e)"
    "rc_delta c = Fin (fsub (of_int (new_rating r k score e)) (of_int r))"
    using assms(3,4) id e(1) sum new
    by (auto simp: ratingChangeDetails_def assms(1) Let_def k_def PROVISIONAL_GAMES_def PROVISIONAL_K_FACTOR_def K_FACTOR_def
        split: if_splits option.splits)
  show ?thesis using that [OF out(1) _ e(2,3) out(2)] e(1) out by (simp add: k_def)
qed

lemma new_rating_between:
  assumes "0 \<le> k" "k \<le> 56" "400 \<le> r" "r \<le> 2 ^ 51" "\<bar>a\<bar> \<le> 1" "\<bar>b\<bar> \<le> 1" "of_int a \<le> score - e" "score - e \<le> of_int b"
  shows "r + k * a \<le> new_rating r k score e" "new_rating r k score e \<le> max 400 (r + k * b)"
proof -
  have ab: "\<bar>k * a\<bar> \<le> 56" "\<bar>k * b\<bar> \<le> 56"
    using assms(1,2,5,6) mult_mono [of k 56 "\<bar>a\<bar>" 1] mult_mono [of k 56 "\<bar>b\<bar>" 1] by (simp_all add: abs_mult)
  have "of_int a \<le> fsub score e \<and> fsub score e \<le> of_int b"
    unfolding fsub_def using assms(5-8) by (intro fl_between) simp_all
  then have "of_int (k * a) \<le> of_int k * fsub score e" "of_int k * fsub score e \<le> of_int (k * b)"
    using assms(1) by (simp_all add: mult_left_mono)
  then have "of_int (k * a) \<le> fmul (of_int k) (fsub score e) \<and> fmul (of_int k) (fsub score e) \<le> of_int (k * b)"
    unfolding fmul_def using ab by (intro fl_between) simp_all
  then have "of_int (r + k * a) \<le> fadd (of_int r) (fmul (of_int k) (fsub score e)) \<and>
      fadd (of_int r) (fmul (of_int k) (fsub score e)) \<le> of_int (r + k * b)"
    unfolding fadd_def using ab assms(3,4) by (intro fl_between) simp_all
  then have "r + k * a \<le> js_round (fadd (of_int r) (fmul (of_int k) (fsub score e)))"
    "js_round (fadd (of_int r) (fmul (of_int k) (fsub score e))) \<le> r + k * b"
    using js_round_mono js_round_int by metis+
  then show "r + k * a \<le> new_rating r k score e" "new_rating r k score e \<le> max 400 (r + k * b)"
    by (simp_all add: new_rating_def)
qed

lemma new_rating_anti: "0 \<le> k \<Longrightarrow> e \<le> e' \<Longrightarrow> new_rating r k score e' \<le> new_rating r k score e"
  unfolding new_rating_def fadd_def fmul_def fsub_def
  by (intro max.mono order_refl js_round_mono fl_mono add_left_mono mult_left_mono diff_left_mono) simp_all

text \<open>C17: A game moves the rating fairly: whatever the engine's \<open>Math.pow\<close> (positive or overflowing, and monotone), a
counted game leaves a whole rating of at least 400, at most 56 points away while the rating is provisional and 24
afterwards; a win never lowers it, a loss never raises it; and for the same result a stronger opponent never pays less.\<close>

theorem rating_change_fair:
  assumes "powers pow" "field ''rating'' state = JInt r" "400 \<le> r" "r \<le> 2 ^ 51"
    and "ratingChangeDetails js pow state d (ratingScoreForOutcome outcome) st = (Some c, st')" "\<not> rc_duplicate c"
    and "ratingChangeDetails js pow state d' (ratingScoreForOutcome outcome) st = (Some c', st'')" "\<not> rc_duplicate c'"
    and "json_number d = Fin p" "json_number d' = Fin q" "p \<le> q"
  shows "\<exists>n n'. field ''rating'' (rc_next c) = JInt n \<and> rc_delta c = Fin (of_int (n - r)) \<and> 400 \<le> n \<and> \<bar>n - r\<bar> \<le> rc_kFactor c \<and>
           rc_kFactor c = (if num_lt (num_or_zero (field ''games'' state)) (Fin 5) then 56 else 24) \<and>
           (outcome = JStr ''win'' \<longrightarrow> r \<le> n) \<and> (outcome = JStr ''loss'' \<longrightarrow> n \<le> r) \<and>
           field ''rating'' (rc_next c') = JInt n' \<and> n \<le> n'"
proof -
  let ?s = "ratingScoreForOutcome outcome"
  have s: "0 \<le> ?s" "?s \<le> 1" by (simp_all add: ratingScoreForOutcome_def)
  obtain e k where c: "rc_kFactor c = k" "k = 56 \<or> k = 24" "0 \<le> e" "e \<le> 1"
    "rc_cpuRating c = cpuRatingForDifficulty (json_number d)" "expected_score pow (rc_cpuRating c) (JInt r) = Fin e"
    "field ''rating'' (rc_next c) = JInt (new_rating r k ?s e)" "rc_delta c = Fin (fsub (of_int (new_rating r k ?s e)) (of_int r))"
    "k = (if num_lt (num_or_zero (field ''games'' state)) (Fin 5) then 56 else 24)"
    using change_of_rating [OF assms(2,1,5,6)] by metis
  obtain e' where c': "rc_cpuRating c' = cpuRatingForDifficulty (json_number d')" "expected_score pow (rc_cpuRating c') (JInt r) = Fin e'"
    "field ''rating'' (rc_next c') = JInt (new_rating r k ?s e')"
    using change_of_rating [OF assms(2,1,7,8)] c(9) by metis
  have k: "0 \<le> k" "k \<le> 56" using c(2) by auto
  have "e' \<le> e"
    using expected_score_anti [OF assms(1) _ c(6) c'(2)] cpuRating_mono [OF assms(11)] c(5) c'(1) assms(9,10) by simp
  then have "new_rating r k ?s e \<le> new_rating r k ?s e'" using k by (intro new_rating_anti)
  moreover have near: "\<bar>new_rating r k ?s e - r\<bar> \<le> k"
    using new_rating_between [OF k assms(3,4), of "-1" 1 ?s e] s c(3,4) k assms(3) by simp
  moreover have "fsub (of_int (new_rating r k ?s e)) (of_int r) = of_int (new_rating r k ?s e - r)"
    using near k by (intro fsub_whole) simp
  moreover have "outcome = JStr ''win'' \<Longrightarrow> r \<le> new_rating r k ?s e"
    using new_rating_between(1) [OF k assms(3,4), of 0 1 1 e] c(3,4) by (simp add: ratingScoreForOutcome_def)
  moreover have "outcome = JStr ''loss'' \<Longrightarrow> new_rating r k ?s e \<le> r"
    using new_rating_between(2) [OF k assms(3,4), of "-1" 0 0 e] c(3,4) assms(3) by (simp add: ratingScoreForOutcome_def)
  moreover have "400 \<le> new_rating r k ?s e" by (simp add: new_rating_def)
  ultimately show ?thesis using c(1,7,8,9) c'(3) by simp
qed

text \<open>A power of ten that only tells the stronger side, and a win against two opponents.\<close>

definition ten_to :: "jsnum \<Rightarrow> jsnum" where
  "ten_to x = (case x of Fin q \<Rightarrow> if q \<le> 0 then Fin 1 else Fin 10 | n \<Rightarrow> n)"

lemma powers_ten_to: "powers ten_to"
  by (auto simp: powers_def ten_to_def)

definition veteran :: json where "veteran = JObj [(''rating'', JInt 1200), (''games'', JInt 7)]"

lemma veteran_change:
  "\<exists>c. ratingChangeDetails coded_json ten_to veteran (JInt d) s Map.empty = (Some c, Map.empty) \<and> \<not> rc_duplicate c"
  by (simp add: ratingChangeDetails_def veteran_def activeRatingGameId_def loadActiveGameSession_def read_cleaning_def session_of_def
      truthy_def or_else_json_def spread_values_def Let_def field_def)

theorem rating_change_fair_witness:
  "\<exists>c n. fst (ratingChangeDetails coded_json ten_to veteran (JInt 30) 1 Map.empty) = Some c \<and> field ''rating'' (rc_next c) = JInt n \<and>
     1200 \<le> n \<and> \<bar>n - 1200\<bar> \<le> rc_kFactor c"
proof -
  have score: "ratingScoreForOutcome (JStr ''win'') = 1" by (simp add: ratingScoreForOutcome_def)
  obtain c where c: "ratingChangeDetails coded_json ten_to veteran (JInt 30) 1 Map.empty = (Some c, Map.empty)" "\<not> rc_duplicate c"
    using veteran_change by blast
  obtain c' where c': "ratingChangeDetails coded_json ten_to veteran (JInt 60) 1 Map.empty = (Some c', Map.empty)" "\<not> rc_duplicate c'"
    using veteran_change by blast
  have "field ''rating'' veteran = JInt 1200" by (simp add: veteran_def)
  from rating_change_fair [OF powers_ten_to this _ _ c(1) [folded score] c(2) c'(1) [folded score] c'(2)] c(1)
  show ?thesis by fastforce
qed

section \<open>Once per game\<close>

lemma field_null: "field k JNull = JUndef"
  by (simp add: field_def)

lemma active_id_kept:
  assumes "activeRatingGameId js st = (gid, st')" "truthy gid"
  shows "st' = st" "k \<noteq> ACTIVE_GAME_SESSION_KEY \<Longrightarrow> activeRatingGameId js (st(k \<mapsto> v)) = (gid, st(k \<mapsto> v))"
  using assms by (auto simp: activeRatingGameId_def loadActiveGameSession_def read_cleaning_def session_of_def or_else_json_def truthy_def
      field_null split: option.splits if_splits)

lemma processed_ids_first: "truthy v \<Longrightarrow> \<exists>ws. processed_ids (v # vs) = v # ws"
  by (simp add: processed_ids_def js_includes_def)

lemma first_kept: "g \<noteq> [] \<Longrightarrow> js_includes (JStr g) (processedGameIds (JArr (processed_ids (JStr g # vs))))"
proof -
  assume "g \<noteq> []"
  then have head: "\<exists>ws. processed_ids (JStr g # us) = JStr g # ws" for us by (simp add: processed_ids_first truthy_def)
  obtain ws where "processed_ids (JStr g # vs) = JStr g # ws" using head by blast
  then show ?thesis using head [of ws] by (auto simp: processedGameIds_def)
qed

lemma rating_keys: "RATING_KEY \<noteq> ACTIVE_GAME_SESSION_KEY"
  by (simp add: RATING_KEY_def ACTIVE_GAME_SESSION_KEY_def)

text \<open>What a counted game leaves: it is the first of the processed games, and the change touched no storage.\<close>

lemma rated_game:
  assumes "activeRatingGameId js st = (JStr g, st1)" "g \<noteq> []" "ratingChangeDetails js pow state d score st = (Some c, st')" "\<not> rc_duplicate c"
  obtains n vs where "field ''rating'' (rc_next c) = JNum n" "field ''processedGameIds'' (rc_next c) = JArr (processed_ids (JStr g # vs))"
    "is_object (rc_next c)" "st' = st"
proof -
  have "st1 = st" using active_id_kept [OF assms(1)] assms(2) by (simp add: truthy_def)
  then show ?thesis using assms that
    by (auto simp: ratingChangeDetails_def Let_def truthy_def is_object_def split: if_splits option.splits)
qed

lemma duplicate_game:
  assumes "activeRatingGameId js st = (JStr g, st)" "g \<noteq> []" "js_includes (JStr g) (elements (field ''processedGameIds'' (loadRating js st)))"
  shows "\<exists>c. ratingChangeDetails js pow state d score st = (Some c, st) \<and> rc_duplicate c \<and> rc_next c = loadRating js st"
  using assms by (simp add: ratingChangeDetails_def Let_def truthy_def)

text \<open>A game is rated once: once the change of the game being played is stored, every later change asked for while the
same game is the active one, with whatever state, opponent, score and engine, is a duplicate: it hands back the stored
rating, unchanged, and writes nothing.\<close>

theorem game_rated_once:
  assumes "activeRatingGameId js st = (JStr g, st1)" "g \<noteq> []"
    and "ratingChangeDetails js pow state d score st = (Some c, st')" "\<not> rc_duplicate c" "survives js (rc_next c)"
  shows "\<exists>c2. ratingChangeDetails js pw state2 d2 score2 (saveRating js (rc_next c) st') = (Some c2, saveRating js (rc_next c) st') \<and>
           rc_duplicate c2 \<and> field ''rating'' (rc_next c2) = field ''rating'' (rc_next c)"
proof -
  let ?st = "saveRating js (rc_next c) st'"
  obtain n vs where c: "field ''rating'' (rc_next c) = JNum n" "field ''processedGameIds'' (rc_next c) = JArr (processed_ids (JStr g # vs))"
    "is_object (rc_next c)" "st' = st"
    using rated_game [OF assms(1-4)] by metis
  have "truthy (JStr g)" using assms(2) by (simp add: truthy_def)
  then have id: "activeRatingGameId js ?st = (JStr g, ?st)"
    using active_id_kept [OF assms(1)] rating_keys c(4) by (simp add: saveRating_def)
  have load: "loadRating js ?st = rating_of (rc_next c)"
    using read_json_written [OF assms(5)] by (simp add: loadRating_def saveRating_def)
  have "js_includes (JStr g) (elements (field ''processedGameIds'' (loadRating js ?st)))"
    using c(2,3) first_kept [OF assms(2), of vs] unfolding load rating_of_def by simp
  from duplicate_game [OF id assms(2) this, of pw state2 d2 score2] obtain c2 where c2:
    "ratingChangeDetails js pw state2 d2 score2 ?st = (Some c2, ?st)" "rc_duplicate c2" "rc_next c2 = rating_of (rc_next c)"
    using load by auto
  have "field ''rating'' (rating_of (rc_next c)) = field ''rating'' (rc_next c)" using c(1,3) by (simp add: rating_of_def)
  then show ?thesis using c2 by simp
qed

text \<open>A game in progress, as the page stores it.\<close>

definition playing :: store where
  "playing = [ACTIVE_GAME_SESSION_KEY \<mapsto> stringify coded_json
     (JObj [(''version'', JInt 1), (''route'', JStr ''game''), (''gameId'', JStr ''g1'')])]"

lemma parse_stringify: "parse coded_json (stringify coded_json v) = Some v"
  using survives_coded [of v] by (simp add: survives_def)

lemma playing_id: "activeRatingGameId coded_json playing = (JStr ''g1'', playing)"
  by (simp add: activeRatingGameId_def loadActiveGameSession_def read_cleaning_def playing_def parse_stringify session_of_def truthy_def
      active_route_def isActiveSessionRoute_def ACTIVE_SESSION_ROUTES_def with_fields_def or_else_json_def spread_fields_def)

lemma playing_change:
  "\<exists>c. ratingChangeDetails coded_json ten_to veteran d s playing = (Some c, playing) \<and> \<not> rc_duplicate c"
  using playing_id rating_keys
  by (simp add: ratingChangeDetails_def veteran_def Let_def loadRating_def read_json_def playing_def rating_of_def is_object_def emptyRating_def
      truthy_def spread_values_def js_includes_def)

theorem game_rated_once_witness:
  "\<exists>c c2 st. ratingChangeDetails coded_json ten_to veteran (JInt 30) 1 playing = (Some c, playing) \<and> st = saveRating coded_json (rc_next c) playing \<and>
     ratingChangeDetails coded_json ten_to (rc_next c) (JInt 90) 0 st = (Some c2, st) \<and> rc_duplicate c2"
proof -
  obtain c where c: "ratingChangeDetails coded_json ten_to veteran (JInt 30) 1 playing = (Some c, playing)" "\<not> rc_duplicate c"
    using playing_change by blast
  have "''g1'' \<noteq> []" by simp
  from game_rated_once [OF playing_id this c survives_coded, of ten_to "rc_next c" "JInt 90" 0] c(1) show ?thesis by blast
qed

section \<open>The correction for the quality of play\<close>

lemma quality_bounds:
  "- 4 \<le> ratingQualityAdjustment ev outcome" "ratingQualityAdjustment ev outcome \<le> 4"
  "outcome = JStr ''win'' \<Longrightarrow> 0 \<le> ratingQualityAdjustment ev outcome"
  "outcome = JStr ''loss'' \<Longrightarrow> ratingQualityAdjustment ev outcome \<le> 0"
proof -
  have "\<exists>a b raw. ratingQualityAdjustment ev outcome = (if a then 0 else if b then 0 else
      if outcome = JStr ''win'' then clamp 0 4 raw else if outcome = JStr ''draw'' then clamp (-2) 2 raw
      else if outcome = JStr ''loss'' then clamp (-4) 0 raw else 0)"
    unfolding ratingQualityAdjustment_def Let_def by (intro exI, rule refl)
  then show "- 4 \<le> ratingQualityAdjustment ev outcome" "ratingQualityAdjustment ev outcome \<le> 4"
    "outcome = JStr ''win'' \<Longrightarrow> 0 \<le> ratingQualityAdjustment ev outcome"
    "outcome = JStr ''loss'' \<Longrightarrow> ratingQualityAdjustment ev outcome \<le> 0"
    by (auto simp: clamp_def)
qed

lemma truthy_with_fields [simp]: "truthy (with_fields fs (JObj kvs))"
  by (simp add: with_fields_def truthy_def)

lemma truthy_obj: "truthy (JObj kvs)"
  by (simp add: truthy_def)

lemma json_string_str [simp]: "truthy (JStr g) \<longleftrightarrow> g \<noteq> []"
  by (simp add: truthy_def)

lemma quality_changed:
  assumes "field ''rating'' state = JInt r" "400 \<le> r" "r \<le> 2 ^ 51" "g \<noteq> []"
    and "\<not> js_includes (JStr g) (processedGameIds (field ''qualityAdjustedGameIds'' state))"
  obtains n vs where "n = max 400 (r + ratingQualityAdjustment ev outcome)"
    "field ''rating'' (qc_next (ratingQualityChangeDetails state (JStr g) ev outcome)) = JInt n"
    "qc_delta (ratingQualityChangeDetails state (JStr g) ev outcome) = Fin (of_int (n - r))"
    "field ''qualityAdjustedGameIds'' (qc_next (ratingQualityChangeDetails state (JStr g) ev outcome)) = JArr (processed_ids (JStr g # vs))"
    "\<not> qc_duplicate (ratingQualityChangeDetails state (JStr g) ev outcome)"
    "truthy (qc_next (ratingQualityChangeDetails state (JStr g) ev outcome))"
proof -
  let ?a = "ratingQualityAdjustment ev outcome"
  define n where "n = max 400 (r + ?a)"
  have a: "- 4 \<le> ?a" "?a \<le> 4" by (simp_all add: quality_bounds)
  have "fadd (of_int r) (of_int ?a) = of_int (r + ?a)" using fl_whole [of "r + ?a"] a assms(2,3) by (simp add: fadd_def)
  then have rating: "num_max (Fin 400) (num_plus (Fin (of_int r)) (Fin (of_int ?a))) = Fin (of_int n)"
    by (simp add: n_def max_def)
  have delta: "fsub (of_int n) (of_int r) = of_int (n - r)" using a assms(2) by (intro fsub_whole) (simp add: n_def)
  obtain kvs where state: "state = JObj kvs" using assms(1) by (cases state) (auto simp: field_def)
  show ?thesis
    using that [of n "processedGameIds (field ''qualityAdjustedGameIds'' state)"] assms(4,5) rating delta
    unfolding ratingQualityChangeDetails_def assms(1)
    by (simp add: n_def Let_def state or_else_json_def truthy_obj spread_fields_def field_with_fields del: field_JObj)
qed

text \<open>The analysis of a game corrects the rating once: by at most 4 points, never down after a win and never up after a
loss, never below 400; asked again for the same game, with whatever evidence, it hands back the corrected state
unchanged.\<close>

theorem quality_adjusts_once:
  assumes "field ''rating'' state = JInt r" "400 \<le> r" "r \<le> 2 ^ 51" "g \<noteq> []"
    and "\<not> js_includes (JStr g) (processedGameIds (field ''qualityAdjustedGameIds'' state))"
    and "q = ratingQualityChangeDetails state (JStr g) ev outcome"
  shows "\<exists>n. field ''rating'' (qc_next q) = JInt n \<and> qc_delta q = Fin (of_int (n - r)) \<and> 400 \<le> n \<and> \<bar>n - r\<bar> \<le> 4 \<and>
           (outcome = JStr ''win'' \<longrightarrow> r \<le> n) \<and> (outcome = JStr ''loss'' \<longrightarrow> n \<le> r) \<and>
           ratingQualityChangeDetails (qc_next q) (JStr g) ev' outcome' = \<lparr>qc_next = qc_next q, qc_delta = Fin 0, qc_duplicate = True\<rparr>"
proof -
  let ?a = "ratingQualityAdjustment ev outcome"
  obtain n vs where n: "n = max 400 (r + ?a)" and q: "field ''rating'' (qc_next q) = JInt n" "qc_delta q = Fin (of_int (n - r))"
    "field ''qualityAdjustedGameIds'' (qc_next q) = JArr (processed_ids (JStr g # vs))" "truthy (qc_next q)"
    using quality_changed [OF assms(1-5), of ev outcome] assms(6) by metis
  have again: "ratingQualityChangeDetails (qc_next q) (JStr g) ev' outcome' = \<lparr>qc_next = qc_next q, qc_delta = Fin 0, qc_duplicate = True\<rparr>"
    using q(3,4) first_kept [OF assms(4), of vs] assms(4) by (simp add: ratingQualityChangeDetails_def Let_def or_else_json_def)
  show ?thesis
    using quality_bounds(1,2) [of ev outcome] quality_bounds(3,4) [of outcome ev] assms(2) by (intro exI [of _ n] conjI q(1,2) again impI) (auto simp: n)
qed

theorem quality_adjusts_once_witness:
  "\<exists>n. field ''rating'' (qc_next (ratingQualityChangeDetails veteran (JStr ''g1'') JNull (JStr ''win''))) = JInt n \<and> 1200 \<le> n \<and> n \<le> 1204"
proof -
  have v: "field ''rating'' veteran = JInt 1200" "\<not> js_includes (JStr ''g1'') (processedGameIds (field ''qualityAdjustedGameIds'' veteran))"
    by (simp_all add: veteran_def processedGameIds_def elements_def processed_ids_def)
  show ?thesis using quality_adjusts_once [OF v(1) _ _ _ v(2) refl, of JNull "JStr ''win''"] by fastforce
qed

end
