(* ===== verification/QuickMatchProps.thy ===== *)
theory QuickMatchProps
  imports QuickMatch PlayerRatingProps
begin

text \<open>A quick match is fair: its opponent is never far from the lead the code aims at, and the lead is bounded.\<close>

lemma lead_bounds:
  "- 75 \<le> quickMatchTargetLeadElo dp activity games quality now" "quickMatchTargetLeadElo dp activity games quality now \<le> 75"
  "\<not> provisional_games games \<Longrightarrow> 0 \<le> quickMatchTargetLeadElo dp activity games quality now"
  "provisional_games games \<Longrightarrow> quickMatchTargetLeadElo dp activity games quality now \<le> 50"
proof -
  have "\<exists>x. quickMatchTargetLeadElo dp activity games quality now = (if provisional_games games then clamp (-75) 50 x else clamp 0 75 x)"
    unfolding quickMatchTargetLeadElo_def Let_def QUICK_MATCH_TARGET_LEAD_ELO_def by (simp, blast)
  then show "- 75 \<le> quickMatchTargetLeadElo dp activity games quality now" "quickMatchTargetLeadElo dp activity games quality now \<le> 75"
    "\<not> provisional_games games \<Longrightarrow> 0 \<le> quickMatchTargetLeadElo dp activity games quality now"
    "provisional_games games \<Longrightarrow> quickMatchTargetLeadElo dp activity games quality now \<le> 50"
    by (auto simp: clamp_def)
qed

text \<open>A lead that grows with the games played, from -50 to 50.\<close>

lemma provisional_lead_bounds:
  "- 50 \<le> provisionalQuickMatchLeadElo games" "provisionalQuickMatchLeadElo games \<le> 50"
proof -
  have "- 50 \<le> js_round (fadd (- 50) (fmul 100 p)) \<and> js_round (fadd (- 50) (fmul 100 p)) \<le> 50" if "0 \<le> p" "p \<le> 1" for p
  proof -
    have "of_int 0 \<le> fmul 100 p \<and> fmul 100 p \<le> of_int 100" unfolding fmul_def using that by (intro fl_between) simp_all
    then have "of_int (- 50) \<le> fadd (- 50) (fmul 100 p) \<and> fadd (- 50) (fmul 100 p) \<le> of_int 50"
      unfolding fadd_def by (intro fl_between) simp_all
    then show ?thesis using js_round_mono js_round_int by metis
  qed
  then show "- 50 \<le> provisionalQuickMatchLeadElo games" "provisionalQuickMatchLeadElo games \<le> 50"
    by (auto simp: provisionalQuickMatchLeadElo_def QUICK_MATCH_TARGET_LEAD_ELO_def QUICK_MATCH_PROVISIONAL_START_LEAD_ELO_def
        split: jsnum.split)
qed

lemma previous_bounds: "previousAdaptiveDifficulty dp activity now = Some d \<Longrightarrow> 0 \<le> d \<and> d \<le> 100"
  by (auto simp: previousAdaptiveDifficulty_def clamp_def split: option.splits jsnum.splits)

text \<open>What the opponent of a match is chosen from: the values passed, or else the stored ones.\<close>

definition match_activity :: "json_api \<Rightarrow> json \<Rightarrow> store \<Rightarrow> json" where
  "match_activity js activity st = (if absent activity then JArr (loadGameActivity js st) else activity)"

definition match_games :: "json_api \<Rightarrow> json \<Rightarrow> store \<Rightarrow> rat" where
  "match_games js games st = finite_else 0 (json_number (if absent games then field ''games'' (loadRating js st) else games))"

definition match_quality :: "json_api \<Rightarrow> json \<Rightarrow> store \<Rightarrow> json" where
  "match_quality js quality st = (if absent quality then loadCleanGameRecords js st else quality)"

definition match_lead :: "json_api \<Rightarrow> date_parse \<Rightarrow> json \<Rightarrow> json \<Rightarrow> json \<Rightarrow> int \<Rightarrow> store \<Rightarrow> int" where
  "match_lead js dp activity games quality now st =
     quickMatchTargetLeadElo dp (match_activity js activity st) (Fin (match_games js games st)) (match_quality js quality st) now"

lemma quick_match_cases:
  assumes "finite_else 400 (json_number rating) = of_int r" "\<bar>r\<bar> \<le> 2 ^ 51"
    and "d = difficultyForQuickMatchRating js dp rating activity games quality now st"
    and "lead = match_lead js dp activity games quality now st"
  obtains (kept) "5 \<le> match_games js games st" "previousAdaptiveDifficulty dp (match_activity js activity st) now = Some d"
      "\<bar>fsub (of_int (cpuRatingForDifficulty (Fin (of_int d)))) (of_int (r + lead))\<bar> \<le> 25"
  | (chosen) "d = difficultyForCpuRating (Fin (of_int (r + lead)))"
proof -
  have "\<bar>r + lead\<bar> \<le> 2 ^ 52"
    using assms(2,4) lead_bounds(1,2) [of dp "match_activity js activity st" "Fin (match_games js games st)" "match_quality js quality st" now]
    by (simp add: match_lead_def)
  then have "fadd (of_int r) (of_int lead) = of_int (r + lead)" using fl_whole [of "r + lead"] by (simp add: fadd_def)
  moreover have "difficultyForQuickMatchRating js dp rating activity games quality now st =
     (case (if 5 \<le> match_games js games st
            then (case previousAdaptiveDifficulty dp (match_activity js activity st) now of
                    None \<Rightarrow> None
                  | Some previous \<Rightarrow>
                      if \<bar>fsub (of_int (cpuRatingForDifficulty (Fin (of_int previous)))) (fadd (of_int r) (of_int lead))\<bar> \<le> 25
                      then Some previous else None)
            else None) of
        Some previous \<Rightarrow> previous | None \<Rightarrow> difficultyForCpuRating (Fin (fadd (of_int r) (of_int lead))))"
    by (simp only: difficultyForQuickMatchRating_def Let_def PROVISIONAL_GAMES_def QUICK_MATCH_HYSTERESIS_ELO_def
        match_activity_def match_games_def match_quality_def match_lead_def assms(1,4) of_int_numeral)
  ultimately show ?thesis using assms(3) that by (auto split: if_splits option.splits)
qed

lemma opponent_first_last: "cpuRatingForDifficulty (Fin 0) = 350" "cpuRatingForDifficulty (Fin 100) = 1800"
proof -
  have "\<bar>of_int (scale_from 100 CPU_RATING_ANCHORS) - (1800 :: rat)\<bar> < 1" "\<bar>of_int (scale_from 0 CPU_RATING_ANCHORS) - (350 :: rat)\<bar> < 1"
    using opponent.scale_is_close [of 100] opponent.exact_last opponent.scale_is_close [of 0] opponent.exact_first
    by (simp_all add: CPU_RATING_ANCHORS_def)
  then have "scale_from 100 CPU_RATING_ANCHORS = 1800" "scale_from 0 CPU_RATING_ANCHORS = 350" by linarith+
  then show "cpuRatingForDifficulty (Fin 0) = 350" "cpuRatingForDifficulty (Fin 100) = 1800"
    by (simp_all add: cpuRatingForDifficulty_def or_zero_def clamp_num_def)
qed

lemma opponent_range: "0 \<le> d \<Longrightarrow> d \<le> 100 \<Longrightarrow> 350 \<le> cpuRatingForDifficulty (Fin (of_int d)) \<and> cpuRatingForDifficulty (Fin (of_int d)) \<le> 1800"
  using cpuRating_mono [of 0 "of_int d"] cpuRating_mono [of "of_int d" 100] opponent_first_last by simp

text \<open>The opponent chosen for a target is near it, as far as the scale goes.\<close>

lemma opponent_for_target: "\<bar>cpuRatingForDifficulty (Fin (of_int (difficultyForCpuRating (Fin (of_int t))))) - clamp 350 1800 t\<bar> \<le> 25"
proof -
  consider "t < 350" | "1800 < t" | "350 \<le> t" "t \<le> 1800" by linarith
  then show ?thesis
  proof cases
    case 3
    then have "\<bar>of_int (cpuRatingForDifficulty (Fin (of_int (difficultyForCpuRating (Fin (of_int t))))) - t) :: rat\<bar> \<le> 131 / 10"
      using opponent_near [of "of_int t"] by simp
    then have "\<bar>cpuRatingForDifficulty (Fin (of_int (difficultyForCpuRating (Fin (of_int t))))) - t\<bar> \<le> 25" by linarith
    then show ?thesis using 3 by (simp add: clamp_def)
  qed (simp_all add: difficultyForCpuRating_def CPU_RATING_ANCHORS_def clamp_def opponent_first_last)
qed

text \<open>C16: A quick match is fair: for any whole rating (up to 2 ^ 51; one that is not a finite number counts as 400), whatever
the journal, the games, the analyses and the clock, given or stored, the difficulty is within its range and the opponent's
strength is between 350 and 1800 and within 25 points of the rating plus a lead, as far as that target is itself between 350
and 1800. The lead is between -75 and 50 in the provisional games and between 0 and 75 afterwards.\<close>

theorem quick_match_fair:
  assumes "finite_else 400 (json_number rating) = of_int r" "\<bar>r\<bar> \<le> 2 ^ 51"
    and "d = difficultyForQuickMatchRating js dp rating activity games quality now st"
    and "lead = match_lead js dp activity games quality now st"
  shows "0 \<le> d \<and> d \<le> 100 \<and> 350 \<le> cpuRatingForDifficulty (Fin (of_int d)) \<and> cpuRatingForDifficulty (Fin (of_int d)) \<le> 1800 \<and>
         \<bar>cpuRatingForDifficulty (Fin (of_int d)) - clamp 350 1800 (r + lead)\<bar> \<le> 25 \<and>
         (if match_games js games st < 5 then - 75 \<le> lead \<and> lead \<le> 50 else 0 \<le> lead \<and> lead \<le> 75)"
proof -
  let ?c = "cpuRatingForDifficulty (Fin (of_int d))" and ?g = "match_games js games st"
  have prov: "provisional_games (Fin ?g) \<longleftrightarrow> ?g < 5" by (simp add: provisional_games_def PROVISIONAL_GAMES_def)
  have lead: "- 75 \<le> lead" "lead \<le> 75" "if ?g < 5 then - 75 \<le> lead \<and> lead \<le> 50 else 0 \<le> lead \<and> lead \<le> 75"
    using lead_bounds(1,2) [of dp "match_activity js activity st" "Fin ?g" "match_quality js quality st" now]
      lead_bounds(3,4) [of "Fin ?g" dp "match_activity js activity st" "match_quality js quality st" now] prov
    by (auto simp: assms(4) match_lead_def)
  have "0 \<le> d \<and> d \<le> 100 \<and> \<bar>?c - clamp 350 1800 (r + lead)\<bar> \<le> 25"
    using assms
  proof (cases rule: quick_match_cases)
    case kept
    then have d: "0 \<le> d \<and> d \<le> 100" by (intro previous_bounds)
    then have c: "350 \<le> ?c" "?c \<le> 1800" using opponent_range by simp_all
    then have "\<bar>?c - (r + lead)\<bar> \<le> 2 ^ 52" using assms(2) lead(1,2) by simp
    then have "\<bar>?c - (r + lead)\<bar> \<le> 25" using kept(3) fsub_whole [of ?c "r + lead"] by (simp flip: of_int_abs)
    then show ?thesis using c d by (auto simp: clamp_def)
  next
    case chosen
    then show ?thesis using opponent_for_target [of "r + lead"] opponent_difficulty_bounds [of "Fin (of_int (r + lead))"] by simp
  qed
  then show ?thesis using lead(3) opponent_range by simp
qed

theorem quick_match_fair_witness:
  "\<bar>cpuRatingForDifficulty (Fin (of_int (difficultyForQuickMatchRating coded_json (\<lambda>_. None) (JInt 2000) (JArr []) (JInt 12) (JObj []) 0 Map.empty))) - 1800\<bar> \<le> 25"
proof -
  have "finite_else 400 (json_number (JInt 2000)) = of_int 2000" by (simp add: finite_else_def)
  from quick_match_fair [OF this _ refl refl, of coded_json "\<lambda>_. None" "JArr []" "JInt 12" "JObj []" 0 Map.empty]
  have near: "\<bar>cpuRatingForDifficulty (Fin (of_int (difficultyForQuickMatchRating coded_json (\<lambda>_. None) (JInt 2000) (JArr []) (JInt 12) (JObj []) 0 Map.empty)))
      - clamp 350 1800 (2000 + match_lead coded_json (\<lambda>_. None) (JArr []) (JInt 12) (JObj []) 0 Map.empty)\<bar> \<le> 25"
    and lead: "0 \<le> match_lead coded_json (\<lambda>_. None) (JArr []) (JInt 12) (JObj []) 0 Map.empty"
    by (simp_all add: match_games_def absent_def finite_else_def)
  show ?thesis using near lead by (simp add: clamp_def)
qed

text \<open>A recalibration always changes the opponent, by no less than the hysteresis, and tells the truth about it.\<close>

lemma recalibration_counts:
  assumes "quickMatchRecalibration js dp previous rating activity games quality now st = Some q"
  shows "25 \<le> \<bar>qr_deltaOpponentElo q\<bar>" "qr_opponentRating q = cpuRatingForDifficulty (Fin (of_int (qr_difficulty q)))"
  using assms by (auto simp: quickMatchRecalibration_def Let_def QUICK_MATCH_HYSTERESIS_ELO_def split: jsnum.splits if_splits)

end
