(* ===== verification/AsyncControl.thy ===== *)
theory AsyncControl
  imports JsArith
begin

text \<open>
  Waiting with a limit (\<open>asyncControl.js\<close>) and retrying what is safe to repeat (\<open>transientRetry.js\<close>).

  An error is a value of any shape. A promise is what has happened to it so far: the platform's events are a list, in
  their order, and each operation is its state (timer armed, listener attached, result) and the step each event takes.
  The answers of a repeated call, and the moments the caller gives up, are functions of the number of the attempt.
\<close>

datatype 'v answer = Value 'v | Failure json

definition isAbortError :: "json \<Rightarrow> bool" where
  "isAbortError error \<longleftrightarrow>
     field ''name'' error = JStr ''AbortError'' \<or> field ''name'' (field ''cause'' error) = JStr ''AbortError''"

definition abortError :: "string \<Rightarrow> json" where
  "abortError message = JObj [(''message'', JStr message), (''name'', JStr ''AbortError'')]"

text \<open>The reason of an aborted signal, or the default error.\<close>

definition abort_reason :: "json \<Rightarrow> json" where
  "abort_reason reason = or_else_json reason (abortError ''Aborted'')"

definition duration_of :: "rat \<Rightarrow> rat \<Rightarrow> json \<Rightarrow> jsnum" where
  "duration_of least d ms = num_max (Fin least) (if truthy (JNum (json_number ms)) then json_number ms else Fin d)"

section \<open>A promise with a timer\<close>

text \<open>\<open>Settled\<close> is the watched promise, \<open>Fired\<close> the timer, \<open>Aborted\<close> the signal with its reason.\<close>

datatype 'v happening = Settled "'v answer" | Fired | Aborted json

record 'v watch =
  wa_timer :: bool
  wa_listener :: bool
  wa_result :: "'v answer option"

definition finish :: "'v answer \<Rightarrow> 'v watch \<Rightarrow> 'v watch" where
  "finish a w = (case wa_result w of Some _ \<Rightarrow> w | None \<Rightarrow> \<lparr>wa_timer = False, wa_listener = False, wa_result = Some a\<rparr>)"

text \<open>A start with a signal: \<open>None\<close> no signal, \<open>Some None\<close> a live one, \<open>Some (Some r)\<close> one already aborted.\<close>

definition watch_start :: "json option option \<Rightarrow> 'v watch" where
  "watch_start signal =
     (case signal of
        Some (Some reason) \<Rightarrow> \<lparr>wa_timer = False, wa_listener = False, wa_result = Some (Failure (abort_reason reason))\<rparr>
      | Some None \<Rightarrow> \<lparr>wa_timer = True, wa_listener = True, wa_result = None\<rparr>
      | None \<Rightarrow> \<lparr>wa_timer = True, wa_listener = False, wa_result = None\<rparr>)"

definition timeout_error :: "string \<Rightarrow> jsnum \<Rightarrow> json" where
  "timeout_error message duration =
     JObj [(''message'', JStr message), (''name'', JStr ''TimeoutError''), (''timeout'', JBool True), (''timeoutMs'', JNum duration)]"

text \<open>What a cleared timer or a removed listener would do no longer happens.\<close>

fun delay_step :: "unit happening \<Rightarrow> unit watch \<Rightarrow> unit watch" where
  "delay_step Fired w = (if wa_timer w then finish (Value ()) w else w)"
| "delay_step (Aborted reason) w = (if wa_listener w then finish (Failure (abort_reason reason)) w else w)"
| "delay_step (Settled _) w = w"

definition abortableDelay :: "json option option \<Rightarrow> unit happening list \<Rightarrow> unit watch" where
  "abortableDelay signal happenings = fold delay_step happenings (watch_start signal)"

fun timeout_step :: "string \<Rightarrow> jsnum \<Rightarrow> 'v happening \<Rightarrow> 'v watch \<Rightarrow> 'v watch" where
  "timeout_step message duration Fired w =
     (if wa_timer w then finish (Failure (timeout_error message duration)) w else w)"
| "timeout_step message duration (Aborted reason) w = (if wa_listener w then finish (Failure (abort_reason reason)) w else w)"
| "timeout_step message duration (Settled a) w = finish a w"

definition withTimeout :: "string \<Rightarrow> json \<Rightarrow> json option option \<Rightarrow> 'v happening list \<Rightarrow> 'v watch" where
  "withTimeout message timeoutMs signal happenings =
     fold (timeout_step message (duration_of 1 10000 timeoutMs)) happenings (watch_start signal)"

section \<open>A request with a limit\<close>

text \<open>The controller the request is given, the mark of the timer, and the answer the caller gets.\<close>

record 'v limited_request =
  rq_timer :: bool
  rq_listener :: bool
  rq_timedOut :: bool
  rq_controller :: "json option"
  rq_result :: "'v answer option"

definition abort_controller :: "json \<Rightarrow> 'v limited_request \<Rightarrow> 'v limited_request" where
  "abort_controller reason q = (case rq_controller q of Some _ \<Rightarrow> q | None \<Rightarrow> q\<lparr>rq_controller := Some reason\<rparr>)"

definition request_start :: "json option option \<Rightarrow> 'v limited_request" where
  "request_start signal =
     (let q = \<lparr>rq_timer = True, rq_listener = False, rq_timedOut = False, rq_controller = None, rq_result = None\<rparr>
      in case signal of Some (Some reason) \<Rightarrow> abort_controller (abort_reason reason) q
         | Some None \<Rightarrow> q\<lparr>rq_listener := True\<rparr> | None \<Rightarrow> q)"

definition tag_timeout :: "jsnum \<Rightarrow> bool \<Rightarrow> 'v answer \<Rightarrow> 'v answer" where
  "tag_timeout duration timedOut a =
     (case a of
        Value v \<Rightarrow> Value v
      | Failure error \<Rightarrow>
          Failure (if timedOut \<and> isAbortError error
                   then with_fields [(''timeout'', JBool True), (''timeoutMs'', JNum duration)] error else error))"

fun request_step :: "jsnum \<Rightarrow> 'v happening \<Rightarrow> 'v limited_request \<Rightarrow> 'v limited_request" where
  "request_step duration Fired q =
     (if rq_timer q
      then abort_controller (abortError (''Request timed out after '' @ show_number duration @ '' ms''))
             (q\<lparr>rq_timer := False, rq_timedOut := True\<rparr>)
      else q)"
| "request_step duration (Aborted reason) q =
     (if rq_listener q then abort_controller (abort_reason reason) (q\<lparr>rq_listener := False\<rparr>) else q)"
| "request_step duration (Settled a) q =
     (case rq_result q of
        Some _ \<Rightarrow> q
      | None \<Rightarrow> q\<lparr>rq_timer := False, rq_listener := False, rq_result := Some (tag_timeout duration (rq_timedOut q) a)\<rparr>)"

text \<open>\<open>callable\<close>: whether the injected function is a function; \<open>limit\<close> is \<open>DEFAULT_REQUEST_TIMEOUT_MS\<close>.\<close>

definition fetchWithTimeout ::
  "rat \<Rightarrow> bool \<Rightarrow> json \<Rightarrow> json option option \<Rightarrow> 'v happening list \<Rightarrow> 'v limited_request" where
  "fetchWithTimeout limit callable timeoutMs signal happenings =
     (if \<not> callable
      then \<lparr>rq_timer = False, rq_listener = False, rq_timedOut = False, rq_controller = None,
            rq_result = Some (Failure (JObj [(''message'', JStr ''fetchImpl must be a function''), (''name'', JStr ''TypeError'')]))\<rparr>
      else fold (request_step (duration_of 1 limit timeoutMs)) happenings (request_start signal))"

section \<open>Retrying\<close>

definition TRANSIENT_RETRY_DELAYS_MS :: "int list" where
  "TRANSIENT_RETRY_DELAYS_MS = [500, 1000, 2000, 4000, 8000, 8000]"

definition TRANSIENT_STATUSES :: "int list" where
  "TRANSIENT_STATUSES = [502, 503, 504, 520, 521, 522, 523, 524, 525, 526, 527, 530]"

definition isTransientFailure :: "json \<Rightarrow> bool" where
  "isTransientFailure error =
     (if \<not> truthy error \<or> isAbortError error \<or> truthy (field ''timedOut'' error) then False
      else case field ''status'' error of JNum n \<Rightarrow> n \<in> set (map (\<lambda>i. Fin (of_int i)) TRANSIENT_STATUSES) | _ \<Rightarrow> True)"

text \<open>The world of a repeated call: the answer of each attempt, the reason of the signal when that answer arrives (if
  it is aborted by then), and how the wait after it ends (\<open>None\<close>: its timer fires).\<close>

record 'v world =
  wo_answer :: "nat \<Rightarrow> 'v answer"
  wo_aborted :: "nat \<Rightarrow> json option"
  wo_wait :: "nat \<Rightarrow> json option"

text \<open>What is done, in order: an attempt, and the notice of a retry with the wait after it.\<close>

datatype act = Attempt nat | Retry nat int json

function retry_from :: "'v world \<Rightarrow> bool \<Rightarrow> int list \<Rightarrow> nat \<Rightarrow> act list \<times> 'v answer" where
  "retry_from w idempotent delays i =
     (case wo_answer w i of
        Value v \<Rightarrow> ([Attempt i], Value v)
      | Failure error \<Rightarrow>
          if wo_aborted w i \<noteq> None \<and> idempotent \<and> isTransientFailure error
          then ([Attempt i], Failure (nullish (the (wo_aborted w i)) error))
          else if \<not> idempotent \<or> length delays \<le> i \<or> \<not> isTransientFailure error \<or> wo_aborted w i \<noteq> None
          then ([Attempt i], Failure error)
          else let acts = [Attempt i, Retry (i + 1) (delays ! i) error]
               in case wo_wait w i of
                    Some reason \<Rightarrow> (acts, Failure (abort_reason reason))
                  | None \<Rightarrow> (case retry_from w idempotent delays (i + 1) of (later, a) \<Rightarrow> (acts @ later, a)))"
  by pat_completeness auto
termination by (relation "measure (\<lambda>(w, idempotent, delays, i). length delays - i)") auto

declare retry_from.simps [simp del]

definition withTransientRetry :: "'v world \<Rightarrow> bool \<Rightarrow> int list \<Rightarrow> act list \<times> 'v answer" where
  "withTransientRetry w idempotent delays = retry_from w idempotent delays 0"

section \<open>What is promised\<close>

text \<open>A watch settles once and then holds nothing of the platform.\<close>

definition released :: "'v watch \<Rightarrow> bool" where
  "released w \<longleftrightarrow> (wa_result w \<noteq> None \<longrightarrow> \<not> wa_timer w \<and> \<not> wa_listener w)"

lemma finish_settled [simp]: "wa_result w = Some a \<Longrightarrow> finish b w = w" "wa_result w = None \<Longrightarrow> wa_result (finish b w) = Some b"
  by (simp_all add: finish_def)

lemma released_start: "released (watch_start signal)"
  by (simp add: released_def watch_start_def split: option.split)

lemma released_step: "released w \<Longrightarrow> released (timeout_step m d e w)"
  by (cases e) (auto simp: released_def finish_def split: option.split)

lemma released_fold: "released w \<Longrightarrow> released (fold (timeout_step m d) es w)"
  by (induction es arbitrary: w) (simp_all add: released_step)

lemma settled_stays: "released w \<Longrightarrow> wa_result w = Some a \<Longrightarrow> fold (timeout_step m d) es w = w"
proof (induction es)
  case (Cons e es)
  then have "timeout_step m d e w = w" by (cases e) (simp_all add: released_def)
  then show ?case using Cons by simp
qed simp

lemma watch_first:
  assumes "released w" "wa_result w = None" "wa_timer w" "wa_listener w \<longleftrightarrow> live"
  shows "wa_result (fold (timeout_step m d) es w) =
    (case List.find (\<lambda>e. case e of Aborted _ \<Rightarrow> live | _ \<Rightarrow> True) es of
       None \<Rightarrow> None
     | Some Fired \<Rightarrow> Some (Failure (timeout_error m d))
     | Some (Aborted reason) \<Rightarrow> Some (Failure (abort_reason reason))
     | Some (Settled a) \<Rightarrow> Some a)"
  using assms
proof (induction es)
  case (Cons e es)
  show ?case
  proof (cases "case e of Aborted _ \<Rightarrow> live | _ \<Rightarrow> True")
    case True
    let ?w = "timeout_step m d e w"
    have "wa_result ?w = (case e of Fired \<Rightarrow> Some (Failure (timeout_error m d)) | Aborted reason \<Rightarrow> Some (Failure (abort_reason reason)) | Settled a \<Rightarrow> Some a)"
      using True Cons.prems by (cases e) simp_all
    moreover obtain a where "wa_result ?w = Some a" using calculation by (cases e) simp_all
    then have "fold (timeout_step m d) es ?w = ?w" using settled_stays released_step Cons.prems(1) by blast
    ultimately show ?thesis using True by (cases e) simp_all
  next
    case False
    then have "timeout_step m d e w = w" using Cons.prems by (cases e) simp_all
    then show ?thesis using False Cons by simp
  qed
qed simp

text \<open>A watched promise settles exactly once, with what happens first: the timer, the promise's own answer, or the
abort of a signal that was given; nothing that happens later changes the result, and once it has settled neither the
timer nor the listener is left behind. With an already aborted signal it is settled from the start, whatever happens.\<close>

theorem first_event_wins:
  "wa_result (withTimeout m ms signal es) =
     (case signal of
        Some (Some reason) \<Rightarrow> Some (Failure (abort_reason reason))
      | _ \<Rightarrow> (case List.find (\<lambda>e. case e of Aborted _ \<Rightarrow> signal \<noteq> None | _ \<Rightarrow> True) es of
                None \<Rightarrow> None
              | Some Fired \<Rightarrow> Some (Failure (timeout_error m (duration_of 1 10000 ms)))
              | Some (Aborted reason) \<Rightarrow> Some (Failure (abort_reason reason))
              | Some (Settled a) \<Rightarrow> Some a)) \<and>
   released (withTimeout m ms signal es)"
proof -
  have "released (withTimeout m ms signal es)" by (simp add: withTimeout_def released_fold released_start)
  moreover have "wa_result (withTimeout m ms (Some (Some reason)) es) = Some (Failure (abort_reason reason))" for reason
    unfolding withTimeout_def by (subst settled_stays [OF released_start]) (simp_all add: watch_start_def)
  moreover have "wa_result (withTimeout m ms signal es) =
      (case List.find (\<lambda>e. case e of Aborted _ \<Rightarrow> signal \<noteq> None | _ \<Rightarrow> True) es of
         None \<Rightarrow> None
       | Some Fired \<Rightarrow> Some (Failure (timeout_error m (duration_of 1 10000 ms)))
       | Some (Aborted reason) \<Rightarrow> Some (Failure (abort_reason reason))
       | Some (Settled a) \<Rightarrow> Some a)" if "signal = None \<or> signal = Some None"
    unfolding withTimeout_def using that by (intro watch_first released_start) (auto simp: watch_start_def)
  ultimately show ?thesis by (cases signal) (auto split: option.split)
qed

text \<open>The attempts made, the waits begun, and an attempt that is followed by another.\<close>

definition attempts :: "act list \<Rightarrow> nat list" where
  "attempts acts = List.map_filter (\<lambda>x. case x of Attempt i \<Rightarrow> Some i | _ \<Rightarrow> None) acts"

definition retry_waits :: "act list \<Rightarrow> int list" where
  "retry_waits acts = List.map_filter (\<lambda>x. case x of Retry _ d _ \<Rightarrow> Some d | _ \<Rightarrow> None) acts"

definition repeatable :: "'v world \<Rightarrow> nat \<Rightarrow> bool" where
  "repeatable w i \<longleftrightarrow> (\<exists>error. wo_answer w i = Failure error \<and> isTransientFailure error) \<and> wo_aborted w i = None"

definition given_up :: "'v world \<Rightarrow> nat \<Rightarrow> bool" where
  "given_up w i \<longleftrightarrow> wo_aborted w i \<noteq> None \<or> wo_wait w i \<noteq> None"

lemma acts_simps [simp]:
  "attempts (Attempt i # acts) = i # attempts acts" "attempts (Retry i d e # acts) = attempts acts" "attempts [] = []"
  "retry_waits (Attempt i # acts) = retry_waits acts" "retry_waits (Retry i d e # acts) = d # retry_waits acts" "retry_waits [] = []"
  by (simp_all add: attempts_def retry_waits_def List.map_filter_simps)

text \<open>One round: it is the last, or it is repeatable and the rest follows.\<close>

lemma retry_round:
  assumes "retry_from w idempotent delays i = (acts, a)"
  obtains (answered) "acts = [Attempt i]" "a = wo_answer w i" "repeatable w i \<Longrightarrow> idempotent \<Longrightarrow> length delays \<le> i"
  | (aborted) "acts = [Attempt i]" "given_up w i" "idempotent" "\<exists>error. a = Failure error" "\<not> repeatable w i"
  | (dropped) error where "idempotent" "i < length delays" "repeatable w i" "given_up w i" "acts = [Attempt i, Retry (i + 1) (delays ! i) error]"
      "\<exists>error. a = Failure error"
  | (again) error later where "idempotent" "i < length delays" "repeatable w i" "wo_wait w i = None"
      "retry_from w idempotent delays (i + 1) = (later, a)" "acts = Attempt i # Retry (i + 1) (delays ! i) error # later"
proof -
  obtain later b where r: "retry_from w idempotent delays (i + 1) = (later, b)" by fastforce
  show ?thesis
  proof (cases "wo_answer w i")
    case (Value v)
    then show ?thesis using assms by (intro answered) (auto simp: retry_from.simps repeatable_def)
  next
    case (Failure error)
    consider "wo_aborted w i \<noteq> None" "idempotent" "isTransientFailure error"
      | "\<not> (wo_aborted w i \<noteq> None \<and> idempotent \<and> isTransientFailure error)"
        "\<not> idempotent \<or> length delays \<le> i \<or> \<not> isTransientFailure error \<or> wo_aborted w i \<noteq> None"
      | "idempotent" "i < length delays" "isTransientFailure error" "wo_aborted w i = None" by fastforce
    then show ?thesis
    proof cases
      case 1
      then have "retry_from w idempotent delays i = ([Attempt i], Failure (nullish (the (wo_aborted w i)) error))"
        using Failure by (simp add: retry_from.simps)
      then show ?thesis using 1 assms Failure by (intro aborted) (auto simp: repeatable_def given_up_def)
    next
      case 2
      then have "acts = [Attempt i]" "a = Failure error"
        using assms Failure by (simp_all add: retry_from.simps [of w idempotent delays i] split: if_splits)
      then show ?thesis using 2 Failure by (intro answered) (auto simp: repeatable_def)
    next
      case 3
      then have rep: "repeatable w i" using Failure by (simp add: repeatable_def)
      show ?thesis
      proof (cases "wo_wait w i")
        case None
        then have "retry_from w idempotent delays i = (Attempt i # Retry (i + 1) (delays ! i) error # later, b)"
          unfolding retry_from.simps [of w idempotent delays i] using 3 Failure r by simp
        then have "b = a" "acts = Attempt i # Retry (i + 1) (delays ! i) error # later" using assms by simp_all
        then show ?thesis by (intro again [of later error]) (use 3 rep None r in simp_all)
      next
        case (Some reason)
        then have "retry_from w idempotent delays i = ([Attempt i, Retry (i + 1) (delays ! i) error], Failure (abort_reason reason))"
          unfolding retry_from.simps [of w idempotent delays i] using 3 Failure by simp
        then have "acts = [Attempt i, Retry (i + 1) (delays ! i) error]" "\<exists>error. a = Failure error" using assms by auto
        then show ?thesis by (intro dropped [of error]) (use 3 rep Some in \<open>simp_all add: given_up_def\<close>)
      qed
    qed
  qed
qed

lemma retry_spec:
  assumes "retry_from w idempotent delays i = (acts, a)" "i \<le> length delays"
  shows "\<exists>n. i < n \<and> n \<le> length delays + 1 \<and> attempts acts = [i..<n] \<and> (\<forall>k. i \<le> k \<and> k + 1 < n \<longrightarrow> idempotent \<and> repeatable w k \<and> wo_wait w k = None) \<and>
    (retry_waits acts = map ((!) delays) [i..<n - 1] \<or> n \<le> length delays \<and> retry_waits acts = map ((!) delays) [i..<n] \<and> given_up w (n - 1)) \<and>
    (a = wo_answer w (n - 1) \<or> given_up w (n - 1) \<and> (\<exists>error. a = Failure error))"
  using assms
proof (induction "length delays - i" arbitrary: i acts)
  case 0
  then have i: "i = length delays" by simp
  from 0(2) show ?case by (rule retry_round) (use i in \<open>auto intro!: exI [of _ "Suc i"]\<close>)
next
  case (Suc m)
  from Suc.prems(1) show ?case
  proof (rule retry_round)
    fix error later
    assume again: "idempotent" "i < length delays" "repeatable w i" "wo_wait w i = None"
      "retry_from w idempotent delays (i + 1) = (later, a)" "acts = Attempt i # Retry (i + 1) (delays ! i) error # later"
    have "m = length delays - (i + 1)" "i + 1 \<le> length delays" using Suc.hyps(2) again(2) by simp_all
    from Suc.hyps(1) [OF this(1) again(5) this(2)] obtain n where n: "i + 1 < n" "n \<le> length delays + 1" "attempts later = [i + 1..<n]"
      "\<forall>k. i + 1 \<le> k \<and> k + 1 < n \<longrightarrow> idempotent \<and> repeatable w k \<and> wo_wait w k = None"
      "retry_waits later = map ((!) delays) [i + 1..<n - 1] \<or> n \<le> length delays \<and> retry_waits later = map ((!) delays) [i + 1..<n] \<and> given_up w (n - 1)"
      "a = wo_answer w (n - 1) \<or> given_up w (n - 1) \<and> (\<exists>error. a = Failure error)"
      by blast
    have "\<forall>k. i \<le> k \<and> k + 1 < n \<longrightarrow> idempotent \<and> repeatable w k \<and> wo_wait w k = None"
      using n(4) again(1,3,4) by (metis Suc_eq_plus1 le_antisym not_less_eq_eq)
    moreover have "attempts acts = [i..<n]" "i < n" using again(6) n(1,3) by (simp_all add: upt_conv_Cons)
    moreover have "retry_waits acts = map ((!) delays) [i..<n - 1] \<or> n \<le> length delays \<and> retry_waits acts = map ((!) delays) [i..<n] \<and> given_up w (n - 1)"
      using n(1,5) again(6) by (auto simp: upt_conv_Cons)
    ultimately show ?thesis using n(2,6) by blast
  qed (use Suc.prems(2) in \<open>auto intro!: exI [of _ "Suc i"]\<close>)
qed

text \<open>C20: A retried call is bounded and safe: it always ends, after at most one attempt more than there are delays, made
in order; an attempt is repeated only if the call is idempotent, its failure was transient and the caller had not given
up, and each wait is the delay of its place; the answer is the last attempt's, unless the caller gave up by then. And if
the call is idempotent and an attempt within the bound succeeds after failures that can be repeated, its value is
returned.\<close>

theorem retry_bounded:
  "\<exists>n. 0 < n \<and> n \<le> length delays + 1 \<and> attempts (fst (withTransientRetry w idempotent delays)) = [0..<n] \<and>
     (\<forall>k. k + 1 < n \<longrightarrow> idempotent \<and> repeatable w k \<and> wo_wait w k = None) \<and>
     (retry_waits (fst (withTransientRetry w idempotent delays)) = take (n - 1) delays \<or>
      retry_waits (fst (withTransientRetry w idempotent delays)) = take n delays \<and> given_up w (n - 1)) \<and>
     (snd (withTransientRetry w idempotent delays) = wo_answer w (n - 1) \<or> given_up w (n - 1) \<and> (\<exists>error. snd (withTransientRetry w idempotent delays) = Failure error)) \<and>
     (\<forall>k v. idempotent \<and> k \<le> length delays \<and> (\<forall>j < k. repeatable w j \<and> wo_wait w j = None) \<and> wo_answer w k = Value v \<longrightarrow>
        snd (withTransientRetry w idempotent delays) = Value v)"
proof -
  obtain acts a where r: "withTransientRetry w idempotent delays = (acts, a)" by fastforce
  then have f: "fst (withTransientRetry w idempotent delays) = acts" "snd (withTransientRetry w idempotent delays) = a" by simp_all
  have taken: "map ((!) delays) [0..<m] = take m delays" if "m \<le> length delays" for m
    using that by (intro nth_equalityI) simp_all
  have success: "snd (retry_from w True delays i) = Value v"
    if "i \<le> k" "k \<le> length delays" "\<forall>j. i \<le> j \<and> j < k \<longrightarrow> repeatable w j \<and> wo_wait w j = None" "wo_answer w k = Value v" for i k v
    using that
  proof (induction "k - i" arbitrary: i)
    case 0
    then show ?case by (simp add: retry_from.simps)
  next
    case (Suc m)
    then have i: "repeatable w i" "wo_wait w i = None" "i < length delays" by simp_all
    then obtain error where "wo_answer w i = Failure error" "isTransientFailure error" "wo_aborted w i = None"
      by (auto simp: repeatable_def)
    then have "snd (retry_from w True delays i) = snd (retry_from w True delays (i + 1))"
      unfolding retry_from.simps [of w True delays i] using i by (simp split: prod.split)
    then show ?case using Suc.hyps(1) [of "i + 1"] Suc.hyps(2) Suc.prems by simp
  qed
  obtain n where "0 < n" "n \<le> length delays + 1" "attempts acts = [0..<n]" "\<forall>k. k + 1 < n \<longrightarrow> idempotent \<and> repeatable w k \<and> wo_wait w k = None"
    "retry_waits acts = map ((!) delays) [0..<n - 1] \<or> n \<le> length delays \<and> retry_waits acts = map ((!) delays) [0..<n] \<and> given_up w (n - 1)"
    "a = wo_answer w (n - 1) \<or> given_up w (n - 1) \<and> (\<exists>error. a = Failure error)"
    using retry_spec [of w idempotent delays 0 acts a] r by (auto simp: withTransientRetry_def)
  moreover have "retry_waits acts = take (n - 1) delays \<or> retry_waits acts = take n delays \<and> given_up w (n - 1)"
    using calculation(2,5) taken by auto
  moreover have "\<forall>k v. idempotent \<and> k \<le> length delays \<and> (\<forall>j < k. repeatable w j \<and> wo_wait w j = None) \<and> wo_answer w k = Value v \<longrightarrow> a = Value v"
    using success [of 0] r by (auto simp: withTransientRetry_def)
  ultimately show ?thesis unfolding f by blast
qed

text \<open>A network failure, then an answer.\<close>

theorem retry_bounded_witness:
  "snd (withTransientRetry \<lparr>wo_answer = (\<lambda>i. if i = 0 then Failure (JObj []) else Value (7 :: int)), wo_aborted = (\<lambda>_. None), wo_wait = (\<lambda>_. None)\<rparr>
     True TRANSIENT_RETRY_DELAYS_MS) = Value 7"
proof -
  let ?w = "\<lparr>wo_answer = (\<lambda>i. if i = 0 then Failure (JObj []) else Value (7 :: int)), wo_aborted = (\<lambda>_. None), wo_wait = (\<lambda>_. None)\<rparr>"
  have "repeatable ?w 0" by (simp add: repeatable_def isTransientFailure_def truthy_def isAbortError_def field_def)
  then have "\<forall>j < 1. repeatable ?w j \<and> wo_wait ?w j = None" "wo_answer ?w 1 = Value 7" "1 \<le> length TRANSIENT_RETRY_DELAYS_MS"
    by (simp_all add: TRANSIENT_RETRY_DELAYS_MS_def)
  then show ?thesis using retry_bounded [of TRANSIENT_RETRY_DELAYS_MS ?w True] by blast
qed

end
