(* ===== verification/DailyChallenge.thy ===== *)
theory DailyChallenge
  imports GameActivity "HOL-Library.List_Lexorder"
begin

text \<open>
  The three puzzles of the day and the streak of days (\<open>dailyChallenge.js\<close>), and the counters of solved puzzles
  (\<open>puzzleStats.js\<close>).

  The calendar is the local one of the browser: \<open>cal_year\<close>, \<open>cal_month\<close> (from 0) and \<open>cal_date\<close> are the date of a
  time, \<open>cal_noon\<close> the noon of a date's text (\<open>None\<close> for an invalid date), \<open>cal_before\<close> the same hour a day before and
  \<open>cal_midday\<close> the noon of the day of a time. What is stored is of any shape; where the code would throw, the answer is \<open>None\<close>. The order in which
  the days stand in the stored object is not modelled: nothing reads it.
\<close>

section \<open>The puzzles of a day\<close>

record daily_slot =
  sl_id :: string
  sl_label :: string

definition DAILY_CHALLENGE_SLOTS :: "daily_slot list" where
  "DAILY_CHALLENGE_SLOTS =
     [\<lparr>sl_id = ''tactic'', sl_label = (''T'' @ [CHR 0xE1] @ ''ctica'')\<rparr>, \<lparr>sl_id = ''precision'', sl_label = (''Precisi'' @ [CHR 0xF3] @ ''n'')\<rparr>, \<lparr>sl_id = ''finish'', sl_label = ''Remate''\<rparr>]"

definition pad2 :: "int \<Rightarrow> string" where
  "pad2 n = (let s = show_int n in replicate (2 - length s) CHR ''0'' @ s)"

definition dailyChallengeDayKey :: "int \<Rightarrow> int \<Rightarrow> int \<Rightarrow> string" where
  "dailyChallengeDayKey year month day = show_int year @ ''-'' @ pad2 (month + 1) @ ''-'' @ pad2 day"

definition hash_step :: "char \<Rightarrow> 32 word \<Rightarrow> 32 word" where
  "hash_step c h = h * 31 + of_char c"

definition hash :: "string \<Rightarrow> int" where
  "hash s = \<bar>sint (fold hash_step s (0 :: 32 word))\<bar>"

definition puzzle_name :: "json \<Rightarrow> string" where
  "puzzle_name p = json_string (or_else_json (field ''id'' p) (or_else_json (field ''title'' p) (JStr [])))"

definition dailyPuzzles :: "(string \<Rightarrow> string \<Rightarrow> int) \<Rightarrow> json list \<Rightarrow> string \<Rightarrow> json list" where
  "dailyPuzzles collate pool day =
     (if pool = [] then []
      else let key = (\<lambda>p. hash (day @ '':'' @ puzzle_name p));
               text = (\<lambda>p. json_string (or_else_json (field ''id'' p) (JStr [])));
               ranked = sort_stable (\<lambda>a b. key a < key b \<or> key a = key b \<and> collate (text a) (text b) \<le> 0) pool
           in map (\<lambda>(i, s). with_fields [(''dailyKey'', JStr day), (''dailySlot'', JStr (sl_id s)), (''dailySlotLabel'', JStr (sl_label s))]
                              (JObj (spread_fields (ranked ! (i mod length ranked))))) (enumerate 0 DAILY_CHALLENGE_SLOTS))"

definition dailyPuzzle :: "(string \<Rightarrow> string \<Rightarrow> int) \<Rightarrow> json list \<Rightarrow> string \<Rightarrow> string \<Rightarrow> json" where
  "dailyPuzzle collate pool day slot =
     (let puzzles = dailyPuzzles collate pool day in
      if puzzles = [] then JNull
      else case find_index (\<lambda>s. sl_id s = slot) DAILY_CHALLENGE_SLOTS of Some i \<Rightarrow> puzzles ! i | None \<Rightarrow> puzzles ! 0)"

section \<open>The results of a day\<close>

definition normalizeResult :: "json \<Rightarrow> json" where
  "normalizeResult result =
     (if \<not> is_object result then JObj [(''slots'', JObj [])]
      else let slots = (if is_object (field ''slots'' result) then JObj (spread_fields (field ''slots'' result)) else JObj []);
               clean = (case field ''clean'' result of JBool b \<Rightarrow> [(''clean'', JBool b)] | _ \<Rightarrow> []);
               slots' = (if truthy (field ''solved'' result) \<and> \<not> truthy (field ''tactic'' slots)
                         then with_fields [(''tactic'', JObj ((''solved'', JBool True) # clean))] slots else slots)
           in with_fields [(''slots'', slots')] (JObj (spread_fields result)))"

definition DAILY_KEY :: string where "DAILY_KEY = ''chess-study-daily-challenge''"
definition MAX_STORED_DAYS :: nat where "MAX_STORED_DAYS = 120"

definition daily_state :: "json \<Rightarrow> json" where
  "daily_state parsed =
     (let rawResults = (if is_object (field ''results'' parsed) then spread_fields (field ''results'' parsed) else []);
          results = JObj (map (\<lambda>(day, result). (day, normalizeResult result)) rawResults)
      in with_fields (spread_fields parsed @ [(''results'', results)])
           (JObj [(''solvedDates'', JArr []), (''bestStreak'', JInt 0), (''results'', results)]))"

definition loadDailyChallenge :: "json_api \<Rightarrow> store \<Rightarrow> json" where
  "loadDailyChallenge js st = daily_state (read_json js DAILY_KEY (JObj []) st)"

record progress =
  dp_slots :: "(string \<times> json) list"
  dp_solvedCount :: nat
  dp_cleanCount :: nat
  dp_full :: bool

definition slot_of :: "json \<Rightarrow> string \<Rightarrow> json" where
  "slot_of result slot = or_else_json (field slot (field ''slots'' result)) JNull"

definition slot_solved :: "json \<Rightarrow> string \<Rightarrow> bool" where
  "slot_solved result slot \<longleftrightarrow> truthy (field ''solved'' (slot_of result slot))"

definition day_progress :: "json \<Rightarrow> progress" where
  "day_progress result =
     (let ids = map sl_id DAILY_CHALLENGE_SLOTS;
          solvedCount = length (filter (slot_solved result) ids);
          cleanCount = length (filter (\<lambda>slot. field ''clean'' (slot_of result slot) = JBool True) ids)
      in \<lparr>dp_slots = map (\<lambda>slot. (slot, slot_of result slot)) ids, dp_solvedCount = solvedCount, dp_cleanCount = cleanCount,
          dp_full = (solvedCount = length DAILY_CHALLENGE_SLOTS)\<rparr>)"

definition dailyChallengeProgress :: "json \<Rightarrow> string \<Rightarrow> progress" where
  "dailyChallengeProgress state day = day_progress (normalizeResult (field day (field ''results'' state)))"

section \<open>The streak\<close>

record calendar =
  cal_year :: "int \<Rightarrow> int"
  cal_month :: "int \<Rightarrow> int"
  cal_date :: "int \<Rightarrow> int"
  cal_noon :: "string \<Rightarrow> int option"
  cal_before :: "int \<Rightarrow> int"
  cal_midday :: "int \<Rightarrow> int"

definition key_of :: "calendar \<Rightarrow> int \<Rightarrow> string" where
  "key_of cal t = dailyChallengeDayKey (cal_year cal t) (cal_month cal t) (cal_date cal t)"

definition key_at :: "calendar \<Rightarrow> int option \<Rightarrow> string" where
  "key_at cal cursor = (case cursor of None \<Rightarrow> ''NaN-NaN-NaN'' | Some t \<Rightarrow> key_of cal t)"

fun run_from :: "calendar \<Rightarrow> int option \<Rightarrow> json list \<Rightarrow> nat" where
  "run_from cal cursor [] = 0"
| "run_from cal cursor (d # ds) =
     (let cursor' = map_option (cal_before cal) cursor
      in if d = JStr (key_at cal cursor') then Suc (run_from cal cursor' ds) else 0)"

definition newest_first :: "json list \<Rightarrow> json list" where
  "newest_first dates = rev (sort_stable (\<lambda>a b. json_string a \<le> json_string b) (js_uniq [] dates))"

definition streakFromDates :: "calendar \<Rightarrow> json list \<Rightarrow> nat" where
  "streakFromDates cal dates =
     (case newest_first dates of [] \<Rightarrow> 0 | d # ds \<Rightarrow> Suc (run_from cal (cal_noon cal (json_string d)) ds))"

definition activeStreakFromDates :: "calendar \<Rightarrow> json list \<Rightarrow> int \<Rightarrow> nat" where
  "activeStreakFromDates cal dates now =
     (case newest_first dates of
        [] \<Rightarrow> 0
      | d # ds \<Rightarrow>
          let yesterday = key_of cal (cal_before cal (cal_midday cal now))
          in if d \<noteq> JStr (key_of cal now) \<and> d \<noteq> JStr yesterday then 0 else streakFromDates cal (d # ds))"

definition with_streak :: "nat \<Rightarrow> json \<Rightarrow> json" where
  "with_streak n state = with_fields [(''streak'', JInt (int n))] state"

definition currentDailyStreak :: "json_api \<Rightarrow> calendar \<Rightarrow> int \<Rightarrow> store \<Rightarrow> json option" where
  "currentDailyStreak js cal now st =
     (let state = loadDailyChallenge js st
      in case field ''solvedDates'' state of
           JArr dates \<Rightarrow> Some (with_streak (activeStreakFromDates cal dates now) state)
         | JStr s \<Rightarrow> Some (with_streak (activeStreakFromDates cal (map (\<lambda>c. JStr [c]) s) now) state)
         | JNull \<Rightarrow> Some (with_streak 0 state)
         | _ \<Rightarrow> None)"

section \<open>A solved puzzle\<close>

definition known_slot :: "string \<Rightarrow> string" where
  "known_slot slot = (if slot \<in> set (map sl_id DAILY_CHALLENGE_SLOTS) then slot else ''tactic'')"

text \<open>\<open>clean\<close> is kept only when it is a boolean.\<close>

definition solve_slot :: "json \<Rightarrow> string \<Rightarrow> json \<Rightarrow> json" where
  "solve_slot clean slot result =
     (if truthy (field ''solved'' (field slot (field ''slots'' result))) then result
      else let mark = JObj ((''solved'', JBool True) # (case clean of JBool b \<Rightarrow> [(''clean'', JBool b)] | _ \<Rightarrow> []))
           in with_fields [(''slots'', with_fields [(slot, mark)] (field ''slots'' result))] result)"

definition markDailySolved :: "json_api \<Rightarrow> calendar \<Rightarrow> string \<Rightarrow> json \<Rightarrow> string \<Rightarrow> store \<Rightarrow> (json \<times> store) option" where
  "markDailySolved js cal day clean slot st =
     (let state = loadDailyChallenge js st
      in case field ''solvedDates'' state of
           JArr dates \<Rightarrow>
             let firstSolveOfDay = (\<not> js_includes (JStr day) dates);
                 previousBest = num_max (Fin 0) (or_zero (json_number (field ''bestStreak'' state)));
                 results = field ''results'' state;
                 result = solve_slot clean (known_slot slot) (normalizeResult (field day results));
                 dates' = last_n MAX_STORED_DAYS (sort_stable (\<lambda>a b. json_string a \<le> json_string b)
                            (if firstSolveOfDay then dates @ [JStr day] else dates));
                 streak = streakFromDates cal dates';
                 progress = day_progress (normalizeResult result);
                 marked = with_fields [(''solved'', JBool (0 < dp_solvedCount progress)), (''full'', JBool (dp_full progress)),
                            (''newBest'', JBool (firstSolveOfDay \<and> num_lt previousBest (Fin (of_nat streak))))] result;
                 results' = JObj (filter (\<lambda>(d, _). js_includes (JStr d) dates') (spread_fields (with_fields [(day, marked)] results)));
                 state' = with_fields [(''solvedDates'', JArr dates'), (''results'', results'),
                            (''bestStreak'', JNum (num_max previousBest (Fin (of_nat streak))))] state
             in Some (with_streak streak state', st(DAILY_KEY \<mapsto> stringify js state'))
         | _ \<Rightarrow> None)"

record challenge_stats =
  ch_completedChallenges :: nat
  ch_activeDays :: nat
  ch_fullDays :: nat
  ch_cleanFullDays :: nat
  ch_bestStreak :: jsnum

text \<open>A day is a text here: \<open>solvedDates\<close> holds the keys of the results.\<close>

definition dailyChallengeStats :: "json \<Rightarrow> challenge_stats" where
  "dailyChallengeStats state =
     (let results = (if is_object (field ''results'' state) then spread_fields (field ''results'' state) else []);
          solvedDates = remdups (strings_in (elements (field ''solvedDates'' state)));
          days = remdups (solvedDates @ map fst results);
          progress = dailyChallengeProgress state;
          solvedCount = (\<lambda>day. if dp_solvedCount (progress day) \<noteq> 0 then dp_solvedCount (progress day)
                               else if day \<in> set solvedDates then 1 else 0)
      in \<lparr>ch_completedChallenges = sum_list (map solvedCount days),
          ch_activeDays = card (set solvedDates \<union> {day \<in> set (map fst results). 0 < dp_solvedCount (progress day)}),
          ch_fullDays = length (filter (\<lambda>day. dp_full (progress day)) days),
          ch_cleanFullDays = length (filter (\<lambda>day. dp_full (progress day) \<and>
                               dp_cleanCount (progress day) = length DAILY_CHALLENGE_SLOTS) days),
          ch_bestStreak = num_max (Fin 0) (or_zero (json_number (field ''bestStreak'' state)))\<rparr>)"

record brief =
  br_solved :: bool
  br_full :: bool
  br_solvedCount :: nat
  br_headline :: string
  br_detail :: string

definition dailyChallengeBrief :: "json \<Rightarrow> string \<Rightarrow> brief" where
  "dailyChallengeBrief state day =
     (let solved = (day \<noteq> [] \<and> js_includes (JStr day) (elements (field ''solvedDates'' state)));
          streak = num_max (Fin 0) (or_zero (json_number (field ''streak'' state)));
          progress = dailyChallengeProgress state day;
          count = dp_solvedCount progress;
          days = show_number (if truthy (JNum streak) then streak else Fin 1)
      in if \<not> solved \<or> count = 0
         then if num_le (Fin 7) streak
              then \<lparr>br_solved = False, br_full = False, br_solvedCount = 0, br_headline = ''Racha de '' @ show_number streak @ ('' d'' @ [CHR 0xED] @ ''as en juego''),
                    br_detail = ''Tres retos hoy. Con uno mantienes la racha; 3/3 firma el pleno.''\<rparr>
              else if num_le (Fin 2) streak
              then \<lparr>br_solved = False, br_full = False, br_solvedCount = 0, br_headline = show_number streak @ ('' d'' @ [CHR 0xED] @ ''as seguidos. Falta hoy.''),
                    br_detail = (''Tres retos disponibles. Uno mantiene la racha; t'' @ [CHR 0xFA] @ '' decides cu'' @ [CHR 0xE1] @ ''nto sufrir.'')\<rparr>
              else \<lparr>br_solved = False, br_full = False, br_solvedCount = 0, br_headline = (''Hoy '' @ [CHR 0xB7] @ '' 0/3''),
                    br_detail = ''Tres posiciones. Completa al menos una para mantener la racha.''\<rparr>
         else if \<not> dp_full progress
         then \<lparr>br_solved = True, br_full = False, br_solvedCount = count, br_headline = (''Hoy '' @ [CHR 0xB7] @ '' '') @ show_nat count @ ''/3'',
               br_detail = ''Racha asegurada'' @
                 (if truthy (JNum streak) then '' ('' @ show_number streak @ ('' d'' @ [CHR 0xED] @ ''a'') @ (if streak = Fin 1 then [] else ''s'') @ '')'' else []) @
                 ''. El pleno sigue disponible.''\<rparr>
         else if dp_cleanCount progress = length DAILY_CHALLENGE_SLOTS
         then \<lparr>br_solved = True, br_full = True, br_solvedCount = 3, br_headline = (''Pleno diario '' @ [CHR 0xB7] @ '' 3/3 limpio''),
               br_detail = ''Racha '' @ days @ ''. Ni una mancha en el expediente.''\<rparr>
         else \<lparr>br_solved = True, br_full = True, br_solvedCount = 3, br_headline = (''Pleno diario '' @ [CHR 0xB7] @ '' 3/3''),
               br_detail = ''Racha '' @ days @ (''. Hubo negociaci'' @ [CHR 0xF3] @ ''n, pero est'' @ [CHR 0xE1] @ ''n los tres.'')\<rparr>)"

section \<open>The counters of solved puzzles\<close>

definition PUZZLES_KEY :: string where "PUZZLES_KEY = ''chess-study-puzzles-solved''"
definition STREAK_KEY :: string where "STREAK_KEY = ''chess-study-puzzle-streak''"
definition BEST_STREAK_KEY :: string where "BEST_STREAK_KEY = ''chess-study-puzzle-best-streak''"

text \<open>\<open>parseInt(raw, 10)\<close> of a stored text, 0 when it is absent, empty or not a number.\<close>

definition stored_count :: "string \<Rightarrow> store \<Rightarrow> int" where
  "stored_count key st = (case st key of None \<Rightarrow> 0 | Some raw \<Rightarrow> (case parse_int raw of None \<Rightarrow> 0 | Some n \<Rightarrow> n))"

definition loadPuzzlesSolved :: "store \<Rightarrow> int" where "loadPuzzlesSolved st = stored_count PUZZLES_KEY st"
definition loadPuzzleStreak :: "store \<Rightarrow> int" where "loadPuzzleStreak st = stored_count STREAK_KEY st"
definition loadBestPuzzleStreak :: "store \<Rightarrow> int" where "loadBestPuzzleStreak st = stored_count BEST_STREAK_KEY st"

definition incrementPuzzlesSolved :: "json_api \<Rightarrow> page \<Rightarrow> int \<times> page" where
  "incrementPuzzlesSolved js p =
     (let next' = loadPuzzlesSolved (localArea p) + 1
      in (next', \<lparr>localArea = (localArea p)(PUZZLES_KEY \<mapsto> show_int next'),
                  sessionArea = snd (recordMatthiasSessionPuzzle js (sessionArea p))\<rparr>))"

definition incrementPuzzleStreak :: "store \<Rightarrow> int \<times> store" where
  "incrementPuzzleStreak st =
     (let next' = loadPuzzleStreak st + 1; st' = st(STREAK_KEY \<mapsto> show_int next')
      in (next', if loadBestPuzzleStreak st' < next' then st'(BEST_STREAK_KEY \<mapsto> show_int next') else st'))"

definition resetPuzzleStreak :: "store \<Rightarrow> int \<times> store" where
  "resetPuzzleStreak st = (0, st(STREAK_KEY \<mapsto> ''0''))"

end
