(* ===== verification/DailyChallengeProps.thy ===== *)
theory DailyChallengeProps
  imports DailyChallenge JsonCodec
begin

text \<open>
  The streak of the daily challenge is the number of consecutive days that end with the newest one, and solving a puzzle
  only adds to what is stored.
\<close>

section \<open>Dates and their texts\<close>

text \<open>The Gregorian calendar, months counted from 0 as the code's dates have them.\<close>

definition leap_year :: "int \<Rightarrow> bool" where
  "leap_year y \<longleftrightarrow> 4 dvd y \<and> (\<not> 100 dvd y \<or> 400 dvd y)"

definition month_length :: "int \<Rightarrow> int \<Rightarrow> int" where
  "month_length y m = (if m = 1 then if leap_year y then 29 else 28 else if m \<in> {3, 5, 8, 10} then 30 else 31)"

fun next_date :: "int \<times> int \<times> int \<Rightarrow> int \<times> int \<times> int" where
  "next_date (y, m, d) =
     (if d < month_length y m then (y, m, d + 1) else if m < 11 then (y, m + 1, 1) else (y + 1, 0, 1))"

fun valid_date :: "int \<times> int \<times> int \<Rightarrow> bool" where
  "valid_date (y, m, d) \<longleftrightarrow> 1000 \<le> y \<and> y \<le> 9999 \<and> 0 \<le> m \<and> m \<le> 11 \<and> 1 \<le> d \<and> d \<le> month_length y m"

text \<open>A number in a fixed count of digits, and the ISO text of a date, which \<open>new Date(...)\<close> reads.\<close>

fun digits_of :: "nat \<Rightarrow> nat \<Rightarrow> string" where
  "digits_of 0 n = []"
| "digits_of (Suc w) n = digits_of w (n div 10) @ [digit_char (n mod 10)]"

fun iso_day :: "int \<times> int \<times> int \<Rightarrow> string" where
  "iso_day (y, m, d) = digits_of 4 (nat y) @ ''-'' @ digits_of 2 (nat (m + 1)) @ ''-'' @ digits_of 2 (nat d)"

lemma append_less_same [simp]: "xs @ ys < xs @ zs \<longleftrightarrow> ys < (zs :: string)"
  by (induction xs) simp_all

lemma append_less_left: "xs < ys \<Longrightarrow> length xs = length ys \<Longrightarrow> xs @ us < ys @ (vs :: string)"
proof (induction xs arbitrary: ys)
  case (Cons x xs)
  then show ?case by (cases ys) auto
qed simp

lemma digit_char_less: "a < b \<Longrightarrow> b < 10 \<Longrightarrow> digit_char a < digit_char b"
  by (simp add: digit_char_def less_char_def)

lemma length_digits_of [simp]: "length (digits_of w n) = w"
  by (induction w arbitrary: n) simp_all

lemma digits_of_less: "a < b \<Longrightarrow> b < 10 ^ w \<Longrightarrow> digits_of w a < digits_of w b"
proof (induction w arbitrary: a b)
  case (Suc w)
  show ?case
  proof (cases "a div 10 = b div 10")
    case True
    then have "a mod 10 < b mod 10" using Suc.prems(1) by (metis div_mod_decomp nat_add_left_cancel_less)
    then show ?thesis using True digit_char_less [of "a mod 10" "b mod 10"] by simp
  next
    case False
    then have "a div 10 < b div 10" using Suc.prems(1) by (meson div_le_mono le_neq_implies_less less_imp_le)
    moreover have "b div 10 < 10 ^ w" using Suc.prems(2) by (simp add: less_mult_imp_div_less mult.commute)
    ultimately show ?thesis using Suc.IH by (simp add: append_less_left)
  qed
qed simp

text \<open>The text of a later date is later: it is the order of year, month and day.\<close>

fun earlier :: "int \<times> int \<times> int \<Rightarrow> int \<times> int \<times> int \<Rightarrow> bool" where
  "earlier (y, m, d) (y', m', d') \<longleftrightarrow> y < y' \<or> y = y' \<and> (m < m' \<or> m = m' \<and> d < d')"

lemma month_length_bounds: "28 \<le> month_length y m" "month_length y m \<le> 31"
  by (simp_all add: month_length_def)

lemma iso_day_less:
  assumes "earlier a b" "valid_date a" "valid_date b" shows "iso_day a < iso_day b"
proof -
  obtain y m d y' m' d' where ab: "a = (y, m, d)" "b = (y', m', d')" by (metis prod_cases3)
  have range: "nat y' < 10 ^ 4" "nat (m' + 1) < 10 ^ 2" "nat d' < 10 ^ 2" using assms month_length_bounds(2) [of y' m'] by (auto simp: ab)
  consider "nat y < nat y'" | "y = y'" "nat (m + 1) < nat (m' + 1)" | "y = y'" "m = m'" "nat d < nat d'"
    using assms by (auto simp: ab)
  then show ?thesis
  proof cases
    case 1
    then show ?thesis using append_less_left [OF digits_of_less [OF 1 range(1)]] by (simp add: ab)
  next
    case 2
    then show ?thesis using append_less_left [OF digits_of_less [OF 2(2) range(2)]] by (simp add: ab)
  next
    case 3
    then show ?thesis using digits_of_less [OF 3(3) range(3)] by (simp add: ab)
  qed
qed

text \<open>The key the code writes, with its padding, is that text.\<close>

lemma digits_of_show: "n < 10 ^ w \<Longrightarrow> 0 < w \<Longrightarrow> digits_of w n = replicate (w - length (show_nat n)) CHR ''0'' @ show_nat n"
proof (induction w arbitrary: n)
  case (Suc w)
  show ?case
  proof (cases "n < 10")
    case True
    have zeros: "digits_of v 0 = replicate v CHR ''0''" for v
      by (induction v) (simp_all add: digit_char_def replicate_append_same flip: replicate_append_same)
    show ?thesis using True by (simp add: zeros)
  next
    case False
    then have "w \<noteq> 0" using Suc.prems(1) by (cases w) auto
    moreover have "n div 10 < 10 ^ w" using Suc.prems(1) by (simp add: less_mult_imp_div_less mult.commute)
    ultimately show ?thesis using Suc.IH [of "n div 10"] False by (simp add: show_nat_step)
  qed
qed simp

lemma key_iso_day:
  assumes "valid_date (y, m, d)" shows "dailyChallengeDayKey y m d = iso_day (y, m, d)"
proof -
  define n where "n = nat y"
  have n: "10 ^ 3 \<le> n" "n < 10 ^ 4" using assms by (auto simp: n_def)
  then have "0 < n" by simp
  then have "10 ^ 3 < (10::nat) ^ length (show_nat n)" using n(1) show_nat_bounds [of n] by (meson le_less_trans)
  then have "3 < length (show_nat n)" by (rule pow10_less)
  then have "show_nat (nat y) = digits_of 4 (nat y)" using digits_of_show [of n 4] n(2) by (simp add: n_def)
  moreover have "pad2 n = digits_of 2 (nat n)" if "0 \<le> n" "n < 100" for n
    using digits_of_show [of "nat n" 2] that by (simp add: pad2_def show_int_def Let_def)
  ultimately show ?thesis
    using assms month_length_bounds(2) [of y m] by (simp add: dailyChallengeDayKey_def show_int_def)
qed

section \<open>Days as numbers\<close>

text \<open>What is relied on of the calendar of the browser between the days \<open>lo\<close> and \<open>hi\<close>, where \<open>inst\<close> is the noon of a
  day: their dates follow each other as the Gregorian ones do, the noon of a date's ISO text is on its day, and the same
  hour a day before is on the day before.\<close>

definition date_at :: "calendar \<Rightarrow> int \<Rightarrow> int \<times> int \<times> int" where
  "date_at cal t = (cal_year cal t, cal_month cal t, cal_date cal t)"

definition civil :: "calendar \<Rightarrow> (int \<Rightarrow> int) \<Rightarrow> int \<Rightarrow> int \<Rightarrow> bool" where
  "civil cal inst lo hi \<longleftrightarrow>
     (\<forall>d \<in> {lo - 1..hi}. valid_date (date_at cal (inst d))) \<and>
     (\<forall>d \<in> {lo..hi}. date_at cal (inst d) = next_date (date_at cal (inst (d - 1))) \<and>
        cal_noon cal (iso_day (date_at cal (inst d))) = Some (inst d) \<and> cal_before cal (inst d) = inst (d - 1))"

definition day_text :: "calendar \<Rightarrow> (int \<Rightarrow> int) \<Rightarrow> int \<Rightarrow> json" where
  "day_text cal inst d = JStr (key_of cal (inst d))"

lemma earlier_next_date: "valid_date a \<Longrightarrow> earlier a (next_date a)"
  by (cases a) auto

lemma earlier_trans: "earlier a b \<Longrightarrow> earlier b c \<Longrightarrow> earlier a c"
  by (cases a; cases b; cases c) auto

lemma civil_valid: "civil cal inst lo hi \<Longrightarrow> lo - 1 \<le> d \<Longrightarrow> d \<le> hi \<Longrightarrow> valid_date (date_at cal (inst d))"
  by (simp add: civil_def del: valid_date.simps)

lemma civil_day:
  assumes "civil cal inst lo hi" "lo \<le> d" "d \<le> hi"
  shows "date_at cal (inst d) = next_date (date_at cal (inst (d - 1)))"
    and "cal_noon cal (iso_day (date_at cal (inst d))) = Some (inst d)" and "cal_before cal (inst d) = inst (d - 1)"
proof -
  have "d \<in> {lo..hi}" using assms(2,3) by simp
  then have "date_at cal (inst d) = next_date (date_at cal (inst (d - 1))) \<and>
      cal_noon cal (iso_day (date_at cal (inst d))) = Some (inst d) \<and> cal_before cal (inst d) = inst (d - 1)"
    using assms(1) unfolding civil_def by blast
  then show "date_at cal (inst d) = next_date (date_at cal (inst (d - 1)))"
    "cal_noon cal (iso_day (date_at cal (inst d))) = Some (inst d)" "cal_before cal (inst d) = inst (d - 1)" by blast+
qed

lemma civil_next:
  assumes "civil cal inst lo hi" "lo - 1 \<le> d" "d < hi" shows "earlier (date_at cal (inst d)) (date_at cal (inst (d + 1)))"
  using civil_day(1) [OF assms(1), of "d + 1"] earlier_next_date [OF civil_valid [OF assms(1), of d]] assms(2,3) by simp

lemma civil_earlier:
  assumes "civil cal inst lo hi" "lo - 1 \<le> a" "a + 1 + int n \<le> hi"
  shows "earlier (date_at cal (inst a)) (date_at cal (inst (a + 1 + int n)))"
  using assms(3)
proof (induction n)
  case 0
  then show ?case using civil_next [OF assms(1,2)] by simp
next
  case (Suc n)
  let ?b = "a + 1 + int n"
  have "earlier (date_at cal (inst ?b)) (date_at cal (inst (?b + 1)))"
    using civil_next [OF assms(1), of ?b] assms(2) Suc.prems by simp
  then show ?case using earlier_trans [OF Suc.IH] Suc.prems by (simp add: algebra_simps)
qed

lemma civil_key:
  assumes "civil cal inst lo hi" "lo - 1 \<le> d" "d \<le> hi" shows "key_of cal (inst d) = iso_day (date_at cal (inst d))"
  using civil_valid [OF assms] unfolding key_of_def date_at_def by (rule key_iso_day)

lemma civil_key_less:
  assumes "civil cal inst lo hi" "lo - 1 \<le> a" "a < b" "b \<le> hi" shows "key_of cal (inst a) < key_of cal (inst b)"
proof -
  have valid: "valid_date (date_at cal (inst a))" "valid_date (date_at cal (inst b))"
    using civil_valid [OF assms(1)] assms(2-4) by simp_all
  have "earlier (date_at cal (inst a)) (date_at cal (inst b))" using civil_earlier [OF assms(1,2), of "nat (b - a - 1)"] assms(3,4) by simp
  then show ?thesis using valid civil_key [OF assms(1)] assms(2-4) iso_day_less by simp
qed

lemma civil_key_eq:
  assumes "civil cal inst lo hi" "lo - 1 \<le> a" "a \<le> hi" "lo - 1 \<le> b" "b \<le> hi"
  shows "key_of cal (inst a) = key_of cal (inst b) \<longleftrightarrow> a = b"
  using civil_key_less [OF assms(1,2)] civil_key_less [OF assms(1,4)] assms(3,5) by (metis linorder_neqE order_less_irrefl)

text \<open>The reference: the days that end with \<open>m\<close> without a gap.\<close>

definition run_ends_at :: "int set \<Rightarrow> int \<Rightarrow> nat \<Rightarrow> bool" where
  "run_ends_at S m n \<longleftrightarrow> (\<forall>i < n. m - int i \<in> S) \<and> m - int n \<notin> S"

lemma run_ends_at_Suc:
  assumes "run_ends_at S (m - 1) n"
  shows "run_ends_at (insert m S) m (Suc n)"
proof -
  have step: "m - int (Suc k) = m - 1 - int k" for k by simp
  have "m - int i \<in> insert m S" if "i < Suc n" for i
    using that assms by (cases i) (simp_all only: step run_ends_at_def, simp_all)
  moreover have "m - 1 - int n \<notin> insert m S" using assms by (simp add: run_ends_at_def)
  ultimately show ?thesis by (simp only: run_ends_at_def step) blast
qed

lemma run_from_days:
  assumes "civil cal inst lo hi" "lo \<le> m" "m \<le> hi" "sorted_wrt (>) (m # ds)" "\<forall>d \<in> set ds. lo \<le> d"
  shows "run_ends_at (set ds) (m - 1) (run_from cal (Some (inst m)) (map (day_text cal inst) ds))"
  using assms(2-5)
proof (induction ds arbitrary: m)
  case Nil
  then show ?case by (simp add: run_ends_at_def)
next
  case (Cons d ds)
  have cursor: "cal_before cal (inst m) = inst (m - 1)" "d \<le> hi"
    using civil_day(3) [OF assms(1)] Cons.prems by simp_all
  have eq: "key_of cal (inst d) = key_of cal (inst (m - 1)) \<longleftrightarrow> d = m - 1" using civil_key_eq [OF assms(1), of d "m - 1"] Cons.prems by simp
  show ?case
  proof (cases "d = m - 1")
    case True
    have ih: "run_ends_at (set ds) (d - 1) (run_from cal (Some (inst d)) (map (day_text cal inst) ds))"
      using Cons.IH [of d] Cons.prems by simp
    have "run_from cal (Some (inst m)) (map (day_text cal inst) (d # ds)) = Suc (run_from cal (Some (inst d)) (map (day_text cal inst) ds))"
      using True by (simp add: cursor day_text_def key_at_def)
    then show ?thesis using run_ends_at_Suc [OF ih] True by simp
  next
    case False
    then have "run_from cal (Some (inst m)) (map (day_text cal inst) (d # ds)) = 0" using eq by (simp add: cursor day_text_def key_at_def)
    moreover have "m - 1 \<notin> set (d # ds)" using False Cons.prems(3) by auto
    ultimately show ?thesis by (simp add: run_ends_at_def)
  qed
qed

section \<open>The newest days first\<close>

lemma distinct_js_uniq: "set xs \<subseteq> range JStr \<Longrightarrow> distinct (js_uniq seen xs) \<and> (\<forall>s. JStr s \<in> set seen \<longrightarrow> JStr s \<notin> set (js_uniq seen xs))"
proof (induction xs arbitrary: seen)
  case (Cons x xs)
  then obtain s where x: "x = JStr s" by auto
  show ?case using Cons.IH [of seen] Cons.IH [of "x # seen"] Cons.prems by (auto simp: x)
qed simp

lemma set_js_uniq_strings: "set xs \<subseteq> range JStr \<Longrightarrow> set (js_uniq [] xs) = set xs"
  using set_js_uniq [of "[]" xs] js_uniq_str [of _ xs "[]"] by auto

lemma newest_first_days:
  assumes "civil cal inst lo hi" "\<forall>d \<in> set D. lo \<le> d \<and> d \<le> hi"
  shows "newest_first (map (day_text cal inst) D) = map (day_text cal inst) (rev (sorted_list_of_set (set D)))"
proof -
  let ?xs = "map (day_text cal inst) D" and ?T = "map (day_text cal inst) (sorted_list_of_set (set D))"
  let ?S = "sort_stable (\<lambda>a b. json_string a \<le> json_string b) (js_uniq [] ?xs)"
  have strings: "set ?xs \<subseteq> range JStr" by (auto simp: day_text_def)
  have S: "set ?S = day_text cal inst ` set D" "distinct ?S" "sorted_wrt (\<lambda>a b. json_string a \<le> json_string b) ?S"
    using set_js_uniq_strings [OF strings] distinct_js_uniq [OF strings, of "[]"] by (auto intro: sorted_sort_stable)
  have rising: "key_of cal (inst a) < key_of cal (inst b)" if "lo \<le> a" "a < b" "b \<le> hi" for a b using civil_key_less [OF assms(1)] that by simp
  have inj: "inj_on json_string (day_text cal inst ` A)" for A by (auto simp: inj_on_def day_text_def)
  have "sorted (map json_string ?S)" using S(3) by (simp add: sorted_wrt_map)
  moreover have "sorted (map json_string ?T)"
    using assms(2) rising by (auto simp: sorted_wrt_map day_text_def comp_def intro!: sorted_wrt_mono_rel [OF _ strict_sorted_list_of_set] less_imp_le)
  moreover have "distinct (map json_string ?S)" using S(1,2) inj by (simp add: distinct_map)
  moreover have "inj_on (day_text cal inst) (set D)"
  proof (rule inj_onI)
    fix x y assume xy: "x \<in> set D" "y \<in> set D" "day_text cal inst x = day_text cal inst y"
    then have "lo \<le> x" "x \<le> hi" "lo \<le> y" "y \<le> hi" using assms(2) by auto
    then show "x = y" using civil_key_eq [OF assms(1), of x y] xy(3) by (simp add: day_text_def)
  qed
  then have "distinct (map json_string ?T)" using inj [of "set D"] by (simp add: distinct_map comp_inj_on)
  moreover have "set (map json_string ?S) = set (map json_string ?T)" using S(1) by (simp add: image_image)
  ultimately have "map json_string ?S = map json_string ?T" by (intro sorted_distinct_set_unique)
  then have "?S = ?T" by (rule map_inj_on) (use S(1) inj [of "set D"] in simp)
  then show ?thesis by (simp add: newest_first_def rev_map)
qed

text \<open>C19: The streak is exact. Between any two days of the Gregorian calendar (years 1000 to 9999), for the keys that
\<open>dailyChallengeDayKey\<close> writes for any days there, in any order and with repetitions, it is 0 for no day, and otherwise
the number of consecutive days that end with the newest. The calendar of the browser is relied on for dates that follow
each other, for the noon of an ISO date and for the same hour of the day before.\<close>

theorem streak_exact:
  assumes "civil cal inst lo hi" "\<forall>d \<in> set D. lo \<le> d \<and> d \<le> hi"
  shows "if D = [] then streakFromDates cal (map (day_text cal inst) D) = 0
         else run_ends_at (set D) (Max (set D)) (streakFromDates cal (map (day_text cal inst) D))"
proof (cases "D = []")
  case True
  then show ?thesis by (simp add: streakFromDates_def newest_first_def sort_stable_def)
next
  case False
  define ds where "ds = rev (sorted_list_of_set (set D))"
  have ds: "set ds = set D" "sorted_wrt (>) ds" using strict_sorted_list_of_set [of "set D"] by (simp_all add: ds_def sorted_wrt_rev)
  then obtain m rest where m: "ds = m # rest" using False by (cases ds) auto
  have max: "Max (set D) = m" using ds(2) m by (intro Max_eqI) (auto simp flip: ds(1))
  have lo: "lo \<le> m" "m \<le> hi" "\<forall>d \<in> set rest. lo \<le> d" "m \<in> set D" using assms(2) ds(1) m by auto
  have noon: "cal_noon cal (key_of cal (inst m)) = Some (inst m)" using civil_day(2) [OF assms(1) lo(1,2)] civil_key [OF assms(1), of m] lo by simp
  have streak: "streakFromDates cal (map (day_text cal inst) D) = Suc (run_from cal (Some (inst m)) (map (day_text cal inst) rest))"
    using newest_first_days [OF assms] noon by (simp add: streakFromDates_def m flip: ds_def) (simp add: day_text_def)
  have run: "run_ends_at (set rest) (m - 1) (run_from cal (Some (inst m)) (map (day_text cal inst) rest))"
    using run_from_days [OF assms(1) lo(1,2) _ lo(3)] ds(2) m by simp
  have "set D = insert m (set rest)" using ds(1) m by auto
  then have "run_ends_at (set D) m (Suc (run_from cal (Some (inst m)) (map (day_text cal inst) rest)))"
    using run_ends_at_Suc [OF run] by simp
  then show ?thesis using False max streak by simp
qed

text \<open>The days from 26 February 2024, whose noons are numbered from 0.\<close>

definition leap_date :: "int \<Rightarrow> int \<times> int \<times> int" where
  "leap_date t = (next_date ^^ nat t) (2024, 1, 26)"

definition leap_calendar :: calendar where
  "leap_calendar = \<lparr>cal_year = (\<lambda>t. fst (leap_date t)), cal_month = (\<lambda>t. fst (snd (leap_date t))), cal_date = (\<lambda>t. snd (snd (leap_date t))),
     cal_noon = (\<lambda>s. find (\<lambda>t. iso_day (leap_date t) = s) [0..9]), cal_before = (\<lambda>t. t - 1), cal_midday = (\<lambda>t. t)\<rparr>"

lemma leap_dates: "map leap_date [0..9] = [(2024, 1, 26), (2024, 1, 27), (2024, 1, 28), (2024, 1, 29), (2024, 2, 1), (2024, 2, 2), (2024, 2, 3),
     (2024, 2, 4), (2024, 2, 5), (2024, 2, 6)]"
  by code_simp

lemma upto_0_9: "[0..9] = [0, 1, 2, 3, 4, 5, 6, 7, 8, 9 :: int]"
  by code_simp

lemma digits_of_numeral: "digits_of (numeral k) n = digits_of (pred_numeral k) (n div 10) @ [digit_char (n mod 10)]"
  by (subst numeral_eq_Suc) (rule digits_of.simps)

lemma leap_texts: "map (\<lambda>t. iso_day (leap_date t)) [0..9] = [''2024-02-26'', ''2024-02-27'', ''2024-02-28'', ''2024-02-29'', ''2024-03-01'',
     ''2024-03-02'', ''2024-03-03'', ''2024-03-04'', ''2024-03-05'', ''2024-03-06'']"
  using leap_dates unfolding upto_0_9 by (simp add: digits_of_numeral digit_char_def)

lemma civil_leap_calendar: "civil leap_calendar (\<lambda>d. d) 1 9"
proof -
  have days: "{0..9} = {0, 1, 2, 3, 4, 5, 6, 7, 8, 9 :: int}" "{1..9} = {1, 2, 3, 4, 5, 6, 7, 8, 9 :: int}"
    by (simp_all only: set_eq_iff atLeastAtMost_iff insert_iff empty_iff, presburger+)
  have dates: "\<forall>d \<in> {0..9}. valid_date (leap_date d)" "\<forall>d \<in> {1..9}. leap_date d = next_date (leap_date (d - 1))"
    using leap_dates unfolding upto_0_9 days by (simp_all add: month_length_def leap_year_def)
  have noons: "\<forall>d \<in> {1..9}. find (\<lambda>t. iso_day (leap_date t) = iso_day (leap_date d)) [0..9] = Some d"
    using leap_texts unfolding upto_0_9 days by (simp del: iso_day.simps)
  show ?thesis using dates noons by (simp add: civil_def leap_calendar_def date_at_def)
qed

text \<open>Three days in a row over the leap day, 29 February to 2 March, after a gap on the 28th.\<close>

theorem streak_exact_witness:
  "run_ends_at {1, 3, 4, 5} 5 (streakFromDates leap_calendar (map (day_text leap_calendar (\<lambda>d. d)) [3, 5, 4, 1, 5])) \<and>
   map (key_of leap_calendar) [1, 3, 4, 5] = [''2024-02-27'', ''2024-02-29'', ''2024-03-01'', ''2024-03-02'']"
proof -
  have "\<forall>d \<in> set [3, 5, 4, 1, 5]. 1 \<le> (d :: int) \<and> d \<le> 9" "set [3, 5, 4, 1, 5 :: int] = {1, 3, 4, 5}" "Max {1, 3, 4, 5 :: int} = 5" by auto
  moreover have "map (key_of leap_calendar) [1, 3, 4, 5] = [''2024-02-27'', ''2024-02-29'', ''2024-03-01'', ''2024-03-02'']"
    using leap_texts civil_key [OF civil_leap_calendar] unfolding upto_0_9
    by (simp add: date_at_def leap_calendar_def del: iso_day.simps)
  ultimately show ?thesis using streak_exact [OF civil_leap_calendar, of "[3, 5, 4, 1, 5]"] by (simp del: list.map)
qed

section \<open>A solved puzzle\<close>

lemma map_of_filter_key: "map_of (filter (\<lambda>(k, _). P k) kvs) k = (if P k then map_of kvs k else None)"
  by (induction kvs) auto

lemma with_fields_is_obj: "\<exists>kvs. with_fields fs v = JObj kvs"
  by (cases v) (simp_all add: with_fields_def)

lemma normalized: obtains kvs slots where "normalizeResult result = JObj kvs" "field ''slots'' (JObj kvs) = JObj slots"
proof (cases "is_object result")
  case True
  have "\<exists>slots. field ''slots'' (normalizeResult result) = JObj slots"
    using True with_fields_is_obj by (auto simp: normalizeResult_def Let_def field_with_fields simp del: field_JObj)
  then obtain slots where slots: "field ''slots'' (normalizeResult result) = JObj slots" by blast
  obtain kvs where "normalizeResult result = JObj kvs" using True by (auto simp: normalizeResult_def Let_def with_fields_def)
  then show ?thesis using that slots by simp
next
  case False
  then show ?thesis using that by (simp add: normalizeResult_def)
qed

lemma slot_solved_slots: "field ''slots'' a = field ''slots'' b \<Longrightarrow> slot_solved a s = slot_solved b s"
  by (simp add: slot_solved_def slot_of_def)

text \<open>Solving a slot keeps the others and the shape.\<close>

lemma solve_slot_sound:
  assumes "field ''slots'' (JObj kvs) = JObj slots"
  obtains kvs' where "solve_slot clean slot (JObj kvs) = JObj kvs'" "slot_solved (JObj kvs') slot"
    "\<And>s. slot_solved (JObj kvs) s \<Longrightarrow> slot_solved (JObj kvs') s"
proof (cases "truthy (field ''solved'' (field slot (JObj slots)))")
  case True
  then have "truthy (field slot (JObj slots))" by (auto simp: field_def truthy_def split: json.splits option.splits)
  then have "slot_solved (JObj kvs) slot" using True assms by (simp add: slot_solved_def slot_of_def or_else_json_def del: field_JObj)
  then show ?thesis using that [of kvs] True assms by (simp add: solve_slot_def del: field_JObj)
next
  case False
  define mark where "mark = JObj ((''solved'', JBool True) # (case clean of JBool b \<Rightarrow> [(''clean'', JBool b)] | _ \<Rightarrow> []))"
  have mark: "truthy mark" "truthy (field ''solved'' mark)" by (simp_all add: mark_def truthy_def)
  obtain kvs' where k: "solve_slot clean slot (JObj kvs) = JObj kvs'" "solve_slot clean slot (JObj kvs) =
      with_fields [(''slots'', with_fields [(slot, mark)] (JObj slots))] (JObj kvs)"
    using False assms by (auto simp: solve_slot_def Let_def mark_def with_fields_def simp del: field_JObj)
  then have "field ''slots'' (JObj kvs') = with_fields [(slot, mark)] (JObj slots)"
    using field_with_fields [of "''slots''" "[(''slots'', with_fields [(slot, mark)] (JObj slots))]" kvs] by simp
  then have at: "slot_of (JObj kvs') s = or_else_json (if s = slot then mark else field s (JObj slots)) JNull" for s
    using field_with_fields [of s "[(slot, mark)]" slots] by (simp add: slot_of_def del: field_JObj)
  have old: "slot_of (JObj kvs) s = or_else_json (field s (JObj slots)) JNull" for s using assms by (simp add: slot_of_def del: field_JObj)
  show ?thesis
    using k(1) mark by (intro that [of kvs']) (auto simp: slot_solved_def at old or_else_json_def simp del: field_JObj)
qed

lemma with_streak_field: "k \<noteq> ''streak'' \<Longrightarrow> field k (with_streak n (JObj kvs)) = field k (JObj kvs)"
  by (simp add: with_streak_def field_with_fields del: field_JObj)

lemma daily_state_obj: obtains kvs results where "loadDailyChallenge js st = JObj kvs" "field ''results'' (JObj kvs) = JObj results"
proof -
  obtain kvs where k: "loadDailyChallenge js st = JObj kvs" using with_fields_is_obj by (auto simp: loadDailyChallenge_def daily_state_def Let_def)
  have "\<exists>results. field ''results'' (loadDailyChallenge js st) = JObj results"
    by (simp add: loadDailyChallenge_def daily_state_def Let_def field_with_fields del: field_JObj)
  then show ?thesis using that k by auto
qed

lemma num_max_ge: "b = num_max (num_max (Fin 0) (or_zero n)) (Fin q) \<Longrightarrow> num_le (num_max (Fin 0) (or_zero n)) b \<and> num_le (Fin q) b"
  by (cases n) (auto simp: num_max_def or_zero_def num_le_def num_lt_def)

lemma retained_day: "length ds \<le> MAX_STORED_DAYS \<Longrightarrow> x \<in> set ds \<Longrightarrow> x \<in> set (last_n MAX_STORED_DAYS (sort_stable le ds))"
  by simp

text \<open>Solving a puzzle of the day only adds: the stored days stay at most 120 and results are kept for them alone; while
the day itself is kept (always, if no more than 120 days are stored) its slot is solved and so is every slot that was;
the results of the other kept days are untouched; and the best streak is no less than before and than the streak.\<close>

theorem daily_mark_sound:
  assumes "field ''solvedDates'' (loadDailyChallenge js st) = JArr dates"
    and "old = field ''results'' (loadDailyChallenge js st)"
  shows "\<exists>state' dates' best streak. markDailySolved js cal day clean slot st = Some (with_streak streak state', st(DAILY_KEY \<mapsto> stringify js state')) \<and>
     field ''solvedDates'' state' = JArr dates' \<and> length dates' \<le> 120 \<and> set dates' \<subseteq> insert (JStr day) (set dates) \<and>
     (length dates < 120 \<longrightarrow> JStr day \<in> set dates') \<and>
     (\<forall>d. JStr d \<notin> set dates' \<longrightarrow> field d (field ''results'' state') = JUndef) \<and>
     (JStr day \<in> set dates' \<longrightarrow> slot_solved (field day (field ''results'' state')) (known_slot slot) \<and>
        (\<forall>s. slot_solved (normalizeResult (field day old)) s \<longrightarrow> slot_solved (field day (field ''results'' state')) s)) \<and>
     (\<forall>d. d \<noteq> day \<and> JStr d \<in> set dates' \<longrightarrow> field d (field ''results'' state') = field d old) \<and>
     streak = streakFromDates cal dates' \<and> field ''bestStreak'' state' = JNum best \<and>
     num_le (num_max (Fin 0) (or_zero (json_number (field ''bestStreak'' (loadDailyChallenge js st))))) best \<and> num_le (Fin (of_nat streak)) best"
proof -
  obtain kvs results where load: "loadDailyChallenge js st = JObj kvs" "field ''results'' (JObj kvs) = JObj results" by (rule daily_state_obj)
  have old: "old = JObj results" using load assms(2) by simp
  define first where "first \<longleftrightarrow> \<not> js_includes (JStr day) dates"
  define dates' where "dates' = last_n MAX_STORED_DAYS (sort_stable (\<lambda>a b. json_string a \<le> json_string b) (if first then dates @ [JStr day] else dates))"
  define result where "result = solve_slot clean (known_slot slot) (normalizeResult (field day (JObj results)))"
  define streak where "streak = streakFromDates cal dates'"
  define best where "best = num_max (num_max (Fin 0) (or_zero (json_number (field ''bestStreak'' (JObj kvs))))) (Fin (of_nat streak))"
  obtain rkvs slots where r: "normalizeResult (field day (JObj results)) = JObj rkvs" "field ''slots'' (JObj rkvs) = JObj slots" by (rule normalized)
  obtain rkvs' where r': "result = JObj rkvs'" "slot_solved (JObj rkvs') (known_slot slot)" "\<And>s. slot_solved (JObj rkvs) s \<Longrightarrow> slot_solved (JObj rkvs') s"
    using solve_slot_sound [OF r(2)] r(1) unfolding result_def by metis
  define progress where "progress = day_progress (normalizeResult result)"
  define marked where "marked = with_fields [(''solved'', JBool (0 < dp_solvedCount progress)), (''full'', JBool (dp_full progress)),
     (''newBest'', JBool (first \<and> num_lt (num_max (Fin 0) (or_zero (json_number (field ''bestStreak'' (JObj kvs))))) (Fin (of_nat streak))))] result"
  define results' where "results' = JObj (filter (\<lambda>(d, _). js_includes (JStr d) dates') (spread_fields (with_fields [(day, marked)] (JObj results))))"
  define state' where "state' = with_fields [(''solvedDates'', JArr dates'), (''results'', results'), (''bestStreak'', JNum best)] (JObj kvs)"
  have out: "markDailySolved js cal day clean slot st = Some (with_streak streak state', st(DAILY_KEY \<mapsto> stringify js state'))"
    using assms(1) unfolding markDailySolved_def load(1) Let_def
    by (simp add: load(2) first_def dates'_def result_def streak_def best_def progress_def marked_def results'_def state'_def del: field_JObj)
  have fields: "field ''solvedDates'' state' = JArr dates'" "field ''results'' state' = results'" "field ''bestStreak'' state' = JNum best"
    by (simp_all add: state'_def field_with_fields del: field_JObj)
  have day: "field d results' = (if JStr d \<in> set dates' then if d = day then marked else field d (JObj results) else JUndef)" for d
    by (simp add: results'_def with_fields_def spread_fields_def map_of_filter_key split: option.split)
  have kept: "slot_solved marked s = slot_solved result s" for s
    by (rule slot_solved_slots) (simp add: marked_def r'(1) field_with_fields del: field_JObj)
  have dates: "length dates' \<le> 120" "set dates' \<subseteq> insert (JStr day) (set dates)"
    using set_last_n [of MAX_STORED_DAYS "sort_stable (\<lambda>a b. json_string a \<le> json_string b) (if first then dates @ [JStr day] else dates)"]
    by (auto simp: dates'_def MAX_STORED_DAYS_def split: if_splits)
  have present: "JStr day \<in> set dates'" if "length dates < 120"
    unfolding dates'_def by (rule retained_day) (use that in \<open>auto simp: first_def MAX_STORED_DAYS_def\<close>)
  have best: "num_le (num_max (Fin 0) (or_zero (json_number (field ''bestStreak'' (JObj kvs))))) best" "num_le (Fin (of_nat streak)) best"
    using num_max_ge [OF best_def] by simp_all
  show ?thesis
    by (rule exI [of _ state'], rule exI [of _ dates'], rule exI [of _ best], rule exI [of _ streak])
      (use out fields day kept dates present best r r' in \<open>auto simp: load old streak_def simp del: field_JObj\<close>)
qed

theorem daily_mark_sound_witness:
  "\<exists>state' n. map_option fst (markDailySolved coded_json leap_calendar ''2024-02-29'' (JBool True) ''finish'' Map.empty) = Some (with_streak n state') \<and>
     slot_solved (field ''2024-02-29'' (field ''results'' state')) ''finish''"
proof -
  have "field ''solvedDates'' (loadDailyChallenge coded_json Map.empty) = JArr []"
    by (simp add: loadDailyChallenge_def daily_state_def read_json_def Let_def spread_fields_def field_with_fields del: field_JObj)
      (simp add: field_def)
  from daily_mark_sound [OF this refl, of leap_calendar "''2024-02-29''" "JBool True" "''finish''"]
  show ?thesis by (auto simp: known_slot_def DAILY_CHALLENGE_SLOTS_def)
qed

end
