(* ===== verification/Career.thy ===== *)
theory Career
  imports PlayerRating
begin

text \<open>
  The career of the player (\<open>career.js\<close>): records, contracts, seasons and milestones kept after each game, and the
  special runs (a cup of eight games, a run of six bosses, a streak of wins).

  A career, a contract, a run and a finished game are objects of any shape. Their moves are an array, or absent. The
  clock stands still during a call: \<open>now\<close> is its date in ISO format and \<open>month\<close> its month; \<open>uid\<close> are the fresh ids of
  the milestones of a call. Conditions of a stored contract are looked up by its id, as \<open>JSON\<close> holds no function. Rows
  of the history are ordered by their date; a date that cannot be read compares as equal to any other.
\<close>

section \<open>Numbers of any shape\<close>

definition or0 :: "json \<Rightarrow> json" where "or0 v = or_else_json v (JInt 0)"

definition plus_one :: "json \<Rightarrow> json" where "plus_one v = js_plus (or0 v) (JInt 1)"

text \<open>\<open>v++\<close>.\<close>

definition increment :: "json \<Rightarrow> json" where "increment v = JNum (num_plus (json_number v) (Fin 1))"

definition moves_of :: "json \<Rightarrow> json list" where "moves_of row = elements (field ''moves'' row)"
definition plies_of :: "json \<Rightarrow> int" where "plies_of row = int (length (moves_of row))"

definition outcome_key :: "json \<Rightarrow> string" where
  "outcome_key outcome = (if outcome = JStr ''win'' then ''wins'' else if outcome = JStr ''loss'' then ''losses'' else ''draws'')"

section \<open>The stored career\<close>

definition CAREER_KEY :: string where "CAREER_KEY = ''chess-study-career''"
definition CONTRACT_KEY :: string where "CONTRACT_KEY = ''chess-study-active-contract''"
definition SPECIAL_RUN_KEY :: string where "SPECIAL_RUN_KEY = ''chess-study-special-run''"
definition BOARD_THEME_KEY :: string where "BOARD_THEME_KEY = ''chess-study-board-theme''"
definition MAX_PROCESSED_GAME_IDS :: nat where "MAX_PROCESSED_GAME_IDS = 256"
definition MAX_RUN_PROCESSED_GAME_IDS :: nat where "MAX_RUN_PROCESSED_GAME_IDS = 16"

text \<open>\<open>replace(/^pre\s*/i, new)\<close>, and the one that also skips a middle dot.\<close>

definition without_prefix :: "string \<Rightarrow> string \<Rightarrow> string option" where
  "without_prefix pre s = (if starts (to_lower pre) (to_lower s) then Some (dropWhile is_blank (drop (length pre) s)) else None)"

definition replace_prefix :: "string \<Rightarrow> string \<Rightarrow> string \<Rightarrow> string" where
  "replace_prefix pre new s = (case without_prefix pre s of None \<Rightarrow> s | Some t \<Rightarrow> new @ t)"

definition replace_dotted :: "string \<Rightarrow> string \<Rightarrow> string \<Rightarrow> string" where
  "replace_dotted pre new s =
     (case without_prefix pre s of
        None \<Rightarrow> s
      | Some t \<Rightarrow> (case without_prefix [CHR 0xB7] t of None \<Rightarrow> s | Some u \<Rightarrow> new @ u))"

definition normalizeLegacyMilestoneText :: "json \<Rightarrow> string" where
  "normalizeLegacyMilestoneText v =
     replace_prefix ''Reto fallido:'' (''Reto fallido '' @ [CHR 0xB7] @ '' '')
      (replace_dotted ''Reto cumplido'' (''Reto superado '' @ [CHR 0xB7] @ '' '')
       (replace_prefix ''Reto cumplido:'' (''Reto superado '' @ [CHR 0xB7] @ '' '')
        (replace_prefix ''Contrato fallido:'' (''Reto fallido '' @ [CHR 0xB7] @ '' '')
         (replace_prefix ''Contrato cumplido:'' (''Reto superado '' @ [CHR 0xB7] @ '' '') (json_string (or_else_json v (JStr [])))))))"

definition normalizeMilestones :: "json \<Rightarrow> json list" where
  "normalizeMilestones rows =
     map (\<lambda>row. if is_object row
                then with_fields [(''text'', JStr (normalizeLegacyMilestoneText (field ''text'' row)))] (JObj (spread_fields row))
                else row) (elements rows)"

definition blank_season :: "string \<Rightarrow> string \<Rightarrow> json" where
  "blank_season now month =
     JObj [(''id'', JStr month), (''games'', JInt 0), (''wins'', JInt 0), (''draws'', JInt 0), (''losses'', JInt 0), (''startedAt'', JStr now)]"

definition blank_records :: json where
  "blank_records =
     JObj [(''fastestWinPlies'', JNull), (''longestGamePlies'', JInt 0), (''highestDifficultyWin'', JInt 0),
       (''bestWinStreak'', JInt 0), (''currentWinStreak'', JInt 0), (''bestBossStage'', JInt 0), (''bestStreakRun'', JInt 0),
       (''puzzleRushBest'', JInt 0), (''bestCupScore'', JInt 0), (''suddenDeathWins'', JInt 0)]"

definition blank_contracts :: json where
  "blank_contracts = JObj [(''offered'', JInt 0), (''completed'', JInt 0), (''failed'', JInt 0)]"

definition blank_pressure :: json where "blank_pressure = JObj [(''moves'', JInt 0), (''incidents'', JInt 0)]"

definition blank :: "string \<Rightarrow> string \<Rightarrow> json" where
  "blank now month =
     JObj [(''version'', JInt 2), (''season'', blank_season now month), (''records'', blank_records), (''contracts'', blank_contracts),
       (''byTimeControl'', JObj []), (''pressure'', blank_pressure), (''milestones'', JArr []), (''runHistory'', JArr []),
       (''processedGameIds'', JArr [])]"

definition spread_over :: "json \<Rightarrow> json \<Rightarrow> json" where
  "spread_over base v = with_fields (spread_fields v) base"

definition career_of :: "string \<Rightarrow> string \<Rightarrow> json \<Rightarrow> json" where
  "career_of now month parsed =
     with_fields [(''records'', spread_over blank_records (field ''records'' parsed)),
       (''contracts'', spread_over blank_contracts (field ''contracts'' parsed)),
       (''pressure'', spread_over blank_pressure (field ''pressure'' parsed)),
       (''byTimeControl'', JObj (spread_fields (field ''byTimeControl'' parsed))),
       (''milestones'', JArr (normalizeMilestones (field ''milestones'' parsed))),
       (''runHistory'', JArr (elements (field ''runHistory'' parsed))),
       (''processedGameIds'', JArr (take MAX_PROCESSED_GAME_IDS
          (map (\<lambda>v. JStr (json_string v)) (elements (field ''processedGameIds'' parsed)))))]
     (spread_over (blank now month) parsed)"

definition loadCareer :: "json_api \<Rightarrow> string \<Rightarrow> string \<Rightarrow> store \<Rightarrow> json" where
  "loadCareer js now month st =
     (case st CAREER_KEY of
        None \<Rightarrow> career_of now month (JObj [])
      | Some raw \<Rightarrow> if raw = [] then career_of now month (JObj [])
                   else (case parse js raw of None \<Rightarrow> blank now month | Some v \<Rightarrow> career_of now month v))"

definition saveCareer :: "json_api \<Rightarrow> json \<Rightarrow> store \<Rightarrow> store" where
  "saveCareer js state st = st(CAREER_KEY \<mapsto> stringify js state)"

definition milestone :: "string \<Rightarrow> string \<Rightarrow> string \<Rightarrow> string \<Rightarrow> json \<Rightarrow> json" where
  "milestone fresh now type text state =
     with_fields [(''milestones'', JArr (take 120 (JObj [(''id'', JStr fresh), (''date'', JStr now), (''type'', JStr type), (''text'', JStr text)]
        # elements (field ''milestones'' state))))] state"

section \<open>Contracts\<close>

record contract =
  ct_id :: string
  ct_label :: string
  ct_text :: string

definition CONTRACTS :: "contract list" where
  "CONTRACTS =
     [\<lparr>ct_id = ''win'', ct_label = ''Haz el trabajo'', ct_text = ''Gana la partida.''\<rparr>,
      \<lparr>ct_id = ''no-hints'', ct_label = ''Sin ruedines'', ct_text = ''Termina sin usar una sola pista.''\<rparr>,
      \<lparr>ct_id = ''survive20'', ct_label = (''Mant'' @ [CHR 0xE9] @ ''n el pulso''), ct_text = ''Llega al movimiento 20.''\<rparr>,
      \<lparr>ct_id = ''fastwin'', ct_label = (''Ejecuci'' @ [CHR 0xF3] @ ''n sumaria''), ct_text = ''Gana antes del movimiento 30.''\<rparr>,
      \<lparr>ct_id = ''blackwin'', ct_label = (''Con negras, adem'' @ [CHR 0xE1] @ ''s''), ct_text = ''Gana jugando con negras.''\<rparr>,
      \<lparr>ct_id = ''castle'', ct_label = ''Techo antes de la tormenta'', ct_text = (''Enr'' @ [CHR 0xF3] @ ''cate antes de tu movimiento 13.'')\<rparr>,
      \<lparr>ct_id = ''queen-home'', ct_label = (''La dama no est'' @ [CHR 0xE1] @ '' de turismo''), ct_text = ''No muevas la dama en tus primeros 6 turnos.''\<rparr>,
      \<lparr>ct_id = ''no-pressure-crime'', ct_label = ''Pulso estable'', ct_text = ''No cometas un incidente grave con menos de 40 segundos.''\<rparr>,
      \<lparr>ct_id = ''sudden-survivor'', ct_label = ''Tres vidas, una dignidad'', ct_text = ''Gana una partida Sudden Death.''\<rparr>]"

record capabilities =
  cb_hintsAvailable :: bool
  cb_black :: bool
  cb_hasClock :: bool
  cb_suddenDeath :: bool

definition contract_requires :: "string \<Rightarrow> capabilities \<Rightarrow> bool" where
  "contract_requires cid c =
     (if cid = ''no-hints'' then cb_hintsAvailable c else if cid = ''blackwin'' then cb_black c
      else if cid = ''no-pressure-crime'' then cb_hasClock c else if cid = ''sudden-survivor'' then cb_suddenDeath c else True)"

definition own_turn :: "json \<Rightarrow> nat \<Rightarrow> bool" where
  "own_turn record i \<longleftrightarrow> or_else_json (field ''humanColor'' record) (JStr ''w'') = JStr (if even i then ''w'' else ''b'')"

definition castled_early :: "json \<Rightarrow> bool" where
  "castled_early record \<longleftrightarrow>
     list_ex (\<lambda>(i, m). own_turn record i \<and> i < 25 \<and> starts ''O-O'' (json_string (or_else_json (field ''san'' m) (JStr []))))
       (enumerate 0 (moves_of record))"

definition queen_home :: "json \<Rightarrow> bool" where
  "queen_home record \<longleftrightarrow>
     list_all (\<lambda>(i, m). field ''piece'' m \<noteq> JStr ''q'')
       (take 6 (filter (\<lambda>(i, m). own_turn record i) (enumerate 0 (moves_of record))))"

record contract_context =
  cx_outcome :: json
  cx_humanColor :: json
  cx_plies :: int
  cx_hintsUsed :: json
  cx_pressureIncidents :: json
  cx_suddenDeath :: bool
  cx_record :: json

definition contract_test :: "string \<Rightarrow> contract_context \<Rightarrow> bool" where
  "contract_test cid c =
     (let win = (cx_outcome c = JStr ''win'') in
      if cid = ''win'' then win
      else if cid = ''no-hints'' then num_or_zero (cx_hintsUsed c) = Fin 0
      else if cid = ''survive20'' then 39 \<le> cx_plies c
      else if cid = ''fastwin'' then win \<and> cx_plies c \<le> 59
      else if cid = ''blackwin'' then win \<and> cx_humanColor c = JStr ''b''
      else if cid = ''castle'' then castled_early (cx_record c)
      else if cid = ''queen-home'' then queen_home (cx_record c)
      else if cid = ''no-pressure-crime'' then num_or_zero (cx_pressureIncidents c) = Fin 0
      else if cid = ''sudden-survivor'' then win \<and> cx_suddenDeath c
      else False)"

text \<open>The sum of the incidents, in the order of the object.\<close>

fun sum_incidents :: "jsnum \<Rightarrow> json list \<Rightarrow> jsnum" where
  "sum_incidents s [] = s"
| "sum_incidents s (v # vs) = sum_incidents (num_plus s (num_or_zero v)) vs"

definition chooseContract :: "string \<Rightarrow> nat \<Rightarrow> json \<Rightarrow> capabilities \<Rightarrow> json" where
  "chooseContract now gameCount incidents c =
     (let eligible = filter (\<lambda>k. contract_requires (ct_id k) c) CONTRACTS;
          discipline = num_lt (Fin 4) (sum_incidents (Fin 0) (map snd (spread_fields incidents)));
          disciplined = (if discipline then filter (\<lambda>k. ct_id k \<noteq> ''win'') eligible else eligible);
          pool = (if disciplined \<noteq> [] then disciplined else if eligible \<noteq> [] then eligible
                  else filter (\<lambda>k. ct_id k = ''win'') CONTRACTS);
          k = pool ! (gameCount mod length pool)
      in JObj [(''id'', JStr (ct_id k)), (''label'', JStr (ct_label k)), (''text'', JStr (ct_text k)), (''offeredAt'', JStr now)])"

definition saveActiveContract :: "json_api \<Rightarrow> json \<Rightarrow> store \<Rightarrow> store" where
  "saveActiveContract js c st = (if truthy c then st(CONTRACT_KEY \<mapsto> stringify js c) else st)"

definition stored_or_null :: "json_api \<Rightarrow> string \<Rightarrow> store \<Rightarrow> json" where
  "stored_or_null js key st =
     (case st key of None \<Rightarrow> JNull
      | Some raw \<Rightarrow> if raw = [] then JNull else (case parse js raw of None \<Rightarrow> JNull | Some v \<Rightarrow> v))"

definition loadActiveContract :: "json_api \<Rightarrow> store \<Rightarrow> json" where
  "loadActiveContract js st = stored_or_null js CONTRACT_KEY st"

definition clearActiveContract :: "store \<Rightarrow> store" where
  "clearActiveContract st = st(CONTRACT_KEY := None)"

definition contractResult :: "json \<Rightarrow> json \<Rightarrow> json \<Rightarrow> (json \<times> bool) option" where
  "contractResult contract record meta =
     (if \<not> truthy contract then None
      else let c = \<lparr>cx_outcome = field ''outcome'' record, cx_humanColor = field ''humanColor'' record, cx_plies = plies_of record,
                    cx_hintsUsed = or0 (field ''hintsUsed'' meta), cx_pressureIncidents = or0 (field ''pressureIncidents'' meta),
                    cx_suddenDeath = truthy (field ''suddenDeath'' meta), cx_record = record\<rparr>
           in case List.find (\<lambda>k. field ''id'' contract = JStr (ct_id k)) CONTRACTS of
                Some k \<Rightarrow> Some (JStr (ct_label k), contract_test (ct_id k) c)
              | None \<Rightarrow> Some (field ''label'' contract, False))"

section \<open>A finished game\<close>

definition careerGameKey :: "json \<Rightarrow> string" where
  "careerGameKey record =
     (let v = nullish (field ''sourceGameId'' record) (field ''id'' record)
      in if v = JUndef \<or> v = JNull then [] else trim (json_string v))"

fun merge_ids :: "string list \<Rightarrow> json list \<Rightarrow> string list" where
  "merge_ids found [] = found"
| "merge_ids found (v # vs) =
     (let key = (if v = JUndef \<or> v = JNull then [] else trim (json_string v))
      in if key = [] \<or> key \<in> set found then merge_ids found vs
         else if MAX_PROCESSED_GAME_IDS \<le> Suc (length found) then found @ [key] else merge_ids (found @ [key]) vs)"

definition mergeProcessedGameIds :: "json list \<Rightarrow> json list \<Rightarrow> string list" where
  "mergeProcessedGameIds current incoming = merge_ids [] (incoming @ current)"

definition set_field :: "string \<Rightarrow> json \<Rightarrow> json \<Rightarrow> json" where
  "set_field k v state = with_fields [(k, v)] state"

definition half_up :: "int \<Rightarrow> string" where "half_up plies = show_int ((plies + 1) div 2)"

text \<open>A new season closes the one before.\<close>

definition season_of :: "string \<Rightarrow> string \<Rightarrow> string \<Rightarrow> json \<Rightarrow> json" where
  "season_of fresh now month state =
     (let season = field ''season'' state; count = (\<lambda>k. json_string (or0 (field k season))) in
      if field ''id'' season = JStr month then state
      else set_field ''season'' (blank_season now month)
             (milestone fresh now ''season'' (''Temporada '' @ json_string (field ''id'' season) @ '' cerrada: '' @ count ''wins'' @
                ''V/'' @ count ''draws'' @ ''T/'' @ count ''losses'' @ ''D.'') state))"

definition season_game :: "json \<Rightarrow> json \<Rightarrow> json" where
  "season_game outcome state =
     (let s = with_fields [(''games'', increment (field ''games'' (field ''season'' state)))] (JObj (spread_fields (field ''season'' state)));
          k = outcome_key outcome
      in set_field ''season'' (with_fields [(k, increment (field k s))] s) state)"

text \<open>The records and, as they are broken, their milestones: a pair of the new records and the career.\<close>

definition records_after :: "(nat \<Rightarrow> string) \<Rightarrow> string \<Rightarrow> json \<Rightarrow> bool \<Rightarrow> json \<Rightarrow> json" where
  "records_after uid now record suddenDeath state =
     (let win = (field ''outcome'' record = JStr ''win''); plies = plies_of record;
          rec0 = JObj (spread_fields (field ''records'' state));
          current = (if win then plus_one (field ''currentWinStreak'' rec0) else JInt 0);
          rec1 = with_fields [(''currentWinStreak'', current),
                   (''bestWinStreak'', JNum (num_max (num_or_zero (field ''bestWinStreak'' rec0)) (json_number current)))] rec0;
          (rec2, s2) = (if win \<and> (\<not> truthy (field ''fastestWinPlies'' rec1) \<or> num_lt (Fin (of_int plies)) (json_number (field ''fastestWinPlies'' rec1)))
                        then (set_field ''fastestWinPlies'' (JInt plies) rec1,
                              milestone (uid 1) now ''record'' ((''Nueva victoria m'' @ [CHR 0xE1] @ ''s r'' @ [CHR 0xE1] @ ''pida: '') @ half_up plies @ '' movimientos.'') state)
                        else (rec1, state));
          (rec3, s3) = (if num_lt (num_or_zero (field ''longestGamePlies'' rec2)) (Fin (of_int plies))
                        then (set_field ''longestGamePlies'' (JInt plies) rec2,
                              milestone (uid 2) now ''record'' ((''Nueva partida m'' @ [CHR 0xE1] @ ''s larga: '') @ half_up plies @ '' movimientos.'') s2)
                        else (rec2, s2));
          (rec4, s4) = (if win \<and> num_lt (num_or_zero (field ''highestDifficultyWin'' rec3)) (num_or_zero (field ''difficulty'' record))
                        then (set_field ''highestDifficultyWin'' (JNum (num_or_zero (field ''difficulty'' record))) rec3,
                              milestone (uid 3) now ''record'' ((''Nueva dificultad m'' @ [CHR 0xE1] @ ''xima vencida: nivel '') @ json_string (field ''difficulty'' record) @ ''.'') s3)
                        else (rec3, s3));
          rec5 = (if win \<and> suddenDeath
                  then set_field ''suddenDeathWins'' (JNum (num_plus (num_or_zero (field ''suddenDeathWins'' rec4)) (Fin 1))) rec4 else rec4)
      in set_field ''records'' rec5 s4)"

definition empty_row :: json where
  "empty_row = JObj [(''games'', JInt 0), (''wins'', JInt 0), (''draws'', JInt 0), (''losses'', JInt 0)]"

definition counted_row :: "json \<Rightarrow> json \<Rightarrow> json" where
  "counted_row outcome row =
     (let r = with_fields [(''games'', increment (field ''games'' (spread_over empty_row row)))] (spread_over empty_row row); k = outcome_key outcome
      in with_fields [(k, increment (field k r))] r)"

definition rhythm_of :: "json \<Rightarrow> string" where
  "rhythm_of record = json_string (or_else_json (field ''id'' (field ''timeControl'' record)) (JStr ''none''))"

definition rhythm_game :: "json \<Rightarrow> json \<Rightarrow> json" where
  "rhythm_game record state =
     (let by = field ''byTimeControl'' state
      in set_field ''byTimeControl'' (with_fields [(rhythm_of record, counted_row (field ''outcome'' record) (field (rhythm_of record) by))]
           (JObj (spread_fields by))) state)"

definition pressure_game :: "json \<Rightarrow> json \<Rightarrow> json" where
  "pressure_game meta state =
     (let p = field ''pressure'' state
      in set_field ''pressure'' (JObj [(''moves'', JNum (num_plus (num_or_zero (field ''moves'' p)) (num_or_zero (field ''pressureMoves'' meta)))),
           (''incidents'', JNum (num_plus (num_or_zero (field ''incidents'' p)) (num_or_zero (field ''pressureIncidents'' meta))))]) state)"

definition contract_game :: "string \<Rightarrow> string \<Rightarrow> json \<Rightarrow> json \<Rightarrow> json \<Rightarrow> json" where
  "contract_game fresh now record meta state =
     (case contractResult (field ''contract'' meta) record meta of
        None \<Rightarrow> state
      | Some (label, success) \<Rightarrow>
          let c = field ''contracts'' state; bump = (\<lambda>k b. js_plus (or0 (field k c)) (JInt (if b then 1 else 0)))
          in milestone fresh now (if success then ''contract-win'' else ''contract-loss'')
               ((if success then ''Reto superado'' else ''Reto fallido'') @ ('' '' @ [CHR 0xB7] @ '' '') @ json_string label @ ''.'')
               (set_field ''contracts'' (with_fields [(''offered'', bump ''offered'' True), (''completed'', bump ''completed'' success),
                  (''failed'', bump ''failed'' (\<not> success))] (JObj (spread_fields c))) state))"

definition recordCareerGame :: "json_api \<Rightarrow> (nat \<Rightarrow> string) \<Rightarrow> string \<Rightarrow> string \<Rightarrow> json \<Rightarrow> json \<Rightarrow> store \<Rightarrow> json \<times> store" where
  "recordCareerGame js uid now month record meta st =
     (let state = loadCareer js now month st; gameKey = careerGameKey record in
      if gameKey \<noteq> [] \<and> JStr gameKey \<in> set (elements (field ''processedGameIds'' state)) then (state, st)
      else let counted = contract_game (uid 4) now record meta (pressure_game meta (rhythm_game record
                 (records_after uid now record (truthy (field ''suddenDeath'' meta))
                   (season_game (field ''outcome'' record) (season_of (uid 0) now month state)))));
               next' = (if gameKey \<noteq> []
                        then set_field ''processedGameIds'' (JArr (map JStr
                               (mergeProcessedGameIds (elements (field ''processedGameIds'' counted)) [JStr gameKey]))) counted
                        else counted)
           in (next', saveCareer js next' st))"

section \<open>Reconciliation with the history\<close>

definition row_time :: "date_parse \<Rightarrow> json \<Rightarrow> int option" where
  "row_time dp row = date_value dp (or_else_json (field ''date'' row) (JInt 0))"

definition by_date :: "date_parse \<Rightarrow> json \<Rightarrow> json \<Rightarrow> bool" where
  "by_date dp a b = (case (row_time dp a, row_time dp b) of (Some x, Some y) \<Rightarrow> x \<le> y | _ \<Rightarrow> True)"

text \<open>What the rows prove, in one pass: the fastest win (0 for none), the longest game, the hardest win, the best and
  the current streak, and the games of each rhythm.\<close>

record tally =
  ta_fastest :: int
  ta_longest :: int
  ta_hardest :: jsnum
  ta_best :: int
  ta_current :: int
  ta_byTimeControl :: json

definition tally_row :: "json \<Rightarrow> tally \<Rightarrow> tally" where
  "tally_row row t =
     (let plies = plies_of row; win = (field ''outcome'' row = JStr ''win''); current = (if win then ta_current t + 1 else 0)
      in \<lparr>ta_fastest = (if win \<and> (ta_fastest t = 0 \<or> 0 < plies \<and> plies < ta_fastest t)
                        then (if plies \<noteq> 0 then plies else ta_fastest t) else ta_fastest t),
          ta_longest = max (ta_longest t) plies,
          ta_hardest = (if win then num_max (ta_hardest t) (num_or_zero (field ''difficulty'' row)) else ta_hardest t),
          ta_best = (if win then max (ta_best t) current else ta_best t), ta_current = current,
          ta_byTimeControl = with_fields [(rhythm_of row, counted_row (field ''outcome'' row) (field (rhythm_of row) (ta_byTimeControl t)))]
            (ta_byTimeControl t)\<rparr>)"

definition tally_of :: "json list \<Rightarrow> tally" where
  "tally_of rows = fold tally_row rows
     \<lparr>ta_fastest = 0, ta_longest = 0, ta_hardest = Fin 0, ta_best = 0, ta_current = 0, ta_byTimeControl = JObj []\<rparr>"

definition season_of_rows :: "string \<Rightarrow> string \<Rightarrow> json list \<Rightarrow> json" where
  "season_of_rows now month rows =
     fold (\<lambda>row s. let k = outcome_key (field ''outcome'' row) in with_fields [(k, increment (field k s))] s) rows
       (with_fields [(''games'', JInt (int (length rows))),
          (''startedAt'', or_else_json (case rows of [] \<Rightarrow> JUndef | row # _ \<Rightarrow> field ''date'' row) (JStr now))] (blank_season now month))"

text \<open>\<open>month_of\<close> is the month of a time, on the browser's calendar.\<close>

definition reconcileCareerHistory ::
  "json_api \<Rightarrow> date_parse \<Rightarrow> (int \<Rightarrow> string) \<Rightarrow> string \<Rightarrow> string \<Rightarrow> json \<Rightarrow> store \<Rightarrow> json \<times> store" where
  "reconcileCareerHistory js dp month_of now month history st =
     (let rows = sort_stable (by_date dp) (filter (\<lambda>r. isCompletedGameOutcome (field ''outcome'' r)) (elements history));
          state = loadCareer js now month st;
          ids = filter (\<lambda>k. k \<noteq> []) (map careerGameKey rows);
          known = elements (field ''processedGameIds'' state);
          merged = map JStr (mergeProcessedGameIds known (rev (map JStr ids)));
          newIds = (join_with [char_of (0 :: nat)] (map json_string merged) \<noteq> join_with [char_of (0 :: nat)] (map json_string known));
          s1 = (if newIds then set_field ''processedGameIds'' (JArr merged) state else state);
          currentMonth = filter (\<lambda>r. case row_time dp r of None \<Rightarrow> False | Some t \<Rightarrow> month_of t = month) rows;
          trackedGames = sum_incidents (Fin 0) (map (\<lambda>(_, row). field ''games'' row) (spread_fields (field ''byTimeControl'' s1)));
          newSeason = (field ''id'' (field ''season'' s1) \<noteq> JStr month \<or>
                       num_lt (num_or_zero (field ''games'' (field ''season'' s1))) (Fin (of_nat (length currentMonth))));
          s2 = (if newSeason then set_field ''season'' (season_of_rows now month currentMonth) s1 else s1);
          more = num_lt trackedGames (Fin (of_nat (length rows)));
          t = tally_of rows; records = field ''records'' s2;
          s3 = (if more
                then with_fields [(''byTimeControl'', ta_byTimeControl t),
                       (''records'', with_fields
                          [(''fastestWinPlies'', if ta_fastest t \<noteq> 0 then JInt (ta_fastest t) else nullish (field ''fastestWinPlies'' records) JNull),
                           (''longestGamePlies'', JNum (num_max (num_or_zero (field ''longestGamePlies'' records)) (Fin (of_int (ta_longest t))))),
                           (''highestDifficultyWin'', JNum (num_max (num_or_zero (field ''highestDifficultyWin'' records)) (ta_hardest t))),
                           (''bestWinStreak'', JNum (num_max (num_or_zero (field ''bestWinStreak'' records)) (Fin (of_int (ta_best t))))),
                           (''currentWinStreak'', JInt (ta_current t))] (JObj (spread_fields records)))] s2
                else s2)
      in if rows = [] then (state, st)
         else if newIds \<or> newSeason \<or> more then (s3, saveCareer js s3 st) else (s3, st))"

section \<open>Special runs\<close>

definition startSpecialRun :: "json_api \<Rightarrow> int \<Rightarrow> string \<Rightarrow> string \<Rightarrow> store \<Rightarrow> json \<times> store" where
  "startSpecialRun js clock now mode st =
     (let base = [(''id'', JStr (mode @ ''-'' @ show_int clock)), (''mode'', JStr mode), (''active'', JBool True), (''stage'', JInt 0),
                  (''completedStages'', JInt 0), (''wins'', JInt 0), (''draws'', JInt 0), (''losses'', JInt 0), (''points'', JInt 0),
                  (''processedGameIds'', JArr []), (''startedAt'', JStr now)];
          run = JObj (base @ (if mode = ''boss'' then [(''difficulty'', JInt 35)]
                              else if mode = ''cup'' then [(''difficulty'', JInt 55), (''totalGames'', JInt 8)] else [(''difficulty'', JInt 30)]))
      in (run, st(SPECIAL_RUN_KEY \<mapsto> stringify js run)))"

definition loadSpecialRun :: "json_api \<Rightarrow> store \<Rightarrow> json" where
  "loadSpecialRun js st = stored_or_null js SPECIAL_RUN_KEY st"

definition saveSpecialRun :: "json_api \<Rightarrow> json \<Rightarrow> store \<Rightarrow> store" where
  "saveSpecialRun js run st = (if truthy run then st(SPECIAL_RUN_KEY \<mapsto> stringify js run) else st)"

definition clearSpecialRun :: "store \<Rightarrow> store" where "clearSpecialRun st = st(SPECIAL_RUN_KEY := None)"

definition persistRun :: "json_api \<Rightarrow> json \<Rightarrow> store \<Rightarrow> store" where
  "persistRun js run st = (if truthy (field ''active'' run) then saveSpecialRun js run st else clearSpecialRun st)"

definition specialRunGameId :: "json \<Rightarrow> string" where
  "specialRunGameId run =
     (let v = field ''currentGameId'' run in if v = JUndef \<or> v = JNull then [] else trim (json_string v))"

definition specialRunProcessedGameIds :: "json \<Rightarrow> string list" where
  "specialRunProcessedGameIds run =
     take MAX_RUN_PROCESSED_GAME_IDS (filter (\<lambda>s. s \<noteq> []) (map json_string (elements (field ''processedGameIds'' run))))"

definition markSpecialRunGameProcessed :: "json \<Rightarrow> string \<Rightarrow> json" where
  "markSpecialRunGameProcessed run gameId =
     (if gameId = [] then run
      else let ids = take MAX_RUN_PROCESSED_GAME_IDS (gameId # filter (\<lambda>i. i \<noteq> gameId) (specialRunProcessedGameIds run))
           in set_field ''processedGameIds'' (JArr (map JStr ids)) run)"

text \<open>The stored run of an answer that comes again, or the run to work on.\<close>

definition resolveSpecialRunReplay :: "json_api \<Rightarrow> string \<Rightarrow> string \<Rightarrow> json \<Rightarrow> string \<Rightarrow> store \<Rightarrow> json option \<times> json" where
  "resolveSpecialRunReplay js now month run gameId st =
     (if gameId = [] then (None, run)
      else let active = loadSpecialRun js st in
        if strict_eq (field ''id'' active) (field ''id'' run)
        then (if gameId \<in> set (specialRunProcessedGameIds active) then (Some active, active)
              else if specialRunGameId active = gameId then (None, active) else (None, run))
        else (List.find (\<lambda>row. strict_eq (field ''id'' row) (field ''id'' run) \<and> gameId \<in> set (specialRunProcessedGameIds row))
                (elements (field ''runHistory'' (loadCareer js now month st))), run))"

definition archive :: "json \<Rightarrow> json \<Rightarrow> json" where
  "archive run state = set_field ''runHistory'' (JArr (take 40 (run # elements (field ''runHistory'' state)))) state"

definition best_record :: "string \<Rightarrow> jsnum \<Rightarrow> json \<Rightarrow> json" where
  "best_record k n state =
     set_field ''records'' (with_fields [(k, JNum (num_max (num_or_zero (field k (field ''records'' state))) n))]
       (JObj (spread_fields (field ''records'' state)))) state"

definition ended :: "string \<Rightarrow> json \<Rightarrow> json \<Rightarrow> json" where
  "ended now outcome run = with_fields [(''active'', JBool False), (''outcome'', outcome), (''endedAt'', JStr now)] run"

definition cup_result :: "json_api \<Rightarrow> (nat \<Rightarrow> string) \<Rightarrow> string \<Rightarrow> string \<Rightarrow> json \<Rightarrow> json \<Rightarrow> store \<Rightarrow> json \<times> store" where
  "cup_result js uid now month run outcome st =
     (let count = (\<lambda>k o'. js_plus (or0 (field k run)) (JInt (if outcome = JStr o' then 1 else 0)));
          wins = count ''wins'' ''win''; draws = count ''draws'' ''draw''; losses = count ''losses'' ''loss'';
          completed = plus_one (field ''completedStages'' run);
          points = js_plus wins (JNum (num_times (json_number draws) (Fin (1 / 2))));
          next' = with_fields [(''wins'', wins), (''draws'', draws), (''losses'', losses), (''points'', points),
                    (''completedStages'', completed), (''stage'', completed)] run
      in if num_le (json_number (or_else_json (field ''totalGames'' run) (JInt 8))) (json_number completed)
         then let final = ended now (JStr (if num_le (Fin (9 / 2)) (json_number points) then ''win'' else if points = JInt 4 then ''draw'' else ''loss'')) next';
                  s = archive final (milestone (uid 0) now ''cup'' (''Copa de 8 cerrada: '' @ json_string wins @ ''V/'' @ json_string draws @ ''T/'' @
                        json_string losses @ (''D '' @ [CHR 0xB7] @ '' '') @ json_string points @ '' puntos.'') (best_record ''bestCupScore'' (json_number points) (loadCareer js now month st)))
              in (final, persistRun js final (saveCareer js s st))
         else (next', persistRun js next' st))"

definition lost_result :: "json_api \<Rightarrow> string \<Rightarrow> string \<Rightarrow> json \<Rightarrow> json \<Rightarrow> store \<Rightarrow> json \<times> store" where
  "lost_result js now month run outcome st =
     (let final = ended now outcome run; st' = persistRun js final st
      in (final, saveCareer js (archive final (loadCareer js now month st')) st'))"

definition won_result :: "json_api \<Rightarrow> (nat \<Rightarrow> string) \<Rightarrow> string \<Rightarrow> string \<Rightarrow> json \<Rightarrow> store \<Rightarrow> json \<times> store" where
  "won_result js uid now month run st =
     (let wins = plus_one (field ''wins'' run); completed = plus_one (field ''completedStages'' run);
          next' = with_fields [(''wins'', wins), (''completedStages'', completed), (''stage'', plus_one (field ''stage'' run))] run
      in if field ''mode'' run = JStr ''boss''
         then (if num_le (Fin 6) (json_number completed)
               then let final = ended now (JStr ''win'') next';
                        s = archive final (milestone (uid 0) now ''record'' (''Boss Run completado. Seis fases. Ning'' @ [CHR 0xFA] @ ''n testigo cre'' @ [CHR 0xED] @ ''ble.'')
                              (best_record ''bestBossStage'' (Fin 6) (loadCareer js now month st)))
                    in (final, persistRun js final (saveCareer js s st))
               else let harder = set_field ''difficulty'' (JNum (num_min (Fin 100) (json_number
                                   (js_plus (JInt 35) (JNum (num_times (json_number completed) (Fin 12))))))) next'
                    in (harder, persistRun js harder st))
         else let harder = set_field ''difficulty'' (JNum (num_min (Fin 100) (num_plus
                             (json_number (or_else_json (field ''difficulty'' run) (JInt 30))) (Fin 7)))) next';
                  st' = saveCareer js (best_record ''bestStreakRun'' (json_number wins) (loadCareer js now month st)) st
              in (harder, persistRun js harder st'))"

definition recordSpecialRunResult ::
  "json_api \<Rightarrow> (nat \<Rightarrow> string) \<Rightarrow> string \<Rightarrow> string \<Rightarrow> json \<Rightarrow> json \<Rightarrow> store \<Rightarrow> json \<times> store" where
  "recordSpecialRunResult js uid now month run outcome st =
     (if \<not> truthy (field ''active'' run) then (run, st)
      else let gameId = specialRunGameId run in
        case resolveSpecialRunReplay js now month run gameId st of
          (Some duplicate, _) \<Rightarrow> (duplicate, st)
        | (None, base) \<Rightarrow>
            let marked = (if gameId \<noteq> [] then markSpecialRunGameProcessed base gameId else base)
            in if field ''mode'' marked = JStr ''cup'' then cup_result js uid now month marked outcome st
               else if outcome \<noteq> JStr ''win'' then lost_result js now month marked outcome st
               else won_result js uid now month marked st)"

definition recordPuzzleRush :: "json_api \<Rightarrow> (nat \<Rightarrow> string) \<Rightarrow> string \<Rightarrow> string \<Rightarrow> int \<Rightarrow> store \<Rightarrow> json \<times> store" where
  "recordPuzzleRush js uid now month score st =
     (let s = loadCareer js now month st;
          s' = (if num_lt (num_or_zero (field ''puzzleRushBest'' (field ''records'' s))) (Fin (of_int score))
                then milestone (uid 0) now ''record'' ((''Nuevo r'' @ [CHR 0xE9] @ ''cord de Puzzle Rush: '') @ show_int score @ '' resueltos.'')
                       (set_field ''records'' (with_fields [(''puzzleRushBest'', JInt score)] (JObj (spread_fields (field ''records'' s)))) s)
                else s)
      in (s', saveCareer js s' st))"

section \<open>Board themes\<close>

definition theme_unlocked :: "json \<Rightarrow> string \<Rightarrow> bool" where
  "theme_unlocked career themeId =
     (let best = (\<lambda>k n. num_le (Fin n) (num_or_zero (field k (field ''records'' career)))) in
      if themeId = ''classic'' then True
      else if themeId = ''midnight'' then best ''bestWinStreak'' 3
      else if themeId = ''blood'' then num_le (Fin 3) (num_or_zero (field ''failed'' (field ''contracts'' career))) \<or> best ''highestDifficultyWin'' 40
      else if themeId = ''royal'' then best ''highestDifficultyWin'' 70
      else if themeId = ''forensic'' then best ''puzzleRushBest'' 8
      else best ''bestWinStreak'' 8)"

definition BOARD_THEMES :: "string list" where
  "BOARD_THEMES = [''classic'', ''midnight'', ''blood'', ''royal'', ''forensic'', ''obsidian'']"

definition ADMIN_PREVIEW_KEY :: string where "ADMIN_PREVIEW_KEY = ''chess-study-admin-preview''"

definition setAdminPreviewAccess :: "bool \<Rightarrow> store \<Rightarrow> store" where
  "setAdminPreviewAccess enabled session = session(ADMIN_PREVIEW_KEY \<mapsto> (if enabled then ''1'' else ''0''))"

definition hasAdminPreviewAccess :: "store \<Rightarrow> bool" where
  "hasAdminPreviewAccess session \<longleftrightarrow> session ADMIN_PREVIEW_KEY = Some ''1''"

definition unlockedBoardThemes :: "bool \<Rightarrow> json \<Rightarrow> string list" where
  "unlockedBoardThemes adminPreview career = (if adminPreview then BOARD_THEMES else filter (theme_unlocked career) BOARD_THEMES)"

definition loadBoardTheme :: "json_api \<Rightarrow> string \<Rightarrow> string \<Rightarrow> page \<Rightarrow> string" where
  "loadBoardTheme js now month p =
     (let themeId = (case localArea p BOARD_THEME_KEY of Some s \<Rightarrow> if s = [] then ''classic'' else s | None \<Rightarrow> ''classic'')
      in if themeId \<in> set (unlockedBoardThemes (hasAdminPreviewAccess (sessionArea p)) (loadCareer js now month (localArea p)))
         then themeId else ''classic'')"

definition saveBoardTheme :: "json_api \<Rightarrow> string \<Rightarrow> string \<Rightarrow> string \<Rightarrow> page \<Rightarrow> string \<times> page" where
  "saveBoardTheme js now month themeId p =
     (let allowed = unlockedBoardThemes (hasAdminPreviewAccess (sessionArea p)) (loadCareer js now month (localArea p));
          q = p\<lparr>localArea := (localArea p)(BOARD_THEME_KEY \<mapsto> (if themeId \<in> set allowed then themeId else ''classic''))\<rparr>
      in (loadBoardTheme js now month q, q))"

end
