(* ===== verification/CareerProps.thy ===== *)
theory CareerProps
  imports Career JsonCodec
begin

text \<open>
  A special run hears of a game once: the result of a game that is recorded again, with whatever outcome, is the run as
  it was left, while the store holds what was left.
\<close>

lemma run_keys: "SPECIAL_RUN_KEY \<noteq> CAREER_KEY" "CAREER_KEY \<noteq> SPECIAL_RUN_KEY"
  by (simp_all add: SPECIAL_RUN_KEY_def CAREER_KEY_def)

lemma stored_or_null_written: "survives js v \<Longrightarrow> st k = Some (stringify js v) \<Longrightarrow> stored_or_null js k st = v"
  by (simp add: stored_or_null_def survives_def)

lemma stored_or_null_none [simp]: "st k = None \<Longrightarrow> stored_or_null js k st = JNull"
  by (simp add: stored_or_null_def)

text \<open>The archived runs do not depend on the clock, and a written career reads them back.\<close>

lemma run_history_of: "field ''runHistory'' (career_of now month v) = JArr (elements (field ''runHistory'' v))"
  by (simp add: career_of_def spread_over_def blank_def with_fields_def spread_fields_def split: json.split)

lemma nothing_stored: "field k JNull = JUndef" "elements JUndef = []" "field ''runHistory'' (blank now month) = JArr []"
  by (simp_all add: field_def elements_def blank_def)

definition archived_runs :: "json_api \<Rightarrow> store \<Rightarrow> json list" where
  "archived_runs js st = elements (field ''runHistory'' (stored_or_null js CAREER_KEY st))"

lemma load_archived: "elements (field ''runHistory'' (loadCareer js now month st)) = archived_runs js st"
  by (auto simp: loadCareer_def archived_runs_def stored_or_null_def run_history_of nothing_stored split: option.split)

section \<open>What a result does to a run\<close>

text \<open>A result adds fields to the run, never its id or its games; it leaves the run stored as the current one, or ended,
  removed and at the head of the archived ones.\<close>

definition career_kept :: "json_api \<Rightarrow> store \<Rightarrow> store \<Rightarrow> bool" where
  "career_kept js st st' \<longleftrightarrow> st' CAREER_KEY = st CAREER_KEY \<or> (\<exists>c. st' CAREER_KEY = Some (stringify js c))"

definition run_settled :: "json_api \<Rightarrow> store \<Rightarrow> json \<Rightarrow> json \<times> store \<Rightarrow> bool" where
  "run_settled js st marked result \<longleftrightarrow> career_kept js st (snd result) \<and>
     (\<exists>fs. fst result = with_fields fs marked \<and> ''id'' \<notin> fst ` set fs \<and> ''processedGameIds'' \<notin> fst ` set fs) \<and>
     (truthy (field ''active'' (fst result)) \<and> snd result SPECIAL_RUN_KEY = Some (stringify js (fst result)) \<or>
      snd result SPECIAL_RUN_KEY = None \<and>
      (\<exists>c more. snd result CAREER_KEY = Some (stringify js c) \<and> field ''runHistory'' c = JArr (fst result # more)))"

lemma truthy_bool [simp]: "truthy (JBool b) = b"
  by (simp add: truthy_def)

lemma with_fields_twice: "with_fields gs (with_fields fs (JObj kvs)) = with_fields (fs @ gs) (JObj kvs)"
  by (simp add: with_fields_def)

lemma field_outside: "k \<notin> fst ` set fs \<Longrightarrow> field k (with_fields fs (JObj kvs)) = field k (JObj kvs)"
proof -
  assume "k \<notin> fst ` set fs"
  then have "map_of (rev fs) k = None" by (simp add: map_of_eq_None_iff)
  then show ?thesis by (simp add: field_with_fields del: field_JObj)
qed

lemma archive_head: "\<exists>more. field ''runHistory'' (archive run state) = JArr (run # more)"
  by (cases state) (simp_all add: archive_def set_field_def field_with_fields field_with_fields_other del: field_JObj)

text \<open>The two ways a result ends.\<close>

lemma settled_next:
  assumes "r = with_fields fs (JObj kvs)" "{''id'', ''processedGameIds'', ''active''} \<inter> fst ` set fs = {}" "truthy (field ''active'' (JObj kvs))"
    and "career_kept js st st'"
  shows "run_settled js st (JObj kvs) (r, persistRun js r st')"
proof -
  have "field ''active'' r = field ''active'' (JObj kvs)" unfolding assms(1) by (rule field_outside) (use assms(2) in auto)
  moreover have "truthy r" by (simp add: assms(1) with_fields_def truthy_def)
  ultimately show ?thesis using assms by (auto simp: run_settled_def persistRun_def saveSpecialRun_def career_kept_def run_keys)
qed

lemma settled_final:
  assumes "r = ended now o' (with_fields fs (JObj kvs))" "{''id'', ''processedGameIds''} \<inter> fst ` set fs = {}"
    and "st' SPECIAL_RUN_KEY = None" "st' CAREER_KEY = Some (stringify js (archive r c))"
  shows "run_settled js st (JObj kvs) (r, st')"
proof -
  have "r = with_fields (fs @ [(''active'', JBool False), (''outcome'', o'), (''endedAt'', JStr now)]) (JObj kvs)"
    by (simp add: assms(1) ended_def with_fields_twice)
  moreover obtain more where "field ''runHistory'' (archive r c) = JArr (r # more)" using archive_head by blast
  ultimately show ?thesis using assms(2-4) unfolding run_settled_def fst_conv snd_conv
    by (intro conjI disjI2 exI [of _ "fs @ _"] exI [of _ "archive r c"] exI [of _ more]) (auto simp: career_kept_def)
qed

lemma ended_inactive: "field ''active'' (ended now o' (with_fields fs (JObj kvs))) = JBool False"
  by (simp add: ended_def with_fields_twice field_with_fields del: field_JObj)

lemma persist_final: "field ''active'' r = JBool False \<Longrightarrow> persistRun js r st = st(SPECIAL_RUN_KEY := None)"
  by (simp add: persistRun_def clearSpecialRun_def)

lemma final_settled:
  assumes "{''id'', ''processedGameIds''} \<inter> fst ` set fs = {}" "r = ended now o' (with_fields fs (JObj kvs))"
  shows "run_settled js st (JObj kvs) (r, persistRun js r (saveCareer js (archive r c) st'))"
  by (rule settled_final [OF assms(2,1)]) (simp_all add: assms(2) persist_final ended_inactive saveCareer_def run_keys)

lemma cup_settled:
  assumes "truthy (field ''active'' (JObj kvs))"
  shows "run_settled js st (JObj kvs) (cup_result js uid now month (JObj kvs) outcome st)"
  unfolding cup_result_def Let_def
  by (split if_split, intro conjI impI, rule final_settled [OF _ refl], simp, rule settled_next [OF refl _ assms], simp, simp add: career_kept_def)

lemma lost_settled: "run_settled js st (JObj kvs) (lost_result js now month (JObj kvs) outcome st)"
proof -
  have "ended now outcome (JObj kvs) = ended now outcome (with_fields [] (JObj kvs))" by (simp add: with_fields_def)
  then show ?thesis
    unfolding lost_result_def Let_def
    by (simp only:) (intro settled_final [where fs = "[]"], simp_all add: persist_final ended_inactive saveCareer_def run_keys)
qed

lemma won_settled:
  assumes "truthy (field ''active'' (JObj kvs))"
  shows "run_settled js st (JObj kvs) (won_result js uid now month (JObj kvs) st)"
  unfolding won_result_def Let_def set_field_def with_fields_twice
  by (auto simp: persist_final ended_inactive saveCareer_def run_keys career_kept_def intro!: settled_final settled_next assms)

section \<open>A result that comes again\<close>

definition replay :: "json_api \<Rightarrow> json \<Rightarrow> string \<Rightarrow> store \<Rightarrow> json option" where
  "replay js run g st =
     (let active = loadSpecialRun js st in
      if strict_eq (field ''id'' active) (field ''id'' run)
      then (if g \<in> set (specialRunProcessedGameIds active) then Some active else None)
      else List.find (\<lambda>row. strict_eq (field ''id'' row) (field ''id'' run) \<and> g \<in> set (specialRunProcessedGameIds row)) (archived_runs js st))"

lemma resolve_replay: "g \<noteq> [] \<Longrightarrow> fst (resolveSpecialRunReplay js now month run g st) = replay js run g st"
  by (simp add: resolveSpecialRunReplay_def replay_def Let_def load_archived)

lemma replayed:
  assumes "truthy (field ''active'' run)" "specialRunGameId run \<noteq> []" "replay js run (specialRunGameId run) st = Some r"
  shows "recordSpecialRunResult js uid now month run outcome st = (r, st)"
proof -
  have "fst (resolveSpecialRunReplay js now month run (specialRunGameId run) st) = Some r" using resolve_replay assms(2,3) by simp
  then show ?thesis using assms(1) by (cases "resolveSpecialRunReplay js now month run (specialRunGameId run) st") (simp add: recordSpecialRunResult_def Let_def)
qed

lemma marked_run_ids: "g \<noteq> [] \<Longrightarrow> field ''processedGameIds'' r = field ''processedGameIds'' (markSpecialRunGameProcessed (JObj kvs) g) \<Longrightarrow>
    g \<in> set (specialRunProcessedGameIds r)"
  by (simp add: markSpecialRunGameProcessed_def specialRunProcessedGameIds_def set_field_def field_with_fields Let_def comp_def
      MAX_RUN_PROCESSED_GAME_IDS_def take_Cons' del: field_JObj)

text \<open>A replay reads the two keys of the career alone.\<close>

lemma replay_cong: "st SPECIAL_RUN_KEY = st' SPECIAL_RUN_KEY \<Longrightarrow> st CAREER_KEY = st' CAREER_KEY \<Longrightarrow> replay js run g st = replay js run g st'"
proof -
  assume "st SPECIAL_RUN_KEY = st' SPECIAL_RUN_KEY" "st CAREER_KEY = st' CAREER_KEY"
  then have "loadSpecialRun js st = loadSpecialRun js st'" "archived_runs js st = archived_runs js st'"
    by (simp_all add: loadSpecialRun_def archived_runs_def stored_or_null_def)
  then show ?thesis by (simp only: replay_def)
qed

text \<open>What is relied on of \<open>JSON\<close> for an archived run: a run that comes back by itself comes back at the head of the archived
  runs of whatever career it is written in.\<close>

definition keeps_head :: "json_api \<Rightarrow> bool" where
  "keeps_head js \<longleftrightarrow>
     (\<forall>c r more. survives js r \<and> field ''runHistory'' c = JArr (r # more) \<longrightarrow>
        stringify js c \<noteq> [] \<and> (\<exists>c' more'. parse js (stringify js c) = Some c' \<and> field ''runHistory'' c' = JArr (r # more')))"

lemma keeps_head_stored:
  assumes "keeps_head js" "survives js r" "field ''runHistory'' c = JArr (r # rows)" "st CAREER_KEY = Some (stringify js c)"
  shows "\<exists>rows'. archived_runs js st = r # rows'"
proof -
  obtain c' rows' where "stringify js c \<noteq> []" "parse js (stringify js c) = Some c'" "field ''runHistory'' c' = JArr (r # rows')"
    using assms(1-3) unfolding keeps_head_def by blast
  then show ?thesis using assms(4) by (simp add: archived_runs_def stored_or_null_def)
qed

lemma keeps_head_coded: "keeps_head coded_json"
  using survives_coded unfolding keeps_head_def survives_def by blast

text \<open>C18: A special run hears of a game once: after the result of a run's current game, the same result of the same run
recorded again, with any outcome and on any store that still holds what the first call left of the run and of the career,
gives the run exactly as the first call left it and writes nothing - whether the run goes on (it is then the stored one) or
the game ended it (it is then found at the head of the archived ones) - as long as \<open>JSON\<close> gives back that run, alone and in
a career.\<close>

theorem run_result_once:
  assumes "truthy (field ''active'' run)" "specialRunGameId run \<noteq> []" "field ''id'' run = JStr i"
    and "field ''id'' (loadSpecialRun js st) = JStr i \<longrightarrow> truthy (field ''active'' (loadSpecialRun js st))"
    and "recordSpecialRunResult js uid now month run outcome st = (r, st')" "survives js r" "keeps_head js"
    and "later SPECIAL_RUN_KEY = st' SPECIAL_RUN_KEY" "later CAREER_KEY = st' CAREER_KEY"
  shows "recordSpecialRunResult js uid' now' month' run outcome' later = (r, later)"
proof -
  define g where "g = specialRunGameId run"
  have g: "g \<noteq> []" using assms(2) by (simp add: g_def)
  obtain d base where res: "resolveSpecialRunReplay js now month run g st = (d, base)" by fastforce
  have d: "replay js run g st = d" using resolve_replay [OF g, of js now month run st] res by simp
  show ?thesis
  proof (cases d)
    case (Some x)
    then have "r = x" "st' = st" using assms(1,5) res by (simp_all add: recordSpecialRunResult_def Let_def flip: g_def)
    then show ?thesis using replayed [OF assms(1,2)] replay_cong [OF assms(8,9)] d Some by (simp add: g_def)
  next
    case None
    have "base = run \<or> base = loadSpecialRun js st \<and> field ''id'' (loadSpecialRun js st) = JStr i"
      using res g assms(3) by (auto simp: resolveSpecialRunReplay_def Let_def split: if_splits)
    then have base: "truthy (field ''active'' base)" "field ''id'' base = JStr i" using assms(1,3,4) by auto
    then obtain kvs where kvs: "base = JObj kvs" by (cases base) (simp_all add: field_def)
    obtain mkvs where m: "markSpecialRunGameProcessed base g = JObj mkvs" "field ''active'' (JObj mkvs) = field ''active'' base"
      "field ''id'' (JObj mkvs) = field ''id'' base"
    proof -
      obtain mkvs where "markSpecialRunGameProcessed base g = JObj mkvs"
        using g by (auto simp: markSpecialRunGameProcessed_def set_field_def with_fields_def kvs Let_def)
      moreover have "field k (markSpecialRunGameProcessed base g) = field k base" if "k \<noteq> ''processedGameIds''" for k
        using g that by (simp add: markSpecialRunGameProcessed_def set_field_def field_with_fields kvs Let_def del: field_JObj)
      ultimately show ?thesis using that [of mkvs] by simp
    qed
    have "run_settled js st (JObj mkvs) (r, st')"
    proof -
      have act: "truthy (field ''active'' (JObj mkvs))" using base(1) m(2) by simp
      let ?m = "markSpecialRunGameProcessed base g"
      have "recordSpecialRunResult js uid now month run outcome st = (if field ''mode'' ?m = JStr ''cup'' then cup_result js uid now month ?m outcome st
          else if outcome \<noteq> JStr ''win'' then lost_result js now month ?m outcome st else won_result js uid now month ?m st)"
        using assms(1) res None g by (simp add: recordSpecialRunResult_def Let_def flip: g_def)
      then have "(r, st') = (if field ''mode'' (JObj mkvs) = JStr ''cup'' then cup_result js uid now month (JObj mkvs) outcome st
          else if outcome \<noteq> JStr ''win'' then lost_result js now month (JObj mkvs) outcome st
          else won_result js uid now month (JObj mkvs) st)"
        unfolding m(1) assms(5) .
      then show ?thesis using cup_settled [OF act] lost_settled won_settled [OF act] by (simp split: if_splits)
    qed
    then obtain fs where fs: "r = with_fields fs (JObj mkvs)" "''id'' \<notin> fst ` set fs" "''processedGameIds'' \<notin> fst ` set fs"
      and left: "truthy (field ''active'' r) \<and> st' SPECIAL_RUN_KEY = Some (stringify js r) \<or>
        st' SPECIAL_RUN_KEY = None \<and> (\<exists>c more. st' CAREER_KEY = Some (stringify js c) \<and> field ''runHistory'' c = JArr (r # more))"
      unfolding run_settled_def by auto
    have r: "field ''id'' r = JStr i" "g \<in> set (specialRunProcessedGameIds r)"
      using field_outside [OF fs(2), of mkvs] field_outside [OF fs(3), of mkvs] fs(1) m base(2) marked_run_ids [OF g, of r kvs] kvs by simp_all
    from left have "replay js run g st' = Some r"
    proof (elim disjE conjE exE)
      assume "st' SPECIAL_RUN_KEY = Some (stringify js r)"
      then show ?thesis using stored_or_null_written [OF assms(6)] r assms(3) by (simp add: replay_def loadSpecialRun_def)
    next
      fix c more assume "st' SPECIAL_RUN_KEY = None" "st' CAREER_KEY = Some (stringify js c)" "field ''runHistory'' c = JArr (r # more)"
      moreover from this obtain more' where "archived_runs js st' = r # more'" using keeps_head_stored [OF assms(7,6)] by blast
      ultimately show ?thesis using r assms(3) by (simp add: replay_def loadSpecialRun_def nothing_stored)
    qed
    then show ?thesis using replayed [OF assms(1,2)] replay_cong [OF assms(8,9)] by (simp add: g_def)
  qed
qed

text \<open>The second game of a run of bosses is lost, and its result comes again as a win.\<close>

definition boss_run :: json where
  "boss_run = JObj [(''id'', JStr ''boss-1''), (''mode'', JStr ''boss''), (''active'', JBool True), (''completedStages'', JInt 1),
     (''wins'', JInt 1), (''processedGameIds'', JArr [JStr ''g1'']), (''currentGameId'', JStr ''g2'')]"

theorem run_result_once_witness:
  "\<exists>r st. recordSpecialRunResult coded_json (\<lambda>_. ''m'') ''2026-01-01'' ''2026-01'' boss_run (JStr ''loss'') Map.empty = (r, st) \<and>
     recordSpecialRunResult coded_json (\<lambda>_. ''n'') ''2026-02-01'' ''2026-02'' boss_run (JStr ''win'') (st(''other'' \<mapsto> ''text'')) =
       (r, st(''other'' \<mapsto> ''text''))"
proof -
  obtain r st where r: "recordSpecialRunResult coded_json (\<lambda>_. ''m'') ''2026-01-01'' ''2026-01'' boss_run (JStr ''loss'') Map.empty = (r, st)"
    by fastforce
  have run: "truthy (field ''active'' boss_run)" "specialRunGameId boss_run \<noteq> []" "field ''id'' boss_run = JStr ''boss-1''"
    "field ''id'' (loadSpecialRun coded_json Map.empty) = JStr ''boss-1'' \<longrightarrow> truthy (field ''active'' (loadSpecialRun coded_json Map.empty))"
    by (simp_all add: boss_run_def specialRunGameId_def trim_def is_blank_def loadSpecialRun_def nothing_stored)
  have "(st(''other'' \<mapsto> ''text'')) SPECIAL_RUN_KEY = st SPECIAL_RUN_KEY" "(st(''other'' \<mapsto> ''text'')) CAREER_KEY = st CAREER_KEY"
    by (simp_all add: SPECIAL_RUN_KEY_def CAREER_KEY_def)
  from run_result_once [OF run r survives_coded keeps_head_coded this] r show ?thesis by blast
qed

section \<open>A game that comes again\<close>

lemma field_set_field: "field k (set_field k v state) = v"
  by (cases state) (simp_all add: set_field_def field_with_fields field_with_fields_other del: field_JObj)

lemma trim_twice: "trim (trim s) = trim s"
proof -
  have no_blank: "dropWhile is_blank (dropWhile is_blank t) = dropWhile is_blank t" for t by (induction t) auto
  define a where "a = dropWhile is_blank s"
  define b where "b = rev (dropWhile is_blank (rev a))"
  have "dropWhile is_blank b = b"
  proof (cases b)
    case (Cons c cs)
    obtain zs where zs: "a = b @ zs"
      using takeWhile_dropWhile_id [of is_blank "rev a"] by (metis b_def rev_append rev_rev_ident)
    then have "a = c # (cs @ zs)" using Cons by simp
    then have "\<not> is_blank c" using hd_dropWhile [of is_blank s] by (simp flip: a_def)
    then show ?thesis using Cons by simp
  qed simp
  then show ?thesis by (simp add: trim_def no_blank flip: a_def b_def) (simp add: b_def no_blank)
qed

lemma career_game_key: "trim (careerGameKey record) = careerGameKey record"
  by (simp add: careerGameKey_def Let_def trim_twice) (simp add: trim_def)

lemma merged_first: "k \<noteq> [] \<Longrightarrow> trim k = k \<Longrightarrow> \<exists>ks. mergeProcessedGameIds current [JStr k] = k # ks"
proof -
  assume k: "k \<noteq> []" "trim k = k"
  have "\<exists>ks. merge_ids (k # found) vs = k # ks" for found vs by (induction vs arbitrary: found) (auto simp: Let_def)
  from this [of "[]"] show ?thesis using k by (simp add: mergeProcessedGameIds_def MAX_PROCESSED_GAME_IDS_def)
qed

lemma processed_of: "field ''processedGameIds'' (career_of now month v) =
    JArr (take MAX_PROCESSED_GAME_IDS (map (\<lambda>v. JStr (json_string v)) (elements (field ''processedGameIds'' v))))"
  by (simp add: career_of_def spread_over_def blank_def with_fields_def spread_fields_def split: json.split)

lemma load_processed: "field ''processedGameIds'' (loadCareer js now month st) =
    JArr (take MAX_PROCESSED_GAME_IDS (map (\<lambda>v. JStr (json_string v)) (elements (field ''processedGameIds'' (stored_or_null js CAREER_KEY st)))))"
  by (auto simp: loadCareer_def stored_or_null_def processed_of nothing_stored blank_def split: option.split)

text \<open>A game enters the career once: after a game with an id is recorded, recording it again, whenever and with
whatever else is known of it, writes nothing and gives the career as it is stored - as long as \<open>JSON\<close> gives back the
career that was written.\<close>

theorem career_counts_once:
  assumes "careerGameKey record \<noteq> []" "recordCareerGame js uid now month record meta st = (c, st')"
    and "survives js c" "careerGameKey record' = careerGameKey record"
  shows "recordCareerGame js uid' now' month' record' meta' st' = (loadCareer js now' month' st', st')"
proof (cases "JStr (careerGameKey record) \<in> set (elements (field ''processedGameIds'' (loadCareer js now month st)))")
  case True
  then have "st' = st" using assms(1,2) by (simp add: recordCareerGame_def Let_def)
  moreover have "JStr (careerGameKey record) \<in> set (elements (field ''processedGameIds'' (loadCareer js now' month' st)))"
    using True load_processed [of js now month st] load_processed [of js now' month' st] by simp
  ultimately show ?thesis using assms(1,4) by (simp add: recordCareerGame_def Let_def)
next
  case False
  have "\<exists>counted. c = set_field ''processedGameIds'' (JArr (map JStr (mergeProcessedGameIds (elements (field ''processedGameIds'' counted))
      [JStr (careerGameKey record)]))) counted \<and> st' = saveCareer js c st"
    using assms(1,2) False by (simp add: recordCareerGame_def Let_def) blast
  then obtain counted where counted: "c = set_field ''processedGameIds'' (JArr (map JStr (mergeProcessedGameIds
      (elements (field ''processedGameIds'' counted)) [JStr (careerGameKey record)]))) counted" "st' = saveCareer js c st" by blast
  obtain ks where "mergeProcessedGameIds (elements (field ''processedGameIds'' counted)) [JStr (careerGameKey record)] = careerGameKey record # ks"
    using merged_first [OF assms(1) career_game_key] by blast
  then have c: "field ''processedGameIds'' c = JArr (map JStr (careerGameKey record # ks))" "st' = saveCareer js c st"
    using counted field_set_field by simp_all
  have "loadCareer js now' month' st' = career_of now' month' c"
    using assms(3) c(2) by (auto simp: loadCareer_def saveCareer_def survives_def)
  then have "JStr (careerGameKey record) \<in> set (elements (field ''processedGameIds'' (loadCareer js now' month' st')))"
    using c(1) by (simp add: processed_of MAX_PROCESSED_GAME_IDS_def)
  then show ?thesis using assms(1,4) by (simp add: recordCareerGame_def Let_def)
qed

theorem career_counts_once_witness:
  "\<exists>c st. recordCareerGame coded_json (\<lambda>_. ''m'') ''d1'' ''2026-01'' (JObj [(''id'', JStr ''g7''), (''outcome'', JStr ''win'')]) JNull Map.empty = (c, st) \<and>
     recordCareerGame coded_json (\<lambda>_. ''n'') ''d2'' ''2026-02'' (JObj [(''id'', JStr ''g7'')]) JNull st = (loadCareer coded_json ''d2'' ''2026-02'' st, st)"
proof -
  let ?g = "JObj [(''id'', JStr ''g7''), (''outcome'', JStr ''win'')]"
  obtain c st where c: "recordCareerGame coded_json (\<lambda>_. ''m'') ''d1'' ''2026-01'' ?g JNull Map.empty = (c, st)" by fastforce
  have "careerGameKey ?g \<noteq> []" "careerGameKey (JObj [(''id'', JStr ''g7'')]) = careerGameKey ?g"
    by (simp_all add: careerGameKey_def trim_def is_blank_def)
  from career_counts_once [OF this(1) c survives_coded this(2)] c show ?thesis by blast
qed

end
