(* ===== verification/TrainingDebt.thy ===== *)
theory TrainingDebt
  imports GameActivity PuzzleQuality SpacedReview
begin

text \<open>
  What the mistakes of the player leave to train: the debts of \<open>trainingDebt.js\<close>, the gates a generated puzzle must
  prove it passed (\<open>personalPuzzleQuality.js\<close>, \<open>factualBestMoveConstraint.js\<close>) and the reading of a puzzle's line
  (\<open>puzzleMoveValidation.js\<close>).

  Puzzles are stored objects of any shape; \<open>dp\<close> is \<open>Date.parse\<close>, \<open>collate\<close> is \<open>localeCompare\<close>. A \<open>Map\<close> whose keys are
  such values is a list of pairs in the order of insertion; an object is never equal to another. A key that names a
  property every object inherits (\<open>toString\<close>) is read as a plain key.
\<close>

section \<open>Maps of values\<close>

fun js_update :: "json \<Rightarrow> ('a option \<Rightarrow> 'a) \<Rightarrow> (json \<times> 'a) list \<Rightarrow> (json \<times> 'a) list" where
  "js_update k f [] = [(k, f None)]"
| "js_update k f ((a, v) # m) = (if strict_eq a k then (a, f (Some v)) # m else (a, v) # js_update k f m)"

section \<open>Debts\<close>

definition INCIDENT_LABELS :: "(string \<times> string) list" where
  "INCIDENT_LABELS =
     [(''human:MISSED_MATE'', ''Mates en una ignorados''), (''human:ALLOWED_MATE'', ''Mates permitidos''),
      (''human:QUEEN_EN_PRISE_TO_PAWN'', ''Damas expuestas a peones''), (''human:STALEMATE_BLUNDER'', ''Ahogados criminales''),
      (''cpu:PAWN_TAKES_QUEEN'', ''Damas devoradas por peones''), (''cpu:KNIGHT_FORK'', ''Horquillas de caballo sufridas''),
      (''cpu:PAWN_FORK'', (''Horquillas de pe'' @ [CHR 0xF3] @ ''n sufridas''))]"

definition debtLabel :: "json \<Rightarrow> string" where
  "debtLabel key =
     (case map_of INCIDENT_LABELS (json_string key) of
        Some label \<Rightarrow> label
      | None \<Rightarrow>
          let s = json_string (or_else_json key (JStr []));
              t = (if starts ''human:'' s then drop 6 s else if starts ''cpu:'' s then drop 4 s else s)
          in to_lower (map (\<lambda>c. if c = CHR ''_'' then CHR '' '' else c) t))"

definition autopsy_case :: "json \<Rightarrow> bool" where
  "autopsy_case puzzle \<longleftrightarrow>
     truthy (field ''id'' puzzle) \<and> field ''source'' puzzle = JStr ''autopsy'' \<and> elements (field ''incidentKeys'' puzzle) \<noteq> []"

definition realAutopsyCases :: "json \<Rightarrow> json list" where
  "realAutopsyCases puzzles = filter autopsy_case (elements puzzles)"

definition created :: "date_parse \<Rightarrow> json \<Rightarrow> int option" where
  "created dp puzzle = timestamp dp (field ''createdAt'' puzzle)"

text \<open>The newest first, those without a date last; equal ones in the order they stand.\<close>

definition no_newer :: "date_parse \<Rightarrow> json \<Rightarrow> json \<Rightarrow> bool" where
  "no_newer dp a b =
     (case (created dp a, created dp b) of (Some x, Some y) \<Rightarrow> y \<le> x | (None, Some _) \<Rightarrow> False | _ \<Rightarrow> True)"

definition recentCases :: "date_parse \<Rightarrow> json list \<Rightarrow> nat \<Rightarrow> json list" where
  "recentCases dp cases target = take target (sort_stable (no_newer dp) cases)"

definition group_case :: "json \<Rightarrow> (json \<times> json list) list \<Rightarrow> (json \<times> json list) list" where
  "group_case puzzle groups =
     fold (\<lambda>key m. if truthy key then js_update key (\<lambda>cases. (case cases of None \<Rightarrow> [] | Some cs \<Rightarrow> cs) @ [puzzle]) m else m)
       (js_uniq [] (elements (field ''incidentKeys'' puzzle))) groups"

definition unique_cases :: "json list \<Rightarrow> json list" where
  "unique_cases cases = map snd (fold (\<lambda>puzzle m. js_update (field ''id'' puzzle) (\<lambda>_. puzzle) m) cases [])"

record debt =
  de_id :: string
  de_incidentKey :: json
  de_label :: string
  de_cases :: nat
  de_distinctGames :: nat
  de_cleanCases :: nat
  de_historicalCleanCases :: nat
  de_progress :: nat
  de_target :: nat
  de_paid :: bool
  de_active :: bool
  de_recentPuzzleIds :: "json list"
  de_puzzleIds :: "json list"

definition debt_of :: "date_parse \<Rightarrow> json \<times> json list \<Rightarrow> debt option" where
  "debt_of dp entry =
     (case entry of (key, cases) \<Rightarrow>
        let uniqueCases = unique_cases cases in
        if length uniqueCases < 2 then None
        else let target = 2; evidenceCases = recentCases dp uniqueCases target;
                 progress = length (filter (isPersonalPuzzleCurrentlyClean dp) evidenceCases); paid = (target \<le> progress)
             in Some \<lparr>de_id = ''incident:'' @ json_string key, de_incidentKey = key, de_label = debtLabel key, de_cases = length uniqueCases,
                  de_distinctGames = length (js_uniq [] (map (\<lambda>p. or_else_json (field ''sourceGameId'' p) (field ''id'' p)) uniqueCases)),
                  de_cleanCases = progress,
                  de_historicalCleanCases = length (filter (isPersonalPuzzleCurrentlyClean dp) uniqueCases),
                  de_progress = progress, de_target = target, de_paid = paid, de_active = (\<not> paid),
                  de_recentPuzzleIds = map (field ''id'') evidenceCases, de_puzzleIds = map (field ''id'') uniqueCases\<rparr>)"

definition debt_before :: "(string \<Rightarrow> string \<Rightarrow> int) \<Rightarrow> debt \<Rightarrow> debt \<Rightarrow> bool" where
  "debt_before collate a b =
     (if de_paid a \<noteq> de_paid b then \<not> de_paid a
      else if de_cases a \<noteq> de_cases b then de_cases b < de_cases a else collate (de_label a) (de_label b) \<le> 0)"

definition personalTrainingDebts :: "date_parse \<Rightarrow> (string \<Rightarrow> string \<Rightarrow> int) \<Rightarrow> json \<Rightarrow> debt list" where
  "personalTrainingDebts dp collate puzzles =
     sort_stable (debt_before collate) (List.map_filter (debt_of dp) (fold group_case (realAutopsyCases puzzles) []))"

record debt_summary =
  ds_debts :: "debt list"
  ds_active :: "debt list"
  ds_paid :: "debt list"
  ds_activeCount :: nat
  ds_paidCount :: nat
  ds_top :: "debt option"

definition personalTrainingDebtSummary :: "date_parse \<Rightarrow> (string \<Rightarrow> string \<Rightarrow> int) \<Rightarrow> json \<Rightarrow> debt_summary" where
  "personalTrainingDebtSummary dp collate puzzles =
     (let debts = personalTrainingDebts dp collate puzzles; active = filter de_active debts
      in \<lparr>ds_debts = debts, ds_active = active, ds_paid = filter de_paid debts, ds_activeCount = length active,
          ds_paidCount = length debts - length active, ds_top = (case active of [] \<Rightarrow> None | d # _ \<Rightarrow> Some d)\<rparr>)"

section \<open>The gates of a generated puzzle\<close>

definition finiteOrNull :: "json \<Rightarrow> rat option" where
  "finiteOrNull v =
     (if v = JNull \<or> v = JUndef \<or> v = JStr [] then None else case json_number v of Fin q \<Rightarrow> Some q | _ \<Rightarrow> None)"

datatype move_constraint = OnlyLegal | ClearBest rat int

definition bestMoveConstraintFor :: "json \<Rightarrow> json \<Rightarrow> json \<Rightarrow> json \<Rightarrow> move_constraint option" where
  "bestMoveConstraintFor candidateCount analysisDepth secondBest bestToSecondGap =
     (let count = finiteOrNull candidateCount; depth = finiteOrNull analysisDepth; gap = finiteOrNull bestToSecondGap in
      if count = Some 1 then Some OnlyLegal
      else case (count, depth, gap) of
             (Some c, Some d, Some g) \<Rightarrow>
               if c < 2 \<or> d < 2 \<or> \<not> truthy secondBest \<or> g < 100 then None else Some (ClearBest c (js_round g))
           | _ \<Rightarrow> None)"

definition is_square :: "string \<Rightarrow> bool" where
  "is_square s = (case s of [c, d] \<Rightarrow> c \<in> set ''abcdefgh'' \<and> d \<in> set ''12345678'' | _ \<Rightarrow> False)"

definition hasEngineMoveShape :: "json \<Rightarrow> bool" where
  "hasEngineMoveShape move \<longleftrightarrow>
     is_square (json_string (or_else_json (field ''from'' move) (JStr []))) \<and> is_square (json_string (or_else_json (field ''to'' move) (JStr [])))"

definition sameEngineMove :: "json \<Rightarrow> json \<Rightarrow> bool" where
  "sameEngineMove left right \<longleftrightarrow>
     hasEngineMoveShape left \<and> hasEngineMoveShape right \<and> strict_eq (field ''from'' left) (field ''from'' right) \<and>
     strict_eq (field ''to'' left) (field ''to'' right) \<and>
     strict_eq (or_else_json (field ''promotion'' left) JNull) (or_else_json (field ''promotion'' right) JNull)"

definition nullish_value :: "json \<Rightarrow> bool" where "nullish_value v \<longleftrightarrow> v = JUndef \<or> v = JNull"

definition hasProvenPrincipalVariation :: "json \<Rightarrow> bool" where
  "hasProvenPrincipalVariation puzzle =
     (let pv = elements (field ''enginePrincipalVariation'' puzzle); defense = field ''engineBestDefense'' puzzle in
      if field ''enginePrincipalVariationChecked'' puzzle \<noteq> JBool True then False
      else if pv = [] \<or> \<not> list_all hasEngineMoveShape pv then False
      else if field ''engineTerminalAfterSolution'' puzzle = JBool True then length pv = 1 \<and> nullish_value defense
      else 2 \<le> length pv \<and> hasEngineMoveShape defense \<and> sameEngineMove (pv ! 1) defense)"

definition is_integer :: "jsnum \<Rightarrow> bool" where
  "is_integer n = (case n of Fin q \<Rightarrow> of_int \<lfloor>q\<rfloor> = q | _ \<Rightarrow> False)"

definition provesCurrentPersonalPuzzleQuality :: "json \<Rightarrow> bool" where
  "provesCurrentPersonalPuzzleQuality puzzle =
     (if field ''source'' puzzle \<noteq> JStr ''workers-ai-validated'' then True
      else let candidateCount = json_number (field ''engineCandidateCount'' puzzle);
               analysisDepth = json_number (field ''engineAnalysisDepth'' puzzle);
               rawGap = field ''engineBestToSecondGap'' puzzle;
               gap = (if nullish_value rawGap then JNull else JNum (json_number rawGap));
               bestMove = bestMoveConstraintFor (JNum candidateCount) (JNum analysisDepth)
                            (or_else_json (field ''engineSecondBest'' puzzle) JNull) gap
           in json_number (field ''aiQualityVersion'' puzzle) = Fin 9 \<and> field ''tacticalBestMoveChecked'' puzzle = JBool True \<and>
              field ''tacticalRefutationChecked'' puzzle = JBool True \<and>
              field ''tacticalBestDefenseChecked'' puzzle = JBool True \<and> hasProvenPrincipalVariation puzzle \<and>
              num_le (Fin 92) (json_number (field ''aiValidatedLevel'' puzzle)) \<and>
              is_integer analysisDepth \<and> num_le (Fin 2) analysisDepth \<and> is_integer candidateCount \<and> num_le (Fin 1) candidateCount \<and>
              bestMove \<noteq> None)"

section \<open>The line of a puzzle\<close>

definition strip_end :: "string \<Rightarrow> string \<Rightarrow> string" where
  "strip_end chars s = rev (dropWhile (\<lambda>c. c \<in> set chars) (rev s))"

definition normalizeSan :: "json \<Rightarrow> string" where
  "normalizeSan san = strip_end ''!?'' (strip_end ''+#'' (trim (json_string (or_else_json san (JStr [])))))"

text \<open>The move played is a chess.js move or any object a screen hands in; a FEN or SAN that chess.js refuses is \<open>None\<close>.\<close>

definition matchesExpectedPuzzleMove :: "'c board_api \<Rightarrow> json \<Rightarrow> json \<Rightarrow> json \<Rightarrow> bool" where
  "matchesExpectedPuzzleMove api fen expectedSan actualMove =
     (if \<not> truthy fen \<or> \<not> truthy expectedSan \<or> \<not> truthy (field ''from'' actualMove) \<or> \<not> truthy (field ''to'' actualMove) then False
      else if normalizeSan expectedSan = normalizeSan (field ''san'' actualMove) then True
      else case Option.bind (bd_load api fen) (bd_play api expectedSan) of
             None \<Rightarrow> False
           | Some (expected, _) \<Rightarrow>
               field ''from'' actualMove = JStr (ap_from expected) \<and> field ''to'' actualMove = JStr (ap_to expected) \<and>
               strict_eq (or_else_json (field ''promotion'' actualMove) JNull)
                 (case ap_promotion expected of None \<Rightarrow> JNull | Some t \<Rightarrow> JStr [type_char t]))"

definition applyPuzzleSolutionMove :: "'c board_api \<Rightarrow> json \<Rightarrow> json \<Rightarrow> (string \<times> applied) option" where
  "applyPuzzleSolutionMove api fen expectedSan =
     (if \<not> truthy fen \<or> \<not> truthy expectedSan then None
      else Option.bind (bd_load api fen) (\<lambda>board.
             map_option (\<lambda>(move, played). (ch_fen api played, move)) (bd_play api expectedSan board)))"

end
