(* ===== verification/TrainingDebtProps.thy ===== *)
theory TrainingDebtProps
  imports TrainingDebt
begin

text \<open>
  What a training debt is: two different mistakes of the same kind, paid when the two newest are clean. The grouping
  through two \<open>Map\<close>s is reduced to the list of the cases of one key (\<open>entry_groups\<close>).
\<close>

section \<open>One key of a map\<close>

definition entry_of :: "string \<Rightarrow> (json \<times> 'a) list \<Rightarrow> (json \<times> 'a) list" where
  "entry_of k = filter (\<lambda>e. fst e = JStr k)"

definition refreshed :: "string \<Rightarrow> ('a option \<Rightarrow> 'a) \<Rightarrow> (json \<times> 'a) list \<Rightarrow> (json \<times> 'a) list" where
  "refreshed k f es = (case es of [] \<Rightarrow> [(JStr k, f None)] | (a, v) # r \<Rightarrow> (a, f (Some v)) # r)"

lemma entry_update: "entry_of k (js_update (JStr k) f m) = refreshed k f (entry_of k m)"
  by (induction m) (auto simp: entry_of_def refreshed_def)

lemma entry_update_other: "x \<noteq> JStr k \<Longrightarrow> entry_of k (js_update x f m) = entry_of k m"
  by (induction m) (auto simp: entry_of_def strict_eq_def)

lemma uniq_once:
  "filter (\<lambda>x. x = JStr k) (js_uniq seen xs) = (if JStr k \<in> set xs \<and> JStr k \<notin> set seen then [JStr k] else [])"
proof (induction xs arbitrary: seen)
  case (Cons x xs)
  show ?case by (cases "x = JStr k") (auto simp: Cons js_includes_def list_ex_iff)
qed simp

lemma truthy_string: "truthy (JStr s) \<longleftrightarrow> s \<noteq> []"
  by (simp add: truthy_def)

abbreviation keys_into :: "('a option \<Rightarrow> 'a) \<Rightarrow> json list \<Rightarrow> (json \<times> 'a) list \<Rightarrow> (json \<times> 'a) list" where
  "keys_into f \<equiv> fold (\<lambda>x m. if truthy x then js_update x f m else m)"

lemma entry_fold_empty: "entry_of [] (keys_into f xs m) = entry_of [] m"
proof (induction xs arbitrary: m)
  case (Cons x xs)
  have "truthy x \<Longrightarrow> x \<noteq> JStr []" by (auto simp: truthy_string)
  then show ?case by (simp add: Cons entry_update_other)
qed simp

lemma entry_fold:
  "k \<noteq> [] \<Longrightarrow> entry_of k (keys_into f xs m) = fold (\<lambda>_. refreshed k f) (filter (\<lambda>x. x = JStr k) xs) (entry_of k m)"
proof (induction xs arbitrary: m)
  case (Cons x xs)
  then show ?case by (cases "x = JStr k") (simp_all add: entry_update entry_update_other truthy_string)
qed simp

abbreviation names :: "string \<Rightarrow> json \<Rightarrow> bool" where
  "names k puzzle \<equiv> JStr k \<in> set (elements (field ''incidentKeys'' puzzle))"

abbreviation append_case :: "json \<Rightarrow> json list option \<Rightarrow> json list" where
  "append_case puzzle cases \<equiv> (case cases of None \<Rightarrow> [] | Some cs \<Rightarrow> cs) @ [puzzle]"

lemma entry_group:
  "entry_of k (group_case puzzle m) =
     (if k \<noteq> [] \<and> names k puzzle then refreshed k (append_case puzzle) (entry_of k m) else entry_of k m)"
  by (cases "k = []") (simp_all add: group_case_def entry_fold entry_fold_empty uniq_once)

definition entry_list :: "string \<Rightarrow> json list \<Rightarrow> (json \<times> json list) list" where
  "entry_list k cs = (if cs = [] then [] else [(JStr k, cs)])"

lemma entry_groups_from:
  assumes "k \<noteq> []"
  shows "entry_of k m = entry_list k cs \<Longrightarrow> entry_of k (fold group_case ps m) = entry_list k (cs @ filter (names k) ps)"
proof (induction ps arbitrary: m cs)
  case (Cons p ps)
  have "entry_of k (group_case p m) = entry_list k (if names k p then cs @ [p] else cs)"
    using Cons.prems assms by (simp add: entry_group entry_list_def refreshed_def)
  from Cons.IH [OF this] show ?case by simp
qed simp

lemma entry_groups_none: "entry_of [] (fold group_case ps m) = entry_of [] m"
  by (induction ps arbitrary: m) (simp_all add: entry_group)

text \<open>The cases of a key, in their order, are all the cases that name it.\<close>

lemma entry_groups:
  "entry_of k (fold group_case ps []) = (if k = [] then [] else entry_list k (filter (names k) ps))"
  using entry_groups_from [of k "[]" "[]" ps] by (simp add: entry_groups_none) (simp add: entry_of_def entry_list_def)

section \<open>Different cases\<close>

lemma fst_update: "fst ` set (js_update (JStr k) f m) = insert (JStr k) (fst ` set m)"
proof (induction m)
  case (Cons e m)
  then show ?case by (cases e) (simp add: insert_commute)
qed simp

lemma distinct_update: "distinct (map fst m) \<Longrightarrow> distinct (map fst (js_update (JStr k) f m))"
proof (induction m)
  case (Cons e m)
  then show ?case using fst_update [of k f m] by (cases e) auto
qed simp

lemma set_update_const: "set (js_update x (\<lambda>_. v) m) \<subseteq> insert (x, v) (set m)"
proof (induction m)
  case (Cons e m)
  then show ?case by (cases e) (cases "strict_eq (fst e) x", auto simp: strict_eq_def)
qed simp

definition case_id :: "json \<Rightarrow> json" where "case_id = field ''id''"

abbreviation by_id :: "json list \<Rightarrow> (json \<times> json) list \<Rightarrow> (json \<times> json) list" where
  "by_id cs m \<equiv> fold (\<lambda>puzzle. js_update (case_id puzzle) (\<lambda>_. puzzle)) cs m"

lemma by_id_sound:
  assumes "\<forall>p\<in>set cs. \<exists>s. case_id p = JStr s" "distinct (map fst m)"
  shows "distinct (map fst (by_id cs m)) \<and> fst ` set (by_id cs m) = fst ` set m \<union> case_id ` set cs \<and>
         set (by_id cs m) \<subseteq> set m \<union> (\<lambda>p. (case_id p, p)) ` set cs"
  using assms
proof (induction cs arbitrary: m)
  case (Cons p cs)
  then obtain s where s: "case_id p = JStr s" by auto
  let ?m = "js_update (JStr s) (\<lambda>_. p) m"
  have d: "distinct (map fst ?m)" using Cons.prems(2) by (rule distinct_update)
  note u = fst_update [of s "\<lambda>_. p" m] set_update_const [of "JStr s" p m]
  from Cons.prems(1) have "\<forall>p\<in>set cs. \<exists>s. case_id p = JStr s" by simp
  from Cons.IH [OF this d]
  have i: "distinct (map fst (by_id cs ?m))" "fst ` set (by_id cs ?m) = fst ` set ?m \<union> case_id ` set cs"
    "set (by_id cs ?m) \<subseteq> set ?m \<union> (\<lambda>p. (case_id p, p)) ` set cs" by blast+
  from i(2) have "fst ` set (by_id cs ?m) = fst ` set m \<union> case_id ` set (p # cs)" unfolding u(1) by (auto simp: s)
  moreover have "set (by_id cs ?m) \<subseteq> set m \<union> (\<lambda>p. (case_id p, p)) ` set (p # cs)" using i(3) u(2) by (auto simp: s)
  ultimately show ?case using i(1) by (simp add: s)
qed simp

lemma unique_cases_sound:
  assumes "\<forall>p\<in>set cs. \<exists>s. case_id p = JStr s"
  shows "distinct (map case_id (unique_cases cs)) \<and> case_id ` set (unique_cases cs) = case_id ` set cs \<and>
         set (unique_cases cs) \<subseteq> set cs"
proof -
  let ?m = "by_id cs []"
  have m: "distinct (map fst ?m)" "fst ` set ?m = case_id ` set cs" "set ?m \<subseteq> (\<lambda>p. (case_id p, p)) ` set cs"
    using by_id_sound [OF assms, of "[]"] by auto
  have u: "unique_cases cs = map snd ?m" by (simp add: unique_cases_def case_id_def)
  have e: "map case_id (map snd ?m) = map fst ?m" unfolding map_map using m(3) by (intro map_cong) auto
  then have "case_id ` set (map snd ?m) = fst ` set ?m" by (metis list.set_map)
  then show ?thesis unfolding u e using m by auto
qed

lemma length_unique_cases:
  assumes "\<forall>p\<in>set cs. \<exists>s. case_id p = JStr s"
  shows "length (unique_cases cs) = card (case_id ` set cs)"
  using unique_cases_sound [OF assms] distinct_card [of "map case_id (unique_cases cs)"] by simp

section \<open>The newest cases\<close>

lemma no_newer_total: "no_newer dp a b \<or> no_newer dp b a"
  by (auto simp: no_newer_def split: option.split)

lemma no_newer_trans: "no_newer dp a b \<Longrightarrow> no_newer dp b c \<Longrightarrow> no_newer dp a c"
  by (auto simp: no_newer_def split: option.splits)

lemma two_newest:
  assumes "2 \<le> length us" "distinct us"
  shows "\<exists>x y. recentCases dp us 2 = [x, y] \<and> x \<in> set us \<and> y \<in> set us \<and> x \<noteq> y \<and> no_newer dp x y \<and>
           (\<forall>p\<in>set us. p \<noteq> x \<longrightarrow> p \<noteq> y \<longrightarrow> no_newer dp y p)"
proof -
  let ?s = "sort_stable (no_newer dp) us"
  have so: "sorted_wrt (no_newer dp) ?s" by (rule sorted_sort_stable [OF no_newer_total no_newer_trans])
  have "2 \<le> length ?s" using assms by simp
  then obtain x y r where s: "?s = x # y # r" by (cases ?s; cases "tl ?s") auto
  have "set us = set (x # y # r)" "distinct (x # y # r)" using s assms set_sort_stable distinct_sort_stable by metis+
  with so s show ?thesis by (auto simp: recentCases_def)
qed

section \<open>The debts\<close>

lemma debt_of_key: "debt_of dp e = Some d \<Longrightarrow> de_incidentKey d = fst e"
  by (cases e) (auto simp: debt_of_def Let_def split: if_splits)

lemma debts_of_key:
  "d \<in> set (List.map_filter (debt_of dp) m) \<and> de_incidentKey d = JStr k \<longleftrightarrow> d \<in> set (List.map_filter (debt_of dp) (entry_of k m))"
  by (induction m) (auto simp: entry_of_def List.map_filter_simps debt_of_key split: option.splits)

definition mistakes :: "string \<Rightarrow> json \<Rightarrow> json list" where
  "mistakes k puzzles = filter (names k) (realAutopsyCases puzzles)"

lemma debt_iff:
  "d \<in> set (personalTrainingDebts dp collate puzzles) \<and> de_incidentKey d = JStr k \<longleftrightarrow>
     k \<noteq> [] \<and> debt_of dp (JStr k, mistakes k puzzles) = Some d"
proof -
  have "debt_of dp (JStr k, []) = None" by (simp add: debt_of_def unique_cases_def)
  then show ?thesis
    by (cases "mistakes k puzzles = []")
      (simp_all add: personalTrainingDebts_def debts_of_key entry_groups entry_list_def List.map_filter_simps
         flip: mistakes_def split: option.splits, auto)
qed

text \<open>What a debt of the key \<open>k\<close> says, given its cases.\<close>

definition owed :: "date_parse \<Rightarrow> json list \<Rightarrow> debt \<Rightarrow> bool" where
  "owed dp cs d \<longleftrightarrow>
     de_cases d = card (case_id ` set cs) \<and> distinct (de_puzzleIds d) \<and> set (de_puzzleIds d) = case_id ` set cs \<and>
     de_active d = (\<not> de_paid d) \<and>
     (\<exists>x y. {x, y} \<subseteq> set (unique_cases cs) \<and> x \<noteq> y \<and> de_recentPuzzleIds d = [case_id x, case_id y] \<and> no_newer dp x y \<and>
        (\<forall>p\<in>set (unique_cases cs). p \<noteq> x \<longrightarrow> p \<noteq> y \<longrightarrow> no_newer dp y p) \<and>
        (de_paid d \<longleftrightarrow> isPersonalPuzzleCurrentlyClean dp x \<and> isPersonalPuzzleCurrentlyClean dp y))"

lemma debt_of_owed:
  assumes "\<forall>p\<in>set cs. \<exists>s. case_id p = JStr s"
  shows "(\<exists>d. debt_of dp (key, cs) = Some d) \<longleftrightarrow> 2 \<le> card (case_id ` set cs)"
    and "debt_of dp (key, cs) = Some d \<Longrightarrow> owed dp cs d"
proof -
  note u = unique_cases_sound [OF assms] length_unique_cases [OF assms]
  show "(\<exists>d. debt_of dp (key, cs) = Some d) \<longleftrightarrow> 2 \<le> card (case_id ` set cs)"
    by (auto simp: debt_of_def Let_def u(2) not_less)
  assume d: "debt_of dp (key, cs) = Some d"
  then have l: "2 \<le> length (unique_cases cs)" by (simp add: debt_of_def Let_def split: if_splits)
  moreover have "distinct (unique_cases cs)" using u(1) by (simp add: distinct_map)
  ultimately obtain x y where xy: "recentCases dp (unique_cases cs) 2 = [x, y]" "x \<in> set (unique_cases cs)"
    "y \<in> set (unique_cases cs)" "x \<noteq> y" "no_newer dp x y" "\<forall>p\<in>set (unique_cases cs). p \<noteq> x \<longrightarrow> p \<noteq> y \<longrightarrow> no_newer dp y p"
    using two_newest by blast
  have f: "de_cases d = card (case_id ` set cs)" "de_puzzleIds d = map case_id (unique_cases cs)" "de_active d = (\<not> de_paid d)"
    "de_recentPuzzleIds d = [case_id x, case_id y]"
    "de_paid d \<longleftrightarrow> 2 \<le> length (filter (isPersonalPuzzleCurrentlyClean dp) [x, y])"
    using d l xy(1) by (auto simp: debt_of_def Let_def u(2) case_id_def split: if_splits)
  show "owed dp cs d"
    unfolding owed_def using u(1) xy(2-) by (intro conjI exI [of _ x] exI [of _ y]) (simp_all add: f)
qed

text \<open>C21: a kind of mistake is a debt exactly when two different stored mistakes name it. The debt counts every different
  mistake once, shows the two newest as its evidence (no other mistake of the kind is newer than them), and it is paid
  exactly when both are clean now.\<close>

theorem debts_exact:
  assumes "\<forall>p\<in>set (realAutopsyCases puzzles). \<exists>s. field ''id'' p = JStr s"
  shows "((\<exists>d\<in>set (personalTrainingDebts dp collate puzzles). de_incidentKey d = JStr k) \<longleftrightarrow>
            k \<noteq> [] \<and> 2 \<le> card (case_id ` set (mistakes k puzzles))) \<and>
         (\<forall>d\<in>set (personalTrainingDebts dp collate puzzles). de_incidentKey d = JStr k \<longrightarrow> owed dp (mistakes k puzzles) d)"
proof -
  have "\<forall>p\<in>set (mistakes k puzzles). \<exists>s. case_id p = JStr s" using assms by (auto simp: mistakes_def case_id_def)
  note o = debt_of_owed [OF this, where dp = dp and key = "JStr k"]
  show ?thesis using o debt_iff [of _ dp collate puzzles k] by blast
qed

definition sample_case :: "string \<Rightarrow> string list \<Rightarrow> int \<Rightarrow> json" where
  "sample_case i keys solves =
     JObj [(''id'', JStr i), (''source'', JStr ''autopsy''), (''incidentKeys'', JArr (map JStr keys)), (''cleanSolves'', JNum (Fin (of_int solves)))]"

theorem debts_exact_witness:
  "let puzzles = JArr [sample_case ''a'' [''fork'', ''pin''] 1, sample_case ''b'' [''pin''] 0] in
   (\<exists>d\<in>set (personalTrainingDebts (\<lambda>_. None) (\<lambda>_ _. 0) puzzles). de_incidentKey d = JStr ''pin'') \<and>
   \<not> (\<exists>d\<in>set (personalTrainingDebts (\<lambda>_. None) (\<lambda>_ _. 0) puzzles). de_incidentKey d = JStr ''fork'')"
proof -
  let ?p = "JArr [sample_case ''a'' [''fork'', ''pin''] 1, sample_case ''b'' [''pin''] 0]"
  have h: "\<forall>p\<in>set (realAutopsyCases ?p). \<exists>s. field ''id'' p = JStr s"
    by (simp add: realAutopsyCases_def autopsy_case_def sample_case_def field_def truthy_def)
  have "card (case_id ` set (mistakes ''pin'' ?p)) = 2" "card (case_id ` set (mistakes ''fork'' ?p)) = 1"
    by (simp_all add: mistakes_def realAutopsyCases_def autopsy_case_def sample_case_def field_def truthy_def case_id_def)
  then show ?thesis
    using debts_exact [OF h, of "\<lambda>_. None" "\<lambda>_ _. 0" "''pin''"] debts_exact [OF h, of "\<lambda>_. None" "\<lambda>_ _. 0" "''fork''"]
    by (simp add: Let_def)
qed

end
