(* ===== verification/CpuTurn.thy ===== *)
theory CpuTurn
  imports CombatDecision RunContent JsArith
begin

text \<open>
  The machine's turn in Combat (\<open>combatControllerSupport.js\<close>): whether a suggested move may be played, the facts added
  to the candidates of the server, the choice among them, and the local fallback that keeps a battle going when the
  server fails.

  A suggestion is a \<open>json\<close> value of any shape; chess.js is \<open>chess_api\<close>, whose move list for a square throws when the
  square is not a text. Scores are binary64. The registry holds every piece with its square. The line of the combat
  log and the photo of the session, which only put values together for display and storage, are left out.
\<close>

definition resolveHumanColor :: "json \<Rightarrow> rat \<Rightarrow> color" where
  "resolveHumanColor choice random =
     (if choice = JStr ''w'' then White else if choice = JStr ''b'' then Black else if random < 1 / 2 then White else Black)"

definition emptyUnitBattleStats :: json where
  "emptyUnitBattleStats =
     JObj [(''killsByIdentity'', JObj []), (''bossDamageByIdentity'', JObj []), (''bossFinisherIdentityId'', JNull),
       (''underdogCredits'', JInt 0), (''tacticalCredits'', JInt 0)]"

definition incrementIdentityCounter :: "json \<Rightarrow> json \<Rightarrow> json \<Rightarrow> json" where
  "incrementIdentityCounter bucket identityId amount =
     (if \<not> truthy identityId \<or> \<not> is_finite (json_number amount) \<or> num_le (json_number amount) (Fin 0) then bucket
      else let key = json_string identityId
           in with_fields [(key, js_plus (or_else_json (field key bucket) (JInt 0)) (JNum (json_number amount)))]
                (JObj (spread_fields bucket)))"

section \<open>Legal suggestions\<close>

text \<open>\<open>promotion == null ? null : String(promotion).toLowerCase()\<close>.\<close>

definition asked_promotion :: "json \<Rightarrow> string option" where
  "asked_promotion suggestion =
     (case field ''promotion'' suggestion of JUndef \<Rightarrow> None | JNull \<Rightarrow> None | v \<Rightarrow> Some (to_lower (json_string v)))"

definition fits :: "json \<Rightarrow> string option \<Rightarrow> applied \<Rightarrow> bool" where
  "fits suggestion promotion move \<longleftrightarrow>
     JStr (ap_to move) = field ''to'' suggestion \<and>
     (case ap_promotion move of
        None \<Rightarrow> promotion = None
      | Some t \<Rightarrow> (case promotion of None \<Rightarrow> ''q'' | Some p \<Rightarrow> if p = [] then ''q'' else p) = [type_char t])"

text \<open>The legal moves from the square of a suggestion; \<open>None\<close> where reading them throws.\<close>

definition moves_from :: "'c chess_api \<Rightarrow> 'c \<Rightarrow> json \<Rightarrow> applied list option" where
  "moves_from api chess suggestion =
     (case field ''from'' suggestion of JStr square \<Rightarrow> Some (ch_moves_from api square chess) | _ \<Rightarrow> None)"

definition isLegalCombatCpuSuggestion :: "'c chess_api \<Rightarrow> string \<Rightarrow> json \<Rightarrow> bool" where
  "isLegalCombatCpuSuggestion api fen suggestion =
     (if fen = [] \<or> \<not> truthy (field ''from'' suggestion) \<or> \<not> truthy (field ''to'' suggestion) then False
      else case ch_new api fen of
             None \<Rightarrow> False
           | Some chess \<Rightarrow>
               let promotion = asked_promotion suggestion in
               if promotion \<notin> {None, Some ''q'', Some ''r'', Some ''b'', Some ''n''} then False
               else (case moves_from api chess suggestion of
                       None \<Rightarrow> False | Some moves \<Rightarrow> list_ex (fits suggestion promotion) moves))"

section \<open>What a capture is worth\<close>

type_synonym focus = "color \<Rightarrow> focus_tracker option"

definition focusStreakFor :: "focus \<Rightarrow> color \<Rightarrow> string \<Rightarrow> int" where
  "focusStreakFor focus attackerColor defenderId =
     (case focus attackerColor of
        None \<Rightarrow> 0 | Some current \<Rightarrow> if ft_targetId current \<noteq> defenderId then 0 else max 0 (ft_streak current))"

definition pieceSquareMatches :: "piece \<Rightarrow> string \<Rightarrow> bool" where
  "pieceSquareMatches piece square \<longleftrightarrow> p_square piece = square"

text \<open>The registered piece of that colour and type, standing on the square.\<close>

definition standing :: "registry \<Rightarrow> string \<Rightarrow> color \<Rightarrow> ptype \<Rightarrow> piece option" where
  "standing registry square c t =
     (case obj_get registry square of
        None \<Rightarrow> None
      | Some p \<Rightarrow> if p_color p \<noteq> c \<or> p_type p \<noteq> t \<or> \<not> pieceSquareMatches p square then None else Some p)"

text \<open>The same of the other colour.\<close>

definition facing :: "registry \<Rightarrow> string \<Rightarrow> color \<Rightarrow> ptype \<Rightarrow> piece option" where
  "facing registry square c t =
     (case obj_get registry square of
        None \<Rightarrow> None
      | Some p \<Rightarrow> if p_color p = c \<or> p_type p \<noteq> t \<or> \<not> pieceSquareMatches p square then None else Some p)"

definition chance_of :: "'c chess_api \<Rightarrow> string \<Rightarrow> focus \<Rightarrow> applied \<Rightarrow> piece \<Rightarrow> piece \<Rightarrow> rat" where
  "chance_of api fen focus move attacker defender =
     (if isForcedCombatCapture api fen (ap_from move) (ap_to move) (ap_promotion move) then 1
      else hitChance attacker (Some defender) (focusStreakFor focus (p_color attacker) (p_id defender)))"

record capture_facts =
  cf_hitChance :: rat
  cf_enemyValue :: rat
  cf_enemyPersistentValue :: int

definition measuredCombatCapture :: "'c chess_api \<Rightarrow> string \<Rightarrow> registry \<Rightarrow> applied \<Rightarrow> focus \<Rightarrow> capture_facts option" where
  "measuredCombatCapture api fen registry move focus =
     (case ap_captured move of
        None \<Rightarrow> None
      | Some captured \<Rightarrow>
          (case standing registry (ap_from move) (ap_color move) (ap_piece move) of
             None \<Rightarrow> None
           | Some attacker \<Rightarrow>
               (case facing registry (capturedSquareFor move) (p_color attacker) captured of
                  None \<Rightarrow> None
                | Some defender \<Rightarrow>
                    Some \<lparr>cf_hitChance = chance_of api fen focus move attacker defender,
                          cf_enemyValue = bs_strength (BASE_STATS (p_type defender)),
                          cf_enemyPersistentValue =
                            (case pieceIdentity defender of
                               Some i \<Rightarrow> if id_identityId i \<noteq> [] then max 0 (derivedLevel defender - 1) else 0
                             | None \<Rightarrow> 0)\<rparr>)))"

section \<open>The fallback of the machine\<close>

definition EMERGENCY_CPU_PIECE_VALUE :: "ptype \<Rightarrow> int" where
  "EMERGENCY_CPU_PIECE_VALUE t = (case t of Pawn \<Rightarrow> 1 | Knight \<Rightarrow> 3 | Bishop \<Rightarrow> 3 | Rook \<Rightarrow> 5 | Queen \<Rightarrow> 9 | King \<Rightarrow> 0)"

definition EMERGENCY_CPU_MISS_TEMPO_SCORE :: rat where "EMERGENCY_CPU_MISS_TEMPO_SCORE = 90"

definition piece_weight :: "ptype \<Rightarrow> rat" where
  "piece_weight t = of_int (100 + EMERGENCY_CPU_PIECE_VALUE t * 10)"

text \<open>The highest chance of a reply that takes the moved piece; \<open>None\<close> when the registry does not know who replies.\<close>

fun recapture_chance ::
  "'c chess_api \<Rightarrow> 'c \<Rightarrow> registry \<Rightarrow> focus \<Rightarrow> applied \<Rightarrow> piece \<Rightarrow> applied list \<Rightarrow> rat \<Rightarrow> rat option" where
  "recapture_chance api after registry focus move moved [] maxChance = Some maxChance"
| "recapture_chance api after registry focus move moved (reply # replies) maxChance =
     (if ap_captured reply \<noteq> Some (ap_piece move) \<or> capturedSquareFor reply \<noteq> p_square moved
      then recapture_chance api after registry focus move moved replies maxChance
      else case facing registry (ap_from reply) (ap_color move) (ap_piece reply) of
             None \<Rightarrow> None
           | Some enemy \<Rightarrow> recapture_chance api after registry focus move moved replies
               (max maxChance (chance_of api (ch_fen api after) focus reply enemy moved)))"

definition unit_chance :: "rat \<Rightarrow> rat" where "unit_chance q = max 0 (min 1 q)"

definition emergencyRecapturePenalty ::
  "'c chess_api \<Rightarrow> 'c \<Rightarrow> applied \<Rightarrow> registry option \<Rightarrow> focus \<Rightarrow> rat \<Rightarrow> string \<Rightarrow> applied list \<Rightarrow> rat" where
  "emergencyRecapturePenalty api after move registry focus branchChance threatenedSquare replies =
     (case registry of
        None \<Rightarrow> 0
      | Some reg \<Rightarrow>
          if ap_promotion move \<noteq> None \<and> threatenedSquare \<noteq> ap_from move
             \<or> CHR ''k'' \<in> set (ap_flags move) \<or> CHR ''q'' \<in> set (ap_flags move) \<or> ap_piece move = King then 0
          else (case standing reg (ap_from move) (ap_color move) (ap_piece move) of
                  None \<Rightarrow> 0
                | Some original \<Rightarrow>
                    (case recapture_chance api after reg focus move (original\<lparr>p_square := threatenedSquare\<rparr>) replies 0 of
                       None \<Rightarrow> 0
                     | Some maxChance \<Rightarrow> fmul (fmul maxChance (unit_chance branchChance)) (piece_weight (ap_piece move)))))"

definition exposed_by ::
  "'c chess_api \<Rightarrow> 'c \<Rightarrow> applied \<Rightarrow> registry \<Rightarrow> focus \<Rightarrow> string \<Rightarrow> applied \<Rightarrow> rat" where
  "exposed_by api after move registry focus excludedSquare reply =
     (case ap_captured reply of
        None \<Rightarrow> 0
      | Some captured \<Rightarrow>
          let targetSquare = capturedSquareFor reply in
          if captured = King \<or> targetSquare = excludedSquare then 0
          else (case (standing registry targetSquare (ap_color move) captured,
                      facing registry (ap_from reply) (ap_color move) (ap_piece reply)) of
                  (Some victim, Some attacker) \<Rightarrow>
                    if ch_get api targetSquare after \<noteq> Some (p_type victim, p_color victim) then 0
                    else fmul (chance_of api (ch_fen api after) focus reply attacker victim) (piece_weight (p_type victim))
                | _ \<Rightarrow> 0))"

definition emergencyOtherUnitExposurePenalty ::
  "'c chess_api \<Rightarrow> 'c \<Rightarrow> applied \<Rightarrow> registry option \<Rightarrow> focus \<Rightarrow> rat \<Rightarrow> string \<Rightarrow> applied list \<Rightarrow> rat" where
  "emergencyOtherUnitExposurePenalty api after move registry focus branchChance excludedSquare replies =
     (case registry of
        None \<Rightarrow> 0
      | Some reg \<Rightarrow>
          if ap_piece move = King \<or> unit_chance branchChance \<le> 0 then 0
          else fmul (fold (\<lambda>reply worst. max worst (exposed_by api after move reg focus excludedSquare reply)) replies 0)
                 (unit_chance branchChance))"

definition measuredMissExposure ::
  "'c chess_api \<Rightarrow> 'c \<Rightarrow> applied list \<Rightarrow> applied \<Rightarrow> registry option \<Rightarrow> focus \<Rightarrow> rat \<Rightarrow> rat" where
  "measuredMissExposure api afterMiss replies move registry focus missChance =
     (if replies = [] then 0
      else max (emergencyRecapturePenalty api afterMiss move registry focus missChance (ap_from move) replies)
             (emergencyOtherUnitExposurePenalty api afterMiss move registry focus missChance (ap_from move) replies))"

definition emergencyCombatMissExposurePenalty ::
  "'c chess_api \<Rightarrow> string \<Rightarrow> applied \<Rightarrow> registry option \<Rightarrow> focus \<Rightarrow> rat \<Rightarrow> rat" where
  "emergencyCombatMissExposurePenalty api fen move registry focus missChance =
     (if ap_captured move = None \<or> registry = None \<or> missChance \<le> 0 then 0
      else case ch_new api (passTurnFen fen) of
             None \<Rightarrow> 0
           | Some afterMiss \<Rightarrow> measuredMissExposure api afterMiss (ch_moves api afterMiss) move registry focus missChance)"

definition engine_move_of :: "applied \<Rightarrow> engine_move" where
  "engine_move_of move =
     \<lparr>em_captured = (ap_captured move \<noteq> None), em_piece = [type_char (ap_piece move)], em_san = ap_san move, em_flags = ap_flags move\<rparr>"

text \<open>The part of the score that comes from a capture and from what the opponent may take back.\<close>

definition capture_score :: "ptype \<Rightarrow> ptype \<Rightarrow> rat" where
  "capture_score captured piece = of_int (100 + EMERGENCY_CPU_PIECE_VALUE captured * 10 - EMERGENCY_CPU_PIECE_VALUE piece)"

definition capture_part :: "capture_facts option \<Rightarrow> ptype \<Rightarrow> ptype \<Rightarrow> rat" where
  "capture_part facts captured piece =
     (case facts of
        Some f \<Rightarrow> fsub (fmul (cf_hitChance f) (capture_score captured piece))
                    (fmul (fsub 1 (cf_hitChance f)) EMERGENCY_CPU_MISS_TEMPO_SCORE)
      | None \<Rightarrow> capture_score captured piece)"

definition risk_part ::
  "'c chess_api \<Rightarrow> string \<Rightarrow> 'c \<Rightarrow> applied \<Rightarrow> registry option \<Rightarrow> focus \<Rightarrow> rat \<Rightarrow> rat \<times> rat" where
  "risk_part api fen after move registry focus captureSuccessChance =
     (let replies = ch_moves api after in
      (max (emergencyRecapturePenalty api after move registry focus captureSuccessChance (ap_to move) replies)
           (emergencyOtherUnitExposurePenalty api after move registry focus captureSuccessChance (ap_to move) replies),
       if ap_captured move \<noteq> None \<and> captureSuccessChance < 1
       then (case ch_new api (passTurnFen fen) of
               None \<Rightarrow> 0
             | Some board \<Rightarrow> measuredMissExposure api board (ch_moves api board) move registry focus (fsub 1 captureSuccessChance))
       else 0))"

definition emergency_score ::
  "'c chess_api \<Rightarrow> string \<Rightarrow> registry option \<Rightarrow> focus \<Rightarrow> doctrine option \<Rightarrow> applied \<Rightarrow> 'c \<Rightarrow> rat" where
  "emergency_score api fen registry focus doctrine move after =
     (let s0 = (if ch_isCheckmate api after then 10000 else 0);
          facts = (case registry of None \<Rightarrow> None | Some reg \<Rightarrow> measuredCombatCapture api fen reg move focus);
          s1 = (case ap_captured move of None \<Rightarrow> s0 | Some captured \<Rightarrow> fadd s0 (capture_part facts captured (ap_piece move)));
          chance = (if ap_captured move = None then 1 else case facts of None \<Rightarrow> 0 | Some f \<Rightarrow> cf_hitChance f);
          measured = (ap_captured move = None \<or> facts \<noteq> None);
          risk = risk_part api fen after move registry focus chance;
          s2 = (if measured then fsub (fsub s1 (fst risk)) (snd risk) else s1);
          s3 = (case ap_promotion move of None \<Rightarrow> s2 | Some t \<Rightarrow> fadd s2 (of_int (70 + EMERGENCY_CPU_PIECE_VALUE t * 4)));
          s4 = (if ch_inCheck api after then fadd s3 18 else s3);
          s5 = (if CHR ''k'' \<in> set (ap_flags move) \<or> CHR ''q'' \<in> set (ap_flags move) then fadd s4 2 else s4)
      in fadd s5 (of_int (combatDoctrineBonusForMove doctrine (Some (engine_move_of move)))))"

record scored_move =
  sm_move :: applied
  sm_score :: rat
  sm_key :: string

definition move_text :: "applied \<Rightarrow> string" where
  "move_text move = ap_from move @ ap_to move @ (case ap_promotion move of None \<Rightarrow> [] | Some t \<Rightarrow> [type_char t])"

definition scored ::
  "'c chess_api \<Rightarrow> string \<Rightarrow> registry option \<Rightarrow> focus \<Rightarrow> doctrine option \<Rightarrow> 'c \<Rightarrow> applied \<Rightarrow> scored_move option" where
  "scored api fen registry focus doctrine chess move =
     map_option (\<lambda>(_, after). \<lparr>sm_move = move, sm_score = emergency_score api fen registry focus doctrine move after, sm_key = move_text move\<rparr>)
       (ch_move api (ap_from move) (ap_to move) (promotion_or_queen (ap_promotion move)) chess)"

definition scored_before :: "(string \<Rightarrow> string \<Rightarrow> bool) \<Rightarrow> scored_move \<Rightarrow> scored_move \<Rightarrow> bool" where
  "scored_before collate a b = (sm_score b < sm_score a \<or> sm_score b = sm_score a \<and> collate (sm_key a) (sm_key b))"

definition suggestion_of :: "applied \<Rightarrow> json" where
  "suggestion_of move =
     JObj ([(''from'', JStr (ap_from move)), (''to'', JStr (ap_to move))] @
       (case ap_promotion move of None \<Rightarrow> [] | Some t \<Rightarrow> [(''promotion'', JStr [type_char t])]))"

definition emergencyCombatCpuSuggestion ::
  "(string \<Rightarrow> string \<Rightarrow> bool) \<Rightarrow> 'c chess_api \<Rightarrow> string \<Rightarrow> registry option \<Rightarrow> focus \<Rightarrow> doctrine option \<Rightarrow> json option" where
  "emergencyCombatCpuSuggestion collate api fen registry focus doctrine =
     (case ch_new api fen of
        None \<Rightarrow> None
      | Some chess \<Rightarrow>
          (case sort_stable (scored_before collate)
                  (List.map_filter (scored api fen registry focus doctrine chess) (ch_moves api chess)) of
             [] \<Rightarrow> None | best # _ \<Rightarrow> Some (suggestion_of (sm_move best))))"

section \<open>The candidates of the server\<close>

text \<open>A candidate with the facts Combat knows of it, or as it came; \<open>None\<close> where reading its moves throws.\<close>

definition annotate_one ::
  "'c chess_api \<Rightarrow> string \<Rightarrow> 'c \<Rightarrow> registry \<Rightarrow> focus \<Rightarrow> doctrine option \<Rightarrow> json \<Rightarrow> json option" where
  "annotate_one api fen chess registry focus doctrine candidate =
     (if \<not> truthy (field ''from'' candidate) \<or> \<not> truthy (field ''to'' candidate) \<or> field ''isLegal'' candidate = JBool False
      then Some candidate
      else map_option (\<lambda>moves.
        case List.find (fits candidate (asked_promotion candidate)) moves of
          None \<Rightarrow> candidate
        | Some move \<Rightarrow>
            if standing registry (ap_from move) (ap_color move) (ap_piece move) = None then candidate
            else let after = ch_move api (ap_from move) (ap_to move) (promotion_or_queen (ap_promotion move)) chess;
                     claims = (field ''isMate'' candidate = JBool True);
                     verified = (case after of
                         Some (_, b) \<Rightarrow> if claims then with_fields [(''isMate'', JBool (ch_isCheckmate api b))] candidate else candidate
                       | None \<Rightarrow> candidate);
                     bonus = (''doctrineBonusCp'', JInt (combatDoctrineBonusForMove doctrine (Some (engine_move_of move))))
                 in if claims \<and> after = None then candidate
                    else if ap_captured move = None
                    then with_fields [(''combatReady'', JBool True), (''hitChance'', JInt 1), (''enemyValue'', JInt 0),
                           (''enemyPersistentValue'', JInt 0), bonus] verified
                    else (case measuredCombatCapture api fen registry move focus of
                            None \<Rightarrow> candidate
                          | Some f \<Rightarrow> with_fields [(''combatReady'', JBool True), (''hitChance'', JNum (Fin (cf_hitChance f))),
                              (''enemyValue'', JNum (Fin (cf_enemyValue f))),
                              (''enemyPersistentValue'', JInt (cf_enemyPersistentValue f)), bonus] verified))
        (moves_from api chess candidate))"

definition annotateCombatCandidates ::
  "'c chess_api \<Rightarrow> string \<Rightarrow> registry option \<Rightarrow> json \<Rightarrow> focus \<Rightarrow> doctrine option \<Rightarrow> json option" where
  "annotateCombatCandidates api fen registry remote focus doctrine =
     (let candidates = elements (field ''candidates'' remote) in
      case (registry, ch_new api fen) of
        (Some reg, Some chess) \<Rightarrow>
          if candidates = [] then Some remote
          else map_option (\<lambda>enriched. with_fields [(''candidates'', JArr enriched)] remote)
                 (those (map (annotate_one api fen chess reg focus doctrine) candidates))
      | _ \<Rightarrow> Some remote)"

definition sameCombatMove :: "json \<Rightarrow> json \<Rightarrow> bool" where
  "sameCombatMove left right \<longleftrightarrow>
     truthy left \<and> truthy right \<and> strict_eq (field ''from'' left) (field ''from'' right) \<and>
     strict_eq (field ''to'' left) (field ''to'' right) \<and>
     json_string (or_else_json (field ''promotion'' left) (JStr ''q'')) = json_string (or_else_json (field ''promotion'' right) (JStr ''q''))"

definition chosen_json :: "ranked \<Rightarrow> json" where
  "chosen_json r =
     (if field ''isMate'' (rk_candidate r) = JBool True then rk_candidate r
      else with_fields [(''combatUtility'', JNum (Fin (rk_utility r))), (''chessLossCp'', JNum (Fin (rk_chessLoss r)))] (rk_candidate r))"

definition tiny :: rat where "tiny = fl (1 / 10 ^ 9)"

definition worth_more :: "json \<Rightarrow> json \<Rightarrow> bool" where
  "worth_more primary chosen =
     (case (combatCandidateUtility primary (JObj []), combatCandidateUtility chosen (JObj []),
            json_number (field ''chessScoreCp'' primary), json_number (field ''chessScoreCp'' chosen)) of
        (Fin pu, Fin cu, Fin pc, Fin cc) \<Rightarrow>
          \<not> fsub cu cc \<le> fadd (fsub pu pc) tiny \<and> fadd pu tiny < cu
      | _ \<Rightarrow> False)"

definition selectCombatAwareRemoteSuggestion :: "(string \<Rightarrow> string \<Rightarrow> bool) \<Rightarrow> json \<Rightarrow> json" where
  "selectCombatAwareRemoteSuggestion collate remote =
     (let candidates = filter (\<lambda>c. field ''combatReady'' c = JBool True) (elements (field ''candidates'' remote)) in
      if candidates = [] then remote
      else case List.find (\<lambda>c. sameCombatMove c remote) candidates of
             None \<Rightarrow> remote
           | Some primary \<Rightarrow>
               (case chooseCombatCandidate collate (JArr candidates) (JObj []) of
                  None \<Rightarrow> remote
                | Some r \<Rightarrow>
                    let chosen = chosen_json r in
                    if sameCombatMove chosen primary then chosen
                    else if field ''isMate'' primary = JBool True then remote
                    else if field ''isMate'' chosen = JBool True then chosen
                    else if \<not> hasMeasuredChessScoreCp primary \<or> \<not> hasMeasuredChessScoreCp chosen then remote
                    else if worth_more primary chosen then chosen else remote))"

section \<open>The turn\<close>

definition js_error :: "string \<Rightarrow> json" where
  "js_error message = JObj [(''name'', JStr ''Error''), (''message'', JStr message)]"

record machine_turn =
  tu_suggestion :: json
  tu_source :: string
  tu_remoteError :: json

text \<open>The answer of the server is its response (\<open>Inr\<close>) or what was thrown (\<open>Inl\<close>).\<close>

definition remote_suggestion ::
  "(string \<Rightarrow> string \<Rightarrow> bool) \<Rightarrow> 'c chess_api \<Rightarrow> string \<Rightarrow> json + json \<Rightarrow> registry option \<Rightarrow> focus \<Rightarrow> doctrine option \<Rightarrow> json + json" where
  "remote_suggestion collate api fen response registry focus doctrine =
     (case response of
        Inl error \<Rightarrow> Inl error
      | Inr answer \<Rightarrow>
          (case annotateCombatCandidates api fen registry answer focus doctrine of
             None \<Rightarrow> Inl (JObj [(''name'', JStr ''TypeError'')])
           | Some measured \<Rightarrow>
               let remote = selectCombatAwareRemoteSuggestion collate measured in
               if isLegalCombatCpuSuggestion api fen remote then Inr remote
               else Inl (js_error (''La CPU devolvi'' @ [CHR 0xF3] @ '' una jugada inv'' @ [CHR 0xE1] @ ''lida.''))))"

definition resolveCombatCpuTurnSuggestion ::
  "(string \<Rightarrow> string \<Rightarrow> bool) \<Rightarrow> 'c chess_api \<Rightarrow> string \<Rightarrow> json + json \<Rightarrow> registry option \<Rightarrow> focus \<Rightarrow> doctrine option \<Rightarrow> json + machine_turn" where
  "resolveCombatCpuTurnSuggestion collate api fen response registry focus doctrine =
     (case remote_suggestion collate api fen response registry focus doctrine of
        Inr remote \<Rightarrow> Inr \<lparr>tu_suggestion = remote, tu_source = ''remote'', tu_remoteError = JNull\<rparr>
      | Inl remoteError \<Rightarrow>
          (case emergencyCombatCpuSuggestion collate api fen registry focus doctrine of
             None \<Rightarrow> Inl (or_else_json remoteError (js_error ''La CPU no pudo completar su turno.''))
           | Some local \<Rightarrow>
               if isLegalCombatCpuSuggestion api fen local
               then Inr \<lparr>tu_suggestion = local, tu_source = ''local'', tu_remoteError = remoteError\<rparr>
               else Inl (or_else_json remoteError (js_error ''La CPU no pudo completar su turno.''))))"

end
