(* ===== verification/CpuTurnProps.thy ===== *)
theory CpuTurnProps
  imports CpuTurn PlayerRatingProps
begin

text \<open>
  What the machine's turn guarantees: it always has a legal move to play whatever the server does, the fallback plays a
  mate when there is one, and a candidate displaces the server's own move only with facts that were checked on the board.
\<close>

section \<open>Bounds of the scores\<close>

definition near :: "int \<Rightarrow> int \<Rightarrow> rat \<Rightarrow> bool" where
  "near c a x \<longleftrightarrow> of_int (c - a) \<le> x \<and> x \<le> of_int (c + a)"

lemma near_fl:
  assumes "near c a x" "\<bar>c\<bar> + a \<le> 2 ^ 52" "0 \<le> a"
  shows "near c a (fl x)"
proof -
  have "\<bar>c - a\<bar> \<le> 2 ^ 52" "\<bar>c + a\<bar> \<le> 2 ^ 52" using assms(2,3) by linarith+
  from this [THEN fl_whole] show ?thesis
    using assms(1) fl_mono [of "of_int (c - a)" x] fl_mono [of x "of_int (c + a)"] unfolding near_def by simp
qed

lemma near_fadd: "near c a x \<Longrightarrow> near 0 b y \<Longrightarrow> \<bar>c\<bar> + (a + b) \<le> 2 ^ 52 \<Longrightarrow> 0 \<le> a \<Longrightarrow> 0 \<le> b \<Longrightarrow> near c (a + b) (fadd x y)"
  unfolding fadd_def by (rule near_fl) (simp_all add: near_def)

lemma near_fsub: "near c a x \<Longrightarrow> near 0 b y \<Longrightarrow> \<bar>c\<bar> + (a + b) \<le> 2 ^ 52 \<Longrightarrow> 0 \<le> a \<Longrightarrow> 0 \<le> b \<Longrightarrow> near c (a + b) (fsub x y)"
  unfolding fsub_def by (rule near_fl) (simp_all add: near_def)

lemma near_fmul:
  assumes "0 \<le> x" "x \<le> 1" "near 0 b y" "b \<le> 2 ^ 52"
  shows "near 0 b (fmul x y)"
proof -
  have y: "\<bar>y\<bar> \<le> of_int b" using assms(3) by (simp add: near_def abs_le_iff)
  then have "0 \<le> b" using abs_ge_zero order_trans of_int_0_le_iff by metis
  have "\<bar>x * y\<bar> \<le> of_int b" using mult_mono [of "\<bar>x\<bar>" 1 "\<bar>y\<bar>" "of_int b"] assms(1,2) y by (simp add: abs_mult)
  then have "near 0 b (x * y)" by (simp add: near_def abs_le_iff)
  then show ?thesis unfolding fmul_def using \<open>0 \<le> b\<close> assms(4) by (intro near_fl) simp_all
qed

lemma near_more: "near c a x \<Longrightarrow> a \<le> b \<Longrightarrow> near c b x"
proof -
  assume "near c a x" "a \<le> b"
  then have "of_int (c - a) \<le> x" "x \<le> of_int (c + a)" "(of_int (c - b) :: rat) \<le> of_int (c - a)" "(of_int (c + a) :: rat) \<le> of_int (c + b)"
    by (simp_all add: near_def)
  then show "near c b x" unfolding near_def by (meson order_trans)
qed

lemma near_max: "near c a x \<Longrightarrow> near c a y \<Longrightarrow> near c a (max x y)"
  by (simp add: max_def)

lemma near_zero [simp]: "near 0 a 0 \<longleftrightarrow> 0 \<le> a"
  by (simp add: near_def)

definition in_unit :: "rat \<Rightarrow> bool" where "in_unit x \<longleftrightarrow> 0 \<le> x \<and> x \<le> 1"

lemma chance_unit: "in_unit (chance_of api fen focus move att def)"
  using hit_chance_bounds [of "def" att "focusStreakFor focus (p_color att) (p_id def)"] nine_tenths
  by (auto simp: chance_of_def in_unit_def split: if_splits)

lemma unit_chance_unit [simp]: "in_unit (unit_chance q)"
  by (simp add: unit_chance_def in_unit_def)

lemma recapture_unit: "recapture_chance api after reg focus move moved replies m = Some q \<Longrightarrow> in_unit m \<Longrightarrow> in_unit q"
proof (induction replies arbitrary: m)
  case (Cons r rs)
  have "in_unit (max m (chance_of api (ch_fen api after) focus r e moved))" for e
    using chance_unit [of api "ch_fen api after" focus r e moved] Cons.prems(2) by (auto simp: in_unit_def)
  with Cons show ?case by (auto split: if_splits option.splits)
qed simp

lemma weight_near: "near 0 190 (piece_weight t)" "0 \<le> piece_weight t"
  by (cases t; simp add: near_def piece_weight_def EMERGENCY_CPU_PIECE_VALUE_def)+

lemma unit_fmul: "in_unit x \<Longrightarrow> in_unit y \<Longrightarrow> in_unit (fmul x y)"
proof -
  assume u: "in_unit x" "in_unit y"
  then have "0 \<le> x * y" "x * y \<le> 1" by (simp_all add: in_unit_def mult_le_one)
  then show ?thesis using fl_nonneg [of "x * y"] fl_mono [of "x * y" 1] by (simp add: in_unit_def fmul_def)
qed

lemma recapture_near: "near 0 190 (emergencyRecapturePenalty api after move registry focus q sq replies)"
  unfolding emergencyRecapturePenalty_def
  using recapture_unit [of api after _ focus move _ replies 0] unit_fmul [OF _ unit_chance_unit, of _ q] weight_near(1)
  by (auto split: option.split simp: in_unit_def intro!: near_fmul)

lemma exposed_near: "near 0 190 (exposed_by api after move reg focus sq reply) \<and> 0 \<le> exposed_by api after move reg focus sq reply"
proof -
  have "near 0 190 (fmul (chance_of api f focus r a d) (piece_weight t)) \<and> 0 \<le> fmul (chance_of api f focus r a d) (piece_weight t)" for f r a d t
    using chance_unit [of api f focus r a d] weight_near by (simp add: in_unit_def near_fmul fmul_nonneg)
  then show ?thesis by (simp add: exposed_by_def Let_def split: option.split)
qed

lemma worst_near:
  "near 0 190 w \<Longrightarrow> near 0 190 (fold (\<lambda>reply worst. max worst (exposed_by api after move reg focus sq reply)) replies w)"
proof (induction replies arbitrary: w)
  case (Cons r rs)
  have "near 0 190 (max w (exposed_by api after move reg focus sq r))" using Cons.prems by (simp add: near_max exposed_near)
  then show ?case by (simp add: Cons.IH)
qed simp

lemma exposure_near: "near 0 190 (emergencyOtherUnitExposurePenalty api after move registry focus q sq replies)"
proof -
  have c: "fmul a (unit_chance q) = fmul (unit_chance q) a" for a by (simp add: fmul_def mult.commute)
  show ?thesis unfolding emergencyOtherUnitExposurePenalty_def c
    using worst_near [of 0 api after move _ focus sq replies] unit_chance_unit [of q]
    by (auto split: option.split simp: in_unit_def intro!: near_fmul)
qed

lemma miss_near: "near 0 190 (measuredMissExposure api after replies move registry focus q)"
  by (simp add: measuredMissExposure_def near_max recapture_near exposure_near)

lemma risk_near: "near 0 190 (fst (risk_part api fen after move registry focus q))" "near 0 190 (snd (risk_part api fen after move registry focus q))"
  by (simp_all add: risk_part_def Let_def near_max recapture_near exposure_near miss_near split: option.split)

lemma capture_near: "(\<forall>f. facts = Some f \<longrightarrow> in_unit (cf_hitChance f)) \<Longrightarrow> near 0 280 (capture_part facts captured piece)"
proof (cases facts)
  case None
  show ?thesis by (cases captured; cases piece) (simp_all add: None capture_part_def capture_score_def EMERGENCY_CPU_PIECE_VALUE_def near_def)
next
  case (Some f)
  assume "\<forall>f. facts = Some f \<longrightarrow> in_unit (cf_hitChance f)"
  then have u: "0 \<le> cf_hitChance f" "cf_hitChance f \<le> 1" using Some by (simp_all add: in_unit_def)
  have s: "near 0 190 (capture_score captured piece)"
    by (cases captured; cases piece) (simp_all add: capture_score_def EMERGENCY_CPU_PIECE_VALUE_def near_def)
  have "0 \<le> fsub 1 (cf_hitChance f)" "fsub 1 (cf_hitChance f) \<le> 1"
    unfolding fsub_def using u fl_nonneg [of "1 - cf_hitChance f"] fl_mono [of "1 - cf_hitChance f" 1] by simp_all
  then have "near 0 90 (fmul (fsub 1 (cf_hitChance f)) EMERGENCY_CPU_MISS_TEMPO_SCORE)"
    by (rule near_fmul) (simp_all add: near_def EMERGENCY_CPU_MISS_TEMPO_SCORE_def)
  from near_fsub [OF near_fmul [OF u s] this] show ?thesis by (simp add: capture_part_def Some)
qed

lemma measured_unit: "measuredCombatCapture api fen reg move focus = Some f \<Longrightarrow> in_unit (cf_hitChance f)"
  using chance_unit by (auto simp: measuredCombatCapture_def split: option.splits)

lemma doctrine_near: "near 0 6 (of_int (combatDoctrineBonusForMove d m))"
proof -
  have "near 0 6 (of_int (max (- 6) (min 6 k)))" for k :: int
    unfolding near_def of_int_le_iff by simp
  then show ?thesis unfolding combatDoctrineBonusForMove_def Let_def by (cases d; cases m) (simp_all only: prod.case option.case of_int_0, simp_all)
qed

text \<open>Everything but a mate weighs less than 800.\<close>

lemma near_step:
  assumes "\<bar>c\<bar> \<le> 10000"
  shows "near c 280 x \<Longrightarrow> near 0 190 r \<Longrightarrow> near 0 190 q \<Longrightarrow> near c 660 (if m then fsub (fsub x r) q else x)"
    and "near c 660 x \<Longrightarrow> near c 766 (case promotion of None \<Rightarrow> x | Some t \<Rightarrow> fadd x (of_int (70 + EMERGENCY_CPU_PIECE_VALUE t * 4)))"
    and "near c 766 x \<Longrightarrow> near c 784 (if m then fadd x 18 else x)"
    and "near c 784 x \<Longrightarrow> near c 786 (if m then fadd x 2 else x)"
    and "near c 786 x \<Longrightarrow> near 0 6 q \<Longrightarrow> near c 792 (fadd x q)"
proof -
  show "near c 280 x \<Longrightarrow> near 0 190 r \<Longrightarrow> near 0 190 q \<Longrightarrow> near c 660 (if m then fsub (fsub x r) q else x)"
    using near_fsub [OF near_fsub, of c 280 x 190 r 190 q] near_more [of c 280 x 660] assms by simp
  have v: "near 0 106 (of_int (70 + EMERGENCY_CPU_PIECE_VALUE t * 4))" for t
    by (cases t) (simp_all add: near_def EMERGENCY_CPU_PIECE_VALUE_def)
  show "near c 660 x \<Longrightarrow> near c 766 (case promotion of None \<Rightarrow> x | Some t \<Rightarrow> fadd x (of_int (70 + EMERGENCY_CPU_PIECE_VALUE t * 4)))"
    using near_fadd [OF _ v, of c 660 x] near_more [of c 660 x 766] assms by (cases promotion) simp_all
  show "near c 766 x \<Longrightarrow> near c 784 (if m then fadd x 18 else x)"
    using near_fadd [of c 766 x 18 18] near_more [of c 766 x 784] assms by (simp add: near_def)
  show "near c 784 x \<Longrightarrow> near c 786 (if m then fadd x 2 else x)"
    using near_fadd [of c 784 x 2 2] near_more [of c 784 x 786] assms by (simp add: near_def)
  show "near c 786 x \<Longrightarrow> near 0 6 q \<Longrightarrow> near c 792 (fadd x q)"
    using near_fadd [of c 786 x 6 q] assms by simp
qed

lemma score_near:
  "near (if ch_isCheckmate api after then 10000 else 0) 792 (emergency_score api fen registry focus doctrine move after)"
proof -
  define c :: int where "c = (if ch_isCheckmate api after then 10000 else 0)"
  define s0 :: rat where "s0 = (if ch_isCheckmate api after then 10000 else 0)"
  define facts where "facts = (case registry of None \<Rightarrow> None | Some reg \<Rightarrow> measuredCombatCapture api fen reg move focus)"
  have c: "\<bar>c\<bar> \<le> 10000" and s0: "near c 0 s0" by (simp_all add: c_def s0_def near_def)
  have "\<forall>f. facts = Some f \<longrightarrow> in_unit (cf_hitChance f)" using measured_unit by (auto simp: facts_def split: option.splits)
  note capture = near_fadd [OF s0 capture_near [OF this]]
  have s1: "near c 280 (case ap_captured move of None \<Rightarrow> s0 | Some captured \<Rightarrow> fadd s0 (capture_part facts captured (ap_piece move)))"
    using capture c near_more [OF s0, of 280] by (cases "ap_captured move") simp_all
  note steps = near_step [OF c]
  show ?thesis unfolding emergency_score_def Let_def s0_def [symmetric] facts_def [symmetric] c_def [symmetric]
    by (rule steps(5) [OF steps(4) [OF steps(3) [OF steps(2) [OF steps(1) [OF s1 risk_near]]]] doctrine_near])
qed

lemma mate_first:
  assumes "ch_isCheckmate api a" "\<not> ch_isCheckmate api b"
  shows "emergency_score api fen registry focus doctrine n b < emergency_score api fen registry focus doctrine m a"
  using score_near [of api a fen registry focus doctrine m] score_near [of api b fen registry focus doctrine n] assms by (simp add: near_def)

section \<open>The fallback\<close>

text \<open>What chess.js says of the moves it lists: they can be read from their square and played, between named squares, and a
  promotion is to one of four pieces.\<close>

definition playable :: "'c chess_api \<Rightarrow> 'c \<Rightarrow> bool" where
  "playable api chess \<longleftrightarrow>
     (\<forall>m\<in>set (ch_moves api chess).
        m \<in> set (ch_moves_from api (ap_from m) chess) \<and>
        ch_move api (ap_from m) (ap_to m) (promotion_or_queen (ap_promotion m)) chess \<noteq> None \<and>
        ap_from m \<noteq> [] \<and> ap_to m \<noteq> [] \<and> ap_promotion m \<in> {None, Some Queen, Some Rook, Some Bishop, Some Knight})"

definition mates :: "'c chess_api \<Rightarrow> 'c \<Rightarrow> applied \<Rightarrow> bool" where
  "mates api chess m \<longleftrightarrow>
     (\<exists>played after. ch_move api (ap_from m) (ap_to m) (promotion_or_queen (ap_promotion m)) chess = Some (played, after) \<and>
        ch_isCheckmate api after)"

lemma sorted_by_score:
  fixes f :: "'a \<Rightarrow> rat"
  assumes "\<And>a b. f b < f a \<Longrightarrow> le a b" "\<And>a b. le a b \<Longrightarrow> f b \<le> f a"
  shows "sorted_wrt (\<lambda>a b. f b \<le> f a) (sort_stable le xs)"
proof -
  have "sorted_wrt (\<lambda>a b. f b \<le> f a) (insert_stable le x ys)" if "sorted_wrt (\<lambda>a b. f b \<le> f a) ys" for x ys
    using that
  proof (induction ys)
    case (Cons y ys)
    show ?case
    proof (cases "le x y")
      case True
      then have "f y \<le> f x" by (rule assms(2))
      then show ?thesis using Cons.prems True order_trans by fastforce
    next
      case False
      then have "f x \<le> f y" using assms(1) [of y x] by force
      then show ?thesis using Cons False by simp
    qed
  qed simp
  then show ?thesis by (induction xs) (simp_all add: sort_stable_def)
qed

lemma map_filter_member: "y \<in> set (List.map_filter f xs) \<longleftrightarrow> (\<exists>x\<in>set xs. f x = Some y)"
  by (induction xs) (auto simp: List.map_filter_simps split: option.splits)

lemma fallback_best:
  assumes "ch_new api fen = Some chess" "playable api chess" "ch_moves api chess \<noteq> []"
  shows "\<exists>m\<in>set (ch_moves api chess). emergencyCombatCpuSuggestion collate api fen registry focus doctrine = Some (suggestion_of m) \<and>
    (\<forall>n\<in>set (ch_moves api chess). mates api chess n \<longrightarrow> mates api chess m)"
proof -
  let ?scored = "scored api fen registry focus doctrine chess"
  let ?l = "List.map_filter ?scored (ch_moves api chess)"
  let ?s = "sort_stable (scored_before collate) ?l"
  have in_l: "e \<in> set ?l \<longleftrightarrow> (\<exists>m\<in>set (ch_moves api chess). ?scored m = Some e)" for e
    by (rule map_filter_member)
  have total: "\<exists>e. ?scored m = Some e" if "m \<in> set (ch_moves api chess)" for m
    using assms(2) that by (auto simp: playable_def scored_def)
  have m0: "hd (ch_moves api chess) \<in> set (ch_moves api chess)" using assms(3) by (rule hd_in_set)
  then obtain e0 where "?scored (hd (ch_moves api chess)) = Some e0" using total by blast
  then have "e0 \<in> set ?l" using m0 in_l [of e0] by blast
  then have "e0 \<in> set ?s" by simp
  then obtain best rest where s: "?s = best # rest" by (cases ?s) auto
  have "sorted_wrt (\<lambda>a b. sm_score b \<le> sm_score a) ?s" by (rule sorted_by_score) (auto simp: scored_before_def)
  then have top: "sm_score e \<le> sm_score best" if "e \<in> set ?l" for e
    using that s set_sort_stable [of "scored_before collate" ?l] by auto
  have "best \<in> set ?l" using s set_sort_stable [of "scored_before collate" ?l] by auto
  then obtain m where m: "m \<in> set (ch_moves api chess)" "?scored m = Some best" using in_l by blast
  then have move: "sm_move best = m" by (auto simp: scored_def)
  have "mates api chess m" if n: "n \<in> set (ch_moves api chess)" "mates api chess n" for n
  proof (rule ccontr)
    assume "\<not> mates api chess m"
    with m(2) obtain pm am where am: "ch_move api (ap_from m) (ap_to m) (promotion_or_queen (ap_promotion m)) chess = Some (pm, am)"
      "\<not> ch_isCheckmate api am" "sm_score best = emergency_score api fen registry focus doctrine m am"
      by (auto simp: scored_def mates_def)
    from n(2) obtain pn an where an: "ch_move api (ap_from n) (ap_to n) (promotion_or_queen (ap_promotion n)) chess = Some (pn, an)"
      "ch_isCheckmate api an" by (auto simp: mates_def)
    then obtain e where "?scored n = Some e" "sm_score e = emergency_score api fen registry focus doctrine n an"
      by (auto simp: scored_def)
    with top in_l n(1) mate_first [OF an(2) am(2), of fen registry focus doctrine m n] am(3) show False by fastforce
  qed
  then show ?thesis using m(1) s move by (auto simp: emergencyCombatCpuSuggestion_def assms(1))
qed

lemma asked_suggestion: "asked_promotion (suggestion_of m) = map_option (\<lambda>t. [type_char t]) (ap_promotion m)"
proof (cases "ap_promotion m")
  case (Some t)
  then show ?thesis by (cases t) (simp_all add: asked_promotion_def suggestion_of_def type_char_def to_lower_def lower_char_def Let_def)
qed (simp add: asked_promotion_def suggestion_of_def)

lemma suggestion_fits:
  assumes "playable api chess" "m \<in> set (ch_moves api chess)"
  shows "fits (suggestion_of m) (asked_promotion (suggestion_of m)) m"
    "asked_promotion (suggestion_of m) \<in> {None, Some ''q'', Some ''r'', Some ''b'', Some ''n''}"
proof -
  have "field ''to'' (suggestion_of m) = JStr (ap_to m)" by (simp add: suggestion_of_def)
  then show "fits (suggestion_of m) (asked_promotion (suggestion_of m)) m"
    unfolding fits_def asked_suggestion by (cases "ap_promotion m") simp_all
  have "ap_promotion m \<in> {None, Some Queen, Some Rook, Some Bishop, Some Knight}" using assms unfolding playable_def by blast
  then show "asked_promotion (suggestion_of m) \<in> {None, Some ''q'', Some ''r'', Some ''b'', Some ''n''}"
    unfolding asked_suggestion by (auto simp: type_char_def)
qed

lemma fallback_legal:
  assumes "fen \<noteq> []" "ch_new api fen = Some chess" "playable api chess" "m \<in> set (ch_moves api chess)"
  shows "isLegalCombatCpuSuggestion api fen (suggestion_of m)"
proof -
  have "field ''from'' (suggestion_of m) = JStr (ap_from m)" "field ''to'' (suggestion_of m) = JStr (ap_to m)"
    by (simp_all add: suggestion_of_def)
  moreover have "ap_from m \<noteq> []" "ap_to m \<noteq> []" "m \<in> set (ch_moves_from api (ap_from m) chess)"
    using assms(3,4) by (auto simp: playable_def)
  ultimately show ?thesis using suggestion_fits [OF assms(3,4)] assms(1,2)
    by (auto simp: isLegalCombatCpuSuggestion_def moves_from_def truthy_def Let_def list_ex_iff)
qed

text \<open>C7: the machine's turn never blocks a battle and never plays outside the rules: in a position with a legal move, whatever
  the server answers or throws, whatever the registry holds and however texts are compared, a suggestion is found and it
  passes the test of legality; when it is the local one, it is a legal move of the position and the error of the server
  is reported with it.\<close>

theorem cpu_turn_never_blocks:
  assumes "fen \<noteq> []" "ch_new api fen = Some chess" "playable api chess" "ch_moves api chess \<noteq> []"
  shows "\<exists>t. resolveCombatCpuTurnSuggestion collate api fen response registry focus doctrine = Inr t \<and>
    isLegalCombatCpuSuggestion api fen (tu_suggestion t) \<and>
    (tu_source t = ''remote'' \<and> (\<exists>answer. response = Inr answer) \<or>
     tu_source t = ''local'' \<and> (\<exists>m\<in>set (ch_moves api chess). tu_suggestion t = suggestion_of m) \<and>
       (\<forall>e. response = Inl e \<longrightarrow> tu_remoteError t = e))"
proof (cases "remote_suggestion collate api fen response registry focus doctrine")
  case (Inl e)
  obtain m where m: "m \<in> set (ch_moves api chess)"
    "emergencyCombatCpuSuggestion collate api fen registry focus doctrine = Some (suggestion_of m)"
    using fallback_best [OF assms(2-4)] by blast
  moreover have "isLegalCombatCpuSuggestion api fen (suggestion_of m)" by (rule fallback_legal [OF assms(1-3) m(1)])
  moreover have "\<forall>e'. response = Inl e' \<longrightarrow> e = e'" using Inl by (auto simp: remote_suggestion_def)
  ultimately show ?thesis using Inl by (auto simp: resolveCombatCpuTurnSuggestion_def)
next
  case (Inr r)
  then have "isLegalCombatCpuSuggestion api fen r" "\<exists>a. response = Inr a"
    by (auto simp: remote_suggestion_def Let_def split: sum.splits option.splits if_splits)
  then show ?thesis using Inr by (auto simp: resolveCombatCpuTurnSuggestion_def)
qed

text \<open>C8: without the server the machine still mates: the local fallback plays a legal move, and one that gives mate whenever
  the position has one - no capture, promotion, check, castling, doctrine or fear of a reply outweighs it, in the
  arithmetic of the doubles the code adds.\<close>

theorem fallback_plays_mate:
  assumes "ch_new api fen = Some chess" "playable api chess" "n \<in> set (ch_moves api chess)" "mates api chess n"
  shows "\<exists>m\<in>set (ch_moves api chess). mates api chess m \<and>
    emergencyCombatCpuSuggestion collate api fen registry focus doctrine = Some (suggestion_of m)"
proof -
  have "ch_moves api chess \<noteq> []" using assms(3) by auto
  from fallback_best [OF assms(1,2) this, of collate registry focus doctrine] show ?thesis using assms(3,4) by blast
qed

section \<open>The candidates of the server\<close>

lemma fields_kept:
  assumes "truthy (field ''from'' c)" "k \<notin> fst ` set new"
  shows "field k (with_fields new c) = field k c"
proof -
  have "map_of (rev new) k = None" using assms(2) by (simp add: map_of_eq_None_iff)
  moreover obtain d where "c = JObj d" using assms(1) by (cases c) (simp_all add: field_def truthy_def)
  ultimately show ?thesis by (simp add: field_with_fields del: field_JObj)
qed

lemma field_set: "field k (with_fields ((k, v) # []) c) = v"
  by (cases c) (simp_all add: field_with_fields field_with_fields_other del: field_JObj)

text \<open>What a candidate must have shown on the board to be marked as ready.\<close>

definition shown_on_board :: "'c chess_api \<Rightarrow> string \<Rightarrow> 'c \<Rightarrow> registry \<Rightarrow> focus \<Rightarrow> json \<Rightarrow> applied \<Rightarrow> bool" where
  "shown_on_board api fen chess reg focus c m \<longleftrightarrow>
     (\<exists>moves. moves_from api chess c = Some moves \<and> m \<in> set moves) \<and> fits c (asked_promotion c) m \<and>
     standing reg (ap_from m) (ap_color m) (ap_piece m) \<noteq> None \<and>
     (ap_captured m \<noteq> None \<longrightarrow> measuredCombatCapture api fen reg m focus \<noteq> None)"

lemma annotate_ready:
  assumes "annotate_one api fen chess reg focus doctrine c = Some e" "field ''combatReady'' c \<noteq> JBool True"
    "field ''combatReady'' e = JBool True"
  shows "\<exists>m. shown_on_board api fen chess reg focus c m \<and> field ''from'' e = field ''from'' c \<and> field ''to'' e = field ''to'' c \<and>
    (field ''isMate'' e = JBool True \<longrightarrow> mates api chess m)"
proof -
  have t: "truthy (field ''from'' c)" using assms by (auto simp: annotate_one_def split: if_splits)
  obtain moves where moves: "moves_from api chess c = Some moves" using assms by (auto simp: annotate_one_def split: if_splits)
  obtain m where m: "List.find (fits c (asked_promotion c)) moves = Some m"
    using assms moves by (auto simp: annotate_one_def split: if_splits option.splits)
  define after where "after = ch_move api (ap_from m) (ap_to m) (promotion_or_queen (ap_promotion m)) chess"
  define v where "v = (case after of
      Some (_, b) \<Rightarrow> if field ''isMate'' c = JBool True then with_fields [(''isMate'', JBool (ch_isCheckmate api b))] c else c
    | None \<Rightarrow> c)"
  have st: "standing reg (ap_from m) (ap_color m) (ap_piece m) \<noteq> None" and cl: "\<not> (field ''isMate'' c = JBool True \<and> after = None)"
    using assms moves m by (auto simp: annotate_one_def Let_def after_def split: if_splits)
  have cap: "ap_captured m \<noteq> None \<longrightarrow> measuredCombatCapture api fen reg m focus \<noteq> None"
    using assms moves m by (auto simp: annotate_one_def Let_def split: if_splits option.splits)
  obtain new where e: "e = with_fields new v" "{''isMate'', ''from'', ''to''} \<inter> fst ` set new = {}"
  proof (cases "ap_captured m = None")
    case True
    have "e = with_fields [(''combatReady'', JBool True), (''hitChance'', JInt 1), (''enemyValue'', JInt 0), (''enemyPersistentValue'', JInt 0),
        (''doctrineBonusCp'', JInt (combatDoctrineBonusForMove doctrine (Some (engine_move_of m))))] v"
      using assms moves m st cl True unfolding v_def after_def annotate_one_def Let_def
      by (simp only: option.map option.inject option.case if_True if_False simp_thms split: if_split_asm)
    then show ?thesis by (rule that) simp
  next
    case False
    then obtain f where f: "measuredCombatCapture api fen reg m focus = Some f" using cap by auto
    have "e = with_fields [(''combatReady'', JBool True), (''hitChance'', JNum (Fin (cf_hitChance f))), (''enemyValue'', JNum (Fin (cf_enemyValue f))),
        (''enemyPersistentValue'', JInt (cf_enemyPersistentValue f)),
        (''doctrineBonusCp'', JInt (combatDoctrineBonusForMove doctrine (Some (engine_move_of m))))] v"
      using assms moves m st cl False f unfolding v_def after_def annotate_one_def Let_def
      by (simp only: option.map option.inject option.case if_True if_False simp_thms split: if_split_asm)
    then show ?thesis by (rule that) simp
  qed
  have vk: "field k v = field k c" if "k \<noteq> ''isMate''" for k
    using that fields_kept [OF t, of k] by (auto simp: v_def split: option.split)
  then have "truthy (field ''from'' v)" using t by simp
  note ek = fields_kept [OF this]
  have "field ''from'' e = field ''from'' c" "field ''to'' e = field ''to'' c" "field ''isMate'' e = field ''isMate'' v"
    using ek [of "''from''" new] ek [of "''to''" new] ek [of "''isMate''" new] vk [of "''from''"] vk [of "''to''"] e by auto
  moreover have "mates api chess m" if "field ''isMate'' v = JBool True"
  proof -
    have c: "field ''isMate'' c = JBool True" using that by (auto simp: v_def field_set split: option.splits if_splits)
    then obtain a b where "after = Some (a, b)" using cl by auto
    then show ?thesis using that c by (auto simp: mates_def after_def v_def field_set)
  qed
  moreover have "shown_on_board api fen chess reg focus c m"
    using moves m st cap by (auto simp: shown_on_board_def find_Some_iff)
  ultimately show ?thesis by auto
qed

lemma those_member: "those xs = Some ys \<Longrightarrow> y \<in> set ys \<Longrightarrow> Some y \<in> set xs"
  by (induction xs arbitrary: ys) (auto split: option.splits)

lemma ranked_from: "r \<in> set (rankCombatCandidates collate (JArr cs) opts) \<Longrightarrow> rk_candidate r \<in> set cs"
  by (auto simp: rankCombatCandidates_def Let_def legal_candidates_def near_best_def split: if_splits)

lemma chosen_fields:
  assumes "k \<noteq> ''combatUtility''" "k \<noteq> ''chessLossCp''" "truthy (field ''from'' (rk_candidate r))"
  shows "field k (chosen_json r) = field k (rk_candidate r)"
  using assms fields_kept [OF assms(3), of k] by (simp add: chosen_json_def)

text \<open>C9: A candidate of an answer whose candidates carry no \<open>combatReady\<close> mark of their own displaces the answer only with
  facts checked on the board (a mark the server sent itself would be trusted, lemma \<open>own_mark_is_trusted\<close>): whatever is suggested instead of its answer is one of its candidates, names a legal move of the position, made
  by a piece the registry has on that square, with measured odds if it captures, and if it claims to mate then playing
  it gives mate.\<close>

theorem override_is_verified:
  assumes "annotateCombatCandidates api fen registry answer focus doctrine = Some measured"
    "selectCombatAwareRemoteSuggestion collate measured \<noteq> measured"
    "\<forall>c\<in>set (elements (field ''candidates'' answer)). field ''combatReady'' c \<noteq> JBool True"
  shows "\<exists>reg chess c m. registry = Some reg \<and> ch_new api fen = Some chess \<and> c \<in> set (elements (field ''candidates'' answer)) \<and>
    shown_on_board api fen chess reg focus c m \<and>
    field ''from'' (selectCombatAwareRemoteSuggestion collate measured) = field ''from'' c \<and>
    field ''to'' (selectCombatAwareRemoteSuggestion collate measured) = field ''to'' c \<and>
    (field ''isMate'' (selectCombatAwareRemoteSuggestion collate measured) = JBool True \<longrightarrow> mates api chess m)"
proof -
  let ?ready = "filter (\<lambda>c. field ''combatReady'' c = JBool True) (elements (field ''candidates'' measured))"
  from assms(2) obtain r where r: "chooseCombatCandidate collate (JArr ?ready) (JObj []) = Some r"
    "selectCombatAwareRemoteSuggestion collate measured = chosen_json r"
    by (auto simp: selectCombatAwareRemoteSuggestion_def Let_def split: option.splits if_splits)
  then have e: "rk_candidate r \<in> set (elements (field ''candidates'' measured))" "field ''combatReady'' (rk_candidate r) = JBool True"
    using ranked_from [OF chosen_in [OF r(1)]] by auto
  have "measured \<noteq> answer" using e assms(3) by auto
  then obtain reg chess enriched where d: "registry = Some reg" "ch_new api fen = Some chess"
    "those (map (annotate_one api fen chess reg focus doctrine) (elements (field ''candidates'' answer))) = Some enriched"
    "measured = with_fields [(''candidates'', JArr enriched)] answer"
    using assms(1) by (auto simp: annotateCombatCandidates_def Let_def split: option.splits if_splits)
  then have "rk_candidate r \<in> set enriched" using e(1) by (simp add: field_set)
  from those_member [OF d(3) this] obtain c where c: "c \<in> set (elements (field ''candidates'' answer))"
    "annotate_one api fen chess reg focus doctrine c = Some (rk_candidate r)" by auto
  with assms(3) have nc: "field ''combatReady'' c \<noteq> JBool True" by blast
  from annotate_ready [OF c(2) nc e(2)] obtain m where m: "shown_on_board api fen chess reg focus c m"
    "field ''from'' (rk_candidate r) = field ''from'' c" "field ''to'' (rk_candidate r) = field ''to'' c"
    "field ''isMate'' (rk_candidate r) = JBool True \<longrightarrow> mates api chess m" by blast
  have "truthy (field ''from'' c)" using c(2) nc e(2) by (auto simp: annotate_one_def split: if_splits)
  then have t: "truthy (field ''from'' (rk_candidate r))" using m(2) by simp
  have "field ''from'' (chosen_json r) = field ''from'' (rk_candidate r)" "field ''to'' (chosen_json r) = field ''to'' (rk_candidate r)"
    "field ''isMate'' (chosen_json r) = field ''isMate'' (rk_candidate r)"
    by (rule chosen_fields [OF _ _ t]; simp)+
  then show ?thesis using d(1,2) c(1) m unfolding r(2) by metis
qed

section \<open>A position with two moves\<close>

text \<open>A knight move, and a rook move that mates.\<close>

definition knight_move :: applied where
  "knight_move = \<lparr>ap_from = ''b1'', ap_to = ''c3'', ap_flags = ''n'', ap_color = White, ap_piece = Knight, ap_captured = None,
     ap_promotion = None, ap_san = ''Nc3''\<rparr>"

definition rook_move :: applied where
  "rook_move = \<lparr>ap_from = ''a1'', ap_to = ''a8'', ap_flags = ''n'', ap_color = White, ap_piece = Rook, ap_captured = None,
     ap_promotion = None, ap_san = ''Ra8#''\<rparr>"

definition two_moves :: "nat chess_api" where
  "two_moves =
     \<lparr>ch_new = (\<lambda>fen. if fen = ''start'' then Some 0 else None), ch_fen = (\<lambda>_. ''other''), ch_turn = (\<lambda>_. White), ch_inCheck = (\<lambda>c. c = 2),
      ch_isCheckmate = (\<lambda>c. c = 2),
      ch_move = (\<lambda>f t _ c. if c = 0 \<and> f = ''b1'' \<and> t = ''c3'' then Some (knight_move, 1)
                            else if c = 0 \<and> f = ''a1'' \<and> t = ''a8'' then Some (rook_move, 2) else None),
      ch_moves = (\<lambda>c. if c = 0 then [knight_move, rook_move] else []),
      ch_moves_from = (\<lambda>square c. if c = 0 then filter (\<lambda>m. ap_from m = square) [knight_move, rook_move] else []),
      ch_board = (\<lambda>_. []), ch_get = (\<lambda>_ _. None), ch_put = (\<lambda>_ _ _ _. None), ch_remove = (\<lambda>_ c. c)\<rparr>"

lemma two_moves_playable: "playable two_moves 0"
  by (simp add: playable_def two_moves_def knight_move_def rook_move_def)

theorem cpu_turn_never_blocks_witness:
  "\<exists>t. resolveCombatCpuTurnSuggestion (\<lambda>_ _. True) two_moves ''start'' (Inl (js_error ''offline'')) None (\<lambda>_. None) None = Inr t \<and>
     isLegalCombatCpuSuggestion two_moves ''start'' (tu_suggestion t) \<and> tu_remoteError t = js_error ''offline''"
proof -
  have "ch_new two_moves ''start'' = Some 0" "ch_moves two_moves 0 \<noteq> []" by (simp_all add: two_moves_def)
  from cpu_turn_never_blocks [OF _ this(1) two_moves_playable this(2), of "\<lambda>_ _. True" "Inl (js_error ''offline'')" None "\<lambda>_. None" None]
  show ?thesis by auto
qed

theorem fallback_plays_mate_witness:
  "\<exists>m. mates two_moves 0 m \<and>
     emergencyCombatCpuSuggestion (\<lambda>_ _. True) two_moves ''start'' None (\<lambda>_. None) None = Some (suggestion_of m)"
proof -
  have "ch_new two_moves ''start'' = Some 0" "rook_move \<in> set (ch_moves two_moves 0)" "mates two_moves 0 rook_move"
    by (simp_all add: two_moves_def mates_def rook_move_def knight_move_def)
  from fallback_plays_mate [OF this(1) two_moves_playable this(2,3)] show ?thesis by blast
qed

text \<open>The server's own move is the knight's; its second candidate claims a mate, which the board confirms.\<close>

definition served :: json where
  "served = JObj [(''from'', JStr ''b1''), (''to'', JStr ''c3''), (''candidates'', JArr
     [JObj [(''from'', JStr ''b1''), (''to'', JStr ''c3'')],
      JObj [(''from'', JStr ''a1''), (''to'', JStr ''a8''), (''isMate'', JBool True)]])]"

definition two_pieces :: registry where
  "two_pieces = [(''b1'', fresh_piece ''w-n-b1'' Knight White ''b1''), (''a1'', fresh_piece ''w-r-a1'' Rook White ''a1'')]"

lemma served_annotated:
  "annotateCombatCandidates two_moves ''start'' (Some two_pieces) served (\<lambda>_. None) None =
     Some (JObj [(''from'', JStr ''b1''), (''to'', JStr ''c3''), (''candidates'', JArr
       [JObj [(''from'', JStr ''b1''), (''to'', JStr ''c3''), (''combatReady'', JBool True), (''hitChance'', JInt 1), (''enemyValue'', JInt 0),
          (''enemyPersistentValue'', JInt 0), (''doctrineBonusCp'', JInt 0)],
        JObj [(''from'', JStr ''a1''), (''to'', JStr ''a8''), (''isMate'', JBool True), (''combatReady'', JBool True), (''hitChance'', JInt 1),
          (''enemyValue'', JInt 0), (''enemyPersistentValue'', JInt 0), (''doctrineBonusCp'', JInt 0)]])])"
  by (simp add: annotateCombatCandidates_def served_def annotate_one_def two_moves_def two_pieces_def moves_from_def fits_def
      asked_promotion_def standing_def pieceSquareMatches_def fresh_piece_def knight_move_def rook_move_def truthy_def with_fields_def
      combatDoctrineBonusForMove_def Let_def)

theorem override_is_verified_witness:
  "\<exists>m. shown_on_board two_moves ''start'' 0 two_pieces (\<lambda>_. None) (JObj [(''from'', JStr ''a1''), (''to'', JStr ''a8''), (''isMate'', JBool True)]) m \<and>
     mates two_moves 0 m"
proof -
  obtain measured where m: "annotateCombatCandidates two_moves ''start'' (Some two_pieces) served (\<lambda>_. None) None = Some measured"
    "selectCombatAwareRemoteSuggestion (\<lambda>_ _. True) measured =
       JObj [(''from'', JStr ''a1''), (''to'', JStr ''a8''), (''isMate'', JBool True), (''combatReady'', JBool True), (''hitChance'', JInt 1),
          (''enemyValue'', JInt 0), (''enemyPersistentValue'', JInt 0), (''doctrineBonusCp'', JInt 0)]"
    "field ''candidates'' measured \<noteq> JUndef"
    by (rule that, rule served_annotated)
      (simp_all add: selectCombatAwareRemoteSuggestion_def sameCombatMove_def truthy_def strict_eq_def is_object_def or_else_json_def Let_def
        chooseCombatCandidate_def rankCombatCandidates_def legal_candidates_def chosen_json_def sort_stable_def)
  have "selectCombatAwareRemoteSuggestion (\<lambda>_ _. True) measured \<noteq> measured" using m(3) unfolding m(2) by auto
  moreover have "\<forall>c\<in>set (elements (field ''candidates'' served)). field ''combatReady'' c \<noteq> JBool True" by (simp add: served_def)
  ultimately show ?thesis using override_is_verified [OF m(1), of "\<lambda>_ _. True"] unfolding m(2)
    by (auto simp: served_def two_moves_def)
qed

text \<open>A mark that comes with the answer is kept: the registry knows no piece of this battle, nothing was checked, and the
  marked candidate with its claim of mate displaces the move of the server all the same.\<close>

lemma own_mark_is_trusted:
  "annotateCombatCandidates two_moves ''start'' (Some []) answer (\<lambda>_. None) None = Some answer \<and>
   field ''from'' (selectCombatAwareRemoteSuggestion (\<lambda>_ _. True) answer) = JStr ''b1'' \<and> field ''from'' answer = JStr ''a1''"
  if "answer = JObj [(''from'', JStr ''a1''), (''to'', JStr ''a8''), (''candidates'', JArr
       [JObj [(''from'', JStr ''a1''), (''to'', JStr ''a8''), (''combatReady'', JBool True)],
        JObj [(''from'', JStr ''b1''), (''to'', JStr ''c3''), (''combatReady'', JBool True), (''isMate'', JBool True)]])]"
  unfolding that
  by (simp add: annotateCombatCandidates_def annotate_one_def two_moves_def moves_from_def fits_def asked_promotion_def standing_def
      knight_move_def rook_move_def truthy_def with_fields_def Let_def selectCombatAwareRemoteSuggestion_def sameCombatMove_def strict_eq_def
      is_object_def or_else_json_def chooseCombatCandidate_def rankCombatCandidates_def legal_candidates_def chosen_json_def sort_stable_def)

end
