(* ===== verification/Connection.thy ===== *)
theory Connection
  imports JsArith
begin

text \<open>
  Staying in touch with the server: the presence of a tab (\<open>presenceLifecycle.js\<close>, \<open>presenceCadence.js\<close>), polling while
  the page can be seen (\<open>visiblePolling.js\<close>), when a match must be read again (\<open>pvpMatchPolling.js\<close>), the delay before a
  new attempt (\<open>gameReconnectBackoff.js\<close>), what to reconnect to (\<open>gameReconnect.js\<close>), leaving (\<open>logoutLifecycle.js\<close>) and
  work that is dropped once nobody waits for it (\<open>asyncLifecycle.js\<close>).

  The platform's events are a type; a lifecycle is the state of its timers and listeners, a step for each event, and
  what the step sends. A timer that was cleared and a listener that was removed no longer call.
\<close>

section \<open>Presence\<close>

definition PRESENCE_HEARTBEAT_MS :: int where "PRESENCE_HEARTBEAT_MS = 120000"
definition BACKGROUND_REPORT_DELAY_MS :: int where "BACKGROUND_REPORT_DELAY_MS = 500"

text \<open>What is sent: \<open>touch(activity, foreground)\<close> and \<open>leave()\<close>.\<close>

datatype sent = Touch "bool option" | Leave

datatype page_event = VisibilityChange "string option" | PageHide | PageShow | BackgroundFires | HeartbeatFires | Unbind

record presence =
  pr_visibility :: "string option"
  pr_bound :: bool
  pr_background :: bool
  pr_heartbeat :: bool

definition foreground :: "presence \<Rightarrow> bool option" where
  "foreground p = map_option (\<lambda>v. v = ''visible'') (pr_visibility p)"

definition visible :: "presence \<Rightarrow> bool" where
  "visible p \<longleftrightarrow> pr_visibility p = Some ''visible''"

definition startHeartbeat :: "presence \<Rightarrow> presence" where
  "startHeartbeat p = (if pr_heartbeat p \<or> \<not> visible p then p else p\<lparr>pr_heartbeat := True\<rparr>)"

definition bindPresenceLifecycle :: "string option \<Rightarrow> presence \<times> sent list" where
  "bindPresenceLifecycle visibility =
     (let p = \<lparr>pr_visibility = visibility, pr_bound = True, pr_background = False, pr_heartbeat = False\<rparr>
      in (startHeartbeat p, [Touch (foreground p)]))"

definition onVisibility :: "presence \<Rightarrow> presence \<times> sent list" where
  "onVisibility p =
     (let p = p\<lparr>pr_background := False\<rparr> in
      if visible p then (startHeartbeat p, [Touch (Some True)])
      else (p\<lparr>pr_heartbeat := False, pr_background := True\<rparr>, []))"

fun presence_step :: "page_event \<Rightarrow> presence \<Rightarrow> presence \<times> sent list" where
  "presence_step (VisibilityChange v) p =
     (let p = p\<lparr>pr_visibility := v\<rparr> in if pr_bound p then onVisibility p else (p, []))"
| "presence_step PageHide p = (if pr_bound p then (p\<lparr>pr_background := False, pr_heartbeat := False\<rparr>, [Leave]) else (p, []))"
| "presence_step PageShow p = (if pr_bound p \<and> visible p then (startHeartbeat p, [Touch (Some True)]) else (p, []))"
| "presence_step BackgroundFires p = (if pr_background p then (p\<lparr>pr_background := False\<rparr>, [Touch (Some False)]) else (p, []))"
| "presence_step HeartbeatFires p = (p, if pr_heartbeat p then [Touch (Some True)] else [])"
| "presence_step Unbind p = (p\<lparr>pr_bound := False, pr_background := False, pr_heartbeat := False\<rparr>, [])"

text \<open>The states a lifecycle can be in, from any visibility at the start.\<close>

inductive presence_reach :: "presence \<Rightarrow> bool" where
  presence_bound: "presence_reach (fst (bindPresenceLifecycle v))"
| presence_next: "presence_reach p \<Longrightarrow> presence_reach (fst (presence_step e p))"

fun presence_run :: "page_event list \<Rightarrow> presence \<Rightarrow> sent list" where
  "presence_run [] p = []"
| "presence_run (e # es) p = snd (presence_step e p) @ presence_run es (fst (presence_step e p))"

section \<open>Polling while the page can be seen\<close>

datatype poll_event = Visibility string | IntervalFires | StopPolling

record polling =
  po_hidden :: bool
  po_timer :: bool
  po_listening :: bool

definition startPolling :: "polling \<Rightarrow> polling" where
  "startPolling p = (if po_timer p \<or> po_hidden p then p else p\<lparr>po_timer := True\<rparr>)"

text \<open>The visibility is \<open>None\<close> without a document. The number is how often \<open>refresh\<close> is called.\<close>

definition startVisiblePolling :: "string option \<Rightarrow> polling \<times> nat" where
  "startVisiblePolling visibility =
     (let hidden = (visibility = Some ''hidden'');
          p = \<lparr>po_hidden = hidden, po_timer = False, po_listening = (visibility \<noteq> None)\<rparr>
      in if hidden then (p, 0) else (startPolling p, 1))"

fun poll_step :: "poll_event \<Rightarrow> polling \<Rightarrow> polling \<times> nat" where
  "poll_step (Visibility v) p =
     (let p = p\<lparr>po_hidden := (v = ''hidden'')\<rparr> in
      if \<not> po_listening p then (p, 0)
      else if po_hidden p then (p\<lparr>po_timer := False\<rparr>, 0) else (startPolling p, 1))"
| "poll_step IntervalFires p = (p, if po_timer p then 1 else 0)"
| "poll_step StopPolling p = (p\<lparr>po_timer := False, po_listening := False\<rparr>, 0)"

inductive poll_reach :: "string option \<Rightarrow> polling \<Rightarrow> bool" for start :: "string option" where
  poll_started: "poll_reach start (fst (startVisiblePolling start))"
| poll_next: "poll_reach start p \<Longrightarrow> poll_reach start (fst (poll_step e p))"

section \<open>Reading a match again\<close>

definition PVP_MATCH_FULL_RECONCILE_MS :: int where "PVP_MATCH_FULL_RECONCILE_MS = 15000"
definition PVP_MATCH_LEGACY_RECONCILE_MS :: int where "PVP_MATCH_LEGACY_RECONCILE_MS = 3000"

record pulse =
  pu_currentRevision :: json
  pu_pulseRevision :: json
  pu_currentOpponentPresence :: json
  pu_pulseOpponentPresence :: json
  pu_lifecycleDue :: bool
  pu_lastFullAt :: json
  pu_nowMs :: jsnum
  pu_reconcileMs :: jsnum

definition missing :: "json \<Rightarrow> bool" where "missing v \<longleftrightarrow> v = JNull \<or> v = JUndef"

definition num_eq :: "jsnum \<Rightarrow> jsnum \<Rightarrow> bool" where "num_eq a b \<longleftrightarrow> a = b \<and> a \<noteq> NaN"

definition pvpMatchPulseNeedsFullRefresh :: "pulse \<Rightarrow> bool" where
  "pvpMatchPulseNeedsFullRefresh p =
     (if pu_lifecycleDue p \<or> missing (pu_pulseRevision p) then True
      else if \<not> num_eq (json_number (pu_pulseRevision p)) (json_number (pu_currentRevision p)) then True
      else if \<not> truthy (pu_lastFullAt p) then True
      else let elapsed = num_minus (pu_nowMs p) (json_number (pu_lastFullAt p));
               hasPresenceHint = (\<not> missing (pu_pulseOpponentPresence p) \<and> \<not> missing (pu_currentOpponentPresence p))
           in if \<not> hasPresenceHint then num_le (num_min (pu_reconcileMs p) (Fin (of_int PVP_MATCH_LEGACY_RECONCILE_MS))) elapsed
              else if json_string (pu_pulseOpponentPresence p) \<noteq> json_string (pu_currentOpponentPresence p) then True
              else num_le (pu_reconcileMs p) elapsed)"

section \<open>The delay before a new attempt\<close>

definition RECONNECT_AUTO_RETRY_LIMIT :: int where "RECONNECT_AUTO_RETRY_LIMIT = 10"
definition RECONNECT_BACKOFF_BASE_MS :: rat where "RECONNECT_BACKOFF_BASE_MS = 1000"
definition RECONNECT_BACKOFF_MAX_MS :: rat where "RECONNECT_BACKOFF_MAX_MS = 30000"
definition RECONNECT_BACKOFF_JITTER :: rat where "RECONNECT_BACKOFF_JITTER = fl (1 / 5)"

text \<open>\<open>2 ** n\<close> of a number that is not negative: exact, or infinite from \<open>2 ^ 1024\<close> on.\<close>

definition two_to :: "jsnum \<Rightarrow> jsnum" where
  "two_to n = (case n of Fin q \<Rightarrow> if \<lfloor>q\<rfloor> < 1024 then Fin (2 ^ nat \<lfloor>q\<rfloor>) else PInf | _ \<Rightarrow> PInf)"

definition num_floor :: "jsnum \<Rightarrow> jsnum" where
  "num_floor n = (case n of Fin q \<Rightarrow> Fin (of_int \<lfloor>q\<rfloor>) | _ \<Rightarrow> n)"

text \<open>\<open>Number(v) || d\<close>.\<close>

definition number_or :: "rat \<Rightarrow> json \<Rightarrow> jsnum" where
  "number_or d v = (if truthy (JNum (json_number v)) then json_number v else Fin d)"

definition reconnectBackoffDelayMs :: "json \<Rightarrow> json \<Rightarrow> json \<Rightarrow> json \<Rightarrow> json \<Rightarrow> jsnum" where
  "reconnectBackoffDelayMs attempt random baseMs maxMs jitter =
     (let safeAttempt = num_max (Fin 0) (num_floor (number_or 0 attempt));
          raw = num_min (num_max (Fin 1) (number_or RECONNECT_BACKOFF_MAX_MS maxMs))
                  (num_times (num_max (Fin 1) (number_or RECONNECT_BACKOFF_BASE_MS baseMs)) (two_to safeAttempt));
          safeJitter = num_max (Fin 0) (num_min (Fin (1 / 2)) (number_or 0 jitter));
          sample = num_max (Fin 0) (num_min (Fin 1) (number_or 0 random));
          factor = num_plus (Fin 1) (num_times (num_minus (num_times sample (Fin 2)) (Fin 1)) safeJitter)
      in num_max (Fin 1) (num_round (num_times raw factor)))"

section \<open>What to reconnect to\<close>

definition reconnectTarget :: "json \<Rightarrow> json \<Rightarrow> json \<Rightarrow> json \<Rightarrow> (string \<times> json) option" where
  "reconnectTarget route game tournamentGame savedSession =
     (let target = (\<lambda>r held.
        let gameId = or_else_json (field ''id'' held)
              (if field ''route'' savedSession = JStr r then field ''gameId'' savedSession else JNull)
        in if truthy gameId then Some (r, gameId) else None)
      in if route = JStr ''game'' then target ''game'' game
         else if route = JStr ''tournamentGame'' then target ''tournamentGame'' tournamentGame else None)"

record reconnected =
  rc_ok :: bool
  rc_reason :: string
  rc_game :: json
  rc_error :: json

text \<open>\<open>response\<close> is what \<open>getGame\<close> answers, or what it throws.\<close>

definition fetchReconnectGame :: "json \<Rightarrow> bool \<Rightarrow> json + json \<Rightarrow> reconnected" where
  "fetchReconnectGame gameId callable response =
     (if \<not> truthy gameId \<or> \<not> callable then \<lparr>rc_ok = False, rc_reason = ''invalid-target'', rc_game = JNull, rc_error = JNull\<rparr>
      else case response of
             Inl error \<Rightarrow> \<lparr>rc_ok = False, rc_reason = ''request-failed'', rc_game = JNull, rc_error = error\<rparr>
           | Inr game \<Rightarrow>
               if \<not> truthy game \<or> \<not> strict_eq (field ''id'' game) gameId
               then \<lparr>rc_ok = False, rc_reason = ''invalid-response'', rc_game = JNull, rc_error = JNull\<rparr>
               else \<lparr>rc_ok = True, rc_reason = ''recovered'', rc_game = game, rc_error = JNull\<rparr>)"

section \<open>Leaving\<close>

datatype farewell = ClosePresence | SaveProfile | ClearSession | RestorePresence

text \<open>\<open>save\<close> is the error of saving, \<open>clear n\<close> the one of the \<open>n\<close>-th time the session is cleared. A failure to close or
  to restore the presence changes nothing.\<close>

definition runLogoutLifecycle :: "json option \<Rightarrow> (nat \<Rightarrow> json option) \<Rightarrow> farewell list \<times> (json + string)" where
  "runLogoutLifecycle save clear =
     (let failed = (\<lambda>acts error k.
        if field ''status'' error = JInt 401
        then (acts @ [ClearSession], case clear k of None \<Rightarrow> Inr ''unauthorized'' | Some e \<Rightarrow> Inl e)
        else (acts @ [RestorePresence], Inl error))
      in case save of
           Some error \<Rightarrow> failed [ClosePresence, SaveProfile] error 0
         | None \<Rightarrow>
             (case clear 0 of
                None \<Rightarrow> ([ClosePresence, SaveProfile, ClearSession], Inr ''saved'')
              | Some error \<Rightarrow> failed [ClosePresence, SaveProfile, ClearSession] error 1))"

section \<open>Work nobody waits for\<close>

datatype 'a guard_call = Commit 'a | Dispose

text \<open>The values committed by a guard, in order: those before it is disposed of.\<close>

fun createAsyncCommitGuard :: "bool \<Rightarrow> 'a guard_call list \<Rightarrow> 'a list" where
  "createAsyncCommitGuard active [] = []"
| "createAsyncCommitGuard active (Commit a # calls) = (if active then a # createAsyncCommitGuard active calls else createAsyncCommitGuard active calls)"
| "createAsyncCommitGuard active (Dispose # calls) = createAsyncCommitGuard False calls"

end
