(* ===== verification/ConnectionProps.thy ===== *)
theory ConnectionProps
  imports Connection OpponentRating AdaptiveDifficulty
begin

text \<open>
  What the lifecycles guarantee: a tab says it is in the foreground only while it can be seen and nothing once it is
  unbound, polling stops with the page, and the delay before a new attempt is bounded and grows.
\<close>

section \<open>Presence\<close>

definition presence_sound_at :: "presence \<Rightarrow> bool" where
  "presence_sound_at p \<longleftrightarrow>
     (pr_heartbeat p \<longrightarrow> pr_bound p \<and> visible p) \<and> (pr_background p \<longrightarrow> pr_bound p \<and> \<not> visible p)"

lemma presence_sound_step: "presence_sound_at p \<Longrightarrow> presence_sound_at (fst (presence_step e p))"
  by (cases e) (auto simp: presence_sound_at_def onVisibility_def startHeartbeat_def visible_def Let_def)

lemma presence_reach_sound: "presence_reach p \<Longrightarrow> presence_sound_at p"
proof (induction rule: presence_reach.induct)
  case (presence_bound v)
  show ?case by (simp add: presence_sound_at_def bindPresenceLifecycle_def startHeartbeat_def visible_def Let_def)
qed (rule presence_sound_step)

lemma presence_truthful:
  "presence_sound_at p \<Longrightarrow> Touch b \<in> set (snd (presence_step e p)) \<Longrightarrow> b = Some (visible (fst (presence_step e p)))"
  by (cases e) (auto simp: presence_sound_at_def onVisibility_def startHeartbeat_def visible_def Let_def split: if_splits)

lemma presence_quiet:
  assumes "\<not> pr_heartbeat p" "\<not> pr_background p" "\<forall>e\<in>set es. e = HeartbeatFires \<or> e = BackgroundFires"
  shows "presence_run es p = []"
  using assms(3) by (induction es) (use assms(1,2) in auto)

lemma presence_unbound: "presence_sound_at p \<Longrightarrow> \<not> pr_bound p \<Longrightarrow> presence_run es p = []"
proof (induction es arbitrary: p)
  case (Cons e es)
  have "snd (presence_step e p) = []" "\<not> pr_bound (fst (presence_step e p))"
    using Cons.prems by (cases e; auto simp: presence_sound_at_def Let_def)+
  then show ?case using Cons.IH [OF presence_sound_step [OF Cons.prems(1)]] by simp
qed simp

text \<open>C38: Presence never lies: a new lifecycle sends exactly one report, which says whether the page can be seen (nothing is
  said of it where there is no document); in every state a tab can reach, the heartbeat runs only while the page can be seen
  and the report of the background is pending only while it cannot, so both are never armed together; every later report says
  exactly whether the page can be seen; once the page is hidden away no timer sends anything until a page event comes (a later
  change to hidden arms the background report again); and once the lifecycle is unbound nothing is ever sent.\<close>

theorem presence_never_lies:
  assumes "presence_reach p"
  shows "snd (bindPresenceLifecycle v) = [Touch (case v of None \<Rightarrow> None | Some s \<Rightarrow> Some (s = ''visible''))] \<and>
    (pr_heartbeat p \<longrightarrow> pr_bound p \<and> visible p) \<and> (pr_background p \<longrightarrow> pr_bound p \<and> \<not> visible p) \<and>
    (\<forall>e b. Touch b \<in> set (snd (presence_step e p)) \<longrightarrow> b = Some (visible (fst (presence_step e p)))) \<and>
    (\<forall>es. set es \<subseteq> {HeartbeatFires, BackgroundFires} \<longrightarrow> presence_run es (fst (presence_step PageHide p)) = []) \<and>
    (\<forall>es. presence_run es (fst (presence_step Unbind p)) = [])"
proof -
  have s: "presence_sound_at p" using assms by (rule presence_reach_sound)
  have h: "\<not> pr_heartbeat (fst (presence_step PageHide p))" "\<not> pr_background (fst (presence_step PageHide p))"
    using s by (auto simp: presence_sound_at_def)
  have u: "\<not> pr_bound (fst (presence_step Unbind p))" by simp
  have "\<forall>es. set es \<subseteq> {HeartbeatFires, BackgroundFires} \<longrightarrow> presence_run es (fst (presence_step PageHide p)) = []"
    using presence_quiet [OF h] by blast
  moreover have "\<forall>es. presence_run es (fst (presence_step Unbind p)) = []"
    using presence_unbound [OF presence_sound_step [OF s] u] by blast
  moreover have "snd (bindPresenceLifecycle v) = [Touch (case v of None \<Rightarrow> None | Some s \<Rightarrow> Some (s = ''visible''))]"
    by (simp add: bindPresenceLifecycle_def foreground_def startHeartbeat_def Let_def split: option.split)
  ultimately show ?thesis using s presence_truthful [OF s] unfolding presence_sound_at_def by blast
qed

theorem presence_never_lies_witness:
  "snd (bindPresenceLifecycle (Some ''hidden'')) = [Touch (Some False)] \<and>
   presence_run [HeartbeatFires, BackgroundFires] (fst (presence_step PageHide (fst (presence_step (VisibilityChange (Some ''hidden''))
     (fst (bindPresenceLifecycle (Some ''visible'')))))) ) = []"
proof -
  have "presence_reach (fst (presence_step (VisibilityChange (Some ''hidden'')) (fst (bindPresenceLifecycle (Some ''visible'')))))"
    by (intro presence_next presence_bound)
  from presence_never_lies [OF this, of "Some ''hidden''"] show ?thesis by auto
qed

section \<open>Polling\<close>

lemma polling_sound:
  assumes "poll_reach (Some v) p"
  shows "(po_timer p \<longrightarrow> \<not> po_hidden p \<and> po_listening p) \<and>
    (snd (poll_step e p) \<noteq> 0 \<longrightarrow> \<not> po_hidden (fst (poll_step e p))) \<and> snd (poll_step e (fst (poll_step StopPolling p))) = 0"
proof -
  have i: "po_timer p \<longrightarrow> \<not> po_hidden p \<and> po_listening p"
    using assms
  proof (induction rule: poll_reach.induct)
    case poll_started
    show ?case by (simp add: startVisiblePolling_def startPolling_def Let_def)
  next
    case (poll_next p e)
    then show ?case by (cases e) (auto simp: startPolling_def Let_def)
  qed
  then show ?thesis by (cases e) (auto simp: startPolling_def Let_def)
qed

section \<open>Leaving\<close>

text \<open>The presence is closed first; the session is left exactly when it was cleared, and a tab that stays says so again.\<close>

lemma logout_exact:
  "runLogoutLifecycle save clear = (acts, result) \<Longrightarrow>
     hd acts = ClosePresence \<and> acts ! 1 = SaveProfile \<and>
     (result = Inr ''saved'' \<longleftrightarrow> save = None \<and> clear 0 = None) \<and>
     ((\<exists>r. result = Inr r) \<longrightarrow> last acts = ClearSession) \<and>
     (RestorePresence \<in> set acts \<longrightarrow> (\<exists>e. result = Inl e))"
  by (auto simp: runLogoutLifecycle_def Let_def split: option.splits if_splits)

section \<open>The delay before a new attempt\<close>

definition default_delay :: "json \<Rightarrow> json \<Rightarrow> jsnum" where
  "default_delay attempt random =
     reconnectBackoffDelayMs attempt random (JNum (Fin RECONNECT_BACKOFF_BASE_MS)) (JNum (Fin RECONNECT_BACKOFF_MAX_MS))
       (JNum (Fin RECONNECT_BACKOFF_JITTER))"

definition whole_attempt :: "json \<Rightarrow> jsnum" where
  "whole_attempt attempt = num_max (Fin 0) (num_floor (number_or 0 attempt))"

definition raw_delay :: "jsnum \<Rightarrow> jsnum" where
  "raw_delay n = num_min (Fin 30000) (num_times (Fin 1000) (two_to n))"

definition unit_sample :: "json \<Rightarrow> jsnum" where
  "unit_sample random = num_max (Fin 0) (num_min (Fin 1) (number_or 0 random))"

definition jitter_factor :: "rat \<Rightarrow> rat" where
  "jitter_factor s = fadd 1 (fmul (fsub (fmul s 2) 1) (fl (1 / 5)))"

lemma number_or_num: "number_or d v \<noteq> NaN"
  by (auto simp: number_or_def truthy_def split: jsnum.split)

lemma unit_sample_unit: "\<exists>s. unit_sample random = Fin s \<and> 0 \<le> s \<and> s \<le> 1"
  using number_or_num [of 0 random]
  by (cases "number_or 0 random") (auto simp: unit_sample_def num_min_def num_max_def num_neg_def)

lemma whole_attempt_cases: "whole_attempt attempt = PInf \<or> (\<exists>n. whole_attempt attempt = Fin (of_int n) \<and> 0 \<le> n)"
  using number_or_num [of 0 attempt]
  by (cases "number_or 0 attempt") (auto simp: whole_attempt_def num_max_def num_floor_def max_def)

text \<open>The exact delay, before the random part: it is bounded and grows with the attempt.\<close>

definition raw_of :: "jsnum \<Rightarrow> rat" where
  "raw_of n = (case n of Fin q \<Rightarrow> if \<lfloor>q\<rfloor> < 1024 then min 30000 (fmul 1000 (2 ^ nat \<lfloor>q\<rfloor>)) else 30000 | _ \<Rightarrow> 30000)"

lemma infinite_delay: "num_min (Fin p) PInf = Fin p" "num_times (Fin 1000) PInf = PInf"
  by (simp_all add: num_min_def num_neg_def num_max_def num_times_def num_sign_def num_infinity_def)

lemma raw_delay_of: "n \<noteq> NaN \<Longrightarrow> n \<noteq> NInf \<Longrightarrow> raw_delay n = Fin (raw_of n)"
  by (cases n) (simp_all add: raw_delay_def raw_of_def two_to_def infinite_delay)

lemma fl_1000: "fl 1000 = 1000"
  by code_simp

lemma raw_of_bounds: "1000 \<le> raw_of n \<and> raw_of n \<le> 30000"
proof -
  have "1000 \<le> fmul 1000 (2 ^ k)" for k :: nat
    using fl_mono [of 1000 "1000 * 2 ^ k"] fl_1000 by (simp add: fmul_def)
  then show ?thesis by (simp add: raw_of_def split: jsnum.split)
qed

lemma raw_of_mono: "i \<le> j \<Longrightarrow> raw_of (Fin (of_int i)) \<le> raw_of (Fin (of_int j))"
proof -
  assume ij: "i \<le> j"
  have "fmul 1000 (2 ^ nat i) \<le> fmul 1000 (2 ^ nat j)"
    unfolding fmul_def using ij by (intro fl_mono mult_left_mono power_increasing) auto
  then show ?thesis using ij raw_of_bounds [of "Fin (of_int i)"] by (auto simp: raw_of_def)
qed

text \<open>The jitter takes away or adds a fifth.\<close>

lemma jitter_bounds:
  assumes "0 \<le> s" "s \<le> 1"
  shows "7999 / 10000 \<le> jitter_factor s" "jitter_factor s \<le> 6 / 5 + 1 / 10 ^ 8"
proof -
  let ?j = "fl (1 / 5) :: rat"
  have j: "0 \<le> ?j" "?j \<le> 1 / 5 + 1 / 10 ^ 9" unfolding fl_fifth by simp_all
  have "fmul s 2 \<le> fl 2" "0 \<le> fmul s 2" using assms fl_mono [of "s * 2" 2] fl_nonneg [of "s * 2"] by (simp_all add: fmul_def)
  moreover have "fl 2 = 2" "fl (- 1) = - 1" "fl 1 = 1" by code_simp+
  ultimately have t: "- 1 \<le> fsub (fmul s 2) 1" "fsub (fmul s 2) 1 \<le> 1"
    using fl_mono [of "- 1" "fmul s 2 - 1"] fl_mono [of "fmul s 2 - 1" 1] by (simp_all add: fsub_def)
  have "- ?j \<le> fsub (fmul s 2) 1 * ?j" "fsub (fmul s 2) 1 * ?j \<le> ?j"
    using mult_right_mono [OF t(1) j(1)] mult_right_mono [OF t(2) j(1)] by simp_all
  from this [THEN fl_mono] have u: "- ?j \<le> fmul (fsub (fmul s 2) 1) ?j" "fmul (fsub (fmul s 2) 1) ?j \<le> ?j"
    by (simp_all add: fmul_def)
  define e :: rat where "e = 1 / 10 ^ 9"
  define v where "v = fmul (fsub (fmul s 2) 1) ?j"
  have "\<bar>jitter_factor s - (1 + v)\<bar> \<le> e"
    unfolding jitter_factor_def fadd_def v_def e_def using u j by (intro fl_close) (simp add: abs_le_iff)
  moreover have "v \<le> 1 / 5 + e" "- 1 / 5 - e \<le> v" using u j(2) by (simp_all add: v_def e_def)
  ultimately have "4 / 5 - 2 * e \<le> jitter_factor s" "jitter_factor s \<le> 6 / 5 + 2 * e" by linarith+
  then show "7999 / 10000 \<le> jitter_factor s" "jitter_factor s \<le> 6 / 5 + 1 / 10 ^ 8" by (simp_all add: e_def)
qed

lemma delay_value:
  assumes "unit_sample random = Fin s" "0 \<le> s" "s \<le> 1" "n = whole_attempt attempt"
  shows "default_delay attempt random = num_max (Fin 1) (Fin (of_int (js_round (fmul (raw_of n) (jitter_factor s)))))"
proof -
  have n: "n \<noteq> NaN" "n \<noteq> NInf" using whole_attempt_cases [of attempt] assms(4) by auto
  have d: "num_max (Fin 1) (number_or RECONNECT_BACKOFF_MAX_MS (JNum (Fin RECONNECT_BACKOFF_MAX_MS))) = Fin 30000"
    "num_max (Fin 1) (number_or RECONNECT_BACKOFF_BASE_MS (JNum (Fin RECONNECT_BACKOFF_BASE_MS))) = Fin 1000"
    by (simp_all add: number_or_def truthy_def RECONNECT_BACKOFF_MAX_MS_def RECONNECT_BACKOFF_BASE_MS_def)
  have j: "num_max (Fin 0) (num_min (Fin (1 / 2)) (number_or 0 (JNum (Fin RECONNECT_BACKOFF_JITTER)))) = Fin (fl (1 / 5))"
    by (simp add: number_or_def truthy_def RECONNECT_BACKOFF_JITTER_def fl_fifth)
  show ?thesis
    unfolding default_delay_def reconnectBackoffDelayMs_def Let_def d j
      whole_attempt_def [symmetric] raw_delay_def [symmetric] unit_sample_def [symmetric] assms(1) assms(4) [symmetric] raw_delay_of [OF n]
    by (simp add: jitter_factor_def)
qed

lemma delay_bounds:
  assumes "0 \<le> s" "s \<le> 1"
  shows "800 \<le> js_round (fmul (raw_of n) (jitter_factor s))" "js_round (fmul (raw_of n) (jitter_factor s)) \<le> 36000"
proof -
  note r = raw_of_bounds [of n] and f = jitter_bounds [OF assms]
  have "1000 * (7999 / 10000) \<le> raw_of n * jitter_factor s" using r f by (intro mult_mono) simp_all
  from fl_mono [OF this] have lo: "fl (7999 / 10) \<le> fmul (raw_of n) (jitter_factor s)" by (simp add: fmul_def)
  have "raw_of n * jitter_factor s \<le> 30000 * (6 / 5 + 1 / 10 ^ 8)" using r f by (intro mult_mono) simp_all
  from fl_mono [OF this] have hi: "fmul (raw_of n) (jitter_factor s) \<le> fl (36000 + 3 / 10 ^ 4)" by (simp add: fmul_def)
  have "799 + 1 / 2 \<le> fl (7999 / 10)" "fl (36000 + 3 / 10 ^ 4) < 36000 + 1 / 2" by code_simp+
  then have "js_round (799 + 1 / 2) \<le> js_round (fmul (raw_of n) (jitter_factor s))"
    "fmul (raw_of n) (jitter_factor s) + 1 / 2 < 36001" using lo hi js_round_mono by simp_all
  moreover have "js_round (799 + 1 / 2) = 800" by code_simp
  ultimately show "800 \<le> js_round (fmul (raw_of n) (jitter_factor s))" "js_round (fmul (raw_of n) (jitter_factor s)) \<le> 36000"
    by (simp_all add: js_round_def floor_le_iff)
qed

text \<open>The client never hammers the server and never gives up for long: whatever is passed as the attempt and whatever the
  random source answers, the delay is a whole number of milliseconds from 800 to 36000, and for the same answer of the
  random source a later attempt never waits less.\<close>

theorem backoff_bounded:
  "(\<exists>d. default_delay attempt random = Fin (of_int d) \<and> 800 \<le> d \<and> d \<le> 36000) \<and>
   num_le (default_delay (JInt i) random) (default_delay (JInt (i + int k)) random)"
proof -
  obtain s where s: "unit_sample random = Fin s" "0 \<le> s" "s \<le> 1" using unit_sample_unit by blast
  have v: "default_delay a random = Fin (of_int (js_round (fmul (raw_of (whole_attempt a)) (jitter_factor s))))" for a
    using delay_value [OF s refl, of a] delay_bounds(1) [OF s(2,3), of "whole_attempt a"] by (simp add: max_def)
  have w: "whole_attempt (JInt j) = Fin (of_int (max 0 j))" for j
    by (cases "0 \<le> j") (simp_all add: whole_attempt_def number_or_def truthy_def num_floor_def)
  have "raw_of (whole_attempt (JInt i)) \<le> raw_of (whole_attempt (JInt (i + int k)))" unfolding w by (rule raw_of_mono) simp
  then have "fmul (raw_of (whole_attempt (JInt i))) (jitter_factor s) \<le> fmul (raw_of (whole_attempt (JInt (i + int k)))) (jitter_factor s)"
    using jitter_bounds(1) [OF s(2,3)] by (intro fmul_mono) simp_all
  then show ?thesis unfolding v using delay_bounds [OF s(2,3)] js_round_mono by auto
qed

end
