(* ===== verification/LabPosition.thy ===== *)
theory LabPosition
  imports CombatEngine JsonValues
begin

text \<open>
  The position laboratory: the text of a position and what makes it one that a game can have reached
  (\<open>labPosition.js\<close>), and the editor that draws it and starts the game (\<open>components/LabScreen.jsx\<close>).

  A board is the source's object from squares to pieces, in the order the squares were filled. chess.js is the argument
  \<open>api\<close>; \<open>lb_message\<close> is the message of the exception \<open>new Chess\<close> throws for a text, \<open>lb_start\<close> the text of a new game.
  chess.js writes a position as six fields; a field it did not write would be read as empty. Counts are natural
  numbers, so \<open>Math.max(0, n - 1)\<close> is \<open>n - 1\<close>.
\<close>

record 'c lab_api = "'c chess_api" +
  lb_message :: "string \<Rightarrow> string"
  lb_start :: string

type_synonym board_map = "(string, char) obj"

section \<open>Reading and writing the pieces\<close>

definition LAB_FILES :: string where "LAB_FILES = ''abcdefgh''"
definition LAB_RANKS :: string where "LAB_RANKS = ''87654321''"
definition PIECES :: string where "PIECES = ''prnbqkPRNBQK''"

definition step_digit :: "char \<Rightarrow> bool" where
  "step_digit c \<longleftrightarrow> is_digit c \<and> 1 \<le> digit_val c \<and> digit_val c \<le> 8"

text \<open>The inner loop: one row, from file \<open>f\<close>.\<close>

fun read_row :: "char \<Rightarrow> string \<Rightarrow> nat \<Rightarrow> board_map \<Rightarrow> (board_map \<times> nat) option" where
  "read_row rank [] f out = Some (out, f)"
| "read_row rank (ch # chs) f out =
     (if step_digit ch then read_row rank chs (f + nat (digit_val ch)) out
      else if ch \<notin> set PIECES \<or> 7 < f then None
      else read_row rank chs (f + 1) (obj_put [LAB_FILES ! f, rank] ch out))"

fun read_rows :: "(char \<times> string) list \<Rightarrow> board_map \<Rightarrow> board_map option" where
  "read_rows [] out = Some out"
| "read_rows ((rank, row) # rows) out =
     (case read_row rank row 0 out of
        None \<Rightarrow> None
      | Some (out, f) \<Rightarrow> if f \<noteq> 8 then None else read_rows rows out)"

definition mapFromPlacement :: "string \<Rightarrow> board_map option" where
  "mapFromPlacement fenOrPlacement =
     (let rows = split_on (CHR ''/'') (hd (blank_words fenOrPlacement))
      in if length rows \<noteq> 8 then None else read_rows (zip LAB_RANKS rows) [])"

definition write_square :: "board_map \<Rightarrow> char \<Rightarrow> char \<Rightarrow> string \<times> nat \<Rightarrow> string \<times> nat" where
  "write_square board rank file = (\<lambda>(out, gap).
     case obj_get board [file, rank] of
       None \<Rightarrow> (out, gap + 1)
     | Some v \<Rightarrow> ((if gap = 0 then out else out @ show_nat gap) @ [v], 0))"

definition write_row :: "board_map \<Rightarrow> char \<Rightarrow> string" where
  "write_row board rank =
     (case fold (write_square board rank) LAB_FILES ([], 0) of
        (out, gap) \<Rightarrow> if gap = 0 then out else out @ show_nat gap)"

definition placementFromMap :: "board_map \<Rightarrow> string" where
  "placementFromMap board = join_with ''/'' (map (write_row board) LAB_RANKS)"

section \<open>What a position must satisfy\<close>

definition is_upper :: "char \<Rightarrow> bool" where
  "is_upper c \<longleftrightarrow> 65 \<le> (of_char c :: nat) \<and> (of_char c :: nat) \<le> 90"

definition is_lower :: "char \<Rightarrow> bool" where
  "is_lower c \<longleftrightarrow> 97 \<le> (of_char c :: nat) \<and> (of_char c :: nat) \<le> 122"

definition own_piece :: "color \<Rightarrow> char \<Rightarrow> bool" where
  "own_piece color p = (case color of White \<Rightarrow> is_upper p | Black \<Rightarrow> is_lower p)"

definition countPieces :: "board_map \<Rightarrow> color \<Rightarrow> string" where
  "countPieces board color = filter (own_piece color) (obj_values board)"

text \<open>\<open>FILES.indexOf(sq[0])\<close> and \<open>Number(sq[1])\<close>.\<close>

definition file_of :: "string \<Rightarrow> int" where
  "file_of sq = (case find_index (\<lambda>c. c = sq ! 0) LAB_FILES of Some i \<Rightarrow> int i | None \<Rightarrow> -1)"

definition rank_of :: "string \<Rightarrow> int" where "rank_of sq = digit_val (sq ! 1)"

definition squareDistance_lab :: "string \<Rightarrow> string \<Rightarrow> int" where
  "squareDistance_lab a b = max \<bar>file_of a - file_of b\<bar> \<bar>rank_of a - rank_of b\<bar>"

definition is_own :: "color \<Rightarrow> char \<Rightarrow> string \<times> char \<Rightarrow> bool" where
  "is_own color t = (\<lambda>(_, piece). own_piece color piece \<and> lower_char piece = t)"

definition typeCount :: "board_map \<Rightarrow> color \<Rightarrow> char \<Rightarrow> nat" where
  "typeCount board color t = length (filter (is_own color t) board)"

definition parity :: "string \<Rightarrow> int" where "parity square = (file_of square + rank_of square) mod 2"

definition minimumPromotionsRequired :: "board_map \<Rightarrow> color \<Rightarrow> nat" where
  "minimumPromotionsRequired board color =
     (let required = (typeCount board color (CHR ''q'') - 1) + (typeCount board color (CHR ''r'') - 2)
            + (typeCount board color (CHR ''n'') - 2);
          bishopSquares = map fst (filter (is_own color (CHR ''b'')) board)
      in required + (length (filter (\<lambda>s. parity s = 0) bishopSquares) - 1)
           + (length (filter (\<lambda>s. parity s = 1) bishopSquares) - 1))"

definition unless_stands :: "board_map \<Rightarrow> string \<Rightarrow> char \<Rightarrow> (string \<times> char) list \<Rightarrow> string \<Rightarrow> string list" where
  "unless_stands board rights right needs message =
     (if right \<in> set rights \<and> \<not> (\<forall>(s, p) \<in> set needs. obj_get board s = Some p) then [message] else [])"

definition castlingErrors :: "board_map \<Rightarrow> string \<Rightarrow> string list" where
  "castlingErrors board castling =
     (let rights = (if castling = ''-'' then [] else castling) in
      unless_stands board rights (CHR ''K'') [(''e1'', CHR ''K''), (''h1'', CHR ''R'')] ''El enroque blanco corto exige rey en e1 y torre en h1.'' @
      unless_stands board rights (CHR ''Q'') [(''e1'', CHR ''K''), (''a1'', CHR ''R'')] ''El enroque blanco largo exige rey en e1 y torre en a1.'' @
      unless_stands board rights (CHR ''k'') [(''e8'', CHR ''k''), (''h8'', CHR ''r'')] ''El enroque negro corto exige rey en e8 y torre en h8.'' @
      unless_stands board rights (CHR ''q'') [(''e8'', CHR ''k''), (''a8'', CHR ''r'')] ''El enroque negro largo exige rey en e8 y torre en a8.'')"

definition ep_square :: "string \<Rightarrow> bool" where
  "ep_square ep \<longleftrightarrow> length ep = 2 \<and> ep ! 0 \<in> set LAB_FILES \<and> ep ! 1 \<in> {CHR ''3'', CHR ''6''}"

definition enPassantErrors :: "board_map \<Rightarrow> string \<Rightarrow> string \<Rightarrow> string list" where
  "enPassantErrors board turn ep =
     (if ep = [] \<or> ep = ''-'' then []
      else if \<not> ep_square ep then [(''La casilla en-passant s'' @ [CHR 0xF3] @ ''lo puede estar en la fila 3 o 6.'')]
      else let file = ep ! 0; rank = ep ! 1;
               pawnSq = [file, if turn = ''w'' then CHR ''5'' else CHR ''4''];
               originSq = [file, if turn = ''w'' then CHR ''7'' else CHR ''2''];
               expectedPawn = (if turn = ''w'' then CHR ''p'' else CHR ''P'')
           in if (turn = ''w'' \<and> rank \<noteq> CHR ''6'') \<or> (turn = ''b'' \<and> rank \<noteq> CHR ''3'')
              then [''La casilla en-passant no es compatible con el bando al turno.'']
              else if obj_get board ep \<noteq> None then [(''La casilla objetivo de en-passant debe estar vac'' @ [CHR 0xED] @ ''a.'')]
              else if obj_get board pawnSq \<noteq> Some expectedPawn
              then [(''El FEN declara en-passant pero no existe el pe'' @ [CHR 0xF3] @ ''n que acaba de avanzar dos casillas.'')]
              else if obj_get board originSq \<noteq> None
              then [(''El FEN declara en-passant pero la casilla de origen del doble avance no qued'' @ [CHR 0xF3] @ '' vac'' @ [CHR 0xED] @ ''a.'')]
              else [])"

section \<open>Reading a position\<close>

record lab_position =
  lp_map :: board_map
  lp_turn :: string
  lp_castling :: string
  lp_ep :: string
  lp_halfmove :: string
  lp_fullmove :: string
  lp_fen :: string

text \<open>\<open>s.split(/\s+/)\<close>: blanks at an end leave an empty word there.\<close>

definition blank_split :: "string \<Rightarrow> string list" where
  "blank_split s =
     (if s = [] then [[]]
      else (if is_blank (hd s) then [[]] else []) @ filter (\<lambda>w. w \<noteq> []) (blank_words s) @ (if is_blank (last s) then [[]] else []))"

definition field_at :: "string list \<Rightarrow> nat \<Rightarrow> string" where
  "field_at parts i = (case nth_opt parts i of Some s \<Rightarrow> s | None \<Rightarrow> [])"

text \<open>\<open>Inl\<close> is the message of the exception.\<close>

definition parseLabPosition :: "'c lab_api \<Rightarrow> string \<Rightarrow> string \<Rightarrow> string + lab_position" where
  "parseLabPosition api raw fallbackTurn =
     (let v = trim raw; parts = blank_words v in
      case mapFromPlacement v of
        None \<Rightarrow> Inl (''FEN/colocaci'' @ [CHR 0xF3] @ ''n inv'' @ [CHR 0xE1] @ ''lida'')
      | Some board \<Rightarrow>
          if 6 \<le> length parts then
            if length parts \<noteq> 6 then Inl ''Un FEN completo debe tener exactamente 6 campos.''
            else case ch_new api v of
                   None \<Rightarrow> Inl (lb_message api v)
                 | Some chess \<Rightarrow>
                     let normalized = ch_fen api chess; nf = blank_split normalized
                     in Inr \<lparr>lp_map = board, lp_turn = field_at nf 1, lp_castling = field_at nf 2, lp_ep = field_at nf 3,
                             lp_halfmove = field_at nf 4, lp_fullmove = field_at nf 5, lp_fen = normalized\<rparr>
          else if length parts \<noteq> 1 then Inl (''Pega un FEN completo de 6 campos o s'' @ [CHR 0xF3] @ ''lo la colocaci'' @ [CHR 0xF3] @ ''n de piezas.'')
          else let turn = (if fallbackTurn = ''b'' then ''b'' else ''w'');
                   fen = placementFromMap board @ '' '' @ turn @ '' - - 0 1''
               in case ch_new api fen of
                    None \<Rightarrow> Inl (lb_message api fen)
                  | Some _ \<Rightarrow> Inr \<lparr>lp_map = board, lp_turn = turn, lp_castling = ''-'', lp_ep = ''-'',
                                    lp_halfmove = ''0'', lp_fullmove = ''1'', lp_fen = fen\<rparr>)"

section \<open>Checking a position\<close>

record lab_verdict =
  lv_errors :: "string list"
  lv_parsed :: "lab_position option"

definition lv_valid :: "lab_verdict \<Rightarrow> bool" where "lv_valid v \<longleftrightarrow> lv_errors v = []"

definition error_if :: "bool \<Rightarrow> string \<Rightarrow> string list" where
  "error_if b message = (if b then [message] else [])"

definition pawn_on_edge :: "board_map \<Rightarrow> char \<Rightarrow> bool" where
  "pawn_on_edge board file \<longleftrightarrow>
     obj_get board [file, CHR ''1''] = Some (CHR ''P'') \<or> obj_get board [file, CHR ''8''] = Some (CHR ''P'') \<or>
     obj_get board [file, CHR ''1''] = Some (CHR ''p'') \<or> obj_get board [file, CHR ''8''] = Some (CHR ''p'')"

text \<open>The same position with the other side to move.\<close>

definition other_turn_fen :: "string \<Rightarrow> string \<Rightarrow> string" where
  "other_turn_fen fen turn =
     join_with '' '' (js_assign 3 ''-'' (js_assign 2 ''-'' (js_assign 1 (if turn = ''w'' then ''b'' else ''w'') (blank_split fen))))"

definition idle_king_errors :: "'c lab_api \<Rightarrow> string \<Rightarrow> string \<Rightarrow> string list" where
  "idle_king_errors api fen turn =
     (case ch_new api (other_turn_fen fen turn) of
        None \<Rightarrow> [(''La posici'' @ [CHR 0xF3] @ ''n no supera la validaci'' @ [CHR 0xF3] @ ''n legal del tablero.'')]
      | Some otherTurn \<Rightarrow>
          error_if (ch_inCheck api otherTurn) (''El rey del bando que no mueve ya est'' @ [CHR 0xE1] @ '' en jaque: posici'' @ [CHR 0xF3] @ ''n imposible.''))"

definition adjacent_kings :: "board_map \<Rightarrow> bool" where
  "adjacent_kings board =
     (case (List.find (\<lambda>(_, p). p = CHR ''K'') board, List.find (\<lambda>(_, p). p = CHR ''k'') board) of
        (Some (w, _), Some (b, _)) \<Rightarrow> squareDistance_lab w b \<le> 1
      | _ \<Rightarrow> False)"

definition declared_ep :: "string \<Rightarrow> string \<Rightarrow> string" where
  "declared_ep raw ep = (let rawFields = blank_words raw in if length rawFields = 6 then rawFields ! 3 else ep)"

definition position_errors :: "'c lab_api \<Rightarrow> string \<Rightarrow> lab_position \<Rightarrow> string list" where
  "position_errors api raw parsed =
     (let board = lp_map parsed; turn = lp_turn parsed;
          whitePieces = countPieces board White; blackPieces = countPieces board Black;
          whiteKings = length (filter (\<lambda>p. p = CHR ''K'') whitePieces);
          blackKings = length (filter (\<lambda>p. p = CHR ''k'') blackPieces);
          whitePawns = length (filter (\<lambda>p. p = CHR ''P'') whitePieces);
          blackPawns = length (filter (\<lambda>p. p = CHR ''p'') blackPieces)
      in error_if (whiteKings \<noteq> 1) ''Debe haber exactamente un rey blanco.'' @
         error_if (blackKings \<noteq> 1) ''Debe haber exactamente un rey negro.'' @
         error_if (16 < length whitePieces \<or> 16 < length blackPieces) (''Un bando no puede tener m'' @ [CHR 0xE1] @ ''s de 16 piezas.'') @
         error_if (8 < whitePawns \<or> 8 < blackPawns) (''Un bando no puede tener m'' @ [CHR 0xE1] @ ''s de 8 peones.'') @
         error_if (8 - int whitePawns < int (minimumPromotionsRequired board White))
           (''El material blanco exige m'' @ [CHR 0xE1] @ ''s promociones que peones disponibles.'') @
         error_if (8 - int blackPawns < int (minimumPromotionsRequired board Black))
           (''El material negro exige m'' @ [CHR 0xE1] @ ''s promociones que peones disponibles.'') @
         error_if (\<exists>file \<in> set LAB_FILES. pawn_on_edge board file) ''No puede haber peones en la primera u octava fila.'' @
         castlingErrors board (lp_castling parsed) @
         enPassantErrors board turn (declared_ep raw (lp_ep parsed)) @
         (if whiteKings = 1 \<and> blackKings = 1
          then error_if (adjacent_kings board) ''Los dos reyes no pueden estar en casillas adyacentes.'' @
               idle_king_errors api (lp_fen parsed) turn
          else []))"

definition validateLabPosition :: "'c lab_api \<Rightarrow> string \<Rightarrow> string \<Rightarrow> lab_verdict" where
  "validateLabPosition api raw fallbackTurn =
     (case parseLabPosition api raw fallbackTurn of
        Inl message \<Rightarrow> \<lparr>lv_errors = [if message = [] then (''FEN inv'' @ [CHR 0xE1] @ ''lido'') else message], lv_parsed = None\<rparr>
      | Inr parsed \<Rightarrow> \<lparr>lv_errors = position_errors api raw parsed, lv_parsed = Some parsed\<rparr>)"

definition assertLegalLabPosition :: "'c lab_api \<Rightarrow> string \<Rightarrow> string \<Rightarrow> string + lab_position" where
  "assertLegalLabPosition api raw fallbackTurn =
     (let result = validateLabPosition api raw fallbackTurn
      in case (lv_errors result, lv_parsed result) of
           ([], Some parsed) \<Rightarrow> Inr parsed
         | (error # _, _) \<Rightarrow> Inl error
         | ([], None) \<Rightarrow> Inl [])"

definition text_or :: "string \<Rightarrow> string \<Rightarrow> string" where "text_or s dflt = (if s = [] then dflt else s)"

definition fenFromLabState :: "board_map \<Rightarrow> string \<Rightarrow> string \<Rightarrow> string \<Rightarrow> string \<Rightarrow> string \<Rightarrow> string" where
  "fenFromLabState board turn castling ep halfmove fullmove =
     placementFromMap board @ '' '' @ (if turn = ''b'' then ''b'' else ''w'') @ '' '' @ text_or castling ''-'' @ '' '' @
       text_or ep ''-'' @ '' '' @ text_or halfmove ''0'' @ '' '' @ text_or fullmove ''1''"

section \<open>The editor\<close>

record lab_state =
  ls_map :: board_map
  ls_brush :: "char option"
  ls_turn :: string
  ls_castling :: string
  ls_ep :: string
  ls_halfmove :: string
  ls_fullmove :: string
  ls_difficulty :: int
  ls_error :: string

definition lab_fen :: "lab_state \<Rightarrow> string" where
  "lab_fen s = fenFromLabState (ls_map s) (ls_turn s) (ls_castling s) (ls_ep s) (ls_halfmove s) (ls_fullmove s)"

definition applyPosition :: "lab_position \<Rightarrow> lab_state \<Rightarrow> lab_state" where
  "applyPosition next s =
     s\<lparr>ls_map := lp_map next, ls_turn := lp_turn next, ls_castling := lp_castling next, ls_ep := lp_ep next,
       ls_halfmove := lp_halfmove next, ls_fullmove := lp_fullmove next, ls_error := []\<rparr>"

text \<open>\<open>initialState()\<close>, and the screen it opens with; \<open>None\<close> if chess.js refuses its own first position.\<close>

definition initialState :: "'c lab_api \<Rightarrow> lab_position option" where
  "initialState api = (case parseLabPosition api (lb_start api) ''w'' of Inl _ \<Rightarrow> None | Inr p \<Rightarrow> Some p)"

definition lab_opened :: "'c lab_api \<Rightarrow> lab_state option" where
  "lab_opened api = map_option (\<lambda>p. \<lparr>ls_map = lp_map p, ls_brush = None, ls_turn = lp_turn p, ls_castling = lp_castling p,
     ls_ep = lp_ep p, ls_halfmove = lp_halfmove p, ls_fullmove = lp_fullmove p, ls_difficulty = 50, ls_error = []\<rparr>) (initialState api)"

definition resetInitial :: "'c lab_api \<Rightarrow> lab_state \<Rightarrow> lab_state" where
  "resetInitial api s = (case initialState api of None \<Rightarrow> s | Some p \<Rightarrow> applyPosition p s)"

text \<open>What the prompt returned; \<open>None\<close> when it was cancelled.\<close>

definition applyFen :: "'c lab_api \<Rightarrow> string option \<Rightarrow> lab_state \<Rightarrow> lab_state" where
  "applyFen api raw s =
     (case raw of
        None \<Rightarrow> s
      | Some raw \<Rightarrow>
          if raw = [] then s
          else case parseLabPosition api raw (ls_turn s) of
                 Inr p \<Rightarrow> applyPosition p s
               | Inl _ \<Rightarrow> s\<lparr>ls_error := (''La posici'' @ [CHR 0xF3] @ ''n no es v'' @ [CHR 0xE1] @ ''lida. Revisa el texto e int'' @ [CHR 0xE9] @ ''ntalo de nuevo.'')\<rparr>)"

definition without_history :: "lab_state \<Rightarrow> lab_state" where
  "without_history s = s\<lparr>ls_castling := ''-'', ls_ep := ''-'', ls_halfmove := ''0'', ls_fullmove := ''1''\<rparr>"

definition editSquare :: "string \<Rightarrow> lab_state \<Rightarrow> lab_state" where
  "editSquare sq s =
     without_history (s\<lparr>ls_map := (case ls_brush s of Some p \<Rightarrow> obj_put sq p (ls_map s) | None \<Rightarrow> obj_del sq (ls_map s))\<rparr>)"

definition emptyBoard :: "lab_state \<Rightarrow> lab_state" where
  "emptyBoard s = without_history (s\<lparr>ls_map := [(''e1'', CHR ''K''), (''e8'', CHR ''k'')], ls_error := []\<rparr>)"

text \<open>The game a position starts: its text, its side to move, the strength of the machine.\<close>

definition launch :: "'c lab_api \<Rightarrow> lab_state \<Rightarrow> lab_state \<times> (string \<times> color \<times> int) option" where
  "launch api s =
     (let failed = (\<lambda>message. (s\<lparr>ls_error := (''Posici'' @ [CHR 0xF3] @ ''n inv'' @ [CHR 0xE1] @ ''lida: '') @ message\<rparr>, None)) in
      case assertLegalLabPosition api (lab_fen s) (ls_turn s) of
        Inl message \<Rightarrow> failed message
      | Inr legal \<Rightarrow>
          (case ch_new api (lp_fen legal) of
             None \<Rightarrow> failed (lb_message api (lp_fen legal))
           | Some c \<Rightarrow> (s\<lparr>ls_error := []\<rparr>, Some (ch_fen api c, ch_turn api c, ls_difficulty s))))"

datatype lab_op =
    ResetInitial | ApplyFen "string option" | SelectBrush "char option" | EditSquare string | EmptyBoard
  | SelectTurn string | SetDifficulty int | Launch

fun lab_step :: "'c lab_api \<Rightarrow> lab_op \<Rightarrow> lab_state \<Rightarrow> lab_state" where
  "lab_step api ResetInitial s = resetInitial api s"
| "lab_step api (ApplyFen raw) s = applyFen api raw s"
| "lab_step api (SelectBrush brush) s = s\<lparr>ls_brush := brush\<rparr>"
| "lab_step api (EditSquare sq) s = editSquare sq s"
| "lab_step api EmptyBoard s = emptyBoard s"
| "lab_step api (SelectTurn turn) s = s\<lparr>ls_turn := turn, ls_ep := ''-''\<rparr>"
| "lab_step api (SetDifficulty d) s = s\<lparr>ls_difficulty := d\<rparr>"
| "lab_step api Launch s = fst (launch api s)"

text \<open>What the screen offers: the brushes are pieces or the rubber, the squares are those of the board.\<close>

definition on_board :: "string \<Rightarrow> bool" where
  "on_board sq \<longleftrightarrow> length sq = 2 \<and> sq ! 0 \<in> set LAB_FILES \<and> sq ! 1 \<in> set LAB_RANKS"

fun offered :: "lab_op \<Rightarrow> bool" where
  "offered (SelectBrush (Some p)) \<longleftrightarrow> p \<in> set PIECES"
| "offered (EditSquare sq) \<longleftrightarrow> on_board sq"
| "offered (SelectTurn turn) \<longleftrightarrow> turn \<in> {''w'', ''b''}"
| "offered (SetDifficulty d) \<longleftrightarrow> 0 \<le> d \<and> d \<le> 100"
| "offered _ \<longleftrightarrow> True"

end
