(* ===== verification/LabPositionProps.thy ===== *)
theory LabPositionProps
  imports LabPosition
begin

text \<open>
  The laboratory of positions: the text of a board reads back as the board, in every state of the editor, and a game
  starts exactly from the boards that satisfy the rules listed in \<open>legal_position\<close>.
\<close>

section \<open>Boards\<close>

definition placed :: "board_map \<Rightarrow> bool" where
  "placed board \<longleftrightarrow> obj_wf board \<and> (\<forall>(sq, p) \<in> set board. on_board sq \<and> p \<in> set PIECES)"

lemma placed_Nil [simp]: "placed []" by (simp add: placed_def)

lemma placed_put: "placed board \<Longrightarrow> on_board sq \<Longrightarrow> p \<in> set PIECES \<Longrightarrow> placed (obj_put sq p board)"
  using set_obj_put [of sq p board] by (fastforce simp: placed_def distinct_update)

lemma placed_del: "placed board \<Longrightarrow> placed (obj_del sq board)"
  using set_obj_del [of sq board] by (fastforce simp: placed_def distinct_delete)

lemma placed_get: "placed board \<Longrightarrow> obj_get board sq = Some p \<Longrightarrow> on_board sq \<and> p \<in> set PIECES"
  by (auto simp: placed_def dest: map_of_SomeD)

lemma file_on_board: "f < 8 \<Longrightarrow> rank \<in> set LAB_RANKS \<Longrightarrow> on_board [LAB_FILES ! f, rank]"
  by (simp add: on_board_def LAB_FILES_def del: set_simps)

lemma read_row_placed:
  "read_row rank row f out = Some (out', f') \<Longrightarrow> rank \<in> set LAB_RANKS \<Longrightarrow> placed out \<Longrightarrow> placed out'"
proof (induction rank row f out rule: read_row.induct)
  case (2 rank ch chs f out)
  then show ?case using placed_put [OF _ file_on_board, of out f rank ch] by (auto split: if_splits)
qed simp

lemma read_rows_placed:
  "read_rows rows out = Some out' \<Longrightarrow> fst ` set rows \<subseteq> set LAB_RANKS \<Longrightarrow> placed out \<Longrightarrow> placed out'"
  by (induction rows out rule: read_rows.induct) (auto split: option.splits if_splits dest: read_row_placed)

lemma map_placed: "mapFromPlacement v = Some board \<Longrightarrow> placed board"
  by (auto simp: mapFromPlacement_def Let_def split: if_splits elim!: read_rows_placed dest: set_zip_leftD)

section \<open>Writing and reading a row\<close>

fun row_text :: "board_map \<Rightarrow> char \<Rightarrow> string \<Rightarrow> nat \<Rightarrow> string" where
  "row_text board rank [] gap = (if gap = 0 then [] else show_nat gap)"
| "row_text board rank (f # fs) gap =
     (case obj_get board [f, rank] of
        None \<Rightarrow> row_text board rank fs (gap + 1)
      | Some v \<Rightarrow> (if gap = 0 then [] else show_nat gap) @ v # row_text board rank fs 0)"

lemma write_fold:
  "(case fold (write_square board rank) fs (out, gap) of (out, gap) \<Rightarrow> if gap = 0 then out else out @ show_nat gap)
     = out @ row_text board rank fs gap"
  by (induction fs arbitrary: out gap) (auto simp: write_square_def split: option.splits)

lemma write_row_text: "write_row board rank = row_text board rank LAB_FILES 0"
  using write_fold [of board rank LAB_FILES "[]" 0] by (simp add: write_row_def)

definition put_file :: "board_map \<Rightarrow> char \<Rightarrow> char \<Rightarrow> board_map \<Rightarrow> board_map" where
  "put_file board rank file out = (case obj_get board [file, rank] of None \<Rightarrow> out | Some v \<Rightarrow> obj_put [file, rank] v out)"

lemma show_digit: "0 < n \<Longrightarrow> n \<le> 8 \<Longrightarrow> show_nat n = [digit_char n] \<and> step_digit (digit_char n) \<and> nat (digit_val (digit_char n)) = n"
  by (simp add: show_nat.simps [of n] step_digit_def)

lemma piece_no_digit: "p \<in> set PIECES \<Longrightarrow> \<not> step_digit p"
  by (auto simp: PIECES_def step_digit_def is_digit_def)

lemma read_gap:
  "gap \<le> 8 \<Longrightarrow> read_row rank ((if gap = 0 then [] else show_nat gap) @ text) f out = read_row rank text (f + gap) out"
  using show_digit [of gap] by simp

lemma read_row_text:
  assumes "placed board"
  shows "i \<le> 8 \<Longrightarrow> gap \<le> i \<Longrightarrow>
     read_row rank (row_text board rank (drop i LAB_FILES) gap) (i - gap) out
       = Some (fold (put_file board rank) (drop i LAB_FILES) out, 8)"
proof (induction "8 - i" arbitrary: i gap out)
  case 0
  then have i: "i = 8" by simp
  then show ?case using read_gap [of gap rank "[]" "8 - gap" out] 0 by (simp add: LAB_FILES_def)
next
  case (Suc n)
  then have i: "i < length LAB_FILES" "i < 8" "n = 8 - Suc i" by (simp_all add: LAB_FILES_def)
  let ?f = "LAB_FILES ! i"
  have d: "drop i LAB_FILES = ?f # drop (Suc i) LAB_FILES" using i(1) by (rule Cons_nth_drop_Suc [symmetric])
  show ?case
  proof (cases "obj_get board [?f, rank]")
    case None
    then show ?thesis using Suc.hyps(1) [OF i(3), of "gap + 1" out] Suc.prems i d by (simp add: put_file_def)
  next
    case (Some v)
    have v: "v \<in> set PIECES" using placed_get [OF assms Some] by simp
    show ?thesis
      using Some v piece_no_digit [OF v] Suc.hyps(1) [OF i(3), of 0] Suc.prems i d
        read_gap [of gap rank "v # row_text board rank (drop (Suc i) LAB_FILES) 0" "i - gap" out]
      by (simp add: put_file_def)
  qed
qed

lemma read_written_row:
  "placed board \<Longrightarrow> read_row rank (write_row board rank) 0 out = Some (fold (put_file board rank) LAB_FILES out, 8)"
  using read_row_text [of board 0 0 rank out] by (simp add: write_row_text)

lemma read_written_rows:
  "placed board \<Longrightarrow> read_rows (zip rs (map (write_row board) rs)) out
     = Some (fold (\<lambda>rank. fold (put_file board rank) LAB_FILES) rs out)"
  by (induction rs arbitrary: out) (simp_all add: read_written_row)

lemma get_files:
  "obj_get (fold (put_file board rank) fs out) sq =
     (if (\<exists>f \<in> set fs. sq = [f, rank]) \<and> obj_get board sq \<noteq> None then obj_get board sq else obj_get out sq)"
  by (induction fs arbitrary: out) (auto simp: put_file_def split: option.splits)

lemma get_ranks:
  "obj_get (fold (\<lambda>rank. fold (put_file board rank) LAB_FILES) rs out) sq =
     (if (\<exists>r \<in> set rs. \<exists>f \<in> set LAB_FILES. sq = [f, r]) \<and> obj_get board sq \<noteq> None then obj_get board sq else obj_get out sq)"
  by (induction rs arbitrary: out) (auto simp: get_files)

lemma on_board_pair: "on_board sq \<longleftrightarrow> (\<exists>r \<in> set LAB_RANKS. \<exists>f \<in> set LAB_FILES. sq = [f, r])"
  by (auto simp: on_board_def length_Suc_conv eval_nat_numeral)

section \<open>Writing and reading a board\<close>

lemma row_text_chars: "placed board \<Longrightarrow> set (row_text board rank fs gap) \<subseteq> set PIECES \<union> {c. is_digit c}"
  using show_nat_digits by (induction fs arbitrary: gap) (auto split: option.splits if_splits dest: placed_get)

lemma piece_not_special: "p \<in> set PIECES \<Longrightarrow> p \<noteq> CHR ''/'' \<and> \<not> is_blank p"
  by (auto simp: PIECES_def is_blank_def)

lemma row_clean: "placed board \<Longrightarrow> c \<in> set (write_row board rank) \<Longrightarrow> c \<noteq> CHR ''/'' \<and> \<not> is_blank c"
  using row_text_chars [of board rank LAB_FILES 0] piece_not_special [of c] digit_not_special(1) [of c]
  by (cases "is_digit c") (auto simp: write_row_text is_digit_def)

lemma set_join: "set (join_with sep ps) \<subseteq> \<Union> (set ` set ps) \<union> set sep"
  by (induction sep ps rule: join_with.induct) auto

lemma placement_clean: "placed board \<Longrightarrow> c \<in> set (placementFromMap board) \<Longrightarrow> \<not> is_blank c"
  using set_join [of "''/''" "map (write_row board) LAB_RANKS"] row_clean
  by (fastforce simp: placementFromMap_def is_blank_def)

lemma placement_rows: "placed board \<Longrightarrow> split_on (CHR ''/'') (placementFromMap board) = map (write_row board) LAB_RANKS"
  unfolding placementFromMap_def by (rule split_join) (auto simp: LAB_RANKS_def dest: row_clean)

lemma placement_nonempty: "placementFromMap board \<noteq> []"
  by (simp add: placementFromMap_def LAB_RANKS_def)

lemma blank_space: "is_blank (CHR '' '')"
  by (simp add: is_blank_def)

lemma first_word:
  assumes "p \<noteq> []" "\<forall>c \<in> set p. \<not> is_blank c" "rest = [] \<or> hd rest = CHR '' ''"
  shows "hd (blank_words (p @ rest)) = p"
proof -
  have p: "map (\<lambda>c. if is_blank c then CHR '' '' else c) p = p" using assms(2) by (induction p) auto
  have s: "CHR '' '' \<notin> set p" using assms(2) by (auto simp: is_blank_def)
  show ?thesis
    using assms(1,3) s blank_space by (cases rest) (simp_all add: blank_words_def p split_on_no_sep split_on_append_sep)
qed

lemma read_written_board:
  assumes "placed board" and "rest = [] \<or> hd rest = CHR '' ''"
  obtains m where "mapFromPlacement (placementFromMap board @ rest) = Some m" and "obj_get m = obj_get board"
proof -
  let ?m = "fold (\<lambda>rank. fold (put_file board rank) LAB_FILES) LAB_RANKS []"
  have w: "hd (blank_words (placementFromMap board @ rest)) = placementFromMap board"
    using assms placement_clean [of board] placement_nonempty [of board] by (intro first_word) auto
  have n: "length LAB_RANKS = 8" by (simp add: LAB_RANKS_def)
  have "mapFromPlacement (placementFromMap board @ rest) = Some ?m"
    using assms(1) by (simp add: mapFromPlacement_def w placement_rows n read_written_rows)
  moreover have "obj_get ?m = obj_get board"
  proof
    fix sq
    show "obj_get ?m sq = obj_get board sq"
      using placed_get [OF assms(1), of sq] by (cases "obj_get board sq") (auto simp: get_ranks on_board_pair)
  qed
  ultimately show ?thesis using that by blast
qed

section \<open>The editor\<close>

lemma parse_placed: "parseLabPosition api raw turn = Inr p \<Longrightarrow> placed (lp_map p)"
  by (auto simp: parseLabPosition_def Let_def dest: map_placed split: option.splits if_splits)

lemma part_chars: "p \<in> set (split_on c t) \<Longrightarrow> set p \<subseteq> set t"
proof (induction t arbitrary: p)
  case (Cons x t)
  obtain q qs where q: "split_on c t = q # qs" using split_on_nonempty [of c t] by (cases "split_on c t") auto
  show ?case using Cons.IH [of q] Cons.IH [of p] Cons.prems by (auto simp: q split: if_splits)
qed simp

lemma words_clean: "w \<in> set (blank_words t) \<Longrightarrow> c \<in> set w \<Longrightarrow> \<not> is_blank c"
proof -
  let ?u = "map (\<lambda>c. if is_blank c then CHR '' '' else c) t"
  assume w: "w \<in> set (blank_words t)" "c \<in> set w"
  then have "w \<in> set (split_on (CHR '' '') ?u)" by (auto simp: blank_words_def Let_def split: if_splits)
  then have "CHR '' '' \<notin> set w" "set w \<subseteq> set ?u"
    using split_on_parts set_join [of "'' ''" "split_on (CHR '' '') ?u"] part_chars by blast+
  then show "\<not> is_blank c" using w(2) blank_space by fastforce
qed

definition clean :: "string \<Rightarrow> bool" where "clean t \<longleftrightarrow> (\<forall>c \<in> set t. \<not> is_blank c)"

lemma clean_field: "clean (field_at (blank_split t) i)"
proof -
  have "\<forall>w \<in> set (blank_split t). clean w"
    by (auto simp: clean_def blank_split_def dest: words_clean)
  then show ?thesis by (auto simp: field_at_def nth_opt_def split: option.splits) (simp add: clean_def)
qed

text \<open>The invariant: pieces on squares of the board, a brush that is one, and fields without a blank.\<close>

definition editor_ok :: "lab_state \<Rightarrow> bool" where
  "editor_ok s \<longleftrightarrow> placed (ls_map s) \<and> (\<forall>p. ls_brush s = Some p \<longrightarrow> p \<in> set PIECES) \<and>
     clean (ls_castling s) \<and> clean (ls_ep s) \<and> clean (ls_halfmove s) \<and> clean (ls_fullmove s)"

lemma clean_literals [simp]: "clean ''-''" "clean ''0''" "clean ''1''"
  by (simp_all add: clean_def is_blank_def)

lemma parse_clean:
  "parseLabPosition api raw turn = Inr p \<Longrightarrow> clean (lp_castling p) \<and> clean (lp_ep p) \<and> clean (lp_halfmove p) \<and> clean (lp_fullmove p)"
  by (auto simp: parseLabPosition_def Let_def clean_field split: option.splits if_splits)

lemma applied_ok: "parseLabPosition api raw turn = Inr p \<Longrightarrow> editor_ok s \<Longrightarrow> editor_ok (applyPosition p s)"
  using parse_clean [of api raw turn p] by (simp add: editor_ok_def applyPosition_def parse_placed)

lemma opened_ok: "lab_opened api = Some s \<Longrightarrow> editor_ok s"
  by (auto simp: lab_opened_def initialState_def editor_ok_def dest: parse_placed parse_clean split: sum.splits)

lemma edited_ok: "editor_ok s \<Longrightarrow> on_board sq \<Longrightarrow> editor_ok (editSquare sq s)"
  by (auto simp: editor_ok_def editSquare_def without_history_def placed_put placed_del split: option.splits)

lemma emptied_ok: "editor_ok s \<Longrightarrow> editor_ok (emptyBoard s)"
  by (simp add: editor_ok_def emptyBoard_def without_history_def placed_def on_board_def LAB_FILES_def LAB_RANKS_def PIECES_def)

lemma launch_keeps: "\<exists>e. fst (launch api s) = s\<lparr>ls_error := e\<rparr>"
  by (auto simp: launch_def Let_def split: sum.splits option.splits)

lemma step_ok: "editor_ok s \<Longrightarrow> offered op \<Longrightarrow> editor_ok (lab_step api op s)"
proof (cases op)
  case (SelectBrush b)
  then show "editor_ok s \<Longrightarrow> offered op \<Longrightarrow> editor_ok (lab_step api op s)"
    by (cases b) (auto simp: editor_ok_def)
next
  case (ApplyFen raw)
  then show "editor_ok s \<Longrightarrow> offered op \<Longrightarrow> editor_ok (lab_step api op s)"
    by (auto simp: applyFen_def applied_ok split: option.splits sum.splits) (simp add: editor_ok_def)
next
  case ResetInitial
  then show "editor_ok s \<Longrightarrow> offered op \<Longrightarrow> editor_ok (lab_step api op s)"
    by (auto simp: resetInitial_def initialState_def applied_ok split: sum.splits)
next
  case Launch
  then show "editor_ok s \<Longrightarrow> offered op \<Longrightarrow> editor_ok (lab_step api op s)"
    using launch_keeps [of api s] by (auto simp: editor_ok_def)
qed (simp_all add: edited_ok emptied_ok, simp_all add: editor_ok_def)

definition edited :: "'c lab_api \<Rightarrow> lab_op list \<Rightarrow> lab_state \<Rightarrow> bool" where
  "edited api ops s \<longleftrightarrow> list_all offered ops \<and> map_option (fold (lab_step api) ops) (lab_opened api) = Some s"

lemma reached_ok: "edited api ops s \<Longrightarrow> editor_ok s"
proof -
  assume e: "edited api ops s"
  then obtain z where z: "lab_opened api = Some z" "s = fold (lab_step api) ops z" by (auto simp: edited_def)
  show "editor_ok s"
    unfolding z(2) using opened_ok [OF z(1)] by (rule fold_invariant) (use e in \<open>auto simp: edited_def list_all_iff intro: step_ok\<close>)
qed

lemma clean_words:
  assumes "ws \<noteq> []" "\<forall>w \<in> set ws. w \<noteq> [] \<and> clean w"
  shows "blank_words (join_with '' '' ws) = ws" "trim (join_with '' '' ws) = join_with '' '' ws"
proof -
  let ?s = "join_with '' '' ws"
  have "c = CHR '' '' \<or> \<not> is_blank c" if "c \<in> set ?s" for c
    using that set_join [of "'' ''" ws] assms(2) by (auto simp: clean_def)
  then have id: "map (\<lambda>c. if is_blank c then CHR '' '' else c) ?s = ?s" by (intro map_idI) auto
  have "split_on (CHR '' '') ?s = ws" using assms blank_space by (intro split_join) (auto simp: clean_def)
  moreover have "filter (\<lambda>w. w \<noteq> []) ws = ws" using assms(2) by (simp add: filter_id_conv)
  ultimately show "blank_words ?s = ws" using assms(1) by (simp add: blank_words_def id del: map_map)
  have ends: "?s \<noteq> [] \<and> hd ?s \<in> set (hd ws) \<and> last ?s \<in> set (last ws)"
    using assms by (induction "'' ''" ws rule: join_with.induct) (auto simp: hd_append)
  then have "\<not> is_blank (hd ?s)" "\<not> is_blank (last ?s)"
    using assms by (auto simp: clean_def)
  moreover have "hd (rev ?s) = last ?s" using ends by (simp add: hd_rev)
  ultimately have "dropWhile is_blank ?s = ?s" "dropWhile is_blank (rev ?s) = rev ?s"
    by (simp_all add: dropWhile_eq_self_iff)
  then show "trim ?s = ?s" by (simp add: trim_def)
qed

lemma reached_text:
  assumes "edited api ops s"
  shows "trim (lab_fen s) = lab_fen s"
    and "blank_words (lab_fen s) = [placementFromMap (ls_map s), if ls_turn s = ''b'' then ''b'' else ''w'', text_or (ls_castling s) ''-'',
          text_or (ls_ep s) ''-'', text_or (ls_halfmove s) ''0'', text_or (ls_fullmove s) ''1'']"
    and "\<exists>m. mapFromPlacement (lab_fen s) = Some m \<and> obj_get m = obj_get (ls_map s)"
proof -
  let ?ws = "[placementFromMap (ls_map s), if ls_turn s = ''b'' then ''b'' else ''w'', text_or (ls_castling s) ''-'',
          text_or (ls_ep s) ''-'', text_or (ls_halfmove s) ''0'', text_or (ls_fullmove s) ''1'']"
  have ok: "editor_ok s" by (rule reached_ok [OF assms])
  have fen: "lab_fen s = join_with '' '' ?ws" by (simp add: lab_fen_def fenFromLabState_def)
  have "\<forall>w \<in> set ?ws. w \<noteq> [] \<and> clean w"
    using ok placement_nonempty [of "ls_map s"] placement_clean [of "ls_map s"]
    by (auto simp: editor_ok_def text_or_def) (auto simp: clean_def is_blank_def)
  from clean_words [OF _ this] show "trim (lab_fen s) = lab_fen s" and w: "blank_words (lab_fen s) = ?ws"
    unfolding fen by blast+
  obtain m where "mapFromPlacement (placementFromMap (ls_map s)) = Some m" "obj_get m = obj_get (ls_map s)"
    using read_written_board [of "ls_map s" "[]"] ok by (auto simp: editor_ok_def)
  moreover have "hd (blank_words (placementFromMap (ls_map s))) = placementFromMap (ls_map s)"
    using first_word [of "placementFromMap (ls_map s)" "[]"] placement_nonempty placement_clean ok by (auto simp: editor_ok_def)
  ultimately show "\<exists>m. mapFromPlacement (lab_fen s) = Some m \<and> obj_get m = obj_get (ls_map s)"
    by (simp add: mapFromPlacement_def w)
qed

section \<open>Legal positions\<close>

text \<open>The rules, over what stands on each square.\<close>

definition standing_on :: "(string \<Rightarrow> char option) \<Rightarrow> (char \<Rightarrow> bool) \<Rightarrow> string set" where
  "standing_on g P = {sq. \<exists>p. g sq = Some p \<and> P p}"

definition kind :: "color \<Rightarrow> char \<Rightarrow> char \<Rightarrow> bool" where
  "kind color t p \<longleftrightarrow> own_piece color p \<and> lower_char p = t"

text \<open>Every queen but one, rook and knight but two, bishop but one of each shade is a pawn that promoted.\<close>

definition promoted :: "(string \<Rightarrow> char option) \<Rightarrow> color \<Rightarrow> nat" where
  "promoted g color =
     (card (standing_on g (kind color (CHR ''q''))) - 1) + (card (standing_on g (kind color (CHR ''r''))) - 2) +
     (card (standing_on g (kind color (CHR ''n''))) - 2) +
     (card {sq \<in> standing_on g (kind color (CHR ''b'')). parity sq = 0} - 1) +
     (card {sq \<in> standing_on g (kind color (CHR ''b'')). parity sq = 1} - 1)"

definition army_possible :: "(string \<Rightarrow> char option) \<Rightarrow> color \<Rightarrow> bool" where
  "army_possible g color \<longleftrightarrow>
     card (standing_on g (own_piece color)) \<le> 16 \<and> promoted g color + card (standing_on g (kind color (CHR ''p''))) \<le> 8"

definition castling_backed :: "(string \<Rightarrow> char option) \<Rightarrow> string \<Rightarrow> bool" where
  "castling_backed g rights \<longleftrightarrow>
     (CHR ''K'' \<in> set rights \<longrightarrow> g ''e1'' = Some (CHR ''K'') \<and> g ''h1'' = Some (CHR ''R'')) \<and>
     (CHR ''Q'' \<in> set rights \<longrightarrow> g ''e1'' = Some (CHR ''K'') \<and> g ''a1'' = Some (CHR ''R'')) \<and>
     (CHR ''k'' \<in> set rights \<longrightarrow> g ''e8'' = Some (CHR ''k'') \<and> g ''h8'' = Some (CHR ''r'')) \<and>
     (CHR ''q'' \<in> set rights \<longrightarrow> g ''e8'' = Some (CHR ''k'') \<and> g ''a8'' = Some (CHR ''r''))"

definition ep_backed :: "(string \<Rightarrow> char option) \<Rightarrow> string \<Rightarrow> string \<Rightarrow> bool" where
  "ep_backed g turn ep \<longleftrightarrow> ep = [] \<or> ep = ''-'' \<or>
     (\<exists>f \<in> set LAB_FILES. \<exists>r \<in> {CHR ''3'', CHR ''6''}. ep = [f, r] \<and> (turn = ''w'' \<longrightarrow> r = CHR ''6'') \<and> (turn = ''b'' \<longrightarrow> r = CHR ''3'') \<and>
        g ep = None \<and>
        (if turn = ''w'' then g [f, CHR ''5''] = Some (CHR ''p'') \<and> g [f, CHR ''7''] = None
         else g [f, CHR ''4''] = Some (CHR ''P'') \<and> g [f, CHR ''2''] = None))"

definition legal_position :: "'c lab_api \<Rightarrow> (string \<Rightarrow> char option) \<Rightarrow> string \<Rightarrow> string \<Rightarrow> string \<Rightarrow> string \<Rightarrow> bool" where
  "legal_position api g turn castling ep fen \<longleftrightarrow>
     (\<exists>!sq. g sq = Some (CHR ''K'')) \<and> (\<exists>!sq. g sq = Some (CHR ''k'')) \<and>
     army_possible g White \<and> army_possible g Black \<and>
     (\<forall>f \<in> set LAB_FILES. \<forall>r \<in> {CHR ''1'', CHR ''8''}. g [f, r] \<notin> {Some (CHR ''P''), Some (CHR ''p'')}) \<and>
     castling_backed g castling \<and> ep_backed g turn ep \<and>
     (\<forall>a b. g a = Some (CHR ''K'') \<longrightarrow> g b = Some (CHR ''k'') \<longrightarrow> 2 \<le> squareDistance_lab a b) \<and>
     (\<exists>c. ch_new api (other_turn_fen fen turn) = Some c \<and> \<not> ch_inCheck api c)"

lemma count_entries:
  assumes "obj_wf board"
  shows "length (filter (\<lambda>(sq, p). P sq p) board) = card {sq. \<exists>p. obj_get board sq = Some p \<and> P sq p}"
proof -
  let ?e = "filter (\<lambda>(sq, p). P sq p) board"
  have "distinct (map fst ?e)" using assms by (simp add: distinct_map_filter)
  moreover have "set (map fst ?e) = {sq. \<exists>p. obj_get board sq = Some p \<and> P sq p}"
    using assms by (force simp: map_of_eq_Some_iff)
  ultimately show ?thesis by (metis distinct_card length_map)
qed

lemma count_values: "obj_wf board \<Longrightarrow> length (filter P (obj_values board)) = card (standing_on (obj_get board) P)"
  using count_entries [of board "\<lambda>_. P"] by (simp add: filter_map comp_def split_def standing_on_def)

lemma count_kind: "obj_wf board \<Longrightarrow> typeCount board color t = card (standing_on (obj_get board) (kind color t))"
  using count_entries [of board "\<lambda>_. kind color t"] by (simp add: typeCount_def is_own_def kind_def standing_on_def case_prod_beta)

lemma count_shade:
  "obj_wf board \<Longrightarrow> length (filter (\<lambda>s. parity s = n) (map fst (filter (is_own color t) board)))
     = card {sq \<in> standing_on (obj_get board) (kind color t). parity sq = n}"
  using count_entries [of board "\<lambda>sq p. kind color t p \<and> parity sq = n"]
  by (simp add: filter_map comp_def is_own_def kind_def standing_on_def split_def conj_ac)
    (metis (mono_tags, lifting))

lemma promotions_counted: "obj_wf board \<Longrightarrow> minimumPromotionsRequired board color = promoted (obj_get board) color"
  by (simp only: minimumPromotionsRequired_def promoted_def count_kind count_shade Let_def add.assoc)

lemma castling_errors_none: "castlingErrors board rights = [] \<longleftrightarrow> castling_backed (obj_get board) rights"
  by (auto simp: castlingErrors_def castling_backed_def unless_stands_def Let_def)

lemma ep_errors_none: "enPassantErrors board turn ep = [] \<longleftrightarrow> ep_backed (obj_get board) turn ep"
proof (cases "ep_square ep")
  case True
  then obtain f r where "ep = [f, r]" "f \<in> set LAB_FILES" "r = CHR ''3'' \<or> r = CHR ''6''"
    by (auto simp: ep_square_def length_Suc_conv eval_nat_numeral)
  then show ?thesis by (auto simp: enPassantErrors_def ep_backed_def ep_square_def Let_def)
next
  case False
  then show ?thesis by (auto simp: enPassantErrors_def ep_backed_def ep_square_def)
qed

lemma upper_kind:
  assumes "of_char t = (n :: nat)" "97 \<le> n" "n \<le> 122"
  shows "kind White t p \<longleftrightarrow> p = char_of (n - 32)"
proof -
  have t: "t = char_of n" using assms(1) char_of_char [of t] by metis
  have "own_piece White p \<and> char_of ((of_char p :: nat) + 32) = t \<longleftrightarrow> p = char_of (n - 32)"
  proof
    assume a: "own_piece White p \<and> char_of ((of_char p :: nat) + 32) = t"
    then have "(of_char p :: nat) + 32 = n"
      using assms by (auto simp: own_piece_def is_upper_def)
    then show "p = char_of (n - 32)" using char_of_char [of p] by (metis diff_add_inverse2)
  qed (use assms t in \<open>auto simp: own_piece_def is_upper_def\<close>)
  then show ?thesis by (auto simp: kind_def lower_char_def own_piece_def is_upper_def)
qed

lemma lower_kind: "is_lower t \<Longrightarrow> kind Black t p \<longleftrightarrow> p = t"
  by (auto simp: kind_def lower_char_def own_piece_def is_lower_def Let_def)

lemma kind_letters:
  "kind White (CHR ''p'') = (\<lambda>c. c = CHR ''P'')" "kind White (CHR ''k'') = (\<lambda>c. c = CHR ''K'')"
  "kind Black (CHR ''p'') = (\<lambda>c. c = CHR ''p'')" "kind Black (CHR ''k'') = (\<lambda>c. c = CHR ''k'')"
  using upper_kind [of "CHR ''p''" 112] upper_kind [of "CHR ''k''" 107] lower_kind [of "CHR ''p''"] lower_kind [of "CHR ''k''"]
  by (simp_all add: fun_eq_iff is_lower_def char_of_def bit_iff_odd)

lemma own_letters:
  "length (filter (\<lambda>p. p = CHR ''K'') (countPieces board White)) = length (filter (kind White (CHR ''k'')) (obj_values board))"
  "length (filter (\<lambda>p. p = CHR ''k'') (countPieces board Black)) = length (filter (kind Black (CHR ''k'')) (obj_values board))"
  "length (filter (\<lambda>p. p = CHR ''P'') (countPieces board White)) = length (filter (kind White (CHR ''p'')) (obj_values board))"
  "length (filter (\<lambda>p. p = CHR ''p'') (countPieces board Black)) = length (filter (kind Black (CHR ''p'')) (obj_values board))"
  by (auto simp: countPieces_def kind_letters own_piece_def is_upper_def is_lower_def intro!: arg_cong [where f = length] filter_cong)

lemma one_king:
  "card (standing_on g (\<lambda>c. c = k)) = 1 \<longleftrightarrow> (\<exists>!sq. g sq = Some k)"
  unfolding standing_on_def One_nat_def card_1_singleton_iff Ex1_def set_eq_iff by (simp del: One_nat_def) metis

lemma kings_apart:
  assumes "obj_wf board" "\<exists>!sq. obj_get board sq = Some (CHR ''K'')" "\<exists>!sq. obj_get board sq = Some (CHR ''k'')"
  shows "\<not> adjacent_kings board \<longleftrightarrow> (\<forall>a b. obj_get board a = Some (CHR ''K'') \<longrightarrow> obj_get board b = Some (CHR ''k'') \<longrightarrow> 2 \<le> squareDistance_lab a b)"
proof -
  have find: "\<exists>e. List.find (\<lambda>(_, p). p = k) board = Some e \<and> obj_get board (fst e) = Some k" if "\<exists>sq. obj_get board sq = Some k" for k
  proof (cases "List.find (\<lambda>(_, p). p = k) board")
    case None
    then show ?thesis using that map_of_SomeD by (fastforce simp: find_None_iff)
  next
    case (Some e)
    then show ?thesis using assms(1) by (cases e) (auto dest!: find_set simp: map_of_eq_Some_iff)
  qed
  obtain w b where w: "List.find (\<lambda>(_, p). p = CHR ''K'') board = Some w" "obj_get board (fst w) = Some (CHR ''K'')"
    and b: "List.find (\<lambda>(_, p). p = CHR ''k'') board = Some b" "obj_get board (fst b) = Some (CHR ''k'')"
    using find [of "CHR ''K''"] find [of "CHR ''k''"] assms(2,3) by blast
  have "adjacent_kings board \<longleftrightarrow> squareDistance_lab (fst w) (fst b) \<le> 1"
    using w(1) b(1) by (cases w; cases b) (simp add: adjacent_kings_def)
  then show ?thesis using assms(2,3) w(2) b(2) by (metis linorder_not_le one_add_one zle_add1_eq_le add.commute)
qed

lemma no_error [simp]: "error_if b m = [] \<longleftrightarrow> \<not> b"
  by (simp add: error_if_def)

lemma errors_exact:
  assumes "placed (lp_map p)"
  shows "position_errors api raw p = [] \<longleftrightarrow>
     legal_position api (obj_get (lp_map p)) (lp_turn p) (lp_castling p) (declared_ep raw (lp_ep p)) (lp_fen p)"
proof -
  have wf: "obj_wf (lp_map p)" using assms by (simp add: placed_def)
  have army: "length (countPieces (lp_map p) color) = card (standing_on (obj_get (lp_map p)) (own_piece color))" for color
    unfolding countPieces_def by (rule count_values [OF wf])
  have idle: "idle_king_errors api fen turn = [] \<longleftrightarrow> (\<exists>c. ch_new api (other_turn_fen fen turn) = Some c \<and> \<not> ch_inCheck api c)" for fen turn
    by (auto simp: idle_king_errors_def split: option.splits)
  have edge: "(\<exists>file \<in> set LAB_FILES. pawn_on_edge b file) \<longleftrightarrow>
      \<not> (\<forall>f \<in> set LAB_FILES. \<forall>r \<in> {CHR ''1'', CHR ''8''}. obj_get b [f, r] \<notin> {Some (CHR ''P''), Some (CHR ''p'')})" for b
    by (auto simp: pawn_on_edge_def)
  let ?g = "obj_get (lp_map p)"
  note counted = own_letters [of "lp_map p", unfolded count_values [OF wf] kind_letters]
  have pawns: "int m \<le> 8 - int a \<longleftrightarrow> m + a \<le> 8" for a m :: nat
    by linarith
  show ?thesis
  proof (cases "(\<exists>!sq. ?g sq = Some (CHR ''K'')) \<and> (\<exists>!sq. ?g sq = Some (CHR ''k''))")
    case True
    then have k: "(\<not> adjacent_kings (lp_map p)) =
        (\<forall>a b. ?g a = Some (CHR ''K'') \<longrightarrow> ?g b = Some (CHR ''k'') \<longrightarrow> 2 \<le> squareDistance_lab a b)"
      using kings_apart [OF wf] by blast
    show ?thesis
      using True
      unfolding position_errors_def legal_position_def Let_def edge counted army_possible_def kind_letters army
        promotions_counted [OF wf] one_king if_P [OF True] append_is_Nil_conv no_error castling_errors_none ep_errors_none
        idle k not_less de_Morgan_disj not_not pawns
      by (elim conjE, intro iffI) (elim conjE, intro conjI, (assumption | (rule add_leD2, assumption))+)+
  next
    case False
    then show ?thesis
      unfolding position_errors_def legal_position_def Let_def counted one_king append_is_Nil_conv no_error by blast
  qed
qed

section \<open>The text of the editor and the game it starts\<close>

lemma parse_reached:
  assumes "edited api ops s"
  shows "parseLabPosition api (lab_fen s) turn =
     (case ch_new api (lab_fen s) of
        None \<Rightarrow> Inl (lb_message api (lab_fen s))
      | Some c \<Rightarrow> let nf = blank_split (ch_fen api c)
                  in Inr \<lparr>lp_map = the (mapFromPlacement (lab_fen s)), lp_turn = field_at nf 1, lp_castling = field_at nf 2,
                          lp_ep = field_at nf 3, lp_halfmove = field_at nf 4, lp_fullmove = field_at nf 5, lp_fen = ch_fen api c\<rparr>)"
  using reached_text(3) [OF assms]
  by (auto simp: parseLabPosition_def reached_text(1,2) [OF assms] Let_def eval_nat_numeral split: option.splits)

lemma asserted:
  "assertLegalLabPosition api raw turn = Inr p \<longleftrightarrow> parseLabPosition api raw turn = Inr p \<and> position_errors api raw p = []"
  by (auto simp: assertLegalLabPosition_def validateLabPosition_def split: sum.splits list.splits)

text \<open>C11: Whatever the player does in the editor, the text it shows reads back as exactly the pieces on its board, and a
  position imported from that text has exactly those pieces.\<close>

theorem lab_text_faithful:
  assumes "edited api ops s"
  shows "(\<exists>m. mapFromPlacement (lab_fen s) = Some m \<and> obj_get m = obj_get (ls_map s)) \<and>
     (parseLabPosition api (lab_fen s) turn = Inr p \<longrightarrow> obj_get (lp_map p) = obj_get (ls_map s))"
  using reached_text(3) [OF assms] by (auto simp: parse_reached [OF assms] Let_def split: option.splits)

definition lab_toy :: "string lab_api" where
  "lab_toy = \<lparr>ch_new = (\<lambda>f. if length (blank_words f) = 6 then Some f else None), ch_fen = (\<lambda>c. c),
     ch_turn = (\<lambda>c. if blank_words c ! 1 = ''b'' then Black else White),
     ch_inCheck = (\<lambda>_. False), ch_isCheckmate = (\<lambda>_. False), ch_move = (\<lambda>_ _ _ _. None), ch_moves = (\<lambda>_. []),
     ch_moves_from = (\<lambda>_ _. []), ch_board = (\<lambda>_. []), ch_get = (\<lambda>_ _. None), ch_put = (\<lambda>_ _ _ _. None), ch_remove = (\<lambda>_ c. c),
     lb_message = (\<lambda>_. ''Invalid FEN''), lb_start = ''rnbqkbnr/pppppppp/8/8/8/8/PPPPPPPP/RNBQKBNR w KQkq - 0 1''\<rparr>"

definition lab_toy_state :: lab_state where
  "lab_toy_state = \<lparr>ls_map = [(''e1'', CHR ''K''), (''e8'', CHR ''k''), (''d1'', CHR ''Q'')], ls_brush = Some (CHR ''Q''), ls_turn = ''b'',
     ls_castling = ''-'', ls_ep = ''-'', ls_halfmove = ''0'', ls_fullmove = ''1'', ls_difficulty = 50, ls_error = []\<rparr>"

definition lab_toy_ops :: "lab_op list" where
  "lab_toy_ops = [EmptyBoard, SelectBrush (Some (CHR ''Q'')), EditSquare ''d1'', SelectTurn ''b'']"

lemma lab_toy_edited: "edited lab_toy lab_toy_ops lab_toy_state"
  by code_simp

theorem lab_text_faithful_witness:
  "lab_fen lab_toy_state = ''4k3/8/8/8/8/8/8/3QK3 b - - 0 1'' \<and>
   (\<exists>m. mapFromPlacement (lab_fen lab_toy_state) = Some m \<and> obj_get m = obj_get (ls_map lab_toy_state))"
proof -
  have "lab_fen lab_toy_state = ''4k3/8/8/8/8/8/8/3QK3 b - - 0 1''" by code_simp
  then show ?thesis using lab_text_faithful [OF lab_toy_edited] by blast
qed

text \<open>What is relied on of chess.js for the side to move: the position of a text has the side of its second field, and its
  own text says so.\<close>

definition reads_turn :: "'c lab_api \<Rightarrow> bool" where
  "reads_turn api \<longleftrightarrow>
     (\<forall>fen c. ch_new api fen = Some c \<longrightarrow>
        (ch_turn api c = Black \<longleftrightarrow> blank_words fen ! 1 = ''b'') \<and> (blank_words (ch_fen api c) ! 1 = ''b'' \<longleftrightarrow> ch_turn api c = Black))"

text \<open>C10: From any position drawn in the editor a game starts exactly when chess.js reads its text and the board has one king
  of each colour apart from each other, armies that promotions explain, no pawn on the first or last rank, the pieces its castling
  rights and its en passant square speak of, and no check on the side that is not to move. It starts with the strength the editor
  shows and the position chess.js reads, and, when chess.js reads the side to move from the second field of a text, with the side
  the editor shows.\<close>

theorem lab_starts_only_legal:
  assumes "edited api ops s"
  shows "(snd (launch api s) = Some game \<longleftrightarrow>
     (\<exists>c c'. ch_new api (lab_fen s) = Some c \<and> ch_new api (ch_fen api c) = Some c' \<and>
        game = (ch_fen api c', ch_turn api c', ls_difficulty s) \<and>
        legal_position api (obj_get (ls_map s)) (field_at (blank_split (ch_fen api c)) 1) (field_at (blank_split (ch_fen api c)) 2)
          (text_or (ls_ep s) ''-'') (ch_fen api c))) \<and>
    (reads_turn api \<and> snd (launch api s) = Some game \<longrightarrow> fst (snd game) = (if ls_turn s = ''b'' then Black else White))"
    (is "?starts \<and> ?side")
proof (rule conjI)
  show ?starts
  proof -
    obtain m where m: "mapFromPlacement (lab_fen s) = Some m" "obj_get m = obj_get (ls_map s)"
      using reached_text(3) [OF assms] by blast
    have ep: "declared_ep (lab_fen s) e = text_or (ls_ep s) ''-''" for e
      by (simp add: declared_ep_def reached_text(2) [OF assms] eval_nat_numeral)
    show ?thesis
    proof (cases "ch_new api (lab_fen s)")
      case None
      then show ?thesis by (auto simp: launch_def asserted parse_reached [OF assms] Let_def split: sum.splits option.splits)
    next
      case (Some c)
      let ?nf = "blank_split (ch_fen api c)"
      let ?p = "\<lparr>lp_map = m, lp_turn = field_at ?nf 1, lp_castling = field_at ?nf 2, lp_ep = field_at ?nf 3,
        lp_halfmove = field_at ?nf 4, lp_fullmove = field_at ?nf 5, lp_fen = ch_fen api c\<rparr>"
      have parsed: "parseLabPosition api (lab_fen s) (ls_turn s) = Inr ?p"
        by (simp add: parse_reached [OF assms] Some m(1) Let_def)
      let ?legal = "legal_position api (obj_get (ls_map s)) (field_at ?nf 1) (field_at ?nf 2) (text_or (ls_ep s) ''-'') (ch_fen api c)"
      have verdict: "assertLegalLabPosition api (lab_fen s) (ls_turn s) = Inr q \<longleftrightarrow> q = ?p \<and> ?legal" for q
        using errors_exact [of ?p api "lab_fen s"] map_placed [OF m(1)] by (auto simp: asserted parsed ep m(2))
      show ?thesis
      proof (cases ?legal)
        case True
        then have "assertLegalLabPosition api (lab_fen s) (ls_turn s) = Inr ?p" using verdict by blast
        with True show ?thesis unfolding launch_def by (cases "ch_new api (ch_fen api c)") (auto simp: Let_def Some)
      next
        case False
        then obtain message where "assertLegalLabPosition api (lab_fen s) (ls_turn s) = Inl message"
          using verdict by (cases "assertLegalLabPosition api (lab_fen s) (ls_turn s)") auto
        with False show ?thesis by (auto simp: launch_def Let_def Some)
      qed
    qed
  qed
  then have game: "snd (launch api s) = Some game \<longleftrightarrow>
     (\<exists>c c'. ch_new api (lab_fen s) = Some c \<and> ch_new api (ch_fen api c) = Some c' \<and>
        game = (ch_fen api c', ch_turn api c', ls_difficulty s) \<and>
        legal_position api (obj_get (ls_map s)) (field_at (blank_split (ch_fen api c)) 1) (field_at (blank_split (ch_fen api c)) 2)
          (text_or (ls_ep s) ''-'') (ch_fen api c))" .
  show ?side
  proof (intro impI, elim conjE)
    assume law: "reads_turn api" and started: "snd (launch api s) = Some game"
    obtain c c' where c: "ch_new api (lab_fen s) = Some c" "ch_new api (ch_fen api c) = Some c'" "fst (snd game) = ch_turn api c'"
      using started game by auto
    have "ch_turn api c' = Black \<longleftrightarrow> ch_turn api c = Black" using law c(1,2) unfolding reads_turn_def by metis
    moreover have "ch_turn api c = Black \<longleftrightarrow> blank_words (lab_fen s) ! 1 = ''b''" using law c(1) unfolding reads_turn_def by metis
    moreover have "blank_words (lab_fen s) ! 1 = ''b'' \<longleftrightarrow> ls_turn s = ''b''" using reached_text(2) [OF assms] by simp
    ultimately show "fst (snd game) = (if ls_turn s = ''b'' then Black else White)" using c(3) by (cases "ch_turn api c'") auto
  qed
qed

lemma reads_turn_toy: "reads_turn lab_toy"
  by (simp add: reads_turn_def lab_toy_def split: if_splits)

theorem lab_starts_only_legal_witness:
  "snd (launch lab_toy lab_toy_state) = Some (''4k3/8/8/8/8/8/8/3QK3 b - - 0 1'', Black, 50) \<and>
   legal_position lab_toy (obj_get (ls_map lab_toy_state)) ''b'' ''-'' ''-'' ''4k3/8/8/8/8/8/8/3QK3 b - - 0 1'' \<and>
   Black = (if ls_turn lab_toy_state = ''b'' then Black else White)"
proof -
  let ?game = "(''4k3/8/8/8/8/8/8/3QK3 b - - 0 1'', Black, 50)"
  have start: "snd (launch lab_toy lab_toy_state) = Some ?game"
    by code_simp
  have parts: "ch_new lab_toy (lab_fen lab_toy_state) = Some ''4k3/8/8/8/8/8/8/3QK3 b - - 0 1''"
    "ch_fen lab_toy c = c" "field_at (blank_split ''4k3/8/8/8/8/8/8/3QK3 b - - 0 1'') 1 = ''b''"
    "field_at (blank_split ''4k3/8/8/8/8/8/8/3QK3 b - - 0 1'') 2 = ''-''" "text_or (ls_ep lab_toy_state) ''-'' = ''-''" for c
    by code_simp+
  note exact = lab_starts_only_legal [OF lab_toy_edited, of ?game]
  have "legal_position lab_toy (obj_get (ls_map lab_toy_state)) ''b'' ''-'' ''-'' ''4k3/8/8/8/8/8/8/3QK3 b - - 0 1''"
    using start conjunct1 [OF exact] by (auto simp: parts simp del: One_nat_def)
  then show ?thesis using start conjunct2 [OF exact] reads_turn_toy by simp
qed

end
