(* ===== verification/Spec2Isabelle.thy ===== *)
theory Spec2Isabelle
  imports SafeStorage CombatRanks CombatEngineProps CampaignOperation GameSeriesProps ChessClock Tournament Coordination CombatArmy ProfileProps StorageMigrations RoguelikeRun EnemyOfficers CombatServiceProps CombatSessionProps CombatDecision ProfileSyncProps PuzzleQualityProps SpacedReviewProps GameActivityProps QuickMatchProps AsyncControl DailyChallengeProps CareerProps TrainingDebtProps CpuTurnProps ConnectionProps LabPositionProps
begin

text \<open>
  A verification library for chess-studio, a chess application whose own rules live in its browser client, under
  \<open>src/frontend/src\<close>. The theories model the pure modules of that client: the Combat mode (a chess game in
  which a capture may miss and the pieces are veterans), the roguelike campaign built on it, the army between
  battles, the stored profile and its synchronisation, the puzzles with their review, the player's rating and
  career, and what the modes share: storage, clocks, series, the tournament, and the control of concurrent
  mutations. File names below are relative to \<open>src/frontend/src\<close>.

  A screen calls a mode's modules (a campaign, a series, a puzzle); these decide on values they load through
  \<open>SafeStorage\<close> and \<open>ProfileKeys\<close>, write back through the same, and every write of the profile enters the journal
  that \<open>ProfileSync\<close> sends to the server. A finished game goes to the series or the tournament, the rating, the
  career and the journal of games, from which \<open>QuickMatch\<close> chooses the next opponent. A theory \<open>XProps\<close> holds
  what the operations of \<open>X\<close> guarantee.

  \<^bold>\<open>Foundations.\<close>
  \<^item> \<open>JsPrelude\<close>: objects as dictionaries (the locale \<open>dictionary\<close>, interpreted on association lists
    updated in place), arrays, text, the FNV-1a hash on 32-bit words.
  \<^item> \<open>JsNumber\<close>: numbers (\<open>NaN\<close>, infinities, rationals rounded to binary64 by \<open>fl\<close>) and coercions.
    Integer counters below \<open>2 ^ 53\<close> are \<open>int\<close> or \<open>nat\<close>.
  \<^item> \<open>JsonValues\<close>: values read from storage, of any shape, with the operators the code applies to them, the
    store of a profile and the \<open>JSON\<close> object (a parameter: \<open>survives\<close> says a value comes back from its text; the
    stated properties ask it only of values \<open>JSON.parse\<close> can return; the lemmas on the service record and the battles
    in progress, \<open>service_api\<close> and \<open>session_api\<close>, ask it of counters and snapshots of any size).
  \<^item> \<open>JsonCodec\<close>: a \<open>JSON\<close> object that gives every value back, so that the hypotheses on \<open>JSON\<close> can hold.
  \<^item> \<open>JsArith\<close>: arithmetic on values that may be \<open>NaN\<close> or infinite, and sets of values.
  \<^item> \<open>StateMachines\<close>: \<open>stateTransition.js\<close> and the tables of \<open>campaignStateMachine.js\<close>,
    \<open>puzzleStateMachine.js\<close>, \<open>combatFlowMachine.js\<close>, \<open>activeSessionMachine.js\<close>; reachability by runs of
    events.

  \<^bold>\<open>The Combat mode.\<close>
  \<^item> \<open>CombatEngine\<close>, \<open>CombatEngineProps\<close>: \<open>combat.js\<close>. The registry of pieces by square, the hit chance,
    buying points, the resolution of a move and the passing of a turn; chess.js is the record \<open>chess_api\<close> of its
    operations. A miss changes nothing but the turn and the dodger's experience.
  \<^item> \<open>CombatRanks\<close>: \<open>combatRanks.js\<close>; \<open>CombatTechniques\<close>: \<open>combatTechniques.js\<close>, used once a battle.
  \<^item> \<open>AdaptiveDifficulty\<close>: \<open>combatAdaptiveDifficulty.js\<close> and the reading of \<open>combatHistory.js\<close>; the locale
    \<open>engine_curve\<close> holds the laws of a piecewise linear calibration, interpreted here and in \<open>Tournament\<close>.
  \<^item> \<open>RunContent\<close>: \<open>roguelikeModifiers.js\<close>, \<open>roguelikePerks.js\<close>, \<open>roguelikeBoss.js\<close>, \<open>combatBosses.js\<close>,
    \<open>combatEnemyDoctrine.js\<close>: content drawn from a seed.
  \<^item> \<open>CombatDecision\<close>: \<open>combatExpectedUtility.js\<close>, \<open>combatBalance.js\<close>: what the machine plays.
  \<^item> \<open>CpuTurn\<close>, \<open>CpuTurnProps\<close>: \<open>combatControllerSupport.js\<close>, the machine's turn: legal suggestions, the facts added to the
    candidates of the server, the local fallback. A battle is never blocked, and the fallback plays a mate.
  \<^item> \<open>CombatSession\<close>: \<open>combatSession.js\<close>, the battles in progress of a tab: only coherent battles come back, and one
    never touches another.
  \<^item> \<open>CombatService\<close>: \<open>combatService.js\<close>, the service record: its counters add up, neither merit nor rank is lost.

  \<^bold>\<open>The campaign\<close> (\<open>combatCampaign.js\<close>, \<open>combatMissionOrders.js\<close>, \<open>combatEconomyBalance.js\<close>).
  \<^item> \<open>CampaignMap\<close>: the seeded map; every route reaches the boss in seven steps.
  \<^item> \<open>CampaignRules\<close>: mission orders and the projection of supplies.
  \<^item> \<open>Campaign\<close>: the state of an operation, its normalisation, and every operation on it. Ids are looked up among
    the catalogues' own: \<open>plain_ids\<close> says for which stored values that is what the code does.
  \<^item> \<open>CampaignProps\<close>, \<open>CampaignRun\<close>: the invariant, the steps that keep it, the reachable states.
  \<^item> \<open>CampaignOperation\<close>: what an operation guarantees: it follows the map, can always be finished, pays once, and
    survives saving, interruption and damage to the storage.
  \<^item> \<open>EnemyOfficers\<close>: \<open>combatEnemyOfficers.js\<close>, the officers met and the ledger of the encounters.
  \<^item> \<open>RoguelikeRun\<close>: \<open>roguelikeRun.js\<close>, the older attempt at a tower of ten floors, which the branch of
    \<open>components/RoguelikeScreen.jsx\<close> for a won last floor keeps to ten (\<open>screen_op\<close>).

  \<^bold>\<open>The army.\<close> The roster is the object the profile stores, a \<open>json\<close> value that may be damaged.
  \<^item> \<open>RosterUnits\<close>: \<open>combatIdentity.js\<close>, \<open>combatUnitService.js\<close>, \<open>combatMetamorphosis.js\<close>.
  \<^item> \<open>RosterDeployment\<close>: \<open>combatDeployment.js\<close>; \<open>CombatEconomy\<close>: \<open>combatEconomy.js\<close>.
  \<^item> \<open>RosterProps\<close>: the deployment is sound when the stored one names its units by plain values, credits are exact
    (outside the administrator's preview; a payment is remembered for the next 119, an offer for the next 79).
  \<^item> \<open>CombatArmy\<close>: \<open>combatRoster.js\<close>, \<open>combatDeploymentPresets.js\<close>, \<open>combatVeteranLegacy.js\<close>: loading and
    saving, onto the board and back, the fallen.

  \<^bold>\<open>Shared by the modes.\<close>
  \<^item> \<open>SafeStorage\<close>: \<open>safeStorage.js\<close>, a refinement of a map under any refusal of the browser (locale
    \<open>pinned_store\<close>, interpreted on the model).
  \<^item> \<open>GameSeries\<close>, \<open>GameSeriesProps\<close>: \<open>gameOutcome.js\<close>, \<open>seriesFlow.js\<close>, \<open>series.js\<close>.
  \<^item> \<open>ChessClock\<close>: \<open>clock.js\<close>, \<open>clockRuntime.js\<close>, \<open>clockPersistence.js\<close>.
  \<^item> \<open>Tournament\<close>: \<open>tournament.js\<close>, \<open>tournamentRewards.js\<close>.
  \<^item> \<open>Coordination\<close>: \<open>gameAuthorityGeneration.js\<close>, \<open>operationId.js\<close>, \<open>gameMutationCoordinator.js\<close>,
    \<open>combatAsyncCoordinator.js\<close>: one mutation at a time, nothing late happens.

  \<^item> \<open>AsyncControl\<close>: \<open>asyncControl.js\<close>, \<open>transientRetry.js\<close>: a wait ends with what happens first, a retried call is
    bounded.
  \<^item> \<open>Connection\<close>, \<open>ConnectionProps\<close>: \<open>presenceLifecycle.js\<close>, \<open>visiblePolling.js\<close>, \<open>pvpMatchPolling.js\<close>,
    \<open>gameReconnectBackoff.js\<close>, \<open>gameReconnect.js\<close>, \<open>logoutLifecycle.js\<close>, \<open>asyncLifecycle.js\<close>: the lifecycles of a tab as
    steps over the events of the page.

  \<^bold>\<open>The profile.\<close> Calls the browser may refuse are threaded through the library's \<open>State_Monad\<close>; a tab carries
  the answers to the next reads of each key and to the next writes.
  \<^item> \<open>ProfileKeys\<close>, \<open>ProfileProps\<close>: \<open>profileKeys.js\<close>. A new document whose browser answers the first read of each
    key behaves from then on as one plain map (a refinement), whatever else is refused, and the journal names every
    key edited since the last save.
  \<^item> \<open>StorageMigrations\<close>: \<open>storageMigrations.js\<close>, the upgrades of an old profile, which end, run once and say what
    they did; \<open>refused_version_overwritten\<close> is what happens when the first read is refused.
  \<^item> \<open>ProfileSync\<close>, \<open>ProfileSyncProps\<close>: \<open>profileBackup.js\<close>. A photo of the server never spoils local edits, and the
    journal is dropped only once the server answered a patch of them (or had them already), whatever happens while a
    request is on its way. This module is modelled on the plain map a tab reads.

  \<^bold>\<open>Puzzles.\<close>
  \<^item> \<open>PuzzleQuality\<close>, \<open>PuzzleQualityProps\<close>: \<open>puzzleTacticalQuality.js\<close>. The pruned search has the value of the whole
    tree; a puzzle that passes as a mate is a forced mate.
  \<^item> \<open>SpacedReview\<close>, \<open>SpacedReviewProps\<close>: \<open>spacedReview.js\<close>, reviews after 3, 7 and 21 days that cannot be hurried.
  \<^item> \<open>TrainingDebt\<close>, \<open>TrainingDebtProps\<close>: \<open>trainingDebt.js\<close>, \<open>personalPuzzleQuality.js\<close>,
    \<open>factualBestMoveConstraint.js\<close>, \<open>puzzleMoveValidation.js\<close>.
  \<^item> \<open>DailyChallenge\<close>, \<open>DailyChallengeProps\<close>: \<open>dailyChallenge.js\<close>, \<open>puzzleStats.js\<close>; the streak is the longest run
    of days up to the newest, for the padded keys the code writes for Gregorian dates (years 1000 to 9999).
  \<^item> \<open>LabPosition\<close>, \<open>LabPositionProps\<close>: \<open>labPosition.js\<close> and the editor of \<open>components/LabScreen.jsx\<close>. The text of a
    drawn board reads back as the board, and a game starts exactly from the legal ones.

  \<^bold>\<open>The player.\<close>
  \<^item> \<open>GameActivity\<close>, \<open>GameActivityProps\<close>: \<open>gameActivity.js\<close>, \<open>activeGameSession.js\<close>, \<open>matthiasSessionContext.js\<close>,
    \<open>matchmakingTelemetry.js\<close>: the journal of games only grows and never reopens a closed one.
  \<^item> \<open>OpponentRating\<close>: the scale of \<open>playerRating.js\<close> between difficulty and rating, monotone, and near to undone by
    its inverse (locales \<open>rating_scale\<close> and \<open>inverse_scales\<close>, interpreted on the anchors).
  \<^item> \<open>PlayerRating\<close>, \<open>PlayerRatingProps\<close>: the rest of \<open>playerRating.js\<close>; a game is rated once and fairly.
  \<^item> \<open>QuickMatch\<close>, \<open>QuickMatchProps\<close>: \<open>quickMatchDifficulty.js\<close>.
  \<^item> \<open>Career\<close>, \<open>CareerProps\<close>: \<open>career.js\<close>, the records, contracts and special runs; a result counts once.

  \<^bold>\<open>Conventions.\<close> A definition has the name of the function it models where HOL allows it. Errors are values
  (\<open>option\<close>, a sum with the message or the exception). The clock, the calendar, the random source, generated ids, the
  chess library, \<open>Date.parse\<close>, \<open>Math.pow\<close>, \<open>JSON\<close> and locale collation are arguments. Text is a list of Latin-1
  characters; characters beyond Latin-1, which only labels hold, are written by their UTF-8 bytes. Pictures and icons
  are left out. Where a component is about the values it stores, its store is a map from keys to text; that this map is
  what a tab sees, and that each write is journaled, are the theorems of \<open>SafeStorage\<close> and \<open>ProfileProps\<close>.

  \<^bold>\<open>Bounds and fuel.\<close> Loops are folds or structural recursion. \<open>level_loop\<close> ends because each turn spends
  experience; \<open>retry_from\<close> because each retry uses one delay; \<open>show_nat\<close> and \<open>show_radix\<close> divide their argument;
  \<open>free_key\<close> tries one key more than there are identities, which is enough for one to be free; \<open>isqrt_bits\<close> runs over
  64 bits, more than a level needs; \<open>mate_fuel\<close> is two calls for each move of the mate the code looks for, and
  \<open>mate_search_decides\<close> shows that it is enough.

  \<^bold>\<open>Not modelled.\<close> React components and hooks (the editor of the laboratory apart), three-dimensional scenes, sound and music, characters and their
  texts: they draw or play what the modules above decide. The statistics and achievements read off the history, the
  helpers of the combat screens, the labels of difficulties and handicaps, and the reports of finished games decide
  nothing of a game and keep no state of their own that another module relies on. The requests to the servers are
  made through \<open>AsyncControl\<close> and \<open>ProfileSync\<close>; the servers (\<open>backend-go\<close>, \<open>backend-python\<close>), infrastructure and
  scripts are other programs.
\<close>

end
